(* ===== verification/Prelude.thy ===== *)
theory Prelude
  imports Main "HOL-Library.Word" "HOL-Library.Sublist" "HOL-Library.List_Lexorder"
    "HOL-Library.Char_ord"
begin

text \<open>
  What the components share. Rust strings are modelled as \<^typ>\<open>string\<close>, one \<^typ>\<open>char\<close> per
  byte, for ASCII text: there the byte length, the number of \<open>char\<close>s, \<open>is_whitespace\<close> and the
  ASCII case functions of the standard library are exactly the functions below. The unsigned
  integers of the program are words, with the saturating operations of the standard library;
  numbers in messages are written by \<open>show_nat\<close> and \<open>show_int\<close>, as \<open>Display\<close> does.
  The collections \<open>str_simps\<close>, \<open>sat_simps\<close> and \<open>result_simps\<close> carry the facts the component proofs use.
\<close>

named_theorems str_simps
named_theorems sat_simps
named_theorems result_simps

unbundle bit_operations_syntax

type_synonym u8 = "8 word"
type_synonym u32 = "32 word"
type_synonym u64 = "64 word"
type_synonym usize = "64 word"
type_synonym i64 = "64 word"

section \<open>Integers\<close>

text \<open>\<open>saturating_add\<close> and \<open>saturating_mul\<close> of the unsigned types, \<open>saturating_sub\<close> and
  \<open>saturating_add\<close> of the signed ones.\<close>

definition sat_add :: "'a::len word \<Rightarrow> 'a word \<Rightarrow> 'a word" where
  "sat_add a b = (if unat a + unat b < 2 ^ LENGTH('a) then a + b else - 1)"

definition sat_mul :: "'a::len word \<Rightarrow> 'a word \<Rightarrow> 'a word" where
  "sat_mul a b = (if unat a * unat b < 2 ^ LENGTH('a) then a * b else - 1)"

definition smin :: "'a::len itself \<Rightarrow> int" where
  "smin _ = - (2 ^ (LENGTH('a) - 1))"

definition smax :: "'a::len itself \<Rightarrow> int" where
  "smax _ = 2 ^ (LENGTH('a) - 1) - 1"

definition ssat_sub :: "'a::len word \<Rightarrow> 'a word \<Rightarrow> 'a word" where
  "ssat_sub a b =
     word_of_int (max (smin TYPE('a)) (min (smax TYPE('a)) (sint a - sint b)))"

definition ssat_add :: "'a::len word \<Rightarrow> 'a word \<Rightarrow> 'a word" where
  "ssat_add a b =
     word_of_int (max (smin TYPE('a)) (min (smax TYPE('a)) (sint a + sint b)))"

lemma unat_max_word: "unat (- 1 :: 'a::len word) = 2 ^ LENGTH('a) - 1"
  by (simp add: unsigned_minus_1_eq_mask mask_eq_exp_minus_1)

lemma unat_sat_add [sat_simps]:
  "unat (sat_add a b) = min (unat a + unat b) (2 ^ LENGTH('a) - 1)"
  for a b :: "'a::len word"
proof (cases "unat a + unat b < 2 ^ LENGTH('a)")
  case True
  then have "unat (a + b) = unat a + unat b"
    by (simp add: unat_word_ariths)
  with True show ?thesis by (simp add: sat_add_def)
next
  case False
  then show ?thesis by (simp add: sat_add_def unat_max_word)
qed

lemma unat_sat_mul [sat_simps]:
  "unat (sat_mul a b) = min (unat a * unat b) (2 ^ LENGTH('a) - 1)"
  for a b :: "'a::len word"
proof (cases "unat a * unat b < 2 ^ LENGTH('a)")
  case True
  then have "unat (a * b) = unat a * unat b"
    by (simp add: unat_word_ariths)
  with True show ?thesis by (simp add: sat_mul_def)
next
  case False
  then show ?thesis by (simp add: sat_mul_def unat_max_word)
qed

lemma sint_ssat_sub [sat_simps]:
  "sint (ssat_sub a b) = max (smin TYPE('a)) (min (smax TYPE('a)) (sint a - sint b))"
  for a b :: "'a::len word"
proof -
  let ?x = "max (smin TYPE('a)) (min (smax TYPE('a)) (sint a - sint b))"
  have "- (2 ^ (LENGTH('a) - 1)) \<le> ?x" and "?x < 2 ^ (LENGTH('a) - 1)"
    by (auto simp: smin_def smax_def min_def max_def)
  then show ?thesis
    by (simp add: ssat_sub_def sint_sbintrunc' signed_take_bit_int_eq_self)
qed

lemma sint_ssat_add [sat_simps]:
  "sint (ssat_add a b) = max (smin TYPE('a)) (min (smax TYPE('a)) (sint a + sint b))"
  for a b :: "'a::len word"
proof -
  let ?x = "max (smin TYPE('a)) (min (smax TYPE('a)) (sint a + sint b))"
  have "- (2 ^ (LENGTH('a) - 1)) \<le> ?x" and "?x < 2 ^ (LENGTH('a) - 1)"
    by (auto simp: smin_def smax_def min_def max_def)
  then show ?thesis
    by (simp add: ssat_add_def sint_sbintrunc' signed_take_bit_int_eq_self)
qed

lemma sat_add_assoc: "sat_add (sat_add a b) c = sat_add a (sat_add b c)"
  by (simp add: word_unat_eq_iff sat_simps)

lemma sat_add_0 [simp]: "sat_add a 0 = a" "sat_add 0 a = a"
  by (simp_all add: sat_add_def)

section \<open>Results\<close>

text \<open>The \<open>?\<close> operator is a case distinction on a sum; these say when it succeeds and fails.\<close>

lemma result_bind_Inr [result_simps]:
  "case_sum Inl f x = Inr z \<longleftrightarrow> (\<exists>y. x = Inr y \<and> f y = Inr z)"
  by (cases x) auto

lemma result_bind_Inl [result_simps]:
  "case_sum Inl f x = Inl err \<longleftrightarrow> x = Inl err \<or> (\<exists>y. x = Inr y \<and> f y = Inl err)"
  by (cases x) auto

lemma result_map_err_Inr [result_simps]:
  "case_sum (\<lambda>e. Inl (g e)) f x = Inr z \<longleftrightarrow> (\<exists>y. x = Inr y \<and> f y = Inr z)"
  by (cases x) auto

lemma result_unit_cases:
  fixes x :: "'e + unit"
  obtains err where "x = Inl err" | "x = Inr ()"
  by (cases x) auto

section \<open>Characters and strings\<close>

definition is_ws :: "char \<Rightarrow> bool" where
  "is_ws c = (let n = (of_char c :: nat) in n = 32 \<or> (9 \<le> n \<and> n \<le> 13))"

definition ascii_lower :: "char \<Rightarrow> char" where
  "ascii_lower c = (let n = (of_char c :: nat) in if 65 \<le> n \<and> n \<le> 90 then char_of (n + 32) else c)"

definition to_ascii_lowercase :: "string \<Rightarrow> string" where
  "to_ascii_lowercase s = map ascii_lower s"

definition eq_ignore_ascii_case :: "string \<Rightarrow> string \<Rightarrow> bool" where
  "eq_ignore_ascii_case a b = (to_ascii_lowercase a = to_ascii_lowercase b)"

definition trim_start :: "string \<Rightarrow> string" where
  "trim_start s = dropWhile is_ws s"

definition trim_end :: "string \<Rightarrow> string" where
  "trim_end s = rev (dropWhile is_ws (rev s))"

definition trim :: "string \<Rightarrow> string" where
  "trim s = trim_end (trim_start s)"

function split_whitespace :: "string \<Rightarrow> string list" where
  "split_whitespace s =
     (case dropWhile is_ws s of
        [] \<Rightarrow> []
      | c # cs \<Rightarrow> (c # takeWhile (\<lambda>x. \<not> is_ws x) cs)
          # split_whitespace (dropWhile (\<lambda>x. \<not> is_ws x) cs))"
  by pat_completeness auto
termination
proof (relation "measure length")
  fix s c cs
  assume "dropWhile is_ws s = c # cs"
  then have "length (c # cs) \<le> length s"
    by (metis length_dropWhile_le)
  then show "(dropWhile (\<lambda>x. \<not> is_ws x) cs, s) \<in> measure length"
    using length_dropWhile_le [of "\<lambda>x. \<not> is_ws x" cs] by simp
qed simp

declare split_whitespace.simps [simp del]

text \<open>\<open>[&str]::join\<close>, \<open>str::split(char)\<close>, \<open>strip_prefix\<close>, \<open>strip_suffix\<close>,
  \<open>trim_end_matches(char)\<close>, \<open>trim_start_matches(&str)\<close> and \<open>replace\<close> with a non-empty
  pattern.\<close>

definition contains_str :: "string \<Rightarrow> string \<Rightarrow> bool" where
  "contains_str p s \<longleftrightarrow> sublist p s"

definition trim_chars :: "char list \<Rightarrow> string \<Rightarrow> string" where
  "trim_chars cs s = rev (dropWhile (\<lambda>c. c \<in> set cs) (rev (dropWhile (\<lambda>c. c \<in> set cs) s)))"

definition split_once :: "char \<Rightarrow> string \<Rightarrow> (string \<times> string) option" where
  "split_once d s =
     (case dropWhile (\<lambda>c. c \<noteq> d) s of [] \<Rightarrow> None
      | _ # rest \<Rightarrow> Some (takeWhile (\<lambda>c. c \<noteq> d) s, rest))"

definition is_ascii_digit :: "char \<Rightarrow> bool" where
  "is_ascii_digit c = (let n = (of_char c :: nat) in 48 \<le> n \<and> n \<le> 57)"

definition is_ascii_alphabetic :: "char \<Rightarrow> bool" where
  "is_ascii_alphabetic c =
     (let n = (of_char c :: nat) in 65 \<le> n \<and> n \<le> 90 \<or> 97 \<le> n \<and> n \<le> 122)"

definition is_ascii_alphanumeric :: "char \<Rightarrow> bool" where
  "is_ascii_alphanumeric c \<longleftrightarrow> is_ascii_alphabetic c \<or> is_ascii_digit c"

fun join_str :: "string \<Rightarrow> string list \<Rightarrow> string" where
  "join_str sep [] = []"
| "join_str sep [x] = x"
| "join_str sep (x # y # ys) = x @ sep @ join_str sep (y # ys)"

fun split_char :: "char \<Rightarrow> string \<Rightarrow> string list" where
  "split_char d [] = [[]]"
| "split_char d (c # cs) =
     (if c = d then [] # split_char d cs
      else case split_char d cs of [] \<Rightarrow> [[c]] | w # ws \<Rightarrow> (c # w) # ws)"

definition strip_prefix :: "string \<Rightarrow> string \<Rightarrow> string option" where
  "strip_prefix p s = (if prefix p s then Some (drop (length p) s) else None)"

definition strip_suffix :: "string \<Rightarrow> string \<Rightarrow> string option" where
  "strip_suffix p s = (if suffix p s then Some (take (length s - length p) s) else None)"

definition trim_end_char :: "char \<Rightarrow> string \<Rightarrow> string" where
  "trim_end_char d s = rev (dropWhile (\<lambda>c. c = d) (rev s))"

function trim_start_pat :: "string \<Rightarrow> string \<Rightarrow> string" where
  "trim_start_pat p s =
     (if p \<noteq> [] \<and> prefix p s then trim_start_pat p (drop (length p) s) else s)"
  by pat_completeness auto
termination
  by (relation "measure (\<lambda>(p, s). length s)") (auto simp: prefix_def)

declare trim_start_pat.simps [simp del]

function replace_str :: "string \<Rightarrow> string \<Rightarrow> string \<Rightarrow> string" where
  "replace_str p r [] = []"
| "replace_str p r (c # cs) =
     (if p \<noteq> [] \<and> prefix p (c # cs) then r @ replace_str p r (drop (length p) (c # cs))
      else c # replace_str p r cs)"
  by pat_completeness auto
termination
  by (relation "measure (\<lambda>(p, r, s). length s)") (auto simp: prefix_def)

text \<open>\<open>str::lines\<close>: split at line feeds, a carriage return before one dropped, no empty last
  line.\<close>

definition strip_cr :: "string \<Rightarrow> string" where
  "strip_cr l = (if l \<noteq> [] \<and> last l = CHR 0x0D then butlast l else l)"

function str_lines :: "string \<Rightarrow> string list" where
  "str_lines s =
     (if s = [] then []
      else case dropWhile (\<lambda>c. c \<noteq> CHR 0x0A) s of
        [] \<Rightarrow> [s]
      | nl # rest \<Rightarrow> strip_cr (takeWhile (\<lambda>c. c \<noteq> CHR 0x0A) s) # str_lines rest)"
  by pat_completeness auto
termination
proof (relation "measure length")
  fix s :: string and nl rest
  assume "dropWhile (\<lambda>c. c \<noteq> CHR 0x0A) s = nl # rest"
  then have "length (nl # rest) \<le> length s"
    by (metis length_dropWhile_le)
  then show "(rest, s) \<in> measure length" by simp
qed simp

declare str_lines.simps [simp del]

text \<open>Decimal numbers, as \<open>Display\<close> writes them.\<close>

fun show_nat :: "nat \<Rightarrow> string" where
  "show_nat n =
     (if n < 10 then [char_of (48 + n)] else show_nat (n div 10) @ [char_of (48 + n mod 10)])"

declare show_nat.simps [simp del]

definition show_int :: "int \<Rightarrow> string" where
  "show_int i = (if i < 0 then ''-'' @ show_nat (nat (- i)) else show_nat (nat i))"

definition show_bool :: "bool \<Rightarrow> string" where
  "show_bool b = (if b then ''true'' else ''false'')"

subsection \<open>Facts about words of a string\<close>

lemma is_ws_simps [simp]: "is_ws (CHR '' '')" "is_ws (CHR 0x0A)" "is_ws (CHR 0x0D)"
  by (simp_all add: is_ws_def)

lemma ascii_lower_idem [simp]: "ascii_lower (ascii_lower c) = ascii_lower c"
  by (auto simp: ascii_lower_def Let_def)

lemma is_ws_ascii_lower [simp]: "is_ws (ascii_lower c) = is_ws c"
  by (auto simp: ascii_lower_def is_ws_def Let_def)

lemma of_char_ascii_lower:
  "(of_char (ascii_lower c) :: nat) =
     (if 65 \<le> (of_char c :: nat) \<and> (of_char c :: nat) \<le> 90 then of_char c + 32 else of_char c)"
  by (simp add: ascii_lower_def Let_def of_char_of)

text \<open>Lowering reaches a character that is not a letter only from itself.\<close>

lemma ascii_lower_eq_iff:
  assumes "\<not> (97 \<le> (of_char d :: nat) \<and> (of_char d :: nat) \<le> 122)"
    and "\<not> (65 \<le> (of_char d :: nat) \<and> (of_char d :: nat) \<le> 90)"
  shows "ascii_lower c = d \<longleftrightarrow> c = d"
proof
  assume "ascii_lower c = d"
  then have "(of_char (ascii_lower c) :: nat) = of_char d" by simp
  with assms have "(of_char c :: nat) = of_char d"
    by (auto simp: of_char_ascii_lower split: if_splits)
  then show "c = d" by (metis char_of_char)
next
  assume "c = d"
  with assms show "ascii_lower c = d" by (auto simp: ascii_lower_def Let_def)
qed

lemma to_ascii_lowercase_idem [simp]:
  "to_ascii_lowercase (to_ascii_lowercase s) = to_ascii_lowercase s"
  by (simp add: to_ascii_lowercase_def comp_def)

lemma to_ascii_lowercase_append [simp]:
  "to_ascii_lowercase (a @ b) = to_ascii_lowercase a @ to_ascii_lowercase b"
  by (simp add: to_ascii_lowercase_def)

lemma to_ascii_lowercase_eq_Nil [simp]: "to_ascii_lowercase s = [] \<longleftrightarrow> s = []"
  by (simp add: to_ascii_lowercase_def)

lemma eq_ignore_ascii_case_refl [simp]: "eq_ignore_ascii_case a a"
  by (simp add: eq_ignore_ascii_case_def)

text \<open>The words of a string are non-empty and hold no white space; splitting them joined by
  single spaces gives them back.\<close>

definition no_ws :: "string \<Rightarrow> bool" where
  "no_ws w = list_all (\<lambda>c. \<not> is_ws c) w"

lemma no_ws_simps [simp]: "no_ws []" "no_ws (c # cs) \<longleftrightarrow> \<not> is_ws c \<and> no_ws cs"
  "no_ws (a @ b) \<longleftrightarrow> no_ws a \<and> no_ws b"
  by (simp_all add: no_ws_def)

definition words_ok :: "string list \<Rightarrow> bool" where
  "words_ok ws = list_all (\<lambda>w. w \<noteq> [] \<and> no_ws w) ws"

lemma dropWhile_ConsD: "dropWhile P xs = y # ys \<Longrightarrow> \<not> P y"
  by (metis dropWhile_eq_Cons_conv)

lemma split_whitespace_none: "dropWhile is_ws s = [] \<Longrightarrow> split_whitespace s = []"
  by (subst split_whitespace.simps) (simp only: list.case)

lemma split_whitespace_some:
  "dropWhile is_ws s = c # cs \<Longrightarrow>
     split_whitespace s = (c # takeWhile (\<lambda>x. \<not> is_ws x) cs)
       # split_whitespace (dropWhile (\<lambda>x. \<not> is_ws x) cs)"
  by (subst split_whitespace.simps) (simp only: list.case)

lemma takeWhile_no_ws [simp]: "no_ws (takeWhile (\<lambda>x. \<not> is_ws x) cs)"
  by (induction cs) simp_all

lemma words_ok_Cons [simp]: "words_ok (w # ws) \<longleftrightarrow> w \<noteq> [] \<and> no_ws w \<and> words_ok ws"
  by (simp add: words_ok_def)

lemma words_ok_Nil [simp]: "words_ok []"
  by (simp add: words_ok_def)

lemma split_whitespace_words_ok: "words_ok (split_whitespace s)"
proof (induction s rule: split_whitespace.induct)
  case (1 s)
  show ?case
  proof (cases "dropWhile is_ws s")
    case Nil
    then show ?thesis by (simp add: split_whitespace_none words_ok_def)
  next
    case (Cons c cs)
    then have "words_ok (split_whitespace (dropWhile (\<lambda>x. \<not> is_ws x) cs))" by (rule 1)
    moreover have "\<not> is_ws c" using Cons by (rule dropWhile_ConsD)
    ultimately show ?thesis
      by (simp only: split_whitespace_some [OF Cons] words_ok_Cons takeWhile_no_ws) simp
  qed
qed

lemma split_whitespace_Nil [simp]: "split_whitespace [] = []"
  by (simp add: split_whitespace.simps)

lemma split_whitespace_word:
  assumes "w \<noteq> []" and "no_ws w" and "rest = [] \<or> is_ws (hd rest)"
  shows "split_whitespace (w @ rest) = w # split_whitespace rest"
proof -
  obtain c cs where w: "w = c # cs" using assms(1) by (cases w) auto
  have d: "dropWhile is_ws (w @ rest) = c # cs @ rest"
    using assms(2) w by simp
  have "takeWhile (\<lambda>x. \<not> is_ws x) (cs @ rest) = cs \<and> dropWhile (\<lambda>x. \<not> is_ws x) (cs @ rest) = rest"
    using assms(2,3) w by (cases rest) (simp_all add: no_ws_def list_all_iff)
  with w split_whitespace_some [OF d] show ?thesis by simp
qed

lemma split_whitespace_skip [simp]: "is_ws c \<Longrightarrow> split_whitespace (c # s) = split_whitespace s"
  by (simp add: split_whitespace.simps [of "c # s"] split_whitespace.simps [of s])

lemma split_whitespace_join: "words_ok ws \<Longrightarrow> split_whitespace (join_str '' '' ws) = ws"
proof (induction ws rule: induct_list012)
  case 1
  then show ?case by simp
next
  case (2 x)
  then show ?case using split_whitespace_word [of x "[]"] by (simp add: words_ok_def)
next
  case (3 x y ys)
  then have "split_whitespace (join_str '' '' (y # ys)) = y # ys"
    by (simp add: words_ok_def)
  with 3 show ?case
    using split_whitespace_word [of x "'' '' @ join_str '' '' (y # ys)"]
    by (simp add: words_ok_def)
qed

lemma dropWhile_map_lower:
  "dropWhile is_ws (map ascii_lower s) = map ascii_lower (dropWhile is_ws s)"
  "dropWhile (\<lambda>x. \<not> is_ws x) (map ascii_lower s) = map ascii_lower (dropWhile (\<lambda>x. \<not> is_ws x) s)"
  "takeWhile (\<lambda>x. \<not> is_ws x) (map ascii_lower s) = map ascii_lower (takeWhile (\<lambda>x. \<not> is_ws x) s)"
  by (simp_all add: dropWhile_map takeWhile_map comp_def)

lemma split_whitespace_lower [str_simps]:
  "split_whitespace (to_ascii_lowercase s) = map to_ascii_lowercase (split_whitespace s)"
proof (induction s rule: split_whitespace.induct)
  case (1 s)
  show ?case
  proof (cases "dropWhile is_ws s")
    case Nil
    then have "dropWhile is_ws (map ascii_lower s) = []" by (simp add: dropWhile_map_lower)
    with Nil show ?thesis by (simp add: to_ascii_lowercase_def split_whitespace_none)
  next
    case (Cons c cs)
    then have "dropWhile is_ws (map ascii_lower s) = ascii_lower c # map ascii_lower cs"
      by (simp add: dropWhile_map_lower)
    from split_whitespace_some [OF this] 1 [OF Cons] show ?thesis
      by (simp add: to_ascii_lowercase_def dropWhile_map_lower split_whitespace_some [OF Cons])
  qed
qed

lemma join_str_lower [str_simps]:
  "to_ascii_lowercase (join_str sep ws)
     = join_str (to_ascii_lowercase sep) (map to_ascii_lowercase ws)"
  by (induction ws rule: induct_list012) simp_all

lemma to_ascii_lowercase_space [simp]: "to_ascii_lowercase '' '' = '' ''"
  by (simp add: to_ascii_lowercase_def ascii_lower_def)

lemma to_ascii_lowercase_Nil [simp]: "to_ascii_lowercase [] = []"
  by (simp add: to_ascii_lowercase_def)

end
