(* ===== verification/Ordered_Map.thy ===== *)
theory Ordered_Map
  imports Prelude
begin

text \<open>
  \<open>BTreeMap\<close>: the contract its clients rely on, as a locale, and the implementation the model
  uses, an association list in key order. Looking up after an insert or a removal needs no
  invariant; the order of the keys (\<open>bm_sorted\<close>), which iteration shows, is kept by both.
\<close>

section \<open>The contract\<close>

locale key_map =
  fixes empty :: "'m"
    and lookup :: "'m \<Rightarrow> 'k \<Rightarrow> 'v option"
    and insert :: "'k \<Rightarrow> 'v \<Rightarrow> 'm \<Rightarrow> 'm"
    and remove :: "'k \<Rightarrow> 'm \<Rightarrow> 'm"
  assumes lookup_empty: "lookup empty k = None"
    and lookup_insert: "lookup (insert k v m) k' = (if k' = k then Some v else lookup m k')"
    and lookup_remove: "lookup (remove k m) k' = (if k' = k then None else lookup m k')"
begin

lemma lookup_insert_same: "lookup (insert k v m) k = Some v"
  by (simp add: lookup_insert)

lemma lookup_insert_other: "k' \<noteq> k \<Longrightarrow> lookup (insert k v m) k' = lookup m k'"
  by (simp add: lookup_insert)

text \<open>\<open>collect\<close> into a map: the entries inserted from left to right, so the last one wins.\<close>

lemma lookup_foldl_insert:
  "lookup (foldl (\<lambda>m kv. insert (fst kv) (snd kv) m) m0 kvs) k =
     (case map_of (rev kvs) k of None \<Rightarrow> lookup m0 k | Some v \<Rightarrow> Some v)"
  by (induction kvs arbitrary: m0)
    (auto simp: lookup_insert map_add_def split: option.splits)

lemma lookup_collect:
  "lookup (foldl (\<lambda>m kv. insert (fst kv) (snd kv) m) empty kvs) k = map_of (rev kvs) k"
  by (simp add: lookup_foldl_insert lookup_empty split: option.splits)

lemma lookup_collect_distinct:
  assumes "distinct (map fst kvs)"
  shows "lookup (foldl (\<lambda>m kv. insert (fst kv) (snd kv) m) empty kvs) k = map_of kvs k"
proof -
  have "map_of (rev kvs) = map_of kvs"
    by (rule map_of_eqI) (use assms in \<open>auto simp: map_of_eq_Some_iff rev_map [symmetric]\<close>)
  then show ?thesis by (simp add: lookup_collect)
qed

end

section \<open>The implementation\<close>

type_synonym ('k, 'v) bmap = "('k \<times> 'v) list"

definition bm_empty :: "('k, 'v) bmap" where
  "bm_empty = []"

definition bm_get :: "('k, 'v) bmap \<Rightarrow> 'k \<Rightarrow> 'v option" where
  "bm_get m k = map_of m k"

fun bm_insert :: "'k::linorder \<Rightarrow> 'v \<Rightarrow> ('k, 'v) bmap \<Rightarrow> ('k, 'v) bmap" where
  "bm_insert k v [] = [(k, v)]"
| "bm_insert k v ((k', v') # m) =
     (if k = k' then (k, v) # m
      else if k < k' then (k, v) # (k', v') # m
      else (k', v') # bm_insert k v m)"

definition bm_remove :: "'k::linorder \<Rightarrow> ('k, 'v) bmap \<Rightarrow> ('k, 'v) bmap" where
  "bm_remove k m = filter (\<lambda>kv. fst kv \<noteq> k) m"

definition bm_keys :: "('k, 'v) bmap \<Rightarrow> 'k list" where
  "bm_keys m = map fst m"

definition bm_collect :: "('k::linorder \<times> 'v) list \<Rightarrow> ('k, 'v) bmap" where
  "bm_collect kvs = foldl (\<lambda>m kv. bm_insert (fst kv) (snd kv) m) bm_empty kvs"

definition bm_sorted :: "('k::linorder, 'v) bmap \<Rightarrow> bool" where
  "bm_sorted m = sorted_wrt (<) (map fst m)"

lemma map_of_bm_insert: "map_of (bm_insert k v m) = (map_of m)(k \<mapsto> v)"
  by (induction m) auto

lemma map_of_bm_remove: "map_of (bm_remove k m) = (map_of m)(k := None)"
  by (induction m) (auto simp: bm_remove_def)

interpretation bmap: key_map bm_empty bm_get bm_insert bm_remove
  by unfold_locales (simp_all add: bm_empty_def bm_get_def map_of_bm_insert map_of_bm_remove)

lemmas bm_lookups [simp] = bmap.lookup_empty bmap.lookup_insert bmap.lookup_remove

lemma set_bm_insert_keys: "fst ` set (bm_insert k v m) = insert k (fst ` set m)"
  by (induction k v m rule: bm_insert.induct) (simp_all add: insert_commute)

lemma bm_sorted_empty [simp]: "bm_sorted bm_empty"
  by (simp add: bm_sorted_def bm_empty_def)

lemma bm_sorted_insert [simp]: "bm_sorted m \<Longrightarrow> bm_sorted (bm_insert k v m)"
proof (induction m)
  case Nil
  then show ?case by (simp add: bm_sorted_def)
next
  case (Cons kv m)
  obtain k' v' where kv: "kv = (k', v')" by (cases kv)
  from Cons.prems kv have less: "\<forall>y\<in>fst ` set m. k' < y" and srt: "bm_sorted m"
    by (auto simp: bm_sorted_def)
  have "\<forall>y\<in>fst ` set (bm_insert k v m). k' < y" if "k' < k"
    using that less by (simp add: set_bm_insert_keys)
  with Cons.IH [OF srt] less srt kv show ?case
    by (auto simp: bm_sorted_def)
qed

lemma bm_sorted_remove [simp]: "bm_sorted m \<Longrightarrow> bm_sorted (bm_remove k m)"
  by (induction m) (auto simp: bm_sorted_def bm_remove_def)

lemma bm_sorted_collect [simp]: "bm_sorted (bm_collect kvs)"
proof -
  have "bm_sorted (foldl (\<lambda>m kv. bm_insert (fst kv) (snd kv) m) m0 kvs)" if "bm_sorted m0" for m0
    using that by (induction kvs arbitrary: m0) simp_all
  then show ?thesis by (simp add: bm_collect_def)
qed

lemma bm_get_collect: "bm_get (bm_collect kvs) k = map_of (rev kvs) k"
  unfolding bm_collect_def by (rule bmap.lookup_collect)

text \<open>The number of entries: what a removal takes away.\<close>

lemma length_bm_remove_le: "length (bm_remove k m) \<le> length m"
  by (simp add: bm_remove_def)

lemma length_bm_remove_less: "bm_get m k = Some v \<Longrightarrow> length (bm_remove k m) < length m"
  by (auto simp: bm_remove_def bm_get_def dest!: map_of_SomeD intro: length_filter_less)

end
