(* ===== verification/Gates.thy ===== *)
theory Gates
  imports Ordered_Map
begin

text \<open>
  The role gates and hand-offs of a workflow (\<open>crates/workflow/src/gates.rs\<close>): gate specifications,
  the lane board with its evaluation step, the blocking test and the hand-off artifacts. Saving the
  board to a directory and loading it (\<open>save_to_dir\<close>, \<open>load_from_dir\<close>) is file and JSON input and
  output and is not modelled; the two error values it uses are kept in the error type.
\<close>

section \<open>Data\<close>

datatype gate_on = RoleComplete | RoleStart

datatype gate_kind = Verify | Review | Approve

datatype gate_on_fail = Retry | Block | Escalate

record gate_spec =
  gate_id :: string
  gate_role :: string
  gate_on :: gate_on
  gate_gate :: gate_kind
  gate_on_fail :: gate_on_fail
  blocks_role :: "string option"
  max_retries :: u32
  artifact_kind :: "string option"
  require_explicit_verdict :: bool

definition default_max_retries :: u32 where
  "default_max_retries = 1"

datatype gate_state =
    GatePending
  | GatePassed
  | GateBlocked string
  | GateRetrying u32 string
  | GateEscalated string

fun gate_state_as_str :: "gate_state \<Rightarrow> string" where
  "gate_state_as_str GatePending = ''pending''"
| "gate_state_as_str GatePassed = ''passed''"
| "gate_state_as_str (GateBlocked _) = ''blocked''"
| "gate_state_as_str (GateRetrying _ _) = ''retrying''"
| "gate_state_as_str (GateEscalated _) = ''escalated''"

fun is_blocking :: "gate_state \<Rightarrow> bool" where
  "is_blocking (GateBlocked _) = True"
| "is_blocking (GateEscalated _) = True"
| "is_blocking (GateRetrying _ _) = True"
| "is_blocking _ = False"

fun blocked_reason :: "gate_state \<Rightarrow> string option" where
  "blocked_reason (GateBlocked reason) = Some reason"
| "blocked_reason (GateRetrying _ reason) = Some reason"
| "blocked_reason (GateEscalated reason) = Some reason"
| "blocked_reason _ = None"

datatype gate_outcome = GatePass | GateFail string | HumanApprove string

record handoff_artifact =
  artifact_id :: string
  artifact_lane_id :: string
  from_role :: string
  to_role :: string
  handoff_kind :: string
  payload :: string
  artifact_created_at :: string

record lane_gate_board =
  lane_id :: string
  gates :: "(string, gate_state) bmap"
  retries :: "(string, u32) bmap"
  artifacts :: "handoff_artifact list"

record gate_status_line =
  line_gate_id :: string
  line_state :: string
  line_blocked_reason :: "string option"

datatype gate_error =
    EmptyGateId
  | LaneMismatch string string
  | GateIo string
  | GateSerde string

section \<open>Operations of the board\<close>

definition lane_gate_board_new :: "string \<Rightarrow> lane_gate_board" where
  "lane_gate_board_new lane = \<lparr>lane_id = lane, gates = bm_empty, retries = bm_empty, artifacts = []\<rparr>"

text \<open>\<open>entry(id).or_insert(Pending)\<close>: a gate already on the board keeps its state.\<close>

fun install_gates :: "gate_spec list \<Rightarrow> lane_gate_board \<Rightarrow> lane_gate_board" where
  "install_gates [] b = b"
| "install_gates (spec # specs) b =
     install_gates specs
       (case bm_get (gates b) (gate_id spec) of
          None \<Rightarrow> b\<lparr>gates := bm_insert (gate_id spec) GatePending (gates b)\<rparr>
        | Some _ \<Rightarrow> b)"

definition fail_state :: "gate_spec \<Rightarrow> u32 \<Rightarrow> string \<Rightarrow> gate_state" where
  "fail_state spec attempt reason =
     (case gate_on_fail spec of
        Block \<Rightarrow> GateBlocked reason
      | Retry \<Rightarrow> (if attempt \<le> max_retries spec then GateRetrying attempt reason
                  else GateEscalated reason)
      | Escalate \<Rightarrow> GateEscalated reason)"

definition evaluate_gate ::
    "lane_gate_board \<Rightarrow> gate_spec \<Rightarrow> gate_outcome \<Rightarrow> lane_gate_board \<times> (gate_error + gate_state)" where
  "evaluate_gate b spec outcome =
     (if trim (gate_id spec) = [] then (b, Inl EmptyGateId)
      else case outcome of
        GateFail reason \<Rightarrow>
          (let attempt = sat_add (case bm_get (retries b) (gate_id spec) of None \<Rightarrow> 0 | Some n \<Rightarrow> n) 1;
               st = fail_state spec attempt reason
           in (b\<lparr>retries := bm_insert (gate_id spec) attempt (retries b),
                 gates := bm_insert (gate_id spec) st (gates b)\<rparr>, Inr st))
      | _ \<Rightarrow>
          (b\<lparr>gates := bm_insert (gate_id spec) GatePassed (gates b),
             retries := bm_remove (gate_id spec) (retries b)\<rparr>, Inr GatePassed))"

fun role_is_blocked :: "lane_gate_board \<Rightarrow> gate_spec list \<Rightarrow> string \<Rightarrow> gate_state option" where
  "role_is_blocked b [] role = None"
| "role_is_blocked b (spec # specs) role =
     (if \<not> eq_ignore_ascii_case (case blocks_role spec of None \<Rightarrow> [] | Some r \<Rightarrow> r) role
      then role_is_blocked b specs role
      else case bm_get (gates b) (gate_id spec) of
        Some st \<Rightarrow> (if is_blocking st then Some st else role_is_blocked b specs role)
      | None \<Rightarrow> role_is_blocked b specs role)"

definition record_handoff ::
    "lane_gate_board \<Rightarrow> handoff_artifact \<Rightarrow> lane_gate_board \<times> (gate_error + unit)" where
  "record_handoff b a =
     (if artifact_lane_id a \<noteq> lane_id b then (b, Inl (LaneMismatch (lane_id b) (artifact_lane_id a)))
      else (b\<lparr>artifacts := artifacts b @ [a]\<rparr>, Inr ()))"

definition latest_handoff ::
    "lane_gate_board \<Rightarrow> string \<Rightarrow> string \<Rightarrow> string \<Rightarrow> handoff_artifact option" where
  "latest_handoff b fr to kind =
     find (\<lambda>a. eq_ignore_ascii_case (from_role a) fr \<and> eq_ignore_ascii_case (to_role a) to
        \<and> eq_ignore_ascii_case (handoff_kind a) kind) (rev (artifacts b))"

definition status_summary :: "lane_gate_board \<Rightarrow> gate_status_line list" where
  "status_summary b =
     map (\<lambda>(gid, st). \<lparr>line_gate_id = gid, line_state = gate_state_as_str st,
            line_blocked_reason = blocked_reason st\<rparr>) (gates b)"

definition stopship_gate_pipeline :: "gate_spec list" where
  "stopship_gate_pipeline =
    [\<lparr>gate_id = ''scout-findings'', gate_role = ''scout'', gate_on = RoleComplete,
      gate_gate = Approve, gate_on_fail = Block, blocks_role = Some ''implementer'',
      max_retries = 0, artifact_kind = Some ''findings'', require_explicit_verdict = False\<rparr>,
     \<lparr>gate_id = ''reviewer-diff'', gate_role = ''reviewer'', gate_on = RoleComplete,
      gate_gate = Review, gate_on_fail = Block, blocks_role = Some ''verifier'',
      max_retries = 1, artifact_kind = Some ''diff_review'', require_explicit_verdict = False\<rparr>,
     \<lparr>gate_id = ''verifier-suite'', gate_role = ''verifier'', gate_on = RoleComplete,
      gate_gate = Verify, gate_on_fail = Retry, blocks_role = Some ''release_lead'',
      max_retries = 2, artifact_kind = Some ''verify_report'', require_explicit_verdict = False\<rparr>]"

end
