(* ===== verification/Workflow_Types.thy ===== *)
theory Workflow_Types
  imports Gates
begin

text \<open>
  The workflow intermediate representation and the execution log of \<open>crates/workflow/src/lib.rs\<close>:
  each struct is a record with the fields of the source, each enum a datatype. A node that
  contains nodes keeps its own fields in a record and its children beside it in the constructor
  (\<open>BranchSet spec children\<close> for \<open>spec.children\<close>), since a record cannot be recursive.
\<close>

section \<open>Specification\<close>

record budget_spec =
  max_steps :: "u32 option"
  timeout_secs :: "u64 option"
  max_parallel :: "u8 option"
  max_tokens :: "u64 option"

record permission_spec =
  allow_write :: bool
  allow_network :: bool
  deny_all_tools :: bool
  allowed_tools :: "string list"
  perm_file_scope :: "string list"

record model_policy =
  policy_provider :: "string option"
  policy_model :: "string option"
  fallback_models :: "string list"

datatype promotion_strategy = StrategyAll | FirstSuccess | BestScore | TeacherSelected

record promotion_gate =
  min_score_delta :: "32 word"
  max_cost_delta_microusd :: "64 word option"
  require_all_tests_pass :: bool
  reject_policy_violations :: bool
  reject_stale_replay :: bool

record promotion_policy =
  strategy :: promotion_strategy
  require_teacher_review :: bool
  min_successful_branches :: "u32 option"
  promotion_gate :: promotion_gate

datatype agent_type = General | Explore | PlanAgent | ReviewAgent | Implementer | Verifier

datatype task_mode = ReadOnly | ReadWrite

datatype isolation_mode = Auto | Shared | Worktree

record branch_spec =
  branch_id :: string
  branch_description :: "string option"
  branch_parallel :: bool
  branch_budget :: budget_spec
  branch_permissions :: permission_spec
  branch_model_policy :: model_policy

record leaf_spec =
  leaf_id :: string
  leaf_prompt :: string
  leaf_agent_type :: agent_type
  leaf_role :: "string option"
  leaf_profile :: "string option"
  leaf_mode :: task_mode
  leaf_isolation :: isolation_mode
  leaf_file_scope :: "string list"
  leaf_depends_on_results :: "string list"
  leaf_budget :: budget_spec
  leaf_permissions :: permission_spec
  leaf_model_policy :: model_policy

record sequence_spec =
  sequence_id :: string

record reduce_spec =
  reduce_id :: string
  reduce_inputs :: "string list"
  reduce_prompt :: string
  reduce_model_policy :: model_policy

record teacher_review_spec =
  review_id :: string
  review_candidates :: "string list"
  review_promotion_policy :: promotion_policy

record loop_until_spec =
  loop_id :: string
  loop_condition :: string
  max_iterations :: "u32 option"

record cond_spec =
  cond_id :: string
  cond_condition :: string

record expand_spec =
  expand_id :: string
  expand_source :: string
  max_children :: "usize option"

datatype workflow_node =
    BranchSet branch_spec "workflow_node list"
  | Leaf leaf_spec
  | Sequence sequence_spec "workflow_node list"
  | Reduce reduce_spec
  | TeacherReview teacher_review_spec
  | LoopUntil loop_until_spec "workflow_node list"
  | Cond cond_spec "workflow_node list" "workflow_node list"
  | Expand expand_spec "workflow_node option"

record workflow_spec =
  spec_id :: "string option"
  spec_goal :: string
  spec_description :: "string option"
  spec_budget :: budget_spec
  spec_permissions :: permission_spec
  spec_model_policy :: model_policy
  spec_promotion_policy :: promotion_policy
  spec_gates :: "gate_spec list"
  spec_nodes :: "workflow_node list"

section \<open>Isolation of leaves\<close>

fun resolve_isolation :: "isolation_mode \<Rightarrow> bool \<Rightarrow> isolation_mode" where
  "resolve_isolation Auto parallel_write = (if parallel_write then Worktree else Shared)"
| "resolve_isolation other _ = other"

definition wants_worktree :: "isolation_mode \<Rightarrow> bool \<Rightarrow> bool" where
  "wants_worktree m parallel_write = (resolve_isolation m parallel_write = Worktree)"

definition leaf_is_write_capable :: "leaf_spec \<Rightarrow> bool" where
  "leaf_is_write_capable spec = (leaf_mode spec = ReadWrite \<or> allow_write (leaf_permissions spec))"

definition leaf_wants_worktree :: "leaf_spec \<Rightarrow> bool \<Rightarrow> bool" where
  "leaf_wants_worktree spec in_parallel =
     (let parallel_write = in_parallel \<and> leaf_is_write_capable spec
      in wants_worktree (leaf_isolation spec) parallel_write)"

section \<open>Execution log\<close>

record workflow_usage =
  input_tokens :: u64
  output_tokens :: u64
  cost_microusd :: u64

definition usage_default :: workflow_usage where
  "usage_default = \<lparr>input_tokens = 0, output_tokens = 0, cost_microusd = 0\<rparr>"

definition total_tokens :: "workflow_usage \<Rightarrow> u64" where
  "total_tokens u = sat_add (input_tokens u) (output_tokens u)"

definition usage_add :: "workflow_usage \<Rightarrow> workflow_usage \<Rightarrow> workflow_usage" where
  "usage_add a b =
     \<lparr>input_tokens = sat_add (input_tokens a) (input_tokens b),
      output_tokens = sat_add (output_tokens a) (output_tokens b),
      cost_microusd = sat_add (cost_microusd a) (cost_microusd b)\<rparr>"

record workflow_memo_usage =
  armh_hits :: u64
  armh_misses :: u64
  armh_saved_estimated_tokens :: u64
  provider_prompt_cache_hits :: u64
  provider_prompt_cache_misses :: u64

definition memo_default :: workflow_memo_usage where
  "memo_default = \<lparr>armh_hits = 0, armh_misses = 0, armh_saved_estimated_tokens = 0,
     provider_prompt_cache_hits = 0, provider_prompt_cache_misses = 0\<rparr>"

definition memo_add :: "workflow_memo_usage \<Rightarrow> workflow_memo_usage \<Rightarrow> workflow_memo_usage" where
  "memo_add a b =
     \<lparr>armh_hits = sat_add (armh_hits a) (armh_hits b),
      armh_misses = sat_add (armh_misses a) (armh_misses b),
      armh_saved_estimated_tokens =
        sat_add (armh_saved_estimated_tokens a) (armh_saved_estimated_tokens b),
      provider_prompt_cache_hits =
        sat_add (provider_prompt_cache_hits a) (provider_prompt_cache_hits b),
      provider_prompt_cache_misses =
        sat_add (provider_prompt_cache_misses a) (provider_prompt_cache_misses b)\<rparr>"

datatype run_status =
  Pending | Running | Succeeded | Failed | Cancelled | BudgetExceeded | ReplayDiverged

datatype control_node_kind =
    KBranchSet | KLeaf | KSequence | KReduce | KTeacherReview | KLoopUntil | KCond | KExpand

record branch_result =
  br_branch_id :: string
  br_task_id :: string
  br_status :: run_status
  br_usage :: workflow_usage
  br_memo_usage :: workflow_memo_usage
  br_artifacts :: "string list"
  br_notes :: "string option"

record leaf_result =
  lr_leaf_id :: string
  lr_task_id :: string
  lr_role :: "string option"
  lr_profile :: "string option"
  lr_status :: run_status
  lr_usage :: workflow_usage
  lr_memo_usage :: workflow_memo_usage
  lr_output :: "string option"
  lr_artifacts :: "string list"
  lr_schema_error :: "string option"

record control_node_result =
  cr_node_id :: string
  cr_kind :: control_node_kind
  cr_status :: run_status
  cr_selected_children :: "string list"
  cr_summary :: "string option"

record workflow_execution =
  ex_status :: run_status
  ex_usage :: workflow_usage
  ex_memo_usage :: workflow_memo_usage
  leaf_results :: "leaf_result list"
  branch_results :: "branch_result list"
  control_node_results :: "control_node_result list"

definition execution_default :: workflow_execution where
  "execution_default = \<lparr>ex_status = Succeeded, ex_usage = usage_default,
     ex_memo_usage = memo_default, leaf_results = [], branch_results = [],
     control_node_results = []\<rparr>"

definition mark_failed :: "workflow_execution \<Rightarrow> workflow_execution" where
  "mark_failed e = e\<lparr>ex_status := Failed\<rparr>"

definition mark_cancelled :: "workflow_execution \<Rightarrow> workflow_execution" where
  "mark_cancelled e = e\<lparr>ex_status := Cancelled\<rparr>"

definition mark_budget_exceeded :: "workflow_execution \<Rightarrow> workflow_execution" where
  "mark_budget_exceeded e = e\<lparr>ex_status := BudgetExceeded\<rparr>"

definition mark_replay_diverged :: "workflow_execution \<Rightarrow> workflow_execution" where
  "mark_replay_diverged e = e\<lparr>ex_status := ReplayDiverged\<rparr>"

definition should_stop :: "workflow_execution \<Rightarrow> bool" where
  "should_stop e = (ex_status e = Cancelled \<or> ex_status e = BudgetExceeded)"

fun node_id :: "workflow_node \<Rightarrow> string" where
  "node_id (BranchSet spec _) = branch_id spec"
| "node_id (Leaf spec) = leaf_id spec"
| "node_id (Sequence spec _) = sequence_id spec"
| "node_id (Reduce spec) = reduce_id spec"
| "node_id (TeacherReview spec) = review_id spec"
| "node_id (LoopUntil spec _) = loop_id spec"
| "node_id (Cond spec _ _) = cond_id spec"
| "node_id (Expand spec _) = expand_id spec"

lemma usage_add_default [simp]: "usage_add u usage_default = u" "usage_add usage_default u = u"
  by (cases u, simp add: usage_add_def usage_default_def)+

lemma memo_add_default [simp]: "memo_add u memo_default = u" "memo_add memo_default u = u"
  by (cases u, simp add: memo_add_def memo_default_def)+

lemma usage_add_assoc: "usage_add (usage_add a b) c = usage_add a (usage_add b c)"
  by (simp add: usage_add_def sat_add_assoc)

lemma memo_add_assoc: "memo_add (memo_add a b) c = memo_add a (memo_add b c)"
  by (simp add: memo_add_def sat_add_assoc)

end
