(* ===== verification/Role_Resolve.thy ===== *)
theory Role_Resolve
  imports Ordered_Map
begin

text \<open>
  Fleet role resolution for workflow steps (\<open>crates/workflow/src/role_resolve.rs\<close>): the token
  rule, the role map and the precedence explicit profile, fleet role, role as profile. The role map
  is the \<open>BTreeMap\<close> of the source; its lookups rest on the facts of the interpretation \<open>bmap\<close>.
\<close>

section \<open>Tokens\<close>

definition bad_token_char :: "char \<Rightarrow> bool" where
  "bad_token_char ch \<longleftrightarrow> is_ws ch \<or> ch \<in> {CHR 0x22, CHR 0x27, CHR 0x60, CHR ''=''}"

definition normalize_token :: "string \<Rightarrow> string option" where
  "normalize_token raw =
     (let trimmed = trim raw in
      if trimmed = [] then None
      else if list_ex bad_token_char trimmed then None
      else Some (to_ascii_lowercase trimmed))"

datatype role_error =
    EmptyRole
  | EmptyProfile
  | UnknownRole string string
  | MissingRoleOrProfile
  | InvalidRoleToken string

definition validate_role_token :: "string \<Rightarrow> role_error + string" where
  "validate_role_token role =
     (case normalize_token role of Some t \<Rightarrow> Inr t | None \<Rightarrow> Inl (InvalidRoleToken role))"

section \<open>The role map\<close>

record fleet_role_map =
  roles :: "(string, string) bmap"

definition role_map_new :: fleet_role_map where
  "role_map_new = \<lparr>roles = bm_empty\<rparr>"

definition role_map_insert ::
    "string \<Rightarrow> string \<Rightarrow> fleet_role_map \<Rightarrow> role_error + fleet_role_map" where
  "role_map_insert role profile m =
     (case normalize_token role of
        None \<Rightarrow> Inl EmptyRole
      | Some r \<Rightarrow>
          (case normalize_token profile of
             None \<Rightarrow> Inl EmptyProfile
           | Some p \<Rightarrow> Inr (m\<lparr>roles := bm_insert r p (roles m)\<rparr>)))"

fun role_map_insert_all ::
    "(string \<times> string) list \<Rightarrow> fleet_role_map \<Rightarrow> role_error + fleet_role_map" where
  "role_map_insert_all [] m = Inr m"
| "role_map_insert_all ((role, profile) # pairs) m =
     (case role_map_insert role profile m of
        Inl e \<Rightarrow> Inl e
      | Inr m' \<Rightarrow> role_map_insert_all pairs m')"

definition role_map_from_pairs :: "(string \<times> string) list \<Rightarrow> role_error + fleet_role_map" where
  "role_map_from_pairs pairs = role_map_insert_all pairs role_map_new"

definition role_map_get :: "fleet_role_map \<Rightarrow> string \<Rightarrow> string option" where
  "role_map_get m role =
     (case normalize_token role of None \<Rightarrow> None | Some key \<Rightarrow> bm_get (roles m) key)"

definition contains_role :: "fleet_role_map \<Rightarrow> string \<Rightarrow> bool" where
  "contains_role m role \<longleftrightarrow> role_map_get m role \<noteq> None"

definition role_map_is_empty :: "fleet_role_map \<Rightarrow> bool" where
  "role_map_is_empty m \<longleftrightarrow> roles m = []"

definition role_map_len :: "fleet_role_map \<Rightarrow> nat" where
  "role_map_len m = length (roles m)"

section \<open>Resolution\<close>

record resolved_workflow_agent =
  resolved_role :: "string option"
  resolved_profile :: string
  route_source :: string

definition resolve_workflow_agent ::
    "string option \<Rightarrow> string option \<Rightarrow> fleet_role_map \<Rightarrow> bool
       \<Rightarrow> role_error + resolved_workflow_agent" where
  "resolve_workflow_agent role profile fleet require_known_role =
     (case (case role of None \<Rightarrow> Inr None | Some raw \<Rightarrow> map_sum id Some (validate_role_token raw)) of
        Inl e \<Rightarrow> Inl e
      | Inr role_norm \<Rightarrow>
     (case (case profile of None \<Rightarrow> Inr None | Some raw \<Rightarrow> map_sum id Some (validate_role_token raw)) of
        Inl e \<Rightarrow> Inl e
      | Inr profile_norm \<Rightarrow>
     (case profile_norm of
        Some p \<Rightarrow> Inr \<lparr>resolved_role = role_norm, resolved_profile = p,
                        route_source = ''explicit_profile''\<rparr>
      | None \<Rightarrow>
     (case role_norm of
        None \<Rightarrow> Inl MissingRoleOrProfile
      | Some role_name \<Rightarrow>
     (case role_map_get fleet role_name of
        Some mapped \<Rightarrow> Inr \<lparr>resolved_role = Some role_name, resolved_profile = mapped,
                             route_source = ''fleet_role''\<rparr>
      | None \<Rightarrow>
          if require_known_role then
            Inl (UnknownRole role_name
              (if role_map_is_empty fleet then ''(none)''
               else join_str '', '' (bm_keys (roles fleet))))
          else Inr \<lparr>resolved_role = Some role_name, resolved_profile = role_name,
                     route_source = ''role_as_profile''\<rparr>)))))"

section \<open>Lemmas\<close>

lemma trim_no_ws: "no_ws s \<Longrightarrow> trim s = s"
proof -
  have drop: "dropWhile is_ws t = t" if "no_ws t" for t
    using that by (cases t) simp_all
  assume "no_ws s"
  moreover from this have "no_ws (rev s)" by (simp add: no_ws_def)
  ultimately show ?thesis by (simp add: trim_def trim_start_def trim_end_def drop)
qed

lemma bad_token_char_lower [simp]: "bad_token_char (ascii_lower c) = bad_token_char c"
  by (simp add: bad_token_char_def ascii_lower_eq_iff)

lemma normalize_token_Some:
  "normalize_token raw = Some t \<longleftrightarrow>
     trim raw \<noteq> [] \<and> \<not> list_ex bad_token_char (trim raw) \<and> t = to_ascii_lowercase (trim raw)"
  by (auto simp: normalize_token_def Let_def)

lemma no_bad_chars_no_ws: "\<not> list_ex bad_token_char t \<Longrightarrow> no_ws t"
  by (induction t) (auto simp: bad_token_char_def)

lemma no_ws_lower [simp]: "no_ws (to_ascii_lowercase t) = no_ws t"
  by (simp add: no_ws_def to_ascii_lowercase_def list_all_iff)

lemma list_ex_bad_lower [simp]:
  "list_ex bad_token_char (to_ascii_lowercase t) = list_ex bad_token_char t"
  by (simp add: to_ascii_lowercase_def list_ex_iff)

lemma normalize_token_idem: "normalize_token raw = Some t \<Longrightarrow> normalize_token t = Some t"
  by (auto simp: normalize_token_Some trim_no_ws no_bad_chars_no_ws)

lemma role_map_get_insert:
  assumes "role_map_insert role profile m = Inr m'"
  shows "role_map_get m' r =
    (if normalize_token r = normalize_token role then normalize_token profile
     else role_map_get m r)"
  using assms
  by (auto simp: role_map_insert_def role_map_get_def split: option.splits)

text \<open>Every key and every profile of a map built by the operations is a normal token.\<close>

definition role_map_ok :: "fleet_role_map \<Rightarrow> bool" where
  "role_map_ok m \<longleftrightarrow> bm_sorted (roles m) \<and>
     (\<forall>k p. bm_get (roles m) k = Some p \<longrightarrow> normalize_token k = Some k \<and> normalize_token p = Some p)"

lemma role_map_ok_new: "role_map_ok role_map_new"
  by (simp add: role_map_ok_def role_map_new_def)

lemma role_map_ok_insert: "role_map_ok m \<Longrightarrow> role_map_insert role profile m = Inr m' \<Longrightarrow> role_map_ok m'"
  by (auto simp: role_map_ok_def role_map_insert_def normalize_token_idem
      split: option.splits if_splits)

lemma role_map_ok_insert_all:
  "role_map_ok m \<Longrightarrow> role_map_insert_all pairs m = Inr m' \<Longrightarrow> role_map_ok m'"
  by (induction pairs m rule: role_map_insert_all.induct)
    (auto split: sum.splits intro: role_map_ok_insert)

lemma role_map_ok_from_pairs: "role_map_from_pairs pairs = Inr m \<Longrightarrow> role_map_ok m"
  unfolding role_map_from_pairs_def by (rule role_map_ok_insert_all [OF role_map_ok_new])

end
