(* ===== verification/Workflow_Nodes.thy ===== *)
theory Workflow_Nodes
  imports Workflow_Types Role_Resolve
begin

text \<open>
  Validation of a workflow's node tree and the estimate of what a Fleet launch would start
  (\<open>crates/workflow/src/lib.rs\<close>). The two passes of the validator, over the ids and over the
  references, are the recursive functions of the source with the set of seen ids passed along;
  the estimate folds over the nodes with the saturating \<open>usize\<close> arithmetic of the source.
\<close>

section \<open>Validation\<close>

datatype wf_error =
    EmptyNodeId string
  | EmptyLeafPrompt string
  | InvalidLeafProfile string string
  | InvalidLeafRole string string
  | DuplicateNodeId string
  | UnknownNodeReference string string string

fun control_kind_name :: "workflow_node \<Rightarrow> string" where
  "control_kind_name (BranchSet _ _) = ''branch_set''"
| "control_kind_name (Leaf _) = ''leaf''"
| "control_kind_name (Sequence _ _) = ''sequence''"
| "control_kind_name (Reduce _) = ''reduce''"
| "control_kind_name (TeacherReview _) = ''teacher_review''"
| "control_kind_name (LoopUntil _ _) = ''loop_until''"
| "control_kind_name (Cond _ _ _) = ''cond''"
| "control_kind_name (Expand _ _) = ''expand''"

definition validate_leaf_profile :: "string \<Rightarrow> string \<Rightarrow> wf_error + unit" where
  "validate_leaf_profile leaf profile =
     (if profile = [] \<or> list_ex bad_token_char profile then Inl (InvalidLeafProfile leaf profile)
      else Inr ())"

definition validate_leaf_role :: "string \<Rightarrow> string \<Rightarrow> wf_error + unit" where
  "validate_leaf_role leaf role =
     (case validate_role_token role of Inl _ \<Rightarrow> Inl (InvalidLeafRole leaf role) | Inr _ \<Rightarrow> Inr ())"

definition validate_leaf :: "leaf_spec \<Rightarrow> wf_error + unit" where
  "validate_leaf spec =
     (if trim (leaf_prompt spec) = [] then Inl (EmptyLeafPrompt (leaf_id spec))
      else case (case leaf_role spec of None \<Rightarrow> Inr () | Some r \<Rightarrow> validate_leaf_role (leaf_id spec) r) of
        Inl err \<Rightarrow> Inl err
      | Inr _ \<Rightarrow> (case leaf_profile spec of None \<Rightarrow> Inr ()
                | Some p \<Rightarrow> validate_leaf_profile (leaf_id spec) p))"

text \<open>The checks made on every node before its own: a non-blank id, not seen yet.\<close>

definition enter_node :: "workflow_node \<Rightarrow> string set \<Rightarrow> wf_error + string set" where
  "enter_node node seen =
     (if trim (node_id node) = [] then Inl (EmptyNodeId (control_kind_name node))
      else if node_id node \<in> seen then Inl (DuplicateNodeId (node_id node))
      else Inr (insert (node_id node) seen))"

fun validate_node_inner :: "workflow_node \<Rightarrow> string set \<Rightarrow> wf_error + string set"
  and validate_nodes_inner :: "workflow_node list \<Rightarrow> string set \<Rightarrow> wf_error + string set" where
  "validate_node_inner (BranchSet spec children) seen =
     (case enter_node (BranchSet spec children) seen of
        Inl err \<Rightarrow> Inl err | Inr seen' \<Rightarrow> validate_nodes_inner children seen')"
| "validate_node_inner (Leaf spec) seen =
     (case enter_node (Leaf spec) seen of
        Inl err \<Rightarrow> Inl err
      | Inr seen' \<Rightarrow> (case validate_leaf spec of Inl err \<Rightarrow> Inl err | Inr _ \<Rightarrow> Inr seen'))"
| "validate_node_inner (Sequence spec children) seen =
     (case enter_node (Sequence spec children) seen of
        Inl err \<Rightarrow> Inl err | Inr seen' \<Rightarrow> validate_nodes_inner children seen')"
| "validate_node_inner (LoopUntil spec children) seen =
     (case enter_node (LoopUntil spec children) seen of
        Inl err \<Rightarrow> Inl err | Inr seen' \<Rightarrow> validate_nodes_inner children seen')"
| "validate_node_inner (Cond spec then_nodes else_nodes) seen =
     (case enter_node (Cond spec then_nodes else_nodes) seen of
        Inl err \<Rightarrow> Inl err
      | Inr seen' \<Rightarrow>
          (case validate_nodes_inner then_nodes seen' of
             Inl err \<Rightarrow> Inl err
           | Inr seen'' \<Rightarrow> validate_nodes_inner else_nodes seen''))"
| "validate_node_inner (Reduce spec) seen = enter_node (Reduce spec) seen"
| "validate_node_inner (TeacherReview spec) seen = enter_node (TeacherReview spec) seen"
| "validate_node_inner (Expand spec tmpl) seen = enter_node (Expand spec tmpl) seen"
| "validate_nodes_inner [] seen = Inr seen"
| "validate_nodes_inner (node # nodes) seen =
     (case validate_node_inner node seen of
        Inl err \<Rightarrow> Inl err | Inr seen' \<Rightarrow> validate_nodes_inner nodes seen')"

fun validate_known_references ::
    "string \<Rightarrow> string \<Rightarrow> string list \<Rightarrow> string set \<Rightarrow> wf_error + unit" where
  "validate_known_references node field [] known = Inr ()"
| "validate_known_references node field (reference # refs) known =
     (if reference \<notin> known then Inl (UnknownNodeReference node field reference)
      else validate_known_references node field refs known)"

fun validate_node_references :: "workflow_node \<Rightarrow> string set \<Rightarrow> wf_error + unit"
  and validate_workflow_references :: "workflow_node list \<Rightarrow> string set \<Rightarrow> wf_error + unit" where
  "validate_node_references (BranchSet spec children) known =
     validate_workflow_references children known"
| "validate_node_references (Leaf spec) known =
     validate_known_references (leaf_id spec) ''depends_on_results''
       (leaf_depends_on_results spec) known"
| "validate_node_references (Sequence spec children) known =
     validate_workflow_references children known"
| "validate_node_references (Reduce spec) known =
     validate_known_references (reduce_id spec) ''inputs'' (reduce_inputs spec) known"
| "validate_node_references (TeacherReview spec) known =
     validate_known_references (review_id spec) ''candidates'' (review_candidates spec) known"
| "validate_node_references (LoopUntil spec children) known =
     validate_workflow_references children known"
| "validate_node_references (Cond spec then_nodes else_nodes) known =
     (case validate_workflow_references then_nodes known of
        Inl err \<Rightarrow> Inl err
      | Inr _ \<Rightarrow> validate_workflow_references else_nodes known)"
| "validate_node_references (Expand spec tmpl) known = Inr ()"
| "validate_workflow_references [] known = Inr ()"
| "validate_workflow_references (node # nodes) known =
     (case validate_node_references node known of
        Inl err \<Rightarrow> Inl err | Inr _ \<Rightarrow> validate_workflow_references nodes known)"

definition validate_workflow_nodes :: "workflow_node list \<Rightarrow> wf_error + unit" where
  "validate_workflow_nodes nodes =
     (case validate_nodes_inner nodes {} of
        Inl err \<Rightarrow> Inl err
      | Inr seen \<Rightarrow> validate_workflow_references nodes seen)"

definition validate_workflow_node_shapes :: "workflow_node list \<Rightarrow> wf_error + unit" where
  "validate_workflow_node_shapes nodes = map_sum id (\<lambda>_. ()) (validate_nodes_inner nodes {})"

section \<open>The Fleet estimate\<close>

record fleet_limits =
  max_total_agents :: usize
  limit_max_depth :: usize

definition fleet_limits_default :: fleet_limits where
  "fleet_limits_default = \<lparr>max_total_agents = 1000, limit_max_depth = 5\<rparr>"

record fleet_shape =
  total_agents :: usize
  shape_max_depth :: usize

definition fleet_shape_default :: fleet_shape where
  "fleet_shape_default = \<lparr>total_agents = 0, shape_max_depth = 0\<rparr>"

definition shape_add :: "fleet_shape \<Rightarrow> fleet_shape \<Rightarrow> fleet_shape" where
  "shape_add a b = \<lparr>total_agents = sat_add (total_agents a) (total_agents b),
     shape_max_depth = max (shape_max_depth a) (shape_max_depth b)\<rparr>"

definition shape_repeat :: "fleet_shape \<Rightarrow> usize \<Rightarrow> fleet_shape" where
  "shape_repeat a n = \<lparr>total_agents = sat_mul (total_agents a) n,
     shape_max_depth = shape_max_depth a\<rparr>"

datatype fleet_limit_error =
    InvalidWorkflow wf_error
  | TooManyAgents usize usize
  | RecursionTooDeep usize usize
  | UnboundedExpand string
  | MissingExpandTemplate string
  | UnboundedLoop string

fun estimate_node_fleet_shape :: "workflow_node \<Rightarrow> usize \<Rightarrow> fleet_limit_error + fleet_shape"
  and estimate_fleet_shape_from ::
    "workflow_node list \<Rightarrow> usize \<Rightarrow> fleet_shape \<Rightarrow> fleet_limit_error + fleet_shape" where
  "estimate_node_fleet_shape (Leaf spec) depth =
     Inr \<lparr>total_agents = 1, shape_max_depth = depth\<rparr>"
| "estimate_node_fleet_shape (BranchSet spec children) depth =
     estimate_fleet_shape_from children (depth + 1) fleet_shape_default"
| "estimate_node_fleet_shape (Sequence spec children) depth =
     estimate_fleet_shape_from children depth fleet_shape_default"
| "estimate_node_fleet_shape (Reduce spec) depth =
     Inr \<lparr>total_agents = 0, shape_max_depth = 0\<rparr>"
| "estimate_node_fleet_shape (TeacherReview spec) depth =
     Inr \<lparr>total_agents = 0, shape_max_depth = 0\<rparr>"
| "estimate_node_fleet_shape (LoopUntil spec children) depth =
     (case max_iterations spec of
        None \<Rightarrow> Inl (UnboundedLoop (loop_id spec))
      | Some n \<Rightarrow>
          (case estimate_fleet_shape_from children depth fleet_shape_default of
             Inl err \<Rightarrow> Inl err
           | Inr shape \<Rightarrow> Inr (shape_repeat shape (max (ucast n) 1))))"
| "estimate_node_fleet_shape (Cond spec then_nodes else_nodes) depth =
     (case estimate_fleet_shape_from then_nodes depth fleet_shape_default of
        Inl err \<Rightarrow> Inl err
      | Inr shape \<Rightarrow>
          (case estimate_fleet_shape_from else_nodes depth fleet_shape_default of
             Inl err \<Rightarrow> Inl err
           | Inr shape' \<Rightarrow> Inr (shape_add shape shape')))"
| "estimate_node_fleet_shape (Expand spec tmpl) depth =
     (case max_children spec of
        None \<Rightarrow> Inl (UnboundedExpand (expand_id spec))
      | Some n \<Rightarrow>
          (case tmpl of
             None \<Rightarrow> Inl (MissingExpandTemplate (expand_id spec))
           | Some t \<Rightarrow>
               (case validate_workflow_node_shapes [t] of
                  Inl err \<Rightarrow> Inl (InvalidWorkflow err)
                | Inr _ \<Rightarrow>
                    (case estimate_node_fleet_shape t depth of
                       Inl err \<Rightarrow> Inl err
                     | Inr shape \<Rightarrow> Inr (shape_repeat shape n)))))"
| "estimate_fleet_shape_from [] depth shape = Inr shape"
| "estimate_fleet_shape_from (node # nodes) depth shape =
     (case estimate_node_fleet_shape node depth of
        Inl err \<Rightarrow> Inl err
      | Inr shape' \<Rightarrow> estimate_fleet_shape_from nodes depth (shape_add shape shape'))"

definition estimate_fleet_shape :: "workflow_node list \<Rightarrow> fleet_limit_error + fleet_shape" where
  "estimate_fleet_shape nodes = estimate_fleet_shape_from nodes 1 fleet_shape_default"

definition validate_for_fleet_with_limits ::
    "workflow_spec \<Rightarrow> fleet_limits \<Rightarrow> fleet_limit_error + fleet_shape" where
  "validate_for_fleet_with_limits spec limits =
     (case validate_workflow_nodes (spec_nodes spec) of
        Inl err \<Rightarrow> Inl (InvalidWorkflow err)
      | Inr _ \<Rightarrow>
          (case estimate_fleet_shape (spec_nodes spec) of
             Inl err \<Rightarrow> Inl err
           | Inr shape \<Rightarrow>
               if max_total_agents limits < total_agents shape then
                 Inl (TooManyAgents (total_agents shape) (max_total_agents limits))
               else if limit_max_depth limits < shape_max_depth shape then
                 Inl (RecursionTooDeep (shape_max_depth shape) (limit_max_depth limits))
               else Inr shape))"

definition validate_for_fleet :: "workflow_spec \<Rightarrow> fleet_limit_error + fleet_shape" where
  "validate_for_fleet spec = validate_for_fleet_with_limits spec fleet_limits_default"

section \<open>What the validator accepts\<close>

text \<open>The nodes of a tree in pre-order (the template of an \<open>Expand\<close> is not part of the tree: the
  validator does not enter it), the references a node makes, and the checks local to a node.\<close>

fun flat_node :: "workflow_node \<Rightarrow> workflow_node list"
  and flat_nodes :: "workflow_node list \<Rightarrow> workflow_node list" where
  "flat_node (BranchSet spec children) = BranchSet spec children # flat_nodes children"
| "flat_node (Sequence spec children) = Sequence spec children # flat_nodes children"
| "flat_node (LoopUntil spec children) = LoopUntil spec children # flat_nodes children"
| "flat_node (Cond spec ts es) = Cond spec ts es # flat_nodes ts @ flat_nodes es"
| "flat_node (Leaf spec) = [Leaf spec]"
| "flat_node (Reduce spec) = [Reduce spec]"
| "flat_node (TeacherReview spec) = [TeacherReview spec]"
| "flat_node (Expand spec tmpl) = [Expand spec tmpl]"
| "flat_nodes [] = []"
| "flat_nodes (node # nodes) = flat_node node @ flat_nodes nodes"

fun own_references :: "workflow_node \<Rightarrow> string list" where
  "own_references (Leaf spec) = leaf_depends_on_results spec"
| "own_references (Reduce spec) = reduce_inputs spec"
| "own_references (TeacherReview spec) = review_candidates spec"
| "own_references _ = []"

definition leaf_ok :: "leaf_spec \<Rightarrow> bool" where
  "leaf_ok spec \<longleftrightarrow> trim (leaf_prompt spec) \<noteq> [] \<and>
     (\<forall>r. leaf_role spec = Some r \<longrightarrow> normalize_token r \<noteq> None) \<and>
     (\<forall>p. leaf_profile spec = Some p \<longrightarrow> p \<noteq> [] \<and> \<not> list_ex bad_token_char p)"

definition node_ok :: "workflow_node \<Rightarrow> bool" where
  "node_ok node \<longleftrightarrow> trim (node_id node) \<noteq> [] \<and> (\<forall>spec. node = Leaf spec \<longrightarrow> leaf_ok spec)"

lemma validate_leaf_iff: "validate_leaf spec = Inr () \<longleftrightarrow> leaf_ok spec"
  by (auto simp: validate_leaf_def leaf_ok_def validate_leaf_role_def validate_role_token_def
      validate_leaf_profile_def split: option.splits sum.splits if_splits)

lemma enter_node_iff:
  "enter_node node seen = Inr seen' \<longleftrightarrow>
     trim (node_id node) \<noteq> [] \<and> node_id node \<notin> seen \<and> seen' = insert (node_id node) seen"
  by (auto simp: enter_node_def)

definition ids_ok :: "workflow_node list \<Rightarrow> string set \<Rightarrow> string set \<Rightarrow> bool" where
  "ids_ok nodes seen seen' \<longleftrightarrow> list_all node_ok nodes \<and> distinct (map node_id nodes) \<and>
     node_id ` set nodes \<inter> seen = {} \<and> seen' = seen \<union> node_id ` set nodes"

lemma ids_ok_Cons: "ids_ok (node # nodes) seen seen' \<longleftrightarrow>
    node_ok node \<and> node_id node \<notin> seen \<and> ids_ok nodes (insert (node_id node) seen) seen'"
  by (auto simp: ids_ok_def)

lemma ids_ok_append: "ids_ok (xs @ ys) seen seen' \<longleftrightarrow>
    (\<exists>seen1. ids_ok xs seen seen1 \<and> ids_ok ys seen1 seen')"
  by (induction xs arbitrary: seen) (auto simp: ids_ok_Cons, auto simp: ids_ok_def)

lemma validate_inner_iff:
  "validate_node_inner node seen = Inr seen' \<longleftrightarrow> ids_ok (flat_node node) seen seen'"
  "validate_nodes_inner nodes seen = Inr seen' \<longleftrightarrow> ids_ok (flat_nodes nodes) seen seen'"
proof (induction node seen and nodes seen arbitrary: seen' and seen'
    rule: validate_node_inner_validate_nodes_inner.induct)
  case (2 spec seen)
  show ?case
    by (auto simp: result_simps ids_ok_Cons enter_node_iff node_ok_def validate_leaf_iff
        ids_ok_def [of "[]"])
qed (auto simp: result_simps ids_ok_Cons ids_ok_append enter_node_iff node_ok_def ids_ok_def [of "[]"])

lemma validate_known_references_iff:
  "validate_known_references node field refs known = Inr () \<longleftrightarrow> set refs \<subseteq> known"
  by (induction node field refs known rule: validate_known_references.induct) auto

lemma validate_references_iff:
  "validate_node_references node known = Inr () \<longleftrightarrow>
     (\<forall>n\<in>set (flat_node node). set (own_references n) \<subseteq> known)"
  "validate_workflow_references nodes known = Inr () \<longleftrightarrow>
     (\<forall>n\<in>set (flat_nodes nodes). set (own_references n) \<subseteq> known)"
  by (induction node known and nodes known
      rule: validate_node_references_validate_workflow_references.induct)
    (auto simp: validate_known_references_iff split: sum.splits)

lemma validate_workflow_node_shapes_iff:
  "validate_workflow_node_shapes nodes = Inr () \<longleftrightarrow>
     list_all node_ok (flat_nodes nodes) \<and> distinct (map node_id (flat_nodes nodes))"
proof -
  have "validate_workflow_node_shapes nodes = Inr () \<longleftrightarrow>
      (\<exists>seen'. validate_nodes_inner nodes {} = Inr seen')"
    by (cases "validate_nodes_inner nodes {}") (auto simp: validate_workflow_node_shapes_def)
  then show ?thesis by (simp add: validate_inner_iff ids_ok_def)
qed

text \<open>
  C27. The validator accepts exactly the well-formed trees: the ids of all nodes are pairwise
  different and not blank, every leaf has a prompt and well-formed role and profile tokens, and
  every result, input or candidate a node names is the id of a node of the tree.
\<close>

theorem validate_workflow_nodes_iff:
  "validate_workflow_nodes nodes = Inr () \<longleftrightarrow>
     distinct (map node_id (flat_nodes nodes)) \<and> list_all node_ok (flat_nodes nodes) \<and>
     list_all (\<lambda>n. set (own_references n) \<subseteq> node_id ` set (flat_nodes nodes)) (flat_nodes nodes)"
  unfolding validate_workflow_nodes_def
  by (auto simp: result_simps validate_inner_iff validate_references_iff ids_ok_def list_all_iff)

section \<open>What the estimate counts\<close>

text \<open>The number of leaves a tree can launch, without saturation: a loop runs its children as often
  as it may iterate, an expansion launches at most \<open>max_children\<close> copies of its template.\<close>

definition loop_rounds :: "loop_until_spec \<Rightarrow> nat" where
  "loop_rounds spec = max (case max_iterations spec of None \<Rightarrow> 1 | Some n \<Rightarrow> unat n) 1"

fun leaf_bound :: "workflow_node \<Rightarrow> nat"
  and leaves_bound :: "workflow_node list \<Rightarrow> nat" where
  "leaf_bound (Leaf spec) = 1"
| "leaf_bound (BranchSet spec children) = leaves_bound children"
| "leaf_bound (Sequence spec children) = leaves_bound children"
| "leaf_bound (Reduce spec) = 0"
| "leaf_bound (TeacherReview spec) = 0"
| "leaf_bound (LoopUntil spec children) = loop_rounds spec * leaves_bound children"
| "leaf_bound (Cond spec ts es) = leaves_bound ts + leaves_bound es"
| "leaf_bound (Expand spec None) = 0"
| "leaf_bound (Expand spec (Some t)) =
     (case max_children spec of None \<Rightarrow> 0 | Some n \<Rightarrow> unat n * leaf_bound t)"
| "leaves_bound [] = 0"
| "leaves_bound (node # nodes) = leaf_bound node + leaves_bound nodes"

abbreviation usize_max :: nat where
  "usize_max \<equiv> 2 ^ 64 - 1"

lemma min_unat_usize_max [simp]: "min (unat w) 18446744073709551615 = unat w"
  for w :: usize
  using unsigned_less [of w, where 'a = nat] by simp

lemma min_mult_min: "min (n * min a m) m = min (n * a) (m :: nat)"
proof (cases "n = 0 \<or> a \<le> m")
  case True
  then show ?thesis by auto
next
  case False
  then have "min a m = m" and "m \<le> n * m" and "n * m \<le> n * a" by simp_all
  then show ?thesis by (simp only: min_absorb2 order_trans [of m "n * m" "n * a"])
qed

lemma min_add_min: "min (min a m + b) m = min (a + b) (m :: nat)"
  "min (a + min b m) m = min (a + b) (m :: nat)"
  by (auto simp: min_def)

lemma unat_loop_rounds:
  "max_iterations spec = Some n \<Longrightarrow> unat (max (ucast n) 1 :: usize) = loop_rounds spec"
  for n :: u32
proof -
  have u: "unat (ucast n :: usize) = unat n"
    using unsigned_less [of n, where 'a = nat]
    by (simp add: unsigned_ucast_eq take_bit_nat_eq_self)
  assume "max_iterations spec = Some n"
  then show ?thesis
    by (simp add: loop_rounds_def max_def word_le_nat_alt u)
qed

lemma estimate_counts_leaves:
  "estimate_node_fleet_shape node depth = Inr shape \<Longrightarrow>
     unat (total_agents shape) = min (leaf_bound node) usize_max"
  "estimate_fleet_shape_from nodes depth shape0 = Inr shape \<Longrightarrow>
     unat (total_agents shape) = min (unat (total_agents shape0) + leaves_bound nodes) usize_max"
proof (induction node depth and nodes depth shape0 arbitrary: shape and shape
    rule: estimate_node_fleet_shape_estimate_fleet_shape_from.induct)
  case (6 spec children depth)
  then show ?case
    by (auto simp: result_simps fleet_shape_default_def shape_repeat_def sat_simps
        unat_loop_rounds min_mult_min mult.commute [of "min a b" for a b]
        mult.commute [of "leaves_bound children"] split: option.splits)
next
  case (8 spec tmpl depth)
  then show ?case
    by (auto simp: result_simps shape_repeat_def sat_simps min_mult_min
        mult.commute [of "min a b" for a b] mult.commute [of "leaf_bound t" for t] split: option.splits)
qed (auto simp: result_simps fleet_shape_default_def shape_add_def sat_simps min_add_min
    split: option.splits)

lemma estimate_fleet_shape_counts:
  "estimate_fleet_shape nodes = Inr shape \<Longrightarrow>
     unat (total_agents shape) = min (leaves_bound nodes) usize_max"
  unfolding estimate_fleet_shape_def
  by (drule estimate_counts_leaves(2)) (simp add: fleet_shape_default_def)

end
