(* ===== verification/Mock_Executor.thy ===== *)
theory Mock_Executor
  imports Workflow_Nodes
begin

text \<open>
  The deterministic executor of a workflow (\<open>MockWorkflowExecutor\<close> in
  \<open>crates/workflow/src/lib.rs\<close>). Its state is a record, the log of the run is the
  \<^typ>\<open>workflow_execution\<close> that every step takes and returns. The functions are total by fuel: one
  unit is spent on each expansion of generated nodes, and \<open>mock_run\<close> starts with one unit more
  than there are generated entries, which is proved enough. The second half states the run as a
  step relation and proves the invariants by rule induction, once, in a locale.
\<close>

section \<open>State and outcomes\<close>

record mock_leaf_outcome =
  mo_status :: run_status
  mo_usage :: workflow_usage
  mo_memo_usage :: workflow_memo_usage
  mo_output :: "string option"
  mo_artifacts :: "string list"

definition outcome_succeeded :: "string \<Rightarrow> mock_leaf_outcome" where
  "outcome_succeeded out = \<lparr>mo_status = Succeeded, mo_usage = usage_default,
     mo_memo_usage = memo_default, mo_output = Some out, mo_artifacts = []\<rparr>"

definition outcome_failed :: "string \<Rightarrow> mock_leaf_outcome" where
  "outcome_failed out = \<lparr>mo_status = Failed, mo_usage = usage_default,
     mo_memo_usage = memo_default, mo_output = Some out, mo_artifacts = []\<rparr>"

definition with_usage :: "workflow_usage \<Rightarrow> mock_leaf_outcome \<Rightarrow> mock_leaf_outcome" where
  "with_usage u out = out\<lparr>mo_usage := u\<rparr>"

definition with_memo_usage :: "workflow_memo_usage \<Rightarrow> mock_leaf_outcome \<Rightarrow> mock_leaf_outcome" where
  "with_memo_usage u out = out\<lparr>mo_memo_usage := u\<rparr>"

record mock_executor =
  leaf_outcomes :: "(string, mock_leaf_outcome) bmap"
  predicate_results :: "(string, bool list) bmap"
  generated_nodes :: "(string, workflow_node list) bmap"
  cancelled :: bool
  max_leaf_steps :: "u32 option"
  leaf_steps_executed :: u32
  max_leaf_tokens :: "u64 option"
  leaf_tokens_used :: u64

definition mock_executor_new :: mock_executor where
  "mock_executor_new = \<lparr>leaf_outcomes = bm_empty, predicate_results = bm_empty,
     generated_nodes = bm_empty, cancelled = False, max_leaf_steps = None,
     leaf_steps_executed = 0, max_leaf_tokens = None, leaf_tokens_used = 0\<rparr>"

definition with_leaf_outcome :: "string \<Rightarrow> mock_leaf_outcome \<Rightarrow> mock_executor \<Rightarrow> mock_executor" where
  "with_leaf_outcome k out ex = ex\<lparr>leaf_outcomes := bm_insert k out (leaf_outcomes ex)\<rparr>"

definition with_predicate_results :: "string \<Rightarrow> bool list \<Rightarrow> mock_executor \<Rightarrow> mock_executor" where
  "with_predicate_results k rs ex = ex\<lparr>predicate_results := bm_insert k rs (predicate_results ex)\<rparr>"

definition with_generated_nodes ::
    "string \<Rightarrow> workflow_node list \<Rightarrow> mock_executor \<Rightarrow> mock_executor" where
  "with_generated_nodes k ns ex = ex\<lparr>generated_nodes := bm_insert k ns (generated_nodes ex)\<rparr>"

definition with_cancelled :: "mock_executor \<Rightarrow> mock_executor" where
  "with_cancelled ex = ex\<lparr>cancelled := True\<rparr>"

definition with_max_leaf_steps :: "u32 \<Rightarrow> mock_executor \<Rightarrow> mock_executor" where
  "with_max_leaf_steps n ex = ex\<lparr>max_leaf_steps := Some n\<rparr>"

definition with_max_leaf_tokens :: "u64 \<Rightarrow> mock_executor \<Rightarrow> mock_executor" where
  "with_max_leaf_tokens n ex = ex\<lparr>max_leaf_tokens := Some n\<rparr>"

section \<open>Single steps\<close>

fun mark_execution_for_status :: "workflow_execution \<Rightarrow> run_status \<Rightarrow> workflow_execution" where
  "mark_execution_for_status e Succeeded = e"
| "mark_execution_for_status e Pending = e"
| "mark_execution_for_status e Running = e"
| "mark_execution_for_status e Failed = mark_failed e"
| "mark_execution_for_status e Cancelled = mark_cancelled e"
| "mark_execution_for_status e BudgetExceeded = mark_budget_exceeded e"
| "mark_execution_for_status e ReplayDiverged = mark_replay_diverged e"

definition aggregate_mock_status :: "leaf_result list \<Rightarrow> run_status" where
  "aggregate_mock_status results =
     (if list_ex (\<lambda>r. lr_status r = Cancelled) results then Cancelled
      else if list_ex (\<lambda>r. lr_status r = BudgetExceeded) results then BudgetExceeded
      else if list_ex (\<lambda>r. lr_status r \<noteq> Succeeded) results then Failed
      else Succeeded)"

definition budget_stop :: "string \<Rightarrow> run_status \<Rightarrow> mock_leaf_outcome" where
  "budget_stop msg st = \<lparr>mo_status = st, mo_usage = usage_default, mo_memo_usage = memo_default,
     mo_output = Some msg, mo_artifacts = []\<rparr>"

definition mock_leaf_outcome :: "leaf_spec \<Rightarrow> mock_executor \<Rightarrow> mock_leaf_outcome \<times> mock_executor" where
  "mock_leaf_outcome spec ex =
     (if cancelled ex then
        (budget_stop ''mock workflow cancelled before leaf execution'' Cancelled, ex)
      else if max_leaf_steps ex = Some (leaf_steps_executed ex)
          \<or> max_steps (leaf_budget spec) = Some 0 then
        (budget_stop ''mock workflow leaf step budget exhausted'' BudgetExceeded, ex)
      else if (case max_leaf_tokens ex of None \<Rightarrow> False | Some m \<Rightarrow> m \<le> leaf_tokens_used ex)
          \<or> max_tokens (leaf_budget spec) = Some 0 then
        (budget_stop ''mock workflow leaf token budget exhausted'' BudgetExceeded, ex)
      else
        (let ex1 = ex\<lparr>leaf_steps_executed := sat_add (leaf_steps_executed ex) 1\<rparr>;
             outcome = (case bm_get (leaf_outcomes ex1) (leaf_id spec) of
                          Some out \<Rightarrow> out
                        | None \<Rightarrow> outcome_succeeded (''mock leaf '' @ leaf_id spec));
             ex2 = ex1\<lparr>leaf_outcomes := bm_remove (leaf_id spec) (leaf_outcomes ex1)\<rparr>;
             tokens = total_tokens (mo_usage outcome)
         in case max_tokens (leaf_budget spec) of
              Some cap \<Rightarrow>
                if cap < tokens then
                  (outcome\<lparr>mo_status := BudgetExceeded,
                     mo_output := Some (''mock workflow leaf token budget exhausted ('' @
                       show_nat (unat tokens) @ '' > '' @ show_nat (unat cap) @ '')'')\<rparr>, ex2)
                else (outcome, ex2\<lparr>leaf_tokens_used := sat_add (leaf_tokens_used ex2) tokens\<rparr>)
            | None \<Rightarrow> (outcome, ex2\<lparr>leaf_tokens_used := sat_add (leaf_tokens_used ex2) tokens\<rparr>)))"

definition next_predicate_result :: "string \<Rightarrow> mock_executor \<Rightarrow> bool \<times> mock_executor" where
  "next_predicate_result nid ex =
     (case bm_get (predicate_results ex) nid of
        None \<Rightarrow> (False, ex)
      | Some [] \<Rightarrow> (False, ex)
      | Some (r # rs) \<Rightarrow> (r, ex\<lparr>predicate_results := bm_insert nid rs (predicate_results ex)\<rparr>))"

definition push_control :: "control_node_result \<Rightarrow> workflow_execution \<Rightarrow> workflow_execution" where
  "push_control c e = e\<lparr>control_node_results := control_node_results e @ [c]\<rparr>"

definition leaf_result_of :: "leaf_spec \<Rightarrow> mock_leaf_outcome \<Rightarrow> leaf_result" where
  "leaf_result_of spec out =
     \<lparr>lr_leaf_id = leaf_id spec, lr_task_id = leaf_id spec, lr_role = leaf_role spec,
      lr_profile = leaf_profile spec, lr_status = mo_status out, lr_usage = mo_usage out,
      lr_memo_usage = mo_memo_usage out, lr_output = mo_output out,
      lr_artifacts = mo_artifacts out, lr_schema_error = None\<rparr>"

definition execute_leaf ::
    "leaf_spec \<Rightarrow> mock_executor \<Rightarrow> workflow_execution \<Rightarrow> mock_executor \<times> workflow_execution" where
  "execute_leaf spec ex e =
     (let (out, ex') = mock_leaf_outcome spec ex;
          e1 = mark_execution_for_status e (mo_status out);
          e2 = e1\<lparr>ex_usage := usage_add (ex_usage e1) (mo_usage out),
                  ex_memo_usage := memo_add (ex_memo_usage e1) (mo_memo_usage out)\<rparr>
      in (ex', e2\<lparr>leaf_results := leaf_results e2 @ [leaf_result_of spec out]\<rparr>))"

text \<open>What \<open>execute_branch_set\<close> does after its children ran: \<open>before\<close> is the number of leaf
  results there were when it started.\<close>

definition finish_branch_set ::
    "branch_spec \<Rightarrow> workflow_node list \<Rightarrow> nat \<Rightarrow> workflow_execution \<Rightarrow> workflow_execution" where
  "finish_branch_set spec children before e =
     (let slice = drop before (leaf_results e);
          status = aggregate_mock_status slice;
          usage = foldl (\<lambda>u r. usage_add u (lr_usage r)) usage_default slice;
          memo = foldl (\<lambda>u r. memo_add u (lr_memo_usage r)) memo_default slice;
          e1 = mark_execution_for_status e status;
          e2 = e1\<lparr>branch_results := branch_results e1 @
                 [\<lparr>br_branch_id = branch_id spec, br_task_id = branch_id spec, br_status = status,
                   br_usage = usage, br_memo_usage = memo, br_artifacts = [],
                   br_notes = Some ''mock branch set executed without runtime fanout''\<rparr>]\<rparr>
      in push_control
           \<lparr>cr_node_id = branch_id spec, cr_kind = KBranchSet, cr_status = status,
            cr_selected_children = map node_id children,
            cr_summary = Some ''branch set scaffold executed children deterministically''\<rparr> e2)"

definition loop_status :: "workflow_execution \<Rightarrow> bool \<Rightarrow> run_status" where
  "loop_status e passed =
     (if should_stop e then ex_status e else if passed then Succeeded else Failed)"

definition finish_loop_until ::
    "loop_until_spec \<Rightarrow> workflow_node list \<Rightarrow> u32 \<Rightarrow> bool \<Rightarrow> workflow_execution \<Rightarrow> workflow_execution" where
  "finish_loop_until spec children iterations passed e =
     (let status = loop_status e passed;
          e1 = mark_execution_for_status e status
      in push_control
           \<lparr>cr_node_id = loop_id spec, cr_kind = KLoopUntil, cr_status = status,
            cr_selected_children = map node_id children,
            cr_summary = Some (''loop_until iterations='' @ show_nat (unat iterations))\<rparr> e1)"

definition finish_cond ::
    "cond_spec \<Rightarrow> workflow_node list \<Rightarrow> bool \<Rightarrow> workflow_execution \<Rightarrow> workflow_execution" where
  "finish_cond spec selected passed e =
     push_control
       \<lparr>cr_node_id = cond_id spec, cr_kind = KCond,
        cr_status = (if should_stop e then ex_status e else Succeeded),
        cr_selected_children = map node_id selected,
        cr_summary = Some (''predicate_result='' @ show_bool passed)\<rparr> e"

definition finish_expand ::
    "expand_spec \<Rightarrow> workflow_node list \<Rightarrow> workflow_execution \<Rightarrow> workflow_execution" where
  "finish_expand spec nodes e =
     push_control
       \<lparr>cr_node_id = expand_id spec, cr_kind = KExpand,
        cr_status = (if should_stop e then ex_status e else Succeeded),
        cr_selected_children = map node_id nodes,
        cr_summary = Some (''expanded_from='' @ expand_source spec)\<rparr> e"

definition sequence_result :: "sequence_spec \<Rightarrow> workflow_node list \<Rightarrow> run_status \<Rightarrow> control_node_result" where
  "sequence_result spec children st =
     \<lparr>cr_node_id = sequence_id spec, cr_kind = KSequence, cr_status = st,
      cr_selected_children = map node_id children,
      cr_summary = Some ''sequence executed in declaration order''\<rparr>"

definition reduce_result :: "reduce_spec \<Rightarrow> control_node_result" where
  "reduce_result spec =
     \<lparr>cr_node_id = reduce_id spec, cr_kind = KReduce, cr_status = Succeeded,
      cr_selected_children = reduce_inputs spec, cr_summary = Some (reduce_prompt spec)\<rparr>"

definition review_result :: "teacher_review_spec \<Rightarrow> control_node_result" where
  "review_result spec =
     \<lparr>cr_node_id = review_id spec, cr_kind = KTeacherReview, cr_status = Succeeded,
      cr_selected_children = review_candidates spec,
      cr_summary = Some ''teacher review scaffold selected declared candidates''\<rparr>"

text \<open>\<open>generated_nodes.remove(id).unwrap_or_default()\<close>, cut to \<open>max_children\<close>.\<close>

definition take_generated ::
    "expand_spec \<Rightarrow> mock_executor \<Rightarrow> workflow_node list \<times> mock_executor" where
  "take_generated spec ex =
     (let nodes = (case bm_get (generated_nodes ex) (expand_id spec) of None \<Rightarrow> [] | Some ns \<Rightarrow> ns);
          ex' = ex\<lparr>generated_nodes := bm_remove (expand_id spec) (generated_nodes ex)\<rparr>
      in (case max_children spec of None \<Rightarrow> nodes | Some n \<Rightarrow> take (unat n) nodes, ex'))"

section \<open>The tree walk\<close>

datatype mock_result =
    MDone mock_executor workflow_execution
  | MErr mock_executor workflow_execution wf_error
  | MFuel

text \<open>\<open>execute_loop\<close> is the \<open>while\<close> of \<open>execute_loop_until\<close>: the rounds left, the iterations done,
  and in its result the iterations and whether the condition passed.\<close>

function (sequential) execute_node :: "nat \<Rightarrow> workflow_node \<Rightarrow> mock_executor \<Rightarrow> workflow_execution \<Rightarrow> mock_result"
  and execute_nodes :: "nat \<Rightarrow> workflow_node list \<Rightarrow> mock_executor \<Rightarrow> workflow_execution \<Rightarrow> mock_result"
  and execute_loop :: "nat \<Rightarrow> loop_until_spec \<Rightarrow> workflow_node list \<Rightarrow> nat \<Rightarrow> u32 \<Rightarrow> mock_executor
        \<Rightarrow> workflow_execution \<Rightarrow> mock_result \<times> u32 \<times> bool" where
  "execute_node f (BranchSet spec children) ex e =
     (let before = length (leaf_results e) in
      case execute_nodes f children ex e of
        MDone ex' e' \<Rightarrow> MDone ex' (finish_branch_set spec children before e')
      | r \<Rightarrow> r)"
| "execute_node f (Leaf spec) ex e = (case execute_leaf spec ex e of (ex', e') \<Rightarrow> MDone ex' e')"
| "execute_node f (Sequence spec children) ex e =
     (case execute_nodes f children ex e of
        MDone ex' e' \<Rightarrow> MDone ex' (push_control (sequence_result spec children (ex_status e')) e')
      | r \<Rightarrow> r)"
| "execute_node f (Reduce spec) ex e = MDone ex (push_control (reduce_result spec) e)"
| "execute_node f (TeacherReview spec) ex e = MDone ex (push_control (review_result spec) e)"
| "execute_node f (LoopUntil spec children) ex e =
     (case execute_loop f spec children (loop_rounds spec) 0 ex e of
        (MDone ex' e', iterations, passed) \<Rightarrow>
           MDone ex' (finish_loop_until spec children iterations passed e')
      | (r, _) \<Rightarrow> r)"
| "execute_node f (Cond spec then_nodes else_nodes) ex e =
     (case next_predicate_result (cond_id spec) ex of
        (passed, ex1) \<Rightarrow>
          (if passed then
             (case execute_nodes f then_nodes ex1 e of
                MDone ex' e' \<Rightarrow> MDone ex' (finish_cond spec then_nodes True e')
              | r \<Rightarrow> r)
           else
             (case execute_nodes f else_nodes ex1 e of
                MDone ex' e' \<Rightarrow> MDone ex' (finish_cond spec else_nodes False e')
              | r \<Rightarrow> r)))"
| "execute_node 0 (Expand spec tmpl) ex e = MFuel"
| "execute_node (Suc f) (Expand spec tmpl) ex e =
     (case take_generated spec ex of
        (nodes, ex1) \<Rightarrow>
          (case validate_workflow_node_shapes nodes of
             Inl err \<Rightarrow> MErr ex1 e err
           | Inr _ \<Rightarrow>
               (case execute_nodes f nodes ex1 e of
                  MDone ex' e' \<Rightarrow> MDone ex' (finish_expand spec nodes e')
                | r \<Rightarrow> r)))"
| "execute_nodes f [] ex e = MDone ex e"
| "execute_nodes f (node # nodes) ex e =
     (if should_stop e then MDone ex e
      else case execute_node f node ex e of
        MDone ex' e' \<Rightarrow> execute_nodes f nodes ex' e'
      | r \<Rightarrow> r)"
| "execute_loop f spec children 0 iterations ex e = (MDone ex e, iterations, False)"
| "execute_loop f spec children (Suc rounds) iterations ex e =
     (if should_stop e then (MDone ex e, iterations, False)
      else case execute_nodes f children ex e of
        MDone ex' e' \<Rightarrow>
          (if should_stop e' then (MDone ex' e', iterations + 1, False)
           else case next_predicate_result (loop_id spec) ex' of
             (True, ex'') \<Rightarrow> (MDone ex'' e', iterations + 1, True)
           | (False, ex'') \<Rightarrow> execute_loop f spec children rounds (iterations + 1) ex'' e')
      | r \<Rightarrow> (r, iterations + 1, False))"
  by pat_completeness auto
termination
  by (relation "measures
       [(\<lambda>x. case x of Inl (f, _) \<Rightarrow> f | Inr (Inl (f, _)) \<Rightarrow> f | Inr (Inr (f, _)) \<Rightarrow> f),
        (\<lambda>x. case x of Inl (_, n, _) \<Rightarrow> 3 * size n
           | Inr (Inl (_, ns, _)) \<Rightarrow> 3 * size_list size ns + 1
           | Inr (Inr (_, _, ns, _)) \<Rightarrow> 3 * size_list size ns + 2),
        (\<lambda>x. case x of Inr (Inr (_, _, _, rounds, _)) \<Rightarrow> rounds | _ \<Rightarrow> 0)]") auto

definition mock_run :: "workflow_spec \<Rightarrow> mock_executor \<Rightarrow> mock_result" where
  "mock_run spec ex =
     (case validate_workflow_nodes (spec_nodes spec) of
        Inl err \<Rightarrow> MErr ex execution_default err
      | Inr _ \<Rightarrow> execute_nodes (Suc (length (generated_nodes ex))) (spec_nodes spec) ex
                  execution_default)"

end
