(* ===== verification/Mock_Run.thy ===== *)
theory Mock_Run
  imports Mock_Executor
begin

text \<open>
  The runs of the executor as a step relation and what holds along them. \<open>mock_steps\<close> has one rule
  for each thing the tree walk does to the executor and the log; \<open>execute_sound\<close> shows, by one
  induction over the walk, that whatever state it ends in (an error included) is reached by such
  steps. Invariants are then proved by rule induction: first the rule of the stop statuses, then,
  in the locale \<open>mock_invariant\<close>, any property the single steps keep; each use of it is an
  interpretation.
\<close>

section \<open>The step relation\<close>

type_synonym mock_state = "mock_executor \<times> workflow_execution"

inductive mock_steps :: "mock_state \<Rightarrow> mock_state \<Rightarrow> bool" where
  steps_refl: "mock_steps s s"
| steps_leaf: "mock_steps s (ex, e) \<Longrightarrow> \<not> should_stop e \<Longrightarrow> mock_steps s (execute_leaf spec ex e)"
| steps_control: "mock_steps s (ex, e) \<Longrightarrow> mock_steps s (ex, push_control c e)"
| steps_predicate: "mock_steps s (ex, e) \<Longrightarrow> mock_steps s (snd (next_predicate_result nid ex), e)"
| steps_expand: "mock_steps s (ex, e) \<Longrightarrow> mock_steps s (snd (take_generated xspec ex), e)"
| steps_branch: "mock_steps s (ex0, e0) \<Longrightarrow> \<not> should_stop e0 \<Longrightarrow> mock_steps (ex0, e0) (ex, e) \<Longrightarrow>
     mock_steps s (ex, finish_branch_set bspec children (length (leaf_results e0)) e)"
| steps_loop: "mock_steps s (ex, e) \<Longrightarrow>
     mock_steps s (ex, finish_loop_until lspec children n passed e)"

inductive_cases mock_steps_cases: "mock_steps s s'"

lemma mock_steps_trans: "mock_steps b c \<Longrightarrow> mock_steps a b \<Longrightarrow> mock_steps a c"
  by (induction rule: mock_steps.induct) (auto intro: mock_steps.intros)

fun result_state :: "mock_result \<Rightarrow> mock_state option" where
  "result_state (MDone ex e) = Some (ex, e)"
| "result_state (MErr ex e _) = Some (ex, e)"
| "result_state MFuel = None"

lemma finish_steps:
  "mock_steps s (ex, e) \<Longrightarrow> mock_steps s (ex, finish_cond cspec nodes passed e)"
  "mock_steps s (ex, e) \<Longrightarrow> mock_steps s (ex, finish_expand xspec nodes e)"
  by (simp_all add: finish_cond_def finish_expand_def steps_control)

lemma predicate_steps: "next_predicate_result nid ex = (r, ex') \<Longrightarrow> mock_steps (ex, e) (ex', e)"
  by (metis steps_predicate steps_refl snd_conv)

lemma generated_steps: "take_generated xspec ex = (nodes, ex') \<Longrightarrow> mock_steps (ex, e) (ex', e)"
  by (metis steps_expand steps_refl snd_conv)

lemma execute_sound:
  "\<not> should_stop e \<Longrightarrow> result_state (execute_node f node ex e) = Some s' \<Longrightarrow> mock_steps (ex, e) s'"
  "result_state (execute_nodes f nodes ex e) = Some s' \<Longrightarrow> mock_steps (ex, e) s'"
  "result_state (fst (execute_loop f spec nodes rounds n ex e)) = Some s' \<Longrightarrow> mock_steps (ex, e) s'"
proof (induction f node ex e and f nodes ex e and f spec nodes rounds n ex e
    arbitrary: s' and s' and s' rule: execute_node_execute_nodes_execute_loop.induct)
  case (1 f spec children ex e)
  then show ?case
    by (cases "execute_nodes f children ex e") (auto intro: steps_branch [OF steps_refl])
next
  case (2 f spec ex e)
  then show ?case by (auto intro: steps_leaf steps_refl split: prod.splits)
next
  case (3 f spec children ex e)
  then show ?case
    by (cases "execute_nodes f children ex e") (auto intro: steps_control)
next
  case (6 f spec children ex e)
  then show ?case
    by (cases "execute_loop f spec children (loop_rounds spec) 0 ex e")
      (auto intro: steps_loop split: mock_result.splits)
next
  case (7 f spec ts es ex e)
  obtain passed ex1 where p: "next_predicate_result (cond_id spec) ex = (passed, ex1)"
    by (cases "next_predicate_result (cond_id spec) ex")
  note pre = predicate_steps [OF p, of e]
  from 7 p show ?case
    by (cases "execute_nodes f (if passed then ts else es) ex1 e"; cases passed)
      (auto intro!: mock_steps_trans [OF _ pre] finish_steps)
next
  case (9 f spec tmpl ex e)
  obtain nodes ex1 where g: "take_generated spec ex = (nodes, ex1)"
    by (cases "take_generated spec ex")
  note pre = generated_steps [OF g, of e]
  from 9 g pre show ?case
    by (cases "validate_workflow_node_shapes nodes"; cases "execute_nodes f nodes ex1 e")
      (auto intro!: mock_steps_trans [OF _ pre] finish_steps)
next
  case (11 f node nodes ex e)
  then show ?case
    by (cases "execute_node f node ex e"; cases s')
      (auto intro: steps_refl mock_steps_trans split: if_splits)
next
  case (13 f spec children rounds iterations ex e)
  show ?case
  proof (cases "should_stop e")
    case True
    with 13 show ?thesis by (auto intro: steps_refl)
  next
    case run: False
    show ?thesis
    proof (cases "execute_nodes f children ex e")
      case (MDone ex' e')
      with 13(1) [OF run] have pre: "mock_steps (ex, e) (ex', e')" by simp
      obtain r ex'' where p: "next_predicate_result (loop_id spec) ex' = (r, ex'')"
        by (cases "next_predicate_result (loop_id spec) ex'")
      note pre' = mock_steps_trans [OF predicate_steps [OF p, of e'] pre]
      have "mock_steps (ex'', e') s'" if "\<not> should_stop e'" "\<not> r"
          "result_state (fst (execute_loop f spec children rounds (iterations + 1) ex'' e')) = Some s'"
        by (rule 13(2) [OF run MDone that(1) p [symmetric]]) (use that in simp_all)
      then show ?thesis
        using 13(3) run MDone p pre pre' by (cases "should_stop e'"; cases r)
          (auto intro: mock_steps_trans)
    qed (use 13 run in auto)
  qed
qed (auto intro: steps_refl steps_control)

lemma mock_run_sound:
  "result_state (mock_run spec ex) = Some s' \<Longrightarrow> mock_steps (ex, execution_default) s'"
  by (auto simp: mock_run_def intro: steps_refl execute_sound(2) split: sum.splits)

section \<open>The rule of the stop statuses\<close>

text \<open>A run is stopped (cancelled or out of budget) exactly when its last leaf was, and no leaf
  before it was.\<close>

definition stopping :: "run_status \<Rightarrow> bool" where
  "stopping st \<longleftrightarrow> st = Cancelled \<or> st = BudgetExceeded"

definition calm :: "leaf_result list \<Rightarrow> bool" where
  "calm rs = list_all (\<lambda>r. \<not> stopping (lr_status r)) rs"

definition stop_ok :: "workflow_execution \<Rightarrow> bool" where
  "stop_ok e \<longleftrightarrow>
     (if should_stop e then
        leaf_results e \<noteq> [] \<and> calm (butlast (leaf_results e)) \<and>
        lr_status (last (leaf_results e)) = ex_status e
      else calm (leaf_results e))"

lemma should_stop_stopping: "should_stop e = stopping (ex_status e)"
  by (simp add: should_stop_def stopping_def)

lemma mark_status: "ex_status (mark_execution_for_status e st) =
    (if st \<in> {Succeeded, Pending, Running} then ex_status e else st)"
  by (cases st) (simp_all add: mark_failed_def mark_cancelled_def mark_budget_exceeded_def
      mark_replay_diverged_def)

lemma mark_frame [simp]:
  "leaf_results (mark_execution_for_status e st) = leaf_results e"
  "branch_results (mark_execution_for_status e st) = branch_results e"
  "control_node_results (mark_execution_for_status e st) = control_node_results e"
  "ex_usage (mark_execution_for_status e st) = ex_usage e"
  "ex_memo_usage (mark_execution_for_status e st) = ex_memo_usage e"
  by (cases st; simp add: mark_failed_def mark_cancelled_def mark_budget_exceeded_def
      mark_replay_diverged_def)+

lemma push_control_frame [simp]:
  "leaf_results (push_control c e) = leaf_results e"
  "branch_results (push_control c e) = branch_results e"
  "ex_usage (push_control c e) = ex_usage e"
  "ex_memo_usage (push_control c e) = ex_memo_usage e"
  "ex_status (push_control c e) = ex_status e"
  "should_stop (push_control c e) = should_stop e"
  by (simp_all add: push_control_def should_stop_def)

lemma finish_branch_frame [simp]:
  "leaf_results (finish_branch_set spec children n e) = leaf_results e"
  "ex_usage (finish_branch_set spec children n e) = ex_usage e"
  "ex_memo_usage (finish_branch_set spec children n e) = ex_memo_usage e"
  "ex_status (finish_branch_set spec children n e) =
     ex_status (mark_execution_for_status e (aggregate_mock_status (drop n (leaf_results e))))"
  by (simp_all add: finish_branch_set_def Let_def)

lemma finish_loop_frame [simp]:
  "leaf_results (finish_loop_until spec children n passed e) = leaf_results e"
  "branch_results (finish_loop_until spec children n passed e) = branch_results e"
  "ex_usage (finish_loop_until spec children n passed e) = ex_usage e"
  "ex_memo_usage (finish_loop_until spec children n passed e) = ex_memo_usage e"
  "ex_status (finish_loop_until spec children n passed e) =
     ex_status (mark_execution_for_status e (loop_status e passed))"
  by (simp_all add: finish_loop_until_def Let_def)

lemma finish_loop_stop [simp]:
  "should_stop (finish_loop_until spec children n passed e) = should_stop e"
  "should_stop e \<Longrightarrow> ex_status (mark_execution_for_status e (loop_status e passed)) = ex_status e"
  by (auto simp: should_stop_stopping loop_status_def mark_status stopping_def)

lemma execute_leaf_log:
  assumes "execute_leaf spec ex e = (ex', e')" and "mock_leaf_outcome spec ex = (out, ex1)"
  shows "ex' = ex1" and "leaf_results e' = leaf_results e @ [leaf_result_of spec out]"
    and "ex_usage e' = usage_add (ex_usage e) (mo_usage out)"
    and "ex_memo_usage e' = memo_add (ex_memo_usage e) (mo_memo_usage out)"
    and "ex_status e' = ex_status (mark_execution_for_status e (mo_status out))"
    and "branch_results e' = branch_results e"
    and "control_node_results e' = control_node_results e"
  using assms by (auto simp: execute_leaf_def Let_def)

lemma leaf_result_of_simps [simp]:
  "lr_status (leaf_result_of spec out) = mo_status out"
  "lr_usage (leaf_result_of spec out) = mo_usage out"
  "lr_memo_usage (leaf_result_of spec out) = mo_memo_usage out"
  "lr_leaf_id (leaf_result_of spec out) = leaf_id spec"
  by (simp_all add: leaf_result_of_def)

lemma calm_simps [simp]: "calm []" "calm (r # rs) \<longleftrightarrow> \<not> stopping (lr_status r) \<and> calm rs"
  "calm (rs @ rs') \<longleftrightarrow> calm rs \<and> calm rs'"
  by (simp_all add: calm_def)

lemma aggregate_calm: "calm rs \<Longrightarrow> aggregate_mock_status rs \<in> {Succeeded, Failed}"
  by (auto simp: calm_def aggregate_mock_status_def list_ex_iff list_all_iff stopping_def)

lemma aggregate_stopped:
  "calm rs \<Longrightarrow> stopping (lr_status r) \<Longrightarrow> aggregate_mock_status (rs @ [r]) = lr_status r"
  by (auto simp: calm_def aggregate_mock_status_def list_ex_iff list_all_iff stopping_def)

lemma mock_steps_leaf_prefix:
  "mock_steps s s' \<Longrightarrow> prefix (leaf_results (snd s)) (leaf_results (snd s'))"
proof (induction rule: mock_steps.induct)
  case (steps_leaf s ex e spec)
  obtain ex' e' where "execute_leaf spec ex e = (ex', e')"
    by (cases "execute_leaf spec ex e")
  moreover obtain out ex1 where "mock_leaf_outcome spec ex = (out, ex1)"
    by (cases "mock_leaf_outcome spec ex")
  ultimately show ?case using steps_leaf.IH
    by (auto simp: execute_leaf_log intro: prefix_order.trans)
qed (auto intro: prefix_order.trans)

lemma stop_ok_branch:
  fixes spec :: branch_spec and children :: "workflow_node list"
  assumes e0: "stop_ok e0" "\<not> should_stop e0" and e: "stop_ok e"
    and pre: "prefix (leaf_results e0) (leaf_results e)"
  defines "e' \<equiv> finish_branch_set spec children (length (leaf_results e0)) e"
  shows "stop_ok e' \<and> should_stop e' = should_stop e"
proof -
  let ?slice = "drop (length (leaf_results e0)) (leaf_results e)"
  from pre have split: "leaf_results e = leaf_results e0 @ ?slice"
    by (auto simp: prefix_def)
  have calm0: "calm (leaf_results e0)" using e0 by (simp add: stop_ok_def)
  show ?thesis
  proof (cases "should_stop e")
    case False
    with e have "calm ?slice" using split by (metis calm_simps(3) stop_ok_def)
    then have agg: "aggregate_mock_status ?slice \<in> {Succeeded, Failed}" by (rule aggregate_calm)
    then have "\<not> should_stop e'" using False
      by (auto simp: e'_def should_stop_stopping mark_status stopping_def)
    with False e show ?thesis by (simp add: stop_ok_def e'_def)
  next
    case True
    let ?r = "last (leaf_results e)"
    from True e have r: "leaf_results e = butlast (leaf_results e) @ [?r]"
        "calm (butlast (leaf_results e))" "lr_status ?r = ex_status e"
      by (auto simp: stop_ok_def)
    have st: "stopping (lr_status ?r)" using True r(3) by (simp add: should_stop_stopping)
    have "?slice \<noteq> []"
    proof
      assume "?slice = []"
      with split calm0 have "calm (leaf_results e)" by simp
      with r(1) st show False by (metis calm_simps(2,3))
    qed
    then have sl: "?slice = butlast ?slice @ [?r]"
      using split by (metis append_butlast_last_id last_appendR)
    have "calm (butlast ?slice)"
      using r(2) split \<open>?slice \<noteq> []\<close> by (metis butlast_append calm_simps(3))
    from aggregate_stopped [OF this st] sl have "aggregate_mock_status ?slice = ex_status e"
      using r(3) by simp
    then have "ex_status e' = ex_status e" by (simp add: e'_def mark_status)
    with True e show ?thesis by (simp add: stop_ok_def e'_def should_stop_stopping)
  qed
qed

lemma stop_ok_leaf:
  assumes "stop_ok e" "\<not> should_stop e"
  shows "stop_ok (snd (execute_leaf spec ex e))"
proof -
  obtain ex' e' where x: "execute_leaf spec ex e = (ex', e')"
    by (cases "execute_leaf spec ex e")
  obtain out ex1 where o: "mock_leaf_outcome spec ex = (out, ex1)"
    by (cases "mock_leaf_outcome spec ex")
  note log = execute_leaf_log [OF x o]
  show ?thesis using assms
    by (auto simp: x stop_ok_def log should_stop_stopping mark_status stopping_def)
qed

lemma mock_steps_stop_ok: "mock_steps s s' \<Longrightarrow> stop_ok (snd s) \<Longrightarrow> stop_ok (snd s')"
proof (induction rule: mock_steps.induct)
  case (steps_leaf s ex e spec)
  then show ?case by (simp add: stop_ok_leaf)
next
  case (steps_branch s ex0 e0 ex e bspec children)
  then show ?case
    using stop_ok_branch mock_steps_leaf_prefix [OF steps_branch.hyps(3)] by simp
next
  case (steps_loop s ex e lspec children n passed)
  then show ?case by (auto simp: stop_ok_def)
qed (auto simp: stop_ok_def)

section \<open>Invariants of the steps\<close>

text \<open>A property the single steps keep holds in every state a run reaches.\<close>

locale mock_invariant =
  fixes I :: "mock_state \<Rightarrow> bool"
  assumes leaf: "I (ex, e) \<Longrightarrow> \<not> should_stop e \<Longrightarrow> I (execute_leaf spec ex e)"
    and control: "I (ex, e) \<Longrightarrow> I (ex, push_control c e)"
    and predicate: "I (ex, e) \<Longrightarrow> I (snd (next_predicate_result nid ex), e)"
    and expand: "I (ex, e) \<Longrightarrow> I (snd (take_generated xspec ex), e)"
    and branch: "I (ex0, e0) \<Longrightarrow> I (ex, e) \<Longrightarrow> \<not> should_stop e0 \<Longrightarrow> mock_steps (ex0, e0) (ex, e) \<Longrightarrow>
      I (ex, finish_branch_set bspec children (length (leaf_results e0)) e)"
    and loop: "I (ex, e) \<Longrightarrow> I (ex, finish_loop_until lspec children n passed e)"
begin

lemma steps: "mock_steps s s' \<Longrightarrow> I s \<Longrightarrow> I s'"
  by (induction rule: mock_steps.induct)
    (simp_all add: leaf control predicate expand branch loop)

lemma nodes: "result_state (execute_nodes f ns ex e) = Some s' \<Longrightarrow> I (ex, e) \<Longrightarrow> I s'"
  by (rule steps [OF execute_sound(2)])

lemma node:
  "result_state (execute_node f n ex e) = Some s' \<Longrightarrow> \<not> should_stop e \<Longrightarrow> I (ex, e) \<Longrightarrow> I s'"
  by (rule steps [OF execute_sound(1)])

lemma run:
  assumes "result_state (mock_run spec ex) = Some s'" and "I (ex, execution_default)"
  shows "I s'"
  using assms mock_run_sound steps by blast

end

text \<open>The same with the stop rule at hand: \<open>finish_branch_set\<close> then neither stops a run nor
  restarts it.\<close>

locale mock_stop_invariant =
  fixes J :: "mock_state \<Rightarrow> bool"
  assumes leaf_J: "J (ex, e) \<Longrightarrow> \<not> should_stop e \<Longrightarrow> J (execute_leaf spec ex e)"
    and control_J: "J (ex, e) \<Longrightarrow> J (ex, push_control c e)"
    and predicate_J: "J (ex, e) \<Longrightarrow> J (snd (next_predicate_result nid ex), e)"
    and expand_J: "J (ex, e) \<Longrightarrow> J (snd (take_generated xspec ex), e)"
    and branch_J: "J (ex, e) \<Longrightarrow>
      should_stop (finish_branch_set bspec children before e) = should_stop e \<Longrightarrow>
      J (ex, finish_branch_set bspec children before e)"
    and loop_J: "J (ex, e) \<Longrightarrow> J (ex, finish_loop_until lspec children n passed e)"

sublocale mock_stop_invariant \<subseteq> stopped: mock_invariant "\<lambda>s. stop_ok (snd s) \<and> J s"
proof (unfold_locales, goal_cases)
  case (1 ex e spec)
  then show ?case by (simp add: stop_ok_leaf leaf_J)
next
  case (5 ex0 e0 ex e bspec children)
  then have pre: "prefix (leaf_results e0) (leaf_results e)"
    using mock_steps_leaf_prefix [of "(ex0, e0)" "(ex, e)"] by simp
  from 5 show ?case
    using stop_ok_branch [OF _ _ _ pre, of bspec children] by (simp add: branch_J)
next
  case (6 ex e lspec children n passed)
  then show ?case
    using mock_steps_stop_ok [OF steps_loop [OF steps_refl [of "(ex, e)"]]] by (simp add: loop_J)
qed (auto simp: control_J predicate_J expand_J stop_ok_def)

lemma execution_default_simps [simp]:
  "leaf_results execution_default = []" "branch_results execution_default = []"
  "ex_usage execution_default = usage_default" "ex_memo_usage execution_default = memo_default"
  "ex_status execution_default = Succeeded" "\<not> should_stop execution_default"
  by (simp_all add: execution_default_def should_stop_def)

lemma stop_ok_default [simp]: "stop_ok execution_default"
  by (simp add: stop_ok_def)

end
