(* ===== verification/Workflow_Samples.thy ===== *)
theory Workflow_Samples
  imports Workflow_Types
begin

text \<open>
  Small workflows for the concrete runs of the other theories: specs with the default budget,
  permissions and policies, which only name their nodes.
\<close>

definition plain_budget :: budget_spec where
  "plain_budget = \<lparr>max_steps = None, timeout_secs = None, max_parallel = None, max_tokens = None\<rparr>"

definition plain_permissions :: permission_spec where
  "plain_permissions = \<lparr>allow_write = False, allow_network = False, deny_all_tools = False,
     allowed_tools = [], perm_file_scope = []\<rparr>"

definition plain_policy :: model_policy where
  "plain_policy = \<lparr>policy_provider = None, policy_model = None, fallback_models = []\<rparr>"

definition plain_promotion :: promotion_policy where
  "plain_promotion = \<lparr>strategy = StrategyAll, require_teacher_review = False,
     min_successful_branches = None,
     promotion_gate = \<lparr>min_score_delta = 1, max_cost_delta_microusd = None,
       require_all_tests_pass = True, reject_policy_violations = True, reject_stale_replay = True\<rparr>\<rparr>"

definition plain_leaf :: "string \<Rightarrow> string list \<Rightarrow> leaf_spec" where
  "plain_leaf i deps = \<lparr>leaf_id = i, leaf_prompt = ''go'', leaf_agent_type = General,
     leaf_role = None, leaf_profile = None, leaf_mode = ReadOnly, leaf_isolation = Auto,
     leaf_file_scope = [], leaf_depends_on_results = deps, leaf_budget = plain_budget,
     leaf_permissions = plain_permissions, leaf_model_policy = plain_policy\<rparr>"

definition plain_spec :: "workflow_node list \<Rightarrow> workflow_spec" where
  "plain_spec nodes = \<lparr>spec_id = None, spec_goal = ''demo'', spec_description = None,
     spec_budget = plain_budget, spec_permissions = plain_permissions,
     spec_model_policy = plain_policy, spec_promotion_policy = plain_promotion, spec_gates = [],
     spec_nodes = nodes\<rparr>"

end
