(* ===== verification/Mock_Properties.thy ===== *)
theory Mock_Properties
  imports Mock_Run Workflow_Samples
begin

text \<open>
  What holds of every run of the executor: the fuel is enough, the usage of the log is the sum of
  its leaves, the step budget bounds the leaves, a cancelled executor launches nothing, a stopped
  run ends with the leaf that stopped it, and the Fleet estimate bounds the leaves launched. Each
  invariant is an interpretation of a locale of \<open>Mock_Run\<close>.
\<close>

section \<open>Frames\<close>

lemma mock_leaf_outcome_frame:
  assumes "mock_leaf_outcome spec ex = (out, ex')"
  shows "generated_nodes ex' = generated_nodes ex" and "predicate_results ex' = predicate_results ex"
    and "cancelled ex' = cancelled ex" and "max_leaf_steps ex' = max_leaf_steps ex"
    and "max_leaf_tokens ex' = max_leaf_tokens ex"
  using assms by (auto simp: mock_leaf_outcome_def Let_def split: if_splits option.splits)

lemma execute_leaf_obtain:
  obtains out ex' e' where "mock_leaf_outcome spec ex = (out, ex')"
    and "execute_leaf spec ex e = (ex', e')"
    and "leaf_results e' = leaf_results e @ [leaf_result_of spec out]"
    and "ex_usage e' = usage_add (ex_usage e) (mo_usage out)"
    and "ex_memo_usage e' = memo_add (ex_memo_usage e) (mo_memo_usage out)"
    and "ex_status e' = ex_status (mark_execution_for_status e (mo_status out))"
proof -
  obtain ex1 e1 where x: "execute_leaf spec ex e = (ex1, e1)" by (cases "execute_leaf spec ex e")
  obtain out ex' where o: "mock_leaf_outcome spec ex = (out, ex')"
    by (cases "mock_leaf_outcome spec ex")
  from execute_leaf_log [OF x o] x o that show thesis by auto
qed

lemma next_predicate_frame [simp]:
  "generated_nodes (snd (next_predicate_result nid ex)) = generated_nodes ex"
  "cancelled (snd (next_predicate_result nid ex)) = cancelled ex"
  "leaf_outcomes (snd (next_predicate_result nid ex)) = leaf_outcomes ex"
  "max_leaf_steps (snd (next_predicate_result nid ex)) = max_leaf_steps ex"
  "leaf_steps_executed (snd (next_predicate_result nid ex)) = leaf_steps_executed ex"
  "leaf_tokens_used (snd (next_predicate_result nid ex)) = leaf_tokens_used ex"
  by (auto simp: next_predicate_result_def split: option.splits list.splits)

lemma take_generated_frame [simp]:
  "generated_nodes (snd (take_generated xspec ex)) = bm_remove (expand_id xspec) (generated_nodes ex)"
  "cancelled (snd (take_generated xspec ex)) = cancelled ex"
  "leaf_outcomes (snd (take_generated xspec ex)) = leaf_outcomes ex"
  "max_leaf_steps (snd (take_generated xspec ex)) = max_leaf_steps ex"
  "leaf_steps_executed (snd (take_generated xspec ex)) = leaf_steps_executed ex"
  "leaf_tokens_used (snd (take_generated xspec ex)) = leaf_tokens_used ex"
  by (simp_all add: take_generated_def Let_def)

section \<open>Enough fuel\<close>

interpretation shrink: mock_invariant "\<lambda>s. length (generated_nodes (fst s)) \<le> k" for k
proof (unfold_locales, goal_cases)
  case (1 ex e spec)
  then show ?case by (rule_tac spec = spec and ex = ex and e = e in execute_leaf_obtain)
      (auto simp: mock_leaf_outcome_frame)
qed (use length_bm_remove_le le_trans in fastforce)+

lemma execute_enough_fuel:
  "\<not> should_stop e \<Longrightarrow> length (generated_nodes ex) < f \<Longrightarrow> execute_node f node ex e \<noteq> MFuel"
  "length (generated_nodes ex) < f \<Longrightarrow> execute_nodes f nodes ex e \<noteq> MFuel"
  "length (generated_nodes ex) < f \<Longrightarrow> fst (execute_loop f spec nodes rounds n ex e) \<noteq> MFuel"
proof (induction f node ex e and f nodes ex e and f spec nodes rounds n ex e
    rule: execute_node_execute_nodes_execute_loop.induct)
  case (7 f spec ts es ex e)
  obtain passed ex1 where p: "next_predicate_result (cond_id spec) ex = (passed, ex1)"
    by (cases "next_predicate_result (cond_id spec) ex")
  then have "generated_nodes ex1 = generated_nodes ex"
    using next_predicate_frame(1) [of "cond_id spec" ex] by simp
  with 7 p show ?case by (auto split: mock_result.splits)
next
  case (9 f spec tmpl ex e)
  obtain nodes ex1 where g: "take_generated spec ex = (nodes, ex1)"
    by (cases "take_generated spec ex")
  have gen: "generated_nodes ex1 = bm_remove (expand_id spec) (generated_nodes ex)"
    using g take_generated_frame(1) [of spec ex] by simp
  show ?case
  proof (cases "bm_get (generated_nodes ex) (expand_id spec)")
    case None
    with g have "nodes = []" by (auto simp: take_generated_def Let_def split: option.splits)
    with g show ?thesis by (auto split: sum.splits)
  next
    case (Some ns)
    from length_bm_remove_less [OF this] 9(3) gen have "length (generated_nodes ex1) < f" by simp
    with 9(1) [OF g [symmetric]] g show ?thesis by (auto split: sum.splits mock_result.splits)
  qed
next
  case (11 f node nodes ex e)
  show ?case
  proof (cases "execute_node f node ex e")
    case (MDone ex' e')
    with shrink.node [of f node ex e "(ex', e')" "length (generated_nodes ex)"] 11 show ?thesis
      by (auto split: if_splits)
  qed (use 11 in auto)
next
  case (13 f spec children rounds iterations ex e)
  show ?case
  proof (cases "execute_nodes f children ex e")
    case (MDone ex' e')
    obtain r ex'' where p: "next_predicate_result (loop_id spec) ex' = (r, ex'')"
      by (cases "next_predicate_result (loop_id spec) ex'")
    from shrink.nodes [of f children ex e "(ex', e')" "length (generated_nodes ex)"] MDone 13(3)
    have "length (generated_nodes ex'') < f"
      using next_predicate_frame(1) [of "loop_id spec" ex'] p by simp
    with 13(2) [OF _ MDone _ p [symmetric]] MDone p show ?thesis by (cases r) auto
  qed (use 13 in auto)
qed (auto simp: Let_def split: mock_result.splits prod.splits)

text \<open>
  C34. A run always returns: the fuel \<open>mock_run\<close> starts with (one more than the generated entries) is
  never used up, whatever the workflow, its loops and its generated nodes are.
\<close>

theorem mock_run_total: "mock_run spec ex \<noteq> MFuel"
  using execute_enough_fuel(2) by (auto simp: mock_run_def split: sum.splits)

section \<open>Usage\<close>

definition usage_ok :: "workflow_execution \<Rightarrow> bool" where
  "usage_ok e \<longleftrightarrow>
     ex_usage e = foldl usage_add usage_default (map lr_usage (leaf_results e)) \<and>
     ex_memo_usage e = foldl memo_add memo_default (map lr_memo_usage (leaf_results e))"

interpretation usage: mock_invariant "\<lambda>s. usage_ok (snd s)"
proof (unfold_locales, goal_cases)
  case (1 ex e spec)
  then show ?case by (rule_tac spec = spec and ex = ex and e = e in execute_leaf_obtain)
      (simp add: usage_ok_def)
qed (simp_all add: usage_ok_def)

text \<open>
  In every state a run ends in, the usage of the execution is the (saturating) sum of the usage
  of its leaf results, and so is the memo usage: nothing is counted twice or left out by branches,
  loops or expansions.
\<close>

theorem mock_run_usage:
  assumes "mock_run spec ex = MDone ex' e"
  shows "ex_usage e = foldl usage_add usage_default (map lr_usage (leaf_results e)) \<and>
    ex_memo_usage e = foldl memo_add memo_default (map lr_memo_usage (leaf_results e))"
  using usage.run [of spec ex "(ex', e)"] assms
  by (simp add: usage_ok_def)

section \<open>The step budget\<close>

definition steps_ok :: "u32 \<Rightarrow> nat \<Rightarrow> mock_state \<Rightarrow> bool" where
  "steps_ok m k s \<longleftrightarrow> max_leaf_steps (fst s) = Some m \<and> leaf_steps_executed (fst s) \<le> m \<and>
     length (leaf_results (snd s)) + k
       \<le> unat (leaf_steps_executed (fst s)) + (if should_stop (snd s) then 1 else 0)"

lemma unat_sat_Suc: "a \<noteq> m \<Longrightarrow> a \<le> m \<Longrightarrow> unat (sat_add a 1) = Suc (unat a) \<and> sat_add a 1 \<le> m"
  for a m :: u32
proof -
  assume "a \<noteq> m" "a \<le> m"
  then have "unat a < unat m" by (metis order_less_le word_less_nat_alt)
  moreover have "unat m < 2 ^ 32" using unsigned_less [of m, where 'a = nat] by simp
  ultimately show ?thesis by (simp add: sat_simps word_le_nat_alt)
qed

lemma outcome_steps:
  assumes "mock_leaf_outcome spec ex = (out, ex')" and "max_leaf_steps ex = Some m"
    and "leaf_steps_executed ex \<le> m"
  shows "leaf_steps_executed ex' \<le> m \<and>
    (stopping (mo_status out) \<and> leaf_steps_executed ex' = leaf_steps_executed ex \<or>
     unat (leaf_steps_executed ex') = Suc (unat (leaf_steps_executed ex)))"
  using assms unat_sat_Suc [of "leaf_steps_executed ex" m]
  by (auto simp: mock_leaf_outcome_def Let_def budget_stop_def stopping_def
      split: if_splits option.splits)

interpretation step_budget: mock_stop_invariant "steps_ok m k" for m k
proof (unfold_locales, goal_cases)
  case (1 ex e spec)
  obtain out ex' e' where o: "mock_leaf_outcome spec ex = (out, ex')"
    and x: "execute_leaf spec ex e = (ex', e')"
    and l: "leaf_results e' = leaf_results e @ [leaf_result_of spec out]"
    and st: "ex_status e' = ex_status (mark_execution_for_status e (mo_status out))"
    by (rule execute_leaf_obtain [of spec ex e])
  have "should_stop e'" if "stopping (mo_status out)"
    using that st by (auto simp: should_stop_stopping mark_status stopping_def)
  with outcome_steps [OF o, of m] 1 show ?case
    by (auto simp: steps_ok_def x l mock_leaf_outcome_frame [OF o])
qed (simp_all add: steps_ok_def)

text \<open>
  A step budget bounds the leaves: with \<open>m\<close> steps allowed and \<open>n\<close> of them used before, a run
  logs at most \<open>m - n\<close> leaves, and one more only when it was stopped, which is the leaf the budget
  refused; the count of steps never passes \<open>m\<close>.
\<close>

theorem mock_run_step_budget:
  assumes "mock_run spec ex = MDone ex' e" and "max_leaf_steps ex = Some m"
    and "leaf_steps_executed ex \<le> m"
  shows "length (leaf_results e) \<le>
      unat m - unat (leaf_steps_executed ex) + (if should_stop e then 1 else 0) \<and>
    leaf_steps_executed ex' \<le> m"
proof -
  have "steps_ok m (unat (leaf_steps_executed ex)) (ex', e)"
    using step_budget.stopped.run [of spec ex "(ex', e)" m "unat (leaf_steps_executed ex)"] assms
    by (simp add: steps_ok_def)
  then show ?thesis
    by (auto simp: steps_ok_def word_le_nat_alt)
qed

section \<open>Stopped and cancelled runs\<close>

text \<open>
  A run ends cancelled or out of budget exactly when one of its leaves did, and then that leaf
  is the last one of the log, its status is the status of the run, and no leaf before it was
  stopped: after the first such leaf nothing more is launched.
\<close>

theorem mock_run_stop_rule:
  assumes "mock_run spec ex = MDone ex' e"
  shows "(should_stop e \<longleftrightarrow> list_ex (\<lambda>r. stopping (lr_status r)) (leaf_results e)) \<and>
    (if should_stop e then lr_status (last (leaf_results e)) = ex_status e \<and>
       list_all (\<lambda>r. \<not> stopping (lr_status r)) (butlast (leaf_results e)) else True)"
proof -
  have "mock_steps (ex, execution_default) (ex', e)"
    using mock_run_sound [of spec ex "(ex', e)"] assms by simp
  then have ok: "stop_ok e" using mock_steps_stop_ok by fastforce
  have "list_ex (\<lambda>r. stopping (lr_status r)) (leaf_results e)" if "should_stop e"
  proof -
    from ok that have "last (leaf_results e) \<in> set (leaf_results e)"
      and "stopping (lr_status (last (leaf_results e)))"
      by (auto simp: stop_ok_def should_stop_stopping)
    then show ?thesis by (auto simp: list_ex_iff)
  qed
  with ok show ?thesis
    by (auto simp: stop_ok_def calm_def list_ex_iff list_all_iff)
qed

definition launched_nothing :: "mock_executor \<Rightarrow> mock_state \<Rightarrow> bool" where
  "launched_nothing ex0 s \<longleftrightarrow> cancelled (fst s) \<and> leaf_outcomes (fst s) = leaf_outcomes ex0 \<and>
     leaf_steps_executed (fst s) = leaf_steps_executed ex0 \<and>
     leaf_tokens_used (fst s) = leaf_tokens_used ex0 \<and>
     length (leaf_results (snd s)) \<le> (if should_stop (snd s) then 1 else 0) \<and>
     list_all (\<lambda>r. lr_status r = Cancelled \<and> lr_usage r = usage_default) (leaf_results (snd s))"

lemma cancelled_outcome:
  "cancelled ex \<Longrightarrow> mock_leaf_outcome spec ex =
     (budget_stop ''mock workflow cancelled before leaf execution'' Cancelled, ex)"
  by (simp add: mock_leaf_outcome_def)

interpretation cancelled_run: mock_stop_invariant "launched_nothing ex0" for ex0
proof (unfold_locales, goal_cases)
  case (1 ex e spec)
  obtain out ex' e' where o: "mock_leaf_outcome spec ex = (out, ex')"
    and x: "execute_leaf spec ex e = (ex', e')"
    and l: "leaf_results e' = leaf_results e @ [leaf_result_of spec out]"
    and st: "ex_status e' = ex_status (mark_execution_for_status e (mo_status out))"
    by (rule execute_leaf_obtain [of spec ex e])
  from 1 o have out: "out = budget_stop ''mock workflow cancelled before leaf execution'' Cancelled"
      "ex' = ex"
    by (auto simp: launched_nothing_def cancelled_outcome)
  with st have "should_stop e'"
    by (simp add: should_stop_stopping mark_cancelled_def stopping_def budget_stop_def)
  with 1 l x out show ?case
    by (auto simp: launched_nothing_def budget_stop_def)
qed (simp_all add: launched_nothing_def)

text \<open>
  A cancelled executor launches nothing: a run consumes no prepared outcome, counts no step and
  no token, and logs at most one leaf, marked cancelled, with no usage.
\<close>

theorem mock_run_cancelled:
  assumes "mock_run spec ex = MDone ex' e" and "cancelled ex"
  shows "leaf_outcomes ex' = leaf_outcomes ex \<and>
    leaf_steps_executed ex' = leaf_steps_executed ex \<and>
    leaf_tokens_used ex' = leaf_tokens_used ex \<and> length (leaf_results e) \<le> 1 \<and>
    list_all (\<lambda>r. lr_status r = Cancelled) (leaf_results e) \<and> ex_usage e = usage_default"
proof -
  have inv: "launched_nothing ex (ex', e)"
    using cancelled_run.stopped.run [of spec ex "(ex', e)" ex] assms
    by (simp add: launched_nothing_def)
  have use: "usage_ok e"
    using usage.run [of spec ex "(ex', e)"] assms(1) by (simp add: usage_ok_def)
  from inv have len: "length (leaf_results e) \<le> 1"
    by (auto simp: launched_nothing_def split: if_splits)
  then have "ex_usage e = usage_default"
    using inv use by (cases "leaf_results e") (auto simp: launched_nothing_def usage_ok_def)
  with inv len show ?thesis by (auto simp: launched_nothing_def list_all_iff)
qed

section \<open>The Fleet estimate\<close>

text \<open>
  The estimate counts an expansion by its template, the executor runs the nodes it is given. They
  agree when the nodes generated for an expansion are each no bigger than its template and expand
  no further (\<open>fits\<close>); a run only takes entries away, so this is kept.
\<close>

fun is_expand :: "workflow_node \<Rightarrow> bool" where
  "is_expand (Expand _ _) = True"
| "is_expand _ = False"

fun fits_template :: "workflow_node option \<Rightarrow> usize option \<Rightarrow> workflow_node list \<Rightarrow> bool" where
  "fits_template (Some t) (Some n) ns =
     list_all (\<lambda>g. leaf_bound g \<le> leaf_bound t \<and> list_all (\<lambda>x. \<not> is_expand x) (flat_node g)) ns"
| "fits_template _ _ ns = (ns = [])"

fun node_fits :: "mock_executor \<Rightarrow> workflow_node \<Rightarrow> bool" where
  "node_fits ex (Expand spec tmpl) =
     (case bm_get (generated_nodes ex) (expand_id spec) of
        None \<Rightarrow> True | Some ns \<Rightarrow> fits_template tmpl (max_children spec) ns)"
| "node_fits ex _ = True"

definition fits :: "mock_executor \<Rightarrow> workflow_node list \<Rightarrow> bool" where
  "fits ex nodes = list_all (node_fits ex) (flat_nodes nodes)"

definition gen_within :: "mock_executor \<Rightarrow> mock_executor \<Rightarrow> bool" where
  "gen_within ex ex' \<longleftrightarrow> (\<forall>k ns. bm_get (generated_nodes ex') k = Some ns \<longrightarrow>
     bm_get (generated_nodes ex) k = Some ns)"

interpretation within: mock_invariant "\<lambda>s. gen_within ex0 (fst s)" for ex0
proof (unfold_locales, goal_cases)
  case (1 ex e spec)
  then show ?case by (rule_tac spec = spec and ex = ex and e = e in execute_leaf_obtain)
      (simp add: gen_within_def mock_leaf_outcome_frame)
qed (simp_all add: gen_within_def)

lemma gen_within_refl [simp]: "gen_within ex ex"
  by (simp add: gen_within_def)

lemma node_fits_mono: "gen_within ex ex' \<Longrightarrow> node_fits ex n \<Longrightarrow> node_fits ex' n"
  by (cases n) (auto simp: gen_within_def split: option.splits)

lemma list_fits_mono: "gen_within ex ex' \<Longrightarrow> list_all (node_fits ex) ns \<Longrightarrow> list_all (node_fits ex') ns"
  by (auto simp: list_all_iff intro: node_fits_mono)

lemma no_expand_fits: "\<not> is_expand n \<Longrightarrow> node_fits ex n"
  by (cases n) simp_all

lemma fits_template_bound:
  "fits_template tmpl mc ns \<Longrightarrow> mc = max_children spec \<Longrightarrow>
     leaves_bound (case mc of None \<Rightarrow> ns | Some n \<Rightarrow> take (unat n) ns)
       \<le> leaf_bound (Expand spec tmpl) \<and>
     list_all (\<lambda>x. \<not> is_expand x) (flat_nodes (case mc of None \<Rightarrow> ns | Some n \<Rightarrow> take (unat n) ns))"
proof (induction tmpl mc ns rule: fits_template.induct)
  case (1 t n ns)
  have "leaves_bound (take m ns) \<le> m * leaf_bound t \<and>
      list_all (\<lambda>x. \<not> is_expand x) (flat_nodes (take m ns))" for m
    using 1(1)
  proof (induction ns arbitrary: m)
    case (Cons g ns)
    then show ?case
    proof (cases m)
      case (Suc k)
      with Cons.IH [of k] Cons.prems show ?thesis by simp
    qed simp
  qed simp
  then show ?case using 1(2) [symmetric] by simp
qed (auto split: option.splits)

lemma execute_leaf_count:
  "execute_leaf spec ex e = (ex', e') \<Longrightarrow> length (leaf_results e') = Suc (length (leaf_results e))"
  by (rule execute_leaf_obtain [of spec ex e]) auto

lemma finish_count [simp]:
  "leaf_results (finish_cond cspec nodes passed e) = leaf_results e"
  "leaf_results (finish_expand xspec nodes e) = leaf_results e"
  by (simp_all add: finish_cond_def finish_expand_def)

lemma execute_leaf_bound:
  "\<not> should_stop e \<Longrightarrow> list_all (node_fits ex) (flat_node node) \<Longrightarrow>
     result_state (execute_node f node ex e) = Some (ex', e') \<Longrightarrow>
     length (leaf_results e') \<le> length (leaf_results e) + leaf_bound node"
  "list_all (node_fits ex) (flat_nodes nodes) \<Longrightarrow>
     result_state (execute_nodes f nodes ex e) = Some (ex', e') \<Longrightarrow>
     length (leaf_results e') \<le> length (leaf_results e) + leaves_bound nodes"
  "list_all (node_fits ex) (flat_nodes nodes) \<Longrightarrow>
     result_state (fst (execute_loop f spec nodes rounds n ex e)) = Some (ex', e') \<Longrightarrow>
     length (leaf_results e') \<le> length (leaf_results e) + rounds * leaves_bound nodes"
proof (induction f node ex e and f nodes ex e and f spec nodes rounds n ex e
    arbitrary: ex' e' and ex' e' and ex' e' rule: execute_node_execute_nodes_execute_loop.induct)
  case (1 f spec children ex e)
  then show ?case by (cases "execute_nodes f children ex e") auto
next
  case (3 f spec children ex e)
  then show ?case by (cases "execute_nodes f children ex e") auto
next
  case (6 f spec children ex e)
  then show ?case
    by (cases "execute_loop f spec children (loop_rounds spec) 0 ex e")
      (auto split: mock_result.splits)
next
  case (2 f spec ex e)
  then show ?case by (auto simp: execute_leaf_count split: prod.splits)
next
  case (7 f spec ts es ex e)
  obtain passed ex1 where p: "next_predicate_result (cond_id spec) ex = (passed, ex1)"
    by (cases "next_predicate_result (cond_id spec) ex")
  then have "gen_within ex ex1"
    using next_predicate_frame(1) [of "cond_id spec" ex] by (simp add: gen_within_def)
  then have "list_all (node_fits ex1) (flat_nodes ts)" "list_all (node_fits ex1) (flat_nodes es)"
    using 7(4) by (auto intro: list_fits_mono)
  with 7(1-3,5) p show ?case
    by (cases "execute_nodes f (if passed then ts else es) ex1 e"; cases passed) fastforce+
next
  case (9 f spec tmpl ex e)
  obtain nodes ex1 where g: "take_generated spec ex = (nodes, ex1)"
    by (cases "take_generated spec ex")
  have nodes: "leaves_bound nodes \<le> leaf_bound (Expand spec tmpl)"
      "list_all (node_fits ex1) (flat_nodes nodes)"
    using 9(3) g fits_template_bound [of tmpl "max_children spec" _ spec]
    by (auto simp: take_generated_def Let_def list_all_iff intro!: no_expand_fits
        split: option.splits)
  from 9 g nodes show ?case
    by (cases "validate_workflow_node_shapes nodes"; cases "execute_nodes f nodes ex1 e") fastforce+
next
  case (11 f node nodes ex e)
  show ?case
  proof (cases "execute_node f node ex e")
    case (MDone ex1 e1)
    show ?thesis
    proof (cases "should_stop e")
      case False
      with within.node [of f node ex e "(ex1, e1)" ex] MDone have "gen_within ex ex1" by simp
      with 11 MDone False show ?thesis by (fastforce dest: list_fits_mono)
    qed (use 11 in auto)
  qed (use 11 in \<open>auto split: if_splits\<close>)
next
  case (13 f spec children rounds iterations ex e)
  show ?case
  proof (cases "should_stop e")
    case run: False
    show ?thesis
    proof (cases "execute_nodes f children ex e")
      case (MDone ex1 e1)
      obtain r ex2 where p: "next_predicate_result (loop_id spec) ex1 = (r, ex2)"
        by (cases "next_predicate_result (loop_id spec) ex1")
      have "gen_within ex ex2"
        using within.nodes [of f children ex e "(ex1, e1)" ex] MDone
          next_predicate_frame(1) [of "loop_id spec" ex1] p by (simp add: gen_within_def)
      then have fits2: "list_all (node_fits ex2) (flat_nodes children)"
        using 13(3) by (rule list_fits_mono)
      have step: "length (leaf_results e1) \<le> length (leaf_results e) + leaves_bound children"
        using 13(1) [OF run 13(3)] MDone by simp
      show ?thesis
      proof (cases "should_stop e1 \<or> r")
        case True
        with 13(4) run MDone p step show ?thesis by (cases "should_stop e1"; cases r) auto
      next
        case False
        with 13(4) run MDone p
        have "result_state (fst (execute_loop f spec children rounds (iterations + 1) ex2 e1))
            = Some (ex', e')" by (cases r) simp_all
        with 13(2) [OF run MDone _ p [symmetric] _ fits2] False step show ?thesis by simp
      qed
    qed (use 13 run in auto)
  qed (use 13 in auto)
qed auto

text \<open>
  C35. The Fleet limit holds of what is launched when the generated nodes fit: when
  \<open>validate_for_fleet_with_limits\<close> accepts a workflow with a limit below the largest \<open>usize\<close>, and each node
  generated for an expansion of the workflow has at most as many leaves as the template of the expansion and
  expands no further, a run logs at most the estimated number of leaves, and that is within the limit (1000
  for the default limits). The estimate did not saturate, and loops, both sides of conditions and expansions
  are counted. The executor does not check that generated nodes fit; without it the limit does not hold
  (\<open>unfit_expansion_exceeds\<close>).
\<close>

theorem fleet_limit_bounds_run:
  assumes "validate_for_fleet_with_limits spec limits = Inr shape"
    and "unat (max_total_agents limits) < usize_max"
    and "fits ex (spec_nodes spec)"
    and "mock_run spec ex = MDone ex' e"
  shows "length (leaf_results e) \<le> unat (total_agents shape) \<and>
    unat (total_agents shape) \<le> unat (max_total_agents limits)"
proof -
  from assms(1) have est: "estimate_fleet_shape (spec_nodes spec) = Inr shape"
    and le: "unat (total_agents shape) \<le> unat (max_total_agents limits)"
    by (auto simp: validate_for_fleet_with_limits_def word_le_nat_alt word_less_nat_alt
        split: sum.splits if_splits)
  from estimate_fleet_shape_counts [OF est] le assms(2)
  have total: "unat (total_agents shape) = leaves_bound (spec_nodes spec)"
    by (simp add: min_def split: if_splits)
  have "execute_nodes (Suc (length (generated_nodes ex))) (spec_nodes spec) ex execution_default
      = MDone ex' e"
    using assms(4) by (auto simp: mock_run_def split: sum.splits)
  with execute_leaf_bound(2) [of ex "spec_nodes spec" "Suc (length (generated_nodes ex))"
      execution_default ex' e] assms(3)
  have "length (leaf_results e) \<le> leaves_bound (spec_nodes spec)" by (simp add: fits_def)
  with total le show ?thesis by simp
qed

section \<open>Concrete runs\<close>

text \<open>Two leaves, the second in a loop of two rounds that depends on the first.\<close>

definition demo_spec :: workflow_spec where
  "demo_spec = plain_spec
     [Leaf (plain_leaf ''a'' []),
      LoopUntil \<lparr>loop_id = ''l'', loop_condition = ''done'', max_iterations = Some 2\<rparr>
        [Leaf (plain_leaf ''b'' [''a''])]]"

definition demo_executor :: mock_executor where
  "demo_executor = with_max_leaf_steps 2 mock_executor_new"

fun is_done :: "mock_result \<Rightarrow> bool" where
  "is_done (MDone _ _) = True"
| "is_done _ = False"

lemma is_doneE: "is_done r \<Longrightarrow> \<exists>ex e. r = MDone ex e"
  by (cases r) simp_all

lemma demo_rounds: "max_iterations spec = Some 2 \<Longrightarrow> loop_rounds spec = Suc (Suc 0)"
  by (simp add: loop_rounds_def)

lemmas demo_simps = mock_run_def demo_spec_def demo_executor_def plain_spec_def plain_leaf_def
  plain_budget_def with_max_leaf_steps_def with_cancelled_def mock_executor_new_def
  validate_workflow_nodes_def enter_node_def validate_leaf_def trim_def trim_start_def trim_end_def
  is_ws_def execute_leaf_def mock_leaf_outcome_def execution_default_def should_stop_def
  outcome_succeeded_def demo_rounds Let_def bm_get_def bm_empty_def bm_remove_def total_tokens_def
  usage_default_def sat_add_def next_predicate_result_def mark_budget_exceeded_def
  mark_cancelled_def budget_stop_def

lemma demo_done: "\<exists>ex e. mock_run demo_spec demo_executor = MDone ex e"
  by (rule is_doneE) (simp add: demo_simps)

lemma demo_cancelled_done: "\<exists>ex e. mock_run demo_spec (with_cancelled demo_executor) = MDone ex e"
  by (rule is_doneE) (simp add: demo_simps)

lemma demo_fleet: "validate_for_fleet_with_limits demo_spec fleet_limits_default =
    Inr \<lparr>total_agents = 3, shape_max_depth = 1\<rparr>"
  by (simp add: validate_for_fleet_with_limits_def estimate_fleet_shape_def fleet_limits_default_def
      fleet_shape_default_def shape_add_def shape_repeat_def sat_mul_def demo_simps)

theorem mock_run_usage_witness:
  "\<exists>ex' e. mock_run demo_spec demo_executor = MDone ex' e \<and>
     ex_usage e = foldl usage_add usage_default (map lr_usage (leaf_results e))"
  using demo_done mock_run_usage [of demo_spec demo_executor] by blast

theorem mock_run_step_budget_witness:
  "\<exists>ex' e. mock_run demo_spec demo_executor = MDone ex' e \<and>
     length (leaf_results e) \<le> 2 + (if should_stop e then 1 else 0)"
proof -
  obtain ex' e where r: "mock_run demo_spec demo_executor = MDone ex' e" using demo_done by blast
  have "max_leaf_steps demo_executor = Some 2" "leaf_steps_executed demo_executor = 0"
    by (simp_all add: demo_executor_def with_max_leaf_steps_def mock_executor_new_def)
  with mock_run_step_budget [OF r, of 2] r show ?thesis by auto
qed

theorem mock_run_stop_rule_witness:
  "\<exists>ex' e. mock_run demo_spec demo_executor = MDone ex' e \<and>
     (should_stop e \<longleftrightarrow> list_ex (\<lambda>r. stopping (lr_status r)) (leaf_results e))"
  using demo_done mock_run_stop_rule [of demo_spec demo_executor] by blast

theorem mock_run_cancelled_witness:
  "\<exists>ex' e. mock_run demo_spec (with_cancelled demo_executor) = MDone ex' e \<and>
     length (leaf_results e) \<le> 1 \<and> ex_usage e = usage_default"
proof -
  obtain ex' e where r: "mock_run demo_spec (with_cancelled demo_executor) = MDone ex' e"
    using demo_cancelled_done by blast
  have "cancelled (with_cancelled demo_executor)" by (simp add: with_cancelled_def)
  with mock_run_cancelled [OF r] r show ?thesis by blast
qed

text \<open>An expansion of at most two children, each estimated by a template of one leaf.\<close>

definition split_node :: workflow_node where
  "split_node = Expand \<lparr>expand_id = ''split'', expand_source = ''plan'', max_children = Some 2\<rparr> (Some (Leaf (plain_leaf ''t'' [])))"

definition split_spec :: workflow_spec where
  "split_spec = plain_spec [split_node]"

definition split_executor :: "workflow_node list \<Rightarrow> mock_executor" where
  "split_executor ns = with_generated_nodes ''split'' ns mock_executor_new"

text \<open>Three leaves in two nodes, one of them a sequence.\<close>

definition unfit_nodes :: "workflow_node list" where
  "unfit_nodes = [Sequence \<lparr>sequence_id = ''s''\<rparr> [Leaf (plain_leaf ''a'' []), Leaf (plain_leaf ''b'' [])],
     Leaf (plain_leaf ''c'' [])]"

definition fit_nodes :: "workflow_node list" where
  "fit_nodes = [Leaf (plain_leaf ''a'' []), Leaf (plain_leaf ''b'' [])]"

abbreviation two_agents :: fleet_limits where
  "two_agents \<equiv> \<lparr>max_total_agents = 2, limit_max_depth = 5\<rparr>"

lemma split_accepted:
  "validate_for_fleet_with_limits split_spec two_agents = Inr \<lparr>total_agents = 2, shape_max_depth = 1\<rparr>"
proof -
  have "validate_workflow_nodes [split_node] = Inr ()" "validate_workflow_node_shapes [Leaf (plain_leaf ''t'' [])] = Inr ()"
    by code_simp+
  then show ?thesis
    by (simp add: validate_for_fleet_with_limits_def estimate_fleet_shape_def fleet_shape_default_def shape_add_def
        shape_repeat_def sat_mul_def sat_add_def split_spec_def plain_spec_def split_node_def
        del: validate_workflow_node_shapes_def)
qed

lemma split_valid:
  "validate_workflow_nodes (spec_nodes split_spec) = Inr ()"
  "validate_workflow_node_shapes fit_nodes = Inr ()" "validate_workflow_node_shapes unfit_nodes = Inr ()"
  by code_simp+

lemma split_run:
  "mock_run split_spec (split_executor ns) = execute_nodes (Suc (Suc 0)) [split_node] (split_executor ns) execution_default"
  "take_generated \<lparr>expand_id = ''split'', expand_source = ''plan'', max_children = Some 2\<rparr> (split_executor ns)
     = (take 2 ns, mock_executor_new)"
  using split_valid(1)
  by (simp_all add: mock_run_def split_spec_def plain_spec_def split_executor_def with_generated_nodes_def
      take_generated_def mock_executor_new_def bm_get_def bm_empty_def bm_remove_def)

lemma split_walk:
  assumes "validate_workflow_node_shapes (take 2 ns) = Inr ()"
    and "execute_nodes 1 (take 2 ns) mock_executor_new execution_default = MDone ex e"
  shows "\<exists>ex' e'. mock_run split_spec (split_executor ns) = MDone ex' e' \<and> leaf_results e' = leaf_results e"
proof -
  have "\<not> should_stop execution_default" by (simp add: execution_default_def should_stop_def)
  with assms show ?thesis
    by (simp add: split_run split_node_def finish_count del: validate_workflow_node_shapes_def)
qed

lemma fit_walk: "\<exists>ex e. execute_nodes 1 (take 2 fit_nodes) mock_executor_new execution_default = MDone ex e"
  by (rule is_doneE) (simp add: fit_nodes_def demo_simps)

lemma unfit_walk:
  "\<exists>ex e. execute_nodes 1 (take 2 unfit_nodes) mock_executor_new execution_default = MDone ex e \<and> length (leaf_results e) = 3"
  by (simp add: unfit_nodes_def demo_simps)

text \<open>With nodes that do not fit, a run of a workflow accepted for two agents launches three.\<close>

lemma unfit_expansion_exceeds:
  "validate_for_fleet_with_limits split_spec two_agents = Inr \<lparr>total_agents = 2, shape_max_depth = 1\<rparr>
   \<and> (\<exists>ex e. mock_run split_spec (split_executor unfit_nodes) = MDone ex e \<and> length (leaf_results e) = 3)"
proof -
  obtain ex e where "execute_nodes 1 (take 2 unfit_nodes) mock_executor_new execution_default = MDone ex e"
    "length (leaf_results e) = 3" using unfit_walk by blast
  moreover have "validate_workflow_node_shapes (take 2 unfit_nodes) = Inr ()"
    using split_valid(3) by (simp add: unfit_nodes_def)
  ultimately show ?thesis using split_walk [of unfit_nodes ex e] split_accepted by auto
qed

theorem fleet_limit_bounds_run_witness:
  "generated_nodes (split_executor fit_nodes) = [(''split'', fit_nodes)]
   \<and> (\<exists>ex' e. mock_run split_spec (split_executor fit_nodes) = MDone ex' e \<and> length (leaf_results e) \<le> 2)"
proof
  show g: "generated_nodes (split_executor fit_nodes) = [(''split'', fit_nodes)]"
    by (simp add: split_executor_def with_generated_nodes_def mock_executor_new_def bm_empty_def)
  obtain ex e where "execute_nodes 1 (take 2 fit_nodes) mock_executor_new execution_default = MDone ex e"
    using fit_walk by blast
  moreover have "validate_workflow_node_shapes (take 2 fit_nodes) = Inr ()"
    using split_valid(2) by (simp add: fit_nodes_def)
  ultimately obtain ex' e' where r: "mock_run split_spec (split_executor fit_nodes) = MDone ex' e'"
    using split_walk [of fit_nodes ex e] by blast
  have "bm_get (generated_nodes (split_executor fit_nodes)) ''split'' = Some fit_nodes" by (simp add: g bm_get_def)
  then have "fits (split_executor fit_nodes) (spec_nodes split_spec)"
    by (simp add: fits_def split_spec_def plain_spec_def split_node_def fit_nodes_def)
  from fleet_limit_bounds_run [OF split_accepted _ this r] r
  show "\<exists>ex' e. mock_run split_spec (split_executor fit_nodes) = MDone ex' e \<and> length (leaf_results e) \<le> 2" by simp
qed

end
