(* ===== verification/Gate_Properties.thy ===== *)
theory Gate_Properties
  imports Gates
begin

text \<open>
  The lane board against its contract: the state of a gate is a function of the history of its
  evaluations. The board only keeps the last state and a counter per gate; the lemmas relate both
  to the list of evaluations that were made, and the blocking test and the hand-offs follow.
\<close>

section \<open>Histories\<close>

type_synonym gate_event = "gate_spec \<times> gate_outcome"

text \<open>A sequence of \<open>evaluate\<close> calls on a board, the errors ignored by the caller.\<close>

definition evaluate_all :: "gate_event list \<Rightarrow> lane_gate_board \<Rightarrow> lane_gate_board" where
  "evaluate_all evs b = foldl (\<lambda>b ev. fst (evaluate_gate b (fst ev) (snd ev))) b evs"

fun is_fail :: "gate_outcome \<Rightarrow> bool" where
  "is_fail (GateFail _) = True"
| "is_fail _ = False"

text \<open>The evaluations that concern one gate, latest first, and the failures since its last success.\<close>

definition gate_history :: "string \<Rightarrow> gate_event list \<Rightarrow> gate_event list" where
  "gate_history gid evs = filter (\<lambda>ev. gate_id (fst ev) = gid) (rev evs)"

definition failures :: "string \<Rightarrow> gate_event list \<Rightarrow> nat" where
  "failures gid evs = length (takeWhile (\<lambda>ev. is_fail (snd ev)) (gate_history gid evs))"

text \<open>The contract of the board: what the last evaluation and the number of failures say of the gate. The code
  counts in 32 bits and stops at the largest number.\<close>

fun last_state :: "gate_event list \<Rightarrow> nat \<Rightarrow> gate_state option" where
  "last_state [] n = None"
| "last_state ((spec, GateFail reason) # _) n =
     Some (case gate_on_fail spec of
       Block \<Rightarrow> GateBlocked reason
     | Escalate \<Rightarrow> GateEscalated reason
     | Retry \<Rightarrow> (let attempt = min n (2 ^ 32 - 1) in
         if attempt \<le> unat (max_retries spec) then GateRetrying (word_of_nat attempt) reason
         else GateEscalated reason))"
| "last_state _ n = Some GatePassed"

section \<open>The board follows the history\<close>

lemma fail_state_contract:
  "Some (fail_state spec (word_of_nat (min n (2 ^ 32 - 1))) reason) = last_state ((spec, GateFail reason) # h) n"
proof -
  have "unat (word_of_nat (min n (2 ^ 32 - 1)) :: u32) = min n (2 ^ 32 - 1)" by (simp add: unat_of_nat min_def)
  then have "(word_of_nat (min n (2 ^ 32 - 1)) :: u32) \<le> max_retries spec \<longleftrightarrow> min n (2 ^ 32 - 1) \<le> unat (max_retries spec)"
    unfolding word_le_nat_alt by presburger
  then show ?thesis by (simp add: fail_state_def Let_def split: gate_on_fail.split)
qed

lemma evaluate_all_snoc:
  "evaluate_all (evs @ [ev]) b = fst (evaluate_gate (evaluate_all evs b) (fst ev) (snd ev))"
  by (simp add: evaluate_all_def)

lemma evaluate_all_Nil [simp]: "evaluate_all [] b = b"
  by (simp add: evaluate_all_def)

lemma gate_history_snoc:
  "gate_history gid (evs @ [ev]) =
     (if gate_id (fst ev) = gid then ev # gate_history gid evs else gate_history gid evs)"
  by (simp add: gate_history_def)

lemma failures_snoc:
  "failures gid (evs @ [ev]) =
     (if gate_id (fst ev) = gid then (if is_fail (snd ev) then Suc (failures gid evs) else 0)
      else failures gid evs)"
  by (simp add: failures_def gate_history_snoc)

lemma evaluate_gate_other:
  "gid \<noteq> gate_id spec \<Longrightarrow> bm_get (gates (fst (evaluate_gate b spec out))) gid = bm_get (gates b) gid"
  "gid \<noteq> gate_id spec \<Longrightarrow> bm_get (retries (fst (evaluate_gate b spec out))) gid = bm_get (retries b) gid"
  by (cases out; simp add: evaluate_gate_def Let_def)+

lemma evaluate_gate_frame [simp]:
  "lane_id (fst (evaluate_gate b spec out)) = lane_id b"
  "artifacts (fst (evaluate_gate b spec out)) = artifacts b"
  by (cases out; simp add: evaluate_gate_def Let_def)+

lemma sat_succ_word:
  "sat_add (word_of_nat (min n (2 ^ 32 - 1)) :: u32) 1 = word_of_nat (min (Suc n) (2 ^ 32 - 1))"
  by (simp add: word_unat_eq_iff sat_simps unat_of_nat min_def)

text \<open>The counter of a gate is the number of its failures since the last success, saturated.\<close>

definition retry_count :: "nat \<Rightarrow> u32 option" where
  "retry_count n = (if n = 0 then None else Some (word_of_nat (min n (2 ^ 32 - 1))))"

lemma board_follows_history:
  assumes "trim gid \<noteq> []"
  shows "bm_get (retries (evaluate_all evs (lane_gate_board_new lane))) gid
      = retry_count (failures gid evs)
    \<and> bm_get (gates (evaluate_all evs (lane_gate_board_new lane))) gid
      = last_state (gate_history gid evs) (failures gid evs)"
proof (induction evs rule: rev_induct)
  case Nil
  then show ?case
    by (simp add: lane_gate_board_new_def retry_count_def failures_def gate_history_def)
next
  case (snoc ev evs)
  let ?b = "evaluate_all evs (lane_gate_board_new lane)"
  obtain spec out where ev: "ev = (spec, out)" by (cases ev)
  show ?case
  proof (cases "gate_id spec = gid")
    case False
    with snoc ev show ?thesis
      by (simp add: evaluate_all_snoc evaluate_gate_other gate_history_snoc failures_snoc)
  next
    case True
    have attempt: "sat_add (case bm_get (retries ?b) gid of None \<Rightarrow> 0 | Some n \<Rightarrow> n) 1
        = (word_of_nat (min (Suc (failures gid evs)) (2 ^ 32 - 1)) :: u32)"
      using snoc sat_succ_word [of "failures gid evs"] by (auto simp: retry_count_def)
    show ?thesis
    proof (cases out)
      case (GateFail reason)
      note fail_state_contract [of spec "Suc (failures gid evs)" reason "gate_history gid evs"]
      with True assms ev snoc attempt GateFail show ?thesis
        by (simp add: evaluate_all_snoc gate_history_snoc failures_snoc evaluate_gate_def Let_def retry_count_def
            del: last_state.simps)
    qed (use True assms ev snoc in \<open>simp_all add: evaluate_all_snoc gate_history_snoc failures_snoc
          evaluate_gate_def Let_def retry_count_def\<close>)
  qed
qed

lemma blank_gate_never_set:
  "trim gid = [] \<Longrightarrow> bm_get (gates (evaluate_all evs (lane_gate_board_new lane))) gid = None"
proof (induction evs rule: rev_induct)
  case Nil
  then show ?case by (simp add: lane_gate_board_new_def)
next
  case (snoc ev evs)
  then show ?case
    by (cases "gate_id (fst ev) = gid")
      (simp_all add: evaluate_all_snoc evaluate_gate_other, simp add: evaluate_gate_def)
qed

text \<open>
  C36. The board refines the history of its evaluations. From a new board, after any sequence of
  \<open>evaluate\<close> calls, a gate is unset when it was never evaluated and passed when its last evaluation was a pass
  or a human approval. After a failure it is blocked under the policy \<open>block\<close>, retrying under \<open>retry\<close> while the
  failures since its last success are at most \<open>max_retries\<close> and escalated from then on, and escalated at once,
  whatever \<open>max_retries\<close> is, under \<open>escalate\<close>: the documentation of that policy, which says that it escalates
  after the retries are exhausted, describes \<open>retry\<close>. A gate with a blank id is refused and leaves no state.
\<close>

theorem gate_state_follows_history:
  "bm_get (gates (evaluate_all evs (lane_gate_board_new lane))) gid =
     (if trim gid = [] then None else last_state (gate_history gid evs) (failures gid evs))"
  using board_follows_history [of gid evs lane] blank_gate_never_set [of gid evs lane] by simp

lemma failures_replicate:
  "failures (gate_id spec) (evs @ map (\<lambda>r. (spec, GateFail r)) rs)
     = length rs + failures (gate_id spec) evs"
proof (induction rs rule: rev_induct)
  case (snoc r rs)
  then show ?case
    using failures_snoc [of "gate_id spec" "evs @ map (\<lambda>r. (spec, GateFail r)) rs" "(spec, GateFail r)"]
    by simp
qed simp

text \<open>
  Retries are bounded and a success resets them. After a pass of a gate whose policy is
  \<open>retry\<close>, whatever happened before, the n-th failure in a row leaves it retrying with the
  attempt n while n is at most \<open>max_retries\<close>, and escalated from then on.
\<close>

theorem retry_bound_after_pass:
  assumes "trim (gate_id spec) \<noteq> []" and "gate_on_fail spec = Retry"
    and "rs \<noteq> []" and "length rs < 2 ^ 32"
  shows "bm_get (gates (evaluate_all (evs @ (spec, GatePass) # map (\<lambda>r. (spec, GateFail r)) rs)
            (lane_gate_board_new lane))) (gate_id spec) =
     Some (if length rs \<le> unat (max_retries spec)
           then GateRetrying (word_of_nat (length rs)) (last rs) else GateEscalated (last rs))"
proof -
  let ?evs = "evs @ (spec, GatePass) # map (\<lambda>r. (spec, GateFail r)) rs"
  have n: "failures (gate_id spec) ?evs = length rs"
    using failures_replicate [of spec "evs @ [(spec, GatePass)]" rs]
    by (simp add: failures_snoc)
  obtain rs' r where rs: "rs = rs' @ [r]" using assms(3) by (cases rs rule: rev_cases) auto
  have h: "gate_history (gate_id spec) ?evs = (spec, GateFail r)
      # gate_history (gate_id spec) (evs @ (spec, GatePass) # map (\<lambda>r. (spec, GateFail r)) rs')"
    using gate_history_snoc [of "gate_id spec" "evs @ (spec, GatePass)
        # map (\<lambda>r. (spec, GateFail r)) rs'" "(spec, GateFail r)"] rs by simp
  have m: "min (length rs) (2 ^ 32 - 1) = length rs" using assms(4) by simp
  have "bm_get (gates (evaluate_all ?evs (lane_gate_board_new lane))) (gate_id spec)
      = last_state ((spec, GateFail r) # gate_history (gate_id spec) (evs @ (spec, GatePass) # map (\<lambda>r. (spec, GateFail r)) rs'))
          (length rs)"
    using board_follows_history [OF assms(1), of ?evs lane] unfolding n h by blast
  then show ?thesis using assms(2) rs m by (simp add: Let_def)
qed

theorem retry_bound_after_pass_witness:
  "let spec = \<lparr>gate_id = ''verify'', gate_role = ''verifier'', gate_on = RoleComplete,
       gate_gate = Verify, gate_on_fail = Retry, blocks_role = Some ''release_lead'',
       max_retries = 2, artifact_kind = None, require_explicit_verdict = False\<rparr>
   in bm_get (gates (evaluate_all ([] @ (spec, GatePass) # map (\<lambda>r. (spec, GateFail r)) [''x'', ''y'', ''z''])
            (lane_gate_board_new ''lane''))) ''verify'' = Some (GateEscalated ''z'')"
  using retry_bound_after_pass [of "\<lparr>gate_id = ''verify'', gate_role = ''verifier'',
      gate_on = RoleComplete, gate_gate = Verify, gate_on_fail = Retry,
      blocks_role = Some ''release_lead'', max_retries = 2, artifact_kind = None,
      require_explicit_verdict = False\<rparr>" "[''x'', ''y'', ''z'']" "[]" "''lane''"]
  by (simp add: Let_def trim_def trim_start_def trim_end_def is_ws_def)

section \<open>Blocking\<close>

lemma role_is_blocked_Some:
  "role_is_blocked b specs role \<noteq> None \<longleftrightarrow>
     (\<exists>spec st. spec \<in> set specs
        \<and> eq_ignore_ascii_case (case blocks_role spec of None \<Rightarrow> [] | Some r \<Rightarrow> r) role
        \<and> bm_get (gates b) (gate_id spec) = Some st \<and> is_blocking st)"
proof (induction specs)
  case (Cons spec specs)
  let ?named = "eq_ignore_ascii_case (case blocks_role spec of None \<Rightarrow> [] | Some r \<Rightarrow> r) role"
  let ?st = "bm_get (gates b) (gate_id spec)"
  show ?case
  proof (cases "?named \<and> (\<exists>st. ?st = Some st \<and> is_blocking st)")
    case True
    then show ?thesis by auto
  next
    case False
    then have "role_is_blocked b (spec # specs) role = role_is_blocked b specs role"
      by (cases ?st) auto
    with Cons False show ?thesis by (simp only: list.set) blast
  qed
qed simp

lemma last_state_blocking:
  "(\<exists>st. last_state h n = Some st \<and> is_blocking st) \<longleftrightarrow> (case h of [] \<Rightarrow> False | ev # _ \<Rightarrow> is_fail (snd ev))"
proof (cases h)
  case (Cons ev h')
  then show ?thesis by (cases ev; cases "snd ev") (auto simp: Let_def split: gate_on_fail.split)
qed simp

text \<open>
  A role is blocked exactly when the last evaluation of a gate that names it was a failure:
  the name is compared without case, every failure policy blocks, and a gate that was never
  evaluated or has passed since does not block.
\<close>

theorem role_blocked_iff_last_failed:
  "role_is_blocked (evaluate_all evs (lane_gate_board_new lane)) specs role \<noteq> None \<longleftrightarrow>
     list_ex (\<lambda>spec. trim (gate_id spec) \<noteq> []
        \<and> eq_ignore_ascii_case (case blocks_role spec of None \<Rightarrow> [] | Some r \<Rightarrow> r) role
        \<and> (case gate_history (gate_id spec) evs of [] \<Rightarrow> False | ev # _ \<Rightarrow> is_fail (snd ev))) specs"
proof -
  have "(\<exists>st. bm_get (gates (evaluate_all evs (lane_gate_board_new lane))) gid = Some st \<and> is_blocking st)
      \<longleftrightarrow> trim gid \<noteq> [] \<and> (case gate_history gid evs of [] \<Rightarrow> False | ev # _ \<Rightarrow> is_fail (snd ev))" for gid
    using board_follows_history [of gid evs lane] blank_gate_never_set [of gid evs lane]
      last_state_blocking [of "gate_history gid evs" "failures gid evs"] by (cases "trim gid = []") auto
  then show ?thesis unfolding role_is_blocked_Some list_ex_iff by blast
qed

section \<open>Hand-offs\<close>

definition record_all :: "handoff_artifact list \<Rightarrow> lane_gate_board \<Rightarrow> lane_gate_board" where
  "record_all as b = foldl (\<lambda>b a. fst (record_handoff b a)) b as"

lemma record_all_artifacts:
  "artifacts (record_all as b) = artifacts b @ filter (\<lambda>a. artifact_lane_id a = lane_id b) as
     \<and> lane_id (record_all as b) = lane_id b"
  by (induction as arbitrary: b) (auto simp: record_all_def record_handoff_def)

text \<open>
  Hand-offs stay in their lane and the latest wins: after any attempts to record artifacts and
  any evaluations, \<open>latest_handoff\<close> returns the last recorded artifact of this lane with the given
  roles and kind (compared without case), and never one of another lane.
\<close>

theorem latest_handoff_of_lane:
  "latest_handoff (record_all as (evaluate_all evs (lane_gate_board_new lane))) fr to kind =
     find (\<lambda>a. artifact_lane_id a = lane \<and> eq_ignore_ascii_case (from_role a) fr
        \<and> eq_ignore_ascii_case (to_role a) to \<and> eq_ignore_ascii_case (handoff_kind a) kind) (rev as)"
proof -
  have "lane_id (evaluate_all evs b) = lane_id b \<and> artifacts (evaluate_all evs b) = artifacts b" for b
    by (induction evs arbitrary: b) (simp_all add: evaluate_all_def)
  moreover have "find P (filter Q xs) = find (\<lambda>x. Q x \<and> P x) xs" for P Q and xs :: "'b list"
    by (induction xs) auto
  ultimately show ?thesis
    using record_all_artifacts [of as "evaluate_all evs (lane_gate_board_new lane)"]
    by (simp add: latest_handoff_def rev_filter lane_gate_board_new_def)
qed

end
