(* ===== verification/Role_Properties.thy ===== *)
theory Role_Properties
  imports Workflow_Nodes
begin

text \<open>
  What role resolution promises: the map built from pairs answers with the last pair for a role,
  roles are compared up to case and surrounding white space, and every resolved profile is a token
  the workflow validator accepts.
\<close>

lemma role_map_insert_all_get:
  "role_map_insert_all pairs m = Inr m' \<Longrightarrow>
     role_map_get m' role =
       (case find (\<lambda>kp. normalize_token (fst kp) = normalize_token role) (rev pairs) of
          Some kp \<Rightarrow> normalize_token (snd kp) | None \<Rightarrow> role_map_get m role)"
proof (induction pairs m rule: role_map_insert_all.induct)
  case (2 r p pairs m)
  have snoc: "find P (xs @ [x]) = (case find P xs of Some y \<Rightarrow> Some y | None \<Rightarrow> if P x then Some x else None)"
    for P and xs :: "(string \<times> string) list" and x
    by (induction xs) auto
  from 2 obtain m1 where "role_map_insert r p m = Inr m1" and "role_map_insert_all pairs m1 = Inr m'"
    by (auto simp: result_simps)
  with 2(1) [of m1] role_map_get_insert [of r p m m1 role] show ?case
    by (auto simp: snoc split: option.splits)
qed simp

lemma role_map_get_token: "normalize_token raw = Some r \<Longrightarrow> role_map_get m r = role_map_get m raw"
  by (simp add: role_map_get_def normalize_token_idem)

lemma role_map_get_new [simp]: "role_map_get role_map_new role = None"
  by (simp add: role_map_get_def role_map_new_def split: option.split)

text \<open>The pair that decides a role: the last one whose role is the same token.\<close>

definition deciding_pair :: "(string \<times> string) list \<Rightarrow> string \<Rightarrow> (string \<times> string) option" where
  "deciding_pair pairs role =
     find (\<lambda>kp. normalize_token (fst kp) = normalize_token role) (rev pairs)"

lemma role_map_from_pairs_get:
  "role_map_from_pairs pairs = Inr m \<Longrightarrow>
     role_map_get m role =
       (case deciding_pair pairs role of Some kp \<Rightarrow> normalize_token (snd kp) | None \<Rightarrow> None)"
  unfolding role_map_from_pairs_def deciding_pair_def
  by (drule role_map_insert_all_get [of _ _ _ role]) (simp split: option.splits)

lemma demo_tokens:
  "normalize_token '' SCOUT'' = Some ''scout''" "normalize_token ''Scout'' = Some ''scout''"
  "normalize_token ''scout'' = Some ''scout''" "normalize_token ''fast'' = Some ''fast''"
  "normalize_token ''Deep'' = Some ''deep''" "normalize_token '' Deep'' = Some ''deep''"
  by code_simp+

text \<open>
  A step without an explicit profile runs under the profile of the last configured pair whose
  role is the same token up to case and surrounding white space; when there is none, the role is
  its own profile, or, for a launch that requires a known role, resolution fails. A malformed role
  is refused in every case.
\<close>

theorem resolve_role_from_pairs:
  assumes "role_map_from_pairs pairs = Inr m"
  shows "resolve_workflow_agent (Some raw) None m require_known =
    (case normalize_token raw of
       None \<Rightarrow> Inl (InvalidRoleToken raw)
     | Some r \<Rightarrow>
         (case deciding_pair pairs raw of
            Some kp \<Rightarrow> Inr \<lparr>resolved_role = Some r, resolved_profile = the (normalize_token (snd kp)),
                           route_source = ''fleet_role''\<rparr>
          | None \<Rightarrow>
              if require_known then Inl (UnknownRole r
                (if roles m = [] then ''(none)'' else join_str '', '' (map fst (roles m))))
              else Inr \<lparr>resolved_role = Some r, resolved_profile = r,
                        route_source = ''role_as_profile''\<rparr>))"
proof -
  have ok: "normalize_token (snd kp) \<noteq> None" if "deciding_pair pairs raw = Some kp" for kp
  proof -
    have ins: "role_map_insert_all ps m0 = Inr m1 \<Longrightarrow> kp \<in> set ps \<Longrightarrow> normalize_token (snd kp) \<noteq> None"
      for ps m0 m1
      by (induction ps m0 rule: role_map_insert_all.induct)
        (auto simp: result_simps role_map_insert_def split: option.splits)
    have "kp \<in> set pairs"
      using that nth_mem [of _ "rev pairs"] by (auto simp: deciding_pair_def find_Some_iff)
    with assms ins show ?thesis by (auto simp: role_map_from_pairs_def)
  qed
  show ?thesis
    using role_map_from_pairs_get [OF assms, of raw] role_map_get_token [of raw _ m] ok
    by (auto simp: resolve_workflow_agent_def validate_role_token_def role_map_is_empty_def
        bm_keys_def split: option.splits)
qed

theorem resolve_role_from_pairs_witness:
  "\<exists>m. role_map_from_pairs [(''Scout'', ''fast''), (''scout'', ''Deep'')] = Inr m \<and>
     resolve_workflow_agent (Some '' SCOUT'') None m True =
       Inr \<lparr>resolved_role = Some ''scout'', resolved_profile = ''deep'', route_source = ''fleet_role''\<rparr>"
proof -
  obtain m where m: "role_map_from_pairs [(''Scout'', ''fast''), (''scout'', ''Deep'')] = Inr m"
    by (simp add: role_map_from_pairs_def role_map_insert_def demo_tokens)
  with resolve_role_from_pairs [OF m, of "'' SCOUT''" True] show ?thesis
    by (auto simp: deciding_pair_def demo_tokens)
qed

lemma normal_token_profile_ok: "normalize_token raw = Some p \<Longrightarrow> validate_leaf_profile leaf p = Inr ()"
  by (auto simp: normalize_token_Some validate_leaf_profile_def)

text \<open>
  Resolution is sound and stable: against a map built by the code, a resolved profile passes
  the workflow validator's profile check whichever way it was found, an explicit profile always
  wins, and resolving the answer again gives the same profile and role.
\<close>

theorem resolved_agent_sound:
  assumes "role_map_from_pairs pairs = Inr m"
    and "resolve_workflow_agent role profile m require_known = Inr agent"
  shows "validate_leaf_profile leaf (resolved_profile agent) = Inr () \<and>
    (route_source agent = ''explicit_profile'') = (profile \<noteq> None) \<and>
    resolve_workflow_agent (resolved_role agent) (Some (resolved_profile agent)) m require_known
      = Inr (agent\<lparr>route_source := ''explicit_profile''\<rparr>)"
proof -
  have stored: "normalize_token p = Some p" if "role_map_get m r = Some p" for r p
    using that role_map_ok_from_pairs [OF assms(1)]
    by (auto simp: role_map_ok_def role_map_get_def split: option.splits)
  have norm: "normalize_token (resolved_profile agent) = Some (resolved_profile agent)
      \<and> (\<forall>r. resolved_role agent = Some r \<longrightarrow> normalize_token r = Some r)
      \<and> (route_source agent = ''explicit_profile'') = (profile \<noteq> None)"
    using assms(2) unfolding resolve_workflow_agent_def validate_role_token_def
    by (auto simp: stored normalize_token_idem split: option.splits if_splits)
  then show ?thesis
    using normal_token_profile_ok [of "resolved_profile agent" "resolved_profile agent" leaf]
    by (cases "resolved_role agent")
      (auto simp: resolve_workflow_agent_def validate_role_token_def)
qed

theorem resolved_agent_sound_witness:
  "\<exists>m. role_map_from_pairs [(''scout'', ''fast'')] = Inr m \<and>
     validate_leaf_profile ''l'' ''deep'' = Inr () \<and>
     resolve_workflow_agent (Some ''scout'') (Some '' Deep'') m True =
       Inr \<lparr>resolved_role = Some ''scout'', resolved_profile = ''deep'',
            route_source = ''explicit_profile''\<rparr>"
proof -
  obtain m where m: "role_map_from_pairs [(''scout'', ''fast'')] = Inr m"
    by (simp add: role_map_from_pairs_def role_map_insert_def demo_tokens)
  have r: "resolve_workflow_agent (Some ''scout'') (Some '' Deep'') m True =
       Inr \<lparr>resolved_role = Some ''scout'', resolved_profile = ''deep'',
            route_source = ''explicit_profile''\<rparr>"
    by (simp add: resolve_workflow_agent_def validate_role_token_def demo_tokens)
  from resolved_agent_sound [OF m r, of "''l''"] m r show ?thesis by simp
qed

end
