(* ===== verification/Workflow_Plan.thy ===== *)
theory Workflow_Plan
  imports Workflow_Types
begin

text \<open>
  The phase planner of \<open>crates/workflow/src/lib.rs\<close>: \<open>WorkflowPlan::from_config\<close> with the depth-first
  ordering of the phases, the result dependencies between tasks and the write scopes of parallel
  tasks. An index expression that could be out of range is the value \<open>PlanPanic\<close>; the recursion
  of \<open>visit_phase\<close> runs on fuel, one unit per nested call, and \<open>PlanFuel\<close> says it was not enough.
  Neither is ever the result of \<open>from_config\<close>, which is proved.
\<close>

section \<open>Data\<close>

datatype failure_policy = SkipContinue | Abort

record task =
  task_id :: string
  task_prompt :: string
  task_agent_type :: agent_type
  task_mode :: task_mode
  task_isolation :: isolation_mode
  task_file_scope :: "string list"
  task_depends_on_results :: "string list"
  task_max_steps :: "u32 option"
  task_timeout_secs :: "u64 option"

record phase =
  phase_name :: string
  phase_description :: "string option"
  phase_depends_on :: "string list"
  phase_parallel :: bool
  phase_on_failure :: failure_policy
  phase_tasks :: "task list"

record workflow_config =
  config_goal :: string
  config_max_concurrent :: u8
  config_description :: "string option"
  config_phases :: "phase list"

record phase_plan =
  plan_name :: string
  plan_parallel :: bool
  plan_on_failure :: failure_policy
  plan_tasks :: "task list"

record workflow_plan =
  plan_goal :: string
  plan_max_concurrent :: u8
  plan_phases :: "phase_plan list"

datatype plan_error =
    EmptyField string
  | EmptyWorkflow
  | EmptyPhase string
  | InvalidMaxConcurrent u8
  | DuplicatePhase string
  | DuplicateTask string
  | InvalidPhaseDependency string string
  | PhaseDependencyCycle string
  | InvalidTaskResultDependency string string
  | UnavailableTaskResultDependency string string string string
  | MissingParallelWriteScope string
  | OverlappingParallelWriteScope string string

datatype 'a plan_result = PlanOk 'a | PlanErr plan_error | PlanPanic | PlanFuel

fun plan_bind :: "'a plan_result \<Rightarrow> ('a \<Rightarrow> 'b plan_result) \<Rightarrow> 'b plan_result" where
  "plan_bind (PlanOk x) f = f x"
| "plan_bind (PlanErr err) f = PlanErr err"
| "plan_bind PlanPanic f = PlanPanic"
| "plan_bind PlanFuel f = PlanFuel"

section \<open>Write scopes\<close>

text \<open>\<open>Path::components\<close> on Unix: empty components and inner dots vanish, the root and a leading
  dot stay.\<close>

definition normal_components :: "string list \<Rightarrow> string list" where
  "normal_components parts = filter (\<lambda>p. p \<noteq> [] \<and> p \<noteq> ''.'') parts"

definition path_components :: "string \<Rightarrow> string list" where
  "path_components s =
     (case split_char (CHR ''/'') s of
        [] \<Rightarrow> []
      | p # parts \<Rightarrow>
          if p = [] \<and> parts \<noteq> [] then ''/'' # normal_components parts
          else if p = ''.'' then ''.'' # normal_components parts
          else normal_components (p # parts))"

definition normalize_scope :: "string \<Rightarrow> string" where
  "normalize_scope scope =
     (let trimmed = trim_end_char (CHR ''/'') (trim_start_pat ''./'' (trim scope))
      in case strip_suffix ''/**'' trimmed of
           Some s \<Rightarrow> s
         | None \<Rightarrow> (case strip_suffix ''/*'' trimmed of Some s \<Rightarrow> s | None \<Rightarrow> trimmed))"

definition glob_prefix :: "string \<Rightarrow> string" where
  "glob_prefix scope = trim_end_char (CHR ''/'') (hd (split_char (CHR ''*'') scope))"

definition scope_overlaps :: "string \<Rightarrow> string \<Rightarrow> bool" where
  "scope_overlaps l r =
     (let left = normalize_scope l; right = normalize_scope r in
      if left = right \<or> left = ''.'' \<or> right = ''.'' then True
      else if CHR ''*'' \<in> set left \<or> CHR ''*'' \<in> set right then glob_prefix left = glob_prefix right
      else prefix (path_components right) (path_components left)
        \<or> prefix (path_components left) (path_components right))"

definition scopes_overlap :: "string list \<Rightarrow> string list \<Rightarrow> bool" where
  "scopes_overlap left right = list_ex (\<lambda>l. list_ex (scope_overlaps l) right) left"

fun check_write_scopes :: "task list \<Rightarrow> unit plan_result" where
  "check_write_scopes [] = PlanOk ()"
| "check_write_scopes (t # ts) =
     (if task_file_scope t = [] then PlanErr (MissingParallelWriteScope (task_id t))
      else check_write_scopes ts)"

fun check_against :: "task \<Rightarrow> task list \<Rightarrow> unit plan_result" where
  "check_against left [] = PlanOk ()"
| "check_against left (right # ts) =
     (if scopes_overlap (task_file_scope left) (task_file_scope right)
      then PlanErr (OverlappingParallelWriteScope (task_id left) (task_id right))
      else check_against left ts)"

fun check_disjoint :: "task list \<Rightarrow> unit plan_result" where
  "check_disjoint [] = PlanOk ()"
| "check_disjoint (left # ts) = plan_bind (check_against left ts) (\<lambda>_. check_disjoint ts)"

definition validate_parallel_write_scope :: "phase \<Rightarrow> unit plan_result" where
  "validate_parallel_write_scope ph =
     (if \<not> phase_parallel ph then PlanOk ()
      else let write_tasks = filter (\<lambda>t. task_mode t = ReadWrite) (phase_tasks ph)
           in plan_bind (check_write_scopes write_tasks) (\<lambda>_. check_disjoint write_tasks))"

section \<open>Ordering the phases\<close>

record visit_state =
  visiting :: "string set"
  visited :: "string set"
  ordered :: "string list"

text \<open>\<open>&config.phases[phase_indices[phase_name]]\<close>.\<close>

definition phase_at :: "phase list \<Rightarrow> (string, nat) bmap \<Rightarrow> string \<Rightarrow> phase option" where
  "phase_at phases indices name =
     (case bm_get indices name of
        None \<Rightarrow> None | Some i \<Rightarrow> if i < length phases then Some (phases ! i) else None)"

fun visit_phase ::
    "nat \<Rightarrow> phase list \<Rightarrow> (string, nat) bmap \<Rightarrow> string \<Rightarrow> visit_state \<Rightarrow> visit_state plan_result"
  and visit_phases ::
    "nat \<Rightarrow> phase list \<Rightarrow> (string, nat) bmap \<Rightarrow> string list \<Rightarrow> visit_state \<Rightarrow> visit_state plan_result" where
  "visit_phase 0 phases indices name st = PlanFuel"
| "visit_phase (Suc fuel) phases indices name st =
     (if name \<in> visited st then PlanOk st
      else if name \<in> visiting st then PlanErr (PhaseDependencyCycle name)
      else
        (let st1 = st\<lparr>visiting := insert name (visiting st)\<rparr> in
         case phase_at phases indices name of
           None \<Rightarrow> PlanPanic
         | Some ph \<Rightarrow>
             plan_bind (visit_phases fuel phases indices (phase_depends_on ph) st1)
               (\<lambda>st2. PlanOk (st2\<lparr>visiting := visiting st2 - {name},
                               visited := insert name (visited st2),
                               ordered := ordered st2 @ [name]\<rparr>))))"
| "visit_phases fuel phases indices [] st = PlanOk st"
| "visit_phases fuel phases indices (name # names) st =
     plan_bind (visit_phase fuel phases indices name st)
       (\<lambda>st'. visit_phases fuel phases indices names st')"

definition ordered_phases :: "phase list \<Rightarrow> (string, nat) bmap \<Rightarrow> string list plan_result" where
  "ordered_phases phases indices =
     plan_bind (visit_phases (Suc (length phases)) phases indices (map phase_name phases)
         \<lparr>visiting = {}, visited = {}, ordered = []\<rparr>)
       (\<lambda>st. PlanOk (ordered st))"

section \<open>The planner\<close>

definition validate_non_empty :: "string \<Rightarrow> string \<Rightarrow> unit plan_result" where
  "validate_non_empty field v = (if trim v = [] then PlanErr (EmptyField field) else PlanOk ())"

record plan_tables =
  phase_indices :: "(string, nat) bmap"
  all_tasks :: "(string, task) bmap"
  task_phase :: "(string, string) bmap"

fun index_tasks :: "string \<Rightarrow> task list \<Rightarrow> plan_tables \<Rightarrow> plan_tables plan_result" where
  "index_tasks name [] tb = PlanOk tb"
| "index_tasks name (t # ts) tb =
     plan_bind (validate_non_empty ''task id'' (task_id t)) (\<lambda>_.
     plan_bind (validate_non_empty ''task prompt'' (task_prompt t)) (\<lambda>_.
       if bm_get (all_tasks tb) (task_id t) \<noteq> None then PlanErr (DuplicateTask (task_id t))
       else index_tasks name ts
              (tb\<lparr>all_tasks := bm_insert (task_id t) t (all_tasks tb),
                  task_phase := bm_insert (task_id t) name (task_phase tb)\<rparr>)))"

fun index_phases :: "nat \<Rightarrow> phase list \<Rightarrow> plan_tables \<Rightarrow> plan_tables plan_result" where
  "index_phases i [] tb = PlanOk tb"
| "index_phases i (ph # phs) tb =
     plan_bind (validate_non_empty ''phase name'' (phase_name ph)) (\<lambda>_.
       if phase_tasks ph = [] then PlanErr (EmptyPhase (phase_name ph))
       else if bm_get (phase_indices tb) (phase_name ph) \<noteq> None
       then PlanErr (DuplicatePhase (phase_name ph))
       else plan_bind (index_tasks (phase_name ph) (phase_tasks ph)
                (tb\<lparr>phase_indices := bm_insert (phase_name ph) i (phase_indices tb)\<rparr>))
              (\<lambda>tb'. index_phases (Suc i) phs tb'))"

fun check_dependencies :: "string \<Rightarrow> string list \<Rightarrow> (string, nat) bmap \<Rightarrow> unit plan_result" where
  "check_dependencies name [] indices = PlanOk ()"
| "check_dependencies name (d # ds) indices =
     (if d = name \<or> bm_get indices d = None then PlanErr (InvalidPhaseDependency name d)
      else check_dependencies name ds indices)"

fun check_phases :: "phase list \<Rightarrow> (string, nat) bmap \<Rightarrow> unit plan_result" where
  "check_phases [] indices = PlanOk ()"
| "check_phases (ph # phs) indices =
     plan_bind (check_dependencies (phase_name ph) (phase_depends_on ph) indices) (\<lambda>_.
     plan_bind (validate_parallel_write_scope ph) (\<lambda>_. check_phases phs indices))"

text \<open>The result dependencies of a task: \<open>order\<close> is the position of each phase in the plan.\<close>

fun check_results ::
    "string \<Rightarrow> string \<Rightarrow> string list \<Rightarrow> (string, string) bmap \<Rightarrow> (string, nat) bmap \<Rightarrow> unit plan_result" where
  "check_results name tid [] owner order = PlanOk ()"
| "check_results name tid (d # ds) owner order =
     (case bm_get owner d of
        None \<Rightarrow> PlanErr (InvalidTaskResultDependency tid d)
      | Some dphase \<Rightarrow>
          (case (bm_get order dphase, bm_get order name) of
             (Some i, Some j) \<Rightarrow>
               if j \<le> i then PlanErr (UnavailableTaskResultDependency tid d dphase name)
               else check_results name tid ds owner order
           | _ \<Rightarrow> PlanPanic))"

fun check_task_results ::
    "string \<Rightarrow> task list \<Rightarrow> (string, string) bmap \<Rightarrow> (string, nat) bmap \<Rightarrow> unit plan_result" where
  "check_task_results name [] owner order = PlanOk ()"
| "check_task_results name (t # ts) owner order =
     plan_bind (check_results name (task_id t) (task_depends_on_results t) owner order)
       (\<lambda>_. check_task_results name ts owner order)"

fun check_phase_results ::
    "phase list \<Rightarrow> (string, string) bmap \<Rightarrow> (string, nat) bmap \<Rightarrow> unit plan_result" where
  "check_phase_results [] owner order = PlanOk ()"
| "check_phase_results (ph # phs) owner order =
     plan_bind (check_task_results (phase_name ph) (phase_tasks ph) owner order)
       (\<lambda>_. check_phase_results phs owner order)"

definition plan_of_phase :: "phase \<Rightarrow> phase_plan" where
  "plan_of_phase ph = \<lparr>plan_name = phase_name ph, plan_parallel = phase_parallel ph,
     plan_on_failure = phase_on_failure ph, plan_tasks = phase_tasks ph\<rparr>"

fun collect_phases :: "string list \<Rightarrow> phase list \<Rightarrow> (string, nat) bmap \<Rightarrow> phase_plan list plan_result" where
  "collect_phases [] phases indices = PlanOk []"
| "collect_phases (name # names) phases indices =
     (case phase_at phases indices name of
        None \<Rightarrow> PlanPanic
      | Some ph \<Rightarrow>
          plan_bind (collect_phases names phases indices) (\<lambda>pls. PlanOk (plan_of_phase ph # pls)))"

definition from_config :: "workflow_config \<Rightarrow> workflow_plan plan_result" where
  "from_config cfg =
     plan_bind (validate_non_empty ''workflow goal'' (config_goal cfg)) (\<lambda>_.
     if \<not> (1 \<le> config_max_concurrent cfg \<and> config_max_concurrent cfg \<le> 20)
     then PlanErr (InvalidMaxConcurrent (config_max_concurrent cfg))
     else if config_phases cfg = [] then PlanErr EmptyWorkflow
     else
       plan_bind (index_phases 0 (config_phases cfg)
           \<lparr>phase_indices = bm_empty, all_tasks = bm_empty, task_phase = bm_empty\<rparr>) (\<lambda>tb.
       plan_bind (check_phases (config_phases cfg) (phase_indices tb)) (\<lambda>_.
       plan_bind (ordered_phases (config_phases cfg) (phase_indices tb)) (\<lambda>names.
         let order = bm_collect (zip names [0..<length names]) in
         plan_bind (check_phase_results (config_phases cfg) (task_phase tb) order) (\<lambda>_.
         plan_bind (collect_phases names (config_phases cfg) (phase_indices tb)) (\<lambda>pls.
           PlanOk \<lparr>plan_goal = config_goal cfg, plan_max_concurrent = config_max_concurrent cfg,
                   plan_phases = pls\<rparr>))))))"

definition validate_config :: "workflow_config \<Rightarrow> unit plan_result" where
  "validate_config cfg = plan_bind (from_config cfg) (\<lambda>_. PlanOk ())"

lemma plan_bind_Ok [result_simps]:
  "plan_bind r f = PlanOk y \<longleftrightarrow> (\<exists>x. r = PlanOk x \<and> f x = PlanOk y)"
  by (cases r) auto

lemma plan_bind_Err [result_simps]:
  "plan_bind r f = PlanErr err \<longleftrightarrow> r = PlanErr err \<or> (\<exists>x. r = PlanOk x \<and> f x = PlanErr err)"
  by (cases r) auto

end
