(* ===== verification/Plan_Search.thy ===== *)
theory Plan_Search
  imports Workflow_Plan
begin

text \<open>
  The lemmas about the parts of the phase planner: the depth-first search is total and correct as a
  topological sort (its error is a real cycle), and the tables built in the first pass know every
  phase by its position and every task by its phase.
\<close>

section \<open>The dependency graph\<close>

definition dep_names :: "phase list \<Rightarrow> (string, nat) bmap \<Rightarrow> string \<Rightarrow> string set" where
  "dep_names phases indices name =
     (case phase_at phases indices name of None \<Rightarrow> {} | Some ph \<Rightarrow> set (phase_depends_on ph))"

definition dep_edges :: "phase list \<Rightarrow> (string, nat) bmap \<Rightarrow> (string \<times> string) set" where
  "dep_edges phases indices = {(a, b). b \<in> dep_names phases indices a}"

text \<open>A closed graph: every name has its phase, and every dependency is a name.\<close>

definition closed_names :: "phase list \<Rightarrow> (string, nat) bmap \<Rightarrow> string set \<Rightarrow> bool" where
  "closed_names phases indices names \<longleftrightarrow> finite names \<and>
     (\<forall>n\<in>names. phase_at phases indices n \<noteq> None \<and> dep_names phases indices n \<subseteq> names)"

text \<open>The part of the search state that is finished: in dependency order, without repetition.\<close>

definition topo :: "(string \<Rightarrow> string set) \<Rightarrow> string list \<Rightarrow> bool" where
  "topo deps ord \<longleftrightarrow> (\<forall>i<length ord. deps (ord ! i) \<subseteq> set (take i ord))"

lemma topo_Nil [simp]: "topo deps []"
  by (simp add: topo_def)

lemma topo_snoc: "topo deps (ord @ [n]) \<longleftrightarrow> topo deps ord \<and> deps n \<subseteq> set ord"
  by (auto simp: topo_def nth_append less_Suc_eq)

definition search_ok :: "(string \<Rightarrow> string set) \<Rightarrow> string set \<Rightarrow> visit_state \<Rightarrow> bool" where
  "search_ok deps names st \<longleftrightarrow> distinct (ordered st) \<and> set (ordered st) = visited st \<and>
     visited st \<subseteq> names \<and> topo deps (ordered st) \<and> visiting st \<inter> visited st = {}"

lemma visit_phase_OkE:
  assumes "visit_phase (Suc fuel) phases indices name st = PlanOk st'" and "name \<notin> visited st"
  obtains ph st2 where "name \<notin> visiting st" and "phase_at phases indices name = Some ph"
    and "visit_phases fuel phases indices (phase_depends_on ph)
           (st\<lparr>visiting := insert name (visiting st)\<rparr>) = PlanOk st2"
    and "st' = st2\<lparr>visiting := visiting st2 - {name}, visited := insert name (visited st2),
                  ordered := ordered st2 @ [name]\<rparr>"
  using assms by (auto simp: result_simps Let_def split: if_splits option.splits)

lemma visit_ok:
  "closed_names phases indices names \<Longrightarrow> name \<in> names \<Longrightarrow>
     search_ok (dep_names phases indices) names st \<Longrightarrow>
     visit_phase fuel phases indices name st = PlanOk st' \<Longrightarrow>
     search_ok (dep_names phases indices) names st' \<and> visiting st' = visiting st \<and>
     insert name (visited st) \<subseteq> visited st'"
  "closed_names phases indices names \<Longrightarrow> set ns \<subseteq> names \<Longrightarrow>
     search_ok (dep_names phases indices) names st \<Longrightarrow>
     visit_phases fuel phases indices ns st = PlanOk st' \<Longrightarrow>
     search_ok (dep_names phases indices) names st' \<and> visiting st' = visiting st \<and>
     set ns \<union> visited st \<subseteq> visited st'"
proof (induction fuel phases indices name st and fuel phases indices ns st
    arbitrary: st' and st' rule: visit_phase_visit_phases.induct)
  case (2 fuel phases indices name st)
  show ?case
  proof (cases "name \<in> visited st")
    case True
    with 2 show ?thesis by auto
  next
    case False
    let ?st1 = "st\<lparr>visiting := insert name (visiting st)\<rparr>"
    from 2(5) False obtain ph st2 where new: "name \<notin> visiting st"
      and ph: "phase_at phases indices name = Some ph"
      and deps: "visit_phases fuel phases indices (phase_depends_on ph) ?st1 = PlanOk st2"
      and st': "st' = st2\<lparr>visiting := visiting st2 - {name}, visited := insert name (visited st2),
                        ordered := ordered st2 @ [name]\<rparr>"
      by (rule visit_phase_OkE)
    have names: "set (phase_depends_on ph) = dep_names phases indices name"
      by (simp add: dep_names_def ph)
    have sub: "set (phase_depends_on ph) \<subseteq> names"
      using 2(2,3) names by (auto simp: closed_names_def)
    have ok1: "search_ok (dep_names phases indices) names ?st1"
      using 2(4) False by (simp add: search_ok_def)
    from 2(1) [OF False new _ ph 2(2) sub ok1 deps]
    have ok2: "search_ok (dep_names phases indices) names st2" and vis: "visiting st2 = insert name (visiting st)"
      and grow: "set (phase_depends_on ph) \<union> visited st \<subseteq> visited st2" by simp_all
    have "name \<notin> visited st2" using ok2 vis by (auto simp: search_ok_def)
    moreover have "dep_names phases indices name \<subseteq> set (ordered st2)"
      using grow names ok2 by (simp add: search_ok_def)
    ultimately show ?thesis
      using ok2 vis grow new 2(3) by (auto simp: st' search_ok_def topo_snoc)
  qed
next
  case (4 fuel phases indices name ns st)
  from 4(6) obtain st1 where one: "visit_phase fuel phases indices name st = PlanOk st1"
    and rest: "visit_phases fuel phases indices ns st1 = PlanOk st'"
    by (simp only: visit_phases.simps result_simps) blast
  from 4(4) have "name \<in> names" and "set ns \<subseteq> names" by simp_all
  with 4(1) [OF 4(3) _ 4(5) one] 4(2) [OF 4(3) _ _ rest] show ?case by auto
qed simp_all

lemma visit_total:
  "closed_names phases indices names \<Longrightarrow> name \<in> names \<Longrightarrow> visiting st \<subseteq> names \<Longrightarrow>
     card (names - visiting st) < fuel \<Longrightarrow>
     search_ok (dep_names phases indices) names st \<Longrightarrow>
     visit_phase fuel phases indices name st \<notin> {PlanPanic, PlanFuel}"
  "closed_names phases indices names \<Longrightarrow> set ns \<subseteq> names \<Longrightarrow> visiting st \<subseteq> names \<Longrightarrow>
     card (names - visiting st) < fuel \<Longrightarrow>
     search_ok (dep_names phases indices) names st \<Longrightarrow>
     visit_phases fuel phases indices ns st \<notin> {PlanPanic, PlanFuel}"
proof (induction fuel phases indices name st and fuel phases indices ns st
    rule: visit_phase_visit_phases.induct)
  case (2 fuel phases indices name st)
  show ?case
  proof (cases "name \<in> visited st \<or> name \<in> visiting st")
    case False
    let ?st1 = "st\<lparr>visiting := insert name (visiting st)\<rparr>"
    obtain ph where ph: "phase_at phases indices name = Some ph"
      using 2(2,3) by (auto simp: closed_names_def)
    have "card (names - insert name (visiting st)) < card (names - visiting st)"
      using 2(2,3) False by (intro psubset_card_mono) (auto simp: closed_names_def)
    then have "card (names - visiting ?st1) < fuel" using 2(5) by simp
    moreover have "set (phase_depends_on ph) \<subseteq> names"
    proof -
      have "dep_names phases indices name = set (phase_depends_on ph)" by (simp add: dep_names_def ph)
      with 2(2,3) show ?thesis by (auto simp: closed_names_def)
    qed
    moreover have "search_ok (dep_names phases indices) names ?st1"
      using 2(6) False by (simp add: search_ok_def)
    ultimately have "visit_phases fuel phases indices (phase_depends_on ph) ?st1 \<notin> {PlanPanic, PlanFuel}"
      using 2(1) [OF _ _ _ ph] False 2(2-4) by simp
    then show ?thesis
      using False ph by (cases "visit_phases fuel phases indices (phase_depends_on ph) ?st1") simp_all
  qed auto
next
  case (4 fuel phases indices name ns st)
  show ?case
  proof (cases "visit_phase fuel phases indices name st")
    case (PlanOk st1)
    with visit_ok(1) [of phases indices names name st fuel st1] 4 show ?thesis by simp
  qed (use 4 in auto)
qed auto

text \<open>The names being visited are the stack of the search, so meeting one again closes a cycle.\<close>

lemma visit_visiting:
  "visit_phase fuel phases indices name st = PlanOk st' \<Longrightarrow> visiting st' = visiting st"
  "visit_phases fuel phases indices ns st = PlanOk st' \<Longrightarrow> visiting st' = visiting st"
proof (induction fuel phases indices name st and fuel phases indices ns st
    arbitrary: st' and st' rule: visit_phase_visit_phases.induct)
  case (2 fuel phases indices name st)
  show ?case
  proof (cases "name \<in> visited st")
    case False
    from 2(2) this obtain ph st2 where new: "name \<notin> visiting st"
      and ph: "phase_at phases indices name = Some ph"
      and deps: "visit_phases fuel phases indices (phase_depends_on ph)
          (st\<lparr>visiting := insert name (visiting st)\<rparr>) = PlanOk st2"
      and st': "st' = st2\<lparr>visiting := visiting st2 - {name}, visited := insert name (visited st2),
                        ordered := ordered st2 @ [name]\<rparr>"
      by (rule visit_phase_OkE)
    from 2(1) [OF False new _ ph deps] new show ?thesis by (simp add: st')
  next
    case True
    with 2(2) show ?thesis by simp
  qed
next
  case (4 fuel phases indices name ns st)
  from 4(3) obtain st1 where "visit_phase fuel phases indices name st = PlanOk st1"
    and "visit_phases fuel phases indices ns st1 = PlanOk st'"
    by (simp only: visit_phases.simps result_simps) blast
  with 4(1,2) show ?case by metis
qed simp_all

lemma visit_cycle:
  "(\<forall>v\<in>visiting st. (v, name) \<in> (dep_edges phases indices)\<^sup>+) \<Longrightarrow>
     visit_phase fuel phases indices name st = PlanErr err \<Longrightarrow>
     \<exists>p. err = PhaseDependencyCycle p \<and> (p, p) \<in> (dep_edges phases indices)\<^sup>+"
  "(\<forall>n\<in>set ns. \<forall>v\<in>visiting st. (v, n) \<in> (dep_edges phases indices)\<^sup>+) \<Longrightarrow>
     visit_phases fuel phases indices ns st = PlanErr err \<Longrightarrow>
     \<exists>p. err = PhaseDependencyCycle p \<and> (p, p) \<in> (dep_edges phases indices)\<^sup>+"
proof (induction fuel phases indices name st and fuel phases indices ns st
    rule: visit_phase_visit_phases.induct)
  case (2 fuel phases indices name st)
  show ?case
  proof (cases "name \<in> visiting st")
    case True
    with 2(2,3) show ?thesis by (auto split: if_splits)
  next
    case False
    let ?st1 = "st\<lparr>visiting := insert name (visiting st)\<rparr>"
    from 2(3) False obtain ph where new: "name \<notin> visited st"
      and ph: "phase_at phases indices name = Some ph"
      and deps: "visit_phases fuel phases indices (phase_depends_on ph) ?st1 = PlanErr err"
      by (auto simp: result_simps Let_def split: if_splits option.splits)
    have edge: "(name, d) \<in> dep_edges phases indices" if "d \<in> set (phase_depends_on ph)" for d
      using that ph by (simp add: dep_edges_def dep_names_def)
    have "\<forall>d\<in>set (phase_depends_on ph). \<forall>v\<in>visiting ?st1. (v, d) \<in> (dep_edges phases indices)\<^sup>+"
      using 2(2) edge by (auto intro: trancl_into_trancl)
    from 2(1) [OF new False _ ph this deps] show ?thesis by simp
  qed
next
  case (4 fuel phases indices name ns st)
  show ?case
  proof (cases "visit_phase fuel phases indices name st")
    case (PlanOk st1)
    with 4(2) [of st1] 4(3,4) visit_visiting(1) [OF PlanOk] show ?thesis by simp
  qed (use 4 in auto)
qed auto

section \<open>The tables\<close>

lemma index_tasks_Ok:
  "index_tasks name ts tb = PlanOk tb' \<Longrightarrow>
     phase_indices tb' = phase_indices tb \<and> distinct (map task_id ts) \<and>
     (\<forall>t\<in>set ts. bm_get (all_tasks tb) (task_id t) = None) \<and>
     (\<forall>k v. bm_get (task_phase tb') k = Some v \<longrightarrow>
        bm_get (task_phase tb) k = Some v \<or> k \<in> task_id ` set ts \<and> v = name) \<and>
     (\<forall>k. bm_get (all_tasks tb') k \<noteq> None \<longleftrightarrow>
        k \<in> task_id ` set ts \<or> bm_get (all_tasks tb) k \<noteq> None)"
proof (induction name ts tb arbitrary: tb' rule: index_tasks.induct)
  case (2 name t ts tb)
  let ?tb1 = "tb\<lparr>all_tasks := bm_insert (task_id t) t (all_tasks tb),
    task_phase := bm_insert (task_id t) name (task_phase tb)\<rparr>"
  from 2(2) have new: "bm_get (all_tasks tb) (task_id t) = None" and rest: "index_tasks name ts ?tb1 = PlanOk tb'"
    by (auto simp: result_simps split: if_splits)
  note T = 2(1) [OF _ rest, simplified]
  from new T have IH: "phase_indices tb' = phase_indices tb" "distinct (map task_id ts)"
    "\<forall>u\<in>set ts. task_id u \<noteq> task_id t \<and> bm_get (all_tasks tb) (task_id u) = None"
    "\<forall>k v. bm_get (task_phase tb') k = Some v \<longrightarrow>
        (if k = task_id t then Some name else bm_get (task_phase tb) k) = Some v
          \<or> k \<in> task_id ` set ts \<and> v = name"
    "\<forall>k. bm_get (all_tasks tb') k \<noteq> None \<longleftrightarrow>
        k \<in> task_id ` set ts \<or> k = task_id t \<or> bm_get (all_tasks tb) k \<noteq> None"
    by (simp_all split: if_splits) blast
  show ?case
  proof (intro conjI)
    show "distinct (map task_id (t # ts))" using IH(2,3) by auto
    show "\<forall>u\<in>set (t # ts). bm_get (all_tasks tb) (task_id u) = None" using IH(3) new by simp
    show "\<forall>k v. bm_get (task_phase tb') k = Some v \<longrightarrow>
        bm_get (task_phase tb) k = Some v \<or> k \<in> task_id ` set (t # ts) \<and> v = name"
      using IH(4) by (simp split: if_splits) blast
    show "\<forall>k. bm_get (all_tasks tb') k \<noteq> None \<longleftrightarrow>
        k \<in> task_id ` set (t # ts) \<or> bm_get (all_tasks tb) k \<noteq> None"
      using IH(5) by auto
  qed (rule IH(1))
qed simp

lemma index_phases_Ok:
  "index_phases i phs tb = PlanOk tb' \<Longrightarrow>
     distinct (map phase_name phs) \<and>
     (\<forall>ph\<in>set phs. bm_get (phase_indices tb) (phase_name ph) = None \<and> phase_tasks ph \<noteq> []) \<and>
     (\<forall>k<length phs. bm_get (phase_indices tb') (phase_name (phs ! k)) = Some (i + k)) \<and>
     (\<forall>n. n \<notin> phase_name ` set phs \<longrightarrow> bm_get (phase_indices tb') n = bm_get (phase_indices tb) n) \<and>
     distinct (concat (map (\<lambda>ph. map task_id (phase_tasks ph)) phs)) \<and>
     (\<forall>ph\<in>set phs. \<forall>t\<in>set (phase_tasks ph). bm_get (all_tasks tb) (task_id t) = None) \<and>
     (\<forall>k v. bm_get (task_phase tb') k = Some v \<longrightarrow> bm_get (task_phase tb) k = Some v \<or>
        (\<exists>ph\<in>set phs. phase_name ph = v \<and> k \<in> task_id ` set (phase_tasks ph)))"
proof (induction i phs tb arbitrary: tb' rule: index_phases.induct)
  case (2 i ph phs tb)
  let ?tb1 = "tb\<lparr>phase_indices := bm_insert (phase_name ph) i (phase_indices tb)\<rparr>"
  from 2(2) obtain tb2 where new: "bm_get (phase_indices tb) (phase_name ph) = None"
    and tasks: "phase_tasks ph \<noteq> []"
    and one: "index_tasks (phase_name ph) (phase_tasks ph) ?tb1 = PlanOk tb2"
    and rest: "index_phases (Suc i) phs tb2 = PlanOk tb'"
    by (auto simp: result_simps split: if_splits)
  note T = index_tasks_Ok [OF one]
  have IH: "distinct (map phase_name phs)"
    "\<forall>ph\<in>set phs. bm_get (phase_indices tb2) (phase_name ph) = None \<and> phase_tasks ph \<noteq> []"
    "\<forall>k<length phs. bm_get (phase_indices tb') (phase_name (phs ! k)) = Some (Suc i + k)"
    "\<forall>n. n \<notin> phase_name ` set phs \<longrightarrow> bm_get (phase_indices tb') n = bm_get (phase_indices tb2) n"
    "distinct (concat (map (\<lambda>ph. map task_id (phase_tasks ph)) phs))"
    "\<forall>ph\<in>set phs. \<forall>t\<in>set (phase_tasks ph). bm_get (all_tasks tb2) (task_id t) = None"
    "\<forall>k v. bm_get (task_phase tb') k = Some v \<longrightarrow> bm_get (task_phase tb2) k = Some v \<or>
        (\<exists>ph\<in>set phs. phase_name ph = v \<and> k \<in> task_id ` set (phase_tasks ph))"
    using 2(1) [OF tasks _ rest] new by simp_all
  have idx2: "bm_get (phase_indices tb2) n = (if n = phase_name ph then Some i else bm_get (phase_indices tb) n)" for n
    using T by simp
  have names: "phase_name ph \<notin> phase_name ` set phs"
    using IH(2) idx2 by (metis image_iff option.distinct(1))
  have tb1: "all_tasks ?tb1 = all_tasks tb" "task_phase ?tb1 = task_phase tb" by simp_all
  have fresh: "\<forall>k. bm_get (all_tasks tb2) k = None \<longrightarrow>
      k \<notin> task_id ` set (phase_tasks ph) \<and> bm_get (all_tasks tb) k = None"
    and none: "\<forall>t\<in>set (phase_tasks ph). bm_get (all_tasks tb) (task_id t) = None"
    and dist: "distinct (map task_id (phase_tasks ph))"
    and owner: "\<forall>k v. bm_get (task_phase tb2) k = Some v \<longrightarrow>
      bm_get (task_phase tb) k = Some v \<or> k \<in> task_id ` set (phase_tasks ph) \<and> v = phase_name ph"
    using T unfolding tb1 by - blast+
  show ?case
  proof (intro conjI)
    show "distinct (map phase_name (ph # phs))" using IH(1) names by simp
    show "\<forall>p\<in>set (ph # phs). bm_get (phase_indices tb) (phase_name p) = None \<and> phase_tasks p \<noteq> []"
      using IH(2) idx2 new tasks names by auto (metis image_eqI)
    show "\<forall>k<length (ph # phs). bm_get (phase_indices tb') (phase_name ((ph # phs) ! k)) = Some (i + k)"
      using IH(3,4) idx2 names by (auto simp: nth_Cons split: nat.split)
    show "\<forall>n. n \<notin> phase_name ` set (ph # phs) \<longrightarrow> bm_get (phase_indices tb') n = bm_get (phase_indices tb) n"
      using IH(4) idx2 by simp
    show "\<forall>p\<in>set (ph # phs). \<forall>t\<in>set (phase_tasks p). bm_get (all_tasks tb) (task_id t) = None"
      using IH(6) fresh none by simp
    show "distinct (concat (map (\<lambda>ph. map task_id (phase_tasks ph)) (ph # phs)))"
    proof -
      have dis: "\<forall>p\<in>set phs. \<forall>u\<in>set (phase_tasks p). task_id u \<notin> task_id ` set (phase_tasks ph)"
        using IH(6) fresh by blast
      have "set (map task_id (phase_tasks ph))
          \<inter> set (concat (map (\<lambda>ph. map task_id (phase_tasks ph)) phs)) = {}"
      proof (rule equals0I)
        fix k
        assume "k \<in> set (map task_id (phase_tasks ph))
            \<inter> set (concat (map (\<lambda>ph. map task_id (phase_tasks ph)) phs))"
        then obtain p u where "p \<in> set phs" "u \<in> set (phase_tasks p)" "k = task_id u"
          and "k \<in> task_id ` set (phase_tasks ph)" by (auto simp del: image_iff) (metis imageI)
        with dis show False by blast
      qed
      with IH(5) dist show ?thesis by simp
    qed
    show "\<forall>k v. bm_get (task_phase tb') k = Some v \<longrightarrow> bm_get (task_phase tb) k = Some v \<or>
        (\<exists>p\<in>set (ph # phs). phase_name p = v \<and> k \<in> task_id ` set (phase_tasks p))"
      using IH(7) owner unfolding list.set by blast
  qed
qed simp

lemma check_dependencies_Ok:
  "check_dependencies name ds indices = PlanOk () \<longleftrightarrow>
     name \<notin> set ds \<and> (\<forall>d\<in>set ds. bm_get indices d \<noteq> None)"
  by (induction name ds indices rule: check_dependencies.induct) auto

lemma check_phases_Ok:
  "check_phases phs indices = PlanOk () \<longleftrightarrow>
     (\<forall>ph\<in>set phs. check_dependencies (phase_name ph) (phase_depends_on ph) indices = PlanOk () \<and>
        validate_parallel_write_scope ph = PlanOk ())"
  by (induction phs indices rule: check_phases.induct) (auto simp: result_simps)

text \<open>What holds once the two first passes of \<open>from_config\<close> succeeded.\<close>

definition tables_of :: "phase list \<Rightarrow> plan_tables \<Rightarrow> bool" where
  "tables_of phases tb \<longleftrightarrow>
     index_phases 0 phases \<lparr>phase_indices = bm_empty, all_tasks = bm_empty, task_phase = bm_empty\<rparr> = PlanOk tb
     \<and> check_phases phases (phase_indices tb) = PlanOk ()"

lemma tables_of_facts:
  assumes "tables_of phases tb"
  shows "distinct (map phase_name phases)"
    and "\<forall>ph\<in>set phases. phase_tasks ph \<noteq> []"
    and "distinct (concat (map (\<lambda>ph. map task_id (phase_tasks ph)) phases))"
    and "\<forall>k<length phases. bm_get (phase_indices tb) (phase_name (phases ! k)) = Some k"
    and "\<forall>n. n \<notin> phase_name ` set phases \<longrightarrow> bm_get (phase_indices tb) n = None"
    and "\<forall>d v. bm_get (task_phase tb) d = Some v \<longrightarrow>
        (\<exists>ph\<in>set phases. phase_name ph = v \<and> d \<in> task_id ` set (phase_tasks ph))"
proof -
  from assms have "index_phases 0 phases \<lparr>phase_indices = bm_empty, all_tasks = bm_empty,
      task_phase = bm_empty\<rparr> = PlanOk tb" by (simp add: tables_of_def)
  note facts = index_phases_Ok [OF this, simplified]
  from facts show "distinct (map phase_name phases)" and "\<forall>ph\<in>set phases. phase_tasks ph \<noteq> []"
    and "distinct (concat (map (\<lambda>ph. map task_id (phase_tasks ph)) phases))"
    and "\<forall>k<length phases. bm_get (phase_indices tb) (phase_name (phases ! k)) = Some k"
    and "\<forall>n. n \<notin> phase_name ` set phases \<longrightarrow> bm_get (phase_indices tb) n = None"
    and "\<forall>d v. bm_get (task_phase tb) d = Some v \<longrightarrow>
        (\<exists>ph\<in>set phases. phase_name ph = v \<and> d \<in> task_id ` set (phase_tasks ph))"
    by blast+
qed

lemma tables_phase_at:
  assumes "tables_of phases tb" and "ph \<in> set phases"
  shows "phase_at phases (phase_indices tb) (phase_name ph) = Some ph"
proof -
  from assms(2) obtain k where "k < length phases" "phases ! k = ph" by (auto simp: in_set_conv_nth)
  with tables_of_facts(4) [OF assms(1)] show ?thesis by (auto simp: phase_at_def)
qed

lemma tables_deps:
  assumes "tables_of phases tb" and "ph \<in> set phases"
  shows "set (phase_depends_on ph) \<subseteq> phase_name ` set phases"
proof -
  have "\<forall>d\<in>set (phase_depends_on ph). bm_get (phase_indices tb) d \<noteq> None"
    using assms by (auto simp: tables_of_def check_phases_Ok check_dependencies_Ok)
  with tables_of_facts(5) [OF assms(1)] show ?thesis by blast
qed

lemma tables_closed:
  assumes "tables_of phases tb"
  shows "closed_names phases (phase_indices tb) (phase_name ` set phases)"
  using tables_phase_at [OF assms] tables_deps [OF assms]
  by (auto simp: closed_names_def dep_names_def)

lemma ordered_phases_Ok:
  assumes "closed_names phases indices (phase_name ` set phases)"
    and "ordered_phases phases indices = PlanOk ord"
  shows "distinct ord" and "set ord = phase_name ` set phases" and "topo (dep_names phases indices) ord"
proof -
  let ?st0 = "\<lparr>visiting = {}, visited = {}, ordered = []\<rparr> :: visit_state"
  obtain st where st: "visit_phases (Suc (length phases)) phases indices (map phase_name phases) ?st0 = PlanOk st"
    and ord: "ord = ordered st"
    using assms(2) by (auto simp: ordered_phases_def result_simps simp del: visit_phases.simps)
  have "search_ok (dep_names phases indices) (phase_name ` set phases) ?st0"
    by (simp add: search_ok_def)
  from visit_ok(2) [OF assms(1) _ this st] ord
  show "distinct ord" "set ord = phase_name ` set phases" "topo (dep_names phases indices) ord"
    by (auto simp: search_ok_def)
qed

lemma ordered_phases_total:
  assumes "closed_names phases indices (phase_name ` set phases)"
  shows "ordered_phases phases indices \<notin> {PlanPanic, PlanFuel}"
proof -
  let ?st0 = "\<lparr>visiting = {}, visited = {}, ordered = []\<rparr> :: visit_state"
  have "card (phase_name ` set phases) < Suc (length phases)"
    using card_image_le [of "set phases" phase_name] card_length [of phases] by simp
  then have "visit_phases (Suc (length phases)) phases indices (map phase_name phases) ?st0
      \<notin> {PlanPanic, PlanFuel}"
    by (intro visit_total(2) [OF assms]) (simp_all add: search_ok_def)
  then show ?thesis
    by (cases "visit_phases (Suc (length phases)) phases indices (map phase_name phases) ?st0")
      (simp_all add: ordered_phases_def del: visit_phases.simps)
qed

lemma ordered_phases_Err:
  assumes "ordered_phases phases indices = PlanErr err"
  shows "\<exists>p. err = PhaseDependencyCycle p \<and> (p, p) \<in> (dep_edges phases indices)\<^sup>+"
  using assms visit_cycle(2) [of "map phase_name phases"
      "\<lparr>visiting = {}, visited = {}, ordered = []\<rparr>"]
  by (simp add: ordered_phases_def result_simps del: visit_phases.simps)

lemma topo_acyclic:
  assumes "topo deps ord" and "distinct ord" and "(a, a) \<in> {(x, y). y \<in> deps x}\<^sup>+"
  shows "a \<notin> set ord"
proof -
  have before: "\<exists>j<i. b = ord ! j" if "(ord ! i, b) \<in> {(x, y). y \<in> deps x}\<^sup>+" "i < length ord" for i b
    using that
  proof (induction rule: trancl_induct)
    case (base b)
    then show ?case using assms(1) by (fastforce simp: topo_def in_set_conv_nth)
  next
    case (step b c)
    then obtain j where "j < i" "b = ord ! j" by auto
    moreover from this step.hyps(2) step.prems assms(1) have "c \<in> set (take j ord)"
      unfolding topo_def by (metis (mono_tags) case_prodD mem_Collect_eq order.strict_trans subsetD)
    moreover from this obtain k where "k < j" "c = ord ! k" by (auto simp: in_set_conv_nth)
    ultimately show ?case by (auto intro: order.strict_trans)
  qed
  show ?thesis
  proof
    assume "a \<in> set ord"
    then obtain i where i: "i < length ord" "a = ord ! i" by (auto simp: in_set_conv_nth)
    with before [of i a] assms(3) obtain j where "j < i" "ord ! i = ord ! j" by auto
    with i assms(2) show False by (simp add: nth_eq_iff_index_eq)
  qed
qed

section \<open>The last passes\<close>

lemma order_lookup:
  assumes "distinct names"
  shows "bm_get (bm_collect (zip names [0..<length names])) n = Some i
    \<longleftrightarrow> i < length names \<and> names ! i = n"
proof -
  have "map fst (zip names [0..<length names]) = names" by simp
  then have "bm_get (bm_collect (zip names [0..<length names])) n = map_of (zip names [0..<length names]) n"
    unfolding bm_collect_def using assms by (simp only: bmap.lookup_collect_distinct)
  then show ?thesis
    using assms by (auto simp: map_of_eq_Some_iff set_zip)
qed

lemma check_results_Ok:
  "check_results name tid ds owner order = PlanOk () \<longleftrightarrow>
     (\<forall>d\<in>set ds. \<exists>p i j. bm_get owner d = Some p \<and> bm_get order p = Some i \<and>
        bm_get order name = Some j \<and> i < j)"
  by (induction name tid ds owner order rule: check_results.induct) (auto split: option.splits)

lemma check_phase_results_Ok:
  "check_phase_results phs owner order = PlanOk () \<longleftrightarrow>
     (\<forall>ph\<in>set phs. \<forall>t\<in>set (phase_tasks ph).
        check_results (phase_name ph) (task_id t) (task_depends_on_results t) owner order = PlanOk ())"
proof -
  have "check_task_results name ts owner order = PlanOk () \<longleftrightarrow>
      (\<forall>t\<in>set ts. check_results name (task_id t) (task_depends_on_results t) owner order = PlanOk ())"
    for name ts
    by (induction name ts owner order rule: check_task_results.induct) (auto simp: result_simps)
  then show ?thesis
    by (induction phs owner order rule: check_phase_results.induct) (auto simp: result_simps)
qed

lemma check_results_no_panic:
  assumes "\<forall>d p. bm_get owner d = Some p \<longrightarrow> bm_get order p \<noteq> None" and "bm_get order name \<noteq> None"
  shows "check_results name tid ds owner order \<notin> {PlanPanic, PlanFuel}"
  using assms
proof (induction name tid ds owner order rule: check_results.induct)
  case (2 name tid d ds owner order)
  obtain j where j: "bm_get order name = Some j" using 2(3) by auto
  show ?case
  proof (cases "bm_get owner d")
    case (Some p)
    then obtain i where i: "bm_get order p = Some i" using 2(2) by blast
    show ?thesis
    proof (cases "j \<le> i")
      case False
      with 2(1) [OF Some _ i j False] 2(2,3) Some i j show ?thesis by simp
    qed (simp add: Some i j)
  qed simp
qed simp

lemma collect_phases_eq:
  "\<forall>n\<in>set names. phase_at phases indices n \<noteq> None \<Longrightarrow>
     collect_phases names phases indices
       = PlanOk (map (\<lambda>n. plan_of_phase (the (phase_at phases indices n))) names)"
  by (induction names phases indices rule: collect_phases.induct) auto

end
