(* ===== verification/Plan_Properties.thy ===== *)
theory Plan_Properties
  imports Plan_Search
begin

text \<open>
  What the phase planner guarantees (\<open>WorkflowPlan::from_config\<close>): it always returns, it reports a
  cycle exactly where there is one, an accepted plan holds every phase once in dependency order
  with every result produced before it is used, and parallel writers have disjoint literal scopes.
\<close>

text \<open>The planner after the first pass, on the tables it built.\<close>

definition plan_from_tables :: "workflow_config \<Rightarrow> plan_tables \<Rightarrow> workflow_plan plan_result" where
  "plan_from_tables cfg tb =
     plan_bind (ordered_phases (config_phases cfg) (phase_indices tb)) (\<lambda>names.
       plan_bind (check_phase_results (config_phases cfg) (task_phase tb)
           (bm_collect (zip names [0..<length names]))) (\<lambda>_.
       plan_bind (collect_phases names (config_phases cfg) (phase_indices tb)) (\<lambda>pls.
         PlanOk \<lparr>plan_goal = config_goal cfg, plan_max_concurrent = config_max_concurrent cfg,
                 plan_phases = pls\<rparr>)))"

lemma from_config_eq:
  "from_config cfg =
     plan_bind (validate_non_empty ''workflow goal'' (config_goal cfg)) (\<lambda>_.
     if \<not> (1 \<le> config_max_concurrent cfg \<and> config_max_concurrent cfg \<le> 20)
     then PlanErr (InvalidMaxConcurrent (config_max_concurrent cfg))
     else if config_phases cfg = [] then PlanErr EmptyWorkflow
     else
       plan_bind (index_phases 0 (config_phases cfg)
           \<lparr>phase_indices = bm_empty, all_tasks = bm_empty, task_phase = bm_empty\<rparr>) (\<lambda>tb.
       plan_bind (check_phases (config_phases cfg) (phase_indices tb)) (\<lambda>_. plan_from_tables cfg tb)))"
  unfolding from_config_def plan_from_tables_def Let_def by (rule refl)

lemma if_Err_Ok: "(if c then PlanErr err else r) = PlanOk y \<longleftrightarrow> \<not> c \<and> r = PlanOk y"
  by simp

lemma plan_bind_unit_Ok: "plan_bind r f = PlanOk y \<longleftrightarrow> r = PlanOk () \<and> f () = PlanOk y"
  for r :: "unit plan_result"
  by (cases r) simp_all

lemma from_config_tables:
  assumes "from_config cfg = PlanOk plan"
  shows "\<exists>tb. tables_of (config_phases cfg) tb \<and> plan_from_tables cfg tb = PlanOk plan
    \<and> 1 \<le> config_max_concurrent cfg \<and> config_max_concurrent cfg \<le> 20"
  using assms unfolding from_config_eq plan_bind_unit_Ok plan_bind_Ok if_Err_Ok not_not tables_of_def by blast

lemma plan_from_tables_Ok:
  assumes "plan_from_tables cfg tb = PlanOk plan"
  shows "\<exists>names. ordered_phases (config_phases cfg) (phase_indices tb) = PlanOk names \<and>
       check_phase_results (config_phases cfg) (task_phase tb) (bm_collect (zip names [0..<length names])) = PlanOk () \<and>
       collect_phases names (config_phases cfg) (phase_indices tb) = PlanOk (plan_phases plan) \<and>
       plan_max_concurrent plan = config_max_concurrent cfg"
proof -
  from assms [unfolded plan_from_tables_def plan_bind_unit_Ok plan_bind_Ok] obtain names pls
    where "ordered_phases (config_phases cfg) (phase_indices tb) = PlanOk names"
      and "check_phase_results (config_phases cfg) (task_phase tb) (bm_collect (zip names [0..<length names])) = PlanOk ()"
      and "collect_phases names (config_phases cfg) (phase_indices tb) = PlanOk pls"
      and "plan = \<lparr>plan_goal = config_goal cfg, plan_max_concurrent = config_max_concurrent cfg, plan_phases = pls\<rparr>"
    by blast
  then show ?thesis by simp
qed

text \<open>The dependency relation of a configuration: a phase and a name it depends on.\<close>

definition config_edges :: "workflow_config \<Rightarrow> (string \<times> string) set" where
  "config_edges cfg = {(phase_name ph, d) | ph d. ph \<in> set (config_phases cfg) \<and> d \<in> set (phase_depends_on ph)}"

lemma tables_phase_unique:
  assumes "tables_of phases tb" and "p \<in> set phases" and "q \<in> set phases"
    and "phase_name p = phase_name q"
  shows "p = q"
  using tables_phase_at [OF assms(1,2)] tables_phase_at [OF assms(1,3)] assms(4) by (metis option.inject)

lemma dep_edges_config:
  assumes "tables_of (config_phases cfg) tb"
  shows "dep_edges (config_phases cfg) (phase_indices tb) = config_edges cfg"
proof -
  let ?phs = "config_phases cfg"
  have "b \<in> dep_names ?phs (phase_indices tb) a \<longleftrightarrow> (a, b) \<in> config_edges cfg" for a b
  proof (cases "a \<in> phase_name ` set ?phs")
    case True
    then obtain ph where ph: "ph \<in> set ?phs" "a = phase_name ph" by auto
    have "(a, b) \<in> config_edges cfg \<longleftrightarrow> b \<in> set (phase_depends_on ph)"
      unfolding config_edges_def using ph tables_phase_unique [OF assms _ ph(1)] by blast
    with tables_phase_at [OF assms ph(1)] ph(2) show ?thesis by (simp add: dep_names_def)
  next
    case False
    then have "bm_get (phase_indices tb) a = None" using tables_of_facts(5) [OF assms] by blast
    then have "dep_names ?phs (phase_indices tb) a = {}" by (simp add: dep_names_def phase_at_def)
    with False show ?thesis unfolding config_edges_def by blast
  qed
  then show ?thesis unfolding dep_edges_def by blast
qed

text \<open>The ids of the tasks in the phases before position \<open>i\<close> of a plan.\<close>

definition tasks_before :: "phase_plan list \<Rightarrow> nat \<Rightarrow> string set" where
  "tasks_before pls i = \<Union> ((\<lambda>p. task_id ` set (plan_tasks p)) ` set (take i pls))"

text \<open>What the successful run knows about the names in plan order.\<close>

definition planned :: "workflow_config \<Rightarrow> plan_tables \<Rightarrow> string list \<Rightarrow> workflow_plan \<Rightarrow> bool" where
  "planned cfg tb names plan \<longleftrightarrow> tables_of (config_phases cfg) tb \<and> distinct names \<and>
     set names = phase_name ` set (config_phases cfg) \<and>
     topo (dep_names (config_phases cfg) (phase_indices tb)) names \<and>
     check_phase_results (config_phases cfg) (task_phase tb) (bm_collect (zip names [0..<length names])) = PlanOk () \<and>
     plan_phases plan = map (\<lambda>n. plan_of_phase (the (phase_at (config_phases cfg) (phase_indices tb) n))) names"

lemma from_config_planned:
  assumes "from_config cfg = PlanOk plan"
  shows "\<exists>tb names. planned cfg tb names plan"
proof -
  from from_config_tables [OF assms] obtain tb where tb: "tables_of (config_phases cfg) tb"
    and fin: "plan_from_tables cfg tb = PlanOk plan" by blast
  from plan_from_tables_Ok [OF fin] obtain names
    where ord: "ordered_phases (config_phases cfg) (phase_indices tb) = PlanOk names"
      and res: "check_phase_results (config_phases cfg) (task_phase tb) (bm_collect (zip names [0..<length names])) = PlanOk ()"
      and col: "collect_phases names (config_phases cfg) (phase_indices tb) = PlanOk (plan_phases plan)"
    by blast
  note o = ordered_phases_Ok [OF tables_closed [OF tb] ord]
  have "\<forall>n\<in>set names. phase_at (config_phases cfg) (phase_indices tb) n \<noteq> None"
    using o(2) tables_phase_at [OF tb] by auto
  with collect_phases_eq [OF this] col tb o res show ?thesis by (auto simp: planned_def)
qed

lemma planned_nth:
  assumes "planned cfg tb names plan" and "i < length names"
  shows "\<exists>ph\<in>set (config_phases cfg). phase_name ph = names ! i \<and> plan_phases plan ! i = plan_of_phase ph
    \<and> phase_at (config_phases cfg) (phase_indices tb) (names ! i) = Some ph"
proof -
  from assms have "names ! i \<in> phase_name ` set (config_phases cfg)" by (auto simp: planned_def dest: nth_mem)
  then obtain ph where ph: "ph \<in> set (config_phases cfg)" "names ! i = phase_name ph" by auto
  moreover have "phase_at (config_phases cfg) (phase_indices tb) (names ! i) = Some ph"
    using tables_phase_at [of "config_phases cfg" tb ph] ph assms(1) by (simp add: planned_def)
  ultimately show ?thesis using assms by (auto simp: planned_def)
qed

lemma planned_length [simp]: "planned cfg tb names plan \<Longrightarrow> length (plan_phases plan) = length names"
  by (simp add: planned_def)

lemma planned_names: "planned cfg tb names plan \<Longrightarrow> map plan_name (plan_phases plan) = names"
proof (rule nth_equalityI)
  fix i
  assume "planned cfg tb names plan" and "i < length (map plan_name (plan_phases plan))"
  with planned_nth [of cfg tb names plan i] show "map plan_name (plan_phases plan) ! i = names ! i"
    by (auto simp: plan_of_phase_def)
qed simp

lemma planned_phases:
  assumes "planned cfg tb names plan"
  shows "set (plan_phases plan) = plan_of_phase ` set (config_phases cfg)"
proof -
  have "plan_of_phase ph \<in> set (plan_phases plan)" if "ph \<in> set (config_phases cfg)" for ph
    using that assms tables_phase_at [of "config_phases cfg" tb ph] by (force simp: planned_def)
  moreover have "p \<in> plan_of_phase ` set (config_phases cfg)" if "p \<in> set (plan_phases plan)" for p
    using that planned_nth [OF assms] assms by (fastforce simp: in_set_conv_nth [of _ "plan_phases plan"])
  ultimately show ?thesis by blast
qed

text \<open>The contract of a plan: every phase after its dependencies, every result before its use.\<close>

definition dependencies_first :: "workflow_config \<Rightarrow> workflow_plan \<Rightarrow> bool" where
  "dependencies_first cfg plan \<longleftrightarrow>
     (\<forall>i<length (plan_phases plan). \<forall>ph\<in>set (config_phases cfg).
        phase_name ph = plan_name (plan_phases plan ! i) \<longrightarrow>
        set (phase_depends_on ph) \<subseteq> plan_name ` set (take i (plan_phases plan)))"

definition results_available :: "workflow_plan \<Rightarrow> bool" where
  "results_available plan \<longleftrightarrow>
     (\<forall>i<length (plan_phases plan). \<forall>t\<in>set (plan_tasks (plan_phases plan ! i)).
        set (task_depends_on_results t) \<subseteq> tasks_before (plan_phases plan) i)"

lemma planned_dependencies_first:
  assumes "planned cfg tb names plan"
  shows "dependencies_first cfg plan"
  unfolding dependencies_first_def
proof (intro allI ballI impI)
  fix i and ph :: phase
  assume i: "i < length (plan_phases plan)" and ph: "ph \<in> set (config_phases cfg)"
    and name: "phase_name ph = plan_name (plan_phases plan ! i)"
  have at: "phase_at (config_phases cfg) (phase_indices tb) (phase_name ph) = Some ph"
    using assms tables_phase_at ph by (simp add: planned_def)
  have eq: "phase_name ph = names ! i"
    using i name planned_names [OF assms] by (metis nth_map)
  have "i < length names" using i assms by simp
  then have "dep_names (config_phases cfg) (phase_indices tb) (names ! i) \<subseteq> set (take i names)"
    using assms by (simp add: planned_def topo_def)
  then have "set (phase_depends_on ph) \<subseteq> set (take i names)"
    using at eq by (simp add: dep_names_def)
  then show "set (phase_depends_on ph) \<subseteq> plan_name ` set (take i (plan_phases plan))"
    unfolding planned_names [OF assms, symmetric] by (simp add: take_map)
qed

lemma planned_results_available:
  assumes "planned cfg tb names plan"
  shows "results_available plan"
  unfolding results_available_def
proof (intro allI impI ballI subsetI)
  fix i t d
  assume i: "i < length (plan_phases plan)" and t: "t \<in> set (plan_tasks (plan_phases plan ! i))"
    and d: "d \<in> set (task_depends_on_results t)"
  have tb: "tables_of (config_phases cfg) tb" and dist: "distinct names" using assms by (simp_all add: planned_def)
  obtain ph where ph: "ph \<in> set (config_phases cfg)" "phase_name ph = names ! i" "t \<in> set (phase_tasks ph)"
    using planned_nth [of cfg tb names plan i] assms i t by (auto simp: plan_of_phase_def)
  then obtain v a b where v: "bm_get (task_phase tb) d = Some v"
    and a: "a < length names" "names ! a = v" and b: "b < length names" "names ! b = phase_name ph" and "a < b"
    using assms d unfolding planned_def check_phase_results_Ok check_results_Ok order_lookup [OF dist] by blast
  then have "a < i" using ph(2) dist i assms by (simp add: nth_eq_iff_index_eq)
  from tables_of_facts(6) [OF tb] v obtain q where q: "q \<in> set (config_phases cfg)" "phase_name q = v"
    "d \<in> task_id ` set (phase_tasks q)" by blast
  then have "plan_phases plan ! a = plan_of_phase q"
    using planned_nth [OF assms a(1)] tables_phase_at [OF tb q(1)] a(2) by auto
  then have "d \<in> task_id ` set (plan_tasks (plan_phases plan ! a))"
    using q(3) by (simp add: plan_of_phase_def)
  moreover have "plan_phases plan ! a \<in> set (take i (plan_phases plan))"
    using \<open>a < i\<close> i by (auto simp: in_set_conv_nth)
  ultimately show "d \<in> tasks_before (plan_phases plan) i" by (auto simp: tasks_before_def)
qed

text \<open>
  C28. An accepted plan runs every configured phase exactly once, after all phases it depends on,
  and a task only uses results of tasks in strictly earlier phases; task ids are unique and the
  concurrency is between 1 and 20.
\<close>

theorem plan_in_dependency_order:
  assumes "from_config cfg = PlanOk plan"
  shows "distinct (map plan_name (plan_phases plan)) \<and>
    set (plan_phases plan) = plan_of_phase ` set (config_phases cfg) \<and>
    dependencies_first cfg plan \<and> results_available plan \<and>
    distinct (concat (map (\<lambda>ph. map task_id (phase_tasks ph)) (config_phases cfg))) \<and>
    unat (plan_max_concurrent plan) \<in> {1..20}"
proof -
  from from_config_planned [OF assms] obtain tb names where p: "planned cfg tb names plan" by blast
  from from_config_tables [OF assms] plan_from_tables_Ok
  have "1 \<le> plan_max_concurrent plan \<and> plan_max_concurrent plan \<le> 20" by metis
  then have "unat (plan_max_concurrent plan) \<in> {1..20}" by (simp add: word_le_nat_alt)
  moreover have "distinct names" using p by (simp add: planned_def)
  ultimately show ?thesis
    using p planned_names [OF p] planned_phases [OF p] planned_dependencies_first [OF p]
      planned_results_available [OF p] tables_of_facts(3) [of "config_phases cfg" tb]
    by (simp add: planned_def)
qed

section \<open>Totality\<close>

definition returns :: "'a plan_result \<Rightarrow> bool" where
  "returns r \<longleftrightarrow> r \<noteq> PlanPanic \<and> r \<noteq> PlanFuel"

lemma returns_simps [simp]: "returns (PlanOk x)" "returns (PlanErr err)" "\<not> returns PlanPanic"
  "\<not> returns PlanFuel"
  by (simp_all add: returns_def)

lemma returns_bind: "returns r \<Longrightarrow> (\<And>x. r = PlanOk x \<Longrightarrow> returns (f x)) \<Longrightarrow> returns (plan_bind r f)"
  by (cases r) simp_all

lemma returns_non_empty [simp]: "returns (validate_non_empty field v)"
  by (simp add: validate_non_empty_def)

lemma returns_dependencies [simp]: "returns (check_dependencies name ds idx)"
  by (induction name ds idx rule: check_dependencies.induct) simp_all

lemma returns_scopes [simp]: "returns (check_write_scopes ts)" "returns (check_against t ts)"
  by (induction ts) simp_all

lemma returns_disjoint [simp]: "returns (check_disjoint ts)"
  by (induction ts rule: check_disjoint.induct) (auto intro: returns_bind)

lemma returns_parallel [simp]: "returns (validate_parallel_write_scope ph)"
  by (simp add: validate_parallel_write_scope_def Let_def returns_bind)

lemma returns_check_phases [simp]: "returns (check_phases phs idx)"
  by (induction phs idx rule: check_phases.induct) (auto intro!: returns_bind)

lemma returns_index_tasks [simp]: "returns (index_tasks name ts tb)"
  by (induction name ts tb rule: index_tasks.induct) (auto intro!: returns_bind)

lemma returns_index_phases [simp]: "returns (index_phases i phs tb)"
  by (induction i phs tb rule: index_phases.induct) (auto intro!: returns_bind)

lemma returns_check_phase_results:
  assumes "\<forall>d p. bm_get owner d = Some p \<longrightarrow> bm_get order p \<noteq> None"
    and "\<forall>ph\<in>set phs. bm_get order (phase_name ph) \<noteq> None"
  shows "returns (check_phase_results phs owner order)"
proof -
  have one: "returns (check_task_results name ts owner order)" if "bm_get order name \<noteq> None" for name ts
    using that check_results_no_panic [OF assms(1) that]
    by (induction ts) (auto intro!: returns_bind simp: returns_def [of "check_results a b c d e" for a b c d e])
  show ?thesis using assms(2) one by (induction phs) (auto intro!: returns_bind)
qed

lemma returns_plan_from_tables:
  assumes "tables_of (config_phases cfg) tb"
  shows "returns (plan_from_tables cfg tb)"
  unfolding plan_from_tables_def
proof (rule returns_bind)
  note closed = tables_closed [OF assms]
  show "returns (ordered_phases (config_phases cfg) (phase_indices tb))"
    using ordered_phases_total [OF closed] by (simp add: returns_def)
  fix names
  assume "ordered_phases (config_phases cfg) (phase_indices tb) = PlanOk names"
  note o = ordered_phases_Ok [OF closed this]
  let ?order = "bm_collect (zip names [0..<length names])"
  have order: "bm_get ?order n \<noteq> None" if "n \<in> phase_name ` set (config_phases cfg)" for n
    using that o(2) order_lookup [OF o(1), of n] by (auto simp: in_set_conv_nth)
  have "returns (check_phase_results (config_phases cfg) (task_phase tb) ?order)"
  proof (rule returns_check_phase_results)
    show "\<forall>d p. bm_get (task_phase tb) d = Some p \<longrightarrow> bm_get ?order p \<noteq> None"
      using tables_of_facts(6) [OF assms] order by blast
  qed (use order in blast)
  moreover have "\<forall>n\<in>set names. phase_at (config_phases cfg) (phase_indices tb) n \<noteq> None"
    using o(2) tables_phase_at [OF assms] by auto
  ultimately show "returns (plan_bind (check_phase_results (config_phases cfg) (task_phase tb) ?order)
      (\<lambda>_. plan_bind (collect_phases names (config_phases cfg) (phase_indices tb)) (\<lambda>pls.
         PlanOk \<lparr>plan_goal = config_goal cfg, plan_max_concurrent = config_max_concurrent cfg,
                 plan_phases = pls\<rparr>)))"
    by (auto intro!: returns_bind simp: collect_phases_eq)
qed

text \<open>
  Planning always returns: for every configuration the result is a plan or a validation
  error. No index expression is out of range, although the phase and order tables are read without
  a check, and the recursion of the search is never deeper than the number of phases.
\<close>

theorem from_config_total: "from_config cfg \<noteq> PlanPanic \<and> from_config cfg \<noteq> PlanFuel"
proof -
  have "returns (from_config cfg)"
    unfolding from_config_eq
    by (auto intro!: returns_bind returns_plan_from_tables simp: tables_of_def)
  then show ?thesis by (simp add: returns_def)
qed

section \<open>Cycles\<close>

fun cycle_error :: "'a plan_result \<Rightarrow> bool" where
  "cycle_error (PlanErr (PhaseDependencyCycle p)) = True"
| "cycle_error _ = False"

lemma cycle_error_bind:
  "cycle_error (plan_bind r f) \<Longrightarrow> cycle_error r \<or> (\<exists>x. r = PlanOk x \<and> cycle_error (f x))"
proof (cases r)
  case (PlanErr err)
  then show "cycle_error (plan_bind r f) \<Longrightarrow> ?thesis" by (cases err) simp_all
qed simp_all

lemma cycle_error_not [simp]: "\<not> cycle_error (validate_non_empty field v)"
  "\<not> cycle_error (if c then PlanErr (EmptyPhase n) else r) \<longleftrightarrow> \<not> (\<not> c \<and> cycle_error r)"
  by (simp_all add: validate_non_empty_def)

lemma no_cycle_checks [simp]: "\<not> cycle_error (check_dependencies name ds idx)"
  by (induction name ds idx rule: check_dependencies.induct) simp_all

lemma no_cycle_scopes [simp]: "\<not> cycle_error (check_write_scopes ts)" "\<not> cycle_error (check_against t ts)"
  by (induction ts) simp_all

lemma no_cycle_disjoint [simp]: "\<not> cycle_error (check_disjoint ts)"
  by (induction ts rule: check_disjoint.induct) (auto dest: cycle_error_bind)

lemma no_cycle_parallel [simp]: "\<not> cycle_error (validate_parallel_write_scope ph)"
  by (auto simp: validate_parallel_write_scope_def Let_def dest: cycle_error_bind)

lemma no_cycle_check_phases [simp]: "\<not> cycle_error (check_phases phs idx)"
  by (induction phs idx rule: check_phases.induct) (auto dest!: cycle_error_bind)

lemma no_cycle_index_tasks [simp]: "\<not> cycle_error (index_tasks name ts tb)"
  by (induction name ts tb rule: index_tasks.induct)
    (auto dest!: cycle_error_bind split: if_splits)

lemma no_cycle_index_phases [simp]: "\<not> cycle_error (index_phases i phs tb)"
  by (induction i phs tb rule: index_phases.induct)
    (auto dest!: cycle_error_bind split: if_splits)

lemma no_cycle_results [simp]: "\<not> cycle_error (check_results name tid ds owner order)"
  by (induction name tid ds owner order rule: check_results.induct) (auto split: option.splits)

lemma no_cycle_phase_results [simp]: "\<not> cycle_error (check_phase_results phs owner order)"
proof -
  have "\<not> cycle_error (check_task_results name ts owner order)" for name ts
    by (induction ts) (auto dest!: cycle_error_bind)
  then show ?thesis by (induction phs) (auto dest!: cycle_error_bind)
qed

lemma no_cycle_collect [simp]: "\<not> cycle_error (collect_phases names phases idx)"
  by (induction names phases idx rule: collect_phases.induct)
    (auto dest!: cycle_error_bind split: option.splits)

text \<open>
  Cycles are found exactly: when planning fails with \<open>PhaseDependencyCycle p\<close>, the phase p
  really depends on itself through one or more dependencies, and when it succeeds no phase does.
\<close>

theorem cycle_report_exact:
  "case from_config cfg of
     PlanErr (PhaseDependencyCycle p) \<Rightarrow> (p, p) \<in> (config_edges cfg)\<^sup>+
   | PlanOk plan \<Rightarrow> acyclic (config_edges cfg)
   | _ \<Rightarrow> True"
proof -
  have ok: "acyclic (config_edges cfg)" if "from_config cfg = PlanOk plan" for plan
  proof -
    from from_config_planned [OF that] obtain tb names where p: "planned cfg tb names plan" by blast
    then have tb: "tables_of (config_phases cfg) tb" by (simp add: planned_def)
    have "(a, a) \<notin> (config_edges cfg)\<^sup>+" for a
    proof
      assume a: "(a, a) \<in> (config_edges cfg)\<^sup>+"
      then have "a \<in> set names" using p by (auto simp: planned_def config_edges_def dest!: tranclD)
      with topo_acyclic [of "dep_names (config_phases cfg) (phase_indices tb)" names a] p a
        dep_edges_config [OF tb] show False by (simp add: planned_def dep_edges_def)
    qed
    then show ?thesis by (simp add: acyclic_def)
  qed
  have err: "(p, p) \<in> (config_edges cfg)\<^sup>+" if bad: "from_config cfg = PlanErr (PhaseDependencyCycle p)" for p
  proof -
    have "cycle_error (from_config cfg)" by (simp add: bad)
    then have "\<exists>tb. tables_of (config_phases cfg) tb \<and> from_config cfg = plan_from_tables cfg tb
        \<and> cycle_error (plan_from_tables cfg tb)"
      unfolding from_config_eq
      by (auto simp: tables_of_def result_simps dest!: cycle_error_bind split: if_splits)
    then obtain tb where tb: "tables_of (config_phases cfg) tb"
      and c: "plan_from_tables cfg tb = PlanErr (PhaseDependencyCycle p)"
      using bad by auto
    have "ordered_phases (config_phases cfg) (phase_indices tb) = PlanErr (PhaseDependencyCycle p)"
    proof (cases "ordered_phases (config_phases cfg) (phase_indices tb)")
      case (PlanOk names)
      have "cycle_error (plan_from_tables cfg tb)" by (simp add: c)
      then show ?thesis by (auto simp: plan_from_tables_def PlanOk dest!: cycle_error_bind)
    qed (use c in \<open>simp_all add: plan_from_tables_def\<close>)
    from ordered_phases_Err [OF this] dep_edges_config [OF tb] show ?thesis by simp
  qed
  show ?thesis using ok err by (auto split: plan_result.split plan_error.split)
qed

section \<open>Parallel writers\<close>

text \<open>A scope without a wildcard covers the paths below it, component by component.\<close>

definition literal_scope :: "string \<Rightarrow> bool" where
  "literal_scope s \<longleftrightarrow> CHR ''*'' \<notin> set (normalize_scope s)"

definition covers :: "string \<Rightarrow> string \<Rightarrow> bool" where
  "covers s path \<longleftrightarrow> normalize_scope s = ''.'' \<or>
     prefix (path_components (normalize_scope s)) (path_components path)"

lemma literal_overlap:
  assumes "literal_scope s" and "literal_scope u" and "covers s path" and "covers u path"
  shows "scope_overlaps s u"
  using assms prefix_same_cases [of "path_components (normalize_scope s)" "path_components path"
      "path_components (normalize_scope u)"]
  by (auto simp: literal_scope_def covers_def scope_overlaps_def Let_def)

lemma scope_overlaps_sym: "scope_overlaps s u = scope_overlaps u s"
  by (simp add: scope_overlaps_def Let_def disj_ac
      eq_commute [of "normalize_scope u" "normalize_scope s"]
      eq_commute [of "glob_prefix (normalize_scope u)" "glob_prefix (normalize_scope s)"])

lemma scopes_overlap_sym: "scopes_overlap left right = scopes_overlap right left"
  using scope_overlaps_sym by (auto simp: scopes_overlap_def list_ex_iff)

lemma check_disjoint_Ok:
  "check_disjoint ts = PlanOk () \<Longrightarrow> t \<in> set ts \<Longrightarrow> u \<in> set ts \<Longrightarrow> t \<noteq> u \<Longrightarrow>
     \<not> scopes_overlap (task_file_scope t) (task_file_scope u)"
proof (induction ts rule: check_disjoint.induct)
  case (2 left ts)
  have against: "\<not> scopes_overlap (task_file_scope left) (task_file_scope r)"
    if "check_against left rs = PlanOk ()" "r \<in> set rs" for r rs
    using that by (induction left rs rule: check_against.induct) (auto split: if_splits)
  from 2(2) have a: "check_against left ts = PlanOk ()" and d: "check_disjoint ts = PlanOk ()"
    by (simp_all add: plan_bind_unit_Ok)
  from 2(3-5) consider "t = left" "u \<in> set ts" | "u = left" "t \<in> set ts" | "t \<in> set ts" "u \<in> set ts"
    by auto
  then show ?case
  proof cases
    case 2
    with against [OF a, of t] scopes_overlap_sym [of "task_file_scope left" "task_file_scope t"]
    show ?thesis by simp
  qed (use against [OF a] 2(1) d 2(5) in auto)
qed simp

lemma check_write_scopes_Ok:
  "check_write_scopes ts = PlanOk () \<longleftrightarrow> (\<forall>t\<in>set ts. task_file_scope t \<noteq> [])"
  by (induction ts) auto

text \<open>
  Parallel writers do not share files: in an accepted configuration every writing task of a
  parallel phase declares a scope, and no path is covered by literal scopes of two of them, where
  a scope covers the paths whose leading components it gives, \<open>./\<close>, trailing slashes, dots and
  \<open>/**\<close> aside.
\<close>

theorem parallel_writers_disjoint:
  assumes "from_config cfg = PlanOk plan" and "ph \<in> set (config_phases cfg)" and "phase_parallel ph"
    and "t \<in> set (phase_tasks ph)" and "task_mode t = ReadWrite"
    and "u \<in> set (phase_tasks ph)" and "task_mode u = ReadWrite" and "task_id t \<noteq> task_id u"
  shows "task_file_scope t \<noteq> [] \<and>
    \<not> (list_ex (\<lambda>s. literal_scope s \<and> covers s path) (task_file_scope t)
       \<and> list_ex (\<lambda>s. literal_scope s \<and> covers s path) (task_file_scope u))"
proof -
  from from_config_tables [OF assms(1)] obtain tb where "tables_of (config_phases cfg) tb" by blast
  with assms(2) have "validate_parallel_write_scope ph = PlanOk ()"
    by (simp add: tables_of_def check_phases_Ok)
  with assms(3) have "check_disjoint (filter (\<lambda>t. task_mode t = ReadWrite) (phase_tasks ph)) = PlanOk ()"
    and scopes: "\<forall>t\<in>set (phase_tasks ph). task_mode t = ReadWrite \<longrightarrow> task_file_scope t \<noteq> []"
    by (auto simp: validate_parallel_write_scope_def Let_def plan_bind_unit_Ok check_write_scopes_Ok)
  from check_disjoint_Ok [OF this(1), of t u] assms
  have "\<not> scopes_overlap (task_file_scope t) (task_file_scope u)" by auto
  then have "\<not> (literal_scope s \<and> covers s path \<and> literal_scope v \<and> covers v path)"
    if "s \<in> set (task_file_scope t)" "v \<in> set (task_file_scope u)" for s v
    using that literal_overlap [of s v path] by (auto simp: scopes_overlap_def list_ex_iff)
  then have "\<not> (list_ex (\<lambda>s. literal_scope s \<and> covers s path) (task_file_scope t)
       \<and> list_ex (\<lambda>s. literal_scope s \<and> covers s path) (task_file_scope u))"
    unfolding list_ex_iff by blast
  with scopes assms(4,5) show ?thesis by blast
qed

text \<open>
  Scopes with a wildcard inside are only compared up to the first wildcard, and only for
  equality: the pattern \<open>src/*/mod.rs\<close> and the file \<open>src/a/mod.rs\<close>, which it matches, do not overlap.
\<close>

theorem wildcard_scope_not_compared:
  "\<not> scope_overlaps ''src/*/mod.rs'' ''src/a/mod.rs''"
  by code_simp

section \<open>Concrete plans\<close>

definition demo_task :: "string \<Rightarrow> task_mode \<Rightarrow> string list \<Rightarrow> string list \<Rightarrow> task" where
  "demo_task i mode scope deps = \<lparr>task_id = i, task_prompt = ''go'', task_agent_type = General,
     task_mode = mode, task_isolation = Auto, task_file_scope = scope,
     task_depends_on_results = deps, task_max_steps = None, task_timeout_secs = None\<rparr>"

definition demo_phase :: "string \<Rightarrow> string list \<Rightarrow> task list \<Rightarrow> phase" where
  "demo_phase n deps ts = \<lparr>phase_name = n, phase_description = None, phase_depends_on = deps,
     phase_parallel = True, phase_on_failure = SkipContinue, phase_tasks = ts\<rparr>"

definition demo_config :: workflow_config where
  "demo_config = \<lparr>config_goal = ''demo'', config_max_concurrent = 4, config_description = None,
     config_phases =
       [demo_phase ''join'' [''work''] [demo_task ''j'' ReadOnly [] [''l'', ''r'']],
        demo_phase ''work'' [] [demo_task ''l'' ReadWrite [''src/a''] [], demo_task ''r'' ReadWrite [''src/b/''] []]]\<rparr>"

lemma demo_planned: "\<exists>plan. from_config demo_config = PlanOk plan \<and> map plan_name (plan_phases plan) = [''work'', ''join'']"
proof -
  have "(case from_config demo_config of PlanOk plan \<Rightarrow> map plan_name (plan_phases plan) | _ \<Rightarrow> [])
      = [''work'', ''join'']"
    by code_simp
  then show ?thesis by (cases "from_config demo_config") simp_all
qed

theorem plan_in_dependency_order_witness:
  "\<exists>plan. from_config demo_config = PlanOk plan \<and> results_available plan \<and>
     map plan_name (plan_phases plan) = [''work'', ''join'']"
proof -
  obtain plan where plan: "from_config demo_config = PlanOk plan"
    and names: "map plan_name (plan_phases plan) = [''work'', ''join'']"
    using demo_planned by (elim exE conjE)
  from plan_in_dependency_order [OF plan] have "results_available plan" by (elim conjE)
  with plan names show ?thesis by (intro exI [of _ plan] conjI)
qed

theorem parallel_writers_disjoint_witness:
  "\<not> (list_ex (\<lambda>s. literal_scope s \<and> covers s ''src/a/x'') [''src/a'']
    \<and> list_ex (\<lambda>s. literal_scope s \<and> covers s ''src/a/x'') [''src/b/''])"
proof -
  let ?ts = "[demo_task ''l'' ReadWrite [''src/a''] [], demo_task ''r'' ReadWrite [''src/b/''] []]"
  obtain plan where plan: "from_config demo_config = PlanOk plan" using demo_planned by blast
  have "demo_phase ''work'' [] ?ts \<in> set (config_phases demo_config)" by (simp add: demo_config_def)
  from parallel_writers_disjoint [OF plan this, of "?ts ! 0" "?ts ! 1" "''src/a/x''"]
  show ?thesis by (simp add: demo_phase_def demo_task_def)
qed

end
