(* ===== verification/Bash_Arity.thy ===== *)
theory Bash_Arity
  imports Prelude
begin

text \<open>
  The arity dictionary of shell commands (\<open>crates/execpolicy/src/bash_arity.rs\<close>): the static table, one
  definition per tool, the dictionary sorted longest prefix first, the classification of a command
  and the matching of an allow rule. The functions take the dictionary as the struct of the source;
  \<open>bash_arity_dict_new\<close> is the one every engine uses.
\<close>

section \<open>The table\<close>

definition git_entries :: "(string \<times> u8) list" where
  "git_entries =
    [(''git add'', 2), (''git am'', 2), (''git apply'', 2), (''git bisect'', 2),
     (''git blame'', 2), (''git branch'', 2), (''git cat-file'', 2), (''git checkout'', 2),
     (''git cherry-pick'', 2), (''git clean'', 2), (''git clone'', 2), (''git commit'', 2),
     (''git config'', 2), (''git describe'', 2), (''git diff'', 2), (''git fetch'', 2),
     (''git format-patch'', 2), (''git grep'', 2), (''git init'', 2), (''git log'', 2),
     (''git ls-files'', 2), (''git merge'', 2), (''git mv'', 2), (''git notes'', 2),
     (''git pull'', 2), (''git push'', 2), (''git rebase'', 2), (''git reflog'', 2),
     (''git remote'', 2), (''git reset'', 2), (''git restore'', 2), (''git revert'', 2),
     (''git rm'', 2), (''git show'', 2), (''git stash'', 2), (''git status'', 2),
     (''git submodule'', 2), (''git switch'', 2), (''git tag'', 2), (''git worktree'', 2)]"

definition npm_entries :: "(string \<times> u8) list" where
  "npm_entries =
    [(''npm audit'', 2), (''npm build'', 2), (''npm cache'', 2), (''npm ci'', 2),
     (''npm dedupe'', 2), (''npm fund'', 2), (''npm help'', 2), (''npm info'', 2),
     (''npm init'', 2), (''npm install'', 2), (''npm link'', 2), (''npm list'', 2),
     (''npm ls'', 2), (''npm outdated'', 2), (''npm pack'', 2), (''npm prune'', 2),
     (''npm publish'', 2), (''npm rebuild'', 2), (''npm run'', 3), (''npm start'', 2),
     (''npm stop'', 2), (''npm test'', 2), (''npm uninstall'', 2), (''npm update'', 2),
     (''npm version'', 2), (''npm view'', 2)]"

definition yarn_entries :: "(string \<times> u8) list" where
  "yarn_entries =
    [(''yarn add'', 2), (''yarn audit'', 2), (''yarn build'', 2), (''yarn install'', 2),
     (''yarn run'', 3), (''yarn start'', 2), (''yarn test'', 2), (''yarn upgrade'', 2),
     (''yarn workspace'', 3)]"

definition pnpm_entries :: "(string \<times> u8) list" where
  "pnpm_entries =
    [(''pnpm add'', 2), (''pnpm build'', 2), (''pnpm install'', 2), (''pnpm run'', 3),
     (''pnpm start'', 2), (''pnpm test'', 2), (''pnpm update'', 2)]"

definition cargo_entries :: "(string \<times> u8) list" where
  "cargo_entries =
    [(''cargo add'', 2), (''cargo bench'', 2), (''cargo build'', 2), (''cargo check'', 2),
     (''cargo clean'', 2), (''cargo clippy'', 2), (''cargo doc'', 2), (''cargo fix'', 2),
     (''cargo fmt'', 2), (''cargo generate'', 2), (''cargo install'', 2),
     (''cargo metadata'', 2), (''cargo package'', 2), (''cargo publish'', 2),
     (''cargo remove'', 2), (''cargo run'', 2), (''cargo search'', 2), (''cargo test'', 2),
     (''cargo tree'', 2), (''cargo uninstall'', 2), (''cargo update'', 2),
     (''cargo yank'', 2)]"

definition docker_entries :: "(string \<times> u8) list" where
  "docker_entries =
    [(''docker build'', 2), (''docker compose'', 3), (''docker container'', 3),
     (''docker cp'', 2), (''docker exec'', 2), (''docker image'', 3),
     (''docker images'', 2), (''docker inspect'', 2), (''docker kill'', 2),
     (''docker logs'', 2), (''docker network'', 3), (''docker ps'', 2),
     (''docker pull'', 2), (''docker push'', 2), (''docker rm'', 2), (''docker rmi'', 2),
     (''docker run'', 2), (''docker start'', 2), (''docker stop'', 2),
     (''docker system'', 3), (''docker tag'', 2), (''docker volume'', 3)]"

definition kubectl_entries :: "(string \<times> u8) list" where
  "kubectl_entries =
    [(''kubectl apply'', 2), (''kubectl create'', 3), (''kubectl delete'', 3),
     (''kubectl describe'', 3), (''kubectl exec'', 2), (''kubectl explain'', 2),
     (''kubectl get'', 3), (''kubectl label'', 2), (''kubectl logs'', 2),
     (''kubectl patch'', 2), (''kubectl port-forward'', 2), (''kubectl rollout'', 3),
     (''kubectl scale'', 2), (''kubectl set'', 2), (''kubectl top'', 3)]"

definition go_entries :: "(string \<times> u8) list" where
  "go_entries =
    [(''go build'', 2), (''go clean'', 2), (''go env'', 2), (''go fmt'', 2),
     (''go generate'', 2), (''go get'', 2), (''go install'', 2), (''go list'', 2),
     (''go mod'', 3), (''go run'', 2), (''go test'', 2), (''go vet'', 2), (''go work'', 3)]"

definition python_entries :: "(string \<times> u8) list" where
  "python_entries =
    [(''pip install'', 2), (''pip uninstall'', 2), (''pip list'', 2), (''pip show'', 2),
     (''pip freeze'', 2), (''pip3 install'', 2), (''pip3 uninstall'', 2),
     (''pip3 list'', 2), (''pip3 show'', 2), (''python -m'', 3), (''python3 -m'', 3)]"

definition make_entries :: "(string \<times> u8) list" where
  "make_entries =
    [(''make'', 1), (''cmake'', 1)]"

definition gh_entries :: "(string \<times> u8) list" where
  "gh_entries =
    [(''gh pr'', 3), (''gh issue'', 3), (''gh repo'', 3), (''gh release'', 3),
     (''gh workflow'', 3), (''gh run'', 3), (''gh secret'', 3)]"

definition rustup_entries :: "(string \<times> u8) list" where
  "rustup_entries =
    [(''rustup default'', 2), (''rustup install'', 2), (''rustup show'', 2),
     (''rustup target'', 3), (''rustup toolchain'', 3), (''rustup update'', 2)]"

definition deno_entries :: "(string \<times> u8) list" where
  "deno_entries =
    [(''deno run'', 2), (''deno test'', 2), (''deno fmt'', 2), (''deno lint'', 2),
     (''bun add'', 2), (''bun build'', 2), (''bun install'', 2), (''bun run'', 3),
     (''bun test'', 2), (''npx'', 2)]"

definition aws_entries :: "(string \<times> u8) list" where
  "aws_entries =
    [(''aws s3'', 3), (''aws ec2'', 3), (''aws iam'', 3), (''aws lambda'', 3),
     (''aws cloudformation'', 3), (''aws ecs'', 3), (''aws eks'', 3), (''aws rds'', 3),
     (''aws sts'', 3), (''aws configure'', 2)]"

definition terraform_entries :: "(string \<times> u8) list" where
  "terraform_entries =
    [(''terraform init'', 2), (''terraform plan'', 2), (''terraform apply'', 2),
     (''terraform destroy'', 2), (''terraform validate'', 2), (''terraform output'', 2),
     (''terraform state'', 3), (''terraform workspace'', 3)]"

definition helm_entries :: "(string \<times> u8) list" where
  "helm_entries =
    [(''helm install'', 2), (''helm upgrade'', 2), (''helm uninstall'', 2),
     (''helm list'', 2), (''helm repo'', 3), (''helm status'', 2), (''helm template'', 2)]"

definition bash_arity_table :: "(string \<times> u8) list" where
  "bash_arity_table =
     git_entries @ npm_entries @ yarn_entries @ pnpm_entries @ cargo_entries @ docker_entries @ kubectl_entries @ go_entries
     @ python_entries @ make_entries @ gh_entries @ rustup_entries @ deno_entries @ aws_entries @ terraform_entries @ helm_entries"

lemmas bash_arity_defs = bash_arity_table_def git_entries_def npm_entries_def yarn_entries_def pnpm_entries_def cargo_entries_def docker_entries_def kubectl_entries_def
  go_entries_def python_entries_def make_entries_def gh_entries_def rustup_entries_def deno_entries_def aws_entries_def terraform_entries_def helm_entries_def

section \<open>The dictionary\<close>

record bash_arity_dict =
  entries :: "(string \<times> u8) list"

text \<open>\<open>sort_by_key\<close> is stable, as \<^const>\<open>sort_key\<close> is; the key is reversed by negation.\<close>

definition bash_arity_dict_new :: bash_arity_dict where
  "bash_arity_dict_new = \<lparr>entries = sort_key (\<lambda>e. - int (length (fst e))) bash_arity_table\<rparr>"

definition dict_len :: "bash_arity_dict \<Rightarrow> nat" where
  "dict_len d = length (entries d)"

definition dict_is_empty :: "bash_arity_dict \<Rightarrow> bool" where
  "dict_is_empty d \<longleftrightarrow> entries d = []"

definition positional_tokens :: "string list \<Rightarrow> string list" where
  "positional_tokens tokens =
     map to_ascii_lowercase (filter (\<lambda>t. \<not> prefix ''-'' t) tokens)"

text \<open>The loop over the depths \<open>max_depth\<close> down to one.\<close>

fun classify_depth :: "bash_arity_dict \<Rightarrow> nat \<Rightarrow> string list \<Rightarrow> string option" where
  "classify_depth d 0 positional = None"
| "classify_depth d (Suc n) positional =
     (case find (\<lambda>e. fst e = join_str '' '' (take (Suc n) positional)) (entries d) of
        Some e \<Rightarrow> Some (join_str '' '' (take (min (unat (snd e)) (length positional)) positional))
      | None \<Rightarrow> classify_depth d n positional)"

definition classify :: "bash_arity_dict \<Rightarrow> string list \<Rightarrow> string" where
  "classify d tokens =
     (if tokens = [] then []
      else let positional = positional_tokens tokens in
        if positional = [] then []
        else case classify_depth d (min (length positional) 3) positional of
          Some s \<Rightarrow> s
        | None \<Rightarrow> hd positional)"

text \<open>A prefix test at a word boundary: equal, or a prefix followed by a space.\<close>

definition word_prefix :: "string \<Rightarrow> string \<Rightarrow> bool" where
  "word_prefix p s \<longleftrightarrow> s = p \<or> prefix p s \<and> length p < length s \<and> s ! length p = CHR '' ''"

definition allow_rule_matches :: "bash_arity_dict \<Rightarrow> string \<Rightarrow> string \<Rightarrow> bool" where
  "allow_rule_matches d pattern command =
     (let pattern_lower = to_ascii_lowercase (trim pattern);
          command_tokens = split_whitespace command;
          canonical = classify d command_tokens in
      if canonical = pattern_lower then True
      else
        let command_lower = to_ascii_lowercase (trim command);
            pattern_norm = join_str '' '' (split_whitespace pattern_lower);
            command_norm = join_str '' '' (split_whitespace command_lower)
        in word_prefix pattern_norm command_norm)"

section \<open>Lemmas\<close>

text \<open>Looking a key up in the sorted dictionary is looking it up in the table: entries with the
  same key have the same length, and the sort keeps their order.\<close>

lemma find_filter: "find P xs = (case filter P xs of [] \<Rightarrow> None | x # _ \<Rightarrow> Some x)"
  by (induction xs) auto

lemma find_sorted_entry:
  fixes es :: "(string \<times> u8) list"
  shows "find (\<lambda>e. fst e = k) (sort_key (\<lambda>e. - int (length (fst e))) es) = find (\<lambda>e. fst e = k) es"
proof -
  let ?key = "\<lambda>e :: string \<times> u8. - int (length (fst e))"
  have pick: "filter (\<lambda>e. fst e = k) xs = filter (\<lambda>e. fst e = k) (filter (\<lambda>e. ?key e = - int (length k)) xs)"
    for xs :: "(string \<times> u8) list"
    by (induction xs) auto
  have "filter (\<lambda>e. ?key e = - int (length k)) (sort_key ?key es) = filter (\<lambda>e. ?key e = - int (length k)) es"
    by (rule sort_key_stable)
  then have "filter (\<lambda>e. fst e = k) (sort_key ?key es) = filter (\<lambda>e. fst e = k) es"
    by (simp only: pick [of "sort_key ?key es"] pick [of es])
  then show ?thesis by (simp only: find_filter)
qed

lemma find_entry_map_of:
  "find (\<lambda>e. fst e = k) es = map_option (\<lambda>n. (k, n)) (map_of es k)"
  by (induction es) auto

lemma find_dict_new:
  "find (\<lambda>e. fst e = k) (entries bash_arity_dict_new) = map_option (\<lambda>n. (k, n)) (map_of bash_arity_table k)"
  unfolding bash_arity_dict_new_def bash_arity_dict.simps find_sorted_entry by (rule find_entry_map_of)

text \<open>On normalised commands the word-boundary test is the prefix test on the lists of words.\<close>

lemma split_join_append:
  "words_ok vs \<Longrightarrow> rest = [] \<or> is_ws (hd rest) \<Longrightarrow>
     split_whitespace (join_str '' '' vs @ rest) = vs @ split_whitespace rest"
proof (induction vs rule: induct_list012)
  case (2 x)
  then show ?case using split_whitespace_word [of x rest] by simp
next
  case (3 x y vs)
  then have "split_whitespace (join_str '' '' (y # vs) @ rest) = y # vs @ split_whitespace rest" by simp
  with 3(3) split_whitespace_word [of x "'' '' @ join_str '' '' (y # vs) @ rest"] show ?case by simp
qed simp

lemma join_str_append:
  "vs \<noteq> [] \<Longrightarrow> us \<noteq> [] \<Longrightarrow> join_str '' '' (vs @ us) = join_str '' '' vs @ '' '' @ join_str '' '' us"
proof (induction vs rule: induct_list012)
  case (2 x)
  then show ?case by (cases us) simp_all
qed simp_all

lemma join_str_hd:
  assumes "words_ok ws" and "ws \<noteq> []"
  shows "\<exists>c s. join_str '' '' ws = c # s \<and> \<not> is_ws c"
  using assms
proof (induction ws rule: induct_list012)
  case (2 x)
  then show ?case by (cases x) simp_all
next
  case (3 x y ws)
  then show ?case by (cases x) simp_all
qed simp

lemma word_prefix_words:
  assumes vs: "words_ok vs" and ws: "words_ok ws"
  shows "word_prefix (join_str '' '' vs) (join_str '' '' ws) \<longleftrightarrow>
    (if vs = [] then ws = [] else prefix vs ws)"
proof
  assume "word_prefix (join_str '' '' vs) (join_str '' '' ws)"
  then consider "join_str '' '' ws = join_str '' '' vs"
    | r where "join_str '' '' ws = join_str '' '' vs @ CHR '' '' # r"
    by (auto simp: word_prefix_def prefix_def nth_append neq_Nil_conv)
  then show "if vs = [] then ws = [] else prefix vs ws"
  proof cases
    case 1
    then have "ws = vs" using split_whitespace_join [OF vs] split_whitespace_join [OF ws] by simp
    then show ?thesis by simp
  next
    case 2
    have "ws = vs @ split_whitespace (CHR '' '' # r)"
      using split_join_append [OF vs, of "CHR '' '' # r"] split_whitespace_join [OF ws] 2 by simp
    moreover have "vs \<noteq> []" using 2 join_str_hd [OF ws] by (cases "ws = []") auto
    ultimately show ?thesis by simp
  qed
next
  assume r: "if vs = [] then ws = [] else prefix vs ws"
  show "word_prefix (join_str '' '' vs) (join_str '' '' ws)"
  proof (cases "ws = vs")
    case False
    then obtain us where "vs \<noteq> []" "ws = vs @ us" "us \<noteq> []" using r by (auto simp: prefix_def split: if_splits)
    then show ?thesis by (simp add: word_prefix_def join_str_append nth_append)
  qed (simp add: word_prefix_def)
qed

end
