(* ===== verification/Exec_Policy.thy ===== *)
theory Exec_Policy
  imports Bash_Arity "HOL-Library.Product_Lexorder"
begin

text \<open>
  The execution policy engine (\<open>crates/execpolicy/src/lib.rs\<close>): layered rulesets, typed ask rules with
  their path normalisation, the splitting of a chained command and \<open>ExecPolicyEngine::check\<close>. The
  derived orders of the layers and actions are instances of \<open>linorder\<close>. \<open>check\<close> never returns the
  error of its \<open>Result\<close>, so the model returns the decision itself.
\<close>

section \<open>Rules\<close>

datatype ruleset_layer = BuiltinDefault | AgentLayer | UserLayer

datatype permission_action = AllowAction | AskAction | DenyAction

text \<open>\<open>derive(PartialOrd, Ord)\<close>: the order of the declarations.\<close>

fun layer_rank :: "ruleset_layer \<Rightarrow> nat" where
  "layer_rank BuiltinDefault = 0"
| "layer_rank AgentLayer = 1"
| "layer_rank UserLayer = 2"

fun action_rank :: "permission_action \<Rightarrow> nat" where
  "action_rank AllowAction = 0"
| "action_rank AskAction = 1"
| "action_rank DenyAction = 2"

lemma layer_rank_inj: "layer_rank a = layer_rank b \<Longrightarrow> a = b"
  by (cases a; cases b) simp_all

lemma action_rank_inj: "action_rank a = action_rank b \<Longrightarrow> a = b"
  by (cases a; cases b) simp_all

instantiation ruleset_layer :: linorder
begin

definition less_eq_ruleset_layer :: "ruleset_layer \<Rightarrow> ruleset_layer \<Rightarrow> bool" where
  "less_eq_ruleset_layer a b \<longleftrightarrow> layer_rank a \<le> layer_rank b"

definition less_ruleset_layer :: "ruleset_layer \<Rightarrow> ruleset_layer \<Rightarrow> bool" where
  "less_ruleset_layer a b \<longleftrightarrow> layer_rank a < layer_rank b"

instance
  by standard (auto simp: less_eq_ruleset_layer_def less_ruleset_layer_def intro: layer_rank_inj)

end

instantiation permission_action :: linorder
begin

definition less_eq_permission_action :: "permission_action \<Rightarrow> permission_action \<Rightarrow> bool" where
  "less_eq_permission_action a b \<longleftrightarrow> action_rank a \<le> action_rank b"

definition less_permission_action :: "permission_action \<Rightarrow> permission_action \<Rightarrow> bool" where
  "less_permission_action a b \<longleftrightarrow> action_rank a < action_rank b"

instance
  by standard (auto simp: less_eq_permission_action_def less_permission_action_def intro: action_rank_inj)

end

record tool_ask_rule =
  rule_tool :: string
  rule_command :: "string option"
  rule_path :: "string option"
  rule_action :: permission_action

definition default_rule_action :: permission_action where
  "default_rule_action = AskAction"

definition tool_ask_rule_new :: "string \<Rightarrow> tool_ask_rule" where
  "tool_ask_rule_new tool = \<lparr>rule_tool = tool, rule_command = None, rule_path = None,
     rule_action = AskAction\<rparr>"

definition exec_shell_rule :: "string \<Rightarrow> tool_ask_rule" where
  "exec_shell_rule command = \<lparr>rule_tool = ''exec_shell'', rule_command = Some command,
     rule_path = None, rule_action = AskAction\<rparr>"

definition file_path_rule :: "string \<Rightarrow> string \<Rightarrow> tool_ask_rule" where
  "file_path_rule tool path = \<lparr>rule_tool = tool, rule_command = None, rule_path = Some path,
     rule_action = AskAction\<rparr>"

definition rule_label :: "tool_ask_rule \<Rightarrow> string" where
  "rule_label r = join_str '' ''
     ([''tool='' @ rule_tool r]
      @ (case rule_command r of None \<Rightarrow> [] | Some c \<Rightarrow> [''command='' @ c])
      @ (case rule_path r of None \<Rightarrow> [] | Some p \<Rightarrow> [''path='' @ p]))"

definition ask_rule_specificity :: "tool_ask_rule \<Rightarrow> nat" where
  "ask_rule_specificity r =
     length (rule_tool r)
     + (case rule_command r of None \<Rightarrow> 0 | Some c \<Rightarrow> length c + 1000)
     + (case rule_path r of None \<Rightarrow> 0 | Some p \<Rightarrow> length p + 1000)"

record ruleset =
  rs_layer :: ruleset_layer
  rs_trusted_prefixes :: "string list"
  rs_denied_prefixes :: "string list"
  rs_ask_rules :: "tool_ask_rule list"

definition ruleset_builtin_default :: ruleset where
  "ruleset_builtin_default = \<lparr>rs_layer = BuiltinDefault, rs_trusted_prefixes = [],
     rs_denied_prefixes = [], rs_ask_rules = []\<rparr>"

definition ruleset_agent :: "string list \<Rightarrow> string list \<Rightarrow> ruleset" where
  "ruleset_agent trusted denied = \<lparr>rs_layer = AgentLayer, rs_trusted_prefixes = trusted,
     rs_denied_prefixes = denied, rs_ask_rules = []\<rparr>"

definition ruleset_user :: "string list \<Rightarrow> string list \<Rightarrow> ruleset" where
  "ruleset_user trusted denied = \<lparr>rs_layer = UserLayer, rs_trusted_prefixes = trusted,
     rs_denied_prefixes = denied, rs_ask_rules = []\<rparr>"

definition with_ask_rules :: "tool_ask_rule list \<Rightarrow> ruleset \<Rightarrow> ruleset" where
  "with_ask_rules rules rs = rs\<lparr>rs_ask_rules := rules\<rparr>"

text \<open>The rules of \<open>permissions.toml\<close> (\<open>crates/config/src/lib.rs\<close>): commands of deny and allow rules
  become prefixes as well, and every rule stays a typed rule.\<close>

record permissions_toml =
  permission_rules :: "tool_ask_rule list"

fun split_permission_rules ::
    "tool_ask_rule list \<Rightarrow> string list \<Rightarrow> string list \<Rightarrow> tool_ask_rule list
       \<Rightarrow> string list \<times> string list \<times> tool_ask_rule list" where
  "split_permission_rules [] denied trusted asks = (denied, trusted, asks)"
| "split_permission_rules (r # rs) denied trusted asks =
     (case rule_action r of
        DenyAction \<Rightarrow>
          split_permission_rules rs
            (case rule_command r of None \<Rightarrow> denied | Some cmd \<Rightarrow> denied @ [cmd]) trusted (asks @ [r])
      | AllowAction \<Rightarrow>
          split_permission_rules rs denied
            (case rule_command r of None \<Rightarrow> trusted | Some cmd \<Rightarrow> trusted @ [cmd]) (asks @ [r])
      | AskAction \<Rightarrow> split_permission_rules rs denied trusted (asks @ [r]))"

definition permissions_is_empty :: "permissions_toml \<Rightarrow> bool" where
  "permissions_is_empty p \<longleftrightarrow> permission_rules p = []"

definition permissions_ruleset :: "permissions_toml \<Rightarrow> ruleset" where
  "permissions_ruleset p =
     (case split_permission_rules (permission_rules p) [] [] [] of
        (denied, trusted, asks) \<Rightarrow> with_ask_rules asks (ruleset_user trusted denied))"

section \<open>Decisions\<close>

datatype ask_for_approval =
    UnlessTrusted
  | OnFailure
  | OnRequest
  | Reject (reject_sandbox_approval: bool) (reject_rules: bool) (reject_mcp_elicitations: bool)
  | Never

record exec_policy_amendment =
  amendment_prefixes :: "string list"

datatype network_rule_action = NetAllow | NetDeny

record network_policy_amendment =
  net_host :: string
  net_action :: network_rule_action

datatype exec_approval_requirement =
    Skip bool "exec_policy_amendment option"
  | NeedsApproval string "exec_policy_amendment option" "network_policy_amendment list"
  | Forbidden string

fun requirement_reason :: "exec_approval_requirement \<Rightarrow> string" where
  "requirement_reason (Skip _ _) = ''Execution allowed by policy.''"
| "requirement_reason (NeedsApproval reason _ _) = reason"
| "requirement_reason (Forbidden reason) = reason"

fun requirement_phase :: "exec_approval_requirement \<Rightarrow> string" where
  "requirement_phase (Skip _ _) = ''allowed''"
| "requirement_phase (NeedsApproval _ _ _) = ''needs_approval''"
| "requirement_phase (Forbidden _) = ''forbidden''"

record exec_policy_decision =
  allow :: bool
  requires_approval :: bool
  requirement :: exec_approval_requirement
  matched_rule :: "string option"
  matched_action :: "permission_action option"

record exec_policy_context =
  ctx_command :: string
  ctx_cwd :: string
  ctx_tool :: "string option"
  ctx_path :: "string option"
  ctx_ask_for_approval :: ask_for_approval
  ctx_sandbox_mode :: "string option"

section \<open>Commands\<close>

definition normalize_command :: "string \<Rightarrow> string" where
  "normalize_command v = to_ascii_lowercase (join_str '' '' (split_whitespace v))"

definition first_token :: "string \<Rightarrow> string" where
  "first_token command = (case split_whitespace command of [] \<Rightarrow> [] | t # _ \<Rightarrow> t)"

definition command_segments :: "string \<Rightarrow> string list" where
  "command_segments command =
     filter (\<lambda>s. s \<noteq> [])
       (map trim
         (str_lines
           (concat (map (\<lambda>c. if c = CHR ''|'' \<or> c = CHR '';'' then [CHR 0x0A] else [c])
             (replace_str ''||'' [CHR 0x0A] (replace_str ''&&'' [CHR 0x0A] command))))))"

definition command_is_chained :: "string \<Rightarrow> bool" where
  "command_is_chained command \<longleftrightarrow> 1 < length (command_segments command)"

section \<open>Paths\<close>

record path_for_matching =
  path_root :: "string option"
  path_parts :: "string list"

definition has_windows_drive_prefix :: "string \<Rightarrow> bool" where
  "has_windows_drive_prefix v \<longleftrightarrow> 2 \<le> length v \<and> is_ascii_alphabetic (v ! 0) \<and> v ! 1 = CHR '':''"

definition is_windows_absolute_path :: "string \<Rightarrow> bool" where
  "is_windows_absolute_path v \<longleftrightarrow>
     3 \<le> length v \<and> is_ascii_alphabetic (v ! 0) \<and> v ! 1 = CHR '':'' \<and> v ! 2 = CHR ''/''"

fun normalize_parts :: "string list \<Rightarrow> string list option" where
  "normalize_parts [] = Some []"
| "normalize_parts (c # cs) =
     (if c = [] \<or> c = ''.'' then normalize_parts cs
      else if c = ''..'' then None
      else map_option (\<lambda>ps. c # ps) (normalize_parts cs))"

definition parse_path_for_matching :: "string \<Rightarrow> path_for_matching option" where
  "parse_path_for_matching raw =
     (let v = to_ascii_lowercase (map (\<lambda>c. if c = CHR 0x5C then CHR ''/'' else c) (trim raw)) in
      if v = [] then None
      else
        case (case strip_prefix ''/'' v of
                Some rest \<Rightarrow> Some (Some ''/'', rest)
              | None \<Rightarrow>
                  if is_windows_absolute_path v then Some (Some (take 2 v), drop 3 v)
                  else if has_windows_drive_prefix v then None
                  else Some (None, v)) of
          None \<Rightarrow> None
        | Some (root, rest) \<Rightarrow>
            map_option (\<lambda>ps. \<lparr>path_root = root, path_parts = ps\<rparr>)
              (normalize_parts (split_char (CHR ''/'') rest)))"

definition normalize_workspace_relative_path :: "string \<Rightarrow> string \<Rightarrow> string option" where
  "normalize_workspace_relative_path v workspace_root =
     (case parse_path_for_matching v of
        None \<Rightarrow> None
      | Some p \<Rightarrow>
     (case parse_path_for_matching workspace_root of
        None \<Rightarrow> None
      | Some w \<Rightarrow>
     (case path_root w of
        None \<Rightarrow> None
      | Some wroot \<Rightarrow>
     (case path_root p of
        Some proot \<Rightarrow>
          if proot \<noteq> wroot then None
          else if prefix (path_parts w) (path_parts p)
          then Some (join_str ''/'' (drop (length (path_parts w)) (path_parts p)))
          else None
      | None \<Rightarrow> Some (join_str ''/'' (path_parts p))))))"

section \<open>The engine\<close>

record exec_policy_engine =
  rulesets :: "ruleset list"
  trusted_prefixes :: "string list"
  denied_prefixes :: "string list"
  approved_for_session :: "string set"
  arity_dict :: bash_arity_dict

definition engine_new :: "string list \<Rightarrow> string list \<Rightarrow> exec_policy_engine" where
  "engine_new trusted denied = \<lparr>rulesets = [], trusted_prefixes = trusted,
     denied_prefixes = denied, approved_for_session = {}, arity_dict = bash_arity_dict_new\<rparr>"

definition engine_with_rulesets :: "ruleset list \<Rightarrow> exec_policy_engine" where
  "engine_with_rulesets rss = \<lparr>rulesets = sort_key rs_layer rss, trusted_prefixes = [],
     denied_prefixes = [], approved_for_session = {}, arity_dict = bash_arity_dict_new\<rparr>"

definition add_ruleset :: "ruleset \<Rightarrow> exec_policy_engine \<Rightarrow> exec_policy_engine" where
  "add_ruleset rs e = e\<lparr>rulesets := sort_key rs_layer (rulesets e @ [rs])\<rparr>"

definition resolve_prefixes :: "exec_policy_engine \<Rightarrow> string list \<times> string list" where
  "resolve_prefixes e =
     (if rulesets e = [] then (trusted_prefixes e, denied_prefixes e)
      else (concat (map rs_trusted_prefixes (rulesets e)) @ trusted_prefixes e,
            concat (map rs_denied_prefixes (rulesets e)) @ denied_prefixes e))"

text \<open>\<open>Iterator::max_by_key\<close>: the last of the elements with the largest key.\<close>

fun max_by_key :: "('a \<Rightarrow> 'b::linorder) \<Rightarrow> 'a list \<Rightarrow> 'a option" where
  "max_by_key key [] = None"
| "max_by_key key (x # xs) =
     (case max_by_key key xs of
        None \<Rightarrow> Some x
      | Some y \<Rightarrow> if key x \<le> key y then Some y else Some x)"

definition ask_rule_applies :: "exec_policy_engine \<Rightarrow> exec_policy_context \<Rightarrow> tool_ask_rule \<Rightarrow> bool" where
  "ask_rule_applies e ctx r \<longleftrightarrow>
     rule_tool r = (case ctx_tool ctx of None \<Rightarrow> ''exec_shell'' | Some t \<Rightarrow> t)
     \<and> (case rule_command r of
          Some command \<Rightarrow> allow_rule_matches (arity_dict e) command (ctx_command ctx)
        | None \<Rightarrow> True)
     \<and> (case (rule_path r, ctx_path ctx) of
          (Some pattern, Some path) \<Rightarrow>
            (case (normalize_workspace_relative_path pattern (ctx_cwd ctx),
                   normalize_workspace_relative_path path (ctx_cwd ctx)) of
               (Some pn, Some p) \<Rightarrow> pn = p
             | _ \<Rightarrow> False)
        | (Some _, None) \<Rightarrow> False
        | (None, _) \<Rightarrow> True)"

definition layered_rules :: "exec_policy_engine \<Rightarrow> (ruleset_layer \<times> tool_ask_rule) list" where
  "layered_rules e = concat (map (\<lambda>rs. map (\<lambda>r. (rs_layer rs, r)) (rs_ask_rules rs)) (rulesets e))"

definition ask_rule_key :: "ruleset_layer \<times> tool_ask_rule \<Rightarrow> ruleset_layer \<times> permission_action \<times> nat" where
  "ask_rule_key lr = (fst lr, rule_action (snd lr), ask_rule_specificity (snd lr))"

definition matching_ask_rule :: "exec_policy_engine \<Rightarrow> exec_policy_context \<Rightarrow> tool_ask_rule option" where
  "matching_ask_rule e ctx =
     map_option snd (max_by_key ask_rule_key
       (filter (\<lambda>lr. ask_rule_applies e ctx (snd lr)) (layered_rules e)))"

definition remember_session_approval :: "string \<Rightarrow> exec_policy_engine \<Rightarrow> exec_policy_engine" where
  "remember_session_approval k e = e\<lparr>approved_for_session := insert k (approved_for_session e)\<rparr>"

definition is_session_approved :: "exec_policy_engine \<Rightarrow> string \<Rightarrow> bool" where
  "is_session_approved e k \<longleftrightarrow> k \<in> approved_for_session e"

text \<open>The stages of \<open>check\<close>: the first denied prefix that matches the command or a segment, the
  first trusted prefix that matches an unchained command, and the first segment of a chain that a
  typed rule denies.\<close>

definition denies :: "string \<Rightarrow> string \<Rightarrow> bool" where
  "denies command rule =
     (let norm_rule = normalize_command rule in
      list_ex (\<lambda>hay. word_prefix norm_rule hay)
        (normalize_command command # map normalize_command (command_segments command)))"

definition denied_rule :: "exec_policy_engine \<Rightarrow> string \<Rightarrow> string option" where
  "denied_rule e command = find (denies command) (snd (resolve_prefixes e))"

definition trusted_rule :: "exec_policy_engine \<Rightarrow> string \<Rightarrow> string option" where
  "trusted_rule e command =
     (if command_is_chained command then None
      else find (\<lambda>rule. allow_rule_matches (arity_dict e) rule command) (fst (resolve_prefixes e)))"

fun segment_denial :: "exec_policy_engine \<Rightarrow> exec_policy_context \<Rightarrow> string list \<Rightarrow> tool_ask_rule option" where
  "segment_denial e ctx [] = None"
| "segment_denial e ctx (seg # segs) =
     (case matching_ask_rule e (ctx\<lparr>ctx_command := seg\<rparr>) of
        Some rule \<Rightarrow> (if rule_action rule = DenyAction then Some rule else segment_denial e ctx segs)
      | None \<Rightarrow> segment_denial e ctx segs)"

text \<open>The messages put a rule between apostrophes.\<close>

definition quoted :: "string \<Rightarrow> string" where
  "quoted s = CHR 0x27 # s @ [CHR 0x27]"

text \<open>The \<open>NeedsApproval\<close> of a mode: the amendment proposes the first token of an unchained command,
  and a network entry for the working directory, as the source has it.\<close>

definition mode_approval :: "exec_policy_context \<Rightarrow> bool \<Rightarrow> exec_approval_requirement" where
  "mode_approval ctx is_trusted =
     NeedsApproval
       (if is_trusted then ''Approval requested by policy mode.''
        else ''Unmatched command prefix requires approval.'')
       (if is_trusted \<or> command_is_chained (ctx_command ctx) then None
        else Some \<lparr>amendment_prefixes = [first_token (ctx_command ctx)]\<rparr>)
       [\<lparr>net_host = ctx_cwd ctx, net_action = NetAllow\<rparr>]"

text \<open>What the approval mode and a matching \<open>ask\<close> rule require, with the rule that is reported.\<close>

definition ask_rule_requirement ::
    "exec_policy_context \<Rightarrow> tool_ask_rule option \<Rightarrow> (exec_approval_requirement \<times> string) option" where
  "ask_rule_requirement ctx ask_rule =
     (case ctx_ask_for_approval ctx of
        Never \<Rightarrow> None
      | Reject _ True _ \<Rightarrow> None
      | _ \<Rightarrow> map_option (\<lambda>rule.
               (NeedsApproval (''Typed ask rule '' @ quoted (rule_label rule) @ '' requires approval.'')
                  None [], rule_label rule)) ask_rule)"

definition mode_requirement ::
    "exec_policy_context \<Rightarrow> tool_ask_rule option \<Rightarrow> bool \<Rightarrow> exec_approval_requirement \<times> string option" where
  "mode_requirement ctx ask_rule is_trusted =
     (case ask_rule_requirement ctx ask_rule of
        Some (req, label) \<Rightarrow> (req, Some label)
      | None \<Rightarrow>
          (case ctx_ask_for_approval ctx of
             Never \<Rightarrow>
               (case ask_rule of
                  Some rule \<Rightarrow>
                    (Forbidden (''Typed ask rule '' @ quoted (rule_label rule) @
                       '' requires approval, but approval policy is never.''), Some (rule_label rule))
                | None \<Rightarrow> (Skip False None, None))
           | Reject _ rules _ \<Rightarrow>
               if rules then (Forbidden ''Policy is configured to reject rule-exceptions.'', None)
               else (mode_approval ctx is_trusted, None)
           | UnlessTrusted \<Rightarrow>
               if is_trusted then (Skip False None, None) else (mode_approval ctx is_trusted, None)
           | OnFailure \<Rightarrow> (Skip False None, None)
           | OnRequest \<Rightarrow> (mode_approval ctx is_trusted, None)))"

definition forbidden_decision :: "string \<Rightarrow> string \<Rightarrow> permission_action option \<Rightarrow> exec_policy_decision" where
  "forbidden_decision reason rule act = \<lparr>allow = False, requires_approval = False,
     requirement = Forbidden reason, matched_rule = Some rule, matched_action = act\<rparr>"

fun requirement_flags :: "exec_approval_requirement \<Rightarrow> bool \<times> bool" where
  "requirement_flags (Skip _ _) = (True, False)"
| "requirement_flags (NeedsApproval _ _ _) = (True, True)"
| "requirement_flags (Forbidden _) = (False, False)"

definition mode_decision ::
    "exec_policy_context \<Rightarrow> tool_ask_rule option \<Rightarrow> string option \<Rightarrow> exec_policy_decision" where
  "mode_decision ctx ask_rule trusted =
     (let (req, label) = mode_requirement ctx ask_rule (trusted \<noteq> None);
          (al, ap) = requirement_flags req
      in \<lparr>allow = al, requires_approval = ap, requirement = req,
          matched_rule = (case label of Some l \<Rightarrow> Some l | None \<Rightarrow> trusted),
          matched_action = map_option rule_action ask_rule\<rparr>)"

definition check :: "exec_policy_engine \<Rightarrow> exec_policy_context \<Rightarrow> exec_policy_decision" where
  "check e ctx =
     (case denied_rule e (ctx_command ctx) of
        Some rule \<Rightarrow>
          forbidden_decision (''Command blocked by denied prefix rule '' @ quoted rule) rule None
      | None \<Rightarrow>
     (let trusted = trusted_rule e (ctx_command ctx) in
      case (if command_is_chained (ctx_command ctx)
            then segment_denial e ctx (command_segments (ctx_command ctx)) else None) of
        Some rule \<Rightarrow>
          forbidden_decision (''Permission rule '' @ quoted (rule_label rule) @
            '' explicitly denies a chained segment of this invocation.'')
            (rule_label rule) (Some DenyAction)
      | None \<Rightarrow>
     (let ask_rule = matching_ask_rule e ctx in
      case map_option rule_action ask_rule of
        Some DenyAction \<Rightarrow>
          forbidden_decision (''Permission rule '' @ quoted (rule_label (the ask_rule)) @
            '' explicitly denies this invocation.'')
            (rule_label (the ask_rule)) (Some DenyAction)
      | Some AllowAction \<Rightarrow>
          \<lparr>allow = True, requires_approval = False, requirement = Skip False None,
           matched_rule = Some (rule_label (the ask_rule)), matched_action = Some AllowAction\<rparr>
      | _ \<Rightarrow> mode_decision ctx ask_rule trusted)))"

end
