(* ===== verification/Policy_Match.thy ===== *)
theory Policy_Match
  imports Exec_Policy
begin

text \<open>
  How rules match commands. A locale states the contract both matchers of the engine keep, that a
  rule sees only the lower-case words of a command; the deny test and the allow test interpret it.
  On words the deny test is a list prefix, and the allow test of a two-word rule is a list prefix of
  the words that are not flags.
\<close>

section \<open>Words of a command\<close>

definition command_words :: "string \<Rightarrow> string list" where
  "command_words c = map to_ascii_lowercase (split_whitespace c)"

lemma no_ws_lowercase [simp]: "no_ws (to_ascii_lowercase w) = no_ws w"
  by (simp add: no_ws_def to_ascii_lowercase_def list_all_iff)

lemma words_ok_lower: "words_ok (map to_ascii_lowercase ws) = words_ok ws"
  by (induction ws) simp_all

lemma words_ok_command [simp]: "words_ok (command_words c)"
  by (simp add: command_words_def words_ok_lower split_whitespace_words_ok)

lemma normalize_command_words: "normalize_command c = join_str '' '' (command_words c)"
  by (simp add: normalize_command_def command_words_def str_simps)

lemma split_normalize: "split_whitespace (normalize_command c) = command_words c"
  by (simp add: normalize_command_words split_whitespace_join)

lemma all_ws_split: "list_all is_ws r \<Longrightarrow> split_whitespace r = []"
  by (rule split_whitespace_none) (simp add: list_all_iff)

lemma split_rest_of_word:
  assumes "list_all is_ws r"
  shows "split_whitespace (dropWhile (\<lambda>x. \<not> is_ws x) (cs @ r))
      = (if \<exists>x\<in>set cs. is_ws x then split_whitespace (dropWhile (\<lambda>x. \<not> is_ws x) cs @ r) else [])"
proof (cases "\<exists>x\<in>set cs. is_ws x")
  case True
  then have "\<not> (\<forall>x\<in>set cs. \<not> is_ws x)" by blast
  with True show ?thesis by (simp only: dropWhile_append if_False if_True)
next
  case False
  then have "\<forall>x\<in>set cs. \<not> is_ws x" by blast
  then have "dropWhile (\<lambda>x. \<not> is_ws x) (cs @ r) = dropWhile (\<lambda>x. \<not> is_ws x) r"
    unfolding dropWhile_append by (rule if_P)
  moreover have "list_all is_ws (dropWhile (\<lambda>x. \<not> is_ws x) r)"
    using assms by (auto simp: list_all_iff dest: set_dropWhileD)
  ultimately show ?thesis using False by (simp add: all_ws_split)
qed

lemma takeWhile_word:
  assumes "list_all is_ws r"
  shows "takeWhile (\<lambda>x. \<not> is_ws x) (cs @ r) = takeWhile (\<lambda>x. \<not> is_ws x) cs"
  using assms by (induction cs) (cases r; simp)+

lemma split_whitespace_trailing:
  "list_all is_ws r \<Longrightarrow> split_whitespace (s @ r) = split_whitespace s"
proof (induction s rule: split_whitespace.induct)
  case (1 s)
  show ?case
  proof (cases "dropWhile is_ws s")
    case Nil
    then have "list_all is_ws (s @ r)" using 1(2) by (auto simp: list_all_iff)
    with Nil show ?thesis by (simp only: all_ws_split split_whitespace_none)
  next
    case (Cons c cs)
    then have "\<not> (\<forall>x\<in>set s. is_ws x)" by (metis dropWhile_eq_Nil_conv list.distinct(1))
    with Cons have d: "dropWhile is_ws (s @ r) = c # cs @ r"
      by (simp only: dropWhile_append if_False append_Cons)
    have "split_whitespace (dropWhile (\<lambda>x. \<not> is_ws x) (cs @ r))
        = split_whitespace (dropWhile (\<lambda>x. \<not> is_ws x) cs)"
    proof (cases "\<exists>x\<in>set cs. is_ws x")
      case True
      then show ?thesis by (simp only: split_rest_of_word [OF 1(2)] if_True 1(1) [OF Cons 1(2)])
    next
      case False
      then have "dropWhile (\<lambda>x. \<not> is_ws x) cs = []" by (simp add: dropWhile_eq_Nil_conv)
      with False show ?thesis by (simp only: split_rest_of_word [OF 1(2)] if_False split_whitespace_Nil)
    qed
    then show ?thesis
      by (simp only: split_whitespace_some [OF Cons] split_whitespace_some [OF d] takeWhile_word [OF 1(2)])
  qed
qed

lemma split_whitespace_trim [simp]: "split_whitespace (trim s) = split_whitespace s"
proof -
  have start: "split_whitespace (trim_start s) = split_whitespace s"
    unfolding trim_start_def by (induction s) simp_all
  let ?t = "trim_start s"
  have "?t = trim s @ rev (takeWhile is_ws (rev ?t))"
    by (simp add: trim_def trim_end_def flip: rev_append)
  moreover have "list_all is_ws (rev (takeWhile is_ws (rev ?t)))"
    by (auto simp: list_all_iff dest: set_takeWhileD)
  ultimately show ?thesis using split_whitespace_trailing start by metis
qed

lemma command_words_trim [simp]: "command_words (trim c) = command_words c"
  by (simp add: command_words_def)

section \<open>The contract of a rule matcher\<close>

locale rule_matcher =
  fixes rule_matches :: "string \<Rightarrow> string \<Rightarrow> bool"
  assumes sees_words: "command_words c = command_words c' \<Longrightarrow> rule_matches r c = rule_matches r c'"
begin

lemma same_normal_form: "normalize_command c = normalize_command c' \<Longrightarrow> rule_matches r c = rule_matches r c'"
  by (rule sees_words) (metis split_normalize)

lemma find_same: "command_words c = command_words c' \<Longrightarrow>
    find (\<lambda>r. rule_matches r c) rs = find (\<lambda>r. rule_matches r c') rs"
  using sees_words by metis

lemma trim_irrelevant: "rule_matches r (trim c) = rule_matches r c"
  by (rule sees_words) simp

end

text \<open>The deny test of one hay, and the allow test of a dictionary.\<close>

definition deny_matches :: "string \<Rightarrow> string \<Rightarrow> bool" where
  "deny_matches rule c = word_prefix (normalize_command rule) (normalize_command c)"

lemma deny_matches_words:
  "deny_matches rule c \<longleftrightarrow>
     (if command_words rule = [] then command_words c = []
      else prefix (command_words rule) (command_words c))"
  by (simp add: deny_matches_def normalize_command_words word_prefix_words)

lemma positional_words:
  "positional_tokens (split_whitespace c) = filter (\<lambda>t. \<not> prefix ''-'' t) (command_words c)"
proof -
  have "prefix ''-'' (to_ascii_lowercase t) = prefix ''-'' t" for t
    by (cases t) (simp_all add: to_ascii_lowercase_def ascii_lower_eq_iff eq_commute [of "CHR ''-''"])
  then show ?thesis
    by (simp add: positional_tokens_def command_words_def filter_map comp_def)
qed

lemma allow_rule_matches_eq:
  "allow_rule_matches d p c \<longleftrightarrow>
     classify d (split_whitespace c) = to_ascii_lowercase (trim p) \<or> deny_matches p c"
  by (simp add: allow_rule_matches_def Let_def deny_matches_def normalize_command_def str_simps)

lemma classify_words:
  "command_words c = command_words c' \<Longrightarrow> classify d (split_whitespace c) = classify d (split_whitespace c')"
proof -
  assume eq: "command_words c = command_words c'"
  then have "split_whitespace c = [] \<longleftrightarrow> split_whitespace c' = []" by (metis command_words_def map_is_Nil_conv)
  with eq show ?thesis by (simp only: classify_def positional_words)
qed

interpretation deny: rule_matcher deny_matches
  by unfold_locales (simp add: deny_matches_words)

interpretation allow: rule_matcher "allow_rule_matches d" for d
proof
  fix c c' r
  assume "command_words c = command_words c'"
  from classify_words [OF this, of d] deny.sees_words [OF this, of r]
  show "allow_rule_matches d r c = allow_rule_matches d r c'" by (simp only: allow_rule_matches_eq)
qed

section \<open>Arity\<close>

text \<open>The words of a command that are not flags.\<close>

definition positional_part :: "string \<Rightarrow> string list" where
  "positional_part c = filter (\<lambda>t. \<not> prefix ''-'' t) (command_words c)"

lemma words_ok_filter: "words_ok ws \<Longrightarrow> words_ok (filter P ws)"
  by (induction ws) simp_all

lemma words_ok_take: "words_ok ws \<Longrightarrow> words_ok (take n ws)"
  by (induction ws arbitrary: n) (simp_all add: take_Cons split: nat.split)

lemma words_ok_positional [simp]: "words_ok (positional_part c)"
  by (simp add: positional_part_def words_ok_filter)

lemma classify_positional:
  "classify d (split_whitespace c) =
     (if positional_part c = [] then []
      else case classify_depth d (min (length (positional_part c)) 3) (positional_part c) of
        Some s \<Rightarrow> s | None \<Rightarrow> hd (positional_part c))"
proof (cases "split_whitespace c = []")
  case True
  then show ?thesis by (simp add: classify_def positional_part_def command_words_def)
next
  case False
  then show ?thesis
    by (simp only: classify_def positional_words positional_part_def [symmetric] Let_def if_False)
qed

lemma classify_depth_take:
  "classify_depth d n ws = Some s \<Longrightarrow> \<exists>m. s = join_str '' '' (take m ws)"
  by (induction n) (auto split: option.splits)

lemma classify_take: "\<exists>m. classify d (split_whitespace c) = join_str '' '' (take m (positional_part c))"
proof (cases "positional_part c")
  case Nil
  then show ?thesis by (simp add: classify_positional)
next
  case (Cons w ws)
  then have "hd (positional_part c) = join_str '' '' (take 1 (positional_part c))" by simp
  then show ?thesis
    using classify_depth_take [of d "min (length (positional_part c)) 3" "positional_part c"] Cons
    by (auto simp: classify_positional split: option.splits intro: exI [of _ 1])
qed

text \<open>No key of the table has more than two words: none has two spaces.\<close>

fun spaces :: "string \<Rightarrow> nat" where
  "spaces [] = 0"
| "spaces (c # cs) = (if c = CHR '' '' then Suc (spaces cs) else spaces cs)"

lemma spaces_append [simp]: "spaces (xs @ ys) = spaces xs + spaces ys"
  by (induction xs) simp_all

lemma table_spaces: "list_all (\<lambda>e. spaces (fst e) \<le> 1) bash_arity_table"
  by (simp add: bash_arity_defs)

lemma three_words_no_key: "map_of bash_arity_table (join_str '' '' [x, y, z]) = None"
proof (rule ccontr)
  assume "\<not> ?thesis"
  then obtain n where "(join_str '' '' [x, y, z], n) \<in> set bash_arity_table" by (auto dest: map_of_SomeD)
  with table_spaces show False by (auto simp: list_all_iff)
qed

lemma classify_two_words:
  assumes "map_of bash_arity_table (a @ '' '' @ b) = Some 2" and "prefix [a, b] (positional_part c)"
  shows "classify bash_arity_dict_new (split_whitespace c) = a @ '' '' @ b"
proof -
  obtain rest where pos: "positional_part c = a # b # rest" using assms(2) by (auto simp: prefix_def)
  have two: "classify_depth bash_arity_dict_new (Suc (Suc 0)) (positional_part c) = Some (a @ '' '' @ b)"
    using assms(1) by (simp add: pos find_dict_new)
  have "classify_depth bash_arity_dict_new (min (length (positional_part c)) 3) (positional_part c)
      = Some (a @ '' '' @ b)"
  proof (cases rest)
    case Nil
    then show ?thesis using two by (simp add: pos)
  next
    case (Cons z zs)
    then have "find (\<lambda>e. fst e = join_str '' '' (take 3 (positional_part c))) (entries bash_arity_dict_new) = None"
      using three_words_no_key [of a b z] by (simp add: pos find_dict_new numeral_3_eq_3)
    then show ?thesis using two Cons by (simp add: pos numeral_3_eq_3)
  qed
  then show ?thesis by (simp add: classify_positional pos)
qed

lemma trim_id: "s \<noteq> [] \<Longrightarrow> \<not> is_ws (hd s) \<Longrightarrow> \<not> is_ws (last s) \<Longrightarrow> trim s = s"
proof -
  assume s: "s \<noteq> []" "\<not> is_ws (hd s)" "\<not> is_ws (last s)"
  then have "dropWhile is_ws s = s" by (cases s) simp_all
  moreover have "dropWhile is_ws (rev s) = rev s" using s by (cases s rule: rev_cases) simp_all
  ultimately show ?thesis by (simp add: trim_def trim_start_def trim_end_def)
qed

definition plain_word :: "string \<Rightarrow> bool" where
  "plain_word w \<longleftrightarrow> w \<noteq> [] \<and> no_ws w \<and> to_ascii_lowercase w = w \<and> \<not> prefix ''-'' w"

lemma prefix_filter: "prefix xs ys \<Longrightarrow> prefix (filter P xs) (filter P ys)"
  by (auto simp: prefix_def)

text \<open>A rule of two plain words is its own normal form, with exactly these words.\<close>

lemma two_words_command:
  "plain_word a \<Longrightarrow> plain_word b \<Longrightarrow> command_words (a @ '' '' @ b) = [a, b]"
  using split_whitespace_join [of "[a, b]"] by (simp add: command_words_def plain_word_def)

lemma two_words_lower:
  "plain_word a \<Longrightarrow> plain_word b \<Longrightarrow> to_ascii_lowercase (a @ '' '' @ b) = a @ '' '' @ b"
  by (simp only: plain_word_def to_ascii_lowercase_append to_ascii_lowercase_space)

lemma two_words_trim:
  assumes "plain_word a" and "plain_word b"
  shows "trim (a @ '' '' @ b) = a @ '' '' @ b"
proof -
  have a: "a \<noteq> []" "\<not> is_ws (hd a)"
    using assms hd_in_set [of a] by (simp_all add: plain_word_def no_ws_def list_all_iff)
  have b: "b \<noteq> []" "\<not> is_ws (last b)"
    using assms last_in_set [of b] by (simp_all add: plain_word_def no_ws_def list_all_iff)
  from a b trim_id [of "a @ '' '' @ b"] show ?thesis by simp
qed

lemma two_words_positional:
  assumes "plain_word a" and "plain_word b" and "prefix [a, b] (command_words c)"
  shows "prefix [a, b] (positional_part c)"
proof -
  have "prefix (filter (\<lambda>t. \<not> prefix ''-'' t) [a, b]) (positional_part c)"
    unfolding positional_part_def using assms(3) by (rule prefix_filter)
  then show ?thesis using assms(1,2) by (simp add: plain_word_def)
qed

lemma classify_is_two_words:
  assumes "plain_word a" and "plain_word b" and "classify d (split_whitespace c) = a @ '' '' @ b"
  shows "prefix [a, b] (positional_part c)"
proof -
  have ok: "words_ok [a, b]" using assms(1,2) by (simp add: plain_word_def)
  from classify_take [of d c] obtain m where "classify d (split_whitespace c) = join_str '' '' (take m (positional_part c))" ..
  then have "join_str '' '' [a, b] = join_str '' '' (take m (positional_part c))" using assms(3) by simp
  then have "[a, b] = take m (positional_part c)"
    using split_whitespace_join [OF ok] split_whitespace_join [OF words_ok_take [OF words_ok_positional, of m c]]
    by metis
  then show ?thesis by (metis take_is_prefix)
qed

text \<open>
  Allow rules are exact on subcommands. For every table entry of arity two made of two plain
  words, such as \<open>git status\<close>, the rule matches a command exactly when its first two words that are
  not flags are those two, whatever flags, case and spacing the command has: \<open>git status -s\<close> is
  covered and \<open>git push\<close> is not.
\<close>

theorem two_word_rule_exact:
  assumes "map_of bash_arity_table (a @ '' '' @ b) = Some 2" and "plain_word a" and "plain_word b"
  shows "allow_rule_matches bash_arity_dict_new (a @ '' '' @ b) c
    \<longleftrightarrow> prefix [a, b] (positional_part c)"
proof -
  have "prefix [a, b] (positional_part c)" if "deny_matches (a @ '' '' @ b) c"
    using that two_words_positional [OF assms(2,3)]
    by (simp add: deny_matches_words two_words_command [OF assms(2,3), simplified])
  then show ?thesis
    unfolding allow_rule_matches_eq two_words_trim [OF assms(2,3)] two_words_lower [OF assms(2,3)]
    using classify_two_words [OF assms(1), of c] classify_is_two_words [OF assms(2,3)] by blast
qed

theorem two_word_rule_exact_witness:
  "allow_rule_matches bash_arity_dict_new (''git'' @ '' '' @ ''status'') ''git -C x status''
    \<longleftrightarrow> prefix [''git'', ''status''] (positional_part ''git -C x status'')"
  by (rule two_word_rule_exact) (simp add: bash_arity_defs, code_simp, code_simp)

end
