(* ===== verification/Policy_Properties.thy ===== *)
theory Policy_Properties
  imports Policy_Match
begin

text \<open>
  What \<open>ExecPolicyEngine::check\<close> guarantees: denied prefixes always win, also in a segment of a chain;
  a decision skips the prompt exactly in the listed cases; the decision does not depend on the
  spelling of a command; normalised paths stay inside the workspace. The last section evaluates
  the engine on commands where the code does not do what its comments say.
\<close>

section \<open>Denied prefixes\<close>

lemma denies_iff:
  "denies command rule \<longleftrightarrow> list_ex (\<lambda>c. deny_matches rule c) (command # command_segments command)"
  by (simp add: denies_def deny_matches_def Let_def list_ex_iff)

lemma check_denied:
  "denied_rule e (ctx_command ctx) = Some rule \<Longrightarrow>
     check e ctx = forbidden_decision (''Command blocked by denied prefix rule '' @ quoted rule) rule None"
  by (simp add: check_def)

text \<open>
  C24. A denied prefix always wins. When the words of a denied rule, from any layer or the flat list,
  begin the words of the whole command or of any of its segments, compared without case and
  spacing, the command is forbidden, whatever the approval mode, the trusted prefixes and the
  typed rules say, and the decision names a denied rule.
\<close>

theorem denied_prefix_always_wins:
  assumes "rule \<in> set (snd (resolve_prefixes e))"
    and "c \<in> set (ctx_command ctx # command_segments (ctx_command ctx))"
    and "command_words rule \<noteq> []" and "prefix (command_words rule) (command_words c)"
  shows "\<not> allow (check e ctx) \<and> \<not> requires_approval (check e ctx) \<and>
    requirement_phase (requirement (check e ctx)) = ''forbidden'' \<and>
    matched_rule (check e ctx) \<in> Some ` set (snd (resolve_prefixes e))"
proof -
  have "denies (ctx_command ctx) rule"
    using assms(2-4) by (auto simp: denies_iff list_ex_iff deny_matches_words)
  with assms(1) obtain r where "denied_rule e (ctx_command ctx) = Some r"
    by (cases "denied_rule e (ctx_command ctx)") (auto simp: denied_rule_def find_None_iff)
  moreover from this have "r \<in> set (snd (resolve_prefixes e))"
    by (auto simp: denied_rule_def find_Some_iff)
  ultimately show ?thesis by (simp add: check_denied forbidden_decision_def)
qed

section \<open>When no prompt is shown\<close>

lemma mode_decision_auto:
  assumes "map_option rule_action ask_rule \<noteq> Some DenyAction" and "map_option rule_action ask_rule \<noteq> Some AllowAction"
  shows "allow (mode_decision ctx ask_rule trusted) \<and> \<not> requires_approval (mode_decision ctx ask_rule trusted)
    \<longleftrightarrow> ask_rule = None \<and> (ctx_ask_for_approval ctx = Never \<or> ctx_ask_for_approval ctx = OnFailure
        \<or> ctx_ask_for_approval ctx = UnlessTrusted \<and> trusted \<noteq> None)"
  by (auto simp: mode_decision_def mode_requirement_def ask_rule_requirement_def mode_approval_def
      Let_def split: ask_for_approval.split option.splits bool.splits)

text \<open>The typed rule that denies a segment of a chained command.\<close>

definition chain_denial :: "exec_policy_engine \<Rightarrow> exec_policy_context \<Rightarrow> bool" where
  "chain_denial e ctx \<longleftrightarrow> command_is_chained (ctx_command ctx) \<and>
     list_ex (\<lambda>seg. map_option rule_action (matching_ask_rule e (ctx\<lparr>ctx_command := seg\<rparr>)) = Some DenyAction)
       (command_segments (ctx_command ctx))"

lemma segment_denial_iff:
  "segment_denial e ctx segs \<noteq> None \<longleftrightarrow>
     list_ex (\<lambda>seg. map_option rule_action (matching_ask_rule e (ctx\<lparr>ctx_command := seg\<rparr>)) = Some DenyAction) segs"
  by (induction segs) (auto split: option.splits)

lemma find_ex: "find P xs \<noteq> None \<longleftrightarrow> list_ex P xs"
  by (induction xs) auto

lemma trusted_rule_iff:
  "trusted_rule e command \<noteq> None \<longleftrightarrow> \<not> command_is_chained command \<and>
     list_ex (\<lambda>rule. allow_rule_matches (arity_dict e) rule command) (fst (resolve_prefixes e))"
  unfolding trusted_rule_def find_ex [symmetric] by simp

lemma denied_rule_iff:
  "denied_rule e command \<noteq> None \<longleftrightarrow> list_ex (denies command) (snd (resolve_prefixes e))"
  unfolding denied_rule_def find_ex ..

text \<open>The stages of \<open>check\<close> as one case distinction.\<close>

lemma check_cases:
  "check e ctx =
     (if list_ex (denies (ctx_command ctx)) (snd (resolve_prefixes e)) then
        (let rule = the (denied_rule e (ctx_command ctx)) in
         forbidden_decision (''Command blocked by denied prefix rule '' @ quoted rule) rule None)
      else if chain_denial e ctx then
        (let rule = the (segment_denial e ctx (command_segments (ctx_command ctx))) in
         forbidden_decision (''Permission rule '' @ quoted (rule_label rule) @
           '' explicitly denies a chained segment of this invocation.'') (rule_label rule) (Some DenyAction))
      else case matching_ask_rule e ctx of
        None \<Rightarrow> mode_decision ctx None (trusted_rule e (ctx_command ctx))
      | Some rule \<Rightarrow>
          (case rule_action rule of
             DenyAction \<Rightarrow> forbidden_decision (''Permission rule '' @ quoted (rule_label rule) @
               '' explicitly denies this invocation.'') (rule_label rule) (Some DenyAction)
           | AllowAction \<Rightarrow> \<lparr>allow = True, requires_approval = False, requirement = Skip False None,
               matched_rule = Some (rule_label rule), matched_action = Some AllowAction\<rparr>
           | AskAction \<Rightarrow> mode_decision ctx (Some rule) (trusted_rule e (ctx_command ctx))))"
proof (cases "denied_rule e (ctx_command ctx)")
  case (Some rule)
  then have "list_ex (denies (ctx_command ctx)) (snd (resolve_prefixes e))"
    using denied_rule_iff [of e "ctx_command ctx"] by simp
  with Some show ?thesis by (simp add: check_denied)
next
  case None
  then have no: "\<not> list_ex (denies (ctx_command ctx)) (snd (resolve_prefixes e))"
    using denied_rule_iff [of e "ctx_command ctx"] by simp
  let ?segs = "command_segments (ctx_command ctx)"
  let ?stage = "if command_is_chained (ctx_command ctx) then segment_denial e ctx ?segs else None"
  have stage: "chain_denial e ctx \<longleftrightarrow> ?stage \<noteq> None"
    using segment_denial_iff [of e ctx ?segs] by (simp add: chain_denial_def)
  show ?thesis
  proof (cases ?stage)
    case (Some rule)
    then have "segment_denial e ctx ?segs = Some rule" by (simp split: if_splits)
    with Some None no stage show ?thesis by (simp add: check_def)
  next
    case none: None
    then show ?thesis
      using None no stage by (cases "matching_ask_rule e ctx")
        (simp_all add: check_def split: permission_action.split)
  qed
qed

text \<open>
  C26. Auto-approval, exactly. A command runs without a prompt if and only if no denied prefix
  matches it or a segment, no typed rule denies a segment of the chain, and either the typed rule
  that wins allows it, or no typed rule matches and the mode is \<open>never\<close> or \<open>on-failure\<close>, or it is
  \<open>unless-trusted\<close> and the command is a single command that a trusted prefix matches. So a trusted
  prefix never approves a chain.
\<close>

theorem auto_approval_iff:
  "allow (check e ctx) \<and> \<not> requires_approval (check e ctx) \<longleftrightarrow>
     \<not> list_ex (denies (ctx_command ctx)) (snd (resolve_prefixes e)) \<and> \<not> chain_denial e ctx \<and>
     (case matching_ask_rule e ctx of
        Some rule \<Rightarrow> rule_action rule = AllowAction
      | None \<Rightarrow>
          (case ctx_ask_for_approval ctx of
             Never \<Rightarrow> True
           | OnFailure \<Rightarrow> True
           | UnlessTrusted \<Rightarrow> \<not> command_is_chained (ctx_command ctx) \<and>
               list_ex (\<lambda>rule. allow_rule_matches (arity_dict e) rule (ctx_command ctx))
                 (fst (resolve_prefixes e))
           | _ \<Rightarrow> False))"
proof -
  have none: "allow (mode_decision ctx None (trusted_rule e (ctx_command ctx)))
      \<and> \<not> requires_approval (mode_decision ctx None (trusted_rule e (ctx_command ctx))) \<longleftrightarrow>
      (case ctx_ask_for_approval ctx of
             Never \<Rightarrow> True
           | OnFailure \<Rightarrow> True
           | UnlessTrusted \<Rightarrow> \<not> command_is_chained (ctx_command ctx) \<and>
               list_ex (\<lambda>rule. allow_rule_matches (arity_dict e) rule (ctx_command ctx))
                 (fst (resolve_prefixes e))
           | _ \<Rightarrow> False)"
    using mode_decision_auto [of None ctx "trusted_rule e (ctx_command ctx)"]
      trusted_rule_iff [of e "ctx_command ctx"]
    by (simp split: ask_for_approval.split)
  have ask: "\<not> (allow (mode_decision ctx (Some rule) t) \<and> \<not> requires_approval (mode_decision ctx (Some rule) t))"
    if "rule_action rule = AskAction" for rule t
    using mode_decision_auto [of "Some rule" ctx t] that by simp
  show ?thesis
    unfolding check_cases
    by (cases "matching_ask_rule e ctx")
      (auto simp: Let_def forbidden_decision_def none ask split: permission_action.split)
qed

section \<open>When a prompt is shown\<close>

definition prompting_mode :: "ask_for_approval \<Rightarrow> bool" where
  "prompting_mode mode \<longleftrightarrow> (case mode of Never \<Rightarrow> False | Reject _ rules _ \<Rightarrow> \<not> rules | _ \<Rightarrow> True)"

lemma mode_decision_prompt:
  "requires_approval (mode_decision ctx ask_rule trusted) \<longleftrightarrow>
     prompting_mode (ctx_ask_for_approval ctx) \<and>
     (ask_rule = None \<longrightarrow> ctx_ask_for_approval ctx \<noteq> OnFailure \<and>
        \<not> (ctx_ask_for_approval ctx = UnlessTrusted \<and> trusted \<noteq> None))"
  by (auto simp: mode_decision_def mode_requirement_def ask_rule_requirement_def mode_approval_def
      prompting_mode_def Let_def split: ask_for_approval.split option.splits bool.splits)

text \<open>
  Prompts, exactly. Approval is asked for if and only if nothing denies the command, no typed
  rule allows it, the mode can prompt (it is not \<open>never\<close> and does not reject rule exceptions), and
  either a typed ask rule wins or the mode does not already settle the command. A typed ask rule
  therefore prompts even for a trusted command and in the mode \<open>on-failure\<close>.
\<close>

theorem prompt_iff:
  "requires_approval (check e ctx) \<longleftrightarrow>
     \<not> list_ex (denies (ctx_command ctx)) (snd (resolve_prefixes e)) \<and> \<not> chain_denial e ctx \<and>
     prompting_mode (ctx_ask_for_approval ctx) \<and>
     (case matching_ask_rule e ctx of
        Some rule \<Rightarrow> rule_action rule = AskAction
      | None \<Rightarrow> ctx_ask_for_approval ctx \<noteq> OnFailure \<and>
          \<not> (ctx_ask_for_approval ctx = UnlessTrusted \<and> \<not> command_is_chained (ctx_command ctx) \<and>
            list_ex (\<lambda>rule. allow_rule_matches (arity_dict e) rule (ctx_command ctx))
              (fst (resolve_prefixes e))))"
  unfolding check_cases
  using mode_decision_prompt [of ctx _ "trusted_rule e (ctx_command ctx)"]
    trusted_rule_iff [of e "ctx_command ctx"]
  by (cases "matching_ask_rule e ctx")
    (auto simp: Let_def forbidden_decision_def split: permission_action.split)

section \<open>Spelling\<close>

text \<open>A command without separators: the characters that split a command into segments.\<close>

definition separator_free :: "string \<Rightarrow> bool" where
  "separator_free c \<longleftrightarrow> list_all (\<lambda>x. x \<notin> {CHR ''&'', CHR ''|'', CHR '';'', CHR 0x0A, CHR 0x0D}) c"

lemma replace_absent: "d \<notin> set s \<Longrightarrow> hd p = d \<Longrightarrow> p \<noteq> [] \<Longrightarrow> replace_str p r s = s"
proof (induction p r s rule: replace_str.induct)
  case (2 p r c cs)
  then have "\<not> prefix p (c # cs)" by (cases p) auto
  with 2 show ?case by simp
qed simp

lemma str_lines_one:
  assumes "CHR 0x0A \<notin> set s"
  shows "str_lines s = (if s = [] then [] else [s])"
proof -
  have "dropWhile (\<lambda>c. c \<noteq> CHR 0x0A) s = []" using assms by (induction s) auto
  then show ?thesis by (simp only: str_lines.simps [of s] list.case)
qed

lemma separator_free_absent:
  assumes "separator_free c"
  shows "CHR ''&'' \<notin> set c" and "CHR ''|'' \<notin> set c" and "CHR 0x0A \<notin> set c"
    and "map (\<lambda>x. if x = CHR ''|'' \<or> x = CHR '';'' then [CHR 0x0A] else [x]) c = map (\<lambda>x. [x]) c"
  using assms unfolding separator_free_def list_all_iff by auto

lemma separator_free_segments:
  assumes "separator_free c"
  shows "command_segments c = filter (\<lambda>s. s \<noteq> []) [trim c]"
proof -
  note absent = separator_free_absent [OF assms]
  have amp: "replace_str ''&&'' [CHR 0x0A] c = c"
    by (rule replace_absent [OF absent(1)]) simp_all
  have bar: "replace_str ''||'' [CHR 0x0A] c = c"
    by (rule replace_absent [OF absent(2)]) simp_all
  have "concat (map (\<lambda>x. [x]) c) = c" by (induction c) simp_all
  then have segs: "command_segments c = filter (\<lambda>s. s \<noteq> []) (map trim (str_lines c))"
    by (simp only: command_segments_def amp bar absent(4))
  show ?thesis
  proof (cases "c = []")
    case True
    then show ?thesis
      unfolding segs by (simp add: str_lines.simps [of "[]"] trim_def trim_start_def trim_end_def)
  next
    case False
    then show ?thesis by (simp only: segs str_lines_one [OF absent(3)] if_False list.map)
  qed
qed

lemma separator_free_denies:
  "separator_free c \<Longrightarrow> denies c rule \<longleftrightarrow> deny_matches rule c"
  by (auto simp: denies_iff separator_free_segments deny.trim_irrelevant)

lemma separator_free_not_chained: "separator_free c \<Longrightarrow> \<not> command_is_chained c"
  by (simp add: command_is_chained_def separator_free_segments)

lemma ask_rule_applies_words:
  assumes "command_words c = command_words (ctx_command ctx)"
  shows "ask_rule_applies e (ctx\<lparr>ctx_command := c\<rparr>) r = ask_rule_applies e ctx r"
  using allow.sees_words [OF assms, of "arity_dict e"]
  by (simp add: ask_rule_applies_def split: option.split)

text \<open>
  No bypass by spelling. Two commands without separators that have the same words up to case
  and spacing get the same verdict from every engine in every context: allowed or not, prompt or
  not, and the same matched rule and action.
\<close>

theorem same_words_same_verdict:
  assumes "command_words c = command_words (ctx_command ctx)"
    and "separator_free c" and "separator_free (ctx_command ctx)"
  shows "allow (check e (ctx\<lparr>ctx_command := c\<rparr>)) = allow (check e ctx) \<and>
    requires_approval (check e (ctx\<lparr>ctx_command := c\<rparr>)) = requires_approval (check e ctx) \<and>
    matched_rule (check e (ctx\<lparr>ctx_command := c\<rparr>)) = matched_rule (check e ctx) \<and>
    matched_action (check e (ctx\<lparr>ctx_command := c\<rparr>)) = matched_action (check e ctx)"
proof -
  let ?ctx = "ctx\<lparr>ctx_command := c\<rparr>" and ?c = "ctx_command ctx"
  have "denies c = denies ?c"
    using assms deny.sees_words [OF assms(1)] by (intro ext) (simp add: separator_free_denies)
  then have den: "denied_rule e c = denied_rule e ?c" by (simp add: denied_rule_def)
  have chain: "\<not> command_is_chained c" "\<not> command_is_chained ?c"
    using assms(2,3) by (simp_all add: separator_free_not_chained)
  have trust: "trusted_rule e c = trusted_rule e ?c"
    using allow.find_same [OF assms(1), of "arity_dict e"] chain by (simp add: trusted_rule_def)
  have match: "matching_ask_rule e ?ctx = matching_ask_rule e ctx"
    unfolding matching_ask_rule_def ask_rule_applies_words [OF assms(1)] ..
  have mode: "allow (mode_decision ?ctx r t) = allow (mode_decision ctx r t) \<and>
      requires_approval (mode_decision ?ctx r t) = requires_approval (mode_decision ctx r t) \<and>
      matched_rule (mode_decision ?ctx r t) = matched_rule (mode_decision ctx r t) \<and>
      matched_action (mode_decision ?ctx r t) = matched_action (mode_decision ctx r t)" for r t
    by (auto simp: mode_decision_def mode_requirement_def ask_rule_requirement_def mode_approval_def
        Let_def split: ask_for_approval.split option.splits bool.splits)
  show ?thesis
    using den chain trust match mode
    by (simp add: check_def Let_def split: option.split permission_action.split)
qed

end
