(* ===== verification/Policy_Paths.thy ===== *)
theory Policy_Paths
  imports Policy_Properties
begin

text \<open>
  Workspace paths of typed rules, and the engine on concrete commands: what a normalised path is,
  that a saved one matches again, and the evaluations that show where the code and its comments
  part.
\<close>

section \<open>Normalised paths\<close>

lemma split_char_not_Nil: "split_char d s \<noteq> []"
  by (induction d s rule: split_char.induct) (simp_all split: list.split)

lemma split_char_parts:
  "p \<in> set (split_char d s) \<Longrightarrow> d \<notin> set p \<and> set p \<subseteq> set s"
proof (induction d s arbitrary: p rule: split_char.induct)
  case (2 d c cs)
  show ?case
  proof (cases "c = d")
    case True
    with 2 show ?thesis by auto
  next
    case False
    obtain w ws where w: "split_char d cs = w # ws" by (cases "split_char d cs") (use split_char_not_Nil in auto)
    with 2(3) False have "p = c # w \<or> p \<in> set ws" by simp
    with 2(2) [OF False] w False show ?thesis by fastforce
  qed
qed simp

lemma split_char_word: "d \<notin> set w \<Longrightarrow> split_char d (w @ d # rest) = w # split_char d rest"
  by (induction w) auto

lemma split_char_single: "d \<notin> set w \<Longrightarrow> split_char d w = [w]"
  by (induction w) auto

lemma split_char_join:
  "ws \<noteq> [] \<Longrightarrow> list_all (\<lambda>w. CHR ''/'' \<notin> set w) ws \<Longrightarrow> split_char (CHR ''/'') (join_str ''/'' ws) = ws"
proof (induction ws rule: induct_list012)
  case (2 x)
  then show ?case by (simp add: split_char_single)
next
  case (3 x y ys)
  then show ?case using split_char_word [of "CHR ''/''" x "join_str ''/'' (y # ys)"] by simp
qed simp

definition dotted :: "string \<Rightarrow> bool" where
  "dotted p \<longleftrightarrow> p = [] \<or> p = ''.'' \<or> p = ''..''"

definition good_part :: "string \<Rightarrow> bool" where
  "good_part p \<longleftrightarrow> \<not> dotted p \<and> CHR ''/'' \<notin> set p \<and> list_all (\<lambda>c. c \<noteq> CHR 0x5C \<and> ascii_lower c = c) p"

lemma normalize_parts_subset:
  "normalize_parts ps = Some qs \<Longrightarrow> set qs \<subseteq> set ps \<and> list_all (\<lambda>q. \<not> dotted q) qs"
proof (induction ps arbitrary: qs rule: normalize_parts.induct)
  case (2 c cs)
  consider "c = [] \<or> c = ''.''" | "c = ''..''" | "\<not> dotted c" by (auto simp: dotted_def)
  then show ?case
  proof cases
    case 1
    with 2 show ?thesis by auto
  next
    case 2
    with "2.prems" show ?thesis by simp
  next
    case 3
    then have "c \<noteq> []" "c \<noteq> ''.''" "c \<noteq> ''..''" by (auto simp: dotted_def)
    with 2(3) obtain rs where "normalize_parts cs = Some rs" "qs = c # rs" by auto
    with 2(2) [OF _ _ \<open>normalize_parts cs = Some rs\<close>] 3 \<open>c \<noteq> []\<close> \<open>c \<noteq> ''.''\<close> \<open>c \<noteq> ''..''\<close>
    show ?thesis by auto
  qed
qed simp

lemma normalize_parts_id: "list_all good_part ps \<Longrightarrow> normalize_parts ps = Some ps"
proof (induction ps)
  case (Cons p ps)
  then have "p \<noteq> []" "p \<noteq> ''.''" "p \<noteq> ''..''" by (auto simp: good_part_def dotted_def)
  with Cons show ?case by simp
qed simp

text \<open>A string after the slash and case normalisation.\<close>

definition path_chars_ok :: "string \<Rightarrow> bool" where
  "path_chars_ok s \<longleftrightarrow> list_all (\<lambda>c. c \<noteq> CHR 0x5C \<and> ascii_lower c = c) s"

lemma path_chars_parts:
  assumes "path_chars_ok s" and "normalize_parts (split_char (CHR ''/'') s) = Some ps"
  shows "list_all good_part ps"
  unfolding list_all_iff
proof
  fix p
  assume "p \<in> set ps"
  with normalize_parts_subset [OF assms(2)] have p: "p \<in> set (split_char (CHR ''/'') s)" "\<not> dotted p"
    by (auto simp: list_all_iff)
  from split_char_parts [OF p(1)] have "CHR ''/'' \<notin> set p" "set p \<subseteq> set s" by simp_all
  moreover from this(2) assms(1) have "list_all (\<lambda>c. c \<noteq> CHR 0x5C \<and> ascii_lower c = c) p"
    unfolding path_chars_ok_def list_all_iff by blast
  ultimately show "good_part p" using p(2) unfolding good_part_def by blast
qed

definition clean_path :: "string \<Rightarrow> string" where
  "clean_path raw = to_ascii_lowercase (map (\<lambda>c. if c = CHR 0x5C then CHR ''/'' else c) (trim raw))"

lemma clean_path_chars: "path_chars_ok (clean_path raw)"
proof -
  have "ascii_lower c = CHR 0x5C \<longleftrightarrow> c = CHR 0x5C" for c by (rule ascii_lower_eq_iff) simp_all
  then show ?thesis by (auto simp: path_chars_ok_def clean_path_def to_ascii_lowercase_def list_all_iff)
qed

lemma parse_path_parts:
  assumes "parse_path_for_matching raw = Some p"
  shows "\<exists>n. normalize_parts (split_char (CHR ''/'') (drop n (clean_path raw))) = Some (path_parts p)"
proof -
  let ?v = "clean_path raw"
  note eq = assms [unfolded parse_path_for_matching_def clean_path_def [symmetric] Let_def strip_prefix_def]
  consider "prefix ''/'' ?v" | "\<not> prefix ''/'' ?v" "is_windows_absolute_path ?v"
    | "\<not> prefix ''/'' ?v" "\<not> is_windows_absolute_path ?v" by blast
  then show ?thesis
  proof cases
    case 1
    with eq show ?thesis by (intro exI [of _ 1]) (auto split: if_splits)
  next
    case 2
    with eq show ?thesis by (intro exI [of _ 3]) (auto split: if_splits)
  next
    case 3
    with eq show ?thesis by (intro exI [of _ 0]) (auto split: if_splits)
  qed
qed

lemma parse_path_good:
  assumes "parse_path_for_matching raw = Some p"
  shows "list_all good_part (path_parts p)"
proof -
  from parse_path_parts [OF assms] obtain n
    where n: "normalize_parts (split_char (CHR ''/'') (drop n (clean_path raw))) = Some (path_parts p)" ..
  have "path_chars_ok (drop n (clean_path raw))"
    using clean_path_chars [of raw] unfolding path_chars_ok_def list_all_iff by (blast dest: in_set_dropD)
  then show ?thesis using n by (rule path_chars_parts)
qed

lemma normalize_relative_good:
  assumes "normalize_workspace_relative_path v ws = Some r"
  shows "\<exists>parts. r = join_str ''/'' parts \<and> list_all good_part parts"
proof -
  from assms obtain p where p: "parse_path_for_matching v = Some p"
    and r: "r = join_str ''/'' (path_parts p) \<or> (\<exists>n. r = join_str ''/'' (drop n (path_parts p)))"
    unfolding normalize_workspace_relative_path_def by (auto split: option.splits if_splits)
  have "list_all good_part (drop n (path_parts p))" for n
    using parse_path_good [OF p] unfolding list_all_iff by (blast dest: in_set_dropD)
  with r parse_path_good [OF p] show ?thesis by blast
qed

lemma good_parts_chars:
  "list_all good_part parts \<Longrightarrow> path_chars_ok (join_str ''/'' parts)"
proof (induction parts rule: induct_list012)
  case (3 x y ys)
  have "ascii_lower (CHR ''/'') = CHR ''/''" by (simp add: ascii_lower_def)
  with 3 show ?case by (simp add: path_chars_ok_def good_part_def)
qed (simp_all add: path_chars_ok_def good_part_def)

lemma path_chars_clean:
  assumes "path_chars_ok s" and "trim s = s"
  shows "clean_path s = s"
proof -
  have "map (\<lambda>c. if c = CHR 0x5C then CHR ''/'' else c) s = s" and "map ascii_lower s = s"
    using assms(1) by (induction s) (simp_all add: path_chars_ok_def)
  then show ?thesis unfolding clean_path_def assms(2) to_ascii_lowercase_def by simp
qed

lemma join_no_slash_prefix:
  assumes "list_all good_part parts"
  shows "\<not> prefix ''/'' (join_str ''/'' parts)"
proof (cases parts)
  case (Cons p ps)
  have "p \<noteq> []" "CHR ''/'' \<notin> set p" using assms Cons by (auto simp: good_part_def dotted_def)
  then obtain c cs where "p = c # cs" "c \<noteq> CHR ''/''" by (cases p) auto
  then show ?thesis using Cons by (cases ps) auto
qed simp

lemma parse_normalized:
  assumes "list_all good_part parts" and "parts \<noteq> []"
    and "trim (join_str ''/'' parts) = join_str ''/'' parts"
    and "\<not> has_windows_drive_prefix (join_str ''/'' parts)"
  shows "parse_path_for_matching (join_str ''/'' parts) = Some \<lparr>path_root = None, path_parts = parts\<rparr>"
proof -
  let ?r = "join_str ''/'' parts"
  have clean: "clean_path ?r = ?r"
    using good_parts_chars [OF assms(1)] assms(3) by (rule path_chars_clean)
  have noslash: "list_all (\<lambda>w. CHR ''/'' \<notin> set w) parts"
    using assms(1) unfolding list_all_iff good_part_def by blast
  have "?r \<noteq> []"
  proof (cases parts)
    case (Cons p ps)
    then have "p \<noteq> []" using assms(1) by (simp add: good_part_def dotted_def)
    then show ?thesis using Cons by (cases ps) simp_all
  qed (use assms(2) in simp)
  moreover have "\<not> is_windows_absolute_path ?r"
    using assms(4) by (auto simp: is_windows_absolute_path_def has_windows_drive_prefix_def)
  ultimately show ?thesis
    unfolding parse_path_for_matching_def clean_path_def [symmetric] clean Let_def strip_prefix_def
    using join_no_slash_prefix [OF assms(1)] assms(4) split_char_join [OF assms(2) noslash]
      normalize_parts_id [OF assms(1)] by simp
qed

lemma normalize_absolute:
  assumes "normalize_workspace_relative_path v ws = Some r"
    and "parse_path_for_matching v = Some p" and "path_root p = Some root"
  shows "\<exists>w parts. parse_path_for_matching ws = Some w \<and> path_root w = Some root \<and>
    path_parts p = path_parts w @ parts \<and> r = join_str ''/'' parts"
  using assms unfolding normalize_workspace_relative_path_def
  by (auto simp: prefix_def split: option.splits if_splits)

text \<open>
  Paths of file rules stay in the workspace and a saved path matches again. A normalised path
  has no parent component; an absolute path is accepted only when its components continue those of
  the workspace root, under the same root; and unless it is empty, begins or ends with white space
  or looks like a drive, normalising the result once more leaves it as it is.
\<close>

theorem normalized_path_safe:
  assumes "normalize_workspace_relative_path v ws = Some r"
  shows "''..'' \<notin> set (split_char (CHR ''/'') r) \<and>
    (case parse_path_for_matching v of None \<Rightarrow> False | Some p \<Rightarrow>
       (case path_root p of None \<Rightarrow> True | Some root \<Rightarrow>
          (\<exists>w parts. parse_path_for_matching ws = Some w \<and> path_root w = Some root \<and>
             path_parts p = path_parts w @ parts \<and> r = join_str ''/'' parts))) \<and>
    (r = [] \<or> trim r \<noteq> r \<or> has_windows_drive_prefix r
       \<or> normalize_workspace_relative_path r ws = Some r)"
proof (intro conjI)
  from normalize_relative_good [OF assms] obtain parts
    where r: "r = join_str ''/'' parts" and good: "list_all good_part parts" by blast
  have noslash: "list_all (\<lambda>w. CHR ''/'' \<notin> set w) parts"
    using good unfolding list_all_iff good_part_def by blast
  show "''..'' \<notin> set (split_char (CHR ''/'') r)"
  proof (cases "parts = []")
    case False
    then show ?thesis using split_char_join [OF False noslash] good
      by (auto simp: r list_all_iff good_part_def dotted_def)
  qed (simp add: r)
  show "case parse_path_for_matching v of None \<Rightarrow> False | Some p \<Rightarrow>
      (case path_root p of None \<Rightarrow> True | Some root \<Rightarrow>
          (\<exists>w parts. parse_path_for_matching ws = Some w \<and> path_root w = Some root \<and>
             path_parts p = path_parts w @ parts \<and> r = join_str ''/'' parts))"
    using assms normalize_absolute [OF assms]
    by (cases "parse_path_for_matching v")
      (simp_all add: normalize_workspace_relative_path_def split: option.split)
  show "r = [] \<or> trim r \<noteq> r \<or> has_windows_drive_prefix r \<or> normalize_workspace_relative_path r ws = Some r"
  proof (cases "parts = [] \<or> trim r \<noteq> r \<or> has_windows_drive_prefix r")
    case False
    then have "parse_path_for_matching r = Some \<lparr>path_root = None, path_parts = parts\<rparr>"
      using parse_normalized [OF good] r by blast
    moreover obtain w root where "parse_path_for_matching ws = Some w" "path_root w = Some root"
      using assms by (auto simp: normalize_workspace_relative_path_def split: option.splits)
    ultimately show ?thesis by (simp add: normalize_workspace_relative_path_def r)
  qed (use r in auto)
qed

text \<open>The exceptions are real: a leading dot component hides a blank from the trimming.\<close>

lemma saved_path_not_stable:
  "normalize_workspace_relative_path ''./ a'' ''/w'' = Some '' a''"
  "normalize_workspace_relative_path '' a'' ''/w'' = Some ''a''"
  by code_simp+

section \<open>The engine on concrete commands\<close>

definition demo_ctx :: "string \<Rightarrow> ask_for_approval \<Rightarrow> exec_policy_context" where
  "demo_ctx command mode = \<lparr>ctx_command = command, ctx_cwd = ''/w'', ctx_tool = Some ''exec_shell'',
     ctx_path = None, ctx_ask_for_approval = mode, ctx_sandbox_mode = None\<rparr>"

lemma demo_ctx_simps [simp]:
  "ctx_command (demo_ctx command mode) = command" "ctx_cwd (demo_ctx command mode) = ''/w''"
  "ctx_tool (demo_ctx command mode) = Some ''exec_shell''" "ctx_path (demo_ctx command mode) = None"
  "ctx_ask_for_approval (demo_ctx command mode) = mode"
  "(demo_ctx command mode)\<lparr>ctx_command := c\<rparr> = demo_ctx c mode"
  by (simp_all add: demo_ctx_def)

lemma engine_new_simps [simp]:
  "resolve_prefixes (engine_new ts ds) = (ts, ds)" "arity_dict (engine_new ts ds) = bash_arity_dict_new"
  "matching_ask_rule (engine_new ts ds) ctx = None"
  by (simp_all add: engine_new_def resolve_prefixes_def matching_ask_rule_def layered_rules_def)

theorem denied_prefix_always_wins_witness:
  "\<not> allow (check (engine_new [''ls''] [''npm publish'']) (demo_ctx ''ls && npm publish'' OnFailure)) \<and>
   ''npm publish'' \<in> set (command_segments ''ls && npm publish'')"
proof -
  have seg: "''npm publish'' \<in> set (command_segments ''ls && npm publish'')"
    and words: "command_words ''npm publish'' \<noteq> []" by code_simp+
  from denied_prefix_always_wins [of "''npm publish''" "engine_new [''ls''] [''npm publish'']"
      "''npm publish''" "demo_ctx ''ls && npm publish'' OnFailure"] seg words
  show ?thesis by simp
qed

theorem same_words_same_verdict_witness:
  "allow (check (engine_new [] [''rm'']) (demo_ctx ''RM   -rf x'' Never))
     = allow (check (engine_new [] [''rm'']) (demo_ctx ''rm -rf x'' Never))"
proof -
  have "command_words ''RM   -rf x'' = command_words ''rm -rf x''"
    and "separator_free ''RM   -rf x''" and "separator_free ''rm -rf x''" by code_simp+
  with same_words_same_verdict [of "''RM   -rf x''" "demo_ctx ''rm -rf x'' Never" "engine_new [] [''rm'']"]
  show ?thesis by simp
qed

theorem normalized_path_safe_witness:
  "normalize_workspace_relative_path ''/w/src/./A.rs'' ''/w'' = Some ''src/a.rs'' \<and>
   normalize_workspace_relative_path ''src/a.rs'' ''/w'' = Some ''src/a.rs''"
proof -
  have n: "normalize_workspace_relative_path ''/w/src/./A.rs'' ''/w'' = Some ''src/a.rs''" by code_simp
  have "trim ''src/a.rs'' = ''src/a.rs''" and "\<not> has_windows_drive_prefix ''src/a.rs''" by code_simp+
  with normalized_path_safe [OF n] n show ?thesis by (simp del: split_char.simps)
qed

subsection \<open>Where the code and its comments part\<close>

text \<open>
  A single ampersand is not a separator. The command after it escapes a denied prefix, and the
  trusted prefix before it approves the whole line without a prompt: with \<open>rm\<close> denied and \<open>git log\<close>
  trusted, \<open>git log & rm -rf /\<close> runs.
\<close>

theorem background_command_escapes_deny:
  "let d = check (engine_new [''git log''] [''rm'']) (demo_ctx ''git log & rm -rf /'' UnlessTrusted)
   in allow d \<and> \<not> requires_approval d"
proof -
  have "\<not> denies ''git log & rm -rf /'' ''rm''" and "\<not> command_is_chained ''git log & rm -rf /''"
    and "deny_matches ''git log'' ''git log & rm -rf /''" by code_simp+
  then show ?thesis
    unfolding Let_def auto_approval_iff
    by (simp add: chain_denial_def allow_rule_matches_eq)
qed

text \<open>The engine of a \<open>permissions.toml\<close> with one rule, which allows \<open>git log\<close>.\<close>

definition git_log_rule :: tool_ask_rule where
  "git_log_rule = \<lparr>rule_tool = ''exec_shell'', rule_command = Some ''git log'',
     rule_path = None, rule_action = AllowAction\<rparr>"

definition git_log_engine :: exec_policy_engine where
  "git_log_engine = engine_with_rulesets [permissions_ruleset \<lparr>permission_rules = [git_log_rule]\<rparr>]"

lemma git_log_engine_simps:
  "snd (resolve_prefixes git_log_engine) = []" "arity_dict git_log_engine = bash_arity_dict_new"
  "layered_rules git_log_engine = [(UserLayer, git_log_rule)]"
  by (simp_all add: git_log_engine_def engine_with_rulesets_def permissions_ruleset_def with_ask_rules_def
      ruleset_user_def git_log_rule_def resolve_prefixes_def layered_rules_def)

text \<open>
  A typed allow rule approves a whole chain. Only trusted prefixes are restricted to single
  commands; a command rule of \<open>permissions.toml\<close> stays a typed rule as well, and as such it approves
  \<open>git log ; rm -rf /\<close> even in the mode that always asks.
\<close>

theorem typed_allow_approves_chain:
  "let d = check git_log_engine (demo_ctx ''git log ; rm -rf /'' OnRequest)
   in allow d \<and> \<not> requires_approval d"
proof -
  have "deny_matches ''git log'' ''git log ; rm -rf /''" by code_simp
  then have "ask_rule_applies git_log_engine (demo_ctx ''git log ; rm -rf /'' OnRequest) git_log_rule"
    by (simp add: ask_rule_applies_def git_log_rule_def git_log_engine_simps allow_rule_matches_eq)
  then have "matching_ask_rule git_log_engine (demo_ctx ''git log ; rm -rf /'' OnRequest) = Some git_log_rule"
    by (simp add: matching_ask_rule_def git_log_engine_simps)
  moreover have "map_option rule_action (matching_ask_rule git_log_engine ctx) \<noteq> Some DenyAction" for ctx
    by (simp add: matching_ask_rule_def git_log_engine_simps git_log_rule_def)
  then have "\<not> chain_denial git_log_engine (demo_ctx ''git log ; rm -rf /'' OnRequest)"
    unfolding chain_denial_def list_ex_iff by blast
  ultimately show ?thesis
    unfolding Let_def auto_approval_iff by (simp add: git_log_engine_simps git_log_rule_def)
qed

text \<open>A typed allow of a higher layer beats a typed deny of a lower one.\<close>

lemma higher_layer_allow_beats_deny:
  "max_by_key ask_rule_key
     [(AgentLayer, (exec_shell_rule ''rm'')\<lparr>rule_action := DenyAction\<rparr>),
      (UserLayer, (exec_shell_rule ''rm'')\<lparr>rule_action := AllowAction\<rparr>)]
   = Some (UserLayer, (exec_shell_rule ''rm'')\<lparr>rule_action := AllowAction\<rparr>)"
  by (simp add: ask_rule_key_def less_eq_prod_def less_prod_def less_ruleset_layer_def)

text \<open>A prompt by mode proposes the working directory as an allowed network host.\<close>

lemma prompt_proposes_cwd_host:
  "requirement (check (engine_new [] []) (demo_ctx ''ls'' OnRequest)) =
     NeedsApproval ''Unmatched command prefix requires approval.'' (Some \<lparr>amendment_prefixes = [''ls'']\<rparr>)
       [\<lparr>net_host = ''/w'', net_action = NetAllow\<rparr>]"
proof -
  have "command_is_chained ''ls'' = False" and "first_token ''ls'' = ''ls''" by code_simp+
  then show ?thesis
    by (simp add: check_def denied_rule_def trusted_rule_def mode_decision_def mode_requirement_def
        ask_rule_requirement_def mode_approval_def)
qed

text \<open>The entry for \<open>python -m\<close> never classifies a command, since flags are dropped before the lookup.\<close>

lemma python_module_entry_unused:
  "map_of python_entries ''python -m'' = Some 3"
  "take 2 (positional_part c) \<noteq> [''python'', ''-m'']"
proof -
  show "map_of python_entries ''python -m'' = Some 3" by (simp add: python_entries_def)
  show "take 2 (positional_part c) \<noteq> [''python'', ''-m'']"
  proof
    assume "take 2 (positional_part c) = [''python'', ''-m'']"
    then have "''-m'' \<in> set (positional_part c)" by (metis in_set_takeD list.set_intros)
    then show False by (simp add: positional_part_def)
  qed
qed

end
