(* ===== verification/Selection.thy ===== *)
theory Selection
  imports Workflow_Types "HOL-Library.Product_Lexorder"
begin

text \<open>
  Choosing among the results of a workflow (\<open>crates/workflow/src/lib.rs\<close>): the branch tournament, the
  Pareto frontier, the promotion gate over a student replay with its signed differences, and the
  candidates a teacher review draws from an execution log.
\<close>

section \<open>Data\<close>

record branch_candidate =
  bc_branch_id :: string
  bc_status :: run_status
  bc_score :: u32
  bc_cost :: u64
  bc_diversity_key :: "string option"

datatype teacher_candidate_kind =
    TNote | TWorkflowRecipe | TSkillPatch | TRegressionTest | TCachePolicyPatch
  | TBranchHeuristic | TAuthoringPromptPatch

datatype teacher_candidate_status = Proposed | Accepted | Rejected | Promoted

record student_replay_metrics =
  srm_score :: "32 word"
  srm_cost_microusd :: u64

record student_replay_test =
  srt_name :: string
  srt_passed :: bool

record student_replay_result =
  sr_trace_id :: string
  sr_candidate_id :: string
  sr_baseline :: student_replay_metrics
  sr_candidate :: student_replay_metrics
  sr_required_tests :: "student_replay_test list"
  sr_policy_violations :: "string list"
  sr_stale :: bool
  sr_notes :: "string option"

record teacher_candidate =
  tc_candidate_id :: string
  tc_kind :: teacher_candidate_kind
  tc_status :: teacher_candidate_status
  tc_source_node_id :: string
  tc_source_branch_id :: "string option"
  tc_summary :: string
  tc_evidence :: "string list"
  tc_replay_results :: "student_replay_result list"

record promotion_gate_decision =
  pd_candidate_id :: string
  pd_status :: teacher_candidate_status
  pd_score_delta :: "32 word"
  pd_cost_delta_microusd :: "64 word"
  pd_reasons :: "string list"

record teacher_review_report =
  report_review_node_id :: string
  report_candidates :: "teacher_candidate list"

section \<open>Tournament and frontier\<close>

text \<open>\<open>Iterator::min_by_key\<close>: the first of the elements with the least key. \<open>Reverse\<close> of an unsigned
  number is the negated integer.\<close>

fun min_by_key :: "('a \<Rightarrow> 'b::linorder) \<Rightarrow> 'a list \<Rightarrow> 'a option" where
  "min_by_key key [] = None"
| "min_by_key key (x # xs) =
     (case min_by_key key xs of
        None \<Rightarrow> Some x
      | Some y \<Rightarrow> if key x \<le> key y then Some x else Some y)"

definition tournament_key :: "branch_candidate \<Rightarrow> nat \<times> int" where
  "tournament_key c = (unat (bc_cost c), - int (unat (bc_score c)))"

record branch_tournament =
  tournament_min_score :: u32

definition tournament_select :: "branch_tournament \<Rightarrow> branch_candidate list \<Rightarrow> branch_candidate option" where
  "tournament_select t candidates =
     min_by_key tournament_key
       (filter (\<lambda>c. bc_status c = Succeeded \<and> tournament_min_score t \<le> bc_score c) candidates)"

record pareto_frontier =
  max_items :: usize

definition default_frontier_limit :: usize where
  "default_frontier_limit = 8"

definition pareto_default :: pareto_frontier where
  "pareto_default = \<lparr>max_items = default_frontier_limit\<rparr>"

definition dominated_by :: "branch_candidate \<Rightarrow> branch_candidate \<Rightarrow> bool" where
  "dominated_by c other \<longleftrightarrow> bc_status other = Succeeded \<and> bc_score c \<le> bc_score other
     \<and> bc_cost other \<le> bc_cost c \<and> (bc_score c < bc_score other \<or> bc_cost other < bc_cost c)"

definition frontier_key :: "branch_candidate \<Rightarrow> int \<times> nat" where
  "frontier_key c = (- int (unat (bc_score c)), unat (bc_cost c))"

definition pareto_select :: "pareto_frontier \<Rightarrow> branch_candidate list \<Rightarrow> branch_candidate list" where
  "pareto_select p candidates =
     take (unat (max (max_items p) 1))
       (sort_key frontier_key
         (filter (\<lambda>c. \<not> list_ex (dominated_by c) candidates)
           (filter (\<lambda>c. bc_status c = Succeeded) candidates)))"

section \<open>Promotion\<close>

text \<open>\<open>i64::try_from(d).unwrap_or(i64::MAX)\<close> of an unsigned difference.\<close>

definition clamp_i64 :: "u64 \<Rightarrow> 64 word" where
  "clamp_i64 d = (if unat d \<le> 2 ^ 63 - 1 then d else word_of_nat (2 ^ 63 - 1))"

definition signed_u64_delta :: "u64 \<Rightarrow> u64 \<Rightarrow> 64 word" where
  "signed_u64_delta candidate baseline =
     (if baseline \<le> candidate then clamp_i64 (candidate - baseline)
      else - clamp_i64 (baseline - candidate))"

definition score_delta :: "student_replay_result \<Rightarrow> 32 word" where
  "score_delta r = ssat_sub (srm_score (sr_candidate r)) (srm_score (sr_baseline r))"

definition cost_delta_microusd :: "student_replay_result \<Rightarrow> 64 word" where
  "cost_delta_microusd r =
     signed_u64_delta (srm_cost_microusd (sr_candidate r)) (srm_cost_microusd (sr_baseline r))"

definition default_min_replay_score_delta :: "32 word" where
  "default_min_replay_score_delta = 1"

definition promotion_gate_default :: promotion_gate where
  "promotion_gate_default = \<lparr>min_score_delta = default_min_replay_score_delta,
     max_cost_delta_microusd = None, require_all_tests_pass = True,
     reject_policy_violations = True, reject_stale_replay = True\<rparr>"

definition replay_reasons :: "promotion_gate \<Rightarrow> student_replay_result \<Rightarrow> string list" where
  "replay_reasons g r =
     (if sint (score_delta r) < sint (min_score_delta g)
      then [''score delta '' @ show_int (sint (score_delta r)) @ '' is below required '' @
              show_int (sint (min_score_delta g))] else [])
   @ (case max_cost_delta_microusd g of
        None \<Rightarrow> []
      | Some m \<Rightarrow>
          if sint m < sint (cost_delta_microusd r)
          then [''cost delta '' @ show_int (sint (cost_delta_microusd r)) @ '' exceeds allowed '' @
                  show_int (sint m)] else [])
   @ (if require_all_tests_pass g
      then map (\<lambda>t. ''required test `'' @ srt_name t @ ''` failed'')
             (filter (\<lambda>t. \<not> srt_passed t) (sr_required_tests r)) else [])
   @ (if reject_policy_violations g
      then map (\<lambda>v. ''policy violation: '' @ v) (sr_policy_violations r) else [])
   @ (if reject_stale_replay g \<and> sr_stale r then [''student replay result is stale''] else [])"

definition evaluate_replay ::
    "promotion_gate \<Rightarrow> string \<Rightarrow> student_replay_result \<Rightarrow> promotion_gate_decision" where
  "evaluate_replay g cid r =
     (let reasons = replay_reasons g r
      in \<lparr>pd_candidate_id = cid, pd_status = (if reasons = [] then Promoted else Rejected),
          pd_score_delta = score_delta r, pd_cost_delta_microusd = cost_delta_microusd r,
          pd_reasons = reasons\<rparr>)"

definition evaluate_candidate :: "promotion_gate \<Rightarrow> teacher_candidate \<Rightarrow> promotion_gate_decision" where
  "evaluate_candidate g c =
     (if tc_replay_results c = [] then
        \<lparr>pd_candidate_id = tc_candidate_id c, pd_status = Rejected, pd_score_delta = 0,
         pd_cost_delta_microusd = 0, pd_reasons = [''no student replay result recorded'']\<rparr>
      else evaluate_replay g (tc_candidate_id c) (last (tc_replay_results c)))"

definition promoted :: "promotion_gate_decision \<Rightarrow> bool" where
  "promoted d \<longleftrightarrow> pd_status d = Promoted"

section \<open>Teacher candidates\<close>

text \<open>The derived \<open>Debug\<close> of the two enums.\<close>

fun show_status :: "run_status \<Rightarrow> string" where
  "show_status Pending = ''Pending''"
| "show_status Running = ''Running''"
| "show_status Succeeded = ''Succeeded''"
| "show_status Failed = ''Failed''"
| "show_status Cancelled = ''Cancelled''"
| "show_status BudgetExceeded = ''BudgetExceeded''"
| "show_status ReplayDiverged = ''ReplayDiverged''"

fun show_kind :: "control_node_kind \<Rightarrow> string" where
  "show_kind KBranchSet = ''BranchSet''"
| "show_kind KLeaf = ''Leaf''"
| "show_kind KSequence = ''Sequence''"
| "show_kind KReduce = ''Reduce''"
| "show_kind KTeacherReview = ''TeacherReview''"
| "show_kind KLoopUntil = ''LoopUntil''"
| "show_kind KCond = ''Cond''"
| "show_kind KExpand = ''Expand''"

definition truncate_evidence :: "string \<Rightarrow> string" where
  "truncate_evidence v = (if length v \<le> 240 then v else take 239 v @ ''...'')"

definition memo_hit :: "workflow_memo_usage \<Rightarrow> bool" where
  "memo_hit u \<longleftrightarrow> 0 < armh_hits u \<or> 0 < provider_prompt_cache_hits u"

definition candidate_from_branch :: "teacher_review_spec \<Rightarrow> branch_result \<Rightarrow> teacher_candidate" where
  "candidate_from_branch review b =
     \<lparr>tc_candidate_id = review_id review @ '':'' @ br_branch_id b,
      tc_kind = (if memo_hit (br_memo_usage b) then TCachePolicyPatch
                 else if br_status b = Succeeded then TWorkflowRecipe else TBranchHeuristic),
      tc_status = Proposed,
      tc_source_node_id = br_task_id b,
      tc_source_branch_id = Some (br_branch_id b),
      tc_summary = ''TeacherReview candidate from branch `'' @ br_branch_id b @ ''` with '' @
        show_status (br_status b) @ '' status.'',
      tc_evidence =
        [''status='' @ show_status (br_status b)]
        @ (if 0 < total_tokens (br_usage b) \<or> 0 < cost_microusd (br_usage b)
           then [''tokens='' @ show_nat (unat (total_tokens (br_usage b))) @ '', cost_microusd='' @
                   show_nat (unat (cost_microusd (br_usage b)))] else [])
        @ (if memo_hit (br_memo_usage b)
           then [''armh_hits='' @ show_nat (unat (armh_hits (br_memo_usage b))) @
                   '', provider_prompt_cache_hits='' @
                   show_nat (unat (provider_prompt_cache_hits (br_memo_usage b)))] else [])
        @ (case br_notes b of None \<Rightarrow> [] | Some notes \<Rightarrow> [''notes='' @ notes]),
      tc_replay_results = []\<rparr>"

definition candidate_from_leaf :: "teacher_review_spec \<Rightarrow> leaf_result \<Rightarrow> teacher_candidate" where
  "candidate_from_leaf review l =
     \<lparr>tc_candidate_id = review_id review @ '':'' @ lr_leaf_id l,
      tc_kind = (if lr_status l = Failed then TRegressionTest
                 else if memo_hit (lr_memo_usage l) then TCachePolicyPatch else TNote),
      tc_status = Proposed,
      tc_source_node_id = lr_leaf_id l,
      tc_source_branch_id = None,
      tc_summary = ''TeacherReview candidate from leaf `'' @ lr_leaf_id l @ ''` with '' @
        show_status (lr_status l) @ '' status.'',
      tc_evidence =
        [''status='' @ show_status (lr_status l)]
        @ (case lr_output l of None \<Rightarrow> [] | Some out \<Rightarrow> [''output='' @ truncate_evidence out]),
      tc_replay_results = []\<rparr>"

definition candidate_from_control :: "teacher_review_spec \<Rightarrow> control_node_result \<Rightarrow> teacher_candidate" where
  "candidate_from_control review c =
     \<lparr>tc_candidate_id = review_id review @ '':'' @ cr_node_id c,
      tc_kind = TAuthoringPromptPatch,
      tc_status = Proposed,
      tc_source_node_id = cr_node_id c,
      tc_source_branch_id = None,
      tc_summary = ''TeacherReview candidate from control node `'' @ cr_node_id c @ ''` ('' @
        show_kind (cr_kind c) @ '').'',
      tc_evidence =
        [''status='' @ show_status (cr_status c)]
        @ (if cr_selected_children c \<noteq> []
           then [''selected_children='' @ join_str '','' (cr_selected_children c)] else [])
        @ (case cr_summary c of None \<Rightarrow> [] | Some s \<Rightarrow> [''summary='' @ truncate_evidence s]),
      tc_replay_results = []\<rparr>"

definition candidate_for_source ::
    "teacher_review_spec \<Rightarrow> workflow_execution \<Rightarrow> string \<Rightarrow> teacher_candidate option" where
  "candidate_for_source review e source =
     (case find (\<lambda>b. br_branch_id b = source \<or> br_task_id b = source) (branch_results e) of
        Some b \<Rightarrow> Some (candidate_from_branch review b)
      | None \<Rightarrow>
     (case find (\<lambda>l. lr_leaf_id l = source \<or> lr_task_id l = source) (leaf_results e) of
        Some l \<Rightarrow> Some (candidate_from_leaf review l)
      | None \<Rightarrow>
     (case find (\<lambda>c. cr_node_id c = source) (control_node_results e) of
        Some c \<Rightarrow> Some (candidate_from_control review c)
      | None \<Rightarrow> None)))"

fun candidates_from_sources ::
    "teacher_review_spec \<Rightarrow> workflow_execution \<Rightarrow> string list \<Rightarrow> teacher_candidate list" where
  "candidates_from_sources review e [] = []"
| "candidates_from_sources review e (source # sources) =
     (case candidate_for_source review e source of
        Some c \<Rightarrow> c # candidates_from_sources review e sources
      | None \<Rightarrow> candidates_from_sources review e sources)"

definition teacher_candidates_from_execution ::
    "teacher_review_spec \<Rightarrow> workflow_execution \<Rightarrow> teacher_candidate list" where
  "teacher_candidates_from_execution review e = candidates_from_sources review e (review_candidates review)"

definition report_from_execution ::
    "teacher_review_spec \<Rightarrow> workflow_execution \<Rightarrow> teacher_review_report" where
  "report_from_execution review e = \<lparr>report_review_node_id = review_id review,
     report_candidates = teacher_candidates_from_execution review e\<rparr>"

end
