(* ===== verification/Selection_Properties.thy ===== *)
theory Selection_Properties
  imports Selection "HOL-Library.Multiset"
begin

text \<open>
  What the selections promise: the tournament returns the first best eligible branch, the Pareto
  frontier is sound, sorted and complete up to its size, the promotion gate promotes exactly the
  replays that meet every enabled condition on the exact differences, and a review proposes one
  candidate per declared source that left a trace.
\<close>

section \<open>Tournament\<close>

lemma min_by_key_None: "min_by_key key xs = None \<longleftrightarrow> xs = []"
  by (cases xs) (auto split: option.splits)

lemma min_by_key_Some:
  "min_by_key key xs = Some x \<Longrightarrow>
     \<exists>ys zs. xs = ys @ x # zs \<and> (\<forall>y\<in>set ys. key x < key y) \<and> (\<forall>z\<in>set zs. key x \<le> key z)"
proof (induction xs arbitrary: x)
  case (Cons a xs)
  show ?case
  proof (cases "min_by_key key xs")
    case None
    with Cons.prems have "xs = []" "x = a" by (auto simp: min_by_key_None)
    then show ?thesis by (intro exI [of _ "[]"]) simp
  next
    case (Some y)
    from Cons.IH [OF Some] obtain ys zs where xs: "xs = ys @ y # zs"
      "\<forall>u\<in>set ys. key y < key u" "\<forall>z\<in>set zs. key y \<le> key z" by blast
    show ?thesis
    proof (cases "key a \<le> key y")
      case True
      with Cons.prems Some have "x = a" by simp
      moreover have "\<forall>u\<in>set xs. key a \<le> key u" using xs True by (auto intro: order_trans less_imp_le)
      ultimately show ?thesis by (intro exI [of _ "[]"] exI [of _ xs]) simp
    next
      case False
      with Cons.prems Some have "x = y" by simp
      with xs False show ?thesis by (intro exI [of _ "a # ys"] exI [of _ zs]) simp
    qed
  qed
qed simp

definition eligible :: "branch_tournament \<Rightarrow> branch_candidate \<Rightarrow> bool" where
  "eligible t c \<longleftrightarrow> bc_status c = Succeeded \<and> tournament_min_score t \<le> bc_score c"

text \<open>A branch beats another when it is cheaper, or as cheap and scored higher.\<close>

definition beats :: "branch_candidate \<Rightarrow> branch_candidate \<Rightarrow> bool" where
  "beats a b \<longleftrightarrow> bc_cost a < bc_cost b \<or> bc_cost a = bc_cost b \<and> bc_score b < bc_score a"

lemma int_unat_order:
  "- int (unat a) < - int (unat b) \<longleftrightarrow> b < a" "- int (unat a) \<le> - int (unat b) \<longleftrightarrow> b \<le> a"
  for a b :: "'a::len word"
  by (simp_all only: neg_less_iff_less neg_le_iff_le of_nat_less_iff of_nat_le_iff
      word_less_nat_alt word_le_nat_alt)

lemma tournament_key_less: "tournament_key a < tournament_key b \<longleftrightarrow> beats a b"
  by (simp only: tournament_key_def beats_def less_prod_def' fst_conv snd_conv int_unat_order
      word_less_nat_alt [symmetric] word_unat_eq_iff [symmetric])

text \<open>
  The tournament is decided correctly. When no branch succeeded with the required score there
  is no winner; otherwise the winner is eligible, no eligible branch beats it by cost and then by
  score, and it beats every eligible branch listed before it.
\<close>

theorem tournament_winner:
  "case tournament_select t candidates of
     None \<Rightarrow> \<not> list_ex (eligible t) candidates
   | Some w \<Rightarrow> eligible t w \<and> w \<in> set candidates \<and>
       list_all (\<lambda>c. \<not> beats c w) (filter (eligible t) candidates) \<and>
       (\<exists>before after. filter (eligible t) candidates = before @ w # after \<and> list_all (beats w) before)"
proof (cases "tournament_select t candidates")
  case None
  then show ?thesis
    by (auto simp: tournament_select_def eligible_def [abs_def] min_by_key_None filter_empty_conv list_ex_iff)
next
  case (Some w)
  have sel: "min_by_key tournament_key (filter (eligible t) candidates) = Some w"
    using Some by (simp add: tournament_select_def eligible_def [abs_def])
  from min_by_key_Some [OF this] obtain ys zs where split: "filter (eligible t) candidates = ys @ w # zs"
    and ys: "\<forall>y\<in>set ys. tournament_key w < tournament_key y"
    and zs: "\<forall>z\<in>set zs. tournament_key w \<le> tournament_key z" by blast
  have "w \<in> set (filter (eligible t) candidates)" by (simp only: split) simp
  then have "eligible t w" "w \<in> set candidates" by simp_all
  moreover have "\<not> beats c w" if "c \<in> set (filter (eligible t) candidates)" for c
    using that ys zs unfolding split by (auto simp flip: tournament_key_less)
  moreover have "list_all (beats w) ys" using ys by (simp add: tournament_key_less list_all_iff)
  moreover have "list_all (\<lambda>c. \<not> beats c w) (filter (eligible t) candidates)"
    using calculation(3) by (simp add: list_all_iff)
  ultimately show ?thesis unfolding Some option.case using split by blast
qed

section \<open>Pareto frontier\<close>

definition on_frontier :: "branch_candidate list \<Rightarrow> branch_candidate \<Rightarrow> bool" where
  "on_frontier candidates c \<longleftrightarrow> bc_status c = Succeeded \<and> \<not> list_ex (dominated_by c) candidates"

lemma pareto_select_eq:
  "pareto_select p candidates =
     take (unat (max (max_items p) 1)) (sort_key frontier_key (filter (on_frontier candidates) candidates))"
proof -
  have "filter (\<lambda>c. \<not> list_ex (dominated_by c) candidates) (filter (\<lambda>c. bc_status c = Succeeded) candidates)
      = filter (on_frontier candidates) candidates"
    by (simp add: on_frontier_def [abs_def] conj_commute)
  then show ?thesis by (simp add: pareto_select_def)
qed

text \<open>
  The Pareto frontier is sound, ordered and complete. Every selected branch succeeded and is
  not dominated by a successful branch, the selection is sorted by falling score and then rising
  cost, it holds at most \<open>max_items\<close> branches (one when that is zero), and when the bound does not
  cut it is a permutation of all branches on the frontier.
\<close>

theorem pareto_frontier_correct:
  "set (pareto_select p candidates) \<subseteq> set candidates \<inter> Collect (on_frontier candidates) \<and>
   sorted_wrt (\<lambda>a b. bc_score b \<le> bc_score a \<and> (bc_score a = bc_score b \<longrightarrow> bc_cost a \<le> bc_cost b))
     (pareto_select p candidates) \<and>
   length (pareto_select p candidates)
     = min (unat (max (max_items p) 1)) (length (filter (on_frontier candidates) candidates)) \<and>
   (length (filter (on_frontier candidates) candidates) \<le> unat (max_items p) \<longrightarrow>
      mset (pareto_select p candidates) = mset (filter (on_frontier candidates) candidates))"
proof -
  let ?all = "sort_key frontier_key (filter (on_frontier candidates) candidates)"
  have key: "frontier_key a \<le> frontier_key b \<longleftrightarrow>
      bc_score b \<le> bc_score a \<and> (bc_score a = bc_score b \<longrightarrow> bc_cost a \<le> bc_cost b)" for a b
    unfolding frontier_key_def less_eq_prod_def fst_conv snd_conv int_unat_order
    by (auto simp: word_le_nat_alt [symmetric])
  have "sorted (map frontier_key ?all)" by simp
  then have sorted: "sorted_wrt (\<lambda>a b. frontier_key a \<le> frontier_key b) ?all"
    by (simp add: sorted_map)
  have "set (take n ?all) \<subseteq> set candidates \<inter> Collect (on_frontier candidates)" for n
    by (auto dest!: in_set_takeD)
  moreover have "mset (take (unat (max (max_items p) 1)) ?all) = mset (filter (on_frontier candidates) candidates)"
    if "length (filter (on_frontier candidates) candidates) \<le> unat (max_items p)"
  proof -
    have "unat (max_items p) \<le> unat (max (max_items p) 1)" by (simp add: max_def word_le_nat_alt)
    with that show ?thesis by simp
  qed
  ultimately show ?thesis
    unfolding pareto_select_eq using sorted_wrt_take [OF sorted] by (simp add: key)
qed

theorem pareto_frontier_witness:
  "pareto_select \<lparr>max_items = 2\<rparr>
     [\<lparr>bc_branch_id = ''a'', bc_status = Succeeded, bc_score = 5, bc_cost = 9, bc_diversity_key = None\<rparr>,
      \<lparr>bc_branch_id = ''b'', bc_status = Succeeded, bc_score = 5, bc_cost = 4, bc_diversity_key = None\<rparr>,
      \<lparr>bc_branch_id = ''c'', bc_status = Succeeded, bc_score = 3, bc_cost = 1, bc_diversity_key = None\<rparr>]
   = [\<lparr>bc_branch_id = ''b'', bc_status = Succeeded, bc_score = 5, bc_cost = 4, bc_diversity_key = None\<rparr>,
      \<lparr>bc_branch_id = ''c'', bc_status = Succeeded, bc_score = 3, bc_cost = 1, bc_diversity_key = None\<rparr>]
   \<and> length (pareto_select \<lparr>max_items = 0\<rparr> ([] :: branch_candidate list)) = 0"
proof -
  have "length (pareto_select \<lparr>max_items = 0\<rparr> ([] :: branch_candidate list)) = 0"
    using pareto_frontier_correct [of "\<lparr>max_items = 0\<rparr>" "[]"] by simp
  moreover have "pareto_select \<lparr>max_items = 2\<rparr>
     [\<lparr>bc_branch_id = ''a'', bc_status = Succeeded, bc_score = 5, bc_cost = 9, bc_diversity_key = None\<rparr>,
      \<lparr>bc_branch_id = ''b'', bc_status = Succeeded, bc_score = 5, bc_cost = 4, bc_diversity_key = None\<rparr>,
      \<lparr>bc_branch_id = ''c'', bc_status = Succeeded, bc_score = 3, bc_cost = 1, bc_diversity_key = None\<rparr>]
   = [\<lparr>bc_branch_id = ''b'', bc_status = Succeeded, bc_score = 5, bc_cost = 4, bc_diversity_key = None\<rparr>,
      \<lparr>bc_branch_id = ''c'', bc_status = Succeeded, bc_score = 3, bc_cost = 1, bc_diversity_key = None\<rparr>]"
    by code_simp
  ultimately show ?thesis by (intro conjI)
qed

section \<open>Promotion gate\<close>

definition clamp :: "int \<Rightarrow> int \<Rightarrow> int \<Rightarrow> int" where
  "clamp lo hi x = max lo (min hi x)"

lemma clamp_symmetric:
  "0 \<le> x \<Longrightarrow> 0 \<le> m \<Longrightarrow> clamp (- m) m x = min x m"
  "x \<le> 0 \<Longrightarrow> 0 \<le> m \<Longrightarrow> clamp (- m) m x = - min (- x) m"
  by (simp_all add: clamp_def min_def max_def)

lemma min_i64_bounds: "0 \<le> x \<Longrightarrow> - (2 ^ 63) \<le> - min x (2 ^ 63 - 1) \<and> - min x (2 ^ 63 - 1) < (2 ^ 63 :: int)"
  by (simp add: min_def)

lemma sint_clamp_i64: "sint (clamp_i64 d) = min (int (unat d)) (2 ^ 63 - 1)"
proof (cases "unat d \<le> 2 ^ 63 - 1")
  case True
  have int: "int (unat d) = uint d" by simp
  with True have le: "uint d \<le> 2 ^ 63 - 1" by (simp add: nat_le_iff flip: nat_uint_eq)
  then have "signed_take_bit 63 (uint d) = uint d"
    using uint_ge_0 [of d] by (intro signed_take_bit_int_eq_self; linarith)
  then have "sint d = uint d" by (simp add: sint_uint)
  with True le show ?thesis by (simp only: clamp_i64_def if_True int min_absorb1)
next
  case False
  then have "2 ^ 63 - 1 \<le> uint d" by (simp add: nat_le_iff flip: nat_uint_eq)
  with False show ?thesis by (simp add: clamp_i64_def min_absorb2)
qed

lemma sint_minus_clamp_i64: "sint (- clamp_i64 d) = - min (int (unat d)) (2 ^ 63 - 1)"
proof -
  have "sint (- clamp_i64 d) = signed_take_bit 63 (- sint (clamp_i64 d))"
    by (simp add: sint_word_ariths)
  also have "\<dots> = - sint (clamp_i64 d)"
    unfolding sint_clamp_i64 using min_i64_bounds [of "int (unat d)", OF of_nat_0_le_iff]
    by (intro signed_take_bit_int_eq_self) blast+
  finally show ?thesis by (simp only: sint_clamp_i64)
qed

lemma int_unat_sub: "b \<le> a \<Longrightarrow> int (unat (a - b)) = int (unat a) - int (unat b)"
  for a b :: "'a::len word"
  by (simp add: unat_sub word_le_nat_alt of_nat_diff)

lemma sint_signed_u64_delta:
  "sint (signed_u64_delta a b) = clamp (- (2 ^ 63 - 1)) (2 ^ 63 - 1) (int (unat a) - int (unat b))"
proof (cases "b \<le> a")
  case True
  then have "0 \<le> int (unat a) - int (unat b)" by (simp only: word_le_nat_alt of_nat_le_iff diff_ge_0_iff_ge)
  from clamp_symmetric(1) [OF this, of "2 ^ 63 - 1"] show ?thesis
    using True by (simp only: signed_u64_delta_def if_True sint_clamp_i64 int_unat_sub) simp
next
  case False
  then have "int (unat a) - int (unat b) \<le> 0"
    by (simp only: word_le_nat_alt of_nat_le_iff diff_le_0_iff_le)
  from clamp_symmetric(2) [OF this, of "2 ^ 63 - 1"] show ?thesis
    using False int_unat_sub [of a b]
    by (simp only: signed_u64_delta_def if_False sint_minus_clamp_i64 linear) simp
qed

lemma sint_score_delta:
  "sint (score_delta r) = clamp (- (2 ^ 31)) (2 ^ 31 - 1)
     (sint (srm_score (sr_candidate r)) - sint (srm_score (sr_baseline r)))"
  by (simp add: score_delta_def sat_simps smin_def smax_def clamp_def)

text \<open>What the gate asks of a replay, on the exact differences.\<close>

definition meets_gate :: "promotion_gate \<Rightarrow> student_replay_result \<Rightarrow> bool" where
  "meets_gate g r \<longleftrightarrow>
     sint (min_score_delta g) \<le> clamp (- (2 ^ 31)) (2 ^ 31 - 1)
        (sint (srm_score (sr_candidate r)) - sint (srm_score (sr_baseline r)))
   \<and> (case max_cost_delta_microusd g of None \<Rightarrow> True
      | Some m \<Rightarrow> clamp (- (2 ^ 63 - 1)) (2 ^ 63 - 1)
          (int (unat (srm_cost_microusd (sr_candidate r))) - int (unat (srm_cost_microusd (sr_baseline r))))
          \<le> sint m)
   \<and> (\<not> require_all_tests_pass g \<or> list_all srt_passed (sr_required_tests r))
   \<and> (\<not> reject_policy_violations g \<or> sr_policy_violations r = [])
   \<and> \<not> (reject_stale_replay g \<and> sr_stale r)"

lemma replay_reasons_Nil: "replay_reasons g r = [] \<longleftrightarrow> meets_gate g r"
  unfolding replay_reasons_def meets_gate_def sint_score_delta cost_delta_microusd_def sint_signed_u64_delta
  by (simp add: filter_empty_conv list_all_iff not_less split: option.split)

text \<open>
  The promotion gate fails closed and judges the last replay only. A candidate without a
  recorded replay is never promoted; otherwise it is promoted exactly when its last replay meets
  every enabled condition, where the score and cost differences are the exact ones clamped to the
  signed range (the cost symmetrically), so that no wrap-around can flip the verdict; the verdict is
  otherwise a rejection, and it carries a reason exactly then.
\<close>

theorem promotion_gate_exact:
  "(promoted (evaluate_candidate g c) \<longleftrightarrow>
      (case rev (tc_replay_results c) of [] \<Rightarrow> False | r # _ \<Rightarrow> meets_gate g r)) \<and>
   pd_status (evaluate_candidate g c) =
      (if promoted (evaluate_candidate g c) then Promoted else Rejected) \<and>
   (pd_reasons (evaluate_candidate g c) = [] \<longleftrightarrow> promoted (evaluate_candidate g c))"
proof (cases "tc_replay_results c" rule: rev_cases)
  case Nil
  then show ?thesis by (simp add: evaluate_candidate_def promoted_def)
next
  case (snoc rs r)
  then have "evaluate_candidate g c = evaluate_replay g (tc_candidate_id c) r"
    by (simp add: evaluate_candidate_def)
  then show ?thesis
    using snoc by (simp add: evaluate_replay_def promoted_def replay_reasons_Nil)
qed

section \<open>Teacher review\<close>

text \<open>What a source names in the log: a branch, else a leaf, else a control node.\<close>

definition left_trace :: "workflow_execution \<Rightarrow> string \<Rightarrow> bool" where
  "left_trace e s \<longleftrightarrow>
     list_ex (\<lambda>b. br_branch_id b = s \<or> br_task_id b = s) (branch_results e)
   \<or> list_ex (\<lambda>l. lr_leaf_id l = s \<or> lr_task_id l = s) (leaf_results e)
   \<or> list_ex (\<lambda>c. cr_node_id c = s) (control_node_results e)"

definition proposal_for :: "teacher_review_spec \<Rightarrow> workflow_execution \<Rightarrow> string \<Rightarrow> teacher_candidate \<Rightarrow> bool" where
  "proposal_for review e s c \<longleftrightarrow> tc_status c = Proposed \<and> tc_replay_results c = [] \<and>
     ((\<exists>b\<in>set (branch_results e). (br_branch_id b = s \<or> br_task_id b = s) \<and>
         tc_candidate_id c = review_id review @ '':'' @ br_branch_id b \<and>
         tc_source_node_id c = br_task_id b \<and> tc_source_branch_id c = Some (br_branch_id b))
    \<or> (\<exists>l\<in>set (leaf_results e). (lr_leaf_id l = s \<or> lr_task_id l = s) \<and>
         tc_candidate_id c = review_id review @ '':'' @ lr_leaf_id l \<and>
         tc_source_node_id c = lr_leaf_id l \<and> tc_source_branch_id c = None)
    \<or> tc_candidate_id c = review_id review @ '':'' @ s \<and> tc_source_node_id c = s \<and>
         tc_source_branch_id c = None)"

lemma candidate_for_source_cases:
  "case candidate_for_source review e s of
     None \<Rightarrow> \<not> left_trace e s
   | Some c \<Rightarrow> left_trace e s \<and> proposal_for review e s c"
proof (cases "find (\<lambda>b. br_branch_id b = s \<or> br_task_id b = s) (branch_results e)")
  case (Some b)
  then have "b \<in> set (branch_results e)" "br_branch_id b = s \<or> br_task_id b = s"
    by (auto simp: find_Some_iff)
  with Some show ?thesis
    by (auto simp: candidate_for_source_def left_trace_def proposal_for_def candidate_from_branch_def list_ex_iff)
next
  case None
  note nobranch = None
  show ?thesis
  proof (cases "find (\<lambda>l. lr_leaf_id l = s \<or> lr_task_id l = s) (leaf_results e)")
    case (Some l)
    then have "l \<in> set (leaf_results e)" "lr_leaf_id l = s \<or> lr_task_id l = s"
      by (auto simp: find_Some_iff)
    with nobranch Some show ?thesis
      by (auto simp: candidate_for_source_def left_trace_def proposal_for_def candidate_from_leaf_def list_ex_iff)
  next
    case None
    show ?thesis
    proof (cases "find (\<lambda>c. cr_node_id c = s) (control_node_results e)")
      case (Some c)
      then have "c \<in> set (control_node_results e)" "cr_node_id c = s"
        by (auto simp: find_Some_iff)
      with nobranch None Some show ?thesis
        by (auto simp: candidate_for_source_def left_trace_def proposal_for_def candidate_from_control_def list_ex_iff)
    next
      case none: None
      have "\<not> left_trace e s"
        using nobranch None none by (simp add: left_trace_def find_None_iff list_ex_iff)
      with nobranch None none show ?thesis by (simp add: candidate_for_source_def)
    qed
  qed
qed

lemma candidates_from_sources_proposals:
  "list_all2 (proposal_for review e) (filter (left_trace e) sources) (candidates_from_sources review e sources)"
proof (induction sources)
  case (Cons s sources)
  with candidate_for_source_cases [where review = review and e = e and s = s] show ?case
    by (auto split: option.splits)
qed simp

text \<open>
  A teacher review only proposes. Its report holds one candidate for each declared source that
  left a trace in the execution, in the declared order and with the identifiers of that trace, and
  none for the other sources; every candidate is merely proposed and carries no replay, so no
  promotion gate, however lax, promotes one before a student replay has been recorded.
\<close>

theorem teacher_review_only_proposes:
  "list_all2 (proposal_for review e) (filter (left_trace e) (review_candidates review))
     (report_candidates (report_from_execution review e)) \<and>
   list_all (\<lambda>c. \<not> promoted (evaluate_candidate g c)) (report_candidates (report_from_execution review e))"
proof -
  have "list_all2 (proposal_for review e) (filter (left_trace e) (review_candidates review))
     (report_candidates (report_from_execution review e))"
    by (simp add: report_from_execution_def teacher_candidates_from_execution_def
        candidates_from_sources_proposals)
  moreover from this have "list_all (\<lambda>c. \<not> promoted (evaluate_candidate g c))
      (report_candidates (report_from_execution review e))"
    by (auto simp: list_all_length list_all2_conv_all_nth proposal_for_def evaluate_candidate_def promoted_def)
  ultimately show ?thesis by blast
qed

end
