(* ===== verification/Replay.thy ===== *)
theory Replay
  imports Workflow_Nodes "HOL-Library.Product_Lexorder"
begin

text \<open>
  The replay executor (\<open>crates/workflow/src/replay.rs\<close>): a recorded trace is run again, leaves and
  control nodes answering from their records. The serialiser of \<open>serde_json\<close> and the digest of
  \<open>sha2\<close> are the parameters \<open>to_vec\<close> and \<open>sha256\<close>. The walk spends one unit of fuel on each
  expansion of recorded nodes, the only recursion that does not descend in the tree.
\<close>

section \<open>Data\<close>

fun kind_rank :: "control_node_kind \<Rightarrow> nat" where
  "kind_rank KBranchSet = 0"
| "kind_rank KLeaf = 1"
| "kind_rank KSequence = 2"
| "kind_rank KReduce = 3"
| "kind_rank KTeacherReview = 4"
| "kind_rank KLoopUntil = 5"
| "kind_rank KCond = 6"
| "kind_rank KExpand = 7"

lemma kind_rank_inj: "kind_rank a = kind_rank b \<longleftrightarrow> a = b"
  by (cases a; cases b) simp_all

text \<open>The derived \<open>Ord\<close> of the enum, which orders the keys of the records.\<close>

instantiation control_node_kind :: linorder
begin

definition less_eq_control_node_kind :: "control_node_kind \<Rightarrow> control_node_kind \<Rightarrow> bool" where
  "less_eq_control_node_kind a b \<longleftrightarrow> kind_rank a \<le> kind_rank b"

definition less_control_node_kind :: "control_node_kind \<Rightarrow> control_node_kind \<Rightarrow> bool" where
  "less_control_node_kind a b \<longleftrightarrow> kind_rank a < kind_rank b"

instance
  by standard
    (auto simp: less_eq_control_node_kind_def less_control_node_kind_def simp flip: kind_rank_inj)

end

record replay_options =
  allow_live_replay :: bool

definition replay_options_default :: replay_options where
  "replay_options_default = \<lparr>allow_live_replay = False\<rparr>"

record replay_leaf_record =
  rl_trace_id :: string
  rl_leaf_id :: string
  rl_input_hash :: string
  rl_result :: leaf_result

record replay_control_record =
  rc_trace_id :: string
  rc_node_id :: string
  rc_kind :: control_node_kind
  rc_result :: control_node_result
  rc_generated_nodes :: "workflow_node list"

record workflow_replay_trace =
  wt_trace_id :: string
  wt_leaf_records :: "replay_leaf_record list"
  wt_control_records :: "replay_control_record list"

text \<open>The keys derive \<open>Ord\<close>: the order of their fields.\<close>

type_synonym replay_leaf_key = "string \<times> string \<times> string"
type_synonym replay_control_key = "string \<times> string \<times> control_node_kind"

record replay_executor =
  re_trace_id :: string
  re_options :: replay_options
  re_leaf_records :: "(replay_leaf_key, leaf_result) bmap"
  re_control_records :: "(replay_control_key, replay_control_record) bmap"
  re_resolved_outputs :: "(string, string option) bmap"

datatype replay_error =
    Validation wf_error
  | LiveReplayUnavailable string
  | InputHash string

record replay_leaf_input =
  ri_workflow_id :: "string option"
  ri_workflow_goal :: string
  ri_leaf :: leaf_spec
  ri_resolved_inputs :: "(string, string option) bmap"

definition replay_with_options :: "workflow_replay_trace \<Rightarrow> replay_options \<Rightarrow> replay_executor" where
  "replay_with_options trace options =
     \<lparr>re_trace_id = wt_trace_id trace,
      re_options = options,
      re_leaf_records = bm_collect (map (\<lambda>r. ((rl_trace_id r, rl_leaf_id r, rl_input_hash r), rl_result r))
                                     (wt_leaf_records trace)),
      re_control_records = bm_collect (map (\<lambda>r. ((rc_trace_id r, rc_node_id r, rc_kind r), r))
                                     (wt_control_records trace)),
      re_resolved_outputs = bm_empty\<rparr>"

definition replay_new :: "workflow_replay_trace \<Rightarrow> replay_executor" where
  "replay_new trace = replay_with_options trace replay_options_default"

section \<open>Hash of a leaf's inputs\<close>

definition hex_digit :: "nat \<Rightarrow> char" where
  "hex_digit n = char_of (if n < 10 then 48 + n else 87 + n)"

text \<open>\<open>{byte:02x}\<close> of each byte.\<close>

definition hex_bytes :: "u8 list \<Rightarrow> string" where
  "hex_bytes bytes = concat (map (\<lambda>b. [hex_digit (unat b div 16), hex_digit (unat b mod 16)]) bytes)"

definition compute_leaf_input_hash ::
    "(replay_leaf_input \<Rightarrow> string + u8 list) \<Rightarrow> (u8 list \<Rightarrow> u8 list) \<Rightarrow> workflow_spec \<Rightarrow> leaf_spec
       \<Rightarrow> (string, string option) bmap \<Rightarrow> replay_error + string" where
  "compute_leaf_input_hash to_vec sha256 spec leaf inputs =
     (case to_vec \<lparr>ri_workflow_id = spec_id spec, ri_workflow_goal = spec_goal spec,
                   ri_leaf = leaf, ri_resolved_inputs = inputs\<rparr> of
        Inl reason \<Rightarrow> Inl (InputHash reason)
      | Inr bytes \<Rightarrow> Inr (hex_bytes (sha256 bytes)))"

definition resolved_inputs_for_leaf ::
    "leaf_spec \<Rightarrow> (string, string option) bmap \<Rightarrow> (string, string option) bmap" where
  "resolved_inputs_for_leaf leaf outputs =
     bm_collect (map (\<lambda>dep. (dep, case bm_get outputs dep of Some out \<Rightarrow> out | None \<Rightarrow> None))
                  (leaf_depends_on_results leaf))"

section \<open>Records\<close>

definition branch_status :: "leaf_result list \<Rightarrow> run_status" where
  "branch_status results =
     (if list_ex (\<lambda>r. lr_status r = ReplayDiverged) results then ReplayDiverged
      else if list_ex (\<lambda>r. lr_status r \<noteq> Succeeded) results then Failed
      else Succeeded)"

definition select_nodes :: "workflow_node list \<Rightarrow> string list \<Rightarrow> workflow_node list" where
  "select_nodes nodes selected =
     (let by_id = bm_collect (map (\<lambda>n. (node_id n, n)) nodes)
      in List.map_filter (bm_get by_id) selected)"

definition control_record ::
    "replay_executor \<Rightarrow> string \<Rightarrow> control_node_kind \<Rightarrow> replay_control_record option" where
  "control_record rx nid kind = bm_get (re_control_records rx) (re_trace_id rx, nid, kind)"

text \<open>\<open>mark_replay_diverged\<close> or \<open>mark_failed\<close> by a recorded status; other statuses leave the
  execution as it is.\<close>

definition mark_recorded :: "run_status \<Rightarrow> workflow_execution \<Rightarrow> workflow_execution" where
  "mark_recorded st e =
     (if st = ReplayDiverged then mark_replay_diverged e
      else if st = Failed then mark_failed e else e)"

definition push_result :: "control_node_result \<Rightarrow> workflow_execution \<Rightarrow> workflow_execution" where
  "push_result c e = e\<lparr>control_node_results := control_node_results e @ [c]\<rparr>"

definition push_control_or_diverge ::
    "string \<Rightarrow> control_node_kind \<Rightarrow> replay_control_record option \<Rightarrow> string list option
       \<Rightarrow> string option \<Rightarrow> workflow_execution \<Rightarrow> workflow_execution" where
  "push_control_or_diverge nid kind rec fallback_children fallback_summary e =
     (case rec of
        None \<Rightarrow>
          push_result
            \<lparr>cr_node_id = nid, cr_kind = kind, cr_status = ReplayDiverged,
             cr_selected_children = (case fallback_children of None \<Rightarrow> [] | Some cs \<Rightarrow> cs),
             cr_summary = (case fallback_summary of
                Some s \<Rightarrow> Some s | None \<Rightarrow> Some ''missing replay control record'')\<rparr>
            (mark_replay_diverged e)
      | Some r \<Rightarrow> push_result (rc_result r) (mark_recorded (cr_status (rc_result r)) e))"

definition replay_recorded_control ::
    "replay_executor \<Rightarrow> string \<Rightarrow> control_node_kind \<Rightarrow> string list option \<Rightarrow> string option
       \<Rightarrow> workflow_execution \<Rightarrow> workflow_execution" where
  "replay_recorded_control rx nid kind children summary e =
     push_control_or_diverge nid kind (control_record rx nid kind) children summary e"

section \<open>Leaves\<close>

definition diverged_leaf :: "leaf_spec \<Rightarrow> leaf_result" where
  "diverged_leaf leaf =
     \<lparr>lr_leaf_id = leaf_id leaf, lr_task_id = leaf_id leaf, lr_role = leaf_role leaf,
      lr_profile = leaf_profile leaf, lr_status = ReplayDiverged, lr_usage = usage_default,
      lr_memo_usage = memo_default, lr_output = None, lr_artifacts = [], lr_schema_error = None\<rparr>"

definition push_leaf :: "leaf_result \<Rightarrow> workflow_execution \<Rightarrow> workflow_execution" where
  "push_leaf r e = e\<lparr>leaf_results := leaf_results e @ [r]\<rparr>"

definition replay_leaf ::
    "(workflow_spec \<Rightarrow> leaf_spec \<Rightarrow> (string, string option) bmap \<Rightarrow> replay_error + string)
       \<Rightarrow> workflow_spec \<Rightarrow> leaf_spec \<Rightarrow> replay_executor \<Rightarrow> workflow_execution
       \<Rightarrow> replay_error + replay_executor \<times> workflow_execution" where
  "replay_leaf hash spec leaf rx e =
     (case hash spec leaf (resolved_inputs_for_leaf leaf (re_resolved_outputs rx)) of
        Inl err \<Rightarrow> Inl err
      | Inr input_hash \<Rightarrow>
     (case bm_get (re_leaf_records rx) (re_trace_id rx, leaf_id leaf, input_hash) of
        None \<Rightarrow>
          if allow_live_replay (re_options rx) then Inl (LiveReplayUnavailable (leaf_id leaf))
          else Inr (rx\<lparr>re_resolved_outputs := bm_insert (leaf_id leaf) None (re_resolved_outputs rx)\<rparr>,
                    push_leaf (diverged_leaf leaf) (mark_replay_diverged e))
      | Some r \<Rightarrow>
          (let e1 = mark_recorded (lr_status r) e;
               e2 = e1\<lparr>ex_usage := usage_add (ex_usage e1) (lr_usage r),
                       ex_memo_usage := memo_add (ex_memo_usage e1) (lr_memo_usage r)\<rparr>
           in Inr (rx\<lparr>re_resolved_outputs := bm_insert (leaf_id leaf) (lr_output r) (re_resolved_outputs rx)\<rparr>,
                   push_leaf r e2))))"

section \<open>Control nodes\<close>

text \<open>What \<open>execute_branch_set\<close> does after its children.\<close>

definition replay_branch_set ::
    "branch_spec \<Rightarrow> workflow_node list \<Rightarrow> nat \<Rightarrow> replay_executor \<Rightarrow> workflow_execution
       \<Rightarrow> workflow_execution" where
  "replay_branch_set spec children before rx e =
     (let slice = drop before (leaf_results e);
          status = branch_status slice;
          usage = foldl (\<lambda>u r. usage_add u (lr_usage r)) usage_default slice;
          memo = foldl (\<lambda>u r. memo_add u (lr_memo_usage r)) memo_default slice;
          e1 = mark_recorded status e;
          e2 = e1\<lparr>branch_results := branch_results e1 @
                 [\<lparr>br_branch_id = branch_id spec, br_task_id = branch_id spec, br_status = status,
                   br_usage = usage, br_memo_usage = memo, br_artifacts = [],
                   br_notes = Some ''replay branch set evaluated from recorded leaf results''\<rparr>]\<rparr>
      in replay_recorded_control rx (branch_id spec) KBranchSet (Some (map node_id children))
           (Some ''branch set replayed declared children'') e2)"

definition selected_or ::
    "replay_control_record option \<Rightarrow> string list \<Rightarrow> string list" where
  "selected_or rec fallback =
     (case rec of Some r \<Rightarrow> cr_selected_children (rc_result r) | None \<Rightarrow> fallback)"

definition loop_selection ::
    "replay_executor \<Rightarrow> loop_until_spec \<Rightarrow> workflow_node list \<Rightarrow> string list" where
  "loop_selection rx spec children =
     selected_or (control_record rx (loop_id spec) KLoopUntil) (map node_id children)"

definition cond_selection :: "replay_executor \<Rightarrow> cond_spec \<Rightarrow> string list" where
  "cond_selection rx spec = selected_or (control_record rx (cond_id spec) KCond) []"

definition recorded_nodes :: "replay_executor \<Rightarrow> expand_spec \<Rightarrow> workflow_node list" where
  "recorded_nodes rx spec =
     (case control_record rx (expand_id spec) KExpand of
        Some r \<Rightarrow> rc_generated_nodes r | None \<Rightarrow> [])"

definition replay_loop_until ::
    "loop_until_spec \<Rightarrow> string list \<Rightarrow> replay_executor \<Rightarrow> workflow_execution \<Rightarrow> workflow_execution" where
  "replay_loop_until spec selected rx e =
     push_control_or_diverge (loop_id spec) KLoopUntil (control_record rx (loop_id spec) KLoopUntil)
       (Some selected) (Some ''loop_until replayed recorded child selection'') e"

definition replay_cond ::
    "cond_spec \<Rightarrow> string list \<Rightarrow> replay_executor \<Rightarrow> workflow_execution \<Rightarrow> workflow_execution" where
  "replay_cond spec selected rx e =
     push_control_or_diverge (cond_id spec) KCond (control_record rx (cond_id spec) KCond)
       (Some selected) (Some ''cond replayed recorded branch selection'') e"

definition replay_expand ::
    "expand_spec \<Rightarrow> workflow_node list \<Rightarrow> replay_executor \<Rightarrow> workflow_execution \<Rightarrow> workflow_execution" where
  "replay_expand spec nodes rx e =
     (let rec = control_record rx (expand_id spec) KExpand;
          selected = selected_or rec (map node_id nodes)
      in push_control_or_diverge (expand_id spec) KExpand rec (Some selected)
           (Some (''expand replayed recorded nodes from '' @ expand_source spec)) e)"

section \<open>The walk\<close>

datatype replay_result =
    RDone replay_executor workflow_execution
  | RErr replay_error
  | RFuel

fun replay_of_sum :: "replay_error + replay_executor \<times> workflow_execution \<Rightarrow> replay_result" where
  "replay_of_sum (Inl err) = RErr err"
| "replay_of_sum (Inr (rx, e)) = RDone rx e"

fun max_size :: "workflow_node list \<Rightarrow> nat" where
  "max_size [] = 0"
| "max_size (n # ns) = max (size n) (max_size ns)"

lemma max_size_less: "(\<And>n. n \<in> set ns \<Longrightarrow> size n < k) \<Longrightarrow> 0 < k \<Longrightarrow> max_size ns < k"
  by (induction ns) auto

lemma set_map_filter: "x \<in> set (List.map_filter f xs) \<Longrightarrow> \<exists>y. f y = Some x"
  by (induction xs) (auto simp: map_filter_simps split: option.splits)

lemma select_nodes_subset: "set (select_nodes nodes selected) \<subseteq> set nodes"
  by (auto simp: select_nodes_def bm_get_collect dest!: set_map_filter map_of_SomeD)

lemma size_member: "n \<in> set ns \<Longrightarrow> size n < Suc (size_list size ns)"
  by (induction ns) auto

lemma max_size_children [termination_simp]:
  "max_size ns < Suc (size_list size ns)"
  by (rule max_size_less) (rule size_member, assumption, simp)

lemma max_size_select [termination_simp]:
  "max_size (select_nodes ns selected) < Suc (size_list size ns)"
proof (rule max_size_less)
  fix n
  assume "n \<in> set (select_nodes ns selected)"
  then have "n \<in> set ns" using select_nodes_subset by blast
  then show "size n < Suc (size_list size ns)" by (rule size_member)
qed simp

function (sequential) replay_node ::
    "(workflow_spec \<Rightarrow> leaf_spec \<Rightarrow> (string, string option) bmap \<Rightarrow> replay_error + string)
       \<Rightarrow> workflow_spec \<Rightarrow> nat \<Rightarrow> workflow_node \<Rightarrow> replay_executor \<Rightarrow> workflow_execution \<Rightarrow> replay_result"
  and replay_nodes ::
    "(workflow_spec \<Rightarrow> leaf_spec \<Rightarrow> (string, string option) bmap \<Rightarrow> replay_error + string)
       \<Rightarrow> workflow_spec \<Rightarrow> nat \<Rightarrow> workflow_node list \<Rightarrow> replay_executor \<Rightarrow> workflow_execution \<Rightarrow> replay_result"
  where
  "replay_node hash ws f (BranchSet spec children) rx e =
     (case replay_nodes hash ws f children rx e of
        RDone rx' e' \<Rightarrow> RDone rx' (replay_branch_set spec children (length (leaf_results e)) rx' e')
      | r \<Rightarrow> r)"
| "replay_node hash ws f (Leaf spec) rx e = replay_of_sum (replay_leaf hash ws spec rx e)"
| "replay_node hash ws f (Sequence spec children) rx e =
     (case replay_nodes hash ws f children rx e of
        RDone rx' e' \<Rightarrow> RDone rx' (replay_recorded_control rx' (sequence_id spec) KSequence
          (Some (map node_id children)) (Some ''sequence replayed in declaration order'') e')
      | r \<Rightarrow> r)"
| "replay_node hash ws f (Reduce spec) rx e =
     RDone rx (replay_recorded_control rx (reduce_id spec) KReduce (Some (reduce_inputs spec))
       (Some (reduce_prompt spec)) e)"
| "replay_node hash ws f (TeacherReview spec) rx e =
     RDone rx (replay_recorded_control rx (review_id spec) KTeacherReview
       (Some (review_candidates spec)) (Some ''teacher review replayed from recorded candidates'') e)"
| "replay_node hash ws f (LoopUntil spec children) rx e =
     (case replay_nodes hash ws f (select_nodes children (loop_selection rx spec children)) rx e of
        RDone rx' e' \<Rightarrow> RDone rx' (replay_loop_until spec (loop_selection rx spec children) rx' e')
      | r \<Rightarrow> r)"
| "replay_node hash ws f (Cond spec then_nodes else_nodes) rx e =
     (case replay_nodes hash ws f (select_nodes (then_nodes @ else_nodes) (cond_selection rx spec)) rx e of
        RDone rx' e' \<Rightarrow> RDone rx' (replay_cond spec (cond_selection rx spec) rx' e')
      | r \<Rightarrow> r)"
| "replay_node hash ws 0 (Expand spec tmpl) rx e = RFuel"
| "replay_node hash ws (Suc f) (Expand spec tmpl) rx e =
     (case validate_workflow_node_shapes (recorded_nodes rx spec) of
        Inl err \<Rightarrow> RErr (Validation err)
      | Inr _ \<Rightarrow>
          (case replay_nodes hash ws f (recorded_nodes rx spec) rx e of
             RDone rx' e' \<Rightarrow> RDone rx' (replay_expand spec (recorded_nodes rx spec) rx' e')
           | r \<Rightarrow> r))"
| "replay_nodes hash ws f [] rx e = RDone rx e"
| "replay_nodes hash ws f (node # nodes) rx e =
     (case replay_node hash ws f node rx e of
        RDone rx' e' \<Rightarrow> replay_nodes hash ws f nodes rx' e'
      | r \<Rightarrow> r)"
  by pat_completeness auto
termination
proof (relation "measures
       [(\<lambda>x. case x of Inl (_, _, f, _) \<Rightarrow> f | Inr (_, _, f, _) \<Rightarrow> f),
        (\<lambda>x. case x of Inl (_, _, _, n, _) \<Rightarrow> 2 * size n | Inr (_, _, _, ns, _) \<Rightarrow> 2 * max_size ns + 1),
        (\<lambda>x. case x of Inr (_, _, _, ns, _) \<Rightarrow> length ns | _ \<Rightarrow> 0)]", goal_cases)
  case (5 hash ws f spec then_nodes else_nodes rx e)
  show ?case
    using max_size_select [of "then_nodes @ else_nodes" "cond_selection rx spec"] by simp
qed (use max_size_children max_size_select in \<open>simp_all add: less_Suc_eq_le max_def\<close>)

definition replay_run ::
    "(replay_leaf_input \<Rightarrow> string + u8 list) \<Rightarrow> (u8 list \<Rightarrow> u8 list) \<Rightarrow> nat \<Rightarrow> workflow_spec
       \<Rightarrow> replay_executor \<Rightarrow> replay_result" where
  "replay_run to_vec sha256 fuel spec rx =
     (case validate_workflow_nodes (spec_nodes spec) of
        Inl err \<Rightarrow> RErr (Validation err)
      | Inr _ \<Rightarrow> replay_nodes (compute_leaf_input_hash to_vec sha256) spec fuel (spec_nodes spec) rx
                  execution_default)"

end
