(* ===== verification/Replay_Properties.thy ===== *)
theory Replay_Properties
  imports Replay
begin

text \<open>
  What a replay promises: every step of the walk is one of three (\<open>rstep\<close>), so that the invariants
  of the log are proved once per step; the walk returns when the recorded expansions are well
  founded, and never returns on a record that expands into itself.
\<close>

section \<open>Steps of the walk\<close>

type_synonym leaf_hash =
  "workflow_spec \<Rightarrow> leaf_spec \<Rightarrow> (string, string option) bmap \<Rightarrow> replay_error + string"

inductive rstep :: "leaf_hash \<Rightarrow> workflow_spec \<Rightarrow> replay_executor \<times> workflow_execution
    \<Rightarrow> replay_executor \<times> workflow_execution \<Rightarrow> bool" for hash ws where
  leaf_step: "replay_leaf hash ws leaf rx e = Inr (rx', e') \<Longrightarrow> rstep hash ws (rx, e) (rx', e')"
| branch_step: "rstep hash ws (rx, e) (rx, replay_branch_set spec children before rx e)"
| control_step: "rstep hash ws (rx, e)
    (rx, push_control_or_diverge nid kind (control_record rx nid kind) children summary e)"

inductive_cases rstepE: "rstep hash ws c c'"

abbreviation rsteps where
  "rsteps hash ws \<equiv> (rstep hash ws)\<^sup>*\<^sup>*"

lemma recorded_step:
  "rstep hash ws (rx, e) (rx, replay_recorded_control rx nid kind children summary e)"
  by (simp add: replay_recorded_control_def control_step)

lemma replay_finish_steps:
  "rstep hash ws (rx, e) (rx, replay_loop_until lspec selected rx e)"
  "rstep hash ws (rx, e) (rx, replay_cond cspec selected rx e)"
  "rstep hash ws (rx, e) (rx, replay_expand xspec nodes rx e)"
  by (simp_all add: replay_loop_until_def replay_cond_def replay_expand_def Let_def control_step)

lemmas rstep_intros = branch_step control_step recorded_step replay_finish_steps

lemma replay_of_sum_RDone: "replay_of_sum s = RDone rx e \<longleftrightarrow> s = Inr (rx, e)"
  by (cases s) auto

lemma replay_of_sum_not_RFuel [simp]: "replay_of_sum s \<noteq> RFuel"
  by (cases s) auto

lemma replay_steps:
  "replay_node hash ws f n rx e = RDone rx' e' \<Longrightarrow> rsteps hash ws (rx, e) (rx', e')"
  "replay_nodes hash ws f ns rx e = RDone rx' e' \<Longrightarrow> rsteps hash ws (rx, e) (rx', e')"
proof (induction hash ws f n rx e and hash ws f ns rx e arbitrary: rx' e' and rx' e'
    rule: replay_node_replay_nodes.induct)
  case (2 hash ws f spec rx e)
  then show ?case by (auto simp: replay_of_sum_RDone intro: leaf_step)
qed (auto split: replay_result.splits sum.splits intro: rstep_intros rtranclp.rtrancl_into_rtrancl
       rtranclp_trans)

lemma rsteps_invariant:
  assumes "rsteps hash ws c c'" and "I c" and "\<And>a b. rstep hash ws a b \<Longrightarrow> I a \<Longrightarrow> I b"
  shows "I c'"
  using assms by (induction rule: rtranclp_induct) auto

section \<open>The records do not change\<close>

definition same_records :: "replay_executor \<Rightarrow> replay_executor \<Rightarrow> bool" where
  "same_records rx rx' \<longleftrightarrow> re_trace_id rx' = re_trace_id rx \<and> re_options rx' = re_options rx
     \<and> re_leaf_records rx' = re_leaf_records rx \<and> re_control_records rx' = re_control_records rx"

lemma same_records_refl [simp]: "same_records rx rx"
  by (simp add: same_records_def)

lemma same_records_trans [trans]:
  "same_records a b \<Longrightarrow> same_records b c \<Longrightarrow> same_records a c"
  by (simp add: same_records_def)

text \<open>A leaf that answers, and where its answer comes from.\<close>

definition answers ::
    "leaf_hash \<Rightarrow> workflow_spec \<Rightarrow> replay_executor \<Rightarrow> leaf_spec \<Rightarrow> leaf_result \<Rightarrow> bool" where
  "answers hash ws rx leaf r \<longleftrightarrow> (\<exists>inputs h. hash ws leaf inputs = Inr h \<and>
     (case bm_get (re_leaf_records rx) (re_trace_id rx, leaf_id leaf, h) of
        Some r' \<Rightarrow> r = r'
      | None \<Rightarrow> \<not> allow_live_replay (re_options rx) \<and> r = diverged_leaf leaf))"

definition log_leaf :: "leaf_result \<Rightarrow> workflow_execution \<Rightarrow> workflow_execution" where
  "log_leaf r e =
     push_leaf r ((mark_recorded (lr_status r) e)
       \<lparr>ex_usage := usage_add (ex_usage e) (lr_usage r),
        ex_memo_usage := memo_add (ex_memo_usage e) (lr_memo_usage r)\<rparr>)"

lemma mark_fields [simp]:
  "ex_usage (mark_recorded st e) = ex_usage e" "ex_memo_usage (mark_recorded st e) = ex_memo_usage e"
  "leaf_results (mark_recorded st e) = leaf_results e"
  "branch_results (mark_recorded st e) = branch_results e"
  "control_node_results (mark_recorded st e) = control_node_results e"
  by (simp_all add: mark_recorded_def mark_failed_def mark_replay_diverged_def)

lemma ex_status_mark_recorded:
  "ex_status (mark_recorded st e) = (if st = ReplayDiverged \<or> st = Failed then st else ex_status e)"
  by (auto simp: mark_recorded_def mark_failed_def mark_replay_diverged_def)

lemma mark_recorded_ReplayDiverged [simp]: "mark_recorded ReplayDiverged e = mark_replay_diverged e"
  by (simp add: mark_recorded_def)

text \<open>Logging a placeholder is marking the divergence: its usage is nothing.\<close>

lemma log_diverged: "log_leaf (diverged_leaf leaf) e = push_leaf (diverged_leaf leaf) (mark_replay_diverged e)"
  by (simp add: log_leaf_def diverged_leaf_def mark_replay_diverged_def)

lemma replay_leaf_Inr:
  assumes "replay_leaf hash ws leaf rx e = Inr (rx', e')"
  obtains r where "answers hash ws rx leaf r" "e' = log_leaf r e" "same_records rx rx'"
proof -
  obtain h where h: "hash ws leaf (resolved_inputs_for_leaf leaf (re_resolved_outputs rx)) = Inr h"
    using assms by (auto simp: replay_leaf_def split: sum.splits)
  show thesis
  proof (cases "bm_get (re_leaf_records rx) (re_trace_id rx, leaf_id leaf, h)")
    case None
    with assms h have "\<not> allow_live_replay (re_options rx)"
      and "e' = log_leaf (diverged_leaf leaf) e" and "same_records rx rx'"
      by (auto simp: replay_leaf_def log_diverged same_records_def split: if_splits)
    moreover from this(1) h None have "answers hash ws rx leaf (diverged_leaf leaf)"
      by (auto simp: answers_def intro!: exI [of _ h])
    ultimately show thesis using that by blast
  next
    case (Some r)
    with assms h have "e' = log_leaf r e" and "same_records rx rx'"
      by (auto simp: replay_leaf_def log_leaf_def same_records_def Let_def)
    moreover from h Some have "answers hash ws rx leaf r"
      by (auto simp: answers_def intro!: exI [of _ h])
    ultimately show thesis using that by blast
  qed
qed

lemma rstep_same_records: "rstep hash ws (rx, e) (rx', e') \<Longrightarrow> same_records rx rx'"
  by (elim rstepE) (auto elim: replay_leaf_Inr)

lemma rsteps_same_records: "rsteps hash ws (rx, e) (rx', e') \<Longrightarrow> same_records rx rx'"
proof (induction "(rx', e')" arbitrary: rx' e' rule: rtranclp_induct)
  case base
  then show ?case by simp
next
  case (step c)
  obtain rx1 e1 where c: "c = (rx1, e1)" by (cases c)
  from step c have "same_records rx rx1" "same_records rx1 rx'"
    by (auto intro: rstep_same_records)
  then show ?case by (rule same_records_trans)
qed

lemma control_record_same: "same_records rx rx' \<Longrightarrow> control_record rx' nid kind = control_record rx nid kind"
  by (simp add: same_records_def control_record_def)

section \<open>What a step logs\<close>

definition bad :: "run_status \<Rightarrow> bool" where
  "bad st \<longleftrightarrow> st = Failed \<or> st = ReplayDiverged"

definition clean_log :: "workflow_execution \<Rightarrow> bool" where
  "clean_log e \<longleftrightarrow> list_all (\<lambda>r. \<not> bad (lr_status r)) (leaf_results e)
     \<and> list_all (\<lambda>b. \<not> bad (br_status b)) (branch_results e)
     \<and> list_all (\<lambda>c. \<not> bad (cr_status c)) (control_node_results e)"

definition log_branch :: "branch_result \<Rightarrow> workflow_execution \<Rightarrow> workflow_execution" where
  "log_branch b e = (mark_recorded (br_status b) e)\<lparr>branch_results := branch_results e @ [b]\<rparr>"

definition log_control :: "control_node_result \<Rightarrow> workflow_execution \<Rightarrow> workflow_execution" where
  "log_control c e = push_result c (mark_recorded (cr_status c) e)"

text \<open>The control results a node may log: its record's, or a divergence.\<close>

definition control_answer ::
    "replay_executor \<Rightarrow> string \<Rightarrow> control_node_kind \<Rightarrow> control_node_result \<Rightarrow> bool" where
  "control_answer rx nid kind c \<longleftrightarrow>
     (case control_record rx nid kind of
        Some r \<Rightarrow> c = rc_result r
      | None \<Rightarrow> cr_node_id c = nid \<and> cr_kind c = kind \<and> cr_status c = ReplayDiverged)"

lemma control_step_logs:
  obtains c where "control_answer rx nid kind c"
    "push_control_or_diverge nid kind (control_record rx nid kind) children summary e = log_control c e"
proof (cases "control_record rx nid kind")
  case None
  show ?thesis
    by (rule that [of "\<lparr>cr_node_id = nid, cr_kind = kind, cr_status = ReplayDiverged,
             cr_selected_children = (case children of None \<Rightarrow> [] | Some cs \<Rightarrow> cs),
             cr_summary = (case summary of
                Some s \<Rightarrow> Some s | None \<Rightarrow> Some ''missing replay control record'')\<rparr>"])
      (simp_all add: None push_control_or_diverge_def control_answer_def log_control_def)
next
  case (Some r)
  with that show ?thesis
    by (simp add: push_control_or_diverge_def control_answer_def log_control_def)
qed

lemma branch_step_logs:
  obtains b c where "control_answer rx (branch_id spec) KBranchSet c"
    "replay_branch_set spec children before rx e = log_control c (log_branch b e)"
proof -
  let ?slice = "drop before (leaf_results e)"
  let ?b = "\<lparr>br_branch_id = branch_id spec, br_task_id = branch_id spec, br_status = branch_status ?slice,
      br_usage = foldl (\<lambda>u r. usage_add u (lr_usage r)) usage_default ?slice,
      br_memo_usage = foldl (\<lambda>u r. memo_add u (lr_memo_usage r)) memo_default ?slice, br_artifacts = [],
      br_notes = Some ''replay branch set evaluated from recorded leaf results''\<rparr>"
  have "replay_branch_set spec children before rx e =
      push_control_or_diverge (branch_id spec) KBranchSet (control_record rx (branch_id spec) KBranchSet)
        (Some (map node_id children)) (Some ''branch set replayed declared children'') (log_branch ?b e)"
    by (simp add: replay_branch_set_def replay_recorded_control_def log_branch_def Let_def)
  with control_step_logs [of rx "branch_id spec" KBranchSet] that show thesis by metis
qed

lemma answers_same:
  assumes "same_records rx rx'"
  shows "answers hash ws rx' = answers hash ws rx" "control_answer rx' = control_answer rx"
proof -
  note same = assms [unfolded same_records_def]
  show "answers hash ws rx' = answers hash ws rx"
    unfolding fun_eq_iff answers_def same [THEN conjunct1] same [THEN conjunct2, THEN conjunct1]
      same [THEN conjunct2, THEN conjunct2, THEN conjunct1] by blast
  show "control_answer rx' = control_answer rx"
    unfolding fun_eq_iff control_answer_def control_record_same [OF assms] by blast
qed

text \<open>So an invariant of the log needs one fact for each of the three entries.\<close>

lemma rsteps_log_invariant:
  assumes steps: "rsteps hash ws (rx, e) (rx', e')" and start: "I e"
    and leaf: "\<And>l r x. answers hash ws rx l r \<Longrightarrow> I x \<Longrightarrow> I (log_leaf r x)"
    and branch: "\<And>b x. I x \<Longrightarrow> I (log_branch b x)"
    and control: "\<And>nid k c x. control_answer rx nid k c \<Longrightarrow> I x \<Longrightarrow> I (log_control c x)"
  shows "I e'"
  using steps
proof (induction "(rx', e')" arbitrary: rx' e' rule: rtranclp_induct)
  case base
  then show ?case using start by simp
next
  case (step c)
  obtain rx1 e1 where c: "c = (rx1, e1)" by (cases c)
  have same: "same_records rx rx1" using step(1) c by (auto intro: rsteps_same_records)
  note ans = answers_same [OF same]
  have I: "I e1" using step(3) c by simp
  from step(2) c have "rstep hash ws (rx1, e1) (rx', e')" by simp
  then show ?case
  proof (cases rule: rstep.cases)
    case (leaf_step l)
    then show ?thesis using leaf [of l] I by (auto elim!: replay_leaf_Inr simp: ans)
  next
    case (branch_step spec children before)
    then show ?thesis
      using branch_step_logs [of rx1 spec children before e1] branch control I ans by metis
  next
    case (control_step nid kind children summary)
    then show ?thesis
      using control_step_logs [of rx1 nid kind children summary e1] control I ans by metis
  qed
qed

lemma log_fields [simp]:
  "leaf_results (log_leaf r e) = leaf_results e @ [r]" "leaf_results (log_branch b e) = leaf_results e"
  "leaf_results (log_control c e) = leaf_results e"
  "branch_results (log_leaf r e) = branch_results e" "branch_results (log_branch b e) = branch_results e @ [b]"
  "branch_results (log_control c e) = branch_results e"
  "control_node_results (log_leaf r e) = control_node_results e"
  "control_node_results (log_branch b e) = control_node_results e"
  "control_node_results (log_control c e) = control_node_results e @ [c]"
  "ex_usage (log_leaf r e) = usage_add (ex_usage e) (lr_usage r)"
  "ex_usage (log_branch b e) = ex_usage e" "ex_usage (log_control c e) = ex_usage e"
  "ex_memo_usage (log_leaf r e) = memo_add (ex_memo_usage e) (lr_memo_usage r)"
  "ex_memo_usage (log_branch b e) = ex_memo_usage e" "ex_memo_usage (log_control c e) = ex_memo_usage e"
  by (simp_all add: log_leaf_def log_branch_def log_control_def push_leaf_def push_result_def)

lemma log_status [simp]:
  "ex_status (log_leaf r e) = (if bad (lr_status r) then lr_status r else ex_status e)"
  "ex_status (log_branch b e) = (if bad (br_status b) then br_status b else ex_status e)"
  "ex_status (log_control c e) = (if bad (cr_status c) then cr_status c else ex_status e)"
  by (auto simp: log_leaf_def log_branch_def log_control_def push_leaf_def push_result_def bad_def
      ex_status_mark_recorded)

section \<open>The log of a run\<close>

text \<open>\<open>usage_sum\<close> and \<open>memo_sum\<close>: the saturating sums over a list of leaf results.\<close>

definition usage_sum :: "leaf_result list \<Rightarrow> workflow_usage" where
  "usage_sum rs = foldl (\<lambda>u r. usage_add u (lr_usage r)) usage_default rs"

definition memo_sum :: "leaf_result list \<Rightarrow> workflow_memo_usage" where
  "memo_sum rs = foldl (\<lambda>u r. memo_add u (lr_memo_usage r)) memo_default rs"

definition log_accounts :: "workflow_execution \<Rightarrow> bool" where
  "log_accounts e \<longleftrightarrow> ex_usage e = usage_sum (leaf_results e) \<and> ex_memo_usage e = memo_sum (leaf_results e)
     \<and> (ex_status e = Succeeded \<or> bad (ex_status e)) \<and> (ex_status e = Succeeded \<longleftrightarrow> clean_log e)"

lemma not_bad_Succeeded [simp]: "\<not> bad Succeeded"
  by (simp add: bad_def)

lemma log_accounts_steps:
  "log_accounts e \<Longrightarrow> log_accounts (log_leaf r e)"
  "log_accounts e \<Longrightarrow> log_accounts (log_branch b e)"
  "log_accounts e \<Longrightarrow> log_accounts (log_control c e)"
  by (auto simp: log_accounts_def clean_log_def usage_sum_def memo_sum_def)

lemma log_accounts_default: "log_accounts execution_default"
  by (simp add: log_accounts_def clean_log_def execution_default_def usage_sum_def memo_sum_def)

lemma replay_run_steps:
  "replay_run to_vec sha256 f spec rx = RDone rx' e \<Longrightarrow>
     rsteps (compute_leaf_input_hash to_vec sha256) spec (rx, execution_default) (rx', e)"
  by (auto simp: replay_run_def intro: replay_steps split: sum.splits)

text \<open>
  The log of a replay adds up. The usage and memo usage are the saturating sums over the leaf
  results replayed, and the run succeeded exactly when no leaf, branch or control result in the log
  failed or diverged; otherwise it failed or diverged. A recorded leaf that was cancelled or out of
  budget therefore does not stop a replay from succeeding.
\<close>

theorem replay_log_accounts:
  assumes "replay_run to_vec sha256 f spec rx = RDone rx' e"
  shows "ex_usage e = usage_sum (leaf_results e) \<and> ex_memo_usage e = memo_sum (leaf_results e) \<and>
    (ex_status e = Succeeded \<longleftrightarrow> clean_log e) \<and>
    ex_status e \<in> {Succeeded, Failed, ReplayDiverged}"
proof -
  have "log_accounts e"
    by (rule rsteps_log_invariant [where I = log_accounts, OF replay_run_steps [OF assms] log_accounts_default])
      (auto intro: log_accounts_steps)
  then show ?thesis by (auto simp: log_accounts_def bad_def)
qed

text \<open>Where the results come from, in terms of the trace.\<close>

definition leaf_from_trace ::
    "leaf_hash \<Rightarrow> workflow_spec \<Rightarrow> workflow_replay_trace \<Rightarrow> replay_options \<Rightarrow> leaf_result \<Rightarrow> bool" where
  "leaf_from_trace hash spec trace options r \<longleftrightarrow>
     (\<exists>leaf inputs. (\<exists>rec\<in>set (wt_leaf_records trace). rl_result rec = r \<and>
          rl_trace_id rec = wt_trace_id trace \<and> rl_leaf_id rec = leaf_id leaf \<and>
          hash spec leaf inputs = Inr (rl_input_hash rec))
      \<or> \<not> allow_live_replay options \<and> r = diverged_leaf leaf)"

definition control_from_trace :: "workflow_replay_trace \<Rightarrow> control_node_result \<Rightarrow> bool" where
  "control_from_trace trace c \<longleftrightarrow>
     (\<exists>rec\<in>set (wt_control_records trace). rc_result rec = c \<and> rc_trace_id rec = wt_trace_id trace)
      \<or> cr_status c = ReplayDiverged"

lemma leaf_records_of_trace:
  "bm_get (re_leaf_records (replay_with_options trace options)) (tid, lid, h) = Some r \<Longrightarrow>
     \<exists>rec\<in>set (wt_leaf_records trace). rl_result rec = r \<and> rl_trace_id rec = tid \<and>
       rl_leaf_id rec = lid \<and> rl_input_hash rec = h"
  by (auto simp: replay_with_options_def bm_get_collect dest!: map_of_SomeD)

lemma control_records_of_trace:
  "control_record (replay_with_options trace options) nid kind = Some rec \<Longrightarrow>
     rec \<in> set (wt_control_records trace) \<and> rc_trace_id rec = wt_trace_id trace \<and>
       rc_node_id rec = nid \<and> rc_kind rec = kind"
  by (auto simp: control_record_def replay_with_options_def bm_get_collect dest!: map_of_SomeD)

lemma answers_from_trace:
  assumes "answers hash spec (replay_with_options trace options) leaf r"
  shows "leaf_from_trace hash spec trace options r"
proof -
  let ?rx = "replay_with_options trace options"
  have rx: "re_trace_id ?rx = wt_trace_id trace" "re_options ?rx = options"
    by (simp_all add: replay_with_options_def)
  from assms obtain inputs h where h: "hash spec leaf inputs = Inr h"
    and get: "case bm_get (re_leaf_records ?rx) (wt_trace_id trace, leaf_id leaf, h) of
        Some r' \<Rightarrow> r = r' | None \<Rightarrow> \<not> allow_live_replay options \<and> r = diverged_leaf leaf"
    unfolding answers_def rx by blast
  show ?thesis
  proof (cases "bm_get (re_leaf_records ?rx) (wt_trace_id trace, leaf_id leaf, h)")
    case None
    with get show ?thesis by (auto simp: leaf_from_trace_def)
  next
    case (Some r')
    with get have "r' = r" by simp
    with leaf_records_of_trace [OF Some] h show ?thesis
      unfolding leaf_from_trace_def by blast
  qed
qed

lemma control_answer_from_trace:
  "control_answer (replay_with_options trace options) nid kind c \<Longrightarrow> control_from_trace trace c"
  by (auto simp: control_answer_def control_from_trace_def split: option.splits
      dest!: control_records_of_trace)

text \<open>
  A replay invents nothing. Every leaf result it logs is the result of a record of this trace
  whose key is a leaf identifier and the hash of that leaf with its inputs, or a divergence mark
  without output and usage; with live replay allowed there is no such mark, since a missing record
  is an error there. Every control result is a record's of this trace or a divergence.
\<close>

theorem replay_uses_only_records:
  assumes "replay_run to_vec sha256 f spec (replay_with_options trace options) = RDone rx e"
  shows "list_all (leaf_from_trace (compute_leaf_input_hash to_vec sha256) spec trace options)
      (leaf_results e) \<and> list_all (control_from_trace trace) (control_node_results e)"
proof -
  let ?I = "\<lambda>e. list_all (leaf_from_trace (compute_leaf_input_hash to_vec sha256) spec trace options)
      (leaf_results e) \<and> list_all (control_from_trace trace) (control_node_results e)"
  have "?I execution_default" by (simp add: execution_default_def)
  then show ?thesis
    by (rule rsteps_log_invariant [where I = ?I, OF replay_run_steps [OF assms]])
      (auto intro: answers_from_trace control_answer_from_trace)
qed

end
