(* ===== verification/Replay_Termination.thy ===== *)
theory Replay_Termination
  imports Replay_Properties Workflow_Samples
begin

text \<open>
  When a replay returns. Fuel is spent on expansions only; a rank that falls from the identifier of
  every recorded expansion to the identifiers of the expansions it generates bounds them, and a
  record that generates its own identifier has no such rank: its replay never returns.
\<close>

section \<open>More fuel changes nothing\<close>

lemma replay_fuel_or:
  "f \<le> g \<Longrightarrow> replay_node hash ws f n rx e = RFuel \<or>
     replay_node hash ws g n rx e = replay_node hash ws f n rx e"
  "f \<le> g \<Longrightarrow> replay_nodes hash ws f ns rx e = RFuel \<or>
     replay_nodes hash ws g ns rx e = replay_nodes hash ws f ns rx e"
proof (induction hash ws f n rx e and hash ws f ns rx e arbitrary: g and g
    rule: replay_node_replay_nodes.induct)
  case (1 hash ws f spec children rx e)
  from 1(1) [OF 1(2)] show ?case by (elim disjE) simp_all
next
  case (3 hash ws f spec children rx e)
  from 3(1) [OF 3(2)] show ?case by (elim disjE) simp_all
next
  case (6 hash ws f spec children rx e)
  from 6(1) [OF 6(2)] show ?case by (elim disjE) simp_all
next
  case (7 hash ws f spec then_nodes else_nodes rx e)
  from 7(1) [OF 7(2)] show ?case by (elim disjE) simp_all
next
  case (9 hash ws f spec tmpl rx e)
  obtain g' where g: "g = Suc g'" "f \<le> g'" using 9(2) by (cases g) auto
  show ?case
  proof (cases "validate_workflow_node_shapes (recorded_nodes rx spec)")
    case (Inl err)
    then show ?thesis by (simp add: g)
  next
    case (Inr u)
    from 9(1) [OF Inr g(2)] show ?thesis by (elim disjE) (simp_all add: g Inr)
  qed
next
  case (11 hash ws f node nodes rx e)
  from 11(1) [OF 11(3)] show ?case
  proof
    assume eq: "replay_node hash ws g node rx e = replay_node hash ws f node rx e"
    show ?thesis
    proof (cases "replay_node hash ws f node rx e")
      case (RDone rx' e')
      from 11(2) [OF RDone 11(3)] show ?thesis by (elim disjE) (simp_all add: eq RDone)
    qed (simp_all add: eq)
  qed simp
qed simp_all

lemma replay_fuel_mono:
  "replay_nodes hash ws f ns rx e \<noteq> RFuel \<Longrightarrow> f \<le> g \<Longrightarrow>
     replay_nodes hash ws g ns rx e = replay_nodes hash ws f ns rx e"
  using replay_fuel_or(2) by blast

section \<open>Expansions\<close>

fun expand_ids :: "workflow_node \<Rightarrow> string list" where
  "expand_ids (BranchSet spec children) = concat (map expand_ids children)"
| "expand_ids (Leaf spec) = []"
| "expand_ids (Sequence spec children) = concat (map expand_ids children)"
| "expand_ids (Reduce spec) = []"
| "expand_ids (TeacherReview spec) = []"
| "expand_ids (LoopUntil spec children) = concat (map expand_ids children)"
| "expand_ids (Cond spec then_nodes else_nodes) =
     concat (map expand_ids then_nodes) @ concat (map expand_ids else_nodes)"
| "expand_ids (Expand spec tmpl) = [expand_id spec]"

definition ids_below :: "(string \<Rightarrow> nat) \<Rightarrow> nat \<Rightarrow> workflow_node list \<Rightarrow> bool" where
  "ids_below rank k ns \<longleftrightarrow> list_all (\<lambda>n. list_all (\<lambda>i. rank i < k) (expand_ids n)) ns"

definition falling :: "(string \<Rightarrow> nat) \<Rightarrow> workflow_replay_trace \<Rightarrow> bool" where
  "falling rank trace \<longleftrightarrow>
     list_all (\<lambda>rec. ids_below rank (rank (rc_node_id rec)) (rc_generated_nodes rec))
       (wt_control_records trace)"

definition falling_records :: "(string \<Rightarrow> nat) \<Rightarrow> replay_executor \<Rightarrow> bool" where
  "falling_records rank rx \<longleftrightarrow>
     (\<forall>nid rec. control_record rx nid KExpand = Some rec \<longrightarrow>
        ids_below rank (rank nid) (rc_generated_nodes rec))"

lemma falling_records_same:
  "same_records rx rx' \<Longrightarrow> falling_records rank rx' = falling_records rank rx"
  by (simp add: falling_records_def control_record_same)

lemma falling_of_trace: "falling rank trace \<Longrightarrow> falling_records rank (replay_with_options trace options)"
  by (auto simp: falling_records_def falling_def list_all_iff dest!: control_records_of_trace)

lemma ids_below_simps [simp]:
  "ids_below rank k []"
  "ids_below rank k (n # ns) \<longleftrightarrow> list_all (\<lambda>i. rank i < k) (expand_ids n) \<and> ids_below rank k ns"
  by (simp_all add: ids_below_def)

lemma ids_below_children:
  "list_all (\<lambda>i. rank i < k) (concat (map expand_ids ns)) = ids_below rank k ns"
  by (induction ns) simp_all

lemma ids_below_subset: "set ms \<subseteq> set ns \<Longrightarrow> ids_below rank k ns \<Longrightarrow> ids_below rank k ms"
  by (auto simp: ids_below_def list_all_iff)

lemma ids_below_select:
  "ids_below rank k ns \<Longrightarrow> ids_below rank k (select_nodes ns selected)"
  using select_nodes_subset by (rule ids_below_subset)

lemma ids_below_append [simp]:
  "ids_below rank k (ms @ ns) \<longleftrightarrow> ids_below rank k ms \<and> ids_below rank k ns"
  by (simp add: ids_below_def)

lemma ids_below_mono: "ids_below rank k ns \<Longrightarrow> k \<le> k' \<Longrightarrow> ids_below rank k' ns"
  by (fastforce simp: ids_below_def list_all_iff)

lemma replay_nodes_same_records:
  "replay_node hash ws f n rx e = RDone rx' e' \<Longrightarrow> same_records rx rx'"
  "replay_nodes hash ws f ns rx e = RDone rx' e' \<Longrightarrow> same_records rx rx'"
  by (blast intro: rsteps_same_records replay_steps)+

lemma recorded_nodes_below:
  assumes "falling_records rank rx" and "rank (expand_id spec) < Suc f"
  shows "ids_below rank f (recorded_nodes rx spec)"
proof (cases "control_record rx (expand_id spec) KExpand")
  case None
  then show ?thesis by (simp add: recorded_nodes_def)
next
  case (Some rec)
  with assms(1) have "ids_below rank (rank (expand_id spec)) (rc_generated_nodes rec)"
    unfolding falling_records_def by blast
  moreover have "rank (expand_id spec) \<le> f" using assms(2) by simp
  ultimately show ?thesis using Some by (simp add: recorded_nodes_def ids_below_mono)
qed

lemma replay_enough_fuel:
  "falling_records rank rx \<Longrightarrow> list_all (\<lambda>i. rank i < f) (expand_ids n) \<Longrightarrow>
     replay_node hash ws f n rx e \<noteq> RFuel"
  "falling_records rank rx \<Longrightarrow> ids_below rank f ns \<Longrightarrow> replay_nodes hash ws f ns rx e \<noteq> RFuel"
proof (induction hash ws f n rx e and hash ws f ns rx e rule: replay_node_replay_nodes.induct)
  case (6 hash ws f spec children rx e)
  then show ?case
    by (auto simp: ids_below_children ids_below_select split: replay_result.splits)
next
  case (7 hash ws f spec then_nodes else_nodes rx e)
  then show ?case
    by (auto simp: ids_below_children ids_below_select split: replay_result.splits)
next
  case (9 hash ws f spec tmpl rx e)
  then have "ids_below rank f (recorded_nodes rx spec)" by (intro recorded_nodes_below) simp_all
  with 9 show ?case by (auto split: sum.splits replay_result.splits)
next
  case (11 hash ws f node nodes rx e)
  show ?case
  proof (cases "replay_node hash ws f node rx e")
    case (RDone rx' e')
    then have "same_records rx rx'" by (rule replay_nodes_same_records)
    then have "falling_records rank rx'" using 11(3) by (simp add: falling_records_same)
    moreover have "ids_below rank f nodes" using 11(4) by simp
    ultimately show ?thesis using 11(2) [OF RDone] RDone by simp
  qed (use 11 in simp_all)
qed (auto simp: ids_below_children split: replay_result.splits)

section \<open>Returning and not returning\<close>

text \<open>
  C40. A replay with well-founded expansions returns. If some rank falls from the node of every
  recorded expansion to all expansions among the nodes it generates, then fuel above the ranks of
  the expansions in the workflow is enough for a result or an error, and more fuel gives the same.
\<close>

theorem replay_terminates:
  assumes "falling rank trace" and "ids_below rank fuel (spec_nodes spec)" and "fuel \<le> fuel'"
  shows "replay_run to_vec sha256 fuel' spec (replay_with_options trace options) \<noteq> RFuel \<and>
    replay_run to_vec sha256 fuel' spec (replay_with_options trace options)
      = replay_run to_vec sha256 fuel spec (replay_with_options trace options)"
proof -
  have "replay_nodes hash spec fuel (spec_nodes spec) (replay_with_options trace options) e \<noteq> RFuel"
    for hash e
    using falling_of_trace [OF assms(1)] assms(2) by (rule replay_enough_fuel)
  with replay_fuel_mono [OF _ assms(3)] show ?thesis
    by (simp add: replay_run_def split: sum.split)
qed

definition grow_spec :: expand_spec where
  "grow_spec = \<lparr>expand_id = ''grow'', expand_source = ''plan'', max_children = None\<rparr>"

definition self_trace :: workflow_replay_trace where
  "self_trace = \<lparr>wt_trace_id = ''t'', wt_leaf_records = [], wt_control_records =
     [\<lparr>rc_trace_id = ''t'', rc_node_id = ''grow'', rc_kind = KExpand,
       rc_result = \<lparr>cr_node_id = ''grow'', cr_kind = KExpand, cr_status = Succeeded,
         cr_selected_children = [''grow''], cr_summary = None\<rparr>,
       rc_generated_nodes = [Expand grow_spec None]\<rparr>]\<rparr>"

lemma self_recorded:
  "re_trace_id rx = ''t'' \<Longrightarrow> re_control_records rx = re_control_records (replay_new self_trace) \<Longrightarrow>
     recorded_nodes rx grow_spec = [Expand grow_spec None]"
  by (simp add: recorded_nodes_def control_record_def replay_new_def replay_with_options_def
      self_trace_def bm_get_collect grow_spec_def)

lemma grow_shape: "validate_workflow_node_shapes [Expand grow_spec None] = Inr ()"
  by code_simp

lemma self_expansion_fuel:
  "replay_nodes hash ws f [Expand grow_spec None] (replay_new self_trace) e = RFuel"
proof (induction f)
  case 0
  then show ?case by simp
next
  case (Suc f)
  have "recorded_nodes (replay_new self_trace) grow_spec = [Expand grow_spec None]"
    by (rule self_recorded) (simp_all add: replay_new_def replay_with_options_def self_trace_def)
  with Suc show ?case by (simp add: grow_shape del: validate_workflow_node_shapes_def)
qed

text \<open>
  A record may send the replay round forever. An expansion recorded with itself among the nodes
  it generated passes the validation of the workflow and of the generated nodes, but since records
  are not consumed its replay runs out of any fuel: the code recurses until the stack overflows.
\<close>

theorem self_expansion_never_returns:
  "validate_workflow_nodes (spec_nodes (plain_spec [Expand grow_spec None])) = Inr () \<and>
   replay_run to_vec sha256 fuel (plain_spec [Expand grow_spec None]) (replay_new self_trace) = RFuel"
proof -
  have valid: "validate_workflow_nodes (spec_nodes (plain_spec [Expand grow_spec None])) = Inr ()"
    by code_simp
  have "spec_nodes (plain_spec [Expand grow_spec None]) = [Expand grow_spec None]"
    by (simp add: plain_spec_def)
  with valid self_expansion_fuel show ?thesis by (simp add: replay_run_def)
qed

section \<open>Concrete replays\<close>

text \<open>A serialiser that keeps the goal and a digest that keeps the bytes.\<close>

definition goal_bytes :: "replay_leaf_input \<Rightarrow> string + u8 list" where
  "goal_bytes i = Inr (map (\<lambda>c. word_of_nat (of_char c)) (ri_workflow_goal i))"

definition demo_result :: leaf_result where
  "demo_result = (diverged_leaf (plain_leaf ''a'' []))\<lparr>lr_status := Cancelled\<rparr>"

definition demo_trace :: workflow_replay_trace where
  "demo_trace = \<lparr>wt_trace_id = ''t'', wt_leaf_records =
     [\<lparr>rl_trace_id = ''t'', rl_leaf_id = ''a'', rl_input_hash = ''64656d6f'', rl_result = demo_result\<rparr>],
     wt_control_records = []\<rparr>"

definition demo_replay :: replay_result where
  "demo_replay = replay_run goal_bytes id 0
     (plain_spec [Leaf (plain_leaf ''a'' []), Leaf (plain_leaf ''b'' [])])
     (replay_with_options demo_trace replay_options_default)"

fun replay_log :: "replay_result \<Rightarrow> workflow_execution option" where
  "replay_log (RDone rx e) = Some e"
| "replay_log _ = None"

lemma replay_logE: "replay_log r = Some e \<Longrightarrow> \<exists>rx. r = RDone rx e"
  by (cases r) simp_all

lemma spec_nodes_plain: "spec_nodes (plain_spec nodes) = nodes"
  by (simp add: plain_spec_def)

lemma demo_hash:
  "compute_leaf_input_hash goal_bytes id (plain_spec nodes) leaf inputs = Inr ''64656d6f''"
proof -
  have "hex_bytes (map (\<lambda>c. word_of_nat (of_char c)) ''demo'') = ''64656d6f''" by code_simp
  then show ?thesis by (simp only: compute_leaf_input_hash_def goal_bytes_def plain_spec_def
        workflow_spec.simps replay_leaf_input.simps sum.case id_apply)
qed

lemma demo_valid: "validate_workflow_nodes [Leaf (plain_leaf ''a'' []), Leaf (plain_leaf ''b'' [])] = Inr ()"
  by code_simp

lemma demo_leaf_records:
  "re_leaf_records (replay_with_options demo_trace replay_options_default)
     = [((''t'', ''a'', ''64656d6f''), demo_result)]"
  by (simp add: replay_with_options_def demo_trace_def bm_collect_def bm_empty_def)

lemma demo_replay_log:
  "map_option (\<lambda>e. (ex_status e, leaf_results e)) (replay_log demo_replay)
     = Some (ReplayDiverged, [demo_result, diverged_leaf (plain_leaf ''b'' [])])"
proof -
  let ?rx = "replay_with_options demo_trace replay_options_default"
  have opts: "re_trace_id ?rx = ''t''" "\<not> allow_live_replay (re_options ?rx)"
    by (simp_all add: replay_with_options_def demo_trace_def replay_options_default_def)
  have ids: "leaf_id (plain_leaf i deps) = i" for i deps by (simp add: plain_leaf_def)
  have st: "lr_status demo_result = Cancelled" by (simp add: demo_result_def)
  show ?thesis
    unfolding demo_replay_def replay_run_def
    by (simp add: spec_nodes_plain demo_valid replay_leaf_def demo_hash
        demo_leaf_records opts ids bm_get_def st Let_def
        push_leaf_def mark_replay_diverged_def mark_recorded_def execution_default_def)
qed

lemma demo_replay_done:
  obtains rx e where "demo_replay = RDone rx e" "ex_status e = ReplayDiverged"
    "leaf_results e = [demo_result, diverged_leaf (plain_leaf ''b'' [])]"
proof (cases "replay_log demo_replay")
  case None
  then show thesis using demo_replay_log by simp
next
  case (Some e)
  from replay_logE [OF this] obtain rx where "demo_replay = RDone rx e" ..
  moreover have "ex_status e = ReplayDiverged" "leaf_results e = [demo_result, diverged_leaf (plain_leaf ''b'' [])]"
    using demo_replay_log unfolding Some option.map option.inject prod.inject by blast+
  ultimately show thesis by (rule that)
qed

text \<open>The recorded cancellation alone replays as a success.\<close>

theorem replay_log_accounts_witness:
  "\<exists>rx e. demo_replay = RDone rx e \<and> ex_status e = ReplayDiverged \<and>
     ex_usage e = usage_sum (leaf_results e) \<and> \<not> clean_log e"
proof -
  obtain rx e where r: "demo_replay = RDone rx e" and st: "ex_status e = ReplayDiverged"
    by (rule demo_replay_done)
  from replay_log_accounts [OF r [unfolded demo_replay_def]] r st show ?thesis by auto
qed

theorem replay_uses_only_records_witness:
  "\<exists>rx e. demo_replay = RDone rx e \<and>
     leaf_results e = [demo_result, diverged_leaf (plain_leaf ''b'' [])] \<and>
     list_all (control_from_trace demo_trace) (control_node_results e)"
proof -
  obtain rx e where r: "demo_replay = RDone rx e"
    and l: "leaf_results e = [demo_result, diverged_leaf (plain_leaf ''b'' [])]"
    by (rule demo_replay_done)
  from replay_uses_only_records [OF r [unfolded demo_replay_def]] have
    "list_all (control_from_trace demo_trace) (control_node_results e)" by (rule conjunct2)
  with r l show ?thesis by (intro exI conjI)
qed

text \<open>An expansion whose recorded node is an expansion of its own, whose recorded node is a leaf.\<close>

definition nested_record :: "string \<Rightarrow> workflow_node \<Rightarrow> replay_control_record" where
  "nested_record nid n = \<lparr>rc_trace_id = ''t'', rc_node_id = nid, rc_kind = KExpand,
     rc_result = \<lparr>cr_node_id = nid, cr_kind = KExpand, cr_status = Succeeded,
       cr_selected_children = [node_id n], cr_summary = None\<rparr>,
     rc_generated_nodes = [n]\<rparr>"

definition sub_spec :: expand_spec where
  "sub_spec = \<lparr>expand_id = ''sub'', expand_source = ''plan'', max_children = None\<rparr>"

definition nested_trace :: workflow_replay_trace where
  "nested_trace = \<lparr>wt_trace_id = ''t'', wt_leaf_records = [],
     wt_control_records = [nested_record ''grow'' (Expand sub_spec None), nested_record ''sub'' (Leaf (plain_leaf ''a'' []))]\<rparr>"

definition nested_spec :: workflow_spec where
  "nested_spec = plain_spec [Expand grow_spec None, Leaf (plain_leaf ''b'' [])]"

definition nested_rank :: "string \<Rightarrow> nat" where
  "nested_rank i = (if i = ''grow'' then 1 else 0)"

definition nested_replay :: "nat \<Rightarrow> replay_result" where
  "nested_replay fuel = replay_run goal_bytes id fuel nested_spec (replay_with_options nested_trace replay_options_default)"

lemma nested_recorded:
  assumes "same_records (replay_with_options nested_trace replay_options_default) rx"
  shows "recorded_nodes rx grow_spec = [Expand sub_spec None]" "recorded_nodes rx sub_spec = [Leaf (plain_leaf ''a'' [])]"
  using assms by (simp_all add: recorded_nodes_def control_record_def same_records_def replay_with_options_def
      nested_trace_def nested_record_def bm_get_collect grow_spec_def sub_spec_def)

lemma nested_falling: "falling nested_rank nested_trace"
  by (simp add: falling_def nested_trace_def nested_record_def nested_rank_def sub_spec_def)

lemma nested_below: "ids_below nested_rank 2 (spec_nodes nested_spec)"
  by (simp add: nested_spec_def plain_spec_def nested_rank_def grow_spec_def)

lemma nested_valid:
  "validate_workflow_nodes (spec_nodes nested_spec) = Inr ()"
  "validate_workflow_node_shapes [Expand sub_spec None] = Inr ()"
  "validate_workflow_node_shapes [Leaf (plain_leaf ''a'' [])] = Inr ()"
  by code_simp+

text \<open>One unit of fuel is used up by the first expansion; two replay both, and then both leaves, for which there
  are no records.\<close>

lemma nested_walk:
  "nested_replay fuel = replay_nodes (compute_leaf_input_hash goal_bytes id) nested_spec fuel
     [Expand grow_spec None, Leaf (plain_leaf ''b'' [])] (replay_with_options nested_trace replay_options_default) execution_default"
proof -
  have "spec_nodes nested_spec = [Expand grow_spec None, Leaf (plain_leaf ''b'' [])]"
    by (simp add: nested_spec_def plain_spec_def)
  with nested_valid(1) show ?thesis by (simp add: nested_replay_def replay_run_def)
qed

lemma nested_short: "nested_replay 1 = RFuel"
  by (simp add: nested_walk nested_valid nested_recorded del: validate_workflow_node_shapes_def)

lemma nested_leaf:
  assumes "same_records (replay_with_options nested_trace replay_options_default) rx"
  shows "replay_leaf (compute_leaf_input_hash goal_bytes id) nested_spec leaf rx e
    = Inr (rx\<lparr>re_resolved_outputs := bm_insert (leaf_id leaf) None (re_resolved_outputs rx)\<rparr>,
        push_leaf (diverged_leaf leaf) (mark_replay_diverged e))"
proof -
  have "re_leaf_records rx = bm_empty" "\<not> allow_live_replay (re_options rx)"
    using assms by (simp_all add: same_records_def replay_with_options_def nested_trace_def bm_collect_def
        replay_options_default_def)
  then show ?thesis by (simp add: replay_leaf_def nested_spec_def demo_hash bm_get_def bm_empty_def)
qed

lemma nested_frame:
  "leaf_id (plain_leaf i deps) = i"
  "same_records rx (rx'\<lparr>re_resolved_outputs := outs\<rparr>) = same_records rx rx'"
  "leaf_results (replay_expand spec ns rx e) = leaf_results e"
  "leaf_results (push_leaf r e) = leaf_results e @ [r]" "leaf_results (mark_replay_diverged e) = leaf_results e"
  "lr_leaf_id (diverged_leaf leaf) = leaf_id leaf"
  by (simp_all add: plain_leaf_def same_records_def replay_expand_def push_control_or_diverge_def push_result_def
      mark_recorded_def mark_replay_diverged_def mark_failed_def push_leaf_def diverged_leaf_def Let_def
      split: option.split)

lemma nested_done:
  "\<exists>rx e. nested_replay 2 = RDone rx e \<and> map lr_leaf_id (leaf_results e) = [''a'', ''b'']"
  by (simp add: numeral_2_eq_2 nested_walk nested_valid nested_recorded nested_leaf nested_frame execution_default_def
      del: validate_workflow_node_shapes_def)

theorem replay_terminates_witness:
  "nested_replay 7 \<noteq> RFuel \<and> nested_replay 7 = nested_replay 2 \<and> nested_replay 1 = RFuel
   \<and> (\<exists>rx e. nested_replay 2 = RDone rx e \<and> map lr_leaf_id (leaf_results e) = [''a'', ''b''])"
proof -
  have "nested_replay 7 \<noteq> RFuel \<and> nested_replay 7 = nested_replay 2"
    unfolding nested_replay_def by (rule replay_terminates [OF nested_falling nested_below]) simp
  with nested_done nested_short show ?thesis by blast
qed

end
