(* ===== verification/Json.thy ===== *)
theory Json
  imports Prelude
begin

text \<open>
  JSON values as the program handles them, and the accessors of \<open>serde_json::Value\<close> it calls. An
  integer is kept as an integer, as \<open>serde_json::Number\<close> does within the 64-bit ranges; a number
  with a fraction is \<open>JFloat\<close> with the text that \<open>Display\<close> writes for it. Text is printed and parsed by
  \<open>serde_json\<close>: those two functions are parameters where they occur.
\<close>

datatype json =
    JNull
  | JBool bool
  | JNum int
  | JFloat string
  | JStr string
  | JArr "json list"
  | JObj "(string \<times> json) list"

fun json_get :: "json \<Rightarrow> string \<Rightarrow> json option" where
  "json_get (JObj fields) k = map_of fields k"
| "json_get _ k = None"

fun json_as_str :: "json \<Rightarrow> string option" where
  "json_as_str (JStr s) = Some s"
| "json_as_str _ = None"

fun json_as_u64 :: "json \<Rightarrow> u64 option" where
  "json_as_u64 (JNum i) = (if 0 \<le> i \<and> i < 2 ^ 64 then Some (word_of_int i) else None)"
| "json_as_u64 _ = None"

fun json_as_i64 :: "json \<Rightarrow> i64 option" where
  "json_as_i64 (JNum i) = (if - (2 ^ 63) \<le> i \<and> i < 2 ^ 63 then Some (word_of_int i) else None)"
| "json_as_i64 _ = None"

fun json_as_array :: "json \<Rightarrow> json list option" where
  "json_as_array (JArr vs) = Some vs"
| "json_as_array _ = None"

fun json_is_null :: "json \<Rightarrow> bool" where
  "json_is_null JNull = True"
| "json_is_null _ = False"

text \<open>\<open>value.get(k).and_then(f)\<close> and the defaults after it.\<close>

definition json_field :: "json \<Rightarrow> string \<Rightarrow> (json \<Rightarrow> 'a option) \<Rightarrow> 'a option" where
  "json_field v k f = (case json_get v k of None \<Rightarrow> None | Some w \<Rightarrow> f w)"

definition unwrap_or :: "'a \<Rightarrow> 'a option \<Rightarrow> 'a" where
  "unwrap_or d x = (case x of None \<Rightarrow> d | Some y \<Rightarrow> y)"

text \<open>What \<open>json!\<close> makes of the field types.\<close>

definition json_of_unsigned :: "'a::len word \<Rightarrow> json" where
  "json_of_unsigned w = JNum (uint w)"

definition json_of_i64 :: "i64 \<Rightarrow> json" where
  "json_of_i64 w = JNum (sint w)"

definition json_of_option :: "('a \<Rightarrow> json) \<Rightarrow> 'a option \<Rightarrow> json" where
  "json_of_option f x = (case x of None \<Rightarrow> JNull | Some y \<Rightarrow> f y)"

named_theorems json_simps

lemma json_as_i64_of [json_simps]: "json_as_i64 (json_of_i64 w) = Some w"
  using sint_range_size [of w] by (simp add: json_of_i64_def word_size)

lemma json_as_u64_of [json_simps]:
  "LENGTH('a) \<le> 64 \<Longrightarrow> json_as_u64 (json_of_unsigned (w :: 'a::len word)) = Some (word_of_int (uint w))"
proof -
  assume le: "LENGTH('a) \<le> 64"
  have "uint w < 2 ^ LENGTH('a)" by (rule uint_lt2p)
  also have "(2 :: int) ^ LENGTH('a) \<le> 2 ^ 64" using le by (rule power_increasing) simp
  finally show ?thesis by (simp add: json_of_unsigned_def)
qed

lemma json_as_option_None [json_simps]:
  "json_as_str (json_of_option f None) = None" "json_as_u64 (json_of_option f None) = None"
  "json_as_i64 (json_of_option f None) = None"
  by (simp_all add: json_of_option_def)

lemma json_of_option_Some [json_simps]: "json_of_option f (Some y) = f y"
  by (simp add: json_of_option_def)

end
