(* ===== verification/Jobs.thy ===== *)
theory Jobs
  imports Ordered_Map Json
begin

text \<open>
  Background jobs: \<open>JobManager\<close> and the job operations of \<open>Runtime\<close> (\<open>crates/core/src/lib.rs\<close>) over
  the \<open>jobs\<close> table of the state store (\<open>crates/state/src/lib.rs\<close>). The clock is an argument of every
  operation that reads it, the fresh identifier an argument of \<open>job_enqueue\<close>, and the printer and
  parser of \<open>serde_json\<close> are the parameters \<open>to_text\<close> and \<open>from_text\<close>. The \<open>HashMap\<close> of jobs is an
  ordered map: no operation's result depends on the order of its iteration, except for jobs updated
  in the same second in \<open>job_list\<close>. The statements of the store are taken to succeed.
\<close>

section \<open>Data\<close>

datatype job_status = JQueued | JRunning | JPaused | JCompleted | JFailed | JCancelled

fun job_is_terminal :: "job_status \<Rightarrow> bool" where
  "job_is_terminal st = (st = JCompleted \<or> st = JFailed \<or> st = JCancelled)"

fun job_is_active :: "job_status \<Rightarrow> bool" where
  "job_is_active st = (st = JQueued \<or> st = JRunning)"

fun job_is_paused :: "job_status \<Rightarrow> bool" where
  "job_is_paused st = (st = JPaused)"

definition default_job_max_attempts :: u32 where
  "default_job_max_attempts = 3"

definition default_job_backoff_base_ms :: u64 where
  "default_job_backoff_base_ms = 500"

definition max_job_history_entries :: nat where
  "max_job_history_entries = 64"

record job_retry =
  rt_attempt :: u32
  rt_max_attempts :: u32
  rt_backoff_base_ms :: u64
  rt_next_backoff_ms :: u64
  rt_next_retry_at :: "i64 option"

definition job_retry_default :: job_retry where
  "job_retry_default = \<lparr>rt_attempt = 0, rt_max_attempts = default_job_max_attempts,
     rt_backoff_base_ms = default_job_backoff_base_ms, rt_next_backoff_ms = 0,
     rt_next_retry_at = None\<rparr>"

record job_history_entry =
  jh_at :: i64
  jh_phase :: string
  jh_status :: job_status
  jh_progress :: "u8 option"
  jh_detail :: "string option"
  jh_retry :: job_retry

record persisted_job_detail =
  pj_status :: job_status
  pj_detail :: "string option"
  pj_retry :: job_retry
  pj_history :: "job_history_entry list"

record job_record =
  job_id :: string
  job_name :: string
  job_status :: job_status
  job_progress :: "u8 option"
  job_detail :: "string option"
  job_retry :: job_retry
  job_history :: "job_history_entry list"
  job_created_at :: i64
  job_updated_at :: i64

type_synonym job_manager = "(string, job_record) bmap"

section \<open>Retry schedule and history\<close>

definition deterministic_backoff_ms :: "job_retry \<Rightarrow> u64" where
  "deterministic_backoff_ms retry =
     (if rt_attempt retry = 0 then 0
      else let exponent = min (unat (rt_attempt retry) - 1) 20;
               multiplier = (if exponent < 64 then push_bit exponent 1 else - 1)
           in sat_mul (rt_backoff_base_ms retry) multiplier)"

definition clear_retry_schedule :: "job_retry \<Rightarrow> job_retry" where
  "clear_retry_schedule retry = retry\<lparr>rt_next_backoff_ms := 0, rt_next_retry_at := None\<rparr>"

definition push_history :: "string \<Rightarrow> job_record \<Rightarrow> job_record" where
  "push_history phase job =
     (let history = job_history job @
            [\<lparr>jh_at = job_updated_at job, jh_phase = phase, jh_status = job_status job,
              jh_progress = job_progress job, jh_detail = job_detail job, jh_retry = job_retry job\<rparr>]
      in job\<lparr>job_history := drop (length history - max_job_history_entries) history\<rparr>)"

text \<open>The seconds until a retry, rounded up, as an \<open>i64\<close>.\<close>

definition retry_delay_secs :: "u64 \<Rightarrow> i64" where
  "retry_delay_secs ms = min (sat_add ms 999 div 1000) (2 ^ 63 - 1)"

definition fail_retry :: "i64 \<Rightarrow> job_retry \<Rightarrow> job_retry" where
  "fail_retry now retry =
     (if rt_attempt retry < rt_max_attempts retry then
        (let r1 = retry\<lparr>rt_attempt := rt_attempt retry + 1\<rparr>;
             r2 = r1\<lparr>rt_next_backoff_ms := deterministic_backoff_ms r1\<rparr>
         in r2\<lparr>rt_next_retry_at := Some (ssat_add now (retry_delay_secs (rt_next_backoff_ms r2)))\<rparr>)
      else clear_retry_schedule retry)"

section \<open>Operations\<close>

definition with_job :: "string \<Rightarrow> (job_record \<Rightarrow> job_record) \<Rightarrow> job_manager \<Rightarrow> job_manager" where
  "with_job jid f jm = (case bm_get jm jid of None \<Rightarrow> jm | Some job \<Rightarrow> bm_insert jid (f job) jm)"

definition new_job :: "i64 \<Rightarrow> string \<Rightarrow> string \<Rightarrow> job_record" where
  "new_job now jid name = push_history ''created''
     \<lparr>job_id = jid, job_name = name, job_status = JQueued, job_progress = Some 0, job_detail = None,
      job_retry = job_retry_default, job_history = [], job_created_at = now, job_updated_at = now\<rparr>"

definition job_enqueue :: "i64 \<Rightarrow> string \<Rightarrow> string \<Rightarrow> job_manager \<Rightarrow> job_record \<times> job_manager" where
  "job_enqueue now uuid name jm =
     (let jid = ''job-'' @ uuid; job = new_job now jid name
      in (job, bm_insert jid job jm))"

definition running_job :: "i64 \<Rightarrow> job_record \<Rightarrow> job_record" where
  "running_job now job = push_history ''running''
     (job\<lparr>job_status := JRunning, job_retry := clear_retry_schedule (job_retry job),
          job_updated_at := now\<rparr>)"

definition progress_job :: "i64 \<Rightarrow> u8 \<Rightarrow> string option \<Rightarrow> job_record \<Rightarrow> job_record" where
  "progress_job now progress detail job = push_history ''progress_updated''
     (job\<lparr>job_progress := Some (min progress 100), job_detail := detail, job_updated_at := now\<rparr>)"

definition complete_job :: "i64 \<Rightarrow> job_record \<Rightarrow> job_record" where
  "complete_job now job = push_history ''completed''
     (job\<lparr>job_status := JCompleted, job_progress := Some 100,
          job_retry := clear_retry_schedule (job_retry job), job_updated_at := now\<rparr>)"

definition fail_job :: "i64 \<Rightarrow> string \<Rightarrow> job_record \<Rightarrow> job_record" where
  "fail_job now detail job = push_history ''failed''
     (job\<lparr>job_status := JFailed, job_detail := Some detail,
          job_retry := fail_retry now (job_retry job), job_updated_at := now\<rparr>)"

definition cancel_job :: "i64 \<Rightarrow> job_record \<Rightarrow> job_record" where
  "cancel_job now job = push_history ''cancelled''
     (job\<lparr>job_status := JCancelled, job_retry := clear_retry_schedule (job_retry job),
          job_updated_at := now\<rparr>)"

definition detail_or :: "string option \<Rightarrow> string option \<Rightarrow> string option" where
  "detail_or detail old = (if detail \<noteq> None then detail else old)"

definition pause_job :: "i64 \<Rightarrow> string option \<Rightarrow> job_record \<Rightarrow> job_record" where
  "pause_job now detail job = push_history ''paused''
     (job\<lparr>job_status := JPaused, job_detail := detail_or detail (job_detail job),
          job_updated_at := now\<rparr>)"

definition resume_job :: "i64 \<Rightarrow> string option \<Rightarrow> job_record \<Rightarrow> job_record" where
  "resume_job now detail job = push_history ''resumed''
     (job\<lparr>job_status := JRunning, job_detail := detail_or detail (job_detail job),
          job_retry := clear_retry_schedule (job_retry job), job_updated_at := now\<rparr>)"

definition requeue_job :: "i64 \<Rightarrow> job_record \<Rightarrow> job_record" where
  "requeue_job now job =
     (if job_status job = JQueued \<or> job_status job = JRunning
      then push_history ''queued_after_resume'' (job\<lparr>job_status := JQueued, job_updated_at := now\<rparr>)
      else job)"

definition job_list :: "job_manager \<Rightarrow> job_record list" where
  "job_list jm = sort_key (\<lambda>job. - sint (job_updated_at job)) (map snd jm)"

definition job_history_of :: "job_manager \<Rightarrow> string \<Rightarrow> job_history_entry list" where
  "job_history_of jm jid = (case bm_get jm jid of None \<Rightarrow> [] | Some job \<Rightarrow> job_history job)"

text \<open>Each job is requeued at its own reading of the clock.\<close>

definition resume_pending :: "(string \<Rightarrow> i64) \<Rightarrow> job_manager \<Rightarrow> job_record list \<times> job_manager" where
  "resume_pending clock jm =
     (let jm' = map (\<lambda>(jid, job). (jid, requeue_job (clock jid) job)) jm
      in (map snd (filter (\<lambda>(jid, job). job_status job = JQueued) jm'), jm'))"

section \<open>Persistence\<close>

datatype job_state_status = SQueued | SRunning | SPaused | SCompleted | SFailed | SCancelled

record job_state_record =
  js_id :: string
  js_name :: string
  js_status :: job_state_status
  js_progress :: "u8 option"
  js_detail :: "string option"
  js_created_at :: i64
  js_updated_at :: i64

fun job_status_to_str :: "job_status \<Rightarrow> string" where
  "job_status_to_str JQueued = ''queued''"
| "job_status_to_str JRunning = ''running''"
| "job_status_to_str JPaused = ''paused''"
| "job_status_to_str JCompleted = ''completed''"
| "job_status_to_str JFailed = ''failed''"
| "job_status_to_str JCancelled = ''cancelled''"

definition job_status_from_str :: "string \<Rightarrow> job_status option" where
  "job_status_from_str v =
     (if v = ''queued'' then Some JQueued
      else if v = ''running'' then Some JRunning
      else if v = ''paused'' then Some JPaused
      else if v = ''completed'' then Some JCompleted
      else if v = ''failed'' then Some JFailed
      else if v = ''cancelled'' then Some JCancelled
      else None)"

fun runtime_status_to_job_state :: "job_status \<Rightarrow> job_state_status" where
  "runtime_status_to_job_state JQueued = SQueued"
| "runtime_status_to_job_state JRunning = SRunning"
| "runtime_status_to_job_state JPaused = SPaused"
| "runtime_status_to_job_state JCompleted = SCompleted"
| "runtime_status_to_job_state JFailed = SFailed"
| "runtime_status_to_job_state JCancelled = SCancelled"

fun job_state_status_to_runtime :: "job_state_status \<Rightarrow> job_status" where
  "job_state_status_to_runtime SQueued = JQueued"
| "job_state_status_to_runtime SRunning = JRunning"
| "job_state_status_to_runtime SPaused = JPaused"
| "job_state_status_to_runtime SCompleted = JCompleted"
| "job_state_status_to_runtime SFailed = JFailed"
| "job_state_status_to_runtime SCancelled = JCancelled"

fun job_state_status_to_str :: "job_state_status \<Rightarrow> string" where
  "job_state_status_to_str SQueued = ''queued''"
| "job_state_status_to_str SRunning = ''running''"
| "job_state_status_to_str SPaused = ''paused''"
| "job_state_status_to_str SCompleted = ''completed''"
| "job_state_status_to_str SFailed = ''failed''"
| "job_state_status_to_str SCancelled = ''cancelled''"

definition job_state_status_from_str :: "string \<Rightarrow> job_state_status" where
  "job_state_status_from_str v =
     (if v = ''queued'' then SQueued
      else if v = ''running'' then SRunning
      else if v = ''paused'' then SPaused
      else if v = ''completed'' then SCompleted
      else if v = ''failed'' then SFailed
      else if v = ''cancelled'' then SCancelled
      else SQueued)"

definition job_retry_to_value :: "job_retry \<Rightarrow> json" where
  "job_retry_to_value retry = JObj
     [(''attempt'', json_of_unsigned (rt_attempt retry)),
      (''max_attempts'', json_of_unsigned (rt_max_attempts retry)),
      (''backoff_base_ms'', json_of_unsigned (rt_backoff_base_ms retry)),
      (''next_backoff_ms'', json_of_unsigned (rt_next_backoff_ms retry)),
      (''next_retry_at'', json_of_option json_of_i64 (rt_next_retry_at retry))]"

definition job_history_to_value :: "job_history_entry \<Rightarrow> json" where
  "job_history_to_value entry = JObj
     [(''at'', json_of_i64 (jh_at entry)),
      (''phase'', JStr (jh_phase entry)),
      (''status'', JStr (job_status_to_str (jh_status entry))),
      (''progress'', json_of_option json_of_unsigned (jh_progress entry)),
      (''detail'', json_of_option JStr (jh_detail entry)),
      (''retry'', job_retry_to_value (jh_retry entry))]"

definition job_detail_value :: "job_record \<Rightarrow> json" where
  "job_detail_value job = JObj
     [(''schema_version'', json_of_unsigned (1 :: u8)),
      (''status'', JStr (job_status_to_str (job_status job))),
      (''detail'', json_of_option JStr (job_detail job)),
      (''retry'', job_retry_to_value (job_retry job)),
      (''history'', JArr (map job_history_to_value (job_history job)))]"

definition encode_persisted_detail :: "(json \<Rightarrow> string) \<Rightarrow> job_record \<Rightarrow> string option" where
  "encode_persisted_detail to_text job = Some (to_text (job_detail_value job))"

definition json_optional_string :: "json \<Rightarrow> string option" where
  "json_optional_string v = (if json_is_null v then None else json_as_str v)"

definition parse_retry_metadata :: "json option \<Rightarrow> job_retry" where
  "parse_retry_metadata value =
     (case value of None \<Rightarrow> job_retry_default
      | Some v \<Rightarrow>
        \<lparr>rt_attempt = ucast (min (unwrap_or 0 (json_field v ''attempt'' json_as_u64)) (2 ^ 32 - 1)),
         rt_max_attempts = ucast (min (unwrap_or (ucast default_job_max_attempts)
            (json_field v ''max_attempts'' json_as_u64)) (2 ^ 32 - 1)),
         rt_backoff_base_ms = unwrap_or default_job_backoff_base_ms
            (json_field v ''backoff_base_ms'' json_as_u64),
         rt_next_backoff_ms = unwrap_or 0 (json_field v ''next_backoff_ms'' json_as_u64),
         rt_next_retry_at = json_field v ''next_retry_at'' json_as_i64\<rparr>)"

definition json_status :: "json \<Rightarrow> job_status option" where
  "json_status v =
     (case json_field v ''status'' json_as_str of None \<Rightarrow> None | Some s \<Rightarrow> job_status_from_str s)"

definition parse_history_entry :: "json \<Rightarrow> job_history_entry option" where
  "parse_history_entry v =
     (case json_status v of None \<Rightarrow> None
      | Some status \<Rightarrow> Some
        \<lparr>jh_at = unwrap_or 0 (json_field v ''at'' json_as_i64),
         jh_phase = unwrap_or ''unknown'' (json_field v ''phase'' json_as_str),
         jh_status = status,
         jh_progress = map_option (\<lambda>p. ucast (min p 255)) (json_field v ''progress'' json_as_u64),
         jh_detail = json_field v ''detail'' json_optional_string,
         jh_retry = parse_retry_metadata (json_get v ''retry'')\<rparr>)"

definition parse_persisted_detail ::
    "(string \<Rightarrow> json option) \<Rightarrow> string option \<Rightarrow> persisted_job_detail option" where
  "parse_persisted_detail from_text raw =
     (case raw of None \<Rightarrow> None
      | Some text \<Rightarrow>
     (case from_text text of None \<Rightarrow> None
      | Some v \<Rightarrow>
     (case json_status v of None \<Rightarrow> None
      | Some status \<Rightarrow> Some
        \<lparr>pj_status = status,
         pj_detail = json_field v ''detail'' json_optional_string,
         pj_retry = parse_retry_metadata (json_get v ''retry''),
         pj_history = (case json_field v ''history'' json_as_array of
            None \<Rightarrow> [] | Some items \<Rightarrow> List.map_filter parse_history_entry items)\<rparr>)))"

subsection \<open>The jobs table\<close>

text \<open>A row as the statements write and read it: the status is text, the progress an integer.\<close>

record job_row =
  row_id :: string
  row_name :: string
  row_status :: string
  row_progress :: "i64 option"
  row_detail :: "string option"
  row_created_at :: i64
  row_updated_at :: i64

type_synonym job_table = "(string, job_row) bmap"

definition row_of_job :: "job_state_record \<Rightarrow> job_row" where
  "row_of_job job = \<lparr>row_id = js_id job, row_name = js_name job,
     row_status = job_state_status_to_str (js_status job),
     row_progress = map_option ucast (js_progress job), row_detail = js_detail job,
     row_created_at = js_created_at job, row_updated_at = js_updated_at job\<rparr>"

definition u8_try_from :: "i64 \<Rightarrow> u8 option" where
  "u8_try_from v = (if 0 \<le> sint v \<and> sint v < 256 then Some (ucast v) else None)"

definition job_of_row :: "job_row \<Rightarrow> job_state_record" where
  "job_of_row row = \<lparr>js_id = row_id row, js_name = row_name row,
     js_status = job_state_status_from_str (row_status row),
     js_progress = Option.bind (row_progress row) u8_try_from, js_detail = row_detail row,
     js_created_at = row_created_at row, js_updated_at = row_updated_at row\<rparr>"

definition upsert_job :: "job_state_record \<Rightarrow> job_table \<Rightarrow> job_table" where
  "upsert_job job table = bm_insert (js_id job) (row_of_job job) table"

definition get_job :: "job_table \<Rightarrow> string \<Rightarrow> job_state_record option" where
  "get_job table jid = map_option job_of_row (bm_get table jid)"

definition delete_job :: "string \<Rightarrow> job_table \<Rightarrow> job_table" where
  "delete_job jid table = bm_remove jid table"

text \<open>\<open>ORDER BY updated_at DESC LIMIT n\<close>.\<close>

definition list_jobs :: "nat option \<Rightarrow> job_table \<Rightarrow> job_state_record list" where
  "list_jobs limit table =
     (let n = (case limit of None \<Rightarrow> 100 | Some k \<Rightarrow> if k < 2 ^ 63 then k else 100)
      in map job_of_row (take n (sort_key (\<lambda>row. - sint (row_updated_at row)) (map snd table))))"

subsection \<open>Between the manager and the table\<close>

definition job_state_of :: "(json \<Rightarrow> string) \<Rightarrow> job_record \<Rightarrow> job_state_record" where
  "job_state_of to_text job = \<lparr>js_id = job_id job, js_name = job_name job,
     js_status = runtime_status_to_job_state (job_status job), js_progress = job_progress job,
     js_detail = encode_persisted_detail to_text job, js_created_at = job_created_at job,
     js_updated_at = job_updated_at job\<rparr>"

definition persist_job :: "(json \<Rightarrow> string) \<Rightarrow> job_manager \<Rightarrow> string \<Rightarrow> job_table \<Rightarrow> job_table" where
  "persist_job to_text jm jid table =
     (case bm_get jm jid of None \<Rightarrow> table | Some job \<Rightarrow> upsert_job (job_state_of to_text job) table)"

definition persist_all :: "(json \<Rightarrow> string) \<Rightarrow> job_manager \<Rightarrow> job_table \<Rightarrow> job_table" where
  "persist_all to_text jm table = fold (persist_job to_text jm) (bm_keys jm) table"

definition load_job :: "(string \<Rightarrow> json option) \<Rightarrow> job_state_record \<Rightarrow> job_record" where
  "load_job from_text job =
     (case parse_persisted_detail from_text (js_detail job) of
        Some d \<Rightarrow>
          \<lparr>job_id = js_id job, job_name = js_name job, job_status = pj_status d,
           job_progress = js_progress job, job_detail = pj_detail d, job_retry = pj_retry d,
           job_history = pj_history d, job_created_at = js_created_at job,
           job_updated_at = js_updated_at job\<rparr>
      | None \<Rightarrow>
          \<lparr>job_id = js_id job, job_name = js_name job,
           job_status = job_state_status_to_runtime (js_status job),
           job_progress = js_progress job, job_detail = js_detail job, job_retry = job_retry_default,
           job_history = [], job_created_at = js_created_at job, job_updated_at = js_updated_at job\<rparr>)"

definition load_from_store :: "(string \<Rightarrow> json option) \<Rightarrow> job_table \<Rightarrow> job_manager \<Rightarrow> job_manager" where
  "load_from_store from_text table jm =
     foldl (\<lambda>jm job. bm_insert (js_id job) (load_job from_text job) jm) jm (list_jobs (Some 500) table)"

section \<open>The operations of the runtime\<close>

text \<open>\<open>Runtime\<close> changes the manager and writes the job through to the store.\<close>

type_synonym job_runtime = "job_manager \<times> job_table"

definition write_through :: "(json \<Rightarrow> string) \<Rightarrow> string \<Rightarrow> job_manager \<Rightarrow> job_table \<Rightarrow> job_runtime" where
  "write_through to_text jid jm table = (jm, persist_job to_text jm jid table)"

fun enqueue_job :: "(json \<Rightarrow> string) \<Rightarrow> i64 \<Rightarrow> string \<Rightarrow> string \<Rightarrow> job_runtime \<Rightarrow> job_record \<times> job_runtime" where
  "enqueue_job to_text now uuid name (jm, table) =
     (case job_enqueue now uuid name jm of
        (job, jm') \<Rightarrow> (job, write_through to_text (job_id job) jm' table))"

datatype job_op =
    SetRunning
  | UpdateProgress u8 "string option"
  | Complete
  | Fail string
  | Cancel
  | Pause "string option"
  | Resume "string option"

fun apply_op :: "i64 \<Rightarrow> job_op \<Rightarrow> job_record \<Rightarrow> job_record" where
  "apply_op now SetRunning = running_job now"
| "apply_op now (UpdateProgress p d) = progress_job now p d"
| "apply_op now Complete = complete_job now"
| "apply_op now (Fail d) = fail_job now d"
| "apply_op now Cancel = cancel_job now"
| "apply_op now (Pause d) = pause_job now d"
| "apply_op now (Resume d) = resume_job now d"

fun runtime_job_op :: "(json \<Rightarrow> string) \<Rightarrow> i64 \<Rightarrow> job_op \<Rightarrow> string \<Rightarrow> job_runtime \<Rightarrow> job_runtime" where
  "runtime_job_op to_text now op jid (jm, table) =
     write_through to_text jid (with_job jid (apply_op now op) jm) table"

end
