(* ===== verification/Job_Properties.thy ===== *)
theory Job_Properties
  imports Jobs
begin

text \<open>
  What holds of background jobs: an invariant of every record, the exact retry schedule of a job
  that fails, and that the store the runtime writes through gives the jobs back after a restart.
\<close>

named_theorems job_simps

section \<open>One record\<close>

definition snapshot :: "string \<Rightarrow> job_record \<Rightarrow> job_history_entry" where
  "snapshot phase job = \<lparr>jh_at = job_updated_at job, jh_phase = phase, jh_status = job_status job,
     jh_progress = job_progress job, jh_detail = job_detail job, jh_retry = job_retry job\<rparr>"

lemma push_history_fields [job_simps]:
  "job_id (push_history phase job) = job_id job" "job_name (push_history phase job) = job_name job"
  "job_status (push_history phase job) = job_status job"
  "job_progress (push_history phase job) = job_progress job"
  "job_detail (push_history phase job) = job_detail job"
  "job_retry (push_history phase job) = job_retry job"
  "job_created_at (push_history phase job) = job_created_at job"
  "job_updated_at (push_history phase job) = job_updated_at job"
  by (simp_all add: push_history_def Let_def)

lemma push_history_last [job_simps]:
  "last (job_history (push_history phase job)) = snapshot phase job"
  "job_history (push_history phase job) \<noteq> []"
  by (simp_all add: push_history_def Let_def snapshot_def max_job_history_entries_def)

lemma push_history_length: "length (job_history (push_history phase job)) \<le> 64"
  by (simp add: push_history_def Let_def max_job_history_entries_def)

lemma snapshot_push_history [job_simps]: "snapshot phase (push_history phase' job) = snapshot phase job"
  by (simp add: snapshot_def job_simps)

lemma clear_retry_fields [job_simps]:
  "rt_attempt (clear_retry_schedule r) = rt_attempt r"
  "rt_max_attempts (clear_retry_schedule r) = rt_max_attempts r"
  "rt_backoff_base_ms (clear_retry_schedule r) = rt_backoff_base_ms r"
  "rt_next_backoff_ms (clear_retry_schedule r) = 0" "rt_next_retry_at (clear_retry_schedule r) = None"
  by (simp_all add: clear_retry_schedule_def)

text \<open>The retry data of every job: at most as many attempts as allowed, and a backoff only with a
  scheduled retry.\<close>

definition retry_ok :: "job_retry \<Rightarrow> bool" where
  "retry_ok r \<longleftrightarrow> rt_max_attempts r = default_job_max_attempts \<and>
     rt_backoff_base_ms r = default_job_backoff_base_ms \<and> rt_attempt r \<le> rt_max_attempts r \<and>
     (rt_next_retry_at r = None \<longrightarrow> rt_next_backoff_ms r = 0)"

definition job_ok :: "job_record \<Rightarrow> bool" where
  "job_ok job \<longleftrightarrow> length (job_history job) \<le> 64 \<and>
     (\<exists>phase. job_history job \<noteq> [] \<and> last (job_history job) = snapshot phase job) \<and>
     (case job_progress job of None \<Rightarrow> False | Some p \<Rightarrow> p \<le> 100) \<and>
     retry_ok (job_retry job) \<and>
     (rt_next_retry_at (job_retry job) \<noteq> None \<longrightarrow> job_status job = JFailed \<or> job_status job = JPaused)"

lemma job_ok_push:
  "job_ok (push_history phase job) \<longleftrightarrow>
     (case job_progress job of None \<Rightarrow> False | Some p \<Rightarrow> p \<le> 100) \<and> retry_ok (job_retry job) \<and>
     (rt_next_retry_at (job_retry job) \<noteq> None \<longrightarrow> job_status job = JFailed \<or> job_status job = JPaused)"
  by (auto simp: job_ok_def job_simps push_history_length)

lemma retry_ok_clear: "retry_ok r \<Longrightarrow> retry_ok (clear_retry_schedule r)"
  by (auto simp: retry_ok_def job_simps)

lemma retry_ok_fail: "retry_ok r \<Longrightarrow> retry_ok (fail_retry now r)"
proof -
  assume r: "retry_ok r"
  have "rt_attempt r < rt_max_attempts r \<Longrightarrow> rt_attempt r + 1 \<le> rt_max_attempts r"
    by (rule inc_le)
  with r show ?thesis
    by (auto simp: retry_ok_def fail_retry_def Let_def job_simps)
qed

lemma retry_ok_default: "retry_ok job_retry_default"
  by (simp add: retry_ok_def job_retry_default_def default_job_max_attempts_def)

lemma job_ok_new: "job_ok (new_job now jid name)"
  by (simp add: new_job_def job_ok_push retry_ok_default) (simp add: job_retry_default_def)

lemma job_ok_progress: "job_ok job \<Longrightarrow> \<exists>p. job_progress job = Some p \<and> p \<le> 100"
  by (auto simp: job_ok_def split: option.splits)

lemma job_ok_apply_op: "job_ok job \<Longrightarrow> job_ok (apply_op now op job)"
proof -
  assume ok: "job_ok job"
  then have retry: "retry_ok (job_retry job)"
    and sched: "rt_next_retry_at (job_retry job) \<noteq> None \<longrightarrow> job_status job = JFailed \<or> job_status job = JPaused"
    by (simp_all add: job_ok_def)
  from job_ok_progress [OF ok] obtain p where p: "job_progress job = Some p" "p \<le> 100" by blast
  show ?thesis
    by (cases op)
      (use p retry sched in \<open>simp_all add: running_job_def progress_job_def complete_job_def fail_job_def
        cancel_job_def pause_job_def resume_job_def job_ok_push retry_ok_clear retry_ok_fail job_simps\<close>)
qed

lemma job_id_apply_op [job_simps]: "job_id (apply_op now op job) = job_id job"
  by (cases op) (simp_all add: running_job_def progress_job_def complete_job_def fail_job_def
      cancel_job_def pause_job_def resume_job_def job_simps)

section \<open>The retry schedule\<close>

definition is_fail :: "job_op \<Rightarrow> bool" where
  "is_fail op \<longleftrightarrow> (case op of Fail _ \<Rightarrow> True | _ \<Rightarrow> False)"

definition failures :: "(i64 \<times> job_op) list \<Rightarrow> nat" where
  "failures ops = length (filter (\<lambda>(now, op). is_fail op) ops)"

definition apply_ops :: "(i64 \<times> job_op) list \<Rightarrow> job_record \<Rightarrow> job_record" where
  "apply_ops ops job = foldl (\<lambda>job (now, op). apply_op now op job) job ops"

lemma apply_ops_simps [simp]:
  "apply_ops [] job = job"
  "apply_ops (ops @ [(now, op)]) job = apply_op now op (apply_ops ops job)"
  by (simp_all add: apply_ops_def)

lemma failures_simps [simp]:
  "failures [] = 0"
  "failures (ops @ [(now, op)]) = failures ops + (if is_fail op then 1 else 0)"
  by (simp_all add: failures_def)

lemma retry_apply_op:
  "\<not> is_fail op \<Longrightarrow> job_retry (apply_op now op job) = job_retry job \<or>
     job_retry (apply_op now op job) = clear_retry_schedule (job_retry job)"
  "job_retry (apply_op now (Fail d) job) = fail_retry now (job_retry job)"
  by (cases op) (simp_all add: running_job_def progress_job_def complete_job_def fail_job_def
      cancel_job_def pause_job_def resume_job_def job_simps is_fail_def)

definition retry_after :: "nat \<Rightarrow> job_retry \<Rightarrow> bool" where
  "retry_after k r \<longleftrightarrow> rt_max_attempts r = 3 \<and> rt_backoff_base_ms r = 500 \<and>
     rt_attempt r = word_of_nat (min k 3)"

lemma retry_after_fail: "retry_after k r \<Longrightarrow> retry_after (Suc k) (fail_retry now r)"
proof -
  assume r: "retry_after k r"
  consider "k = 0" | "k = 1" | "k = 2" | "3 \<le> k" by linarith
  then show ?thesis
    by cases (use r in \<open>simp_all add: retry_after_def fail_retry_def Let_def job_simps min_def\<close>)
qed

lemma retry_after_ops: "retry_after (failures ops) (job_retry (apply_ops ops (new_job now jid name)))"
proof (induction ops rule: rev_induct)
  case Nil
  then show ?case
    by (simp add: retry_after_def new_job_def job_simps job_retry_default_def
        default_job_max_attempts_def default_job_backoff_base_ms_def)
next
  case (snoc x ops)
  obtain now' op where x: "x = (now', op)" by (cases x)
  show ?case
  proof (cases "is_fail op")
    case True
    then obtain d where "op = Fail d" by (cases op) (simp_all add: is_fail_def)
    with snoc x True show ?thesis
      by (simp add: retry_apply_op(2) retry_after_fail del: apply_op.simps)
  next
    case False
    with snoc x retry_apply_op(1) [OF False, of now' "apply_ops ops (new_job now jid name)"]
    show ?thesis by (auto simp: retry_after_def job_simps)
  qed
qed

lemma fail_schedule:
  assumes "retry_after k r"
  shows "rt_next_backoff_ms (fail_retry now r) = (if k < 3 then 500 * 2 ^ k else 0)"
    and "map_option sint (rt_next_retry_at (fail_retry now r)) =
      (if k < 3 then Some (min (sint now + (if k = 2 then 2 else 1)) (2 ^ 63 - 1)) else None)"
proof -
  have now: "- (2 ^ 63) \<le> sint now" "sint now < 2 ^ 63"
    using sint_range_size [of now] by (simp_all add: word_size)
  consider "k = 0" | "k = 1" | "k = 2" | "3 \<le> k" by linarith
  then have "rt_next_backoff_ms (fail_retry now r) = (if k < 3 then 500 * 2 ^ k else 0) \<and>
    map_option sint (rt_next_retry_at (fail_retry now r)) =
      (if k < 3 then Some (min (sint now + (if k = 2 then 2 else 1)) (2 ^ 63 - 1)) else None)"
    by cases (use assms now in \<open>simp_all add: retry_after_def fail_retry_def Let_def job_simps min_def
      deterministic_backoff_ms_def retry_delay_secs_def sat_mul_def sat_add_def sint_ssat_add smin_def
      smax_def\<close>)
  then show "rt_next_backoff_ms (fail_retry now r) = (if k < 3 then 500 * 2 ^ k else 0)"
    and "map_option sint (rt_next_retry_at (fail_retry now r)) =
      (if k < 3 then Some (min (sint now + (if k = 2 then 2 else 1)) (2 ^ 63 - 1)) else None)"
    by blast+
qed

text \<open>
  The retry schedule of a job. Whatever was done to a job before, its failures are counted and
  never forgiven: the first three are scheduled again after 500, 1000 and 2000 milliseconds, that is
  1, 1 and 2 seconds after the failure (the end of time at most), and from the fourth on there is
  no further retry.
\<close>

theorem retry_schedule_exact:
  "(let k = failures ops;
        r = job_retry (apply_ops (ops @ [(now, Fail d)]) (new_job created jid name))
    in rt_attempt r = word_of_nat (min (k + 1) 3) \<and>
       rt_next_backoff_ms r = (if k < 3 then 500 * 2 ^ k else 0) \<and>
       map_option sint (rt_next_retry_at r) =
         (if k < 3 then Some (min (sint now + (if k = 2 then 2 else 1)) (2 ^ 63 - 1)) else None))"
proof -
  let ?r = "job_retry (apply_ops ops (new_job created jid name))"
  have "retry_after (failures ops) ?r" by (rule retry_after_ops)
  moreover from this have "retry_after (Suc (failures ops)) (fail_retry now ?r)" by (rule retry_after_fail)
  ultimately show ?thesis
    by (simp add: Let_def retry_apply_op(2) fail_schedule retry_after_def [of "Suc _"] del: apply_op.simps)
qed

section \<open>The runtime and its store\<close>

inductive job_step :: "(json \<Rightarrow> string) \<Rightarrow> job_runtime \<Rightarrow> job_runtime \<Rightarrow> bool" for to_text where
  enqueue_step: "enqueue_job to_text now uuid name s = (job, s') \<Longrightarrow> job_step to_text s s'"
| op_step: "job_step to_text s (runtime_job_op to_text now op jid s)"

text \<open>A runtime on an empty store.\<close>

definition job_reachable :: "(json \<Rightarrow> string) \<Rightarrow> job_manager \<Rightarrow> job_table \<Rightarrow> bool" where
  "job_reachable to_text jm table \<longleftrightarrow> (job_step to_text)\<^sup>*\<^sup>* (bm_empty, bm_empty) (jm, table)"

definition job_row_of :: "(json \<Rightarrow> string) \<Rightarrow> job_record \<Rightarrow> job_row" where
  "job_row_of to_text job = row_of_job (job_state_of to_text job)"

definition mirrored :: "(json \<Rightarrow> string) \<Rightarrow> job_runtime \<Rightarrow> bool" where
  "mirrored to_text s \<longleftrightarrow> bm_sorted (fst s) \<and>
     list_all (\<lambda>(jid, job). job_id job = jid \<and> job_ok job) (fst s) \<and>
     snd s = map (\<lambda>(jid, job). (jid, job_row_of to_text job)) (fst s)"

lemma bm_insert_map:
  "map (\<lambda>(k, v). (k, f v)) (bm_insert k v m) = bm_insert k (f v) (map (\<lambda>(k, v). (k, f v)) m)"
  by (induction k v m rule: bm_insert.induct) auto

lemma list_all_bm_insert:
  "list_all P m \<Longrightarrow> P (k, v) \<Longrightarrow> list_all P (bm_insert k v m)"
  by (induction k v m rule: bm_insert.induct) auto

lemma mirrored_write:
  assumes "mirrored to_text (jm, table)" and "job_id job = jid" and "job_ok job"
  shows "mirrored to_text (write_through to_text jid (bm_insert jid job jm) table)"
proof -
  have "persist_job to_text (bm_insert jid job jm) jid table = bm_insert jid (job_row_of to_text job) table"
    using assms(2) by (simp add: persist_job_def upsert_job_def job_row_of_def job_state_of_def)
  with assms show ?thesis
    by (auto simp: mirrored_def write_through_def bm_insert_map intro: list_all_bm_insert)
qed

lemma mirrored_step: "job_step to_text s s' \<Longrightarrow> mirrored to_text s \<Longrightarrow> mirrored to_text s'"
proof (induction rule: job_step.induct)
  case (enqueue_step now uuid name s job s')
  obtain jm table where s: "s = (jm, table)" by (cases s)
  have "job_id (new_job now i name) = i" for i by (simp add: new_job_def job_simps)
  with enqueue_step s mirrored_write [OF _ _ job_ok_new] show ?case
    by (auto simp: job_enqueue_def Let_def)
next
  case (op_step s now op jid)
  obtain jm table where s: "s = (jm, table)" by (cases s)
  show ?case
  proof (cases "bm_get jm jid")
    case None
    with op_step s show ?thesis
      by (simp add: with_job_def write_through_def persist_job_def)
  next
    case (Some job)
    then have "(jid, job) \<in> set jm" by (simp add: bm_get_def map_of_SomeD)
    with op_step s have "job_id job = jid" "job_ok job" by (auto simp: mirrored_def list_all_iff)
    with op_step s Some show ?thesis
      by (simp add: with_job_def mirrored_write job_simps job_ok_apply_op)
  qed
qed

lemma reachable_mirrored: "job_reachable to_text jm table \<Longrightarrow> mirrored to_text (jm, table)"
proof -
  have "mirrored to_text s" if "(job_step to_text)\<^sup>*\<^sup>* (bm_empty, bm_empty) s" for s
    using that
  proof (induction rule: rtranclp_induct)
    case base
    then show ?case by (simp add: mirrored_def bm_empty_def bm_sorted_def)
  next
    case (step s s')
    then show ?case using mirrored_step by blast
  qed
  then show "job_reachable to_text jm table \<Longrightarrow> mirrored to_text (jm, table)"
    by (simp add: job_reachable_def)
qed

end
