(* ===== verification/Job_Restart.thy ===== *)
theory Job_Restart
  imports Job_Properties "HOL-Library.Countable"
begin

text \<open>
  The jobs after a restart. A job's record is encoded as JSON text in its row and decoded when the
  runtime starts; the round trip is exact, so that the rows the start-up query returns give back the
  jobs as they were.
\<close>

section \<open>Encoding and decoding one job\<close>

lemma job_status_round_trip [json_simps]: "job_status_from_str (job_status_to_str st) = Some st"
  by (cases st) (simp_all add: job_status_from_str_def)

lemma job_state_status_round_trip [json_simps]:
  "job_state_status_from_str (job_state_status_to_str st) = st"
  by (cases st) (simp_all add: job_state_status_from_str_def)

lemma json_optional_string_of [json_simps]: "json_optional_string (json_of_option JStr s) = s"
  by (cases s) (simp_all add: json_optional_string_def json_of_option_def)

lemma uint_ucast_u64: "LENGTH('a) \<le> 64 \<Longrightarrow> uint (ucast w :: u64) = uint w" for w :: "'a::len word"
proof -
  assume le: "LENGTH('a) \<le> 64"
  have "uint w < 2 ^ LENGTH('a)" by (rule uint_lt2p)
  also have "(2 :: int) ^ LENGTH('a) \<le> 2 ^ 64" using le by (rule power_increasing) simp
  finally show ?thesis by (simp add: unsigned_ucast_eq take_bit_int_eq_self)
qed

lemma ucast_u64_round_trip: "LENGTH('a) \<le> 64 \<Longrightarrow> ucast (ucast w :: u64) = w" for w :: "'a::len word"
proof -
  assume le: "LENGTH('a) \<le> 64"
  have "take_bit LENGTH('a) (uint w) = uint w"
    using uint_lt2p [of w] by (simp add: take_bit_int_eq_self)
  with uint_ucast_u64 [OF le] show ?thesis
    by (simp only: word_uint_eq_iff unsigned_ucast_eq [of "ucast w"])
qed

lemma ucast_u32_round_trip: "ucast (min (ucast w :: u64) (2 ^ 32 - 1)) = (w :: u32)"
proof -
  have "uint w < 2 ^ 32" using uint_lt2p [of w] by simp
  then have "(ucast w :: u64) \<le> 2 ^ 32 - 1" by (simp add: word_le_def uint_ucast_u64)
  then have "min (ucast w :: u64) (2 ^ 32 - 1) = ucast w" by (rule min_absorb1)
  moreover have "ucast (ucast w :: u64) = w" by (rule ucast_u64_round_trip) simp
  ultimately show ?thesis by simp
qed

lemma ucast_u8_round_trip: "ucast (min (ucast w :: u64) 255) = (w :: u8)"
proof -
  have "uint w < 2 ^ 8" using uint_lt2p [of w] by simp
  then have "(ucast w :: u64) \<le> 255" by (simp add: word_le_def uint_ucast_u64)
  then have "min (ucast w :: u64) 255 = ucast w" by (rule min_absorb1)
  moreover have "ucast (ucast w :: u64) = w" by (rule ucast_u64_round_trip) simp
  ultimately show ?thesis by simp
qed

lemma parse_retry_round_trip [json_simps]: "parse_retry_metadata (Some (job_retry_to_value r)) = r"
proof -
  have at: "json_as_i64 (json_of_option json_of_i64 x) = x" for x
    by (cases x) (simp_all add: json_simps)
  show ?thesis
    by (simp add: parse_retry_metadata_def job_retry_to_value_def json_field_def json_simps unwrap_or_def
        ucast_u32_round_trip [simplified] at)
qed

lemma parse_history_round_trip [json_simps]: "parse_history_entry (job_history_to_value h) = Some h"
proof -
  have progress: "map_option (\<lambda>p. ucast (min p 255)) (json_as_u64 (json_of_option json_of_unsigned x)) = x"
    for x :: "u8 option"
    by (cases x) (simp_all add: json_simps ucast_u8_round_trip)
  show ?thesis
    by (simp add: parse_history_entry_def job_history_to_value_def json_status_def json_field_def
        json_simps unwrap_or_def progress)
qed

lemma map_filter_round_trip: "(\<And>x. g (f x) = Some x) \<Longrightarrow> List.map_filter g (map f xs) = xs"
  by (induction xs) (simp_all add: map_filter_simps)

lemma parse_detail_round_trip:
  "from_text (to_text (job_detail_value job)) = Some (job_detail_value job) \<Longrightarrow>
     parse_persisted_detail from_text (encode_persisted_detail to_text job) =
       Some \<lparr>pj_status = job_status job, pj_detail = job_detail job, pj_retry = job_retry job,
             pj_history = job_history job\<rparr>"
  by (simp add: parse_persisted_detail_def encode_persisted_detail_def json_status_def json_field_def
      job_detail_value_def json_simps map_filter_round_trip)

lemma u8_row_round_trip: "u8_try_from (ucast p) = Some (p :: u8)"
proof -
  have lt: "uint p < 256" using uint_lt2p [of p] by simp
  then have "signed_take_bit 63 (uint p) = uint p"
    by (intro signed_take_bit_int_eq_self) (simp_all add: order_trans [OF _ uint_ge_0])
  with lt have "sint (ucast p :: i64) = uint p"
    by (simp add: sint_uint unsigned_ucast_eq take_bit_int_eq_self)
  moreover have "ucast (ucast p :: i64) = p" by (rule ucast_u64_round_trip) simp
  ultimately show ?thesis using lt by (simp add: u8_try_from_def)
qed

lemma job_of_row_of_job [simp]: "job_of_row (row_of_job js) = js"
proof -
  have "Option.bind (map_option ucast x) u8_try_from = x" for x
    by (cases x) (simp_all add: u8_row_round_trip)
  then show ?thesis by (simp add: job_of_row_def row_of_job_def json_simps)
qed

lemma load_job_round_trip:
  "from_text (to_text (job_detail_value job)) = Some (job_detail_value job) \<Longrightarrow>
     load_job from_text (job_of_row (job_row_of to_text job)) = job"
  by (simp add: load_job_def job_row_of_def job_state_of_def parse_detail_round_trip)

section \<open>The whole table\<close>

lemma bm_sorted_distinct: "bm_sorted m \<Longrightarrow> distinct (map fst m)"
  by (simp add: bm_sorted_def strict_sorted_iff)

definition start_rows :: "job_table \<Rightarrow> job_row list" where
  "start_rows table = take 500 (sort_key (\<lambda>row. - sint (row_updated_at row)) (map snd table))"

definition start_jobs :: "(string \<Rightarrow> json option) \<Rightarrow> job_table \<Rightarrow> (string \<times> job_record) list" where
  "start_jobs from_text table = map (\<lambda>row. (row_id row, load_job from_text (job_of_row row))) (start_rows table)"

lemma load_from_store_eq:
  "load_from_store from_text table bm_empty =
     foldl (\<lambda>m kv. bm_insert (fst kv) (snd kv) m) bm_empty (start_jobs from_text table)"
  by (simp add: load_from_store_def list_jobs_def start_jobs_def start_rows_def foldl_map comp_def
      job_of_row_def)

lemma distinct_start_rows: "distinct (map row_id (map snd table)) \<Longrightarrow> distinct (map row_id (start_rows table))"
proof -
  assume d: "distinct (map row_id (map snd table))"
  let ?rows = "sort_key (\<lambda>row. - sint (row_updated_at row)) (map snd table)"
  from d have "distinct (map row_id ?rows)" by (simp only: distinct_map distinct_sort set_sort)
  then have "distinct (take 500 (map row_id ?rows))" by (rule distinct_take)
  then show ?thesis by (simp only: start_rows_def take_map)
qed

lemma load_lookup:
  assumes "distinct (map row_id (map snd table))"
  shows "bm_get (load_from_store from_text table bm_empty) jid = map_of (start_jobs from_text table) jid"
    and "card (dom (bm_get (load_from_store from_text table bm_empty))) = min (length table) 500"
proof -
  have keys: "map fst (start_jobs from_text table) = map row_id (start_rows table)"
    by (simp add: start_jobs_def comp_def)
  have d: "distinct (map fst (start_jobs from_text table))"
    unfolding keys using assms by (rule distinct_start_rows)
  show get: "bm_get (load_from_store from_text table bm_empty) jid = map_of (start_jobs from_text table) jid"
    for jid
    unfolding load_from_store_eq using d by (rule bmap.lookup_collect_distinct)
  have "bm_get (load_from_store from_text table bm_empty) = map_of (start_jobs from_text table)"
    using get by (rule ext)
  then have "dom (bm_get (load_from_store from_text table bm_empty)) = set (map fst (start_jobs from_text table))"
    by (simp add: dom_map_of_conv_image_fst)
  then have "card (dom (bm_get (load_from_store from_text table bm_empty))) = length (start_jobs from_text table)"
    using d by (simp only: distinct_card length_map)
  then show "card (dom (bm_get (load_from_store from_text table bm_empty))) = min (length table) 500"
    by (simp add: start_jobs_def start_rows_def)
qed

lemma mirrored_rows:
  assumes "mirrored to_text (jm, table)"
  shows "distinct (map row_id (map snd table))" and "length table = length jm"
    and "row \<in> set (map snd table) \<Longrightarrow>
      \<exists>job. bm_get jm (row_id row) = Some job \<and> row = job_row_of to_text job"
    and "bm_get jm jid = Some job \<Longrightarrow> row_id (job_row_of to_text job) = jid \<and>
      job_row_of to_text job \<in> set (map snd table)"
proof -
  have table: "table = map (\<lambda>(jid, job). (jid, job_row_of to_text job)) jm"
    and ids: "\<And>jid job. (jid, job) \<in> set jm \<Longrightarrow> job_id job = jid"
    and sorted: "bm_sorted jm"
    using assms by (auto simp: mirrored_def list_all_iff)
  have rid: "row_id (job_row_of to_text job) = job_id job" for job
    by (simp add: job_row_of_def row_of_job_def job_state_of_def)
  have "map row_id (map snd table) = map fst jm"
    using ids by (auto simp: table rid)
  with sorted show "distinct (map row_id (map snd table))" by (simp add: bm_sorted_distinct)
  show "length table = length jm" by (simp add: table)
  show "\<exists>job. bm_get jm (row_id row) = Some job \<and> row = job_row_of to_text job"
    if "row \<in> set (map snd table)"
  proof -
    from that obtain jid job where "(jid, job) \<in> set jm" "row = job_row_of to_text job"
      by (auto simp: table)
    with ids rid bm_sorted_distinct [OF sorted] show ?thesis
      by (auto simp: bm_get_def)
  qed
  show "row_id (job_row_of to_text job) = jid \<and> job_row_of to_text job \<in> set (map snd table)"
    if "bm_get jm jid = Some job"
  proof -
    from that have "(jid, job) \<in> set jm" by (simp add: bm_get_def map_of_SomeD)
    with ids rid show ?thesis by (force simp: table)
  qed
qed

text \<open>
  C37. A restart gives the jobs back. When the text of every job parses to the value it was printed
  from, the jobs that the runtime loads from the store it has written through are exactly its jobs,
  with status, progress, detail, retry data and history, as long as there are at most 500; of more
  it loads 500, each as it was, and drops the others.
\<close>

theorem restart_restores_jobs:
  assumes "job_reachable to_text jm table"
    and "list_all (\<lambda>(jid, job). from_text (to_text (job_detail_value job)) = Some (job_detail_value job)) jm"
  shows "bm_get (load_from_store from_text table bm_empty) \<subseteq>\<^sub>m bm_get jm \<and>
    card (dom (bm_get (load_from_store from_text table bm_empty))) = min (length jm) 500 \<and>
    (length jm \<le> 500 \<longrightarrow> bm_get (load_from_store from_text table bm_empty) = bm_get jm)"
proof -
  note mirror = reachable_mirrored [OF assms(1)]
  note rows = mirrored_rows [OF mirror]
  note lookup = load_lookup [OF rows(1), of from_text]
  have parse: "from_text (to_text (job_detail_value job)) = Some (job_detail_value job)"
    if "bm_get jm jid = Some job" for jid job
    using assms(2) that by (auto simp: list_all_iff bm_get_def dest: map_of_SomeD)
  have sub: "bm_get (load_from_store from_text table bm_empty) \<subseteq>\<^sub>m bm_get jm"
  proof (unfold map_le_def, intro ballI)
    fix jid
    assume "jid \<in> dom (bm_get (load_from_store from_text table bm_empty))"
    then obtain job where loaded: "bm_get (load_from_store from_text table bm_empty) jid = Some job"
      by blast
    from loaded have "(jid, job) \<in> set (start_jobs from_text table)"
      unfolding lookup(1) by (rule map_of_SomeD)
    then obtain row where row: "row \<in> set (map snd table)" "row_id row = jid"
      "job = load_job from_text (job_of_row row)"
      by (auto simp: start_jobs_def start_rows_def dest!: in_set_takeD)
    from rows(3) [OF row(1)] row(2) obtain job' where
      "bm_get jm jid = Some job'" "row = job_row_of to_text job'" by blast
    with row(3) load_job_round_trip [of from_text to_text job', OF parse] show "bm_get (load_from_store from_text table bm_empty) jid = bm_get jm jid"
      by (simp add: loaded)
  qed
  moreover have "bm_get (load_from_store from_text table bm_empty) = bm_get jm" if le: "length jm \<le> 500"
  proof -
    have rows_all: "set (start_rows table) = set (map snd table)"
      using le rows(2) by (simp add: start_rows_def)
    have "dom (bm_get jm) \<subseteq> dom (bm_get (load_from_store from_text table bm_empty))"
    proof
      fix jid
      assume "jid \<in> dom (bm_get jm)"
      then obtain job where "bm_get jm jid = Some job" by blast
      from rows(4) [OF this] rows_all have "jid \<in> row_id ` set (start_rows table)" by blast
      then have "map_of (start_jobs from_text table) jid \<noteq> None"
        by (auto simp: start_jobs_def map_of_eq_None_iff image_image)
      then show "jid \<in> dom (bm_get (load_from_store from_text table bm_empty))"
        by (simp add: lookup(1) domIff)
    qed
    with sub show ?thesis by (metis map_le_antisym map_le_def subsetD)
  qed
  ultimately show ?thesis using lookup(2) rows(2) by (simp add: min.commute)
qed

section \<open>Runtimes on a store\<close>

text \<open>A runtime loads the jobs of its store when it starts; after that it enqueues jobs, changes them, and may
  start again on the store it has written. The store may hold rows of older versions.\<close>

inductive job_life :: "(json \<Rightarrow> string) \<Rightarrow> (string \<Rightarrow> json option) \<Rightarrow> job_table \<Rightarrow> job_runtime \<Rightarrow> bool"
  for to_text from_text table0 where
  first_start: "job_life to_text from_text table0 (load_from_store from_text table0 bm_empty, table0)"
| enqueues: "job_life to_text from_text table0 s \<Longrightarrow> enqueue_job to_text now uuid name s = (job, s')
    \<Longrightarrow> job_life to_text from_text table0 s'"
| changes: "job_life to_text from_text table0 s \<Longrightarrow> job_life to_text from_text table0 (runtime_job_op to_text now op jid s)"
| restarts: "job_life to_text from_text table0 (jm, table)
    \<Longrightarrow> job_life to_text from_text table0 (load_from_store from_text table bm_empty, table)"

text \<open>What holds of every job, those of older versions included, which may have no history and no progress.\<close>

definition job_sound :: "job_record \<Rightarrow> bool" where
  "job_sound job \<longleftrightarrow> length (job_history job) \<le> 64
     \<and> (job_history job \<noteq> [] \<longrightarrow> (\<exists>phase. last (job_history job) = snapshot phase job))
     \<and> (case job_progress job of None \<Rightarrow> True | Some p \<Rightarrow> p \<le> 100)
     \<and> retry_ok (job_retry job)
     \<and> (rt_next_retry_at (job_retry job) \<noteq> None \<longrightarrow> job_status job = JFailed \<or> job_status job = JPaused)"

lemma job_ok_sound: "job_ok job \<longleftrightarrow> job_sound job \<and> job_history job \<noteq> [] \<and> job_progress job \<noteq> None"
  by (auto simp: job_ok_def job_sound_def split: option.splits)

text \<open>A row of an older version, whose detail is plain text.\<close>

lemma legacy_row_sound:
  assumes "parse_persisted_detail from_text (row_detail row) = None"
    and "case row_progress row of None \<Rightarrow> True | Some p \<Rightarrow> 0 \<le> sint p \<and> sint p \<le> 100"
  shows "job_sound (load_job from_text (job_of_row row))"
proof -
  have u: "(ucast p :: u8) \<le> 100" if "0 \<le> sint p" "sint p \<le> 100" for p :: i64
  proof -
    have "uint p = sint p" unfolding uint_sint using that by (intro take_bit_int_eq_self) simp_all
    with that have "uint (ucast p :: u8) = sint p" by (simp add: unsigned_ucast_eq take_bit_int_eq_self)
    with that show ?thesis by (simp add: word_le_def)
  qed
  have "case Option.bind (row_progress row) u8_try_from of None \<Rightarrow> True | Some p \<Rightarrow> p \<le> 100"
    using assms(2) u by (cases "row_progress row") (auto simp: u8_try_from_def split: option.split)
  then show ?thesis
    using assms(1) by (simp add: job_sound_def load_job_def job_of_row_def retry_ok_default)
      (simp add: job_retry_default_def)
qed

text \<open>Where a job comes from, and what was done to it since.\<close>

definition created_job :: "job_record \<Rightarrow> bool" where
  "created_job j0 \<longleftrightarrow> (\<exists>now uuid name. j0 = new_job now (''job-'' @ uuid) name)"

definition stored_job :: "(string \<Rightarrow> json option) \<Rightarrow> job_table \<Rightarrow> job_record \<Rightarrow> bool" where
  "stored_job from_text table0 j0 \<longleftrightarrow> (\<exists>row \<in> set (map snd table0). j0 = load_job from_text (job_of_row row))"

fun keeps_schedule :: "job_op \<Rightarrow> bool" where
  "keeps_schedule (UpdateProgress _ _) = True"
| "keeps_schedule (Pause _) = True"
| "keeps_schedule _ = False"

text \<open>The retry that is scheduled is that of the last failure, and since then there was progress or a pause only;
  or the job was stored with it.\<close>

definition schedule_from :: "(i64 \<times> job_op) list \<Rightarrow> job_record \<Rightarrow> bool" where
  "schedule_from ops j0 \<longleftrightarrow>
     (\<exists>before now d since. ops = before @ (now, Fail d) # since \<and> list_all (\<lambda>(_, op). keeps_schedule op) since
        \<and> job_retry (apply_ops ops j0) = fail_retry now (job_retry (apply_ops before j0)))
     \<or> list_all (\<lambda>(_, op). keeps_schedule op) ops \<and> job_retry (apply_ops ops j0) = job_retry j0
        \<and> rt_next_retry_at (job_retry j0) \<noteq> None"

lemma retry_kept: "keeps_schedule op \<Longrightarrow> job_retry (apply_op now op job) = job_retry job"
  by (cases op) (simp_all add: progress_job_def pause_job_def job_simps)

lemma retry_cleared:
  "\<not> keeps_schedule op \<Longrightarrow> \<not> is_fail op \<Longrightarrow> rt_next_retry_at (job_retry (apply_op now op job)) = None"
  by (cases op) (simp_all add: is_fail_def running_job_def complete_job_def cancel_job_def resume_job_def job_simps)

lemma scheduled_after_failure:
  "rt_next_retry_at (job_retry (apply_ops ops j0)) \<noteq> None \<Longrightarrow> schedule_from ops j0"
proof (induction ops rule: rev_induct)
  case Nil
  then show ?case by (simp add: schedule_from_def)
next
  case (snoc x ops)
  obtain now op where x: "x = (now, op)" by (cases x)
  consider "keeps_schedule op" | d where "op = Fail d" | "\<not> keeps_schedule op" "\<not> is_fail op"
    by (cases op) (simp_all add: is_fail_def)
  then show ?case
  proof cases
    case 1
    then have r: "job_retry (apply_ops (ops @ [x]) j0) = job_retry (apply_ops ops j0)" by (simp add: x retry_kept)
    with snoc have "schedule_from ops j0" by simp
    then consider before n d since where "ops = before @ (n, Fail d) # since" "list_all (\<lambda>(_, op). keeps_schedule op) since"
        "job_retry (apply_ops ops j0) = fail_retry n (job_retry (apply_ops before j0))"
      | "list_all (\<lambda>(_, op). keeps_schedule op) ops" "job_retry (apply_ops ops j0) = job_retry j0"
        "rt_next_retry_at (job_retry j0) \<noteq> None"
      unfolding schedule_from_def by blast
    then show ?thesis
    proof cases
      case (1 before n d since)
      then have "ops @ [x] = before @ (n, Fail d) # (since @ [x])" "list_all (\<lambda>(_, op). keeps_schedule op) (since @ [x])"
        using \<open>keeps_schedule op\<close> by (simp_all add: x)
      then show ?thesis unfolding schedule_from_def r using 1(3) by blast
    next
      case 2
      then show ?thesis unfolding schedule_from_def r using \<open>keeps_schedule op\<close> by (simp add: x)
    qed
  next
    case (2 d)
    then have "job_retry (apply_ops (ops @ [x]) j0) = fail_retry now (job_retry (apply_ops ops j0))"
      by (simp add: x retry_apply_op(2) del: apply_op.simps)
    with 2 show ?thesis unfolding schedule_from_def x by (intro disjI1 exI [of _ ops] exI [of _ now] exI [of _ d] exI [of _ "[]"]) simp
  next
    case 3
    with snoc.prems show ?thesis by (simp add: x retry_cleared)
  qed
qed

section \<open>Every job of every runtime\<close>

lemma push_sound:
  "job_sound (push_history phase job) \<longleftrightarrow>
     (case job_progress job of None \<Rightarrow> True | Some p \<Rightarrow> p \<le> 100) \<and> retry_ok (job_retry job)
     \<and> (rt_next_retry_at (job_retry job) \<noteq> None \<longrightarrow> job_status job = JFailed \<or> job_status job = JPaused)"
  by (auto simp: job_sound_def job_simps push_history_length)

lemma sound_apply_op: "job_sound job \<Longrightarrow> job_sound (apply_op now op job)"
proof -
  assume "job_sound job"
  then have "case job_progress job of None \<Rightarrow> True | Some p \<Rightarrow> p \<le> 100" "retry_ok (job_retry job)"
    "rt_next_retry_at (job_retry job) \<noteq> None \<longrightarrow> job_status job = JFailed \<or> job_status job = JPaused"
    by (simp_all add: job_sound_def)
  then show ?thesis
    by (cases op) (simp_all add: running_job_def progress_job_def complete_job_def fail_job_def
        cancel_job_def pause_job_def resume_job_def push_sound retry_ok_clear retry_ok_fail job_simps)
qed

text \<open>What the runtime knows of a job with an identifier.\<close>

definition job_known :: "(string \<Rightarrow> json option) \<Rightarrow> job_table \<Rightarrow> string \<Rightarrow> job_record \<Rightarrow> bool" where
  "job_known from_text table0 jid job \<longleftrightarrow> job_id job = jid \<and> job_sound job
     \<and> (\<exists>j0 ops. job = apply_ops ops j0 \<and> (created_job j0 \<and> job_ok job \<or> stored_job from_text table0 j0))"

lemma known_new: "job_known from_text table0 (''job-'' @ uuid) (new_job now (''job-'' @ uuid) name)"
proof -
  let ?job = "new_job now (''job-'' @ uuid) name"
  have "?job = apply_ops [] ?job" "created_job ?job" "job_id ?job = ''job-'' @ uuid"
    unfolding created_job_def by (blast | simp add: new_job_def job_simps)+
  with job_ok_new [of now "''job-'' @ uuid" name] show ?thesis unfolding job_known_def job_ok_sound by blast
qed

lemma known_apply_op: "job_known from_text table0 jid job \<Longrightarrow> job_known from_text table0 jid (apply_op now op job)"
proof -
  assume k: "job_known from_text table0 jid job"
  then obtain j0 ops where j: "job = apply_ops ops j0" "created_job j0 \<and> job_ok job \<or> stored_job from_text table0 j0"
    unfolding job_known_def by blast
  have "apply_op now op job = apply_ops (ops @ [(now, op)]) j0" by (simp add: j(1))
  with j(2) have "\<exists>j0 ops. apply_op now op job = apply_ops ops j0
      \<and> (created_job j0 \<and> job_ok (apply_op now op job) \<or> stored_job from_text table0 j0)"
    using job_ok_apply_op by blast
  with k show ?thesis by (simp add: job_known_def sound_apply_op job_simps)
qed

text \<open>All jobs in memory, and all that the rows of the store give when they are loaded.\<close>

definition all_known :: "(string \<Rightarrow> json option) \<Rightarrow> job_table \<Rightarrow> job_runtime \<Rightarrow> bool" where
  "all_known from_text table0 s \<longleftrightarrow>
     list_all (\<lambda>(jid, job). job_known from_text table0 jid job) (fst s)
     \<and> list_all (\<lambda>(jid, row). job_known from_text table0 (row_id row) (load_job from_text (job_of_row row))) (snd s)"

lemma known_loaded:
  assumes "list_all (\<lambda>(jid, row). job_known from_text table0 (row_id row) (load_job from_text (job_of_row row))) table"
  shows "list_all (\<lambda>(jid, job). job_known from_text table0 jid job) (load_from_store from_text table bm_empty)"
proof -
  have "list_all (\<lambda>(jid, job). job_known from_text table0 jid job) (start_jobs from_text table)"
    using assms by (force simp: start_jobs_def start_rows_def list_all_iff dest!: in_set_takeD)
  moreover have "list_all P (foldl (\<lambda>m kv. bm_insert (fst kv) (snd kv) m) m kvs)"
    if "list_all P kvs" "list_all P m" for P :: "string \<times> job_record \<Rightarrow> bool" and m kvs
    using that by (induction kvs arbitrary: m) (simp_all add: list_all_bm_insert)
  ultimately show ?thesis unfolding load_from_store_eq by (simp add: bm_empty_def)
qed

lemma known_write:
  assumes "all_known from_text table0 (jm, table)" and "job_known from_text table0 jid job"
    and "from_text (to_text (job_detail_value job)) = Some (job_detail_value job)"
  shows "all_known from_text table0 (write_through to_text jid (bm_insert jid job jm) table)"
proof -
  have jid: "job_id job = jid" using assms(2) by (simp add: job_known_def)
  have "persist_job to_text (bm_insert jid job jm) jid table = bm_insert jid (job_row_of to_text job) table"
    using jid by (simp add: persist_job_def upsert_job_def job_row_of_def job_state_of_def)
  moreover have "row_id (job_row_of to_text job) = jid"
    using jid by (simp add: job_row_of_def row_of_job_def job_state_of_def)
  ultimately show ?thesis
    using assms by (auto simp: all_known_def write_through_def load_job_round_trip intro: list_all_bm_insert)
qed

text \<open>A store whose rows load to sound jobs, such as those a runtime wrote and those of older versions.\<close>

definition store_sound :: "(string \<Rightarrow> json option) \<Rightarrow> job_table \<Rightarrow> bool" where
  "store_sound from_text table0 \<longleftrightarrow> list_all (\<lambda>(jid, row). job_sound (load_job from_text (job_of_row row))) table0"

lemma load_job_id: "job_id (load_job from_text (job_of_row row)) = row_id row"
  by (simp add: load_job_def job_of_row_def split: option.split)

lemma known_stored:
  assumes "store_sound from_text table0" and "(jid, row) \<in> set table0"
  shows "job_known from_text table0 (row_id row) (load_job from_text (job_of_row row))"
proof -
  let ?job = "load_job from_text (job_of_row row)"
  have "stored_job from_text table0 ?job" using assms(2) by (force simp: stored_job_def)
  moreover have "?job = apply_ops [] ?job" by simp
  moreover have "job_sound ?job" using assms by (auto simp: store_sound_def list_all_iff)
  ultimately show ?thesis unfolding job_known_def load_job_id by blast
qed

lemma life_known:
  assumes "\<And>job. from_text (to_text (job_detail_value job)) = Some (job_detail_value job)"
    and "store_sound from_text table0"
  shows "job_life to_text from_text table0 s \<Longrightarrow> all_known from_text table0 s"
proof (induction rule: job_life.induct)
  case first_start
  have "list_all (\<lambda>(jid, row). job_known from_text table0 (row_id row) (load_job from_text (job_of_row row))) table0"
    using known_stored [OF assms(2)] by (auto simp: list_all_iff)
  then show ?case by (simp add: all_known_def known_loaded)
next
  case (enqueues s now uuid name job s')
  obtain jm table where s: "s = (jm, table)" by (cases s)
  have "all_known from_text table0 (write_through to_text (''job-'' @ uuid)
      (bm_insert (''job-'' @ uuid) (new_job now (''job-'' @ uuid) name) jm) table)"
    using enqueues.IH unfolding s by (rule known_write) (rule known_new, rule assms(1))
  moreover have "job_id (new_job now i name) = i" for i by (simp add: new_job_def job_simps)
  ultimately show ?case using enqueues.hyps(2) by (auto simp: s job_enqueue_def Let_def)
next
  case (changes s now op jid)
  obtain jm table where s: "s = (jm, table)" by (cases s)
  show ?case
  proof (cases "bm_get jm jid")
    case None
    with changes.IH s show ?thesis by (simp add: with_job_def write_through_def persist_job_def)
  next
    case (Some job)
    then have "(jid, job) \<in> set jm" by (simp add: bm_get_def map_of_SomeD)
    with changes.IH s have k: "job_known from_text table0 jid job" by (auto simp: all_known_def list_all_iff)
    have "all_known from_text table0 (write_through to_text jid (bm_insert jid (apply_op now op job) jm) table)"
      using changes.IH unfolding s
      by (rule known_write) (rule known_apply_op [OF k], rule assms(1))
    with s Some show ?thesis by (simp add: with_job_def)
  qed
next
  case (restarts jm table)
  then show ?case by (simp add: all_known_def known_loaded)
qed

text \<open>
  C38. Every job of a runtime is well formed, whatever sound store it was started on, after any enqueued jobs,
  changes and restarts, when the text of a job parses to what was printed. It is a job that was enqueued or one
  that a row of the first store loads to, changed by some operations. Its history has at most 64 entries, the
  last of which, if there is one, is its present state; its progress is at most 100; it has no more attempts
  than allowed; and a retry is scheduled only for a failed or paused job and only by a failure: it is the retry
  that the last failure set, after which there was nothing but progress or pauses, or the one the first store
  had. A job that was enqueued always has a history and a progress; a row of an older version
  (\<open>legacy_row_sound\<close>) has no history until its first change.
\<close>

theorem job_records_well_formed:
  assumes "\<And>job. from_text (to_text (job_detail_value job)) = Some (job_detail_value job)"
    and "store_sound from_text table0"
    and "job_life to_text from_text table0 (jm, table)" and "bm_get jm jid = Some job"
  shows "job_id job = jid \<and> job_sound job
    \<and> (\<exists>j0 ops. job = apply_ops ops j0 \<and> (created_job j0 \<and> job_ok job \<or> stored_job from_text table0 j0)
        \<and> (rt_next_retry_at (job_retry job) \<noteq> None \<longrightarrow> schedule_from ops j0))"
proof -
  have "(jid, job) \<in> set jm" using assms(4) by (simp add: bm_get_def map_of_SomeD)
  then have k: "job_known from_text table0 jid job"
    using life_known [OF assms(1-3)] by (auto simp: all_known_def list_all_iff)
  then obtain j0 ops where j: "job = apply_ops ops j0" "created_job j0 \<and> job_ok job \<or> stored_job from_text table0 j0"
    unfolding job_known_def by blast
  have "rt_next_retry_at (job_retry job) \<noteq> None \<longrightarrow> schedule_from ops j0"
    unfolding j(1) using scheduled_after_failure by blast
  with j k show ?thesis unfolding job_known_def by blast
qed

section \<open>A concrete runtime\<close>

text \<open>One job, enqueued and failed once; the printer keeps only that it printed, the parser knows
  the one value that was.\<close>

definition demo_text :: "json \<Rightarrow> string" where
  "demo_text v = ''json''"

definition demo_jobs :: job_runtime where
  "demo_jobs = runtime_job_op demo_text 7 (Fail ''no space'') ''job-u''
     (snd (enqueue_job demo_text 5 ''u'' ''build'' (bm_empty, bm_empty)))"

lemma demo_jobs_fst: "fst demo_jobs = [(''job-u'', fail_job 7 ''no space'' (new_job 5 ''job-u'' ''build''))]"
  by (simp add: demo_jobs_def write_through_def job_enqueue_def Let_def with_job_def bm_get_def bm_empty_def)

lemma demo_jobs_reachable: "job_reachable demo_text (fst demo_jobs) (snd demo_jobs)"
proof -
  let ?s = "snd (enqueue_job demo_text 5 ''u'' ''build'' (bm_empty, bm_empty))"
  have "job_step demo_text (bm_empty, bm_empty) ?s" by (rule enqueue_step) (rule prod.collapse [symmetric])
  moreover have "job_step demo_text ?s demo_jobs" unfolding demo_jobs_def by (rule op_step)
  ultimately show ?thesis
    by (simp add: job_reachable_def converse_rtranclp_into_rtranclp r_into_rtranclp)
qed

theorem restart_restores_jobs_witness:
  "bm_get (load_from_store
      (\<lambda>_. Some (job_detail_value (fail_job 7 ''no space'' (new_job 5 ''job-u'' ''build''))))
      (snd demo_jobs) bm_empty) ''job-u'' = Some (fail_job 7 ''no space'' (new_job 5 ''job-u'' ''build''))"
proof -
  let ?job = "fail_job 7 ''no space'' (new_job 5 ''job-u'' ''build'')"
  have "list_all (\<lambda>(jid, job). (\<lambda>_. Some (job_detail_value ?job)) (demo_text (job_detail_value job))
      = Some (job_detail_value job)) (fst demo_jobs)"
    by (simp add: demo_jobs_fst)
  from restart_restores_jobs [OF demo_jobs_reachable this] show ?thesis
    by (simp add: demo_jobs_fst bm_get_def)
qed

text \<open>A printer that writes a value as a number in unary, a parser that reads only such text, and a store with one
  row of an older version: the job of the row is failed, and the runtime starts again.\<close>

instance json :: countable
  by countable_datatype

definition unary_text :: "json \<Rightarrow> string" where
  "unary_text v = replicate (to_nat v) CHR ''i''"

definition unary_parse :: "string \<Rightarrow> json option" where
  "unary_parse s = (if list_all (\<lambda>c. c = CHR ''i'') s then Some (from_nat (length s)) else None)"

lemma unary_round_trip: "unary_parse (unary_text v) = Some v"
  by (simp add: unary_parse_def unary_text_def list_all_iff)

definition old_row :: job_row where
  "old_row = \<lparr>row_id = ''job-o'', row_name = ''build'', row_status = ''running'', row_progress = None,
     row_detail = Some ''compiling'', row_created_at = 1, row_updated_at = 2\<rparr>"

definition old_job :: job_record where
  "old_job = load_job unary_parse (job_of_row old_row)"

definition old_runtime :: job_runtime where
  "old_runtime = runtime_job_op unary_text 7 (Fail ''no space'') ''job-o''
     (load_from_store unary_parse [(''job-o'', old_row)] bm_empty, [(''job-o'', old_row)])"

lemma old_row_sound: "store_sound unary_parse [(''job-o'', old_row)]"
proof -
  have "parse_persisted_detail unary_parse (row_detail old_row) = None"
    by (simp add: parse_persisted_detail_def old_row_def unary_parse_def)
  then have "job_sound (load_job unary_parse (job_of_row old_row))"
    by (rule legacy_row_sound) (simp add: old_row_def)
  then show ?thesis by (simp add: store_sound_def)
qed

lemma old_fields:
  "job_id old_job = ''job-o''" "job_history old_job = []" "job_progress old_job = None"
  by (simp_all add: old_job_def load_job_def parse_persisted_detail_def job_of_row_def old_row_def unary_parse_def)

lemma old_loaded: "load_from_store unary_parse [(''job-o'', old_row)] bm_empty = [(''job-o'', old_job)]"
  unfolding load_from_store_eq unfolding start_jobs_def start_rows_def old_job_def bm_empty_def by (simp add: old_row_def)

lemma old_runtime_eq:
  "old_runtime = ([(''job-o'', fail_job 7 ''no space'' old_job)],
     [(''job-o'', job_row_of unary_text (fail_job 7 ''no space'' old_job))])"
  by (simp add: old_runtime_def old_loaded with_job_def bm_get_def write_through_def persist_job_def upsert_job_def
      job_row_of_def job_state_of_def fail_job_def job_simps old_fields)

theorem job_records_well_formed_witness:
  "job_sound (fail_job 7 ''no space'' old_job) \<and> rt_next_retry_at (job_retry (fail_job 7 ''no space'' old_job)) \<noteq> None
   \<and> (\<exists>j0 ops. fail_job 7 ''no space'' old_job = apply_ops ops j0 \<and> schedule_from ops j0)"
proof -
  let ?job = "fail_job 7 ''no space'' old_job"
  have life: "job_life unary_text unary_parse [(''job-o'', old_row)] old_runtime"
    unfolding old_runtime_def by (intro job_life.changes job_life.first_start)
  then have "job_life unary_text unary_parse [(''job-o'', old_row)]
      (load_from_store unary_parse (snd old_runtime) bm_empty, snd old_runtime)"
    by (intro job_life.restarts [of _ _ _ "fst old_runtime"]) simp
  moreover have "bm_get (load_from_store unary_parse (snd old_runtime) bm_empty) ''job-o'' = Some ?job"
  proof -
    have "load_job unary_parse (job_of_row (job_row_of unary_text ?job)) = ?job"
      by (rule load_job_round_trip) (rule unary_round_trip)
    moreover have "row_id (job_row_of unary_text ?job) = ''job-o''"
      by (simp add: job_row_of_def row_of_job_def job_state_of_def fail_job_def job_simps old_fields)
    ultimately show ?thesis
      unfolding old_runtime_eq load_from_store_eq unfolding start_jobs_def start_rows_def bm_empty_def bm_get_def by simp
  qed
  ultimately have w: "job_id ?job = ''job-o'' \<and> job_sound ?job
    \<and> (\<exists>j0 ops. ?job = apply_ops ops j0
        \<and> (created_job j0 \<and> job_ok ?job \<or> stored_job unary_parse [(''job-o'', old_row)] j0)
        \<and> (rt_next_retry_at (job_retry ?job) \<noteq> None \<longrightarrow> schedule_from ops j0))"
    by (rule job_records_well_formed [OF unary_round_trip old_row_sound])
  have "job_retry old_job = job_retry_default"
    by (simp add: old_job_def load_job_def parse_persisted_detail_def job_of_row_def old_row_def unary_parse_def)
  then have "rt_next_retry_at (job_retry ?job) \<noteq> None"
    by (simp add: fail_job_def job_simps fail_retry_def job_retry_default_def default_job_max_attempts_def Let_def)
  with w show ?thesis by blast
qed

end
