(* ===== verification/Ip_Addr.thy ===== *)
theory Ip_Addr
  imports Prelude
begin

text \<open>
  IP addresses as the standard library has them: the predicates of \<open>Ipv4Addr\<close> and \<open>Ipv6Addr\<close> the
  program calls, and the parser behind \<open>parse::<IpAddr>()\<close>, which reads four decimal numbers, or
  groups of hexadecimal digits with one \<open>::\<close> and possibly a trailing dotted address.
\<close>

type_synonym ipv4 = "32 word"
type_synonym ipv6 = "128 word"

datatype ip_addr = V4 ipv4 | V6 ipv6

section \<open>Predicates\<close>

definition v4_octet :: "nat \<Rightarrow> ipv4 \<Rightarrow> nat" where
  "v4_octet i a = unat (drop_bit (8 * (3 - i)) a AND 255)"

definition v4_new :: "nat \<Rightarrow> nat \<Rightarrow> nat \<Rightarrow> nat \<Rightarrow> ipv4" where
  "v4_new a b c d = word_of_nat (((a * 256 + b) * 256 + c) * 256 + d)"

definition v4_is_loopback :: "ipv4 \<Rightarrow> bool" where
  "v4_is_loopback a \<longleftrightarrow> v4_octet 0 a = 127"

definition v4_is_private :: "ipv4 \<Rightarrow> bool" where
  "v4_is_private a \<longleftrightarrow> v4_octet 0 a = 10
     \<or> v4_octet 0 a = 172 \<and> 16 \<le> v4_octet 1 a \<and> v4_octet 1 a \<le> 31
     \<or> v4_octet 0 a = 192 \<and> v4_octet 1 a = 168"

definition v4_is_link_local :: "ipv4 \<Rightarrow> bool" where
  "v4_is_link_local a \<longleftrightarrow> v4_octet 0 a = 169 \<and> v4_octet 1 a = 254"

definition v4_is_multicast :: "ipv4 \<Rightarrow> bool" where
  "v4_is_multicast a \<longleftrightarrow> 224 \<le> v4_octet 0 a \<and> v4_octet 0 a \<le> 239"

definition v4_is_broadcast :: "ipv4 \<Rightarrow> bool" where
  "v4_is_broadcast a \<longleftrightarrow> a = - 1"

definition v4_is_unspecified :: "ipv4 \<Rightarrow> bool" where
  "v4_is_unspecified a \<longleftrightarrow> a = 0"

definition v6_segment0 :: "ipv6 \<Rightarrow> nat" where
  "v6_segment0 a = unat (drop_bit 112 a)"

definition v6_is_unspecified :: "ipv6 \<Rightarrow> bool" where
  "v6_is_unspecified a \<longleftrightarrow> a = 0"

definition v6_is_loopback :: "ipv6 \<Rightarrow> bool" where
  "v6_is_loopback a \<longleftrightarrow> a = 1"

definition v6_is_multicast :: "ipv6 \<Rightarrow> bool" where
  "v6_is_multicast a \<longleftrightarrow> unat (drop_bit 120 a) = 255"

text \<open>The first ten octets are zero and the next two are \<open>0xff\<close>.\<close>

definition v6_is_mapped :: "ipv6 \<Rightarrow> bool" where
  "v6_is_mapped a \<longleftrightarrow> drop_bit 32 a = 65535"

definition v6_to_ipv4_mapped :: "ipv6 \<Rightarrow> ipv4 option" where
  "v6_to_ipv4_mapped a = (if v6_is_mapped a then Some (ucast a) else None)"

section \<open>Parsing\<close>

definition digit_value :: "char \<Rightarrow> nat option" where
  "digit_value c = (let n = (of_char c :: nat) in
     if 48 \<le> n \<and> n \<le> 57 then Some (n - 48)
     else if 97 \<le> n \<and> n \<le> 102 then Some (n - 87)
     else if 65 \<le> n \<and> n \<le> 70 then Some (n - 55)
     else None)"

definition is_digit :: "nat \<Rightarrow> char \<Rightarrow> bool" where
  "is_digit radix c = (case digit_value c of None \<Rightarrow> False | Some v \<Rightarrow> v < radix)"

fun digits_value :: "nat \<Rightarrow> string \<Rightarrow> nat \<Rightarrow> nat" where
  "digits_value radix [] acc = acc"
| "digits_value radix (c # cs) acc =
     digits_value radix cs (acc * radix + (case digit_value c of None \<Rightarrow> 0 | Some v \<Rightarrow> v))"

text \<open>\<open>read_number\<close>: at most \<open>max_digits\<close> digits, a value of at most \<open>bound\<close>.\<close>

definition read_number :: "nat \<Rightarrow> nat \<Rightarrow> bool \<Rightarrow> nat \<Rightarrow> string \<Rightarrow> (nat \<times> string) option" where
  "read_number radix max_digits allow_zero_prefix bound s =
     (let ds = takeWhile (is_digit radix) s; v = digits_value radix ds 0
      in if ds = [] \<or> max_digits < length ds \<or> bound < v
            \<or> (\<not> allow_zero_prefix \<and> hd ds = CHR ''0'' \<and> 1 < length ds)
         then None else Some (v, drop (length ds) s))"

definition read_separator :: "char \<Rightarrow> bool \<Rightarrow> (string \<Rightarrow> ('a \<times> string) option) \<Rightarrow> string \<Rightarrow> ('a \<times> string) option" where
  "read_separator sep first inner s =
     (if first then inner s
      else case s of [] \<Rightarrow> None | c # cs \<Rightarrow> if c = sep then inner cs else None)"

definition read_octet :: "bool \<Rightarrow> string \<Rightarrow> (nat \<times> string) option" where
  "read_octet first = read_separator (CHR ''.'') first (read_number 10 3 False 255)"

definition read_ipv4_addr :: "string \<Rightarrow> (ipv4 \<times> string) option" where
  "read_ipv4_addr s =
     (case read_octet True s of None \<Rightarrow> None | Some (a, s1) \<Rightarrow>
     (case read_octet False s1 of None \<Rightarrow> None | Some (b, s2) \<Rightarrow>
     (case read_octet False s2 of None \<Rightarrow> None | Some (c, s3) \<Rightarrow>
     (case read_octet False s3 of None \<Rightarrow> None | Some (d, s4) \<Rightarrow> Some (v4_new a b c d, s4)))))"

text \<open>\<open>read_groups\<close>: the groups read, whether they end in a dotted address, and the rest; the first
  argument is the number of groups that may still be read.\<close>

fun read_groups :: "nat \<Rightarrow> bool \<Rightarrow> string \<Rightarrow> nat list \<times> bool \<times> string" where
  "read_groups 0 first s = ([], False, s)"
| "read_groups (Suc n) first s =
     (case (if 0 < n then read_separator (CHR '':'') first read_ipv4_addr s else None) of
        Some (a, rest) \<Rightarrow> ([unat (drop_bit 16 a), unat (a AND 65535)], True, rest)
      | None \<Rightarrow>
          (case read_separator (CHR '':'') first (read_number 16 4 True 65535) s of
             None \<Rightarrow> ([], False, s)
           | Some (g, rest) \<Rightarrow>
               (case read_groups n False rest of (gs, v4, rest') \<Rightarrow> (g # gs, v4, rest'))))"

definition v6_of_groups :: "nat list \<Rightarrow> ipv6" where
  "v6_of_groups gs = word_of_nat (foldl (\<lambda>acc g. acc * 65536 + g) 0 gs)"

definition read_ipv6_addr :: "string \<Rightarrow> (ipv6 \<times> string) option" where
  "read_ipv6_addr s =
     (case read_groups 8 True s of (head, head_v4, rest) \<Rightarrow>
        if length head = 8 then Some (v6_of_groups head, rest)
        else if head_v4 then None
        else case strip_prefix ''::'' rest of None \<Rightarrow> None
             | Some rest1 \<Rightarrow>
                 (case read_groups (7 - length head) True rest1 of (tail, _, rest2) \<Rightarrow>
                    Some (v6_of_groups (head @ replicate (8 - length head - length tail) 0 @ tail), rest2)))"

definition parse_ipv4 :: "string \<Rightarrow> ipv4 option" where
  "parse_ipv4 s = (case read_ipv4_addr s of Some (a, []) \<Rightarrow> Some a | _ \<Rightarrow> None)"

definition parse_ip_addr :: "string \<Rightarrow> ip_addr option" where
  "parse_ip_addr s =
     (case read_ipv4_addr s of
        Some (a, rest) \<Rightarrow> if rest = [] then Some (V4 a) else None
      | None \<Rightarrow>
          (case read_ipv6_addr s of Some (a, []) \<Rightarrow> Some (V6 a) | _ \<Rightarrow> None))"

text \<open>\<open>parse::<u8>()\<close>: digits after an optional plus sign.\<close>

definition parse_u8 :: "string \<Rightarrow> u8 option" where
  "parse_u8 s =
     (let ds = (case s of c # cs \<Rightarrow> if c = CHR ''+'' then cs else s | [] \<Rightarrow> []); v = digits_value 10 ds 0
      in if ds \<noteq> [] \<and> list_all (is_digit 10) ds \<and> v \<le> 255 then Some (word_of_nat v) else None)"

end
