(* ===== verification/Network_Policy.thy ===== *)
theory Network_Policy
  imports Ip_Addr
begin

text \<open>
  The per-domain network policy (\<open>crates/tui/src/network_policy.rs\<close>): host rules, the session cache,
  the audit log and the decider that tools ask before a request, with its configuration
  (\<open>NetworkPolicyToml\<close> in \<open>crates/tui/src/config.rs\<close>). The audit file is the list of lines written,
  without their time stamps; a failed write and a poisoned lock are not modelled.
\<close>

section \<open>Policy\<close>

datatype decision = Allow | Deny | Prompt

fun decision_as_str :: "decision \<Rightarrow> string" where
  "decision_as_str Allow = ''Allow''"
| "decision_as_str Deny = ''Deny''"
| "decision_as_str Prompt = ''Prompt''"

definition decision_parse :: "string \<Rightarrow> decision" where
  "decision_parse v =
     (let s = to_ascii_lowercase (trim v)
      in if s = ''allow'' then Allow
         else if s = ''deny'' \<or> s = ''block'' then Deny
         else Prompt)"

text \<open>\<open>DecisionToml\<close> has the same three constructors and the two conversions are the identity on them.\<close>

datatype decision_toml = TomlAllow | TomlDeny | TomlPrompt

fun decision_of_toml :: "decision_toml \<Rightarrow> decision" where
  "decision_of_toml TomlAllow = Allow"
| "decision_of_toml TomlDeny = Deny"
| "decision_of_toml TomlPrompt = Prompt"

fun toml_of_decision :: "decision \<Rightarrow> decision_toml" where
  "toml_of_decision Allow = TomlAllow"
| "toml_of_decision Deny = TomlDeny"
| "toml_of_decision Prompt = TomlPrompt"

record network_policy =
  np_default :: decision_toml
  np_allow :: "string list"
  np_deny :: "string list"
  np_proxy :: "string list"
  np_audit :: bool

definition network_policy_default :: network_policy where
  "network_policy_default = \<lparr>np_default = TomlPrompt, np_allow = [], np_deny = [], np_proxy = [],
     np_audit = True\<rparr>"

record network_policy_toml =
  toml_default :: string
  toml_allow :: "string list"
  toml_deny :: "string list"
  toml_proxy :: "string list"
  toml_audit :: bool

definition network_policy_toml_default :: network_policy_toml where
  "network_policy_toml_default = \<lparr>toml_default = ''prompt'', toml_allow = [], toml_deny = [],
     toml_proxy = [], toml_audit = True\<rparr>"

definition into_runtime :: "network_policy_toml \<Rightarrow> network_policy" where
  "into_runtime t = \<lparr>np_default = toml_of_decision (decision_parse (toml_default t)),
     np_allow = toml_allow t, np_deny = toml_deny t, np_proxy = toml_proxy t, np_audit = toml_audit t\<rparr>"

definition normalize_host :: "string \<Rightarrow> string" where
  "normalize_host host =
     (let trimmed = to_ascii_lowercase (trim_end_char (CHR ''.'') (trim host))
      in case strip_prefix ''*.'' trimmed of Some rest \<Rightarrow> ''.'' @ rest | None \<Rightarrow> trimmed)"

definition host_matches :: "string \<Rightarrow> string \<Rightarrow> bool" where
  "host_matches entry normalized_host =
     (let entry_norm = normalize_host entry
      in case strip_prefix ''.'' entry_norm of
           Some sfx \<Rightarrow> if sfx = [] then False else suffix (''.'' @ sfx) normalized_host
         | None \<Rightarrow> entry_norm = normalized_host)"

definition decide :: "network_policy \<Rightarrow> string \<Rightarrow> decision" where
  "decide p host =
     (let normalized = normalize_host host
      in if normalized = [] then decision_of_toml (np_default p)
         else if list_ex (\<lambda>entry. host_matches entry normalized) (np_deny p) then Deny
         else if list_ex (\<lambda>entry. host_matches entry normalized) (np_allow p) then Allow
         else decision_of_toml (np_default p))"

definition add_allow :: "string \<Rightarrow> network_policy \<Rightarrow> network_policy" where
  "add_allow host p =
     (let normalized = normalize_host host
      in if normalized = [] then p
         else if list_ex (\<lambda>existing. normalize_host existing = normalized) (np_allow p) then p
         else p\<lparr>np_allow := np_allow p @ [normalized]\<rparr>)"

definition policy_trusts_proxy :: "network_policy \<Rightarrow> string \<Rightarrow> bool" where
  "policy_trusts_proxy p host =
     (let normalized = normalize_host host
      in if normalized = [] then False
         else if list_ex (\<lambda>entry. host_matches entry normalized) (np_deny p) then False
         else list_ex (\<lambda>entry. host_matches entry normalized) (np_proxy p))"

section \<open>Address ranges\<close>

definition parse_ipv4_cidr :: "string \<Rightarrow> (ipv4 \<times> u8) option" where
  "parse_ipv4_cidr cidr =
     (case split_once (CHR ''/'') cidr of None \<Rightarrow> None
      | Some (addr, pre) \<Rightarrow>
     (case parse_ipv4 (trim addr) of None \<Rightarrow> None
      | Some base \<Rightarrow>
     (case parse_u8 (trim pre) of None \<Rightarrow> None
      | Some plen \<Rightarrow> if 32 < plen then None else Some (base, plen))))"

definition ipv4_in_cidr :: "ipv4 \<Rightarrow> ipv4 \<Rightarrow> u8 \<Rightarrow> bool" where
  "ipv4_in_cidr ip base plen =
     (if plen = 0 then True
      else let mask = push_bit (32 - unat plen) (- 1) :: ipv4
           in ip AND mask = base AND mask)"

section \<open>Decider\<close>

record session_cache =
  cache_approved :: "string set"
  cache_denied :: "string set"

definition session_cache_new :: session_cache where
  "session_cache_new = \<lparr>cache_approved = {}, cache_denied = {}\<rparr>"

definition cache_is_approved :: "session_cache \<Rightarrow> string \<Rightarrow> bool" where
  "cache_is_approved c host \<longleftrightarrow> normalize_host host \<in> cache_approved c"

definition cache_is_denied :: "session_cache \<Rightarrow> string \<Rightarrow> bool" where
  "cache_is_denied c host \<longleftrightarrow> normalize_host host \<in> cache_denied c"

definition cache_approve :: "string \<Rightarrow> session_cache \<Rightarrow> session_cache" where
  "cache_approve host c =
     (let normalized = normalize_host host
      in \<lparr>cache_approved = insert normalized (cache_approved c),
          cache_denied = cache_denied c - {normalized}\<rparr>)"

definition cache_deny :: "string \<Rightarrow> session_cache \<Rightarrow> session_cache" where
  "cache_deny host c =
     (let normalized = normalize_host host
      in \<lparr>cache_approved = cache_approved c - {normalized},
          cache_denied = insert normalized (cache_denied c)\<rparr>)"

record network_auditor =
  audit_enabled :: bool
  audit_lines :: "string list"

definition sanitize_field :: "string \<Rightarrow> string" where
  "sanitize_field s = map (\<lambda>c. if is_ws c then CHR ''_'' else c) s"

definition auditor_record :: "string \<Rightarrow> string \<Rightarrow> string \<Rightarrow> network_auditor \<Rightarrow> network_auditor" where
  "auditor_record host tool label a =
     (if audit_enabled a then
        a\<lparr>audit_lines := audit_lines a @
            [''network '' @ sanitize_field host @ '' '' @ sanitize_field tool @ '' '' @ label]\<rparr>
      else a)"

record network_decider =
  nd_policy :: network_policy
  nd_cache :: session_cache
  nd_auditor :: "network_auditor option"
  nd_trusted_cidrs :: "(ipv4 \<times> u8) list"

definition decider_new :: "network_policy \<Rightarrow> network_auditor option \<Rightarrow> network_decider" where
  "decider_new p a = \<lparr>nd_policy = p, nd_cache = session_cache_new, nd_auditor = a, nd_trusted_cidrs = []\<rparr>"

text \<open>\<open>home\<close> says whether the home directory is known; the new auditor continues the existing file.\<close>

definition with_default_audit :: "bool \<Rightarrow> string list \<Rightarrow> network_policy \<Rightarrow> network_decider" where
  "with_default_audit home file p =
     decider_new p (if np_audit p \<and> home then Some \<lparr>audit_enabled = True, audit_lines = file\<rparr> else None)"

definition with_trusted_fakeip_cidrs :: "string list \<Rightarrow> network_decider \<Rightarrow> network_decider" where
  "with_trusted_fakeip_cidrs cidrs d =
     d\<lparr>nd_trusted_cidrs := nd_trusted_cidrs d @ List.map_filter parse_ipv4_cidr cidrs\<rparr>"

fun is_trusted_fakeip_addr :: "network_decider \<Rightarrow> ip_addr \<Rightarrow> bool" where
  "is_trusted_fakeip_addr d (V4 v4) = list_ex (\<lambda>(base, plen). ipv4_in_cidr v4 base plen) (nd_trusted_cidrs d)"
| "is_trusted_fakeip_addr d (V6 _) = False"

definition audit_record :: "string \<Rightarrow> string \<Rightarrow> string \<Rightarrow> network_decider \<Rightarrow> network_decider" where
  "audit_record host tool label d = d\<lparr>nd_auditor := map_option (auditor_record host tool label) (nd_auditor d)\<rparr>"

definition evaluate :: "string \<Rightarrow> string \<Rightarrow> network_decider \<Rightarrow> decision \<times> network_decider" where
  "evaluate host tool d =
     (let normalized = normalize_host host
      in if normalized = [] then (decision_of_toml (np_default (nd_policy d)), d)
         else if cache_is_denied (nd_cache d) normalized then
           (Deny, audit_record normalized tool ''Deny'' d)
         else if cache_is_approved (nd_cache d) normalized then
           (Allow, audit_record normalized tool ''Allow'' d)
         else case decide (nd_policy d) normalized of
           Allow \<Rightarrow> (Allow, audit_record normalized tool ''Allow'' d)
         | Deny \<Rightarrow> (Deny, audit_record normalized tool ''Deny'' d)
         | Prompt \<Rightarrow> (Prompt, d))"

definition approve_session :: "string \<Rightarrow> string \<Rightarrow> network_decider \<Rightarrow> network_decider" where
  "approve_session host tool d =
     audit_record host tool ''Prompt-Approved'' (d\<lparr>nd_cache := cache_approve host (nd_cache d)\<rparr>)"

definition deny_session :: "string \<Rightarrow> string \<Rightarrow> network_decider \<Rightarrow> network_decider" where
  "deny_session host tool d =
     audit_record host tool ''Prompt-Denied'' (d\<lparr>nd_cache := cache_deny host (nd_cache d)\<rparr>)"

definition approve_persistent :: "string \<Rightarrow> string \<Rightarrow> network_decider \<Rightarrow> network_policy \<times> network_decider" where
  "approve_persistent host tool d =
     (let d1 = d\<lparr>nd_policy := add_allow host (nd_policy d)\<rparr>;
          d2 = d1\<lparr>nd_cache := cache_approve host (nd_cache d1)\<rparr>;
          d3 = audit_record host tool ''Prompt-Approved'' d2
      in (nd_policy d3, d3))"

definition trusts_proxy_fakeip_host :: "network_decider \<Rightarrow> string \<Rightarrow> bool" where
  "trusts_proxy_fakeip_host d host = policy_trusts_proxy (nd_policy d) host"

definition record_trusted_proxy_fakeip_allow :: "string \<Rightarrow> string \<Rightarrow> network_decider \<Rightarrow> network_decider" where
  "record_trusted_proxy_fakeip_allow host tool d = audit_record host tool ''TrustedProxyFakeIp-Allow'' d"

end
