(* ===== verification/Fetch_Guard.thy ===== *)
theory Fetch_Guard
  imports Network_Policy Json
begin

text \<open>
  What \<open>fetch_url\<close> checks before every connection (\<open>crates/tui/src/tools/fetch_url.rs\<close>): the scheme,
  the network policy, the address the host is or resolves to, and the same again for each redirect.
  Parameters stand for the code outside the repository: \<open>resolve\<close> is the lookup of a host,
  \<open>send\<close> a request with an optional pinned address, \<open>join\<close> the resolution of a redirect location.
\<close>

section \<open>Restricted addresses\<close>

function is_restricted_ip :: "ip_addr \<Rightarrow> bool" where
  "is_restricted_ip (V4 v4) =
     (v4_is_loopback v4 \<or> v4_is_private v4 \<or> v4_is_link_local v4 \<or> v4_is_multicast v4
      \<or> v4_is_broadcast v4 \<or> v4_is_unspecified v4
      \<or> (v4_octet 0 v4 = 100 \<and> 64 \<le> v4_octet 1 v4 \<and> v4_octet 1 v4 \<le> 127)
      \<or> v4 = v4_new 169 254 169 254
      \<or> (v4_octet 0 v4 = 198 \<and> 18 \<le> v4_octet 1 v4 \<and> v4_octet 1 v4 \<le> 19)
      \<or> 240 \<le> v4_octet 0 v4)"
| "is_restricted_ip (V6 v6) =
     (if v6_is_unspecified v6 \<or> v6_is_mapped v6 then True
      else case v6_to_ipv4_mapped v6 of
        Some v4 \<Rightarrow> is_restricted_ip (V4 v4)
      | None \<Rightarrow> v6_is_loopback v6 \<or> v6_is_multicast v6
          \<or> (64512 \<le> v6_segment0 v6 \<and> v6_segment0 v6 \<le> 65023)
          \<or> (65152 \<le> v6_segment0 v6 \<and> v6_segment0 v6 \<le> 65215))"
  by pat_completeness auto
termination
  by (relation "measure (\<lambda>ip. case ip of V4 _ \<Rightarrow> 0 | V6 _ \<Rightarrow> 1)") auto

section \<open>Validation of a target\<close>

text \<open>The parts of a parsed URL that are read.\<close>

record fetch_target =
  ft_url :: string
  ft_scheme :: string
  ft_host :: "string option"

datatype fetch_error =
    InvalidInput string
  | InvalidUrl string
  | UnsupportedScheme
  | MissingHost
  | PolicyBlocked string
  | PolicyNeedsApproval string
  | LocalhostRefused
  | RestrictedLiteral ip_addr
  | ResolveFailed string
  | RestrictedResolved ip_addr
  | NoAddresses
  | RequestFailed string
  | InvalidRedirect string

text \<open>The tool context holds an optional decider; checks that write to its audit log return it.\<close>

definition validate_network_policy ::
    "string \<Rightarrow> network_decider option \<Rightarrow> (fetch_error + unit) \<times> network_decider option" where
  "validate_network_policy host ctx =
     (case ctx of None \<Rightarrow> (Inr (), None)
      | Some d \<Rightarrow>
          (case evaluate host ''fetch_url'' d of
             (Allow, d') \<Rightarrow> (Inr (), Some d')
           | (Deny, d') \<Rightarrow> (Inl (PolicyBlocked host), Some d')
           | (Prompt, d') \<Rightarrow> (Inl (PolicyNeedsApproval host), Some d')))"

definition trusted_resolution :: "string \<Rightarrow> ip_addr \<Rightarrow> network_decider \<Rightarrow> bool" where
  "trusted_resolution host ip d \<longleftrightarrow> is_trusted_fakeip_addr d ip \<or> trusts_proxy_fakeip_host d host"

definition validate_dns_resolved_ip ::
    "string \<Rightarrow> ip_addr \<Rightarrow> network_decider option \<Rightarrow> (fetch_error + unit) \<times> network_decider option" where
  "validate_dns_resolved_ip host ip ctx =
     (if \<not> is_restricted_ip ip then (Inr (), ctx)
      else case ctx of
        None \<Rightarrow> (Inl (RestrictedResolved ip), None)
      | Some d \<Rightarrow>
          if trusted_resolution host ip d
          then (Inr (), Some (record_trusted_proxy_fakeip_allow host ''fetch_url'' d))
          else (Inl (RestrictedResolved ip), Some d))"

text \<open>The loop over the resolved addresses: all are checked, the first is kept.\<close>

fun validate_addrs ::
    "string \<Rightarrow> ip_addr list \<Rightarrow> ip_addr option \<Rightarrow> network_decider option
       \<Rightarrow> (fetch_error + ip_addr option) \<times> network_decider option" where
  "validate_addrs host [] first ctx = (Inr first, ctx)"
| "validate_addrs host (ip # ips) first ctx =
     (case validate_dns_resolved_ip host ip ctx of
        (Inl err, ctx') \<Rightarrow> (Inl err, ctx')
      | (Inr _, ctx') \<Rightarrow>
          validate_addrs host ips (case first of None \<Rightarrow> Some ip | Some f \<Rightarrow> Some f) ctx')"

definition unbracket :: "string \<Rightarrow> string" where
  "unbracket host =
     (case strip_prefix ''['' host of None \<Rightarrow> host
      | Some s \<Rightarrow> (case strip_suffix '']'' s of None \<Rightarrow> host | Some s' \<Rightarrow> s'))"

definition validate_fetch_target ::
    "(string \<Rightarrow> string + ip_addr list) \<Rightarrow> fetch_target \<Rightarrow> network_decider option
       \<Rightarrow> (fetch_error + (string \<times> ip_addr) option) \<times> network_decider option" where
  "validate_fetch_target resolve url ctx =
     (if ft_scheme url \<noteq> ''http'' \<and> ft_scheme url \<noteq> ''https'' then (Inl UnsupportedScheme, ctx)
      else case map_option to_ascii_lowercase (ft_host url) of
        None \<Rightarrow> (Inl MissingHost, ctx)
      | Some host \<Rightarrow>
     (case validate_network_policy host ctx of
        (Inl err, ctx1) \<Rightarrow> (Inl err, ctx1)
      | (Inr _, ctx1) \<Rightarrow>
     (if host = ''localhost'' \<or> host = ''localhost.localdomain'' then (Inl LocalhostRefused, ctx1)
      else case parse_ip_addr (unbracket host) of
        Some ip \<Rightarrow> if is_restricted_ip ip then (Inl (RestrictedLiteral ip), ctx1) else (Inr None, ctx1)
      | None \<Rightarrow>
     (case resolve host of
        Inl reason \<Rightarrow> (Inl (ResolveFailed reason), ctx1)
      | Inr ips \<Rightarrow>
     (case validate_addrs host ips None ctx1 of
        (Inl err, ctx2) \<Rightarrow> (Inl err, ctx2)
      | (Inr None, ctx2) \<Rightarrow> (Inl NoAddresses, ctx2)
      | (Inr (Some ip), ctx2) \<Rightarrow> (Inr (Some (host, ip)), ctx2))))))"

section \<open>The request loop\<close>

text \<open>What the loop reads of a response.\<close>

record fetch_response =
  fr_url :: fetch_target
  fr_redirection :: bool
  fr_location :: "string option"

definition max_redirects :: nat where
  "max_redirects = 5"

text \<open>A request that was sent: the target and the pinned address. The first argument is the number of
  redirects that may still be followed.\<close>

type_synonym sent_request = "fetch_target \<times> (string \<times> ip_addr) option"

function fetch_loop ::
    "nat \<Rightarrow> (string \<Rightarrow> string + ip_addr list) \<Rightarrow> (sent_request \<Rightarrow> string + fetch_response)
       \<Rightarrow> (fetch_target \<Rightarrow> string \<Rightarrow> string + fetch_target) \<Rightarrow> fetch_target \<Rightarrow> network_decider option
       \<Rightarrow> sent_request list \<Rightarrow> (fetch_error + fetch_response) \<times> network_decider option \<times> sent_request list" where
  "fetch_loop redirects resolve send join url ctx sent =
     (case validate_fetch_target resolve url ctx of
        (Inl err, ctx') \<Rightarrow> (Inl err, ctx', sent)
      | (Inr pin, ctx') \<Rightarrow>
     (case send (url, pin) of
        Inl reason \<Rightarrow> (Inl (RequestFailed reason), ctx', sent @ [(url, pin)])
      | Inr resp \<Rightarrow>
          if \<not> fr_redirection resp \<or> redirects = 0 then (Inr resp, ctx', sent @ [(url, pin)])
          else case fr_location resp of
            None \<Rightarrow> (Inr resp, ctx', sent @ [(url, pin)])
          | Some location \<Rightarrow>
             (case join (fr_url resp) location of
                Inl reason \<Rightarrow> (Inl (InvalidRedirect reason), ctx', sent @ [(url, pin)])
              | Inr url' \<Rightarrow> fetch_loop (redirects - 1) resolve send join url' ctx' (sent @ [(url, pin)]))))"
  by pat_completeness auto
termination
  by (relation "measure (\<lambda>(redirects, _). redirects)") auto

declare fetch_loop.simps [simp del]

section \<open>The call\<close>

datatype fetch_format = TextFormat | MarkdownFormat | RawFormat

definition fetch_format_parse :: "string option \<Rightarrow> fetch_error + fetch_format" where
  "fetch_format_parse value =
     (let s = to_ascii_lowercase (trim (unwrap_or ''markdown'' value))
      in if s \<in> {''text'', ''txt'', ''plain''} then Inr TextFormat
         else if s \<in> {''markdown'', ''md''} then Inr MarkdownFormat
         else if s \<in> {''raw'', ''html'', ''bytes''} then Inr RawFormat
         else Inl (InvalidInput (''unknown format `'' @ s @ ''` (allowed: text, markdown, raw)'')))"

text \<open>\<open>optional_u64\<close> of \<open>crates/tools/src/lib.rs\<close>.\<close>

definition optional_u64 :: "json \<Rightarrow> string \<Rightarrow> u64 \<Rightarrow> u64" where
  "optional_u64 input field dflt = unwrap_or dflt (json_field input field json_as_u64)"

fun collect_fields :: "json list \<Rightarrow> fetch_error + string list" where
  "collect_fields [] = Inr []"
| "collect_fields (v # vs) =
     (case json_as_str v of
        None \<Rightarrow> Inl (InvalidInput ''`fields` entries must be JSONPath strings'')
      | Some field \<Rightarrow>
          (case collect_fields vs of
             Inl err \<Rightarrow> Inl err
           | Inr fs \<Rightarrow> Inr (if trim field \<noteq> [] then trim field # fs else fs)))"

definition parse_fields :: "json \<Rightarrow> fetch_error + string list" where
  "parse_fields input =
     (case json_get input ''fields'' of None \<Rightarrow> Inr []
      | Some values \<Rightarrow>
     (case json_as_array values of
        None \<Rightarrow> Inl (InvalidInput ''`fields` must be an array'')
      | Some vs \<Rightarrow> collect_fields vs))"

record fetch_request =
  fq_url :: fetch_target
  fq_format :: fetch_format
  fq_max_bytes :: u64
  fq_timeout_ms :: u64
  fq_fields :: "string list"

text \<open>The arguments of the call, up to the parsed URL; \<open>parse_url\<close> is the URL parser.\<close>

definition fetch_arguments :: "(string \<Rightarrow> string + fetch_target) \<Rightarrow> json \<Rightarrow> fetch_error + fetch_request" where
  "fetch_arguments parse_url input =
     (case json_field input ''url'' json_as_str of
        None \<Rightarrow> Inl (InvalidInput ''`url` is required'')
      | Some raw \<Rightarrow>
          (let url = trim raw
           in if url = [] then Inl (InvalidInput ''`url` cannot be empty'')
              else if \<not> prefix ''http://'' url \<and> \<not> prefix ''https://'' url then Inl UnsupportedScheme
              else case fetch_format_parse (json_field input ''format'' json_as_str) of
                Inl err \<Rightarrow> Inl err
              | Inr format \<Rightarrow>
             (case parse_fields input of
                Inl err \<Rightarrow> Inl err
              | Inr fs \<Rightarrow>
             (case parse_url url of
                Inl reason \<Rightarrow> Inl (InvalidUrl reason)
              | Inr target \<Rightarrow> Inr
                  \<lparr>fq_url = target, fq_format = format,
                   fq_max_bytes = min (optional_u64 input ''max_bytes'' 1000000) (10 * 1024 * 1024),
                   fq_timeout_ms = min (optional_u64 input ''timeout_ms'' 15000) 60000,
                   fq_fields = fs\<rparr>))))"

text \<open>\<open>execute\<close> up to the response the loop ends with.\<close>

definition fetch_execute ::
    "(string \<Rightarrow> string + fetch_target) \<Rightarrow> (string \<Rightarrow> string + ip_addr list) \<Rightarrow> (sent_request \<Rightarrow> string + fetch_response)
       \<Rightarrow> (fetch_target \<Rightarrow> string \<Rightarrow> string + fetch_target) \<Rightarrow> json \<Rightarrow> network_decider option
       \<Rightarrow> (fetch_error + fetch_response) \<times> network_decider option \<times> sent_request list" where
  "fetch_execute parse_url resolve send join input ctx =
     (case fetch_arguments parse_url input of
        Inl err \<Rightarrow> (Inl err, ctx, [])
      | Inr req \<Rightarrow> fetch_loop max_redirects resolve send join (fq_url req) ctx [])"

end
