(* ===== verification/Network_Properties.thy ===== *)
theory Network_Properties
  imports Fetch_Guard
begin

text \<open>
  What the network policy and the checks of \<open>fetch_url\<close> promise: the answer to a host follows the last
  answer of the user and then the rules, every request that is sent passed every check, across
  redirects, and the restricted addresses are exactly the blocks the comments name.
\<close>

section \<open>Rules\<close>

lemma host_matches_iff:
  "host_matches entry n \<longleftrightarrow>
     (if normalize_host entry \<noteq> [] \<and> hd (normalize_host entry) = CHR ''.''
      then tl (normalize_host entry) \<noteq> [] \<and> suffix (normalize_host entry) n
      else normalize_host entry = n)"
  by (cases "normalize_host entry") (auto simp: host_matches_def strip_prefix_def Let_def)

definition stable_host :: "string \<Rightarrow> bool" where
  "stable_host h \<longleftrightarrow> normalize_host (normalize_host h) = normalize_host h \<and> normalize_host h \<noteq> []"

lemma decide_normalized: "stable_host h \<Longrightarrow> decide p (normalize_host h) = decide p h"
  by (simp add: stable_host_def decide_def)

section \<open>Sessions\<close>

datatype session_event =
    Approve string string
  | Refuse string string
  | ApproveAlways string string
  | Ask string string

fun session_step :: "network_decider \<Rightarrow> session_event \<Rightarrow> network_decider" where
  "session_step d (Approve host tool) = approve_session host tool d"
| "session_step d (Refuse host tool) = deny_session host tool d"
| "session_step d (ApproveAlways host tool) = snd (approve_persistent host tool d)"
| "session_step d (Ask host tool) = snd (evaluate host tool d)"

text \<open>The user's last answer about a host.\<close>

fun answer_of :: "string \<Rightarrow> session_event \<Rightarrow> decision option" where
  "answer_of h (Approve host _) = (if normalize_host host = normalize_host h then Some Allow else None)"
| "answer_of h (Refuse host _) = (if normalize_host host = normalize_host h then Some Deny else None)"
| "answer_of h (ApproveAlways host _) = (if normalize_host host = normalize_host h then Some Allow else None)"
| "answer_of h (Ask _ _) = None"

definition last_answer :: "string \<Rightarrow> session_event list \<Rightarrow> decision option" where
  "last_answer h events =
     foldl (\<lambda>last ev. case answer_of h ev of None \<Rightarrow> last | Some a \<Rightarrow> Some a) None events"

lemma audit_record_frame [simp]:
  "nd_policy (audit_record host tool label d) = nd_policy d"
  "nd_cache (audit_record host tool label d) = nd_cache d"
  "nd_trusted_cidrs (audit_record host tool label d) = nd_trusted_cidrs d"
  by (simp_all add: audit_record_def)

definition same_rules :: "network_decider \<Rightarrow> network_decider \<Rightarrow> bool" where
  "same_rules d d' \<longleftrightarrow> nd_policy d' = nd_policy d \<and> nd_cache d' = nd_cache d
     \<and> nd_trusted_cidrs d' = nd_trusted_cidrs d"

lemma evaluate_same_rules: "same_rules d (snd (evaluate host tool d))"
  by (simp add: evaluate_def Let_def same_rules_def split: decision.split)

lemma evaluate_rules:
  "same_rules d d' \<Longrightarrow> fst (evaluate host tool d') = fst (evaluate host tool d)"
  by (simp add: evaluate_def Let_def same_rules_def split: decision.split)

text \<open>What the cache says of a normalised host.\<close>

definition cached :: "network_decider \<Rightarrow> string \<Rightarrow> decision option" where
  "cached d n = (if n \<in> cache_denied (nd_cache d) then Some Deny
     else if n \<in> cache_approved (nd_cache d) then Some Allow else None)"

lemma evaluate_cached:
  assumes "stable_host h"
  shows "fst (evaluate h tool d) =
    (case cached d (normalize_host h) of Some a \<Rightarrow> a | None \<Rightarrow> decide (nd_policy d) h)"
  using assms decide_normalized [OF assms, of "nd_policy d"]
  by (simp add: evaluate_def Let_def cached_def cache_is_denied_def cache_is_approved_def stable_host_def
      split: decision.split)

lemma cached_step:
  "cached (session_step d ev) (normalize_host h) =
     (case answer_of h ev of Some a \<Rightarrow> Some a | None \<Rightarrow> cached d (normalize_host h))"
proof (cases ev)
  case (Ask host tool)
  with evaluate_same_rules [of d host tool] show ?thesis by (simp add: cached_def same_rules_def)
qed (simp_all add: cached_def approve_session_def deny_session_def approve_persistent_def cache_approve_def
      cache_deny_def Let_def)

lemma cached_events:
  "cached (foldl session_step d events) (normalize_host h) =
     (case last_answer h events of Some a \<Rightarrow> Some a | None \<Rightarrow> cached d (normalize_host h))"
  by (induction events rule: rev_induct) (simp_all add: last_answer_def cached_step split: option.split)

text \<open>
  The network decision follows the session. For a host whose normal form is stable, the answer
  of the decider after any sequence of questions and user answers is the user's last answer about
  that host; without one it is the answer of the rules, where a matching deny entry wins over every
  allow entry and the default applies only to a host no entry matches. (An answer of the user
  therefore overrides a deny entry for the rest of the session.)
\<close>

theorem network_decision_history:
  assumes "stable_host h"
  shows "fst (evaluate h tool (foldl session_step (decider_new p a) events)) =
    (case last_answer h events of
       Some answer \<Rightarrow> answer
     | None \<Rightarrow>
         (let p' = nd_policy (foldl session_step (decider_new p a) events) in
          if list_ex (\<lambda>entry. host_matches entry (normalize_host h)) (np_deny p') then Deny
          else if list_ex (\<lambda>entry. host_matches entry (normalize_host h)) (np_allow p') then Allow
          else decision_of_toml (np_default p')))"
proof -
  have "cached (decider_new p a) (normalize_host h) = None"
    by (simp add: cached_def decider_new_def session_cache_new_def)
  then show ?thesis
    using assms
    by (simp add: evaluate_cached cached_events decide_def stable_host_def Let_def split: option.split)
qed

theorem network_decision_history_witness:
  "fst (evaluate ''API.example.com.'' ''fetch_url''
     (foldl session_step (decider_new (network_policy_default\<lparr>np_deny := [''.example.com'']\<rparr>) None)
       [Ask ''api.example.com'' ''x'', Approve ''api.example.com'' ''x''])) = Allow"
proof -
  have "stable_host ''API.example.com.''" by code_simp
  moreover have "last_answer ''API.example.com.''
      [Ask ''api.example.com'' ''x'', Approve ''api.example.com'' ''x''] = Some Allow"
    by code_simp
  ultimately show ?thesis by (simp only: network_decision_history option.case)
qed

section \<open>Requests\<close>

text \<open>What must hold of a request that is sent under the rules of a context.\<close>

definition guarded :: "network_decider option \<Rightarrow> sent_request \<Rightarrow> bool" where
  "guarded ctx req \<longleftrightarrow>
     (ft_scheme (fst req) = ''http'' \<or> ft_scheme (fst req) = ''https'') \<and>
     (case map_option to_ascii_lowercase (ft_host (fst req)) of None \<Rightarrow> False
      | Some host \<Rightarrow> host \<noteq> ''localhost'' \<and>
          (case ctx of None \<Rightarrow> True | Some d \<Rightarrow> fst (evaluate host ''fetch_url'' d) = Allow) \<and>
          (case snd req of
             None \<Rightarrow> (case parse_ip_addr (unbracket host) of None \<Rightarrow> False | Some ip \<Rightarrow> \<not> is_restricted_ip ip)
           | Some (name, ip) \<Rightarrow> name = host \<and> parse_ip_addr (unbracket host) = None \<and>
               (is_restricted_ip ip \<longrightarrow>
                  (case ctx of None \<Rightarrow> False | Some d \<Rightarrow> trusted_resolution host ip d))))"

definition same_ctx :: "network_decider option \<Rightarrow> network_decider option \<Rightarrow> bool" where
  "same_ctx ctx ctx' \<longleftrightarrow> rel_option same_rules ctx ctx'"

lemma same_rules_refl [simp]: "same_rules d d"
  by (simp add: same_rules_def)

lemma same_ctx_refl [simp]: "same_ctx ctx ctx"
  by (cases ctx) (simp_all add: same_ctx_def)

lemma same_ctx_trans: "same_ctx a b \<Longrightarrow> same_ctx b c \<Longrightarrow> same_ctx a c"
  by (cases a; cases b; cases c) (simp_all add: same_ctx_def same_rules_def)

lemma trusted_rules: "same_rules d d' \<Longrightarrow> trusted_resolution host ip d' = trusted_resolution host ip d"
  by (cases ip) (simp_all add: trusted_resolution_def same_rules_def trusts_proxy_fakeip_host_def)

lemma guarded_same: "same_ctx ctx ctx' \<Longrightarrow> guarded ctx' req = guarded ctx req"
  by (cases ctx; cases ctx')
    (simp_all add: same_ctx_def guarded_def evaluate_rules trusted_rules cong: option.case_cong)

lemma validate_policy_ok:
  assumes "validate_network_policy host ctx = (r, ctx')"
  shows "same_ctx ctx ctx'"
    and "r = Inr u \<Longrightarrow> case ctx of None \<Rightarrow> True | Some d \<Rightarrow> fst (evaluate host ''fetch_url'' d) = Allow"
proof -
  have "same_ctx ctx ctx' \<and>
    (r = Inr u \<longrightarrow> (case ctx of None \<Rightarrow> True | Some d \<Rightarrow> fst (evaluate host ''fetch_url'' d) = Allow))"
  proof (cases ctx)
    case None
    with assms show ?thesis by (simp add: validate_network_policy_def same_ctx_def)
  next
    case (Some d)
    obtain dec d' where ev: "evaluate host ''fetch_url'' d = (dec, d')" by (cases "evaluate host ''fetch_url'' d")
    then have "same_rules d d'" using evaluate_same_rules [of d host "''fetch_url''"] by simp
    with assms Some ev show ?thesis
      by (cases dec) (auto simp: validate_network_policy_def same_ctx_def)
  qed
  then show "same_ctx ctx ctx'"
    and "r = Inr u \<Longrightarrow> case ctx of None \<Rightarrow> True | Some d \<Rightarrow> fst (evaluate host ''fetch_url'' d) = Allow"
    by blast+
qed

lemma validate_dns_ok:
  assumes "validate_dns_resolved_ip host ip ctx = (r, ctx')"
  shows "same_ctx ctx ctx'"
    and "r = Inr u \<Longrightarrow> is_restricted_ip ip \<Longrightarrow> \<exists>d. ctx = Some d \<and> trusted_resolution host ip d"
proof -
  have "same_rules d (record_trusted_proxy_fakeip_allow host tool d)" for tool d
    by (simp add: same_rules_def record_trusted_proxy_fakeip_allow_def)
  with assms show "same_ctx ctx ctx'"
    by (auto simp: validate_dns_resolved_ip_def same_ctx_def split: if_splits option.splits
        intro!: option.rel_refl)
  show "\<exists>d. ctx = Some d \<and> trusted_resolution host ip d" if "r = Inr u" "is_restricted_ip ip"
    using assms that by (auto simp: validate_dns_resolved_ip_def split: if_splits option.splits)
qed

definition admitted :: "network_decider option \<Rightarrow> string \<Rightarrow> ip_addr \<Rightarrow> bool" where
  "admitted ctx host ip \<longleftrightarrow>
     (is_restricted_ip ip \<longrightarrow> (case ctx of None \<Rightarrow> False | Some d \<Rightarrow> trusted_resolution host ip d))"

lemma admitted_same: "same_ctx ctx ctx' \<Longrightarrow> admitted ctx' host ip = admitted ctx host ip"
  by (cases ctx; cases ctx') (simp_all add: same_ctx_def admitted_def trusted_rules)

lemma validate_addrs_ok:
  assumes "validate_addrs host ips first ctx = (r, ctx')"
    and "\<And>ip. first = Some ip \<Longrightarrow> admitted ctx host ip"
  shows "same_ctx ctx ctx' \<and> (\<forall>ip. r = Inr (Some ip) \<longrightarrow> admitted ctx host ip)"
  using assms
proof (induction ips arbitrary: first ctx)
  case Nil
  then show ?case by auto
next
  case (Cons ip ips)
  obtain r1 ctx1 where v: "validate_dns_resolved_ip host ip ctx = (r1, ctx1)"
    by (cases "validate_dns_resolved_ip host ip ctx")
  note same = validate_dns_ok(1) [OF v]
  show ?case
  proof (cases r1)
    case (Inl err)
    with Cons.prems(1) v same show ?thesis by auto
  next
    case (Inr u)
    then have "admitted ctx host ip"
      using validate_dns_ok(2) [OF v] by (auto simp: admitted_def)
    with Cons.prems(2) have first: "\<And>i. (case first of None \<Rightarrow> Some ip | Some f \<Rightarrow> Some f) = Some i \<Longrightarrow>
        admitted ctx1 host i"
      by (auto simp: admitted_same [OF same] split: option.splits)
    have "validate_addrs host ips (case first of None \<Rightarrow> Some ip | Some f \<Rightarrow> Some f) ctx1 = (r, ctx')"
      using Cons.prems(1) v Inr by simp
    from Cons.IH [OF this first] same show ?thesis
      by (auto intro: same_ctx_trans simp: admitted_same [OF same])
  qed
qed

lemma validate_target_ok:
  assumes "validate_fetch_target resolve url ctx = (r, ctx')"
  shows "same_ctx ctx ctx' \<and> (\<forall>pin. r = Inr pin \<longrightarrow> guarded ctx (url, pin))"
proof (cases "ft_scheme url \<noteq> ''http'' \<and> ft_scheme url \<noteq> ''https''")
  case True
  with assms show ?thesis by (auto simp: validate_fetch_target_def)
next
  case scheme: False
  show ?thesis
  proof (cases "map_option to_ascii_lowercase (ft_host url)")
    case None
    with assms scheme show ?thesis by (auto simp: validate_fetch_target_def)
  next
    case host: (Some host)
    then obtain raw where raw: "ft_host url = Some raw" "to_ascii_lowercase raw = host" by auto
    obtain r1 ctx1 where v: "validate_network_policy host ctx = (r1, ctx1)"
      by (cases "validate_network_policy host ctx")
    note same = validate_policy_ok(1) [OF v]
    show ?thesis
    proof (cases r1)
      case (Inl err)
      with assms scheme host v same show ?thesis by (auto simp: validate_fetch_target_def)
    next
      case (Inr u)
      note allow = validate_policy_ok(2) [OF v Inr]
      show ?thesis
      proof (cases "host = ''localhost'' \<or> host = ''localhost.localdomain''")
        case True
        with assms scheme host v Inr same show ?thesis by (auto simp: validate_fetch_target_def)
      next
        case local: False
        note eqs = scheme host v Inr local
        show ?thesis
        proof (cases "parse_ip_addr (unbracket host)")
          case (Some ip)
          have "r = (if is_restricted_ip ip then Inl (RestrictedLiteral ip) else Inr None)" "ctx' = ctx1"
            using assms eqs Some by (auto simp: validate_fetch_target_def split: if_splits)
          with same eqs allow Some show ?thesis by (simp add: guarded_def raw)
        next
          case None
          show ?thesis
          proof (cases "resolve host")
            case (Inl reason)
            with assms eqs None same show ?thesis by (simp add: validate_fetch_target_def) blast
          next
            case res: (Inr ips)
            obtain r2 ctx2 where a: "validate_addrs host ips None ctx1 = (r2, ctx2)"
              by (cases "validate_addrs host ips None ctx1")
            have ok: "same_ctx ctx1 ctx2 \<and> (\<forall>ip. r2 = Inr (Some ip) \<longrightarrow> admitted ctx1 host ip)"
              by (rule validate_addrs_ok [OF a]) simp
            have "ctx' = ctx2 \<and> (\<forall>pin. r = Inr pin \<longrightarrow> (\<exists>ip. r2 = Inr (Some ip) \<and> pin = Some (host, ip)))"
              using assms eqs None res a
              by (cases r2; cases "projr r2") (auto simp: validate_fetch_target_def)
            with ok same eqs allow None show ?thesis
              by (auto simp: guarded_def raw admitted_def [symmetric] admitted_same [OF same]
                  intro: same_ctx_trans)
          qed
        qed
      qed
    qed
  qed
qed

lemma fetch_loop_guarded:
  assumes "fetch_loop n resolve send join url ctx sent = (r, ctx', sent')"
    and "list_all (guarded ctx) sent"
  shows "list_all (guarded ctx) sent' \<and> length sent' \<le> length sent + Suc n"
  using assms
proof (induction n resolve send join url ctx sent arbitrary: r ctx' sent' rule: fetch_loop.induct)
  case (1 n resolve send join url ctx sent)
  obtain v ctx1 where v: "validate_fetch_target resolve url ctx = (v, ctx1)"
    by (cases "validate_fetch_target resolve url ctx")
  note ok = validate_target_ok [OF v]
  show ?case
  proof (cases v)
    case (Inl err)
    with 1(2,3) v show ?thesis by (auto simp: fetch_loop.simps [of n])
  next
    case pin: (Inr pin)
    let ?sent = "sent @ [(url, pin)]"
    have sent: "list_all (guarded ctx) ?sent" using ok pin 1(3) by simp
    consider (stop) "sent' = ?sent"
      | (next_hop) resp location url' where "send (url, pin) = Inr resp"
        "\<not> (\<not> fr_redirection resp \<or> n = 0)" "fr_location resp = Some location"
        "join (fr_url resp) location = Inr url'"
        "fetch_loop (n - 1) resolve send join url' ctx1 ?sent = (r, ctx', sent')"
      using 1(2) v pin
      by (auto simp: fetch_loop.simps [of n] split: sum.splits if_splits option.splits)
    then show ?thesis
    proof cases
      case stop
      with sent show ?thesis by simp
    next
      case next_hop
      have same: "guarded ctx1 = guarded ctx" using ok guarded_same by (intro ext) blast
      from 1(1) [OF v [symmetric] pin next_hop(1-5)] sent same
      have "list_all (guarded ctx) sent' \<and> length sent' \<le> length ?sent + Suc (n - 1)" by simp
      with next_hop(2) show ?thesis by auto
    qed
  qed
qed

text \<open>
  C39. A fetch connects only to checked targets. Whatever the servers, the resolver and the user's
  input are, each of the at most six requests of a call, redirects included, has the scheme http or
  https and a host other than \<open>localhost\<close> that the policy allows; it goes to a literal address that
  is not restricted, or is pinned to a resolved address that is not restricted unless the decider
  trusts that address range or that host.
\<close>

theorem fetch_requests_guarded:
  "(case fetch_execute parse_url resolve send join input ctx of
      (_, _, sent) \<Rightarrow> list_all (guarded ctx) sent \<and> length sent \<le> 6)"
proof (cases "fetch_arguments parse_url input")
  case (Inl err)
  then show ?thesis by (simp add: fetch_execute_def)
next
  case (Inr req)
  obtain r ctx' sent where l: "fetch_loop max_redirects resolve send join (fq_url req) ctx [] = (r, ctx', sent)"
    by (cases "fetch_loop max_redirects resolve send join (fq_url req) ctx []")
  have "list_all (guarded ctx) sent \<and> length sent \<le> length ([] :: sent_request list) + Suc max_redirects"
    by (rule fetch_loop_guarded [OF l]) simp
  with Inr l show ?thesis by (simp add: fetch_execute_def max_redirects_def)
qed

section \<open>Address blocks\<close>

lemma unat_ipv4_less: "unat a < 2 ^ 32" for a :: ipv4
  by (rule order_less_le_trans [OF unsigned_less]) simp

lemma ipv4_in_cidr_div:
  assumes "unat plen \<le> 32"
  shows "ipv4_in_cidr a base plen \<longleftrightarrow> unat a div 2 ^ (32 - unat plen) = unat base div 2 ^ (32 - unat plen)"
proof (cases "plen = 0")
  case True
  with True unat_ipv4_less [of a] unat_ipv4_less [of base] show ?thesis by (simp add: ipv4_in_cidr_def)
next
  case False
  let ?k = "32 - unat plen"
  have mask: "x AND push_bit ?k (- 1) = push_bit ?k (drop_bit ?k x)" for x :: ipv4
    by (simp add: bit_eq_iff bit_simps) (auto simp: bit_imp_le_length)
  have "unat (push_bit ?k (drop_bit ?k x)) = unat x div 2 ^ ?k * 2 ^ ?k" for x :: ipv4
  proof -
    have "unat x div 2 ^ ?k * 2 ^ ?k < 2 ^ 32"
      using unat_ipv4_less [of x] by (rule le_less_trans [OF div_times_less_eq_dividend])
    then have "take_bit 32 (push_bit ?k (drop_bit ?k (unat x))) = unat x div 2 ^ ?k * 2 ^ ?k"
      by (simp add: push_bit_eq_mult drop_bit_eq_div take_bit_nat_eq_self)
    moreover have "unat (push_bit ?k (drop_bit ?k x)) = take_bit 32 (push_bit ?k (drop_bit ?k (unat x)))"
      by (simp add: unsigned_push_bit_eq unat_drop_bit_eq)
    ultimately show ?thesis by simp
  qed
  then have "push_bit ?k (drop_bit ?k a) = push_bit ?k (drop_bit ?k base) \<longleftrightarrow>
      unat a div 2 ^ ?k = unat base div 2 ^ ?k"
    by (simp add: word_unat_eq_iff)
  then show ?thesis using False by (simp only: ipv4_in_cidr_def mask Let_def if_False)
qed

lemma v4_octets:
  "v4_octet 0 a = unat a div 2 ^ 24" "v4_octet 1 a = (unat a div 2 ^ 16) mod 256"
proof -
  note lt = unat_ipv4_less [of a]
  have and255: "unat (x AND 255) = unat x mod 256" for x :: ipv4
  proof -
    have "x AND 255 = take_bit 8 x" by (simp add: take_bit_eq_mask mask_eq_exp_minus_1)
    then have "unat (x AND 255) = take_bit 8 (unat x)" by (simp add: unsigned_take_bit_eq)
    then show ?thesis by (simp add: take_bit_eq_mod)
  qed
  have "v4_octet i a = drop_bit (8 * (3 - i)) (unat a) mod 256" for i
    by (simp only: v4_octet_def and255 unat_drop_bit_eq)
  then have octet: "v4_octet i a = unat a div 2 ^ (8 * (3 - i)) mod 256" for i
    by (simp only: drop_bit_eq_div)
  show "v4_octet 0 a = unat a div 2 ^ 24" using lt by (simp add: octet)
  show "v4_octet 1 a = (unat a div 2 ^ 16) mod 256" by (simp only: octet) simp
qed

text \<open>The blocks the comments of \<open>is_restricted_ip\<close> name.\<close>

definition restricted_blocks :: "(ipv4 \<times> u8) list" where
  "restricted_blocks =
     [(v4_new 127 0 0 0, 8), (v4_new 10 0 0 0, 8), (v4_new 172 16 0 0, 12), (v4_new 192 168 0 0, 16),
      (v4_new 169 254 0 0, 16), (v4_new 224 0 0 0, 4), (v4_new 0 0 0 0, 32), (v4_new 100 64 0 0, 10),
      (v4_new 198 18 0 0, 15), (v4_new 240 0 0 0, 4)]"

lemma block_divs:
  "unat (v4_new 127 0 0 0) = 127 * 2 ^ 24" "unat (v4_new 10 0 0 0) = 10 * 2 ^ 24"
  "unat (v4_new 172 16 0 0) = 172 * 2 ^ 24 + 16 * 2 ^ 16" "unat (v4_new 192 168 0 0) = 192 * 2 ^ 24 + 168 * 2 ^ 16"
  "unat (v4_new 169 254 0 0) = 169 * 2 ^ 24 + 254 * 2 ^ 16" "unat (v4_new 224 0 0 0) = 224 * 2 ^ 24"
  "unat (v4_new 0 0 0 0) = 0" "unat (v4_new 100 64 0 0) = 100 * 2 ^ 24 + 64 * 2 ^ 16"
  "unat (v4_new 198 18 0 0) = 198 * 2 ^ 24 + 18 * 2 ^ 16" "unat (v4_new 240 0 0 0) = 240 * 2 ^ 24"
  "unat (v4_new 169 254 169 254) = 169 * 2 ^ 24 + 254 * 2 ^ 16 + 169 * 2 ^ 8 + 254"
  by (simp_all add: v4_new_def)

text \<open>The blocks by the first two octets, read as one number.\<close>

lemma restricted_by_upper:
  fixes n :: nat
  assumes "n < 2 ^ 32" and "m = n div 2 ^ 16"
  shows "n div 2 ^ 24 = m div 256" "n div 2 ^ 20 = m div 16" "n div 2 ^ 28 = m div 4096"
    "n div 2 ^ 22 = m div 64" "n div 2 ^ 17 = m div 2" "m < 65536"
  using assms by (simp_all add: div_mult2_eq [symmetric] less_mult_imp_div_less)

lemma div_nat_eq_iff: "0 < k \<Longrightarrow> m div k = c \<longleftrightarrow> c * k \<le> m \<and> m < c * k + k" for m k c :: nat
  by (metis add.commute div_less_iff_less_mult less_Suc_eq_le less_eq_div_iff_mult_less_eq mult_Suc order_antisym
      order_refl)

lemma octet_block:
  fixes m k j c :: nat
  assumes "256 = k * j"
  shows "m div k = c \<longleftrightarrow> m div 256 = c div j \<and> (m mod 256) div k = c mod j"
proof -
  have "0 < k" using assms by (cases k) auto
  then have "(m mod 256) div k = m div k mod j"
    by (simp add: assms mod_mult2_eq)
  moreover have "m div 256 = m div k div j" by (simp only: assms div_mult2_eq)
  moreover have "m div k = c \<longleftrightarrow> m div k div j = c div j \<and> m div k mod j = c mod j"
    by (metis div_mult_mod_eq)
  ultimately show ?thesis by simp
qed

lemma block_octets:
  fixes m :: nat
  shows "m div 16 = 2753 \<longleftrightarrow> m div 256 = 172 \<and> 16 \<le> m mod 256 \<and> m mod 256 \<le> 31"
    and "m = 49320 \<longleftrightarrow> m div 256 = 192 \<and> m mod 256 = 168"
    and "m = 43518 \<longleftrightarrow> m div 256 = 169 \<and> m mod 256 = 254"
    and "m div 4096 = 14 \<longleftrightarrow> 224 \<le> m div 256 \<and> m div 256 \<le> 239"
    and "m div 64 = 401 \<longleftrightarrow> m div 256 = 100 \<and> 64 \<le> m mod 256 \<and> m mod 256 \<le> 127"
    and "m div 2 = 25353 \<longleftrightarrow> m div 256 = 198 \<and> 18 \<le> m mod 256 \<and> m mod 256 \<le> 19"
    and "m < 65536 \<Longrightarrow> m div 4096 = 15 \<longleftrightarrow> 240 \<le> m div 256"
proof -
  have q: "m div 4096 = m div 256 div 16" by (simp flip: div_mult2_eq)
  have le: "x \<le> numeral n \<longleftrightarrow> x < numeral n + 1" for x :: nat and n by linarith
  show "m div 16 = 2753 \<longleftrightarrow> m div 256 = 172 \<and> 16 \<le> m mod 256 \<and> m mod 256 \<le> 31"
    by (subst octet_block [of 16 16]) (simp_all add: div_nat_eq_iff [of 16 _ "Suc 0"] le [of _ "num.Bit1 _"])
  show "m = 49320 \<longleftrightarrow> m div 256 = 192 \<and> m mod 256 = 168"
    using octet_block [of 1 256 m 49320] by simp
  show "m = 43518 \<longleftrightarrow> m div 256 = 169 \<and> m mod 256 = 254"
    using octet_block [of 1 256 m 43518] by simp
  show "m div 4096 = 14 \<longleftrightarrow> 224 \<le> m div 256 \<and> m div 256 \<le> 239"
    unfolding q by (simp add: div_nat_eq_iff le [of _ "num.Bit1 _"])
  show "m div 64 = 401 \<longleftrightarrow> m div 256 = 100 \<and> 64 \<le> m mod 256 \<and> m mod 256 \<le> 127"
    by (subst octet_block [of 64 4]) (simp_all add: div_nat_eq_iff [of 64 _ "Suc 0"] le [of _ "num.Bit1 _"])
  show "m div 2 = 25353 \<longleftrightarrow> m div 256 = 198 \<and> 18 \<le> m mod 256 \<and> m mod 256 \<le> 19"
    by (subst octet_block [of 2 128]) (simp_all add: div_nat_eq_iff [of 2 _ 9] le [of _ "num.Bit1 _"])
  show "m < 65536 \<Longrightarrow> m div 4096 = 15 \<longleftrightarrow> 240 \<le> m div 256"
    unfolding q by (simp add: div_nat_eq_iff less_mult_imp_div_less)
qed

text \<open>
  The restricted IPv4 addresses are exactly the named blocks: loopback, private, link-local with
  the metadata address, multicast, the unspecified address, shared address space, benchmarking and
  the reserved class E with the broadcast address; every IPv4-mapped IPv6 address is restricted.
\<close>

theorem restricted_blocks_exact:
  "is_restricted_ip (V4 a) = list_ex (\<lambda>(base, plen). ipv4_in_cidr a base plen) restricted_blocks \<and>
   is_restricted_ip (V6 (push_bit 32 65535 OR ucast a))"
proof -
  define n where "n = unat a"
  define m where "m = n div 2 ^ 16"
  have lt: "n < 2 ^ 32" unfolding n_def by (rule unat_ipv4_less)
  note upper = restricted_by_upper [OF lt m_def]
  have zero: "a = 0 \<longleftrightarrow> n = 0" by (simp add: n_def unat_eq_0)
  have all: "a = - 1 \<longleftrightarrow> n = 2 ^ 32 - 1" by (simp add: n_def word_unat_eq_iff unat_max_word)
  have meta: "a = v4_new 169 254 169 254 \<longleftrightarrow> n = 169 * 2 ^ 24 + 254 * 2 ^ 16 + 169 * 2 ^ 8 + 254"
    by (simp add: n_def word_unat_eq_iff block_divs)
  have octets: "v4_octet 0 a = m div 256" "v4_octet 1 a = m mod 256"
    using upper(1) by (simp_all only: v4_octets n_def m_def)
  have blocks: "list_ex (\<lambda>(base, plen). ipv4_in_cidr a base plen) restricted_blocks \<longleftrightarrow>
      m div 256 = 127 \<or> m div 256 = 10 \<or> m div 16 = 2753 \<or> m = 49320 \<or> m = 43518 \<or> m div 4096 = 14 \<or>
      n = 0 \<or> m div 64 = 401 \<or> m div 2 = 25353 \<or> m div 4096 = 15"
    by (simp add: restricted_blocks_def ipv4_in_cidr_div block_divs m_def flip: n_def div_mult2_eq)
  have restricted: "is_restricted_ip (V4 a) \<longleftrightarrow>
      m div 256 = 127 \<or> m div 256 = 10 \<or> m div 256 = 172 \<and> 16 \<le> m mod 256 \<and> m mod 256 \<le> 31 \<or>
      m div 256 = 192 \<and> m mod 256 = 168 \<or> m div 256 = 169 \<and> m mod 256 = 254 \<or>
      224 \<le> m div 256 \<and> m div 256 \<le> 239 \<or> n = 2 ^ 32 - 1 \<or> n = 0 \<or>
      m div 256 = 100 \<and> 64 \<le> m mod 256 \<and> m mod 256 \<le> 127 \<or>
      n = 169 * 2 ^ 24 + 254 * 2 ^ 16 + 169 * 2 ^ 8 + 254 \<or>
      m div 256 = 198 \<and> 18 \<le> m mod 256 \<and> m mod 256 \<le> 19 \<or> 240 \<le> m div 256"
    by (simp add: v4_is_loopback_def v4_is_private_def v4_is_link_local_def v4_is_multicast_def
        v4_is_broadcast_def v4_is_unspecified_def octets octets(2) [unfolded One_nat_def] zero all meta disj_ac)
  have "n = 2 ^ 32 - 1 \<Longrightarrow> 240 \<le> m div 256"
    "n = 169 * 2 ^ 24 + 254 * 2 ^ 16 + 169 * 2 ^ 8 + 254 \<Longrightarrow> m div 256 = 169 \<and> m mod 256 = 254"
    by (simp_all add: m_def)
  then have "is_restricted_ip (V4 a) = list_ex (\<lambda>(base, plen). ipv4_in_cidr a base plen) restricted_blocks"
    unfolding blocks restricted block_octets(1-6) block_octets(7) [OF upper(6)] by blast
  moreover have "drop_bit 32 (ucast a :: ipv6) = 0"
    by (rule bit_word_eqI) (auto simp: bit_simps dest: bit_imp_le_length)
  then have "drop_bit 32 (push_bit 32 65535 OR ucast a :: ipv6) = 65535"
    by (simp add: drop_bit_or)
  then have "v6_is_mapped (push_bit 32 65535 OR ucast a)" by (simp add: v6_is_mapped_def)
  ultimately show ?thesis by simp
qed

end
