(* ===== verification/Command_Safety.thy ===== *)
theory Command_Safety
  imports Bash_Arity
begin

text \<open>
  The safety analysis of shell commands in the terminal application
  (\<open>crates/tui/src/command_safety.rs\<close>): its own arity table and classification, the test whether a
  command may run in a parallel read-only batch, and \<open>analyze_command\<close>, whose level \<open>Dangerous\<close> blocks a
  command in every mode. \<open>shlex::split\<close>, a third-party tokenizer, is the parameter \<open>shlex\<close> of the
  functions that call it; it returns \<open>None\<close> on unbalanced quotes.
\<close>

section \<open>The arity table and classification\<close>

text \<open>The sections of the table up to \<open>go\<close> and from \<open>gh\<close> to \<open>deno\<close> are those of \<^theory_text>\<open>Bash_Arity\<close>; the
  interpreters are keyed on the bare word here, and \<open>cmake\<close>, \<open>aws\<close>, \<open>terraform\<close> and \<open>helm\<close> are missing.\<close>

definition interpreter_entries :: "(string \<times> u8) list" where
  "interpreter_entries =
    [(''pip install'', 2), (''pip uninstall'', 2), (''pip list'', 2), (''pip show'', 2),
     (''pip freeze'', 2), (''pip3 install'', 2), (''pip3 uninstall'', 2),
     (''pip3 list'', 2), (''pip3 show'', 2), (''python'', 2), (''python3'', 2)]"

definition command_arity :: "(string \<times> u8) list" where
  "command_arity =
     git_entries @ npm_entries @ yarn_entries @ pnpm_entries @ cargo_entries @ docker_entries @ kubectl_entries
     @ go_entries @ interpreter_entries @ [(''make'', 1)] @ gh_entries @ rustup_entries @ deno_entries"

fun classify_prefix :: "nat \<Rightarrow> string list \<Rightarrow> string option" where
  "classify_prefix 0 positional = None"
| "classify_prefix (Suc n) positional =
     (case find (\<lambda>e. fst e = join_str '' '' (take (Suc n) positional)) command_arity of
        Some e \<Rightarrow> Some (join_str '' '' (take (min (unat (snd e)) (length positional)) positional))
      | None \<Rightarrow> classify_prefix n positional)"

definition classify_command :: "string list \<Rightarrow> string" where
  "classify_command tokens =
     (if tokens = [] then []
      else let positional = map to_ascii_lowercase (filter (\<lambda>t. \<not> prefix ''-'' t) tokens) in
        if positional = [] then []
        else case classify_prefix (min (length positional) 3) positional of
          Some s \<Rightarrow> s
        | None \<Rightarrow> hd positional)"

definition prefix_allow_matches :: "string \<Rightarrow> string \<Rightarrow> bool" where
  "prefix_allow_matches pattern command =
     (let pattern_norm = join_str '' '' (split_whitespace (to_ascii_lowercase (trim pattern)));
          tokens = split_whitespace command in
      if tokens = [] then pattern_norm = []
      else if classify_command tokens = pattern_norm then True
      else
        let command_norm = join_str '' '' (split_whitespace (to_ascii_lowercase (trim command))) in
        command_norm = pattern_norm \<or> prefix (pattern_norm @ '' '') command_norm)"

section \<open>Words of a command\<close>

definition shell_words :: "(string \<Rightarrow> string list option) \<Rightarrow> string \<Rightarrow> string list" where
  "shell_words shlex segment =
     (case shlex segment of Some tokens \<Rightarrow> tokens
      | None \<Rightarrow> map (trim_chars [CHR 0x22, CHR 0x27]) (split_whitespace segment))"

definition is_env_assignment :: "string \<Rightarrow> bool" where
  "is_env_assignment token =
     (case split_once (CHR ''='') token of None \<Rightarrow> False
      | Some (nm, _) \<Rightarrow>
          nm \<noteq> [] \<and> list_all (\<lambda>c. c = CHR ''_'' \<or> is_ascii_alphanumeric c) nm
          \<and> (hd nm = CHR ''_'' \<or> is_ascii_alphabetic (hd nm)))"

text \<open>The index of the first token that is not \<open>env\<close>, one of its options or an assignment. The flag says
  whether the inner loop, after an \<open>env\<close>, is running.\<close>

fun skip_env :: "bool \<Rightarrow> nat \<Rightarrow> string list \<Rightarrow> nat option" where
  "skip_env inside idx [] = None"
| "skip_env inside idx (token # rest) =
     (if inside \<and> (prefix ''-'' token \<or> is_env_assignment token) then skip_env True (Suc idx) rest
      else if token = ''env'' then skip_env True (Suc idx) rest
      else if is_env_assignment token then skip_env False (Suc idx) rest
      else Some idx)"

definition primary_token_index :: "string list \<Rightarrow> nat option" where
  "primary_token_index tokens = skip_env False 0 tokens"

definition split_command_segments :: "string \<Rightarrow> string list" where
  "split_command_segments command =
     filter (\<lambda>seg. seg \<noteq> [])
       (map trim (split_char (CHR 0x0A)
         (replace_str '';'' [CHR 0x0A] (replace_str ''||'' [CHR 0x0A] (replace_str ''&&'' [CHR 0x0A] command)))))"

definition primary_shell_command_is :: "(string \<Rightarrow> string list option) \<Rightarrow> string \<Rightarrow> string \<Rightarrow> bool" where
  "primary_shell_command_is shlex command expected =
     list_ex (\<lambda>segment. let tokens = shell_words shlex segment in
        case primary_token_index tokens of None \<Rightarrow> False
        | Some idx \<Rightarrow> tokens ! idx = expected)
       (split_command_segments command)"

section \<open>Parallel read-only commands\<close>

definition parallel_readonly_prefixes :: "string list" where
  "parallel_readonly_prefixes =
    [''git status'', ''git log'', ''git diff'', ''git show'', ''git ls-files'', ''git blame'', ''git grep'',
     ''ls'', ''pwd'', ''cat'', ''head'', ''tail'', ''wc'', ''which'', ''stat'', ''file'', ''du'', ''df'',
     ''grep'', ''rg'', ''fd'']"

text \<open>A group of short flags, such as \<open>-uHtx\<close>, that holds one of the given letters.\<close>

definition short_flag_with :: "char list \<Rightarrow> string \<Rightarrow> bool" where
  "short_flag_with letters token \<longleftrightarrow>
     prefix ''-'' token \<and> \<not> prefix ''--'' token \<and> list_ex (\<lambda>c. c \<in> set letters) (tl token)"

definition has_exec_capable_readonly_flag :: "string \<Rightarrow> string list \<Rightarrow> bool" where
  "has_exec_capable_readonly_flag canonical tokens =
     (if canonical = ''fd'' then
        list_ex (\<lambda>token. token = ''--exec'' \<or> token = ''--exec-batch'' \<or> prefix ''--exec='' token
          \<or> prefix ''--exec-batch='' token \<or> short_flag_with [CHR ''x'', CHR ''X''] token) (drop 1 tokens)
      else if canonical = ''rg'' then
        list_ex (\<lambda>token. token = ''--pre'' \<or> prefix ''--pre='' token) (drop 1 tokens)
      else if canonical = ''git grep'' then
        list_ex (\<lambda>token. token = ''-O'' \<or> prefix ''-O'' token \<or> token = ''--open-files-in-pager''
          \<or> prefix ''--open-files-in-pager='' token \<or> short_flag_with [CHR ''O''] token) (drop 2 tokens)
      else False)"

definition is_codewhale_readonly_invocation :: "string list \<Rightarrow> bool" where
  "is_codewhale_readonly_invocation tokens =
     (case tokens of [] \<Rightarrow> False
      | command # args \<Rightarrow>
          (command = ''codewhale'' \<or> command = ''codew'')
          \<and> args \<in> {[''--version''], [''-V''], [''-v''], [''--help''], [''-h'']})"

definition readonly_shell_wrapper_inner_command :: "string list \<Rightarrow> string option" where
  "readonly_shell_wrapper_inner_command tokens =
     (if tokens = [] then None
      else if hd tokens \<notin> {''bash'', ''sh'', ''zsh''} then None
      else if length tokens \<noteq> 3 then None
      else if tokens ! 1 \<notin> {''-c'', ''-lc''} then None
      else Some (tokens ! 2))"

definition is_shell_operator :: "char \<Rightarrow> bool" where
  "is_shell_operator c \<longleftrightarrow>
     c \<in> {CHR 0x0A, CHR 0x0D, CHR '';'', CHR ''&'', CHR ''|'', CHR ''>'', CHR ''<'', CHR 0x60}"

definition follows_file :: "string list \<Rightarrow> bool" where
  "follows_file tokens =
     list_ex (\<lambda>token. token = ''-f'' \<or> token = ''-F'' \<or> token = ''--follow'' \<or> prefix ''--follow='' token)
       (drop 1 tokens)"

text \<open>The inner command of a shell wrapper is checked by a recursive call, on a string that comes from
  the tokenizer; the fuel bounds the depth and \<open>None\<close> is running out of it.\<close>

fun parallel_readonly :: "(string \<Rightarrow> string list option) \<Rightarrow> nat \<Rightarrow> string \<Rightarrow> bool option" where
  "parallel_readonly shlex 0 command = None"
| "parallel_readonly shlex (Suc n) command =
     (let trimmed = trim command in
      if trimmed = [] then Some False
      else if contains_str ''$('' trimmed \<or> list_ex is_shell_operator trimmed then Some False
      else
        let tokens = shell_words shlex trimmed in
        case primary_token_index tokens of None \<Rightarrow> Some False
        | Some start \<Rightarrow>
            let command_tokens = drop start tokens in
            case readonly_shell_wrapper_inner_command command_tokens of
              Some inner \<Rightarrow> parallel_readonly shlex n inner
            | None \<Rightarrow>
                if is_codewhale_readonly_invocation command_tokens then Some True
                else
                  let canonical = classify_command command_tokens in
                  if has_exec_capable_readonly_flag canonical command_tokens then Some False
                  else if canonical = ''tail'' \<and> follows_file command_tokens then Some False
                  else Some (canonical \<in> set parallel_readonly_prefixes))"

definition is_parallel_readonly_command :: "(string \<Rightarrow> string list option) \<Rightarrow> string \<Rightarrow> bool" where
  "is_parallel_readonly_command shlex command =
     (parallel_readonly shlex (Suc (length command)) command = Some True)"

section \<open>Safety levels\<close>

datatype safety_level = SafeLevel | WorkspaceSafeLevel | RequiresApprovalLevel | DangerousLevel

fun safety_rank :: "safety_level \<Rightarrow> nat" where
  "safety_rank SafeLevel = 0"
| "safety_rank WorkspaceSafeLevel = 1"
| "safety_rank RequiresApprovalLevel = 2"
| "safety_rank DangerousLevel = 3"

lemma safety_rank_inj: "safety_rank a = safety_rank b \<Longrightarrow> a = b"
  by (cases a; cases b) simp_all

instantiation safety_level :: linorder
begin

definition less_eq_safety_level :: "safety_level \<Rightarrow> safety_level \<Rightarrow> bool" where
  "less_eq_safety_level a b \<longleftrightarrow> safety_rank a \<le> safety_rank b"

definition less_safety_level :: "safety_level \<Rightarrow> safety_level \<Rightarrow> bool" where
  "less_safety_level a b \<longleftrightarrow> safety_rank a < safety_rank b"

instance
  by standard (auto simp: less_eq_safety_level_def less_safety_level_def intro: safety_rank_inj)

end

record safety_analysis =
  sa_level :: safety_level
  sa_reasons :: "string list"
  sa_suggestions :: "string list"

definition analysis_safe :: safety_analysis where
  "analysis_safe = \<lparr>sa_level = SafeLevel, sa_reasons = [''Command is read-only''], sa_suggestions = []\<rparr>"

definition analysis_workspace_safe :: "string \<Rightarrow> safety_analysis" where
  "analysis_workspace_safe reason =
     \<lparr>sa_level = WorkspaceSafeLevel, sa_reasons = [reason], sa_suggestions = []\<rparr>"

definition analysis_requires_approval :: "string list \<Rightarrow> safety_analysis" where
  "analysis_requires_approval reasons =
     \<lparr>sa_level = RequiresApprovalLevel, sa_reasons = reasons, sa_suggestions = []\<rparr>"

definition analysis_dangerous :: "string list \<Rightarrow> string list \<Rightarrow> safety_analysis" where
  "analysis_dangerous reasons suggestions =
     \<lparr>sa_level = DangerousLevel, sa_reasons = reasons, sa_suggestions = suggestions\<rparr>"

lemma analysis_level [simp]:
  "sa_level analysis_safe = SafeLevel" "sa_level (analysis_workspace_safe r) = WorkspaceSafeLevel"
  "sa_level (analysis_requires_approval rs) = RequiresApprovalLevel"
  "sa_level (analysis_dangerous rs ss) = DangerousLevel"
  by (simp_all add: analysis_safe_def analysis_workspace_safe_def analysis_requires_approval_def
      analysis_dangerous_def)

section \<open>Destructive commands\<close>

definition quote_chars :: "char list" where
  "quote_chars = [CHR 0x22, CHR 0x27]"

definition slashes :: "string \<Rightarrow> string" where
  "slashes s = replace_str [CHR 0x5C] ''/'' s"

definition is_root_delete_target :: "string \<Rightarrow> bool" where
  "is_root_delete_target target =
     (let normalized = slashes (trim_chars quote_chars target) in
      normalized = ''/'' \<or> normalized = ''/*'' \<or> normalized = ''//''
      \<or> prefix ''/*/'' normalized \<or> prefix ''/.'' normalized)"

definition is_home_delete_target :: "string \<Rightarrow> bool" where
  "is_home_delete_target target =
     (let lower = to_ascii_lowercase (slashes (trim_chars quote_chars target)) in
      lower = ''~'' \<or> prefix ''~/'' lower \<or> lower = ''$home'' \<or> prefix ''$home/'' lower
      \<or> lower = ''${home}'' \<or> prefix ''${home}/'' lower)"

definition target_contains_parent_escape :: "string \<Rightarrow> bool" where
  "target_contains_parent_escape target =
     list_ex (\<lambda>component. component = ''..'') (split_char (CHR ''/'') (slashes target))"

text \<open>The loop over the arguments: the flags seen and the targets, the last first.\<close>

fun rm_scan :: "bool \<Rightarrow> bool \<Rightarrow> string list \<Rightarrow> string list \<Rightarrow> bool \<times> bool \<times> string list" where
  "rm_scan recursive force targets [] = (recursive, force, rev targets)"
| "rm_scan recursive force targets (arg # args) =
     (if arg = ''--'' then rm_scan recursive force targets args
      else if arg = ''--recursive'' \<or> arg = ''--dir'' then rm_scan True force targets args
      else if arg = ''--force'' then rm_scan recursive True targets args
      else if prefix ''-'' arg \<and> \<not> prefix ''--'' arg then
        rm_scan (recursive \<or> list_ex (\<lambda>c. c = CHR ''r'' \<or> c = CHR ''R'') arg)
          (force \<or> list_ex (\<lambda>c. c = CHR ''f'') arg) targets args
      else rm_scan recursive force (arg # targets) args)"

fun first_rm_reason :: "string list \<Rightarrow> string option" where
  "first_rm_reason [] = None"
| "first_rm_reason (target # targets) =
     (if is_root_delete_target target then
        Some ''Recursive or forced deletion targets the root filesystem''
      else if is_home_delete_target target then
        Some ''Recursive or forced deletion targets the home directory''
      else if target_contains_parent_escape target then
        Some ''Recursive or forced deletion may escape the workspace''
      else first_rm_reason targets)"

definition dangerous_rm_reason :: "string list \<Rightarrow> string option" where
  "dangerous_rm_reason args =
     (case rm_scan False False [] args of
        (recursive, force, targets) \<Rightarrow>
          if \<not> (recursive \<or> force) then None else first_rm_reason targets)"

fun execs_rm :: "string list \<Rightarrow> bool" where
  "execs_rm (a # b # rest) = (a = ''-exec'' \<and> b = ''rm'' \<or> execs_rm (b # rest))"
| "execs_rm _ = False"

definition analyze_find_mutation :: "string list \<Rightarrow> safety_analysis option" where
  "analyze_find_mutation args =
     (if \<not> (list_ex (\<lambda>arg. arg = ''-delete'') args \<or> execs_rm args) then None
      else if list_ex (\<lambda>target. is_root_delete_target target \<or> is_home_delete_target target
          \<or> target_contains_parent_escape target) (takeWhile (\<lambda>arg. \<not> prefix ''-'' arg) args) then
        Some (analysis_dangerous [''find mutation targets a broad or external path'']
          [''Restrict the find root to a workspace-relative path''])
      else Some (analysis_requires_approval [''find command may delete files'']))"

text \<open>\<open>parts.windows(2)\<close> over the stages of a pipeline.\<close>

fun pipe_into_shell :: "(string \<Rightarrow> string list option) \<Rightarrow> string list \<Rightarrow> bool" where
  "pipe_into_shell shlex (left # right # rest) =
     ((let l = to_ascii_lowercase left; tokens = shell_words shlex right in
       (contains_str ''curl'' l \<or> contains_str ''wget'' l)
       \<and> (case primary_token_index tokens of None \<Rightarrow> False
          | Some idx \<Rightarrow> tokens ! idx \<in> {''sh'', ''bash'', ''zsh''}))
      \<or> pipe_into_shell shlex (right # rest))"
| "pipe_into_shell shlex _ = False"

definition pipes_remote_content_to_shell :: "(string \<Rightarrow> string list option) \<Rightarrow> string \<Rightarrow> bool" where
  "pipes_remote_content_to_shell shlex command =
     list_ex (\<lambda>segment. pipe_into_shell shlex (split_char (CHR ''|'') segment))
       (split_command_segments command)"

text \<open>The body of the loop over the segments: what one segment returns, if anything.\<close>

definition segment_verdict :: "(string \<Rightarrow> string list option) \<Rightarrow> string \<Rightarrow> safety_analysis option" where
  "segment_verdict shlex segment =
     (let tokens = shell_words shlex segment in
      case primary_token_index tokens of None \<Rightarrow> None
      | Some start \<Rightarrow>
          if tokens ! start = ''rm'' then
            map_option (\<lambda>reason. analysis_dangerous [reason] [''Review the deletion target before retrying''])
              (dangerous_rm_reason (drop (start + 1) tokens))
          else if tokens ! start = ''find'' then analyze_find_mutation (drop (start + 1) tokens)
          else None)"

fun first_verdict :: "(string \<Rightarrow> string list option) \<Rightarrow> string list \<Rightarrow> safety_analysis option" where
  "first_verdict shlex [] = None"
| "first_verdict shlex (segment # segments) =
     (case segment_verdict shlex segment of Some a \<Rightarrow> Some a | None \<Rightarrow> first_verdict shlex segments)"

definition analyze_destructive_patterns ::
    "(string \<Rightarrow> string list option) \<Rightarrow> string \<Rightarrow> safety_analysis option" where
  "analyze_destructive_patterns shlex command =
     (if primary_shell_command_is shlex command ''eval'' then
        Some (analysis_dangerous [''Command invokes shell eval'']
          [''Avoid evaluating dynamically generated shell input''])
      else if pipes_remote_content_to_shell shlex command then
        Some (analysis_dangerous [''Piping remote content directly to shell is dangerous'']
          [''Download the script first and review it before execution''])
      else first_verdict shlex (split_command_segments command))"

section \<open>The analysis\<close>

definition safe_commands :: "string list" where
  "safe_commands =
    [''ls'', ''dir'', ''pwd'', ''cd'', ''cat'', ''head'', ''tail'', ''less'', ''more'', ''grep'', ''rg'', ''ag'',
     ''find'', ''fd'', ''which'', ''whereis'', ''type'', ''echo'', ''printf'', ''date'', ''cal'', ''uptime'',
     ''whoami'', ''id'', ''hostname'', ''uname'', ''env'', ''printenv'', ''set'', ''ps'', ''top'', ''htop'', ''df'',
     ''du'', ''free'', ''vmstat'', ''wc'', ''sort'', ''uniq'', ''cut'', ''tr'', ''awk'', ''sed'', ''diff'', ''file'',
     ''stat'', ''md5'', ''sha1sum'', ''sha256sum'', ''git status'', ''git log'', ''git diff'', ''git show'',
     ''git branch'', ''git remote'', ''git tag'', ''git stash list'', ''npm list'', ''npm ls'', ''npm outdated'',
     ''npm view'', ''cargo check'', ''cargo test'', ''cargo build'', ''cargo doc'', ''python --version'',
     ''node --version'', ''rustc --version'', ''man'', ''help'', ''info'']"

definition workspace_safe_commands :: "string list" where
  "workspace_safe_commands =
    [''mkdir'', ''touch'', ''cp'', ''mv'', ''git add'', ''git commit'', ''git checkout'', ''git switch'',
     ''git restore'', ''git merge'', ''git rebase'', ''git cherry-pick'', ''git reset --soft'', ''npm install'',
     ''npm ci'', ''npm update'', ''cargo build'', ''cargo run'', ''cargo test'', ''cargo fmt'', ''pip install'',
     ''pip uninstall'', ''make'', ''cmake'', ''ninja'']"

definition dangerous_patterns :: "(string \<times> string) list" where
  "dangerous_patterns =
    [(''rm -rf /'', ''Attempts to recursively delete root filesystem''),
     (''rm -rf /*'', ''Attempts to recursively delete all root directories''),
     (''rm -rf ~'', ''Attempts to recursively delete home directory''),
     (''rm -rf $HOME'', ''Attempts to recursively delete home directory''),
     ('':(){ :|:& };:'', ''Fork bomb '' @ [CHR 0xE2, CHR 0x80, CHR 0x94] @ '' will crash the system'')]"

definition privileged_patterns :: "string list" where
  "privileged_patterns = [''sudo'', ''su '', ''doas'', ''pkexec'', ''gksudo'', ''kdesudo'']"

definition network_commands :: "string list" where
  "network_commands =
    [''curl'', ''wget'', ''fetch'', ''nc'', ''netcat'', ''ncat'', ''ssh'', ''scp'', ''sftp'', ''rsync'', ''ftp'',
     ''ping'', ''traceroute'', ''nslookup'', ''dig'', ''host'', ''nmap'', ''masscan'', ''tcpdump'', ''wireshark'']"

definition known_safe_chain_prefixes :: "string list" where
  "known_safe_chain_prefixes =
    [''cargo'', ''rustc'', ''rustup'', ''git'', ''gh'', ''hub'', ''npm'', ''yarn'', ''pnpm'', ''node'', ''npx'', ''zig'',
     ''go'', ''deno'', ''bun'', ''make'', ''cmake'', ''ninja'', ''meson'', ''python'', ''python3'', ''pip'', ''pip3'',
     ''uv'', ''poetry'', ''ls'', ''pwd'', ''cd'', ''echo'', ''cat'', ''head'', ''tail'', ''grep'', ''rg'', ''find'', ''fd'',
     ''wc'', ''sort'', ''uniq'', ''which'', ''env'', ''true'', ''false'']"

definition is_safe_command :: "(string \<Rightarrow> string list option) \<Rightarrow> string \<Rightarrow> bool" where
  "is_safe_command shlex command =
     (let tokens = shell_words shlex command in
      (case primary_token_index tokens of None \<Rightarrow> False
       | Some start \<Rightarrow> is_codewhale_readonly_invocation (drop start tokens))
      \<or> list_ex (\<lambda>safe_cmd. prefix safe_cmd (to_ascii_lowercase command)) safe_commands)"

definition is_workspace_safe_command :: "string \<Rightarrow> bool" where
  "is_workspace_safe_command command =
     list_ex (\<lambda>ws_cmd. prefix ws_cmd (to_ascii_lowercase command)) workspace_safe_commands"

definition all_segments_known_safe :: "string \<Rightarrow> bool" where
  "all_segments_known_safe command =
     (let segments = split_command_segments command in
      segments \<noteq> []
      \<and> list_all (\<lambda>seg.
          let h = (case find (\<lambda>tok. CHR ''='' \<notin> set tok \<and> tok \<noteq> ''env'') (split_whitespace seg) of
                     Some tok \<Rightarrow> tok | None \<Rightarrow> []) in
          list_ex (\<lambda>p. eq_ignore_ascii_case h p) known_safe_chain_prefixes) segments)"

definition analyze_rm :: "string \<Rightarrow> safety_analysis" where
  "analyze_rm command_lower =
     (if contains_str ''..'' command_lower \<or> contains_str ''~/'' command_lower \<or> contains_str ''$HOME'' command_lower
      then analysis_dangerous [''Recursive or forced deletion'', ''May delete files outside workspace'']
        [''Use relative paths within the workspace'']
      else analysis_requires_approval [''Recursive or forced deletion''])"

text \<open>The checks after those of chains and substitutions, in their order.\<close>

definition analyze_simple :: "(string \<Rightarrow> string list option) \<Rightarrow> string \<Rightarrow> safety_analysis" where
  "analyze_simple shlex command =
     (let command_lower = to_ascii_lowercase command;
          command_trimmed = trim command;
          first_word = (case split_whitespace command_trimmed of [] \<Rightarrow> [] | w # _ \<Rightarrow> w) in
      case find (\<lambda>(pattern, reason). contains_str (to_ascii_lowercase pattern) command_lower) dangerous_patterns of
        Some (pattern, reason) \<Rightarrow>
          analysis_dangerous [reason] [''Review the command carefully before execution'']
      | None \<Rightarrow>
      (case find (\<lambda>pattern. prefix pattern command_trimmed
          \<or> contains_str ('' '' @ pattern @ '' '') command_lower) privileged_patterns of
        Some pattern \<Rightarrow>
          analysis_requires_approval [''Command uses privileged execution ('' @ trim pattern @ '')'']
      | None \<Rightarrow>
      if (contains_str ''curl'' command_lower \<or> contains_str ''wget'' command_lower)
          \<and> (contains_str ''| sh'' command_lower \<or> contains_str ''| bash'' command_lower
             \<or> contains_str ''| zsh'' command_lower)
      then analysis_dangerous [''Piping remote content directly to shell is dangerous'']
        [''Download the script first and review it before execution'']
      else if is_safe_command shlex command_trimmed then analysis_safe
      else if is_workspace_safe_command command_trimmed then
        analysis_workspace_safe ''Command modifies files within workspace''
      else if first_word \<in> set network_commands then
        analysis_requires_approval [''Command may make network requests'']
      else if first_word = ''rm'' \<and> (contains_str ''-r'' command_lower \<or> contains_str ''-f'' command_lower) then
        analyze_rm command_lower
      else if contains_str ''git push'' command_lower then
        (if contains_str ''--force'' command_lower \<or> contains_str ''-f'' command_lower
         then analysis_requires_approval [''Force push can overwrite remote history'']
         else analysis_requires_approval [''Push will modify remote repository''])
      else analysis_requires_approval [''Unknown command - review before execution'']))"

definition analyze_command :: "(string \<Rightarrow> string list option) \<Rightarrow> string \<Rightarrow> safety_analysis" where
  "analyze_command shlex command =
     (if CHR 0x00 \<in> set command then
        analysis_dangerous [''Command contains a null byte''] [''Strip embedded null bytes before retrying'']
      else case analyze_destructive_patterns shlex command of
        Some analysis \<Rightarrow> analysis
      | None \<Rightarrow>
          if contains_str ''&&'' command \<or> contains_str ''||'' command \<or> CHR '';'' \<in> set command then
            (if all_segments_known_safe command
             then analysis_requires_approval [''Command chains known-safe segments (cargo/git/etc.)'']
             else analysis_requires_approval [''Command chaining detected''])
          else if contains_str [CHR 0x60] command \<or> contains_str ''$('' command then
            analysis_requires_approval [''Command substitution detected'']
          else analyze_simple shlex command)"

definition extract_primary_command :: "string \<Rightarrow> string option" where
  "extract_primary_command command =
     (let trimmed = trim command in
      if prefix ''env '' trimmed \<or> prefix ''ENV='' trimmed then
        find (\<lambda>s. CHR ''='' \<notin> set s \<and> s \<noteq> ''env'') (split_whitespace trimmed)
      else case split_whitespace trimmed of [] \<Rightarrow> None | w # _ \<Rightarrow> Some w)"

end
