(* ===== verification/Safety_Properties.thy ===== *)
theory Safety_Properties
  imports Command_Safety
begin

text \<open>
  Properties of the command safety analysis: which commands may run in a parallel read-only batch, that
  the recursion through shell wrappers ends, and which commands are blocked as dangerous.
\<close>

section \<open>Words of a command\<close>

lemma skip_env_bound: "skip_env inside idx ts = Some i \<Longrightarrow> idx \<le> i \<and> i < idx + length ts"
proof (induction inside idx ts rule: skip_env.induct)
  case (2 inside idx token rest)
  then show ?case by (auto split: if_splits)
qed simp

lemma primary_token_index_less: "primary_token_index ts = Some i \<Longrightarrow> i < length ts"
  using skip_env_bound [of False 0 ts i] by (simp add: primary_token_index_def)

definition primary_tokens :: "(string \<Rightarrow> string list option) \<Rightarrow> string \<Rightarrow> string list" where
  "primary_tokens shlex segment =
     (let tokens = shell_words shlex segment in
      case primary_token_index tokens of None \<Rightarrow> [] | Some i \<Rightarrow> drop i tokens)"

lemma primary_tokens_Nil: "primary_tokens shlex s = [] \<longleftrightarrow> primary_token_index (shell_words shlex s) = None"
  by (auto simp: primary_tokens_def Let_def dest: primary_token_index_less split: option.splits)

lemma primary_tokens_Some:
  "primary_token_index (shell_words shlex s) = Some i \<Longrightarrow>
     primary_tokens shlex s = drop i (shell_words shlex s)
     \<and> hd (primary_tokens shlex s) = shell_words shlex s ! i
     \<and> tl (primary_tokens shlex s) = drop (Suc i) (shell_words shlex s)"
  using primary_token_index_less [of "shell_words shlex s" i]
  by (simp add: primary_tokens_def hd_drop_conv_nth drop_Suc tl_drop)

section \<open>Parallel read-only commands\<close>







text \<open>A command without operators, and the step from a shell wrapper to its inner command.\<close>

definition plain_command :: "string \<Rightarrow> bool" where
  "plain_command c \<longleftrightarrow> trim c \<noteq> [] \<and> \<not> contains_str ''$('' (trim c) \<and> \<not> list_ex is_shell_operator (trim c)"

inductive unwraps :: "(string \<Rightarrow> string list option) \<Rightarrow> string \<Rightarrow> string \<Rightarrow> bool" for shlex where
  unwrap: "plain_command c \<Longrightarrow> primary_tokens shlex (trim c) = [shell, opt, inner] \<Longrightarrow>
    shell \<in> {''bash'', ''sh'', ''zsh''} \<Longrightarrow> opt \<in> {''-c'', ''-lc''} \<Longrightarrow> unwraps shlex c inner"

inductive_simps unwraps_iff: "unwraps shlex c inner"




text \<open>What a command that is not a wrapper must be to count as reading only.\<close>

definition reads_only :: "string list \<Rightarrow> bool" where
  "reads_only tokens \<longleftrightarrow>
     is_codewhale_readonly_invocation tokens
     \<or> classify_command tokens \<in> set parallel_readonly_prefixes
       \<and> \<not> has_exec_capable_readonly_flag (classify_command tokens) tokens
       \<and> \<not> (classify_command tokens = ''tail'' \<and> follows_file tokens)"

definition reads_only_within :: "(string \<Rightarrow> string list option) \<Rightarrow> string \<Rightarrow> bool" where
  "reads_only_within shlex c \<longleftrightarrow>
     (\<exists>d. (unwraps shlex)\<^sup>*\<^sup>* c d \<and> plain_command d \<and> (\<nexists>e. unwraps shlex d e)
       \<and> primary_tokens shlex (trim d) \<noteq> [] \<and> reads_only (primary_tokens shlex (trim d)))"

lemma reads_only_within_not_plain: "\<not> plain_command c \<Longrightarrow> \<not> reads_only_within shlex c"
  unfolding reads_only_within_def by (metis converse_rtranclpE unwraps_iff)



lemma parallel_readonly_unfold:
  "parallel_readonly shlex (Suc n) c =
     (if \<not> plain_command c then Some False
      else let ts = primary_tokens shlex (trim c) in
        if ts = [] then Some False
        else case readonly_shell_wrapper_inner_command ts of
          Some inner \<Rightarrow> parallel_readonly shlex n inner
        | None \<Rightarrow> Some (reads_only ts))"
proof (cases "plain_command c \<and> primary_tokens shlex (trim c) \<noteq> []")
  case True
  then obtain i where i: "primary_token_index (shell_words shlex (trim c)) = Some i"
    by (auto simp: primary_tokens_Nil)
  have ts: "primary_tokens shlex (trim c) = drop i (shell_words shlex (trim c))"
    using primary_tokens_Some [OF i] by simp
  have "trim c \<noteq> []" "\<not> (contains_str ''$('' (trim c) \<or> list_ex is_shell_operator (trim c))"
    using True by (simp_all add: plain_command_def)
  with True i ts show ?thesis
    by (simp add: Let_def reads_only_def split: option.split)
next
  case False
  then show ?thesis by (auto simp: plain_command_def primary_tokens_Nil Let_def)
qed

declare parallel_readonly.simps(2) [simp del]





text \<open>The options of \<open>env\<close> are skipped without their arguments: the name of a variable to unset passes
  for the command, and the real one runs.\<close>

lemma env_option_hides_command:
  assumes "shlex ''env -u ls rm -rf build'' = Some [''env'', ''-u'', ''ls'', ''rm'', ''-rf'', ''build'']"
  shows "is_parallel_readonly_command shlex ''env -u ls rm -rf build''"
proof -
  let ?c = "''env -u ls rm -rf build''"
  have t: "trim ?c = ?c" and p: "plain_command ?c" by code_simp+
  have "primary_token_index [''env'', ''-u'', ''ls'', ''rm'', ''-rf'', ''build''] = Some 2" by code_simp
  then have ts: "primary_tokens shlex (trim ?c) = [''ls'', ''rm'', ''-rf'', ''build'']"
    by (simp add: t primary_tokens_def shell_words_def assms)
  have "reads_only [''ls'', ''rm'', ''-rf'', ''build'']" by code_simp
  moreover have "readonly_shell_wrapper_inner_command [''ls'', ''rm'', ''-rf'', ''build''] = None" by code_simp
  ultimately show ?thesis
    unfolding is_parallel_readonly_command_def by (simp only: parallel_readonly_unfold Let_def ts p) simp
qed

section \<open>Deletions of broad targets\<close>

definition broad_target :: "string \<Rightarrow> bool" where
  "broad_target t \<longleftrightarrow> is_root_delete_target t \<or> is_home_delete_target t \<or> target_contains_parent_escape t"

definition rm_target :: "string \<Rightarrow> bool" where
  "rm_target a \<longleftrightarrow> a \<notin> {''--'', ''--recursive'', ''--dir'', ''--force''} \<and> \<not> (prefix ''-'' a \<and> \<not> prefix ''--'' a)"

definition recursive_flag :: "string \<Rightarrow> bool" where
  "recursive_flag a \<longleftrightarrow> a = ''--recursive'' \<or> a = ''--dir'' \<or> short_flag_with [CHR ''r'', CHR ''R''] a"

definition force_flag :: "string \<Rightarrow> bool" where
  "force_flag a \<longleftrightarrow> a = ''--force'' \<or> short_flag_with [CHR ''f''] a"

lemma short_flag_any:
  "prefix ''-'' a \<Longrightarrow> \<not> prefix ''--'' a \<Longrightarrow> CHR ''-'' \<notin> set cs \<Longrightarrow>
     list_ex (\<lambda>c. c \<in> set cs) a = short_flag_with cs a"
  by (cases a) (simp_all add: short_flag_with_def)

lemma rm_scan_spec:
  "rm_scan r f targets args =
     (r \<or> list_ex recursive_flag args, f \<or> list_ex force_flag args, rev targets @ filter rm_target args)"
proof (induction r f targets args rule: rm_scan.induct)
  case (2 r f targets a args)
  consider "a = ''--''" | "a = ''--recursive''" | "a = ''--dir''" | "a = ''--force''"
    | "prefix ''-'' a \<and> \<not> prefix ''--'' a"
    | "a \<notin> {''--'', ''--recursive'', ''--dir'', ''--force''}" "\<not> (prefix ''-'' a \<and> \<not> prefix ''--'' a)"
    by blast
  then show ?case
  proof cases
    case 5
    then have ne: "a \<noteq> ''--''" "a \<noteq> ''--recursive''" "a \<noteq> ''--dir''" "a \<noteq> ''--force''" by auto
    have "list_ex (\<lambda>c. c = CHR ''r'' \<or> c = CHR ''R'') a = recursive_flag a"
      "list_ex (\<lambda>c. c = CHR ''f'') a = force_flag a"
      using 5 ne short_flag_any [of a "[CHR ''r'', CHR ''R'']"] short_flag_any [of a "[CHR ''f'']"]
      by (simp_all add: recursive_flag_def force_flag_def)
    then show ?thesis using 5 ne 2 by (simp add: rm_target_def disj_ac)
  next
    case 6
    then have "\<not> recursive_flag a" "\<not> force_flag a" "rm_target a"
      by (auto simp: recursive_flag_def force_flag_def rm_target_def short_flag_with_def)
    with 6 2 show ?thesis by simp
  qed (use 2 in \<open>simp_all add: recursive_flag_def force_flag_def rm_target_def short_flag_with_def\<close>)
qed simp

lemma first_rm_reason_None: "first_rm_reason ts = None \<longleftrightarrow> \<not> list_ex broad_target ts"
  by (induction ts) (simp_all add: broad_target_def)

lemma dangerous_rm_reason_iff:
  "dangerous_rm_reason args \<noteq> None \<longleftrightarrow>
     (\<exists>a \<in> set args. recursive_flag a \<or> force_flag a) \<and> (\<exists>t \<in> set args. rm_target t \<and> broad_target t)"
proof -
  have "first_rm_reason (filter rm_target args) \<noteq> None \<longleftrightarrow> (\<exists>t \<in> set args. rm_target t \<and> broad_target t)"
    by (auto simp: first_rm_reason_None list_ex_iff)
  then show ?thesis
    by (simp only: dangerous_rm_reason_def rm_scan_spec prod.case) (auto simp: list_ex_iff)
qed

text \<open>What \<open>find\<close> deletes: with \<open>-delete\<close>, or by running \<open>rm\<close>.\<close>

definition find_deletes :: "string list \<Rightarrow> bool" where
  "find_deletes args \<longleftrightarrow> ''-delete'' \<in> set args \<or> sublist [''-exec'', ''rm''] args"

lemma execs_rm_sublist: "execs_rm args = sublist [''-exec'', ''rm''] args"
  by (induction args rule: execs_rm.induct) (simp_all add: sublist_Cons_right eq_commute [of "''-exec''"] eq_commute [of "''rm''"])

definition find_roots :: "string list \<Rightarrow> string list" where
  "find_roots args = takeWhile (\<lambda>arg. \<not> prefix ''-'' arg) args"

text \<open>A segment that deletes a broad target, and a \<open>find\<close> that deletes elsewhere.\<close>

definition deletes_broadly :: "string list \<Rightarrow> bool" where
  "deletes_broadly ws \<longleftrightarrow> (\<exists>args.
     ws = ''rm'' # args \<and> (\<exists>a \<in> set args. recursive_flag a \<or> force_flag a)
       \<and> (\<exists>t \<in> set args. rm_target t \<and> broad_target t)
     \<or> ws = ''find'' # args \<and> find_deletes args \<and> (\<exists>t \<in> set (find_roots args). broad_target t))"

definition find_deletes_narrowly :: "string list \<Rightarrow> bool" where
  "find_deletes_narrowly ws \<longleftrightarrow> (\<exists>args.
     ws = ''find'' # args \<and> find_deletes args \<and> \<not> (\<exists>t \<in> set (find_roots args). broad_target t))"

lemma segment_verdict_words:
  "segment_verdict shlex s =
     (case primary_tokens shlex s of [] \<Rightarrow> None
      | w # args \<Rightarrow>
          if w = ''rm'' then
            map_option (\<lambda>reason. analysis_dangerous [reason] [''Review the deletion target before retrying''])
              (dangerous_rm_reason args)
          else if w = ''find'' then analyze_find_mutation args else None)"
proof (cases "primary_token_index (shell_words shlex s)")
  case None
  then show ?thesis by (simp add: segment_verdict_def primary_tokens_Nil [THEN iffD2])
next
  case (Some i)
  note p = primary_tokens_Some [OF Some]
  have ne: "primary_tokens shlex s \<noteq> []" using Some by (simp add: primary_tokens_Nil)
  then obtain w args where ws: "primary_tokens shlex s = w # args" by (cases "primary_tokens shlex s") auto
  then have "shell_words shlex s ! i = w" "drop (Suc i) (shell_words shlex s) = args" using p by auto
  then show ?thesis by (simp add: segment_verdict_def Some Let_def ws)
qed

lemma find_mutation_cases:
  "analyze_find_mutation args = None \<longleftrightarrow> \<not> find_deletes args"
  "analyze_find_mutation args = Some a \<Longrightarrow>
     sa_level a = DangerousLevel \<longleftrightarrow> (\<exists>t \<in> set (find_roots args). broad_target t)"
proof -
  have d: "list_ex (\<lambda>arg. arg = ''-delete'') args \<or> execs_rm args \<longleftrightarrow> find_deletes args"
    by (auto simp: find_deletes_def execs_rm_sublist list_ex_iff)
  have b: "list_ex (\<lambda>t. is_root_delete_target t \<or> is_home_delete_target t \<or> target_contains_parent_escape t)
      (takeWhile (\<lambda>arg. \<not> prefix ''-'' arg) args) \<longleftrightarrow> (\<exists>t \<in> set (find_roots args). broad_target t)"
    by (simp add: find_roots_def broad_target_def list_ex_iff)
  show "analyze_find_mutation args = None \<longleftrightarrow> \<not> find_deletes args"
    by (simp only: analyze_find_mutation_def d b) simp
  assume "analyze_find_mutation args = Some a"
  then show "sa_level a = DangerousLevel \<longleftrightarrow> (\<exists>t \<in> set (find_roots args). broad_target t)"
    by (simp only: analyze_find_mutation_def d b) (auto split: if_splits)
qed

lemma segment_verdict_None:
  "segment_verdict shlex s = None \<longleftrightarrow>
     \<not> deletes_broadly (primary_tokens shlex s) \<and> \<not> find_deletes_narrowly (primary_tokens shlex s)"
proof (cases "primary_tokens shlex s")
  case (Cons w args)
  consider "w = ''rm''" | "w = ''find''" | "w \<noteq> ''rm''" "w \<noteq> ''find''" by blast
  then show ?thesis
  proof cases
    case 1
    then show ?thesis
      using dangerous_rm_reason_iff [of args]
      by (cases "dangerous_rm_reason args")
        (simp_all add: segment_verdict_words Cons deletes_broadly_def find_deletes_narrowly_def)
  next
    case 2
    then show ?thesis
      using find_mutation_cases(1) [of args]
      by (simp add: segment_verdict_words Cons deletes_broadly_def find_deletes_narrowly_def) blast
  qed (simp add: segment_verdict_words Cons deletes_broadly_def find_deletes_narrowly_def)
qed (simp add: segment_verdict_words deletes_broadly_def find_deletes_narrowly_def)

lemma segment_verdict_dangerous:
  assumes "segment_verdict shlex s = Some a"
  shows "sa_level a = DangerousLevel \<longleftrightarrow> deletes_broadly (primary_tokens shlex s)"
proof (cases "primary_tokens shlex s")
  case Nil
  with assms show ?thesis by (simp add: segment_verdict_words)
next
  case (Cons w args)
  consider "w = ''rm''" | "w = ''find''" | "w \<noteq> ''rm''" "w \<noteq> ''find''" by blast
  then show ?thesis
  proof cases
    case 1
    with assms Cons have "dangerous_rm_reason args \<noteq> None" and "sa_level a = DangerousLevel"
      by (auto simp: segment_verdict_words)
    with 1 show ?thesis using dangerous_rm_reason_iff [of args] by (simp add: Cons deletes_broadly_def)
  next
    case 2
    with assms Cons have f: "analyze_find_mutation args = Some a" by (simp add: segment_verdict_words)
    then have "find_deletes args" using find_mutation_cases(1) [of args] by simp
    with 2 find_mutation_cases(2) [OF f] show ?thesis by (simp add: Cons deletes_broadly_def)
  next
    case 3
    with assms Cons show ?thesis by (simp add: segment_verdict_words)
  qed
qed

text \<open>The first segment with a verdict decides.\<close>

lemma first_verdict_dangerous:
  "(\<exists>a. first_verdict shlex segs = Some a \<and> sa_level a = DangerousLevel) \<longleftrightarrow>
     (\<exists>pre s post. segs = pre @ s # post \<and> deletes_broadly (primary_tokens shlex s)
        \<and> (\<forall>r \<in> set pre. \<not> find_deletes_narrowly (primary_tokens shlex r)))"
proof (induction segs)
  case (Cons s segs)
  let ?P = "\<lambda>segs. \<exists>pre s post. segs = pre @ s # post \<and> deletes_broadly (primary_tokens shlex s)
        \<and> (\<forall>r \<in> set pre. \<not> find_deletes_narrowly (primary_tokens shlex r))"
  have step: "?P (s # segs) \<longleftrightarrow> deletes_broadly (primary_tokens shlex s)
      \<or> \<not> find_deletes_narrowly (primary_tokens shlex s) \<and> ?P segs"
  proof
    assume "?P (s # segs)"
    then obtain pre q post where q: "s # segs = pre @ q # post" "deletes_broadly (primary_tokens shlex q)"
      "\<forall>r \<in> set pre. \<not> find_deletes_narrowly (primary_tokens shlex r)" by blast
    then show "deletes_broadly (primary_tokens shlex s)
      \<or> \<not> find_deletes_narrowly (primary_tokens shlex s) \<and> ?P segs" by (cases pre) auto
  next
    assume "deletes_broadly (primary_tokens shlex s)
      \<or> \<not> find_deletes_narrowly (primary_tokens shlex s) \<and> ?P segs"
    then show "?P (s # segs)"
    proof
      assume "deletes_broadly (primary_tokens shlex s)"
      then show ?thesis by (intro exI [of _ "[]"] exI [of _ s] exI [of _ segs]) simp
    next
      assume a: "\<not> find_deletes_narrowly (primary_tokens shlex s) \<and> ?P segs"
      then obtain pre q post where "segs = pre @ q # post" "deletes_broadly (primary_tokens shlex q)"
        "\<forall>r \<in> set pre. \<not> find_deletes_narrowly (primary_tokens shlex r)" by blast
      with a show ?thesis by (intro exI [of _ "s # pre"]) simp
    qed
  qed
  show ?case
  proof (cases "segment_verdict shlex s")
    case None
    then show ?thesis using segment_verdict_None [of shlex s] Cons.IH unfolding step by simp
  next
    case (Some a)
    from segment_verdict_dangerous [OF Some] segment_verdict_None [of shlex s] Some
    show ?thesis unfolding step by auto
  qed
qed simp

section \<open>Blocked commands\<close>

definition primary_word :: "(string \<Rightarrow> string list option) \<Rightarrow> string \<Rightarrow> string option" where
  "primary_word shlex segment = (case primary_tokens shlex segment of [] \<Rightarrow> None | w # _ \<Rightarrow> Some w)"

lemma primary_word_iff:
  "(case primary_token_index (shell_words shlex s) of None \<Rightarrow> False | Some i \<Rightarrow> shell_words shlex s ! i \<in> A)
     \<longleftrightarrow> (\<exists>w \<in> A. primary_word shlex s = Some w)"
proof (cases "primary_token_index (shell_words shlex s)")
  case None
  then show ?thesis by (simp add: primary_word_def primary_tokens_Nil [THEN iffD2])
next
  case (Some i)
  then have "primary_tokens shlex s \<noteq> []" by (simp add: primary_tokens_Nil)
  then show ?thesis using primary_tokens_Some [OF Some] Some
    by (cases "primary_tokens shlex s") (auto simp: primary_word_def)
qed

lemma eval_segment:
  "primary_shell_command_is shlex c w \<longleftrightarrow> (\<exists>s \<in> set (split_command_segments c). primary_word shlex s = Some w)"
proof -
  have "(case primary_token_index (shell_words shlex s) of None \<Rightarrow> False | Some i \<Rightarrow> shell_words shlex s ! i = w)
      \<longleftrightarrow> primary_word shlex s = Some w" for s
    using primary_word_iff [of shlex s "{w}"] by (simp split: option.splits)
  then show ?thesis by (simp add: primary_shell_command_is_def list_ex_iff Let_def)
qed

text \<open>Two neighbouring stages of a pipeline: a download and a shell.\<close>

definition feeds_shell :: "(string \<Rightarrow> string list option) \<Rightarrow> string \<Rightarrow> string \<Rightarrow> bool" where
  "feeds_shell shlex left right \<longleftrightarrow>
     (contains_str ''curl'' (to_ascii_lowercase left) \<or> contains_str ''wget'' (to_ascii_lowercase left))
     \<and> (\<exists>w \<in> {''sh'', ''bash'', ''zsh''}. primary_word shlex right = Some w)"

lemma pipe_into_shell_iff:
  "pipe_into_shell shlex stages \<longleftrightarrow> (\<exists>l r. sublist [l, r] stages \<and> feeds_shell shlex l r)"
proof (induction shlex stages rule: pipe_into_shell.induct)
  case (1 shlex left right rest)
  have "pipe_into_shell shlex (left # right # rest) \<longleftrightarrow>
      feeds_shell shlex left right \<or> pipe_into_shell shlex (right # rest)"
    by (simp only: pipe_into_shell.simps Let_def primary_word_iff feeds_shell_def)
  also have "\<dots> \<longleftrightarrow> (\<exists>l r. sublist [l, r] (left # right # rest) \<and> feeds_shell shlex l r)"
    unfolding 1 by (auto simp: sublist_Cons_right)
  finally show ?case .
qed (auto simp: sublist_Cons_right)

definition downloads_into_shell :: "(string \<Rightarrow> string list option) \<Rightarrow> string \<Rightarrow> bool" where
  "downloads_into_shell shlex segment \<longleftrightarrow>
     (\<exists>l r. sublist [l, r] (split_char (CHR ''|'') segment) \<and> feeds_shell shlex l r)"

lemma pipes_remote_iff:
  "pipes_remote_content_to_shell shlex c \<longleftrightarrow>
     (\<exists>s \<in> set (split_command_segments c). downloads_into_shell shlex s)"
  by (simp add: pipes_remote_content_to_shell_def list_ex_iff pipe_into_shell_iff downloads_into_shell_def)

text \<open>What is dangerous wherever it stands in a command.\<close>

definition dangerous_somewhere :: "(string \<Rightarrow> string list option) \<Rightarrow> string \<Rightarrow> bool" where
  "dangerous_somewhere shlex c \<longleftrightarrow>
     CHR 0x00 \<in> set c
     \<or> (\<exists>s \<in> set (split_command_segments c). primary_word shlex s = Some ''eval'' \<or> downloads_into_shell shlex s)
     \<or> (\<exists>pre s post. split_command_segments c = pre @ s # post \<and> deletes_broadly (primary_tokens shlex s)
          \<and> (\<forall>r \<in> set pre. \<not> find_deletes_narrowly (primary_tokens shlex r)))"

definition chains_or_substitutes :: "string \<Rightarrow> bool" where
  "chains_or_substitutes c \<longleftrightarrow>
     contains_str ''&&'' c \<or> contains_str ''||'' c \<or> CHR '';'' \<in> set c \<or> contains_str [CHR 0x60] c \<or> contains_str ''$('' c"

lemma destructive_dangerous:
  "CHR 0x00 \<notin> set c \<Longrightarrow>
     (\<exists>a. analyze_destructive_patterns shlex c = Some a \<and> sa_level a = DangerousLevel)
       \<longleftrightarrow> dangerous_somewhere shlex c"
  unfolding dangerous_somewhere_def analyze_destructive_patterns_def
  using eval_segment [of shlex c "''eval''"] pipes_remote_iff [of shlex c]
    first_verdict_dangerous [of shlex "split_command_segments c"]
  by auto

lemma find_mutation_level:
  "analyze_find_mutation args = Some a \<Longrightarrow> sa_level a = DangerousLevel \<or> sa_level a = RequiresApprovalLevel"
  by (auto simp: analyze_find_mutation_def split: if_splits)

lemma segment_verdict_level:
  "segment_verdict shlex s = Some a \<Longrightarrow> sa_level a = DangerousLevel \<or> sa_level a = RequiresApprovalLevel"
  using find_mutation_level by (auto simp: segment_verdict_words split: list.splits if_splits)

lemma first_verdict_level:
  "first_verdict shlex segs = Some a \<Longrightarrow> sa_level a = DangerousLevel \<or> sa_level a = RequiresApprovalLevel"
  by (induction segs) (auto split: option.splits dest: segment_verdict_level)

lemma destructive_level:
  "analyze_destructive_patterns shlex c = Some a \<Longrightarrow> sa_level a = DangerousLevel \<or> sa_level a = RequiresApprovalLevel"
  by (auto simp: analyze_destructive_patterns_def split: if_splits dest: first_verdict_level)

lemma dangerous_level:
  assumes "dangerous_somewhere shlex c" shows "sa_level (analyze_command shlex c) = DangerousLevel"
proof (cases "CHR 0x00 \<in> set c")
  case True
  then show ?thesis by (simp add: analyze_command_def)
next
  case False
  with destructive_dangerous [OF False, of shlex] assms show ?thesis by (auto simp: analyze_command_def)
qed

text \<open>
  C21. Dangerous commands are blocked wherever they stand. A null byte, a segment that runs eval, a
  download piped into a shell, and a recursive or forced deletion of the root, the home directory or a
  parent path make the whole command dangerous, whatever surrounds them, unless an earlier segment is a
  deleting find with a harmless root. For commands with chains or substitutions these are the only ones:
  every other one asks for approval. So does the fork bomb: it is in the table of dangerous patterns, and the
  comment of the automatic review counts it among the dangerous commands, but the table is not looked at for a
  command with a chain, and the fork bomb has one (\<open>fork_bomb_not_dangerous\<close>).
\<close>

theorem dangerous_exact:
  "(dangerous_somewhere shlex c \<longrightarrow> sa_level (analyze_command shlex c) = DangerousLevel)
   \<and> (chains_or_substitutes c \<and> \<not> dangerous_somewhere shlex c \<longrightarrow>
        sa_level (analyze_command shlex c) = RequiresApprovalLevel)"
proof (cases "CHR 0x00 \<in> set c")
  case True
  then show ?thesis by (simp add: dangerous_level dangerous_somewhere_def)
next
  case False
  note d = destructive_dangerous [OF False, of shlex]
  show ?thesis
  proof (cases "analyze_destructive_patterns shlex c")
    case None
    with d have "\<not> dangerous_somewhere shlex c" by simp
    with False None show ?thesis by (auto simp: analyze_command_def chains_or_substitutes_def)
  next
    case (Some a)
    have "sa_level a = DangerousLevel \<or> sa_level a = RequiresApprovalLevel"
      using Some by (rule destructive_level)
    with False Some d dangerous_level show ?thesis by (auto simp: analyze_command_def)
  qed
qed

theorem dangerous_exact_witness:
  "sa_level (analyze_command (\<lambda>s. Some (split_whitespace s)) ''make; rm -rf ..'') = DangerousLevel
   \<and> sa_level (analyze_command (\<lambda>s. Some (split_whitespace s)) ''make; rm -rf build'') = RequiresApprovalLevel"
proof -
  let ?sh = "\<lambda>s. Some (split_whitespace s)"
  have segs: "split_command_segments ''make; rm -rf ..'' = [''make''] @ [''rm -rf ..'']"
    "split_command_segments ''make; rm -rf build'' = [''make'', ''rm -rf build'']" by code_simp+
  have words: "primary_tokens ?sh ''make'' = [''make'']" "primary_tokens ?sh ''rm -rf ..'' = [''rm'', ''-rf'', ''..'']"
    "primary_tokens ?sh ''rm -rf build'' = [''rm'', ''-rf'', ''build'']" by code_simp+
  have "recursive_flag ''-rf''" "rm_target ''..'' \<and> broad_target ''..''" by code_simp+
  then have "dangerous_somewhere ?sh ''make; rm -rf ..''"
    unfolding dangerous_somewhere_def segs
    by (intro disjI2 exI [of _ "[''make'']"] exI [of _ "''rm -rf ..''"] exI [of _ "[]"])
      (simp add: words deletes_broadly_def find_deletes_narrowly_def)
  moreover have "analyze_destructive_patterns ?sh ''make; rm -rf build'' = None" by code_simp
  then have "\<not> dangerous_somewhere ?sh ''make; rm -rf build''"
    using destructive_dangerous [of "''make; rm -rf build''" ?sh] by simp
  moreover have "chains_or_substitutes ''make; rm -rf build''" by code_simp
  ultimately show ?thesis
    using dangerous_exact [of ?sh "''make; rm -rf ..''"] dangerous_exact [of ?sh "''make; rm -rf build''"] by simp
qed

text \<open>The fork bomb of the table of dangerous patterns chains its commands, so that the chain is all the
  analysis reports.\<close>

lemma fork_bomb_not_dangerous:
  assumes "shlex = (\<lambda>s. Some (split_whitespace s))"
  shows "\<not> dangerous_somewhere shlex '':(){ :|:& };:''"
    and "sa_level (analyze_command shlex '':(){ :|:& };:'') = RequiresApprovalLevel"
proof -
  have "sa_level (analyze_command (\<lambda>s. Some (split_whitespace s)) '':(){ :|:& };:'') = RequiresApprovalLevel"
    by code_simp
  then show l: "sa_level (analyze_command shlex '':(){ :|:& };:'') = RequiresApprovalLevel" unfolding assms .
  show "\<not> dangerous_somewhere shlex '':(){ :|:& };:''"
  proof
    assume "dangerous_somewhere shlex '':(){ :|:& };:''"
    from dangerous_level [OF this] l show False by simp
  qed
qed

text \<open>A deleting \<open>find\<close> with a harmless root ends the scan: the segments after it are not looked at, and
  the deletion of the root is left to the approval prompt.\<close>

lemma find_ends_the_scan:
  assumes "shlex ''find . -delete'' = Some [''find'', ''.'', ''-delete'']"
    and "shlex ''rm -rf /'' = Some [''rm'', ''-rf'', ''/'']"
  shows "sa_level (analyze_command shlex ''find . -delete; rm -rf /'') = RequiresApprovalLevel"
proof -
  let ?c = "''find . -delete; rm -rf /''"
  have segs: "split_command_segments ?c = [''find . -delete'', ''rm -rf /'']" by code_simp
  have i: "primary_token_index [''find'', ''.'', ''-delete''] = Some 0" "primary_token_index [''rm'', ''-rf'', ''/''] = Some 0"
    by code_simp+
  have p: "split_char (CHR ''|'') ''find . -delete'' = [''find . -delete'']"
    "split_char (CHR ''|'') ''rm -rf /'' = [''rm -rf /'']" by code_simp+
  have f: "analyze_find_mutation [''.'', ''-delete''] = Some (analysis_requires_approval [''find command may delete files''])"
    by code_simp
  have "analyze_destructive_patterns shlex ?c = Some (analysis_requires_approval [''find command may delete files''])"
    by (simp add: analyze_destructive_patterns_def primary_shell_command_is_def pipes_remote_content_to_shell_def
        segs shell_words_def assms i p segment_verdict_def f)
  moreover have "CHR 0x00 \<notin> set ?c" by code_simp
  ultimately show ?thesis by (simp only: analyze_command_def if_False option.case analysis_level)
qed

text \<open>A line feed is not among the chain operators, and neither is a single ampersand: a command whose
  first words are on the list of read-only commands has the level \<open>Safe\<close> whatever follows.\<close>

lemma chain_by_line_feed_is_safe:
  assumes "shlex = (\<lambda>s. Some (split_whitespace s))"
  shows "analyze_command shlex (''ls'' @ [CHR 0x0A] @ ''rm -rf build'') = analysis_safe"
    and "analyze_command shlex ''ls & rm -rf build'' = analysis_safe"
  unfolding assms by code_simp+

end
