(* ===== verification/Auto_Review.thy ===== *)
theory Auto_Review
  imports Command_Safety Json
begin

text \<open>
  The approval policy and the automatic review of tool calls: categories, risk and stakes of a call
  (\<open>crates/tui/src/tui/approval/policy.rs\<close>), the kind of action it is, the rules and the safety floor
  (\<open>tui/auto_review.rs\<close>), the configuration of the rules (\<open>config.rs\<close>) and what the engine makes of the
  decision (\<open>core/engine.rs\<close>). The tokenizer \<open>shlex\<close> is the parameter of \<^theory_text>\<open>Command_Safety\<close>.
\<close>

section \<open>Categories and risk\<close>

datatype tool_category =
    SafeTool | FileWriteTool | ShellTool | NetworkTool | McpReadTool | McpActionTool | AgentTool | UnknownTool

datatype risk_level = Benign | Destructive

datatype approval_stakes = Routine | Elevated | Critical

datatype approval_mode = AutoMode | BypassMode | SuggestMode | NeverMode

fun approval_mode_label :: "approval_mode \<Rightarrow> string" where
  "approval_mode_label AutoMode = ''AUTO''"
| "approval_mode_label BypassMode = ''BYPASS''"
| "approval_mode_label SuggestMode = ''SUGGEST''"
| "approval_mode_label NeverMode = ''NEVER''"

definition get_tool_category :: "string \<Rightarrow> tool_category" where
  "get_tool_category nm =
     (if nm = ''agent'' \<or> nm = ''workflow'' then AgentTool
      else if nm \<in> {''write_file'', ''append_file'', ''edit_file'', ''apply_patch''} then FileWriteTool
      else if nm \<in> {''web_run'', ''web_search'', ''fetch_url'', ''wait_for_dev_server''} then NetworkTool
      else if nm \<in> {''exec_shell'', ''task_shell_start'', ''task_shell_wait'', ''exec_shell_wait'',
          ''exec_shell_interact'', ''exec_wait'', ''exec_interact''} then ShellTool
      else if prefix ''list_mcp_'' nm \<or> prefix ''read_mcp_'' nm \<or> prefix ''get_mcp_'' nm then McpReadTool
      else if prefix ''mcp_'' nm then McpActionTool
      else if nm \<in> {''read_file'', ''list_dir'', ''work_update'', ''todo_write'', ''todo_read'', ''checklist_write'',
            ''note'', ''update_plan'', ''search'', ''file_search'', ''project'', ''diagnostics''}
          \<or> prefix ''read_'' nm \<or> prefix ''list_'' nm \<or> prefix ''get_'' nm then SafeTool
      else if nm = ''start_mcp_server'' then McpActionTool
      else UnknownTool)"

definition nonempty_array_field :: "json \<Rightarrow> string \<Rightarrow> bool" where
  "nonempty_array_field params k =
     (case json_field params k json_as_array of None \<Rightarrow> False | Some vs \<Rightarrow> vs \<noteq> [])"

definition classify_risk ::
    "(string \<Rightarrow> string list option) \<Rightarrow> string \<Rightarrow> tool_category \<Rightarrow> json \<Rightarrow> risk_level" where
  "classify_risk shlex tool_name category params =
     (case category of
        SafeTool \<Rightarrow> Benign
      | McpReadTool \<Rightarrow> Benign
      | NetworkTool \<Rightarrow>
          if tool_name = ''web_search'' \<or> tool_name = ''wait_for_dev_server'' then Benign
          else if tool_name = ''web_run'' then
            (if nonempty_array_field params ''open'' \<or> nonempty_array_field params ''click''
             then Destructive else Benign)
          else Destructive
      | ShellTool \<Rightarrow>
          (case json_field params ''command'' json_as_str of
             Some cmd \<Rightarrow> if is_parallel_readonly_command shlex cmd then Benign else Destructive
           | None \<Rightarrow> Destructive)
      | AgentTool \<Rightarrow>
          if json_field params ''action'' json_as_str \<in> {Some ''status'', Some ''peek'', Some ''list''}
          then Benign else Destructive
      | FileWriteTool \<Rightarrow> Destructive
      | McpActionTool \<Rightarrow> Destructive
      | UnknownTool \<Rightarrow> Destructive)"

section \<open>Words of a reviewed command\<close>

definition contains_any :: "string \<Rightarrow> string list \<Rightarrow> bool" where
  "contains_any haystack needles = list_ex (\<lambda>n. contains_str n haystack) needles"

definition split_shell_segments_for_review :: "string \<Rightarrow> string list" where
  "split_shell_segments_for_review command =
     filter (\<lambda>seg. seg \<noteq> [])
       (map trim (str_lines
         (replace_str '';'' [CHR 0x0A] (replace_str ''||'' [CHR 0x0A] (replace_str ''&&'' [CHR 0x0A] command)))))"

definition unquote_token :: "string \<Rightarrow> string" where
  "unquote_token token =
     (let t = trim token;
          quoted = (\<lambda>q. 2 \<le> length t \<and> hd t = q \<and> last t = q) in
      if quoted (CHR 0x22) \<or> quoted (CHR 0x27) then take (length t - 2) (drop 1 t) else t)"

text \<open>\<open>VAR=value\<close> with a non-empty name that has no slash.\<close>

definition env_assign_like :: "string \<Rightarrow> bool" where
  "env_assign_like raw =
     (case split_once (CHR ''='') raw of None \<Rightarrow> False
      | Some (nm, _) \<Rightarrow> nm \<noteq> [] \<and> CHR ''/'' \<notin> set nm)"

definition base_name :: "string \<Rightarrow> string" where
  "base_name raw = last (split_char (CHR ''/'') (trim_start_pat ''./'' raw))"

definition command_wrappers :: "string list" where
  "command_wrappers =
    [''sudo'', ''env'', ''nohup'', ''time'', ''command'', ''nice'', ''ionice'', ''doas'', ''stdbuf'', ''timeout'', ''setsid'']"

definition skip_wrapper_args :: "string \<Rightarrow> string list \<Rightarrow> string list" where
  "skip_wrapper_args base rest =
     (let r = dropWhile (\<lambda>t. let f = unquote_token t in prefix ''-'' f \<or> env_assign_like f) rest in
      if base = ''timeout'' \<and> r \<noteq> [] \<and> (case unquote_token (hd r) of [] \<Rightarrow> False | c # _ \<Rightarrow> is_ascii_digit c)
      then tl r else r)"

lemma length_skip_wrapper_args: "length (skip_wrapper_args base rest) \<le> length rest"
proof -
  let ?r = "dropWhile (\<lambda>t. let f = unquote_token t in prefix ''-'' f \<or> env_assign_like f) rest"
  have "length (skip_wrapper_args base rest) \<le> length ?r"
    unfolding skip_wrapper_args_def by (simp add: Let_def)
  also have "\<dots> \<le> length rest" by (rule length_dropWhile_le)
  finally show ?thesis .
qed

function effective_command_tokens :: "string list \<Rightarrow> string list" where
  "effective_command_tokens [] = []"
| "effective_command_tokens (token # rest) =
     (let raw = unquote_token token in
      if env_assign_like raw then effective_command_tokens rest
      else if base_name raw \<in> set command_wrappers
        then effective_command_tokens (skip_wrapper_args (base_name raw) rest)
      else token # rest)"
  by pat_completeness auto
termination
  by (relation "measure length") (simp_all add: length_skip_wrapper_args le_imp_less_Suc)

section \<open>Destruction of devices and file systems\<close>

text \<open>The loop over the arguments of \<open>rm\<close>: recursive, forced, and an absolute target.\<close>

fun rm_review_scan :: "bool \<Rightarrow> bool \<Rightarrow> bool \<Rightarrow> string list \<Rightarrow> bool" where
  "rm_review_scan recursive force absolute [] = (recursive \<and> force \<and> absolute)"
| "rm_review_scan recursive force absolute (t # ts) =
     (let token = unquote_token t in
      if prefix ''--'' token then
        rm_review_scan (recursive \<or> token = ''--recursive'' \<or> token = ''--dir'') (force \<or> token = ''--force'') absolute ts
      else if prefix ''-'' token then
        rm_review_scan (recursive \<or> CHR ''r'' \<in> set (tl token) \<or> CHR ''R'' \<in> set (tl token))
          (force \<or> CHR ''f'' \<in> set (tl token)) absolute ts
      else rm_review_scan recursive force (absolute \<or> prefix ''/'' token) ts)"

definition stage_is_device_or_filesystem_destroyer :: "string \<Rightarrow> bool" where
  "stage_is_device_or_filesystem_destroyer stage =
     (case effective_command_tokens (split_whitespace stage) of [] \<Rightarrow> False
      | t # args \<Rightarrow>
          let base = base_name (unquote_token t) in
          if base \<in> {''mkfs'', ''wipefs'', ''shred'', ''blkdiscard''} \<or> prefix ''mkfs.'' base then True
          else if base = ''dd'' then
            list_ex (\<lambda>a. case strip_prefix ''of='' (unquote_token a) of None \<Rightarrow> False
                | Some dest \<Rightarrow> prefix ''/dev/'' (unquote_token dest)) (t # args)
          else if base = ''rm'' then rm_review_scan False False False args
          else False)"

definition segment_is_device_or_filesystem_destroyer :: "string \<Rightarrow> bool" where
  "segment_is_device_or_filesystem_destroyer segment =
     list_ex stage_is_device_or_filesystem_destroyer (split_char (CHR ''|'') segment)"

text \<open>\<open>params.get("command").or_else(|| params.get("cmd")).and_then(Value::as_str)\<close>.\<close>

definition command_param :: "json \<Rightarrow> string option" where
  "command_param params =
     (case json_get params ''command'' of Some v \<Rightarrow> json_as_str v
      | None \<Rightarrow> json_field params ''cmd'' json_as_str)"

definition shell_params_are_destructive_like :: "(string \<Rightarrow> string list option) \<Rightarrow> json \<Rightarrow> bool" where
  "shell_params_are_destructive_like shlex params =
     (case command_param params of None \<Rightarrow> False
      | Some command \<Rightarrow>
          list_ex (\<lambda>segment. sa_level (analyze_command shlex segment) = DangerousLevel
              \<or> segment_is_device_or_filesystem_destroyer segment)
            (split_shell_segments_for_review command))"

section \<open>Publishing\<close>

definition shell_token_trim :: "string \<Rightarrow> string" where
  "shell_token_trim token = trim_chars quote_chars token"

definition shell_token_eq :: "string \<Rightarrow> string \<Rightarrow> bool" where
  "shell_token_eq token expected = eq_ignore_ascii_case (shell_token_trim token) expected"

definition git_global_option_takes_value :: "string \<Rightarrow> bool" where
  "git_global_option_takes_value token \<longleftrightarrow>
     token \<in> {''-C'', ''-c'', ''--git-dir'', ''--work-tree'', ''--namespace'', ''--config-env'', ''--exec-path''}"

definition git_global_option_has_value :: "string \<Rightarrow> bool" where
  "git_global_option_has_value token \<longleftrightarrow>
     prefix ''--git-dir='' token \<or> prefix ''--work-tree='' token \<or> prefix ''--namespace='' token
     \<or> prefix ''--config-env='' token \<or> prefix ''--exec-path='' token"

fun git_subcommand_from :: "nat \<Rightarrow> string list \<Rightarrow> nat option" where
  "git_subcommand_from index [] = None"
| "git_subcommand_from index (t # rest) =
     (let token = shell_token_trim t in
      if git_global_option_takes_value token then git_subcommand_from (index + 2) (drop 1 rest)
      else if git_global_option_has_value token \<or> prefix ''-'' token then git_subcommand_from (index + 1) rest
      else Some index)"

definition git_subcommand_index :: "string list \<Rightarrow> nat option" where
  "git_subcommand_index tokens =
     (case tokens of [] \<Rightarrow> None
      | t # rest \<Rightarrow> if shell_token_eq t ''git'' then git_subcommand_from 1 rest else None)"

text \<open>The arms of the match on an argument of \<open>git tag\<close>, and the loop over the arguments.\<close>

definition tag_writes :: "string \<Rightarrow> bool" where
  "tag_writes token \<longleftrightarrow> token \<in> set
     [''-d'', ''--delete'', ''-a'', ''--annotate'', ''-s'', ''--sign'', ''-f'', ''--force'',
      ''-u'', ''--local-user'', ''-m'', ''--message'', ''-F'', ''--file'']"

definition tag_lists :: "string \<Rightarrow> bool" where
  "tag_lists token \<longleftrightarrow> token = ''--list'' \<or> token = ''-l''"

definition tag_verifies :: "string \<Rightarrow> bool" where
  "tag_verifies token \<longleftrightarrow> token = ''-n'' \<or> token = ''--verify'' \<or> token = ''-v''"

definition tag_lists_by_next :: "string \<Rightarrow> bool" where
  "tag_lists_by_next token \<longleftrightarrow> token \<in> set
     [''--contains'', ''--points-at'', ''--merged'', ''--no-merged'', ''--sort'', ''--format'', ''--column'']"

definition tag_lists_by_value :: "string \<Rightarrow> bool" where
  "tag_lists_by_value token \<longleftrightarrow> list_ex (\<lambda>p. prefix p token)
     [''--list='', ''-n'', ''--contains='', ''--points-at='', ''--merged='', ''--no-merged='', ''--sort='',
      ''--format='', ''--column='']"

fun git_tag_scan :: "bool \<Rightarrow> bool \<Rightarrow> bool \<Rightarrow> string list \<Rightarrow> bool" where
  "git_tag_scan list_like verify_only has_positional [] = (has_positional \<and> \<not> list_like \<and> \<not> verify_only)"
| "git_tag_scan list_like verify_only has_positional (t # rest) =
     (let token = shell_token_trim t in
      if tag_writes token then True
      else if tag_lists token then git_tag_scan True verify_only has_positional rest
      else if tag_verifies token then git_tag_scan list_like True has_positional rest
      else if tag_lists_by_next token then git_tag_scan True verify_only has_positional (drop 1 rest)
      else if tag_lists_by_value token then git_tag_scan True verify_only has_positional rest
      else if prefix ''-'' token then git_tag_scan list_like verify_only has_positional rest
      else git_tag_scan list_like verify_only True rest)"

definition git_tag_tokens_are_publish_like :: "string list \<Rightarrow> bool" where
  "git_tag_tokens_are_publish_like tokens =
     (case git_subcommand_index tokens of None \<Rightarrow> False
      | Some index \<Rightarrow>
          index < length tokens \<and> shell_token_eq (tokens ! index) ''tag''
          \<and> git_tag_scan False False False (drop (index + 1) tokens))"

definition shell_tokens_are_publish_like :: "string list \<Rightarrow> bool" where
  "shell_tokens_are_publish_like tokens \<longleftrightarrow>
     git_tag_tokens_are_publish_like tokens
     \<or> classify_command tokens \<in> {''git push'', ''gh release'', ''npm publish'', ''cargo publish''}"

definition shell_params_are_publish_like :: "json \<Rightarrow> bool" where
  "shell_params_are_publish_like params =
     (case command_param params of None \<Rightarrow> False
      | Some command \<Rightarrow>
          list_ex shell_tokens_are_publish_like
            (map (\<lambda>segment. filter (\<lambda>token. trim token \<noteq> []) (split_whitespace segment))
              (split_shell_segments_for_review command)))"

section \<open>Kinds of actions\<close>

datatype tool_action_kind =
    ReadKind | WriteKind | ShellKind | NetworkKind | GitKind | McpReadKind | McpActionKind | BrowserKind
  | SecretKind | PublishKind | DestructiveKind | AgentKind | UnknownKind

fun action_kind_str :: "tool_action_kind \<Rightarrow> string" where
  "action_kind_str ReadKind = ''read''"
| "action_kind_str WriteKind = ''write''"
| "action_kind_str ShellKind = ''shell''"
| "action_kind_str NetworkKind = ''network''"
| "action_kind_str GitKind = ''git''"
| "action_kind_str McpReadKind = ''mcp_read''"
| "action_kind_str McpActionKind = ''mcp_action''"
| "action_kind_str BrowserKind = ''browser''"
| "action_kind_str SecretKind = ''secret''"
| "action_kind_str PublishKind = ''publish''"
| "action_kind_str DestructiveKind = ''destructive''"
| "action_kind_str AgentKind = ''agent''"
| "action_kind_str UnknownKind = ''unknown''"

fun kind_of_category :: "tool_category \<Rightarrow> tool_action_kind" where
  "kind_of_category SafeTool = ReadKind"
| "kind_of_category FileWriteTool = WriteKind"
| "kind_of_category ShellTool = ShellKind"
| "kind_of_category NetworkTool = NetworkKind"
| "kind_of_category McpReadTool = McpReadKind"
| "kind_of_category McpActionTool = McpActionKind"
| "kind_of_category AgentTool = AgentKind"
| "kind_of_category UnknownTool = UnknownKind"

definition kind_from_tool_call ::
    "(string \<Rightarrow> string list option) \<Rightarrow> string \<Rightarrow> json \<Rightarrow> tool_category \<Rightarrow> tool_action_kind" where
  "kind_from_tool_call shlex tool_name params category =
     (let normalized = to_ascii_lowercase tool_name in
      if contains_any normalized [''push'', ''publish'', ''release'', ''tag''] then PublishKind
      else if contains_any normalized [''secret'', ''token'', ''credential'', ''password''] then SecretKind
      else if contains_any normalized [''delete'', ''destroy'', ''remove'', ''drop'', ''reset''] then DestructiveKind
      else if contains_any normalized [''git_''] then GitKind
      else if contains_any normalized [''browser'', ''chrome'', ''playwright''] then BrowserKind
      else if category = ShellTool \<and> shell_params_are_publish_like params then PublishKind
      else if category = ShellTool \<and> shell_params_are_destructive_like shlex params then DestructiveKind
      else kind_of_category category)"

definition kind_from_tool_name ::
    "(string \<Rightarrow> string list option) \<Rightarrow> string \<Rightarrow> tool_category \<Rightarrow> tool_action_kind" where
  "kind_from_tool_name shlex tool_name category = kind_from_tool_call shlex tool_name JNull category"

definition classify_stakes ::
    "(string \<Rightarrow> string list option) \<Rightarrow> string \<Rightarrow> tool_category \<Rightarrow> risk_level \<Rightarrow> json \<Rightarrow> approval_stakes" where
  "classify_stakes shlex tool_name category risk params =
     (if risk = Benign then Routine
      else if kind_from_tool_call shlex tool_name params category \<in> {PublishKind, DestructiveKind, SecretKind}
        then Critical
      else Elevated)"

section \<open>Context, rules and decision\<close>

datatype run_origin = Interactive | Headless | Background

fun run_origin_str :: "run_origin \<Rightarrow> string" where
  "run_origin_str Interactive = ''interactive''"
| "run_origin_str Headless = ''headless''"
| "run_origin_str Background = ''background''"

datatype review_action = AllowReview | AskUserReview | HoldForReview | BlockReview

fun review_action_str :: "review_action \<Rightarrow> string" where
  "review_action_str AllowReview = ''allow''"
| "review_action_str AskUserReview = ''ask_user''"
| "review_action_str HoldForReview = ''hold_for_review''"
| "review_action_str BlockReview = ''block''"

record review_decision =
  rd_action :: review_action
  rd_reason :: string
  rd_rule_id :: "string option"

definition review_decision_new :: "review_action \<Rightarrow> string \<Rightarrow> review_decision" where
  "review_decision_new action reason = \<lparr>rd_action = action, rd_reason = reason, rd_rule_id = None\<rparr>"

definition with_rule :: "string \<Rightarrow> review_decision \<Rightarrow> review_decision" where
  "with_rule rule d = d\<lparr>rd_rule_id := Some rule\<rparr>"

record review_context =
  rc_tool_name :: string
  rc_category :: tool_category
  rc_risk :: risk_level
  rc_action_kind :: tool_action_kind
  rc_run_origin :: run_origin
  rc_approval_mode :: approval_mode
  rc_user_intent :: "string option"
  rc_workspace_trusted :: bool
  rc_dirty_worktree :: bool

definition review_context_of ::
    "(string \<Rightarrow> string list option) \<Rightarrow> string \<Rightarrow> json \<Rightarrow> run_origin \<Rightarrow> approval_mode \<Rightarrow> string option
       \<Rightarrow> bool \<Rightarrow> bool \<Rightarrow> review_context" where
  "review_context_of shlex tool_name params origin mode intent trusted dirty =
     (let category = get_tool_category tool_name in
      \<lparr>rc_tool_name = tool_name, rc_category = category,
       rc_risk = classify_risk shlex tool_name category params,
       rc_action_kind = kind_from_tool_call shlex tool_name params category,
       rc_run_origin = origin, rc_approval_mode = mode, rc_user_intent = intent,
       rc_workspace_trusted = trusted, rc_dirty_worktree = dirty\<rparr>)"

record review_rule =
  rr_id :: string
  rr_action :: review_action
  rr_tool_name :: "string option"
  rr_action_kind :: "tool_action_kind option"
  rr_text_contains :: "string option"
  rr_reason :: string

definition review_rule_block :: "string \<Rightarrow> string \<Rightarrow> review_rule" where
  "review_rule_block i reason = \<lparr>rr_id = i, rr_action = BlockReview, rr_tool_name = None,
     rr_action_kind = None, rr_text_contains = None, rr_reason = reason\<rparr>"

definition review_rule_allow :: "string \<Rightarrow> string \<Rightarrow> review_rule" where
  "review_rule_allow i reason = \<lparr>rr_id = i, rr_action = AllowReview, rr_tool_name = None,
     rr_action_kind = None, rr_text_contains = None, rr_reason = reason\<rparr>"

definition review_rule_matches :: "review_rule \<Rightarrow> review_context \<Rightarrow> bool" where
  "review_rule_matches r ctx =
     (if (case rr_tool_name r of None \<Rightarrow> False | Some t \<Rightarrow> t \<noteq> rc_tool_name ctx) then False
      else if (case rr_action_kind r of None \<Rightarrow> False | Some k \<Rightarrow> k \<noteq> rc_action_kind ctx) then False
      else case rr_text_contains r of None \<Rightarrow> True
      | Some text \<Rightarrow>
          (case rc_user_intent ctx of None \<Rightarrow> False
           | Some intent \<Rightarrow> contains_str (to_ascii_lowercase text) (to_ascii_lowercase intent)))"

record review_policy =
  rp_allow_rules :: "review_rule list"
  rp_block_rules :: "review_rule list"
  rp_guidance :: "string option"

definition review_policy_default :: review_policy where
  "review_policy_default = \<lparr>rp_allow_rules = [], rp_block_rules = [], rp_guidance = None\<rparr>"

definition safety_floor :: "review_context \<Rightarrow> review_decision option" where
  "safety_floor ctx =
     (if rc_action_kind ctx = PublishKind then
        Some (review_decision_new HoldForReview ''publish-like action requires durable review'')
      else if rc_action_kind ctx \<in> {DestructiveKind, SecretKind} \<and> rc_run_origin ctx \<in> {Background, Headless} then
        Some (review_decision_new HoldForReview ''destructive background/headless action requires durable review'')
      else None)"

definition deterministic_fallback :: "review_context \<Rightarrow> review_decision" where
  "deterministic_fallback ctx =
     (if rc_risk ctx = Benign then review_decision_new AllowReview ''read-only action is allowed''
      else if rc_category ctx = UnknownTool then
        review_decision_new AskUserReview ''unknown tool category requires explicit review''
      else review_decision_new AskUserReview ''destructive action requires explicit review'')"

definition review_evaluate :: "review_policy \<Rightarrow> review_context \<Rightarrow> review_decision" where
  "review_evaluate policy ctx =
     (case find (\<lambda>r. review_rule_matches r ctx \<and> rr_action r = BlockReview) (rp_block_rules policy) of
        Some r \<Rightarrow> with_rule (rr_id r) (review_decision_new BlockReview (rr_reason r))
      | None \<Rightarrow>
     (case safety_floor ctx of Some d \<Rightarrow> d
      | None \<Rightarrow>
     (case find (\<lambda>r. review_rule_matches r ctx \<and> rr_action r = AllowReview) (rp_allow_rules policy) of
        Some r \<Rightarrow> with_rule (rr_id r) (review_decision_new AllowReview (rr_reason r))
      | None \<Rightarrow> deterministic_fallback ctx)))"

fun tool_category_label :: "tool_category \<Rightarrow> string" where
  "tool_category_label SafeTool = ''safe''"
| "tool_category_label FileWriteTool = ''file_write''"
| "tool_category_label ShellTool = ''shell''"
| "tool_category_label NetworkTool = ''network''"
| "tool_category_label McpReadTool = ''mcp_read''"
| "tool_category_label McpActionTool = ''mcp_action''"
| "tool_category_label AgentTool = ''agent''"
| "tool_category_label UnknownTool = ''unknown''"

fun risk_label :: "risk_level \<Rightarrow> string" where
  "risk_label Benign = ''benign''"
| "risk_label Destructive = ''destructive''"

definition review_audit_event :: "review_policy \<Rightarrow> review_context \<Rightarrow> review_decision \<Rightarrow> json" where
  "review_audit_event policy ctx d = JObj
     [(''tool_name'', JStr (rc_tool_name ctx)),
      (''tool_category'', JStr (tool_category_label (rc_category ctx))),
      (''risk'', JStr (risk_label (rc_risk ctx))),
      (''action_kind'', JStr (action_kind_str (rc_action_kind ctx))),
      (''run_origin'', JStr (run_origin_str (rc_run_origin ctx))),
      (''approval_mode'', JStr (approval_mode_label (rc_approval_mode ctx))),
      (''workspace_trusted'', JBool (rc_workspace_trusted ctx)),
      (''dirty_worktree'', JBool (rc_dirty_worktree ctx)),
      (''policy_has_guidance'', JBool (rp_guidance policy \<noteq> None)),
      (''decision'', JStr (review_action_str (rd_action d))),
      (''reason'', JStr (rd_reason d)),
      (''rule_id'', json_of_option JStr (rd_rule_id d))]"

section \<open>Configured rules\<close>

record review_rule_config =
  rcfg_id :: "string option"
  rcfg_tool :: "string option"
  rcfg_action_kind :: "string option"
  rcfg_text_contains :: "string option"
  rcfg_reason :: "string option"

record review_config =
  rcfg_guidance :: "string option"
  rcfg_allow :: "review_rule_config list"
  rcfg_block :: "review_rule_config list"

definition parse_action_kind :: "string \<Rightarrow> tool_action_kind option" where
  "parse_action_kind raw =
     map_of [(''read'', ReadKind), (''write'', WriteKind), (''shell'', ShellKind), (''network'', NetworkKind),
       (''git'', GitKind), (''mcp_read'', McpReadKind), (''mcp_action'', McpActionKind), (''browser'', BrowserKind),
       (''secret'', SecretKind), (''publish'', PublishKind), (''destructive'', DestructiveKind),
       (''unknown'', UnknownKind)]
      (replace_str ''-'' ''_'' (to_ascii_lowercase (trim raw)))"

text \<open>\<open>as_deref().map(str::trim).filter(|value| !value.is_empty())\<close>.\<close>

definition trimmed_nonempty :: "string option \<Rightarrow> string option" where
  "trimmed_nonempty x =
     (case x of None \<Rightarrow> None | Some s \<Rightarrow> if trim s = [] then None else Some (trim s))"

definition has_matcher :: "review_rule_config \<Rightarrow> bool" where
  "has_matcher c \<longleftrightarrow> trimmed_nonempty (rcfg_tool c) \<noteq> None \<or> trimmed_nonempty (rcfg_action_kind c) \<noteq> None
     \<or> trimmed_nonempty (rcfg_text_contains c) \<noteq> None"

definition to_runtime_rule :: "review_rule_config \<Rightarrow> nat \<Rightarrow> review_action \<Rightarrow> review_rule" where
  "to_runtime_rule c index action =
     (let id_prefix = (case action of AllowReview \<Rightarrow> ''allow'' | BlockReview \<Rightarrow> ''block''
                        | AskUserReview \<Rightarrow> ''ask'' | HoldForReview \<Rightarrow> ''hold'');
          rid = unwrap_or (''config-'' @ id_prefix @ ''-'' @ show_nat index) (trimmed_nonempty (rcfg_id c));
          reason = unwrap_or (''configured auto-review '' @ id_prefix @ '' rule'') (trimmed_nonempty (rcfg_reason c));
          rule = (if action = AllowReview then review_rule_allow rid reason else review_rule_block rid reason)
      in rule\<lparr>rr_tool_name := trimmed_nonempty (rcfg_tool c),
           rr_action_kind := Option.bind (trimmed_nonempty (rcfg_action_kind c)) parse_action_kind,
           rr_text_contains := trimmed_nonempty (rcfg_text_contains c)\<rparr>)"

definition to_runtime_rules :: "review_rule_config list \<Rightarrow> review_action \<Rightarrow> review_rule list" where
  "to_runtime_rules cs action = map (\<lambda>(index, c). to_runtime_rule c index action) (enumerate 0 cs)"

definition to_runtime_policy :: "review_config \<Rightarrow> review_policy" where
  "to_runtime_policy cfg =
     \<lparr>rp_allow_rules = to_runtime_rules (rcfg_allow cfg) AllowReview,
      rp_block_rules = to_runtime_rules (rcfg_block cfg) BlockReview,
      rp_guidance = trimmed_nonempty (rcfg_guidance cfg)\<rparr>"

text \<open>Validation returns the message of the first rule that is not acceptable.\<close>

fun validate_review_rules :: "string \<Rightarrow> nat \<Rightarrow> review_rule_config list \<Rightarrow> string option" where
  "validate_review_rules kind index [] = None"
| "validate_review_rules kind index (c # cs) =
     (if \<not> has_matcher c then
        Some (''Invalid auto_review.'' @ kind @ ''['' @ show_nat index
          @ '']: set at least one of tool, action_kind, or text_contains.'')
      else case rcfg_action_kind c of
        Some k \<Rightarrow>
          if parse_action_kind (trim k) = None then
            Some (''Invalid auto_review.'' @ kind @ ''['' @ show_nat index @ ''].action_kind '' @ [CHR 0x27] @ k
              @ [CHR 0x27] @ '': expected read, write, shell, network, git, mcp_read, mcp_action, browser, secret, publish, destructive, or unknown.'')
          else validate_review_rules kind (index + 1) cs
      | None \<Rightarrow> validate_review_rules kind (index + 1) cs)"

definition validate_review_config :: "review_config \<Rightarrow> string option" where
  "validate_review_config cfg =
     (case validate_review_rules ''allow'' 0 (rcfg_allow cfg) of Some err \<Rightarrow> Some err
      | None \<Rightarrow> validate_review_rules ''block'' 0 (rcfg_block cfg))"

definition configured_review_policy :: "review_config option \<Rightarrow> review_policy" where
  "configured_review_policy cfg = (case cfg of None \<Rightarrow> review_policy_default | Some c \<Rightarrow> to_runtime_policy c)"

section \<open>The decision of the engine\<close>

datatype review_plan_decision = NoChange | ForcePrompt string | PlanBlock string

definition run_origin_for_plan :: "bool \<Rightarrow> run_origin" where
  "run_origin_for_plan detached_start = (if detached_start then Background else Interactive)"

definition review_plan_decision ::
    "(string \<Rightarrow> string list option) \<Rightarrow> review_policy \<Rightarrow> string \<Rightarrow> json \<Rightarrow> run_origin \<Rightarrow> approval_mode
       \<Rightarrow> string option \<Rightarrow> bool \<Rightarrow> bool \<Rightarrow> review_plan_decision \<times> json" where
  "review_plan_decision shlex policy tool_name input origin mode intent trusted dirty =
     (let ctx = review_context_of shlex tool_name input origin mode intent trusted dirty;
          d = review_evaluate policy ctx;
          audit = review_audit_event policy ctx d;
          plan = (case rd_action d of
              AllowReview \<Rightarrow> NoChange
            | AskUserReview \<Rightarrow> NoChange
            | HoldForReview \<Rightarrow>
                (let reason = ''Built-in safety gate requires approval: '' @ rd_reason d in
                 if mode = NeverMode then PlanBlock reason else ForcePrompt reason)
            | BlockReview \<Rightarrow>
                PlanBlock (''Auto-review policy blocked tool '' @ [CHR 0x27] @ tool_name @ [CHR 0x27] @ '': '' @ rd_reason d))
      in (plan, audit))"

end
