(* ===== verification/Repo_Law.thy ===== *)
theory Repo_Law
  imports Json
begin

text \<open>
  Repo law (\<open>crates/tui/src/repo_law.rs\<close>): the paths a write tool names, normalised against the
  workspace, and the strongest hold among the rules whose globs match one of them. A compiled glob set is
  a predicate on paths, as the library \<open>globset\<close> gives it. Loading the rules from the constitution of
  the repository is switched off in the source (\<open>project_context.rs\<close> returns no rules).
\<close>

section \<open>Rules\<close>

datatype repo_law_action = LawAsk | LawBlock

record repo_law_rule =
  law_text :: string
  law_patterns :: "string list"
  law_globs :: "string \<Rightarrow> bool"
  law_action :: repo_law_action

definition load_repo_law_rules :: "string \<Rightarrow> repo_law_rule list" where
  "load_repo_law_rules workspace = []"

datatype repo_law_plan = LawForcePrompt string | LawBlocked string

definition law_write_tools :: "string list" where
  "law_write_tools = [''write_file'', ''append_file'', ''edit_file'', ''apply_patch'', ''fim_edit'']"

section \<open>Target paths\<close>

definition diff_header_path :: "string \<Rightarrow> string option" where
  "diff_header_path rest =
     (let path = trim (takeWhile (\<lambda>c. c \<noteq> CHR 0x09) rest) in
      if path = [] \<or> path = ''/dev/null'' then None
      else case strip_prefix ''a/'' path of Some s \<Rightarrow> Some s
        | None \<Rightarrow> (case strip_prefix ''b/'' path of Some s \<Rightarrow> Some s | None \<Rightarrow> Some path))"

text \<open>The components of a path: empty ones and \<open>.\<close> are skipped, both by \<open>Path\<close> and by the loop that
  follows, so they are dropped at once.\<close>

definition law_components :: "string \<Rightarrow> string list" where
  "law_components s = filter (\<lambda>c. c \<noteq> [] \<and> c \<noteq> ''.'') (split_char (CHR ''/'') s)"

text \<open>\<open>Path::strip_prefix\<close>: both absolute or both relative, and the components a prefix.\<close>

definition relative_components :: "string \<Rightarrow> string \<Rightarrow> string list" where
  "relative_components workspace path =
     (let ws = law_components workspace; ps = law_components path in
      if (workspace = [] \<or> prefix ''/'' workspace = prefix ''/'' path) \<and> prefix ws ps
      then drop (length ws) ps else ps)"

text \<open>The stack of components; a parent above the root leaves a marker.\<close>

fun collapse_parts :: "string list \<Rightarrow> string list \<Rightarrow> string list" where
  "collapse_parts stack [] = rev stack"
| "collapse_parts stack (c # cs) =
     (if c = ''..'' then
        (case stack of [] \<Rightarrow> collapse_parts [''..''] cs | _ # rest \<Rightarrow> collapse_parts rest cs)
      else collapse_parts (c # stack) cs)"

definition push_normalized :: "string \<Rightarrow> string \<Rightarrow> string list" where
  "push_normalized workspace raw =
     (let trimmed = replace_str [CHR 0x5C] ''/'' (trim raw) in
      if trimmed = [] then []
      else
        let normalized = join_str ''/'' (collapse_parts [] (relative_components workspace trimmed)) in
        if normalized = [] then [] else [normalized])"

text \<open>The lines of a patch: the targets found so far grow at the end; the old path of a diff header is
  kept for a deletion.\<close>

fun patch_targets :: "string \<Rightarrow> string option \<Rightarrow> string list \<Rightarrow> string list" where
  "patch_targets workspace pending [] = []"
| "patch_targets workspace pending (line # rest) =
     (case strip_prefix ''*** Update File: '' line of
        Some r \<Rightarrow> push_normalized workspace (trim r) @ patch_targets workspace pending rest
      | None \<Rightarrow>
     (case strip_prefix ''*** Add File: '' line of
        Some r \<Rightarrow> push_normalized workspace (trim r) @ patch_targets workspace pending rest
      | None \<Rightarrow>
     (case strip_prefix ''*** Delete File: '' line of
        Some r \<Rightarrow> push_normalized workspace (trim r) @ patch_targets workspace pending rest
      | None \<Rightarrow>
     (case strip_prefix ''--- '' line of
        Some r \<Rightarrow>
          (case diff_header_path r of
             Some p \<Rightarrow> push_normalized workspace p @ patch_targets workspace (Some p) rest
           | None \<Rightarrow> patch_targets workspace None rest)
      | None \<Rightarrow>
     (case strip_prefix ''+++ '' line of
        Some r \<Rightarrow>
          (case diff_header_path r of
             Some p \<Rightarrow> push_normalized workspace p @ patch_targets workspace pending rest
           | None \<Rightarrow>
               (case pending of
                  Some old \<Rightarrow> push_normalized workspace old @ patch_targets workspace None rest
                | None \<Rightarrow> patch_targets workspace None rest))
      | None \<Rightarrow> patch_targets workspace pending rest)))))"

definition write_target_paths :: "string \<Rightarrow> json \<Rightarrow> string list" where
  "write_target_paths workspace input =
     (let params = concat (map (\<lambda>k. case json_field input k json_as_str of
            Some p \<Rightarrow> push_normalized workspace p | None \<Rightarrow> [])
          [''path'', ''target'', ''destination'', ''file_path'']);
          changes = (case json_field input ''changes'' json_as_array of
            Some cs \<Rightarrow> concat (map (\<lambda>c. case json_field c ''path'' json_as_str of
                Some p \<Rightarrow> push_normalized workspace p | None \<Rightarrow> []) cs)
          | None \<Rightarrow> []);
          patch = (case json_field input ''patch'' json_as_str of
            Some text \<Rightarrow> patch_targets workspace None (str_lines text) | None \<Rightarrow> [])
      in remdups_adj (sort (params @ changes @ patch)))"

section \<open>The decision\<close>

text \<open>The inner and the outer loop over the targets and the rules, with the hold found so far.\<close>

fun hold_targets ::
    "repo_law_rule \<Rightarrow> (repo_law_rule \<times> string) option \<Rightarrow> string list \<Rightarrow> (repo_law_rule \<times> string) option" where
  "hold_targets rule hold [] = hold"
| "hold_targets rule hold (target # targets) =
     (let stronger = (law_action rule = LawBlock \<or> hold = None);
          already_blocking = (case hold of None \<Rightarrow> False | Some (held, _) \<Rightarrow> law_action held = LawBlock)
      in hold_targets rule
           (if law_globs rule target \<and> stronger \<and> \<not> already_blocking then Some (rule, target) else hold) targets)"

fun hold_rules ::
    "(repo_law_rule \<times> string) option \<Rightarrow> repo_law_rule list \<Rightarrow> string list \<Rightarrow> (repo_law_rule \<times> string) option" where
  "hold_rules hold [] targets = hold"
| "hold_rules hold (rule # rules) targets = hold_rules (hold_targets rule hold targets) rules targets"

definition law_reason :: "repo_law_rule \<Rightarrow> string \<Rightarrow> string" where
  "law_reason rule target =
     ''Repo law holds this write: '' @ [CHR 0x22] @ law_text rule @ [CHR 0x22] @ '' protects ''
     @ join_str '', '' (law_patterns rule) @ '' (matched '' @ target @ '', .codewhale/constitution.json)''"

definition repo_law_decision :: "repo_law_rule list \<Rightarrow> string \<Rightarrow> string \<Rightarrow> json \<Rightarrow> repo_law_plan option" where
  "repo_law_decision rules workspace tool_name input =
     (if tool_name \<notin> set law_write_tools then None
      else
        let targets = write_target_paths workspace input in
        if targets = [] then None
        else if rules = [] then None
        else case hold_rules None rules targets of None \<Rightarrow> None
          | Some (rule, target) \<Rightarrow>
              (case law_action rule of
                 LawAsk \<Rightarrow> Some (LawForcePrompt (law_reason rule target))
               | LawBlock \<Rightarrow> Some (LawBlocked (law_reason rule target))))"

definition repo_law_plan_decision :: "string \<Rightarrow> string \<Rightarrow> json \<Rightarrow> repo_law_plan option" where
  "repo_law_plan_decision workspace tool_name input =
     repo_law_decision (load_repo_law_rules workspace) workspace tool_name input"

section \<open>What the decision means\<close>

definition matches_law :: "repo_law_rule list \<Rightarrow> string list \<Rightarrow> repo_law_action \<Rightarrow> bool" where
  "matches_law rules targets a \<longleftrightarrow> (\<exists>r \<in> set rules. law_action r = a \<and> (\<exists>t \<in> set targets. law_globs r t))"

text \<open>The strength of a hold: none, ask or block.\<close>

definition hold_action :: "(repo_law_rule \<times> string) option \<Rightarrow> repo_law_action option" where
  "hold_action hold = map_option (\<lambda>(r, _). law_action r) hold"

lemma hold_action_simps [simp]:
  "hold_action None = None" "hold_action (Some (r, t)) = Some (law_action r)" "hold_action h = None \<longleftrightarrow> h = None"
  by (simp_all add: hold_action_def)

lemma hold_targets_action:
  "hold_action (hold_targets rule hold ts) =
     (if hold_action hold = Some LawBlock then Some LawBlock
      else if \<exists>t \<in> set ts. law_globs rule t then
        (if law_action rule = LawBlock then Some LawBlock
         else if hold = None then Some LawAsk else hold_action hold)
      else hold_action hold)"
proof (induction ts arbitrary: hold)
  case (Cons t ts)
  show ?case
    by (cases "law_action rule"; cases hold)
      (auto simp: Let_def Cons.IH split: if_splits)
qed simp

lemma law_action_cases: "x \<noteq> Some LawBlock \<Longrightarrow> x = None \<or> x = Some LawAsk"
  by (cases x) (auto intro: repo_law_action.exhaust)

lemma hold_rules_action:
  "hold_action (hold_rules hold rules ts) =
     (if hold_action hold = Some LawBlock \<or> matches_law rules ts LawBlock then Some LawBlock
      else if hold \<noteq> None \<or> matches_law rules ts LawAsk then Some LawAsk else None)"
proof (induction rules arbitrary: hold)
  case Nil
  then show ?case using law_action_cases [of "hold_action hold"]
    by (cases hold) (auto simp: matches_law_def)
next
  case (Cons r rules)
  have "matches_law (r # rules) ts a \<longleftrightarrow> law_action r = a \<and> (\<exists>t \<in> set ts. law_globs r t) \<or> matches_law rules ts a"
    for a by (auto simp: matches_law_def)
  moreover have "hold_targets r hold ts = None \<longleftrightarrow> hold = None \<and> \<not> (\<exists>t \<in> set ts. law_globs r t)"
    using hold_targets_action [of r hold ts] by (auto simp flip: hold_action_simps(3) split: if_splits)
  ultimately show ?case
    using law_action_cases [of "hold_action hold"]
    by (cases "law_action r") (auto simp: Cons.IH hold_targets_action)
qed

definition law_strength :: "repo_law_plan option \<Rightarrow> repo_law_action option" where
  "law_strength d = map_option (\<lambda>p. case p of LawForcePrompt _ \<Rightarrow> LawAsk | LawBlocked _ \<Rightarrow> LawBlock) d"

lemma law_decision_strength:
  "law_strength (repo_law_decision rules workspace tool input) =
     (let ts = write_target_paths workspace input in
      if tool \<in> set law_write_tools \<and> matches_law rules ts LawBlock then Some LawBlock
      else if tool \<in> set law_write_tools \<and> matches_law rules ts LawAsk then Some LawAsk else None)"
proof -
  let ?ts = "write_target_paths workspace input"
  have "law_strength (case hold_rules None rules ?ts of None \<Rightarrow> None
      | Some (rule, target) \<Rightarrow> (case law_action rule of
          LawAsk \<Rightarrow> Some (LawForcePrompt (law_reason rule target))
        | LawBlock \<Rightarrow> Some (LawBlocked (law_reason rule target)))) = hold_action (hold_rules None rules ?ts)"
    by (auto simp: law_strength_def hold_action_def split: option.split repo_law_action.split)
  then have "law_strength (repo_law_decision rules workspace tool input) =
      (if tool \<notin> set law_write_tools \<or> ?ts = [] \<or> rules = [] then None
       else hold_action (hold_rules None rules ?ts))"
    by (simp add: repo_law_decision_def Let_def) (simp add: law_strength_def)
  moreover have "?ts = [] \<or> rules = [] \<Longrightarrow> \<not> matches_law rules ?ts a" for a
    by (auto simp: matches_law_def)
  ultimately show ?thesis by (auto simp: hold_rules_action Let_def)
qed

text \<open>As the source stands, no rule is ever loaded and no write is held.\<close>

lemma repo_law_never_holds: "repo_law_plan_decision workspace tool input = None"
  by (simp add: repo_law_plan_decision_def repo_law_decision_def load_repo_law_rules_def Let_def)

end
