(* ===== verification/Tool_Gate.thy ===== *)
theory Tool_Gate
  imports Auto_Review Exec_Policy Repo_Law
begin

text \<open>
  The gate every tool call of a turn passes before it runs: the planning loop of
  \<open>crates/tui/src/core/engine/turn_loop.rs\<close> with the helpers of \<open>core/engine.rs\<close>, \<open>core/engine/dispatch.rs\<close> and
  \<open>hooks.rs\<close>. The variables of the loop body are the record \<open>call_plan\<close>; each block of the body is one step
  on it, and \<open>plan_tool_call\<close> runs the steps in the order of the source. What a registered tool says of
  its own call (\<open>tool_spec\<close>), the processes that hooks run, the JSON parser and the preflight of a patch
  are given by the environment.
\<close>

section \<open>The environment and the call\<close>

datatype app_mode = AgentAppMode | AutoAppMode | YoloAppMode | PlanAppMode | OperateAppMode

datatype approval_requirement = ReqAuto | ReqSuggest | ReqRequired

datatype tool_error =
    InvalidInput string | MissingField string | PathEscape string | ExecutionFailed string | TimedOut u64
  | NotAvailable string | PermissionDenied string

record tool_spec =
  ts_requirement :: "json \<Rightarrow> approval_requirement"
  ts_description :: string
  ts_parallel :: "json \<Rightarrow> bool"
  ts_read_only :: "json \<Rightarrow> bool"
  ts_detached :: "json \<Rightarrow> bool"

record hook_result =
  hk_exit_code :: "int option"
  hk_stdout :: string
  hk_stderr :: string
  hk_error :: "string option"

record gate_env =
  ge_shlex :: "string \<Rightarrow> string list option"
  ge_from_str :: "string \<Rightarrow> json option"
  ge_missing_tool :: "string \<Rightarrow> string"
  ge_patch_files :: "json \<Rightarrow> string list"
  ge_mode :: app_mode
  ge_auto_approve :: bool
  ge_registry_auto_approve :: bool
  ge_approval_mode :: approval_mode
  ge_workspace :: string
  ge_workspace_trusted :: bool
  ge_disallowed :: "string list option"
  ge_allowed :: "string list option"
  ge_registry :: "string \<Rightarrow> tool_spec option"
  ge_hooks :: "(string \<Rightarrow> json \<Rightarrow> hook_result list) option"
  ge_exec_policy :: exec_policy_engine
  ge_review_policy :: review_policy

record tool_call =
  tc_name :: string
  tc_input :: json
  tc_parse_error :: "string option"
  tc_caller :: "string option"
  tc_allowed_callers :: "string list option"

record call_plan =
  pl_input :: json
  pl_interactive :: bool
  pl_approval_required :: bool
  pl_description :: string
  pl_force_prompt :: bool
  pl_parallel :: bool
  pl_read_only :: bool
  pl_detached :: bool
  pl_blocked :: "tool_error option"
  pl_hook_approval :: bool
  pl_context :: "string option"

section \<open>Helpers\<close>

definition code_execution_tool :: string where
  "code_execution_tool = ''code_execution''"

definition js_execution_tool :: string where
  "js_execution_tool = ''js_execution''"

definition is_tool_search_tool :: "string \<Rightarrow> bool" where
  "is_tool_search_tool nm \<longleftrightarrow> nm \<in> {''tool_search'', ''tool_search_tool_regex'', ''tool_search_tool_bm25''}"

definition is_mcp_tool :: "string \<Rightarrow> bool" where
  "is_mcp_tool nm \<longleftrightarrow> prefix ''mcp_'' nm
     \<or> nm \<in> {''list_mcp_resources'', ''list_mcp_resource_templates'', ''read_mcp_resource''}"

definition mcp_tool_is_read_only :: "string \<Rightarrow> bool" where
  "mcp_tool_is_read_only nm \<longleftrightarrow>
     nm \<in> {''list_mcp_resources'', ''list_mcp_resource_templates'', ''mcp_read_resource'', ''read_mcp_resource'',
       ''mcp_get_prompt''}"

definition mcp_tool_is_parallel_safe :: "string \<Rightarrow> bool" where
  "mcp_tool_is_parallel_safe nm \<longleftrightarrow>
     nm \<in> {''list_mcp_resources'', ''list_mcp_resource_templates'', ''mcp_read_resource'', ''read_mcp_resource'',
       ''mcp_get_prompt''}"

definition mcp_tool_approval_description :: "string \<Rightarrow> string" where
  "mcp_tool_approval_description nm =
     (if mcp_tool_is_read_only nm then ''Read-only MCP tool '' @ quoted nm
      else ''MCP tool '' @ quoted nm @ '' may have side effects'')"

definition mode_blocks_command_execution :: "app_mode \<Rightarrow> string \<Rightarrow> bool" where
  "mode_blocks_command_execution mode nm \<longleftrightarrow> mode = PlanAppMode
     \<and> nm \<in> {''exec_shell'', ''exec_shell_wait'', ''exec_shell_interact'', ''exec_wait'', ''exec_interact'',
         code_execution_tool, js_execution_tool}"

definition mode_blocks_write_capable_tool :: "app_mode \<Rightarrow> string \<Rightarrow> bool \<Rightarrow> bool" where
  "mode_blocks_write_capable_tool mode nm read_only \<longleftrightarrow> mode = PlanAppMode
     \<and> (nm \<in> {''write_file'', ''append_file'', ''edit_file'', ''apply_patch''} \<or> is_mcp_tool nm \<and> \<not> read_only)"

text \<open>A rule of the tool lists: a name or, with a trailing star, the beginning of one, in any case.\<close>

definition tool_rule_matches :: "string \<Rightarrow> string \<Rightarrow> bool" where
  "tool_rule_matches nm rule =
     (let n = to_ascii_lowercase nm; r = to_ascii_lowercase rule in
      case strip_suffix ''*'' r of Some p \<Rightarrow> prefix p n | None \<Rightarrow> n = r)"

definition command_allows_tool :: "string list option \<Rightarrow> string \<Rightarrow> bool" where
  "command_allows_tool allowed nm =
     (case allowed of None \<Rightarrow> True | Some rules \<Rightarrow> list_ex (tool_rule_matches nm) rules)"

definition command_denies_tool :: "string list option \<Rightarrow> string \<Rightarrow> bool" where
  "command_denies_tool disallowed nm =
     (case disallowed of None \<Rightarrow> False | Some rules \<Rightarrow> list_ex (tool_rule_matches nm) rules)"

definition caller_type_for_tool_use :: "string option \<Rightarrow> string" where
  "caller_type_for_tool_use caller = unwrap_or ''direct'' caller"

definition caller_allowed_for_tool :: "string option \<Rightarrow> string list option \<Rightarrow> bool" where
  "caller_allowed_for_tool caller allowed_callers =
     (let requested = caller_type_for_tool_use caller in
      case allowed_callers of
        Some allowed \<Rightarrow> if allowed = [] then requested = ''direct'' else requested \<in> set allowed
      | None \<Rightarrow> requested = ''direct'')"

definition requires_non_bypassable_approval :: "string \<Rightarrow> bool" where
  "requires_non_bypassable_approval nm \<longleftrightarrow> nm \<in> {''rlm_eval'', ''start_mcp_server''}"

definition registered_tool_approval_required :: "string \<Rightarrow> approval_requirement \<Rightarrow> bool \<Rightarrow> bool" where
  "registered_tool_approval_required nm req auto_approve =
     (if req = ReqAuto then False else if requires_non_bypassable_approval nm then True else \<not> auto_approve)"

definition registered_tool_approval_force_prompt :: "string \<Rightarrow> approval_requirement \<Rightarrow> bool" where
  "registered_tool_approval_force_prompt nm req \<longleftrightarrow> req \<noteq> ReqAuto \<and> requires_non_bypassable_approval nm"

section \<open>Hooks\<close>

datatype hook_decision = HookAllow | HookDeny | HookAsk

record hook_stdout =
  hs_decision :: "hook_decision option"
  hs_reason :: "string option"
  hs_updated_input :: "json option"
  hs_context :: "string option"

definition hook_passthrough :: hook_stdout where
  "hook_passthrough = \<lparr>hs_decision = None, hs_reason = None, hs_updated_input = None, hs_context = None\<rparr>"

fun json_is_object :: "json \<Rightarrow> bool" where
  "json_is_object (JObj _) = True"
| "json_is_object _ = False"

definition parse_hook_decision :: "string \<Rightarrow> hook_decision option" where
  "parse_hook_decision s =
     (if s = ''allow'' then Some HookAllow else if s = ''deny'' then Some HookDeny
      else if s = ''ask'' then Some HookAsk else None)"

definition parse_tool_call_before_stdout :: "(string \<Rightarrow> json option) \<Rightarrow> string \<Rightarrow> hook_stdout" where
  "parse_tool_call_before_stdout from_str stdout =
     (let trimmed = trim stdout in
      if trimmed = [] then hook_passthrough
      else case from_str trimmed of None \<Rightarrow> hook_passthrough
      | Some v \<Rightarrow>
          if \<not> json_is_object v then hook_passthrough
          else \<lparr>hs_decision = Option.bind (json_field v ''decision'' json_as_str) parse_hook_decision,
                hs_reason = json_field v ''reason'' json_as_str,
                hs_updated_input = (case json_get v ''updatedInput'' of
                    Some u \<Rightarrow> if json_is_object u then Some u else None | None \<Rightarrow> None),
                hs_context = json_field v ''additionalContext'' json_as_str\<rparr>)"

record hook_fold =
  hf_deny_reason :: "string option"
  hf_requires_approval :: bool
  hf_updated_input :: "json option"
  hf_context :: "string option"

definition hook_fold_default :: hook_fold where
  "hook_fold_default =
     \<lparr>hf_deny_reason = None, hf_requires_approval = False, hf_updated_input = None, hf_context = None\<rparr>"

text \<open>The first line of a trimmed output, unless it is empty.\<close>

definition first_output_line :: "string \<Rightarrow> string option" where
  "first_output_line s =
     (case str_lines (trim s) of [] \<Rightarrow> None | l # _ \<Rightarrow> if l = [] then None else Some l)"

definition exit_deny_reason :: "hook_result \<Rightarrow> string" where
  "exit_deny_reason r =
     (case first_output_line (hk_stdout r) of Some l \<Rightarrow> l
      | None \<Rightarrow>
     (case first_output_line (hk_stderr r) of Some l \<Rightarrow> l
      | None \<Rightarrow> unwrap_or ''ToolCallBefore hook denied tool execution'' (hk_error r)))"

fun fold_hook_results :: "(string \<Rightarrow> json option) \<Rightarrow> hook_fold \<Rightarrow> hook_result list \<Rightarrow> hook_fold" where
  "fold_hook_results from_str acc [] = acc"
| "fold_hook_results from_str acc (r # rs) =
     (if hk_exit_code r = None then fold_hook_results from_str acc rs
      else
        let parsed = parse_tool_call_before_stdout from_str (hk_stdout r) in
        if hs_decision parsed = Some HookDeny then
          acc\<lparr>hf_deny_reason := Some (unwrap_or ''ToolCallBefore hook denied tool execution'' (hs_reason parsed))\<rparr>
        else fold_hook_results from_str
          (acc\<lparr>hf_requires_approval := (hf_requires_approval acc \<or> hs_decision parsed = Some HookAsk),
               hf_updated_input := (case hs_updated_input parsed of Some u \<Rightarrow> Some u | None \<Rightarrow> hf_updated_input acc),
               hf_context := (case hs_context parsed of
                   Some c \<Rightarrow> (case hf_context acc of Some e \<Rightarrow> Some (e @ [CHR 0x0A] @ c) | None \<Rightarrow> Some c)
                 | None \<Rightarrow> hf_context acc)\<rparr>) rs)"

definition fold_tool_call_before_results :: "(string \<Rightarrow> json option) \<Rightarrow> hook_result list \<Rightarrow> hook_fold" where
  "fold_tool_call_before_results from_str results =
     (case find (\<lambda>r. hk_exit_code r = Some 2) results of
        Some denial \<Rightarrow> hook_fold_default\<lparr>hf_deny_reason := Some (exit_deny_reason denial)\<rparr>
      | None \<Rightarrow> fold_hook_results from_str hook_fold_default results)"

section \<open>Ask rules\<close>

datatype ask_rule_decision = AskPrompt string | AskBlock string

definition ask_for_approval_of :: "approval_mode \<Rightarrow> ask_for_approval" where
  "ask_for_approval_of mode = (if mode = NeverMode then Never else OnFailure)"

definition tool_ask_rule_decision ::
    "gate_env \<Rightarrow> string \<Rightarrow> string \<Rightarrow> string option \<Rightarrow> ask_rule_decision option" where
  "tool_ask_rule_decision env tool_name command path =
     (let d = check (ge_exec_policy env)
          \<lparr>ctx_command = command, ctx_cwd = ge_workspace env, ctx_tool = Some tool_name, ctx_path = path,
           ctx_ask_for_approval = ask_for_approval_of (ge_approval_mode env), ctx_sandbox_mode = None\<rparr> in
      if \<not> allow d then Some (AskBlock (requirement_reason (requirement d)))
      else if requires_approval d then Some (AskPrompt (requirement_reason (requirement d)))
      else None)"

definition exec_shell_ask_rule_decision :: "gate_env \<Rightarrow> string \<Rightarrow> json \<Rightarrow> ask_rule_decision option" where
  "exec_shell_ask_rule_decision env tool_name input =
     (if tool_name \<noteq> ''exec_shell'' then None
      else case json_field input ''command'' json_as_str of None \<Rightarrow> None
      | Some command \<Rightarrow> tool_ask_rule_decision env tool_name command None)"

definition string_field :: "json \<Rightarrow> string \<Rightarrow> string option" where
  "string_field input k = trimmed_nonempty (json_field input k json_as_str)"

definition file_tool_permission_paths :: "gate_env \<Rightarrow> string \<Rightarrow> json \<Rightarrow> string list option" where
  "file_tool_permission_paths env tool_name input =
     (if tool_name \<in> {''read_file'', ''write_file'', ''append_file'', ''edit_file'', ''file_search'', ''grep_files''}
      then Some (case string_field input ''path'' of None \<Rightarrow> [] | Some p \<Rightarrow> [p])
      else if tool_name = ''list_dir'' then Some [unwrap_or ''.'' (string_field input ''path'')]
      else if tool_name = ''apply_patch'' then Some (ge_patch_files env input)
      else None)"

text \<open>The loop over the paths: the first block returns, else the first prompt is kept.\<close>

fun paths_ask_rule_decision ::
    "gate_env \<Rightarrow> string \<Rightarrow> string option \<Rightarrow> string list \<Rightarrow> ask_rule_decision option" where
  "paths_ask_rule_decision env tool_name prompt [] = map_option AskPrompt prompt"
| "paths_ask_rule_decision env tool_name prompt (p # ps) =
     (case tool_ask_rule_decision env tool_name [] (Some p) of
        Some (AskBlock reason) \<Rightarrow> Some (AskBlock reason)
      | Some (AskPrompt reason) \<Rightarrow>
          paths_ask_rule_decision env tool_name (Some (unwrap_or reason prompt)) ps
      | None \<Rightarrow> paths_ask_rule_decision env tool_name prompt ps)"

definition file_tool_ask_rule_decision :: "gate_env \<Rightarrow> string \<Rightarrow> json \<Rightarrow> ask_rule_decision option" where
  "file_tool_ask_rule_decision env tool_name input =
     (case file_tool_permission_paths env tool_name input of None \<Rightarrow> None
      | Some [] \<Rightarrow> tool_ask_rule_decision env tool_name [] None
      | Some paths \<Rightarrow> paths_ask_rule_decision env tool_name None paths)"

definition ask_rule_of_call :: "gate_env \<Rightarrow> string \<Rightarrow> json \<Rightarrow> ask_rule_decision option" where
  "ask_rule_of_call env tool_name input =
     (case exec_shell_ask_rule_decision env tool_name input of Some d \<Rightarrow> Some d
      | None \<Rightarrow> file_tool_ask_rule_decision env tool_name input)"

section \<open>The steps of the gate\<close>

definition initial_plan :: "tool_call \<Rightarrow> call_plan" where
  "initial_plan call =
     \<lparr>pl_input = tc_input call,
      pl_interactive = (tc_name call = ''exec_shell'' \<and> json_get (tc_input call) ''interactive'' = Some (JBool True)
        \<or> tc_name call = ''request_user_input''),
      pl_approval_required = False, pl_description = ''Tool execution requires approval'',
      pl_force_prompt = False, pl_parallel = False, pl_read_only = False, pl_detached = False,
      pl_blocked = None, pl_hook_approval = False, pl_context = None\<rparr>"

text \<open>The blocks before the hooks, each under \<open>blocked_error.is_none()\<close>: the first that applies.\<close>

definition entry_error :: "gate_env \<Rightarrow> tool_call \<Rightarrow> tool_error option" where
  "entry_error env call =
     (let nm = tc_name call in
      if mode_blocks_command_execution (ge_mode env) nm then
        Some (PermissionDenied (quoted nm @ '' is not available in Plan mode '' @ [CHR 0xE2, CHR 0x80, CHR 0x94]
          @ '' switch to Act mode (`/mode act`) to run commands and code.''))
      else if tc_parse_error call \<noteq> None then Some (InvalidInput (the (tc_parse_error call)))
      else if command_denies_tool (ge_disallowed env) nm then
        Some (PermissionDenied (''Tool '' @ quoted nm @ '' is in the disallowed-tools list''))
      else if \<not> command_allows_tool (ge_allowed env) nm then
        Some (PermissionDenied (''Tool '' @ quoted nm @ '' is not in the allowed-tools list for the current command''))
      else if \<not> caller_allowed_for_tool (tc_caller call) (tc_allowed_callers call) then
        Some (PermissionDenied (''Tool '' @ quoted nm @ '' does not allow caller ''
          @ quoted (caller_type_for_tool_use (tc_caller call))))
      else if ge_registry env nm = None \<and> \<not> is_mcp_tool nm \<and> nm \<noteq> code_execution_tool \<and> nm \<noteq> js_execution_tool
          \<and> \<not> is_tool_search_tool nm then
        Some (NotAvailable (ge_missing_tool env nm))
      else None)"

definition entry_step :: "gate_env \<Rightarrow> tool_call \<Rightarrow> call_plan \<Rightarrow> call_plan" where
  "entry_step env call p = p\<lparr>pl_blocked := entry_error env call\<rparr>"

definition hook_step :: "gate_env \<Rightarrow> tool_call \<Rightarrow> call_plan \<Rightarrow> call_plan" where
  "hook_step env call p =
     (case (pl_blocked p, ge_hooks env) of
        (None, Some run) \<Rightarrow>
          (let f = fold_tool_call_before_results (ge_from_str env) (run (tc_name call) (pl_input p)) in
           case hf_deny_reason f of
             Some reason \<Rightarrow> p\<lparr>pl_blocked := Some (PermissionDenied
                 (''ToolCallBefore hook denied tool '' @ quoted (tc_name call) @ '': '' @ reason))\<rparr>
           | None \<Rightarrow> p\<lparr>pl_hook_approval := (pl_hook_approval p \<or> hf_requires_approval f),
                       pl_input := unwrap_or (pl_input p) (hf_updated_input f),
                       pl_context := hf_context f\<rparr>)
      | _ \<Rightarrow> p)"

text \<open>The approval a call needs by its kind; this block runs for blocked calls too.\<close>

definition approval_step :: "gate_env \<Rightarrow> tool_call \<Rightarrow> call_plan \<Rightarrow> call_plan" where
  "approval_step env call p =
     (let nm = tc_name call in
      if is_mcp_tool nm then
        p\<lparr>pl_read_only := mcp_tool_is_read_only nm, pl_parallel := mcp_tool_is_parallel_safe nm,
          pl_approval_required := (\<not> mcp_tool_is_read_only nm \<and> \<not> ge_auto_approve env),
          pl_description := mcp_tool_approval_description nm\<rparr>
      else case ge_registry env nm of
        Some spec \<Rightarrow>
          (let req = ts_requirement spec (pl_input p) in
           p\<lparr>pl_approval_required := registered_tool_approval_required nm req (ge_registry_auto_approve env),
             pl_force_prompt := registered_tool_approval_force_prompt nm req,
             pl_description := ts_description spec, pl_parallel := ts_parallel spec (pl_input p),
             pl_read_only := ts_read_only spec (pl_input p), pl_detached := ts_detached spec (pl_input p)\<rparr>)
      | None \<Rightarrow>
          if nm = code_execution_tool then
            p\<lparr>pl_approval_required := (\<not> ge_auto_approve env),
              pl_description := ''Run model-provided Python code in local execution sandbox'',
              pl_parallel := False, pl_read_only := False\<rparr>
          else if nm = js_execution_tool then
            p\<lparr>pl_approval_required := (\<not> ge_auto_approve env),
              pl_description := ''Run model-provided JavaScript code in local Node.js execution sandbox'',
              pl_parallel := False, pl_read_only := False\<rparr>
          else if is_tool_search_tool nm then
            p\<lparr>pl_approval_required := False, pl_description := ''Search tool catalog'',
              pl_parallel := False, pl_read_only := True\<rparr>
          else p)"

definition plan_mode_step :: "gate_env \<Rightarrow> tool_call \<Rightarrow> call_plan \<Rightarrow> call_plan" where
  "plan_mode_step env call p =
     (if pl_blocked p = None \<and> mode_blocks_write_capable_tool (ge_mode env) (tc_name call) (pl_read_only p)
      then p\<lparr>pl_blocked := Some (PermissionDenied (quoted (tc_name call)
        @ '' is not available in Plan mode - switch to Act mode (`/mode act`) to modify files or run write-capable tools.''))\<rparr>
      else p)"

definition hook_ask_step :: "gate_env \<Rightarrow> call_plan \<Rightarrow> call_plan" where
  "hook_ask_step env p =
     (if pl_hook_approval p \<and> \<not> ge_auto_approve env
      then p\<lparr>pl_approval_required := True, pl_force_prompt := True\<rparr> else p)"

definition force_prompt :: "string \<Rightarrow> call_plan \<Rightarrow> call_plan" where
  "force_prompt reason p =
     p\<lparr>pl_approval_required := True, pl_description := reason, pl_force_prompt := True\<rparr>"

definition block_call :: "string \<Rightarrow> call_plan \<Rightarrow> call_plan" where
  "block_call reason p =
     p\<lparr>pl_approval_required := False, pl_force_prompt := False, pl_blocked := Some (PermissionDenied reason)\<rparr>"

definition ask_rule_step :: "gate_env \<Rightarrow> tool_call \<Rightarrow> call_plan \<Rightarrow> call_plan" where
  "ask_rule_step env call p =
     (if pl_blocked p \<noteq> None then p
      else case ask_rule_of_call env (tc_name call) (pl_input p) of
        None \<Rightarrow> p
      | Some (AskPrompt reason) \<Rightarrow> if \<not> ge_auto_approve env then force_prompt reason p else p
      | Some (AskBlock reason) \<Rightarrow> block_call reason p)"

definition review_step :: "gate_env \<Rightarrow> tool_call \<Rightarrow> call_plan \<Rightarrow> call_plan" where
  "review_step env call p =
     (if pl_blocked p \<noteq> None then p
      else case fst (review_plan_decision (ge_shlex env) (ge_review_policy env) (tc_name call) (pl_input p)
          (run_origin_for_plan (pl_detached p)) (ge_approval_mode env) None (ge_workspace_trusted env) False) of
        NoChange \<Rightarrow> p
      | ForcePrompt reason \<Rightarrow> force_prompt reason p
      | PlanBlock reason \<Rightarrow> block_call reason p)"

definition law_step :: "gate_env \<Rightarrow> tool_call \<Rightarrow> call_plan \<Rightarrow> call_plan" where
  "law_step env call p =
     (if pl_blocked p \<noteq> None then p
      else case repo_law_plan_decision (ge_workspace env) (tc_name call) (pl_input p) of
        None \<Rightarrow> p
      | Some (LawForcePrompt reason) \<Rightarrow> force_prompt reason p
      | Some (LawBlocked reason) \<Rightarrow> block_call reason p)"

definition plan_tool_call :: "gate_env \<Rightarrow> tool_call \<Rightarrow> call_plan" where
  "plan_tool_call env call =
     law_step env call (review_step env call (ask_rule_step env call (hook_ask_step env
       (plan_mode_step env call (approval_step env call (hook_step env call (entry_step env call (initial_plan call))))))))"

section \<open>Batches\<close>

definition tool_plan_is_parallel_safe :: "call_plan \<Rightarrow> bool" where
  "tool_plan_is_parallel_safe p \<longleftrightarrow>
     pl_read_only p \<and> pl_parallel p \<and> \<not> pl_approval_required p \<and> \<not> pl_interactive p"

definition tool_plan_can_join_parallel_batch :: "call_plan \<Rightarrow> bool" where
  "tool_plan_can_join_parallel_batch p \<longleftrightarrow> pl_blocked p = None
     \<and> (tool_plan_is_parallel_safe p \<or> pl_detached p \<and> \<not> pl_approval_required p \<and> \<not> pl_interactive p)"

datatype tool_batch = Parallel "call_plan list" | Serial call_plan

fun batch_loop :: "call_plan list \<Rightarrow> call_plan list \<Rightarrow> tool_batch list" where
  "batch_loop chunk [] = (if chunk = [] then [] else [Parallel chunk])"
| "batch_loop chunk (p # ps) =
     (if tool_plan_can_join_parallel_batch p then batch_loop (chunk @ [p]) ps
      else (if chunk = [] then [] else [Parallel chunk]) @ Serial p # batch_loop [] ps)"

definition plan_tool_execution_batches :: "call_plan list \<Rightarrow> tool_batch list" where
  "plan_tool_execution_batches plans = batch_loop [] plans"

end
