(* ===== verification/Tool_Gate_Properties.thy ===== *)
theory Tool_Gate_Properties
  imports Tool_Gate
begin

text \<open>
  Properties of the tool gate: which calls are blocked, which run without a question, what no mode and no
  rule can switch off, and how the plans of a turn are batched.
\<close>

section \<open>The call after its hooks\<close>

definition call_hooks :: "gate_env \<Rightarrow> tool_call \<Rightarrow> hook_fold" where
  "call_hooks env call =
     (case (entry_error env call, ge_hooks env) of
        (None, Some run) \<Rightarrow>
          fold_tool_call_before_results (ge_from_str env) (run (tc_name call) (tc_input call))
      | _ \<Rightarrow> hook_fold_default)"

definition call_input :: "gate_env \<Rightarrow> tool_call \<Rightarrow> json" where
  "call_input env call =
     (if hf_deny_reason (call_hooks env call) = None
      then unwrap_or (tc_input call) (hf_updated_input (call_hooks env call)) else tc_input call)"

definition gated_plan :: "gate_env \<Rightarrow> tool_call \<Rightarrow> call_plan" where
  "gated_plan env call = approval_step env call (hook_step env call (entry_step env call (initial_plan call)))"

text \<open>The approval the kind of the call asks for, before rules and reviews.\<close>

definition base_approval :: "gate_env \<Rightarrow> tool_call \<Rightarrow> bool" where
  "base_approval env call =
     (let nm = tc_name call in
      if is_mcp_tool nm then \<not> mcp_tool_is_read_only nm \<and> \<not> ge_auto_approve env
      else case ge_registry env nm of
        Some spec \<Rightarrow> registered_tool_approval_required nm (ts_requirement spec (call_input env call))
          (ge_registry_auto_approve env)
      | None \<Rightarrow> (nm = code_execution_tool \<or> nm = js_execution_tool) \<and> \<not> ge_auto_approve env)"

definition base_force :: "gate_env \<Rightarrow> tool_call \<Rightarrow> bool" where
  "base_force env call =
     (let nm = tc_name call in
      \<not> is_mcp_tool nm \<and> (case ge_registry env nm of
        Some spec \<Rightarrow> registered_tool_approval_force_prompt nm (ts_requirement spec (call_input env call))
      | None \<Rightarrow> False))"

definition base_read_only :: "gate_env \<Rightarrow> tool_call \<Rightarrow> bool" where
  "base_read_only env call =
     (let nm = tc_name call in
      if is_mcp_tool nm then mcp_tool_is_read_only nm
      else case ge_registry env nm of
        Some spec \<Rightarrow> ts_read_only spec (call_input env call)
      | None \<Rightarrow> nm \<noteq> code_execution_tool \<and> nm \<noteq> js_execution_tool \<and> is_tool_search_tool nm)"

definition call_detached :: "gate_env \<Rightarrow> tool_call \<Rightarrow> bool" where
  "call_detached env call =
     (\<not> is_mcp_tool (tc_name call) \<and> (case ge_registry env (tc_name call) of
        Some spec \<Rightarrow> ts_detached spec (call_input env call) | None \<Rightarrow> False))"

definition hook_denies :: "gate_env \<Rightarrow> tool_call \<Rightarrow> bool" where
  "hook_denies env call \<longleftrightarrow> hf_deny_reason (call_hooks env call) \<noteq> None"

definition hook_asks :: "gate_env \<Rightarrow> tool_call \<Rightarrow> bool" where
  "hook_asks env call \<longleftrightarrow> hf_deny_reason (call_hooks env call) = None \<and> hf_requires_approval (call_hooks env call)"

definition call_review :: "gate_env \<Rightarrow> tool_call \<Rightarrow> review_plan_decision" where
  "call_review env call =
     fst (review_plan_decision (ge_shlex env) (ge_review_policy env) (tc_name call) (call_input env call)
       (run_origin_for_plan (call_detached env call)) (ge_approval_mode env) None (ge_workspace_trusted env) False)"

definition call_ask_rule :: "gate_env \<Rightarrow> tool_call \<Rightarrow> ask_rule_decision option" where
  "call_ask_rule env call = ask_rule_of_call env (tc_name call) (call_input env call)"

lemma hook_default_simps [simp]:
  "hf_deny_reason hook_fold_default = None" "hf_requires_approval hook_fold_default = False"
  "hf_updated_input hook_fold_default = None" "hf_context hook_fold_default = None"
  by (simp_all add: hook_fold_default_def)

lemma initial_plan_simps [simp]:
  "pl_input (initial_plan call) = tc_input call" "pl_approval_required (initial_plan call) = False"
  "pl_force_prompt (initial_plan call) = False" "pl_read_only (initial_plan call) = False"
  "pl_detached (initial_plan call) = False" "pl_hook_approval (initial_plan call) = False"
  by (simp_all add: initial_plan_def)

definition hooked_plan :: "gate_env \<Rightarrow> tool_call \<Rightarrow> call_plan" where
  "hooked_plan env call = hook_step env call (entry_step env call (initial_plan call))"

lemma hooked_plan_simps:
  "pl_input (hooked_plan env call) = call_input env call"
  "pl_hook_approval (hooked_plan env call) = hook_asks env call"
  "pl_blocked (hooked_plan env call) = None \<longleftrightarrow> entry_error env call = None \<and> \<not> hook_denies env call"
  "pl_approval_required (hooked_plan env call) = False"
  "pl_force_prompt (hooked_plan env call) = False"
  "pl_read_only (hooked_plan env call) = False"
  "pl_detached (hooked_plan env call) = False"
  by (cases "entry_error env call"; cases "ge_hooks env";
      cases "hf_deny_reason (call_hooks env call)";
      simp add: hooked_plan_def hook_step_def entry_step_def call_input_def hook_asks_def hook_denies_def
        call_hooks_def Let_def unwrap_or_def)+

lemma gated_plan_simps:
  "pl_input (gated_plan env call) = call_input env call"
  "pl_hook_approval (gated_plan env call) = hook_asks env call"
  "pl_blocked (gated_plan env call) = None \<longleftrightarrow> entry_error env call = None \<and> \<not> hook_denies env call"
  "pl_approval_required (gated_plan env call) = base_approval env call"
  "pl_force_prompt (gated_plan env call) = base_force env call"
  "pl_read_only (gated_plan env call) = base_read_only env call"
  "pl_detached (gated_plan env call) = call_detached env call"
proof -
  have *: "gated_plan env call = approval_step env call (hooked_plan env call)"
    by (simp add: gated_plan_def hooked_plan_def)
  show "pl_input (gated_plan env call) = call_input env call"
    "pl_hook_approval (gated_plan env call) = hook_asks env call"
    "pl_blocked (gated_plan env call) = None \<longleftrightarrow> entry_error env call = None \<and> \<not> hook_denies env call"
    unfolding * approval_step_def Let_def
    by (simp_all add: hooked_plan_simps split: option.split)
  show "pl_approval_required (gated_plan env call) = base_approval env call"
    "pl_force_prompt (gated_plan env call) = base_force env call"
    "pl_read_only (gated_plan env call) = base_read_only env call"
    "pl_detached (gated_plan env call) = call_detached env call"
    unfolding * approval_step_def Let_def base_approval_def base_force_def base_read_only_def call_detached_def
    by (simp_all add: hooked_plan_simps split: option.split)
qed

section \<open>Blocked calls\<close>

definition plan_mode_write :: "gate_env \<Rightarrow> tool_call \<Rightarrow> bool" where
  "plan_mode_write env call = mode_blocks_write_capable_tool (ge_mode env) (tc_name call) (base_read_only env call)"

text \<open>No block before the ask rules.\<close>

definition call_admitted :: "gate_env \<Rightarrow> tool_call \<Rightarrow> bool" where
  "call_admitted env call \<longleftrightarrow> entry_error env call = None \<and> \<not> hook_denies env call \<and> \<not> plan_mode_write env call"

definition asked_plan :: "gate_env \<Rightarrow> tool_call \<Rightarrow> call_plan" where
  "asked_plan env call = hook_ask_step env (plan_mode_step env call (gated_plan env call))"

lemma asked_plan_simps:
  "pl_input (asked_plan env call) = call_input env call"
  "pl_blocked (asked_plan env call) = None \<longleftrightarrow> call_admitted env call"
  "pl_approval_required (asked_plan env call) \<longleftrightarrow>
     base_approval env call \<or> hook_asks env call \<and> \<not> ge_auto_approve env"
  "pl_force_prompt (asked_plan env call) \<longleftrightarrow> base_force env call \<or> hook_asks env call \<and> \<not> ge_auto_approve env"
  "pl_detached (asked_plan env call) = call_detached env call"
  by (auto simp: asked_plan_def hook_ask_step_def plan_mode_step_def gated_plan_simps call_admitted_def
      plan_mode_write_def)

lemma plan_tool_call_steps:
  "plan_tool_call env call = review_step env call (ask_rule_step env call (asked_plan env call))"
proof -
  have "law_step env call p = p" for p by (simp add: law_step_def repo_law_never_holds)
  then show ?thesis by (simp only: plan_tool_call_def asked_plan_def gated_plan_def)
qed

definition asks_by_rule :: "gate_env \<Rightarrow> tool_call \<Rightarrow> bool" where
  "asks_by_rule env call \<longleftrightarrow> (\<exists>r. call_ask_rule env call = Some (AskPrompt r)) \<and> \<not> ge_auto_approve env"

definition denied_by_rule :: "gate_env \<Rightarrow> tool_call \<Rightarrow> bool" where
  "denied_by_rule env call \<longleftrightarrow> (\<exists>r. call_ask_rule env call = Some (AskBlock r))"

lemma ruled_plan_simps:
  assumes "call_admitted env call"
  defines "q \<equiv> ask_rule_step env call (asked_plan env call)"
  shows "pl_blocked q = None \<longleftrightarrow> \<not> denied_by_rule env call"
    and "\<not> denied_by_rule env call \<Longrightarrow> pl_approval_required q \<longleftrightarrow>
      base_approval env call \<or> hook_asks env call \<and> \<not> ge_auto_approve env \<or> asks_by_rule env call"
    and "\<not> denied_by_rule env call \<Longrightarrow> pl_force_prompt q \<longleftrightarrow>
      base_force env call \<or> hook_asks env call \<and> \<not> ge_auto_approve env \<or> asks_by_rule env call"
    and "pl_input q = call_input env call" and "pl_detached q = call_detached env call"
proof -
  have b: "pl_blocked (asked_plan env call) = None" using assms(1) by (simp add: asked_plan_simps)
  note defs = q_def ask_rule_step_def b asked_plan_simps(1,3-5) call_ask_rule_def [symmetric]
    denied_by_rule_def asks_by_rule_def force_prompt_def block_call_def
  show "pl_blocked q = None \<longleftrightarrow> \<not> denied_by_rule env call"
    by (simp add: defs split: option.split ask_rule_decision.split)
  show "\<not> denied_by_rule env call \<Longrightarrow> pl_approval_required q \<longleftrightarrow>
      base_approval env call \<or> hook_asks env call \<and> \<not> ge_auto_approve env \<or> asks_by_rule env call"
    by (simp add: defs split: option.split ask_rule_decision.split)
  show "\<not> denied_by_rule env call \<Longrightarrow> pl_force_prompt q \<longleftrightarrow>
      base_force env call \<or> hook_asks env call \<and> \<not> ge_auto_approve env \<or> asks_by_rule env call"
    by (simp add: defs split: option.split ask_rule_decision.split)
  show "pl_input q = call_input env call" "pl_detached q = call_detached env call"
    by (simp_all add: defs split: option.split ask_rule_decision.split)
qed

text \<open>Everything that stops a call, in every mode.\<close>

definition stopped :: "gate_env \<Rightarrow> tool_call \<Rightarrow> bool" where
  "stopped env call \<longleftrightarrow> \<not> call_admitted env call \<or> denied_by_rule env call \<or> (\<exists>r. call_review env call = PlanBlock r)"

lemma ask_rule_step_blocked: "pl_blocked p \<noteq> None \<Longrightarrow> ask_rule_step env call p = p"
  by (auto simp: ask_rule_step_def)

lemma review_step_blocked: "pl_blocked p \<noteq> None \<Longrightarrow> review_step env call p = p"
  by (auto simp: review_step_def)

lemma gate_cases:
  "pl_blocked (plan_tool_call env call) = None \<longleftrightarrow> \<not> stopped env call"
  "\<not> stopped env call \<Longrightarrow> pl_approval_required (plan_tool_call env call) \<longleftrightarrow>
     base_approval env call \<or> hook_asks env call \<and> \<not> ge_auto_approve env \<or> asks_by_rule env call
     \<or> (\<exists>r. call_review env call = ForcePrompt r)"
  "\<not> stopped env call \<Longrightarrow> pl_force_prompt (plan_tool_call env call) \<longleftrightarrow>
     base_force env call \<or> hook_asks env call \<and> \<not> ge_auto_approve env \<or> asks_by_rule env call
     \<or> (\<exists>r. call_review env call = ForcePrompt r)"
proof -
  let ?q = "ask_rule_step env call (asked_plan env call)"
  have na: "pl_blocked (plan_tool_call env call) \<noteq> None" if "\<not> call_admitted env call"
  proof -
    have "pl_blocked (asked_plan env call) \<noteq> None" using that asked_plan_simps(2) by blast
    then show ?thesis unfolding plan_tool_call_steps by (metis ask_rule_step_blocked review_step_blocked)
  qed
  have nd: "pl_blocked (plan_tool_call env call) \<noteq> None" if "call_admitted env call" "denied_by_rule env call"
  proof -
    have "pl_blocked ?q \<noteq> None" using that ruled_plan_simps(1) by blast
    then show ?thesis unfolding plan_tool_call_steps by (metis review_step_blocked)
  qed
  have last: "plan_tool_call env call = (case call_review env call of
      NoChange \<Rightarrow> ?q | ForcePrompt reason \<Rightarrow> force_prompt reason ?q | PlanBlock reason \<Rightarrow> block_call reason ?q)"
    "pl_blocked ?q = None"
    if "call_admitted env call" "\<not> denied_by_rule env call"
    using that by (simp_all add: plan_tool_call_steps review_step_def ruled_plan_simps call_review_def)
  consider "\<not> call_admitted env call" | "call_admitted env call" "denied_by_rule env call"
    | "call_admitted env call" "\<not> denied_by_rule env call" by blast
  then show "pl_blocked (plan_tool_call env call) = None \<longleftrightarrow> \<not> stopped env call"
  proof cases
    case 3
    then show ?thesis using last
      by (cases "call_review env call") (simp_all add: stopped_def force_prompt_def block_call_def)
  qed (use na nd in \<open>simp_all add: stopped_def\<close>)
  assume "\<not> stopped env call"
  then have s: "call_admitted env call" "\<not> denied_by_rule env call" "\<nexists>r. call_review env call = PlanBlock r"
    by (simp_all add: stopped_def)
  show "pl_approval_required (plan_tool_call env call) \<longleftrightarrow>
     base_approval env call \<or> hook_asks env call \<and> \<not> ge_auto_approve env \<or> asks_by_rule env call
     \<or> (\<exists>r. call_review env call = ForcePrompt r)"
    using s by (cases "call_review env call") (simp_all add: last ruled_plan_simps force_prompt_def)
  show "pl_force_prompt (plan_tool_call env call) \<longleftrightarrow>
     base_force env call \<or> hook_asks env call \<and> \<not> ge_auto_approve env \<or> asks_by_rule env call
     \<or> (\<exists>r. call_review env call = ForcePrompt r)"
    using s by (cases "call_review env call") (simp_all add: last ruled_plan_simps force_prompt_def)
qed

section \<open>Calls that run without a question\<close>

text \<open>The kinds the safety floor holds, and the block rules of the user.\<close>

definition held_kind :: "gate_env \<Rightarrow> tool_call \<Rightarrow> bool" where
  "held_kind env call \<longleftrightarrow>
     (let k = kind_from_tool_call (ge_shlex env) (tc_name call) (call_input env call) (get_tool_category (tc_name call))
      in k = PublishKind \<or> k \<in> {DestructiveKind, SecretKind} \<and> call_detached env call)"

definition call_context :: "gate_env \<Rightarrow> tool_call \<Rightarrow> review_context" where
  "call_context env call = review_context_of (ge_shlex env) (tc_name call) (call_input env call)
     (run_origin_for_plan (call_detached env call)) (ge_approval_mode env) None (ge_workspace_trusted env) False"

definition block_rule_applies :: "gate_env \<Rightarrow> tool_call \<Rightarrow> bool" where
  "block_rule_applies env call \<longleftrightarrow> (\<exists>r \<in> set (rp_block_rules (ge_review_policy env)).
     review_rule_matches r (call_context env call) \<and> rr_action r = BlockReview)"

lemma safety_floor_call:
  "safety_floor (call_context env call) \<noteq> None \<longleftrightarrow> held_kind env call"
  "safety_floor (call_context env call) = Some d \<Longrightarrow> rd_action d = HoldForReview"
  by (auto simp: safety_floor_def call_context_def review_context_of_def held_kind_def run_origin_for_plan_def
      Let_def review_decision_new_def split: if_splits)

lemma find_block_rule:
  "find (\<lambda>r. review_rule_matches r (call_context env call) \<and> rr_action r = BlockReview)
     (rp_block_rules (ge_review_policy env)) = None \<longleftrightarrow> \<not> block_rule_applies env call"
  by (auto simp: find_None_iff block_rule_applies_def)

lemma review_evaluate_action:
  "rd_action (review_evaluate (ge_review_policy env) (call_context env call)) =
     (if block_rule_applies env call then BlockReview
      else if held_kind env call then HoldForReview
      else rd_action (review_evaluate (ge_review_policy env) (call_context env call)))"
  "\<not> block_rule_applies env call \<Longrightarrow> \<not> held_kind env call \<Longrightarrow>
     rd_action (review_evaluate (ge_review_policy env) (call_context env call)) \<in> {AllowReview, AskUserReview}"
proof -
  let ?blocked = "find (\<lambda>r. review_rule_matches r (call_context env call) \<and> rr_action r = BlockReview)
     (rp_block_rules (ge_review_policy env))"
  show "rd_action (review_evaluate (ge_review_policy env) (call_context env call)) =
     (if block_rule_applies env call then BlockReview
      else if held_kind env call then HoldForReview
      else rd_action (review_evaluate (ge_review_policy env) (call_context env call)))"
  proof (cases ?blocked)
    case None
    then have nb: "\<not> block_rule_applies env call" using find_block_rule [of env call] by blast
    show ?thesis
    proof (cases "safety_floor (call_context env call)")
      case None: None
      then have "\<not> held_kind env call" using safety_floor_call(1) by blast
      with nb show ?thesis by simp
    next
      case (Some d)
      then have "held_kind env call" using safety_floor_call(1) by blast
      with nb Some None safety_floor_call(2) [OF Some] show ?thesis by (simp add: review_evaluate_def)
    qed
  next
    case (Some r)
    then have "block_rule_applies env call" using find_block_rule [of env call] by auto
    with Some show ?thesis by (simp add: review_evaluate_def with_rule_def review_decision_new_def)
  qed
  assume nb: "\<not> block_rule_applies env call" and nh: "\<not> held_kind env call"
  from nb have "?blocked = None" using find_block_rule [of env call] by blast
  moreover from nh have "safety_floor (call_context env call) = None" using safety_floor_call(1) by blast
  ultimately show "rd_action (review_evaluate (ge_review_policy env) (call_context env call)) \<in> {AllowReview, AskUserReview}"
    by (simp add: review_evaluate_def with_rule_def review_decision_new_def deterministic_fallback_def split: option.split)
qed

lemma call_review_cases:
  "call_review env call = NoChange \<longleftrightarrow> \<not> block_rule_applies env call \<and> \<not> held_kind env call"
  "(\<exists>r. call_review env call = PlanBlock r) \<longleftrightarrow>
     block_rule_applies env call \<or> held_kind env call \<and> ge_approval_mode env = NeverMode"
proof -
  let ?d = "review_evaluate (ge_review_policy env) (call_context env call)"
  have act: "rd_action ?d = BlockReview \<longleftrightarrow> block_rule_applies env call"
    "rd_action ?d = HoldForReview \<longleftrightarrow> \<not> block_rule_applies env call \<and> held_kind env call"
    using review_evaluate_action [of env call]
    by (cases "block_rule_applies env call"; cases "held_kind env call"; auto)+
  have "call_review env call = (case rd_action ?d of AllowReview \<Rightarrow> NoChange | AskUserReview \<Rightarrow> NoChange
      | HoldForReview \<Rightarrow> (let reason = ''Built-in safety gate requires approval: '' @ rd_reason ?d in
          if ge_approval_mode env = NeverMode then PlanBlock reason else ForcePrompt reason)
      | BlockReview \<Rightarrow> PlanBlock (''Auto-review policy blocked tool '' @ [CHR 0x27] @ tc_name call @ [CHR 0x27]
          @ '': '' @ rd_reason ?d))"
    by (simp only: call_review_def review_plan_decision_def call_context_def Let_def fst_conv)
  with act show "call_review env call = NoChange \<longleftrightarrow> \<not> block_rule_applies env call \<and> \<not> held_kind env call"
    "(\<exists>r. call_review env call = PlanBlock r) \<longleftrightarrow>
     block_rule_applies env call \<or> held_kind env call \<and> ge_approval_mode env = NeverMode"
    by (cases "rd_action ?d"; simp add: Let_def)+
qed

lemma gate_exact:
  "(pl_blocked (plan_tool_call env call) = None) =
     (call_admitted env call \<and> \<not> denied_by_rule env call \<and> \<not> block_rule_applies env call
        \<and> \<not> (held_kind env call \<and> ge_approval_mode env = NeverMode))
   \<and> (pl_blocked (plan_tool_call env call) = None \<and> \<not> pl_approval_required (plan_tool_call env call)) =
     (call_admitted env call \<and> \<not> denied_by_rule env call \<and> \<not> block_rule_applies env call
        \<and> \<not> held_kind env call \<and> \<not> base_approval env call \<and> \<not> asks_by_rule env call
        \<and> \<not> (hook_asks env call \<and> \<not> ge_auto_approve env))"
proof -
  have stop: "stopped env call \<longleftrightarrow> \<not> call_admitted env call \<or> denied_by_rule env call \<or> block_rule_applies env call
      \<or> (held_kind env call \<and> ge_approval_mode env = NeverMode)"
    by (simp add: stopped_def call_review_cases(2))
  have force: "\<not> stopped env call \<Longrightarrow> (\<exists>r. call_review env call = ForcePrompt r) \<longleftrightarrow> held_kind env call"
    using call_review_cases [of env call] stop by (cases "call_review env call") auto
  show ?thesis
  proof (cases "stopped env call")
    case True
    with gate_cases(1) [of env call] stop show ?thesis by blast
  next
    case False
    then have "call_admitted env call" "\<not> denied_by_rule env call" "\<not> block_rule_applies env call"
      "\<not> (held_kind env call \<and> ge_approval_mode env = NeverMode)" using stop by blast+
    with gate_cases(1) [of env call] gate_cases(2) [OF False] force [OF False] False
    show ?thesis by simp blast
  qed
qed

lemma gated_required:
  "base_approval env call \<Longrightarrow> pl_blocked (plan_tool_call env call) = None \<Longrightarrow> pl_approval_required (plan_tool_call env call)"
  using gate_exact [of env call] by blast

text \<open>
  C1. The gate, exactly. A call is blocked exactly when an entry check, a hook, the plan mode, a deny rule
  or a block rule says so, or the safety floor holds it in the mode never. It runs without a question
  exactly when nothing blocks it, its kind needs no approval, no hook or ask rule asks (outside automatic
  approval) and the safety floor does not hold it; allow rules play no part.
\<close>

theorem tool_gate_exact:
  "(pl_blocked (plan_tool_call env call) = None) =
     (call_admitted env call \<and> \<not> denied_by_rule env call \<and> \<not> block_rule_applies env call
        \<and> \<not> (held_kind env call \<and> ge_approval_mode env = NeverMode))
   \<and> (pl_blocked (plan_tool_call env call) = None \<and> \<not> pl_approval_required (plan_tool_call env call)) =
     (call_admitted env call \<and> \<not> denied_by_rule env call \<and> \<not> block_rule_applies env call
        \<and> \<not> held_kind env call \<and> \<not> base_approval env call \<and> \<not> asks_by_rule env call
        \<and> \<not> (hook_asks env call \<and> \<not> ge_auto_approve env))"
  by (rule gate_exact)

section \<open>Batches\<close>

fun batch_plans :: "tool_batch \<Rightarrow> call_plan list" where
  "batch_plans (Parallel ps) = ps"
| "batch_plans (Serial p) = [p]"

definition runs_beside_others :: "call_plan \<Rightarrow> bool" where
  "runs_beside_others p \<longleftrightarrow> pl_blocked p = None \<and> \<not> pl_approval_required p \<and> \<not> pl_interactive p
     \<and> (pl_read_only p \<and> pl_parallel p \<or> pl_detached p)"

fun batch_ok :: "tool_batch \<Rightarrow> bool" where
  "batch_ok (Parallel ps) \<longleftrightarrow> ps \<noteq> [] \<and> list_all runs_beside_others ps"
| "batch_ok (Serial p) \<longleftrightarrow> \<not> runs_beside_others p"

lemma can_join_iff: "tool_plan_can_join_parallel_batch p \<longleftrightarrow> runs_beside_others p"
  by (auto simp: tool_plan_can_join_parallel_batch_def tool_plan_is_parallel_safe_def runs_beside_others_def)

lemma batch_loop_props:
  "list_all runs_beside_others chunk \<Longrightarrow>
     concat (map batch_plans (batch_loop chunk ps)) = chunk @ ps \<and> list_all batch_ok (batch_loop chunk ps)"
  by (induction ps arbitrary: chunk) (simp_all add: can_join_iff)

text \<open>
  Batches keep the order of the calls: their plans in sequence are the plans of the turn, and a
  batch runs in parallel exactly the calls that are not blocked, need no approval and no terminal and
  only read or start in the background.
\<close>

theorem batches_keep_order:
  "concat (map batch_plans (plan_tool_execution_batches plans)) = plans
   \<and> list_all batch_ok (plan_tool_execution_batches plans)"
  using batch_loop_props [of "[]" plans] by (simp add: plan_tool_execution_batches_def)

end
