(* ===== verification/Approval_Cache.thy ===== *)
theory Approval_Cache
  imports Auto_Review
begin

text \<open>
  The fingerprints under which approvals and denials of tool calls are remembered
  (\<open>crates/tui/src/tools/approval_cache.rs\<close>) and the approvals of a session (\<open>tui/ui.rs\<close>): the handler of a
  request and of the answer to it. SHA-256, the hash of the patch paths, the URL parser and the encoding
  of an object key by \<open>serde_json\<close> are the fields of \<open>fingerprint_env\<close>.
\<close>

section \<open>Canonical JSON\<close>

text \<open>\<open>as_f64\<close> of an integer: beyond 53 bits the nearest multiple of a power of two, ties to even.\<close>

definition f64_shift :: "nat \<Rightarrow> nat" where
  "f64_shift a = (case filter (\<lambda>k. a div 2 ^ k < 2 ^ 53) [0..<12] of [] \<Rightarrow> 12 | k # _ \<Rightarrow> k)"

definition f64_round :: "nat \<Rightarrow> nat" where
  "f64_round a =
     (let k = f64_shift a in
      if k = 0 then a
      else
        let q = a div 2 ^ k; r = a mod 2 ^ k; h = 2 ^ (k - 1) in
        (if h < r \<or> r = h \<and> odd q then q + 1 else q) * 2 ^ k)"

definition f64_of_int :: "int \<Rightarrow> int" where
  "f64_of_int i = (if i < 0 then - int (f64_round (nat (- i))) else int (f64_round (nat i)))"

definition hex_nibble :: "nat \<Rightarrow> char" where
  "hex_nibble n = (if n < 10 then char_of (48 + n) else char_of (87 + n))"

definition hex2 :: "nat \<Rightarrow> string" where
  "hex2 n = [hex_nibble (n div 16), hex_nibble (n mod 16)]"

definition is_control :: "char \<Rightarrow> bool" where
  "is_control c = (let n = (of_char c :: nat) in n < 32 \<or> n = 127)"

definition escape_char :: "char \<Rightarrow> string" where
  "escape_char c =
     (if c = CHR 0x22 then [CHR 0x5C, CHR 0x22]
      else if c = CHR 0x5C then [CHR 0x5C, CHR 0x5C]
      else if c = CHR 0x0A then [CHR 0x5C, CHR ''n'']
      else if c = CHR 0x0D then [CHR 0x5C, CHR ''r'']
      else if c = CHR 0x09 then [CHR 0x5C, CHR ''t'']
      else if is_control c then [CHR 0x5C, CHR ''u'', CHR ''0'', CHR ''0''] @ hex2 (of_char c)
      else [c])"

function push_canonical_json :: "(string \<Rightarrow> string) \<Rightarrow> json \<Rightarrow> string" where
  "push_canonical_json key_text JNull = ''null''"
| "push_canonical_json key_text (JBool b) = ''bool:'' @ show_bool b"
| "push_canonical_json key_text (JNum i) = ''number:'' @ show_int (f64_of_int i)"
| "push_canonical_json key_text (JFloat t) = ''number:'' @ t"
| "push_canonical_json key_text (JStr s) =
     ''string:'' @ [CHR 0x22] @ concat (map escape_char s) @ [CHR 0x22]"
| "push_canonical_json key_text (JArr vs) =
     ''['' @ join_str '','' (map (push_canonical_json key_text) vs) @ '']''"
| "push_canonical_json key_text (JObj es) =
     ''{'' @ join_str '','' (map (\<lambda>e. key_text (fst e) @ '':'' @ push_canonical_json key_text (snd e))
        (sort_key fst es)) @ ''}''"
  by pat_completeness auto
termination
proof (relation "measure (\<lambda>(_, v). size v)")
  fix key_text :: "string \<Rightarrow> string" and vs :: "json list" and x
  assume "x \<in> set vs"
  then show "((key_text, x), (key_text, JArr vs)) \<in> measure (\<lambda>(_, v). size v)"
    by (simp add: size_list_estimation' less_Suc_eq_le)
next
  fix key_text :: "string \<Rightarrow> string" and es :: "(string \<times> json) list" and e
  assume "e \<in> set (sort_key fst es)"
  then have "e \<in> set es" by simp
  moreover have "size (snd e) \<le> size_prod (\<lambda>x. 0) size e" by (cases e) simp
  ultimately have "size (snd e) \<le> size_list (size_prod (\<lambda>x. 0) size) es"
    by (rule size_list_estimation')
  then show "((key_text, snd e), (key_text, JObj es)) \<in> measure (\<lambda>(_, v). size v)" by simp
qed simp

section \<open>Fingerprints\<close>

record fingerprint_env =
  fe_sha256 :: "string \<Rightarrow> u8 list"
  fe_path_hash :: "string list \<Rightarrow> string"
  fe_url_host :: "string \<Rightarrow> string option option"
  fe_key_text :: "string \<Rightarrow> string"

definition hash_json_value :: "fingerprint_env \<Rightarrow> json \<Rightarrow> string" where
  "hash_json_value env v =
     concat (map (\<lambda>b. hex2 (unat b)) (take 8 (fe_sha256 env (push_canonical_json (fe_key_text env) v))))"

definition parse_host :: "fingerprint_env \<Rightarrow> json \<Rightarrow> string" where
  "parse_host env input =
     (let url = unwrap_or [] (json_field input ''url'' json_as_str) in
      case fe_url_host env url of Some h \<Rightarrow> unwrap_or url h | None \<Rightarrow> url)"

definition command_prefix :: "json \<Rightarrow> string" where
  "command_prefix input =
     (let cmd = unwrap_or [] (json_field input ''command'' json_as_str);
          tokens = split_whitespace cmd in
      if tokens = [] then ''<empty>'' else classify_command tokens)"

definition hash_patch_paths :: "fingerprint_env \<Rightarrow> json \<Rightarrow> string" where
  "hash_patch_paths env input =
     (let paths = (case json_field input ''changes'' json_as_array of
            Some changes \<Rightarrow> List.map_filter (\<lambda>c. json_field c ''path'' json_as_str) changes
          | None \<Rightarrow>
              (case json_field input ''patch'' json_as_str of
                 Some text \<Rightarrow> List.map_filter (\<lambda>line. map_option trim (strip_prefix ''+++ b/'' line)) (str_lines text)
               | None \<Rightarrow> []));
          ps = remdups_adj (sort paths) in
      if ps = [] then ''no_files'' else fe_path_hash env ps)"

definition file_fingerprint_tools :: "string list" where
  "file_fingerprint_tools = [''apply_patch'', ''write_file'', ''append_file'', ''edit_file'', ''fim_edit'']"

definition shell_fingerprint_tools :: "string list" where
  "shell_fingerprint_tools = [''exec_shell'', ''task_shell_start'', ''exec_shell_wait'', ''exec_shell_interact'',
     ''exec_wait'', ''exec_interact'']"

definition fetch_fingerprint_tools :: "string list" where
  "fetch_fingerprint_tools = [''fetch_url'', ''web.fetch'', ''web_fetch'']"

definition build_approval_key :: "fingerprint_env \<Rightarrow> string \<Rightarrow> json \<Rightarrow> string" where
  "build_approval_key env tool_name input =
     (if tool_name \<in> set file_fingerprint_tools then ''file:'' @ tool_name @ '':'' @ hash_json_value env input
      else if tool_name \<in> set shell_fingerprint_tools then ''shell:'' @ tool_name @ '':'' @ hash_json_value env input
      else if tool_name \<in> set fetch_fingerprint_tools then ''net:'' @ parse_host env input
      else ''tool:'' @ tool_name @ '':'' @ hash_json_value env input)"

definition build_approval_grouping_key :: "fingerprint_env \<Rightarrow> string \<Rightarrow> json \<Rightarrow> string" where
  "build_approval_grouping_key env tool_name input =
     (if tool_name = ''apply_patch'' then ''patch:'' @ hash_patch_paths env input
      else if tool_name \<in> set shell_fingerprint_tools then ''shell:'' @ command_prefix input
      else if tool_name \<in> set fetch_fingerprint_tools then ''net:'' @ parse_host env input
      else ''tool:'' @ tool_name @ '':'' @ hash_json_value env input)"

section \<open>The approvals of a session\<close>

record approval_request =
  ar_tool_name :: string
  ar_key :: string
  ar_group :: string
  ar_force_prompt :: bool

record approval_app =
  aa_approved :: "string set"
  aa_denied :: "string set"
  aa_mode :: approval_mode

datatype approval_outcome = AutoDenied | AutoApproved | DeniedByMode | Prompted

definition is_session_approved_for_tool :: "approval_app \<Rightarrow> string \<Rightarrow> string \<Rightarrow> bool" where
  "is_session_approved_for_tool app tool_name grouping_key \<longleftrightarrow>
     grouping_key \<in> aa_approved app \<or> tool_name \<in> aa_approved app"

definition is_session_denied_for_key :: "approval_app \<Rightarrow> string \<Rightarrow> bool" where
  "is_session_denied_for_key app key \<longleftrightarrow> key \<in> aa_denied app"

definition should_auto_approve_approval_request :: "approval_app \<Rightarrow> string \<Rightarrow> string \<Rightarrow> bool \<Rightarrow> bool" where
  "should_auto_approve_approval_request app tool_name grouping_key force_prompt \<longleftrightarrow>
     \<not> force_prompt \<and> is_session_approved_for_tool app tool_name grouping_key"

text \<open>The handler of the event \<open>ApprovalRequired\<close>; showing the prompt and the notices is not modelled.\<close>

definition on_approval_required :: "approval_app \<Rightarrow> approval_request \<Rightarrow> approval_outcome" where
  "on_approval_required app r =
     (if is_session_denied_for_key app (ar_key r) then AutoDenied
      else if should_auto_approve_approval_request app (ar_tool_name r) (ar_group r) (ar_force_prompt r)
        then AutoApproved
      else if aa_mode app = NeverMode then DeniedByMode
      else Prompted)"

datatype review_choice = Approved | ApprovedForSession | Denied | Aborted

record approval_answer =
  an_tool_name :: string
  an_choice :: review_choice
  an_timed_out :: bool
  an_key :: string
  an_group :: string

text \<open>The sets \<open>apply_approval_decision\<close> changes; sending the answer to the engine and saving a rule for
  the next sessions are not modelled.\<close>

definition apply_approval_decision :: "approval_app \<Rightarrow> approval_answer \<Rightarrow> approval_app" where
  "apply_approval_decision app a =
     (case an_choice a of
        ApprovedForSession \<Rightarrow> app\<lparr>aa_approved := insert (an_group a) (insert (an_tool_name a) (aa_approved app))\<rparr>
      | Approved \<Rightarrow> app
      | Denied \<Rightarrow> if \<not> an_timed_out a then app\<lparr>aa_denied := insert (an_key a) (aa_denied app)\<rparr> else app
      | Aborted \<Rightarrow> app)"

definition session_app :: "approval_mode \<Rightarrow> approval_answer list \<Rightarrow> approval_app" where
  "session_app mode answers =
     foldl apply_approval_decision \<lparr>aa_approved = {}, aa_denied = {}, aa_mode = mode\<rparr> answers"

end
