(* ===== verification/Approval_Properties.thy ===== *)
theory Approval_Properties
  imports Approval_Cache Tool_Gate_Properties Safety_Properties
begin

text \<open>
  Properties of approvals: the exact keys determine the arguments of a call up to the order of object
  fields, what a session remembers of the answers of the user, and that a call held by the safety floor
  always reaches the user, whatever the mode, the rules and the earlier answers are.
\<close>

section \<open>Canonical JSON determines the value\<close>

text \<open>What may follow a value in the text.\<close>

definition delimited :: "string \<Rightarrow> bool" where
  "delimited x \<longleftrightarrow> x = [] \<or> hd x \<in> {CHR '','', CHR '']'', CHR ''}''}"

definition number_char :: "char \<Rightarrow> bool" where
  "number_char c \<longleftrightarrow> is_ascii_digit c \<or> c = CHR ''-'' \<or> c = CHR ''.''"

lemma number_split:
  assumes "list_all number_char s" and "list_all number_char t" and "delimited x" and "delimited y"
    and "s @ x = t @ y"
  shows "s = t \<and> x = y"
proof -
  have nd: "delimited z \<Longrightarrow> z = [] \<or> \<not> number_char (hd z)" for z
    by (auto simp: delimited_def number_char_def is_ascii_digit_def)
  have cut: "list_all number_char u \<Longrightarrow> delimited z \<Longrightarrow> takeWhile number_char (u @ z) = u" for u z
    using nd [of z] by (cases z) (simp_all add: takeWhile_append2 list_all_iff)
  from cut [OF assms(1,3)] cut [OF assms(2,4)] assms(5) have "s = t" by simp
  with assms(5) show ?thesis by simp
qed

lemma show_nat_digits: "list_all is_ascii_digit (show_nat n)"
proof (induction n rule: show_nat.induct)
  case (1 n)
  have d: "m < 10 \<Longrightarrow> is_ascii_digit (char_of (48 + m))" for m :: nat
    by (simp add: is_ascii_digit_def of_char_of)
  show ?case
  proof (cases "n < 10")
    case True
    then show ?thesis using d [of n] by (simp add: show_nat.simps [of n])
  next
    case False
    then show ?thesis using 1 d [of "n mod 10"] by (simp add: show_nat.simps [of n])
  qed
qed

lemma show_int_number: "list_all number_char (show_int i)"
  using show_nat_digits by (auto simp: show_int_def number_char_def list_all_iff)

lemma hex_nibble_inj: "m < 16 \<Longrightarrow> n < 16 \<Longrightarrow> hex_nibble m = hex_nibble n \<Longrightarrow> m = n"
proof -
  assume "m < 16" "n < 16" "hex_nibble m = hex_nibble n"
  then have "of_char (hex_nibble m) = (of_char (hex_nibble n) :: nat)" by simp
  with \<open>m < 16\<close> \<open>n < 16\<close> show ?thesis by (auto simp: hex_nibble_def of_char_of split: if_splits)
qed

lemma hex2_inj: "m < 256 \<Longrightarrow> n < 256 \<Longrightarrow> hex2 m = hex2 n \<Longrightarrow> m = n"
proof -
  assume mn: "m < 256" "n < 256" and "hex2 m = hex2 n"
  then have "hex_nibble (m div 16) = hex_nibble (n div 16)" "hex_nibble (m mod 16) = hex_nibble (n mod 16)"
    by (simp_all add: hex2_def)
  with mn have "m div 16 = n div 16" "m mod 16 = n mod 16"
    by (auto intro!: hex_nibble_inj simp: less_mult_imp_div_less)
  then show ?thesis by (metis div_mult_mod_eq)
qed

lemma length_hex2 [simp]: "length (hex2 n) = 2"
  by (simp add: hex2_def)

text \<open>The escapes are a prefix code, and none begins with the closing quote.\<close>

definition plain_char :: "char \<Rightarrow> bool" where
  "plain_char c \<longleftrightarrow> c \<notin> {CHR 0x22, CHR 0x5C, CHR 0x0A, CHR 0x0D, CHR 0x09} \<and> \<not> is_control c"

lemma escape_plain: "plain_char c \<Longrightarrow> escape_char c = [c]"
  by (auto simp: plain_char_def escape_char_def)

definition unescape :: "char \<Rightarrow> char" where
  "unescape e = (if e = CHR ''n'' then CHR 0x0A else if e = CHR ''r'' then CHR 0x0D
     else if e = CHR ''t'' then CHR 0x09 else e)"

lemma escape_special:
  "\<not> plain_char c \<Longrightarrow> \<exists>e es. escape_char c = CHR 0x5C # e # es
     \<and> (if e = CHR ''u'' then es = CHR ''0'' # CHR ''0'' # hex2 (of_char c) else es = [] \<and> c = unescape e)"
  unfolding plain_char_def escape_char_def unescape_def by auto

lemma escape_ne_quote: "escape_char c @ r \<noteq> CHR 0x22 # r'"
proof (cases "plain_char c")
  case True
  then have "c \<noteq> CHR 0x22" by (simp add: plain_char_def)
  with True show ?thesis by (simp add: escape_plain)
next
  case False
  from escape_special [OF this] show ?thesis by auto
qed

lemma hex2_split: "hex2 (of_char c) @ r = hex2 (of_char d) @ r' \<Longrightarrow> c = d \<and> r = r'"
proof -
  assume "hex2 (of_char c) @ r = hex2 (of_char d) @ r'"
  then have "hex2 (of_char c) = hex2 (of_char d)" "r = r'" by (simp_all add: append_eq_append_conv)
  then have "(of_char c :: nat) = of_char d" by (intro hex2_inj) simp_all
  with \<open>r = r'\<close> show ?thesis by simp
qed

lemma escape_split: "escape_char c @ r = escape_char d @ r' \<Longrightarrow> c = d \<and> r = r'"
proof -
  assume eq: "escape_char c @ r = escape_char d @ r'"
  consider "plain_char c" "plain_char d" | "plain_char c \<noteq> plain_char d" | "\<not> plain_char c" "\<not> plain_char d"
    by blast
  then show ?thesis
  proof cases
    case 1
    with eq show ?thesis by (simp add: escape_plain)
  next
    case 2
    then obtain u v where u: "plain_char u" "\<not> plain_char v" "{u, v} = {c, d}" by blast
    from u(1) have "escape_char u = [u]" "u \<noteq> CHR 0x5C" by (simp_all add: escape_plain plain_char_def)
    moreover from escape_special [OF u(2)] obtain e es where "escape_char v = CHR 0x5C # e # es" by blast
    ultimately have "escape_char u @ s \<noteq> escape_char v @ s'" for s s' by simp
    with eq u(3) show ?thesis by (metis doubleton_eq_iff)
  next
    case 3
    from escape_special [OF 3(1)] obtain e es where c: "escape_char c = CHR 0x5C # e # es"
      "if e = CHR ''u'' then es = CHR ''0'' # CHR ''0'' # hex2 (of_char c) else es = [] \<and> c = unescape e"
      by blast
    from escape_special [OF 3(2)] obtain e' es' where d: "escape_char d = CHR 0x5C # e' # es'"
      "if e' = CHR ''u'' then es' = CHR ''0'' # CHR ''0'' # hex2 (of_char d) else es' = [] \<and> d = unescape e'"
      by blast
    have e: "e = e'" "es @ r = es' @ r'" using eq by (simp_all add: c(1) d(1))
    show ?thesis
    proof (cases "e = CHR ''u''")
      case True
      with c(2) d(2) e have "hex2 (of_char c) @ r = hex2 (of_char d) @ r'" by simp
      then show ?thesis by (rule hex2_split)
    next
      case False
      with c(2) d(2) e show ?thesis by simp
    qed
  qed
qed

lemma string_split:
  "concat (map escape_char s) @ CHR 0x22 # x = concat (map escape_char t) @ CHR 0x22 # y \<Longrightarrow> s = t \<and> x = y"
proof (induction s arbitrary: t)
  case Nil
  then show ?case using escape_ne_quote by (cases t) (auto dest: sym)
next
  case (Cons c s)
  show ?case
  proof (cases t)
    case Nil
    then show ?thesis using Cons.prems escape_ne_quote by auto
  next
    case t: (Cons d t')
    with Cons.prems have "escape_char c @ concat (map escape_char s) @ CHR 0x22 # x
        = escape_char d @ concat (map escape_char t') @ CHR 0x22 # y" by simp
    from escape_split [OF this] Cons.IH [of t'] t show ?thesis by simp
  qed
qed

text \<open>Items that end where their text says are separated by the commas.\<close>

lemma join_Cons: "join_str sep (a # as) = a @ (if as = [] then [] else sep @ join_str sep as)"
  by (cases as) simp_all

lemma items_split:
  assumes "\<And>a b x y. a \<in> set as \<Longrightarrow> b \<in> set bs \<Longrightarrow> delimited x \<Longrightarrow> delimited y \<Longrightarrow> f a @ x = f b @ y
      \<Longrightarrow> g a = g b \<and> x = y"
    and "\<And>a x. a \<in> set as \<union> set bs \<Longrightarrow> \<not> delimited (f a @ x)"
    and "close = CHR '']'' \<or> close = CHR ''}''"
    and "join_str '','' (map f as) @ close # x = join_str '','' (map f bs) @ close # y"
  shows "map g as = map g bs \<and> x = y"
  using assms
proof (induction as arbitrary: bs)
  case Nil
  have d: "delimited (close # x)" using Nil(3) by (auto simp: delimited_def)
  show ?case
  proof (cases bs)
    case (Cons b bs')
    then have "close # x = f b @ (if bs' = [] then [] else '','' @ join_str '','' (map f bs')) @ close # y"
      using Nil(4) by (simp add: join_Cons)
    with d Nil(2) [of b] Cons show ?thesis by simp
  qed (use Nil(4) in simp)
next
  case (Cons a as)
  note del = Cons.prems(3)
  show ?case
  proof (cases bs)
    case Nil
    then have "close # y = f a @ (if as = [] then [] else '','' @ join_str '','' (map f as)) @ close # x"
      using Cons.prems(4) by (simp add: join_Cons)
    moreover have "delimited (close # y)" using del by (auto simp: delimited_def)
    ultimately show ?thesis using Cons.prems(2) [of a] by simp
  next
    case bs: (Cons b bs')
    let ?ta = "(if as = [] then [] else '','' @ join_str '','' (map f as)) @ close # x"
    let ?tb = "(if bs' = [] then [] else '','' @ join_str '','' (map f bs')) @ close # y"
    have "delimited ?ta" "delimited ?tb" using del by (auto simp: delimited_def)
    moreover have "f a @ ?ta = f b @ ?tb" using Cons.prems(4) by (simp add: bs join_Cons)
    ultimately have ab: "g a = g b" and t: "?ta = ?tb"
      using Cons.prems(1) [of a b ?ta ?tb] bs by auto
    have "map g as = map g bs' \<and> x = y"
    proof (cases "as = [] \<or> bs' = []")
      case True
      with t del have "as = [] \<and> bs' = [] \<and> x = y" by (auto split: if_splits)
      then show ?thesis by simp
    next
      case False
      with t have "join_str '','' (map f as) @ close # x = join_str '','' (map f bs') @ close # y" by simp
      with Cons.IH [of bs'] Cons.prems(1,2) del bs show ?thesis by auto
    qed
    with ab bs show ?thesis by simp
  qed
qed

text \<open>The value the text stands for: numbers as they are displayed, object fields in the order of keys.\<close>

fun canonical_value :: "json \<Rightarrow> json" where
  "canonical_value (JNum i) = JFloat (show_int (f64_of_int i))"
| "canonical_value (JArr vs) = JArr (map canonical_value vs)"
| "canonical_value (JObj es) = JObj (map (\<lambda>e. (fst e, canonical_value (snd e))) (sort_key fst es))"
| "canonical_value v = v"

text \<open>The text of a number consists of digits, points and signs.\<close>

fun wf_json :: "json \<Rightarrow> bool" where
  "wf_json (JFloat t) = list_all number_char t"
| "wf_json (JArr vs) = list_all wf_json vs"
| "wf_json (JObj es) = list_all (\<lambda>e. wf_json (snd e)) es"
| "wf_json _ = True"

text \<open>An encoded string begins with a quote and shows where it ends.\<close>

definition self_delimiting :: "(string \<Rightarrow> string) \<Rightarrow> bool" where
  "self_delimiting f \<longleftrightarrow> (\<forall>a. \<exists>r. f a = CHR 0x22 # r) \<and> (\<forall>a b x y. f a @ x = f b @ y \<longrightarrow> a = b \<and> x = y)"

lemma canonical_head:
  "\<exists>c r. push_canonical_json kt v = c # r \<and> c = (case v of JNull \<Rightarrow> CHR ''n'' | JBool _ \<Rightarrow> CHR ''b''
     | JNum _ \<Rightarrow> CHR ''n'' | JFloat _ \<Rightarrow> CHR ''n'' | JStr _ \<Rightarrow> CHR ''s'' | JArr _ \<Rightarrow> CHR ''['' | JObj _ \<Rightarrow> CHR ''{'')"
  by (cases v) simp_all

lemma canonical_not_delimited: "\<not> delimited (push_canonical_json kt v @ x)"
  using canonical_head [of kt v] by (auto simp: delimited_def split: json.splits)

definition number_text :: "json \<Rightarrow> string option" where
  "number_text v = (case v of JNum i \<Rightarrow> Some (show_int (f64_of_int i)) | JFloat t \<Rightarrow> Some t | _ \<Rightarrow> None)"

lemma number_text_Some:
  "number_text v = Some t \<Longrightarrow> wf_json v \<Longrightarrow>
     push_canonical_json kt v = ''number:'' @ t \<and> canonical_value v = JFloat t \<and> list_all number_char t"
  by (cases v) (auto simp: number_text_def show_int_number)

lemma canonical_split_number:
  assumes "number_text v = Some s" and "number_text w = Some t" and "wf_json v" and "wf_json w"
    and "delimited x" and "delimited y" and "push_canonical_json kt v @ x = push_canonical_json kt w @ y"
  shows "canonical_value v = canonical_value w \<and> x = y"
proof -
  note v = number_text_Some [OF assms(1,3), of kt]
  note w = number_text_Some [OF assms(2,4), of kt]
  have "s @ x = t @ y" using assms(7) v w by simp
  with number_split [of s t x y] v w assms(5,6) show ?thesis by simp
qed

lemma canonical_same_kind:
  assumes "push_canonical_json kt v @ x = push_canonical_json kt w @ y"
  shows "(number_text v \<noteq> None \<and> number_text w \<noteq> None) \<or> (v = JNull \<and> w = JNull)
    \<or> (\<exists>a b. v = JBool a \<and> w = JBool b) \<or> (\<exists>a b. v = JStr a \<and> w = JStr b)
    \<or> (\<exists>a b. v = JArr a \<and> w = JArr b) \<or> (\<exists>a b. v = JObj a \<and> w = JObj b)"
  using assms by (cases v; cases w) (simp_all add: number_text_def)

theorem canonical_split:
  assumes "self_delimiting kt"
  shows "wf_json v \<Longrightarrow> wf_json w \<Longrightarrow> delimited x \<Longrightarrow> delimited y
    \<Longrightarrow> push_canonical_json kt v @ x = push_canonical_json kt w @ y
    \<Longrightarrow> canonical_value v = canonical_value w \<and> x = y"
proof (induction v arbitrary: w x y rule: measure_induct_rule [where f = size])
  case (less v)
  note eq = less.prems(5)
  from canonical_same_kind [OF eq] consider
      s t where "number_text v = Some s" "number_text w = Some t"
    | "v = JNull" "w = JNull" | a b where "v = JBool a" "w = JBool b" | a b where "v = JStr a" "w = JStr b"
    | vs ws where "v = JArr vs" "w = JArr ws" | es fs where "v = JObj es" "w = JObj fs" by blast
  then show ?case
  proof cases
    case 1
    then show ?thesis using canonical_split_number less.prems by blast
  next
    case 2
    then show ?thesis using eq by simp
  next
    case 3
    then show ?thesis using eq by (cases a; cases b) (simp_all add: show_bool_def)
  next
    case 4
    then show ?thesis using eq string_split [of a x b y] by simp
  next
    case 5
    have "map canonical_value vs = map canonical_value ws \<and> x = y"
    proof (rule items_split [where f = "push_canonical_json kt" and close = "CHR '']''"])
      fix a b x' y'
      assume "a \<in> set vs" "b \<in> set ws" and rest: "delimited x'" "delimited y'"
        "push_canonical_json kt a @ x' = push_canonical_json kt b @ y'"
      then have "size a < size v" "wf_json a" "wf_json b"
        using 5 less.prems(1,2) by (auto simp: list_all_iff size_list_estimation' less_Suc_eq_le)
      from less.IH [OF this rest] show "canonical_value a = canonical_value b \<and> x' = y'" .
    qed (use 5 eq in \<open>simp_all add: canonical_not_delimited\<close>)
    with 5 show ?thesis by simp
  next
    case 6
    let ?f = "\<lambda>e. kt (fst e) @ '':'' @ push_canonical_json kt (snd e)"
    let ?g = "\<lambda>e. (fst e, canonical_value (snd e))"
    have "map ?g (sort_key fst es) = map ?g (sort_key fst fs) \<and> x = y"
    proof (rule items_split [where f = ?f and close = "CHR ''}''"])
      fix a b :: "string \<times> json" and x' y'
      assume ab: "a \<in> set (sort_key fst es)" "b \<in> set (sort_key fst fs)" and rest: "delimited x'" "delimited y'"
        and "?f a @ x' = ?f b @ y'"
      then have "kt (fst a) @ CHR '':'' # push_canonical_json kt (snd a) @ x'
          = kt (fst b) @ CHR '':'' # push_canonical_json kt (snd b) @ y'" by simp
      with assms have k: "fst a = fst b"
        and t: "push_canonical_json kt (snd a) @ x' = push_canonical_json kt (snd b) @ y'"
        unfolding self_delimiting_def by blast+
      have "size (snd a) \<le> size_prod (\<lambda>x. 0) size a" by (cases a) simp
      then have "size (snd a) \<le> size_list (size_prod (\<lambda>x. 0) size) es"
        using ab by (intro size_list_estimation') simp_all
      then have "size (snd a) < size v" using 6 by simp
      moreover have "wf_json (snd a)" "wf_json (snd b)"
        using ab 6 less.prems(1,2) by (auto simp: list_all_iff)
      ultimately have "canonical_value (snd a) = canonical_value (snd b) \<and> x' = y'"
        using less.IH rest t by blast
      with k show "?g a = ?g b \<and> x' = y'" by simp
    next
      fix a :: "string \<times> json" and x'
      from assms obtain r where "kt (fst a) = CHR 0x22 # r" unfolding self_delimiting_def by blast
      then show "\<not> delimited (?f a @ x')" by (simp add: delimited_def)
    qed (use 6 eq in simp_all)
    with 6 show ?thesis by simp
  qed
qed

text \<open>And the value determines the text.\<close>

lemma canonical_value_text: "push_canonical_json kt (canonical_value v) = push_canonical_json kt v"
proof (induction v rule: measure_induct_rule [where f = size])
  case (less v)
  show ?case
  proof (cases v)
    case (JArr vs)
    have "push_canonical_json kt (canonical_value u) = push_canonical_json kt u" if "u \<in> set vs" for u
      using that less [of u] JArr by (simp add: size_list_estimation' less_Suc_eq_le)
    then show ?thesis by (simp add: JArr comp_def cong: map_cong)
  next
    case (JObj es)
    let ?g = "\<lambda>e. (fst e, canonical_value (snd e))"
    have ih: "push_canonical_json kt (canonical_value (snd e)) = push_canonical_json kt (snd e)"
      if "e \<in> set (sort_key fst es)" for e
    proof (rule less)
      have "size (snd e) \<le> size_prod (\<lambda>x. 0) size e" by (cases e) simp
      then have "size (snd e) \<le> size_list (size_prod (\<lambda>x. 0) size) es"
        using that by (intro size_list_estimation') simp_all
      then show "size (snd e) < size v" using JObj by simp
    qed
    have "sorted (map fst (map ?g (sort_key fst es)))" by (simp add: comp_def)
    then have sorted: "sort_key fst (map ?g (sort_key fst es)) = map ?g (sort_key fst es)"
      by (rule sort_key_id_if_sorted)
    have texts: "map (\<lambda>e. kt (fst e) @ '':'' @ push_canonical_json kt (canonical_value (snd e))) (sort_key fst es)
        = map (\<lambda>e. kt (fst e) @ '':'' @ push_canonical_json kt (snd e)) (sort_key fst es)"
      by (intro map_cong refl) (simp only: ih)
    show ?thesis
      by (simp only: JObj canonical_value.simps push_canonical_json.simps sorted map_map comp_def fst_conv
          snd_conv texts)
  qed simp_all
qed

lemma canonical_text_iff:
  assumes "self_delimiting kt" and "wf_json v" and "wf_json w"
  shows "push_canonical_json kt v = push_canonical_json kt w \<longleftrightarrow> canonical_value v = canonical_value w"
proof
  assume "push_canonical_json kt v = push_canonical_json kt w"
  then have "push_canonical_json kt v @ [] = push_canonical_json kt w @ []" by simp
  with canonical_split [OF assms, of "[]" "[]"] show "canonical_value v = canonical_value w"
    by (simp add: delimited_def)
next
  assume "canonical_value v = canonical_value w"
  then show "push_canonical_json kt v = push_canonical_json kt w" by (metis canonical_value_text)
qed

section \<open>Exact keys\<close>

text \<open>The digest does not collide on the two texts: the first eight of its 32 bytes tell them apart.\<close>

definition digest_separates :: "fingerprint_env \<Rightarrow> json \<Rightarrow> json \<Rightarrow> bool" where
  "digest_separates env v w \<longleftrightarrow>
     (\<forall>s. length (fe_sha256 env s) = 32)
     \<and> (take 8 (fe_sha256 env (push_canonical_json (fe_key_text env) v))
          = take 8 (fe_sha256 env (push_canonical_json (fe_key_text env) w))
        \<longrightarrow> push_canonical_json (fe_key_text env) v = push_canonical_json (fe_key_text env) w)"

lemma hex_bytes_inj:
  "length bs = length cs \<Longrightarrow> concat (map (\<lambda>b. hex2 (unat b)) bs) = concat (map (\<lambda>b. hex2 (unat b)) cs) \<Longrightarrow> bs = cs"
  for bs cs :: "u8 list"
proof (induction bs cs rule: list_induct2)
  case (Cons b bs c cs)
  from Cons.prems have "hex2 (unat b) = hex2 (unat c)"
    and r: "concat (map (\<lambda>b. hex2 (unat b)) bs) = concat (map (\<lambda>b. hex2 (unat b)) cs)"
    by (simp_all add: append_eq_append_conv)
  moreover have "unat b < 256" "unat c < 256" using unsigned_less [of b] unsigned_less [of c] by simp_all
  ultimately have "unat b = unat c" by (intro hex2_inj)
  with Cons.IH [OF r] show ?case by (simp add: word_unat_eq_iff)
qed simp

lemma length_hash:
  "\<forall>s. length (fe_sha256 env s) = 32 \<Longrightarrow> length (hash_json_value env v) = 16"
proof -
  have "length (concat (map (\<lambda>b. hex2 (unat b)) bs)) = 2 * length bs" for bs :: "u8 list"
    by (induction bs) simp_all
  then show "\<forall>s. length (fe_sha256 env s) = 32 \<Longrightarrow> length (hash_json_value env v) = 16"
    by (simp add: hash_json_value_def)
qed

lemma hash_json_value_iff:
  assumes "self_delimiting (fe_key_text env)" and "wf_json v" and "wf_json w" and "digest_separates env v w"
  shows "hash_json_value env v = hash_json_value env w \<longleftrightarrow> canonical_value v = canonical_value w"
proof -
  have "hash_json_value env v = hash_json_value env w \<Longrightarrow>
      take 8 (fe_sha256 env (push_canonical_json (fe_key_text env) v))
        = take 8 (fe_sha256 env (push_canonical_json (fe_key_text env) w))"
    unfolding hash_json_value_def
    using assms(4) by (intro hex_bytes_inj) (simp_all add: digest_separates_def)
  then have "hash_json_value env v = hash_json_value env w \<longleftrightarrow>
      push_canonical_json (fe_key_text env) v = push_canonical_json (fe_key_text env) w"
    using assms(4) by (auto simp: digest_separates_def hash_json_value_def)
  with canonical_text_iff [OF assms(1-3)] show ?thesis by simp
qed

text \<open>
  Denials are exact. The key under which the denial of a call is remembered determines the tool
  and its arguments, up to the order of object fields and the display of numbers, unless the digest
  collides: denying one call suppresses its exact repetition and nothing else.
\<close>

theorem denial_key_exact:
  assumes "self_delimiting (fe_key_text env)" and "wf_json v" and "wf_json w" and "digest_separates env v w"
    and "tool \<notin> set fetch_fingerprint_tools" and "tool' \<notin> set fetch_fingerprint_tools"
  shows "build_approval_key env tool v = build_approval_key env tool' w
    \<longleftrightarrow> tool = tool' \<and> canonical_value v = canonical_value w"
proof -
  define fam :: "string \<Rightarrow> string" where "fam t = (if t \<in> set file_fingerprint_tools then ''file:''
    else if t \<in> set shell_fingerprint_tools then ''shell:'' else ''tool:'')" for t
  have key: "build_approval_key env t u = fam t @ t @ '':'' @ hash_json_value env u"
    if "t \<notin> set fetch_fingerprint_tools" for t u
    using that by (simp add: build_approval_key_def fam_def)
  have len: "length (hash_json_value env u) = 16" for u
    using assms(4) by (intro length_hash) (simp add: digest_separates_def)
  have "tool = tool' \<and> hash_json_value env v = hash_json_value env w"
    if "fam tool @ tool @ '':'' @ hash_json_value env v = fam tool' @ tool' @ '':'' @ hash_json_value env w"
  proof -
    from that have "(fam tool @ tool @ '':'') @ hash_json_value env v
        = (fam tool' @ tool' @ '':'') @ hash_json_value env w" by simp
    then have "fam tool @ tool @ '':'' = fam tool' @ tool' @ '':''"
      and h: "hash_json_value env v = hash_json_value env w"
      using len append_eq_append_conv [of "hash_json_value env v" "hash_json_value env w"
        "fam tool @ tool @ '':''" "fam tool' @ tool' @ '':''"]
      by (metis append_eq_append_conv)+
    then have "fam tool @ tool = fam tool' @ tool'" by simp
    then have "tool = tool'" by (simp add: fam_def split: if_splits)
    with h show ?thesis by simp
  qed
  then have "build_approval_key env tool v = build_approval_key env tool' w
      \<longleftrightarrow> tool = tool' \<and> hash_json_value env v = hash_json_value env w"
    unfolding key [OF assms(5)] key [OF assms(6)] by blast
  then show ?thesis by (simp only: hash_json_value_iff [OF assms(1-4)])
qed

definition sample_fingerprints :: fingerprint_env where
  "sample_fingerprints =
     \<lparr>fe_sha256 = \<lambda>s. take 32 (map (\<lambda>c. word_of_nat (of_char c)) s @ replicate 32 0),
      fe_path_hash = concat, fe_url_host = \<lambda>_. None,
      fe_key_text = \<lambda>s. CHR 0x22 # concat (map escape_char s) @ [CHR 0x22]\<rparr>"

lemma sample_fingerprints_simps [simp]:
  "fe_key_text sample_fingerprints s = CHR 0x22 # concat (map escape_char s) @ [CHR 0x22]"
  "length (fe_sha256 sample_fingerprints s) = 32"
  by (simp_all add: sample_fingerprints_def)

lemma sample_key_text: "self_delimiting (fe_key_text sample_fingerprints)"
  unfolding self_delimiting_def
proof (intro conjI allI impI)
  show "\<exists>r. fe_key_text sample_fingerprints a = CHR 0x22 # r" for a by simp
  fix a b x y
  assume "fe_key_text sample_fingerprints a @ x = fe_key_text sample_fingerprints b @ y"
  then have "concat (map escape_char a) @ CHR 0x22 # x = concat (map escape_char b) @ CHR 0x22 # y" by simp
  from string_split [OF this] show "a = b" "x = y" by simp_all
qed

theorem denial_key_exact_witness:
  "build_approval_key sample_fingerprints ''exec_shell'' (JObj [(''a'', JNull), (''b'', JBool True)])
     = build_approval_key sample_fingerprints ''exec_shell'' (JObj [(''b'', JBool True), (''a'', JNull)])
   \<and> build_approval_key sample_fingerprints ''exec_shell'' JNull
     \<noteq> build_approval_key sample_fingerprints ''exec_shell'' (JBool True)"
proof -
  let ?v = "JObj [(''a'', JNull), (''b'', JBool True)]" and ?w = "JObj [(''b'', JBool True), (''a'', JNull)]"
  have t: "''exec_shell'' \<notin> set fetch_fingerprint_tools" by code_simp
  have "sort_key fst [(''a'', JNull), (''b'', JBool True)] = [(''a'', JNull), (''b'', JBool True)]"
    "sort_key fst [(''b'', JBool True), (''a'', JNull)] = [(''a'', JNull), (''b'', JBool True)]" by code_simp+
  then have eq: "canonical_value ?v = canonical_value ?w" by (simp only: canonical_value.simps)
  then have "push_canonical_json kt ?v = push_canonical_json kt ?w" for kt by (metis canonical_value_text)
  then have ds: "digest_separates sample_fingerprints ?v ?w"
    unfolding digest_separates_def by (simp only: sample_fingerprints_simps(2)) simp
  have wf: "wf_json ?v" "wf_json ?w" "wf_json JNull" "wf_json (JBool True)" by simp_all
  from denial_key_exact [OF sample_key_text wf(1,2) ds t t] eq
  have 1: "build_approval_key sample_fingerprints ''exec_shell'' ?v = build_approval_key sample_fingerprints ''exec_shell'' ?w"
    by blast
  have "take 8 (fe_sha256 sample_fingerprints (push_canonical_json kt JNull))
      \<noteq> take 8 (fe_sha256 sample_fingerprints (push_canonical_json kt (JBool True)))" for kt
    unfolding push_canonical_json.simps show_bool_def sample_fingerprints_def by code_simp
  then have "digest_separates sample_fingerprints JNull (JBool True)"
    unfolding digest_separates_def using sample_fingerprints_simps(2) by blast
  from denial_key_exact [OF sample_key_text wf(3,4) this t t]
  have "build_approval_key sample_fingerprints ''exec_shell'' JNull
      \<noteq> build_approval_key sample_fingerprints ''exec_shell'' (JBool True)"
    by (simp only: canonical_value.simps json.distinct) simp
  with 1 show ?thesis by blast
qed

section \<open>What a session remembers\<close>

lemma session_app_state:
  "aa_mode (session_app mode answers) = mode"
  "aa_denied (session_app mode answers) =
     {an_key a | a. a \<in> set answers \<and> an_choice a = Denied \<and> \<not> an_timed_out a}"
  "aa_approved (session_app mode answers) =
     {k | k a. a \<in> set answers \<and> an_choice a = ApprovedForSession \<and> (k = an_group a \<or> k = an_tool_name a)}"
proof -
  have "aa_mode (session_app mode answers) = mode
    \<and> aa_denied (session_app mode answers) =
        {an_key a | a. a \<in> set answers \<and> an_choice a = Denied \<and> \<not> an_timed_out a}
    \<and> aa_approved (session_app mode answers) =
        {k | k a. a \<in> set answers \<and> an_choice a = ApprovedForSession \<and> (k = an_group a \<or> k = an_tool_name a)}"
  proof (induction answers rule: rev_induct)
    case Nil
    then show ?case by (simp add: session_app_def)
  next
    case (snoc a answers)
    have "session_app mode (answers @ [a]) = apply_approval_decision (session_app mode answers) a"
      by (simp add: session_app_def)
    with snoc show ?case
      by (cases "an_choice a") (auto simp: apply_approval_decision_def)
  qed
  then show "aa_mode (session_app mode answers) = mode"
    "aa_denied (session_app mode answers) =
      {an_key a | a. a \<in> set answers \<and> an_choice a = Denied \<and> \<not> an_timed_out a}"
    "aa_approved (session_app mode answers) =
      {k | k a. a \<in> set answers \<and> an_choice a = ApprovedForSession \<and> (k = an_group a \<or> k = an_tool_name a)}"
    by blast+
qed

definition denied_before :: "approval_answer list \<Rightarrow> approval_request \<Rightarrow> bool" where
  "denied_before answers r \<longleftrightarrow>
     (\<exists>a \<in> set answers. an_choice a = Denied \<and> \<not> an_timed_out a \<and> an_key a = ar_key r)"

definition approved_before :: "approval_answer list \<Rightarrow> approval_request \<Rightarrow> bool" where
  "approved_before answers r \<longleftrightarrow>
     (\<exists>a \<in> set answers. an_choice a = ApprovedForSession
        \<and> (an_tool_name a \<in> {ar_tool_name r, ar_group r} \<or> an_group a \<in> {ar_tool_name r, ar_group r}))"

lemma session_sets:
  "is_session_denied_for_key (session_app mode answers) (ar_key r) \<longleftrightarrow> denied_before answers r"
  "is_session_approved_for_tool (session_app mode answers) (ar_tool_name r) (ar_group r) \<longleftrightarrow> approved_before answers r"
proof -
  show "is_session_denied_for_key (session_app mode answers) (ar_key r) \<longleftrightarrow> denied_before answers r"
    unfolding is_session_denied_for_key_def session_app_state denied_before_def mem_Collect_eq by metis
  show "is_session_approved_for_tool (session_app mode answers) (ar_tool_name r) (ar_group r) \<longleftrightarrow> approved_before answers r"
  proof -
    have k: "k \<in> aa_approved (session_app mode answers) \<longleftrightarrow> (\<exists>a \<in> set answers.
        an_choice a = ApprovedForSession \<and> (an_tool_name a = k \<or> an_group a = k))" for k
      unfolding session_app_state mem_Collect_eq by metis
    show ?thesis unfolding is_session_approved_for_tool_def k approved_before_def by auto
  qed
qed

lemma session_answer:
  "on_approval_required (session_app mode answers) r =
     (if denied_before answers r then AutoDenied
      else if \<not> ar_force_prompt r \<and> approved_before answers r then AutoApproved
      else if mode = NeverMode then DeniedByMode else Prompted)"
  by (simp add: on_approval_required_def should_auto_approve_approval_request_def session_sets
      session_app_state(1))

text \<open>
  C23. The answers of a session. A request is denied without a prompt exactly when the user denied the
  same exact key before, and not by a time-out; else it is approved without a prompt exactly when no
  prompt is forced and an approval for the session named the same tool or the same group of calls; else
  it is denied in the mode never and prompted for in every other.
\<close>

theorem session_approval_exact:
  "on_approval_required (session_app mode answers) r =
     (if denied_before answers r then AutoDenied
      else if \<not> ar_force_prompt r \<and> approved_before answers r then AutoApproved
      else if mode = NeverMode then DeniedByMode else Prompted)"
  by (rule session_answer)

text \<open>So one approval of a harmless command for the session approves every later command of the tool
  that is not held by a rule, a hook or the safety floor.\<close>

lemma session_approval_covers_the_tool:
  assumes "a \<in> set answers" and "an_choice a = ApprovedForSession" and "an_tool_name a = ar_tool_name r"
    and "\<not> ar_force_prompt r" and "\<not> denied_before answers r"
  shows "on_approval_required (session_app mode answers) r = AutoApproved"
proof -
  have "approved_before answers r" using assms(1-3) by (auto simp: approved_before_def)
  then show ?thesis using assms(4,5)
    by (simp add: on_approval_required_def should_auto_approve_approval_request_def session_sets)
qed

section \<open>From the call to the user\<close>

text \<open>What becomes of a planned call: an error, a run without a question, or a request.\<close>

datatype call_outcome = CallBlocked | CallRuns | CallAsks approval_outcome

definition call_request :: "fingerprint_env \<Rightarrow> tool_call \<Rightarrow> call_plan \<Rightarrow> approval_request" where
  "call_request fe call p =
     \<lparr>ar_tool_name = tc_name call, ar_key = build_approval_key fe (tc_name call) (pl_input p),
      ar_group = build_approval_grouping_key fe (tc_name call) (pl_input p), ar_force_prompt = pl_force_prompt p\<rparr>"

text \<open>Searching the catalogue, asking the user and the parallel wrapper, whose inner calls the wrapper checks
  itself, are served before the approval is asked for.\<close>

definition served_before_approval :: "string \<Rightarrow> bool" where
  "served_before_approval nm \<longleftrightarrow>
     nm = ''multi_tool_use.parallel'' \<or> is_tool_search_tool nm \<or> nm = ''request_user_input''"

definition call_outcome :: "gate_env \<Rightarrow> fingerprint_env \<Rightarrow> approval_app \<Rightarrow> tool_call \<Rightarrow> call_outcome" where
  "call_outcome env fe app call =
     (let p = plan_tool_call env call in
      if pl_blocked p \<noteq> None then CallBlocked
      else if served_before_approval (tc_name call) then CallRuns
      else if pl_approval_required p then CallAsks (on_approval_required app (call_request fe call p))
      else CallRuns)"

lemma served_not_held:
  assumes "held_kind env call" shows "\<not> served_before_approval (tc_name call)"
proof -
  have "kind_from_tool_call shlex nm params (get_tool_category nm) = UnknownKind"
    if "nm \<in> {''multi_tool_use.parallel'', ''tool_search'', ''tool_search_tool_regex'', ''tool_search_tool_bm25'',
      ''request_user_input''}" for nm shlex params
  proof -
    have "let n = to_ascii_lowercase nm in get_tool_category nm = UnknownTool
        \<and> \<not> contains_any n [''push'', ''publish'', ''release'', ''tag'']
        \<and> \<not> contains_any n [''secret'', ''token'', ''credential'', ''password'']
        \<and> \<not> contains_any n [''delete'', ''destroy'', ''remove'', ''drop'', ''reset'']
        \<and> \<not> contains_any n [''git_''] \<and> \<not> contains_any n [''browser'', ''chrome'', ''playwright'']"
      using that by (elim insertE emptyE; hypsubst; code_simp)
    then show ?thesis by (simp add: kind_from_tool_call_def Let_def)
  qed
  then show ?thesis using assms
    by (auto simp: held_kind_def served_before_approval_def is_tool_search_tool_def Let_def)
qed

lemma held_call_outcome:
  assumes "held_kind env call"
  shows "call_outcome env fe (session_app mode answers) call
    \<in> {CallBlocked, CallAsks Prompted, CallAsks AutoDenied, CallAsks DeniedByMode}"
proof (cases "stopped env call")
  case True
  then show ?thesis using gate_cases(1) [of env call] by (auto simp: call_outcome_def Let_def)
next
  case False
  then have "\<exists>r. call_review env call = ForcePrompt r"
    using assms call_review_cases [of env call] by (cases "call_review env call") (auto simp: stopped_def)
  with gate_cases [of env call] False have "pl_blocked (plan_tool_call env call) = None"
    "pl_approval_required (plan_tool_call env call)" "pl_force_prompt (plan_tool_call env call)" by blast+
  then show ?thesis using served_not_held [OF assms]
    by (auto simp: call_outcome_def Let_def call_request_def on_approval_required_def
        should_auto_approve_approval_request_def)
qed

text \<open>
  C2. Nothing lifts the safety floor. A call that publishes, or one that destroys or touches a secret
  in the background, never runs and is never approved without the user, in any mode, under any rules and
  hooks and after any earlier answers: it is blocked, prompted for or denied.
\<close>

theorem held_call_reaches_user:
  assumes "held_kind env call"
  shows "call_outcome env fe (session_app mode answers) call
    \<in> {CallBlocked, CallAsks Prompted, CallAsks AutoDenied, CallAsks DeniedByMode}"
  using assms by (rule held_call_outcome)

text \<open>Which shell commands are held: one of whose segments publishes, or, in the background, one with a
  segment the safety analysis or the check for destroyed devices calls dangerous.\<close>

definition publishes :: "string \<Rightarrow> bool" where
  "publishes segment \<longleftrightarrow>
     shell_tokens_are_publish_like (filter (\<lambda>t. trim t \<noteq> []) (split_whitespace segment))"

definition destroys :: "gate_env \<Rightarrow> string \<Rightarrow> bool" where
  "destroys env segment \<longleftrightarrow> dangerous_somewhere (ge_shlex env) segment
     \<or> segment_is_device_or_filesystem_destroyer segment"

lemma exec_shell_kind:
  "kind_from_tool_call shlex ''exec_shell'' params (get_tool_category ''exec_shell'') =
     (if shell_params_are_publish_like params then PublishKind
      else if shell_params_are_destructive_like shlex params then DestructiveKind else ShellKind)"
proof -
  have n: "to_ascii_lowercase ''exec_shell'' = ''exec_shell''" "get_tool_category ''exec_shell'' = ShellTool"
    "contains_any ''exec_shell'' [''push'', ''publish'', ''release'', ''tag''] = False"
    "contains_any ''exec_shell'' [''secret'', ''token'', ''credential'', ''password''] = False"
    "contains_any ''exec_shell'' [''delete'', ''destroy'', ''remove'', ''drop'', ''reset''] = False"
    "contains_any ''exec_shell'' [''git_''] = False"
    "contains_any ''exec_shell'' [''browser'', ''chrome'', ''playwright''] = False" by code_simp+
  show ?thesis
    unfolding kind_from_tool_call_def Let_def n by simp
qed

lemma held_shell_command:
  assumes "tc_name call = ''exec_shell''" and "command_param (call_input env call) = Some c"
    and "segment \<in> set (split_shell_segments_for_review c)"
    and "publishes segment \<or> destroys env segment \<and> call_detached env call"
  shows "held_kind env call"
proof (cases "shell_params_are_publish_like (call_input env call)")
  case True
  then show ?thesis by (simp add: held_kind_def assms(1) exec_shell_kind Let_def)
next
  case False
  then have "\<not> publishes segment"
    using assms(2,3) by (auto simp: shell_params_are_publish_like_def publishes_def list_ex_iff)
  with assms(4) have d: "destroys env segment" "call_detached env call" by blast+
  from d(1) have "sa_level (analyze_command (ge_shlex env) segment) = DangerousLevel
      \<or> segment_is_device_or_filesystem_destroyer segment"
    using dangerous_level by (auto simp: destroys_def)
  with assms(2,3) have "shell_params_are_destructive_like (ge_shlex env) (call_input env call)"
    by (auto simp: shell_params_are_destructive_like_def list_ex_iff)
  with False d(2) show ?thesis by (simp add: held_kind_def assms(1) exec_shell_kind Let_def)
qed

text \<open>A fork bomb in the background is not held: none of its segments is destructive to the review.\<close>

lemma fork_bomb_not_destructive:
  assumes "shlex = (\<lambda>s. Some (split_whitespace s))"
  shows "\<not> shell_params_are_destructive_like shlex (JObj [(''command'', JStr '':(){ :|:& };:'')])"
  unfolding assms by code_simp

text \<open>A session in the automatic mode that allows everything it can, and two calls.\<close>

definition sample_gate :: gate_env where
  "sample_gate =
     \<lparr>ge_shlex = \<lambda>s. Some (split_whitespace s), ge_from_str = \<lambda>_. None, ge_missing_tool = \<lambda>nm. nm,
      ge_patch_files = \<lambda>_. [], ge_mode = YoloAppMode, ge_auto_approve = True, ge_registry_auto_approve = True,
      ge_approval_mode = BypassMode, ge_workspace = ''/w'', ge_workspace_trusted = True,
      ge_disallowed = None, ge_allowed = None,
      ge_registry = \<lambda>nm. if nm = ''exec_shell'' then Some
        \<lparr>ts_requirement = \<lambda>_. ReqRequired, ts_description = ''shell'', ts_parallel = \<lambda>_. False,
         ts_read_only = \<lambda>_. False, ts_detached = \<lambda>_. True\<rparr> else None,
      ge_hooks = None, ge_exec_policy = engine_new [] [],
      ge_review_policy = \<lparr>rp_allow_rules = [review_rule_allow ''all'' ''all''], rp_block_rules = [], rp_guidance = None\<rparr>\<rparr>"

definition sample_shell_call :: "string \<Rightarrow> tool_call" where
  "sample_shell_call c =
     \<lparr>tc_name = ''exec_shell'', tc_input = JObj [(''command'', JStr c)], tc_parse_error = None,
      tc_caller = None, tc_allowed_callers = None\<rparr>"

lemma sample_call_input [simp]: "call_input sample_gate (sample_shell_call c) = JObj [(''command'', JStr c)]"
proof -
  have "ge_hooks sample_gate = None" by (simp add: sample_gate_def)
  then have "call_hooks sample_gate (sample_shell_call c) = hook_fold_default"
    by (simp add: call_hooks_def split: option.split)
  then show ?thesis by (simp add: call_input_def unwrap_or_def sample_shell_call_def)
qed

lemma sample_command [simp]: "command_param (JObj [(''command'', JStr c)]) = Some c"
  by (simp add: command_param_def)

lemma sample_detached [simp]: "call_detached sample_gate (sample_shell_call c)"
  by (simp add: call_detached_def sample_gate_def sample_shell_call_def is_mcp_tool_def)

lemma sample_call_name [simp]: "tc_name (sample_shell_call c) = ''exec_shell''"
  by (simp add: sample_shell_call_def)

theorem held_call_reaches_user_witness:
  "call_outcome sample_gate sample_fingerprints (session_app BypassMode []) (sample_shell_call ''git push'')
     \<in> {CallBlocked, CallAsks Prompted, CallAsks AutoDenied, CallAsks DeniedByMode}"
proof -
  have "split_shell_segments_for_review ''git push'' = [''git push'']" and "publishes ''git push''" by code_simp+
  then have "held_kind sample_gate (sample_shell_call ''git push'')"
    by (intro held_shell_command [of _ _ "''git push''" "''git push''"]) simp_all
  then show ?thesis by (rule held_call_reaches_user)
qed

text \<open>
  C10. Shell commands under the floor. A shell command one of whose segments pushes, releases or publishes,
  or, started in the background, is dangerous to the safety analysis or destroys a device or a file
  system, reaches the user in every mode, whatever the user approved for the session before.
\<close>

theorem dangerous_shell_reaches_user:
  assumes "tc_name call = ''exec_shell''" and "command_param (call_input env call) = Some c"
    and "segment \<in> set (split_shell_segments_for_review c)"
    and "publishes segment \<or> destroys env segment \<and> call_detached env call"
  shows "call_outcome env fe (session_app mode answers) call \<noteq> CallRuns
    \<and> call_outcome env fe (session_app mode answers) call \<noteq> CallAsks AutoApproved"
proof -
  have "call_outcome env fe (session_app mode answers) call
      \<in> {CallBlocked, CallAsks Prompted, CallAsks AutoDenied, CallAsks DeniedByMode}"
    using held_shell_command [OF assms] by (rule held_call_outcome)
  then show ?thesis by auto
qed

theorem dangerous_shell_reaches_user_witness:
  "call_outcome sample_gate sample_fingerprints
     (session_app BypassMode [\<lparr>an_tool_name = ''exec_shell'', an_choice = ApprovedForSession, an_timed_out = False,
        an_key = ''k'', an_group = ''shell:git status''\<rparr>]) (sample_shell_call ''make; dd of=/dev/sda'')
     \<notin> {CallRuns, CallAsks AutoApproved}"
proof -
  let ?c = "''make; dd of=/dev/sda''"
  have seg: "split_shell_segments_for_review ?c = [''make'', ''dd of=/dev/sda'']" by code_simp
  have "segment_is_device_or_filesystem_destroyer ''dd of=/dev/sda''" by code_simp
  then have "destroys sample_gate ''dd of=/dev/sda''" by (simp add: destroys_def)
  with seg dangerous_shell_reaches_user [of "sample_shell_call ?c" sample_gate ?c "''dd of=/dev/sda''"]
  show ?thesis by simp
qed

end
