(* ===== verification/Fleet_Types.thy ===== *)
theory Fleet_Types
  imports Json Ordered_Map "HOL-Library.Product_Lexorder" "HOL-Library.Option_ord"
begin

text \<open>
  The data of the agent fleet (\<open>crates/protocol/src/fleet.rs\<close>): runs, tasks, workers, the events a worker
  sends and the receipts and alerts the manager keeps, with the trust levels of a worker. Paths are
  strings, floating-point values (loads and scores), which only pass through, keep their text, and a
  \<open>BTreeMap\<close> is an ordered map.
\<close>

type_synonym fleet_run_id = string
type_synonym float_text = string

section \<open>Runs, tasks and workers\<close>

datatype fleet_run_status =
  RunPending | RunQueued | RunRunning | RunPaused | RunCompleted | RunFailed | RunCancelled

fun run_is_terminal :: "fleet_run_status \<Rightarrow> bool" where
  "run_is_terminal s \<longleftrightarrow> s \<in> {RunCompleted, RunFailed, RunCancelled}"

fun run_is_active :: "fleet_run_status \<Rightarrow> bool" where
  "run_is_active s \<longleftrightarrow> s \<in> {RunPending, RunQueued, RunRunning}"

fun run_is_paused :: "fleet_run_status \<Rightarrow> bool" where
  "run_is_paused s \<longleftrightarrow> s = RunPaused"

datatype fleet_artifact_kind =
  LogArtifact | PatchArtifact | TestResultArtifact | ReportArtifact | CheckpointArtifact
| ReceiptArtifact | OtherArtifact string

fun artifact_as_wire_str :: "fleet_artifact_kind \<Rightarrow> string" where
  "artifact_as_wire_str LogArtifact = ''log''"
| "artifact_as_wire_str PatchArtifact = ''patch''"
| "artifact_as_wire_str TestResultArtifact = ''test_result''"
| "artifact_as_wire_str ReportArtifact = ''report''"
| "artifact_as_wire_str CheckpointArtifact = ''checkpoint''"
| "artifact_as_wire_str ReceiptArtifact = ''receipt''"
| "artifact_as_wire_str (OtherArtifact kind) = kind"

definition artifact_from_wire_str :: "string \<Rightarrow> fleet_artifact_kind" where
  "artifact_from_wire_str s =
     (if s = ''log'' then LogArtifact else if s = ''patch'' then PatchArtifact
      else if s = ''test_result'' then TestResultArtifact else if s = ''report'' then ReportArtifact
      else if s = ''checkpoint'' then CheckpointArtifact else if s = ''receipt'' then ReceiptArtifact
      else OtherArtifact s)"

record fleet_artifact_ref =
  fa_kind :: fleet_artifact_kind
  fa_path :: string
  fa_checksum :: "string option"
  fa_mime_type :: "string option"
  fa_size_bytes :: "u64 option"

record fleet_secret_ref =
  sr_key :: string
  sr_source :: "string option"

definition secret_ref_new :: "string \<Rightarrow> fleet_secret_ref" where
  "secret_ref_new k = \<lparr>sr_key = k, sr_source = None\<rparr>"

definition secret_ref_redacted :: "fleet_secret_ref \<Rightarrow> string" where
  "secret_ref_redacted r = (case sr_source r of
     Some src \<Rightarrow> ''<secret:'' @ src @ ''.'' @ sr_key r @ ''>''
   | None \<Rightarrow> ''<secret:'' @ sr_key r @ ''>'')"

record fleet_alert_endpoint =
  ae_url :: "string option"
  ae_url_ref :: "fleet_secret_ref option"
  ae_secret_ref :: "fleet_secret_ref option"

definition endpoint_redacted :: "fleet_alert_endpoint \<Rightarrow> string" where
  "endpoint_redacted ep =
     (case ae_url_ref ep of None \<Rightarrow> ''<inline-url>'' | Some r \<Rightarrow> secret_ref_redacted r)"

datatype fleet_alert_channel =
  SlackChannel fleet_alert_endpoint | WebhookChannel fleet_alert_endpoint | PagerDutyChannel string string

datatype fleet_alert_event_class =
  StaleAlert | RestartExhausted | NeedsHuman | BudgetExceeded | VerifierFailed | RunCompletedAlert

record fleet_alert_policy =
  al_events :: "fleet_alert_event_class list"
  al_channels :: "fleet_alert_channel list"
  al_after_attempts :: "u32 option"
  al_after_minutes_stale :: "u64 option"

record fleet_retry_policy =
  fr_max_attempts :: u32
  fr_initial_backoff_seconds :: u64
  fr_max_backoff_seconds :: u64
  fr_backoff_multiplier :: u32

definition fleet_retry_policy_default :: fleet_retry_policy where
  "fleet_retry_policy_default =
     \<lparr>fr_max_attempts = 3, fr_initial_backoff_seconds = 5, fr_max_backoff_seconds = 300,
      fr_backoff_multiplier = 2\<rparr>"

record fleet_task_worker_profile =
  wp_agent_profile :: "string option"
  wp_role :: "string option"
  wp_loadout :: "string option"
  wp_model_class :: "string option"
  wp_model :: "string option"
  wp_tool_profile :: "string option"
  wp_tools :: "string list"
  wp_capabilities :: "string list"

record fleet_environment_requirements =
  er_required :: "string list"
  er_allowlist :: "string list"

record fleet_workspace_requirements =
  wr_root :: "string option"
  wr_required_files :: "string list"
  wr_writable_paths :: "string list"
  wr_environment :: "fleet_environment_requirements option"

record fleet_task_budget =
  tb_max_tokens :: "u64 option"
  tb_max_tool_calls :: "u32 option"
  tb_max_seconds :: "u64 option"

datatype fleet_scorer_spec =
  ExitCodeScorer | FileExistsScorer string | RegexMatchScorer string string | JsonPathScorer string string
| CommandScorer string "string list" | VerifierPromptScorer string | ManualScorer

record fleet_task_spec =
  ft_id :: string
  ft_name :: string
  ft_description :: "string option"
  ft_objective :: "string option"
  ft_instructions :: string
  ft_worker :: "fleet_task_worker_profile option"
  ft_workspace :: "fleet_workspace_requirements option"
  ft_input_files :: "string list"
  ft_context :: "string list"
  ft_budget :: "fleet_task_budget option"
  ft_tags :: "string list"
  ft_expected_artifacts :: "fleet_artifact_kind list"
  ft_scorer :: "fleet_scorer_spec option"
  ft_retry_policy :: "fleet_retry_policy option"
  ft_alert_policy :: "fleet_alert_policy option"
  ft_timeout_seconds :: "u64 option"
  ft_metadata :: "(string, json) bmap"

record ssh_host =
  sh_host :: string
  sh_port :: "16 word option"
  sh_user :: "string option"
  sh_identity :: "string option"
  sh_known_hosts :: "string option"
  sh_host_key_fingerprint :: "string option"
  sh_working_directory :: "string option"
  sh_env_allowlist :: "string list"
  sh_codewhale_binary :: "string option"

datatype fleet_host_spec = LocalHost | SshHost ssh_host | DockerHost string "string list"

section \<open>Trust\<close>

datatype fleet_trust_level = SandboxTrust | LocalTrust | RemoteVerifiedTrust | OperatorTrust

fun trust_rank :: "fleet_trust_level \<Rightarrow> nat" where
  "trust_rank SandboxTrust = 0"
| "trust_rank LocalTrust = 1"
| "trust_rank RemoteVerifiedTrust = 2"
| "trust_rank OperatorTrust = 3"

lemma trust_rank_inj: "trust_rank a = trust_rank b \<Longrightarrow> a = b"
  by (cases a; cases b) simp_all

instantiation fleet_trust_level :: linorder
begin

definition less_eq_fleet_trust_level :: "fleet_trust_level \<Rightarrow> fleet_trust_level \<Rightarrow> bool" where
  "a \<le> b \<longleftrightarrow> trust_rank a \<le> trust_rank b"

definition less_fleet_trust_level :: "fleet_trust_level \<Rightarrow> fleet_trust_level \<Rightarrow> bool" where
  "a < b \<longleftrightarrow> trust_rank a < trust_rank b"

instance
  by standard (auto simp: less_eq_fleet_trust_level_def less_fleet_trust_level_def intro: trust_rank_inj)

end

definition may_access_secrets :: "fleet_trust_level \<Rightarrow> bool" where
  "may_access_secrets t \<longleftrightarrow> t \<in> {OperatorTrust, RemoteVerifiedTrust, LocalTrust}"

definition may_write_workspace :: "fleet_trust_level \<Rightarrow> bool" where
  "may_write_workspace t \<longleftrightarrow> t \<in> {OperatorTrust, LocalTrust}"

definition may_access_network :: "fleet_trust_level \<Rightarrow> bool" where
  "may_access_network t \<longleftrightarrow> t \<in> {OperatorTrust, RemoteVerifiedTrust, LocalTrust}"

record fleet_capability_grant =
  cg_capability :: string
  cg_scope :: "string option"
  cg_reason :: "string option"

record fleet_security_policy =
  sp_default_trust_level :: fleet_trust_level
  sp_allowed_secrets :: "fleet_secret_ref list"
  sp_capability_grants :: "fleet_capability_grant list"
  sp_max_trust_level :: fleet_trust_level
  sp_require_identity_verification :: bool
  sp_allow_parallel_reads :: bool

definition fleet_security_policy_default :: fleet_security_policy where
  "fleet_security_policy_default =
     \<lparr>sp_default_trust_level = SandboxTrust, sp_allowed_secrets = [], sp_capability_grants = [],
      sp_max_trust_level = OperatorTrust, sp_require_identity_verification = False,
      sp_allow_parallel_reads = False\<rparr>"

record fleet_worker_spec =
  fw_id :: string
  fw_name :: string
  fw_host :: fleet_host_spec
  fw_trust_level :: "fleet_trust_level option"
  fw_labels :: "(string, string) bmap"
  fw_capabilities :: "string list"
  fw_max_concurrent_tasks :: "nat option"

record fleet_run =
  fn_id :: fleet_run_id
  fn_name :: string
  fn_status :: fleet_run_status
  fn_max_workers :: "nat option"
  fn_task_specs :: "fleet_task_spec list"
  fn_worker_specs :: "fleet_worker_spec list"
  fn_labels :: "(string, string) bmap"
  fn_security_policy :: "fleet_security_policy option"
  fn_created_at :: string
  fn_updated_at :: "string option"
  fn_completed_at :: "string option"

section \<open>Events and receipts\<close>

datatype fleet_worker_status =
  WorkerUnknown | WorkerOnline | WorkerBusy | WorkerOffline | WorkerUnhealthy | WorkerDraining | WorkerRetired

record fleet_inbox_entry =
  fe_run_id :: fleet_run_id
  fe_task_id :: string
  fe_priority :: int
  fe_enqueued_at :: string
  fe_lease_deadline :: "string option"
  fe_attempts :: u32

datatype fleet_worker_payload =
  EvQueued
| EvLeased "string option"
| EvStarting
| EvRunning
| EvModelWait "string option"
| EvRunningTool string "string option"
| EvWorkflow string json
| EvHeartbeat "float_text option" "u64 option"
| EvArtifact fleet_artifact_ref
| EvCompleted "int option" "string option"
| EvFailed string bool
| EvCancelled "string option"
| EvInterrupted "string option"
| EvStale "string option"
| EvRestarted u32
| EvEscalated string "string option"

record fleet_worker_event =
  ev_seq :: u64
  ev_run_id :: fleet_run_id
  ev_worker_id :: string
  ev_task_id :: string
  ev_timestamp :: string
  ev_payload :: fleet_worker_payload
  ev_extra :: "(string, json) bmap"

datatype fleet_task_result = ResultPass | ResultPartial | ResultFail | ResultSkip | ResultTimeout

datatype fleet_task_failure_kind = TransportFailure | TaskFailure | VerifierFailure

record fleet_score =
  sc_value :: float_text
  sc_max :: "float_text option"
  sc_notes :: "string option"

text \<open>The route and the permissions are snapshots of strings and flags that a receipt carries along; they
  are kept as the JSON objects they are written as.\<close>

record fleet_receipt =
  rc_run_id :: fleet_run_id
  rc_task_id :: string
  rc_worker_id :: string
  rc_attempt :: "u32 option"
  rc_terminal_seq :: "u64 option"
  rc_completed_at :: string
  rc_result :: fleet_task_result
  rc_failure_kind :: "fleet_task_failure_kind option"
  rc_artifacts :: "fleet_artifact_ref list"
  rc_score :: "fleet_score option"
  rc_resolved_route :: "json option"
  rc_effective_permissions :: "json option"

end
