(* ===== verification/Fleet_Ledger.thy ===== *)
theory Fleet_Ledger
  imports Fleet_Types
begin

text \<open>
  The durable ledger of the fleet (\<open>crates/tui/src/fleet/ledger.rs\<close>): an append-only file of JSON lines,
  the state its replay rebuilds, the compare-and-set operations of the managers and the compaction.
  Every operation takes the lock of the workspace, rebuilds the state from the file, decides and appends
  its records in one write; it is given here as its decision, a function from the rebuilt state to the
  result and the records, and \<open>transact\<close> runs a decision on the file. Writing and reading a record as
  JSON (\<open>ser\<close>, \<open>de\<close>) are parameters; errors of the file system and the lock are not modelled.
\<close>

section \<open>Records and state\<close>

datatype task_status = Enqueued | Leased | TaskCompleted | TaskFailed | TaskCancelled

definition default_terminal_task_status :: task_status where
  "default_terminal_task_status = TaskCompleted"

definition status_terminal :: "task_status \<Rightarrow> bool" where
  "status_terminal st \<longleftrightarrow> st \<in> {TaskCompleted, TaskFailed, TaskCancelled}"

datatype fleet_record =
  RunCreated fleet_run
| RunStatusChanged fleet_run_id fleet_run_status string
| TaskEnqueuedRec fleet_inbox_entry
| TaskLeasedRec fleet_run_id string string string "string option"
| TaskCompletedOrFailed fleet_run_id string string string task_status
| TaskAttemptFinalized fleet_worker_event "task_status option" fleet_receipt
| EventAppended fleet_worker_event
| EventSequenceCheckpoint fleet_run_id string string u64
| HeartbeatRec string string "float_text option" "u64 option"
| ReceiptRecorded fleet_receipt
| AlertSent fleet_run_id string string string "string option" "u32 option" "u64 option"

record fleet_task =
  tk_entry :: fleet_inbox_entry
  tk_status :: task_status
  tk_leased_to :: "string option"
  tk_leased_at :: "string option"
  tk_completed_at :: "string option"

record fleet_heartbeat =
  hb_timestamp :: string
  hb_cpu_percent :: "float_text option"
  hb_memory_mb :: "u64 option"

record fleet_alert =
  fa_run_id :: fleet_run_id
  fa_task_id :: string
  fa_channel :: string
  fa_timestamp :: string
  fa_worker_id :: "string option"
  fa_attempt :: "u32 option"
  fa_seq :: "u64 option"

record sequence_owner =
  so_run_id :: fleet_run_id
  so_worker_id :: string
  so_task_id :: string

record fleet_state =
  fl_runs :: "(string, fleet_run) bmap"
  fl_run_status_overrides :: "(string, fleet_run_status) bmap"
  fl_tasks :: "(string, fleet_task) bmap"
  fl_workers :: "(string, fleet_worker_status) bmap"
  fl_heartbeats :: "(string, fleet_heartbeat) bmap"
  fl_latest_seq :: "(string, u64) bmap"
  fl_sequence_owners :: "(string, sequence_owner) bmap"
  fl_latest_events :: "(string, fleet_worker_event) bmap"
  fl_artifact_events :: "(string, fleet_worker_event) bmap"
  fl_restarted_events :: "(string, fleet_worker_event) bmap"
  fl_escalated_events :: "(string, fleet_worker_event) bmap"
  fl_receipts :: "(string, fleet_receipt) bmap"
  fl_alerts :: "(string \<times> string \<times> u32 option \<times> string, fleet_alert) bmap"

definition fleet_state_empty :: fleet_state where
  "fleet_state_empty =
     \<lparr>fl_runs = bm_empty, fl_run_status_overrides = bm_empty, fl_tasks = bm_empty, fl_workers = bm_empty,
      fl_heartbeats = bm_empty, fl_latest_seq = bm_empty, fl_sequence_owners = bm_empty,
      fl_latest_events = bm_empty, fl_artifact_events = bm_empty, fl_restarted_events = bm_empty,
      fl_escalated_events = bm_empty, fl_receipts = bm_empty, fl_alerts = bm_empty\<rparr>"

definition bm_values :: "('k, 'v) bmap \<Rightarrow> 'v list" where
  "bm_values m = map snd m"

definition bm_get_or :: "('k, 'v) bmap \<Rightarrow> 'k \<Rightarrow> 'v \<Rightarrow> 'v" where
  "bm_get_or m k d = unwrap_or d (bm_get m k)"

section \<open>Keys\<close>

definition colon :: string where
  "colon = '':''"

definition task_key :: "fleet_run_id \<Rightarrow> string \<Rightarrow> string" where
  "task_key run_id task_id = run_id @ colon @ task_id"

definition event_key :: "string \<Rightarrow> fleet_run_id \<Rightarrow> string \<Rightarrow> string" where
  "event_key worker_id run_id task_id = worker_id @ colon @ run_id @ colon @ task_id"

definition alert_key ::
    "fleet_run_id \<Rightarrow> string \<Rightarrow> u32 option \<Rightarrow> string \<Rightarrow> string \<times> string \<times> u32 option \<times> string" where
  "alert_key run_id task_id attempt channel = (run_id, task_id, attempt, channel)"

definition rsplit_once :: "char \<Rightarrow> string \<Rightarrow> (string \<times> string) option" where
  "rsplit_once c s = (case split_once c (rev s) of None \<Rightarrow> None | Some (b, a) \<Rightarrow> Some (rev a, rev b))"

text \<open>\<open>parse::<usize>().is_ok()\<close>: decimal digits, after an optional plus sign, within 64 bits.\<close>

definition decimal_value :: "string \<Rightarrow> nat" where
  "decimal_value ds = foldl (\<lambda>n d. 10 * n + (of_char d - 48)) 0 ds"

definition parses_as_usize :: "string \<Rightarrow> bool" where
  "parses_as_usize s =
     (let ds = (case strip_prefix ''+'' s of Some r \<Rightarrow> r | None \<Rightarrow> s) in
      ds \<noteq> [] \<and> list_all is_ascii_digit ds \<and> decimal_value ds < 2 ^ 64)"

definition ledger_channel_label :: "string \<Rightarrow> string" where
  "ledger_channel_label channel_key =
     (case rsplit_once (CHR ''#'') channel_key of
        Some (label, ordinal) \<Rightarrow> if parses_as_usize ordinal then label else channel_key
      | None \<Rightarrow> channel_key)"

definition compact_event_key :: "fleet_worker_event \<Rightarrow> string" where
  "compact_event_key e =
     event_key (ev_worker_id e) (ev_run_id e) (ev_task_id e) @ colon @ show_nat (unat (ev_seq e))"

definition artifact_event_key :: "fleet_worker_event \<Rightarrow> fleet_artifact_ref \<Rightarrow> string" where
  "artifact_event_key e a =
     event_key (ev_worker_id e) (ev_run_id e) (ev_task_id e) @ colon @ fa_path a"

definition event_lifecycle_key :: "fleet_worker_event \<Rightarrow> string" where
  "event_lifecycle_key e = event_key (ev_worker_id e) (ev_run_id e) (ev_task_id e)"

definition event_task_key :: "fleet_worker_event \<Rightarrow> string" where
  "event_task_key e = task_key (ev_run_id e) (ev_task_id e)"

section \<open>Replay\<close>

definition mark_task_terminal ::
    "fleet_state \<Rightarrow> fleet_run_id \<Rightarrow> string \<Rightarrow> string \<Rightarrow> string \<Rightarrow> task_status \<Rightarrow> fleet_state" where
  "mark_task_terminal s run_id task_id worker_id timestamp status =
     (case bm_get (fl_tasks s) (task_key run_id task_id) of
        None \<Rightarrow> s
      | Some t \<Rightarrow> s\<lparr>fl_tasks := bm_insert (task_key run_id task_id)
          (t\<lparr>tk_status := status,
             tk_leased_to := (if worker_id \<noteq> [] then Some worker_id else tk_leased_to t),
             tk_completed_at := Some timestamp\<rparr>) (fl_tasks s)\<rparr>)"

text \<open>Payloads that a terminal task no longer takes, terminal payloads, and the status a payload gives
  its worker.\<close>

fun regressing_payload :: "fleet_worker_payload \<Rightarrow> bool" where
  "regressing_payload EvQueued = False"
| "regressing_payload (EvEscalated _ _) = False"
| "regressing_payload (EvCompleted _ _) = False"
| "regressing_payload (EvFailed _ _) = False"
| "regressing_payload (EvCancelled _) = False"
| "regressing_payload _ = True"

fun terminal_payload :: "fleet_worker_payload \<Rightarrow> task_status option" where
  "terminal_payload (EvCompleted _ _) = Some TaskCompleted"
| "terminal_payload (EvFailed _ _) = Some TaskFailed"
| "terminal_payload (EvCancelled _) = Some TaskCancelled"
| "terminal_payload _ = None"

fun payload_worker_status :: "fleet_worker_payload \<Rightarrow> fleet_worker_status option" where
  "payload_worker_status (EvInterrupted _) = Some WorkerDraining"
| "payload_worker_status (EvStale _) = Some WorkerUnhealthy"
| "payload_worker_status (EvCompleted _ _) = Some WorkerOnline"
| "payload_worker_status (EvFailed _ _) = Some WorkerOnline"
| "payload_worker_status (EvCancelled _) = Some WorkerOnline"
| "payload_worker_status EvQueued = None"
| "payload_worker_status (EvArtifact _) = None"
| "payload_worker_status (EvEscalated _ _) = None"
| "payload_worker_status _ = Some WorkerBusy"

definition task_is_terminal :: "fleet_state \<Rightarrow> string \<Rightarrow> bool" where
  "task_is_terminal s k =
     (case bm_get (fl_tasks s) k of None \<Rightarrow> False | Some t \<Rightarrow> status_terminal (tk_status t))"

definition regresses :: "fleet_state \<Rightarrow> fleet_worker_event \<Rightarrow> bool" where
  "regresses s e \<longleftrightarrow> task_is_terminal s (event_task_key e) \<and> regressing_payload (ev_payload e)"

definition note_sequence :: "fleet_worker_event \<Rightarrow> bool \<Rightarrow> fleet_state \<Rightarrow> fleet_state" where
  "note_sequence e regressing s =
     (let k = event_lifecycle_key e;
          s1 = s\<lparr>fl_sequence_owners := bm_insert k
            \<lparr>so_run_id = ev_run_id e, so_worker_id = ev_worker_id e, so_task_id = ev_task_id e\<rparr>
            (fl_sequence_owners s)\<rparr> in
      if (case bm_get (fl_latest_seq s) k of None \<Rightarrow> True | Some seq \<Rightarrow> seq < ev_seq e)
      then s1\<lparr>fl_latest_seq := bm_insert k (ev_seq e) (fl_latest_seq s),
              fl_latest_events := (if regressing then fl_latest_events s
                else bm_insert k e (fl_latest_events s))\<rparr>
      else s1)"

definition note_kept_events :: "fleet_worker_event \<Rightarrow> fleet_state \<Rightarrow> fleet_state" where
  "note_kept_events e s =
     (case ev_payload e of
        EvArtifact a \<Rightarrow> s\<lparr>fl_artifact_events := bm_insert (artifact_event_key e a) e (fl_artifact_events s)\<rparr>
      | EvRestarted _ \<Rightarrow> s\<lparr>fl_restarted_events := bm_insert (event_lifecycle_key e) e (fl_restarted_events s)\<rparr>
      | EvEscalated _ _ \<Rightarrow> s\<lparr>fl_escalated_events := bm_insert (event_lifecycle_key e) e (fl_escalated_events s)\<rparr>
      | _ \<Rightarrow> s)"

definition project_event :: "fleet_worker_event \<Rightarrow> fleet_state \<Rightarrow> fleet_state" where
  "project_event e s =
     (let s1 = (case terminal_payload (ev_payload e) of
            Some status \<Rightarrow>
              mark_task_terminal s (ev_run_id e) (ev_task_id e) (ev_worker_id e) (ev_timestamp e) status
          | None \<Rightarrow> s) in
      case payload_worker_status (ev_payload e) of
        Some ws \<Rightarrow> s1\<lparr>fl_workers := bm_insert (ev_worker_id e) ws (fl_workers s1)\<rparr>
      | None \<Rightarrow> s1)"

definition apply_event :: "fleet_state \<Rightarrow> fleet_worker_event \<Rightarrow> fleet_state" where
  "apply_event s e =
     (let r = regresses s e;
          s1 = note_kept_events e (note_sequence e r s) in
      if r then s1 else project_event e s1)"

definition put_receipt :: "fleet_receipt \<Rightarrow> fleet_state \<Rightarrow> fleet_state" where
  "put_receipt r s =
     s\<lparr>fl_receipts := bm_insert (task_key (rc_run_id r) (rc_task_id r)) r (fl_receipts s)\<rparr>"

definition escalated_event ::
    "fleet_run_id \<Rightarrow> string \<Rightarrow> string \<Rightarrow> string \<Rightarrow> string \<Rightarrow> u64 \<Rightarrow> fleet_worker_event" where
  "escalated_event run_id task_id channel timestamp worker_id seq =
     \<lparr>ev_seq = seq, ev_run_id = run_id, ev_worker_id = worker_id, ev_task_id = task_id,
      ev_timestamp = timestamp, ev_payload = EvEscalated (ledger_channel_label channel) None,
      ev_extra = bm_empty\<rparr>"

text \<open>An alert without an attempt, as old ledgers have them, gets the attempt of its task.\<close>

definition alert_attempt :: "fleet_state \<Rightarrow> fleet_run_id \<Rightarrow> string \<Rightarrow> u32 option \<Rightarrow> u32 option" where
  "alert_attempt s run_id task_id attempt =
     (case attempt of Some a \<Rightarrow> Some a
      | None \<Rightarrow>
          (case bm_get (fl_tasks s) (task_key run_id task_id) of
             Some t \<Rightarrow> if fe_attempts (tk_entry t) > 0 then Some (fe_attempts (tk_entry t)) else None
           | None \<Rightarrow> None))"

definition apply_alert ::
    "fleet_state \<Rightarrow> fleet_run_id \<Rightarrow> string \<Rightarrow> string \<Rightarrow> string \<Rightarrow> string option \<Rightarrow> u32 option \<Rightarrow> u64 option
       \<Rightarrow> fleet_state" where
  "apply_alert s run_id task_id channel timestamp worker_id attempt0 seq =
     (let attempt = alert_attempt s run_id task_id attempt0;
          k = alert_key run_id task_id attempt channel in
      case bm_get (fl_alerts s) k of
        Some _ \<Rightarrow> s
      | None \<Rightarrow>
          (let s1 = s\<lparr>fl_alerts := bm_insert k
              \<lparr>fa_run_id = run_id, fa_task_id = task_id, fa_channel = channel, fa_timestamp = timestamp,
               fa_worker_id = worker_id, fa_attempt = attempt, fa_seq = seq\<rparr> (fl_alerts s)\<rparr> in
           case (worker_id, seq) of
             (Some w, Some n) \<Rightarrow> apply_event s1 (escalated_event run_id task_id channel timestamp w n)
           | _ \<Rightarrow> s1))"

fun apply_record :: "fleet_state \<Rightarrow> fleet_record \<Rightarrow> fleet_state" where
  "apply_record s (RunCreated r) = s\<lparr>fl_runs := bm_insert (fn_id r) r (fl_runs s)\<rparr>"
| "apply_record s (RunStatusChanged run_id status timestamp) =
     s\<lparr>fl_run_status_overrides := bm_insert run_id status (fl_run_status_overrides s)\<rparr>"
| "apply_record s (TaskEnqueuedRec e) =
     (let k = task_key (fe_run_id e) (fe_task_id e) in
      case bm_get (fl_tasks s) k of
        Some _ \<Rightarrow> s
      | None \<Rightarrow> s\<lparr>fl_tasks := bm_insert k
          \<lparr>tk_entry = e, tk_status = Enqueued, tk_leased_to = None, tk_leased_at = None,
           tk_completed_at = None\<rparr> (fl_tasks s)\<rparr>)"
| "apply_record s (TaskLeasedRec run_id task_id worker_id leased_at lease_expires_at) =
     (case bm_get (fl_tasks s) (task_key run_id task_id) of
        None \<Rightarrow> s
      | Some t \<Rightarrow> s\<lparr>fl_tasks := bm_insert (task_key run_id task_id)
          (t\<lparr>tk_status := Leased, tk_leased_to := Some worker_id, tk_leased_at := Some leased_at,
             tk_entry := (tk_entry t)\<lparr>fe_lease_deadline := lease_expires_at,
                                    fe_attempts := sat_add (fe_attempts (tk_entry t)) 1\<rparr>\<rparr>) (fl_tasks s)\<rparr>)"
| "apply_record s (TaskCompletedOrFailed run_id task_id worker_id timestamp status) =
     mark_task_terminal s run_id task_id worker_id timestamp status"
| "apply_record s (TaskAttemptFinalized e final_status receipt) =
     put_receipt receipt
       (case final_status of
          Some status \<Rightarrow> mark_task_terminal (apply_event s e) (ev_run_id e) (ev_task_id e) (ev_worker_id e)
            (ev_timestamp e) status
        | None \<Rightarrow> apply_event s e)"
| "apply_record s (EventAppended e) = apply_event s e"
| "apply_record s (EventSequenceCheckpoint run_id worker_id task_id seq) =
     (let k = event_key worker_id run_id task_id in
      s\<lparr>fl_sequence_owners := bm_insert k
          \<lparr>so_run_id = run_id, so_worker_id = worker_id, so_task_id = task_id\<rparr> (fl_sequence_owners s),
        fl_latest_seq := bm_insert k
          (case bm_get (fl_latest_seq s) k of Some n \<Rightarrow> max n seq | None \<Rightarrow> seq) (fl_latest_seq s)\<rparr>)"
| "apply_record s (HeartbeatRec worker_id timestamp cpu mem) =
     (let s1 = s\<lparr>fl_heartbeats := bm_insert worker_id
          \<lparr>hb_timestamp = timestamp, hb_cpu_percent = cpu, hb_memory_mb = mem\<rparr> (fl_heartbeats s)\<rparr> in
      if bm_get_or (fl_workers s) worker_id WorkerUnknown \<noteq> WorkerBusy
      then s1\<lparr>fl_workers := bm_insert worker_id WorkerOnline (fl_workers s)\<rparr> else s1)"
| "apply_record s (ReceiptRecorded receipt) = put_receipt receipt s"
| "apply_record s (AlertSent run_id task_id channel timestamp worker_id attempt seq) =
     apply_alert s run_id task_id channel timestamp worker_id attempt seq"

definition replay_records :: "fleet_state \<Rightarrow> fleet_record list \<Rightarrow> fleet_state" where
  "replay_records = foldl apply_record"

section \<open>The file\<close>

text \<open>Appending ends an unterminated last line first, so a fragment of an interrupted write stays a line of
  its own; replay skips blank lines and lines that are no record.\<close>

definition newline :: string where
  "newline = [CHR 0x0A]"

definition record_lines :: "(fleet_record \<Rightarrow> string) \<Rightarrow> fleet_record list \<Rightarrow> string" where
  "record_lines ser rs = concat (map (\<lambda>r. ser r @ newline) rs)"

definition append_records :: "(fleet_record \<Rightarrow> string) \<Rightarrow> fleet_record list \<Rightarrow> string \<Rightarrow> string" where
  "append_records ser rs file =
     (if file \<noteq> [] \<and> last file \<noteq> CHR 0x0A then file @ newline else file) @ record_lines ser rs"

definition file_records :: "(string \<Rightarrow> fleet_record option) \<Rightarrow> string \<Rightarrow> fleet_record list" where
  "file_records de file =
     List.map_filter (\<lambda>line. if trim line = [] then None else de line) (str_lines file)"

definition rebuild_state :: "(string \<Rightarrow> fleet_record option) \<Rightarrow> string \<Rightarrow> fleet_state" where
  "rebuild_state de file = replay_records fleet_state_empty (file_records de file)"

text \<open>An operation under the write lock: decide on the rebuilt state, then append, if there is anything.\<close>

definition transact ::
    "(fleet_record \<Rightarrow> string) \<Rightarrow> (string \<Rightarrow> fleet_record option) \<Rightarrow> (fleet_state \<Rightarrow> 'a \<times> fleet_record list)
       \<Rightarrow> string \<Rightarrow> 'a \<times> string" where
  "transact ser de decide file =
     (let d = decide (rebuild_state de file) in
      (fst d, if snd d = [] then file else append_records ser (snd d) file))"

section \<open>Operations\<close>

text \<open>The redaction of alert channels before a run is written.\<close>

definition redacted :: string where
  "redacted = ''<redacted>''"

fun sanitize_channel :: "fleet_alert_channel \<Rightarrow> fleet_alert_channel" where
  "sanitize_channel (SlackChannel webhook) =
     SlackChannel (webhook\<lparr>ae_url := map_option (\<lambda>_. redacted) (ae_url webhook)\<rparr>)"
| "sanitize_channel (WebhookChannel endpoint) =
     WebhookChannel \<lparr>ae_url = map_option (\<lambda>_. redacted) (ae_url endpoint),
       ae_url_ref = map_option (\<lambda>_. secret_ref_new redacted) (ae_url_ref endpoint),
       ae_secret_ref = map_option (\<lambda>_. secret_ref_new redacted) (ae_secret_ref endpoint)\<rparr>"
| "sanitize_channel (PagerDutyChannel routing_key severity) = PagerDutyChannel redacted severity"

definition sanitize_run_for_ledger :: "fleet_run \<Rightarrow> fleet_run" where
  "sanitize_run_for_ledger r =
     r\<lparr>fn_task_specs := map (\<lambda>t. t\<lparr>ft_alert_policy :=
         map_option (\<lambda>p. p\<lparr>al_channels := map sanitize_channel (al_channels p)\<rparr>) (ft_alert_policy t)\<rparr>)
       (fn_task_specs r)\<rparr>"

definition create_run :: "fleet_run \<Rightarrow> fleet_state \<Rightarrow> unit \<times> fleet_record list" where
  "create_run r s = ((), [RunCreated (sanitize_run_for_ledger r)])"

definition update_run_status ::
    "fleet_run_id \<Rightarrow> fleet_run_status \<Rightarrow> string \<Rightarrow> fleet_state \<Rightarrow> unit \<times> fleet_record list" where
  "update_run_status run_id status timestamp s = ((), [RunStatusChanged run_id status timestamp])"

definition enqueue :: "fleet_inbox_entry \<Rightarrow> fleet_state \<Rightarrow> unit \<times> fleet_record list" where
  "enqueue e s = ((), [TaskEnqueuedRec e])"

definition worker_is_leased :: "string \<Rightarrow> fleet_task \<Rightarrow> bool" where
  "worker_is_leased worker_id t \<longleftrightarrow> tk_status t = Leased \<and> tk_leased_to t = Some worker_id"

definition worker_busy :: "fleet_state \<Rightarrow> string \<Rightarrow> bool" where
  "worker_busy s worker_id \<longleftrightarrow> list_ex (worker_is_leased worker_id) (bm_values (fl_tasks s))"

definition leased_in_run :: "fleet_state \<Rightarrow> fleet_run_id \<Rightarrow> nat" where
  "leased_in_run s run_id =
     length (filter (\<lambda>t. fe_run_id (tk_entry t) = run_id \<and> tk_status t = Leased) (bm_values (fl_tasks s)))"

definition latest_seq_of :: "fleet_state \<Rightarrow> string \<Rightarrow> fleet_run_id \<Rightarrow> string \<Rightarrow> u64" where
  "latest_seq_of s worker_id run_id task_id =
     bm_get_or (fl_latest_seq s) (event_key worker_id run_id task_id) 0"

definition worker_event ::
    "u64 \<Rightarrow> fleet_run_id \<Rightarrow> string \<Rightarrow> string \<Rightarrow> string \<Rightarrow> fleet_worker_payload \<Rightarrow> fleet_worker_event" where
  "worker_event seq run_id worker_id task_id timestamp payload =
     \<lparr>ev_seq = seq, ev_run_id = run_id, ev_worker_id = worker_id, ev_task_id = task_id,
      ev_timestamp = timestamp, ev_payload = payload, ev_extra = bm_empty\<rparr>"

text \<open>Addition on \<open>u64\<close> wraps in a release build, as the word addition does.\<close>

definition next_worker_event ::
    "fleet_state \<Rightarrow> fleet_run_id \<Rightarrow> string \<Rightarrow> string \<Rightarrow> string \<Rightarrow> fleet_worker_payload \<Rightarrow> fleet_worker_event" where
  "next_worker_event s run_id worker_id task_id timestamp payload =
     worker_event (latest_seq_of s worker_id run_id task_id + 1) run_id worker_id task_id timestamp payload"

fun initial_event_records ::
    "u64 \<Rightarrow> fleet_run_id \<Rightarrow> string \<Rightarrow> string \<Rightarrow> string \<Rightarrow> fleet_worker_payload list \<Rightarrow> fleet_record list" where
  "initial_event_records seq run_id worker_id task_id timestamp [] = []"
| "initial_event_records seq run_id worker_id task_id timestamp (p # ps) =
     EventAppended (worker_event seq run_id worker_id task_id timestamp p)
       # initial_event_records (sat_add seq 1) run_id worker_id task_id timestamp ps"

definition lease_with_events ::
    "fleet_run_id \<Rightarrow> string \<Rightarrow> string \<Rightarrow> string \<Rightarrow> string option \<Rightarrow> nat option \<Rightarrow> fleet_worker_payload list
       \<Rightarrow> bool \<Rightarrow> fleet_state \<Rightarrow> bool \<times> fleet_record list" where
  "lease_with_events run_id task_id worker_id leased_at lease_expires_at max_active initial_events
       record_heartbeat s =
     (case bm_get (fl_tasks s) (task_key run_id task_id) of
        None \<Rightarrow> (False, [])
      | Some t \<Rightarrow>
          if tk_status t \<noteq> Enqueued then (False, [])
          else if worker_busy s worker_id then (False, [])
          else if (case max_active of None \<Rightarrow> False | Some m \<Rightarrow> m \<le> leased_in_run s run_id) then (False, [])
          else (True,
            [TaskLeasedRec run_id task_id worker_id leased_at lease_expires_at]
            @ initial_event_records (latest_seq_of s worker_id run_id task_id + 1) run_id worker_id task_id
                leased_at initial_events
            @ (if record_heartbeat then [HeartbeatRec worker_id leased_at None None] else [])))"

definition lease_task_if_enqueued ::
    "fleet_run_id \<Rightarrow> string \<Rightarrow> string \<Rightarrow> string \<Rightarrow> string option \<Rightarrow> nat option
       \<Rightarrow> fleet_state \<Rightarrow> bool \<times> fleet_record list" where
  "lease_task_if_enqueued run_id task_id worker_id leased_at lease_expires_at max_active =
     lease_with_events run_id task_id worker_id leased_at lease_expires_at max_active [] False"

definition start_task_if_enqueued ::
    "fleet_run_id \<Rightarrow> string \<Rightarrow> string \<Rightarrow> string \<Rightarrow> string option \<Rightarrow> nat option \<Rightarrow> fleet_worker_payload list
       \<Rightarrow> fleet_state \<Rightarrow> bool \<times> fleet_record list" where
  "start_task_if_enqueued run_id task_id worker_id leased_at lease_expires_at max_active initial_events =
     lease_with_events run_id task_id worker_id leased_at lease_expires_at max_active initial_events True"

text \<open>The comparisons of the compare-and-set operations: the lease (status, worker and attempt), and the
  whole version the caller saw, with the latest sequence number and heartbeat.\<close>

definition attempt_is ::
    "fleet_state \<Rightarrow> fleet_run_id \<Rightarrow> string \<Rightarrow> string \<Rightarrow> task_status \<Rightarrow> u32 \<Rightarrow> bool" where
  "attempt_is s run_id task_id worker_id status attempts =
     (case bm_get (fl_tasks s) (task_key run_id task_id) of
        None \<Rightarrow> False
      | Some t \<Rightarrow> tk_status t = status \<and> tk_leased_to t = Some worker_id \<and> fe_attempts (tk_entry t) = attempts)"

definition heartbeat_at :: "fleet_state \<Rightarrow> string \<Rightarrow> string option" where
  "heartbeat_at s worker_id = map_option hb_timestamp (bm_get (fl_heartbeats s) worker_id)"

definition version_is ::
    "fleet_state \<Rightarrow> fleet_run_id \<Rightarrow> string \<Rightarrow> string \<Rightarrow> task_status \<Rightarrow> u32 \<Rightarrow> u64 \<Rightarrow> string option \<Rightarrow> bool" where
  "version_is s run_id task_id worker_id status attempts seq hb \<longleftrightarrow>
     attempt_is s run_id task_id worker_id status attempts
     \<and> latest_seq_of s worker_id run_id task_id = seq \<and> heartbeat_at s worker_id = hb"

definition mark_task_terminal_status_if_unchanged ::
    "fleet_run_id \<Rightarrow> string \<Rightarrow> string \<Rightarrow> task_status \<Rightarrow> u32 \<Rightarrow> u64 \<Rightarrow> string \<Rightarrow> task_status
       \<Rightarrow> fleet_state \<Rightarrow> bool \<times> fleet_record list" where
  "mark_task_terminal_status_if_unchanged run_id task_id worker_id expected_status expected_attempts
       expected_latest_seq timestamp status s =
     (if attempt_is s run_id task_id worker_id expected_status expected_attempts
         \<and> latest_seq_of s worker_id run_id task_id = expected_latest_seq
      then (True, [TaskCompletedOrFailed run_id task_id worker_id timestamp status])
      else (False, []))"

definition append_event_op :: "fleet_worker_event \<Rightarrow> fleet_state \<Rightarrow> unit \<times> fleet_record list" where
  "append_event_op e s = ((), [EventAppended e])"

definition append_event_next_seq ::
    "fleet_run_id \<Rightarrow> string \<Rightarrow> string \<Rightarrow> string \<Rightarrow> fleet_worker_payload
       \<Rightarrow> fleet_state \<Rightarrow> fleet_worker_event \<times> fleet_record list" where
  "append_event_next_seq run_id worker_id task_id timestamp payload s =
     (let e = next_worker_event s run_id worker_id task_id timestamp payload in (e, [EventAppended e]))"

definition append_guarded ::
    "bool \<Rightarrow> fleet_worker_event \<Rightarrow> fleet_worker_event option \<times> fleet_record list" where
  "append_guarded ok e = (if ok then (Some e, [EventAppended e]) else (None, []))"

definition append_event_if_leased ::
    "fleet_run_id \<Rightarrow> string \<Rightarrow> string \<Rightarrow> u32 \<Rightarrow> string \<Rightarrow> fleet_worker_payload
       \<Rightarrow> fleet_state \<Rightarrow> (string + fleet_worker_event option) \<times> fleet_record list" where
  "append_event_if_leased run_id worker_id task_id expected_attempts timestamp payload s =
     (if terminal_payload payload \<noteq> None
      then (Inl ''conditional progress append does not accept terminal worker events'', [])
      else apfst Inr (append_guarded (attempt_is s run_id task_id worker_id Leased expected_attempts)
        (next_worker_event s run_id worker_id task_id timestamp payload)))"

definition append_event_if_lease_unchanged ::
    "fleet_run_id \<Rightarrow> string \<Rightarrow> string \<Rightarrow> u32 \<Rightarrow> u64 \<Rightarrow> string option \<Rightarrow> string \<Rightarrow> fleet_worker_payload
       \<Rightarrow> fleet_state \<Rightarrow> (string + fleet_worker_event option) \<times> fleet_record list" where
  "append_event_if_lease_unchanged run_id worker_id task_id expected_attempts expected_latest_seq
       expected_heartbeat_at timestamp payload s =
     (if terminal_payload payload \<noteq> None
      then (Inl ''conditional progress append does not accept terminal worker events'', [])
      else apfst Inr (append_guarded
        (version_is s run_id task_id worker_id Leased expected_attempts expected_latest_seq expected_heartbeat_at)
        (next_worker_event s run_id worker_id task_id timestamp payload)))"

definition append_terminal_event_if_leased ::
    "fleet_run_id \<Rightarrow> string \<Rightarrow> string \<Rightarrow> u32 \<Rightarrow> string \<Rightarrow> fleet_worker_payload
       \<Rightarrow> fleet_state \<Rightarrow> (string + fleet_worker_event option) \<times> fleet_record list" where
  "append_terminal_event_if_leased run_id worker_id task_id expected_attempts timestamp payload s =
     (if terminal_payload payload = None
      then (Inl ''conditional terminal append requires a terminal worker event'', [])
      else apfst Inr (append_guarded (attempt_is s run_id task_id worker_id Leased expected_attempts)
        (next_worker_event s run_id worker_id task_id timestamp payload)))"

definition append_terminal_event_if_lease_unchanged ::
    "fleet_run_id \<Rightarrow> string \<Rightarrow> string \<Rightarrow> u32 \<Rightarrow> u64 \<Rightarrow> string option \<Rightarrow> string \<Rightarrow> fleet_worker_payload
       \<Rightarrow> fleet_state \<Rightarrow> (string + fleet_worker_event option) \<times> fleet_record list" where
  "append_terminal_event_if_lease_unchanged run_id worker_id task_id expected_attempts expected_latest_seq
       expected_heartbeat_at timestamp payload s =
     (if terminal_payload payload = None
      then (Inl ''conditional terminal append requires a terminal worker event'', [])
      else apfst Inr (append_guarded
        (version_is s run_id task_id worker_id Leased expected_attempts expected_latest_seq expected_heartbeat_at)
        (next_worker_event s run_id worker_id task_id timestamp payload)))"

definition finalize_task_attempt_if_leased ::
    "fleet_run_id \<Rightarrow> string \<Rightarrow> string \<Rightarrow> u32 \<Rightarrow> string \<Rightarrow> fleet_worker_payload \<Rightarrow> task_status option
       \<Rightarrow> fleet_receipt \<Rightarrow> fleet_state \<Rightarrow> (string + fleet_worker_event option) \<times> fleet_record list" where
  "finalize_task_attempt_if_leased run_id worker_id task_id expected_attempts timestamp payload final_status
       receipt s =
     (if terminal_payload payload = None
      then (Inl ''attempt finalization requires a terminal worker event'', [])
      else if (case final_status of None \<Rightarrow> False | Some st \<Rightarrow> \<not> status_terminal st)
      then (Inl ''attempt finalization status must be terminal'', [])
      else if \<not> (rc_run_id receipt = run_id \<and> rc_task_id receipt = task_id \<and> rc_worker_id receipt = worker_id)
      then (Inl ''attempt receipt identity does not match its terminal event'', [])
      else if (case rc_attempt receipt of None \<Rightarrow> False | Some a \<Rightarrow> a \<noteq> expected_attempts)
      then (Inl ''attempt receipt generation does not match its lease'', [])
      else if attempt_is s run_id task_id worker_id Leased expected_attempts
      then let e = next_worker_event s run_id worker_id task_id timestamp payload in
        (Inr (Some e), [TaskAttemptFinalized e final_status
          (receipt\<lparr>rc_attempt := Some expected_attempts, rc_terminal_seq := Some (ev_seq e)\<rparr>)])
      else (Inr None, []))"

definition other_task_leased :: "fleet_state \<Rightarrow> string \<Rightarrow> string \<Rightarrow> bool" where
  "other_task_leased s k worker_id \<longleftrightarrow>
     list_ex (\<lambda>kt. fst kt \<noteq> k \<and> worker_is_leased worker_id (snd kt)) (fl_tasks s)"

definition restart_task_if_unchanged ::
    "fleet_run_id \<Rightarrow> string \<Rightarrow> string \<Rightarrow> task_status \<Rightarrow> u32 \<Rightarrow> u64 \<Rightarrow> string option \<Rightarrow> string \<Rightarrow> string option
       \<Rightarrow> u32 \<Rightarrow> fleet_state \<Rightarrow> bool \<times> fleet_record list" where
  "restart_task_if_unchanged run_id task_id worker_id expected_status expected_attempts expected_latest_seq
       expected_heartbeat_at leased_at lease_expires_at restart_count s =
     (if \<not> version_is s run_id task_id worker_id expected_status expected_attempts expected_latest_seq
           expected_heartbeat_at then (False, [])
      else if other_task_leased s (task_key run_id task_id) worker_id then (False, [])
      else
        let restarted = worker_event (sat_add (latest_seq_of s worker_id run_id task_id) 1) run_id worker_id
              task_id leased_at (EvRestarted restart_count) in
        (True,
         [TaskLeasedRec run_id task_id worker_id leased_at lease_expires_at,
          EventAppended restarted,
          EventAppended (worker_event (sat_add (ev_seq restarted) 1) run_id worker_id task_id leased_at EvRunning),
          HeartbeatRec worker_id leased_at None None]))"

definition cancel_task_if_active ::
    "fleet_run_id \<Rightarrow> string \<Rightarrow> string option \<Rightarrow> string \<Rightarrow> string option \<Rightarrow> string option
       \<Rightarrow> fleet_state \<Rightarrow> bool \<times> fleet_record list" where
  "cancel_task_if_active run_id task_id expected_worker_id timestamp signal cancelled_by s =
     (case bm_get (fl_tasks s) (task_key run_id task_id) of
        None \<Rightarrow> (False, [])
      | Some t \<Rightarrow>
          if \<not> (tk_status t = Enqueued \<or> tk_status t = Leased) then (False, [])
          else if (case expected_worker_id of None \<Rightarrow> False | Some w \<Rightarrow> \<not> worker_is_leased w t) then (False, [])
          else
            (True,
             case tk_leased_to t of
               Some w \<Rightarrow>
                 (let first_seq = latest_seq_of s w run_id task_id + 1 in
                  case signal of
                    Some sig \<Rightarrow>
                      [EventAppended (worker_event first_seq run_id w task_id timestamp (EvInterrupted (Some sig))),
                       EventAppended (worker_event (first_seq + 1) run_id w task_id timestamp (EvCancelled cancelled_by))]
                  | None \<Rightarrow>
                      [EventAppended (worker_event first_seq run_id w task_id timestamp (EvCancelled cancelled_by))])
             | None \<Rightarrow> [TaskCompletedOrFailed run_id task_id [] timestamp TaskCancelled]))"

definition heartbeat_op ::
    "string \<Rightarrow> string \<Rightarrow> float_text option \<Rightarrow> u64 option \<Rightarrow> fleet_state \<Rightarrow> unit \<times> fleet_record list" where
  "heartbeat_op worker_id timestamp cpu mem s = ((), [HeartbeatRec worker_id timestamp cpu mem])"

definition record_receipt :: "fleet_receipt \<Rightarrow> fleet_state \<Rightarrow> unit \<times> fleet_record list" where
  "record_receipt r s = ((), [ReceiptRecorded r])"

definition record_alert ::
    "fleet_run_id \<Rightarrow> string \<Rightarrow> string \<Rightarrow> string \<Rightarrow> fleet_state \<Rightarrow> unit \<times> fleet_record list" where
  "record_alert run_id task_id channel timestamp s =
     ((), [AlertSent run_id task_id channel timestamp None None None])"

definition record_failed_attempt_alert_once ::
    "fleet_run_id \<Rightarrow> string \<Rightarrow> string \<Rightarrow> u32 \<Rightarrow> string \<Rightarrow> string \<Rightarrow> string
       \<Rightarrow> fleet_state \<Rightarrow> bool \<times> fleet_record list" where
  "record_failed_attempt_alert_once run_id task_id worker_id expected_attempts channel_label channel_key
       timestamp s =
     (if \<not> attempt_is s run_id task_id worker_id TaskFailed expected_attempts then (False, [])
      else if bm_get (fl_alerts s) (alert_key run_id task_id (Some expected_attempts) channel_key) \<noteq> None
          \<or> bm_get (fl_alerts s) (alert_key run_id task_id (Some expected_attempts) channel_label) \<noteq> None
      then (False, [])
      else (True, [AlertSent run_id task_id channel_key timestamp (Some worker_id) (Some expected_attempts)
        (Some (sat_add (latest_seq_of s worker_id run_id task_id) 1))]))"

text \<open>\<open>min_by_key\<close> returns the first of the least.\<close>

fun min_by_key :: "('a \<Rightarrow> 'k::linorder) \<Rightarrow> 'a list \<Rightarrow> 'a option" where
  "min_by_key f [] = None"
| "min_by_key f (x # xs) =
     (case min_by_key f xs of None \<Rightarrow> Some x | Some y \<Rightarrow> if f x \<le> f y then Some x else Some y)"

definition claim_next ::
    "string \<Rightarrow> string \<Rightarrow> fleet_state \<Rightarrow> fleet_inbox_entry option \<times> fleet_record list" where
  "claim_next worker_id timestamp s =
     (if worker_busy s worker_id then (None, [])
      else case min_by_key (\<lambda>e. (fe_priority e, fe_enqueued_at e))
          (map tk_entry (filter (\<lambda>t. tk_status t = Enqueued) (bm_values (fl_tasks s)))) of
        None \<Rightarrow> (None, [])
      | Some e \<Rightarrow> (Some e, [TaskLeasedRec (fe_run_id e) (fe_task_id e) worker_id timestamp None]))"

section \<open>Compaction\<close>

definition compact_task :: "fleet_task \<Rightarrow> fleet_record list" where
  "compact_task t =
     TaskEnqueuedRec
       (if tk_leased_to t \<noteq> None
        then (tk_entry t)\<lparr>fe_attempts := (if fe_attempts (tk_entry t) = 0 then 0 else fe_attempts (tk_entry t) - 1),
                         fe_lease_deadline := None\<rparr>
        else tk_entry t)
     # (case tk_leased_to t of
          Some worker \<Rightarrow> [TaskLeasedRec (fe_run_id (tk_entry t)) (fe_task_id (tk_entry t)) worker
            (unwrap_or [] (tk_leased_at t)) (fe_lease_deadline (tk_entry t))]
        | None \<Rightarrow> [])"

definition compact_terminal :: "fleet_task \<Rightarrow> fleet_record list" where
  "compact_terminal t =
     (if status_terminal (tk_status t)
      then [TaskCompletedOrFailed (fe_run_id (tk_entry t)) (fe_task_id (tk_entry t))
        (unwrap_or [] (tk_leased_to t)) (unwrap_or [] (tk_completed_at t)) (tk_status t)]
      else [])"

definition compact_run :: "fleet_state \<Rightarrow> fleet_run \<Rightarrow> fleet_record list" where
  "compact_run s r =
     RunCreated r
     # (case bm_get (fl_run_status_overrides s) (fn_id r) of
          Some status \<Rightarrow> [RunStatusChanged (fn_id r) status (unwrap_or [] (fn_updated_at r))]
        | None \<Rightarrow> [])"

definition compact_alert :: "fleet_alert \<Rightarrow> fleet_record" where
  "compact_alert a = AlertSent (fa_run_id a) (fa_task_id a) (fa_channel a) (fa_timestamp a) (fa_worker_id a)
     (fa_attempt a) (fa_seq a)"

definition compacted_events :: "fleet_state \<Rightarrow> fleet_worker_event list" where
  "compacted_events s =
     sort_key (\<lambda>e. (ev_worker_id e, ev_run_id e, ev_task_id e, ev_seq e))
       (bm_values (bm_collect (map (\<lambda>e. (compact_event_key e, e))
         (bm_values (fl_latest_events s) @ bm_values (fl_artifact_events s)
          @ bm_values (fl_restarted_events s) @ bm_values (fl_escalated_events s)))))"

definition compact_checkpoints :: "fleet_state \<Rightarrow> fleet_record list" where
  "compact_checkpoints s = List.map_filter (\<lambda>(k, seq).
     case bm_get (fl_sequence_owners s) k of
       None \<Rightarrow> None
     | Some o' \<Rightarrow> Some (EventSequenceCheckpoint (so_run_id o') (so_worker_id o') (so_task_id o') seq))
     (fl_latest_seq s)"

definition compact_heartbeat :: "string \<times> fleet_heartbeat \<Rightarrow> fleet_record" where
  "compact_heartbeat wh =
     HeartbeatRec (fst wh) (hb_timestamp (snd wh)) (hb_cpu_percent (snd wh)) (hb_memory_mb (snd wh))"

definition compact_records :: "fleet_state \<Rightarrow> fleet_record list" where
  "compact_records s =
     concat (map (compact_run s) (bm_values (fl_runs s)))
     @ concat (map compact_task (bm_values (fl_tasks s)))
     @ map compact_alert (bm_values (fl_alerts s))
     @ map EventAppended (compacted_events s)
     @ compact_checkpoints s
     @ map compact_heartbeat (fl_heartbeats s)
     @ concat (map compact_terminal (bm_values (fl_tasks s)))
     @ map ReceiptRecorded (bm_values (fl_receipts s))"

definition compact ::
    "(fleet_record \<Rightarrow> string) \<Rightarrow> (string \<Rightarrow> fleet_record option) \<Rightarrow> string \<Rightarrow> string" where
  "compact ser de file = record_lines ser (compact_records (rebuild_state de file))"

end
