(* ===== verification/Fleet_File.thy ===== *)
theory Fleet_File
  imports Fleet_Ledger
begin

text \<open>
  The ledger file. For a codec that writes a record as one line and reads it back, and none of whose
  lines has a proper prefix that reads as a record, appending adds exactly its records to the replay,
  whatever the file held before, and a write cut short at any byte leaves the records written in full.
\<close>

section \<open>Lines\<close>

lemma strip_cr_id: "CHR 0x0D \<notin> set l \<Longrightarrow> strip_cr l = l"
  by (auto simp: strip_cr_def dest: last_in_set)

lemma str_lines_Nil [simp]: "str_lines [] = []"
  by (simp add: str_lines.simps)

lemma str_lines_end:
  assumes "CHR 0x0A \<notin> set l" shows "str_lines l = (if l = [] then [] else [l])"
proof (cases l)
  case (Cons c l')
  have d: "dropWhile (\<lambda>c. c \<noteq> CHR 0x0A) l = []" using assms by (auto simp: dropWhile_eq_Nil_conv)
  have t: "takeWhile (\<lambda>c. c \<noteq> CHR 0x0A) l = l" using assms by (auto simp: takeWhile_eq_all_conv)
  show ?thesis unfolding str_lines.simps [of l] d t using Cons by simp
qed simp

lemma str_lines_line:
  assumes "CHR 0x0A \<notin> set l"
  shows "str_lines (l @ CHR 0x0A # s) = strip_cr l # str_lines s"
proof -
  have "dropWhile (\<lambda>c. c \<noteq> CHR 0x0A) (l @ CHR 0x0A # s) = CHR 0x0A # s"
    and "takeWhile (\<lambda>c. c \<noteq> CHR 0x0A) (l @ CHR 0x0A # s) = l"
    using assms by (induction l) auto
  then show ?thesis by (subst str_lines.simps) simp
qed

text \<open>A file is a list of lines and an unterminated rest.\<close>

lemma file_split:
  "\<exists>ls t. (cs :: string) = concat (map (\<lambda>l. l @ [CHR 0x0A]) ls) @ t \<and> CHR 0x0A \<notin> set t
     \<and> (\<forall>l \<in> set ls. CHR 0x0A \<notin> set l)"
proof (induction cs rule: rev_induct)
  case Nil
  show ?case by (intro exI [of _ "[]"]) simp
next
  case (snoc c s)
  then obtain ls t where s: "s = concat (map (\<lambda>l. l @ [CHR 0x0A]) ls) @ t" "CHR 0x0A \<notin> set t"
    "\<forall>l \<in> set ls. CHR 0x0A \<notin> set l" by blast
  show ?case
  proof (cases "c = CHR 0x0A")
    case True
    with s show ?thesis by (intro exI [of _ "ls @ [t]"] exI [of _ "[]"]) auto
  next
    case False
    with s show ?thesis by (intro exI [of _ ls] exI [of _ "t @ [c]"]) auto
  qed
qed

lemma str_lines_file:
  assumes "\<forall>l \<in> set ls. CHR 0x0A \<notin> set l \<and> CHR 0x0D \<notin> set l"
  shows "str_lines (concat (map (\<lambda>l. l @ [CHR 0x0A]) ls) @ t) = ls @ str_lines t"
  using assms by (induction ls) (auto simp: str_lines_line strip_cr_id)

section \<open>Records in lines\<close>

definition line_ok :: "(fleet_record \<Rightarrow> string) \<Rightarrow> (string \<Rightarrow> fleet_record option) \<Rightarrow> fleet_record \<Rightarrow> bool" where
  "line_ok ser de r \<longleftrightarrow> de (ser r) = Some r \<and> CHR 0x0A \<notin> set (ser r) \<and> CHR 0x0D \<notin> set (ser r)
     \<and> trim (ser r) \<noteq> [] \<and> (\<forall>p. strict_prefix p (ser r) \<longrightarrow> de p = None)"

definition records_of_lines :: "(string \<Rightarrow> fleet_record option) \<Rightarrow> string list \<Rightarrow> fleet_record list" where
  "records_of_lines de ls = List.map_filter (\<lambda>line. if trim line = [] then None else de line) ls"

lemma records_of_lines_append [simp]:
  "records_of_lines de (xs @ ys) = records_of_lines de xs @ records_of_lines de ys"
  by (simp add: records_of_lines_def List.map_filter_def)

lemma records_of_written:
  "\<forall>r \<in> set rs. line_ok ser de r \<Longrightarrow> records_of_lines de (map ser rs) = rs"
  by (induction rs) (auto simp: records_of_lines_def List.map_filter_def line_ok_def)

lemma file_records_lines: "file_records de cs = records_of_lines de (str_lines cs)"
  by (simp add: file_records_def records_of_lines_def)

lemma records_of_rest: "records_of_lines de (str_lines t) =
    (if CHR 0x0A \<in> set t then records_of_lines de (str_lines t) else records_of_lines de [t])"
  by (simp add: str_lines_end records_of_lines_def List.map_filter_def trim_def trim_start_def trim_end_def)

lemma written_lines: "record_lines ser rs = concat (map (\<lambda>l. l @ [CHR 0x0A]) (map ser rs))"
  by (simp add: record_lines_def newline_def comp_def)

lemma file_records_append:
  assumes "\<forall>r \<in> set rs. line_ok ser de r" and "CHR 0x0D \<notin> set cs"
  shows "file_records de (append_records ser rs cs) = file_records de cs @ rs"
proof -
  obtain ls t where f: "cs = concat (map (\<lambda>l. l @ [CHR 0x0A]) ls) @ t" and t: "CHR 0x0A \<notin> set t"
    and ls: "\<forall>l \<in> set ls. CHR 0x0A \<notin> set l" using file_split [of cs] by blast
  have cr: "\<forall>l \<in> set ls. CHR 0x0D \<notin> set l" "CHR 0x0D \<notin> set t" using assms(2) by (auto simp: f split: if_splits)
  have rs: "\<forall>l \<in> set (map ser rs). CHR 0x0A \<notin> set l \<and> CHR 0x0D \<notin> set l"
    using assms(1) by (auto simp: line_ok_def)
  define ls' where "ls' = (if t = [] then ls else ls @ [t])"
  have ls': "\<forall>l \<in> set (ls' @ map ser rs). CHR 0x0A \<notin> set l \<and> CHR 0x0D \<notin> set l"
    using rs ls cr t by (auto simp: ls'_def)
  have "append_records ser rs cs = concat (map (\<lambda>l. l @ [CHR 0x0A]) (ls' @ map ser rs)) @ []"
  proof (cases "t = []")
    case True
    have "\<not> (cs \<noteq> [] \<and> last cs \<noteq> CHR 0x0A)" using True
      by (cases ls rule: rev_cases) (simp_all add: f)
    with True show ?thesis by (auto simp: append_records_def written_lines f ls'_def)
  next
    case False
    have "last t \<noteq> CHR 0x0A" using t last_in_set [OF False] by metis
    then have "cs \<noteq> [] \<and> last cs \<noteq> CHR 0x0A" using False by (simp add: f)
    with False show ?thesis by (simp add: append_records_def written_lines f ls'_def newline_def)
  qed
  then have "str_lines (append_records ser rs cs) = ls' @ map ser rs"
    using str_lines_file [OF ls', of "[]"] by simp
  moreover have "str_lines cs = ls'"
    using str_lines_file [of ls t] ls cr t by (simp add: f ls'_def str_lines_end)
  ultimately show ?thesis by (simp add: file_records_lines records_of_written assms(1))
qed

lemma rebuild_append:
  assumes "\<forall>r \<in> set rs. line_ok ser de r" and "CHR 0x0D \<notin> set cs"
  shows "rebuild_state de (append_records ser rs cs) = replay_records (rebuild_state de cs) rs"
  by (simp add: rebuild_state_def file_records_append [OF assms] replay_records_def)

section \<open>Interrupted writes\<close>

text \<open>A prefix of the written lines is some whole lines and a prefix of the next.\<close>

lemma written_prefix:
  assumes "prefix p (record_lines ser rs)"
  obtains k f where "k \<le> length rs" and "p = record_lines ser (take k rs) @ f"
    and "f = [] \<or> k < length rs \<and> prefix f (ser (rs ! k))"
  using assms
proof (induction rs arbitrary: p thesis)
  case Nil
  then show ?case by (auto simp: record_lines_def)
next
  case (Cons r rs)
  have split: "record_lines ser (r # rs) = (ser r @ newline) @ record_lines ser rs"
    by (simp add: record_lines_def)
  show ?case
  proof (cases "prefix (ser r @ newline) p")
    case True
    then obtain q where q: "p = (ser r @ newline) @ q" by (auto simp: prefix_def)
    with Cons.prems(2) have "prefix q (record_lines ser rs)" by (simp add: split)
    then obtain k f where kf: "k \<le> length rs" "q = record_lines ser (take k rs) @ f"
      "f = [] \<or> k < length rs \<and> prefix f (ser (rs ! k))" using Cons.IH by blast
    show ?thesis
      by (rule Cons.prems(1) [of "Suc k" f]) (use kf q in \<open>auto simp: record_lines_def\<close>)
  next
    case False
    with Cons.prems(2) have "prefix p (ser r @ newline)"
      by (metis split prefix_same_cases prefix_def)
    with False have "prefix p (ser r)" by (auto simp: newline_def prefix_snoc)
    then show ?thesis by (intro Cons.prems(1) [of 0 p]) (auto simp: record_lines_def)
  qed
qed

lemma records_of_fragment:
  assumes "line_ok ser de r" and "prefix f (ser r)"
  shows "records_of_lines de (str_lines f) = (if f = ser r then [r] else [])"
proof -
  have nl: "CHR 0x0A \<notin> set f" using assms set_mono_prefix [OF assms(2)] by (auto simp: line_ok_def)
  show ?thesis
  proof (cases "f = ser r")
    case True
    have "trim f \<noteq> []" "de f = Some r" using assms(1) True by (simp_all add: line_ok_def)
    moreover from this(1) have "f \<noteq> []" by (auto simp: trim_def trim_start_def trim_end_def)
    ultimately show ?thesis using nl True by (simp add: str_lines_end records_of_lines_def List.map_filter_def)
  next
    case False
    with assms have "de f = None" by (simp add: line_ok_def strict_prefix_def)
    with False nl show ?thesis by (auto simp: str_lines_end records_of_lines_def List.map_filter_def)
  qed
qed

end
