(* ===== verification/Fleet_Ops.thy ===== *)
theory Fleet_Ops
  imports Fleet_File
begin

text \<open>
  Histories of the fleet ledger: the operations of the managers and schedulers in any order and number,
  each under the lock of the workspace, with compactions in between. The state a history leads to is what
  replaying its file gives; \<open>append_event\<close> and \<open>append_event_next_seq\<close>, which no production caller
  uses, take no part.
\<close>

section \<open>Operations as data\<close>

datatype fleet_op =
  OpCreateRun fleet_run
| OpRunStatus fleet_run_id fleet_run_status string
| OpEnqueue fleet_inbox_entry
| OpClaimNext string string
| OpStart fleet_run_id string string string "string option" "nat option" "fleet_worker_payload list"
| OpLease fleet_run_id string string string "string option" "nat option"
| OpMarkTerminal fleet_run_id string string task_status u32 u64 string task_status
| OpProgress fleet_run_id string string u32 string fleet_worker_payload
| OpProgressUnchanged fleet_run_id string string u32 u64 "string option" string fleet_worker_payload
| OpTerminal fleet_run_id string string u32 string fleet_worker_payload
| OpTerminalUnchanged fleet_run_id string string u32 u64 "string option" string fleet_worker_payload
| OpFinalize fleet_run_id string string u32 string fleet_worker_payload "task_status option" fleet_receipt
| OpRestart fleet_run_id string string task_status u32 u64 "string option" string "string option" u32
| OpCancel fleet_run_id string "string option" string "string option" "string option"
| OpHeartbeat string string "float_text option" "u64 option"
| OpReceipt fleet_receipt
| OpAlertOnce fleet_run_id string string u32 string string string
| OpCompact

text \<open>The records an operation appends in a state.\<close>

fun op_records :: "fleet_op \<Rightarrow> fleet_state \<Rightarrow> fleet_record list" where
  "op_records (OpCreateRun r) s = snd (create_run r s)"
| "op_records (OpRunStatus r st ts) s = snd (update_run_status r st ts s)"
| "op_records (OpEnqueue e) s = snd (enqueue e s)"
| "op_records (OpClaimNext w ts) s = snd (claim_next w ts s)"
| "op_records (OpStart r t w at exp m ps) s = snd (start_task_if_enqueued r t w at exp m ps s)"
| "op_records (OpLease r t w at exp m) s = snd (lease_task_if_enqueued r t w at exp m s)"
| "op_records (OpMarkTerminal r t w est ea eseq ts st) s =
     snd (mark_task_terminal_status_if_unchanged r t w est ea eseq ts st s)"
| "op_records (OpProgress r w t a ts p) s = snd (append_event_if_leased r w t a ts p s)"
| "op_records (OpProgressUnchanged r w t a q hb ts p) s =
     snd (append_event_if_lease_unchanged r w t a q hb ts p s)"
| "op_records (OpTerminal r w t a ts p) s = snd (append_terminal_event_if_leased r w t a ts p s)"
| "op_records (OpTerminalUnchanged r w t a q hb ts p) s =
     snd (append_terminal_event_if_lease_unchanged r w t a q hb ts p s)"
| "op_records (OpFinalize r w t a ts p fs rc) s = snd (finalize_task_attempt_if_leased r w t a ts p fs rc s)"
| "op_records (OpRestart r t w st a q hb at exp n) s = snd (restart_task_if_unchanged r t w st a q hb at exp n s)"
| "op_records (OpCancel r t w ts sig by) s = snd (cancel_task_if_active r t w ts sig by s)"
| "op_records (OpHeartbeat w ts cpu mem) s = snd (heartbeat_op w ts cpu mem s)"
| "op_records (OpReceipt rc) s = snd (record_receipt rc s)"
| "op_records (OpAlertOnce r t w a l k ts) s = snd (record_failed_attempt_alert_once r t w a l k ts s)"
| "op_records OpCompact s = []"

text \<open>What the callers respect: tasks are enqueued with no attempt made, the events a lease starts with are
  progress, and a task is marked with a terminal status.\<close>

fun op_ok :: "fleet_op \<Rightarrow> bool" where
  "op_ok (OpEnqueue e) \<longleftrightarrow> fe_attempts e = 0"
| "op_ok (OpStart r t w at exp m ps) \<longleftrightarrow> list_all (\<lambda>p. terminal_payload p = None) ps"
| "op_ok (OpMarkTerminal r t w est ea eseq ts st) \<longleftrightarrow> status_terminal st"
| "op_ok _ \<longleftrightarrow> True"

definition ledger_step :: "fleet_state \<Rightarrow> fleet_op \<Rightarrow> fleet_state" where
  "ledger_step s p =
     (if p = OpCompact then replay_records fleet_state_empty (compact_records s)
      else replay_records s (op_records p s))"

definition run_ops :: "fleet_op list \<Rightarrow> fleet_state" where
  "run_ops = foldl ledger_step fleet_state_empty"

lemma run_ops_Nil [simp]: "run_ops [] = fleet_state_empty"
  by (simp add: run_ops_def)

lemma run_ops_snoc [simp]: "run_ops (ps @ [p]) = ledger_step (run_ops ps) p"
  by (simp add: run_ops_def)

section \<open>Histories on the file\<close>

definition file_step ::
    "(fleet_record \<Rightarrow> string) \<Rightarrow> (string \<Rightarrow> fleet_record option) \<Rightarrow> string \<Rightarrow> fleet_op \<Rightarrow> string" where
  "file_step ser de cs p =
     (if p = OpCompact then compact ser de cs
      else snd (transact ser de (\<lambda>s. ((), op_records p s)) cs))"

text \<open>Everything a history writes, compactions included.\<close>

definition step_writes :: "fleet_state \<Rightarrow> fleet_op \<Rightarrow> fleet_record list" where
  "step_writes s p = (if p = OpCompact then compact_records s else op_records p s)"

fun history_writes :: "fleet_state \<Rightarrow> fleet_op list \<Rightarrow> fleet_record list" where
  "history_writes s [] = []"
| "history_writes s (p # ps) = step_writes s p @ history_writes (ledger_step s p) ps"

lemma record_lines_no_cr:
  "\<forall>r \<in> set rs. line_ok ser de r \<Longrightarrow> CHR 0x0D \<notin> set (record_lines ser rs)"
  by (auto simp: record_lines_def line_ok_def newline_def)

lemma append_no_cr:
  "\<forall>r \<in> set rs. line_ok ser de r \<Longrightarrow> CHR 0x0D \<notin> set cs \<Longrightarrow> CHR 0x0D \<notin> set (append_records ser rs cs)"
  by (simp add: append_records_def record_lines_no_cr newline_def)

lemma append_records_nil: "append_records ser rs [] = record_lines ser rs"
  by (simp add: append_records_def)

lemma rebuild_lines:
  assumes "\<forall>r \<in> set rs. line_ok ser de r"
  shows "rebuild_state de (record_lines ser rs) = replay_records fleet_state_empty rs"
proof -
  have "file_records de [] = []" by (simp add: file_records_lines records_of_lines_def List.map_filter_def)
  then show ?thesis
    using file_records_append [OF assms, of "[]"] by (simp add: append_records_nil rebuild_state_def)
qed

text \<open>One step on the file is the step on the state its replay gives.\<close>

lemma file_step_refines:
  assumes "\<forall>r \<in> set (step_writes (rebuild_state de cs) p). line_ok ser de r" and "CHR 0x0D \<notin> set cs"
  shows "rebuild_state de (file_step ser de cs p) = ledger_step (rebuild_state de cs) p"
    and "CHR 0x0D \<notin> set (file_step ser de cs p)"
proof -
  show "rebuild_state de (file_step ser de cs p) = ledger_step (rebuild_state de cs) p"
  proof (cases "p = OpCompact")
    case True
    with assms(1) show ?thesis by (simp add: file_step_def ledger_step_def step_writes_def compact_def rebuild_lines)
  next
    case False
    with assms rebuild_append [of "op_records p (rebuild_state de cs)" ser de cs] show ?thesis
      by (simp add: file_step_def ledger_step_def step_writes_def transact_def replay_records_def)
  qed
  show "CHR 0x0D \<notin> set (file_step ser de cs p)"
    using assms record_lines_no_cr append_no_cr
    by (simp add: file_step_def step_writes_def transact_def compact_def split: if_splits)
qed

lemma file_history_refines:
  assumes "\<forall>r \<in> set (history_writes (rebuild_state de cs) ps). line_ok ser de r" and "CHR 0x0D \<notin> set cs"
  shows "rebuild_state de (foldl (file_step ser de) cs ps) = foldl ledger_step (rebuild_state de cs) ps"
  using assms
proof (induction ps arbitrary: cs)
  case (Cons p ps)
  have w: "\<forall>r \<in> set (step_writes (rebuild_state de cs) p). line_ok ser de r" using Cons.prems(1) by simp
  note st = file_step_refines [OF w Cons.prems(2)]
  have "rebuild_state de (foldl (file_step ser de) (file_step ser de cs p) ps)
      = foldl ledger_step (rebuild_state de (file_step ser de cs p)) ps"
    by (rule Cons.IH) (use Cons.prems(1) st in simp_all)
  then show ?case by (simp add: st(1))
qed simp

end
