(* ===== verification/Fleet_Invariant.thy ===== *)
theory Fleet_Invariant
  imports Fleet_Ops
begin

text \<open>
  What every history of the fleet ledger keeps: tasks are filed under their keys and a leased task has a
  worker, a lease time and an attempt; no worker holds two leases; every event the state keeps is at or
  below the high-water mark of its key; and the last event of a key ends its task only while the task is
  in fact over.
\<close>

section \<open>All entries of a map\<close>

definition mapall :: "('k::linorder \<Rightarrow> 'v \<Rightarrow> bool) \<Rightarrow> ('k, 'v) bmap \<Rightarrow> bool" where
  "mapall P m \<longleftrightarrow> (\<forall>k v. bm_get m k = Some v \<longrightarrow> P k v)"

lemma mapall_empty [simp]: "mapall P bm_empty"
  by (simp add: mapall_def)

lemma mapall_insert: "mapall P m \<Longrightarrow> P k v \<Longrightarrow> mapall P (bm_insert k v m)"
  by (simp add: mapall_def)

lemma mapall_get: "mapall P m \<Longrightarrow> bm_get m k = Some v \<Longrightarrow> P k v"
  by (simp add: mapall_def)

lemma mapall_mono: "mapall P m \<Longrightarrow> (\<And>k v. P k v \<Longrightarrow> Q k v) \<Longrightarrow> mapall Q m"
  by (simp add: mapall_def)

section \<open>Fields of the replay\<close>

lemma mark_task_terminal_fields [simp]:
  "fl_runs (mark_task_terminal s r t w ts st) = fl_runs s"
  "fl_run_status_overrides (mark_task_terminal s r t w ts st) = fl_run_status_overrides s"
  "fl_workers (mark_task_terminal s r t w ts st) = fl_workers s"
  "fl_heartbeats (mark_task_terminal s r t w ts st) = fl_heartbeats s"
  "fl_latest_seq (mark_task_terminal s r t w ts st) = fl_latest_seq s"
  "fl_sequence_owners (mark_task_terminal s r t w ts st) = fl_sequence_owners s"
  "fl_latest_events (mark_task_terminal s r t w ts st) = fl_latest_events s"
  "fl_artifact_events (mark_task_terminal s r t w ts st) = fl_artifact_events s"
  "fl_restarted_events (mark_task_terminal s r t w ts st) = fl_restarted_events s"
  "fl_escalated_events (mark_task_terminal s r t w ts st) = fl_escalated_events s"
  "fl_receipts (mark_task_terminal s r t w ts st) = fl_receipts s"
  "fl_alerts (mark_task_terminal s r t w ts st) = fl_alerts s"
  by (simp_all add: mark_task_terminal_def split: option.splits)

definition ended :: "string \<Rightarrow> string \<Rightarrow> task_status \<Rightarrow> fleet_task \<Rightarrow> fleet_task" where
  "ended w ts st t = t\<lparr>tk_status := st, tk_leased_to := (if w \<noteq> [] then Some w else tk_leased_to t),
     tk_completed_at := Some ts\<rparr>"

lemma ended_fields [simp]:
  "tk_entry (ended w ts st t) = tk_entry t" "tk_status (ended w ts st t) = st"
  "tk_leased_to (ended w ts st t) = (if w \<noteq> [] then Some w else tk_leased_to t)"
  "tk_leased_at (ended w ts st t) = tk_leased_at t" "tk_completed_at (ended w ts st t) = Some ts"
  by (simp_all add: ended_def)

lemma tasks_mark: "fl_tasks (mark_task_terminal s r t w ts st) =
    (case bm_get (fl_tasks s) (task_key r t) of None \<Rightarrow> fl_tasks s
     | Some tk \<Rightarrow> bm_insert (task_key r t) (ended w ts st tk) (fl_tasks s))"
  by (simp add: mark_task_terminal_def ended_def split: option.splits)

lemma note_kept_fields [simp]:
  "fl_runs (note_kept_events e s) = fl_runs s"
  "fl_run_status_overrides (note_kept_events e s) = fl_run_status_overrides s"
  "fl_tasks (note_kept_events e s) = fl_tasks s"
  "fl_workers (note_kept_events e s) = fl_workers s"
  "fl_heartbeats (note_kept_events e s) = fl_heartbeats s"
  "fl_latest_seq (note_kept_events e s) = fl_latest_seq s"
  "fl_sequence_owners (note_kept_events e s) = fl_sequence_owners s"
  "fl_latest_events (note_kept_events e s) = fl_latest_events s"
  "fl_receipts (note_kept_events e s) = fl_receipts s"
  "fl_alerts (note_kept_events e s) = fl_alerts s"
  by (simp_all add: note_kept_events_def split: fleet_worker_payload.splits)

lemma note_sequence_fields [simp]:
  "fl_runs (note_sequence e b s) = fl_runs s"
  "fl_run_status_overrides (note_sequence e b s) = fl_run_status_overrides s"
  "fl_tasks (note_sequence e b s) = fl_tasks s"
  "fl_heartbeats (note_sequence e b s) = fl_heartbeats s"
  "fl_artifact_events (note_sequence e b s) = fl_artifact_events s"
  "fl_restarted_events (note_sequence e b s) = fl_restarted_events s"
  "fl_escalated_events (note_sequence e b s) = fl_escalated_events s"
  "fl_receipts (note_sequence e b s) = fl_receipts s"
  "fl_alerts (note_sequence e b s) = fl_alerts s"
  by (simp_all add: note_sequence_def Let_def)

lemma project_event_fields [simp]:
  "fl_runs (project_event e s) = fl_runs s"
  "fl_run_status_overrides (project_event e s) = fl_run_status_overrides s"
  "fl_heartbeats (project_event e s) = fl_heartbeats s"
  "fl_latest_seq (project_event e s) = fl_latest_seq s"
  "fl_sequence_owners (project_event e s) = fl_sequence_owners s"
  "fl_latest_events (project_event e s) = fl_latest_events s"
  "fl_artifact_events (project_event e s) = fl_artifact_events s"
  "fl_restarted_events (project_event e s) = fl_restarted_events s"
  "fl_escalated_events (project_event e s) = fl_escalated_events s"
  "fl_receipts (project_event e s) = fl_receipts s"
  "fl_alerts (project_event e s) = fl_alerts s"
  by (simp_all add: project_event_def Let_def split: option.splits)

lemma apply_event_fields [simp]:
  "fl_runs (apply_event s e) = fl_runs s"
  "fl_run_status_overrides (apply_event s e) = fl_run_status_overrides s"
  "fl_heartbeats (apply_event s e) = fl_heartbeats s"
  "fl_receipts (apply_event s e) = fl_receipts s"
  "fl_alerts (apply_event s e) = fl_alerts s"
  by (simp_all add: apply_event_def Let_def)

definition fresh_seq :: "fleet_state \<Rightarrow> fleet_worker_event \<Rightarrow> bool" where
  "fresh_seq s e \<longleftrightarrow> (\<forall>n. bm_get (fl_latest_seq s) (event_lifecycle_key e) = Some n \<longrightarrow> n < ev_seq e)"

lemma fresh_seq_case: "(case bm_get (fl_latest_seq s) (event_lifecycle_key e) of None \<Rightarrow> True
    | Some n \<Rightarrow> n < ev_seq e) = fresh_seq s e"
  by (simp add: fresh_seq_def split: option.splits)

lemma owners_apply_event: "fl_sequence_owners (apply_event s e) = bm_insert (event_lifecycle_key e)
    \<lparr>so_run_id = ev_run_id e, so_worker_id = ev_worker_id e, so_task_id = ev_task_id e\<rparr> (fl_sequence_owners s)"
  by (simp add: apply_event_def Let_def note_sequence_def)

lemma latest_seq_apply_event: "fl_latest_seq (apply_event s e) =
    (if fresh_seq s e then bm_insert (event_lifecycle_key e) (ev_seq e) (fl_latest_seq s) else fl_latest_seq s)"
  by (simp add: apply_event_def Let_def note_sequence_def fresh_seq_case)

lemma latest_events_apply_event: "fl_latest_events (apply_event s e) =
    (if fresh_seq s e \<and> \<not> regresses s e then bm_insert (event_lifecycle_key e) e (fl_latest_events s)
     else fl_latest_events s)"
  by (simp add: apply_event_def Let_def note_sequence_def fresh_seq_case)

lemma tasks_apply_event: "fl_tasks (apply_event s e) =
    (case terminal_payload (ev_payload e) of None \<Rightarrow> fl_tasks s
     | Some st \<Rightarrow> (case bm_get (fl_tasks s) (event_task_key e) of None \<Rightarrow> fl_tasks s
        | Some t \<Rightarrow> bm_insert (event_task_key e) (ended (ev_worker_id e) (ev_timestamp e) st t) (fl_tasks s)))"
proof (cases "regresses s e")
  case True
  then have "terminal_payload (ev_payload e) = None" by (cases "ev_payload e") (simp_all add: regresses_def)
  with True show ?thesis by (simp add: apply_event_def)
next
  case False
  then show ?thesis
    by (simp add: apply_event_def project_event_def Let_def tasks_mark event_task_key_def split: option.splits)
qed

text \<open>The artifacts, restarts and escalations kept beside the last event.\<close>

definition side_event :: "fleet_state \<Rightarrow> fleet_worker_event \<Rightarrow> bool" where
  "side_event s e \<longleftrightarrow> e \<in> set (bm_values (fl_artifact_events s)) \<or> e \<in> set (bm_values (fl_restarted_events s))
     \<or> e \<in> set (bm_values (fl_escalated_events s))"

lemma bm_values_insert: "x \<in> set (bm_values (bm_insert k v m)) \<Longrightarrow> x = v \<or> x \<in> set (bm_values m)"
  by (induction k v m rule: bm_insert.induct) (auto simp: bm_values_def split: if_splits)

lemma side_apply_event:
  assumes "side_event (apply_event s e) d"
  shows "side_event s d \<or> d = e \<and> terminal_payload (ev_payload d) = None"
proof -
  have f: "fl_artifact_events (apply_event s e) = fl_artifact_events (note_kept_events e s)"
    "fl_restarted_events (apply_event s e) = fl_restarted_events (note_kept_events e s)"
    "fl_escalated_events (apply_event s e) = fl_escalated_events (note_kept_events e s)"
    by (simp_all add: apply_event_def Let_def note_kept_events_def split: fleet_worker_payload.splits)
  show ?thesis using assms unfolding side_event_def f
    by (cases "ev_payload e") (auto simp: note_kept_events_def dest: bm_values_insert)
qed

section \<open>The invariant\<close>

definition task_ok :: "string \<Rightarrow> fleet_task \<Rightarrow> bool" where
  "task_ok k t \<longleftrightarrow> k = task_key (fe_run_id (tk_entry t)) (fe_task_id (tk_entry t))
     \<and> (tk_leased_to t \<noteq> None \<longrightarrow> 0 < fe_attempts (tk_entry t))
     \<and> (tk_leased_at t = None \<longleftrightarrow> tk_leased_to t = None)
     \<and> (tk_status t = Leased \<longrightarrow> tk_leased_to t \<noteq> None)
     \<and> (tk_status t = Enqueued \<longrightarrow> tk_leased_to t = None)
     \<and> (status_terminal (tk_status t) \<longrightarrow> tk_completed_at t \<noteq> None)"

definition exclusive :: "(string, fleet_task) bmap \<Rightarrow> bool" where
  "exclusive T \<longleftrightarrow> (\<forall>k1 t1 k2 t2 w. bm_get T k1 = Some t1 \<and> bm_get T k2 = Some t2
     \<and> worker_is_leased w t1 \<and> worker_is_leased w t2 \<longrightarrow> k1 = k2)"

definition noted :: "fleet_state \<Rightarrow> string \<Rightarrow> u64 \<Rightarrow> bool" where
  "noted s k n \<longleftrightarrow> (\<exists>m. bm_get (fl_latest_seq s) k = Some m \<and> n \<le> m)"

definition owner_of :: "fleet_state \<Rightarrow> string \<Rightarrow> bool" where
  "owner_of s k \<longleftrightarrow> (\<exists>w. bm_get (fl_sequence_owners s) k = Some w
     \<and> event_key (so_worker_id w) (so_run_id w) (so_task_id w) = k)"

definition events_ok :: "fleet_state \<Rightarrow> bool" where
  "events_ok s \<longleftrightarrow> mapall (\<lambda>k n. owner_of s k) (fl_latest_seq s)
     \<and> mapall (\<lambda>k e. event_lifecycle_key e = k \<and> noted s k (ev_seq e)) (fl_latest_events s)
     \<and> (\<forall>e. side_event s e \<longrightarrow> noted s (event_lifecycle_key e) (ev_seq e) \<and> terminal_payload (ev_payload e) = None)"

definition alert_ok :: "fleet_state \<Rightarrow> string \<times> string \<times> u32 option \<times> string \<Rightarrow> fleet_alert \<Rightarrow> bool" where
  "alert_ok s k a \<longleftrightarrow> k = alert_key (fa_run_id a) (fa_task_id a) (fa_attempt a) (fa_channel a)
     \<and> fa_attempt a \<noteq> None \<and> (\<exists>w n. fa_worker_id a = Some w \<and> fa_seq a = Some n
     \<and> noted s (event_key w (fa_run_id a) (fa_task_id a)) n)"

definition maps_ok :: "fleet_state \<Rightarrow> bool" where
  "maps_ok s \<longleftrightarrow> mapall (\<lambda>k r. k = fn_id r) (fl_runs s)
     \<and> mapall (\<lambda>k rc. k = task_key (rc_run_id rc) (rc_task_id rc)) (fl_receipts s)
     \<and> bm_sorted (fl_runs s) \<and> bm_sorted (fl_tasks s) \<and> bm_sorted (fl_heartbeats s)
     \<and> bm_sorted (fl_latest_seq s) \<and> bm_sorted (fl_receipts s) \<and> bm_sorted (fl_alerts s)
     \<and> bm_sorted (fl_latest_events s)"

definition base_inv :: "fleet_state \<Rightarrow> bool" where
  "base_inv s \<longleftrightarrow> mapall task_ok (fl_tasks s) \<and> exclusive (fl_tasks s) \<and> events_ok s
     \<and> mapall (alert_ok s) (fl_alerts s) \<and> maps_ok s"

text \<open>The last event of a key that ends a task belongs to a task that has ended, for the worker it is
  leased to; the keys in \<open>X\<close> are exempt (within the transaction that restarts a task).\<close>

definition has_ended :: "fleet_state \<Rightarrow> fleet_worker_event \<Rightarrow> bool" where
  "has_ended s e \<longleftrightarrow> (\<exists>t. bm_get (fl_tasks s) (event_task_key e) = Some t \<and> status_terminal (tk_status t)
     \<and> tk_leased_to t = Some (ev_worker_id e))"

definition ends_ok :: "string set \<Rightarrow> fleet_state \<Rightarrow> bool" where
  "ends_ok X s \<longleftrightarrow> mapall (\<lambda>k e. terminal_payload (ev_payload e) \<noteq> None \<longrightarrow> k \<notin> X \<longrightarrow> has_ended s e)
     (fl_latest_events s)"

definition fleet_inv :: "fleet_state \<Rightarrow> bool" where
  "fleet_inv s \<longleftrightarrow> base_inv s \<and> ends_ok {} s"

lemma fleet_inv_empty: "fleet_inv fleet_state_empty"
  by (simp add: fleet_inv_def base_inv_def exclusive_def events_ok_def side_event_def ends_ok_def maps_ok_def
      fleet_state_empty_def bm_values_def) (simp_all add: bm_empty_def)

lemma ends_ok_mono: "ends_ok X s \<Longrightarrow> X \<subseteq> Y \<Longrightarrow> ends_ok Y s"
  unfolding ends_ok_def mapall_def by blast

section \<open>Records the operations write\<close>

definition next_seq :: "fleet_state \<Rightarrow> fleet_worker_event \<Rightarrow> bool" where
  "next_seq s e \<longleftrightarrow> unat (ev_seq e) = unat (bm_get_or (fl_latest_seq s) (event_lifecycle_key e) 0) + 1"

lemma next_seq_fresh: "next_seq s e \<Longrightarrow> fresh_seq s e"
  by (auto simp: next_seq_def fresh_seq_def bm_get_or_def unwrap_or_def word_less_nat_alt)

definition event_ok :: "fleet_state \<Rightarrow> fleet_worker_event \<Rightarrow> bool" where
  "event_ok s e \<longleftrightarrow> next_seq s e \<and> (terminal_payload (ev_payload e) \<noteq> None \<longrightarrow>
     (\<exists>t. bm_get (fl_tasks s) (event_task_key e) = Some t \<and> tk_leased_to t = Some (ev_worker_id e)))"

fun admissible :: "fleet_state \<Rightarrow> fleet_record \<Rightarrow> bool" where
  "admissible s (TaskEnqueuedRec e) \<longleftrightarrow> fe_attempts e = 0"
| "admissible s (TaskLeasedRec r t w at exp) \<longleftrightarrow>
     (\<forall>k tk. bm_get (fl_tasks s) k = Some tk \<longrightarrow> worker_is_leased w tk \<longrightarrow> k = task_key r t)
     \<and> (\<forall>tk. bm_get (fl_tasks s) (task_key r t) = Some tk \<longrightarrow> tk_leased_to tk \<in> {None, Some w})"
| "admissible s (TaskCompletedOrFailed r t w ts st) \<longleftrightarrow> status_terminal st
     \<and> (\<forall>tk. bm_get (fl_tasks s) (task_key r t) = Some tk \<longrightarrow> w = [] \<or> tk_leased_to tk = Some w)"
| "admissible s (TaskAttemptFinalized e fs rc) \<longleftrightarrow> event_ok s e \<and> terminal_payload (ev_payload e) \<noteq> None
     \<and> (\<forall>st. fs = Some st \<longrightarrow> status_terminal st)"
| "admissible s (EventAppended e) \<longleftrightarrow> event_ok s e"
| "admissible s (EventSequenceCheckpoint r w t n) \<longleftrightarrow> False"
| "admissible s (AlertSent r t ch ts w a n) \<longleftrightarrow> a \<noteq> None \<and> bm_get (fl_alerts s) (alert_key r t a ch) = None
     \<and> (\<exists>w' n'. w = Some w' \<and> n = Some n' \<and> event_ok s (escalated_event r t ch ts w' n'))"
| "admissible s _ \<longleftrightarrow> True"

lemma terminal_payload_status: "terminal_payload p = Some st \<Longrightarrow> status_terminal st"
  by (cases p) (auto simp: status_terminal_def)

section \<open>Preservation\<close>

lemma task_ok_ended: "task_ok k t \<Longrightarrow> status_terminal st \<Longrightarrow> w = [] \<or> tk_leased_to t = Some w
    \<Longrightarrow> task_ok k (ended w ts st t)"
  by (auto simp: task_ok_def status_terminal_def)

lemma exclusive_insert:
  assumes "exclusive T" and "\<And>k' t' w. bm_get T k' = Some t' \<Longrightarrow> worker_is_leased w t' \<Longrightarrow> worker_is_leased w t \<Longrightarrow> k' = k"
  shows "exclusive (bm_insert k t T)"
  unfolding exclusive_def
proof (intro allI impI)
  fix k1 t1 k2 t2 w
  assume h: "bm_get (bm_insert k t T) k1 = Some t1 \<and> bm_get (bm_insert k t T) k2 = Some t2
      \<and> worker_is_leased w t1 \<and> worker_is_leased w t2"
  show "k1 = k2"
  proof (cases "k1 = k"; cases "k2 = k")
    assume "k1 \<noteq> k" "k2 \<noteq> k"
    with h assms(1) show ?thesis unfolding exclusive_def by (simp, blast)
  qed (use h assms(2) in auto)
qed

lemma not_leased_ended: "status_terminal st \<Longrightarrow> \<not> worker_is_leased w' (ended w ts st t)"
  by (auto simp: worker_is_leased_def status_terminal_def)

lemma exclusive_ended: "exclusive T \<Longrightarrow> status_terminal st \<Longrightarrow> exclusive (bm_insert k (ended w ts st t) T)"
  by (rule exclusive_insert) (auto simp: not_leased_ended)

text \<open>A step that leaves the marks at least where they were keeps what is noted.\<close>

definition marks_grow :: "fleet_state \<Rightarrow> fleet_state \<Rightarrow> bool" where
  "marks_grow s s' \<longleftrightarrow> mapall (noted s') (fl_latest_seq s)"

lemma noted_grow: "marks_grow s s' \<Longrightarrow> noted s k n \<Longrightarrow> noted s' k n"
  unfolding marks_grow_def mapall_def noted_def by (meson order_trans)

lemma alert_ok_grow: "marks_grow s s' \<Longrightarrow> alert_ok s k a \<Longrightarrow> alert_ok s' k a"
  unfolding alert_ok_def using noted_grow by blast

lemma marks_grow_event: "marks_grow s (apply_event s e)"
  by (auto simp: marks_grow_def mapall_def noted_def latest_seq_apply_event fresh_seq_def
      intro: less_imp_le)

lemma noted_event: "noted (apply_event s e) (event_lifecycle_key e) (ev_seq e)"
  by (auto simp: noted_def latest_seq_apply_event fresh_seq_def not_less)

lemma owner_of_event: "owner_of s k \<Longrightarrow> owner_of (apply_event s e) k"
  by (auto simp: owner_of_def owners_apply_event event_lifecycle_key_def)

lemma owner_of_event_own: "owner_of (apply_event s e) (event_lifecycle_key e)"
  by (simp add: owner_of_def owners_apply_event event_lifecycle_key_def)

lemma events_ok_event:
  assumes "events_ok s" shows "events_ok (apply_event s e)"
proof -
  note grow = noted_grow [OF marks_grow_event]
  have "mapall (\<lambda>k n. owner_of (apply_event s e) k) (fl_latest_seq (apply_event s e))"
    using assms by (auto simp: events_ok_def latest_seq_apply_event owner_of_event_own owner_of_event
        intro!: mapall_insert elim!: mapall_mono)
  moreover have "mapall (\<lambda>k d. event_lifecycle_key d = k \<and> noted (apply_event s e) k (ev_seq d))
      (fl_latest_events (apply_event s e))"
  proof -
    have "mapall (\<lambda>k d. event_lifecycle_key d = k \<and> noted (apply_event s e) k (ev_seq d)) (fl_latest_events s)"
      using assms by (auto simp: events_ok_def intro: grow elim!: mapall_mono)
    then show ?thesis by (simp add: latest_events_apply_event mapall_insert noted_event)
  qed
  moreover have "noted (apply_event s e) (event_lifecycle_key d) (ev_seq d) \<and> terminal_payload (ev_payload d) = None"
    if "side_event (apply_event s e) d" for d
    using side_apply_event [OF that] assms noted_event grow by (auto simp: events_ok_def)
  ultimately show ?thesis by (simp add: events_ok_def)
qed

lemma base_inv_event:
  assumes "base_inv s" and "event_ok s e" shows "base_inv (apply_event s e)"
proof -
  have t: "mapall task_ok (fl_tasks (apply_event s e)) \<and> exclusive (fl_tasks (apply_event s e))
      \<and> bm_sorted (fl_tasks (apply_event s e))"
  proof (cases "terminal_payload (ev_payload e)")
    case None
    with assms(1) show ?thesis by (simp add: tasks_apply_event base_inv_def maps_ok_def)
  next
    case (Some st)
    obtain t where t: "bm_get (fl_tasks s) (event_task_key e) = Some t" "tk_leased_to t = Some (ev_worker_id e)"
      using assms(2) Some by (auto simp: event_ok_def)
    have T: "fl_tasks (apply_event s e)
        = bm_insert (event_task_key e) (ended (ev_worker_id e) (ev_timestamp e) st t) (fl_tasks s)"
      by (simp add: tasks_apply_event Some t(1))
    have m: "mapall task_ok (fl_tasks s)" using assms(1) by (simp add: base_inv_def)
    show ?thesis unfolding T
      using assms(1) m mapall_get [OF m t(1)] terminal_payload_status [OF Some] t(2)
      by (simp add: base_inv_def maps_ok_def mapall_insert task_ok_ended exclusive_ended)
  qed
  have "mapall (alert_ok (apply_event s e)) (fl_alerts s)"
    using assms(1) alert_ok_grow [OF marks_grow_event] by (auto simp: base_inv_def elim!: mapall_mono)
  then show ?thesis
    using assms(1) t events_ok_event [of s e]
    by (simp add: base_inv_def maps_ok_def latest_seq_apply_event latest_events_apply_event)
qed

lemma events_ok_cong:
  assumes "fl_latest_seq s' = fl_latest_seq s" and "fl_sequence_owners s' = fl_sequence_owners s"
    and "fl_latest_events s' = fl_latest_events s" and "fl_artifact_events s' = fl_artifact_events s"
    and "fl_restarted_events s' = fl_restarted_events s" and "fl_escalated_events s' = fl_escalated_events s"
  shows "events_ok s' = events_ok s" and "alert_ok s' = alert_ok s"
proof -
  have n: "noted s' = noted s" and o: "owner_of s' = owner_of s" and d: "side_event s' = side_event s"
    by (simp_all add: fun_eq_iff noted_def owner_of_def side_event_def assms)
  show "events_ok s' = events_ok s" by (simp add: events_ok_def n o d assms)
  show "alert_ok s' = alert_ok s" by (simp add: fun_eq_iff alert_ok_def n)
qed

lemma base_inv_tasks:
  assumes "base_inv s" and "mapall task_ok T" and "exclusive T" and "bm_sorted T"
    and "s' = s\<lparr>fl_tasks := T\<rparr>"
  shows "base_inv s'"
proof -
  have "events_ok s' = events_ok s" "alert_ok s' = alert_ok s"
    by (rule events_ok_cong; simp add: assms(5))+
  then show ?thesis using assms by (simp add: base_inv_def maps_ok_def)
qed

lemma mark_task_terminal_tasks: "mark_task_terminal s r t w ts st
    = s\<lparr>fl_tasks := fl_tasks (mark_task_terminal s r t w ts st)\<rparr>"
  by (simp add: mark_task_terminal_def split: option.splits)

lemma base_inv_mark:
  assumes "base_inv s" and "status_terminal st"
    and "\<And>tk. bm_get (fl_tasks s) (task_key r t) = Some tk \<Longrightarrow> w = [] \<or> tk_leased_to tk = Some w"
  shows "base_inv (mark_task_terminal s r t w ts st)"
proof (rule base_inv_tasks [OF assms(1) _ _ _ mark_task_terminal_tasks])
  have m: "mapall task_ok (fl_tasks s)" using assms(1) by (simp add: base_inv_def)
  show "mapall task_ok (fl_tasks (mark_task_terminal s r t w ts st))"
    using m assms(2,3) mapall_get [OF m]
    by (simp add: tasks_mark mapall_insert task_ok_ended split: option.split)
  show "exclusive (fl_tasks (mark_task_terminal s r t w ts st))"
    using assms(1,2) by (simp add: tasks_mark exclusive_ended base_inv_def split: option.split)
  show "bm_sorted (fl_tasks (mark_task_terminal s r t w ts st))"
    using assms(1) by (simp add: tasks_mark base_inv_def maps_ok_def split: option.split)
qed

lemma base_inv_receipt: "base_inv s \<Longrightarrow> base_inv (put_receipt rc s)"
proof -
  assume b: "base_inv s"
  have "events_ok (put_receipt rc s) = events_ok s" "alert_ok (put_receipt rc s) = alert_ok s"
    by (rule events_ok_cong; simp add: put_receipt_def)+
  with b show ?thesis by (simp add: base_inv_def maps_ok_def put_receipt_def mapall_insert)
qed

text \<open>The task a lease record leaves.\<close>

definition leased_task :: "string \<Rightarrow> string \<Rightarrow> string option \<Rightarrow> fleet_task \<Rightarrow> fleet_task" where
  "leased_task w at exp t = t\<lparr>tk_status := Leased, tk_leased_to := Some w, tk_leased_at := Some at,
     tk_entry := (tk_entry t)\<lparr>fe_lease_deadline := exp, fe_attempts := sat_add (fe_attempts (tk_entry t)) 1\<rparr>\<rparr>"

lemma leased_task_fields [simp]:
  "tk_status (leased_task w at exp t) = Leased" "tk_leased_to (leased_task w at exp t) = Some w"
  "tk_leased_at (leased_task w at exp t) = Some at" "tk_completed_at (leased_task w at exp t) = tk_completed_at t"
  "fe_run_id (tk_entry (leased_task w at exp t)) = fe_run_id (tk_entry t)"
  "fe_task_id (tk_entry (leased_task w at exp t)) = fe_task_id (tk_entry t)"
  "fe_attempts (tk_entry (leased_task w at exp t)) = sat_add (fe_attempts (tk_entry t)) 1"
  by (simp_all add: leased_task_def)

lemma apply_leased: "apply_record s (TaskLeasedRec r t w at exp) = s\<lparr>fl_tasks :=
    (case bm_get (fl_tasks s) (task_key r t) of None \<Rightarrow> fl_tasks s
     | Some tk \<Rightarrow> bm_insert (task_key r t) (leased_task w at exp tk) (fl_tasks s))\<rparr>"
  by (simp add: leased_task_def split: option.splits)

lemma sat_add_pos: "0 < sat_add (a :: u32) 1"
  by (simp add: word_less_nat_alt unat_sat_add)

lemma base_inv_lease:
  assumes "base_inv s" and "admissible s (TaskLeasedRec r t w at exp)"
  shows "base_inv (apply_record s (TaskLeasedRec r t w at exp))"
proof (rule base_inv_tasks [OF assms(1) _ _ _ apply_leased])
  have m: "mapall task_ok (fl_tasks s)" and x: "exclusive (fl_tasks s)" and srt: "bm_sorted (fl_tasks s)"
    using assms(1) by (simp_all add: base_inv_def maps_ok_def)
  have tk: "task_ok k (leased_task w at exp tk)" if "task_ok k tk" for k tk
    using that by (simp add: task_ok_def status_terminal_def sat_add_pos)
  show "mapall task_ok (case bm_get (fl_tasks s) (task_key r t) of None \<Rightarrow> fl_tasks s
     | Some tk \<Rightarrow> bm_insert (task_key r t) (leased_task w at exp tk) (fl_tasks s))"
    using m mapall_get [OF m] by (simp add: mapall_insert tk split: option.split)
  have "exclusive (bm_insert (task_key r t) (leased_task w at exp tk) (fl_tasks s))" for tk
    by (rule exclusive_insert [OF x]) (use assms(2) in \<open>auto simp: worker_is_leased_def\<close>)
  with x show "exclusive (case bm_get (fl_tasks s) (task_key r t) of None \<Rightarrow> fl_tasks s
     | Some tk \<Rightarrow> bm_insert (task_key r t) (leased_task w at exp tk) (fl_tasks s))"
    by (simp split: option.split)
  show "bm_sorted (case bm_get (fl_tasks s) (task_key r t) of None \<Rightarrow> fl_tasks s
     | Some tk \<Rightarrow> bm_insert (task_key r t) (leased_task w at exp tk) (fl_tasks s))"
    using srt by (simp split: option.split)
qed

lemma apply_alert_new:
  assumes "bm_get (fl_alerts s) (alert_key r t (Some a) ch) = None"
  shows "apply_alert s r t ch ts (Some w) (Some a) (Some n) = apply_event (s\<lparr>fl_alerts := bm_insert
    (alert_key r t (Some a) ch) \<lparr>fa_run_id = r, fa_task_id = t, fa_channel = ch, fa_timestamp = ts,
      fa_worker_id = Some w, fa_attempt = Some a, fa_seq = Some n\<rparr> (fl_alerts s)\<rparr>)
    (escalated_event r t ch ts w n)"
  by (simp add: apply_alert_def alert_attempt_def Let_def assms)

lemma escalated_event_fields [simp]:
  "terminal_payload (ev_payload (escalated_event r t ch ts w n)) = None"
  "event_lifecycle_key (escalated_event r t ch ts w n) = event_key w r t"
  "event_task_key (escalated_event r t ch ts w n) = task_key r t"
  "ev_seq (escalated_event r t ch ts w n) = n"
  by (simp_all add: escalated_event_def event_lifecycle_key_def event_task_key_def)

text \<open>The marks do not depend on the alerts, nor do the events.\<close>

lemma note_sequence_alerts: "note_sequence e b (s\<lparr>fl_alerts := A\<rparr>) = (note_sequence e b s)\<lparr>fl_alerts := A\<rparr>"
  by (simp add: note_sequence_def Let_def)

lemma note_kept_alerts: "note_kept_events e (s\<lparr>fl_alerts := A\<rparr>) = (note_kept_events e s)\<lparr>fl_alerts := A\<rparr>"
  by (cases "ev_payload e") (simp_all add: note_kept_events_def)

lemma mark_alerts: "mark_task_terminal (s\<lparr>fl_alerts := A\<rparr>) r t w ts st
    = (mark_task_terminal s r t w ts st)\<lparr>fl_alerts := A\<rparr>"
  by (simp add: mark_task_terminal_def split: option.split)

lemma project_alerts: "project_event e (s\<lparr>fl_alerts := A\<rparr>) = (project_event e s)\<lparr>fl_alerts := A\<rparr>"
  by (cases "terminal_payload (ev_payload e)"; cases "payload_worker_status (ev_payload e)")
    (simp_all add: project_event_def Let_def mark_alerts)

lemma apply_event_alerts: "apply_event (s\<lparr>fl_alerts := A\<rparr>) e = (apply_event s e)\<lparr>fl_alerts := A\<rparr>"
proof -
  have "regresses (s\<lparr>fl_alerts := A\<rparr>) e = regresses s e" by (simp add: regresses_def task_is_terminal_def)
  then show ?thesis
    by (simp add: apply_event_def Let_def note_sequence_alerts note_kept_alerts project_alerts)
qed

lemma base_inv_alerts:
  assumes "base_inv s" and "mapall (alert_ok s) A" and "bm_sorted A"
  shows "base_inv (s\<lparr>fl_alerts := A\<rparr>)"
proof -
  have "events_ok (s\<lparr>fl_alerts := A\<rparr>) = events_ok s" "alert_ok (s\<lparr>fl_alerts := A\<rparr>) = alert_ok s"
    by (rule events_ok_cong; simp)+
  with assms show ?thesis by (simp add: base_inv_def maps_ok_def)
qed

lemma base_inv_alert:
  assumes "base_inv s" and "event_ok s (escalated_event r t ch ts w n)"
  shows "base_inv (apply_alert s r t ch ts (Some w) (Some a) (Some n))"
proof (cases "bm_get (fl_alerts s) (alert_key r t (Some a) ch)")
  case None
  let ?e = "escalated_event r t ch ts w n"
  have b: "base_inv (apply_event s ?e)" by (rule base_inv_event [OF assms])
  have "noted (apply_event s ?e) (event_key w r t) n" using noted_event [of s ?e] by simp
  then show ?thesis unfolding apply_alert_new [OF None] apply_event_alerts
    by (intro base_inv_alerts [OF b] mapall_insert)
      (use b in \<open>simp_all add: base_inv_def maps_ok_def alert_ok_def\<close>)
next
  case (Some x)
  with assms(1) show ?thesis by (simp add: apply_alert_def alert_attempt_def Let_def)
qed

lemma event_ok_ended:
  assumes "event_ok s e" and "terminal_payload (ev_payload e) \<noteq> None"
    and "bm_get (fl_tasks (apply_event s e)) (event_task_key e) = Some tk"
  shows "ev_worker_id e = [] \<or> tk_leased_to tk = Some (ev_worker_id e)"
  using assms by (auto simp: event_ok_def tasks_apply_event split: if_splits)

theorem base_inv_apply:
  assumes b: "base_inv s" and a: "admissible s r"
  shows "base_inv (apply_record s r)"
proof (cases r)
  case (RunCreated x)
  have "events_ok (apply_record s r) = events_ok s" "alert_ok (apply_record s r) = alert_ok s"
    by (rule events_ok_cong; simp add: RunCreated)+
  with b show ?thesis by (simp add: RunCreated base_inv_def maps_ok_def mapall_insert)
next
  case (RunStatusChanged x st ts)
  have "events_ok (apply_record s r) = events_ok s" "alert_ok (apply_record s r) = alert_ok s"
    by (rule events_ok_cong; simp add: RunStatusChanged)+
  with b show ?thesis by (simp add: RunStatusChanged base_inv_def maps_ok_def)
next
  case (TaskEnqueuedRec e)
  let ?k = "task_key (fe_run_id e) (fe_task_id e)"
  let ?t = "\<lparr>tk_entry = e, tk_status = Enqueued, tk_leased_to = None, tk_leased_at = None, tk_completed_at = None\<rparr>"
  show ?thesis
  proof (cases "bm_get (fl_tasks s) ?k")
    case None
    have "base_inv (s\<lparr>fl_tasks := bm_insert ?k ?t (fl_tasks s)\<rparr>)"
    proof (rule base_inv_tasks [OF b _ _ _ refl])
      show "mapall task_ok (bm_insert ?k ?t (fl_tasks s))"
        using b by (intro mapall_insert) (simp_all add: base_inv_def task_ok_def status_terminal_def)
      show "exclusive (bm_insert ?k ?t (fl_tasks s))"
        by (rule exclusive_insert) (use b in \<open>simp_all add: base_inv_def worker_is_leased_def\<close>)
      show "bm_sorted (bm_insert ?k ?t (fl_tasks s))" using b by (simp add: base_inv_def maps_ok_def)
    qed
    with None show ?thesis by (simp add: TaskEnqueuedRec Let_def)
  qed (use b in \<open>simp add: TaskEnqueuedRec Let_def\<close>)
next
  case (TaskLeasedRec x1 x2 x3 x4 x5)
  with base_inv_lease [OF b] a show ?thesis by simp
next
  case (TaskCompletedOrFailed x1 x2 x3 x4 x5)
  with base_inv_mark [OF b] a show ?thesis by simp
next
  case (TaskAttemptFinalized e fs rc)
  have ok: "event_ok s e" "terminal_payload (ev_payload e) \<noteq> None" using a TaskAttemptFinalized by simp_all
  have e: "base_inv (apply_event s e)" by (rule base_inv_event [OF b ok(1)])
  show ?thesis
  proof (cases fs)
    case None
    with e show ?thesis by (simp add: TaskAttemptFinalized base_inv_receipt)
  next
    case (Some st)
    have "base_inv (mark_task_terminal (apply_event s e) (ev_run_id e) (ev_task_id e) (ev_worker_id e)
        (ev_timestamp e) st)"
      using event_ok_ended [OF ok] a Some TaskAttemptFinalized
      by (intro base_inv_mark [OF e]) (simp_all add: event_task_key_def)
    with Some show ?thesis by (simp add: TaskAttemptFinalized base_inv_receipt)
  qed
next
  case (EventAppended e)
  with base_inv_event [OF b] a show ?thesis by simp
next
  case (EventSequenceCheckpoint x1 x2 x3 x4)
  with a show ?thesis by simp
next
  case (HeartbeatRec w ts cpu mem)
  have "events_ok (apply_record s r) = events_ok s" "alert_ok (apply_record s r) = alert_ok s"
    by (rule events_ok_cong; simp add: HeartbeatRec Let_def)+
  with b show ?thesis by (simp add: HeartbeatRec base_inv_def maps_ok_def Let_def)
next
  case (ReceiptRecorded rc)
  with base_inv_receipt [OF b] show ?thesis by simp
next
  case (AlertSent x1 x2 x3 x4 x5 x6 x7)
  with base_inv_alert [OF b] a show ?thesis by auto
qed

section \<open>Tasks that have ended\<close>

lemma has_ended_event: "event_ok s e \<Longrightarrow> has_ended s d \<Longrightarrow> has_ended (apply_event s e) d"
  using terminal_payload_status
  by (auto simp: has_ended_def event_ok_def tasks_apply_event split: option.split)

lemma has_ended_own:
  "event_ok s e \<Longrightarrow> terminal_payload (ev_payload e) \<noteq> None \<Longrightarrow> has_ended (apply_event s e) e"
  using terminal_payload_status by (auto simp: has_ended_def event_ok_def tasks_apply_event)

text \<open>An event that is not held back takes the place of the last one of its key.\<close>

lemma ends_ok_event:
  assumes "event_ok s e"
    and "ends_ok (if regresses s e then X else insert (event_lifecycle_key e) X) s"
  shows "ends_ok X (apply_event s e)"
proof -
  have f: "fresh_seq s e" using assms(1) by (simp add: event_ok_def next_seq_fresh)
  show ?thesis
  proof (cases "regresses s e")
    case True
    with assms(2) show ?thesis
      by (auto simp: ends_ok_def latest_events_apply_event has_ended_event [OF assms(1)] elim!: mapall_mono)
  next
    case False
    have old: "has_ended (apply_event s e) d" if "bm_get (fl_latest_events s) k = Some d"
        "k \<noteq> event_lifecycle_key e" "k \<notin> X" "terminal_payload (ev_payload d) \<noteq> None" for k d
      using assms(2) that False has_ended_event [OF assms(1)] by (auto simp: ends_ok_def mapall_def)
    have "mapall (\<lambda>k d. terminal_payload (ev_payload d) \<noteq> None \<longrightarrow> k \<notin> X \<longrightarrow> has_ended (apply_event s e) d)
        (bm_insert (event_lifecycle_key e) e (fl_latest_events s))"
      unfolding mapall_def using old has_ended_own [OF assms(1)] by simp
    then show ?thesis by (simp add: ends_ok_def latest_events_apply_event False f)
  qed
qed

lemma ends_ok_event_plain: "event_ok s e \<Longrightarrow> ends_ok X s \<Longrightarrow> ends_ok X (apply_event s e)"
  by (rule ends_ok_event) (auto intro: ends_ok_mono)

lemma ends_ok_same:
  assumes "ends_ok X s" and "fl_latest_events s' = fl_latest_events s" and "\<And>d. has_ended s d \<Longrightarrow> has_ended s' d"
  shows "ends_ok X s'"
  using assms by (auto simp: ends_ok_def elim!: mapall_mono)

lemma has_ended_mark:
  assumes "status_terminal st" and "\<And>tk. bm_get (fl_tasks s) (task_key r t) = Some tk \<Longrightarrow> w = [] \<or> tk_leased_to tk = Some w"
    and "has_ended s d"
  shows "has_ended (mark_task_terminal s r t w ts st) d"
  using assms by (auto simp: has_ended_def tasks_mark split: option.split)

lemma has_ended_cong: "fl_tasks s' = fl_tasks s \<Longrightarrow> has_ended s' d = has_ended s d"
  by (simp add: has_ended_def)

lemma has_ended_receipt [simp]: "has_ended (put_receipt rc s) d = has_ended s d"
  by (rule has_ended_cong) (simp add: put_receipt_def)

definition fresh_lease :: "fleet_state \<Rightarrow> fleet_record \<Rightarrow> bool" where
  "fresh_lease s x \<longleftrightarrow> (case x of TaskLeasedRec r t w at exp \<Rightarrow>
     (case bm_get (fl_tasks s) (task_key r t) of None \<Rightarrow> True | Some tk \<Rightarrow> \<not> status_terminal (tk_status tk))
   | _ \<Rightarrow> True)"

lemma ends_ok_alert:
  assumes "event_ok s (escalated_event r t ch ts w n)" and "ends_ok X s"
  shows "ends_ok X (apply_alert s r t ch ts (Some w) (Some a) (Some n))"
proof (cases "bm_get (fl_alerts s) (alert_key r t (Some a) ch)")
  case None
  have "ends_ok X (apply_event s (escalated_event r t ch ts w n))" by (rule ends_ok_event_plain [OF assms])
  then show ?thesis unfolding apply_alert_new [OF None] apply_event_alerts
    by (rule ends_ok_same) (simp_all add: has_ended_def)
qed (use assms(2) in \<open>simp add: apply_alert_def alert_attempt_def Let_def\<close>)

lemma ends_ok_apply:
  assumes i: "ends_ok X s" and a: "admissible s x" and f: "fresh_lease s x"
  shows "ends_ok X (apply_record s x)"
proof (cases x)
  case (TaskEnqueuedRec e)
  show ?thesis
    by (rule ends_ok_same [OF i]) (auto simp: TaskEnqueuedRec Let_def has_ended_def split: option.splits)
next
  case (TaskLeasedRec r t w at exp)
  show ?thesis
    by (rule ends_ok_same [OF i])
      (use f in \<open>auto simp: TaskLeasedRec apply_leased has_ended_def fresh_lease_def
        simp del: apply_record.simps split: option.splits\<close>)
next
  case (TaskCompletedOrFailed r t w ts st)
  show ?thesis
    by (rule ends_ok_same [OF i]) (use a in \<open>auto simp: TaskCompletedOrFailed intro: has_ended_mark\<close>)
next
  case (TaskAttemptFinalized e fs rc)
  have ok: "event_ok s e" "terminal_payload (ev_payload e) \<noteq> None" using a TaskAttemptFinalized by simp_all
  have e: "ends_ok X (apply_event s e)" by (rule ends_ok_event_plain [OF ok(1) i])
  show ?thesis
    by (rule ends_ok_same [OF e])
      (use a event_ok_ended [OF ok] in \<open>auto simp: TaskAttemptFinalized put_receipt_def event_task_key_def
        has_ended_cong [of "s\<lparr>fl_receipts := _\<rparr>" s for s] intro: has_ended_mark split: option.split\<close>)
next
  case (AlertSent x1 x2 x3 x4 x5 x6 x7)
  with a i ends_ok_alert show ?thesis by auto
next
  case (EventAppended e)
  with a i ends_ok_event_plain show ?thesis by simp
qed (use i in \<open>auto simp: Let_def put_receipt_def elim!: ends_ok_same simp: has_ended_def\<close>)

end
