(* ===== verification/Fleet_History.thy ===== *)
theory Fleet_History
  imports Fleet_Invariant
begin

text \<open>
  The operations write what the invariant allows: one step of a history keeps it, numbers its events
  consecutively from the high-water mark of their key, and raises the marks by at most the number of
  records it writes.
\<close>

section \<open>Sequences of records\<close>

fun lawful :: "fleet_state \<Rightarrow> fleet_record list \<Rightarrow> bool" where
  "lawful s [] \<longleftrightarrow> True"
| "lawful s (r # rs) \<longleftrightarrow> admissible s r \<and> lawful (apply_record s r) rs"

fun safe :: "fleet_state \<Rightarrow> fleet_record list \<Rightarrow> bool" where
  "safe s [] \<longleftrightarrow> True"
| "safe s (r # rs) \<longleftrightarrow> admissible s r \<and> fresh_lease s r \<and> safe (apply_record s r) rs"

lemma replay_Nil [simp]: "replay_records s [] = s"
  by (simp add: replay_records_def)

lemma replay_Cons [simp]: "replay_records s (r # rs) = replay_records (apply_record s r) rs"
  by (simp add: replay_records_def)

lemma replay_append [simp]: "replay_records s (xs @ ys) = replay_records (replay_records s xs) ys"
  by (simp add: replay_records_def)

lemma safe_lawful: "safe s rs \<Longrightarrow> lawful s rs"
  by (induction rs arbitrary: s) auto

lemma lawful_base: "lawful s rs \<Longrightarrow> base_inv s \<Longrightarrow> base_inv (replay_records s rs)"
  by (induction rs arbitrary: s) (auto intro: base_inv_apply)

lemma safe_inv: "safe s rs \<Longrightarrow> fleet_inv s \<Longrightarrow> fleet_inv (replay_records s rs)"
  by (induction rs arbitrary: s) (auto simp: fleet_inv_def intro: base_inv_apply ends_ok_apply)

lemma safe_append: "safe s (xs @ ys) \<longleftrightarrow> safe s xs \<and> safe (replay_records s xs) ys"
  by (induction xs arbitrary: s) auto

section \<open>Marks\<close>

definition mark_of :: "fleet_state \<Rightarrow> string \<Rightarrow> nat" where
  "mark_of s k = unat (bm_get_or (fl_latest_seq s) k 0)"

definition marks_below :: "fleet_state \<Rightarrow> nat \<Rightarrow> bool" where
  "marks_below s n \<longleftrightarrow> (\<forall>k. mark_of s k \<le> n)"

lemma mark_of_cong: "fl_latest_seq s' = fl_latest_seq s \<Longrightarrow> mark_of s' k = mark_of s k"
  by (simp add: mark_of_def)

fun record_events :: "fleet_record \<Rightarrow> fleet_worker_event list" where
  "record_events (EventAppended e) = [e]"
| "record_events (TaskAttemptFinalized e fs rc) = [e]"
| "record_events (AlertSent r t ch ts (Some w) a (Some n)) = [escalated_event r t ch ts w n]"
| "record_events _ = []"

lemma mark_of_event: "next_seq s e \<Longrightarrow> mark_of (apply_event s e) k
    = (if k = event_lifecycle_key e then unat (ev_seq e) else mark_of s k)"
  by (simp add: mark_of_def bm_get_or_def unwrap_or_def latest_seq_apply_event next_seq_fresh)

lemma latest_seq_mark [simp]: "mark_of (mark_task_terminal s r t w ts st) k = mark_of s k"
  by (simp add: mark_of_def)

lemma latest_seq_receipt [simp]: "mark_of (put_receipt rc s) k = mark_of s k"
  by (simp add: mark_of_def put_receipt_def)

text \<open>A record the invariant allows writes at most one event, with the next number of its key.\<close>

lemma record_event:
  assumes "admissible s x"
  shows "record_events x = [] \<and> (\<forall>k. mark_of (apply_record s x) k = mark_of s k)
    \<or> (\<exists>e. record_events x = [e] \<and> next_seq s e
        \<and> (\<forall>k. mark_of (apply_record s x) k = mark_of (apply_event s e) k))"
proof (cases x)
  case (TaskAttemptFinalized e fs rc)
  then show ?thesis using assms by (simp add: event_ok_def split: option.split)
next
  case (EventAppended e)
  then show ?thesis using assms by (simp add: event_ok_def)
next
  case (AlertSent r t ch ts w a q)
  then obtain w' q' a' where x: "w = Some w'" "q = Some q'" "a = Some a'" and none: "bm_get (fl_alerts s) (alert_key r t (Some a') ch) = None"
    "next_seq s (escalated_event r t ch ts w' q')" using assms by (auto simp: event_ok_def)
  have "apply_record s x = apply_alert s r t ch ts (Some w') (Some a') (Some q')" by (simp add: AlertSent x)
  then show ?thesis
    by (simp add: AlertSent x none(2) apply_alert_new [OF none(1)] apply_event_alerts mark_of_def)
qed (use assms in \<open>auto simp: mark_of_def Let_def put_receipt_def split: option.split\<close>)

lemma marks_below_apply:
  assumes a: "admissible s x" and m: "marks_below s n"
  shows "marks_below (apply_record s x) (Suc n)"
  using record_event [OF a] m
  by (auto simp: marks_below_def mark_of_event next_seq_def mark_of_def [symmetric] le_SucI)

lemma lawful_marks: "lawful s rs \<Longrightarrow> marks_below s n \<Longrightarrow> marks_below (replay_records s rs) (n + length rs)"
proof (induction rs arbitrary: s n)
  case (Cons r rs)
  then have "marks_below (apply_record s r) (Suc n)" by (auto intro: marks_below_apply)
  with Cons.IH [of "apply_record s r" "Suc n"] Cons.prems show ?case by simp
qed simp

section \<open>What the operations write\<close>

lemma unat_Suc: "unat (a :: u64) + 1 < 2 ^ 64 \<Longrightarrow> unat (a + 1) = unat a + 1"
  by (simp add: unat_word_ariths(1))

lemma sat_Suc: "unat (a :: u64) + 1 < 2 ^ 64 \<Longrightarrow> sat_add a 1 = a + 1"
  by (simp add: sat_add_def)

lemma mark_latest: "mark_of s (event_key w r t) = unat (latest_seq_of s w r t)"
  by (simp add: mark_of_def latest_seq_of_def)

lemma worker_event_fields [simp]:
  "event_lifecycle_key (worker_event q r w t ts p) = event_key w r t"
  "event_task_key (worker_event q r w t ts p) = task_key r t"
  "ev_seq (worker_event q r w t ts p) = q" "ev_payload (worker_event q r w t ts p) = p"
  "ev_worker_id (worker_event q r w t ts p) = w" "ev_run_id (worker_event q r w t ts p) = r"
  "ev_task_id (worker_event q r w t ts p) = t" "ev_timestamp (worker_event q r w t ts p) = ts"
  by (simp_all add: worker_event_def event_lifecycle_key_def event_task_key_def)

lemma worker_event_ok:
  assumes "unat q = unat (latest_seq_of s w r t) + 1"
    and "terminal_payload p \<noteq> None \<Longrightarrow> \<exists>tk. bm_get (fl_tasks s) (task_key r t) = Some tk \<and> tk_leased_to tk = Some w"
  shows "event_ok s (worker_event q r w t ts p)"
  using assms by (auto simp: event_ok_def next_seq_def latest_seq_of_def)

lemma marks_room: "marks_below s n \<Longrightarrow> n + k < 2 ^ 64 \<Longrightarrow> unat (latest_seq_of s w r t) + k < 2 ^ 64"
  using mark_latest [of s w r t] by (auto simp: marks_below_def dest!: spec [of _ "event_key w r t"])

lemma next_event_ok:
  assumes "marks_below s n" "n + 1 < 2 ^ 64"
    and "terminal_payload p \<noteq> None \<Longrightarrow> \<exists>tk. bm_get (fl_tasks s) (task_key r t) = Some tk \<and> tk_leased_to tk = Some w"
  shows "event_ok s (next_worker_event s r w t ts p)"
  unfolding next_worker_event_def
  by (rule worker_event_ok) (use marks_room [OF assms(1,2)] assms(3) in \<open>simp_all add: unat_Suc\<close>)

lemma attempt_is_task:
  "attempt_is s r t w st a \<Longrightarrow> \<exists>tk. bm_get (fl_tasks s) (task_key r t) = Some tk \<and> tk_leased_to tk = Some w"
  by (auto simp: attempt_is_def split: option.splits)

lemma fresh_lease_other [simp]:
  "fresh_lease s (EventAppended e)" "fresh_lease s (HeartbeatRec w ts c m)" "fresh_lease s (TaskAttemptFinalized e fs rc)"
  "fresh_lease s (TaskCompletedOrFailed r t w ts st)" "fresh_lease s (RunCreated x)"
  "fresh_lease s (RunStatusChanged r rs ts)" "fresh_lease s (TaskEnqueuedRec en)"
  "fresh_lease s (ReceiptRecorded rc)" "fresh_lease s (AlertSent r t ch ts aw aa an)"
  by (simp_all add: fresh_lease_def)

lemma latest_after_event: "event_ok s e \<Longrightarrow> event_lifecycle_key e = event_key w r t
    \<Longrightarrow> latest_seq_of (apply_event s e) w r t = ev_seq e"
  by (simp add: latest_seq_of_def bm_get_or_def unwrap_or_def latest_seq_apply_event event_ok_def next_seq_fresh)

text \<open>The events a lease starts with.\<close>

lemma initial_events_safe:
  assumes "list_all (\<lambda>p. terminal_payload p = None) ps" and "unat q = unat (latest_seq_of s w r t) + 1"
    and "unat q + length ps < 2 ^ 64"
  shows "safe s (initial_event_records q r w t ts ps)"
  using assms
proof (induction ps arbitrary: s q)
  case (Cons p ps)
  have ok: "event_ok s (worker_event q r w t ts p)" by (rule worker_event_ok) (use Cons.prems in simp_all)
  have q: "unat (sat_add q 1) = unat q + 1" using Cons.prems(3) by (simp add: sat_Suc unat_Suc)
  have "safe (apply_event s (worker_event q r w t ts p)) (initial_event_records (sat_add q 1) r w t ts ps)"
    by (rule Cons.IH) (use Cons.prems ok q in \<open>simp_all add: latest_after_event\<close>)
  with ok show ?case by simp
qed simp

lemma latest_seq_lease [simp]:
  "latest_seq_of (apply_record s (TaskLeasedRec r t w at exp)) w' r' t' = latest_seq_of s w' r' t'"
  by (simp add: latest_seq_of_def split: option.split)

lemma latest_seq_heartbeat [simp]: "admissible s (HeartbeatRec w ts c m)"
  by simp

lemma worker_busy_iff: "worker_busy s w \<longleftrightarrow> (\<exists>kt \<in> set (fl_tasks s). worker_is_leased w (snd kt))"
  by (simp add: worker_busy_def bm_values_def list_ex_iff)

lemma idle_worker:
  "\<not> worker_busy s w \<Longrightarrow> bm_get (fl_tasks s) k = Some tk \<Longrightarrow> \<not> worker_is_leased w tk"
  by (auto simp: worker_busy_iff bm_get_def dest!: map_of_SomeD)

lemma lease_admissible:
  assumes "base_inv s" and "bm_get (fl_tasks s) (task_key r t) = Some tk" and "tk_status tk = Enqueued"
    and "\<not> worker_busy s w"
  shows "admissible s (TaskLeasedRec r t w at exp) \<and> fresh_lease s (TaskLeasedRec r t w at exp)"
proof -
  have "task_ok (task_key r t) tk" using assms(1,2) by (auto simp: base_inv_def dest: mapall_get)
  then have "tk_leased_to tk = None" using assms(3) by (simp add: task_ok_def)
  then show ?thesis using assms idle_worker [OF assms(4)]
    by (auto simp: fresh_lease_def status_terminal_def)
qed

lemma heartbeat_safe [simp]: "safe s [HeartbeatRec w ts c m]"
  by simp

lemma length_initial [simp]: "length (initial_event_records q r w t ts ps) = length ps"
  by (induction ps arbitrary: q) simp_all

lemma lease_with_events_safe:
  assumes "base_inv s" and "marks_below s n"
    and "n + length (snd (lease_with_events r t w at exp m ps hb s)) < 2 ^ 64"
    and "list_all (\<lambda>p. terminal_payload p = None) ps"
  shows "safe s (snd (lease_with_events r t w at exp m ps hb s))"
proof (cases "snd (lease_with_events r t w at exp m ps hb s) = []")
  case False
  then obtain tk where tk: "bm_get (fl_tasks s) (task_key r t) = Some tk" "tk_status tk = Enqueued"
    "\<not> worker_busy s w" by (auto simp: lease_with_events_def split: option.splits if_splits)
  have rs: "snd (lease_with_events r t w at exp m ps hb s) = TaskLeasedRec r t w at exp
      # initial_event_records (latest_seq_of s w r t + 1) r w t at ps @ (if hb then [HeartbeatRec w at None None] else [])"
    using False tk by (auto simp: lease_with_events_def split: option.splits if_splits)
  let ?s1 = "apply_record s (TaskLeasedRec r t w at exp)"
  have room: "unat (latest_seq_of s w r t) + (length ps + 1) < 2 ^ 64"
    by (rule marks_room [OF assms(2)]) (use assms(3) in \<open>simp add: rs split: if_splits\<close>)
  have "unat (latest_seq_of s w r t + 1) = unat (latest_seq_of s w r t) + 1" using room by (intro unat_Suc) simp
  then have "safe ?s1 (initial_event_records (latest_seq_of s w r t + 1) r w t at ps)"
    by (intro initial_events_safe [OF assms(4)]) (use room in \<open>simp_all del: apply_record.simps\<close>)
  then show ?thesis unfolding rs using lease_admissible [OF assms(1) tk]
    by (auto simp: safe_append simp del: apply_record.simps admissible.simps(2))
qed simp

lemma min_by_key_in: "min_by_key f xs = Some x \<Longrightarrow> x \<in> set xs"
  by (induction xs arbitrary: x) (auto split: option.splits if_splits)

lemma bm_values_get: "bm_sorted m \<Longrightarrow> v \<in> set (bm_values m) \<Longrightarrow> \<exists>k. bm_get m k = Some v"
  by (auto simp: bm_values_def bm_get_def bm_sorted_def strict_sorted_iff intro: map_of_is_SomeI)

lemma claim_next_safe:
  assumes "base_inv s" shows "safe s (snd (claim_next w ts s))"
proof (cases "snd (claim_next w ts s) = []")
  case False
  then obtain e where idle: "\<not> worker_busy s w"
    and e: "min_by_key (\<lambda>e. (fe_priority e, fe_enqueued_at e))
      (map tk_entry (filter (\<lambda>t. tk_status t = Enqueued) (bm_values (fl_tasks s)))) = Some e"
    and rs: "snd (claim_next w ts s) = [TaskLeasedRec (fe_run_id e) (fe_task_id e) w ts None]"
    by (auto simp: claim_next_def split: if_splits option.splits)
  obtain tk where tk: "tk \<in> set (bm_values (fl_tasks s))" "tk_status tk = Enqueued" "tk_entry tk = e"
    using min_by_key_in [OF e] by auto
  obtain k where k: "bm_get (fl_tasks s) k = Some tk"
    using bm_values_get [OF _ tk(1)] assms by (auto simp: base_inv_def maps_ok_def)
  have "task_ok k tk" using assms k by (auto simp: base_inv_def dest: mapall_get)
  then have "k = task_key (fe_run_id e) (fe_task_id e)" using tk(3) by (simp add: task_ok_def)
  with k tk(2) idle lease_admissible [OF assms] show ?thesis by (simp add: rs)
qed simp

lemma guarded_safe:
  assumes "ok \<Longrightarrow> event_ok s e" shows "safe s (snd (append_guarded ok e))"
  using assms by (simp add: append_guarded_def)

lemma snd_apfst [simp]: "snd (apfst f x) = snd x"
  by (cases x) simp

lemma version_attempt: "version_is s r t w st a q hb \<Longrightarrow> attempt_is s r t w st a"
  by (simp add: version_is_def)

lemma finalize_safe:
  assumes "marks_below s n" and "n + 1 < 2 ^ 64"
  shows "safe s (snd (finalize_task_attempt_if_leased r w t a ts p fs rc s))"
  using next_event_ok [OF assms] attempt_is_task
  by (auto simp: finalize_task_attempt_if_leased_def next_worker_event_def Let_def)

lemma event_ok_second:
  assumes "event_ok s e" and "unat q = unat (ev_seq e) + 1" and "event_lifecycle_key e = event_key w r t"
    and "bm_get (fl_tasks s) (task_key r t) = Some tk" and "tk_leased_to tk = Some w"
    and "terminal_payload (ev_payload e) = None"
  shows "event_ok (apply_event s e) (worker_event q r w t ts p)"
  by (rule worker_event_ok) (use assms in \<open>simp_all add: latest_after_event tasks_apply_event\<close>)

lemma cancel_safe:
  assumes "marks_below s n" and l: "n + length (snd (cancel_task_if_active r t ew ts sig by' s)) < 2 ^ 64"
  shows "safe s (snd (cancel_task_if_active r t ew ts sig by' s))"
proof (cases "snd (cancel_task_if_active r t ew ts sig by' s) = []")
  case False
  then obtain tk where tk: "bm_get (fl_tasks s) (task_key r t) = Some tk"
    by (auto simp: cancel_task_if_active_def split: option.splits)
  show ?thesis
  proof (cases "tk_leased_to tk")
    case None
    with False tk have "snd (cancel_task_if_active r t ew ts sig by' s) = [TaskCompletedOrFailed r t [] ts TaskCancelled]"
      by (auto simp: cancel_task_if_active_def split: if_splits)
    then show ?thesis by (simp add: status_terminal_def)
  next
    case (Some w)
    let ?q = "latest_seq_of s w r t + 1"
    have "n + 1 < 2 ^ 64" using l False by (cases "snd (cancel_task_if_active r t ew ts sig by' s)") auto
    then have "unat (latest_seq_of s w r t) + 1 < 2 ^ 64" by (rule marks_room [OF assms(1)])
    then have q: "unat ?q = unat (latest_seq_of s w r t) + 1" by (rule unat_Suc)
    show ?thesis
    proof (cases sig)
      case None
      with False tk Some have rs: "snd (cancel_task_if_active r t ew ts sig by' s)
          = [EventAppended (worker_event ?q r w t ts (EvCancelled by'))]"
        by (auto simp: cancel_task_if_active_def Let_def split: if_splits)
      have "event_ok s (worker_event ?q r w t ts (EvCancelled by'))"
        by (rule worker_event_ok) (use q tk Some in simp_all)
      then show ?thesis by (simp add: rs)
    next
      case (Some sg)
      let ?e = "worker_event ?q r w t ts (EvInterrupted (Some sg))"
      have rs: "snd (cancel_task_if_active r t ew ts sig by' s)
          = [EventAppended ?e, EventAppended (worker_event (?q + 1) r w t ts (EvCancelled by'))]"
        using False tk Some \<open>tk_leased_to tk = Some w\<close> by (auto simp: cancel_task_if_active_def Let_def split: if_splits)
      have e: "event_ok s ?e" by (rule worker_event_ok) (use q in simp_all)
      have "n + 2 < 2 ^ 64" using l by (simp add: rs)
      then have "unat (latest_seq_of s w r t) + 2 < 2 ^ 64" by (rule marks_room [OF assms(1)])
      then have q2: "unat (?q + 1) = unat ?q + 1" by (intro unat_Suc) (simp add: q)
      have "event_ok (apply_event s ?e) (worker_event (?q + 1) r w t ts (EvCancelled by'))"
        by (rule event_ok_second [OF e _ _ tk \<open>tk_leased_to tk = Some w\<close>]) (use q2 in simp_all)
      with e show ?thesis by (simp add: rs)
    qed
  qed
qed simp

lemma alert_once_safe:
  assumes "marks_below s n" and "n + 1 < 2 ^ 64"
  shows "safe s (snd (record_failed_attempt_alert_once r t w a l k ts s))"
proof -
  have room: "unat (latest_seq_of s w r t) + 1 < 2 ^ 64" by (rule marks_room [OF assms])
  have "event_ok s (escalated_event r t k ts w (sat_add (latest_seq_of s w r t) 1))"
    unfolding event_ok_def next_seq_def using room
    by (simp add: latest_seq_of_def [symmetric] sat_Suc unat_Suc)
  then show ?thesis by (simp add: record_failed_attempt_alert_once_def)
qed

lemma op_safe:
  assumes i: "fleet_inv s" and ok: "op_ok p" and m: "marks_below s n"
    and room: "n + length (op_records p s) < 2 ^ 64"
    and nr: "\<And>r t w st a q hb at exp c. p \<noteq> OpRestart r t w st a q hb at exp c"
  shows "safe s (op_records p s)"
proof (cases "op_records p s = []")
  case ne: False
  then have r1: "n + 1 < 2 ^ 64" using room by (cases "op_records p s") auto
  have ev: "event_ok s (next_worker_event s r w t ts pl)" if "terminal_payload pl = None" for r w t ts pl
    by (rule next_event_ok [OF m r1]) (use that in simp)
  have at: "event_ok s (next_worker_event s r w t ts pl)" if "attempt_is s r t w st a" for r w t ts pl st a
    by (rule next_event_ok [OF m r1]) (rule attempt_is_task [OF that])
  have b: "base_inv s" using i by (simp add: fleet_inv_def)
  show ?thesis
  proof (cases p)
    case (OpClaimNext w ts)
    then show ?thesis by (simp add: claim_next_safe b)
  next
    case (OpStart r t w at exp m' ps)
    with room ok show ?thesis
      by (auto simp: start_task_if_enqueued_def intro!: lease_with_events_safe [OF b m])
  next
    case (OpLease r t w at exp m')
    with room show ?thesis
      by (auto simp: lease_task_if_enqueued_def intro!: lease_with_events_safe [OF b m])
  next
    case (OpMarkTerminal r t w est ea eseq ts st)
    with ok show ?thesis using attempt_is_task
      by (fastforce simp: mark_task_terminal_status_if_unchanged_def)
  next
    case (OpProgress r w t a ts pl)
    then show ?thesis
      by (auto simp: append_event_if_leased_def append_guarded_def ev)
  next
    case (OpProgressUnchanged r w t a q hb ts pl)
    then show ?thesis
      by (auto simp: append_event_if_lease_unchanged_def append_guarded_def ev)
  next
    case (OpTerminal r w t a ts pl)
    then show ?thesis
      by (auto simp: append_terminal_event_if_leased_def append_guarded_def intro: at version_attempt)
  next
    case (OpTerminalUnchanged r w t a q hb ts pl)
    then show ?thesis
      by (auto simp: append_terminal_event_if_lease_unchanged_def append_guarded_def intro: at version_attempt)
  next
    case (OpFinalize r w t a ts pl fs rc)
    then show ?thesis by (simp add: finalize_safe [OF m r1])
  next
    case (OpRestart r t w st a q hb at exp c)
    with nr show ?thesis by blast
  next
    case (OpAlertOnce r t w a l k ts)
    then show ?thesis by (simp add: alert_once_safe [OF m r1])
  next
    case (OpCancel r t w ts sig by')
    then show ?thesis using room by (simp add: cancel_safe [OF m])
  qed (use ok in \<open>simp_all add: create_run_def update_run_status_def enqueue_def heartbeat_op_def record_receipt_def\<close>)
qed simp

section \<open>Restarts\<close>

text \<open>A restart leases the task again and then supersedes its last event, all in one write; within the
  write the old last event may still say that the task is over.\<close>

lemma restart_records:
  assumes "snd (restart_task_if_unchanged r t w st a q hb at exp c s) \<noteq> []"
  obtains tk where "bm_get (fl_tasks s) (task_key r t) = Some tk" and "tk_leased_to tk = Some w"
    and "\<not> other_task_leased s (task_key r t) w"
    and "snd (restart_task_if_unchanged r t w st a q hb at exp c s) =
      (let q1 = sat_add (latest_seq_of s w r t) 1 in
       [TaskLeasedRec r t w at exp, EventAppended (worker_event q1 r w t at (EvRestarted c)),
        EventAppended (worker_event (sat_add q1 1) r w t at EvRunning), HeartbeatRec w at None None])"
proof -
  from assms have v: "version_is s r t w st a q hb" and o: "\<not> other_task_leased s (task_key r t) w"
    by (auto simp: restart_task_if_unchanged_def split: if_splits)
  from attempt_is_task [OF version_attempt [OF v]] obtain tk
    where tk: "bm_get (fl_tasks s) (task_key r t) = Some tk" "tk_leased_to tk = Some w" by blast
  show ?thesis by (rule that [OF tk o]) (simp add: restart_task_if_unchanged_def v o Let_def)
qed

lemma restart_lawful_inv:
  assumes i: "fleet_inv s" and m: "marks_below s n"
    and room: "n + length (snd (restart_task_if_unchanged r t w st a q hb at exp c s)) < 2 ^ 64"
  shows "lawful s (snd (restart_task_if_unchanged r t w st a q hb at exp c s))
    \<and> fleet_inv (replay_records s (snd (restart_task_if_unchanged r t w st a q hb at exp c s)))"
proof (cases "snd (restart_task_if_unchanged r t w st a q hb at exp c s) = []")
  case True
  with i show ?thesis by simp
next
  case False
  obtain tk where tk: "bm_get (fl_tasks s) (task_key r t) = Some tk" "tk_leased_to tk = Some w"
    and o: "\<not> other_task_leased s (task_key r t) w"
    and rs: "snd (restart_task_if_unchanged r t w st a q hb at exp c s) =
      (let q1 = sat_add (latest_seq_of s w r t) 1 in
       [TaskLeasedRec r t w at exp, EventAppended (worker_event q1 r w t at (EvRestarted c)),
        EventAppended (worker_event (sat_add q1 1) r w t at EvRunning), HeartbeatRec w at None None])"
    using restart_records [OF False] by blast
  let ?lease = "TaskLeasedRec r t w at exp"
  let ?q1 = "sat_add (latest_seq_of s w r t) 1"
  let ?e1 = "worker_event ?q1 r w t at (EvRestarted c)"
  let ?e2 = "worker_event (sat_add ?q1 1) r w t at EvRunning"
  let ?s1 = "apply_record s ?lease"
  have "n + 2 < 2 ^ 64" using room by (simp add: rs Let_def)
  then have lat: "unat (latest_seq_of s w r t) + 2 < 2 ^ 64" by (rule marks_room [OF m])
  then have q1: "unat ?q1 = unat (latest_seq_of s w r t) + 1" by (simp add: sat_Suc unat_Suc)
  then have q2: "unat (sat_add ?q1 1) = unat ?q1 + 1" using lat by (simp add: unat_sat_add)
  have b: "base_inv s" and e: "ends_ok {} s" using i by (simp_all add: fleet_inv_def)
  have adm: "admissible s ?lease"
  proof -
    have "k = task_key r t" if "bm_get (fl_tasks s) k = Some tk'" "worker_is_leased w tk'" for k tk'
      using that o by (auto simp: other_task_leased_def list_ex_iff bm_get_def dest!: map_of_SomeD)
    with tk show ?thesis by auto
  qed
  have b1: "base_inv ?s1" by (rule base_inv_lease [OF b adm])
  have t1: "bm_get (fl_tasks ?s1) (task_key r t) = Some (leased_task w at exp tk)"
    unfolding apply_leased by (simp add: tk(1))
  have le1: "fl_latest_events ?s1 = fl_latest_events s" unfolding apply_leased by simp
  have ends1: "ends_ok (insert (event_key w r t) {}) ?s1"
    unfolding ends_ok_def le1
  proof (unfold mapall_def, intro allI impI)
    fix k d
    assume d: "bm_get (fl_latest_events s) k = Some d" "terminal_payload (ev_payload d) \<noteq> None"
      "k \<notin> {event_key w r t}"
    have h: "has_ended s d" using e d(1,2) by (simp add: ends_ok_def mapall_def)
    have k: "event_lifecycle_key d = k" using b d(1) by (auto simp: base_inv_def events_ok_def dest: mapall_get)
    have "event_task_key d \<noteq> task_key r t"
    proof
      assume same: "event_task_key d = task_key r t"
      with h tk have "ev_worker_id d = w" by (simp add: has_ended_def)
      with same k have "k = event_key w r t"
        by (auto simp: event_lifecycle_key_def event_task_key_def event_key_def task_key_def)
      with d(3) show False by simp
    qed
    with h show "has_ended ?s1 d" unfolding apply_leased by (auto simp: has_ended_def split: option.split)
  qed
  have lat1: "latest_seq_of ?s1 w r t = latest_seq_of s w r t" by (rule latest_seq_lease)
  have ok1: "event_ok ?s1 ?e1" by (rule worker_event_ok) (simp_all only: lat1 q1, simp)
  have nr1: "\<not> regresses ?s1 ?e1"
    unfolding regresses_def task_is_terminal_def worker_event_fields t1 by (simp add: status_terminal_def)
  have "ends_ok {} (apply_event ?s1 ?e1)"
    by (rule ends_ok_event [OF ok1]) (use ends1 nr1 in simp)
  moreover have "event_ok (apply_event ?s1 ?e1) ?e2"
    by (rule event_ok_second [OF ok1 _ _ t1]) (use q2 in simp_all)
  ultimately have sf: "safe (apply_event ?s1 ?e1) [EventAppended ?e2, HeartbeatRec w at None None]"
    and fi: "fleet_inv (apply_event ?s1 ?e1)"
    using base_inv_event [OF b1 ok1] by (simp_all add: fleet_inv_def)
  have "lawful (apply_event ?s1 ?e1) [EventAppended ?e2, HeartbeatRec w at None None]"
    and "fleet_inv (replay_records (apply_event ?s1 ?e1) [EventAppended ?e2, HeartbeatRec w at None None])"
    using safe_lawful [OF sf] safe_inv [OF sf fi] by simp_all
  then show ?thesis using adm ok1
    by (simp add: rs Let_def del: apply_record.simps(4) admissible.simps(2))
qed

section \<open>One operation\<close>

theorem op_step:
  assumes "fleet_inv s" and "op_ok p" and "marks_below s n" and "n + length (op_records p s) < 2 ^ 64"
  shows "lawful s (op_records p s)" and "fleet_inv (replay_records s (op_records p s))"
    and "marks_below (replay_records s (op_records p s)) (n + length (op_records p s))"
proof -
  have both: "lawful s (op_records p s) \<and> fleet_inv (replay_records s (op_records p s))"
  proof (cases "\<exists>r t w st a q hb at exp c. p = OpRestart r t w st a q hb at exp c")
    case True
    then obtain r t w st a q hb at exp c where p: "p = OpRestart r t w st a q hb at exp c" by blast
    then show ?thesis using restart_lawful_inv [OF assms(1,3)] assms(4) by simp
  next
    case False
    have "safe s (op_records p s)" by (rule op_safe [OF assms]) (use False in blast)
    then show ?thesis using safe_lawful safe_inv assms(1) by blast
  qed
  then show "lawful s (op_records p s)" "fleet_inv (replay_records s (op_records p s))" by simp_all
  show "marks_below (replay_records s (op_records p s)) (n + length (op_records p s))"
    by (rule lawful_marks [OF conjunct1 [OF both] assms(3)])
qed

end
