(* ===== verification/Fleet_Compaction.thy ===== *)
theory Fleet_Compaction
  imports Fleet_History
begin

text \<open>
  Compaction: replaying the records it writes gives back the runs with their status, the tasks, the
  high-water marks, the heartbeats, the receipts and the alerts, and again a state of the invariant.
  Only the completion time of a task that was restarted is dropped.
\<close>

section \<open>Maps\<close>

lemma bm_rebuild: "bm_sorted m \<Longrightarrow> map (\<lambda>k. (k, the (bm_get m k))) (map fst m) = m"
  by (auto simp: bm_get_def bm_sorted_def strict_sorted_iff comp_def intro!: map_idI)

lemma bm_eqI:
  assumes "bm_sorted m" and "bm_sorted m'" and eq: "\<And>k. bm_get m k = bm_get m' k"
  shows "m = m'"
proof -
  have d: "distinct (map fst m)" "distinct (map fst m')"
    using assms(1,2) by (simp_all add: bm_sorted_def strict_sorted_iff)
  have "map_of m = map_of m'" using eq by (simp add: fun_eq_iff bm_get_def)
  then have "set m = set m'" using map_of_inject_set [OF d] by simp
  then have "map fst m = map fst m'"
    using assms(1,2) by (intro sorted_distinct_set_unique) (simp_all add: bm_sorted_def strict_sorted_iff)
  moreover have "bm_get m = bm_get m'" using eq by (simp add: fun_eq_iff)
  ultimately show ?thesis using bm_rebuild [OF assms(1)] bm_rebuild [OF assms(2)] by metis
qed

lemma bm_collect_self: "bm_sorted m \<Longrightarrow> bm_collect m = m"
proof (rule bm_eqI [OF bm_sorted_collect])
  assume m: "bm_sorted m"
  then have "distinct (map fst m)" by (simp add: bm_sorted_def strict_sorted_iff)
  then show "bm_get (bm_collect m) k = bm_get m k" for k
    unfolding bm_collect_def by (simp add: bmap.lookup_collect_distinct) (simp add: bm_get_def)
qed

lemma bm_get_in: "bm_sorted m \<Longrightarrow> (k, v) \<in> set m \<longleftrightarrow> bm_get m k = Some v"
  by (auto simp: bm_get_def bm_sorted_def strict_sorted_iff intro: map_of_is_SomeI dest: map_of_SomeD)

lemma distinct_keys_Cons: "distinct (map fst (kv # kvs)) \<Longrightarrow> x \<in> set kvs \<Longrightarrow> fst x \<noteq> fst kv"
  by (simp, metis imageI)

lemma mapall_in: "bm_sorted m \<Longrightarrow> mapall P m \<longleftrightarrow> (\<forall>kv \<in> set m. P (fst kv) (snd kv))"
  by (force simp: mapall_def bm_get_in [symmetric])

section \<open>What a record leaves alone\<close>

lemma replay_frame:
  assumes "\<forall>r \<in> set rs. \<forall>s. f (apply_record s r) = f s" shows "f (replay_records s rs) = f s"
  using assms by (induction rs arbitrary: s) auto

lemma apply_alert_fields [simp]:
  "fl_runs (apply_alert s r t ch ts w a n) = fl_runs s"
  "fl_run_status_overrides (apply_alert s r t ch ts w a n) = fl_run_status_overrides s"
  "fl_tasks (apply_alert s r t ch ts w a n) = fl_tasks s"
  "fl_heartbeats (apply_alert s r t ch ts w a n) = fl_heartbeats s"
  "fl_receipts (apply_alert s r t ch ts w a n) = fl_receipts s"
  by (simp_all add: apply_alert_def Let_def tasks_apply_event split: option.split)

lemma put_receipt_fields [simp]:
  "fl_runs (put_receipt rc s) = fl_runs s"
  "fl_run_status_overrides (put_receipt rc s) = fl_run_status_overrides s"
  "fl_tasks (put_receipt rc s) = fl_tasks s"
  "fl_heartbeats (put_receipt rc s) = fl_heartbeats s"
  "fl_latest_seq (put_receipt rc s) = fl_latest_seq s"
  "fl_latest_events (put_receipt rc s) = fl_latest_events s"
  "fl_alerts (put_receipt rc s) = fl_alerts s"
  by (simp_all add: put_receipt_def)

text \<open>The part of the compacted file a record belongs to, and the fields the records of a part touch.\<close>

fun record_part :: "fleet_record \<Rightarrow> nat" where
  "record_part (RunCreated r) = 0"
| "record_part (RunStatusChanged r st ts) = 0"
| "record_part (TaskEnqueuedRec e) = 1"
| "record_part (TaskLeasedRec r t w at exp) = 1"
| "record_part (AlertSent r t ch ts w a n) = 2"
| "record_part (EventAppended e) = 3"
| "record_part (TaskAttemptFinalized e fs rc) = 3"
| "record_part (EventSequenceCheckpoint r w t n) = 4"
| "record_part (HeartbeatRec w ts c m) = 5"
| "record_part (TaskCompletedOrFailed r t w ts st) = 6"
| "record_part (ReceiptRecorded rc) = 7"

lemma record_frames:
  "record_part r \<noteq> 0 \<Longrightarrow> fl_runs (apply_record s r) = fl_runs s"
  "record_part r \<noteq> 0 \<Longrightarrow> fl_run_status_overrides (apply_record s r) = fl_run_status_overrides s"
  "record_part r \<notin> {1, 3, 6} \<Longrightarrow> fl_tasks (apply_record s r) = fl_tasks s"
  "record_part r \<noteq> 5 \<Longrightarrow> fl_heartbeats (apply_record s r) = fl_heartbeats s"
  "record_part r \<notin> {3, 7} \<Longrightarrow> fl_receipts (apply_record s r) = fl_receipts s"
  "record_part r \<noteq> 2 \<Longrightarrow> fl_alerts (apply_record s r) = fl_alerts s"
  "record_part r \<notin> {2, 3} \<Longrightarrow> fl_latest_events (apply_record s r) = fl_latest_events s"
  "record_part r \<notin> {2, 3, 4} \<Longrightarrow> fl_latest_seq (apply_record s r) = fl_latest_seq s"
  by (cases r; simp add: Let_def split: option.split)+

lemma replay_frames:
  "\<forall>r \<in> set rs. record_part r \<noteq> 0 \<Longrightarrow> fl_runs (replay_records s rs) = fl_runs s"
  "\<forall>r \<in> set rs. record_part r \<noteq> 0 \<Longrightarrow> fl_run_status_overrides (replay_records s rs) = fl_run_status_overrides s"
  "\<forall>r \<in> set rs. record_part r \<notin> {1, 3, 6} \<Longrightarrow> fl_tasks (replay_records s rs) = fl_tasks s"
  "\<forall>r \<in> set rs. record_part r \<noteq> 5 \<Longrightarrow> fl_heartbeats (replay_records s rs) = fl_heartbeats s"
  "\<forall>r \<in> set rs. record_part r \<notin> {3, 7} \<Longrightarrow> fl_receipts (replay_records s rs) = fl_receipts s"
  "\<forall>r \<in> set rs. record_part r \<noteq> 2 \<Longrightarrow> fl_alerts (replay_records s rs) = fl_alerts s"
  "\<forall>r \<in> set rs. record_part r \<notin> {2, 3} \<Longrightarrow> fl_latest_events (replay_records s rs) = fl_latest_events s"
  "\<forall>r \<in> set rs. record_part r \<notin> {2, 3, 4} \<Longrightarrow> fl_latest_seq (replay_records s rs) = fl_latest_seq s"
  by (rule replay_frame; use record_frames in blast)+

section \<open>What every record keeps\<close>

text \<open>The marks only grow, and the orders of the maps and the bookkeeping of the events hold after any record.\<close>

lemma marks_grow_refl: "marks_grow s s"
  by (auto simp: marks_grow_def mapall_def noted_def)

lemma marks_grow_cong: "fl_latest_seq s' = fl_latest_seq s \<Longrightarrow> marks_grow s s'"
  by (auto simp: marks_grow_def mapall_def noted_def)

lemma marks_grow_trans: "marks_grow s s' \<Longrightarrow> marks_grow s' s'' \<Longrightarrow> marks_grow s s''"
  using noted_grow by (auto simp: marks_grow_def elim!: mapall_mono)

lemma marks_grow_alert: "marks_grow s (apply_alert s r t ch ts w a n)"
proof -
  have "marks_grow s (apply_event (s\<lparr>fl_alerts := A\<rparr>) e)" for A e
    by (rule marks_grow_trans [OF _ marks_grow_event]) (simp add: marks_grow_cong)
  then show ?thesis by (auto simp: apply_alert_def Let_def marks_grow_refl intro: marks_grow_cong split: option.split)
qed

lemma marks_grow_apply: "marks_grow s (apply_record s r)"
proof (cases r)
  case (TaskAttemptFinalized e fs rc)
  show ?thesis unfolding TaskAttemptFinalized apply_record.simps
    by (rule marks_grow_trans [OF marks_grow_event [of s e]])
      (auto simp: split: option.split intro!: marks_grow_cong)
next
  case (EventSequenceCheckpoint r w t n)
  then show ?thesis
    by (auto simp: marks_grow_def mapall_def noted_def Let_def split: option.split)
qed (auto simp: marks_grow_event marks_grow_alert Let_def split: option.split intro!: marks_grow_cong)

lemma marks_grow_replay: "marks_grow s (replay_records s rs)"
proof (induction rs arbitrary: s)
  case (Cons r rs)
  show ?case by (simp, rule marks_grow_trans [OF marks_grow_apply Cons.IH])
qed (simp add: marks_grow_refl)

lemma events_ok_apply_alert: "events_ok s \<Longrightarrow> events_ok (apply_alert s r t ch ts w a n)"
proof -
  assume e: "events_ok s"
  have a: "events_ok (s\<lparr>fl_alerts := A\<rparr>)" for A
    using events_ok_cong(1) [of "s\<lparr>fl_alerts := A\<rparr>" s] e by simp
  then show ?thesis using e by (auto simp: apply_alert_def Let_def events_ok_event split: option.split)
qed

lemma events_ok_checkpoint:
  assumes "events_ok s" shows "events_ok (apply_record s (EventSequenceCheckpoint r w t n))"
proof -
  let ?s = "apply_record s (EventSequenceCheckpoint r w t n)"
  note grow = noted_grow [OF marks_grow_apply [of s "EventSequenceCheckpoint r w t n"]]
  have side: "side_event ?s e = side_event s e" for e by (simp add: side_event_def Let_def)
  have own: "owner_of ?s k" if "owner_of s k \<or> k = event_key w r t" for k
    using that by (auto simp: owner_of_def Let_def)
  have "mapall (\<lambda>k n. owner_of ?s k) (fl_latest_seq ?s)"
  proof -
    have "mapall (\<lambda>k n. owner_of ?s k) (fl_latest_seq s)"
      using assms own by (auto simp: events_ok_def elim!: mapall_mono)
    moreover have "owner_of ?s (event_key w r t)" by (rule own) simp
    moreover obtain q where "fl_latest_seq ?s = bm_insert (event_key w r t) q (fl_latest_seq s)"
      by (simp add: Let_def)
    ultimately show ?thesis by (simp only: mapall_insert)
  qed
  moreover have "mapall (\<lambda>k e. event_lifecycle_key e = k \<and> noted ?s k (ev_seq e)) (fl_latest_events ?s)"
  proof -
    have "fl_latest_events ?s = fl_latest_events s" by (rule record_frames(7)) simp
    then show ?thesis using assms grow unfolding events_ok_def by (auto elim!: mapall_mono simp del: apply_record.simps)
  qed
  ultimately show ?thesis using assms grow side by (simp add: events_ok_def del: apply_record.simps)
qed

lemma events_ok_apply:
  assumes "events_ok s" shows "events_ok (apply_record s r)"
proof (cases r)
  case (TaskAttemptFinalized e fs rc)
  have e: "events_ok (apply_event s e)" by (rule events_ok_event [OF assms])
  have "events_ok (apply_record s r) = events_ok (apply_event s e)"
    by (rule events_ok_cong) (simp_all add: TaskAttemptFinalized put_receipt_def split: option.split)
  with e show ?thesis by simp
next
  case (EventSequenceCheckpoint x1 x2 x3 x4)
  with events_ok_checkpoint [OF assms] show ?thesis by simp
next
  case (AlertSent x1 x2 x3 x4 x5 x6 x7)
  with events_ok_apply_alert [OF assms] show ?thesis by simp
next
  case (EventAppended e)
  with events_ok_event [OF assms] show ?thesis by simp
next
  case (HeartbeatRec w ts c m)
  have "events_ok (apply_record s r) = events_ok s"
    by (rule events_ok_cong) (simp_all add: HeartbeatRec Let_def)
  with assms show ?thesis by simp
next
  case (TaskEnqueuedRec e)
  have "events_ok (apply_record s r) = events_ok s"
    by (rule events_ok_cong) (simp_all add: TaskEnqueuedRec Let_def split: option.split)
  with assms show ?thesis by simp
next
  case (TaskLeasedRec x1 x2 x3 x4 x5)
  have "events_ok (apply_record s r) = events_ok s"
    by (rule events_ok_cong) (simp_all add: TaskLeasedRec split: option.split)
  with assms show ?thesis by simp
next
  case (TaskCompletedOrFailed x1 x2 x3 x4 x5)
  have "events_ok (apply_record s r) = events_ok s"
    by (rule events_ok_cong) (simp_all add: TaskCompletedOrFailed)
  with assms show ?thesis by simp
next
  case (RunCreated x)
  have "events_ok (apply_record s r) = events_ok s" by (rule events_ok_cong) (simp_all add: RunCreated)
  with assms show ?thesis by simp
next
  case (RunStatusChanged x1 x2 x3)
  have "events_ok (apply_record s r) = events_ok s" by (rule events_ok_cong) (simp_all add: RunStatusChanged)
  with assms show ?thesis by simp
next
  case (ReceiptRecorded rc)
  have "events_ok (apply_record s r) = events_ok s" by (rule events_ok_cong) (simp_all add: ReceiptRecorded put_receipt_def)
  with assms show ?thesis by simp
qed

lemma maps_ok_event: "maps_ok s \<Longrightarrow> maps_ok (apply_event s e)"
  by (simp add: maps_ok_def latest_seq_apply_event latest_events_apply_event tasks_apply_event split: option.split)

lemma maps_ok_mark: "maps_ok s \<Longrightarrow> maps_ok (mark_task_terminal s r t w ts st)"
  by (simp add: maps_ok_def tasks_mark split: option.split)

lemma maps_ok_receipt: "maps_ok s \<Longrightarrow> maps_ok (put_receipt rc s)"
  by (simp add: maps_ok_def put_receipt_def mapall_insert)

lemma maps_ok_alert: "maps_ok s \<Longrightarrow> maps_ok (apply_alert s r t ch ts w a n)"
  unfolding apply_alert_def Let_def apply_event_alerts
  using maps_ok_event by (auto simp: maps_ok_def split: option.split)

lemma maps_ok_apply: "maps_ok s \<Longrightarrow> maps_ok (apply_record s r)"
proof (cases r)
  case (TaskAttemptFinalized e fs rc)
  assume "maps_ok s"
  with TaskAttemptFinalized show ?thesis
    by (simp add: maps_ok_receipt maps_ok_event maps_ok_mark split: option.split)
qed (auto simp: maps_ok_event maps_ok_mark maps_ok_receipt maps_ok_alert,
  auto simp: maps_ok_def Let_def mapall_insert split: option.split)

lemma replay_keeps:
  assumes "\<And>s r. P s \<Longrightarrow> P (apply_record s r)" shows "P s \<Longrightarrow> P (replay_records s rs)"
  using assms by (induction rs arbitrary: s) auto

lemma replay_inv:
  assumes "\<And>s r. r \<in> set rs \<Longrightarrow> P s \<Longrightarrow> P (apply_record s r)" shows "P s \<Longrightarrow> P (replay_records s rs)"
  using assms by (induction rs arbitrary: s) auto

section \<open>Rebuilding the tasks\<close>

text \<open>A task as the first part of the compacted records gives it, and what is left of it in the end.\<close>

definition unfinished :: "fleet_task \<Rightarrow> fleet_task" where
  "unfinished t = t\<lparr>tk_status := (if tk_leased_to t = None then Enqueued else Leased), tk_completed_at := None\<rparr>"

definition compacted_task :: "fleet_task \<Rightarrow> fleet_task" where
  "compacted_task t = (if status_terminal (tk_status t) then t else t\<lparr>tk_completed_at := None\<rparr>)"

lemma sat_add_pred: "0 < (a :: u32) \<Longrightarrow> sat_add (a - 1) 1 = a"
proof -
  assume "0 < a"
  then have "unat (a - 1) = unat a - 1" "0 < unat a" by (simp_all add: unat_minus_one word_greater_zero_iff unat_gt_0)
  moreover have "unat a < 2 ^ 32" using unsigned_less [of a] by simp
  ultimately have "unat (sat_add (a - 1) 1) = unat a" by (simp add: unat_sat_add)
  then show ?thesis by (simp add: word_unat_eq_iff)
qed

lemma replay_compact_task:
  assumes "task_ok k t" and "bm_get (fl_tasks s) k = None" and "bm_sorted (fl_tasks s)"
  shows "fl_tasks (replay_records s (compact_task t)) = bm_insert k (unfinished t) (fl_tasks s)"
proof (cases "tk_leased_to t")
  case None
  have "tk_leased_at t = None" using assms(1) None by (simp add: task_ok_def)
  then have "\<lparr>tk_entry = tk_entry t, tk_status = Enqueued, tk_leased_to = None, tk_leased_at = None, tk_completed_at = None\<rparr>
      = unfinished t" by (simp add: unfinished_def None)
  with None assms show ?thesis by (simp add: compact_task_def task_ok_def Let_def)
next
  case (Some w)
  obtain at where at: "tk_leased_at t = Some at" "0 < fe_attempts (tk_entry t)"
    using assms(1) Some by (auto simp: task_ok_def)
  let ?en = "(tk_entry t)\<lparr>fe_attempts := fe_attempts (tk_entry t) - 1, fe_lease_deadline := None\<rparr>"
  let ?t0 = "\<lparr>tk_entry = ?en, tk_status = Enqueued, tk_leased_to = None, tk_leased_at = None, tk_completed_at = None\<rparr>"
  have lt: "leased_task w at (fe_lease_deadline (tk_entry t)) ?t0 = unfinished t"
    using at by (simp add: leased_task_def unfinished_def Some sat_add_pred)
  have k: "task_key (fe_run_id (tk_entry t)) (fe_task_id (tk_entry t)) = k" using assms(1) by (simp add: task_ok_def)
  have twice: "bm_insert k x (bm_insert k y m) = bm_insert k x m" if "bm_sorted m" for x y :: fleet_task and m
    by (rule bm_eqI) (use that in simp_all)
  have recs: "compact_task t = [TaskEnqueuedRec ?en,
      TaskLeasedRec (fe_run_id (tk_entry t)) (fe_task_id (tk_entry t)) w at (fe_lease_deadline (tk_entry t))]"
    using at by (simp add: compact_task_def Some unwrap_or_def word_greater_zero_iff)
  have s1: "apply_record s (TaskEnqueuedRec ?en) = s\<lparr>fl_tasks := bm_insert k ?t0 (fl_tasks s)\<rparr>"
    using assms(2) by (simp add: k Let_def)
  show ?thesis unfolding recs replay_Cons replay_Nil s1 apply_leased k
    by (simp add: lt twice assms(3))
qed

lemma map_of_Cons_fst: "map_of (kv # kvs) k = (if k = fst kv then Some (snd kv) else map_of kvs k)"
  by (cases kv) simp

lemma replay_compact_tasks:
  assumes "\<forall>kt \<in> set kts. task_ok (fst kt) (snd kt)" and "distinct (map fst kts)"
    and "\<forall>kt \<in> set kts. bm_get (fl_tasks s) (fst kt) = None" and "maps_ok s"
  shows "bm_get (fl_tasks (replay_records s (concat (map compact_task (map snd kts))))) k
    = (case map_of kts k of Some t \<Rightarrow> Some (unfinished t) | None \<Rightarrow> bm_get (fl_tasks s) k)"
  using assms
proof (induction kts arbitrary: s)
  case (Cons kt kts)
  let ?s1 = "replay_records s (compact_task (snd kt))"
  have "bm_sorted (fl_tasks s)" using Cons.prems(4) by (simp add: maps_ok_def)
  then have t1: "fl_tasks ?s1 = bm_insert (fst kt) (unfinished (snd kt)) (fl_tasks s)"
    using Cons.prems(1,3) by (intro replay_compact_task) simp_all
  have "bm_get (fl_tasks (replay_records ?s1 (concat (map compact_task (map snd kts))))) k
    = (case map_of kts k of Some t \<Rightarrow> Some (unfinished t) | None \<Rightarrow> bm_get (fl_tasks ?s1) k)"
  proof (rule Cons.IH)
    show "\<forall>kt \<in> set kts. bm_get (fl_tasks ?s1) (fst kt) = None"
      using Cons.prems(3) distinct_keys_Cons [OF Cons.prems(2)] by (simp add: t1)
    show "maps_ok ?s1" by (rule replay_keeps [OF maps_ok_apply Cons.prems(4)])
  qed (use Cons.prems in simp_all)
  moreover have "map_of kts (fst kt) = None" using Cons.prems(2) by (simp add: map_of_eq_None_iff)
  ultimately show ?case using t1 by (cases "k = fst kt") (simp_all add: map_of_Cons_fst split: option.split)
qed simp

section \<open>Replaying the alerts and the events\<close>

text \<open>Between the tasks and the checkpoints the replayed state \<open>s'\<close> stands in this relation to the compacted
  state \<open>s\<close>.\<close>

definition task_sim :: "fleet_task option \<Rightarrow> fleet_task option \<Rightarrow> bool" where
  "task_sim x y \<longleftrightarrow> (case x of None \<Rightarrow> y = None
     | Some t \<Rightarrow> (\<exists>t'. y = Some t' \<and> tk_entry t' = tk_entry t \<and> tk_leased_to t' = tk_leased_to t
         \<and> tk_leased_at t' = tk_leased_at t
         \<and> (tk_status t' = tk_status (unfinished t) \<and> tk_completed_at t' = None \<or> status_terminal (tk_status t))))"

definition replayed :: "fleet_state \<Rightarrow> fleet_state \<Rightarrow> bool" where
  "replayed s s' \<longleftrightarrow> (\<forall>k. task_sim (bm_get (fl_tasks s) k) (bm_get (fl_tasks s') k))
     \<and> mapall (noted s) (fl_latest_seq s')
     \<and> mapall (\<lambda>k e. terminal_payload (ev_payload e) \<noteq> None \<longrightarrow> has_ended s e) (fl_latest_events s')"

definition replayable :: "fleet_state \<Rightarrow> fleet_worker_event \<Rightarrow> bool" where
  "replayable s e \<longleftrightarrow> noted s (event_lifecycle_key e) (ev_seq e)
     \<and> (terminal_payload (ev_payload e) \<noteq> None \<longrightarrow> has_ended s e)"

lemma replayed_event:
  assumes r: "replayed s s'" and e: "replayable s e"
  shows "replayed s (apply_event s' e)"
proof -
  have sim: "task_sim (bm_get (fl_tasks s) k) (bm_get (fl_tasks s') k)" for k using r by (simp add: replayed_def)
  have "task_sim (bm_get (fl_tasks s) k) (bm_get (fl_tasks (apply_event s' e)) k)" for k
  proof (cases "terminal_payload (ev_payload e) = None \<or> k \<noteq> event_task_key e")
    case True
    then show ?thesis using sim by (auto simp: tasks_apply_event split: option.split)
  next
    case False
    then obtain st t where st: "terminal_payload (ev_payload e) = Some st" and k: "k = event_task_key e"
      and t: "bm_get (fl_tasks s) k = Some t" "status_terminal (tk_status t)" "tk_leased_to t = Some (ev_worker_id e)"
      using e by (auto simp: replayable_def has_ended_def)
    obtain t' where t': "bm_get (fl_tasks s') k = Some t'" "tk_entry t' = tk_entry t"
        "tk_leased_to t' = tk_leased_to t" "tk_leased_at t' = tk_leased_at t"
      using sim [of k] t(1) by (auto simp: task_sim_def)
    have "bm_get (fl_tasks (apply_event s' e)) k = Some (ended (ev_worker_id e) (ev_timestamp e) st t')"
      using t'(1) by (simp add: tasks_apply_event st k)
    with t t' show ?thesis by (simp add: task_sim_def)
  qed
  moreover have "mapall (noted s) (fl_latest_seq (apply_event s' e))"
    using r e by (simp add: replayed_def replayable_def latest_seq_apply_event mapall_insert)
  moreover have "mapall (\<lambda>k e. terminal_payload (ev_payload e) \<noteq> None \<longrightarrow> has_ended s e)
      (fl_latest_events (apply_event s' e))"
    using r e by (simp add: replayed_def replayable_def latest_events_apply_event mapall_insert)
  ultimately show ?thesis by (simp add: replayed_def)
qed

lemma replayed_cong:
  assumes "replayed s s'" and "fl_tasks s'' = fl_tasks s'" and "fl_latest_seq s'' = fl_latest_seq s'"
    and "fl_latest_events s'' = fl_latest_events s'"
  shows "replayed s s''"
  using assms by (simp add: replayed_def)

text \<open>Alerts: each goes in under its own key.\<close>

lemma compact_alert_apply:
  assumes "alert_ok s0 k a"
  shows "\<exists>w at n. noted s0 (event_key w (fa_run_id a) (fa_task_id a)) n \<and> k = alert_key (fa_run_id a) (fa_task_id a) (Some at) (fa_channel a)
    \<and> fa_worker_id a = Some w \<and> fa_attempt a = Some at \<and> fa_seq a = Some n
    \<and> apply_record s (compact_alert a) = apply_alert s (fa_run_id a) (fa_task_id a) (fa_channel a) (fa_timestamp a)
      (Some w) (Some at) (Some n)"
  using assms by (auto simp: alert_ok_def compact_alert_def)

lemma alert_insert:
  assumes "alert_ok s0 k a" and "bm_get (fl_alerts s) k = None"
  shows "fl_alerts (apply_record s (compact_alert a)) = bm_insert k a (fl_alerts s)"
    and "replayed s0 s \<Longrightarrow> replayed s0 (apply_record s (compact_alert a))"
    and "mapall (alert_ok s) (fl_alerts s) \<Longrightarrow>
      mapall (alert_ok (apply_record s (compact_alert a))) (fl_alerts (apply_record s (compact_alert a)))"
proof -
  obtain w at n where a: "noted s0 (event_key w (fa_run_id a) (fa_task_id a)) n"
      "k = alert_key (fa_run_id a) (fa_task_id a) (Some at) (fa_channel a)"
      "fa_worker_id a = Some w" "fa_attempt a = Some at" "fa_seq a = Some n"
    and ap: "apply_record s (compact_alert a) = apply_alert s (fa_run_id a) (fa_task_id a) (fa_channel a)
      (fa_timestamp a) (Some w) (Some at) (Some n)"
    using compact_alert_apply [OF assms(1), of s] by blast
  let ?e = "escalated_event (fa_run_id a) (fa_task_id a) (fa_channel a) (fa_timestamp a) w n"
  have new: "\<lparr>fa_run_id = fa_run_id a, fa_task_id = fa_task_id a, fa_channel = fa_channel a,
      fa_timestamp = fa_timestamp a, fa_worker_id = Some w, fa_attempt = Some at, fa_seq = Some n\<rparr> = a"
    using a by (cases a) simp
  have st: "apply_record s (compact_alert a) = (apply_event s ?e)\<lparr>fl_alerts := bm_insert k a (fl_alerts s)\<rparr>"
    unfolding ap using assms(2) by (subst apply_alert_new) (simp_all add: apply_event_alerts a(2) new)
  show "fl_alerts (apply_record s (compact_alert a)) = bm_insert k a (fl_alerts s)" by (simp add: st)
  show "replayed s0 (apply_record s (compact_alert a))" if "replayed s0 s"
  proof (rule replayed_cong)
    show "replayed s0 (apply_event s ?e)" by (rule replayed_event [OF that]) (use a(1) in \<open>simp add: replayable_def\<close>)
  qed (simp_all add: st)
  show "mapall (alert_ok (apply_record s (compact_alert a))) (fl_alerts (apply_record s (compact_alert a)))"
    if m: "mapall (alert_ok s) (fl_alerts s)"
  proof -
    have ok: "alert_ok (apply_record s (compact_alert a)) = alert_ok (apply_event s ?e)"
      by (rule events_ok_cong) (simp_all add: st)
    have "noted (apply_event s ?e) (event_key w (fa_run_id a) (fa_task_id a)) n"
      using noted_event [of s ?e] by simp
    then have "alert_ok (apply_event s ?e) k a" using a by (simp add: alert_ok_def)
    moreover have "mapall (alert_ok (apply_event s ?e)) (fl_alerts s)"
      using m alert_ok_grow [OF marks_grow_event] by (rule mapall_mono)
    ultimately show ?thesis unfolding ok by (simp add: st mapall_insert)
  qed
qed

lemma replay_alerts:
  assumes "\<forall>ka \<in> set kas. alert_ok s0 (fst ka) (snd ka)" and "distinct (map fst kas)"
    and "\<forall>ka \<in> set kas. bm_get (fl_alerts s) (fst ka) = None" and "replayed s0 s" and "mapall (alert_ok s) (fl_alerts s)"
  defines "s' \<equiv> replay_records s (map compact_alert (map snd kas))"
  shows "replayed s0 s' \<and> mapall (alert_ok s') (fl_alerts s')
    \<and> fl_alerts s' = foldl (\<lambda>m kv. bm_insert (fst kv) (snd kv) m) (fl_alerts s) kas"
  using assms(1-5) unfolding s'_def
proof (induction kas arbitrary: s)
  case (Cons ka kas)
  have a: "alert_ok s0 (fst ka) (snd ka)" "bm_get (fl_alerts s) (fst ka) = None" using Cons.prems by simp_all
  note st = alert_insert [OF a]
  let ?s1 = "apply_record s (compact_alert (snd ka))"
  have none: "\<forall>ka \<in> set kas. bm_get (fl_alerts ?s1) (fst ka) = None"
    unfolding st(1) using Cons.prems(3) distinct_keys_Cons [OF Cons.prems(2)] by simp
  have "replayed s0 (replay_records ?s1 (map compact_alert (map snd kas)))
      \<and> mapall (alert_ok (replay_records ?s1 (map compact_alert (map snd kas))))
          (fl_alerts (replay_records ?s1 (map compact_alert (map snd kas))))
      \<and> fl_alerts (replay_records ?s1 (map compact_alert (map snd kas)))
        = foldl (\<lambda>m kv. bm_insert (fst kv) (snd kv) m) (fl_alerts ?s1) kas"
    by (rule Cons.IH) (use Cons.prems none st in simp_all)
  then show ?case unfolding st(1) list.map replay_Cons foldl_Cons by assumption
qed simp

section \<open>Checkpoints and ends\<close>

lemma replayed_checkpoint:
  assumes r: "replayed s s'" and n: "noted s (event_key w r t) n"
  shows "replayed s (apply_record s' (EventSequenceCheckpoint r w t n))"
proof -
  have m: "mapall (noted s) (fl_latest_seq s')" using r by (simp add: replayed_def)
  have max: "noted s k a \<Longrightarrow> noted s k b \<Longrightarrow> noted s k (max a b)" for k and a b :: u64
    by (auto simp: noted_def)
  have "mapall (noted s) (bm_insert (event_key w r t)
      (case bm_get (fl_latest_seq s') (event_key w r t) of Some q \<Rightarrow> max q n | None \<Rightarrow> n) (fl_latest_seq s'))"
    by (rule mapall_insert [OF m]) (use n mapall_get [OF m] max in \<open>auto split: option.split\<close>)
  with r show ?thesis by (simp add: replayed_def Let_def)
qed

lemma noted_checkpoint: "noted (apply_record s (EventSequenceCheckpoint r w t n)) (event_key w r t) n"
  by (simp add: noted_def Let_def split: option.split)

lemma noted_after:
  assumes "r \<in> set rs" and "\<And>s. noted (apply_record s r) k n" shows "noted (replay_records s rs) k n"
  using assms(1)
proof (induction rs arbitrary: s)
  case (Cons x xs)
  show ?case
  proof (cases "x = r")
    case True
    have "noted (replay_records (apply_record s r) xs) k n"
      by (rule noted_grow [OF marks_grow_replay assms(2)])
    with True show ?thesis by simp
  next
    case False
    with Cons show ?thesis by simp
  qed
qed simp

lemma checkpoint_in:
  assumes "bm_sorted (fl_latest_seq s)" and "x \<in> set (compact_checkpoints s)" and "events_ok s"
  shows "\<exists>r w t n. x = EventSequenceCheckpoint r w t n \<and> noted s (event_key w r t) n"
proof -
  from assms(2) obtain k n w where kn: "(k, n) \<in> set (fl_latest_seq s)" "bm_get (fl_sequence_owners s) k = Some w"
    and x: "x = EventSequenceCheckpoint (so_run_id w) (so_worker_id w) (so_task_id w) n"
    by (auto simp: compact_checkpoints_def List.map_filter_def split: option.splits)
  have g: "bm_get (fl_latest_seq s) k = Some n" using kn(1) by (simp add: bm_get_in [OF assms(1)])
  then have "owner_of s k" using assms(3) by (auto simp: events_ok_def dest: mapall_get)
  then have "event_key (so_worker_id w) (so_run_id w) (so_task_id w) = k" using kn(2) by (simp add: owner_of_def)
  with g x show ?thesis by (auto simp: noted_def)
qed

lemma checkpoint_written:
  assumes "events_ok s" and "bm_get (fl_latest_seq s) k = Some n"
  shows "\<exists>r w t. EventSequenceCheckpoint r w t n \<in> set (compact_checkpoints s) \<and> event_key w r t = k"
proof -
  have "owner_of s k" using assms by (auto simp: events_ok_def dest: mapall_get)
  then obtain w where w: "bm_get (fl_sequence_owners s) k = Some w"
    "event_key (so_worker_id w) (so_run_id w) (so_task_id w) = k" by (auto simp: owner_of_def)
  have "(k, n) \<in> set (fl_latest_seq s)" using assms(2) by (auto simp: bm_get_def dest: map_of_SomeD)
  then have "EventSequenceCheckpoint (so_run_id w) (so_worker_id w) (so_task_id w) n \<in> set (compact_checkpoints s)"
    using w(1) by (force simp: compact_checkpoints_def List.map_filter_def)
  with w(2) show ?thesis by blast
qed

lemma compacted_task_ended:
  assumes "task_ok k t" and "status_terminal (tk_status t)" and "tk_entry t' = tk_entry t"
    and "tk_leased_to t' = tk_leased_to t" and "tk_leased_at t' = tk_leased_at t"
  shows "ended (unwrap_or [] (tk_leased_to t)) (unwrap_or [] (tk_completed_at t)) (tk_status t) t' = compacted_task t"
proof -
  obtain c where "tk_completed_at t = Some c" using assms(1,2) by (auto simp: task_ok_def)
  then show ?thesis using assms(2-5)
    by (cases t; cases t'; cases "tk_leased_to t") (auto simp: ended_def compacted_task_def unwrap_or_def)
qed

lemma compacted_task_unfinished:
  assumes "task_ok k t" and "\<not> status_terminal (tk_status t)" and "tk_entry t' = tk_entry t"
    and "tk_leased_to t' = tk_leased_to t" and "tk_leased_at t' = tk_leased_at t"
    and "tk_status t' = tk_status (unfinished t)" and "tk_completed_at t' = None"
  shows "t' = compacted_task t"
proof -
  have "tk_status t = Leased \<or> tk_status t = Enqueued" using assms(2) by (cases "tk_status t") (auto simp: status_terminal_def)
  then have "tk_status (unfinished t) = tk_status t" using assms(1) by (auto simp: task_ok_def unfinished_def)
  then show ?thesis using assms(2-7) by (cases t; cases t') (simp add: compacted_task_def)
qed

lemma replay_compact_terminal:
  assumes ok: "task_ok k t" and sim: "task_sim (Some t) (bm_get (fl_tasks s) k)"
  shows "bm_get (fl_tasks (replay_records s (compact_terminal t))) k'
    = (if k' = k then Some (compacted_task t) else bm_get (fl_tasks s) k')"
proof -
  have k: "task_key (fe_run_id (tk_entry t)) (fe_task_id (tk_entry t)) = k" using ok by (simp add: task_ok_def)
  obtain t' where t': "bm_get (fl_tasks s) k = Some t'" "tk_entry t' = tk_entry t"
      "tk_leased_to t' = tk_leased_to t" "tk_leased_at t' = tk_leased_at t"
    and st: "tk_status t' = tk_status (unfinished t) \<and> tk_completed_at t' = None \<or> status_terminal (tk_status t)"
    using sim by (auto simp: task_sim_def)
  show ?thesis
  proof (cases "status_terminal (tk_status t)")
    case True
    with t' show ?thesis by (simp add: compact_terminal_def k tasks_mark compacted_task_ended [OF ok True])
  next
    case False
    with t' st compacted_task_unfinished [OF ok False] show ?thesis by (simp add: compact_terminal_def)
  qed
qed

lemma replay_compact_terminals:
  assumes "\<forall>kt \<in> set kts. task_ok (fst kt) (snd kt) \<and> task_sim (Some (snd kt)) (bm_get (fl_tasks s) (fst kt))"
    and "distinct (map fst kts)"
  shows "bm_get (fl_tasks (replay_records s (concat (map compact_terminal (map snd kts))))) k
    = (case map_of kts k of Some t \<Rightarrow> Some (compacted_task t) | None \<Rightarrow> bm_get (fl_tasks s) k)"
  using assms
proof (induction kts arbitrary: s)
  case (Cons kt kts)
  let ?s1 = "replay_records s (compact_terminal (snd kt))"
  have t1: "bm_get (fl_tasks ?s1) k' = (if k' = fst kt then Some (compacted_task (snd kt)) else bm_get (fl_tasks s) k')" for k'
    by (rule replay_compact_terminal) (use Cons.prems(1) in simp_all)
  have "bm_get (fl_tasks (replay_records ?s1 (concat (map compact_terminal (map snd kts))))) k
    = (case map_of kts k of Some t \<Rightarrow> Some (compacted_task t) | None \<Rightarrow> bm_get (fl_tasks ?s1) k)"
    by (rule Cons.IH) (use Cons.prems(1) distinct_keys_Cons [OF Cons.prems(2)] Cons.prems(2) in \<open>simp_all add: t1\<close>)
  moreover have "map_of kts (fst kt) = None" using Cons.prems(2) by (simp add: map_of_eq_None_iff)
  ultimately show ?case using t1 by (cases "k = fst kt") (simp_all add: map_of_Cons_fst split: option.split)
qed simp

end
