(* ===== verification/Fleet_Compacted.thy ===== *)
theory Fleet_Compacted
  imports Fleet_Compaction
begin

text \<open>The state after a compaction, field by field, and the invariant of every history.\<close>

section \<open>The replay in stages\<close>

definition compacted_tasks :: "fleet_state \<Rightarrow> fleet_state" where
  "compacted_tasks s = replay_records fleet_state_empty
     (concat (map (compact_run s) (bm_values (fl_runs s))) @ concat (map compact_task (bm_values (fl_tasks s))))"

definition compacted_alerts :: "fleet_state \<Rightarrow> fleet_state" where
  "compacted_alerts s = replay_records (compacted_tasks s) (map compact_alert (bm_values (fl_alerts s)))"

definition compacted_marks :: "fleet_state \<Rightarrow> fleet_state" where
  "compacted_marks s = replay_records (compacted_alerts s)
     (map EventAppended (compacted_events s) @ compact_checkpoints s)"

definition compacted :: "fleet_state \<Rightarrow> fleet_state" where
  "compacted s = replay_records fleet_state_empty (compact_records s)"

lemma compacted_stages: "compacted s = replay_records (compacted_marks s)
    (map compact_heartbeat (fl_heartbeats s) @ concat (map compact_terminal (bm_values (fl_tasks s)))
     @ map ReceiptRecorded (bm_values (fl_receipts s)))"
  by (simp add: compacted_def compact_records_def compacted_marks_def compacted_alerts_def compacted_tasks_def)

lemma parts [simp]:
  "\<forall>r \<in> set (concat (map (compact_run s) xs)). record_part r = 0"
  "\<forall>r \<in> set (concat (map compact_task ts)). record_part r = 1"
  "\<forall>r \<in> set (map compact_alert as). record_part r = 2"
  "\<forall>r \<in> set (map EventAppended es). record_part r = 3"
  "\<forall>r \<in> set (compact_checkpoints s). record_part r = 4"
  "\<forall>r \<in> set (map compact_heartbeat hs). record_part r = 5"
  "\<forall>r \<in> set (concat (map compact_terminal ts)). record_part r = 6"
  "\<forall>r \<in> set (map ReceiptRecorded rcs). record_part r = 7"
  by (auto simp: compact_run_def compact_task_def compact_alert_def compact_heartbeat_def compact_terminal_def
      compact_checkpoints_def List.map_filter_def split: option.splits if_splits)

lemma part_ne:
  "\<forall>r \<in> set rs. record_part r = n \<Longrightarrow> n \<notin> X \<Longrightarrow> \<forall>r \<in> set rs. record_part r \<notin> X"
  "\<forall>r \<in> set rs. record_part r = n \<Longrightarrow> n \<noteq> m \<Longrightarrow> \<forall>r \<in> set rs. record_part r \<noteq> m"
  by simp_all

lemmas part_frames = replay_frames(1,2,4,6) [OF part_ne(2)] replay_frames(3,5,7,8) [OF part_ne(1)]

lemma inv_parts:
  assumes "fleet_inv s"
  shows "mapall task_ok (fl_tasks s)" "exclusive (fl_tasks s)" "events_ok s" "mapall (alert_ok s) (fl_alerts s)"
    "maps_ok s" "ends_ok {} s" "bm_sorted (fl_tasks s)" "bm_sorted (fl_alerts s)" "bm_sorted (fl_runs s)"
    "bm_sorted (fl_latest_seq s)" "bm_sorted (fl_heartbeats s)" "bm_sorted (fl_receipts s)"
  using assms by (simp_all add: fleet_inv_def base_inv_def maps_ok_def)

lemma sorted_keys: "bm_sorted m \<Longrightarrow> distinct (map fst m)"
  by (simp add: bm_sorted_def strict_sorted_iff)

lemma maps_ok_empty: "maps_ok fleet_state_empty"
  by (simp add: maps_ok_def fleet_state_empty_def)

lemma stage_tasks:
  assumes i: "fleet_inv s"
  shows "bm_get (fl_tasks (compacted_tasks s)) k = map_option unfinished (bm_get (fl_tasks s) k)"
proof -
  let ?s1 = "replay_records fleet_state_empty (concat (map (compact_run s) (bm_values (fl_runs s))))"
  have e: "fl_tasks ?s1 = bm_empty"
    by (subst part_frames(5) [OF parts(1)]) (simp_all add: fleet_state_empty_def)
  have m: "maps_ok ?s1" by (rule replay_keeps [OF maps_ok_apply maps_ok_empty])
  have "bm_get (fl_tasks (replay_records ?s1 (concat (map compact_task (map snd (fl_tasks s)))))) k
    = (case map_of (fl_tasks s) k of Some t \<Rightarrow> Some (unfinished t) | None \<Rightarrow> bm_get (fl_tasks ?s1) k)"
    by (rule replay_compact_tasks [OF _ sorted_keys [OF inv_parts(7) [OF i]] _ m])
      (use inv_parts(1) [OF i] in \<open>simp_all add: e mapall_in [OF inv_parts(7) [OF i]]\<close>)
  moreover have "compacted_tasks s = replay_records ?s1 (concat (map compact_task (map snd (fl_tasks s))))"
    by (simp add: compacted_tasks_def bm_values_def)
  ultimately show ?thesis
    by (cases "map_of (fl_tasks s) k") (simp_all only: e bm_get_def bm_empty_def map_of.simps option.simps)
qed

lemma stage_tasks_frame:
  "fl_alerts (compacted_tasks s) = bm_empty" "fl_latest_seq (compacted_tasks s) = bm_empty"
  "fl_latest_events (compacted_tasks s) = bm_empty" "fl_heartbeats (compacted_tasks s) = bm_empty"
  "fl_receipts (compacted_tasks s) = bm_empty"
  unfolding compacted_tasks_def replay_append
  by (simp_all add: part_frames [OF parts(2)] part_frames [OF parts(1)] fleet_state_empty_def)

lemma replayed_tasks: "fleet_inv s \<Longrightarrow> replayed s (compacted_tasks s)"
  by (simp add: replayed_def stage_tasks_frame stage_tasks task_sim_def unfinished_def split: option.split)

lemma stage_alerts:
  assumes i: "fleet_inv s"
  shows "replayed s (compacted_alerts s)" "mapall (alert_ok (compacted_alerts s)) (fl_alerts (compacted_alerts s))"
    and "fl_alerts (compacted_alerts s) = fl_alerts s"
proof -
  have "\<forall>ka \<in> set (fl_alerts s). alert_ok s (fst ka) (snd ka)"
    using inv_parts(4) [OF i] by (simp add: mapall_in [OF inv_parts(8) [OF i]])
  moreover have "\<forall>ka \<in> set (fl_alerts s). bm_get (fl_alerts (compacted_tasks s)) (fst ka) = None"
    and "mapall (alert_ok (compacted_tasks s)) (fl_alerts (compacted_tasks s))" by (simp_all add: stage_tasks_frame)
  moreover have eq: "replay_records (compacted_tasks s) (map compact_alert (map snd (fl_alerts s))) = compacted_alerts s"
    by (simp add: compacted_alerts_def bm_values_def)
  ultimately have "replayed s (compacted_alerts s) \<and> mapall (alert_ok (compacted_alerts s)) (fl_alerts (compacted_alerts s))
      \<and> fl_alerts (compacted_alerts s) = foldl (\<lambda>m kv. bm_insert (fst kv) (snd kv) m) (fl_alerts (compacted_tasks s)) (fl_alerts s)"
    using replay_alerts [OF _ sorted_keys [OF inv_parts(8) [OF i]] _ replayed_tasks [OF i]] unfolding eq by blast
  then show "replayed s (compacted_alerts s)" "mapall (alert_ok (compacted_alerts s)) (fl_alerts (compacted_alerts s))"
    "fl_alerts (compacted_alerts s) = fl_alerts s"
    using bm_collect_self [OF inv_parts(8) [OF i]] by (auto simp: bm_collect_def stage_tasks_frame)
qed

lemma set_bm_insert: "set (bm_insert k v m) \<subseteq> insert (k, v) (set m)"
  by (induction k v m rule: bm_insert.induct) auto

lemma set_foldl_insert: "set (foldl (\<lambda>m kv. bm_insert (fst kv) (snd kv) m) m0 kvs) \<subseteq> set m0 \<union> set kvs"
proof (induction kvs arbitrary: m0)
  case (Cons kv kvs)
  with set_bm_insert [of "fst kv" "snd kv" m0] show ?case by fastforce
qed simp

lemma bm_values_collect: "x \<in> set (bm_values (bm_collect kvs)) \<Longrightarrow> x \<in> snd ` set kvs"
  using set_foldl_insert [of bm_empty kvs] by (auto simp: bm_values_def bm_collect_def bm_empty_def)

lemma compacted_events_kept:
  assumes "e \<in> set (compacted_events s)" and "bm_sorted (fl_latest_events s)"
  shows "(\<exists>k. bm_get (fl_latest_events s) k = Some e) \<or> side_event s e"
proof -
  have "e \<in> set (bm_values (fl_latest_events s)) \<or> side_event s e"
    using assms(1) unfolding compacted_events_def set_sort side_event_def
    by (auto dest!: bm_values_collect)
  then show ?thesis using assms(2) bm_values_get by auto
qed

lemma latest_replayable:
  "fleet_inv s \<Longrightarrow> e \<in> set (compacted_events s) \<Longrightarrow> replayable s e"
proof -
  assume i: "fleet_inv s" and e: "e \<in> set (compacted_events s)"
  have ev: "events_ok s" and en: "ends_ok {} s" and m: "maps_ok s" using inv_parts [OF i] by simp_all
  have "(\<exists>k. bm_get (fl_latest_events s) k = Some e) \<or> side_event s e"
    using compacted_events_kept [OF e] m by (simp add: maps_ok_def)
  then show "replayable s e"
    using ev en by (auto simp: replayable_def events_ok_def ends_ok_def mapall_def)
qed

lemma stage_marks:
  assumes i: "fleet_inv s"
  shows "replayed s (compacted_marks s)"
    and "\<And>k n. bm_get (fl_latest_seq s) k = Some n \<Longrightarrow> noted (compacted_marks s) k n"
    and "mapall (alert_ok (compacted_marks s)) (fl_alerts (compacted_marks s))"
    and "fl_alerts (compacted_marks s) = fl_alerts s"
proof -
  let ?s1 = "replay_records (compacted_alerts s) (map EventAppended (compacted_events s))"
  have c: "compacted_marks s = replay_records ?s1 (compact_checkpoints s)" by (simp add: compacted_marks_def)
  have r1: "replayed s ?s1"
  proof (rule replay_inv [where P = "replayed s", OF _ stage_alerts(1) [OF i]])
    fix s' r assume r: "r \<in> set (map EventAppended (compacted_events s))" and s': "replayed s s'"
    from r obtain e where "r = EventAppended e" "e \<in> set (compacted_events s)" by auto
    with replayed_event [OF s' latest_replayable [OF i]] show "replayed s (apply_record s' r)" by simp
  qed
  show "replayed s (compacted_marks s)" unfolding c
    by (rule replay_inv [where P = "replayed s", OF _ r1])
      (use checkpoint_in [OF inv_parts(10) [OF i] _ inv_parts(3) [OF i]] replayed_checkpoint in blast)
  show "noted (compacted_marks s) k n" if kn: "bm_get (fl_latest_seq s) k = Some n" for k n
  proof -
    obtain r w t where "EventSequenceCheckpoint r w t n \<in> set (compact_checkpoints s)" "event_key w r t = k"
      using checkpoint_written [OF inv_parts(3) [OF i] kn] by blast
    then show ?thesis unfolding c using noted_after noted_checkpoint by blast
  qed
  show al: "fl_alerts (compacted_marks s) = fl_alerts s" unfolding c
    by (simp add: part_frames(4) [OF parts(5)] part_frames(4) [OF parts(4)] stage_alerts(3) [OF i])
  have "marks_grow (compacted_alerts s) (compacted_marks s)" unfolding c replay_append [symmetric] by (rule marks_grow_replay)
  then have "alert_ok (compacted_alerts s) k a \<Longrightarrow> alert_ok (compacted_marks s) k a" for k a by (rule alert_ok_grow)
  then show "mapall (alert_ok (compacted_marks s)) (fl_alerts (compacted_marks s))"
    using stage_alerts(2,3) [OF i] al by (simp add: mapall_def)
qed

section \<open>The state after a compaction\<close>

lemma maps_ok_compacted: "maps_ok (compacted s)"
  unfolding compacted_def by (rule replay_keeps [OF maps_ok_apply maps_ok_empty])

lemma compacted_marks_exact:
  assumes i: "fleet_inv s" shows "fl_latest_seq (compacted s) = fl_latest_seq s"
proof -
  have f: "fl_latest_seq (compacted s) = fl_latest_seq (compacted_marks s)"
    by (simp add: compacted_stages part_frames(8) [OF parts(6)] part_frames(8) [OF parts(7)] part_frames(8) [OF parts(8)])
  have m: "maps_ok (compacted s)" by (rule maps_ok_compacted)
  have up: "noted s k n" if "bm_get (fl_latest_seq (compacted_marks s)) k = Some n" for k n
    using stage_marks(1) [OF i] that by (auto simp: replayed_def dest: mapall_get)
  have "bm_get (fl_latest_seq (compacted_marks s)) k = bm_get (fl_latest_seq s) k" for k
  proof (cases "bm_get (fl_latest_seq s) k")
    case None
    with up [of k] show ?thesis by (cases "bm_get (fl_latest_seq (compacted_marks s)) k") (auto simp: noted_def)
  next
    case (Some n)
    obtain m where "bm_get (fl_latest_seq (compacted_marks s)) k = Some m" "n \<le> m"
      using stage_marks(2) [OF i Some] by (auto simp: noted_def)
    with up [of k m] Some show ?thesis by (simp add: noted_def)
  qed
  then show ?thesis using m inv_parts(10) [OF i] by (intro bm_eqI) (simp_all add: f maps_ok_def)
qed

lemma compacted_tasks_get:
  assumes i: "fleet_inv s"
  shows "bm_get (fl_tasks (compacted s)) k = map_option compacted_task (bm_get (fl_tasks s) k)"
proof -
  let ?s1 = "replay_records (compacted_marks s) (map compact_heartbeat (fl_heartbeats s))"
  have t1: "fl_tasks ?s1 = fl_tasks (compacted_marks s)" by (rule part_frames(5) [OF parts(6)]) simp
  have sim: "task_sim (bm_get (fl_tasks s) k) (bm_get (fl_tasks ?s1) k)" for k
    using stage_marks(1) [OF i] by (simp add: t1 replayed_def)
  have srt: "bm_sorted (fl_tasks s)" by (rule inv_parts(7) [OF i])
  have "fl_tasks (compacted s) = fl_tasks (replay_records ?s1 (concat (map compact_terminal (map snd (fl_tasks s)))))"
    unfolding compacted_stages replay_append bm_values_def [symmetric] by (rule part_frames(5) [OF parts(8)]) simp
  moreover have "bm_get (fl_tasks (replay_records ?s1 (concat (map compact_terminal (map snd (fl_tasks s)))))) k
    = (case map_of (fl_tasks s) k of Some t \<Rightarrow> Some (compacted_task t) | None \<Rightarrow> bm_get (fl_tasks ?s1) k)"
  proof (rule replay_compact_terminals [OF _ sorted_keys [OF srt]], intro ballI conjI)
    fix kt assume kt: "kt \<in> set (fl_tasks s)"
    then have g: "bm_get (fl_tasks s) (fst kt) = Some (snd kt)" by (simp add: bm_get_in [OF srt, symmetric])
    then show "task_ok (fst kt) (snd kt)" using inv_parts(1) [OF i] by (auto dest: mapall_get)
    show "task_sim (Some (snd kt)) (bm_get (fl_tasks ?s1) (fst kt))" using sim [of "fst kt"] g by simp
  qed
  ultimately show ?thesis using sim [of k] by (simp add: bm_get_def task_sim_def split: option.splits)
qed

lemma bm_get_map: "bm_get (map (\<lambda>(k, v). (k, f v)) m) k = map_option f (bm_get m k)"
  by (induction m) (auto simp: bm_get_def)

lemma bm_sorted_map: "bm_sorted (map (\<lambda>(k, v). (k, f v)) m) = bm_sorted m"
  by (simp add: bm_sorted_def comp_def case_prod_unfold)

lemma compacted_tasks_exact:
  "fleet_inv s \<Longrightarrow> fl_tasks (compacted s) = map (\<lambda>(k, t). (k, compacted_task t)) (fl_tasks s)"
  using maps_ok_compacted [of s]
  by (intro bm_eqI) (simp_all add: compacted_tasks_get bm_get_map bm_sorted_map inv_parts maps_ok_def)

lemma compacted_alerts_exact: "fleet_inv s \<Longrightarrow> fl_alerts (compacted s) = fl_alerts s"
  by (simp add: compacted_stages part_frames(4) [OF parts(6)] part_frames(4) [OF parts(7)] part_frames(4) [OF parts(8)]
      stage_marks)

lemma replay_heartbeats: "fl_heartbeats (replay_records s (map compact_heartbeat hs))
    = foldl (\<lambda>m kv. bm_insert (fst kv) (snd kv) m) (fl_heartbeats s) hs"
proof (induction hs arbitrary: s)
  case (Cons h hs)
  have "fl_heartbeats (apply_record s (compact_heartbeat h)) = bm_insert (fst h) (snd h) (fl_heartbeats s)"
    by (cases "snd h") (simp add: compact_heartbeat_def Let_def)
  with Cons.IH show ?case by simp
qed simp

lemma compacted_heartbeats_exact:
  assumes "fleet_inv s" shows "fl_heartbeats (compacted s) = fl_heartbeats s"
proof -
  have e: "fl_heartbeats (compacted_marks s) = bm_empty"
    by (simp add: compacted_marks_def compacted_alerts_def part_frames(3) [OF parts(5)] part_frames(3) [OF parts(4)]
        part_frames(3) [OF parts(3)] stage_tasks_frame)
  have "fl_heartbeats (compacted s) = bm_collect (fl_heartbeats s)"
    by (simp add: compacted_stages part_frames(3) [OF parts(7)] part_frames(3) [OF parts(8)] replay_heartbeats e bm_collect_def)
  with bm_collect_self [OF inv_parts(11) [OF assms]] show ?thesis by simp
qed

lemma replay_receipts:
  "\<forall>kr \<in> set krs. fst kr = task_key (rc_run_id (snd kr)) (rc_task_id (snd kr)) \<Longrightarrow>
   fl_receipts (replay_records s (map ReceiptRecorded (map snd krs)))
    = foldl (\<lambda>m kv. bm_insert (fst kv) (snd kv) m) (fl_receipts s) krs"
proof (induction krs arbitrary: s)
  case (Cons kr krs)
  have "fl_receipts (apply_record s (ReceiptRecorded (snd kr))) = bm_insert (fst kr) (snd kr) (fl_receipts s)"
    using Cons.prems by (simp add: put_receipt_def)
  with Cons show ?case by simp
qed simp

lemma compacted_receipts_exact:
  assumes i: "fleet_inv s" shows "fl_receipts (compacted s) = fl_receipts s"
proof -
  let ?s1 = "replay_records (compacted_marks s)
    (map compact_heartbeat (fl_heartbeats s) @ concat (map compact_terminal (bm_values (fl_tasks s))))"
  have e: "fl_receipts (compacted_marks s) = bm_empty"
  proof -
    have "fl_receipts (replay_records s' (map EventAppended es)) = fl_receipts s'" for s' es
      by (rule replay_frame) simp
    then show ?thesis
      by (simp add: compacted_marks_def compacted_alerts_def part_frames(6) [OF parts(5)] part_frames(6) [OF parts(3)]
          stage_tasks_frame)
  qed
  have e1: "fl_receipts ?s1 = bm_empty"
    by (simp add: part_frames(6) [OF parts(6)] part_frames(6) [OF parts(7)] e)
  have "\<forall>kr \<in> set (fl_receipts s). fst kr = task_key (rc_run_id (snd kr)) (rc_task_id (snd kr))"
    using inv_parts(5) [OF i] by (simp add: maps_ok_def mapall_in [OF inv_parts(12) [OF i]])
  then have "fl_receipts (replay_records ?s1 (map ReceiptRecorded (map snd (fl_receipts s)))) = bm_collect (fl_receipts s)"
    by (simp only: replay_receipts e1 bm_collect_def)
  then have "fl_receipts (compacted s) = bm_collect (fl_receipts s)"
    by (simp only: compacted_stages replay_append bm_values_def)
  with bm_collect_self [OF inv_parts(12) [OF i]] show ?thesis by simp
qed

lemma compacted_run_parts:
  "fl_runs (compacted s) = fl_runs (replay_records fleet_state_empty (concat (map (compact_run s) (bm_values (fl_runs s)))))"
  "fl_run_status_overrides (compacted s)
    = fl_run_status_overrides (replay_records fleet_state_empty (concat (map (compact_run s) (bm_values (fl_runs s)))))"
  unfolding compacted_stages compacted_marks_def compacted_alerts_def compacted_tasks_def replay_append
  by (simp_all add: part_frames(1,2) [OF parts(2)] part_frames(1,2) [OF parts(3)] part_frames(1,2) [OF parts(4)]
      part_frames(1,2) [OF parts(5)] part_frames(1,2) [OF parts(6)] part_frames(1,2) [OF parts(7)]
      part_frames(1,2) [OF parts(8)])

lemma replay_run:
  "fl_runs (replay_records s' (compact_run s r)) = bm_insert (fn_id r) r (fl_runs s')"
  "fl_run_status_overrides (replay_records s' (compact_run s r)) = (case bm_get (fl_run_status_overrides s) (fn_id r) of
     None \<Rightarrow> fl_run_status_overrides s' | Some st \<Rightarrow> bm_insert (fn_id r) st (fl_run_status_overrides s'))"
  by (simp_all add: compact_run_def split: option.split)

lemma replay_runs:
  "fl_runs (replay_records s' (concat (map (compact_run s) rs)))
     = foldl (\<lambda>m kv. bm_insert (fst kv) (snd kv) m) (fl_runs s') (map (\<lambda>r. (fn_id r, r)) rs)"
  by (induction rs arbitrary: s') (simp_all add: replay_run)

lemma replay_overrides:
  "bm_get (fl_run_status_overrides (replay_records s' (concat (map (compact_run s) rs)))) k
     = (if k \<in> fn_id ` set rs \<and> bm_get (fl_run_status_overrides s) k \<noteq> None
        then bm_get (fl_run_status_overrides s) k else bm_get (fl_run_status_overrides s') k)"
proof (induction rs arbitrary: s')
  case (Cons r rs)
  show ?case unfolding list.map concat.simps replay_append Cons.IH replay_run by (auto split: option.split)
qed simp

lemma compacted_runs_exact:
  assumes i: "fleet_inv s" shows "fl_runs (compacted s) = fl_runs s"
proof -
  have "\<forall>kr \<in> set (fl_runs s). fst kr = fn_id (snd kr)"
    using inv_parts(5) [OF i] by (simp add: maps_ok_def mapall_in [OF inv_parts(9) [OF i]])
  then have "map (\<lambda>r. (fn_id r, r)) (bm_values (fl_runs s)) = fl_runs s"
    by (auto simp: bm_values_def intro!: map_idI)
  then have "fl_runs (compacted s) = bm_collect (fl_runs s)"
    by (simp add: compacted_run_parts replay_runs bm_collect_def fleet_state_empty_def)
  with bm_collect_self [OF inv_parts(9) [OF i]] show ?thesis by simp
qed

lemma compacted_overrides:
  assumes i: "fleet_inv s" and r: "bm_get (fl_runs s) k = Some r"
  shows "bm_get (fl_run_status_overrides (compacted s)) k = bm_get (fl_run_status_overrides s) k"
proof -
  have "k = fn_id r" using inv_parts(5) [OF i] r by (auto simp: maps_ok_def dest: mapall_get)
  moreover have "r \<in> set (bm_values (fl_runs s))" using r by (force simp: bm_values_def bm_get_def dest: map_of_SomeD)
  ultimately have "k \<in> fn_id ` set (bm_values (fl_runs s))" by blast
  then show ?thesis
    by (simp add: compacted_run_parts replay_overrides fleet_state_empty_def)
qed

section \<open>Compaction keeps the invariant\<close>

lemma compacted_task_fields [simp]:
  "tk_entry (compacted_task t) = tk_entry t" "tk_status (compacted_task t) = tk_status t"
  "tk_leased_to (compacted_task t) = tk_leased_to t" "tk_leased_at (compacted_task t) = tk_leased_at t"
  by (simp_all add: compacted_task_def)

lemma task_ok_compacted: "task_ok k t \<Longrightarrow> task_ok k (compacted_task t)"
  by (simp add: task_ok_def) (simp add: compacted_task_def)

lemma events_ok_empty: "events_ok fleet_state_empty"
  using fleet_inv_empty by (simp add: fleet_inv_def base_inv_def)

theorem compacted_inv:
  assumes i: "fleet_inv s" shows "fleet_inv (compacted s)"
proof -
  note tg = compacted_tasks_get [OF i]
  have "mapall task_ok (fl_tasks (compacted s))"
    using inv_parts(1) [OF i] task_ok_compacted by (auto simp: mapall_def tg)
  moreover have "exclusive (fl_tasks (compacted s))"
    unfolding exclusive_def tg
  proof (intro allI impI)
    fix k1 t1 k2 t2 w
    assume h: "map_option compacted_task (bm_get (fl_tasks s) k1) = Some t1
      \<and> map_option compacted_task (bm_get (fl_tasks s) k2) = Some t2 \<and> worker_is_leased w t1 \<and> worker_is_leased w t2"
    then obtain u1 u2 where "bm_get (fl_tasks s) k1 = Some u1" "bm_get (fl_tasks s) k2 = Some u2"
      "worker_is_leased w u1" "worker_is_leased w u2" by (auto simp: worker_is_leased_def)
    with inv_parts(2) [OF i] show "k1 = k2" unfolding exclusive_def by blast
  qed
  moreover have "events_ok (compacted s)" unfolding compacted_def
    by (rule replay_keeps [where P = events_ok, OF events_ok_apply events_ok_empty])
  moreover have "mapall (alert_ok (compacted s)) (fl_alerts (compacted s))"
  proof -
    have "marks_grow (compacted_marks s) (compacted s)" unfolding compacted_stages by (rule marks_grow_replay)
    then have "alert_ok (compacted_marks s) k a \<Longrightarrow> alert_ok (compacted s) k a" for k a by (rule alert_ok_grow)
    then show ?thesis using stage_marks(3,4) [OF i] compacted_alerts_exact [OF i] by (simp add: mapall_def)
  qed
  moreover have "ends_ok {} (compacted s)"
  proof -
    have l: "fl_latest_events (compacted s) = fl_latest_events (compacted_marks s)"
      by (simp add: compacted_stages part_frames(7) [OF parts(6)] part_frames(7) [OF parts(7)] part_frames(7) [OF parts(8)])
    have "has_ended (compacted s) e" if "has_ended s e" for e using that by (auto simp: has_ended_def tg)
    then show ?thesis using stage_marks(1) [OF i] by (auto simp: ends_ok_def l replayed_def mapall_def)
  qed
  ultimately show ?thesis by (simp add: fleet_inv_def base_inv_def maps_ok_compacted)
qed

end
