(* ===== verification/Fleet_Crash.thy ===== *)
theory Fleet_Crash
  imports Fleet_File
begin

text \<open>What a write that was cut short leaves, and what the next write makes of it.\<close>

definition ends_line :: "string \<Rightarrow> bool" where
  "ends_line cs \<longleftrightarrow> cs = [] \<or> last cs = CHR 0x0A"

lemma file_records_rest:
  assumes "ends_line x" and "CHR 0x0D \<notin> set x"
  shows "file_records de (x @ f) = file_records de x @ records_of_lines de (str_lines f)"
proof -
  obtain ls t where x: "x = concat (map (\<lambda>l. l @ [CHR 0x0A]) ls) @ t" and t: "CHR 0x0A \<notin> set t"
    and ls: "\<forall>l \<in> set ls. CHR 0x0A \<notin> set l" using file_split [of x] by blast
  have "t = []"
  proof (rule ccontr)
    assume "t \<noteq> []"
    with assms(1) have "last t = CHR 0x0A" by (simp add: ends_line_def x)
    with last_in_set [OF \<open>t \<noteq> []\<close>] t show False by simp
  qed
  have ok: "\<forall>l \<in> set ls. CHR 0x0A \<notin> set l \<and> CHR 0x0D \<notin> set l" using ls assms(2) by (auto simp: x split: if_splits)
  show ?thesis using str_lines_file [OF ok, of f] str_lines_file [OF ok, of "[]"]
    by (simp add: file_records_lines x \<open>t = []\<close>)
qed

definition closed_file :: "string \<Rightarrow> string" where
  "closed_file cs = (if cs \<noteq> [] \<and> last cs \<noteq> CHR 0x0A then cs @ newline else cs)"

lemma append_closed: "append_records ser rs cs = closed_file cs @ record_lines ser rs"
  by (simp add: append_records_def closed_file_def)

lemma append_ends_line: "ends_line (append_records ser rs cs)"
  by (cases rs rule: rev_cases)
    (auto simp: append_closed closed_file_def record_lines_def newline_def ends_line_def)

lemma torn_cases:
  assumes "prefix cs cs'" and "prefix cs' (append_records ser rs cs)"
  shows "cs' = cs \<or> (\<exists>p. cs' = closed_file cs @ p \<and> prefix p (record_lines ser rs))"
proof (cases "prefix (closed_file cs) cs'")
  case True
  with assms(2) show ?thesis by (auto simp: append_closed prefix_def)
next
  case False
  have "prefix cs' (closed_file cs)"
    using assms(2) False by (auto simp: append_closed prefix_append prefix_order.dual_order.refl)
  moreover have "closed_file cs = cs \<or> closed_file cs = cs @ [CHR 0x0A]" by (auto simp: closed_file_def newline_def)
  ultimately have "cs' = cs" using assms(1) False
    by (auto simp: prefix_snoc intro: prefix_order.antisym)
  then show ?thesis ..
qed

lemma records_no_nl_frag:
  "line_ok ser de r \<Longrightarrow> prefix f (ser r) \<Longrightarrow> CHR 0x0D \<notin> set f"
  by (auto simp: line_ok_def dest: set_mono_prefix)

lemma no_cr_lines: "\<forall>r \<in> set rs. line_ok ser de r \<Longrightarrow> CHR 0x0D \<notin> set (record_lines ser rs)"
  by (auto simp: record_lines_def line_ok_def newline_def)

lemma torn_write:
  assumes ok: "\<forall>r \<in> set rs. line_ok ser de r" and cr: "CHR 0x0D \<notin> set cs"
    and p: "prefix cs cs'" "prefix cs' (append_records ser rs cs)"
  obtains k where "k \<le> length rs" and "file_records de cs' = file_records de cs @ take k rs" and "CHR 0x0D \<notin> set cs'"
proof -
  have cr': "CHR 0x0D \<notin> set cs'"
    using set_mono_prefix [OF p(2)] no_cr_lines [OF ok] cr
    by (auto simp: append_closed closed_file_def newline_def split: if_splits)
  from torn_cases [OF p] show ?thesis
  proof
    assume "cs' = cs"
    with cr' show ?thesis by (intro that [of 0]) simp_all
  next
    assume "\<exists>p. cs' = closed_file cs @ p \<and> prefix p (record_lines ser rs)"
    then obtain q where q: "cs' = closed_file cs @ q" "prefix q (record_lines ser rs)" by blast
    obtain k f where kf: "k \<le> length rs" "q = record_lines ser (take k rs) @ f"
      "f = [] \<or> k < length rs \<and> prefix f (ser (rs ! k))" using written_prefix [OF q(2)] by blast
    have tk: "\<forall>r \<in> set (take k rs). line_ok ser de r" using ok by (auto dest: in_set_takeD)
    have cs': "cs' = append_records ser (take k rs) cs @ f" by (simp add: q(1) kf(2) append_closed)
    have crk: "CHR 0x0D \<notin> set (append_records ser (take k rs) cs)" using cr' by (simp add: cs')
    have fr: "file_records de cs' = (file_records de cs @ take k rs) @ records_of_lines de (str_lines f)"
      unfolding cs' file_records_rest [OF append_ends_line crk] file_records_append [OF tk cr] ..
    show ?thesis
    proof (cases "k < length rs \<and> f = ser (rs ! k)")
      case True
      then have "line_ok ser de (rs ! k)" using ok by simp
      then have "records_of_lines de (str_lines f) = [rs ! k]"
        using records_of_fragment [of ser de "rs ! k" f] True by simp
      with fr True cr' show ?thesis by (intro that [of "Suc k"]) (simp_all add: take_Suc_conv_app_nth)
    next
      case False
      have "records_of_lines de (str_lines f) = []"
      proof (cases "f = []")
        case True
        then show ?thesis by (simp add: records_of_lines_def List.map_filter_def)
      next
        case ne: False
        with kf(3) have f: "k < length rs" "prefix f (ser (rs ! k))" by simp_all
        then have "line_ok ser de (rs ! k)" using ok by simp
        then show ?thesis using records_of_fragment [of ser de "rs ! k" f] f False by simp
      qed
      with fr kf(1) cr' show ?thesis by (intro that [of k]) simp_all
    qed
  qed
qed

text \<open>
  C12. an interrupted append is recovered. Cut anywhere, a write of several records leaves a file that
  reads as the old records and a first part of the new ones, and appending to it afterwards loses and adds
  nothing: the fragment stays a line of its own. A record must read back, be one line and have no proper
  beginning that is a record itself, as a JSON object has.
\<close>

theorem interrupted_append_recovers:
  assumes "\<forall>r \<in> set (rs @ later). line_ok ser de r" and "CHR 0x0D \<notin> set cs"
    and "prefix cs cs'" and "prefix cs' (append_records ser rs cs)"
  shows "\<exists>k. k \<le> length rs \<and> rebuild_state de cs' = replay_records (rebuild_state de cs) (take k rs)
    \<and> rebuild_state de (append_records ser later cs') = replay_records (rebuild_state de cs) (take k rs @ later)"
proof -
  obtain k where k: "k \<le> length rs" "file_records de cs' = file_records de cs @ take k rs" "CHR 0x0D \<notin> set cs'"
    using torn_write [of rs ser de cs cs'] assms by auto
  have "file_records de (append_records ser later cs') = file_records de cs @ take k rs @ later"
    using file_records_append [of later ser de cs'] assms(1) k by simp
  with k show ?thesis by (intro exI [of _ k]) (simp add: rebuild_state_def replay_records_def)
qed

end
