(* ===== verification/Fleet_Properties.thy ===== *)
theory Fleet_Properties
  imports Fleet_Compacted Fleet_Crash
begin

text \<open>
  Properties of the fleet ledger, over every history of its operations and compactions: one live lease
  per worker, event numbers that only grow, one finalisation per attempt, what a compaction preserves,
  and what an interrupted write leaves.
\<close>

section \<open>Histories\<close>

fun ops_written :: "fleet_state \<Rightarrow> fleet_op list \<Rightarrow> fleet_record list" where
  "ops_written s [] = []"
| "ops_written s (p # ps) = op_records p s @ ops_written (ledger_step s p) ps"

lemma step_compact: "ledger_step s OpCompact = compacted s"
  by (simp add: ledger_step_def compacted_def)

lemma step_op: "p \<noteq> OpCompact \<Longrightarrow> ledger_step s p = replay_records s (op_records p s)"
  by (simp add: ledger_step_def)

lemma mark_of_compacted: "fleet_inv s \<Longrightarrow> mark_of (compacted s) k = mark_of s k"
  by (simp add: mark_of_def compacted_marks_exact)

lemma step_inv:
  assumes "fleet_inv s" and "op_ok p" and "marks_below s n" and "n + length (op_records p s) < 2 ^ 64"
  shows "fleet_inv (ledger_step s p)" and "marks_below (ledger_step s p) (n + length (op_records p s))"
proof -
  show "fleet_inv (ledger_step s p)"
    using op_step(2) [OF assms] compacted_inv [OF assms(1)] by (cases "p = OpCompact") (simp_all add: step_compact step_op)
  show "marks_below (ledger_step s p) (n + length (op_records p s))"
  proof (cases "p = OpCompact")
    case True
    then show ?thesis using assms(1,3) by (simp add: step_compact marks_below_def mark_of_compacted)
  next
    case False
    then show ?thesis using op_step(3) [OF assms] by (simp add: step_op)
  qed
qed

lemma history_inv:
  assumes "fleet_inv s" and "marks_below s n" and "list_all op_ok ps" and "n + length (ops_written s ps) < 2 ^ 64"
  shows "fleet_inv (foldl ledger_step s ps)"
  using assms
proof (induction ps arbitrary: s n)
  case (Cons p ps)
  have len: "n + length (op_records p s) < 2 ^ 64" using Cons.prems(4) by simp
  have ok: "op_ok p" using Cons.prems(3) by simp
  note st = step_inv [OF Cons.prems(1) ok Cons.prems(2) len]
  show ?case unfolding foldl_Cons
    by (rule Cons.IH [OF st]) (use Cons.prems(3,4) in simp_all)
qed simp

lemma marks_below_empty: "marks_below fleet_state_empty 0"
  by (simp add: marks_below_def mark_of_def fleet_state_empty_def bm_get_or_def unwrap_or_def)

lemma reached_inv:
  assumes "list_all op_ok ps" and "length (ops_written fleet_state_empty ps) < 2 ^ 64"
  shows "fleet_inv (run_ops ps)"
  unfolding run_ops_def by (rule history_inv [OF fleet_inv_empty marks_below_empty assms(1)]) (use assms(2) in simp)

section \<open>One lease per worker\<close>

lemma at_most_one_filter:
  assumes "distinct xs" and "\<And>x y. x \<in> set xs \<Longrightarrow> y \<in> set xs \<Longrightarrow> P x \<Longrightarrow> P y \<Longrightarrow> x = y"
  shows "length (filter P xs) \<le> 1"
proof -
  have "length (filter P xs) = card (set (filter P xs))" 
    by (rule distinct_card [symmetric]) (simp add: assms(1))
  also have "\<dots> \<le> 1" using assms(2) by (simp add: card_le_Suc0_iff_eq)
  finally show ?thesis .
qed

text \<open>
  C7. one lease per worker. In the state after any history of ledger operations, in any order and with
  compactions in between, at most one task over all runs is leased to a given worker.
\<close>

theorem one_lease_per_worker:
  assumes "list_all op_ok ps" and "length (ops_written fleet_state_empty ps) < 2 ^ 64"
  shows "length (filter (worker_is_leased w) (bm_values (fl_tasks (run_ops ps)))) \<le> 1"
proof -
  let ?T = "fl_tasks (run_ops ps)"
  note i = reached_inv [OF assms]
  have d: "distinct (map fst ?T)" using sorted_keys inv_parts(7) [OF i] by blast
  have "kt1 = kt2" if "kt1 \<in> set ?T" "kt2 \<in> set ?T" "worker_is_leased w (snd kt1)" "worker_is_leased w (snd kt2)" for kt1 kt2
  proof -
    have g: "bm_get ?T (fst kt1) = Some (snd kt1)" "bm_get ?T (fst kt2) = Some (snd kt2)"
      using that(1,2) by (simp_all add: bm_get_in [OF inv_parts(7) [OF i], symmetric])
    with that(3,4) inv_parts(2) [OF i] have "fst kt1 = fst kt2" unfolding exclusive_def by blast
    with g show ?thesis by (simp add: prod_eq_iff)
  qed
  then have "length (filter (\<lambda>kt. worker_is_leased w (snd kt)) ?T) \<le> 1"
    by (intro at_most_one_filter) (use d in \<open>simp_all add: distinct_map\<close>)
  then show ?thesis by (simp add: bm_values_def filter_map comp_def)
qed

section \<open>Event numbers\<close>

definition written_seqs :: "string \<Rightarrow> fleet_record list \<Rightarrow> u64 list" where
  "written_seqs k rs = map ev_seq (filter (\<lambda>e. event_lifecycle_key e = k) (concat (map record_events rs)))"

lemma written_seqs_simps [simp]:
  "written_seqs k [] = []"
  "written_seqs k (xs @ ys) = written_seqs k xs @ written_seqs k ys"
  by (simp_all add: written_seqs_def)

lemma written_seqs_Cons: "written_seqs k (r # rs)
    = map ev_seq (filter (\<lambda>e. event_lifecycle_key e = k) (record_events r)) @ written_seqs k rs"
  by (simp add: written_seqs_def)

lemma lawful_seqs:
  assumes "lawful s rs"
  shows "sorted_wrt (<) (mark_of s k # map unat (written_seqs k rs))
    \<and> (\<forall>x \<in> set (mark_of s k # map unat (written_seqs k rs)). x \<le> mark_of (replay_records s rs) k)"
  using assms
proof (induction rs arbitrary: s)
  case (Cons r rs)
  let ?s1 = "apply_record s r"
  have IH: "sorted_wrt (<) (mark_of ?s1 k # map unat (written_seqs k rs))
    \<and> (\<forall>x \<in> set (mark_of ?s1 k # map unat (written_seqs k rs)). x \<le> mark_of (replay_records ?s1 rs) k)"
    by (rule Cons.IH) (use Cons.prems in simp)
  from record_event [of s r] Cons.prems
  consider "record_events r = []" "mark_of ?s1 k = mark_of s k"
    | e where "record_events r = [e]" "next_seq s e" "mark_of ?s1 k = mark_of (apply_event s e) k" by auto
  then show ?case
  proof cases
    case 1
    with IH show ?thesis by (simp add: written_seqs_Cons)
  next
    case (2 e)
    show ?thesis
    proof (cases "event_lifecycle_key e = k")
      case True
      have "mark_of s k < unat (ev_seq e)" using 2(2) True by (simp add: next_seq_def mark_of_def)
      moreover have "mark_of ?s1 k = unat (ev_seq e)" using 2(3) mark_of_event [OF 2(2)] True by simp
      ultimately show ?thesis using IH 2(1) True by (auto simp: written_seqs_Cons)
    next
      case False
      then have "mark_of ?s1 k = mark_of s k" using 2(3) mark_of_event [OF 2(2)] by auto
      with IH 2(1) False show ?thesis by (simp add: written_seqs_Cons)
    qed
  qed
qed simp

lemma history_seqs:
  assumes "fleet_inv s" and "marks_below s n" and "list_all op_ok ps" and "n + length (ops_written s ps) < 2 ^ 64"
  shows "sorted_wrt (<) (mark_of s k # map unat (written_seqs k (ops_written s ps)))"
  using assms
proof (induction ps arbitrary: s n)
  case (Cons p ps)
  have len: "n + length (op_records p s) < 2 ^ 64" using Cons.prems(4) by simp
  have ok: "op_ok p" using Cons.prems(3) by simp
  note st = step_inv [OF Cons.prems(1) ok Cons.prems(2) len]
  have IH: "sorted_wrt (<) (mark_of (ledger_step s p) k # map unat (written_seqs k (ops_written (ledger_step s p) ps)))"
    by (rule Cons.IH [OF st]) (use Cons.prems(3,4) in simp_all)
  have now: "sorted_wrt (<) (mark_of s k # map unat (written_seqs k (op_records p s)))"
    "\<forall>x \<in> set (mark_of s k # map unat (written_seqs k (op_records p s))). x \<le> mark_of (ledger_step s p) k"
  proof -
    show "sorted_wrt (<) (mark_of s k # map unat (written_seqs k (op_records p s)))"
      using lawful_seqs [OF op_step(1) [OF Cons.prems(1) ok Cons.prems(2) len], of k] by simp
    show "\<forall>x \<in> set (mark_of s k # map unat (written_seqs k (op_records p s))). x \<le> mark_of (ledger_step s p) k"
    proof (cases "p = OpCompact")
      case True
      then show ?thesis using mark_of_compacted [OF Cons.prems(1)] by (simp add: step_compact)
    next
      case False
      then show ?thesis using lawful_seqs [OF op_step(1) [OF Cons.prems(1) ok Cons.prems(2) len], of k] by (simp add: step_op)
    qed
  qed
  show ?case using now IH by (fastforce simp: sorted_wrt_append)
qed simp

text \<open>
  C13. event numbers grow. The events a history writes for one worker, run and task carry strictly
  increasing sequence numbers, restarts and compactions included.
\<close>

theorem event_numbers_grow:
  assumes "list_all op_ok ps" and "length (ops_written fleet_state_empty ps) < 2 ^ 64"
  shows "sorted_wrt (<) (written_seqs (event_key w r t) (ops_written fleet_state_empty ps))"
proof -
  have "sorted_wrt (<) (map unat (written_seqs (event_key w r t) (ops_written fleet_state_empty ps)))"
    using history_seqs [OF fleet_inv_empty marks_below_empty assms(1), of "event_key w r t"] assms(2) by simp
  moreover have "(\<lambda>x y :: u64. unat x < unat y) = (<)" by (simp add: fun_eq_iff word_less_nat_alt)
  ultimately show ?thesis by (simp add: sorted_wrt_map)
qed

section \<open>Attempts\<close>

text \<open>An attempt that was finalised is over: a task leased again is at a later attempt.\<close>

definition past :: "fleet_state \<Rightarrow> string \<Rightarrow> u32 \<Rightarrow> bool" where
  "past s k a \<longleftrightarrow> (\<exists>t. bm_get (fl_tasks s) k = Some t \<and> a \<le> fe_attempts (tk_entry t)
     \<and> (tk_status t = Leased \<longrightarrow> a < fe_attempts (tk_entry t)))"

definition attempts_below :: "fleet_state \<Rightarrow> nat \<Rightarrow> bool" where
  "attempts_below s n \<longleftrightarrow> mapall (\<lambda>k t. unat (fe_attempts (tk_entry t)) \<le> n) (fl_tasks s)"

text \<open>What one record does to a task: nothing, an end, or the next attempt.\<close>

definition task_moves :: "fleet_task \<Rightarrow> fleet_task \<Rightarrow> bool" where
  "task_moves t t' \<longleftrightarrow> fe_attempts (tk_entry t') = fe_attempts (tk_entry t) \<and> (tk_status t' = Leased \<longrightarrow> tk_status t = Leased)
     \<or> fe_attempts (tk_entry t') = sat_add (fe_attempts (tk_entry t)) 1"

lemma task_moves_refl [simp]: "task_moves t t"
  by (simp add: task_moves_def)

lemma task_moves_ended [simp]: "status_terminal st \<Longrightarrow> task_moves t (ended w ts st t)"
  by (auto simp: task_moves_def status_terminal_def)

lemma task_moves_ended2:
  "status_terminal st \<Longrightarrow> status_terminal st' \<Longrightarrow> task_moves t (ended w ts st (ended w' ts' st' t))"
  by (auto simp: task_moves_def status_terminal_def)

lemma apply_moves:
  assumes "admissible s r" and "bm_get (fl_tasks s) k = Some t"
  shows "\<exists>t'. bm_get (fl_tasks (apply_record s r)) k = Some t' \<and> task_moves t t'"
proof (cases r)
  case (TaskEnqueuedRec e)
  with assms show ?thesis by (auto simp: Let_def split: option.split)
next
  case (TaskLeasedRec x1 x2 x3 x4 x5)
  show ?thesis unfolding TaskLeasedRec apply_leased using assms(2)
    by (auto simp: task_moves_def split: option.split)
next
  case (TaskCompletedOrFailed x1 x2 x3 x4 x5)
  with assms show ?thesis by (auto simp: tasks_mark split: option.split)
next
  case (TaskAttemptFinalized e fs rc)
  obtain st where st: "terminal_payload (ev_payload e) = Some st" using assms(1) TaskAttemptFinalized by auto
  note tst = terminal_payload_status [OF st]
  have fs: "status_terminal st'" if "fs = Some st'" for st' using assms(1) TaskAttemptFinalized that by auto
  show ?thesis using assms(2) tst fs
    by (cases "k = event_task_key e")
      (auto simp: TaskAttemptFinalized tasks_mark tasks_apply_event st event_task_key_def [symmetric] task_moves_ended2
        split: option.split)
next
  case (EventAppended e)
  show ?thesis using assms(2) terminal_payload_status
    by (auto simp: EventAppended tasks_apply_event split: option.split)
qed (use assms in \<open>auto simp: Let_def split: option.split\<close>)

lemma move_past:
  assumes "task_moves t t'" and "a \<le> fe_attempts (tk_entry t)" and "tk_status t = Leased \<Longrightarrow> a < fe_attempts (tk_entry t)"
    and "unat (fe_attempts (tk_entry t)) < 2 ^ 32 - 1"
  shows "a \<le> fe_attempts (tk_entry t')" and "tk_status t' = Leased \<Longrightarrow> a < fe_attempts (tk_entry t')"
  using assms by (auto simp: task_moves_def word_le_nat_alt word_less_nat_alt unat_sat_add)

lemma past_apply:
  assumes "admissible s r" and "past s k a" and "attempts_below s n" and "n < 2 ^ 32 - 1"
  shows "past (apply_record s r) k a"
proof -
  obtain t where t: "bm_get (fl_tasks s) k = Some t" "a \<le> fe_attempts (tk_entry t)"
    "tk_status t = Leased \<Longrightarrow> a < fe_attempts (tk_entry t)" using assms(2) by (auto simp: past_def)
  obtain t' where t': "bm_get (fl_tasks (apply_record s r)) k = Some t'" "task_moves t t'"
    using apply_moves [OF assms(1) t(1)] by blast
  have "unat (fe_attempts (tk_entry t)) \<le> n" using assms(3) t(1) by (auto simp: attempts_below_def dest: mapall_get)
  then have "unat (fe_attempts (tk_entry t)) < 2 ^ 32 - 1" using assms(4) by simp
  from move_past [OF t'(2) t(2,3) this] t'(1) show ?thesis by (auto simp: past_def)
qed

lemma new_task:
  assumes "admissible s r" and "bm_get (fl_tasks s) k = None" and "bm_get (fl_tasks (apply_record s r)) k = Some t"
  shows "fe_attempts (tk_entry t) = 0"
  using assms
  by (cases r) (auto simp: Let_def tasks_mark tasks_apply_event split: option.splits if_splits)

lemma attempts_below_apply:
  assumes "admissible s r" and "attempts_below s n"
  shows "attempts_below (apply_record s r) (Suc n)"
proof -
  have "unat (fe_attempts (tk_entry t')) \<le> Suc n" if "bm_get (fl_tasks (apply_record s r)) k = Some t'" for k t'
  proof (cases "bm_get (fl_tasks s) k")
    case (Some t)
    then have "unat (fe_attempts (tk_entry t)) \<le> n" using assms(2) by (auto simp: attempts_below_def dest: mapall_get)
    moreover have "task_moves t t'" using apply_moves [OF assms(1) Some] that by auto
    ultimately show ?thesis by (auto simp: task_moves_def unat_sat_add)
  next
    case None
    have "fe_attempts (tk_entry t') = 0" using new_task [OF assms(1) None that] .
    then show ?thesis by simp
  qed
  then show ?thesis by (simp add: attempts_below_def mapall_def)
qed

fun record_finalized :: "fleet_record \<Rightarrow> (string \<times> u32 option) list" where
  "record_finalized (TaskAttemptFinalized e fs rc) = [(event_task_key e, rc_attempt rc)]"
| "record_finalized _ = []"

definition finalized :: "fleet_record list \<Rightarrow> (string \<times> u32 option) list" where
  "finalized rs = concat (map record_finalized rs)"

lemma finalized_simps [simp]:
  "finalized [] = []" "finalized (r # rs) = record_finalized r @ finalized rs" "finalized (xs @ ys) = finalized xs @ finalized ys"
  by (simp_all add: finalized_def)

lemma lawful_past:
  assumes "lawful s rs" and "past s k a" and "attempts_below s n" and "n + length rs < 2 ^ 32 - 1"
  shows "past (replay_records s rs) k a"
  using assms
proof (induction rs arbitrary: s n)
  case (Cons r rs)
  have "past (apply_record s r) k a" by (rule past_apply [of _ _ _ _ n]) (use Cons.prems in simp_all)
  moreover have "attempts_below (apply_record s r) (Suc n)" by (rule attempts_below_apply) (use Cons.prems in simp_all)
  ultimately have "past (replay_records (apply_record s r) rs) k a"
    using Cons.IH [of "apply_record s r" "Suc n"] Cons.prems by simp
  then show ?case by simp
qed simp

lemma lawful_attempts:
  "lawful s rs \<Longrightarrow> attempts_below s n \<Longrightarrow> attempts_below (replay_records s rs) (n + length rs)"
proof (induction rs arbitrary: s n)
  case (Cons r rs)
  then have "attempts_below (apply_record s r) (Suc n)" by (auto intro: attempts_below_apply)
  with Cons.IH [of "apply_record s r" "Suc n"] Cons.prems show ?case by simp
qed simp

text \<open>Only a finalisation writes a finalisation, for the live lease, and afterwards the attempt is over.\<close>

lemma finalized_initial [simp]: "finalized (initial_event_records q r w t ts ps) = []"
  by (induction ps arbitrary: q) simp_all

lemma finalized_lease [simp]: "finalized (snd (lease_with_events r t w at exp m ps hb s)) = []"
  by (simp add: lease_with_events_def split: option.split)

lemma finalized_guarded [simp]: "finalized (snd (append_guarded b e)) = []"
  by (simp add: append_guarded_def)

lemma finalized_op:
  assumes "finalized (op_records p s) \<noteq> []"
  obtains e fs rc a where "op_records p s = [TaskAttemptFinalized e fs rc]" and "rc_attempt rc = Some a"
    and "terminal_payload (ev_payload e) \<noteq> None" and "\<forall>st. fs = Some st \<longrightarrow> status_terminal st"
    and "attempt_is s (ev_run_id e) (ev_task_id e) (ev_worker_id e) Leased a"
proof (cases p)
  case (OpFinalize r w t a ts pl fs rc)
  let ?e = "next_worker_event s r w t ts pl"
  let ?rc = "rc\<lparr>rc_attempt := Some a, rc_terminal_seq := Some (ev_seq ?e)\<rparr>"
  have rs: "op_records p s = [TaskAttemptFinalized ?e fs ?rc]"
    and g: "attempt_is s r t w Leased a" "terminal_payload pl \<noteq> None"
      "\<not> (case fs of None \<Rightarrow> False | Some st \<Rightarrow> \<not> status_terminal st)"
    using assms by (auto simp: OpFinalize finalize_task_attempt_if_leased_def Let_def split: if_splits)
  show ?thesis by (rule that [OF rs]) (use g in \<open>auto simp: next_worker_event_def split: option.splits\<close>)
qed (use assms in \<open>auto simp: create_run_def update_run_status_def enqueue_def claim_next_def
    start_task_if_enqueued_def lease_task_if_enqueued_def mark_task_terminal_status_if_unchanged_def
    append_event_if_leased_def append_event_if_lease_unchanged_def append_terminal_event_if_leased_def
    append_terminal_event_if_lease_unchanged_def restart_task_if_unchanged_def Let_def
    cancel_task_if_active_def heartbeat_op_def record_receipt_def record_failed_attempt_alert_once_def
    split: if_splits option.splits\<close>)

lemma finalized_past:
  assumes "attempt_is s (ev_run_id e) (ev_task_id e) (ev_worker_id e) Leased a"
    and "terminal_payload (ev_payload e) \<noteq> None" and "\<forall>st. fs = Some st \<longrightarrow> status_terminal st"
  shows "past (apply_record s (TaskAttemptFinalized e fs rc)) (event_task_key e) a"
    and "\<not> past s (event_task_key e) a"
proof -
  obtain t where t: "bm_get (fl_tasks s) (event_task_key e) = Some t" "tk_status t = Leased"
    "fe_attempts (tk_entry t) = a" using assms(1) by (auto simp: attempt_is_def event_task_key_def split: option.splits)
  then show "\<not> past s (event_task_key e) a" by (simp add: past_def)
  obtain st where st: "terminal_payload (ev_payload e) = Some st" using assms(2) by auto
  have nl: "status_terminal st' \<Longrightarrow> st' \<noteq> Leased" for st' by (auto simp: status_terminal_def)
  show "past (apply_record s (TaskAttemptFinalized e fs rc)) (event_task_key e) a"
    using t st assms(3) terminal_payload_status [OF st] nl
    by (auto simp: past_def tasks_mark tasks_apply_event event_task_key_def [symmetric] split: option.split)
qed

lemma past_compacted: "fleet_inv s \<Longrightarrow> past (compacted s) k a = past s k a"
  by (auto simp: past_def compacted_tasks_get)

lemma attempts_below_compacted: "fleet_inv s \<Longrightarrow> attempts_below s n \<Longrightarrow> attempts_below (compacted s) n"
  by (auto simp: attempts_below_def mapall_def compacted_tasks_get)

lemma history_finalized:
  assumes "fleet_inv s" and "marks_below s n" and "attempts_below s n" and "list_all op_ok ps"
    and "n + length (ops_written s ps) < 2 ^ 32 - 1"
    and "\<forall>x \<in> D. \<exists>k a. x = (k, Some a) \<and> past s k a"
  shows "distinct (finalized (ops_written s ps)) \<and> D \<inter> set (finalized (ops_written s ps)) = {}"
  using assms
proof (induction ps arbitrary: s n D)
  case (Cons p ps)
  let ?rs = "op_records p s"
  have len: "n + length ?rs < 2 ^ 64" and len32: "n + length ?rs < 2 ^ 32 - 1" using Cons.prems(5) by simp_all
  have ok: "op_ok p" using Cons.prems(4) by simp
  note st = step_inv [OF Cons.prems(1) ok Cons.prems(2) len]
  note law = op_step(1) [OF Cons.prems(1) ok Cons.prems(2) len]
  have ab: "attempts_below (ledger_step s p) (n + length ?rs)"
  proof (cases "p = OpCompact")
    case True
    then show ?thesis using attempts_below_compacted [OF Cons.prems(1,3)] by (simp add: step_compact)
  next
    case False
    then show ?thesis using lawful_attempts [OF law Cons.prems(3)] by (simp add: step_op)
  qed
  have keep: "past (ledger_step s p) k a" if "past s k a" for k a
  proof (cases "p = OpCompact")
    case True
    then show ?thesis using that past_compacted [OF Cons.prems(1)] by (simp add: step_compact)
  next
    case False
    then show ?thesis using lawful_past [OF law that Cons.prems(3) len32] by (simp add: step_op)
  qed
  have one: "finalized ?rs = [] \<or> (\<exists>k a. finalized ?rs = [(k, Some a)] \<and> \<not> past s k a \<and> past (ledger_step s p) k a)"
  proof (cases "finalized ?rs = []")
    case False
    then obtain e fs rc a where rs: "?rs = [TaskAttemptFinalized e fs rc]" "rc_attempt rc = Some a"
      and h: "terminal_payload (ev_payload e) \<noteq> None" "\<forall>st. fs = Some st \<longrightarrow> status_terminal st"
      "attempt_is s (ev_run_id e) (ev_task_id e) (ev_worker_id e) Leased a" using finalized_op by blast
    have "p \<noteq> OpCompact" using rs(1) by auto
    then have "ledger_step s p = apply_record s (TaskAttemptFinalized e fs rc)" by (simp add: step_op rs(1))
    then show ?thesis using rs finalized_past [OF h(3,1,2)] by auto
  qed simp
  let ?D = "D \<union> set (finalized ?rs)"
  have d: "\<forall>x \<in> ?D. \<exists>k a. x = (k, Some a) \<and> past (ledger_step s p) k a"
    using Cons.prems(6) keep one by fastforce
  have IH: "distinct (finalized (ops_written (ledger_step s p) ps))
      \<and> ?D \<inter> set (finalized (ops_written (ledger_step s p) ps)) = {}"
    by (rule Cons.IH [OF st ab _ _ d]) (use Cons.prems(4,5) in simp_all)
  have "distinct (finalized ?rs) \<and> D \<inter> set (finalized ?rs) = {}"
    using one Cons.prems(6) by auto
  with IH show ?case by (auto simp: Int_Un_distrib2)
qed simp

text \<open>
  C8. one verdict per attempt. A history finalises the attempt of a task, the pair of task and attempt
  number, at most once.
\<close>

theorem attempt_finalized_once:
  assumes "list_all op_ok ps" and "length (ops_written fleet_state_empty ps) < 2 ^ 32 - 1"
  shows "distinct (finalized (ops_written fleet_state_empty ps))"
proof -
  have "attempts_below fleet_state_empty 0" by (simp add: attempts_below_def fleet_state_empty_def)
  then show ?thesis
    using history_finalized [OF fleet_inv_empty marks_below_empty _ assms(1), of "{}"] assms(2) by simp
qed

section \<open>Compaction\<close>

text \<open>
  C11. compaction keeps the ledger. Rewriting the ledger to a snapshot leaves the runs, the status of
  every known run, the tasks, the sequence numbers, the heartbeats, the receipts and the alerts as they
  were; only the completion time of a task that was restarted since is dropped.
\<close>

theorem compaction_preserves_ledger:
  assumes "list_all op_ok ps" and "length (ops_written fleet_state_empty ps) < 2 ^ 64"
  shows "fl_runs (run_ops (ps @ [OpCompact])) = fl_runs (run_ops ps)
    \<and> map (\<lambda>kr. bm_get (fl_run_status_overrides (run_ops (ps @ [OpCompact]))) (fst kr)) (fl_runs (run_ops ps))
      = map (\<lambda>kr. bm_get (fl_run_status_overrides (run_ops ps)) (fst kr)) (fl_runs (run_ops ps))
    \<and> fl_tasks (run_ops (ps @ [OpCompact])) = map (\<lambda>(k, t). (k, compacted_task t)) (fl_tasks (run_ops ps))
    \<and> fl_latest_seq (run_ops (ps @ [OpCompact])) = fl_latest_seq (run_ops ps)
    \<and> fl_heartbeats (run_ops (ps @ [OpCompact])) = fl_heartbeats (run_ops ps)
    \<and> fl_receipts (run_ops (ps @ [OpCompact])) = fl_receipts (run_ops ps)
    \<and> fl_alerts (run_ops (ps @ [OpCompact])) = fl_alerts (run_ops ps)"
proof -
  note i = reached_inv [OF assms]
  have "\<forall>kr \<in> set (fl_runs (run_ops ps)). bm_get (fl_run_status_overrides (compacted (run_ops ps))) (fst kr)
      = bm_get (fl_run_status_overrides (run_ops ps)) (fst kr)"
    using compacted_overrides [OF i] bm_get_in [OF inv_parts(9) [OF i]] by (metis prod.collapse)
  then show ?thesis
    by (simp add: step_compact compacted_runs_exact i compacted_tasks_exact compacted_marks_exact
        compacted_heartbeats_exact compacted_receipts_exact compacted_alerts_exact)
qed

section \<open>The workers of a run\<close>

lemma tasks_initial_events:
  "list_all (\<lambda>p. terminal_payload p = None) ps
    \<Longrightarrow> fl_tasks (replay_records s (initial_event_records q r w t ts ps)) = fl_tasks s"
  by (induction ps arbitrary: s q) (simp_all add: tasks_apply_event)

lemma count_bm_insert:
  assumes "bm_sorted m"
  shows "length (filter P (bm_values (bm_insert k v m)))
    \<le> length (filter P (bm_values m)) + (if P v then 1 else 0)"
  using assms by (induction k v m rule: bm_insert.induct) (auto simp: bm_values_def bm_sorted_def)

text \<open>
  C33. capacity. Starting a task with a bound on the active tasks of its run leaves at most that many
  leased tasks in the run, or as many as there were.
\<close>

theorem start_respects_capacity:
  assumes "list_all op_ok (ps @ [OpStart r t w at exp (Some m) evs])"
    and "length (ops_written fleet_state_empty ps) < 2 ^ 64"
  shows "leased_in_run (run_ops (ps @ [OpStart r t w at exp (Some m) evs])) r \<le> max m (leased_in_run (run_ops ps) r)"
proof -
  let ?s = "run_ops ps"
  have i: "fleet_inv ?s" by (rule reached_inv) (use assms in simp_all)
  have ev: "list_all (\<lambda>p. terminal_payload p = None) evs" using assms(1) by simp
  let ?rs = "snd (start_task_if_enqueued r t w at exp (Some m) evs ?s)"
  have st: "run_ops (ps @ [OpStart r t w at exp (Some m) evs]) = replay_records ?s ?rs" by (simp add: step_op)
  show ?thesis
  proof (cases "?rs = []")
    case True
    then show ?thesis unfolding st by simp
  next
    case False
    then obtain tk where tk: "bm_get (fl_tasks ?s) (task_key r t) = Some tk" and cap: "leased_in_run ?s r < m"
      by (auto simp: start_task_if_enqueued_def lease_with_events_def not_le split: option.splits if_splits)
    have rs: "?rs = TaskLeasedRec r t w at exp # initial_event_records (latest_seq_of ?s w r t + 1) r w t at evs
        @ [HeartbeatRec w at None None]"
      using False by (auto simp: start_task_if_enqueued_def lease_with_events_def split: option.splits if_splits)
    have T: "fl_tasks (replay_records ?s ?rs) = fl_tasks (apply_record ?s (TaskLeasedRec r t w at exp))"
      by (simp add: rs Let_def tasks_initial_events [OF ev] del: apply_record.simps(4))
    also have "\<dots> = bm_insert (task_key r t) (leased_task w at exp tk) (fl_tasks ?s)"
      unfolding apply_leased by (simp add: tk)
    finally have T: "fl_tasks (replay_records ?s ?rs) = bm_insert (task_key r t) (leased_task w at exp tk) (fl_tasks ?s)" .
    let ?P = "\<lambda>t. fe_run_id (tk_entry t) = r \<and> tk_status t = Leased"
    have "length (filter ?P (bm_values (fl_tasks (replay_records ?s ?rs)))) \<le> length (filter ?P (bm_values (fl_tasks ?s)))
        + (if ?P (leased_task w at exp tk) then 1 else 0)"
      unfolding T by (rule count_bm_insert [OF inv_parts(7) [OF i]])
    then have "leased_in_run (replay_records ?s ?rs) r \<le> leased_in_run ?s r + 1"
      unfolding leased_in_run_def by (simp split: if_splits)
    with cap show ?thesis unfolding st by simp
  qed
qed

section \<open>The file\<close>

text \<open>
  C32. the file implements the history. Replaying the file that appends and compactions have left gives
  the state of the history of operations, for a codec that reads back each record it wrote.
\<close>

theorem ledger_file_refines_histories:
  assumes "\<forall>r \<in> set (history_writes fleet_state_empty ps). line_ok ser de r"
  shows "rebuild_state de (foldl (file_step ser de) [] ps) = run_ops ps"
proof -
  have "rebuild_state de [] = fleet_state_empty"
    by (simp add: rebuild_state_def file_records_def List.map_filter_def)
  then show ?thesis using file_history_refines [of de "[]" ps ser] assms by (simp add: run_ops_def)
qed

section \<open>A sample history\<close>

text \<open>One task, started by the only worker, finalised and restarted, with a compaction at the end.\<close>

definition sample_entry :: fleet_inbox_entry where
  "sample_entry = \<lparr>fe_run_id = ''r'', fe_task_id = ''t'', fe_priority = 0, fe_enqueued_at = ''0'',
     fe_lease_deadline = None, fe_attempts = 0\<rparr>"

definition sample_receipt :: fleet_receipt where
  "sample_receipt = \<lparr>rc_run_id = ''r'', rc_task_id = ''t'', rc_worker_id = ''w'', rc_attempt = None,
     rc_terminal_seq = None, rc_completed_at = ''2'', rc_result = ResultFail, rc_failure_kind = None,
     rc_artifacts = [], rc_score = None, rc_resolved_route = None, rc_effective_permissions = None\<rparr>"

definition sample_history :: "fleet_op list" where
  "sample_history =
     [OpEnqueue sample_entry,
      OpStart ''r'' ''t'' ''w'' ''1'' None (Some 1) [EvStarting, EvRunning],
      OpFinalize ''r'' ''w'' ''t'' 1 ''2'' (EvFailed ''x'' True) None sample_receipt,
      OpRestart ''r'' ''t'' ''w'' TaskFailed 1 3 (Some ''1'') ''3'' None 1,
      OpHeartbeat ''w'' ''4'' None None]"

text \<open>An operation writes at most four records beyond the events a lease starts with.\<close>

fun op_size :: "fleet_op \<Rightarrow> nat" where
  "op_size (OpStart r t w at exp m ps) = 4 + length ps"
| "op_size _ = 4"

lemma length_lease: "length (snd (lease_with_events r t w at exp m ps hb s)) \<le> 2 + length ps"
  by (simp add: lease_with_events_def split: option.split)

lemma length_guarded: "length (snd (append_guarded b e)) \<le> 4"
  by (simp add: append_guarded_def)

lemma length_op_records: "length (op_records p s) \<le> op_size p"
proof (cases p)
  case (OpStart r t w at exp m ps)
  then show ?thesis using length_lease [of r t w at exp m ps True s] by (simp add: start_task_if_enqueued_def)
next
  case (OpLease r t w at exp m)
  then show ?thesis using length_lease [of r t w at exp m "[]" False s] by (simp add: lease_task_if_enqueued_def)
next
  case (OpProgress r w t a ts pl)
  then show ?thesis using length_guarded by (auto simp: append_event_if_leased_def)
next
  case (OpProgressUnchanged r w t a q hb ts pl)
  then show ?thesis using length_guarded by (auto simp: append_event_if_lease_unchanged_def intro: le_trans)
next
  case (OpTerminal r w t a ts pl)
  then show ?thesis using length_guarded by (auto simp: append_terminal_event_if_leased_def intro: le_trans)
next
  case (OpTerminalUnchanged r w t a q hb ts pl)
  then show ?thesis using length_guarded by (auto simp: append_terminal_event_if_lease_unchanged_def intro: le_trans)
next
  case (OpCancel r t ew ts sig by')
  then show ?thesis by (simp add: cancel_task_if_active_def Let_def split: option.split)
qed (simp_all add: create_run_def update_run_status_def enqueue_def claim_next_def mark_task_terminal_status_if_unchanged_def
    finalize_task_attempt_if_leased_def restart_task_if_unchanged_def heartbeat_op_def record_receipt_def
    record_failed_attempt_alert_once_def Let_def split: option.split)

lemma length_ops_written: "length (ops_written s ps) \<le> sum_list (map op_size ps)"
  by (induction ps arbitrary: s) (auto intro: add_mono length_op_records)

lemma sample_ok: "list_all op_ok sample_history"
  by (simp add: sample_history_def sample_entry_def)

lemma sample_written: "length (ops_written s sample_history) \<le> 22"
  using length_ops_written [of s sample_history] by (simp add: sample_history_def)

lemma one_lease_per_worker_witness:
  "length (filter (worker_is_leased ''w'') (bm_values (fl_tasks (run_ops sample_history)))) \<le> 1"
  by (rule one_lease_per_worker [OF sample_ok]) (rule le_less_trans [OF sample_written], simp)

lemma event_numbers_grow_witness:
  "sorted_wrt (<) (written_seqs (event_key ''w'' ''r'' ''t'') (ops_written fleet_state_empty sample_history))"
  by (rule event_numbers_grow [OF sample_ok]) (rule le_less_trans [OF sample_written], simp)

lemma attempt_finalized_once_witness: "distinct (finalized (ops_written fleet_state_empty sample_history))"
  by (rule attempt_finalized_once [OF sample_ok]) (rule le_less_trans [OF sample_written], simp)

lemma compaction_preserves_ledger_witness:
  "fl_tasks (run_ops (sample_history @ [OpCompact])) = map (\<lambda>(k, t). (k, compacted_task t)) (fl_tasks (run_ops sample_history))"
proof -
  have "length (ops_written fleet_state_empty sample_history) < 2 ^ 64" by (rule le_less_trans [OF sample_written]) simp
  from compaction_preserves_ledger [OF sample_ok this] show ?thesis by blast
qed

lemma start_respects_capacity_witness:
  "leased_in_run (run_ops (sample_history @ [OpStart ''r'' ''u'' ''v'' ''5'' None (Some 1) [EvStarting]])) ''r''
     \<le> max 1 (leased_in_run (run_ops sample_history) ''r'')"
  by (rule start_respects_capacity) (simp add: sample_ok, rule le_less_trans [OF sample_written], simp)

text \<open>A file of three records, written by a codec that has one letter for each.\<close>

definition sample_heartbeat :: fleet_record where
  "sample_heartbeat = HeartbeatRec ''w'' ''4'' None None"

definition sample_ser :: "fleet_record \<Rightarrow> string" where
  "sample_ser r = (if r = sample_heartbeat then ''b'' else ''a'')"

definition sample_de :: "string \<Rightarrow> fleet_record option" where
  "sample_de l = (if l = ''a'' then Some (TaskEnqueuedRec sample_entry) else if l = ''b'' then Some sample_heartbeat else None)"

lemma sample_line_ok: "r \<in> {TaskEnqueuedRec sample_entry, sample_heartbeat} \<Longrightarrow> line_ok sample_ser sample_de r"
  by (auto simp: line_ok_def sample_ser_def sample_de_def sample_heartbeat_def trim_def trim_start_def trim_end_def is_ws_def
      strict_prefix_def prefix_Cons)

lemma sample_file_writes:
  "set (history_writes fleet_state_empty [OpEnqueue sample_entry, OpHeartbeat ''w'' ''4'' None None, OpCompact])
     \<subseteq> {TaskEnqueuedRec sample_entry, sample_heartbeat}"
  by (auto simp: step_writes_def ledger_step_def enqueue_def heartbeat_op_def sample_heartbeat_def
      compact_records_def fleet_state_empty_def bm_empty_def bm_values_def bm_get_def bm_get_or_def Let_def compact_task_def
      compacted_events_def bm_collect_def compact_checkpoints_def List.map_filter_def compact_heartbeat_def
      compact_terminal_def status_terminal_def task_key_def sample_entry_def unwrap_or_def)

lemma ledger_file_refines_histories_witness:
  "rebuild_state sample_de (foldl (file_step sample_ser sample_de) []
      [OpEnqueue sample_entry, OpHeartbeat ''w'' ''4'' None None, OpCompact])
   = run_ops [OpEnqueue sample_entry, OpHeartbeat ''w'' ''4'' None None, OpCompact]"
  by (rule ledger_file_refines_histories) (use sample_file_writes sample_line_ok in blast)

lemma interrupted_append_recovers_witness:
  "\<exists>k. k \<le> length [TaskEnqueuedRec sample_entry, sample_heartbeat]
    \<and> rebuild_state sample_de ''a'' = replay_records (rebuild_state sample_de []) (take k [TaskEnqueuedRec sample_entry, sample_heartbeat])
    \<and> rebuild_state sample_de (append_records sample_ser [sample_heartbeat] ''a'')
      = replay_records (rebuild_state sample_de []) (take k [TaskEnqueuedRec sample_entry, sample_heartbeat] @ [sample_heartbeat])"
  by (rule interrupted_append_recovers)
    (use sample_line_ok in \<open>auto simp: append_records_def record_lines_def sample_ser_def sample_heartbeat_def newline_def\<close>)

end
