(* ===== verification/Fleet_Scheduler.thy ===== *)
theory Fleet_Scheduler
  imports Fleet_Properties
begin

text \<open>
  The scheduler of a fleet run (\<open>crates/tui/src/fleet/scheduler.rs\<close>): detection of stale leases, retry or
  failure with alerts, launching within the capacities, resuming and cancelling a run. The state of the
  ledger is threaded through; each call of the ledger is one of its operations, deciding on the state of
  that moment, while a loop walks over the tasks of the state it began with. Times are nanoseconds since
  the epoch; reading and writing them as RFC 3339 (\<open>ck_parse\<close>, \<open>ck_format\<close>) are parameters, and so is the
  instant \<open>ck_now\<close> the scheduler was given. Formatting a lease expiry outside the range of dates, which
  panics, is not modelled.
\<close>

record fleet_clock =
  ck_now :: int
  ck_parse :: "string \<Rightarrow> int option"
  ck_format :: "int \<Rightarrow> string"

record scheduler_policy =
  so_max_workers_per_run :: nat
  so_max_workers_per_host :: nat
  so_max_workers_per_task_class :: nat
  so_lease_seconds :: u64
  so_heartbeat_timeout :: int

definition second_ns :: int where
  "second_ns = 1000000000"

definition scheduler_policy_default :: scheduler_policy where
  "scheduler_policy_default =
     \<lparr>so_max_workers_per_run = 4, so_max_workers_per_host = 4, so_max_workers_per_task_class = 4,
      so_lease_seconds = 300, so_heartbeat_timeout = 120 * second_ns\<rparr>"

record scheduler_report =
  sr_launched :: nat
  sr_heartbeats :: nat
  sr_marked_stale :: nat
  sr_restarted :: nat
  sr_failed :: nat
  sr_cancelled :: nat
  sr_alerts :: nat

definition scheduler_report_default :: scheduler_report where
  "scheduler_report_default =
     \<lparr>sr_launched = 0, sr_heartbeats = 0, sr_marked_stale = 0, sr_restarted = 0, sr_failed = 0,
      sr_cancelled = 0, sr_alerts = 0\<rparr>"

text \<open>One call of the ledger: its result, and the state after its records.\<close>

definition ledger_call :: "(fleet_state \<Rightarrow> 'a \<times> fleet_record list) \<Rightarrow> fleet_state \<Rightarrow> 'a \<times> fleet_state" where
  "ledger_call decide s = (fst (decide s), replay_records s (snd (decide s)))"

definition timestamp :: "fleet_clock \<Rightarrow> string" where
  "timestamp c = ck_format c (ck_now c)"

definition lease_expires_at :: "fleet_clock \<Rightarrow> scheduler_policy \<Rightarrow> string" where
  "lease_expires_at c p = ck_format c (ck_now c + sint (so_lease_seconds p) * second_ns)"

section \<open>Reading the state\<close>

definition active_tasks_for_run :: "fleet_state \<Rightarrow> fleet_run_id \<Rightarrow> fleet_task list" where
  "active_tasks_for_run s run_id =
     filter (\<lambda>t. fe_run_id (tk_entry t) = run_id \<and> tk_status t = Leased) (bm_values (fl_tasks s))"

definition tasks_of_run :: "fleet_state \<Rightarrow> fleet_run_id \<Rightarrow> fleet_task list" where
  "tasks_of_run s run_id = filter (\<lambda>t. fe_run_id (tk_entry t) = run_id) (bm_values (fl_tasks s))"

definition task_spec_for :: "fleet_state \<Rightarrow> fleet_task \<Rightarrow> fleet_task_spec option" where
  "task_spec_for s t =
     (case bm_get (fl_runs s) (fe_run_id (tk_entry t)) of
        None \<Rightarrow> None
      | Some r \<Rightarrow> List.find (\<lambda>spec. ft_id spec = fe_task_id (tk_entry t)) (fn_task_specs r))"

fun host_key :: "fleet_host_spec \<Rightarrow> string" where
  "host_key LocalHost = ''local''"
| "host_key (SshHost h) = ''ssh:'' @ sh_host h"
| "host_key (DockerHost img args) = ''docker:'' @ img"

definition task_class :: "fleet_task_spec \<Rightarrow> string" where
  "task_class spec =
     (case bm_get (ft_metadata spec) ''class'' of
        Some (JStr v) \<Rightarrow> if trim v \<noteq> [] then v else ''default''
      | _ \<Rightarrow> ''default'')"

fun alert_channel_label :: "fleet_alert_channel \<Rightarrow> string" where
  "alert_channel_label (SlackChannel _) = ''slack''"
| "alert_channel_label (WebhookChannel _) = ''webhook''"
| "alert_channel_label (PagerDutyChannel _ _) = ''pagerduty''"

definition alert_policy_matches :: "fleet_alert_policy \<Rightarrow> fleet_alert_event_class \<Rightarrow> bool" where
  "alert_policy_matches p cl \<longleftrightarrow> al_events p = [] \<or> cl \<in> set (al_events p)"

text \<open>How many tasks of the run are active, by the host of their worker and by their class.\<close>

definition count_up :: "string \<Rightarrow> (string, nat) bmap \<Rightarrow> (string, nat) bmap" where
  "count_up k m = bm_insert k (bm_get_or m k 0 + 1) m"

definition active_counts :: "fleet_state \<Rightarrow> fleet_run \<Rightarrow> (string, nat) bmap \<times> (string, nat) bmap" where
  "active_counts s r = foldl (\<lambda>(hosts, classes) t.
     ((case tk_leased_to t of
         None \<Rightarrow> hosts
       | Some w \<Rightarrow> (case List.find (\<lambda>wk. fw_id wk = w) (fn_worker_specs r) of
             None \<Rightarrow> hosts | Some wk \<Rightarrow> count_up (host_key (fw_host wk)) hosts)),
      (case List.find (\<lambda>spec. ft_id spec = fe_task_id (tk_entry t)) (fn_task_specs r) of
         None \<Rightarrow> classes | Some spec \<Rightarrow> count_up (task_class spec) classes)))
     (bm_empty, bm_empty) (active_tasks_for_run s (fn_id r))"

definition task_is_stale :: "fleet_clock \<Rightarrow> scheduler_policy \<Rightarrow> fleet_task \<Rightarrow> fleet_state \<Rightarrow> bool" where
  "task_is_stale c p t s =
     (let beat = (case tk_leased_to t of None \<Rightarrow> None | Some w \<Rightarrow>
            (case bm_get (fl_heartbeats s) w of None \<Rightarrow> None | Some hb \<Rightarrow> ck_parse c (hb_timestamp hb))) in
      case beat of
        Some last_beat \<Rightarrow>
          (let age = ck_now c - last_beat in if age < 0 then True else age > so_heartbeat_timeout p)
      | None \<Rightarrow>
          (case (case fe_lease_deadline (tk_entry t) of None \<Rightarrow> None | Some d \<Rightarrow> ck_parse c d) of
             Some deadline \<Rightarrow> ck_now c > deadline
           | None \<Rightarrow> True))"

section \<open>Recovery\<close>

definition fallback_worker :: string where
  "fallback_worker = ''fleet-scheduler''"

definition worker_of :: "fleet_task \<Rightarrow> string" where
  "worker_of t = unwrap_or fallback_worker (tk_leased_to t)"

fun record_alerts_loop ::
    "fleet_clock \<Rightarrow> fleet_run_id \<Rightarrow> string \<Rightarrow> string \<Rightarrow> u32 \<Rightarrow> nat \<Rightarrow> fleet_alert_channel list
       \<Rightarrow> fleet_state \<Rightarrow> nat \<times> fleet_state" where
  "record_alerts_loop c run_id task_id worker_id attempts index [] s = (0, s)"
| "record_alerts_loop c run_id task_id worker_id attempts index (ch # chs) s =
     (let label = alert_channel_label ch;
          (sent, s1) = ledger_call (record_failed_attempt_alert_once run_id task_id worker_id attempts label
            (label @ ''#'' @ show_nat index) (timestamp c)) s;
          (n, s2) = record_alerts_loop c run_id task_id worker_id attempts (index + 1) chs s1 in
      ((if sent then 1 else 0) + n, s2))"

definition record_alerts ::
    "fleet_clock \<Rightarrow> fleet_run_id \<Rightarrow> string \<Rightarrow> string \<Rightarrow> u32 \<Rightarrow> fleet_task_spec \<Rightarrow> fleet_alert_event_class
       \<Rightarrow> fleet_state \<Rightarrow> nat \<times> fleet_state" where
  "record_alerts c run_id task_id worker_id attempts spec cl s =
     (case ft_alert_policy spec of
        None \<Rightarrow> (0, s)
      | Some policy \<Rightarrow>
          if alert_policy_matches policy cl
          then record_alerts_loop c run_id task_id worker_id attempts 0 (al_channels policy) s
          else (0, s))"

definition exhausted_reason :: "u32 \<Rightarrow> string" where
  "exhausted_reason attempts = ''retry attempts exhausted after '' @ show_nat (unat attempts) @ '' attempt(s)''"

definition retry_or_fail ::
    "fleet_clock \<Rightarrow> scheduler_policy \<Rightarrow> fleet_task \<Rightarrow> fleet_task_spec \<Rightarrow> string \<Rightarrow> u64 \<Rightarrow> string option
       \<Rightarrow> scheduler_report \<times> fleet_state \<Rightarrow> scheduler_report \<times> fleet_state" where
  "retry_or_fail c p t spec worker_id seq hb rs =
     (let (rep, s) = rs;
          run_id = fe_run_id (tk_entry t); task_id = fe_task_id (tk_entry t); attempts = fe_attempts (tk_entry t);
          policy = unwrap_or fleet_retry_policy_default (ft_retry_policy spec) in
      if attempts < fr_max_attempts policy then
        (let (ok, s1) = ledger_call (restart_task_if_unchanged run_id task_id worker_id (tk_status t) attempts seq
              hb (timestamp c) (Some (lease_expires_at c p)) attempts) s in
         (if ok then rep\<lparr>sr_restarted := sr_restarted rep + 1\<rparr> else rep, s1))
      else if tk_status t = TaskFailed then
        (let (n, s1) = record_alerts c run_id task_id worker_id attempts spec RestartExhausted s in
         (rep\<lparr>sr_alerts := sr_alerts rep + n\<rparr>, s1))
      else
        (let (res, s1) = ledger_call (append_terminal_event_if_lease_unchanged run_id worker_id task_id attempts
              seq hb (timestamp c) (EvFailed (exhausted_reason attempts) False)) s in
         case res of
           Inr (Some e) \<Rightarrow>
             (let (n, s2) = record_alerts c run_id task_id worker_id attempts spec RestartExhausted s1 in
              (rep\<lparr>sr_failed := sr_failed rep + 1, sr_alerts := sr_alerts rep + n\<rparr>, s2))
         | _ \<Rightarrow> (rep, s1)))"

definition recover_stale ::
    "fleet_clock \<Rightarrow> scheduler_policy \<Rightarrow> fleet_state \<Rightarrow> fleet_task \<Rightarrow> fleet_task_spec
       \<Rightarrow> scheduler_report \<times> fleet_state \<Rightarrow> scheduler_report \<times> fleet_state" where
  "recover_stale c p s0 t spec rs =
     (let (rep, s) = rs;
          run_id = fe_run_id (tk_entry t); task_id = fe_task_id (tk_entry t); w = worker_of t;
          hb = heartbeat_at s0 w;
          (res, s1) = ledger_call (append_event_if_lease_unchanged run_id w task_id (fe_attempts (tk_entry t))
            (latest_seq_of s0 w run_id task_id) hb (timestamp c) (EvStale hb)) s in
      case res of
        Inr (Some e) \<Rightarrow>
          retry_or_fail c p t spec w (ev_seq e) hb (rep\<lparr>sr_marked_stale := sr_marked_stale rep + 1\<rparr>, s1)
      | _ \<Rightarrow> (rep, s1))"

definition reconcile_task ::
    "fleet_clock \<Rightarrow> scheduler_policy \<Rightarrow> fleet_state \<Rightarrow> scheduler_report \<times> fleet_state \<Rightarrow> fleet_task
       \<Rightarrow> scheduler_report \<times> fleet_state" where
  "reconcile_task c p s0 rs t =
     (if tk_status t \<noteq> Leased \<or> \<not> task_is_stale c p t s0 then rs
      else case task_spec_for s0 t of None \<Rightarrow> rs | Some spec \<Rightarrow> recover_stale c p s0 t spec rs)"

definition reconcile_stale_leases ::
    "fleet_clock \<Rightarrow> scheduler_policy \<Rightarrow> fleet_run_id \<Rightarrow> scheduler_report \<times> fleet_state
       \<Rightarrow> scheduler_report \<times> fleet_state" where
  "reconcile_stale_leases c p run_id rs =
     foldl (reconcile_task c p (snd rs)) rs (tasks_of_run (snd rs) run_id)"

definition recover_task ::
    "fleet_clock \<Rightarrow> scheduler_policy \<Rightarrow> fleet_state \<Rightarrow> scheduler_report \<times> fleet_state \<Rightarrow> fleet_task
       \<Rightarrow> scheduler_report \<times> fleet_state" where
  "recover_task c p s0 rs t =
     (case task_spec_for s0 t of
        None \<Rightarrow> rs
      | Some spec \<Rightarrow>
          if tk_status t = Leased \<and> task_is_stale c p t s0 then recover_stale c p s0 t spec rs
          else if tk_status t = TaskFailed then
            retry_or_fail c p t spec (worker_of t)
              (latest_seq_of s0 (worker_of t) (fe_run_id (tk_entry t)) (fe_task_id (tk_entry t)))
              (heartbeat_at s0 (worker_of t)) rs
          else rs)"

definition recover_unhealthy_work ::
    "fleet_clock \<Rightarrow> scheduler_policy \<Rightarrow> fleet_run_id \<Rightarrow> scheduler_report \<times> fleet_state
       \<Rightarrow> scheduler_report \<times> fleet_state" where
  "recover_unhealthy_work c p run_id rs = foldl (recover_task c p (snd rs)) rs (tasks_of_run (snd rs) run_id)"

section \<open>Launching\<close>

definition launch_key :: "fleet_task \<Rightarrow> int \<times> string \<times> string" where
  "launch_key t = (fe_priority (tk_entry t), fe_enqueued_at (tk_entry t), fe_task_id (tk_entry t))"

definition free_worker ::
    "scheduler_policy \<Rightarrow> (string, nat) bmap \<Rightarrow> string list \<Rightarrow> fleet_run \<Rightarrow> fleet_worker_spec option" where
  "free_worker p hosts active r =
     List.find (\<lambda>wk. fw_id wk \<notin> set active
       \<and> bm_get_or hosts (host_key (fw_host wk)) 0 < so_max_workers_per_host p) (fn_worker_specs r)"

fun next_launch_loop ::
    "scheduler_policy \<Rightarrow> (string, nat) bmap \<times> (string, nat) bmap \<Rightarrow> string list \<Rightarrow> fleet_run \<Rightarrow> fleet_task list
       \<Rightarrow> (string \<times> fleet_task) option" where
  "next_launch_loop p counts active r [] = None"
| "next_launch_loop p counts active r (t # ts) =
     (case List.find (\<lambda>spec. ft_id spec = fe_task_id (tk_entry t)) (fn_task_specs r) of
        None \<Rightarrow> None
      | Some spec \<Rightarrow>
          if so_max_workers_per_task_class p \<le> bm_get_or (snd counts) (task_class spec) 0
          then next_launch_loop p counts active r ts
          else case free_worker p (fst counts) active r of
            Some wk \<Rightarrow> Some (fw_id wk, t)
          | None \<Rightarrow> next_launch_loop p counts active r ts)"

definition next_launch ::
    "scheduler_policy \<Rightarrow> fleet_run \<Rightarrow> fleet_state \<Rightarrow> (string, nat) bmap \<times> (string, nat) bmap
       \<Rightarrow> (string \<times> fleet_task) option" where
  "next_launch p r s counts =
     next_launch_loop p counts (List.map_filter tk_leased_to (active_tasks_for_run s (fn_id r))) r
       (sort_key launch_key (filter (\<lambda>t. fe_run_id (tk_entry t) = fn_id r \<and> tk_status t = Enqueued)
         (bm_values (fl_tasks s))))"

text \<open>The loop may run forever (see \<open>Fleet_Scheduling\<close>), so it is given fuel: None is not returning.\<close>

fun launch_queued_work ::
    "nat \<Rightarrow> fleet_clock \<Rightarrow> scheduler_policy \<Rightarrow> fleet_run_id \<Rightarrow> scheduler_report \<times> fleet_state
       \<Rightarrow> (string + scheduler_report \<times> fleet_state) option" where
  "launch_queued_work 0 c p run_id rs = None"
| "launch_queued_work (Suc n) c p run_id (rep, s) =
     (case bm_get (fl_runs s) run_id of
        None \<Rightarrow> Some (Inl (''fleet run '' @ run_id @ '' does not exist''))
      | Some r \<Rightarrow>
          if so_max_workers_per_run p \<le> length (active_tasks_for_run s run_id) then Some (Inr (rep, s))
          else case next_launch p r s (active_counts s r) of
            None \<Rightarrow> Some (Inr (rep, s))
          | Some (w, t) \<Rightarrow>
              (let (ok, s1) = ledger_call (start_task_if_enqueued (fe_run_id (tk_entry t)) (fe_task_id (tk_entry t)) w
                    (timestamp c) (Some (lease_expires_at c p)) (Some (so_max_workers_per_run p))
                    [EvLeased (Some (lease_expires_at c p)), EvStarting, EvRunning]) s in
               launch_queued_work n c p run_id
                 (if ok then rep\<lparr>sr_launched := sr_launched rep + 1, sr_heartbeats := sr_heartbeats rep + 1\<rparr> else rep, s1)))"

section \<open>The run\<close>

definition status_of_tasks :: "fleet_task list \<Rightarrow> fleet_run_status" where
  "status_of_tasks ts =
     (if \<exists>t \<in> set ts. tk_status t = Enqueued \<or> tk_status t = Leased then RunRunning
      else if \<exists>t \<in> set ts. tk_status t = TaskFailed then RunFailed
      else if \<exists>t \<in> set ts. tk_status t = TaskCancelled then RunCancelled
      else RunCompleted)"

definition refresh_run_status :: "string \<Rightarrow> fleet_run_id \<Rightarrow> fleet_state \<Rightarrow> fleet_state" where
  "refresh_run_status ts run_id s =
     snd (ledger_call (update_run_status run_id (status_of_tasks (tasks_of_run s run_id)) ts) s)"

definition resume_run ::
    "fleet_clock \<Rightarrow> scheduler_policy \<Rightarrow> fleet_run_id \<Rightarrow> fleet_state \<Rightarrow> scheduler_report \<times> fleet_state" where
  "resume_run c p run_id s =
     (let (rep, s1) = reconcile_stale_leases c p run_id (scheduler_report_default, s) in
      (rep, refresh_run_status (timestamp c) run_id s1))"

definition tick_run ::
    "nat \<Rightarrow> fleet_clock \<Rightarrow> scheduler_policy \<Rightarrow> fleet_run_id \<Rightarrow> fleet_state
       \<Rightarrow> (string + scheduler_report \<times> fleet_state) option" where
  "tick_run n c p run_id s =
     (case launch_queued_work n c p run_id (recover_unhealthy_work c p run_id (scheduler_report_default, s)) of
        Some (Inr (rep, s1)) \<Rightarrow> Some (Inr (rep, refresh_run_status (timestamp c) run_id s1))
      | other \<Rightarrow> other)"

definition cancel_step ::
    "string \<Rightarrow> string \<Rightarrow> string \<Rightarrow> nat \<times> fleet_state \<Rightarrow> fleet_task \<Rightarrow> nat \<times> fleet_state" where
  "cancel_step ts reason by' ns t =
     (if \<not> (tk_status t = Enqueued \<or> tk_status t = Leased) then ns
      else let (ok, s1) = ledger_call (cancel_task_if_active (fe_run_id (tk_entry t)) (fe_task_id (tk_entry t)) None
            ts (Some reason) (Some by')) (snd ns) in
        (if ok then fst ns + 1 else fst ns, s1))"

definition cancel_run ::
    "fleet_clock \<Rightarrow> fleet_run_id \<Rightarrow> string \<Rightarrow> fleet_state \<Rightarrow> scheduler_report \<times> fleet_state" where
  "cancel_run c run_id reason s =
     (let (n, s1) = foldl (cancel_step (timestamp c) reason ''scheduler'') (0, s) (tasks_of_run s run_id) in
      (scheduler_report_default\<lparr>sr_cancelled := n\<rparr>,
       snd (ledger_call (update_run_status run_id RunCancelled (timestamp c)) s1)))"

end
