(* ===== verification/Fleet_Manager.thy ===== *)
theory Fleet_Manager
  imports Fleet_Scheduler
begin

text \<open>
  The manager of fleet runs as it acts on the ledger (\<open>crates/tui/src/fleet/manager.rs\<close>): creating and
  scheduling a run, stopping, interrupting and restarting, the outcome of an attempt with its receipt, and
  the status and inspection reports. Given by the environment: the clock, the size of a file, the routes
  and permissions a receipt snapshots, the verification of a result, and the identifier of a new run. One
  call reads the clock once. The host processes (\<open>drive_executor_tick\<close>, \<open>start_leased_workers\<close>), the lock
  of \<open>run_to_completion\<close>, profiles and the registration with the sub-agent manager are not modelled.
\<close>

record verification_input =
  vi_run_id :: fleet_run_id
  vi_task_id :: string
  vi_worker_id :: string
  vi_attempt :: u32
  vi_exit_code :: "int option"
  vi_artifacts :: "fleet_artifact_ref list"
  vi_resolved_route :: "json option"
  vi_effective_permissions :: "json option"

record manager_env =
  mg_clock :: fleet_clock
  mg_stale_after :: int
  mg_file_size :: "string \<Rightarrow> u64 option"
  mg_task_route :: "fleet_task_spec \<Rightarrow> json option"
  mg_reported_route :: "fleet_task_spec \<Rightarrow> json \<Rightarrow> json option"
  mg_permissions :: "fleet_state \<Rightarrow> string \<Rightarrow> fleet_inbox_entry \<Rightarrow> fleet_task_spec \<Rightarrow> json option"
  mg_verify :: "fleet_task_spec \<Rightarrow> verification_input \<Rightarrow> string + fleet_receipt"

abbreviation mg_timestamp :: "manager_env \<Rightarrow> string" where
  "mg_timestamp env \<equiv> timestamp (mg_clock env)"

section \<open>Workers and tasks\<close>

definition default_local_worker_with_name :: "string \<Rightarrow> nat \<Rightarrow> fleet_worker_spec" where
  "default_local_worker_with_name worker_id index =
     \<lparr>fw_id = worker_id, fw_name = ''Local worker '' @ show_nat index, fw_host = LocalHost,
      fw_trust_level = Some LocalTrust, fw_labels = bm_empty, fw_capabilities = [''local''],
      fw_max_concurrent_tasks = Some 1\<rparr>"

definition default_local_workers :: "fleet_run_id \<Rightarrow> nat \<Rightarrow> fleet_worker_spec list" where
  "default_local_workers run_id max_workers =
     map (\<lambda>index. default_local_worker_with_name (run_id @ ''-local-'' @ show_nat index) index) [1..<Suc max_workers]"

definition worker_ids_for_run :: "fleet_run \<Rightarrow> nat \<Rightarrow> string list" where
  "worker_ids_for_run r max_workers = map fw_id (take max_workers (fn_worker_specs r))"

text \<open>A set of workers, as the list of its members in the order of the tasks.\<close>

definition active_workers_for_run :: "fleet_state \<Rightarrow> fleet_run_id \<Rightarrow> string list" where
  "active_workers_for_run s run_id = remdups (List.map_filter tk_leased_to (active_tasks_for_run s run_id))"

definition active_task_for_worker :: "fleet_state \<Rightarrow> string \<Rightarrow> fleet_task option" where
  "active_task_for_worker s worker_id =
     List.find (\<lambda>t. tk_leased_to t = Some worker_id \<and> tk_status t = Leased) (bm_values (fl_tasks s))"

text \<open>\<open>max_by_key\<close> returns the last of the greatest.\<close>

fun max_by_key :: "('a \<Rightarrow> 'k::linorder) \<Rightarrow> 'a list \<Rightarrow> 'a option" where
  "max_by_key f [] = None"
| "max_by_key f (x # xs) =
     (case max_by_key f xs of None \<Rightarrow> Some x | Some y \<Rightarrow> if f y < f x then Some x else Some y)"

definition latest_task_for_worker :: "fleet_state \<Rightarrow> string \<Rightarrow> fleet_task option" where
  "latest_task_for_worker s worker_id =
     max_by_key (\<lambda>t. case tk_completed_at t of Some ts \<Rightarrow> Some ts | None \<Rightarrow> tk_leased_at t)
       (filter (\<lambda>t. tk_leased_to t = Some worker_id) (bm_values (fl_tasks s)))"

definition next_enqueued_task_for_run ::
    "fleet_state \<Rightarrow> fleet_run_id \<Rightarrow> (fleet_inbox_entry \<times> fleet_task_spec) option" where
  "next_enqueued_task_for_run s run_id =
     (case bm_get (fl_runs s) run_id of
        None \<Rightarrow> None
      | Some r \<Rightarrow>
          (case min_by_key launch_key (filter (\<lambda>t. fe_run_id (tk_entry t) = run_id \<and> tk_status t = Enqueued)
              (bm_values (fl_tasks s))) of
             None \<Rightarrow> None
           | Some t \<Rightarrow> map_option (\<lambda>spec. (tk_entry t, spec))
               (List.find (\<lambda>spec. ft_id spec = fe_task_id (tk_entry t)) (fn_task_specs r))))"

definition task_priority :: "fleet_task_spec \<Rightarrow> int" where
  "task_priority spec =
     (case bm_get (ft_metadata spec) ''priority'' of
        None \<Rightarrow> 0
      | Some v \<Rightarrow> (case json_as_i64 v of
            None \<Rightarrow> 0
          | Some i \<Rightarrow> if - (2 ^ 31) \<le> sint i \<and> sint i < 2 ^ 31 then sint i else 0))"

definition safe_path_segment :: "string \<Rightarrow> string" where
  "safe_path_segment s = map (\<lambda>ch. if is_ascii_alphanumeric ch \<or> ch \<in> set ''-_.'' then ch else CHR ''_'') s"

definition log_artifact :: "manager_env \<Rightarrow> fleet_run_id \<Rightarrow> string \<Rightarrow> fleet_task_spec \<Rightarrow> fleet_artifact_ref" where
  "log_artifact env run_id worker_id spec =
     (let path = ''.codewhale/fleet/'' @ safe_path_segment run_id @ ''/'' @ safe_path_segment (ft_id spec) @ ''/''
            @ safe_path_segment worker_id @ ''.log'' in
      \<lparr>fa_kind = LogArtifact, fa_path = path, fa_checksum = None, fa_mime_type = Some ''text/plain'',
       fa_size_bytes = mg_file_size env path\<rparr>)"

section \<open>Creating and scheduling a run\<close>

definition start_worker_task ::
    "manager_env \<Rightarrow> string \<Rightarrow> fleet_inbox_entry \<Rightarrow> fleet_task_spec \<Rightarrow> nat option \<Rightarrow> fleet_state \<Rightarrow> bool \<times> fleet_state" where
  "start_worker_task env worker_id e spec max_active s =
     ledger_call (start_task_if_enqueued (fe_run_id e) (fe_task_id e) worker_id (mg_timestamp env) None max_active
       [EvLeased None, EvStarting, EvArtifact (log_artifact env (fe_run_id e) worker_id spec), EvRunning]) s"

definition clamp :: "nat \<Rightarrow> nat \<Rightarrow> nat \<Rightarrow> nat" where
  "clamp lo hi n = (if n < lo then lo else if n > hi then hi else n)"

record tick_report =
  tr_leased :: nat
  tr_heartbeats :: nat

definition missing_run :: "fleet_run_id \<Rightarrow> string" where
  "missing_run run_id = ''fleet run '' @ run_id @ '' does not exist''"

definition beat_step :: "manager_env \<Rightarrow> string list \<Rightarrow> nat \<times> fleet_state \<Rightarrow> fleet_task \<Rightarrow> nat \<times> fleet_state" where
  "beat_step env worker_ids ns t =
     (case tk_leased_to t of
        None \<Rightarrow> ns
      | Some w \<Rightarrow> if w \<in> set worker_ids
          then (fst ns + 1, snd (ledger_call (heartbeat_op w (mg_timestamp env) None None) (snd ns))) else ns)"

text \<open>The worker the next task would go to.\<close>

definition pick_worker :: "string list \<Rightarrow> string list \<Rightarrow> string list \<Rightarrow> string option" where
  "pick_worker worker_ids active unavailable =
     List.find (\<lambda>w. w \<notin> set active \<and> w \<notin> set unavailable) worker_ids"

fun schedule_loop ::
    "nat \<Rightarrow> manager_env \<Rightarrow> fleet_run_id \<Rightarrow> nat \<Rightarrow> string list \<Rightarrow> string list \<Rightarrow> nat \<Rightarrow> fleet_state
       \<Rightarrow> (nat \<times> fleet_state) option" where
  "schedule_loop 0 env run_id max_workers worker_ids unavailable leased s = None"
| "schedule_loop (Suc n) env run_id max_workers worker_ids unavailable leased s =
     (let active = active_workers_for_run s run_id in
      if max_workers \<le> length active then Some (leased, s)
      else case pick_worker worker_ids active unavailable of
        None \<Rightarrow> Some (leased, s)
      | Some w \<Rightarrow>
          (case next_enqueued_task_for_run s run_id of
             None \<Rightarrow> Some (leased, s)
           | Some (e, spec) \<Rightarrow>
               (let (ok, s1) = start_worker_task env w e spec (Some max_workers) s in
                schedule_loop n env run_id max_workers worker_ids unavailable (if ok then leased + 1 else leased) s1)))"

definition schedule_run_excluding ::
    "nat \<Rightarrow> manager_env \<Rightarrow> fleet_run_id \<Rightarrow> nat \<Rightarrow> string list \<Rightarrow> fleet_state
       \<Rightarrow> (string + tick_report \<times> fleet_state) option" where
  "schedule_run_excluding n env run_id max_workers0 unavailable s =
     (case bm_get (fl_runs s) run_id of
        None \<Rightarrow> Some (Inl (missing_run run_id))
      | Some r \<Rightarrow>
          (let max_workers = clamp 1 128 max_workers0;
               worker_ids = worker_ids_for_run r max_workers;
               (beats, s1) = foldl (beat_step env worker_ids) (0, s) (active_tasks_for_run s run_id) in
           case schedule_loop n env run_id max_workers worker_ids unavailable 0 s1 of
             None \<Rightarrow> None
           | Some (leased, s2) \<Rightarrow>
               Some (Inr (\<lparr>tr_leased = leased, tr_heartbeats = beats\<rparr>, refresh_run_status (mg_timestamp env) run_id s2))))"

definition schedule_run ::
    "nat \<Rightarrow> manager_env \<Rightarrow> fleet_run_id \<Rightarrow> nat \<Rightarrow> fleet_state \<Rightarrow> (string + tick_report \<times> fleet_state) option" where
  "schedule_run n env run_id max_workers s = schedule_run_excluding n env run_id max_workers [] s"

record task_spec_document =
  td_name :: "string option"
  td_tasks :: "fleet_task_spec list"
  td_workers :: "fleet_worker_spec list"
  td_labels :: "(string, string) bmap"
  td_security_policy :: "fleet_security_policy option"

text \<open>Creating a run, after the document and its profiles were checked: the run and its queue are written,
  then the first tasks are scheduled.\<close>

definition run_of_document :: "string \<Rightarrow> fleet_run_id \<Rightarrow> nat \<Rightarrow> task_spec_document \<Rightarrow> fleet_run" where
  "run_of_document now run_id max_workers doc =
     \<lparr>fn_id = run_id, fn_name = unwrap_or run_id (td_name doc), fn_status = RunQueued, fn_max_workers = Some max_workers,
      fn_task_specs = td_tasks doc,
      fn_worker_specs = (if td_workers doc = [] then default_local_workers run_id max_workers else td_workers doc),
      fn_labels = td_labels doc, fn_security_policy = td_security_policy doc, fn_created_at = now,
      fn_updated_at = Some now, fn_completed_at = None\<rparr>"

definition enqueue_task :: "string \<Rightarrow> fleet_run_id \<Rightarrow> fleet_state \<Rightarrow> fleet_task_spec \<Rightarrow> fleet_state" where
  "enqueue_task now run_id s spec = snd (ledger_call (enqueue
     \<lparr>fe_run_id = run_id, fe_task_id = ft_id spec, fe_priority = task_priority spec, fe_enqueued_at = now,
      fe_lease_deadline = None, fe_attempts = 0\<rparr>) s)"

definition manager_create_run ::
    "nat \<Rightarrow> manager_env \<Rightarrow> fleet_run_id \<Rightarrow> task_spec_document \<Rightarrow> nat \<Rightarrow> fleet_state
       \<Rightarrow> (string + tick_report \<times> fleet_state) option" where
  "manager_create_run n env run_id doc max_workers0 s =
     (let max_workers = clamp 1 128 max_workers0;
          now = mg_timestamp env;
          r = run_of_document now run_id max_workers doc;
          s1 = snd (ledger_call (create_run r) s);
          s2 = foldl (enqueue_task now run_id) s1 (fn_task_specs r);
          s3 = snd (ledger_call (update_run_status run_id
            (if fn_task_specs r = [] then RunCompleted else RunRunning) now) s2) in
      case schedule_run n env run_id max_workers s3 of
        Some (Inr (tick, s4)) \<Rightarrow> Some (Inr (tick, refresh_run_status now run_id s4))
      | other \<Rightarrow> other)"

section \<open>Status\<close>

definition manager_task_is_stale :: "manager_env \<Rightarrow> fleet_task \<Rightarrow> fleet_state \<Rightarrow> bool" where
  "manager_task_is_stale env t s =
     (case tk_leased_to t of
        None \<Rightarrow> True
      | Some w \<Rightarrow>
          (case bm_get (fl_heartbeats s) w of
             None \<Rightarrow> True
           | Some hb \<Rightarrow>
               (case ck_parse (mg_clock env) (hb_timestamp hb) of
                  None \<Rightarrow> True
                | Some last_beat \<Rightarrow>
                    (let age = ck_now (mg_clock env) - last_beat in
                     if age < 0 then False else age > mg_stale_after env))))"

record status_snapshot =
  ss_runs :: nat
  ss_queued :: nat
  ss_running :: nat
  ss_completed :: nat
  ss_partial :: nat
  ss_failed :: nat
  ss_restarted :: nat
  ss_escalated :: nat
  ss_transport_failed :: nat
  ss_task_failed :: nat
  ss_verifier_failed :: nat
  ss_cancelled :: nat
  ss_stale :: nat
  ss_workers :: "(string, fleet_worker_status) bmap"

definition count_if :: "('a \<Rightarrow> bool) \<Rightarrow> 'a list \<Rightarrow> nat" where
  "count_if p xs = length (filter p xs)"

definition in_filter :: "fleet_run_id option \<Rightarrow> fleet_run_id \<Rightarrow> bool" where
  "in_filter run_filter run_id = (case run_filter of None \<Rightarrow> True | Some r \<Rightarrow> run_id = r)"

definition status_from_state :: "manager_env \<Rightarrow> fleet_run_id option \<Rightarrow> fleet_state \<Rightarrow> status_snapshot" where
  "status_from_state env run_filter s =
     (let ts = filter (\<lambda>t. in_filter run_filter (fe_run_id (tk_entry t))) (bm_values (fl_tasks s));
          rcs = filter (\<lambda>rc. in_filter run_filter (rc_run_id rc)) (bm_values (fl_receipts s)) in
      \<lparr>ss_runs = length (fl_runs s),
       ss_queued = count_if (\<lambda>t. tk_status t = Enqueued) ts,
       ss_running = count_if (\<lambda>t. tk_status t = Leased \<and> \<not> manager_task_is_stale env t s) ts,
       ss_completed = count_if (\<lambda>t. tk_status t = TaskCompleted) ts,
       ss_partial = count_if (\<lambda>rc. rc_result rc = ResultPartial) rcs,
       ss_failed = count_if (\<lambda>t. tk_status t = TaskFailed) ts,
       ss_restarted = count_if (\<lambda>e. in_filter run_filter (ev_run_id e)) (bm_values (fl_restarted_events s)),
       ss_escalated = count_if (\<lambda>e. in_filter run_filter (ev_run_id e)) (bm_values (fl_escalated_events s)),
       ss_transport_failed = count_if (\<lambda>rc. rc_failure_kind rc = Some TransportFailure) rcs,
       ss_task_failed = count_if (\<lambda>rc. rc_failure_kind rc = Some TaskFailure) rcs,
       ss_verifier_failed = count_if (\<lambda>rc. rc_failure_kind rc = Some VerifierFailure) rcs,
       ss_cancelled = count_if (\<lambda>t. tk_status t = TaskCancelled) ts,
       ss_stale = count_if (\<lambda>t. tk_status t = Leased \<and> manager_task_is_stale env t s) ts,
       ss_workers = fl_workers s\<rparr>)"

definition run_has_open_work :: "manager_env \<Rightarrow> fleet_run_id \<Rightarrow> fleet_state \<Rightarrow> bool" where
  "run_has_open_work env run_id s =
     (let st = status_from_state env (Some run_id) s in ss_queued st + ss_running st + ss_stale st > 0)"

text \<open>Resuming uses the scheduler with the manager's bound on the age of a heartbeat.\<close>

definition manager_resume_run ::
    "manager_env \<Rightarrow> fleet_run_id \<Rightarrow> fleet_state \<Rightarrow> (scheduler_report \<times> status_snapshot) \<times> fleet_state" where
  "manager_resume_run env run_id s =
     (let (rep, s1) = resume_run (mg_clock env)
            (scheduler_policy_default\<lparr>so_heartbeat_timeout := mg_stale_after env\<rparr>) run_id s in
      ((rep, status_from_state env (Some run_id) s1), s1))"

section \<open>Control\<close>

definition interrupt_worker :: "manager_env \<Rightarrow> string \<Rightarrow> fleet_state \<Rightarrow> string + fleet_state" where
  "interrupt_worker env worker_id s =
     (case active_task_for_worker s worker_id of
        None \<Rightarrow> Inl (''worker '' @ worker_id @ '' has no running fleet task'')
      | Some t \<Rightarrow>
          (let (ok, s1) = ledger_call (cancel_task_if_active (fe_run_id (tk_entry t)) (fe_task_id (tk_entry t))
                (Some worker_id) (mg_timestamp env) (Some ''operator'') (Some ''operator'')) s in
           if ok then Inr (refresh_run_status (mg_timestamp env) (fe_run_id (tk_entry t)) s1)
           else Inl (''worker '' @ worker_id @ '' no longer has that running fleet task'')))"

definition task_to_restart :: "fleet_state \<Rightarrow> string \<Rightarrow> fleet_task option" where
  "task_to_restart s worker_id =
     (case active_task_for_worker s worker_id of Some t \<Rightarrow> Some t | None \<Rightarrow> latest_task_for_worker s worker_id)"

text \<open>The run and the number of workers to drive it with are the answer.\<close>

definition restart_worker ::
    "manager_env \<Rightarrow> string \<Rightarrow> fleet_state \<Rightarrow> string + (fleet_run_id \<times> nat) \<times> fleet_state" where
  "restart_worker env worker_id s =
     (case task_to_restart s worker_id of
        None \<Rightarrow> Inl (''worker '' @ worker_id @ '' has no fleet task to restart'')
      | Some t \<Rightarrow>
          (let run_id = fe_run_id (tk_entry t); task_id = fe_task_id (tk_entry t); attempts = fe_attempts (tk_entry t) in
           case bm_get (fl_runs s) run_id of
             None \<Rightarrow> Inl (missing_run run_id)
           | Some r \<Rightarrow>
               (let max_workers = clamp 1 128 (case fn_max_workers r of Some m \<Rightarrow> m
                      | None \<Rightarrow> max (length (fn_worker_specs r)) 1);
                    (ok, s1) = ledger_call (restart_task_if_unchanged run_id task_id worker_id (tk_status t) attempts
                      (latest_seq_of s worker_id run_id task_id) (heartbeat_at s worker_id) (mg_timestamp env) None attempts) s in
                if \<not> ok then Inl (''worker '' @ worker_id @ '' task changed before it could be restarted'')
                else Inr ((run_id, max_workers), snd (ledger_call (update_run_status run_id RunRunning (mg_timestamp env)) s1)))))"

definition stop_run :: "manager_env \<Rightarrow> fleet_run_id \<Rightarrow> fleet_state \<Rightarrow> string + nat \<times> fleet_state" where
  "stop_run env run_id s =
     (case bm_get (fl_runs s) run_id of
        None \<Rightarrow> Inl (missing_run run_id)
      | Some _ \<Rightarrow>
          (let (n, s1) = foldl (cancel_step (mg_timestamp env) ''stop_run'' ''operator'') (0, s) (tasks_of_run s run_id) in
           Inr (n, snd (ledger_call (update_run_status run_id RunCancelled (mg_timestamp env)) s1))))"

text \<open>Stopping everything also remembers the runs it touched, in the order of their identifiers.\<close>

definition stop_step ::
    "string \<Rightarrow> (nat \<times> fleet_run_id list) \<times> fleet_state \<Rightarrow> fleet_task \<Rightarrow> (nat \<times> fleet_run_id list) \<times> fleet_state" where
  "stop_step ts acc t =
     (let ((n, runs), s) = acc; (n', s1) = cancel_step ts ''stop_all'' ''operator'' (n, s) t in
      ((n', if n' = n then runs else fe_run_id (tk_entry t) # runs), s1))"

definition stop_all :: "manager_env \<Rightarrow> fleet_state \<Rightarrow> nat \<times> fleet_state" where
  "stop_all env s =
     (let ((n, runs), s1) = foldl (stop_step (mg_timestamp env)) ((0, []), s) (bm_values (fl_tasks s)) in
      (n, foldl (\<lambda>s run_id. snd (ledger_call (update_run_status run_id RunCancelled (mg_timestamp env)) s)) s1
            (sort (remdups runs))))"

section \<open>The outcome of an attempt\<close>

record task_context =
  tx_entry :: fleet_inbox_entry
  tx_task_spec :: fleet_task_spec
  tx_worker_id :: string

record terminal_event =
  tv_payload :: fleet_worker_payload
  tv_exit_code :: "int option"
  tv_tail_payloads :: "fleet_worker_payload list"
  tv_reported_route :: "json option"
  tv_requires_reported_route :: bool

definition context_of_task :: "fleet_state \<Rightarrow> string \<Rightarrow> fleet_task \<Rightarrow> task_context option" where
  "context_of_task s worker_id t =
     map_option (\<lambda>spec. \<lparr>tx_entry = tk_entry t, tx_task_spec = spec, tx_worker_id = worker_id\<rparr>) (task_spec_for s t)"

definition executor_task_context :: "fleet_state \<Rightarrow> string \<Rightarrow> task_context option" where
  "executor_task_context s worker_id =
     (case task_to_restart s worker_id of None \<Rightarrow> None | Some t \<Rightarrow> context_of_task s worker_id t)"

definition executor_task_context_for_attempt ::
    "fleet_state \<Rightarrow> string \<Rightarrow> fleet_run_id \<Rightarrow> string \<Rightarrow> u32 \<Rightarrow> task_context option" where
  "executor_task_context_for_attempt s worker_id run_id task_id attempt =
     (if \<not> attempt_is s run_id task_id worker_id Leased attempt then None
      else case bm_get (fl_tasks s) (task_key run_id task_id) of
        None \<Rightarrow> None
      | Some t \<Rightarrow>
          (case bm_get (fl_runs s) run_id of
             None \<Rightarrow> None
           | Some r \<Rightarrow> map_option (\<lambda>spec. \<lparr>tx_entry = tk_entry t, tx_task_spec = spec, tx_worker_id = worker_id\<rparr>)
               (List.find (\<lambda>spec. ft_id spec = task_id) (fn_task_specs r))))"

definition cancelled_executor_task_context :: "fleet_state \<Rightarrow> string \<Rightarrow> task_context option" where
  "cancelled_executor_task_context s worker_id =
     (case latest_task_for_worker s worker_id of
        None \<Rightarrow> None
      | Some t \<Rightarrow> if tk_status t \<noteq> TaskCancelled then None else context_of_task s worker_id t)"

fun task_receipt_outcome ::
    "fleet_worker_payload \<Rightarrow> int option \<Rightarrow> fleet_task_result \<times> fleet_task_failure_kind option \<times> int option" where
  "task_receipt_outcome (EvCompleted payload_code _) exit_code =
     (ResultPass, None, case exit_code of Some n \<Rightarrow> Some n | None \<Rightarrow> payload_code)"
| "task_receipt_outcome (EvCancelled _) exit_code = (ResultSkip, None, exit_code)"
| "task_receipt_outcome (EvFailed _ _) exit_code =
     (ResultFail, Some (if exit_code = None then TransportFailure else TaskFailure), exit_code)"
| "task_receipt_outcome _ exit_code = (ResultPartial, None, exit_code)"

fun is_terminal_payload :: "fleet_worker_payload \<Rightarrow> bool" where
  "is_terminal_payload (EvCompleted _ _) = True"
| "is_terminal_payload (EvFailed _ _) = True"
| "is_terminal_payload (EvCancelled _) = True"
| "is_terminal_payload (EvInterrupted _) = True"
| "is_terminal_payload _ = False"

definition task_artifacts_for_receipt ::
    "manager_env \<Rightarrow> fleet_state \<Rightarrow> fleet_run_id \<Rightarrow> string \<Rightarrow> string \<Rightarrow> fleet_artifact_ref list" where
  "task_artifacts_for_receipt env s run_id task_id worker_id =
     List.map_filter (\<lambda>e. case ev_payload e of
         EvArtifact a \<Rightarrow> Some (a\<lparr>fa_size_bytes := mg_file_size env (fa_path a)\<rparr>) | _ \<Rightarrow> None)
       (filter (\<lambda>e. ev_run_id e = run_id \<and> ev_task_id e = task_id \<and> ev_worker_id e = worker_id)
         (bm_values (fl_artifact_events s)))"

text \<open>The rest of the stream is written first; losing the lease there ends the matter.\<close>

fun append_tail ::
    "manager_env \<Rightarrow> fleet_run_id \<Rightarrow> string \<Rightarrow> string \<Rightarrow> u32 \<Rightarrow> fleet_worker_payload list \<Rightarrow> fleet_state
       \<Rightarrow> bool \<times> fleet_state" where
  "append_tail env run_id worker_id task_id attempts [] s = (True, s)"
| "append_tail env run_id worker_id task_id attempts (p # ps) s =
     (if is_terminal_payload p then append_tail env run_id worker_id task_id attempts ps s
      else case ledger_call (append_event_if_leased run_id worker_id task_id attempts (mg_timestamp env) p) s of
        (Inr (Some _), s1) \<Rightarrow> append_tail env run_id worker_id task_id attempts ps s1
      | (_, s1) \<Rightarrow> (False, s1))"

definition outcome_receipt ::
    "manager_env \<Rightarrow> task_context \<Rightarrow> terminal_event \<Rightarrow> fleet_state \<Rightarrow> string + fleet_receipt" where
  "outcome_receipt env tx tv s =
     (let e = tx_entry tx;
          (result, failure_kind, exit_code) = task_receipt_outcome (tv_payload tv) (tv_exit_code tv);
          inp = \<lparr>vi_run_id = fe_run_id e, vi_task_id = fe_task_id e, vi_worker_id = tx_worker_id tx,
            vi_attempt = fe_attempts e, vi_exit_code = exit_code,
            vi_artifacts = task_artifacts_for_receipt env s (fe_run_id e) (fe_task_id e) (tx_worker_id tx),
            vi_resolved_route = (case tv_reported_route tv of
                Some route \<Rightarrow> mg_reported_route env (tx_task_spec tx) route
              | None \<Rightarrow> if tv_requires_reported_route tv then None else mg_task_route env (tx_task_spec tx)),
            vi_effective_permissions = mg_permissions env s (tx_worker_id tx) e (tx_task_spec tx)\<rparr> in
      if ft_scorer (tx_task_spec tx) \<noteq> None \<or> terminal_payload (tv_payload tv) = Some TaskCompleted
      then mg_verify env (tx_task_spec tx) inp
      else Inr \<lparr>rc_run_id = fe_run_id e, rc_task_id = fe_task_id e, rc_worker_id = tx_worker_id tx,
        rc_attempt = Some (fe_attempts e), rc_terminal_seq = None, rc_completed_at = mg_timestamp env,
        rc_result = result, rc_failure_kind = failure_kind, rc_artifacts = vi_artifacts inp, rc_score = None,
        rc_resolved_route = vi_resolved_route inp, rc_effective_permissions = vi_effective_permissions inp\<rparr>)"

definition override_status :: "fleet_receipt \<Rightarrow> task_status \<Rightarrow> task_status option" where
  "override_status rc expected =
     (if (rc_result rc = ResultFail \<or> rc_result rc = ResultTimeout) \<and> expected \<noteq> TaskFailed then Some TaskFailed else None)"

definition record_task_outcome ::
    "manager_env \<Rightarrow> task_context \<Rightarrow> terminal_event \<Rightarrow> fleet_state \<Rightarrow> (string + bool) \<times> fleet_state" where
  "record_task_outcome env tx tv s =
     (let e = tx_entry tx; run_id = fe_run_id e; task_id = fe_task_id e; w = tx_worker_id tx; a = fe_attempts e in
      if \<not> attempt_is s run_id task_id w Leased a then (Inr False, s)
      else case terminal_payload (tv_payload tv) of
        None \<Rightarrow> (Inl ''fleet executor outcome must contain a terminal worker event'', s)
      | Some expected \<Rightarrow>
          (case append_tail env run_id w task_id a (tv_tail_payloads tv) s of
             (False, s1) \<Rightarrow> (Inr False, s1)
           | (True, s1) \<Rightarrow>
               (case outcome_receipt env tx tv s1 of
                  Inl err \<Rightarrow> (Inl err, s1)
                | Inr rc \<Rightarrow>
                    (let (res, s2) = ledger_call (finalize_task_attempt_if_leased run_id w task_id a (mg_timestamp env)
                          (tv_payload tv) (override_status rc expected) rc) s1 in
                     (map_sum (\<lambda>x. x) (\<lambda>x. x \<noteq> None) res, s2)))))"

section \<open>Inspection\<close>

definition host_label :: "fleet_host_spec \<Rightarrow> string" where
  "host_label = host_key"

definition worker_host_for_run :: "fleet_state \<Rightarrow> fleet_run_id \<Rightarrow> string \<Rightarrow> string option" where
  "worker_host_for_run s run_id worker_id =
     (case bm_get (fl_runs s) run_id of
        None \<Rightarrow> None
      | Some r \<Rightarrow> map_option (\<lambda>w. host_label (fw_host w)) (List.find (\<lambda>w. fw_id w = worker_id) (fn_worker_specs r)))"

definition latest_event_for_worker :: "fleet_state \<Rightarrow> string \<Rightarrow> fleet_worker_event option" where
  "latest_event_for_worker s worker_id =
     max_by_key ev_seq (filter (\<lambda>e. ev_worker_id e = worker_id) (bm_values (fl_latest_events s)))"

definition describe :: "string \<Rightarrow> string \<Rightarrow> string option \<Rightarrow> string" where
  "describe with_detail plain detail = (case detail of Some d \<Rightarrow> with_detail @ d | None \<Rightarrow> plain)"

definition latest_alert_for_worker :: "fleet_state \<Rightarrow> string \<Rightarrow> string option" where
  "latest_alert_for_worker s worker_id =
     map_option snd (max_by_key fst (List.map_filter (\<lambda>e. case ev_payload e of
         EvEscalated channel alert_id \<Rightarrow>
           Some (ev_seq e, ''escalated via '' @ channel @ describe '' alert_id='' [] alert_id)
       | _ \<Rightarrow> None) (filter (\<lambda>e. ev_worker_id e = worker_id) (bm_values (fl_escalated_events s)))))"

definition latest_receipt_for_worker :: "fleet_state \<Rightarrow> string \<Rightarrow> fleet_receipt option" where
  "latest_receipt_for_worker s worker_id =
     max_by_key rc_completed_at (filter (\<lambda>rc. rc_worker_id rc = worker_id) (bm_values (fl_receipts s)))"

fun result_label :: "fleet_task_result \<Rightarrow> string" where
  "result_label ResultPass = ''pass''"
| "result_label ResultPartial = ''partial''"
| "result_label ResultFail = ''fail''"
| "result_label ResultSkip = ''skip''"
| "result_label ResultTimeout = ''timeout''"

fun failure_label :: "fleet_task_failure_kind \<Rightarrow> string" where
  "failure_label TransportFailure = ''transport''"
| "failure_label TaskFailure = ''task''"
| "failure_label VerifierFailure = ''verifier''"

definition receipt_summary :: "fleet_receipt \<Rightarrow> string" where
  "receipt_summary rc =
     ''result='' @ result_label (rc_result rc)
     @ (case rc_failure_kind rc of None \<Rightarrow> [] | Some k \<Rightarrow> '' failure_kind='' @ failure_label k)
     @ (case rc_score rc of None \<Rightarrow> [] | Some sc \<Rightarrow>
          (case sc_notes sc of None \<Rightarrow> [] | Some notes \<Rightarrow> if trim notes = [] then [] else '' notes='' @ notes))"

fun payload_error :: "fleet_worker_payload \<Rightarrow> string option" where
  "payload_error (EvFailed reason recoverable) = Some (''failed: '' @ reason)"
| "payload_error (EvCancelled by') = Some (describe ''cancelled by '' ''cancelled'' by')"
| "payload_error (EvInterrupted sig) = Some (describe ''interrupted by '' ''interrupted'' sig)"
| "payload_error (EvStale beat) = Some (describe ''stale since '' ''stale'' beat)"
| "payload_error _ = None"

definition latest_error_for_worker :: "fleet_state \<Rightarrow> string \<Rightarrow> string option" where
  "latest_error_for_worker s worker_id =
     map_option snd (max_by_key fst (List.map_filter (\<lambda>e. map_option (\<lambda>m. (ev_seq e, m)) (payload_error (ev_payload e)))
       (filter (\<lambda>e. ev_worker_id e = worker_id) (bm_values (fl_latest_events s)))))"

record worker_inspection =
  in_worker_id :: string
  in_status :: fleet_worker_status
  in_current_run_id :: "fleet_run_id option"
  in_current_task_id :: "string option"
  in_objective :: "string option"
  in_role :: "string option"
  in_host :: "string option"
  in_latest_heartbeat_at :: "string option"
  in_latest_event :: "fleet_worker_event option"
  in_artifacts :: "fleet_artifact_ref list"
  in_receipt_summary :: "string option"
  in_last_error :: "string option"
  in_alert_state :: "string option"

text \<open>The projection of the in-memory worker is left out.\<close>

definition inspect_worker :: "fleet_state \<Rightarrow> string \<Rightarrow> worker_inspection" where
  "inspect_worker s worker_id =
     (let current = task_to_restart s worker_id;
          spec = (case current of None \<Rightarrow> None | Some t \<Rightarrow> task_spec_for s t);
          run_id = map_option (\<lambda>t. fe_run_id (tk_entry t)) current in
      \<lparr>in_worker_id = worker_id,
       in_status = bm_get_or (fl_workers s) worker_id WorkerUnknown,
       in_current_run_id = run_id,
       in_current_task_id = map_option (\<lambda>t. fe_task_id (tk_entry t)) current,
       in_objective = (case spec of None \<Rightarrow> None
         | Some sp \<Rightarrow> (case ft_objective sp of Some ob \<Rightarrow> Some ob | None \<Rightarrow> ft_description sp)),
       in_role = (case spec of None \<Rightarrow> None | Some sp \<Rightarrow> (case ft_worker sp of None \<Rightarrow> None | Some wp \<Rightarrow> wp_role wp)),
       in_host = (case run_id of None \<Rightarrow> None | Some r \<Rightarrow> worker_host_for_run s r worker_id),
       in_latest_heartbeat_at = heartbeat_at s worker_id,
       in_latest_event = latest_event_for_worker s worker_id,
       in_artifacts = List.map_filter (\<lambda>e. case ev_payload e of EvArtifact a \<Rightarrow> Some a | _ \<Rightarrow> None)
           (filter (\<lambda>e. ev_worker_id e = worker_id) (bm_values (fl_artifact_events s)))
         @ concat (map rc_artifacts (filter (\<lambda>rc. rc_worker_id rc = worker_id) (bm_values (fl_receipts s)))),
       in_receipt_summary = map_option receipt_summary (latest_receipt_for_worker s worker_id),
       in_last_error = latest_error_for_worker s worker_id,
       in_alert_state = latest_alert_for_worker s worker_id\<rparr>)"

end
