(* ===== verification/Fleet_Resume.thy ===== *)
theory Fleet_Resume
  imports Fleet_Scheduler
begin

text \<open>Resuming a run is idempotent: a second pass at the same instant finds nothing to do.\<close>

section \<open>What recovering one lease changes\<close>

text \<open>Between \<open>s\<close> and \<open>s'\<close> only the task at \<open>k\<close>, the heartbeat of \<open>w\<close> and the mark of \<open>ek\<close> may differ.\<close>

definition touches_only :: "string \<Rightarrow> string \<Rightarrow> string \<Rightarrow> fleet_state \<Rightarrow> fleet_state \<Rightarrow> bool" where
  "touches_only k w ek s s' \<longleftrightarrow> (\<forall>k'. k' \<noteq> k \<longrightarrow> bm_get (fl_tasks s') k' = bm_get (fl_tasks s) k')
     \<and> (\<forall>w'. w' \<noteq> w \<longrightarrow> bm_get (fl_heartbeats s') w' = bm_get (fl_heartbeats s) w')
     \<and> (\<forall>k'. k' \<noteq> ek \<longrightarrow> bm_get (fl_latest_seq s') k' = bm_get (fl_latest_seq s) k')
     \<and> fl_runs s' = fl_runs s"

lemma touches_only_refl [simp]: "touches_only k w ek s s"
  by (simp add: touches_only_def)

lemma touches_only_trans: "touches_only k w ek s s1 \<Longrightarrow> touches_only k w ek s1 s2 \<Longrightarrow> touches_only k w ek s s2"
  by (simp add: touches_only_def)

lemma touches_only_event:
  "event_task_key e = k \<Longrightarrow> event_lifecycle_key e = ek \<Longrightarrow> touches_only k w ek s (apply_event s e)"
  by (auto simp: touches_only_def tasks_apply_event latest_seq_apply_event split: option.split)

lemma touches_only_lease:
  "touches_only (task_key r t) w ek s (apply_record s (TaskLeasedRec r t w at exp))"
  unfolding apply_leased by (simp add: touches_only_def split: option.split)

lemma touches_only_heartbeat: "touches_only k w ek s (apply_record s (HeartbeatRec w ts c m))"
  by (simp add: touches_only_def Let_def)

lemma alert_once_effect:
  "touches_only (task_key r t) w (event_key w r t) s (snd (ledger_call (record_failed_attempt_alert_once r t w a l k ts) s))
   \<and> fl_tasks (snd (ledger_call (record_failed_attempt_alert_once r t w a l k ts) s)) = fl_tasks s"
proof -
  have "touches_only (task_key r t) w (event_key w r t) s (apply_event (s\<lparr>fl_alerts := A\<rparr>) (escalated_event r t ch ts w n))" for A ch n
    by (rule touches_only_trans [OF _ touches_only_event]) (simp_all add: touches_only_def)
  then show ?thesis
    by (simp add: ledger_call_def record_failed_attempt_alert_once_def apply_alert_new tasks_apply_event)
qed

lemma record_alerts_loop_effect:
  "touches_only (task_key r t) w (event_key w r t) s (snd (record_alerts_loop c r t w a i chs s))
   \<and> fl_tasks (snd (record_alerts_loop c r t w a i chs s)) = fl_tasks s"
proof (induction chs arbitrary: i s)
  case (Cons ch chs)
  let ?d = "record_failed_attempt_alert_once r t w a (alert_channel_label ch)
    (alert_channel_label ch @ ''#'' @ show_nat i) (timestamp c)"
  have e: "snd (record_alerts_loop c r t w a i (ch # chs) s)
      = snd (record_alerts_loop c r t w a (i + 1) chs (snd (ledger_call ?d s)))"
    by (simp add: Let_def case_prod_unfold)
  have h: "touches_only (task_key r t) w (event_key w r t) s (snd (ledger_call ?d s))" "fl_tasks (snd (ledger_call ?d s)) = fl_tasks s"
    using alert_once_effect by blast+
  note ih = Cons.IH [where i = "i + 1" and s = "snd (ledger_call ?d s)"]
  show ?case unfolding e using touches_only_trans [OF h(1) conjunct1 [OF ih]] conjunct2 [OF ih] h(2) by simp
qed simp

lemma record_alerts_effect:
  "touches_only (task_key r t) w (event_key w r t) s (snd (record_alerts c r t w a spec cl s))
   \<and> fl_tasks (snd (record_alerts c r t w a spec cl s)) = fl_tasks s"
  using record_alerts_loop_effect by (simp add: record_alerts_def split: option.split)

text \<open>A lease that was recovered is either over or renewed at this instant.\<close>

definition settled :: "fleet_clock \<Rightarrow> string \<Rightarrow> fleet_state \<Rightarrow> fleet_task \<Rightarrow> fleet_task \<Rightarrow> bool" where
  "settled c w s' t t' \<longleftrightarrow> fe_run_id (tk_entry t') = fe_run_id (tk_entry t)
     \<and> fe_task_id (tk_entry t') = fe_task_id (tk_entry t)
     \<and> (tk_status t' = TaskFailed
        \<or> tk_status t' = Leased \<and> tk_leased_to t' = Some w \<and> heartbeat_at s' w = Some (timestamp c))"

lemma version_now:
  assumes "bm_get (fl_tasks s) (task_key r t) = Some tk" and "tk_status tk = st" and "tk_leased_to tk = Some w"
  shows "version_is s r t w st (fe_attempts (tk_entry tk)) (latest_seq_of s w r t) (heartbeat_at s w)"
  using assms by (simp add: version_is_def attempt_is_def)

lemma restart_effect:
  fixes c :: fleet_clock and exp :: "string option" and n :: u32
  assumes tk: "bm_get (fl_tasks s) (task_key r t) = Some tk" "tk_leased_to tk = Some w"
    and o: "\<not> other_task_leased s (task_key r t) w"
  defines "d \<equiv> restart_task_if_unchanged r t w (tk_status tk) (fe_attempts (tk_entry tk)) (latest_seq_of s w r t)
    (heartbeat_at s w) (timestamp c) exp n"
  shows "fst (d s)" and "touches_only (task_key r t) w (event_key w r t) s (snd (ledger_call d s))"
    and "\<exists>t'. bm_get (fl_tasks (snd (ledger_call d s))) (task_key r t) = Some t' \<and> settled c w (snd (ledger_call d s)) tk t'"
proof -
  let ?q = "sat_add (latest_seq_of s w r t) 1"
  let ?lease = "TaskLeasedRec r t w (timestamp c) exp"
  let ?e1 = "worker_event ?q r w t (timestamp c) (EvRestarted n)"
  let ?e2 = "worker_event (sat_add ?q 1) r w t (timestamp c) EvRunning"
  have d: "d s = (True, [?lease, EventAppended ?e1, EventAppended ?e2, HeartbeatRec w (timestamp c) None None])"
    using version_now [OF tk(1) refl tk(2)] o by (simp add: d_def restart_task_if_unchanged_def Let_def)
  then show "fst (d s)" by simp
  have s': "snd (ledger_call d s) = apply_record (apply_event (apply_event (apply_record s ?lease) ?e1) ?e2)
      (HeartbeatRec w (timestamp c) None None)"
    by (simp add: ledger_call_def d del: apply_record.simps(4))
  show "touches_only (task_key r t) w (event_key w r t) s (snd (ledger_call d s))"
    unfolding s'
    by (rule touches_only_trans [OF touches_only_trans [OF touches_only_trans [OF touches_only_lease
          touches_only_event] touches_only_event] touches_only_heartbeat]) simp_all
  have "bm_get (fl_tasks (snd (ledger_call d s))) (task_key r t) = Some (leased_task w (timestamp c) exp tk)"
    unfolding s' apply_leased by (simp add: tk(1) Let_def tasks_apply_event)
  moreover have "heartbeat_at (snd (ledger_call d s)) w = Some (timestamp c)"
    unfolding s' by (simp add: heartbeat_at_def Let_def del: apply_record.simps(4))
  ultimately show "\<exists>t'. bm_get (fl_tasks (snd (ledger_call d s))) (task_key r t) = Some t'
      \<and> settled c w (snd (ledger_call d s)) tk t'"
    by (simp add: settled_def)
qed

lemma fail_effect:
  fixes c :: fleet_clock and reason :: string
  assumes tk: "bm_get (fl_tasks s) (task_key r t) = Some tk" "tk_status tk = Leased" "tk_leased_to tk = Some w"
  defines "d \<equiv> append_terminal_event_if_lease_unchanged r w t (fe_attempts (tk_entry tk)) (latest_seq_of s w r t)
    (heartbeat_at s w) (timestamp c) (EvFailed reason False)"
  shows "\<exists>e. fst (d s) = Inr (Some e)" and "touches_only (task_key r t) w (event_key w r t) s (snd (ledger_call d s))"
    and "\<exists>t'. bm_get (fl_tasks (snd (ledger_call d s))) (task_key r t) = Some t' \<and> settled c w (snd (ledger_call d s)) tk t'"
proof -
  let ?e = "next_worker_event s r w t (timestamp c) (EvFailed reason False)"
  have d: "d s = (Inr (Some ?e), [EventAppended ?e])"
    using version_now [OF tk] by (simp add: d_def append_terminal_event_if_lease_unchanged_def append_guarded_def)
  then show "\<exists>e. fst (d s) = Inr (Some e)" by simp
  have s': "snd (ledger_call d s) = apply_event s ?e" by (simp add: ledger_call_def d)
  show "touches_only (task_key r t) w (event_key w r t) s (snd (ledger_call d s))"
    unfolding s' by (rule touches_only_event) (simp_all add: next_worker_event_def)
  show "\<exists>t'. bm_get (fl_tasks (snd (ledger_call d s))) (task_key r t) = Some t' \<and> settled c w (snd (ledger_call d s)) tk t'"
    unfolding s' by (simp add: tasks_apply_event next_worker_event_def tk(1) settled_def)
qed

lemma retry_or_fail_effect:
  fixes c :: fleet_clock and p :: scheduler_policy and spec :: fleet_task_spec and rep :: scheduler_report
  assumes tk: "bm_get (fl_tasks s) (task_key r t) = Some tk" "tk_status tk = Leased" "tk_leased_to tk = Some w"
    and o: "\<not> other_task_leased s (task_key r t) w"
    and id: "fe_run_id (tk_entry tk) = r" "fe_task_id (tk_entry tk) = t"
  defines "s' \<equiv> snd (retry_or_fail c p tk spec w (latest_seq_of s w r t) (heartbeat_at s w) (rep, s))"
  shows "touches_only (task_key r t) w (event_key w r t) s s'
    \<and> (\<exists>t'. bm_get (fl_tasks s') (task_key r t) = Some t' \<and> settled c w s' tk t')"
proof (cases "fe_attempts (tk_entry tk) < fr_max_attempts (unwrap_or fleet_retry_policy_default (ft_retry_policy spec))")
  case True
  have "s' = snd (ledger_call (restart_task_if_unchanged r t w (tk_status tk) (fe_attempts (tk_entry tk))
      (latest_seq_of s w r t) (heartbeat_at s w) (timestamp c) (Some (lease_expires_at c p)) (fe_attempts (tk_entry tk))) s)"
    using True by (simp add: s'_def retry_or_fail_def id case_prod_unfold Let_def)
  with restart_effect [OF tk(1,3) o] show ?thesis by simp
next
  case False
  let ?d = "append_terminal_event_if_lease_unchanged r w t (fe_attempts (tk_entry tk)) (latest_seq_of s w r t)
    (heartbeat_at s w) (timestamp c) (EvFailed (exhausted_reason (fe_attempts (tk_entry tk))) False)"
  let ?s1 = "snd (ledger_call ?d s)"
  obtain e where e: "fst (?d s) = Inr (Some e)" using fail_effect(1) [OF tk] by blast
  note f = fail_effect(2,3) [OF tk, where reason = "exhausted_reason (fe_attempts (tk_entry tk))" and c = c]
  let ?al = "record_alerts c r t w (fe_attempts (tk_entry tk)) spec RestartExhausted ?s1"
  have s': "s' = snd ?al"
    using False e tk(2) by (simp add: s'_def retry_or_fail_def id case_prod_unfold ledger_call_def Let_def)
  have al: "touches_only (task_key r t) w (event_key w r t) ?s1 (snd ?al)" "fl_tasks (snd ?al) = fl_tasks ?s1"
    using record_alerts_effect by blast+
  obtain t' where t': "bm_get (fl_tasks ?s1) (task_key r t) = Some t'" "settled c w ?s1 tk t'" using f(2) by blast
  have "tk_status t' = TaskFailed"
  proof -
    have "fl_tasks ?s1 = bm_insert (task_key r t) (ended w (timestamp c) TaskFailed tk) (fl_tasks s)"
      using version_now [OF tk] tk(1)
      by (simp add: ledger_call_def append_terminal_event_if_lease_unchanged_def append_guarded_def
          tasks_apply_event next_worker_event_def)
    with t'(1) show ?thesis by auto
  qed
  with t' have "settled c w (snd ?al) tk t'" by (simp add: settled_def)
  with touches_only_trans [OF f(1) al(1)] t'(1) show ?thesis by (auto simp: s' al(2))
qed

lemma recover_stale_effect:
  fixes c :: fleet_clock and p :: scheduler_policy and spec :: fleet_task_spec and rep :: scheduler_report
  assumes tk: "bm_get (fl_tasks s) (task_key r t) = Some tk" "tk_status tk = Leased" "tk_leased_to tk = Some w"
    and o: "\<not> other_task_leased s (task_key r t) w"
    and id: "fe_run_id (tk_entry tk) = r" "fe_task_id (tk_entry tk) = t"
    and same: "latest_seq_of s0 w r t = latest_seq_of s w r t" "heartbeat_at s0 w = heartbeat_at s w"
    and room: "unat (latest_seq_of s w r t) + 1 < 2 ^ 64"
  defines "s' \<equiv> snd (recover_stale c p s0 tk spec (rep, s))"
  shows "touches_only (task_key r t) w (event_key w r t) s s'
    \<and> (\<exists>t'. bm_get (fl_tasks s') (task_key r t) = Some t' \<and> settled c w s' tk t')"
proof -
  let ?e = "next_worker_event s r w t (timestamp c) (EvStale (heartbeat_at s w))"
  let ?d = "append_event_if_lease_unchanged r w t (fe_attempts (tk_entry tk)) (latest_seq_of s w r t)
    (heartbeat_at s w) (timestamp c) (EvStale (heartbeat_at s w))"
  have d: "?d s = (Inr (Some ?e), [EventAppended ?e])"
    using version_now [OF tk] by (simp add: append_event_if_lease_unchanged_def append_guarded_def)
  let ?s1 = "apply_event s ?e"
  have q: "latest_seq_of ?s1 w r t = ev_seq ?e"
  proof (rule latest_after_event)
    show "event_ok s ?e" unfolding next_worker_event_def by (rule worker_event_ok [OF unat_Suc [OF room]]) simp
  qed (simp add: next_worker_event_def)
  have s1: "bm_get (fl_tasks ?s1) (task_key r t) = Some tk" "heartbeat_at ?s1 w = heartbeat_at s w" "fl_tasks ?s1 = fl_tasks s"
    using tk(1) by (simp_all add: tasks_apply_event next_worker_event_def heartbeat_at_def)
  have s': "s' = snd (retry_or_fail c p tk spec w (latest_seq_of ?s1 w r t) (heartbeat_at ?s1 w)
      (rep\<lparr>sr_marked_stale := sr_marked_stale rep + 1\<rparr>, ?s1))"
    by (simp add: s'_def recover_stale_def id worker_of_def tk(3) unwrap_or_def same ledger_call_def d q s1(2) Let_def)
  have o1: "\<not> other_task_leased ?s1 (task_key r t) w" using o by (simp add: other_task_leased_def s1(3))
  have t1: "touches_only (task_key r t) w (event_key w r t) s ?s1"
    by (rule touches_only_event) (simp_all add: next_worker_event_def)
  show ?thesis
    using retry_or_fail_effect [OF s1(1) tk(2,3) o1 id] touches_only_trans [OF t1] unfolding s' by blast
qed

section \<open>Every call only appends records\<close>

definition extends :: "fleet_state \<Rightarrow> fleet_state \<Rightarrow> bool" where
  "extends s s' \<longleftrightarrow> (\<exists>rs. s' = replay_records s rs)"

lemma extends_refl [simp]: "extends s s"
  unfolding extends_def by (rule exI [of _ "[]"]) simp

lemma extends_trans: "extends s s1 \<Longrightarrow> extends s1 s2 \<Longrightarrow> extends s s2"
  unfolding extends_def by (metis replay_append)

lemma extends_call [simp]: "extends s (snd (ledger_call d s))"
  by (auto simp: extends_def ledger_call_def)

lemma extends_maps_ok: "extends s s' \<Longrightarrow> maps_ok s \<Longrightarrow> maps_ok s'"
  unfolding extends_def using replay_keeps [where P = maps_ok, OF maps_ok_apply] by blast

lemma extends_alerts_loop: "extends s (snd (record_alerts_loop c r t w a i chs s))"
proof (induction chs arbitrary: i s)
  case (Cons ch chs)
  show ?case by (simp add: Let_def case_prod_unfold, rule extends_trans [OF extends_call Cons.IH])
qed simp

lemma extends_alerts: "extends s (snd (record_alerts c r t w a spec cl s))"
  by (simp add: record_alerts_def extends_alerts_loop split: option.split)

lemma extends_retry: "extends s (snd (retry_or_fail c p t spec w q hb (rep, s)))"
  using extends_trans [OF extends_call extends_alerts]
  by (auto simp: retry_or_fail_def Let_def case_prod_unfold extends_alerts split: sum.split option.split)

lemma extends_recover: "extends s (snd (recover_stale c p s0 t spec (rep, s)))"
  using extends_trans [OF extends_call extends_retry]
  by (auto simp: recover_stale_def Let_def case_prod_unfold split: sum.split option.split)

section \<open>The pass over the tasks of a run\<close>

definition own_key :: "fleet_task \<Rightarrow> string" where
  "own_key t = task_key (fe_run_id (tk_entry t)) (fe_task_id (tk_entry t))"

definition lease_event_key :: "fleet_task \<Rightarrow> string" where
  "lease_event_key t = event_key (worker_of t) (fe_run_id (tk_entry t)) (fe_task_id (tk_entry t))"

definition needs_recovery :: "fleet_clock \<Rightarrow> scheduler_policy \<Rightarrow> fleet_run_id \<Rightarrow> fleet_state \<Rightarrow> fleet_task \<Rightarrow> bool" where
  "needs_recovery c p r s t \<longleftrightarrow> fe_run_id (tk_entry t) = r \<and> tk_status t = Leased
     \<and> task_spec_for s t \<noteq> None \<and> task_is_stale c p t s"

text \<open>How far a pass that began in \<open>s0\<close> has come: the tasks \<open>ts\<close> are still as they were.\<close>

definition pass_at :: "fleet_clock \<Rightarrow> scheduler_policy \<Rightarrow> fleet_run_id \<Rightarrow> fleet_state \<Rightarrow> fleet_task list \<Rightarrow> fleet_state \<Rightarrow> bool" where
  "pass_at c p r s0 ts s \<longleftrightarrow> maps_ok s \<and> fl_runs s = fl_runs s0
     \<and> (\<forall>t \<in> set ts. bm_get (fl_tasks s) (own_key t) = Some t
          \<and> (\<forall>w. tk_status t = Leased \<longrightarrow> tk_leased_to t = Some w \<longrightarrow> bm_get (fl_heartbeats s) w = bm_get (fl_heartbeats s0) w
             \<and> bm_get (fl_latest_seq s) (lease_event_key t) = bm_get (fl_latest_seq s0) (lease_event_key t)))
     \<and> (\<forall>k t w. bm_get (fl_tasks s) k = Some t \<longrightarrow> worker_is_leased w t
          \<longrightarrow> (\<exists>t0. bm_get (fl_tasks s0) k = Some t0 \<and> worker_is_leased w t0))
     \<and> (\<forall>k t. bm_get (fl_tasks s) k = Some t \<longrightarrow> needs_recovery c p r s t \<longrightarrow> k \<in> own_key ` set ts)"

lemma stale_cong:
  assumes "\<And>w. tk_leased_to t = Some w \<Longrightarrow> bm_get (fl_heartbeats s') w = bm_get (fl_heartbeats s) w"
  shows "task_is_stale c p t s' = task_is_stale c p t s"
  using assms by (cases "tk_leased_to t") (simp_all add: task_is_stale_def)

lemma spec_cong: "fl_runs s' = fl_runs s \<Longrightarrow> task_spec_for s' t = task_spec_for s t"
  by (simp add: task_spec_for_def)

lemma needs_recovery_cong:
  assumes "fl_runs s' = fl_runs s" and "fl_heartbeats s' = fl_heartbeats s"
  shows "needs_recovery c p r s' t = needs_recovery c p r s t"
proof -
  have "task_is_stale c p t s' = task_is_stale c p t s" by (rule stale_cong) (simp add: assms(2))
  then show ?thesis by (simp add: needs_recovery_def spec_cong [OF assms(1)])
qed

text \<open>The heartbeat a restart writes is recent at the same instant.\<close>

definition clock_fresh :: "fleet_clock \<Rightarrow> scheduler_policy \<Rightarrow> bool" where
  "clock_fresh c p \<longleftrightarrow> (case ck_parse c (timestamp c) of None \<Rightarrow> False
     | Some b \<Rightarrow> 0 \<le> ck_now c - b \<and> ck_now c - b \<le> so_heartbeat_timeout p)"

lemma settled_recovered:
  assumes "clock_fresh c p" and "settled c w s t t'"
  shows "\<not> needs_recovery c p r s t'"
proof
  assume n: "needs_recovery c p r s t'"
  then have "tk_leased_to t' = Some w" "heartbeat_at s w = Some (timestamp c)"
    using assms(2) by (auto simp: needs_recovery_def settled_def)
  moreover from this(2) obtain hb where "bm_get (fl_heartbeats s) w = Some hb" "hb_timestamp hb = timestamp c"
    by (auto simp: heartbeat_at_def)
  moreover obtain b where "ck_parse c (timestamp c) = Some b" "0 \<le> ck_now c - b" "ck_now c - b \<le> so_heartbeat_timeout p"
    using assms(1) by (auto simp: clock_fresh_def split: option.splits)
  ultimately have "\<not> task_is_stale c p t' s" by (simp add: task_is_stale_def)
  with n show False by (simp add: needs_recovery_def)
qed

lemma pass_skip:
  assumes "pass_at c p r s0 (t # ts) s" and "\<not> needs_recovery c p r s0 t" and "fe_run_id (tk_entry t) = r"
  shows "pass_at c p r s0 ts s"
proof -
  have "\<not> needs_recovery c p r s t"
  proof
    assume n: "needs_recovery c p r s t"
    have "task_is_stale c p t s = task_is_stale c p t s0"
      by (rule stale_cong) (use assms(1) n in \<open>auto simp: pass_at_def needs_recovery_def\<close>)
    moreover have "task_spec_for s t = task_spec_for s0 t" by (rule spec_cong) (use assms(1) in \<open>simp add: pass_at_def\<close>)
    ultimately show False using n assms(2) by (simp add: needs_recovery_def)
  qed
  moreover have "bm_get (fl_tasks s) (own_key t) = Some t" using assms(1) by (simp add: pass_at_def)
  ultimately have "k \<in> own_key ` set ts" if "bm_get (fl_tasks s) k = Some u" "needs_recovery c p r s u" for k u
  proof -
    have "k \<in> own_key ` set (t # ts)" using assms(1) that unfolding pass_at_def by blast
    moreover have "k \<noteq> own_key t" using that \<open>\<not> needs_recovery c p r s t\<close> \<open>bm_get (fl_tasks s) (own_key t) = Some t\<close> by auto
    ultimately show ?thesis by simp
  qed
  then show ?thesis using assms(1) unfolding pass_at_def by simp
qed

lemma pass_recover:
  fixes c :: fleet_clock and p :: scheduler_policy and spec :: fleet_task_spec and rep :: scheduler_report
  assumes pa: "pass_at c p r s0 (t # ts) s" and x: "exclusive (fl_tasks s0)" and fresh: "clock_fresh c p"
    and t: "fe_run_id (tk_entry t) = r" "worker_is_leased w t"
    and room: "unat (bm_get_or (fl_latest_seq s0) (lease_event_key t) 0) + 1 < 2 ^ 64"
    and d: "\<forall>t' \<in> set ts. own_key t' \<noteq> own_key t"
      "\<forall>t' \<in> set ts. tk_status t' = Leased \<longrightarrow> lease_event_key t' \<noteq> lease_event_key t"
      "\<forall>t' \<in> set ts. bm_get (fl_tasks s0) (own_key t') = Some t'"
  shows "pass_at c p r s0 ts (snd (recover_stale c p s0 t spec (rep, s)))"
proof -
  let ?s' = "snd (recover_stale c p s0 t spec (rep, s))"
  let ?k = "own_key t" and ?ek = "lease_event_key t"
  have lt: "tk_status t = Leased" "tk_leased_to t = Some w" using t(2) by (simp_all add: worker_is_leased_def)
  have keys: "?k = task_key r (fe_task_id (tk_entry t))" "?ek = event_key w r (fe_task_id (tk_entry t))"
    by (simp_all add: own_key_def lease_event_key_def worker_of_def unwrap_or_def t(1) lt(2))
  have g: "bm_get (fl_tasks s) ?k = Some t" and hbs: "bm_get (fl_heartbeats s) w = bm_get (fl_heartbeats s0) w"
    and sq: "bm_get (fl_latest_seq s) ?ek = bm_get (fl_latest_seq s0) ?ek"
    using pa lt by (simp_all add: pass_at_def)
  have leased: "\<exists>t0. bm_get (fl_tasks s0) k' = Some t0 \<and> worker_is_leased w' t0"
    if "bm_get (fl_tasks s) k' = Some t'" "worker_is_leased w' t'" for k' t' w'
    using pa that by (auto simp: pass_at_def)
  have alone: "k' = ?k" if "bm_get (fl_tasks s) k' = Some t'" "worker_is_leased w t'" for k' t'
    using leased [OF that] leased [OF g t(2)] x unfolding exclusive_def by blast
  have m: "maps_ok s" using pa by (simp add: pass_at_def)
  have "\<not> (fst kt \<noteq> ?k \<and> worker_is_leased w (snd kt))" if "kt \<in> set (fl_tasks s)" for kt
    using alone [of "fst kt" "snd kt"] that m by (auto simp: maps_ok_def bm_get_in [symmetric])
  then have o: "\<not> other_task_leased s (task_key r (fe_task_id (tk_entry t))) w"
    by (auto simp: other_task_leased_def list_ex_iff keys(1))
  have same: "latest_seq_of s0 w r (fe_task_id (tk_entry t)) = latest_seq_of s w r (fe_task_id (tk_entry t))"
    "heartbeat_at s0 w = heartbeat_at s w"
    using sq hbs by (simp_all add: latest_seq_of_def bm_get_or_def keys(2) heartbeat_at_def)
  have "unat (latest_seq_of s w r (fe_task_id (tk_entry t))) + 1 < 2 ^ 64"
    using room sq by (simp add: latest_seq_of_def bm_get_or_def keys(2))
  from recover_stale_effect [OF g [unfolded keys(1)] lt o t(1) refl same this, where c = c and p = p and spec = spec and rep = rep]
  obtain t' where to: "touches_only ?k w ?ek s ?s'" and t': "bm_get (fl_tasks ?s') ?k = Some t'" "settled c w ?s' t t'"
    unfolding keys by blast
  show ?thesis unfolding pass_at_def
  proof (intro conjI ballI allI impI)
    show "maps_ok ?s'" by (rule extends_maps_ok [OF extends_recover m])
    show "fl_runs ?s' = fl_runs s0" using to pa by (simp add: touches_only_def pass_at_def)
  next
    fix u assume u: "u \<in> set ts"
    then show "bm_get (fl_tasks ?s') (own_key u) = Some u" using d(1) to pa by (simp add: touches_only_def pass_at_def)
    fix w' assume l: "tk_status u = Leased" "tk_leased_to u = Some w'"
    have "w' \<noteq> w"
    proof
      assume "w' = w"
      with l u pa have "bm_get (fl_tasks s) (own_key u) = Some u" "worker_is_leased w u"
        by (simp_all add: pass_at_def worker_is_leased_def)
      with alone d(1) u show False by blast
    qed
    with to u l d(2) pa show "bm_get (fl_heartbeats ?s') w' = bm_get (fl_heartbeats s0) w'"
      "bm_get (fl_latest_seq ?s') (lease_event_key u) = bm_get (fl_latest_seq s0) (lease_event_key u)"
      by (simp_all add: touches_only_def pass_at_def)
  next
    fix k u w' assume u: "bm_get (fl_tasks ?s') k = Some u" "worker_is_leased w' u"
    show "\<exists>t0. bm_get (fl_tasks s0) k = Some t0 \<and> worker_is_leased w' t0"
    proof (cases "k = ?k")
      case True
      with u t' have "w' = w" by (auto simp: settled_def worker_is_leased_def)
      with leased [OF g t(2)] True show ?thesis by simp
    next
      case False
      with u to have "bm_get (fl_tasks s) k = Some u" by (simp add: touches_only_def)
      with leased u(2) show ?thesis by blast
    qed
  next
    fix k u assume u: "bm_get (fl_tasks ?s') k = Some u" "needs_recovery c p r ?s' u"
    have "k \<noteq> ?k" using settled_recovered [OF fresh t'(2)] u t'(1) by auto
    then have us: "bm_get (fl_tasks s) k = Some u" using u(1) to by (simp add: touches_only_def)
    have "task_is_stale c p u ?s' = task_is_stale c p u s"
    proof (rule stale_cong)
      fix w' assume "tk_leased_to u = Some w'"
      then have "worker_is_leased w' u" using u(2) by (simp add: needs_recovery_def worker_is_leased_def)
      then have "w' \<noteq> w" using alone us \<open>k \<noteq> ?k\<close> by blast
      then show "bm_get (fl_heartbeats ?s') w' = bm_get (fl_heartbeats s) w'" using to by (simp add: touches_only_def)
    qed
    moreover have "task_spec_for ?s' u = task_spec_for s u" by (rule spec_cong) (use to in \<open>simp add: touches_only_def\<close>)
    ultimately have "needs_recovery c p r s u" using u(2) by (simp add: needs_recovery_def)
    with us pa have "k \<in> own_key ` set (t # ts)" unfolding pass_at_def by blast
    with \<open>k \<noteq> ?k\<close> show "k \<in> own_key ` set ts" by simp
  qed
qed

section \<open>Resuming twice\<close>

lemma pass_fold:
  assumes x: "exclusive (fl_tasks s0)" and fresh: "clock_fresh c p"
    and ok: "mapall task_ok (fl_tasks s0)"
    and ts: "\<forall>t \<in> set ts. fe_run_id (tk_entry t) = r \<and> bm_get (fl_tasks s0) (own_key t) = Some t"
    and d: "distinct (map own_key ts)" "distinct (map lease_event_key (filter (\<lambda>t. tk_status t = Leased) ts))"
    and room: "\<forall>k. unat (bm_get_or (fl_latest_seq s0) k 0) + 1 < 2 ^ 64"
    and pa: "pass_at c p r s0 ts s"
  shows "pass_at c p r s0 [] (snd (foldl (reconcile_task c p s0) (rep, s) ts))"
  using ts d pa
proof (induction ts arbitrary: rep s)
  case (Cons t ts)
  have rest: "\<forall>t \<in> set ts. fe_run_id (tk_entry t) = r \<and> bm_get (fl_tasks s0) (own_key t) = Some t"
    "distinct (map own_key ts)" "distinct (map lease_event_key (filter (\<lambda>t. tk_status t = Leased) ts))"
    using Cons.prems(1-3) by (auto split: if_splits)
  have t: "fe_run_id (tk_entry t) = r" "bm_get (fl_tasks s0) (own_key t) = Some t" using Cons.prems(1) by simp_all
  obtain rep' s1 where rt: "reconcile_task c p s0 (rep, s) t = (rep', s1)" by (cases "reconcile_task c p s0 (rep, s) t")
  have "pass_at c p r s0 ts s1"
  proof (cases "needs_recovery c p r s0 t")
    case False
    then have "s1 = s" using rt t(1) by (auto simp: reconcile_task_def needs_recovery_def split: if_splits option.splits)
    with pass_skip [OF Cons.prems(4) False t(1)] show ?thesis by simp
  next
    case True
    then obtain spec where spec: "task_spec_for s0 t = Some spec" by (auto simp: needs_recovery_def)
    have st: "tk_status t = Leased" "task_is_stale c p t s0" using True by (simp_all add: needs_recovery_def)
    then obtain w where w: "tk_leased_to t = Some w" using mapall_get [OF ok t(2)] by (auto simp: task_ok_def)
    have "reconcile_task c p s0 (rep, s) t = recover_stale c p s0 t spec (rep, s)"
      by (simp add: reconcile_task_def st spec)
    then have s1: "s1 = snd (recover_stale c p s0 t spec (rep, s))" using rt by (metis snd_conv)
    have "\<forall>t' \<in> set ts. own_key t' \<noteq> own_key t" using Cons.prems(2) by (auto simp: image_iff)
    moreover have "\<forall>t' \<in> set ts. tk_status t' = Leased \<longrightarrow> lease_event_key t' \<noteq> lease_event_key t"
      using Cons.prems(3) st(1) by (auto simp: image_iff)
    moreover have "\<forall>t' \<in> set ts. bm_get (fl_tasks s0) (own_key t') = Some t'" using rest(1) by simp
    moreover have "worker_is_leased w t" using st(1) w by (simp add: worker_is_leased_def)
    ultimately show ?thesis unfolding s1
      using pass_recover [OF Cons.prems(4) x fresh t(1)] room by blast
  qed
  then have "pass_at c p r s0 [] (snd (foldl (reconcile_task c p s0) (rep', s1) ts))"
    by (rule Cons.IH [OF rest])
  then show ?case by (simp only: foldl_Cons rt)
qed simp

lemma bm_insert_twice: "bm_insert k v (bm_insert k v m) = bm_insert k v m"
  by (induction k v m rule: bm_insert.induct) auto

lemma reconcile_nothing:
  assumes "\<forall>t \<in> set ts. \<not> needs_recovery c p r s0 t" and "\<forall>t \<in> set ts. fe_run_id (tk_entry t) = r"
  shows "foldl (reconcile_task c p s0) rs ts = rs"
  using assms
proof (induction ts arbitrary: rs)
  case (Cons t ts)
  have "reconcile_task c p s0 rs t = rs"
    using Cons.prems by (auto simp: reconcile_task_def needs_recovery_def split: option.split)
  with Cons show ?case by simp
qed simp

text \<open>The room for event numbers, which a history bounded as usual leaves.\<close>

lemma history_marks:
  assumes "fleet_inv s" and "marks_below s n" and "list_all op_ok ps" and "n + length (ops_written s ps) < 2 ^ 64"
  shows "marks_below (foldl ledger_step s ps) (n + length (ops_written s ps))"
  using assms
proof (induction ps arbitrary: s n)
  case (Cons p ps)
  have len: "n + length (op_records p s) < 2 ^ 64" using Cons.prems(4) by simp
  have ok: "op_ok p" using Cons.prems(3) by simp
  note st = step_inv [OF Cons.prems(1) ok Cons.prems(2) len]
  have "marks_below (foldl ledger_step (ledger_step s p) ps)
      (n + length (op_records p s) + length (ops_written (ledger_step s p) ps))"
    by (rule Cons.IH [OF st]) (use Cons.prems(3,4) in simp_all)
  then show ?case by (simp add: add.assoc)
qed simp

text \<open>
  C30. resuming twice is resuming once. A second resume of a run at the same instant reports no change
  and changes nothing, when the keys of the leased tasks differ and the clock reads back a time that is
  not in the future and within the heartbeat timeout.
\<close>

theorem resume_run_idempotent:
  assumes "list_all op_ok ps" and "length (ops_written fleet_state_empty ps) + 1 < 2 ^ 64"
    and "distinct (map lease_event_key (active_tasks_for_run (run_ops ps) r))" and "clock_fresh c p"
  shows "resume_run c p r (snd (resume_run c p r (run_ops ps)))
    = (scheduler_report_default, snd (resume_run c p r (run_ops ps)))"
proof -
  let ?s0 = "run_ops ps"
  have i: "fleet_inv ?s0" by (rule reached_inv) (use assms in simp_all)
  have srt: "bm_sorted (fl_tasks ?s0)" by (rule inv_parts(7) [OF i])
  let ?ts = "tasks_of_run ?s0 r"
  have ts: "\<forall>t \<in> set ?ts. fe_run_id (tk_entry t) = r \<and> bm_get (fl_tasks ?s0) (own_key t) = Some t"
  proof
    fix t assume t: "t \<in> set ?ts"
    then obtain k where "bm_get (fl_tasks ?s0) k = Some t" using bm_values_get [OF srt] by (auto simp: tasks_of_run_def)
    moreover from this have "task_ok k t" using inv_parts(1) [OF i] by (auto dest: mapall_get)
    ultimately show "fe_run_id (tk_entry t) = r \<and> bm_get (fl_tasks ?s0) (own_key t) = Some t"
      using t by (simp add: tasks_of_run_def own_key_def task_ok_def)
  qed
  have d: "distinct (map own_key ?ts)"
  proof -
    have "map own_key (bm_values (fl_tasks ?s0)) = map fst (fl_tasks ?s0)"
      using inv_parts(1) [OF i] by (auto simp: bm_values_def mapall_in [OF srt] task_ok_def own_key_def)
    then have "distinct (map own_key (bm_values (fl_tasks ?s0)))" using sorted_keys [OF srt] by simp
    then show ?thesis unfolding tasks_of_run_def by (rule distinct_map_filter)
  qed
  have de: "distinct (map lease_event_key (filter (\<lambda>t. tk_status t = Leased) ?ts))"
    using assms(3) by (simp add: active_tasks_for_run_def tasks_of_run_def conj_commute)
  have "marks_below ?s0 (length (ops_written fleet_state_empty ps))"
    using history_marks [OF fleet_inv_empty marks_below_empty assms(1)] assms(2) by (simp add: run_ops_def)
  then have room: "\<forall>k. unat (bm_get_or (fl_latest_seq ?s0) k 0) + 1 < 2 ^ 64"
    using assms(2) by (auto simp: marks_below_def mark_of_def intro: le_less_trans)
  have "pass_at c p r ?s0 ?ts ?s0"
    unfolding pass_at_def
  proof (intro conjI)
    show "\<forall>k t. bm_get (fl_tasks ?s0) k = Some t \<longrightarrow> needs_recovery c p r ?s0 t \<longrightarrow> k \<in> own_key ` set ?ts"
    proof (intro allI impI)
      fix k t assume k: "bm_get (fl_tasks ?s0) k = Some t" "needs_recovery c p r ?s0 t"
      then have "t \<in> set ?ts" by (force simp: tasks_of_run_def needs_recovery_def bm_values_def bm_get_def dest: map_of_SomeD)
      moreover have "k = own_key t" using inv_parts(1) [OF i] k(1) by (auto simp: task_ok_def own_key_def dest: mapall_get)
      ultimately show "k \<in> own_key ` set ?ts" by simp
    qed
  qed (use ts inv_parts(5) [OF i] in auto)
  from pass_fold [OF inv_parts(2) [OF i] assms(4) inv_parts(1) [OF i] ts d de room this]
  have dn: "pass_at c p r ?s0 [] (snd (reconcile_stale_leases c p r (scheduler_report_default, ?s0)))"
    by (simp add: reconcile_stale_leases_def)
  let ?s1 = "snd (reconcile_stale_leases c p r (scheduler_report_default, ?s0))"
  let ?s2 = "refresh_run_status (timestamp c) r ?s1"
  have r2: "?s2 = ?s1\<lparr>fl_run_status_overrides := bm_insert r (status_of_tasks (tasks_of_run ?s1 r)) (fl_run_status_overrides ?s1)\<rparr>"
    by (simp add: refresh_run_status_def ledger_call_def update_run_status_def)
  have "\<forall>t \<in> set (tasks_of_run ?s1 r). \<not> needs_recovery c p r ?s1 t"
  proof
    fix t assume t: "t \<in> set (tasks_of_run ?s1 r)"
    have sr: "bm_sorted (fl_tasks ?s1)" using dn by (simp add: pass_at_def maps_ok_def)
    have "t \<in> set (bm_values (fl_tasks ?s1))" using t by (simp add: tasks_of_run_def)
    then obtain k where "bm_get (fl_tasks ?s1) k = Some t" using bm_values_get [OF sr] by blast
    with dn show "\<not> needs_recovery c p r ?s1 t" by (auto simp: pass_at_def)
  qed
  have "\<forall>t \<in> set (tasks_of_run ?s2 r). \<not> needs_recovery c p r ?s2 t"
  proof -
    have "tasks_of_run ?s2 r = tasks_of_run ?s1 r" by (simp add: r2 tasks_of_run_def)
    moreover have "needs_recovery c p r ?s2 t = needs_recovery c p r ?s1 t" for t
      by (rule needs_recovery_cong) (simp_all add: r2)
    ultimately show ?thesis
      using \<open>\<forall>t \<in> set (tasks_of_run ?s1 r). \<not> needs_recovery c p r ?s1 t\<close> by simp
  qed
  then have "reconcile_stale_leases c p r (scheduler_report_default, ?s2) = (scheduler_report_default, ?s2)"
    unfolding reconcile_stale_leases_def snd_conv by (rule reconcile_nothing) (simp add: tasks_of_run_def)
  moreover have "refresh_run_status (timestamp c) r ?s2 = ?s2"
    by (simp add: r2 refresh_run_status_def ledger_call_def update_run_status_def tasks_of_run_def bm_insert_twice)
  moreover have "snd (resume_run c p r ?s0) = ?s2" by (simp add: resume_run_def case_prod_unfold Let_def)
  ultimately show ?thesis by (simp add: resume_run_def)
qed

text \<open>A started task whose worker has gone quiet, at an instant the clock writes as \<open>now\<close>.\<close>

definition sample_clock :: fleet_clock where
  "sample_clock = \<lparr>ck_now = 1000 * second_ns,
     ck_parse = (\<lambda>s. if s = ''now'' then Some (1000 * second_ns) else if s = ''1'' then Some 0 else None),
     ck_format = (\<lambda>t. if t = 1000 * second_ns then ''now'' else ''later'')\<rparr>"

lemma sample_clock_fresh: "clock_fresh sample_clock scheduler_policy_default"
  by (simp add: clock_fresh_def sample_clock_def timestamp_def scheduler_policy_default_def second_ns_def)

lemma sample_leased_tasks:
  "active_tasks_for_run (run_ops [OpEnqueue sample_entry, OpLease ''r'' ''t'' ''w'' ''1'' None None]) ''r''
    = [leased_task ''w'' ''1'' None \<lparr>tk_entry = sample_entry, tk_status = Enqueued, tk_leased_to = None,
        tk_leased_at = None, tk_completed_at = None\<rparr>]"
  by (simp add: run_ops_def ledger_step_def enqueue_def lease_task_if_enqueued_def lease_with_events_def
      active_tasks_for_run_def fleet_state_empty_def bm_empty_def bm_values_def bm_get_def Let_def worker_busy_def
      worker_is_leased_def task_key_def sample_entry_def leased_task_def)

lemma resume_run_idempotent_witness:
  "resume_run sample_clock scheduler_policy_default ''r'' (snd (resume_run sample_clock scheduler_policy_default ''r''
      (run_ops [OpEnqueue sample_entry, OpLease ''r'' ''t'' ''w'' ''1'' None None])))
    = (scheduler_report_default, snd (resume_run sample_clock scheduler_policy_default ''r''
      (run_ops [OpEnqueue sample_entry, OpLease ''r'' ''t'' ''w'' ''1'' None None])))"
proof (rule resume_run_idempotent)
  let ?ps = "[OpEnqueue sample_entry, OpLease ''r'' ''t'' ''w'' ''1'' None None]"
  show "list_all op_ok ?ps" by (simp add: sample_entry_def)
  have "length (ops_written fleet_state_empty ?ps) \<le> 8" using length_ops_written [of fleet_state_empty ?ps] by simp
  then show "length (ops_written fleet_state_empty ?ps) + 1 < 2 ^ 64" by (rule le_less_trans [OF add_right_mono]) simp
  show "distinct (map lease_event_key (active_tasks_for_run (run_ops ?ps) ''r''))" by (simp add: sample_leased_tasks)
  show "clock_fresh sample_clock scheduler_policy_default" by (rule sample_clock_fresh)
qed

end
