(* ===== verification/Fleet_Scheduling.thy ===== *)
theory Fleet_Scheduling
  imports Fleet_Manager Fleet_Resume
begin

text \<open>
  The scheduling loop of the manager: it returns, with every worker or every task taken, when no worker of
  the run holds a lease of another run, and it spins for as long as the worker it picks does; and the
  outcome of an attempt, as the ledger has it afterwards.
\<close>

section \<open>Counting tasks\<close>

lemma count_replace:
  assumes "bm_sorted m" and "bm_get m k = Some u"
  shows "length (filter P (bm_values (bm_insert k v m))) + (if P u then 1 else 0)
    = length (filter P (bm_values m)) + (if P v then 1 else 0)"
  using assms
proof (induction m)
  case (Cons kv m)
  obtain k' v' where kv: "kv = (k', v')" by (cases kv)
  show ?case
  proof (cases "k = k'")
    case True
    with Cons.prems kv show ?thesis by (simp add: bm_values_def bm_get_def)
  next
    case False
    have "bm_get m k = Some u" using Cons.prems(2) False kv by (simp add: bm_get_def)
    then have "k \<in> fst ` set m" by (force simp: bm_get_def dest: map_of_SomeD)
    then have "k' < k" using Cons.prems(1) kv by (auto simp: bm_sorted_def)
    then have "\<not> k < k'" by simp
    moreover have "bm_sorted m" using Cons.prems(1) kv by (simp add: bm_sorted_def)
    ultimately show ?thesis using Cons.IH \<open>bm_get m k = Some u\<close> False kv by (simp add: bm_values_def)
  qed
qed (simp add: bm_get_def)

definition tasks_inv :: "fleet_state \<Rightarrow> bool" where
  "tasks_inv s \<longleftrightarrow> mapall task_ok (fl_tasks s) \<and> exclusive (fl_tasks s) \<and> bm_sorted (fl_tasks s)"

lemma tasks_inv_get:
  assumes "tasks_inv s" and "t \<in> set (bm_values (fl_tasks s))"
  shows "bm_get (fl_tasks s) (own_key t) = Some t" and "task_ok (own_key t) t"
proof -
  obtain k where k: "bm_get (fl_tasks s) k = Some t"
    using bm_values_get [OF _ assms(2)] assms(1) by (auto simp: tasks_inv_def)
  then have ok: "task_ok k t" using assms(1) by (auto simp: tasks_inv_def dest: mapall_get)
  then have "k = own_key t" by (simp add: task_ok_def own_key_def)
  with k ok show "bm_get (fl_tasks s) (own_key t) = Some t" "task_ok (own_key t) t" by simp_all
qed

text \<open>Active tasks and active workers are equally many.\<close>

lemma active_count:
  assumes i: "tasks_inv s"
  shows "length (active_workers_for_run s r) = leased_in_run s r"
proof -
  let ?ts = "active_tasks_for_run s r"
  have in_ts: "t \<in> set (bm_values (fl_tasks s)) \<and> tk_status t = Leased" if "t \<in> set ?ts" for t
    using that by (simp add: active_tasks_for_run_def)
  have some: "tk_leased_to t \<noteq> None" if "t \<in> set ?ts" for t
    using tasks_inv_get(2) [OF i] in_ts [OF that] by (auto simp: task_ok_def)
  have srt: "bm_sorted (fl_tasks s)" and ok: "mapall task_ok (fl_tasks s)" using i by (simp_all add: tasks_inv_def)
  have "\<forall>kv \<in> set (fl_tasks s). own_key (snd kv) = fst kv"
    using ok by (simp add: mapall_in [OF srt] task_ok_def own_key_def)
  then have "map own_key (bm_values (fl_tasks s)) = map fst (fl_tasks s)" by (simp add: bm_values_def)
  then have "distinct (map own_key (bm_values (fl_tasks s)))"
    by (simp add: sorted_keys [OF srt])
  then have d: "distinct ?ts" unfolding active_tasks_for_run_def by (simp add: distinct_map)
  have "inj_on (\<lambda>t. the (tk_leased_to t)) (set ?ts)"
  proof (rule inj_onI)
    fix t u assume tu: "t \<in> set ?ts" "u \<in> set ?ts" "the (tk_leased_to t) = the (tk_leased_to u)"
    define w where "w = the (tk_leased_to t)"
    have "worker_is_leased w t" "worker_is_leased w u"
      using some [OF tu(1)] some [OF tu(2)] in_ts [OF tu(1)] in_ts [OF tu(2)] tu(3)
      by (auto simp: w_def worker_is_leased_def)
    then have "own_key t = own_key u"
      using tasks_inv_get(1) [OF i] in_ts tu(1,2) i unfolding tasks_inv_def exclusive_def by blast
    with tasks_inv_get(1) [OF i] in_ts tu(1,2) show "t = u" by (metis option.inject)
  qed
  then have "distinct (map (\<lambda>t. the (tk_leased_to t)) ?ts)" using d by (simp add: distinct_map)
  moreover have "List.map_filter tk_leased_to ?ts = map (\<lambda>t. the (tk_leased_to t)) ?ts"
    using some by (simp add: List.map_filter_def filter_id_conv comp_def)
  ultimately have "length (active_workers_for_run s r) = length ?ts"
    by (simp add: active_workers_for_run_def distinct_remdups_id)
  then show ?thesis by (simp add: active_tasks_for_run_def leased_in_run_def)
qed

section \<open>One start\<close>

definition start_events :: "manager_env \<Rightarrow> string \<Rightarrow> fleet_inbox_entry \<Rightarrow> fleet_task_spec \<Rightarrow> fleet_worker_payload list" where
  "start_events env w e spec = [EvLeased None, EvStarting, EvArtifact (log_artifact env (fe_run_id e) w spec), EvRunning]"

lemma start_effect:
  assumes "bm_get (fl_tasks s) (task_key (fe_run_id e) (fe_task_id e)) = Some t" and "tk_status t = Enqueued"
    and "\<not> worker_busy s w" and "leased_in_run s (fe_run_id e) < m"
  shows "fst (start_worker_task env w e spec (Some m) s)"
    and "fl_tasks (snd (start_worker_task env w e spec (Some m) s))
      = bm_insert (task_key (fe_run_id e) (fe_task_id e)) (leased_task w (mg_timestamp env) None t) (fl_tasks s)"
    and "fl_runs (snd (start_worker_task env w e spec (Some m) s)) = fl_runs s"
proof -
  let ?d = "start_task_if_enqueued (fe_run_id e) (fe_task_id e) w (mg_timestamp env) None (Some m) (start_events env w e spec)"
  have st: "start_worker_task env w e spec (Some m) s = ledger_call ?d s" by (simp add: start_worker_task_def start_events_def)
  have d: "?d s = (True, TaskLeasedRec (fe_run_id e) (fe_task_id e) w (mg_timestamp env) None
      # initial_event_records (latest_seq_of s w (fe_run_id e) (fe_task_id e) + 1) (fe_run_id e) w (fe_task_id e)
          (mg_timestamp env) (start_events env w e spec) @ [HeartbeatRec w (mg_timestamp env) None None])"
    using assms by (simp add: start_task_if_enqueued_def lease_with_events_def)
  show "fst (start_worker_task env w e spec (Some m) s)" by (simp add: st ledger_call_def d)
  have ev: "list_all (\<lambda>p. terminal_payload p = None) (start_events env w e spec)" by (simp add: start_events_def)
  show "fl_tasks (snd (start_worker_task env w e spec (Some m) s))
      = bm_insert (task_key (fe_run_id e) (fe_task_id e)) (leased_task w (mg_timestamp env) None t) (fl_tasks s)"
    by (simp add: st ledger_call_def d Let_def tasks_initial_events [OF ev] apply_leased assms(1) del: apply_record.simps(4))
  have "fl_runs (replay_records s' (initial_event_records q r' w' t' ts ps)) = fl_runs s'" for s' q r' w' t' ts ps
    by (induction ps arbitrary: s' q) simp_all
  then show "fl_runs (snd (start_worker_task env w e spec (Some m) s)) = fl_runs s"
    by (simp add: st ledger_call_def d Let_def apply_leased del: apply_record.simps(4))
qed

lemma start_fails:
  assumes "worker_busy s w"
  shows "start_worker_task env w e spec m s = (False, s)"
  using assms by (auto simp: start_worker_task_def ledger_call_def start_task_if_enqueued_def lease_with_events_def
      split: option.split)

section \<open>The loop\<close>

text \<open>
  the scheduling loop spins. When the worker it would pick is busy with another run and a task of
  this run waits, the loop of the manager makes no progress and does not return with any fuel.
\<close>

theorem schedule_loop_spins:
  assumes "length (active_workers_for_run s r) < m"
    and "pick_worker ids (active_workers_for_run s r) un = Some w"
    and "next_enqueued_task_for_run s r \<noteq> None" and "worker_busy s w"
  shows "schedule_loop n env r m ids un k s = None"
proof (induction n arbitrary: k)
  case (Suc n)
  obtain e spec where "next_enqueued_task_for_run s r = Some (e, spec)" using assms(3) by auto
  with assms Suc show ?case by (simp add: Let_def start_fails)
qed simp

text \<open>No worker of the list holds a lease of another run.\<close>

definition workers_own :: "fleet_state \<Rightarrow> fleet_run_id \<Rightarrow> string list \<Rightarrow> bool" where
  "workers_own s r ids \<longleftrightarrow> (\<forall>t \<in> set (bm_values (fl_tasks s)). \<forall>w \<in> set ids.
     worker_is_leased w t \<longrightarrow> fe_run_id (tk_entry t) = r)"

definition queued_in_run :: "fleet_state \<Rightarrow> fleet_run_id \<Rightarrow> nat" where
  "queued_in_run s r = length (filter (\<lambda>t. fe_run_id (tk_entry t) = r \<and> tk_status t = Enqueued) (bm_values (fl_tasks s)))"

definition nothing_to_start :: "fleet_state \<Rightarrow> fleet_run_id \<Rightarrow> nat \<Rightarrow> string list \<Rightarrow> string list \<Rightarrow> bool" where
  "nothing_to_start s r m ids un \<longleftrightarrow> m \<le> length (active_workers_for_run s r)
     \<or> pick_worker ids (active_workers_for_run s r) un = None \<or> next_enqueued_task_for_run s r = None"

lemma next_enqueued_task:
  assumes "next_enqueued_task_for_run s r = Some (e, spec)"
  obtains t where "t \<in> set (bm_values (fl_tasks s))" and "tk_entry t = e" and "tk_status t = Enqueued" and "fe_run_id e = r"
proof -
  from assms obtain t where m: "min_by_key launch_key (filter (\<lambda>t. fe_run_id (tk_entry t) = r \<and> tk_status t = Enqueued)
      (bm_values (fl_tasks s))) = Some t" and "tk_entry t = e"
    by (auto simp: next_enqueued_task_for_run_def split: option.splits)
  with min_by_key_in [OF m] that show thesis by auto
qed

lemma loop_step:
  assumes i: "tasks_inv s" and own: "workers_own s r ids" and n: "\<not> nothing_to_start s r m ids un"
  obtains w e spec where "pick_worker ids (active_workers_for_run s r) un = Some w"
    and "next_enqueued_task_for_run s r = Some (e, spec)"
    and "fst (start_worker_task env w e spec (Some m) s)"
    and "tasks_inv (snd (start_worker_task env w e spec (Some m) s))"
    and "workers_own (snd (start_worker_task env w e spec (Some m) s)) r ids"
    and "queued_in_run (snd (start_worker_task env w e spec (Some m) s)) r + 1 = queued_in_run s r"
proof -
  obtain w e spec where pick: "pick_worker ids (active_workers_for_run s r) un = Some w"
    and nx: "next_enqueued_task_for_run s r = Some (e, spec)" and cap: "length (active_workers_for_run s r) < m"
    using n by (auto simp: nothing_to_start_def)
  obtain t where t: "t \<in> set (bm_values (fl_tasks s))" "tk_entry t = e" "tk_status t = Enqueued" "fe_run_id e = r"
    using next_enqueued_task [OF nx] by blast
  have k: "own_key t = task_key (fe_run_id e) (fe_task_id e)" by (simp add: own_key_def t(2))
  have g: "bm_get (fl_tasks s) (task_key (fe_run_id e) (fe_task_id e)) = Some t"
    using tasks_inv_get(1) [OF i t(1)] by (simp add: k)
  have w: "w \<in> set ids" "w \<notin> set (active_workers_for_run s r)"
    using pick by (auto simp: pick_worker_def find_Some_iff)
  have free: "\<not> worker_is_leased w u" if "u \<in> set (bm_values (fl_tasks s))" for u
  proof
    assume l: "worker_is_leased w u"
    then have "fe_run_id (tk_entry u) = r" using own w(1) that by (auto simp: workers_own_def)
    then have "u \<in> set (active_tasks_for_run s r)" using l that by (simp add: active_tasks_for_run_def worker_is_leased_def)
    then have "w \<in> set (active_workers_for_run s r)"
      using l by (force simp: active_workers_for_run_def List.map_filter_def worker_is_leased_def)
    with w(2) show False by simp
  qed
  have nb: "\<not> worker_busy s w" using free by (auto simp: worker_busy_def list_ex_iff)
  have "leased_in_run s (fe_run_id e) < m" using cap active_count [OF i] t(4) by simp
  note st = start_effect [OF g t(3) nb this, where env = env and spec = spec]
  let ?s' = "snd (start_worker_task env w e spec (Some m) s)"
  let ?t' = "leased_task w (mg_timestamp env) None t"
  have srt: "bm_sorted (fl_tasks s)" and ok: "mapall task_ok (fl_tasks s)" and x: "exclusive (fl_tasks s)"
    using i by (simp_all add: tasks_inv_def)
  have "tasks_inv ?s'"
  proof -
    have "task_ok (own_key t) ?t'"
      using tasks_inv_get(2) [OF i t(1)] by (simp add: task_ok_def own_key_def status_terminal_def sat_add_pos)
    moreover have "exclusive (bm_insert (own_key t) ?t' (fl_tasks s))"
    proof (rule exclusive_insert [OF x])
      fix k' t'' w' assume u: "bm_get (fl_tasks s) k' = Some t''" "worker_is_leased w' t''" "worker_is_leased w' ?t'"
      then have "w' = w" by (simp add: worker_is_leased_def)
      moreover have "t'' \<in> set (bm_values (fl_tasks s))" using u(1) by (force simp: bm_values_def bm_get_def dest: map_of_SomeD)
      ultimately show "k' = own_key t" using free u(2) by blast
    qed
    ultimately show ?thesis using srt ok by (simp add: tasks_inv_def st(2) k mapall_insert)
  qed
  moreover have "workers_own ?s' r ids"
  proof -
    have "u \<in> insert ?t' (set (bm_values (fl_tasks s)))" if "u \<in> set (bm_values (fl_tasks ?s'))" for u
      using that [unfolded st(2)] by (auto dest: bm_values_insert)
    moreover have "fe_run_id (tk_entry ?t') = r" by (simp add: t(2,4))
    ultimately show ?thesis using own unfolding workers_own_def by blast
  qed
  moreover have "queued_in_run ?s' r + 1 = queued_in_run s r"
    using count_replace [OF srt g, where v = ?t' and P = "\<lambda>t. fe_run_id (tk_entry t) = r \<and> tk_status t = Enqueued"] t
    by (simp add: queued_in_run_def st(2))
  ultimately show thesis by (rule that [OF pick nx st(1)])
qed

lemma schedule_loop_total:
  assumes "tasks_inv s" and "workers_own s r ids" and "queued_in_run s r < n"
  shows "\<exists>k' s'. schedule_loop n env r m ids un k s = Some (k', s') \<and> nothing_to_start s' r m ids un"
  using assms
proof (induction n arbitrary: s k)
  case (Suc n)
  show ?case
  proof (cases "nothing_to_start s r m ids un")
    case True
    then show ?thesis by (auto simp: nothing_to_start_def Let_def split: option.split)
  next
    case False
    obtain w e spec where h: "pick_worker ids (active_workers_for_run s r) un = Some w"
      "next_enqueued_task_for_run s r = Some (e, spec)"
      "tasks_inv (snd (start_worker_task env w e spec (Some m) s))"
      "workers_own (snd (start_worker_task env w e spec (Some m) s)) r ids"
      "queued_in_run (snd (start_worker_task env w e spec (Some m) s)) r + 1 = queued_in_run s r"
      using loop_step [OF Suc.prems(1,2) False, of env] by metis
    from Suc.IH [OF h(3,4)] h(5) Suc.prems(3) False h(1,2) show ?thesis
      by (simp add: Let_def case_prod_unfold nothing_to_start_def)
  qed
qed simp

text \<open>
  C31. the scheduling loop returns. In the state of any history in which no listed worker holds a lease
  of another run, the loop returns within one turn more than there are queued tasks, and then the run is at
  its capacity, has no free worker or has nothing queued.
\<close>

theorem schedule_loop_returns:
  assumes "list_all op_ok ps" and "length (ops_written fleet_state_empty ps) < 2 ^ 64"
    and "workers_own (run_ops ps) r ids" and "queued_in_run (run_ops ps) r < n"
  shows "\<exists>k s'. schedule_loop n env r m ids un 0 (run_ops ps) = Some (k, s') \<and> nothing_to_start s' r m ids un"
proof (rule schedule_loop_total [OF _ assms(3,4)])
  show "tasks_inv (run_ops ps)" using inv_parts [OF reached_inv [OF assms(1,2)]] by (simp add: tasks_inv_def)
qed

section \<open>The outcome of an attempt\<close>

lemma receipts_note [simp]: "fl_receipts (note_kept_events e s) = fl_receipts s" "fl_receipts (note_sequence e b s) = fl_receipts s"
  by (cases "ev_payload e") (simp_all add: note_kept_events_def note_sequence_def Let_def)

lemma receipts_mark [simp]: "fl_receipts (mark_task_terminal s r t w ts st) = fl_receipts s"
  by (simp add: mark_task_terminal_def split: option.split)

lemma receipts_apply_event [simp]: "fl_receipts (apply_event s e) = fl_receipts s"
  by (simp add: apply_event_def project_event_def Let_def split: option.split)

lemma append_tail_keeps:
  assumes "append_tail env r w t a ps s = (b, s')"
  shows "fl_tasks s' = fl_tasks s \<and> fl_receipts s' = fl_receipts s"
  using assms
proof (induction ps arbitrary: s)
  case (Cons p ps)
  show ?case
  proof (cases "is_terminal_payload p")
    case True
    with Cons show ?thesis by simp
  next
    case False
    then have np: "terminal_payload p = None" by (cases p) simp_all
    let ?c = "ledger_call (append_event_if_leased r w t a (mg_timestamp env) p) s"
    have keep: "fl_tasks (snd ?c) = fl_tasks s \<and> fl_receipts (snd ?c) = fl_receipts s"
      by (simp add: ledger_call_def append_event_if_leased_def np append_guarded_def tasks_apply_event next_worker_event_def
          worker_event_def)
    show ?thesis
    proof (cases "\<exists>e. fst ?c = Inr (Some e)")
      case True
      then obtain e where "fst ?c = Inr (Some e)" by blast
      then have c: "?c = (Inr (Some e), snd ?c)" by (simp add: prod_eq_iff)
      have "append_tail env r w t a (p # ps) s = append_tail env r w t a ps (snd ?c)"
        unfolding append_tail.simps(2) using False by (subst c) simp
      then show ?thesis using Cons.IH [of "snd ?c"] Cons.prems keep by simp
    next
      case no: False
      obtain x s1 where c: "?c = (x, s1)" by (cases ?c)
      have "append_tail env r w t a (p # ps) s = (False, s1)"
      proof (cases x)
        case (Inl err)
        then show ?thesis using False by (simp add: c)
      next
        case (Inr o')
        then have "o' = None" using no c by simp
        then show ?thesis using False Inr by (simp add: c)
      qed
      with Cons.prems keep show ?thesis by (simp add: c)
    qed
  qed
qed simp

text \<open>A finalised attempt: the status is the receipt's where it reports a failure.\<close>

lemma finalize_success:
  assumes "fst (finalize_task_attempt_if_leased r w t a ts p fs rc s) = Inr (Some e)"
  shows "rc_run_id rc = r" and "rc_task_id rc = t"
    and "snd (finalize_task_attempt_if_leased r w t a ts p fs rc s) = [TaskAttemptFinalized (next_worker_event s r w t ts p) fs
      (rc\<lparr>rc_attempt := Some a, rc_terminal_seq := Some (ev_seq (next_worker_event s r w t ts p))\<rparr>)]"
  using assms unfolding finalize_task_attempt_if_leased_def Let_def by (simp_all split: if_split_asm)

lemma finalize_failure:
  "(\<exists>e. fst (finalize_task_attempt_if_leased r w t a ts p fs rc s) = Inr (Some e))
    \<or> snd (finalize_task_attempt_if_leased r w t a ts p fs rc s) = []"
  unfolding finalize_task_attempt_if_leased_def Let_def by (simp split: if_split)

lemma finalize_effect:
  assumes "attempt_is s r t w Leased a" and st: "terminal_payload p = Some st"
    and "ledger_call (finalize_task_attempt_if_leased r w t a ts p (override_status rc st) rc) s = (Inr (Some e), s')"
  shows "\<exists>tk rc'. bm_get (fl_tasks s') (task_key r t) = Some tk \<and> bm_get (fl_receipts s') (task_key r t) = Some rc'
    \<and> tk_status tk = (if rc_result rc' \<in> {ResultFail, ResultTimeout} then TaskFailed else st)
    \<and> tk_leased_to tk = Some w \<and> rc_attempt rc' = Some a \<and> rc_result rc' = rc_result rc"
proof -
  obtain t0 where t0: "bm_get (fl_tasks s) (task_key r t) = Some t0" "tk_leased_to t0 = Some w"
    using assms(1) by (auto simp: attempt_is_def split: option.splits)
  let ?e = "next_worker_event s r w t ts p"
  let ?rc = "rc\<lparr>rc_attempt := Some a, rc_terminal_seq := Some (ev_seq ?e)\<rparr>"
  have fst: "fst (finalize_task_attempt_if_leased r w t a ts p (override_status rc st) rc s) = Inr (Some e)"
    and s'0: "s' = replay_records s (snd (finalize_task_attempt_if_leased r w t a ts p (override_status rc st) rc s))"
    using assms(3) by (simp_all add: ledger_call_def)
  note id = finalize_success(1,2) [OF fst]
  have s': "s' = apply_record s (TaskAttemptFinalized ?e (override_status rc st) ?rc)"
    unfolding s'0 finalize_success(3) [OF fst] by simp
  have e: "ev_payload ?e = p" "ev_run_id ?e = r" "ev_task_id ?e = t" "ev_worker_id ?e = w" "ev_timestamp ?e = ts"
    by (simp_all add: next_worker_event_def worker_event_def)
  have ap: "fl_tasks (apply_event s ?e) = bm_insert (task_key r t) (ended w ts st t0) (fl_tasks s)"
    by (simp add: tasks_apply_event e st event_task_key_def t0)
  have rec: "bm_get (fl_receipts s') (task_key r t) = Some ?rc"
    by (simp add: s' put_receipt_def id split: option.split)
  have lt: "tk_leased_to (ended w ts q u) = Some w" if "tk_leased_to u = Some w" for q u
    using that by (simp add: ended_def)
  show ?thesis
  proof (cases "override_status rc st")
    case None
    then have "bm_get (fl_tasks s') (task_key r t) = Some (ended w ts st t0)" by (simp add: s' put_receipt_def ap)
    with None rec lt [OF t0(2)] show ?thesis by (auto simp: override_status_def ended_def split: if_splits)
  next
    case (Some q)
    then have "bm_get (fl_tasks s') (task_key r t) = Some (ended w ts q (ended w ts st t0))"
      by (simp add: s' put_receipt_def tasks_mark ap e)
    with Some rec lt [OF lt [OF t0(2)]] show ?thesis by (auto simp: override_status_def ended_def split: if_splits)
  qed
qed

lemma outcome_unleased:
  assumes "\<not> attempt_is s (fe_run_id (tx_entry tx)) (fe_task_id (tx_entry tx)) (tx_worker_id tx) Leased (fe_attempts (tx_entry tx))"
  shows "record_task_outcome env tx tv s = (Inr False, s)"
  using assms by (simp add: record_task_outcome_def)

lemma outcome_not_terminal:
  assumes "attempt_is s (fe_run_id (tx_entry tx)) (fe_task_id (tx_entry tx)) (tx_worker_id tx) Leased (fe_attempts (tx_entry tx))"
    and "terminal_payload (tv_payload tv) = None"
  shows "\<exists>err. record_task_outcome env tx tv s = (Inl err, s)"
  using assms by (simp add: record_task_outcome_def)

lemma outcome_written:
  assumes "attempt_is s (fe_run_id (tx_entry tx)) (fe_task_id (tx_entry tx)) (tx_worker_id tx) Leased (fe_attempts (tx_entry tx))"
    and "terminal_payload (tv_payload tv) = Some st"
    and "append_tail env (fe_run_id (tx_entry tx)) (tx_worker_id tx) (fe_task_id (tx_entry tx)) (fe_attempts (tx_entry tx))
      (tv_tail_payloads tv) s = (b, s1)"
  shows "record_task_outcome env tx tv s = (if \<not> b then (Inr False, s1) else case outcome_receipt env tx tv s1 of
      Inl err \<Rightarrow> (Inl err, s1)
    | Inr rc \<Rightarrow> (let c = ledger_call (finalize_task_attempt_if_leased (fe_run_id (tx_entry tx)) (tx_worker_id tx)
        (fe_task_id (tx_entry tx)) (fe_attempts (tx_entry tx)) (mg_timestamp env) (tv_payload tv) (override_status rc st) rc) s1 in
        (map_sum (\<lambda>x. x) (\<lambda>x. x \<noteq> None) (fst c), snd c)))"
  using assms by (cases b; cases "outcome_receipt env tx tv s1")
    (simp_all add: record_task_outcome_def Let_def case_prod_unfold)

text \<open>
  status and receipt agree. Recording the outcome of an attempt either finalises it, leaving the
  worker on the task, a receipt for that attempt, and a status that is failed when the receipt says failed
  or timed out and else the one of the event; or it leaves the tasks and the receipts as they were.
\<close>

theorem outcome_agrees_with_receipt:
  "case record_task_outcome env tx tv s of
     (Inr True, s') \<Rightarrow> (\<exists>tk rc st.
         attempt_is s (fe_run_id (tx_entry tx)) (fe_task_id (tx_entry tx)) (tx_worker_id tx) Leased (fe_attempts (tx_entry tx))
         \<and> terminal_payload (tv_payload tv) = Some st
         \<and> bm_get (fl_tasks s') (task_key (fe_run_id (tx_entry tx)) (fe_task_id (tx_entry tx))) = Some tk
         \<and> bm_get (fl_receipts s') (task_key (fe_run_id (tx_entry tx)) (fe_task_id (tx_entry tx))) = Some rc
         \<and> tk_status tk = (if rc_result rc \<in> {ResultFail, ResultTimeout} then TaskFailed else st)
         \<and> tk_leased_to tk = Some (tx_worker_id tx) \<and> rc_attempt rc = Some (fe_attempts (tx_entry tx)))
   | (_, s') \<Rightarrow> fl_tasks s' = fl_tasks s \<and> fl_receipts s' = fl_receipts s"
proof (cases "attempt_is s (fe_run_id (tx_entry tx)) (fe_task_id (tx_entry tx)) (tx_worker_id tx) Leased (fe_attempts (tx_entry tx))")
  case at: True
  show ?thesis
  proof (cases "terminal_payload (tv_payload tv)")
    case None
    obtain err where "record_task_outcome env tx tv s = (Inl err, s)" using outcome_not_terminal [OF at None] by blast
    then show ?thesis by simp
  next
    case st: (Some st)
    obtain b s1 where tl: "append_tail env (fe_run_id (tx_entry tx)) (tx_worker_id tx) (fe_task_id (tx_entry tx))
        (fe_attempts (tx_entry tx)) (tv_tail_payloads tv) s = (b, s1)" by (rule prod.exhaust)
    note out = outcome_written [OF at st tl] and keep = append_tail_keeps [OF tl]
    show ?thesis
    proof (cases "b \<and> (\<exists>rc. outcome_receipt env tx tv s1 = Inr rc)")
      case False
      then show ?thesis using keep unfolding out by (cases "outcome_receipt env tx tv s1") simp_all
    next
      case True
      then obtain rc where rc: "outcome_receipt env tx tv s1 = Inr rc" and b by blast
      obtain f where f: "f = finalize_task_attempt_if_leased (fe_run_id (tx_entry tx)) (tx_worker_id tx) (fe_task_id (tx_entry tx))
          (fe_attempts (tx_entry tx)) (mg_timestamp env) (tv_payload tv) (override_status rc st) rc" by blast
      have out: "record_task_outcome env tx tv s = (map_sum (\<lambda>x. x) (\<lambda>x. x \<noteq> None) (fst (ledger_call f s1)), snd (ledger_call f s1))"
        using \<open>b\<close> unfolding out rc f by (simp add: Let_def)
      obtain q s2 where qs: "ledger_call f s1 = (q, s2)" by (rule prod.exhaust)
      show ?thesis
      proof (cases "\<exists>e. q = Inr (Some e)")
        case True
        then obtain e where q: "q = Inr (Some e)" by blast
        have at1: "attempt_is s1 (fe_run_id (tx_entry tx)) (fe_task_id (tx_entry tx)) (tx_worker_id tx) Leased
            (fe_attempts (tx_entry tx))" using at keep by (simp add: attempt_is_def)
        note eff = finalize_effect [OF at1 st qs [unfolded f q]]
        have o: "record_task_outcome env tx tv s = (Inr True, s2)" by (simp add: out qs q)
        show ?thesis unfolding o using eff at st by (simp only: prod.case sum.case bool.case) blast
      next
        case no: False
        have "q = fst (f s1)" "s2 = replay_records s1 (snd (f s1))" using qs by (simp_all add: ledger_call_def)
        moreover have "snd (f s1) = []" using finalize_failure no calculation(1) unfolding f by blast
        ultimately have s2: "s2 = s1" by simp
        show ?thesis unfolding out qs fst_conv snd_conv s2 using keep no
          by (cases q) simp_all
      qed
    qed
  qed
qed (simp add: outcome_unleased)


section \<open>Samples\<close>

definition sample_spec :: fleet_task_spec where
  "sample_spec = \<lparr>ft_id = ''t'', ft_name = ''t'', ft_description = None, ft_objective = None, ft_instructions = ''i'',
     ft_worker = None, ft_workspace = None, ft_input_files = [], ft_context = [], ft_budget = None, ft_tags = [],
     ft_expected_artifacts = [], ft_scorer = None, ft_retry_policy = None, ft_alert_policy = None,
     ft_timeout_seconds = None, ft_metadata = bm_empty\<rparr>"

definition sample_run :: fleet_run where
  "sample_run = \<lparr>fn_id = ''r'', fn_name = ''r'', fn_status = RunRunning, fn_max_workers = Some 1,
     fn_task_specs = [sample_spec], fn_worker_specs = [default_local_worker_with_name ''w'' 1], fn_labels = bm_empty,
     fn_security_policy = None, fn_created_at = ''0'', fn_updated_at = None, fn_completed_at = None\<rparr>"

definition sample_env :: manager_env where
  "sample_env = \<lparr>mg_clock = sample_clock, mg_stale_after = 120 * second_ns, mg_file_size = (\<lambda>_. None),
     mg_task_route = (\<lambda>_. None), mg_reported_route = (\<lambda>_ _. None), mg_permissions = (\<lambda>_ _ _ _. None),
     mg_verify = (\<lambda>_ _. Inl ''x'')\<rparr>"

text \<open>The worker of the run holds a task of another run.\<close>

definition shared_history :: "fleet_op list" where
  "shared_history = [OpCreateRun sample_run, OpEnqueue sample_entry, OpEnqueue (sample_entry\<lparr>fe_run_id := ''q''\<rparr>),
     OpLease ''q'' ''t'' ''w'' ''1'' None None]"

lemmas run_ops_eval = run_ops_def ledger_step_def enqueue_def create_run_def lease_task_if_enqueued_def
  lease_with_events_def fleet_state_empty_def bm_empty_def bm_values_def bm_get_def Let_def worker_busy_def
  worker_is_leased_def task_key_def sample_entry_def leased_task_def

lemma shared_tasks:
  "fl_tasks (run_ops shared_history) = [(task_key ''q'' ''t'', leased_task ''w'' ''1'' None
      \<lparr>tk_entry = sample_entry\<lparr>fe_run_id := ''q''\<rparr>, tk_status = Enqueued, tk_leased_to = None,
       tk_leased_at = None, tk_completed_at = None\<rparr>),
     (task_key ''r'' ''t'', \<lparr>tk_entry = sample_entry, tk_status = Enqueued, tk_leased_to = None,
       tk_leased_at = None, tk_completed_at = None\<rparr>)]"
  by (simp add: shared_history_def run_ops_eval)

lemma shared_runs: "fl_runs (run_ops shared_history) = [(''r'', sample_run)]"
  by (simp add: shared_history_def run_ops_eval sample_run_def sample_spec_def sanitize_run_for_ledger_def)

text \<open>The same worker with a task of its own run.\<close>

lemma shared_next: "next_enqueued_task_for_run (run_ops shared_history) ''r'' = Some (sample_entry, sample_spec)"
  by (simp add: next_enqueued_task_for_run_def shared_tasks shared_runs bm_get_def bm_values_def sample_entry_def
      sample_run_def sample_spec_def leased_task_def)

lemma shared_active: "active_workers_for_run (run_ops shared_history) ''r'' = []"
  by (simp add: active_workers_for_run_def active_tasks_for_run_def shared_tasks bm_values_def sample_entry_def
      leased_task_def List.map_filter_def)

lemma schedule_loop_spins_witness:
  "schedule_loop 1000 sample_env ''r'' 1 [''w''] [] 0 (run_ops shared_history) = None"
proof (rule schedule_loop_spins)
  show "worker_busy (run_ops shared_history) ''w''"
    by (simp add: worker_busy_def shared_tasks bm_values_def worker_is_leased_def leased_task_def)
qed (simp_all add: shared_active shared_next pick_worker_def)

definition own_history :: "fleet_op list" where
  "own_history = [OpCreateRun sample_run, OpEnqueue sample_entry]"

lemma own_tasks:
  "fl_tasks (run_ops own_history) = [(task_key ''r'' ''t'', \<lparr>tk_entry = sample_entry, tk_status = Enqueued,
     tk_leased_to = None, tk_leased_at = None, tk_completed_at = None\<rparr>)]"
  by (simp add: own_history_def run_ops_eval)

lemma schedule_loop_returns_witness:
  "\<exists>k s'. schedule_loop 2 sample_env ''r'' 1 [''w''] [] 0 (run_ops own_history) = Some (k, s')
     \<and> nothing_to_start s' ''r'' 1 [''w''] []"
proof (rule schedule_loop_returns)
  show "list_all op_ok own_history" by (simp add: own_history_def sample_entry_def)
  have "length (ops_written fleet_state_empty own_history) \<le> 8"
    using length_ops_written [of fleet_state_empty own_history] by (simp add: own_history_def)
  then show "length (ops_written fleet_state_empty own_history) < 2 ^ 64" by (rule le_less_trans) simp
qed (simp_all add: workers_own_def queued_in_run_def own_tasks bm_values_def worker_is_leased_def)

end
