(* ===== verification/Conversation.thy ===== *)
theory Conversation
  imports Json
begin

text \<open>
  The messages of a conversation (\<open>crates/tui/src/models.rs\<close>) and the string functions their summaries
  need. Strings are sequences of UTF-8 bytes here: \<open>len\<close> counts bytes, \<open>chars().count()\<close> and
  \<open>char_indices\<close> the bytes that begin a character. Lower-casing is that of ASCII letters.
\<close>

section \<open>Characters of UTF-8 text\<close>

definition is_cont :: "char \<Rightarrow> bool" where
  "is_cont c \<longleftrightarrow> (let n = (of_char c :: nat) in 128 \<le> n \<and> n < 192)"

definition char_count :: "string \<Rightarrow> nat" where
  "char_count s = length (filter (\<lambda>c. \<not> is_cont c) s)"

text \<open>The part before the n-th character, and the part from it on.\<close>

fun before_char :: "nat \<Rightarrow> string \<Rightarrow> string" where
  "before_char n [] = []"
| "before_char n (c # cs) =
     (if is_cont c then c # before_char n cs
      else case n of 0 \<Rightarrow> [] | Suc m \<Rightarrow> c # before_char m cs)"

fun from_char :: "nat \<Rightarrow> string \<Rightarrow> string" where
  "from_char n [] = []"
| "from_char n (c # cs) =
     (if is_cont c then from_char n cs
      else case n of 0 \<Rightarrow> c # cs | Suc m \<Rightarrow> from_char m cs)"

definition truncate_chars :: "string \<Rightarrow> nat \<Rightarrow> string" where
  "truncate_chars s max_chars = (if max_chars = 0 then [] else before_char max_chars s)"

definition tail_chars :: "string \<Rightarrow> nat \<Rightarrow> string" where
  "tail_chars s max_chars =
     (if max_chars = 0 then []
      else if char_count s \<le> max_chars then s
      else from_char (char_count s - max_chars) s)"

text \<open>Saturating and rounding arithmetic of \<open>usize\<close>.\<close>

definition usat :: "nat \<Rightarrow> nat" where
  "usat n = min n (2 ^ 64 - 1)"

definition div_ceil :: "nat \<Rightarrow> nat \<Rightarrow> nat" where
  "div_ceil n d = (n + (d - 1)) div d"

definition line_feed :: string where
  "line_feed = [CHR 0x0A]"

section \<open>Messages\<close>

record tool_caller =
  tc_caller_type :: string
  tc_tool_id :: "string option"

text \<open>A cache control is its type.\<close>

datatype content_block =
    TextBlock string "string option"
  | ImageUrlBlock string
  | ThinkingBlock string "string option"
  | ToolUseBlock string string json "tool_caller option"
  | ToolResultBlock string string "bool option" "json list option"
  | ServerToolUseBlock string string json
  | ToolSearchResultBlock string json
  | CodeExecutionResultBlock string json

record message =
  ms_role :: string
  ms_content :: "content_block list"

record system_block =
  sb_block_type :: string
  sb_text :: string
  sb_cache_control :: "string option"

datatype system_prompt = SystemText string | SystemBlocks "system_block list"

text \<open>A request to the model, without the fields that are absent or constant here.\<close>

record message_request =
  mr_model :: string
  mr_messages :: "message list"
  mr_max_tokens :: nat
  mr_system :: "system_prompt option"

section \<open>Errors of a request\<close>

datatype error_category =
  NetworkError | AuthenticationError | AuthorizationError | RateLimitError | TimeoutError
| InvalidInputError | ParseError | ToolCategoryError | StateError | InternalError

definition context_markers :: "string list" where
  "context_markers =
     [''maximum context length'', ''context length'', ''context_length'', ''prompt is too long'', ''context window'']"

definition rate_markers :: "string list" where
  "rate_markers = [''rate limit'', ''too many requests'', ''429'', ''quota'']"

definition authentication_markers :: "string list" where
  "authentication_markers =
     [''authentication'', ''auth failed'', ''auth error'', ''unauthorized'', ''api key'', ''invalid key'',
      ''invalid token'', ''bearer token'']"

definition authorization_markers :: "string list" where
  "authorization_markers = [''authorization'', ''permission'', ''forbidden'', ''denied'']"

definition network_markers :: "string list" where
  "network_markers =
     [''network'', ''connection'', ''dns'', ''stream read error'', ''error decoding response body'',
      ''chunk decode error'', ''body decode'', ''temporarily unavailable'', '' 502 '', '' 503 '', '' 504 '']"

definition gateway_codes :: "string list" where
  "gateway_codes = [''502'', ''503'', ''504'']"

definition mentions :: "string list \<Rightarrow> string \<Rightarrow> bool" where
  "mentions markers s \<longleftrightarrow> list_ex (\<lambda>m. contains_str m s) markers"

definition is_gateway_error :: "string \<Rightarrow> bool" where
  "is_gateway_error s \<longleftrightarrow>
     list_ex (\<lambda>code. prefix (code @ '' '') s \<or> suffix ('' '' @ code) s \<or> s = code) gateway_codes"

definition classify_error_message :: "string \<Rightarrow> error_category" where
  "classify_error_message text =
     (let lower = to_ascii_lowercase text in
      if mentions context_markers lower
         \<or> (contains_str ''requested'' lower \<and> contains_str ''tokens'' lower \<and> contains_str ''maximum'' lower)
      then InvalidInputError
      else if mentions rate_markers lower then RateLimitError
      else if mentions [''timeout'', ''timed out''] lower then TimeoutError
      else if mentions authentication_markers lower then AuthenticationError
      else if mentions authorization_markers lower then AuthorizationError
      else if mentions network_markers lower \<or> is_gateway_error lower then NetworkError
      else if mentions [''parse'', ''syntax'', ''malformed''] lower then ParseError
      else if mentions [''not found'', ''unavailable'', ''not available''] lower then StateError
      else if contains_str ''tool'' lower then ToolCategoryError
      else InternalError)"

end
