(* ===== verification/Compaction_Plan.thy ===== *)
theory Compaction_Plan
  imports Conversation
begin

text \<open>
  The plan of a compaction (\<open>crates/tui/src/compaction.rs\<close>): which messages stay and which are
  summarised, with the repair of tool calls and results, the token estimates and the trigger. The captures
  of the path pattern (the regex library), the text of a JSON value, the file system and the context window
  of a model are given by the environment. Machine sizes are natural numbers, saturated where the code
  saturates.
\<close>

record compaction_env =
  ce_workspace :: "string option"
  ce_captures :: "string \<Rightarrow> string list"
  ce_exists :: "string \<Rightarrow> bool"
  ce_read :: "string \<Rightarrow> string option"
  ce_json :: "json \<Rightarrow> string"
  ce_context_window :: "string \<Rightarrow> nat option"

record compaction_config =
  cc_enabled :: bool
  cc_token_threshold :: nat
  cc_model :: string
  cc_effective_context_window :: "nat option"
  cc_cache_summary :: bool

definition keep_recent_messages :: nat where
  "keep_recent_messages = 4"

definition recent_working_set_window :: nat where
  "recent_working_set_window = 12"

definition max_working_set_paths :: nat where
  "max_working_set_paths = 24"

definition min_summarize_messages :: nat where
  "min_summarize_messages = 6"

definition working_set_extensions :: "string list" where
  "working_set_extensions =
     [''rs'', ''toml'', ''md'', ''json'', ''yaml'', ''yml'', ''txt'', ''py'', ''pyi'', ''ipynb'', ''js'', ''jsx'', ''ts'',
      ''tsx'', ''mjs'', ''cjs'', ''go'', ''java'', ''kt'', ''kts'', ''c'', ''h'', ''cc'', ''cpp'', ''hpp'', ''cs'', ''rb'',
      ''php'', ''swift'', ''m'', ''mm'', ''scala'', ''sh'', ''bash'', ''zsh'', ''ps1'', ''sql'', ''proto'', ''tf'', ''vue'',
      ''svelte'', ''dart'', ''lua'', ''r'', ''jl'', ''ex'', ''exs'', ''erl'', ''hs'', ''zig'']"

section \<open>Paths\<close>

text \<open>\<open>Path::strip_prefix\<close> on Unix: empty segments and dots between separators are no components, the
  root and a dot at the start of a relative path are.\<close>

definition is_absolute :: "string \<Rightarrow> bool" where
  "is_absolute p \<longleftrightarrow> prefix ''/'' p"

definition path_segments :: "string \<Rightarrow> string list" where
  "path_segments p = (if is_absolute p then tl (split_char (CHR ''/'') p) else split_char (CHR ''/'') p)"

definition no_component :: "string \<Rightarrow> bool" where
  "no_component s \<longleftrightarrow> s = [] \<or> s = ''.''"

definition path_components :: "string \<Rightarrow> string list" where
  "path_components p =
     (case path_segments p of
        [] \<Rightarrow> []
      | s # ss \<Rightarrow>
          if s = ''.'' \<and> \<not> is_absolute p then s # filter (\<lambda>x. \<not> no_component x) ss
          else filter (\<lambda>x. \<not> no_component x) (s # ss))"

fun consume_components :: "bool \<Rightarrow> string list \<Rightarrow> string list \<Rightarrow> string list option" where
  "consume_components start [] segs = Some segs"
| "consume_components start (b # bs) [] = None"
| "consume_components start (b # bs) (s # ss) =
     (if s = [] \<or> (s = ''.'' \<and> \<not> start) then consume_components False (b # bs) ss
      else if s = b then consume_components False bs ss else None)"

definition trim_segments_end :: "string list \<Rightarrow> string list" where
  "trim_segments_end segs = rev (dropWhile no_component (rev segs))"

definition path_strip_prefix :: "string \<Rightarrow> string \<Rightarrow> string option" where
  "path_strip_prefix base p =
     (if is_absolute base \<noteq> is_absolute p then None
      else case consume_components (\<not> is_absolute p) (path_components base) (path_segments p) of
        None \<Rightarrow> None
      | Some segs \<Rightarrow>
          Some (join_str ''/'' (trim_segments_end
            (if path_components base = [] \<and> \<not> is_absolute p then segs else dropWhile no_component segs))))"

definition path_join :: "string \<Rightarrow> string \<Rightarrow> string" where
  "path_join base p =
     (if is_absolute p then p
      else if base = [] \<or> last base = CHR ''/'' then base @ p else base @ ''/'' @ p)"

text \<open>\<open>rsplit(c).next()\<close>, which always has a value.\<close>

definition rsplit_next :: "char \<Rightarrow> string \<Rightarrow> string option" where
  "rsplit_next c s = (case rev (split_char c s) of [] \<Rightarrow> None | x # _ \<Rightarrow> Some x)"

definition repo_root_files :: "string list" where
  "repo_root_files =
     [''Cargo.toml'', ''Cargo.lock'', ''README.md'', ''CHANGELOG.md'', ''AGENTS.md'', ''config.example.toml'']"

definition repo_directories :: "string list" where
  "repo_directories = [''src/'', ''tests/'', ''docs/'', ''examples/'', ''benches/'', ''crates/'', ''.github/'']"

definition looks_repo_relative :: "string \<Rightarrow> bool" where
  "looks_repo_relative path \<longleftrightarrow>
     path \<in> set repo_root_files \<or> list_ex (\<lambda>d. prefix d path) repo_directories
     \<or> (CHR ''/'' \<in> set path \<and> rsplit_next (CHR ''.'') path \<noteq> None)"

definition to_slashes :: "string \<Rightarrow> string" where
  "to_slashes s = map (\<lambda>c. if c = CHR 0x5C then CHR ''/'' else c) s"

definition relative_candidate :: "compaction_env \<Rightarrow> string \<Rightarrow> string option" where
  "relative_candidate env path =
     (if is_absolute path
      then (case ce_workspace env of None \<Rightarrow> None | Some ws \<Rightarrow> path_strip_prefix ws path)
      else Some path)"

definition normalize_path_candidate :: "compaction_env \<Rightarrow> string \<Rightarrow> string option" where
  "normalize_path_candidate env candidate =
     (if candidate = [] then None
      else case relative_candidate env (to_slashes candidate) of
        None \<Rightarrow> None
      | Some path \<Rightarrow>
          (let rel = trim_start_pat ''./'' path in
           if rel = [] \<or> contains_str ''..'' rel then None
           else case ce_workspace env of
             Some ws \<Rightarrow> if ce_exists env (path_join ws rel) \<or> looks_repo_relative rel then Some rel else None
           | None \<Rightarrow> if looks_repo_relative rel then Some rel else None))"

definition build_directories :: "string list" where
  "build_directories = [''node_modules'', ''target'', ''vendor'', ''dist'', ''build'']"

definition is_working_set_path :: "string \<Rightarrow> bool" where
  "is_working_set_path path =
     (if list_ex (\<lambda>component. component \<in> set build_directories) (split_char (CHR ''/'') path) then False
      else let file_name = unwrap_or path (rsplit_next (CHR ''/'') path) in
        if suffix ''.min.js'' file_name \<or> suffix ''.min.css'' file_name then False
        else if file_name = ''Cargo.lock'' then True
        else if suffix ''.lock'' file_name then False
        else case rsplit_next (CHR ''.'') file_name of
          None \<Rightarrow> False
        | Some extension \<Rightarrow> to_ascii_lowercase extension \<in> set working_set_extensions)"

definition extract_paths_from_text :: "compaction_env \<Rightarrow> string \<Rightarrow> string list" where
  "extract_paths_from_text env text = List.map_filter (normalize_path_candidate env) (ce_captures env text)"

definition string_paths :: "compaction_env \<Rightarrow> json option \<Rightarrow> string list" where
  "string_paths env v =
     (case (case v of None \<Rightarrow> None | Some j \<Rightarrow> json_as_str j) of
        None \<Rightarrow> []
      | Some s \<Rightarrow> (case normalize_path_candidate env s of None \<Rightarrow> [] | Some p \<Rightarrow> [p]))"

definition array_paths :: "compaction_env \<Rightarrow> json option \<Rightarrow> string list" where
  "array_paths env v =
     (case (case v of None \<Rightarrow> None | Some j \<Rightarrow> json_as_array j) of
        None \<Rightarrow> []
      | Some vals \<Rightarrow> concat (map (\<lambda>j. string_paths env (Some j)) vals))"

definition extract_paths_from_tool_input :: "compaction_env \<Rightarrow> json \<Rightarrow> string list" where
  "extract_paths_from_tool_input env v =
     concat (map (\<lambda>k. string_paths env (json_get v k)) [''path'', ''file'', ''target'', ''cwd''])
     @ concat (map (\<lambda>k. array_paths env (json_get v k)) [''paths'', ''files'', ''targets''])"

section \<open>Messages\<close>

fun block_text :: "compaction_env \<Rightarrow> content_block \<Rightarrow> string" where
  "block_text env (TextBlock t _) = t @ line_feed"
| "block_text env (ToolUseBlock _ name inp _) = ''[tool_use:'' @ name @ ''] '' @ ce_json env inp @ line_feed"
| "block_text env (ToolResultBlock _ content _ _) = content @ line_feed"
| "block_text env _ = []"

definition message_text :: "compaction_env \<Rightarrow> message \<Rightarrow> string" where
  "message_text env m = concat (map (block_text env) (ms_content m))"

fun is_text_block :: "content_block \<Rightarrow> bool" where
  "is_text_block (TextBlock _ _) = True"
| "is_text_block _ = False"

definition is_user_text_query :: "message \<Rightarrow> bool" where
  "is_user_text_query m \<longleftrightarrow> ms_role m = ''user'' \<and> list_ex is_text_block (ms_content m)"

fun block_paths :: "compaction_env \<Rightarrow> content_block \<Rightarrow> string list" where
  "block_paths env (TextBlock t _) = extract_paths_from_text env t"
| "block_paths env (ToolResultBlock _ content _ _) = extract_paths_from_text env content"
| "block_paths env (ToolUseBlock _ _ inp _) = extract_paths_from_tool_input env inp"
| "block_paths env _ = []"

definition extract_paths_from_message :: "compaction_env \<Rightarrow> message \<Rightarrow> string list" where
  "extract_paths_from_message env m = concat (map (block_paths env) (ms_content m))"

text \<open>The candidates in their order, until the working set is full.\<close>

fun collect_paths :: "string list \<Rightarrow> string list \<Rightarrow> string list" where
  "collect_paths [] paths = paths"
| "collect_paths (c # cs) paths =
     (if \<not> is_working_set_path c \<or> c \<in> set paths then collect_paths cs paths
      else if max_working_set_paths \<le> length (paths @ [c]) then paths @ [c]
      else collect_paths cs (paths @ [c]))"

definition derive_working_set_paths :: "compaction_env \<Rightarrow> message list \<Rightarrow> nat list \<Rightarrow> string list" where
  "derive_working_set_paths env msgs seed_indices =
     (let seeds = rev (sort (filter (\<lambda>i. i < length msgs) seed_indices)) in
      collect_paths
        (concat (map (\<lambda>i. extract_paths_from_message env (msgs ! i)) seeds)
         @ concat (map (extract_paths_from_message env) (take recent_working_set_window (rev msgs)))) [])"

definition error_markers :: "string list" where
  "error_markers =
     [''error:'', ''error '', ''failed'', ''panic'', ''traceback'', ''stack trace'', ''assertion failed'', ''test failed'']"

definition patch_markers :: "string list" where
  "patch_markers =
     [''diff --git'', ''+++ b/'', ''--- a/'', ''*** begin patch'', ''*** update file:'', ''*** add file:'',
      ''*** delete file:'', ''```diff'', ''apply_patch'']"

definition should_pin_message :: "string \<Rightarrow> string list \<Rightarrow> bool" where
  "should_pin_message text working_set_paths \<longleftrightarrow>
     mentions working_set_paths text \<or> mentions error_markers (to_ascii_lowercase text)
     \<or> mentions patch_markers (to_ascii_lowercase text)"

section \<open>Tool calls and their results\<close>

fun call_ids :: "content_block list \<Rightarrow> string list" where
  "call_ids [] = []"
| "call_ids (ToolUseBlock i _ _ _ # bs) = i # call_ids bs"
| "call_ids (b # bs) = call_ids bs"

fun result_ids :: "content_block list \<Rightarrow> string list" where
  "result_ids [] = []"
| "result_ids (ToolResultBlock i _ _ _ # bs) = i # result_ids bs"
| "result_ids (b # bs) = result_ids bs"

text \<open>The last message with an identifier wins.\<close>

definition id_index :: "(content_block list \<Rightarrow> string list) \<Rightarrow> message list \<Rightarrow> string \<Rightarrow> nat option" where
  "id_index ids msgs k =
     map_of (rev (concat (map (\<lambda>(idx, m). map (\<lambda>i. (i, idx)) (ids (ms_content m))) (enumerate 0 msgs)))) k"

text \<open>One block of a pinned message: its partner to add, or the message to remove.\<close>

definition partner_or_self :: "nat \<Rightarrow> nat option \<Rightarrow> nat set \<Rightarrow> nat + nat" where
  "partner_or_self idx partner gone =
     (case partner of Some j \<Rightarrow> if j \<notin> gone then Inl j else Inr idx | None \<Rightarrow> Inr idx)"

fun block_demand ::
    "(string \<Rightarrow> nat option) \<Rightarrow> (string \<Rightarrow> nat option) \<Rightarrow> nat set \<Rightarrow> nat \<Rightarrow> content_block \<Rightarrow> (nat + nat) list" where
  "block_demand calls results gone idx (ToolResultBlock i _ _ _) = [partner_or_self idx (calls i) gone]"
| "block_demand calls results gone idx (ToolUseBlock i _ _ _) = [partner_or_self idx (results i) gone]"
| "block_demand calls results gone idx _ = []"

definition demands :: "message list \<Rightarrow> nat set \<Rightarrow> nat set \<Rightarrow> (nat + nat) list" where
  "demands msgs pinned gone =
     concat (map (\<lambda>idx. concat (map (block_demand (id_index call_ids msgs) (id_index result_ids msgs) gone idx)
       (ms_content (msgs ! idx)))) (sorted_list_of_set pinned))"

definition add_step :: "nat set \<Rightarrow> nat set \<times> bool \<Rightarrow> nat \<Rightarrow> nat set \<times> bool" where
  "add_step remove_set pc idx =
     (if idx \<notin> remove_set \<and> idx \<notin> fst pc then (insert idx (fst pc), True) else pc)"

definition remove_step :: "nat set \<times> nat set \<times> bool \<Rightarrow> nat \<Rightarrow> nat set \<times> nat set \<times> bool" where
  "remove_step pgc idx =
     (case pgc of (pinned, gone, changed) \<Rightarrow>
        if idx \<in> pinned then (pinned - {idx}, insert idx gone, True) else pgc)"

definition pair_round :: "message list \<Rightarrow> nat set \<Rightarrow> nat set \<Rightarrow> nat set \<times> nat set \<times> bool" where
  "pair_round msgs pinned gone =
     (let ds = demands msgs pinned gone;
          to_add = List.map_filter (\<lambda>d. case d of Inl j \<Rightarrow> Some j | Inr _ \<Rightarrow> None) ds;
          to_remove = List.map_filter (\<lambda>d. case d of Inl _ \<Rightarrow> None | Inr i \<Rightarrow> Some i) ds;
          (pinned1, changed) = foldl (add_step (set to_remove)) (pinned, False) to_add in
      foldl remove_step (pinned1, gone, changed) to_remove)"

text \<open>At most so many rounds; whether they came to rest is only logged.\<close>

fun pair_rounds :: "nat \<Rightarrow> message list \<Rightarrow> nat set \<Rightarrow> nat set \<Rightarrow> nat set" where
  "pair_rounds 0 msgs pinned gone = pinned"
| "pair_rounds (Suc n) msgs pinned gone =
     (case pair_round msgs pinned gone of
        (pinned', gone', changed) \<Rightarrow> if changed then pair_rounds n msgs pinned' gone' else pinned')"

definition enforce_tool_call_pairs :: "message list \<Rightarrow> nat set \<Rightarrow> nat set" where
  "enforce_tool_call_pairs msgs pinned =
     (if pinned = {} then pinned else pair_rounds (max (length msgs) 10) msgs pinned {})"

section \<open>The plan\<close>

record compaction_plan =
  cp_pinned_indices :: "nat set"
  cp_summarize_indices :: "nat list"

definition plan_working_set :: "compaction_env \<Rightarrow> message list \<Rightarrow> nat list option \<Rightarrow> string list option \<Rightarrow> string list" where
  "plan_working_set env msgs external_pins external_paths =
     derive_working_set_paths env msgs (unwrap_or [] external_pins)
     @ filter is_working_set_path (List.map_filter (normalize_path_candidate env) (unwrap_or [] external_paths))"

definition base_pins ::
    "compaction_env \<Rightarrow> message list \<Rightarrow> nat \<Rightarrow> nat list option \<Rightarrow> string list option \<Rightarrow> nat set" where
  "base_pins env msgs keep_recent external_pins external_paths =
     (let len = length msgs; paths = plan_working_set env msgs external_pins external_paths in
      {len - keep_recent ..< len}
      \<union> set (filter (\<lambda>idx. should_pin_message (message_text env (msgs ! idx)) paths) [0..<len])
      \<union> set (filter (\<lambda>idx. idx < len) (unwrap_or [] external_pins)))"

definition last_user_text_query :: "message list \<Rightarrow> nat option" where
  "last_user_text_query msgs = List.find (\<lambda>idx. is_user_text_query (msgs ! idx)) (rev [0..<length msgs])"

definition pin_user_text :: "message list \<Rightarrow> nat set \<Rightarrow> nat set" where
  "pin_user_text msgs pinned =
     (if \<exists>idx \<in> pinned. is_user_text_query (msgs ! idx) then pinned
      else case last_user_text_query msgs of None \<Rightarrow> pinned | Some idx \<Rightarrow> insert idx pinned)"

definition plan_compaction ::
    "compaction_env \<Rightarrow> message list \<Rightarrow> nat \<Rightarrow> nat list option \<Rightarrow> string list option \<Rightarrow> compaction_plan" where
  "plan_compaction env msgs keep_recent external_pins external_paths =
     (if msgs = [] then \<lparr>cp_pinned_indices = {}, cp_summarize_indices = []\<rparr>
      else let pinned = pin_user_text msgs (enforce_tool_call_pairs msgs
              (base_pins env msgs keep_recent external_pins external_paths)) in
        \<lparr>cp_pinned_indices = pinned,
         cp_summarize_indices = filter (\<lambda>idx. idx \<notin> pinned) [0..<length msgs]\<rparr>)"

section \<open>Estimates and the trigger\<close>

definition image_token_estimate :: nat where
  "image_token_estimate = 1000"

fun block_tokens :: "compaction_env \<Rightarrow> bool \<Rightarrow> content_block \<Rightarrow> nat" where
  "block_tokens env include_thinking (TextBlock t _) = length t div 4"
| "block_tokens env include_thinking (ThinkingBlock t _) = (if include_thinking then length t div 4 else 0)"
| "block_tokens env include_thinking (ToolUseBlock _ _ inp _) = length (ce_json env inp) div 4"
| "block_tokens env include_thinking (ToolResultBlock _ content _ _) = length content div 4"
| "block_tokens env include_thinking (ImageUrlBlock _) = image_token_estimate"
| "block_tokens env include_thinking _ = 0"

definition estimate_tokens_for_message :: "compaction_env \<Rightarrow> bool \<Rightarrow> message \<Rightarrow> nat" where
  "estimate_tokens_for_message env include_thinking m =
     sum_list (map (block_tokens env include_thinking) (ms_content m))"

definition message_has_tool_use :: "message \<Rightarrow> bool" where
  "message_has_tool_use m \<longleftrightarrow> call_ids (ms_content m) \<noteq> []"

definition estimate_tokens :: "compaction_env \<Rightarrow> message list \<Rightarrow> nat" where
  "estimate_tokens env msgs =
     sum_list (map (\<lambda>m. estimate_tokens_for_message env (message_has_tool_use m) m) msgs)"

definition estimate_text_tokens_conservative :: "string \<Rightarrow> nat" where
  "estimate_text_tokens_conservative text = div_ceil (char_count text) 3"

fun estimate_system_tokens_conservative :: "system_prompt option \<Rightarrow> nat" where
  "estimate_system_tokens_conservative (Some (SystemText text)) = estimate_text_tokens_conservative text"
| "estimate_system_tokens_conservative (Some (SystemBlocks blocks)) =
     sum_list (map (\<lambda>b. estimate_text_tokens_conservative (sb_text b)) blocks)"
| "estimate_system_tokens_conservative None = 0"

definition estimate_input_tokens_conservative :: "compaction_env \<Rightarrow> message list \<Rightarrow> system_prompt option \<Rightarrow> nat" where
  "estimate_input_tokens_conservative env msgs system =
     usat (usat (div_ceil (usat (estimate_tokens env msgs * 3)) 2 + estimate_system_tokens_conservative system)
       + usat (usat (length msgs * 12) + 48))"

definition should_compact ::
    "compaction_env \<Rightarrow> message list \<Rightarrow> compaction_config \<Rightarrow> nat list option \<Rightarrow> string list option \<Rightarrow> bool" where
  "should_compact env msgs config external_pins external_paths =
     (if \<not> cc_enabled config then False
      else
        let plan = plan_compaction env msgs keep_recent_messages external_pins external_paths;
            pinned_tokens = (\<Sum>idx \<in> cp_pinned_indices plan. estimate_tokens_for_message env False (msgs ! idx));
            token_estimate = sum_list (map (\<lambda>idx. estimate_tokens_for_message env False (msgs ! idx))
              (cp_summarize_indices plan));
            message_count = length (cp_summarize_indices plan);
            effective_token_threshold = cc_token_threshold config - pinned_tokens in
        if effective_token_threshold = 0 then min_summarize_messages \<le> message_count
        else if message_count < min_summarize_messages then False
        else token_estimate > effective_token_threshold)"

end
