(* ===== verification/Compaction_Run.thy ===== *)
theory Compaction_Run
  imports Compaction_Plan
begin

text \<open>
  Running a compaction (\<open>crates/tui/src/compaction.rs\<close>): pruning of old tool results, the caps on retained
  blocks, the summary request to the model with its fallback, the new messages and system prompt, and the
  retries. The model is a service: its answer to the n-th request is given. Logging and the accounting of
  costs are left out.
\<close>

section \<open>Pruning\<close>

definition summary_tool_result_snippet_chars :: nat where
  "summary_tool_result_snippet_chars = 240"

definition tool_prune_stop_check_bytes :: nat where
  "tool_prune_stop_check_bytes = 16 * 1024"

record tool_use_info =
  tu_name :: string
  tu_key :: string
  tu_args_preview :: string

definition tool_use_key :: "compaction_env \<Rightarrow> string \<Rightarrow> json \<Rightarrow> string" where
  "tool_use_key env name inp = name @ '':'' @ ce_json env inp"

definition tool_args_preview :: "compaction_env \<Rightarrow> json \<Rightarrow> string" where
  "tool_args_preview env inp = truncate_chars (ce_json env inp) 120"

fun block_tool_uses :: "compaction_env \<Rightarrow> content_block \<Rightarrow> (string \<times> tool_use_info) list" where
  "block_tool_uses env (ToolUseBlock i name inp _) =
     [(i, \<lparr>tu_name = name, tu_key = tool_use_key env name inp, tu_args_preview = tool_args_preview env inp\<rparr>)]"
| "block_tool_uses env _ = []"

definition collect_tool_uses :: "compaction_env \<Rightarrow> message list \<Rightarrow> string \<Rightarrow> tool_use_info option" where
  "collect_tool_uses env msgs =
     map_of (rev (concat (map (\<lambda>m. concat (map (block_tool_uses env) (ms_content m))) msgs)))"

record prune_candidate =
  pc_message_idx :: nat
  pc_block_idx :: nat
  pc_key :: string
  pc_tool_name :: string
  pc_args_preview :: string
  pc_original_len :: nat

fun block_candidate ::
    "(string \<Rightarrow> tool_use_info option) \<Rightarrow> nat \<Rightarrow> nat \<times> content_block \<Rightarrow> prune_candidate option" where
  "block_candidate uses message_idx (block_idx, ToolResultBlock i content _ _) =
     (case uses i of
        None \<Rightarrow> None
      | Some info \<Rightarrow> Some \<lparr>pc_message_idx = message_idx, pc_block_idx = block_idx, pc_key = tu_key info,
          pc_tool_name = tu_name info, pc_args_preview = tu_args_preview info, pc_original_len = length content\<rparr>)"
| "block_candidate uses message_idx _ = None"

definition prune_candidates :: "compaction_env \<Rightarrow> message list \<Rightarrow> nat \<Rightarrow> prune_candidate list" where
  "prune_candidates env msgs cutoff =
     concat (map (\<lambda>(idx, m). List.map_filter (block_candidate (collect_tool_uses env msgs) idx)
       (enumerate 0 (ms_content m))) (enumerate 0 (take cutoff msgs)))"

definition duplicate_count :: "prune_candidate list \<Rightarrow> string \<Rightarrow> nat" where
  "duplicate_count cands k = length (filter (\<lambda>c. pc_key c = k) cands)"

definition latest_message :: "prune_candidate list \<Rightarrow> string \<Rightarrow> nat option" where
  "latest_message cands k = map_of (rev (map (\<lambda>c. (pc_key c, pc_message_idx c)) cands)) k"

definition pruned_summary :: "prune_candidate \<Rightarrow> string" where
  "pruned_summary c = ''['' @ pc_tool_name c @ ''] tool result pruned ('' @ show_nat (pc_original_len c)
     @ '' bytes; args: '' @ pc_args_preview c @ '')''"

definition keeps_body :: "prune_candidate list \<Rightarrow> prune_candidate \<Rightarrow> bool" where
  "keeps_body cands c \<longleftrightarrow>
     (duplicate_count cands (pc_key c) > 1 \<and> latest_message cands (pc_key c) = Some (pc_message_idx c))
     \<or> (duplicate_count cands (pc_key c) \<le> 1 \<and> pc_original_len c \<le> summary_tool_result_snippet_chars)
     \<or> pc_original_len c \<le> length (pruned_summary c)"

fun prune_block :: "string \<Rightarrow> content_block \<Rightarrow> content_block" where
  "prune_block summary (ToolResultBlock i content err blocks) = ToolResultBlock i summary err None"
| "prune_block summary b = b"

fun content_length :: "content_block \<Rightarrow> nat" where
  "content_length (ToolResultBlock i content err blocks) = length content"
| "content_length b = 0"

definition prune_message :: "prune_candidate \<Rightarrow> message \<Rightarrow> message" where
  "prune_message c m = m\<lparr>ms_content := (ms_content m)[pc_block_idx c :=
     prune_block (pruned_summary c) (ms_content m ! pc_block_idx c)]\<rparr>"

definition prune_at :: "prune_candidate \<Rightarrow> message list \<Rightarrow> message list" where
  "prune_at c msgs = msgs[pc_message_idx c := prune_message c (msgs ! pc_message_idx c)]"

definition saved_by :: "prune_candidate \<Rightarrow> message list \<Rightarrow> nat" where
  "saved_by c msgs =
     content_length (ms_content (msgs ! pc_message_idx c) ! pc_block_idx c) - length (pruned_summary c)"

text \<open>From the newest candidate to the oldest; the caller may stop after each replacement.\<close>

fun prune_loop ::
    "('s \<Rightarrow> message list \<Rightarrow> nat \<Rightarrow> bool \<times> 's) \<Rightarrow> prune_candidate list \<Rightarrow> prune_candidate list \<Rightarrow> 's
       \<Rightarrow> message list \<Rightarrow> nat \<Rightarrow> message list \<times> nat \<times> 's" where
  "prune_loop stop cands [] st msgs saved = (msgs, saved, st)"
| "prune_loop stop cands (c # cs) st msgs saved =
     (if keeps_body cands c then prune_loop stop cands cs st msgs saved
      else
        let msgs' = prune_at c msgs; saved' = usat (saved + saved_by c msgs); (halt, st') = stop st msgs' saved' in
        if halt then (msgs', saved', st') else prune_loop stop cands cs st' msgs' saved')"

definition prune_tool_results_until ::
    "compaction_env \<Rightarrow> nat \<Rightarrow> ('s \<Rightarrow> message list \<Rightarrow> nat \<Rightarrow> bool \<times> 's) \<Rightarrow> 's \<Rightarrow> message list
       \<Rightarrow> message list \<times> nat \<times> 's" where
  "prune_tool_results_until env protected_window stop st msgs =
     (let cutoff = length msgs - protected_window in
      if cutoff = 0 then (msgs, 0, st)
      else let cands = prune_candidates env msgs cutoff in prune_loop stop cands (rev cands) st msgs 0)"

section \<open>Retained blocks\<close>

definition retained_tool_result_max_chars :: nat where
  "retained_tool_result_max_chars = 64 * 1024"

definition retained_thinking_max_chars :: nat where
  "retained_thinking_max_chars = 16 * 1024"

text \<open>The ellipsis is one character of three bytes.\<close>

definition ellipsis :: string where
  "ellipsis = [CHR 0xE2, CHR 0x80, CHR 0xA6]"

definition truncate_retained_block :: "string \<Rightarrow> nat \<Rightarrow> string \<Rightarrow> string" where
  "truncate_retained_block label max_chars content =
     (if char_count content \<le> max_chars then content
      else
        let snippet_budget = max (max_chars - 256) 1024; head_chars = snippet_budget div 2 in
        ''['' @ label @ '' retained-history truncated from '' @ show_nat (char_count content) @ '' chars]'' @ line_feed
          @ truncate_chars content head_chars @ line_feed @ ellipsis @ line_feed
          @ tail_chars content (snippet_budget - head_chars))"

fun sanitize_block :: "content_block \<Rightarrow> content_block" where
  "sanitize_block (ToolResultBlock i content err blocks) =
     ToolResultBlock i (truncate_retained_block ''tool result'' retained_tool_result_max_chars content) err
       (if retained_tool_result_max_chars < char_count content then None else blocks)"
| "sanitize_block (ThinkingBlock thinking None) =
     ThinkingBlock (truncate_retained_block ''thinking block'' retained_thinking_max_chars thinking) None"
| "sanitize_block b = b"

definition sanitize_retained_messages :: "message list \<Rightarrow> message list" where
  "sanitize_retained_messages msgs = map (\<lambda>m. m\<lparr>ms_content := map sanitize_block (ms_content m)\<rparr>) msgs"

section \<open>The summary\<close>

record summary_limits =
  sl_text_snippet_chars :: nat
  sl_tool_result_snippet_chars :: nat
  sl_input_max_chars :: nat
  sl_input_head_chars :: nat
  sl_input_tail_chars :: nat
  sl_max_tokens :: nat
  sl_word_limit :: nat

definition large_context_window_tokens :: nat where
  "large_context_window_tokens = 500000"

definition window_of :: "compaction_env \<Rightarrow> string \<Rightarrow> nat option \<Rightarrow> nat option" where
  "window_of env model effective = (case effective of Some w \<Rightarrow> Some w | None \<Rightarrow> ce_context_window env model)"

definition summary_input_limits_for_model :: "compaction_env \<Rightarrow> string \<Rightarrow> nat option \<Rightarrow> summary_limits" where
  "summary_input_limits_for_model env model effective =
     (if (case window_of env model effective of None \<Rightarrow> False | Some w \<Rightarrow> large_context_window_tokens \<le> w)
      then \<lparr>sl_text_snippet_chars = 2000, sl_tool_result_snippet_chars = 4000, sl_input_max_chars = 120000,
            sl_input_head_chars = 72000, sl_input_tail_chars = 36000, sl_max_tokens = 2048, sl_word_limit = 900\<rparr>
      else \<lparr>sl_text_snippet_chars = 800, sl_tool_result_snippet_chars = summary_tool_result_snippet_chars,
            sl_input_max_chars = 24000, sl_input_head_chars = 14000, sl_input_tail_chars = 6000,
            sl_max_tokens = 1024, sl_word_limit = 500\<rparr>)"

definition should_use_cache_aligned_summary :: "compaction_env \<Rightarrow> string \<Rightarrow> nat option \<Rightarrow> message list \<Rightarrow> bool" where
  "should_use_cache_aligned_summary env model effective msgs =
     (case window_of env model effective of
        None \<Rightarrow> False
      | Some window \<Rightarrow>
          if window < large_context_window_tokens then False
          else usat (estimate_tokens env msgs + 512) \<le> window * 85 div 100)"

definition summary_instruction :: "nat \<Rightarrow> string" where
  "summary_instruction word_limit =
     ''Summarize the conversation above in a concise but comprehensive way. ''
     @ ''Preserve key information, decisions made, exact file paths, commands, ''
     @ ''errors, and tool-result facts needed to continue the work. ''
     @ ''Tool outputs may be abbreviated only when they are repetitive. ''
     @ ''Keep it under '' @ show_nat word_limit @ '' words.''"

definition user_text :: "string \<Rightarrow> message" where
  "user_text text = \<lparr>ms_role = ''user'', ms_content = [TextBlock text None]\<rparr>"

definition build_cache_aligned_summary_request :: "string \<Rightarrow> message list \<Rightarrow> summary_limits \<Rightarrow> message_request" where
  "build_cache_aligned_summary_request model msgs limits =
     \<lparr>mr_model = model, mr_messages = msgs @ [user_text (summary_instruction (sl_word_limit limits))],
      mr_max_tokens = sl_max_tokens limits, mr_system = None\<rparr>"

definition blank_line :: string where
  "blank_line = [CHR 0x0A, CHR 0x0A]"

fun block_transcript :: "summary_limits \<Rightarrow> string \<Rightarrow> content_block \<Rightarrow> string" where
  "block_transcript limits role (TextBlock t _) =
     role @ '': '' @ truncate_chars t (sl_text_snippet_chars limits) @ blank_line"
| "block_transcript limits role (ToolUseBlock _ name _ _) = role @ '': [Used tool: '' @ name @ '']'' @ blank_line"
| "block_transcript limits role (ToolResultBlock _ content _ _) =
     ''Tool result: '' @ truncate_chars content (sl_tool_result_snippet_chars limits) @ blank_line"
| "block_transcript limits role _ = []"

definition conversation_transcript :: "summary_limits \<Rightarrow> message list \<Rightarrow> string" where
  "conversation_transcript limits msgs =
     concat (map (\<lambda>m. concat (map (block_transcript limits (if ms_role m = ''user'' then ''User'' else ''Assistant''))
       (ms_content m))) msgs)"

definition bounded_transcript :: "summary_limits \<Rightarrow> string \<Rightarrow> string" where
  "bounded_transcript limits text =
     (if sl_input_max_chars limits < char_count text then
        let head = truncate_chars text (sl_input_head_chars limits); tail = tail_chars text (sl_input_tail_chars limits) in
        head @ blank_line @ ''[... '' @ show_nat (char_count text - char_count head - char_count tail)
          @ '' characters omitted before summary ...]'' @ blank_line @ tail
      else text)"

definition build_formatted_summary_request :: "string \<Rightarrow> message list \<Rightarrow> summary_limits \<Rightarrow> message_request" where
  "build_formatted_summary_request model msgs limits =
     \<lparr>mr_model = model,
      mr_messages = [user_text (summary_instruction (sl_word_limit limits) @ blank_line @ ''---'' @ blank_line
        @ bounded_transcript limits (conversation_transcript limits msgs))],
      mr_max_tokens = sl_max_tokens limits,
      mr_system = Some (SystemText
        ''You are a helpful assistant that creates concise conversation summaries.'')\<rparr>"

text \<open>The client answers the n-th request with an error or the blocks of a response.\<close>

type_synonym model_client = "nat \<Rightarrow> message_request \<Rightarrow> string + content_block list"

fun block_texts :: "content_block \<Rightarrow> string list" where
  "block_texts (TextBlock t _) = [t]"
| "block_texts _ = []"

definition summary_of_response :: "content_block list \<Rightarrow> string" where
  "summary_of_response bs = join_str line_feed (concat (map block_texts bs))"

definition create_summary ::
    "compaction_env \<Rightarrow> model_client \<Rightarrow> string \<Rightarrow> nat option \<Rightarrow> message list \<Rightarrow> nat \<Rightarrow> (string + string) \<times> nat" where
  "create_summary env client model effective msgs n =
     (let limits = summary_input_limits_for_model env model effective in
      if should_use_cache_aligned_summary env model effective msgs then
        (case client n (build_cache_aligned_summary_request model msgs limits) of
           Inr bs \<Rightarrow> (Inr (summary_of_response bs), n + 1)
         | Inl _ \<Rightarrow>
             (map_sum (\<lambda>e. e) summary_of_response (client (n + 1) (build_formatted_summary_request model msgs limits)),
              n + 2))
      else
        (map_sum (\<lambda>e. e) summary_of_response (client n (build_formatted_summary_request model msgs limits)), n + 1))"

section \<open>The context of the work\<close>

definition path_like :: "string \<Rightarrow> bool" where
  "path_like s \<longleftrightarrow> CHR ''/'' \<in> set s \<or> CHR 0x5C \<in> set s \<or> CHR ''.'' \<in> set s"

definition string_field_of :: "json \<Rightarrow> string \<Rightarrow> string option" where
  "string_field_of v k = (case json_get v k of None \<Rightarrow> None | Some j \<Rightarrow> json_as_str j)"

fun first_path_value :: "(string \<times> json) list \<Rightarrow> string option" where
  "first_path_value [] = None"
| "first_path_value ((k, v) # rest) =
     (case json_as_str v of
        Some s \<Rightarrow> if path_like s then Some s else first_path_value rest
      | None \<Rightarrow> first_path_value rest)"

definition extract_path_from_input :: "json \<Rightarrow> string option" where
  "extract_path_from_input v =
     (case List.map_filter (string_field_of v) [''path'', ''file'', ''file_path'', ''filename''] of
        s # _ \<Rightarrow> Some s
      | [] \<Rightarrow> (case v of JObj kvs \<Rightarrow> first_path_value kvs | _ \<Rightarrow> None))"

definition push_new :: "string \<Rightarrow> string list \<Rightarrow> string list" where
  "push_new s xs = (if s \<in> set xs then xs else xs @ [s])"

fun note_block :: "string list \<times> string list \<times> string list \<Rightarrow> content_block \<Rightarrow> string list \<times> string list \<times> string list" where
  "note_block (fs, tools, tasks) (ToolUseBlock i name inp caller) =
     (case extract_path_from_input inp of Some p \<Rightarrow> push_new p fs | None \<Rightarrow> fs, tools @ [name], tasks)"
| "note_block (fs, tools, tasks) (TextBlock text cache) =
     (fs, tools, if mentions [''TODO'', ''task'', ''need to''] text then push_new (truncate_chars text 200) tasks else tasks)"
| "note_block acc b = acc"

definition shown_file :: "compaction_env \<Rightarrow> string \<Rightarrow> string" where
  "shown_file env file = (case ce_workspace env of None \<Rightarrow> file | Some ws \<Rightarrow> unwrap_or file (path_strip_prefix ws file))"

definition extract_workflow_context :: "compaction_env \<Rightarrow> message list \<Rightarrow> string" where
  "extract_workflow_context env msgs =
     (case foldl note_block ([], [], []) (concat (map ms_content msgs)) of
        (fs, tools, tasks) \<Rightarrow>
          let context =
            (if fs = [] then [] else ''**Files Modified/Read:**'' @ line_feed
               @ concat (map (\<lambda>f. ''- `'' @ shown_file env f @ ''`'' @ line_feed) fs) @ line_feed)
            @ (if tools = [] then [] else ''**Tools Used:** '' @ join_str '', '' tools @ blank_line)
            @ (if tasks = [] then [] else ''**Tasks/TODOs Identified:**'' @ line_feed
               @ concat (map (\<lambda>t. ''- '' @ t @ line_feed) tasks) @ line_feed) in
          if context = []
          then ''No specific workflow context detected. Continue assisting the user with their current task.'' @ line_feed
          else context)"

text \<open>The anchors a user left, between lines of three dashes.\<close>

function split_str :: "string \<Rightarrow> string \<Rightarrow> string list" where
  "split_str p s =
     (if p = [] \<or> \<not> contains_str p s then [s]
      else case s of
        [] \<Rightarrow> [s]
      | c # cs \<Rightarrow>
          if prefix p s then [] # split_str p (drop (length p) s)
          else (case split_str p cs of [] \<Rightarrow> [[c]] | w # ws \<Rightarrow> (c # w) # ws))"
  by pat_completeness auto
termination
  by (relation "measure (\<lambda>(p, s). length s)") (auto simp: prefix_def)

declare split_str.simps [simp del]

definition anchor_separator :: string where
  "anchor_separator = line_feed @ ''---'' @ line_feed"

definition read_workspace_anchors :: "compaction_env \<Rightarrow> string list" where
  "read_workspace_anchors env =
     (case ce_workspace env of
        None \<Rightarrow> []
      | Some ws \<Rightarrow>
          (let primary = path_join (path_join ws ''.codewhale'') ''anchors.md'';
               path = (if ce_exists env primary then primary else path_join (path_join ws ''.deepseek'') ''anchors.md'') in
           case ce_read env path of
             None \<Rightarrow> []
           | Some content \<Rightarrow> filter (\<lambda>a. a \<noteq> []) (map trim (split_str anchor_separator content))))"

definition anchor_summary_section :: "compaction_env \<Rightarrow> string" where
  "anchor_summary_section env =
     (let anchors = read_workspace_anchors env in
      if anchors = [] then []
      else ''## Pinned Facts (User Anchors)'' @ blank_line
        @ ''The following facts were explicitly anchored by the user with `/anchor`. ''
        @ ''Preserve them across compaction cycles.'' @ blank_line
        @ concat (map (\<lambda>a. ''- '' @ a @ line_feed) anchors) @ line_feed @ ''---'' @ blank_line)"

section \<open>Compaction\<close>

definition clipboard :: string where
  "clipboard = [CHR 0xF0, CHR 0x9F, CHR 0x93, CHR 0x8B]"

definition magnifier :: string where
  "magnifier = [CHR 0xF0, CHR 0x9F, CHR 0x94, CHR 0x8D]"

definition light_bulb :: string where
  "light_bulb = [CHR 0xF0, CHR 0x9F, CHR 0x92, CHR 0xA1]"

definition rule_line :: string where
  "rule_line = blank_line @ ''---'' @ blank_line"

definition summary_block_text :: "string \<Rightarrow> string \<Rightarrow> string \<Rightarrow> string" where
  "summary_block_text anchors_section summary workflow_context =
     anchors_section @ ''## '' @ clipboard @ '' Conversation Summary (Auto-Generated)'' @ blank_line @ summary @ rule_line
     @ ''## '' @ magnifier @ '' Workflow Context'' @ blank_line @ workflow_context @ rule_line
     @ ''## '' @ light_bulb @ '' What to Do Next'' @ blank_line
     @ ''You have just resumed from a context compaction. The conversation above was summarized to save space. ''
     @ ''Review the summary and workflow context, then continue helping the user with their task. ''
     @ ''If you need more details about the summarized portion, ask the user to clarify.'' @ rule_line
     @ ''Pinned messages follow:''"

definition kept_messages :: "nat set \<Rightarrow> message list \<Rightarrow> message list" where
  "kept_messages pinned msgs = map snd (filter (\<lambda>(idx, m). idx \<in> pinned) (enumerate 0 msgs))"

text \<open>The third component of the result, the removed messages, is always empty.\<close>

definition compact_messages ::
    "compaction_env \<Rightarrow> model_client \<Rightarrow> message list \<Rightarrow> compaction_config \<Rightarrow> nat list option \<Rightarrow> string list option
       \<Rightarrow> nat \<Rightarrow> (string + message list \<times> system_prompt option) \<times> nat" where
  "compact_messages env client msgs config external_pins external_paths n =
     (if msgs = [] then (Inr ([], None), n)
      else
        let plan = plan_compaction env msgs keep_recent_messages external_pins external_paths in
        if cp_summarize_indices plan = [] then (Inr (msgs, None), n)
        else
          let to_summarize = map (\<lambda>idx. msgs ! idx) (cp_summarize_indices plan) in
          case create_summary env client (cc_model config) (cc_effective_context_window config) to_summarize n of
            (Inl e, n') \<Rightarrow> (Inl e, n')
          | (Inr summary, n') \<Rightarrow>
              (Inr (sanitize_retained_messages (kept_messages (cp_pinned_indices plan) msgs),
                 Some (SystemBlocks [\<lparr>sb_block_type = ''text'',
                   sb_text = summary_block_text (anchor_summary_section env) summary
                     (extract_workflow_context env to_summarize),
                   sb_cache_control = (if cc_cache_summary config then Some ''ephemeral'' else None)\<rparr>])), n'))"

record compaction_result =
  cr_messages :: "message list"
  cr_summary_prompt :: "system_prompt option"
  cr_retries_used :: nat

definition is_transient_error :: "string \<Rightarrow> bool" where
  "is_transient_error e \<longleftrightarrow> classify_error_message e \<in> {NetworkError, RateLimitError, TimeoutError}"

definition max_retries :: nat where
  "max_retries = 3"

definition base_delay_ms :: nat where
  "base_delay_ms = 1000"

definition delay_before :: "nat \<Rightarrow> nat list" where
  "delay_before attempt = (if attempt > 0 then [base_delay_ms * 2 ^ (attempt - 1)] else [])"

text \<open>The attempts from one on: the result, the delays slept and the requests made so far.\<close>

fun compact_attempts ::
    "compaction_env \<Rightarrow> model_client \<Rightarrow> message list \<Rightarrow> compaction_config \<Rightarrow> nat list option \<Rightarrow> string list option
       \<Rightarrow> nat list \<Rightarrow> string option \<Rightarrow> nat list \<Rightarrow> nat \<Rightarrow> (string + compaction_result) \<times> nat list \<times> nat" where
  "compact_attempts env client msgs config pins paths [] last_error delays n =
     (Inl (unwrap_or ''Compaction failed after 3 retries'' last_error), delays, n)"
| "compact_attempts env client msgs config pins paths (attempt # attempts) last_error delays n =
     (case compact_messages env client msgs config pins paths n of
        (Inr (kept, prompt), n') \<Rightarrow>
          (Inr \<lparr>cr_messages = sanitize_retained_messages kept, cr_summary_prompt = prompt, cr_retries_used = attempt\<rparr>,
           delays @ delay_before attempt, n')
      | (Inl e, n') \<Rightarrow>
          if \<not> is_transient_error e then (Inl e, delays @ delay_before attempt, n')
          else compact_attempts env client msgs config pins paths attempts (Some e) (delays @ delay_before attempt) n')"

text \<open>The callback of the prune: the bytes at which it looks again, and whether the threshold was cleared.\<close>

definition prune_stop ::
    "compaction_env \<Rightarrow> compaction_config \<Rightarrow> nat list option \<Rightarrow> string list option \<Rightarrow> bool
       \<Rightarrow> nat \<times> bool \<Rightarrow> message list \<Rightarrow> nat \<Rightarrow> bool \<times> (nat \<times> bool)" where
  "prune_stop env config pins paths was_over st msgs saved =
     (if \<not> was_over \<or> saved < fst st then (False, st)
      else let under = \<not> should_compact env msgs config pins paths in
        (under, (usat (saved + tool_prune_stop_check_bytes), under)))"

definition compact_messages_safe ::
    "compaction_env \<Rightarrow> model_client \<Rightarrow> message list \<Rightarrow> compaction_config \<Rightarrow> nat list option \<Rightarrow> string list option
       \<Rightarrow> (string + compaction_result) \<times> nat list \<times> nat" where
  "compact_messages_safe env client msgs config pins paths =
     (let was_over = should_compact env msgs config pins paths;
          (pruned, saved, st) = prune_tool_results_until env keep_recent_messages
            (prune_stop env config pins paths was_over) (0, False) msgs;
          now_under = (if was_over \<and> saved > 0 \<and> \<not> snd st then \<not> should_compact env pruned config pins paths
            else snd st) in
      if saved > 0 \<and> was_over \<and> now_under
      then (Inr \<lparr>cr_messages = sanitize_retained_messages pruned, cr_summary_prompt = None, cr_retries_used = 0\<rparr>, [], 0)
      else compact_attempts env client (if saved > 0 then pruned else msgs) config pins paths [0..<max_retries] None [] 0)"

section \<open>The system prompt\<close>

definition text_block_of :: "string \<Rightarrow> system_block" where
  "text_block_of text = \<lparr>sb_block_type = ''text'', sb_text = text, sb_cache_control = None\<rparr>"

fun prompt_blocks :: "system_prompt \<Rightarrow> system_block list" where
  "prompt_blocks (SystemText text) = [text_block_of text]"
| "prompt_blocks (SystemBlocks bs) = bs"

fun insert_blocks_at :: "nat \<Rightarrow> system_block list \<Rightarrow> system_block list \<Rightarrow> system_block list" where
  "insert_blocks_at i [] ys = ys"
| "insert_blocks_at i (b # bs) ys = insert_blocks_at (i + 1) bs (take i ys @ b # drop i ys)"

fun merge_system_prompts :: "system_prompt option \<Rightarrow> system_prompt option \<Rightarrow> system_prompt option" where
  "merge_system_prompts None None = None"
| "merge_system_prompts (Some orig) None = Some orig"
| "merge_system_prompts None (Some s) = Some s"
| "merge_system_prompts (Some (SystemText orig)) (Some (SystemBlocks bs)) = Some (SystemBlocks (text_block_of orig # bs))"
| "merge_system_prompts (Some (SystemBlocks obs)) (Some (SystemBlocks bs)) = Some (SystemBlocks (insert_blocks_at 0 obs bs))"
| "merge_system_prompts (Some orig) (Some (SystemText s)) = Some (SystemBlocks (prompt_blocks orig @ [text_block_of s]))"

end
