(* ===== verification/Compaction_Pairs.thy ===== *)
theory Compaction_Pairs
  imports Compaction_Run
begin

text \<open>
  The repair of tool calls and results comes to rest within its rounds, and at a set in which every call
  has its result and every result its call, when each result message answers calls of one message only.
  The argument is about a graph in which messages need other messages, stated as a locale and
  interpreted on the messages of a conversation.
\<close>

section \<open>Rounds on a graph of needs\<close>

text \<open>A message needs other messages, or something that is not there.\<close>

definition wanted :: "(nat \<Rightarrow> nat option set) \<Rightarrow> nat set \<Rightarrow> nat set \<Rightarrow> nat set" where
  "wanted needs pinned gone = {j. j \<notin> gone \<and> (\<exists>i \<in> pinned. Some j \<in> needs i)}"

definition broken :: "(nat \<Rightarrow> nat option set) \<Rightarrow> nat set \<Rightarrow> nat set \<Rightarrow> nat set" where
  "broken needs pinned gone = {i \<in> pinned. None \<in> needs i \<or> (\<exists>j \<in> gone. Some j \<in> needs i)}"

definition round_set :: "(nat \<Rightarrow> nat option set) \<Rightarrow> nat set \<Rightarrow> nat set \<Rightarrow> nat set" where
  "round_set needs pinned gone = (pinned \<union> wanted needs pinned gone) - broken needs pinned gone"

definition satisfied :: "(nat \<Rightarrow> nat option set) \<Rightarrow> nat set \<Rightarrow> bool" where
  "satisfied needs pinned \<longleftrightarrow> (\<forall>i \<in> pinned. needs i \<subseteq> Some ` pinned)"

lemma at_rest_satisfied:
  assumes "round_set needs pinned gone = pinned"
  shows "satisfied needs pinned"
  unfolding satisfied_def
proof (intro ballI subsetI)
  fix i x assume i: "i \<in> pinned" "x \<in> needs i"
  have b: "broken needs pinned gone = {}" using assms by (auto simp: round_set_def broken_def)
  with i obtain j where j: "x = Some j" "j \<notin> gone" by (cases x) (auto simp: broken_def)
  with i have "j \<in> wanted needs pinned gone" by (auto simp: wanted_def)
  with assms b have "j \<in> pinned" by (auto simp: round_set_def)
  with j show "x \<in> Some ` pinned" by simp
qed

lemma satisfied_at_rest:
  assumes "satisfied needs pinned" and "pinned \<inter> gone = {}"
  shows "round_set needs pinned gone = pinned"
proof -
  have "broken needs pinned gone = {}" using assms unfolding satisfied_def broken_def by fastforce
  moreover have "wanted needs pinned gone \<subseteq> pinned" using assms(1) unfolding satisfied_def wanted_def by fastforce
  ultimately show ?thesis by (auto simp: round_set_def)
qed

text \<open>A set that satisfies itself never loses a member.\<close>

lemma satisfied_never_broken:
  assumes "satisfied needs good" and "good \<inter> gone = {}"
  shows "good \<inter> (gone \<union> broken needs pinned gone) = {}"
proof -
  have "i \<notin> broken needs pinned gone" if i: "i \<in> good" for i
  proof
    assume "i \<in> broken needs pinned gone"
    then obtain x where "x \<in> needs i" "x = None \<or> (\<exists>j \<in> gone. x = Some j)" by (auto simp: broken_def)
    moreover have "needs i \<subseteq> Some ` good" using assms(1) i by (simp add: satisfied_def)
    ultimately show False using assms(2) by auto
  qed
  then show ?thesis using assms(2) by blast
qed

definition graph_step :: "(nat \<Rightarrow> nat option set) \<Rightarrow> nat set \<times> nat set \<Rightarrow> nat set \<times> nat set" where
  "graph_step needs pg = (round_set needs (fst pg) (snd pg), snd pg \<union> broken needs (fst pg) (snd pg))"

lemma graph_step_simps [simp]:
  "fst (graph_step needs pg) = round_set needs (fst pg) (snd pg)"
  "snd (graph_step needs pg) = snd pg \<union> broken needs (fst pg) (snd pg)"
  by (simp_all add: graph_step_def)

text \<open>A graph of stars: a message at the rim needs its centre only, and a centre only messages of its rim.\<close>

locale star_graph =
  fixes needs :: "nat \<Rightarrow> nat option set" and centre :: "nat \<Rightarrow> bool"
  assumes rim_one: "\<not> centre i \<Longrightarrow> x \<in> needs i \<Longrightarrow> y \<in> needs i \<Longrightarrow> x = y"
    and rim_centre: "\<not> centre i \<Longrightarrow> Some j \<in> needs i \<Longrightarrow> centre j"
    and centre_rim: "centre i \<Longrightarrow> Some j \<in> needs i \<Longrightarrow> \<not> centre j"
    and rim_back: "centre i \<Longrightarrow> Some j \<in> needs i \<Longrightarrow> needs j = {Some i}"
begin

definition sound :: "nat set \<times> nat set \<Rightarrow> bool" where
  "sound pg \<longleftrightarrow> fst pg \<inter> snd pg = {}
     \<and> (\<forall>l \<in> snd pg. \<not> centre l \<longrightarrow> needs l = {None} \<or> (\<exists>c \<in> snd pg. needs l = {Some c}))"

definition rim_known :: "nat set \<times> nat set \<Rightarrow> bool" where
  "rim_known pg \<longleftrightarrow> (\<forall>l \<in> fst pg. \<not> centre l \<longrightarrow> needs l = {} \<or> (\<exists>c \<in> fst pg \<union> snd pg. needs l = {Some c}))"

definition centres_served :: "nat set \<times> nat set \<Rightarrow> bool" where
  "centres_served pg \<longleftrightarrow> (\<forall>c \<in> fst pg. centre c \<longrightarrow> needs c \<subseteq> Some ` fst pg)"

lemma rim_cases:
  assumes "\<not> centre l"
  obtains "needs l = {}" | "needs l = {None}" | c where "needs l = {Some c}" "centre c"
proof (cases "needs l = {}")
  case False
  then obtain x where x: "x \<in> needs l" by blast
  then have n: "needs l = {x}" using rim_one [OF assms] by blast
  show thesis
  proof (cases x)
    case None with n that(2) show thesis by simp
  next
    case (Some c) with n that(3) rim_centre [OF assms] x show thesis by simp
  qed
qed (rule that(1))

lemma sound_step:
  assumes "sound pg" shows "sound (graph_step needs pg)"
proof -
  have "needs l = {None} \<or> (\<exists>c \<in> snd (graph_step needs pg). needs l = {Some c})"
    if l: "l \<in> snd (graph_step needs pg)" "\<not> centre l" for l
  proof (cases "l \<in> snd pg")
    case True
    with assms l show ?thesis unfolding sound_def by auto
  next
    case False
    then have b: "l \<in> broken needs (fst pg) (snd pg)" using l by simp
    show ?thesis
      by (rule rim_cases [OF l(2)]) (use b in \<open>auto simp: broken_def\<close>)
  qed
  moreover have "fst (graph_step needs pg) \<inter> snd (graph_step needs pg) = {}"
    using assms by (auto simp: sound_def round_set_def wanted_def)
  ultimately show ?thesis by (simp add: sound_def)
qed

lemma rim_known_step: "rim_known (graph_step needs pg)"
  unfolding rim_known_def
proof (intro ballI impI)
  fix l assume l: "l \<in> fst (graph_step needs pg)" "\<not> centre l"
  then have nb: "l \<notin> broken needs (fst pg) (snd pg)" by (simp add: round_set_def)
  show "needs l = {} \<or> (\<exists>c \<in> fst (graph_step needs pg) \<union> snd (graph_step needs pg). needs l = {Some c})"
  proof (cases "l \<in> fst pg")
    case True
    show ?thesis
    proof (rule rim_cases [OF l(2)])
      fix c assume c: "needs l = {Some c}" "centre c"
      have "c \<notin> snd pg" using nb True c by (auto simp: broken_def)
      then have "c \<in> wanted needs (fst pg) (snd pg)" using True c by (auto simp: wanted_def)
      then show ?thesis using c by (auto simp: round_set_def)
    qed (use nb True in \<open>auto simp: broken_def\<close>)
  next
    case False
    then obtain i where i: "i \<in> fst pg" "Some l \<in> needs i" using l by (auto simp: round_set_def wanted_def)
    then have "centre i" using rim_centre l(2) by blast
    then have "needs l = {Some i}" using rim_back i by blast
    then show ?thesis using i by (auto simp: round_set_def)
  qed
qed

lemma centres_served_step:
  assumes "sound pg" and "rim_known pg"
  shows "centres_served (graph_step needs pg)"
  unfolding centres_served_def
proof (intro ballI impI subsetI)
  fix c x assume c: "c \<in> fst (graph_step needs pg)" "centre c" and x: "x \<in> needs c"
  have c0: "c \<in> fst pg"
  proof (rule ccontr)
    assume "c \<notin> fst pg"
    then obtain i where i: "i \<in> fst pg" "Some c \<in> needs i" "c \<notin> snd pg"
      using c(1) by (auto simp: round_set_def wanted_def)
    have "\<not> centre i" using centre_rim [OF _ i(2)] c(2) by blast
    with assms(2) i(1) consider "needs i = {}" | c' where "c' \<in> fst pg \<union> snd pg" "needs i = {Some c'}"
      unfolding rim_known_def by blast
    then have "c \<in> fst pg \<union> snd pg" by cases (use i(2) in simp_all)
    with i(3) \<open>c \<notin> fst pg\<close> show False by blast
  qed
  have nb: "c \<notin> broken needs (fst pg) (snd pg)" using c by (simp add: round_set_def)
  then have "None \<notin> needs c" using c0 by (simp add: broken_def)
  with x have "x \<noteq> None" by metis
  then obtain j where j: "x = Some j" by blast
  have jg: "j \<notin> snd pg" using nb x c0 j unfolding broken_def by blast
  have xj: "Some j \<in> needs c" using x j by simp
  have nj: "needs j = {Some c}" by (rule rim_back [OF c(2) xj])
  have "j \<notin> broken needs (fst pg) (snd pg)"
  proof
    assume "j \<in> broken needs (fst pg) (snd pg)"
    then have "None \<in> needs j \<or> (\<exists>k \<in> snd pg. Some k \<in> needs j)" by (simp add: broken_def)
    then have "c \<in> snd pg" by (auto simp: nj)
    moreover have "fst pg \<inter> snd pg = {}" using assms(1) unfolding sound_def by (rule conjunct1)
    ultimately show False using c0 by blast
  qed
  moreover have "j \<in> wanted needs (fst pg) (snd pg)" using c0 xj jg unfolding wanted_def by blast
  ultimately show "x \<in> Some ` fst (graph_step needs pg)" using j by (simp add: round_set_def)
qed

lemma third_satisfied:
  assumes "sound pg" and "rim_known pg" and "centres_served pg"
  shows "satisfied needs (fst (graph_step needs pg))"
proof -
  have d: "fst pg \<inter> snd pg = {}" using assms(1) by (simp add: sound_def)
  have rim: "needs l \<subseteq> Some ` fst (graph_step needs pg)" if l: "l \<in> fst (graph_step needs pg)" "\<not> centre l" for l
  proof -
    have "rim_known (graph_step needs pg)" by (rule rim_known_step)
    with l consider "needs l = {}" | c where "needs l = {Some c}" "c \<in> fst (graph_step needs pg) \<union> snd (graph_step needs pg)"
      unfolding rim_known_def by blast
    then show ?thesis
    proof cases
      case 2
      have "c \<in> fst (graph_step needs pg)"
      proof (rule ccontr)
        assume "c \<notin> fst (graph_step needs pg)"
        then have cs: "c \<in> snd (graph_step needs pg)" using 2 by simp
        have lp: "l \<in> fst pg \<or> (\<exists>i \<in> fst pg. Some l \<in> needs i \<and> centre i)"
          using l rim_centre by (auto simp: round_set_def wanted_def)
        have "l \<in> fst pg"
          using lp assms(3) by (auto simp: centres_served_def)
        then have "c \<notin> snd pg" using l 2 by (auto simp: round_set_def broken_def)
        then have "c \<in> broken needs (fst pg) (snd pg)" using cs by simp
        moreover have "centre c" using rim_centre l 2 by blast
        ultimately show False using assms(3) d by (fastforce simp: centres_served_def broken_def)
      qed
      with 2 show ?thesis by simp
    qed simp
  qed
  have "needs c \<subseteq> Some ` fst (graph_step needs pg)" if c: "c \<in> fst (graph_step needs pg)" "centre c" for c
    using centres_served_step [OF assms(1,2)] c by (simp add: centres_served_def)
  with rim show ?thesis unfolding satisfied_def by blast
qed

text \<open>Three rounds are enough.\<close>

theorem three_rounds:
  assumes "sound pg"
  shows "satisfied needs (fst (graph_step needs (graph_step needs (graph_step needs pg))))" and "sound (graph_step needs (graph_step needs (graph_step needs pg)))"
proof -
  have s1: "sound (graph_step needs pg)" and s2: "sound (graph_step needs (graph_step needs pg))" using sound_step assms by blast+
  show "satisfied needs (fst (graph_step needs (graph_step needs (graph_step needs pg))))"
    by (rule third_satisfied [OF s2 rim_known_step centres_served_step [OF s1 rim_known_step]])
  show "sound (graph_step needs (graph_step needs (graph_step needs pg)))" by (rule sound_step [OF s2])
qed

end

section \<open>The needs of a message\<close>

definition message_needs :: "message list \<Rightarrow> nat \<Rightarrow> nat option set" where
  "message_needs msgs i =
     (if i < length msgs
      then id_index call_ids msgs ` set (result_ids (ms_content (msgs ! i)))
           \<union> id_index result_ids msgs ` set (call_ids (ms_content (msgs ! i)))
      else {})"

lemma finite_message_needs: "finite (message_needs msgs i)"
  by (simp add: message_needs_def)

lemma id_index_in:
  assumes "id_index ids msgs k = Some j"
  shows "j < length msgs \<and> k \<in> set (ids (ms_content (msgs ! j)))"
proof -
  from assms have "(k, j) \<in> set (concat (map (\<lambda>(idx, m). map (\<lambda>i. (i, idx)) (ids (ms_content m))) (enumerate 0 msgs)))"
    unfolding id_index_def by (auto dest: map_of_SomeD)
  then show ?thesis by (auto simp: in_set_enumerate_eq)
qed

lemma id_index_some:
  assumes "j < length msgs" and "k \<in> set (ids (ms_content (msgs ! j)))"
  shows "id_index ids msgs k \<noteq> None"
proof -
  have "(j, msgs ! j) \<in> set (enumerate 0 msgs)" using assms(1) by (simp add: in_set_enumerate_eq)
  then have "k \<in> fst ` set (concat (map (\<lambda>(idx, m). map (\<lambda>i. (i, idx)) (ids (ms_content m))) (enumerate 0 msgs)))"
    using assms(2) by (force simp: image_iff)
  then show ?thesis unfolding id_index_def by (simp add: map_of_eq_None_iff)
qed

lemma demands_of_blocks:
  "set (concat (map (block_demand calls results gone idx) bs))
    = (\<lambda>k. partner_or_self idx (calls k) gone) ` set (result_ids bs)
      \<union> (\<lambda>k. partner_or_self idx (results k) gone) ` set (call_ids bs)"
proof (induction bs)
  case (Cons b bs)
  then show ?case by (cases b) auto
qed simp

lemma set_demands:
  assumes "finite pinned" and "pinned \<subseteq> {..<length msgs}"
  shows "set (demands msgs pinned gone) = (\<Union>i \<in> pinned. (\<lambda>x. partner_or_self i x gone) ` message_needs msgs i)"
proof -
  have "set (concat (map (block_demand (id_index call_ids msgs) (id_index result_ids msgs) gone i) (ms_content (msgs ! i))))
      = (\<lambda>x. partner_or_self i x gone) ` message_needs msgs i" if "i \<in> pinned" for i
  proof -
    have "i < length msgs" using assms(2) that by auto
    then show ?thesis unfolding demands_of_blocks message_needs_def by (simp add: image_Un image_image)
  qed
  then show ?thesis using assms(1) unfolding demands_def by simp
qed

lemma add_steps:
  "foldl (add_step rs) (pinned, changed) xs = (pinned \<union> (set xs - rs), changed \<or> \<not> set xs - rs \<subseteq> pinned)"
proof (induction xs arbitrary: pinned changed)
  case (Cons x xs)
  then show ?case by (cases "x \<in> rs"; cases "x \<in> pinned") (auto simp: add_step_def)
qed simp

lemma remove_steps:
  "foldl remove_step (pinned, gone, changed) xs
    = (pinned - set xs, gone \<union> (pinned \<inter> set xs), changed \<or> pinned \<inter> set xs \<noteq> {})"
proof (induction xs arbitrary: pinned gone changed)
  case (Cons x xs)
  then show ?case by (cases "x \<in> pinned") (auto simp: remove_step_def)
qed simp

lemma partner_cases:
  "partner_or_self i x gone = Inl j \<longleftrightarrow> x = Some j \<and> j \<notin> gone"
  "partner_or_self i x gone = Inr k \<longleftrightarrow> k = i \<and> (x = None \<or> (\<exists>j \<in> gone. x = Some j))"
  by (auto simp: partner_or_self_def split: option.split)

lemma pair_round_sets:
  assumes "finite pinned" and "pinned \<subseteq> {..<length msgs}"
  shows "pair_round msgs pinned gone = (round_set (message_needs msgs) pinned gone,
    gone \<union> broken (message_needs msgs) pinned gone, round_set (message_needs msgs) pinned gone \<noteq> pinned)"
proof -
  let ?N = "message_needs msgs" and ?ds = "demands msgs pinned gone"
  let ?W = "wanted ?N pinned gone" and ?B = "broken ?N pinned gone"
  have a: "set (List.map_filter (\<lambda>d. case d of Inl j \<Rightarrow> Some j | Inr _ \<Rightarrow> None) ?ds) = ?W"
  proof -
    have "set (List.map_filter (\<lambda>d. case d of Inl j \<Rightarrow> Some j | Inr _ \<Rightarrow> None) ?ds) = {j. Inl j \<in> set ?ds}"
      by (force simp: List.map_filter_def split: sum.splits)
    also have "\<dots> = ?W" unfolding set_demands [OF assms] wanted_def
      by (auto simp: image_iff eq_commute [of "Inl _"] partner_cases)
    finally show ?thesis .
  qed
  have r: "set (List.map_filter (\<lambda>d. case d of Inl _ \<Rightarrow> None | Inr i \<Rightarrow> Some i) ?ds) = ?B"
  proof -
    have "set (List.map_filter (\<lambda>d. case d of Inl _ \<Rightarrow> None | Inr i \<Rightarrow> Some i) ?ds) = {i. Inr i \<in> set ?ds}"
      by (force simp: List.map_filter_def split: sum.splits)
    also have "\<dots> = ?B" unfolding set_demands [OF assms] broken_def
      by (auto simp: image_iff eq_commute [of "Inr _"] partner_cases)
    finally show ?thesis .
  qed
  have b: "?B \<subseteq> pinned" by (auto simp: broken_def)
  have "pair_round msgs pinned gone = (pinned \<union> (?W - ?B) - ?B, gone \<union> ((pinned \<union> (?W - ?B)) \<inter> ?B),
      \<not> ?W - ?B \<subseteq> pinned \<or> (pinned \<union> (?W - ?B)) \<inter> ?B \<noteq> {})"
    by (simp only: pair_round_def Let_def add_steps prod.case remove_steps a r) simp
  moreover have "pinned \<union> (?W - ?B) - ?B = round_set ?N pinned gone" by (auto simp: round_set_def)
  moreover have "(pinned \<union> (?W - ?B)) \<inter> ?B = ?B" using b by blast
  moreover have "(\<not> ?W - ?B \<subseteq> pinned \<or> ?B \<noteq> {}) = (round_set ?N pinned gone \<noteq> pinned)"
    using b by (auto simp: round_set_def)
  ultimately show ?thesis by simp
qed

lemma round_in_range:
  assumes "finite pinned" and "pinned \<subseteq> {..<length msgs}"
  shows "finite (round_set (message_needs msgs) pinned gone)" and "round_set (message_needs msgs) pinned gone \<subseteq> {..<length msgs}"
proof -
  have "wanted (message_needs msgs) pinned gone \<subseteq> {..<length msgs}"
    by (auto simp: wanted_def message_needs_def split: if_splits dest: sym id_index_in)
  then show sub: "round_set (message_needs msgs) pinned gone \<subseteq> {..<length msgs}" using assms(2) by (auto simp: round_set_def)
  then show "finite (round_set (message_needs msgs) pinned gone)" by (rule finite_subset) simp
qed

lemma pair_rounds_Suc:
  assumes "finite pinned" and "pinned \<subseteq> {..<length msgs}"
  shows "pair_rounds (Suc n) msgs pinned gone =
    (if round_set (message_needs msgs) pinned gone = pinned then pinned
     else pair_rounds n msgs (round_set (message_needs msgs) pinned gone) (gone \<union> broken (message_needs msgs) pinned gone))"
  by (simp add: pair_round_sets [OF assms])

lemma pair_rounds_range:
  assumes "finite pinned" and "pinned \<subseteq> {..<length msgs}"
  shows "pair_rounds n msgs pinned gone \<subseteq> {..<length msgs}"
  using assms
proof (induction n arbitrary: pinned gone)
  case (Suc n)
  then show ?case unfolding pair_rounds_Suc [OF Suc.prems] using round_in_range [OF Suc.prems] by simp
qed simp

text \<open>Members of a set that satisfies itself stay.\<close>

lemma pair_rounds_keep:
  assumes "finite pinned" and "pinned \<subseteq> {..<length msgs}" and "satisfied (message_needs msgs) good" and "good \<inter> gone = {}"
  shows "pinned \<inter> good \<subseteq> pair_rounds n msgs pinned gone"
  using assms
proof (induction n arbitrary: pinned gone)
  case (Suc n)
  have g: "good \<inter> (gone \<union> broken (message_needs msgs) pinned gone) = {}"
    by (rule satisfied_never_broken [OF Suc.prems(3,4)])
  have "pinned \<inter> good \<subseteq> round_set (message_needs msgs) pinned gone \<inter> good" using g by (auto simp: round_set_def)
  also have "\<dots> \<subseteq> pair_rounds n msgs (round_set (message_needs msgs) pinned gone) (gone \<union> broken (message_needs msgs) pinned gone)"
    by (rule Suc.IH [OF round_in_range [OF Suc.prems(1,2)] Suc.prems(3) g])
  finally show ?case unfolding pair_rounds_Suc [OF Suc.prems(1,2)] by simp
qed simp

section \<open>Conversations with answers to one message each\<close>

text \<open>As the engine writes them: a message has at most one tool result and then no call, a text of the user
  comes without either, and the calls have different identifiers.\<close>

definition paired_message :: "message \<Rightarrow> bool" where
  "paired_message m \<longleftrightarrow>
     (result_ids (ms_content m) \<noteq> [] \<longrightarrow> length (result_ids (ms_content m)) = 1 \<and> call_ids (ms_content m) = [])
     \<and> (is_user_text_query m \<longrightarrow> result_ids (ms_content m) = [] \<and> call_ids (ms_content m) = [])"

definition paired_history :: "message list \<Rightarrow> bool" where
  "paired_history msgs \<longleftrightarrow> list_all paired_message msgs \<and> distinct (concat (map (\<lambda>m. call_ids (ms_content m)) msgs))"

definition paired_needs :: "message list \<Rightarrow> nat \<Rightarrow> nat option set" where
  "paired_needs msgs = (if paired_history msgs then message_needs msgs else (\<lambda>_. {}))"

definition makes_calls :: "message list \<Rightarrow> nat \<Rightarrow> bool" where
  "makes_calls msgs i \<longleftrightarrow> i < length msgs \<and> call_ids (ms_content (msgs ! i)) \<noteq> []"

lemma distinct_concat_index:
  assumes "distinct (concat xss)" and "i < length xss" and "j < length xss" and "k \<in> set (xss ! i)" and "k \<in> set (xss ! j)"
  shows "i = j"
  using assms
proof (induction xss arbitrary: i j)
  case (Cons xs xss)
  have apart: "k \<notin> set (xss ! n)" if "n < length xss" "k \<in> set xs" for n
    using Cons.prems(1) that nth_mem by fastforce
  show ?case
  proof (cases i; cases j)
    fix a b assume "i = Suc a" "j = Suc b"
    with Cons show ?thesis by simp
  qed (use Cons.prems apart in auto)
qed simp

lemma call_index:
  assumes "paired_history msgs" and "i < length msgs" and "k \<in> set (call_ids (ms_content (msgs ! i)))"
  shows "id_index call_ids msgs k = Some i"
proof -
  obtain j where j: "id_index call_ids msgs k = Some j" using id_index_some [where ids = call_ids, OF assms(2,3)] by blast
  from id_index_in [OF j] have "j < length msgs" "k \<in> set (call_ids (ms_content (msgs ! j)))" by simp_all
  with assms have "i = j"
    using distinct_concat_index [of "map (\<lambda>m. call_ids (ms_content m)) msgs" i j k] by (simp add: paired_history_def)
  with j show ?thesis by simp
qed

lemma paired_at:
  assumes "paired_history msgs" and "i < length msgs"
  shows "paired_message (msgs ! i)"
  using assms by (simp add: paired_history_def list_all_length)

lemma rim_needs:
  assumes "paired_history msgs" and "i < length msgs" and "k \<in> set (result_ids (ms_content (msgs ! i)))"
  shows "message_needs msgs i = {id_index call_ids msgs k}" and "\<not> makes_calls msgs i"
proof -
  have "result_ids (ms_content (msgs ! i)) \<noteq> []" using assms(3) by auto
  then have one: "length (result_ids (ms_content (msgs ! i))) = 1" and nc: "call_ids (ms_content (msgs ! i)) = []"
    using paired_at [OF assms(1,2)] by (simp_all add: paired_message_def)
  from one assms(3) have "result_ids (ms_content (msgs ! i)) = [k]" by (auto simp: length_Suc_conv)
  then show "message_needs msgs i = {id_index call_ids msgs k}" using assms(2) nc by (simp add: message_needs_def)
  show "\<not> makes_calls msgs i" using nc by (simp add: makes_calls_def)
qed

lemma centre_needs:
  assumes "paired_history msgs" and "makes_calls msgs i"
  shows "message_needs msgs i = id_index result_ids msgs ` set (call_ids (ms_content (msgs ! i)))"
proof -
  have i: "i < length msgs" and c: "call_ids (ms_content (msgs ! i)) \<noteq> []" using assms(2) by (simp_all add: makes_calls_def)
  have "result_ids (ms_content (msgs ! i)) = []" using paired_at [OF assms(1) i] c by (auto simp: paired_message_def)
  with i show ?thesis by (simp add: message_needs_def)
qed

lemma rim_form:
  assumes "paired_history msgs" and "\<not> makes_calls msgs i" and "x \<in> message_needs msgs i"
  obtains k where "i < length msgs" and "k \<in> set (result_ids (ms_content (msgs ! i)))" and "x = id_index call_ids msgs k"
  using assms(2,3) by (auto simp: message_needs_def makes_calls_def split: if_splits)

lemma centre_form:
  assumes "paired_history msgs" and "makes_calls msgs i" and "Some j \<in> message_needs msgs i"
  obtains k where "k \<in> set (call_ids (ms_content (msgs ! i)))" and "j < length msgs"
    and "k \<in> set (result_ids (ms_content (msgs ! j)))"
proof -
  from assms(3) obtain k where k: "k \<in> set (call_ids (ms_content (msgs ! i)))" "id_index result_ids msgs k = Some j"
    unfolding centre_needs [OF assms(1,2)] by (metis imageE)
  from that [OF k(1)] id_index_in [OF k(2)] show thesis by blast
qed

interpretation conversation: star_graph "paired_needs msgs" "makes_calls msgs" for msgs
proof
  fix i x y assume h: "\<not> makes_calls msgs i" "x \<in> paired_needs msgs i" "y \<in> paired_needs msgs i"
  then have p: "paired_history msgs" by (auto simp: paired_needs_def split: if_splits)
  with h have xy: "x \<in> message_needs msgs i" "y \<in> message_needs msgs i" by (simp_all add: paired_needs_def)
  from rim_form [OF p h(1) xy(1)] obtain k where k: "i < length msgs" "k \<in> set (result_ids (ms_content (msgs ! i)))" by blast
  from rim_needs(1) [OF p k] xy show "x = y" by simp
next
  fix i j assume h: "\<not> makes_calls msgs i" "Some j \<in> paired_needs msgs i"
  then have p: "paired_history msgs" by (auto simp: paired_needs_def split: if_splits)
  with h have "Some j \<in> message_needs msgs i" by (simp add: paired_needs_def)
  from rim_form [OF p h(1) this] obtain k where "Some j = id_index call_ids msgs k" by blast
  from id_index_in [OF this [symmetric]] show "makes_calls msgs j" by (auto simp: makes_calls_def)
next
  fix i j assume h: "makes_calls msgs i" "Some j \<in> paired_needs msgs i"
  then have p: "paired_history msgs" by (auto simp: paired_needs_def split: if_splits)
  with h have "Some j \<in> message_needs msgs i" by (simp add: paired_needs_def)
  from centre_form [OF p h(1) this] obtain k where "j < length msgs" "k \<in> set (result_ids (ms_content (msgs ! j)))" by blast
  from rim_needs(2) [OF p this] show "\<not> makes_calls msgs j" .
next
  fix i j assume h: "makes_calls msgs i" "Some j \<in> paired_needs msgs i"
  then have p: "paired_history msgs" by (auto simp: paired_needs_def split: if_splits)
  with h have "Some j \<in> message_needs msgs i" by (simp add: paired_needs_def)
  from centre_form [OF p h(1) this] obtain k where k: "k \<in> set (call_ids (ms_content (msgs ! i)))" "j < length msgs"
    "k \<in> set (result_ids (ms_content (msgs ! j)))" by blast
  have "i < length msgs" using h(1) by (simp add: makes_calls_def)
  from call_index [OF p this k(1)] rim_needs(1) [OF p k(2,3)] p show "paired_needs msgs j = {Some i}"
    by (simp add: paired_needs_def)
qed

text \<open>Four rounds come to rest.\<close>

lemma pair_rounds_satisfied:
  assumes p: "paired_history msgs" and f: "finite pinned" "pinned \<subseteq> {..<length msgs}"
  shows "satisfied (message_needs msgs) (pair_rounds (Suc (Suc (Suc (Suc n)))) msgs pinned {})"
proof -
  let ?N = "message_needs msgs"
  have N: "paired_needs msgs = ?N" using p by (simp add: paired_needs_def)
  let ?s = "graph_step ?N"
  let ?p0 = "(pinned, {} :: nat set)"
  have sound: "star_graph.sound (paired_needs msgs) (makes_calls msgs) ?p0" by (simp add: conversation.sound_def)
  have third: "satisfied ?N (fst (?s (?s (?s ?p0))))" and last: "star_graph.sound ?N (makes_calls msgs) (?s (?s (?s ?p0)))"
    using conversation.three_rounds [OF sound] unfolding N by blast+
  have range: "finite (fst pg) \<and> fst pg \<subseteq> {..<length msgs} \<Longrightarrow> finite (fst (?s pg)) \<and> fst (?s pg) \<subseteq> {..<length msgs}" for pg
    using round_in_range by simp
  have step: "satisfied ?N (pair_rounds (Suc m) msgs (fst pg) (snd pg))"
    if "finite (fst pg) \<and> fst pg \<subseteq> {..<length msgs}" and "satisfied ?N (pair_rounds m msgs (fst (?s pg)) (snd (?s pg)))" for m pg
    using that pair_rounds_Suc [of "fst pg" msgs m "snd pg"] at_rest_satisfied [of ?N "fst pg" "snd pg"]
    by simp
  have r0: "finite (fst ?p0) \<and> fst ?p0 \<subseteq> {..<length msgs}" using f by simp
  note r1 = range [OF r0] note r2 = range [OF r1] note r3 = range [OF r2]
  have "fst (?s (?s (?s ?p0))) \<inter> snd (?s (?s (?s ?p0))) = {}" using last conversation.sound_def [of msgs] unfolding N by simp
  then have "pair_rounds (Suc n) msgs (fst (?s (?s (?s ?p0)))) (snd (?s (?s (?s ?p0)))) = fst (?s (?s (?s ?p0)))"
    using pair_rounds_Suc r3 satisfied_at_rest [OF third] by simp
  with third have "satisfied ?N (pair_rounds (Suc n) msgs (fst (?s (?s (?s ?p0)))) (snd (?s (?s (?s ?p0)))))" by simp
  from step [OF r0 step [OF r1 step [OF r2 this]]] show ?thesis by simp
qed

end
