(* ===== verification/Compaction_Properties.thy ===== *)
theory Compaction_Properties
  imports Compaction_Pairs
begin

text \<open>
  What the plan of a compaction keeps: the pinned messages whose exchange is complete, and calls and
  results in pairs; and messages that differ in the text of their blocks only.
\<close>

section \<open>The plan\<close>

lemma base_pins_range: "base_pins env msgs keep pins paths \<subseteq> {..<length msgs}"
  by (auto simp: base_pins_def Let_def)

lemma finite_base_pins: "finite (base_pins env msgs keep pins paths)"
  by (rule finite_subset [OF base_pins_range]) simp

lemma enforce_satisfied:
  assumes "paired_history msgs" and "finite pinned" and "pinned \<subseteq> {..<length msgs}"
  shows "satisfied (message_needs msgs) (enforce_tool_call_pairs msgs pinned)"
proof (cases "pinned = {}")
  case True
  then show ?thesis by (simp add: enforce_tool_call_pairs_def satisfied_def)
next
  case False
  obtain n where n: "max (length msgs) 10 = Suc (Suc (Suc (Suc n)))"
  proof
    show "max (length msgs) 10 = Suc (Suc (Suc (Suc (max (length msgs) 10 - 4))))" by simp
  qed
  show ?thesis using pair_rounds_satisfied [OF assms, of n] False
    unfolding enforce_tool_call_pairs_def n by (simp del: pair_rounds.simps)
qed

lemma enforce_range:
  assumes "finite pinned" and "pinned \<subseteq> {..<length msgs}"
  shows "enforce_tool_call_pairs msgs pinned \<subseteq> {..<length msgs}"
  using pair_rounds_range [OF assms] by (simp add: enforce_tool_call_pairs_def)

lemma last_user_text:
  assumes "last_user_text_query msgs = Some i"
  shows "i < length msgs \<and> is_user_text_query (msgs ! i)"
  using assms by (auto simp: last_user_text_query_def find_Some_iff rev_nth)

lemma pin_user_text_range: "pinned \<subseteq> {..<length msgs} \<Longrightarrow> pin_user_text msgs pinned \<subseteq> {..<length msgs}"
  by (auto simp: pin_user_text_def dest: last_user_text split: option.split)

lemma pin_user_text_satisfied:
  assumes "paired_history msgs" and "satisfied (message_needs msgs) pinned"
  shows "satisfied (message_needs msgs) (pin_user_text msgs pinned)"
proof (cases "last_user_text_query msgs")
  case None
  with assms(2) show ?thesis by (simp add: pin_user_text_def)
next
  case (Some i)
  note i = last_user_text [OF Some]
  then have "message_needs msgs i = {}"
    using paired_at [OF assms(1), of i] by (simp add: paired_message_def message_needs_def)
  then have "satisfied (message_needs msgs) (insert i pinned)" using assms(2) by (auto simp: satisfied_def)
  with Some assms(2) show ?thesis by (simp add: pin_user_text_def)
qed

lemma plan_pinned:
  assumes "msgs \<noteq> []"
  shows "cp_pinned_indices (plan_compaction env msgs keep pins paths)
    = pin_user_text msgs (enforce_tool_call_pairs msgs (base_pins env msgs keep pins paths))"
  using assms by (simp add: plan_compaction_def Let_def)

lemma plan_range: "cp_pinned_indices (plan_compaction env msgs keep pins paths) \<subseteq> {..<length msgs}"
  by (cases "msgs = []")
    (simp_all add: plan_compaction_def Let_def pin_user_text_range enforce_range finite_base_pins base_pins_range)

lemma plan_satisfied:
  assumes "paired_history msgs" and "msgs \<noteq> []"
  shows "satisfied (message_needs msgs) (cp_pinned_indices (plan_compaction env msgs keep pins paths))"
  unfolding plan_pinned [OF assms(2)]
  by (rule pin_user_text_satisfied [OF assms(1) enforce_satisfied [OF assms(1) finite_base_pins base_pins_range]])

text \<open>The exchange of a message is complete when every call in it, or in the message it answers, has a result.\<close>

definition answered :: "message list \<Rightarrow> nat \<Rightarrow> bool" where
  "answered msgs i \<longleftrightarrow> list_all (\<lambda>k. id_index result_ids msgs k \<noteq> None) (call_ids (ms_content (msgs ! i)))"

definition in_complete_exchange :: "message list \<Rightarrow> nat \<Rightarrow> bool" where
  "in_complete_exchange msgs i \<longleftrightarrow> answered msgs i
     \<and> list_all (\<lambda>k. case id_index call_ids msgs k of None \<Rightarrow> False | Some c \<Rightarrow> answered msgs c)
         (result_ids (ms_content (msgs ! i)))"

lemma complete_satisfied:
  assumes p: "paired_history msgs"
  shows "satisfied (message_needs msgs) {i. i < length msgs \<and> in_complete_exchange msgs i}"
  unfolding satisfied_def
proof (intro ballI subsetI)
  fix i x assume i: "i \<in> {i. i < length msgs \<and> in_complete_exchange msgs i}" and x: "x \<in> message_needs msgs i"
  from i have il: "i < length msgs" and ic: "in_complete_exchange msgs i" by simp_all
  show "x \<in> Some ` {i. i < length msgs \<and> in_complete_exchange msgs i}"
  proof (cases "makes_calls msgs i")
    case True
    from x obtain k where k: "k \<in> set (call_ids (ms_content (msgs ! i)))" "x = id_index result_ids msgs k"
      unfolding centre_needs [OF p True] by blast
    from ic k obtain j where j: "id_index result_ids msgs k = Some j"
      by (auto simp: in_complete_exchange_def answered_def list_all_iff)
    from id_index_in [OF j] have jl: "j < length msgs" and kj: "k \<in> set (result_ids (ms_content (msgs ! j)))" by simp_all
    have "result_ids (ms_content (msgs ! j)) \<noteq> []" using kj by auto
    then have "length (result_ids (ms_content (msgs ! j))) = 1" "call_ids (ms_content (msgs ! j)) = []"
      using paired_at [OF p jl] by (simp_all add: paired_message_def)
    moreover from this kj have "result_ids (ms_content (msgs ! j)) = [k]" by (auto simp: length_Suc_conv)
    ultimately have "in_complete_exchange msgs j"
      using call_index [OF p il k(1)] ic by (simp add: in_complete_exchange_def answered_def)
    with jl j k show ?thesis by simp
  next
    case False
    from rim_form [OF p False x] obtain k where k: "k \<in> set (result_ids (ms_content (msgs ! i)))" "x = id_index call_ids msgs k"
      by blast
    from ic k obtain c where c: "id_index call_ids msgs k = Some c" "answered msgs c"
      by (auto simp: in_complete_exchange_def list_all_iff split: option.splits)
    from id_index_in [OF c(1)] have cl: "c < length msgs" and kc: "k \<in> set (call_ids (ms_content (msgs ! c)))" by simp_all
    have "result_ids (ms_content (msgs ! c)) = []"
      using paired_at [OF p cl] kc by (auto simp: paired_message_def)
    with c have "in_complete_exchange msgs c" by (simp add: in_complete_exchange_def)
    with cl c k show ?thesis by simp
  qed
qed

text \<open>
  In a conversation whose calls and results come in pairs, a message that the plan pins (recent,
  mentioned, or asked for) stays pinned when its exchange is complete: the repair of pairs adds the other
  messages of the exchange and never drops one of them.
\<close>

theorem plan_keeps_pinned_exchanges:
  assumes "paired_history msgs" and "i \<in> base_pins env msgs keep pins paths" and "in_complete_exchange msgs i"
  shows "i \<in> cp_pinned_indices (plan_compaction env msgs keep pins paths)"
proof -
  let ?B = "base_pins env msgs keep pins paths" and ?S = "{i. i < length msgs \<and> in_complete_exchange msgs i}"
  have i: "i < length msgs" using assms(2) base_pins_range [of env msgs keep pins paths] by auto
  then have ne: "msgs \<noteq> []" by auto
  have "?B \<inter> ?S \<subseteq> pair_rounds (max (length msgs) 10) msgs ?B {}"
    by (rule pair_rounds_keep [OF finite_base_pins base_pins_range complete_satisfied [OF assms(1)]]) simp
  then have "i \<in> enforce_tool_call_pairs msgs ?B" using assms i by (auto simp: enforce_tool_call_pairs_def)
  then show ?thesis unfolding plan_pinned [OF ne] by (auto simp: pin_user_text_def split: option.split)
qed

section \<open>Calls and results of a conversation\<close>

definition calls_in :: "message list \<Rightarrow> string set" where
  "calls_in msgs = set (concat (map (\<lambda>m. call_ids (ms_content m)) msgs))"

definition results_in :: "message list \<Rightarrow> string set" where
  "results_in msgs = set (concat (map (\<lambda>m. result_ids (ms_content m)) msgs))"

lemma kept_ids:
  assumes "pinned \<subseteq> {..<length msgs}"
  shows "set (concat (map (\<lambda>m. ids (ms_content m)) (kept_messages pinned msgs)))
    = (\<Union>i \<in> pinned. set (ids (ms_content (msgs ! i))))"
proof -
  have "set (kept_messages pinned msgs) = (\<lambda>i. msgs ! i) ` pinned"
    using assms by (force simp: kept_messages_def in_set_enumerate_eq)
  then show ?thesis by auto
qed

lemma satisfied_pairs:
  assumes "satisfied (message_needs msgs) pinned" and "pinned \<subseteq> {..<length msgs}"
  shows "calls_in (kept_messages pinned msgs) = results_in (kept_messages pinned msgs)"
  unfolding calls_in_def results_in_def kept_ids [OF assms(2)]
proof (intro equalityI subsetI)
  fix k assume "k \<in> (\<Union>i \<in> pinned. set (call_ids (ms_content (msgs ! i))))"
  then obtain i where i: "i \<in> pinned" "k \<in> set (call_ids (ms_content (msgs ! i)))" by blast
  then have "id_index result_ids msgs k \<in> message_needs msgs i" using assms(2) by (auto simp: message_needs_def)
  with assms(1) i(1) obtain j where "j \<in> pinned" "id_index result_ids msgs k = Some j" by (auto simp: satisfied_def)
  with id_index_in [of result_ids msgs k j] show "k \<in> (\<Union>i \<in> pinned. set (result_ids (ms_content (msgs ! i))))" by blast
next
  fix k assume "k \<in> (\<Union>i \<in> pinned. set (result_ids (ms_content (msgs ! i))))"
  then obtain i where i: "i \<in> pinned" "k \<in> set (result_ids (ms_content (msgs ! i)))" by blast
  then have "id_index call_ids msgs k \<in> message_needs msgs i" using assms(2) by (auto simp: message_needs_def)
  with assms(1) i(1) obtain j where "j \<in> pinned" "id_index call_ids msgs k = Some j" by (auto simp: satisfied_def)
  with id_index_in [of call_ids msgs k j] show "k \<in> (\<Union>i \<in> pinned. set (call_ids (ms_content (msgs ! i))))" by blast
qed

text \<open>Messages that differ in the text of blocks only.\<close>

fun block_shape :: "content_block \<Rightarrow> nat \<times> string" where
  "block_shape (TextBlock _ _) = (0, [])"
| "block_shape (ToolUseBlock i _ _ _) = (1, i)"
| "block_shape (ToolResultBlock i _ _ _) = (2, i)"
| "block_shape _ = (3, [])"

definition message_shape :: "message \<Rightarrow> string \<times> (nat \<times> string) list" where
  "message_shape m = (ms_role m, map block_shape (ms_content m))"

lemma ids_of_shape:
  "map block_shape bs = map block_shape cs \<Longrightarrow> call_ids bs = call_ids cs \<and> result_ids bs = result_ids cs
     \<and> list_ex is_text_block bs = list_ex is_text_block cs"
proof (induction bs arbitrary: cs)
  case (Cons b bs)
  then obtain c cs' where cs: "cs = c # cs'" "block_shape b = block_shape c" "map block_shape bs = map block_shape cs'"
    by (cases cs) auto
  from Cons.IH [OF cs(3)] cs(1,2) show ?case by (cases b; cases c) auto
qed simp

lemma shape_ids:
  assumes "message_shape m = message_shape n"
  shows "call_ids (ms_content m) = call_ids (ms_content n)" "result_ids (ms_content m) = result_ids (ms_content n)"
    "paired_message m = paired_message n"
  using ids_of_shape [of "ms_content m" "ms_content n"] assms
  by (simp_all add: message_shape_def paired_message_def is_user_text_query_def)

lemma map_determined:
  assumes "\<And>m n. f m = f n \<Longrightarrow> g m = g n" and "map f ms = map f ns"
  shows "map g ms = map g ns"
  using assms(2)
proof (induction ms arbitrary: ns)
  case (Cons m ms)
  then obtain n ns' where ns: "ns = n # ns'" "f m = f n" "map f ms = map f ns'" by (cases ns) simp_all
  from Cons.IH [OF ns(3)] assms(1) [OF ns(2)] show ?case by (simp add: ns(1))
qed simp

lemma shapes_ids:
  assumes "map message_shape ms = map message_shape ns"
  shows "calls_in ms = calls_in ns" "results_in ms = results_in ns" "paired_history ms = paired_history ns"
proof -
  have 1: "map (\<lambda>m. call_ids (ms_content m)) ms = map (\<lambda>m. call_ids (ms_content m)) ns"
    and 2: "map (\<lambda>m. result_ids (ms_content m)) ms = map (\<lambda>m. result_ids (ms_content m)) ns"
    and 3: "map paired_message ms = map paired_message ns"
    using map_determined [OF shape_ids(1) assms] map_determined [OF shape_ids(2) assms]
      map_determined [OF shape_ids(3) assms] by simp_all
  show "calls_in ms = calls_in ns" "results_in ms = results_in ns" by (simp_all only: calls_in_def results_in_def 1 2)
  have "list_all paired_message ms = list_all paired_message ns"
    using arg_cong [OF 3, of "\<lambda>bs. list_all (\<lambda>b. b) bs"] by (simp add: list.pred_map comp_def)
  then show "paired_history ms = paired_history ns" by (simp only: paired_history_def 1)
qed

lemma sanitize_shape: "map message_shape (sanitize_retained_messages ms) = map message_shape ms"
proof -
  have "block_shape (sanitize_block b) = block_shape b" for b by (cases b rule: sanitize_block.cases) simp_all
  then show ?thesis by (simp add: sanitize_retained_messages_def message_shape_def comp_def)
qed

end
