(* ===== verification/Compaction_Results.thy ===== *)
theory Compaction_Results
  imports Compaction_Properties
begin

text \<open>
  What pruning does to the tool results of a conversation.
\<close>

section \<open>Pruning\<close>

text \<open>A pruned block is as before, or a shorter text in the same place without its structured copy.\<close>

fun pruned_block :: "content_block \<Rightarrow> content_block \<Rightarrow> bool" where
  "pruned_block (ToolResultBlock i content err blocks) b \<longleftrightarrow>
     b = ToolResultBlock i content err blocks
     \<or> (\<exists>s. b = ToolResultBlock i s err None \<and> length s < length content)"
| "pruned_block b b' \<longleftrightarrow> b' = b"

definition pruned_message :: "message \<Rightarrow> message \<Rightarrow> bool" where
  "pruned_message m m' \<longleftrightarrow> ms_role m' = ms_role m \<and> list_all2 pruned_block (ms_content m) (ms_content m')"

definition tool_bytes :: "message list \<Rightarrow> nat" where
  "tool_bytes msgs = sum_list (map (\<lambda>m. sum_list (map content_length (ms_content m))) msgs)"

lemma pruned_block_refl [simp]: "pruned_block b b"
  by (cases b) simp_all

lemma pruned_block_trans: "pruned_block a b \<Longrightarrow> pruned_block b c \<Longrightarrow> pruned_block a c"
  by (cases a) auto

lemma pruned_block_shape: "pruned_block a b \<Longrightarrow> block_shape b = block_shape a"
  by (cases a) auto

lemma pruned_message_refl [simp]: "pruned_message m m"
  by (simp add: pruned_message_def list_all2_refl)

lemma pruned_message_trans:
  assumes "pruned_message a b" and "pruned_message b c"
  shows "pruned_message a c"
proof -
  have "list_all2 pruned_block (ms_content a) (ms_content c)"
    using assms pruned_block_trans unfolding pruned_message_def list_all2_conv_all_nth by metis
  with assms show ?thesis by (simp add: pruned_message_def)
qed

lemma list_all2_replace:
  assumes "\<And>x. P x x" and "P (xs ! i) y"
  shows "list_all2 P xs (xs[i := y])"
proof -
  have "P (xs ! j) (xs[i := y] ! j)" if "j < length xs" for j
    using assms that by (cases "i = j") simp_all
  then show ?thesis by (simp add: list_all2_conv_all_nth)
qed

lemma pruned_blocks_shape: "list_all2 pruned_block as bs \<Longrightarrow> map block_shape bs = map block_shape as"
  by (induction rule: list_all2_induct) (simp_all add: pruned_block_shape)

lemma pruned_message_shape: "pruned_message m n \<Longrightarrow> message_shape n = message_shape m"
  by (simp add: pruned_message_def message_shape_def pruned_blocks_shape)

lemma pruned_shape: "list_all2 pruned_message ms ns \<Longrightarrow> map message_shape ns = map message_shape ms"
  by (induction rule: list_all2_induct) (simp_all add: pruned_message_shape)

text \<open>The block a candidate stands for.\<close>

definition block_at :: "message list \<Rightarrow> prune_candidate \<Rightarrow> content_block" where
  "block_at msgs c = ms_content (msgs ! pc_message_idx c) ! pc_block_idx c"

definition place :: "prune_candidate \<Rightarrow> nat \<times> nat" where
  "place c = (pc_message_idx c, pc_block_idx c)"

definition in_place :: "message list \<Rightarrow> nat \<Rightarrow> prune_candidate \<Rightarrow> bool" where
  "in_place msgs cutoff c \<longleftrightarrow> pc_message_idx c < cutoff \<and> pc_message_idx c < length msgs
     \<and> pc_block_idx c < length (ms_content (msgs ! pc_message_idx c))
     \<and> (\<exists>i content err blocks. block_at msgs c = ToolResultBlock i content err blocks \<and> pc_original_len c = length content)"

lemma sum_list_replace:
  fixes xs :: "nat list"
  assumes "i < length xs"
  shows "sum_list (xs[i := y]) + xs ! i = sum_list xs + y"
  using assms
proof (induction xs arbitrary: i)
  case (Cons x xs)
  then show ?case by (cases i) auto
qed simp

lemma prune_at_effect:
  assumes "in_place msgs cutoff c" and "\<not> keeps_body cands c"
  shows "list_all2 pruned_message msgs (prune_at c msgs)" and "drop cutoff (prune_at c msgs) = drop cutoff msgs"
    and "tool_bytes (prune_at c msgs) + saved_by c msgs = tool_bytes msgs"
proof -
  let ?m = "msgs ! pc_message_idx c" and ?b = "pc_block_idx c"
  obtain i content err blocks where b: "ms_content ?m ! ?b = ToolResultBlock i content err blocks"
    and l: "pc_original_len c = length content"
    using assms(1) by (auto simp: in_place_def block_at_def)
  have r: "pc_message_idx c < length msgs" "?b < length (ms_content ?m)" and cut: "pc_message_idx c < cutoff"
    using assms(1) by (simp_all add: in_place_def)
  have short: "length (pruned_summary c) < length content" using assms(2) l by (simp add: keeps_body_def)
  have m: "prune_message c ?m = ?m\<lparr>ms_content := (ms_content ?m)[?b := ToolResultBlock i (pruned_summary c) err None]\<rparr>"
    by (simp add: prune_message_def b)
  have "list_all2 pruned_block (ms_content ?m) ((ms_content ?m)[?b := ToolResultBlock i (pruned_summary c) err None])"
    by (rule list_all2_replace) (use short b in simp_all)
  then have pm: "pruned_message ?m (prune_message c ?m)" by (simp add: m pruned_message_def)
  then show "list_all2 pruned_message msgs (prune_at c msgs)"
    unfolding prune_at_def by (intro list_all2_replace) simp_all
  show "drop cutoff (prune_at c msgs) = drop cutoff msgs" using cut by (simp add: prune_at_def)
  have "sum_list (map content_length (ms_content (prune_message c ?m))) + length content
      = sum_list (map content_length (ms_content ?m)) + length (pruned_summary c)"
    using sum_list_replace [of ?b "map content_length (ms_content ?m)" "length (pruned_summary c)"] r b
    by (simp add: m map_update)
  moreover have "tool_bytes (prune_at c msgs) + sum_list (map content_length (ms_content ?m))
      = tool_bytes msgs + sum_list (map content_length (ms_content (prune_message c ?m)))"
    using sum_list_replace [of "pc_message_idx c" "map (\<lambda>m. sum_list (map content_length (ms_content m))) msgs"
        "sum_list (map content_length (ms_content (prune_message c ?m)))"] r
    by (simp add: tool_bytes_def prune_at_def map_update)
  ultimately show "tool_bytes (prune_at c msgs) + saved_by c msgs = tool_bytes msgs"
    using short by (simp add: saved_by_def b)
qed

lemma in_place_prune:
  assumes "in_place msgs cutoff d" and "place c \<noteq> place d"
  shows "in_place (prune_at c msgs) cutoff d"
proof (cases "pc_message_idx c = pc_message_idx d")
  case True
  with assms have "pc_block_idx c \<noteq> pc_block_idx d" by (simp add: place_def)
  with True assms(1) show ?thesis by (simp add: in_place_def block_at_def prune_at_def prune_message_def)
next
  case False
  with assms(1) show ?thesis by (simp add: in_place_def block_at_def prune_at_def)
qed

lemma usat_add: "usat (usat a + b) = usat (a + b)"
  by (simp add: usat_def)

lemma prune_loop_effect:
  assumes "list_all (in_place msgs cutoff) cs" and "distinct (map place cs)"
    and "prune_loop stop cands cs st msgs (usat saved) = (msgs', saved', st')"
  shows "list_all2 pruned_message msgs msgs' \<and> drop cutoff msgs' = drop cutoff msgs \<and> tool_bytes msgs' \<le> tool_bytes msgs
    \<and> saved' = usat (saved + (tool_bytes msgs - tool_bytes msgs'))"
  using assms
proof (induction cs arbitrary: msgs saved st)
  case Nil
  then show ?case by (simp add: list_all2_refl)
next
  case (Cons c cs)
  show ?case
  proof (cases "keeps_body cands c")
    case True
    have "prune_loop stop cands cs st msgs (usat saved) = (msgs', saved', st')" using Cons.prems(3) True by simp
    from Cons.IH [OF _ _ this] Cons.prems(1,2) show ?thesis by simp
  next
    case False
    have ip: "in_place msgs cutoff c" using Cons.prems(1) by simp
    note e = prune_at_effect [OF ip False]
    have rest: "list_all (in_place (prune_at c msgs) cutoff) cs"
      unfolding list_all_iff
    proof
      fix d assume d: "d \<in> set cs"
      then have "place c \<noteq> place d" using Cons.prems(2) by auto
      with d Cons.prems(1) show "in_place (prune_at c msgs) cutoff d" by (simp add: in_place_prune list_all_iff)
    qed
    have le: "tool_bytes (prune_at c msgs) \<le> tool_bytes msgs" using e(3) by linarith
    have sv: "saved_by c msgs = tool_bytes msgs - tool_bytes (prune_at c msgs)" using e(3) by linarith
    let ?h = "stop st (prune_at c msgs) (usat (saved + saved_by c msgs))"
    show ?thesis
    proof (cases "fst ?h")
      case True
      then have "msgs' = prune_at c msgs" "saved' = usat (saved + saved_by c msgs)"
        using Cons.prems(3) False by (simp_all add: Let_def case_prod_unfold usat_add)
      with e(1,2) le sv show ?thesis by simp
    next
      case no: False
      then have "prune_loop stop cands cs (snd ?h) (prune_at c msgs) (usat (saved + saved_by c msgs)) = (msgs', saved', st')"
        using Cons.prems(3) False by (simp add: Let_def case_prod_unfold usat_add)
      from Cons.IH [OF rest _ this] Cons.prems(2)
      have ih: "list_all2 pruned_message (prune_at c msgs) msgs'" "drop cutoff msgs' = drop cutoff (prune_at c msgs)"
        "tool_bytes msgs' \<le> tool_bytes (prune_at c msgs)"
        "saved' = usat (saved + saved_by c msgs + (tool_bytes (prune_at c msgs) - tool_bytes msgs'))" by simp_all
      have "list_all2 pruned_message msgs msgs'"
        using e(1) ih(1) pruned_message_trans unfolding list_all2_conv_all_nth by metis
      moreover have "saved_by c msgs + (tool_bytes (prune_at c msgs) - tool_bytes msgs') = tool_bytes msgs - tool_bytes msgs'"
        using sv le ih(3) by linarith
      ultimately show ?thesis using ih e(2) le by (simp add: add.assoc)
    qed
  qed
qed

lemma candidates_in_place:
  assumes "cutoff \<le> length msgs"
  shows "list_all (in_place msgs cutoff) (prune_candidates env msgs cutoff)"
proof -
  have "in_place msgs cutoff c"
    if "(idx, m) \<in> set (enumerate 0 (take cutoff msgs))" "(b, blk) \<in> set (enumerate 0 (ms_content m))"
      "block_candidate uses idx (b, blk) = Some c" for idx m b blk c uses
    using that assms by (cases blk) (auto simp: in_set_enumerate_eq in_place_def block_at_def split: option.splits)
  then show ?thesis unfolding prune_candidates_def list_all_iff by (force simp: List.map_filter_def)
qed

lemma block_candidate_place: "block_candidate uses idx bb = Some c \<Longrightarrow> place c = (idx, fst bb)"
  by (cases bb; cases "snd bb") (auto simp: place_def split: option.splits)

lemma candidates_of_message:
  "map place (List.map_filter (block_candidate uses idx) (enumerate n bs))
    = map (\<lambda>bb. (idx, fst bb)) (filter (\<lambda>bb. block_candidate uses idx bb \<noteq> None) (enumerate n bs))"
  by (induction bs arbitrary: n) (auto simp: List.map_filter_simps block_candidate_place split: option.split)

lemma message_places_distinct:
  "distinct (map place (List.map_filter (block_candidate uses n) (enumerate 0 bs)))"
proof -
  have "distinct (map fst (filter (\<lambda>bb. block_candidate uses n bb \<noteq> None) (enumerate 0 bs)))"
    by (rule distinct_map_filter) simp
  then have "distinct (map (Pair n) (map fst (filter (\<lambda>bb. block_candidate uses n bb \<noteq> None) (enumerate 0 bs))))"
    by (simp add: distinct_map inj_on_def)
  then show ?thesis unfolding candidates_of_message by (simp add: comp_def)
qed

lemma message_places: "fst ` set (map place (List.map_filter (block_candidate uses n) (enumerate 0 bs))) \<subseteq> {n}"
  unfolding candidates_of_message by auto

definition places_from :: "(string \<Rightarrow> tool_use_info option) \<Rightarrow> nat \<Rightarrow> message list \<Rightarrow> (nat \<times> nat) list" where
  "places_from uses n ms = concat (map (\<lambda>im. map place (List.map_filter (block_candidate uses (fst im))
     (enumerate 0 (ms_content (snd im))))) (enumerate n ms))"

lemma places_from_Cons:
  "places_from uses n (m # ms)
    = map place (List.map_filter (block_candidate uses n) (enumerate 0 (ms_content m))) @ places_from uses (Suc n) ms"
  by (simp add: places_from_def)

lemma places_from_range: "p \<in> set (places_from uses n ms) \<Longrightarrow> n \<le> fst p"
proof (induction ms arbitrary: n)
  case Nil
  then show ?case by (simp add: places_from_def)
next
  case (Cons m ms)
  then consider "p \<in> set (map place (List.map_filter (block_candidate uses n) (enumerate 0 (ms_content m))))"
    | "p \<in> set (places_from uses (Suc n) ms)" unfolding places_from_Cons set_append by blast
  then show ?case
  proof cases
    case 1
    with message_places have "fst p \<in> {n}" by blast
    then show ?thesis by simp
  next
    case 2
    with Cons.IH show ?thesis using Suc_leD by blast
  qed
qed

lemma places_from_distinct: "distinct (places_from uses n ms)"
proof (induction ms arbitrary: n)
  case Nil
  then show ?case by (simp add: places_from_def)
next
  case (Cons m ms)
  have "p \<notin> set (places_from uses (Suc n) ms)"
    if "p \<in> set (map place (List.map_filter (block_candidate uses n) (enumerate 0 (ms_content m))))" for p
  proof
    assume "p \<in> set (places_from uses (Suc n) ms)"
    then have "Suc n \<le> fst p" by (rule places_from_range)
    moreover from that message_places have "fst p \<in> {n}" by blast
    ultimately show False by simp
  qed
  then show ?case unfolding places_from_Cons distinct_append using Cons.IH message_places_distinct by blast
qed

lemma candidates_distinct: "distinct (map place (prune_candidates env msgs cutoff))"
proof -
  have "map place (prune_candidates env msgs cutoff) = places_from (collect_tool_uses env msgs) 0 (take cutoff msgs)"
    by (simp add: prune_candidates_def places_from_def map_concat comp_def case_prod_unfold)
  then show ?thesis using places_from_distinct by simp
qed

lemma prune_effect:
  "case prune_tool_results_until env window stop st msgs of (msgs', saved, st') \<Rightarrow>
     list_all2 pruned_message msgs msgs'
     \<and> drop (length msgs - window) msgs' = drop (length msgs - window) msgs
     \<and> tool_bytes msgs' \<le> tool_bytes msgs \<and> saved = usat (tool_bytes msgs - tool_bytes msgs')"
proof -
  let ?cut = "length msgs - window" and ?cands = "prune_candidates env msgs (length msgs - window)"
  obtain msgs' saved' st' where p: "prune_loop stop ?cands (rev ?cands) st msgs (usat 0) = (msgs', saved', st')"
    by (metis prod_cases3)
  have "list_all (in_place msgs ?cut) (rev ?cands)" "distinct (map place (rev ?cands))"
    using candidates_in_place [of ?cut msgs env] candidates_distinct [of env msgs ?cut] by (simp_all add: rev_map [symmetric])
  note l = prune_loop_effect [OF this p]
  show ?thesis
  proof (cases "?cut = 0")
    case True
    then show ?thesis by (simp add: prune_tool_results_until_def list_all2_refl usat_def)
  next
    case False
    have "usat 0 = 0" by (simp add: usat_def)
    with False p l show ?thesis by (simp add: prune_tool_results_until_def Let_def)
  qed
qed

text \<open>
  Whatever the caller's test for stopping is, pruning changes nothing but old tool results: each
  becomes a shorter text in the same place with the same identifier and error flag, the protected messages
  at the end are untouched, and the bytes reported as saved are those by which the results shrank.
\<close>

theorem prune_shortens_old_results:
  "case prune_tool_results_until env window stop st msgs of (msgs', saved, st') \<Rightarrow>
     list_all2 pruned_message msgs msgs'
     \<and> drop (length msgs - window) msgs' = drop (length msgs - window) msgs
     \<and> tool_bytes msgs' \<le> tool_bytes msgs \<and> saved = usat (tool_bytes msgs - tool_bytes msgs')"
  by (rule prune_effect)

end
