(* ===== verification/Compaction_Shortening.thy ===== *)
theory Compaction_Shortening
  imports Compaction_Results
begin

text \<open>
  What a compaction may do to a message it keeps: shorten the text of a tool result or of an unsigned thinking
  block, and nothing else. Pruning and the caps on retained blocks both do only this.
\<close>

section \<open>Shortened messages\<close>

fun shortened_block :: "content_block \<Rightarrow> content_block \<Rightarrow> bool" where
  "shortened_block (ToolResultBlock i content err blocks) b \<longleftrightarrow>
     b = ToolResultBlock i content err blocks
     \<or> (\<exists>s. b = ToolResultBlock i s err None \<and> length s < length content)"
| "shortened_block (ThinkingBlock thinking None) b \<longleftrightarrow>
     (\<exists>s. b = ThinkingBlock s None \<and> (s = thinking \<or> length s < length thinking))"
| "shortened_block b b' \<longleftrightarrow> b' = b"

definition shortened_message :: "message \<Rightarrow> message \<Rightarrow> bool" where
  "shortened_message m m' \<longleftrightarrow> ms_role m' = ms_role m \<and> list_all2 shortened_block (ms_content m) (ms_content m')"

abbreviation shortened :: "message list \<Rightarrow> message list \<Rightarrow> bool" where
  "shortened \<equiv> list_all2 shortened_message"

lemma shortened_block_refl [simp]: "shortened_block b b"
  by (cases "(b, b)" rule: shortened_block.cases) simp_all

lemma shortened_block_trans: "shortened_block a b \<Longrightarrow> shortened_block b c \<Longrightarrow> shortened_block a c"
  by (cases "(a, b)" rule: shortened_block.cases) auto

lemma shortened_message_trans: "shortened_message a b \<Longrightarrow> shortened_message b c \<Longrightarrow> shortened_message a c"
  unfolding shortened_message_def by (auto intro: list_all2_trans [OF shortened_block_trans])

lemma shortened_refl [simp]: "shortened ms ms"
  by (simp add: list_all2_refl shortened_message_def)

lemma shortened_trans: "shortened as bs \<Longrightarrow> shortened bs cs \<Longrightarrow> shortened as cs"
  by (rule list_all2_trans [OF shortened_message_trans])

lemma pruned_block_shortened: "pruned_block a b \<Longrightarrow> shortened_block a b"
  by (cases "(a, b)" rule: shortened_block.cases) auto

lemma pruned_shortened: "list_all2 pruned_message ms ns \<Longrightarrow> shortened ms ns"
  by (auto simp: pruned_message_def shortened_message_def
      elim!: list_all2_mono intro: pruned_block_shortened)

section \<open>The caps shorten\<close>

lemma show_nat_Suc: "length (show_nat (Suc n)) \<le> Suc (length (show_nat n))"
proof (induction n rule: less_induct)
  case (less n)
  show ?case
  proof (cases "n < 10")
    case True
    then have "length (show_nat n) = 1" by (subst show_nat.simps) simp
    moreover have "length (show_nat (Suc n)) \<le> 2"
      using True by (subst show_nat.simps, subst show_nat.simps) simp
    ultimately show ?thesis by simp
  next
    case False
    have "length (show_nat (Suc n div 10)) \<le> Suc (length (show_nat (n div 10)))"
      using less.IH [of "n div 10"] False by (simp add: div_Suc)
    moreover have "length (show_nat m) = Suc (length (show_nat (m div 10)))" if "\<not> m < 10" for m
      using that by (subst show_nat.simps) simp
    ultimately show ?thesis using False by simp
  qed
qed

lemma show_nat_add: "length (show_nat (n + k)) \<le> length (show_nat n) + k"
proof (induction k)
  case (Suc k)
  with show_nat_Suc [of "n + k"] show ?case by simp
qed simp

lemma show_nat_length: "n < 10 ^ Suc k \<Longrightarrow> length (show_nat n) \<le> Suc k"
proof (induction k arbitrary: n)
  case 0
  then show ?case by (simp add: show_nat.simps)
next
  case (Suc k)
  have "n div 10 < 10 ^ Suc k" using Suc.prems by (simp add: less_mult_imp_div_less mult.commute)
  from Suc.IH [OF this] show ?case by (subst show_nat.simps) simp
qed

text \<open>Between its first k characters and those from the j-th on, a text has a byte at least for each character
  between them.\<close>

lemma char_count_step: "char_count (c # cs) = (if is_cont c then 0 else 1) + char_count cs"
  by (simp add: char_count_def)

lemma pieces_length:
  "k \<le> j \<Longrightarrow> j \<le> char_count s \<Longrightarrow> length (before_char k s) + (j - k) + length (from_char j s) \<le> length s"
proof (induction s arbitrary: k j)
  case Nil
  then show ?case by (simp add: char_count_def)
next
  case (Cons c cs)
  show ?case
  proof (cases "is_cont c")
    case True
    with Cons.prems Cons.IH [of k j] show ?thesis by (simp add: char_count_step)
  next
    case False
    show ?thesis
    proof (cases j)
      case 0
      with False Cons.prems(1) show ?thesis by simp
    next
      case (Suc m)
      with False Cons.prems Cons.IH [of "k - 1" m] Cons.IH [of 0 m] show ?thesis
        by (cases k) (simp_all add: char_count_step)
    qed
  qed
qed

lemma cap_shortens:
  assumes "max_chars < char_count content" and "2048 \<le> max_chars"
    and "length label + length (show_nat max_chars) \<le> 64"
  shows "length (truncate_retained_block label max_chars content) < length content"
proof -
  let ?n = "char_count content" and ?b = "max_chars - 256"
  let ?t = "?b - ?b div 2"
  have b: "max ?b 1024 = ?b" using assms(2) by simp
  have h: "truncate_chars content (?b div 2) = before_char (?b div 2) content"
  proof -
    have "0 < ?b div 2" using assms(2) by (simp add: div_greater_zero_iff)
    then show ?thesis by (simp add: truncate_chars_def)
  qed
  have t: "tail_chars content ?t = from_char (?n - ?t) content"
  proof -
    have "0 < ?t" "\<not> ?n \<le> ?t" using assms(1,2) by linarith+
    then show ?thesis unfolding tail_chars_def by (simp only: if_False less_not_refl2)
  qed
  have "length (before_char (?b div 2) content) + (?n - ?t - ?b div 2) + length (from_char (?n - ?t) content) \<le> length content"
    using assms(1) by (intro pieces_length) simp_all
  moreover have "?n - ?t - ?b div 2 = (?n - max_chars) + 256" using assms(1,2) by simp
  moreover have "length (show_nat ?n) \<le> length (show_nat max_chars) + (?n - max_chars)"
    using show_nat_add [of max_chars "?n - max_chars"] assms(1) by simp
  moreover have "truncate_retained_block label max_chars content =
      ''['' @ label @ '' retained-history truncated from '' @ show_nat ?n @ '' chars]'' @ line_feed
        @ before_char (?b div 2) content @ line_feed @ ellipsis @ line_feed @ from_char (?n - ?t) content"
    unfolding truncate_retained_block_def Let_def b h t if_not_P [OF assms(1) [unfolded not_le [symmetric]]] by (rule refl)
  then have "length (truncate_retained_block label max_chars content)
      = length label + length (show_nat ?n) + length (before_char (?b div 2) content)
        + length (from_char (?n - ?t) content) + 47"
    by (simp only: length_append line_feed_def ellipsis_def) simp
  ultimately show ?thesis using assms(3) by linarith
qed

lemma sanitize_block_shortened: "shortened_block b (sanitize_block b)"
proof -
  have l: "length (show_nat (64 * 1024)) \<le> 5" "length (show_nat (16 * 1024)) \<le> 5"
    using show_nat_length [of "64 * 1024" 4] show_nat_length [of "16 * 1024" 4] by simp_all
  have "64 * 1024 < char_count c \<Longrightarrow> length (truncate_retained_block ''tool result'' (64 * 1024) c) < length c" for c
    by (rule cap_shortens) (use l(1) in simp_all)
  moreover have "16 * 1024 < char_count c \<Longrightarrow> length (truncate_retained_block ''thinking block'' (16 * 1024) c) < length c" for c
    by (rule cap_shortens) (use l(2) in simp_all)
  moreover have "\<not> n < char_count c \<Longrightarrow> truncate_retained_block label n c = c" for n c label
    by (simp add: truncate_retained_block_def)
  ultimately show ?thesis
    by (cases b rule: sanitize_block.cases)
      (simp_all add: retained_tool_result_max_chars_def retained_thinking_max_chars_def, metis+)
qed

lemma sanitize_shortened: "shortened ms (sanitize_retained_messages ms)"
proof -
  have "shortened_message m (m\<lparr>ms_content := map sanitize_block (ms_content m)\<rparr>)" for m
    by (simp add: shortened_message_def list_all2_conv_all_nth sanitize_block_shortened)
  then show ?thesis by (simp add: sanitize_retained_messages_def list_all2_conv_all_nth)
qed

section \<open>Shapes and selections\<close>

lemma shortened_block_shape: "shortened_block a b \<Longrightarrow> block_shape b = block_shape a"
  by (cases "(a, b)" rule: shortened_block.cases) auto

lemma shortened_shape: "shortened ms ns \<Longrightarrow> map message_shape ns = map message_shape ms"
proof (induction rule: list_all2_induct)
  case (Cons m ms n ns)
  have "map block_shape bs = map block_shape as" if "list_all2 shortened_block as bs" for as bs
    using that by (induction rule: list_all2_induct) (simp_all add: shortened_block_shape)
  with Cons show ?case by (simp add: shortened_message_def message_shape_def)
qed simp

lemma kept_shortened:
  assumes "shortened ms ns" shows "shortened (kept_messages pinned ms) (kept_messages pinned ns)"
proof -
  have "shortened (map snd (filter (\<lambda>(idx, m). idx \<in> pinned) (enumerate k ms)))
      (map snd (filter (\<lambda>(idx, m). idx \<in> pinned) (enumerate k ns)))" for k
    using assms by (induction arbitrary: k rule: list_all2_induct) simp_all
  then show ?thesis by (simp add: kept_messages_def)
qed

end
