(* ===== verification/Compaction_Outcome.thy ===== *)
theory Compaction_Outcome
  imports Compaction_Shortening
begin

text \<open>
  A compaction from end to end: its attempts and requests, the pairs of calls and results in the messages
  it leaves, the bounds of retained blocks, the merge of system prompts, and a conversation on which the
  rounds of the pair repair end before it is complete.
\<close>

section \<open>Attempts\<close>

lemma create_summary_requests:
  "n < snd (create_summary env client model effective msgs n)
    \<and> snd (create_summary env client model effective msgs n) \<le> n + 2"
  by (simp add: create_summary_def Let_def split: sum.split)

lemma compact_messages_requests:
  assumes "compact_messages env client msgs config pins paths n = (res, n')"
  shows "n' \<le> n + 2"
proof -
  let ?s = "cp_summarize_indices (plan_compaction env msgs keep_recent_messages pins paths)"
  let ?c = "create_summary env client (cc_model config) (cc_effective_context_window config) (map (\<lambda>idx. msgs ! idx) ?s) n"
  have c: "snd ?c \<le> n + 2" using create_summary_requests by blast
  have "snd (compact_messages env client msgs config pins paths n) = (if msgs = [] \<or> ?s = [] then n else snd ?c)"
    by (cases ?c; cases "fst ?c") (simp_all add: compact_messages_def Let_def)
  with assms c show ?thesis by (simp split: if_splits)
qed

definition attempts_made :: "(string + compaction_result) \<times> nat list \<times> nat \<Rightarrow> bool" where
  "attempts_made out = (case out of (res, delays, n) \<Rightarrow>
     n \<le> 2 * (length delays + 1)
     \<and> (case res of
          Inr r \<Rightarrow> cr_retries_used r < max_retries \<and> delays = take (cr_retries_used r) [1000, 2000]
        | Inl e \<Rightarrow> if is_transient_error e then delays = [1000, 2000] else prefix delays [1000, 2000]))"

lemma attempts_012: "[0..<max_retries] = [0, 1, 2]"
  by (simp add: max_retries_def upt_rec)

lemma attempt_cases:
  obtains kept prompt n' where "compact_messages env client msgs config pins paths n = (Inr (kept, prompt), n')" "n' \<le> n + 2"
  | e n' where "compact_messages env client msgs config pins paths n = (Inl e, n')" "n' \<le> n + 2"
  using compact_messages_requests
  by (cases "compact_messages env client msgs config pins paths n"; cases "fst (compact_messages env client msgs config pins paths n)")
    force+

lemma attempts_last:
  "n \<le> 4 \<Longrightarrow> attempts_made (compact_attempts env client msgs config pins paths [2] err [1000] n)"
  by (rule attempt_cases [of env client msgs config pins paths n])
    (auto simp: attempts_made_def delay_before_def base_delay_ms_def max_retries_def)

lemma attempts_middle:
  "n \<le> 2 \<Longrightarrow> attempts_made (compact_attempts env client msgs config pins paths [1, 2] err [] n)"
proof (rule attempt_cases [of env client msgs config pins paths n])
  fix e n' assume n: "n \<le> 2" and c: "compact_messages env client msgs config pins paths n = (Inl e, n')" "n' \<le> n + 2"
  show ?thesis
  proof (cases "is_transient_error e")
    case True
    have "attempts_made (compact_attempts env client msgs config pins paths [2] (Some e) [1000] n')"
      using n c(2) by (intro attempts_last) simp
    with True c show ?thesis by (simp add: delay_before_def base_delay_ms_def)
  next
    case False
    with n c show ?thesis by (simp add: attempts_made_def delay_before_def base_delay_ms_def)
  qed
next
  fix kept prompt n'
  assume "n \<le> 2" "compact_messages env client msgs config pins paths n = (Inr (kept, prompt), n')" "n' \<le> n + 2"
  then show ?thesis by (simp add: attempts_made_def delay_before_def base_delay_ms_def max_retries_def)
qed

lemma attempts_all: "attempts_made (compact_attempts env client msgs config pins paths [0..<max_retries] None [] 0)"
proof (rule attempt_cases [of env client msgs config pins paths 0])
  fix e n' assume c: "compact_messages env client msgs config pins paths 0 = (Inl e, n')" "n' \<le> 0 + 2"
  show ?thesis
  proof (cases "is_transient_error e")
    case True
    have "attempts_made (compact_attempts env client msgs config pins paths [1, 2] (Some e) [] n')"
      using c(2) by (intro attempts_middle) simp
    with True c show ?thesis by (simp add: attempts_012 delay_before_def)
  next
    case False
    with c show ?thesis by (simp add: attempts_012 attempts_made_def delay_before_def)
  qed
next
  fix kept prompt n'
  assume "compact_messages env client msgs config pins paths 0 = (Inr (kept, prompt), n')" "n' \<le> 0 + 2"
  then show ?thesis unfolding attempts_012 by (simp add: attempts_made_def delay_before_def max_retries_def)
qed

text \<open>The two ways through: the prune suffices, or the attempts are made on what it left.\<close>

lemma safe_cases:
  obtains (prune) pruned where "list_all2 pruned_message msgs pruned"
      "compact_messages_safe env client msgs config pins paths
        = (Inr \<lparr>cr_messages = sanitize_retained_messages pruned, cr_summary_prompt = None, cr_retries_used = 0\<rparr>, [], 0)"
  | (attempts) pruned where "list_all2 pruned_message msgs pruned"
      "compact_messages_safe env client msgs config pins paths
        = compact_attempts env client pruned config pins paths [0..<max_retries] None [] 0"
proof -
  let ?was = "should_compact env msgs config pins paths"
  obtain pruned saved st where p: "prune_tool_results_until env keep_recent_messages
      (prune_stop env config pins paths ?was) (0, False) msgs = (pruned, saved, st)" by (metis prod_cases3)
  have l: "list_all2 pruned_message msgs pruned"
    using prune_effect [where env = env and window = keep_recent_messages and stop = "prune_stop env config pins paths ?was"
        and st = "(0, False)" and msgs = msgs] p by simp
  have r: "list_all2 pruned_message msgs (if saved > 0 then pruned else msgs)"
    using l by (simp add: list_all2_refl)
  define now where "now \<longleftrightarrow>
    (if ?was \<and> saved > 0 \<and> \<not> snd st then \<not> should_compact env pruned config pins paths else snd st)"
  have c: "compact_messages_safe env client msgs config pins paths =
     (if saved > 0 \<and> ?was \<and> now
      then (Inr \<lparr>cr_messages = sanitize_retained_messages pruned, cr_summary_prompt = None, cr_retries_used = 0\<rparr>, [], 0)
      else compact_attempts env client (if saved > 0 then pruned else msgs) config pins paths [0..<max_retries] None [] 0)"
    unfolding compact_messages_safe_def Let_def p prod.case now_def by (rule refl)
  show thesis
  proof (cases "saved > 0 \<and> ?was \<and> now")
    case True
    show thesis by (rule prune [OF l]) (simp only: c True simp_thms if_True)
  next
    case False
    show thesis by (rule attempts [OF r]) (simp only: c False if_False)
  qed
qed

text \<open>
  A compaction makes at most three attempts, each of at most two requests, and waits one and then two
  seconds between them: a success after k retries has slept the first k delays, a transient error is
  reported only after both, and any other error is reported at once.
\<close>

theorem compaction_attempts_exact:
  "case compact_messages_safe env client msgs config pins paths of (res, delays, n) \<Rightarrow>
     n \<le> 2 * (length delays + 1)
     \<and> (case res of
          Inr r \<Rightarrow> cr_retries_used r < max_retries \<and> delays = take (cr_retries_used r) [1000, 2000]
        | Inl e \<Rightarrow> if is_transient_error e then delays = [1000, 2000] else prefix delays [1000, 2000])"
proof -
  have "attempts_made (compact_messages_safe env client msgs config pins paths)"
  proof (rule safe_cases [where msgs = msgs and env = env and client = client and config = config and pins = pins and paths = paths])
    fix pruned assume "compact_messages_safe env client msgs config pins paths
        = (Inr \<lparr>cr_messages = sanitize_retained_messages pruned, cr_summary_prompt = None, cr_retries_used = 0\<rparr>, [], 0)"
    then show ?thesis by (simp add: attempts_made_def max_retries_def)
  next
    fix pruned assume "compact_messages_safe env client msgs config pins paths
        = compact_attempts env client pruned config pins paths [0..<max_retries] None [] 0"
    then show ?thesis using attempts_all by simp
  qed
  then show ?thesis by (simp add: attempts_made_def)
qed

section \<open>Calls and results in pairs\<close>

definition pairs_kept :: "message list \<Rightarrow> message list \<Rightarrow> system_prompt option \<Rightarrow> bool" where
  "pairs_kept msgs kept prompt = (case prompt of
     None \<Rightarrow> shortened msgs kept
   | Some _ \<Rightarrow> calls_in kept = results_in kept \<and> (\<exists>pinned. shortened (kept_messages pinned msgs) kept))"

lemma pairs_kept_shortened: "shortened msgs ns \<Longrightarrow> pairs_kept ns kept prompt \<Longrightarrow> pairs_kept msgs kept prompt"
proof (cases prompt)
  case None
  then show "shortened msgs ns \<Longrightarrow> pairs_kept ns kept prompt \<Longrightarrow> ?thesis"
    using shortened_trans by (simp add: pairs_kept_def)
next
  case (Some q)
  then show "shortened msgs ns \<Longrightarrow> pairs_kept ns kept prompt \<Longrightarrow> ?thesis"
    using kept_shortened shortened_trans by (simp add: pairs_kept_def) blast
qed

lemma sanitize_empty [simp]: "sanitize_retained_messages [] = []"
  by (simp add: sanitize_retained_messages_def)

lemma compact_messages_pairs:
  assumes "paired_history msgs" and "compact_messages env client msgs config pins paths n = (Inr (kept, prompt), n')"
  shows "pairs_kept msgs (sanitize_retained_messages kept) prompt"
proof (cases "msgs = []")
  case True
  with assms(2) show ?thesis by (auto simp: compact_messages_def pairs_kept_def sanitize_shortened)
next
  case False
  let ?plan = "plan_compaction env msgs keep_recent_messages pins paths"
  let ?sum = "map (\<lambda>idx. msgs ! idx) (cp_summarize_indices ?plan)"
  show ?thesis
  proof (cases "cp_summarize_indices ?plan = []")
    case True
    with assms(2) False show ?thesis by (auto simp: compact_messages_def pairs_kept_def sanitize_shortened)
  next
    case sum: False
    obtain r n'' where c: "create_summary env client (cc_model config) (cc_effective_context_window config) ?sum n = (r, n'')"
      by fastforce
    with assms(2) False sum obtain summary where r: "r = Inr summary" by (cases r) (simp_all add: compact_messages_def)
    let ?kept = "kept_messages (cp_pinned_indices ?plan) msgs"
    have k: "kept = sanitize_retained_messages ?kept" "prompt \<noteq> None"
      using assms(2) False sum c r by (simp_all add: compact_messages_def Let_def) blast+
    have "map message_shape (sanitize_retained_messages kept) = map message_shape ?kept"
      by (simp add: k(1) sanitize_shape)
    moreover have "calls_in ?kept = results_in ?kept"
      by (rule satisfied_pairs [OF plan_satisfied [OF assms(1) False] plan_range])
    ultimately have "calls_in (sanitize_retained_messages kept) = results_in (sanitize_retained_messages kept)"
      using shapes_ids(1,2) by metis
    moreover have "shortened ?kept (sanitize_retained_messages kept)"
      unfolding k(1) by (rule shortened_trans [OF sanitize_shortened sanitize_shortened])
    ultimately show ?thesis using k(2) by (auto simp: pairs_kept_def)
  qed
qed

lemma attempts_pairs:
  assumes "paired_history msgs"
    and "compact_attempts env client msgs config pins paths ks err delays n = (Inr r, delays', n')"
  shows "pairs_kept msgs (cr_messages r) (cr_summary_prompt r)"
  using assms(2)
proof (induction ks arbitrary: err delays n)
  case (Cons k ks)
  show ?case
  proof (rule attempt_cases [of env client msgs config pins paths n])
    fix kept prompt n1
    assume c: "compact_messages env client msgs config pins paths n = (Inr (kept, prompt), n1)"
    with Cons.prems have "cr_messages r = sanitize_retained_messages kept" "cr_summary_prompt r = prompt" by auto
    with compact_messages_pairs [OF assms(1) c] show ?thesis by simp
  next
    fix e n1 assume "compact_messages env client msgs config pins paths n = (Inl e, n1)"
    with Cons.prems have "compact_attempts env client msgs config pins paths ks (Some e) (delays @ delay_before k) n1
        = (Inr r, delays', n')" by (simp split: if_splits)
    then show ?thesis by (rule Cons.IH)
  qed
qed simp

text \<open>
  C29. What a compaction leaves of a conversation whose calls have different identifiers, whose messages with
  a result have no other result and no call, and whose user messages with text have neither. When nothing is
  summarised, all messages remain, with their roles and blocks in order, and nothing has changed but the texts
  of tool results and of unsigned thinking, each of which is as it was or shorter; calls keep their inputs.
  When there is a summary, the messages kept are some of the conversation's, in order and changed no further,
  and among them are exactly the results of the calls. A user message with text and a result, which the
  conversations of the program can have, is outside of this: it may be kept without its call.
\<close>

theorem compaction_keeps_pairs:
  assumes "paired_history msgs" and "compact_messages_safe env client msgs config pins paths = (Inr r, delays, n)"
  shows "case cr_summary_prompt r of
      None \<Rightarrow> shortened msgs (cr_messages r)
    | Some _ \<Rightarrow> calls_in (cr_messages r) = results_in (cr_messages r)
        \<and> (\<exists>pinned. shortened (kept_messages pinned msgs) (cr_messages r))"
proof -
  have "pairs_kept msgs (cr_messages r) (cr_summary_prompt r)"
  proof (rule safe_cases [where msgs = msgs and env = env and client = client and config = config and pins = pins
        and paths = paths])
    fix pruned assume l: "list_all2 pruned_message msgs pruned" and s: "compact_messages_safe env client msgs config pins paths
        = (Inr \<lparr>cr_messages = sanitize_retained_messages pruned, cr_summary_prompt = None, cr_retries_used = 0\<rparr>, [], 0)"
    from s assms(2) have "cr_messages r = sanitize_retained_messages pruned" "cr_summary_prompt r = None" by auto
    with shortened_trans [OF pruned_shortened [OF l] sanitize_shortened] show ?thesis by (simp add: pairs_kept_def)
  next
    fix pruned assume l: "list_all2 pruned_message msgs pruned" and s: "compact_messages_safe env client msgs config pins paths
        = compact_attempts env client pruned config pins paths [0..<max_retries] None [] 0"
    have "paired_history pruned" using shapes_ids(3) [OF pruned_shape [OF l]] assms(1) by simp
    from attempts_pairs [OF this] s assms(2) have "pairs_kept pruned (cr_messages r) (cr_summary_prompt r)" by metis
    then show ?thesis by (rule pairs_kept_shortened [OF pruned_shortened [OF l]])
  qed
  then show ?thesis by (simp add: pairs_kept_def)
qed

section \<open>System prompts\<close>

lemma insert_blocks_order: "i \<le> length ys \<Longrightarrow> insert_blocks_at i bs ys = take i ys @ bs @ drop i ys"
  by (induction i bs ys rule: insert_blocks_at.induct) (simp_all add: min_def)

definition all_blocks :: "system_prompt option \<Rightarrow> system_block list" where
  "all_blocks p = (case p of None \<Rightarrow> [] | Some q \<Rightarrow> prompt_blocks q)"

lemma merge_keeps_blocks: "all_blocks (merge_system_prompts p q) = all_blocks p @ all_blocks q"
  by (cases "(p, q)" rule: merge_system_prompts.cases) (simp_all add: all_blocks_def insert_blocks_order)

section \<open>Retained blocks\<close>

lemma char_count_Cons: "char_count (c # cs) = (if is_cont c then 0 else 1) + char_count cs"
  by (simp add: char_count_def)

lemma char_count_nil [simp]: "char_count [] = 0"
  by (simp add: char_count_def)

lemma char_count_append: "char_count (xs @ ys) = char_count xs + char_count ys"
  by (simp add: char_count_def)

lemma char_count_le_length: "char_count s \<le> length s"
  by (simp add: char_count_def)

lemma char_count_before: "char_count (before_char n s) \<le> n"
  by (induction n s rule: before_char.induct) (auto simp: char_count_Cons char_count_def split: nat.split)

lemma char_count_from: "char_count (from_char n s) \<le> char_count s - n"
  by (induction n s rule: from_char.induct) (auto simp: char_count_Cons split: nat.split)

lemma char_count_truncate: "char_count (truncate_chars s n) \<le> n"
  using char_count_before by (simp add: truncate_chars_def char_count_def)

lemma char_count_tail: "char_count (tail_chars s n) \<le> n"
proof (cases "char_count s \<le> n")
  case True
  then show ?thesis by (simp add: tail_chars_def)
next
  case False
  with char_count_from [of "char_count s - n" s] show ?thesis by (simp add: tail_chars_def)
qed

lemma show_size_length: "n < 2 ^ 64 \<Longrightarrow> length (show_nat n) \<le> 20"
  using show_nat_length [of n 19] by simp

lemma truncate_retained_bound:
  assumes "length content < 2 ^ 64" and "length label \<le> 64" and "2048 \<le> limit"
  shows "char_count (truncate_retained_block label limit content) \<le> limit"
proof (cases "char_count content \<le> limit")
  case True
  then show ?thesis by (simp add: truncate_retained_block_def)
next
  case False
  let ?b = "max (limit - 256) 1024"
  let ?n = "show_nat (char_count content)"
  have "char_count content < 2 ^ 64" using assms(1) char_count_le_length [of content] by simp
  then have n: "char_count ?n \<le> 20" using show_size_length char_count_le_length le_trans by blast
  have l: "char_count label \<le> 64" using assms(2) char_count_le_length le_trans by blast
  have e: "char_count ellipsis + 2 * char_count line_feed + char_count ''['' + char_count '' retained-history truncated from ''
      + char_count '' chars]'' + char_count line_feed \<le> 64" by code_simp
  have "char_count (truncate_chars content (?b div 2)) \<le> ?b div 2" by (rule char_count_truncate)
  moreover have "char_count (tail_chars content (?b - ?b div 2)) \<le> ?b - ?b div 2" by (rule char_count_tail)
  ultimately have "char_count (truncate_chars content (?b div 2)) + char_count (tail_chars content (?b - ?b div 2)) \<le> ?b"
    by linarith
  then have "char_count (truncate_retained_block label limit content) \<le> 64 + 20 + 64 + ?b"
    unfolding truncate_retained_block_def Let_def if_not_P [OF False] char_count_append using n l e by linarith
  also have "\<dots> \<le> limit" using assms(3) by (simp add: max_def)
  finally show ?thesis .
qed

fun block_bounded :: "content_block \<Rightarrow> bool" where
  "block_bounded (ToolResultBlock i content err blocks) \<longleftrightarrow> char_count content \<le> 64 * 1024"
| "block_bounded (ThinkingBlock thinking None) \<longleftrightarrow> char_count thinking \<le> 16 * 1024"
| "block_bounded b \<longleftrightarrow> True"

fun block_sized :: "content_block \<Rightarrow> bool" where
  "block_sized (ToolResultBlock i content err blocks) \<longleftrightarrow> length content < 2 ^ 64"
| "block_sized (ThinkingBlock thinking sig) \<longleftrightarrow> length thinking < 2 ^ 64"
| "block_sized b \<longleftrightarrow> True"

definition all_blocks_of :: "(content_block \<Rightarrow> bool) \<Rightarrow> message list \<Rightarrow> bool" where
  "all_blocks_of P msgs \<longleftrightarrow> list_all (\<lambda>m. list_all P (ms_content m)) msgs"

lemma sanitize_block_bounded: "block_sized b \<Longrightarrow> block_bounded (sanitize_block b)"
  by (cases b rule: sanitize_block.cases)
    (simp_all add: truncate_retained_bound retained_tool_result_max_chars_def retained_thinking_max_chars_def)

lemma sanitize_bounded_block: "block_bounded b \<Longrightarrow> sanitize_block b = b"
  by (cases b rule: sanitize_block.cases)
    (simp_all add: truncate_retained_block_def retained_tool_result_max_chars_def retained_thinking_max_chars_def)

lemma sanitize_bounded:
  assumes "all_blocks_of block_bounded msgs"
  shows "sanitize_retained_messages msgs = msgs"
proof -
  have "m\<lparr>ms_content := map sanitize_block (ms_content m)\<rparr> = m" if "m \<in> set msgs" for m
  proof -
    have "map sanitize_block (ms_content m) = ms_content m"
      using assms that by (auto simp: all_blocks_of_def list_all_iff sanitize_bounded_block intro: map_idI)
    then show ?thesis by (cases m) simp
  qed
  then show ?thesis by (simp add: sanitize_retained_messages_def map_idI)
qed

text \<open>
  A retained tool result has at most 64 * 1024 characters and a retained unsigned thinking block at
  most 16 * 1024, the note of the truncation included, and the caps change nothing when applied again.
\<close>

theorem retained_blocks_bounded:
  assumes "all_blocks_of block_sized msgs"
  shows "all_blocks_of block_bounded (sanitize_retained_messages msgs)
    \<and> sanitize_retained_messages (sanitize_retained_messages msgs) = sanitize_retained_messages msgs"
proof -
  have "all_blocks_of block_bounded (sanitize_retained_messages msgs)"
    using assms by (auto simp: all_blocks_of_def sanitize_retained_messages_def list_all_iff sanitize_block_bounded)
  then show ?thesis by (simp add: sanitize_bounded)
qed

text \<open>A result that is too long by one character.\<close>

lemma retained_blocks_bounded_witness:
  "all_blocks_of block_bounded (sanitize_retained_messages
      [\<lparr>ms_role = ''user'', ms_content = [ToolResultBlock ''a'' (replicate 65537 CHR ''x'') None None]\<rparr>])
    \<and> sanitize_retained_messages (sanitize_retained_messages
        [\<lparr>ms_role = ''user'', ms_content = [ToolResultBlock ''a'' (replicate 65537 CHR ''x'') None None]\<rparr>])
      = sanitize_retained_messages
        [\<lparr>ms_role = ''user'', ms_content = [ToolResultBlock ''a'' (replicate 65537 CHR ''x'') None None]\<rparr>]"
  by (rule retained_blocks_bounded) (simp only: all_blocks_of_def list.pred_inject message.simps block_sized.simps length_replicate, simp)

section \<open>Sample conversations\<close>

definition sample_env :: compaction_env where
  "sample_env = \<lparr>ce_workspace = None, ce_captures = (\<lambda>_. []), ce_exists = (\<lambda>_. False), ce_read = (\<lambda>_. None),
     ce_json = (\<lambda>_. ''{}''), ce_context_window = (\<lambda>_. None)\<rparr>"

definition sample_config :: compaction_config where
  "sample_config = \<lparr>cc_enabled = False, cc_token_threshold = 1000, cc_model = ''m'',
     cc_effective_context_window = None, cc_cache_summary = True\<rparr>"

definition call_message :: "string \<Rightarrow> message" where
  "call_message i = \<lparr>ms_role = ''assistant'', ms_content = [ToolUseBlock i ''read_file'' JNull None]\<rparr>"

definition result_message :: "string \<Rightarrow> string \<Rightarrow> message" where
  "result_message i content = \<lparr>ms_role = ''user'', ms_content = [ToolResultBlock i content None None]\<rparr>"

definition reply_message :: "string \<Rightarrow> message" where
  "reply_message t = \<lparr>ms_role = ''assistant'', ms_content = [TextBlock t None]\<rparr>"

definition sample_msgs :: "message list" where
  "sample_msgs = [user_text ''one'', call_message ''a'', result_message ''a'' ''x'', reply_message ''two'',
     call_message ''b'', result_message ''b'' ''y'', reply_message ''three'', user_text ''four'']"

definition sample_client :: model_client where
  "sample_client = (\<lambda>n r. if n = 0 then Inl ''request timed out'' else Inr [TextBlock ''done so far'' None])"

lemma sample_prune:
  "prune_tool_results_until sample_env keep_recent_messages (prune_stop sample_env sample_config None None False) (0, False)
     sample_msgs = (sample_msgs, 0, (0, False))"
proof -
  have "prune_stop sample_env sample_config None None False = (\<lambda>st msgs saved. (False, st))"
    by (intro ext) (simp add: prune_stop_def)
  moreover have "prune_tool_results_until sample_env keep_recent_messages (\<lambda>st msgs saved. (False, st)) (0 :: nat, False)
      sample_msgs = (sample_msgs, 0, (0, False))" by code_simp
  ultimately show ?thesis by simp
qed

lemma sample_summary:
  "create_summary sample_env sample_client m None ms 0 = (Inl ''request timed out'', 1)"
  "create_summary sample_env sample_client m None ms 1 = (Inr ''done so far'', 2)"
  by (simp_all add: create_summary_def should_use_cache_aligned_summary_def window_of_def sample_env_def sample_client_def
      summary_of_response_def join_str.simps)

lemma sample_plan:
  "cp_summarize_indices (plan_compaction sample_env sample_msgs keep_recent_messages None None) = [0, 1, 2, 3]"
  by code_simp

lemma sample_transient: "is_transient_error ''request timed out''"
  by code_simp

definition sample_result :: compaction_result where
  "sample_result = (let plan = plan_compaction sample_env sample_msgs keep_recent_messages None None in
     \<lparr>cr_messages = sanitize_retained_messages (sanitize_retained_messages (kept_messages (cp_pinned_indices plan) sample_msgs)),
      cr_summary_prompt = Some (SystemBlocks [\<lparr>sb_block_type = ''text'',
        sb_text = summary_block_text (anchor_summary_section sample_env) ''done so far''
          (extract_workflow_context sample_env (map (\<lambda>idx. sample_msgs ! idx) (cp_summarize_indices plan))),
        sb_cache_control = Some ''ephemeral''\<rparr>]), cr_retries_used = 1\<rparr>)"

lemma sample_not_empty: "sample_msgs \<noteq> []"
  by (simp add: sample_msgs_def)

lemma sample_first: "compact_messages sample_env sample_client sample_msgs sample_config None None 0 = (Inl ''request timed out'', 1)"
  by (simp add: compact_messages_def sample_not_empty sample_plan sample_config_def sample_summary)

lemma sample_outcome:
  "compact_messages_safe sample_env sample_client sample_msgs sample_config None None = (Inr sample_result, [1000], 2)"
proof -
  have off: "should_compact sample_env sample_msgs sample_config None None = False"
    by (simp add: should_compact_def sample_config_def)
  have second: "compact_messages sample_env sample_client sample_msgs sample_config None None 1
      = (Inr (sanitize_retained_messages (kept_messages (cp_pinned_indices
            (plan_compaction sample_env sample_msgs keep_recent_messages None None)) sample_msgs),
          cr_summary_prompt sample_result), 2)"
    by (simp add: compact_messages_def sample_not_empty sample_plan sample_config_def sample_summary sample_result_def
        del: One_nat_def)
  show ?thesis
    unfolding compact_messages_safe_def Let_def off sample_prune prod.case attempts_012
    by (simp add: sample_first sample_transient second delay_before_def base_delay_ms_def del: One_nat_def)
       (simp add: sample_result_def Let_def)
qed

lemma sample_paired: "paired_history sample_msgs"
  by code_simp

text \<open>Each message answers the one before and calls again: the rounds repeat and none brings rest.\<close>

definition chained_msgs :: "message list" where
  "chained_msgs = map (\<lambda>k. \<lparr>ms_role = ''user'',
     ms_content = (if k = 0 then [] else [ToolResultBlock (show_nat k) [] None None])
       @ [ToolUseBlock (show_nat (k + 1)) ''t'' JNull None]\<rparr>) [0..<6]"

lemma chained: "enforce_tool_call_pairs chained_msgs {0} = {0}"
  by code_simp

lemma chained_unanswered: "calls_in (kept_messages (enforce_tool_call_pairs chained_msgs {0}) chained_msgs) = {show_nat 1}"
  unfolding chained by (simp add: chained_msgs_def kept_messages_def calls_in_def upt_rec)

lemma plan_keeps_pinned_exchanges_witness:
  "1 \<in> cp_pinned_indices (plan_compaction sample_env sample_msgs keep_recent_messages (Some [1]) None)"
proof (rule plan_keeps_pinned_exchanges [OF sample_paired])
  show "1 \<in> base_pins sample_env sample_msgs keep_recent_messages (Some [1]) None" by code_simp
  show "in_complete_exchange sample_msgs 1" by code_simp
qed

lemma compaction_keeps_pairs_witness:
  "calls_in (cr_messages sample_result) = results_in (cr_messages sample_result)
   \<and> (\<exists>pinned. shortened (kept_messages pinned sample_msgs) (cr_messages sample_result))"
proof -
  have "cr_summary_prompt sample_result \<noteq> None" by (simp add: sample_result_def Let_def)
  with compaction_keeps_pairs [OF sample_paired sample_outcome] show ?thesis by (auto split: option.splits)
qed

end
