(* ===== verification/Patch_Text.thy ===== *)
theory Patch_Text
  imports Json
begin

text \<open>
  Unified diffs (\<open>crates/tui/src/tools/apply_patch.rs\<close>): ranges, hunks, file sections, the shape of a patch
  and the preflight that a call makes before it reads or writes anything. Texts of errors are constructors
  with the values they show. Sizes are natural numbers, reduced where the arithmetic of \<open>usize\<close> can wrap.
\<close>

section \<open>Types\<close>

datatype hunk_line = ContextLine string | AddLine string | RemoveLine string

record hunk =
  hk_old_start :: nat
  hk_old_count :: nat
  hk_new_start :: nat
  hk_new_count :: nat
  hk_lines :: "hunk_line list"

record file_patch =
  fp_path :: string
  fp_hunks :: "hunk list"
  fp_delete_after :: bool
  fp_create_if_missing :: bool

record patch_shape =
  ps_has_hunks :: bool
  ps_header_files :: "string list"

record patch_preflight =
  pp_touched_files :: "string list"
  pp_files_total :: nat
  pp_hunks_total :: nat
  pp_creates :: "string list"
  pp_deletes :: "string list"
  pp_path_override :: "string option"
  pp_header_path_mismatch :: "string option"

datatype preflight_kind = ChangesInput | PathOverride string "hunk list" | FilePatches "file_patch list"

record apply_hunk_error =
  ah_expected_line :: nat
  ah_adjusted_line :: nat
  ah_offset :: int

datatype patch_error =
    InvalidHunkHeader string
  | InvalidLineNumber string
  | InvalidLineCount string
  | HunkBeforeNewHeader string
  | HunkBeforeHeaders
  | MissingPaths
  | NoHunkHeader
  | SeveralFilesWithPath "string list"
  | NoFileHeaders
  | NoHunks
  | NoFilePatches
  | SectionWithoutHunks string
  | ChangesNotArray
  | ChangesEmpty
  | MissingField string
  | PathRefused string
  | ReadFailed string
  | FileMissing string string
  | NothingToDelete string string
  | HunkFailed nat nat string string
  | CreateDirFailed string
  | WriteFailed string
  | DeleteFailed string

section \<open>Ranges\<close>

text \<open>\<open>str::parse::<usize>\<close>: digits after an optional plus sign, below \<open>2 ^ 64\<close>.\<close>

fun usize_digits :: "nat \<Rightarrow> string \<Rightarrow> nat option" where
  "usize_digits acc [] = Some acc"
| "usize_digits acc (c # cs) = (if is_ascii_digit c then usize_digits (acc * 10 + (of_char c - 48)) cs else None)"

definition parse_usize :: "string \<Rightarrow> nat option" where
  "parse_usize s =
     (let ds = (if prefix ''+'' s then tl s else s) in
      if ds = [] then None
      else case usize_digits 0 ds of
        None \<Rightarrow> None
      | Some n \<Rightarrow> if n < 2 ^ 64 then Some n else None)"

definition parse_range :: "string \<Rightarrow> patch_error + nat \<times> nat" where
  "parse_range text =
     (let parts = split_char (CHR '','') text in
      case parse_usize (parts ! 0) of
        None \<Rightarrow> Inl (InvalidLineNumber (parts ! 0))
      | Some start \<Rightarrow>
          if length parts > 1
          then (case parse_usize (parts ! 1) of
              None \<Rightarrow> Inl (InvalidLineCount (parts ! 1))
            | Some n \<Rightarrow> Inr (start, n))
          else Inr (start, 1))"

section \<open>Hunks\<close>

text \<open>At most so many lines; a header of a file, of a hunk or the end stops earlier.\<close>

definition push_line :: "hunk_line \<Rightarrow> hunk_line list \<times> string list \<Rightarrow> hunk_line list \<times> string list" where
  "push_line h r = (h # fst r, snd r)"

fun read_hunk_lines :: "nat \<Rightarrow> string list \<Rightarrow> hunk_line list \<times> string list" where
  "read_hunk_lines 0 ls = ([], ls)"
| "read_hunk_lines (Suc n) [] = ([], [])"
| "read_hunk_lines (Suc n) (l # ls) =
     (if prefix ''@@'' l then ([], l # ls)
      else if prefix ''-'' l then push_line (RemoveLine (tl l)) (read_hunk_lines n ls)
      else if prefix ''+'' l then push_line (AddLine (tl l)) (read_hunk_lines n ls)
      else if prefix '' '' l \<or> l = [] then push_line (ContextLine (if l = [] then [] else tl l)) (read_hunk_lines n ls)
      else if prefix ''diff '' l \<or> prefix ''--- '' l \<or> prefix ''+++ '' l then ([], l # ls)
      else if \<not> prefix [CHR 0x5C] l then push_line (ContextLine l) (read_hunk_lines n ls)
      else read_hunk_lines n ls)"

text \<open>The bound is twice the sum of the counts, in the arithmetic of \<open>usize\<close>.\<close>

definition hunk_line_budget :: "nat \<Rightarrow> nat \<Rightarrow> nat" where
  "hunk_line_budget old_count new_count =
     ((max old_count new_count + min old_count new_count) mod 2 ^ 64 * 2) mod 2 ^ 64"

text \<open>The ranges of a hunk header: the second and third word, without leading minus or plus signs.\<close>

definition trim_start_char :: "char \<Rightarrow> string \<Rightarrow> string" where
  "trim_start_char d s = dropWhile (\<lambda>c. c = d) s"

definition parse_hunk_header :: "string \<Rightarrow> string list \<Rightarrow> patch_error + hunk \<times> string list" where
  "parse_hunk_header header ls =
     (let parts = split_whitespace header in
      if length parts < 3 then Inl (InvalidHunkHeader header)
      else case parse_range (trim_start_char (CHR ''-'') (parts ! 1)) of
        Inl e \<Rightarrow> Inl e
      | Inr (old_start, old_count) \<Rightarrow>
          (case parse_range (trim_start_char (CHR ''+'') (parts ! 2)) of
             Inl e \<Rightarrow> Inl e
           | Inr (new_start, new_count) \<Rightarrow>
               (case read_hunk_lines (hunk_line_budget old_count new_count) ls of
                  (hls, rest) \<Rightarrow>
                    Inr (\<lparr>hk_old_start = old_start, hk_old_count = old_count, hk_new_start = new_start,
                          hk_new_count = new_count, hk_lines = hls\<rparr>, rest))))"

lemma read_hunk_lines_length: "length (snd (read_hunk_lines n ls)) \<le> length ls"
  by (induction n ls rule: read_hunk_lines.induct) (auto simp: push_line_def le_SucI)

lemma parse_hunk_header_length: "parse_hunk_header l ls = Inr (h, rest) \<Longrightarrow> length rest \<le> length ls"
  using read_hunk_lines_length
  by (auto simp: parse_hunk_header_def Let_def split: sum.splits prod.splits if_splits) (metis snd_conv)

function hunks_from :: "string list \<Rightarrow> patch_error + hunk list" where
  "hunks_from [] = Inr []"
| "hunks_from (l # ls) =
     (if prefix ''@@'' l
      then (case parse_hunk_header l ls of
          Inl e \<Rightarrow> Inl e
        | Inr (h, rest) \<Rightarrow> (case hunks_from rest of Inl e \<Rightarrow> Inl e | Inr hs \<Rightarrow> Inr (h # hs)))
      else hunks_from ls)"
  by pat_completeness auto
termination
  by (relation "measure length") (auto dest: parse_hunk_header_length)

definition parse_unified_diff :: "string \<Rightarrow> patch_error + hunk list" where
  "parse_unified_diff patch = hunks_from (str_lines patch)"

section \<open>File sections\<close>

definition normalize_diff_path :: "string \<Rightarrow> string option" where
  "normalize_diff_path raw =
     (let raw1 = trim (case split_once (CHR 0x09) raw of Some (path, _) \<Rightarrow> path | None \<Rightarrow> raw) in
      if raw1 = [] then None
      else if raw1 = ''/dev/null'' \<or> raw1 = ''dev/null'' then None
      else Some (case strip_prefix ''a/'' raw1 of
          Some p \<Rightarrow> p
        | None \<Rightarrow> unwrap_or raw1 (strip_prefix ''b/'' raw1)))"

definition option_bind :: "'a option \<Rightarrow> ('a \<Rightarrow> 'b option) \<Rightarrow> 'b option" where
  "option_bind x f = (case x of None \<Rightarrow> None | Some a \<Rightarrow> f a)"

definition or_else :: "'a option \<Rightarrow> 'a option \<Rightarrow> 'a option" where
  "or_else x y = (case x of None \<Rightarrow> y | Some a \<Rightarrow> Some a)"

definition resolve_diff_paths :: "string option \<Rightarrow> string option \<Rightarrow> bool \<Rightarrow> patch_error + string \<times> bool \<times> bool" where
  "resolve_diff_paths old_path new_path create_if_missing =
     (let old_norm = option_bind old_path normalize_diff_path; new_norm = option_bind new_path normalize_diff_path in
      case or_else new_norm old_norm of
        None \<Rightarrow> Inl MissingPaths
      | Some path \<Rightarrow> Inr (path, new_norm = None, create_if_missing \<or> old_norm = None))"

definition finish_section :: "file_patch list \<Rightarrow> file_patch option \<Rightarrow> file_patch list" where
  "finish_section files current = files @ (case current of None \<Rightarrow> [] | Some f \<Rightarrow> [f])"

definition add_hunk :: "hunk \<Rightarrow> file_patch \<Rightarrow> file_patch" where
  "add_hunk h f = f\<lparr>fp_hunks := fp_hunks f @ [h]\<rparr>"

function file_sections ::
    "bool \<Rightarrow> string list \<Rightarrow> file_patch list \<Rightarrow> file_patch option \<Rightarrow> string option \<Rightarrow> patch_error + file_patch list" where
  "file_sections create [] files current old_path = Inr (finish_section files current)"
| "file_sections create (l # ls) files current old_path =
     (if prefix ''diff --git '' l then file_sections create ls (finish_section files current) None None
      else if prefix ''--- '' l then file_sections create ls files current (Some (trim (drop 4 l)))
      else if prefix ''+++ '' l
      then (case resolve_diff_paths old_path (Some (trim (drop 4 l))) create of
          Inl e \<Rightarrow> Inl e
        | Inr (path, delete_after, create_flag) \<Rightarrow>
            file_sections create ls (finish_section files current)
              (Some \<lparr>fp_path = path, fp_hunks = [], fp_delete_after = delete_after,
                     fp_create_if_missing = create_flag\<rparr>) None)
      else if prefix ''@@'' l
      then (case current of
          None \<Rightarrow> Inl (case old_path of Some p \<Rightarrow> HunkBeforeNewHeader p | None \<Rightarrow> HunkBeforeHeaders)
        | Some f \<Rightarrow>
            (case parse_hunk_header l ls of
               Inl e \<Rightarrow> Inl e
             | Inr (h, rest) \<Rightarrow> file_sections create rest files (Some (add_hunk h f)) old_path))
      else file_sections create ls files current old_path)"
  by pat_completeness auto
termination
  by (relation "measure (\<lambda>(create, ls, files, current, old_path). length ls)") (auto dest: parse_hunk_header_length)

definition parse_unified_diff_files :: "string \<Rightarrow> bool \<Rightarrow> patch_error + file_patch list" where
  "parse_unified_diff_files patch create_if_missing = file_sections create_if_missing (str_lines patch) [] None None"

section \<open>The shape of a patch\<close>

definition push_unique :: "string \<Rightarrow> string list \<Rightarrow> string list" where
  "push_unique value target = (if value \<in> set target then target else target @ [value])"

definition hunk_line_counts_for_shape :: "string \<Rightarrow> (nat \<times> nat) option" where
  "hunk_line_counts_for_shape header =
     (let parts = split_whitespace header in
      if length parts < 3 then None
      else case parse_range (trim_start_char (CHR ''-'') (parts ! 1)) of
        Inl _ \<Rightarrow> None
      | Inr (_, old_count) \<Rightarrow>
          (case parse_range (trim_start_char (CHR ''+'') (parts ! 2)) of
             Inl _ \<Rightarrow> None
           | Inr (_, new_count) \<Rightarrow> Some (old_count, new_count)))"

definition advance_hunk_shape_counts :: "string \<Rightarrow> nat \<times> nat \<Rightarrow> nat \<times> nat" where
  "advance_hunk_shape_counts line r =
     (if prefix [CHR 0x5C] line then r
      else if prefix ''+'' line then (fst r, snd r - 1)
      else if prefix ''-'' line then (fst r - 1, snd r)
      else (fst r - 1, snd r - 1))"

record shape_state =
  ss_shape :: patch_shape
  ss_old_path :: "string option"
  ss_remaining :: "nat \<times> nat"

definition shape_line :: "shape_state \<Rightarrow> string \<Rightarrow> shape_state" where
  "shape_line s line =
     (if prefix ''@@'' line
      then s\<lparr>ss_shape := (ss_shape s)\<lparr>ps_has_hunks := True\<rparr>,
             ss_remaining := unwrap_or (ss_remaining s) (hunk_line_counts_for_shape line)\<rparr>
      else if fst (ss_remaining s) > 0 \<or> snd (ss_remaining s) > 0
      then s\<lparr>ss_remaining := advance_hunk_shape_counts line (ss_remaining s)\<rparr>
      else if prefix ''--- '' line then s\<lparr>ss_old_path := normalize_diff_path (drop 4 line)\<rparr>
      else if prefix ''+++ '' line
      then (let shape = ss_shape s in
        s\<lparr>ss_shape := (case or_else (normalize_diff_path (drop 4 line)) (ss_old_path s) of
             None \<Rightarrow> shape
           | Some path \<Rightarrow> shape\<lparr>ps_header_files := push_unique path (ps_header_files shape)\<rparr>),
          ss_old_path := None\<rparr>)
      else s)"

definition inspect_patch_shape :: "string \<Rightarrow> patch_shape" where
  "inspect_patch_shape patch =
     ss_shape (foldl shape_line
       \<lparr>ss_shape = \<lparr>ps_has_hunks = False, ps_header_files = []\<rparr>, ss_old_path = None, ss_remaining = (0, 0)\<rparr>
       (str_lines patch))"

definition file_count :: "patch_shape \<Rightarrow> nat" where
  "file_count shape = length (ps_header_files shape)"

definition validate_patch_shape :: "patch_shape \<Rightarrow> string option \<Rightarrow> patch_error + unit" where
  "validate_patch_shape shape path_override =
     (if \<not> ps_has_hunks shape then Inl NoHunkHeader
      else case path_override of
        Some _ \<Rightarrow> if file_count shape > 1 then Inl (SeveralFilesWithPath (ps_header_files shape)) else Inr ()
      | None \<Rightarrow> if file_count shape = 0 then Inl NoFileHeaders else Inr ())"

definition diff_header_mismatch :: "string \<Rightarrow> patch_shape \<Rightarrow> string option" where
  "diff_header_mismatch path_override shape =
     (if file_count shape \<noteq> 1 then None
      else let header_path = ps_header_files shape ! 0;
               override_norm = unwrap_or path_override (normalize_diff_path path_override) in
        if override_norm = header_path then None
        else Some (''Note: patch headers reference `'' @ header_path @ ''` but `path` overrides to `'' @ override_norm @ ''`.''))"

section \<open>The preflight\<close>

fun json_as_bool :: "json \<Rightarrow> bool option" where
  "json_as_bool (JBool b) = Some b"
| "json_as_bool _ = None"

definition optional_bool :: "json \<Rightarrow> string \<Rightarrow> bool \<Rightarrow> bool" where
  "optional_bool v k d = unwrap_or d (json_field v k json_as_bool)"

definition optional_str :: "json \<Rightarrow> string \<Rightarrow> string option" where
  "optional_str v k = json_field v k json_as_str"

definition required_str :: "json \<Rightarrow> string \<Rightarrow> patch_error + string" where
  "required_str v k = (case json_field v k json_as_str of None \<Rightarrow> Inl (MissingField k) | Some s \<Rightarrow> Inr s)"

definition change_parts :: "json \<Rightarrow> patch_error + string \<times> string" where
  "change_parts change =
     (case json_field change ''path'' json_as_str of
        None \<Rightarrow> Inl (MissingField ''changes[].path'')
      | Some path \<Rightarrow>
          (case json_field change ''content'' json_as_str of
             None \<Rightarrow> Inl (MissingField ''changes[].content'')
           | Some content \<Rightarrow> Inr (path, content)))"

fun change_paths :: "json list \<Rightarrow> string list \<Rightarrow> patch_error + string list" where
  "change_paths [] touched = Inr touched"
| "change_paths (change # changes) touched =
     (case change_parts change of
        Inl e \<Rightarrow> Inl e
      | Inr (path, _) \<Rightarrow> change_paths changes (push_unique path touched))"

definition preflight_changes :: "json \<Rightarrow> patch_error + patch_preflight" where
  "preflight_changes v =
     (case json_as_array v of
        None \<Rightarrow> Inl ChangesNotArray
      | Some changes \<Rightarrow>
          if changes = [] then Inl ChangesEmpty
          else case change_paths changes [] of
            Inl e \<Rightarrow> Inl e
          | Inr touched \<Rightarrow>
              Inr \<lparr>pp_touched_files = touched, pp_files_total = length changes, pp_hunks_total = 0, pp_creates = [],
                   pp_deletes = [], pp_path_override = None, pp_header_path_mismatch = None\<rparr>)"

text \<open>The first section without hunks is reported; otherwise the paths are collected in their order.\<close>

definition note_section :: "patch_preflight \<Rightarrow> file_patch \<Rightarrow> patch_preflight" where
  "note_section p f =
     p\<lparr>pp_touched_files := push_unique (fp_path f) (pp_touched_files p),
       pp_hunks_total := pp_hunks_total p + length (fp_hunks f),
       pp_creates := (if fp_create_if_missing f \<and> \<not> fp_delete_after f then push_unique (fp_path f) (pp_creates p)
         else pp_creates p),
       pp_deletes := (if fp_delete_after f then push_unique (fp_path f) (pp_deletes p) else pp_deletes p)\<rparr>"

definition preflight_sections :: "file_patch list \<Rightarrow> string option \<Rightarrow> patch_error + patch_preflight" where
  "preflight_sections files mismatch =
     (case List.find (\<lambda>f. fp_hunks f = []) files of
        Some f \<Rightarrow> Inl (SectionWithoutHunks (fp_path f))
      | None \<Rightarrow>
          Inr (foldl note_section
            \<lparr>pp_touched_files = [], pp_files_total = length files, pp_hunks_total = 0, pp_creates = [],
             pp_deletes = [], pp_path_override = None, pp_header_path_mismatch = mismatch\<rparr> files))"

definition preflight_override ::
    "string \<Rightarrow> string \<Rightarrow> bool \<Rightarrow> string option \<Rightarrow> patch_error + patch_preflight \<times> preflight_kind" where
  "preflight_override path patch create_if_missing mismatch =
     (case parse_unified_diff patch of
        Inl e \<Rightarrow> Inl e
      | Inr hunks \<Rightarrow>
          if hunks = [] then Inl NoHunks
          else Inr (\<lparr>pp_touched_files = [path], pp_files_total = 1, pp_hunks_total = length hunks,
                 pp_creates = (if create_if_missing then [path] else []), pp_deletes = [],
                 pp_path_override = Some path, pp_header_path_mismatch = mismatch\<rparr>, PathOverride path hunks))"

definition preflight_patch :: "string \<Rightarrow> string option \<Rightarrow> bool \<Rightarrow> patch_error + patch_preflight \<times> preflight_kind" where
  "preflight_patch patch path_override create_if_missing =
     (let shape = inspect_patch_shape patch in
      case validate_patch_shape shape path_override of
        Inl e \<Rightarrow> Inl e
      | Inr _ \<Rightarrow>
          (let mismatch = option_bind path_override (\<lambda>path. diff_header_mismatch path shape) in
           case path_override of
             Some path \<Rightarrow> preflight_override path patch create_if_missing mismatch
           | None \<Rightarrow>
               (case parse_unified_diff_files patch create_if_missing of
                  Inl e \<Rightarrow> Inl e
                | Inr files \<Rightarrow>
                    if files = [] then Inl NoFilePatches
                    else case preflight_sections files mismatch of
                      Inl e \<Rightarrow> Inl e
                    | Inr p \<Rightarrow> Inr (p, FilePatches files))))"

definition preflight_apply_patch_plan :: "json \<Rightarrow> patch_error + patch_preflight \<times> preflight_kind" where
  "preflight_apply_patch_plan v =
     (let create_if_missing = optional_bool v ''create_if_missing'' False in
      case json_get v ''changes'' of
        Some changes \<Rightarrow>
          (case preflight_changes changes of Inl e \<Rightarrow> Inl e | Inr p \<Rightarrow> Inr (p, ChangesInput))
      | None \<Rightarrow>
          (case required_str v ''patch'' of
             Inl e \<Rightarrow> Inl e
           | Inr patch \<Rightarrow> preflight_patch patch (optional_str v ''path'') create_if_missing))"

definition preflight_apply_patch :: "json \<Rightarrow> patch_error + patch_preflight" where
  "preflight_apply_patch v = map_sum (\<lambda>e. e) fst (preflight_apply_patch_plan v)"

end
