(* ===== verification/Patch_Apply.thy ===== *)
theory Patch_Apply
  imports Patch_Text
begin

text \<open>
  Applying a patch (\<open>crates/tui/src/tools/apply_patch.rs\<close>): hunks on the lines of a file with fuzzy
  positions, the planned writes, and their execution with a roll-back. The resolution of a path and the
  outcome of each change of the file system are given by the environment; directories that were created and
  the diagnostics of a language server are left out.
\<close>

section \<open>Hunks on lines\<close>

fun old_line :: "hunk_line \<Rightarrow> string list" where
  "old_line (ContextLine s) = [s]"
| "old_line (RemoveLine s) = [s]"
| "old_line (AddLine s) = []"

fun new_line :: "hunk_line \<Rightarrow> string list" where
  "new_line (ContextLine s) = [s]"
| "new_line (AddLine s) = [s]"
| "new_line (RemoveLine s) = []"

definition old_lines :: "hunk \<Rightarrow> string list" where
  "old_lines h = concat (map old_line (hk_lines h))"

definition new_lines :: "hunk \<Rightarrow> string list" where
  "new_lines h = concat (map new_line (hk_lines h))"

definition matches_at_position :: "string list \<Rightarrow> string list \<Rightarrow> nat \<Rightarrow> bool" where
  "matches_at_position lines old pos \<longleftrightarrow>
     (if pos + length old > length lines then False
      else list_all (\<lambda>i. trim_end (lines ! (pos + i)) = trim_end (old ! i)) [0..<length old])"

text \<open>The line a hunk is looked for first: \<open>checked_add_signed\<close> on \<open>usize\<close>, then clamped.\<close>

definition hunk_start :: "nat \<Rightarrow> hunk \<Rightarrow> int \<Rightarrow> nat" where
  "hunk_start len h offset =
     (let s = int (hk_old_start h - 1) + offset in min (if 0 \<le> s \<and> s < 2 ^ 64 then nat s else 0) len)"

definition search_range :: "nat \<Rightarrow> nat \<Rightarrow> nat \<Rightarrow> nat list" where
  "search_range len start fuzz = (if fuzz = 0 then [start] else [start - fuzz ..< Suc (min (start + fuzz) len)])"

definition candidates :: "nat \<Rightarrow> nat \<Rightarrow> nat \<Rightarrow> (nat \<times> nat) list" where
  "candidates len start max_fuzz = concat (map (\<lambda>f. map (Pair f) (search_range len start f)) [0..<Suc max_fuzz])"

definition apply_hunk :: "string list \<Rightarrow> hunk \<Rightarrow> nat \<Rightarrow> int \<Rightarrow> apply_hunk_error + nat \<times> string list \<times> int" where
  "apply_hunk lines h max_fuzz offset =
     (let old = old_lines h; new = new_lines h; start = hunk_start (length lines) h offset in
      case List.find (\<lambda>(f, pos). matches_at_position lines old pos) (candidates (length lines) start max_fuzz) of
        Some (f, pos) \<Rightarrow>
          Inr (f, take pos lines @ new @ drop (pos + length old) lines, offset + (int (length new) - int (length old)))
      | None \<Rightarrow>
          if old = [] \<and> (lines = [] \<or> length lines \<le> start)
          then Inr (0, lines @ new, offset + int (length new))
          else Inl \<lparr>ah_expected_line = hk_old_start h, ah_adjusted_line = start + 1, ah_offset = offset\<rparr>)"

section \<open>The message of a hunk that does not apply\<close>

definition hunk_preview_lines :: nat where
  "hunk_preview_lines = 4"

definition snippet_radius :: nat where
  "snippet_radius = 2"

definition newline_char :: string where
  "newline_char = [CHR 0x0A]"

fun preview_line :: "hunk_line \<Rightarrow> string list" where
  "preview_line (ContextLine s) = [''   '' @ s]"
| "preview_line (RemoveLine s) = [''  -'' @ s]"
| "preview_line (AddLine s) = []"

definition preview_expected_lines :: "hunk \<Rightarrow> nat \<Rightarrow> string list" where
  "preview_expected_lines h limit =
     (let preview = take limit (concat (map preview_line (hk_lines h))) in
      if preview = [] then [''  <no context lines in hunk>''] else preview)"

definition pad_left :: "nat \<Rightarrow> string \<Rightarrow> string" where
  "pad_left n s = replicate (n - length s) (CHR '' '') @ s"

definition snippet_around :: "string list \<Rightarrow> nat \<Rightarrow> nat \<Rightarrow> string list" where
  "snippet_around lines line_1_based radius =
     (if lines = [] then [''  <empty file>'']
      else
        let center = min (line_1_based - 1) (length lines - 1); start = center - radius;
            end_pos = min (center + radius) (length lines - 1) in
        map (\<lambda>(idx, line). ''  '' @ pad_left 4 (show_nat (start + idx + 1)) @ '': '' @ line)
          (enumerate 0 (take (end_pos + 1 - start) (drop start lines))))"

definition show_signed :: "int \<Rightarrow> string" where
  "show_signed i = (if i < 0 then show_int i else ''+'' @ show_int i)"

definition format_hunk_no_match_error :: "string list \<Rightarrow> hunk \<Rightarrow> apply_hunk_error \<Rightarrow> nat \<Rightarrow> string" where
  "format_hunk_no_match_error lines h err max_fuzz =
     ''could not find matching context near line '' @ show_nat (ah_expected_line err) @ '' (searched around line ''
     @ show_nat (ah_adjusted_line err) @ '' with offset '' @ show_signed (ah_offset err) @ '' and fuzz up to ''
     @ show_nat max_fuzz @ ''). Expected context preview:'' @ newline_char
     @ join_str newline_char (preview_expected_lines h hunk_preview_lines) @ newline_char
     @ ''File snippet near line '' @ show_nat (ah_adjusted_line err) @ '':'' @ newline_char
     @ join_str newline_char (snippet_around lines (ah_adjusted_line err) snippet_radius) @ newline_char
     @ ''Hints: ensure the patch matches the current file contents, increase `fuzz`, or regenerate the patch.''"

section \<open>All hunks of a file\<close>

record hunk_stats =
  hs_hunks_applied :: nat
  hs_fuzz_used :: nat
  hs_hunks_with_fuzz :: nat

definition no_hunk_stats :: hunk_stats where
  "no_hunk_stats = \<lparr>hs_hunks_applied = 0, hs_fuzz_used = 0, hs_hunks_with_fuzz = 0\<rparr>"

definition count_hunk :: "nat \<Rightarrow> hunk_stats \<Rightarrow> hunk_stats" where
  "count_hunk f st =
     \<lparr>hs_hunks_applied = hs_hunks_applied st + 1, hs_fuzz_used = hs_fuzz_used st + f,
      hs_hunks_with_fuzz = (if f > 0 then hs_hunks_with_fuzz st + 1 else hs_hunks_with_fuzz st)\<rparr>"

fun apply_hunks_from ::
    "nat \<Rightarrow> nat \<Rightarrow> string \<Rightarrow> nat \<Rightarrow> hunk list \<Rightarrow> string list \<Rightarrow> int \<Rightarrow> hunk_stats \<Rightarrow> patch_error + string list \<times> hunk_stats"
where
  "apply_hunks_from count fuzz label idx [] lines offset st = Inr (lines, st)"
| "apply_hunks_from count fuzz label idx (h # hs) lines offset st =
     (case apply_hunk lines h fuzz offset of
        Inl e \<Rightarrow> Inl (HunkFailed (idx + 1) count label (format_hunk_no_match_error lines h e fuzz))
      | Inr (f, lines', offset') \<Rightarrow> apply_hunks_from count fuzz label (idx + 1) hs lines' offset' (count_hunk f st))"

definition apply_hunks_to_lines :: "string list \<Rightarrow> hunk list \<Rightarrow> nat \<Rightarrow> string \<Rightarrow> patch_error + string list \<times> hunk_stats" where
  "apply_hunks_to_lines lines hunks fuzz file_label =
     apply_hunks_from (length hunks) fuzz file_label 0 hunks lines 0 no_hunk_stats"

definition crlf :: string where
  "crlf = [CHR 0x0D, CHR 0x0A]"

definition reassemble_preserving_newlines :: "string list \<Rightarrow> string \<Rightarrow> string" where
  "reassemble_preserving_newlines lines base_content =
     (if lines = [] then []
      else let terminator = (if contains_str crlf base_content then crlf else newline_char) in
        join_str terminator lines @ (if base_content = [] \<or> suffix newline_char base_content then terminator else []))"

section \<open>The planned writes\<close>

text \<open>Anything that is not a readable text file, a directory too, exists and cannot be read.\<close>

datatype file_node = TextFile string | OtherNode

type_synonym file_system = "string \<Rightarrow> file_node option"

record patch_env =
  pe_resolve :: "string \<Rightarrow> string option"
  pe_dirs_fail :: "nat \<Rightarrow> bool"
  pe_write_fails :: "nat \<Rightarrow> bool"
  pe_delete_fails :: "nat \<Rightarrow> bool"
  pe_undo_fails :: "nat \<Rightarrow> bool"

record pending_write =
  pw_path :: string
  pw_content :: "string option"
  pw_original :: "string option"

record file_summary =
  fsu_path :: string
  fsu_hunks :: nat
  fsu_hunks_applied :: nat
  fsu_fuzz_used :: nat
  fsu_hunks_with_fuzz :: nat
  fsu_created :: bool
  fsu_deleted :: bool

record patch_stats =
  st_files_applied :: nat
  st_files_total :: nat
  st_hunks_applied :: nat
  st_hunks_total :: nat
  st_fuzz_used :: nat
  st_hunks_with_fuzz :: nat
  st_touched_files :: "string list"
  st_file_summaries :: "file_summary list"
  st_header_path_mismatch :: "string option"

definition no_patch_stats :: "nat \<Rightarrow> patch_stats" where
  "no_patch_stats count =
     \<lparr>st_files_applied = 0, st_files_total = count, st_hunks_applied = 0, st_hunks_total = 0, st_fuzz_used = 0,
      st_hunks_with_fuzz = 0, st_touched_files = [], st_file_summaries = [], st_header_path_mismatch = None\<rparr>"

definition read_original :: "file_system \<Rightarrow> string \<Rightarrow> patch_error + string option" where
  "read_original fs path =
     (case fs path of
        None \<Rightarrow> Inr None
      | Some (TextFile s) \<Rightarrow> Inr (Some s)
      | Some OtherNode \<Rightarrow> Inl (ReadFailed path))"

definition resolve_target :: "patch_env \<Rightarrow> file_system \<Rightarrow> string \<Rightarrow> patch_error + string \<times> string option" where
  "resolve_target env fs path =
     (case pe_resolve env path of
        None \<Rightarrow> Inl (PathRefused path)
      | Some resolved \<Rightarrow> map_sum (\<lambda>e. e) (Pair resolved) (read_original fs resolved))"

definition note_change :: "string \<Rightarrow> bool \<Rightarrow> patch_stats \<Rightarrow> patch_stats" where
  "note_change path created st =
     st\<lparr>st_files_total := st_files_total st + 1, st_files_applied := st_files_applied st + 1,
        st_touched_files := push_unique path (st_touched_files st),
        st_file_summaries := st_file_summaries st @
          [\<lparr>fsu_path = path, fsu_hunks = 0, fsu_hunks_applied = 0, fsu_fuzz_used = 0, fsu_hunks_with_fuzz = 0,
            fsu_created = created, fsu_deleted = False\<rparr>]\<rparr>"

fun plan_changes ::
    "patch_env \<Rightarrow> file_system \<Rightarrow> json list \<Rightarrow> pending_write list \<Rightarrow> patch_stats
       \<Rightarrow> patch_error + pending_write list \<times> patch_stats" where
  "plan_changes env fs [] pending st = Inr (pending, st)"
| "plan_changes env fs (change # changes) pending st =
     (case change_parts change of
        Inl e \<Rightarrow> Inl e
      | Inr (path, content) \<Rightarrow>
          (case resolve_target env fs path of
             Inl e \<Rightarrow> Inl e
           | Inr (resolved, original) \<Rightarrow>
               plan_changes env fs changes
                 (pending @ [\<lparr>pw_path = resolved, pw_content = Some content, pw_original = original\<rparr>])
                 (note_change path (original = None) st)))"

definition build_pending_writes_from_changes ::
    "patch_env \<Rightarrow> file_system \<Rightarrow> json \<Rightarrow> patch_error + pending_write list \<times> patch_stats" where
  "build_pending_writes_from_changes env fs v =
     (case json_as_array v of
        None \<Rightarrow> Inl ChangesNotArray
      | Some changes \<Rightarrow>
          if changes = [] then Inl ChangesEmpty else plan_changes env fs changes [] (no_patch_stats 0))"

definition note_patch :: "file_patch \<Rightarrow> bool \<Rightarrow> hunk_stats \<Rightarrow> patch_stats \<Rightarrow> patch_stats" where
  "note_patch f created hs st =
     st\<lparr>st_hunks_applied := st_hunks_applied st + hs_hunks_applied hs,
        st_hunks_total := st_hunks_total st + length (fp_hunks f),
        st_fuzz_used := st_fuzz_used st + hs_fuzz_used hs,
        st_hunks_with_fuzz := st_hunks_with_fuzz st + hs_hunks_with_fuzz hs,
        st_files_applied := st_files_applied st + 1,
        st_touched_files := push_unique (fp_path f) (st_touched_files st),
        st_file_summaries := st_file_summaries st @
          [\<lparr>fsu_path = fp_path f, fsu_hunks = length (fp_hunks f), fsu_hunks_applied = hs_hunks_applied hs,
            fsu_fuzz_used = hs_fuzz_used hs, fsu_hunks_with_fuzz = hs_hunks_with_fuzz hs,
            fsu_created = created, fsu_deleted = fp_delete_after f\<rparr>]\<rparr>"

text \<open>One section: every section reads the file as it is on disk.\<close>

definition plan_section ::
    "patch_env \<Rightarrow> file_system \<Rightarrow> nat \<Rightarrow> file_patch \<Rightarrow> patch_error + pending_write \<times> bool \<times> hunk_stats" where
  "plan_section env fs fuzz f =
     (if fp_hunks f = [] then Inl (SectionWithoutHunks (fp_path f))
      else case resolve_target env fs (fp_path f) of
        Inl e \<Rightarrow> Inl e
      | Inr (resolved, original) \<Rightarrow>
          if original = None \<and> \<not> fp_create_if_missing f then Inl (FileMissing (fp_path f) resolved)
          else if fp_delete_after f \<and> original = None then Inl (NothingToDelete (fp_path f) resolved)
          else
            let base = unwrap_or [] original in
            (case apply_hunks_to_lines (str_lines base) (fp_hunks f) fuzz (fp_path f) of
               Inl e \<Rightarrow> Inl e
             | Inr (lines, hs) \<Rightarrow>
                 Inr (\<lparr>pw_path = resolved,
                       pw_content = (if fp_delete_after f then None else Some (reassemble_preserving_newlines lines base)),
                       pw_original = original\<rparr>,
                      original = None \<and> \<not> fp_delete_after f, hs)))"

fun plan_sections ::
    "patch_env \<Rightarrow> file_system \<Rightarrow> nat \<Rightarrow> file_patch list \<Rightarrow> pending_write list \<Rightarrow> patch_stats
       \<Rightarrow> patch_error + pending_write list \<times> patch_stats" where
  "plan_sections env fs fuzz [] pending st = Inr (pending, st)"
| "plan_sections env fs fuzz (f # files) pending st =
     (case plan_section env fs fuzz f of
        Inl e \<Rightarrow> Inl e
      | Inr (w, created, hs) \<Rightarrow> plan_sections env fs fuzz files (pending @ [w]) (note_patch f created hs st))"

definition build_pending_writes_from_patches ::
    "patch_env \<Rightarrow> file_system \<Rightarrow> file_patch list \<Rightarrow> nat \<Rightarrow> patch_error + pending_write list \<times> patch_stats" where
  "build_pending_writes_from_patches env fs files fuzz = plan_sections env fs fuzz files [] (no_patch_stats (length files))"

section \<open>The writes and their roll-back\<close>

definition put_file :: "string \<Rightarrow> string option \<Rightarrow> file_system \<Rightarrow> file_system" where
  "put_file path content fs = fs(path := map_option TextFile content)"

definition apply_entry :: "patch_env \<Rightarrow> nat \<Rightarrow> pending_write \<Rightarrow> file_system \<Rightarrow> patch_error + file_system" where
  "apply_entry env n w fs =
     (case pw_content w of
        Some content \<Rightarrow>
          if pe_dirs_fail env n then Inl (CreateDirFailed (pw_path w))
          else if pe_write_fails env n then Inl (WriteFailed (pw_path w))
          else Inr (put_file (pw_path w) (Some content) fs)
      | None \<Rightarrow>
          if fs (pw_path w) \<noteq> None
          then if pe_delete_fails env n then Inl (DeleteFailed (pw_path w)) else Inr (put_file (pw_path w) None fs)
          else Inr fs)"

text \<open>Newest first; a failure is ignored.\<close>

fun rollback_pending_writes :: "patch_env \<Rightarrow> nat \<Rightarrow> pending_write list \<Rightarrow> file_system \<Rightarrow> file_system" where
  "rollback_pending_writes env n [] fs = fs"
| "rollback_pending_writes env n (w # ws) fs =
     rollback_pending_writes env (n + 1) ws
       (if pe_undo_fails env n then fs else put_file (pw_path w) (pw_original w) fs)"

fun apply_writes ::
    "patch_env \<Rightarrow> nat \<Rightarrow> pending_write list \<Rightarrow> pending_write list \<Rightarrow> file_system \<Rightarrow> patch_error option \<times> file_system" where
  "apply_writes env n applied [] fs = (None, fs)"
| "apply_writes env n applied (w # ws) fs =
     (case apply_entry env n w fs of
        Inl e \<Rightarrow> (Some e, rollback_pending_writes env 0 (rev applied) fs)
      | Inr fs' \<Rightarrow> apply_writes env (n + 1) (applied @ [w]) ws fs')"

definition apply_pending_writes :: "patch_env \<Rightarrow> pending_write list \<Rightarrow> file_system \<Rightarrow> patch_error option \<times> file_system" where
  "apply_pending_writes env pending fs = apply_writes env 0 [] pending fs"

section \<open>The summary and the call\<close>

definition file_list_limit :: nat where
  "file_list_limit = 6"

definition format_file_list :: "string list \<Rightarrow> string" where
  "format_file_list files =
     (if files = [] then ''<none>''
      else let shown = take file_list_limit files; remaining = length files - length shown in
        join_str '', '' (shown @ (if remaining > 0 then [''... (+'' @ show_nat remaining @ '' more)''] else [])))"

definition build_summary_message :: "patch_stats \<Rightarrow> string" where
  "build_summary_message st =
     join_str '' ''
       ((if st_hunks_total st > 0
         then [''Applied '' @ show_nat (st_hunks_applied st) @ ''/'' @ show_nat (st_hunks_total st)
           @ '' hunks across '' @ show_nat (st_files_applied st) @ '' file(s).'']
         else [''Applied '' @ show_nat (st_files_applied st) @ '' file change(s).''])
        @ (if st_touched_files st = [] then [] else [''Files: '' @ format_file_list (st_touched_files st) @ ''.''])
        @ (if st_fuzz_used st > 0
           then [''Fuzz used on '' @ show_nat (st_hunks_with_fuzz st) @ '' hunk(s) (total fuzz: ''
             @ show_nat (st_fuzz_used st) @ '').''] else [])
        @ (case st_header_path_mismatch st of None \<Rightarrow> [] | Some note \<Rightarrow> [note]))"

definition max_fuzz_lines :: nat where
  "max_fuzz_lines = 50"

definition default_fuzz :: nat where
  "default_fuzz = 3"

definition requested_fuzz :: "json \<Rightarrow> nat" where
  "requested_fuzz v = min (case json_field v ''fuzz'' json_as_u64 of None \<Rightarrow> default_fuzz | Some w \<Rightarrow> unat w) max_fuzz_lines"

record patch_result =
  pr_stats :: patch_stats
  pr_message :: string
  pr_preflight :: patch_preflight

definition finish_patch ::
    "patch_env \<Rightarrow> patch_preflight \<Rightarrow> pending_write list \<times> patch_stats \<Rightarrow> file_system
       \<Rightarrow> (patch_error + patch_result) \<times> file_system" where
  "finish_patch env p planned fs =
     (case apply_pending_writes env (fst planned) fs of
        (Some e, fs') \<Rightarrow> (Inl e, fs')
      | (None, fs') \<Rightarrow>
          (Inr \<lparr>pr_stats = snd planned, pr_message = build_summary_message (snd planned), pr_preflight = p\<rparr>, fs'))"

definition plan_patch ::
    "patch_env \<Rightarrow> json \<Rightarrow> file_system \<Rightarrow> patch_error + patch_preflight \<times> pending_write list \<times> patch_stats" where
  "plan_patch env v fs =
     (case preflight_apply_patch_plan v of
        Inl e \<Rightarrow> Inl e
      | Inr (p, kind) \<Rightarrow>
          (case json_get v ''changes'' of
             Some changes \<Rightarrow> map_sum (\<lambda>e. e) (Pair p) (build_pending_writes_from_changes env fs changes)
           | None \<Rightarrow>
               (let files = (case kind of
                    ChangesInput \<Rightarrow> []
                  | PathOverride path hunks \<Rightarrow> [\<lparr>fp_path = path, fp_hunks = hunks, fp_delete_after = False,
                      fp_create_if_missing = optional_bool v ''create_if_missing'' False\<rparr>]
                  | FilePatches fps \<Rightarrow> fps) in
                map_sum (\<lambda>e. e)
                  (\<lambda>(pending, st). (p, pending, st\<lparr>st_header_path_mismatch := pp_header_path_mismatch p\<rparr>))
                  (build_pending_writes_from_patches env fs files (requested_fuzz v)))))"

definition execute_apply_patch :: "patch_env \<Rightarrow> json \<Rightarrow> file_system \<Rightarrow> (patch_error + patch_result) \<times> file_system" where
  "execute_apply_patch env v fs =
     (case plan_patch env v fs of
        Inl e \<Rightarrow> (Inl e, fs)
      | Inr (p, planned) \<Rightarrow> finish_patch env p planned fs)"

end
