(* ===== verification/Patch_Hunks.thy ===== *)
theory Patch_Hunks
  imports Patch_Apply
begin

text \<open>
  Where a hunk lands, and what a diff that describes the file exactly makes of it.
\<close>

section \<open>The nearest position\<close>

lemma find_append:
  "List.find P (xs @ ys) = (case List.find P xs of None \<Rightarrow> List.find P ys | Some x \<Rightarrow> Some x)"
  by (induction xs) auto

lemma find_concat_map:
  "List.find P (concat (map g fs)) = Some x \<Longrightarrow>
     \<exists>us f vs. fs = us @ f # vs \<and> x \<in> set (g f) \<and> P x \<and> (\<forall>u \<in> set us. \<forall>y \<in> set (g u). \<not> P y)"
proof (induction fs)
  case (Cons f fs)
  show ?case
  proof (cases "List.find P (g f)")
    case None
    with Cons.prems have "List.find P (concat (map g fs)) = Some x" by (simp add: find_append)
    from Cons.IH [OF this] obtain us f' vs where r: "fs = us @ f' # vs" "x \<in> set (g f')" "P x"
      "\<forall>u \<in> set us. \<forall>y \<in> set (g u). \<not> P y" by blast
    have "f # fs = (f # us) @ f' # vs" by (simp add: r(1))
    moreover have "\<forall>u \<in> set (f # us). \<forall>y \<in> set (g u). \<not> P y" using r(4) None by (auto simp: find_None_iff)
    ultimately show ?thesis using r(2,3) by blast
  next
    case (Some y)
    with Cons.prems have "y = x" by (simp add: find_append)
    with Some have "x \<in> set (g f)" "P x" by (auto simp: find_Some_iff)
    moreover have "f # fs = [] @ f # fs" by simp
    ultimately show ?thesis by (metis empty_iff empty_set)
  qed
qed simp

lemma upt_split: "[0..<n] = us @ f # vs \<Longrightarrow> f < n \<and> us = [0..<f]"
proof -
  assume e: "[0..<n] = us @ f # vs"
  have l: "length us < n" using arg_cong [OF e, of length] by simp
  then have "f = length us" using arg_cong [OF e, of "\<lambda>xs. xs ! length us"] by simp
  moreover have "us = take (length us) [0..<n]" using e by simp
  ultimately show ?thesis using l by (simp add: take_upt)
qed

definition line_distance :: "nat \<Rightarrow> nat \<Rightarrow> nat" where
  "line_distance a b = (a - b) + (b - a)"

lemma search_range_set:
  "start \<le> len \<Longrightarrow> pos \<in> set (search_range len start f) \<longleftrightarrow> pos \<le> len \<and> line_distance pos start \<le> f"
  by (auto simp: search_range_def line_distance_def)

lemma hunk_start_le: "hunk_start len h offset \<le> len"
  by (simp add: hunk_start_def Let_def)

lemma matches_within: "matches_at_position lines old pos \<Longrightarrow> pos \<le> length lines"
  by (simp add: matches_at_position_def split: if_splits)

lemma find_candidates_Some:
  assumes "List.find (\<lambda>(f, pos). matches_at_position lines old pos) (candidates (length lines) start m) = Some (f, pos)"
    and "start \<le> length lines"
  shows "matches_at_position lines old pos \<and> line_distance pos start = f \<and> f \<le> m
    \<and> {p. matches_at_position lines old p \<and> line_distance p start < f} = {}"
proof -
  from find_concat_map [OF assms(1) [unfolded candidates_def]] obtain us f' vs where
    s: "[0..<Suc m] = us @ f' # vs" and x: "(f, pos) \<in> set (map (Pair f') (search_range (length lines) start f'))"
    and m: "matches_at_position lines old pos"
    and no: "\<forall>u \<in> set us. \<forall>y \<in> set (map (Pair u) (search_range (length lines) start u)).
      \<not> (case y of (f, pos) \<Rightarrow> matches_at_position lines old pos)"
    by auto
  from upt_split [OF s] have us: "f' < Suc m" "us = [0..<f']" by simp_all
  from x have ff: "f' = f" and r: "pos \<in> set (search_range (length lines) start f)" by auto
  have none: "\<not> matches_at_position lines old p" if d: "line_distance p start < f" for p
  proof
    assume p: "matches_at_position lines old p"
    have "p \<in> set (search_range (length lines) start (line_distance p start))"
      using search_range_set [OF assms(2)] matches_within [OF p] by simp
    moreover have "line_distance p start \<in> set us" using us ff d by simp
    ultimately show False using no p by fastforce
  qed
  have "line_distance pos start \<le> f" using r search_range_set [OF assms(2)] by simp
  with none m have "line_distance pos start = f" using le_neq_implies_less by blast
  with m us(1) ff none show ?thesis by auto
qed

lemma find_candidates_None:
  assumes "List.find (\<lambda>(f, pos). matches_at_position lines old pos) (candidates (length lines) start m) = None"
    and "start \<le> length lines"
  shows "{p. matches_at_position lines old p \<and> line_distance p start \<le> m} = {}"
proof -
  have "\<not> matches_at_position lines old p" if d: "line_distance p start \<le> m" for p
  proof
    assume p: "matches_at_position lines old p"
    have "p \<in> set (search_range (length lines) start (line_distance p start))"
      using search_range_set [OF assms(2)] matches_within [OF p] by simp
    then have "(line_distance p start, p) \<in> set (candidates (length lines) start m)"
      using d by (force simp: candidates_def)
    with assms(1) p show False by (force simp: find_None_iff)
  qed
  then show ?thesis by blast
qed

lemma no_lines_match: "pos \<le> length lines \<Longrightarrow> matches_at_position lines [] pos"
  by (simp add: matches_at_position_def)

text \<open>C9. A hunk is applied at a position whose lines are its old lines, counted from zero, that no other
  such position is nearer to where the hunk, moved by the offset of the earlier hunks, expects itself; the
  distance is the reported fuzz and at most the allowed one, the lines there are replaced by the new lines
  and the offset grows by the difference in length. It is refused exactly when no position within the allowed
  fuzz has its lines.\<close>

theorem hunk_lands_nearest:
  "case apply_hunk lines h max_fuzz offset of
     Inr (f, lines', offset') \<Rightarrow>
       (\<exists>pos. matches_at_position lines (old_lines h) pos
          \<and> f = line_distance pos (hunk_start (length lines) h offset) \<and> f \<le> max_fuzz
          \<and> lines' = take pos lines @ new_lines h @ drop (pos + length (old_lines h)) lines
          \<and> offset' = offset + (int (length lines') - int (length lines)))
       \<and> {p. matches_at_position lines (old_lines h) p
            \<and> line_distance p (hunk_start (length lines) h offset) < f} = {}
   | Inl e \<Rightarrow>
       {p. matches_at_position lines (old_lines h) p
          \<and> line_distance p (hunk_start (length lines) h offset) \<le> max_fuzz} = {}
       \<and> e = \<lparr>ah_expected_line = hk_old_start h, ah_adjusted_line = hunk_start (length lines) h offset + 1,
             ah_offset = offset\<rparr>"
proof -
  let ?start = "hunk_start (length lines) h offset" and ?old = "old_lines h"
  note s = hunk_start_le [of "length lines" h offset]
  show ?thesis
  proof (cases "List.find (\<lambda>(f, pos). matches_at_position lines ?old pos) (candidates (length lines) ?start max_fuzz)")
    case None
    note n = find_candidates_None [OF None s]
    have "\<not> matches_at_position lines ?old ?start" using n by (auto simp: line_distance_def)
    then have "?old \<noteq> []" using no_lines_match [OF s] by metis
    with None n show ?thesis by (simp add: apply_hunk_def Let_def)
  next
    case (Some fp)
    obtain f pos where fp: "fp = (f, pos)" by (cases fp)
    note r = find_candidates_Some [OF Some [unfolded fp] s]
    have l: "pos + length ?old \<le> length lines" using r by (simp add: matches_at_position_def split: if_splits)
    have a: "apply_hunk lines h max_fuzz offset = Inr (f, take pos lines @ new_lines h @ drop (pos + length ?old) lines,
        offset + (int (length (new_lines h)) - int (length ?old)))"
      using Some by (simp add: apply_hunk_def Let_def fp)
    have "int (length (take pos lines @ new_lines h @ drop (pos + length ?old) lines)) - int (length lines)
        = int (length (new_lines h)) - int (length ?old)" using l by simp
    with r show ?thesis unfolding a by auto
  qed
qed

section \<open>Exact diffs\<close>

text \<open>A diff as kept lines and hunks in turn, with the lines after the last hunk.\<close>

fun old_side :: "(string list \<times> hunk) list \<Rightarrow> string list \<Rightarrow> string list" where
  "old_side [] rest = rest"
| "old_side ((keep, h) # es) rest = keep @ old_lines h @ old_side es rest"

fun new_side :: "(string list \<times> hunk) list \<Rightarrow> string list \<Rightarrow> string list" where
  "new_side [] rest = rest"
| "new_side ((keep, h) # es) rest = keep @ new_lines h @ new_side es rest"

text \<open>Every hunk states the line of the old file at which its old lines begin, and has some.\<close>

fun well_placed :: "nat \<Rightarrow> (string list \<times> hunk) list \<Rightarrow> bool" where
  "well_placed n [] \<longleftrightarrow> True"
| "well_placed n ((keep, h) # es) \<longleftrightarrow> old_lines h \<noteq> [] \<and> hk_old_start h = n + length keep + 1
     \<and> well_placed (n + length keep + length (old_lines h)) es"

lemma matches_exact: "matches_at_position (before @ old @ rest) old (length before)"
  by (simp add: matches_at_position_def nth_append list_all_length)

lemma apply_exact:
  assumes "hunk_start (length (before @ old_lines h @ rest)) h offset = length before"
  shows "apply_hunk (before @ old_lines h @ rest) h m offset
    = Inr (0, before @ new_lines h @ rest, offset + (int (length (new_lines h)) - int (length (old_lines h))))"
proof -
  let ?lines = "before @ old_lines h @ rest"
  have "candidates (length ?lines) (length before) m = (0, length before) #
      concat (map (\<lambda>f. map (Pair f) (search_range (length ?lines) (length before) f)) [1..<Suc m])"
    by (simp add: candidates_def upt_conv_Cons search_range_def del: upt_Suc)
  then have "List.find (\<lambda>(f, pos). matches_at_position ?lines (old_lines h) pos)
      (candidates (length ?lines) (length before) m) = Some (0, length before)"
    by (simp add: matches_exact)
  then show ?thesis unfolding apply_hunk_def Let_def assms by simp
qed

lemma apply_hunks_exact:
  assumes "well_placed n es" and "offset = int (length before) - int n"
    and "length before + length (new_side es rest) < 2 ^ 64"
  shows "apply_hunks_from count m label idx (map snd es) (before @ old_side es rest) offset st
    = Inr (before @ new_side es rest, st\<lparr>hs_hunks_applied := hs_hunks_applied st + length es\<rparr>)"
  using assms
proof (induction es arbitrary: n offset before idx st)
  case (Cons e es)
  obtain keep h where e: "e = (keep, h)" by (cases e)
  from Cons.prems(1) have h: "hk_old_start h = n + length keep + 1"
    and w: "well_placed (n + length keep + length (old_lines h)) es" by (simp_all add: e)
  have small: "length before + length keep < 2 ^ 64" using Cons.prems(3) by (simp add: e)
  have "int (hk_old_start h - 1) + offset = int (length before + length keep)" by (simp add: h Cons.prems(2))
  then have s: "hunk_start (length ((before @ keep) @ old_lines h @ old_side es rest)) h offset = length (before @ keep)"
    using small by (simp add: hunk_start_def)
  have "apply_hunks_from count m label (idx + 1) (map snd es) ((before @ keep @ new_lines h) @ old_side es rest)
      (offset + (int (length (new_lines h)) - int (length (old_lines h)))) (count_hunk 0 st)
    = Inr ((before @ keep @ new_lines h) @ new_side es rest,
        (count_hunk 0 st)\<lparr>hs_hunks_applied := hs_hunks_applied (count_hunk 0 st) + length es\<rparr>)"
    by (rule Cons.IH [OF w]) (use Cons.prems(2,3) in \<open>simp_all add: e\<close>)
  with apply_exact [OF s, of m] show ?case by (simp add: e count_hunk_def)
qed simp

text \<open>C14. A diff whose hunks name the places of their old lines applies without fuzz and gives the new side of
  the diff: the stretches between the hunks are kept, every hunk's old lines become its new lines, and the
  offset carried from hunk to hunk finds each later place, however the earlier hunks moved it.\<close>

theorem diff_applies_exactly:
  assumes "well_placed 0 es" and "length (new_side es rest) < 2 ^ 64"
  shows "apply_hunks_to_lines (old_side es rest) (map snd es) fuzz label
    = Inr (new_side es rest, \<lparr>hs_hunks_applied = length es, hs_fuzz_used = 0, hs_hunks_with_fuzz = 0\<rparr>)"
  using apply_hunks_exact [OF assms(1), of 0 "[]" rest "length es" fuzz label 0 no_hunk_stats] assms(2)
  by (simp add: apply_hunks_to_lines_def no_hunk_stats_def)

text \<open>The second hunk starts where the lines of the first have moved it.\<close>

definition sample_hunk :: "nat \<Rightarrow> hunk_line list \<Rightarrow> hunk" where
  "sample_hunk start ls = \<lparr>hk_old_start = start, hk_old_count = 0, hk_new_start = start, hk_new_count = 0, hk_lines = ls\<rparr>"

lemma diff_applies_exactly_witness:
  "apply_hunks_to_lines [''a'', ''b'', ''c'', ''d'']
      [sample_hunk 2 [RemoveLine ''b'', AddLine ''x'', AddLine ''y''], sample_hunk 4 [ContextLine ''d'', AddLine ''e'']] 3 ''f''
    = Inr ([''a'', ''x'', ''y'', ''c'', ''d'', ''e''], \<lparr>hs_hunks_applied = 2, hs_fuzz_used = 0, hs_hunks_with_fuzz = 0\<rparr>)"
  using diff_applies_exactly [of "[([''a''], sample_hunk 2 [RemoveLine ''b'', AddLine ''x'', AddLine ''y'']),
      ([''c''], sample_hunk 4 [ContextLine ''d'', AddLine ''e''])]" "[]" 3 "''f''"]
  by (simp add: sample_hunk_def old_lines_def new_lines_def)

text \<open>A hunk without old lines names the line after which it inserts; the code inserts before that line.\<close>

lemma insertion_one_early:
  "apply_hunk [''a'', ''b'', ''c''] (sample_hunk 2 [AddLine ''x'']) 3 0 = Inr (0, [''a'', ''x'', ''b'', ''c''], 1)"
  by code_simp

section \<open>Line endings\<close>

lemma str_lines_no_text [simp]: "str_lines [] = []"
  by (simp add: str_lines.simps)

lemma str_lines_first:
  assumes "CHR 0x0A \<notin> set l"
  shows "str_lines (l @ CHR 0x0A # rest) = strip_cr l # str_lines rest"
proof -
  have t: "takeWhile (\<lambda>c. c \<noteq> CHR 0x0A) (l @ CHR 0x0A # rest) = l"
    "dropWhile (\<lambda>c. c \<noteq> CHR 0x0A) (l @ CHR 0x0A # rest) = CHR 0x0A # rest"
    using assms by (subst takeWhile_append2 dropWhile_append2; auto)+
  show ?thesis by (subst str_lines.simps) (simp add: t)
qed

lemma str_lines_last:
  assumes "CHR 0x0A \<notin> set l" and "l \<noteq> []"
  shows "str_lines l = [l]"
proof -
  have "dropWhile (\<lambda>c. c \<noteq> CHR 0x0A) l = []" using assms(1) by (auto simp: dropWhile_eq_Nil_conv)
  with assms(2) show ?thesis by (subst str_lines.simps) (simp only: list.case if_False)
qed

text \<open>A text as its ended lines and the rest after the last line feed.\<close>

fun split_feeds :: "string \<Rightarrow> string list \<times> string" where
  "split_feeds [] = ([], [])"
| "split_feeds (c # cs) =
     (case split_feeds cs of (ls, l) \<Rightarrow>
        if c = CHR 0x0A then ([] # ls, l)
        else case ls of [] \<Rightarrow> ([], c # l) | x # xs \<Rightarrow> ((c # x) # xs, l))"

definition feed_line :: "string \<Rightarrow> string" where
  "feed_line l = l @ [CHR 0x0A]"

lemma split_feeds_text:
  "split_feeds s = (ls, l) \<Longrightarrow> s = concat (map feed_line ls) @ l \<and> list_all (\<lambda>x. CHR 0x0A \<notin> set x) (l # ls)"
proof (induction s arbitrary: ls l)
  case (Cons c s)
  obtain ks k where k: "split_feeds s = (ks, k)" by (cases "split_feeds s")
  note ih = Cons.IH [OF k]
  show ?case
  proof (cases "c = CHR 0x0A")
    case True
    with Cons.prems k have "ls = [] # ks" "l = k" by simp_all
    with True ih show ?thesis by (simp add: feed_line_def)
  next
    case c: False
    show ?thesis
    proof (cases ks)
      case Nil
      with c Cons.prems k have "ls = []" "l = c # k" by simp_all
      with c Nil ih show ?thesis by simp
    next
      case (Cons x xs)
      with c Cons.prems k have "ls = (c # x) # xs" "l = k" by simp_all
      with c Cons ih show ?thesis by (simp add: feed_line_def)
    qed
  qed
qed simp

lemma str_lines_feeds:
  assumes "list_all (\<lambda>x. CHR 0x0A \<notin> set x) (l # ls)"
  shows "str_lines (concat (map feed_line ls) @ l) = map strip_cr ls @ (if l = [] then [] else [l])"
  using assms
proof (induction ls)
  case Nil
  then show ?case by (simp add: str_lines_last)
next
  case (Cons x xs)
  then have "str_lines (x @ CHR 0x0A # (concat (map feed_line xs) @ l)) = strip_cr x # str_lines (concat (map feed_line xs) @ l)"
    by (intro str_lines_first) simp
  moreover have "concat (map feed_line (x # xs)) @ l = x @ CHR 0x0A # (concat (map feed_line xs) @ l)"
    by (simp add: feed_line_def [of x])
  ultimately show ?case using Cons by simp
qed

text \<open>Either no line ends with a carriage return, or every ended line does.\<close>

definition ends_cr :: "string \<Rightarrow> bool" where
  "ends_cr l \<longleftrightarrow> l \<noteq> [] \<and> last l = CHR 0x0D"

definition uniform_endings :: "string \<Rightarrow> bool" where
  "uniform_endings s \<longleftrightarrow> list_all ends_cr (fst (split_feeds s)) \<or> list_all (\<lambda>l. \<not> ends_cr l) (fst (split_feeds s))"

lemma crlf_in_feeds:
  assumes "list_all (\<lambda>x. CHR 0x0A \<notin> set x) (l # ls)"
  shows "contains_str crlf (concat (map feed_line ls) @ l) \<longleftrightarrow> list_ex ends_cr ls"
proof -
  have no: "\<not> sublist crlf x" if "CHR 0x0A \<notin> set x" for x
    using that set_mono_sublist [of crlf x] by (auto simp: crlf_def)
  show ?thesis using assms
  proof (induction ls)
    case Nil
    then show ?case by (simp add: contains_str_def no)
  next
    case (Cons x xs)
    let ?r = "concat (map feed_line xs) @ l"
    have x: "CHR 0x0A \<notin> set x" using Cons.prems by simp
    have "sublist crlf (feed_line x @ ?r) \<longleftrightarrow> ends_cr x \<or> sublist crlf ?r"
    proof
      assume "sublist crlf (feed_line x @ ?r)"
      then obtain as bs where e: "feed_line x @ ?r = as @ crlf @ bs" by (auto simp: sublist_def)
      show "ends_cr x \<or> sublist crlf ?r"
      proof (cases "length (feed_line x) \<le> length as")
        case True
        then have "?r = drop (length (feed_line x)) as @ crlf @ bs"
          using arg_cong [OF e, of "drop (length (feed_line x))"] by simp
        then show ?thesis by (auto simp: sublist_def)
      next
        case False
        then have la: "length as \<le> length x" by (simp add: feed_line_def)
        show ?thesis
        proof (cases "length as < length x")
          case True
          note t = True
          show ?thesis
          proof (cases "Suc (length as) < length x")
            case True
            have "(feed_line x @ ?r) ! Suc (length as) = CHR 0x0A" unfolding e by (simp add: crlf_def nth_append)
            then have "x ! Suc (length as) = CHR 0x0A" using True by (simp add: feed_line_def nth_append)
            with True x show ?thesis by (metis nth_mem)
          next
            case False
            with t have l: "length as = length x - 1" "x \<noteq> []" by auto
            have "(feed_line x @ ?r) ! length as = CHR 0x0D" unfolding e by (simp add: crlf_def nth_append)
            then have "x ! length as = CHR 0x0D" using t by (simp add: feed_line_def nth_append)
            with l show ?thesis by (simp add: ends_cr_def last_conv_nth)
          qed
        next
          case f: False
          with la have "length as = length x" by simp
          moreover have "(feed_line x @ ?r) ! length as = CHR 0x0D" unfolding e by (simp add: crlf_def nth_append)
          ultimately show ?thesis by (simp add: feed_line_def nth_append)
        qed
      qed
    next
      assume "ends_cr x \<or> sublist crlf ?r"
      then show "sublist crlf (feed_line x @ ?r)"
      proof
        assume "ends_cr x"
        then have "feed_line x @ ?r = butlast x @ crlf @ ?r"
          using append_butlast_last_id [of x] by (simp add: ends_cr_def feed_line_def crlf_def)
        then show ?thesis by (auto simp: sublist_def)
      next
        assume "sublist crlf ?r"
        then obtain as bs where "?r = as @ crlf @ bs" by (auto simp: sublist_def)
        then have "feed_line x @ ?r = (feed_line x @ as) @ crlf @ bs" by simp
        then show ?thesis unfolding sublist_def by blast
      qed
    qed
    with Cons show ?case by (simp add: contains_str_def)
  qed
qed

lemma join_ended:
  "ls \<noteq> [] \<Longrightarrow> join_str t ls @ t = concat (map (\<lambda>l. l @ t) ls)"
  by (induction t ls rule: join_str.induct) simp_all

lemma join_rest:
  "join_str t (ls @ [l]) = concat (map (\<lambda>l. l @ t) ls) @ l"
proof (induction ls)
  case (Cons x ls)
  then show ?case by (cases ls) simp_all
qed simp

lemma strip_cr_feed: "strip_cr l @ (if ends_cr l then crlf else newline_char) = feed_line l"
proof (cases "ends_cr l")
  case True
  then obtain k where "l = k @ [CHR 0x0D]" by (metis ends_cr_def append_butlast_last_id)
  then show ?thesis by (simp add: strip_cr_def ends_cr_def crlf_def feed_line_def)
next
  case False
  then show ?thesis by (auto simp: strip_cr_def ends_cr_def newline_char_def feed_line_def)
qed

lemma reassemble_unchanged:
  assumes "uniform_endings s"
  shows "reassemble_preserving_newlines (str_lines s) s = s"
proof -
  obtain ls l where sp: "split_feeds s = (ls, l)" by (cases "split_feeds s")
  from split_feeds_text [OF sp] have s: "s = concat (map feed_line ls) @ l"
    and nf: "list_all (\<lambda>x. CHR 0x0A \<notin> set x) (l # ls)" by simp_all
  let ?t = "if contains_str crlf s then crlf else newline_char"
  have lines: "str_lines s = map strip_cr ls @ (if l = [] then [] else [l])"
    unfolding s by (rule str_lines_feeds [OF nf])
  have c: "contains_str crlf s \<longleftrightarrow> list_ex ends_cr ls" unfolding s by (rule crlf_in_feeds [OF nf])
  have "strip_cr x @ ?t = feed_line x" if "x \<in> set ls" for x
  proof -
    have "ends_cr x \<longleftrightarrow> contains_str crlf s"
      using assms that unfolding c uniform_endings_def sp fst_conv by (auto simp: list_all_iff list_ex_iff)
    then show ?thesis using strip_cr_feed [of x] by simp
  qed
  then have t: "concat (map (\<lambda>x. x @ ?t) (map strip_cr ls)) = concat (map feed_line ls)"
    by (simp add: comp_def cong: map_cong)
  show ?thesis
  proof (cases "l = []")
    case False
    then have "\<not> suffix newline_char s" using nf by (auto simp: s newline_char_def suffix_def append_eq_append_conv2 append_eq_Cons_conv)
    with False have "reassemble_preserving_newlines (str_lines s) s = join_str ?t (map strip_cr ls @ [l])"
      unfolding reassemble_preserving_newlines_def lines by (simp add: s)
    also have "\<dots> = s" unfolding join_rest t by (simp add: s)
    finally show ?thesis .
  next
    case True
    show ?thesis
    proof (cases "ls = []")
      case True
      with \<open>l = []\<close> show ?thesis unfolding reassemble_preserving_newlines_def lines by (simp add: s)
    next
      case ne: False
      obtain ks k where "ls = ks @ [k]" using ne by (metis append_butlast_last_id)
      then have "s = (concat (map feed_line ks) @ k) @ newline_char"
        by (simp add: s True feed_line_def [of k] newline_char_def)
      then have "suffix newline_char s" by (simp only: suffix_def) blast
      with ne True have "reassemble_preserving_newlines (str_lines s) s = join_str ?t (map strip_cr ls) @ ?t"
        unfolding reassemble_preserving_newlines_def lines by simp
      also have "\<dots> = s" using join_ended [of "map strip_cr ls" ?t] ne unfolding t by (simp add: s True)
      finally show ?thesis .
    qed
  qed
qed

lemma mixed_endings_change:
  "reassemble_preserving_newlines (str_lines [CHR ''a'', CHR 0x0A, CHR ''b'', CHR 0x0D, CHR 0x0A])
      [CHR ''a'', CHR 0x0A, CHR ''b'', CHR 0x0D, CHR 0x0A]
    = [CHR ''a'', CHR 0x0D, CHR 0x0A, CHR ''b'', CHR 0x0D, CHR 0x0A]"
  by code_simp

end
