(* ===== verification/Patch_Writes.thy ===== *)
theory Patch_Writes
  imports Patch_Hunks
begin

text \<open>
  What a call of \<open>apply_patch\<close> does to the files: all planned writes or none, and only to files that the
  preflight has named.
\<close>

section \<open>The plan\<close>

definition planned_on :: "file_system \<Rightarrow> pending_write list \<Rightarrow> bool" where
  "planned_on fs ws \<longleftrightarrow> list_all (\<lambda>w. fs (pw_path w) = map_option TextFile (pw_original w)) ws"

definition named_by :: "patch_env \<Rightarrow> string list \<Rightarrow> pending_write list \<Rightarrow> bool" where
  "named_by env touched ws \<longleftrightarrow> list_all (\<lambda>w. list_ex (\<lambda>p. pe_resolve env p = Some (pw_path w)) touched) ws"

lemma planned_on_append [simp]: "planned_on fs (xs @ ys) \<longleftrightarrow> planned_on fs xs \<and> planned_on fs ys"
  by (simp add: planned_on_def)

lemma named_by_append [simp]: "named_by env t (xs @ ys) \<longleftrightarrow> named_by env t xs \<and> named_by env t ys"
  by (simp add: named_by_def)

lemma planned_on_Nil [simp]: "planned_on fs []"
  by (simp add: planned_on_def)

lemma named_by_Nil [simp]: "named_by env t []"
  by (simp add: named_by_def)

lemma named_by_more: "named_by env t ws \<Longrightarrow> set t \<subseteq> set u \<Longrightarrow> named_by env u ws"
  unfolding named_by_def list_all_iff list_ex_iff by blast

lemma resolved_target:
  "resolve_target env fs path = Inr (resolved, original) \<Longrightarrow>
     pe_resolve env path = Some resolved \<and> fs resolved = map_option TextFile original"
  by (auto simp: resolve_target_def read_original_def split: option.splits file_node.splits)

lemma set_push_unique [simp]: "set (push_unique x xs) = insert x (set xs)"
  by (auto simp: push_unique_def)

lemma plan_changes_facts:
  assumes "plan_changes env fs changes pending st = Inr (pending', st')"
    and "planned_on fs pending" and "named_by env touched pending"
    and "change_paths changes touched = Inr touched'"
  shows "planned_on fs pending' \<and> named_by env touched' pending'"
  using assms
proof (induction changes arbitrary: pending st touched)
  case Nil
  then show ?case by simp
next
  case (Cons change changes)
  obtain path content where cp: "change_parts change = Inr (path, content)"
    using Cons.prems(1) by (cases "change_parts change") auto
  obtain resolved original where r: "resolve_target env fs path = Inr (resolved, original)"
    using Cons.prems(1) cp by (cases "resolve_target env fs path") auto
  let ?w = "\<lparr>pw_path = resolved, pw_content = Some content, pw_original = original\<rparr>"
  note rt = resolved_target [OF r]
  have "named_by env (push_unique path touched) (pending @ [?w])"
    using rt named_by_more [OF Cons.prems(3), of "push_unique path touched"] by (simp add: named_by_def list_ex_iff subset_insertI)
  moreover have "planned_on fs (pending @ [?w])" using Cons.prems(2) rt by (simp add: planned_on_def)
  moreover have "plan_changes env fs changes (pending @ [?w]) (note_change path (original = None) st) = Inr (pending', st')"
    using Cons.prems(1) cp r by simp
  moreover have "change_paths changes (push_unique path touched) = Inr touched'" using Cons.prems(4) cp by simp
  ultimately show ?case using Cons.IH by blast
qed

lemma plan_section_facts:
  assumes "plan_section env fs fuzz f = Inr (w, created, hs)"
  shows "planned_on fs [w] \<and> pe_resolve env (fp_path f) = Some (pw_path w)"
proof -
  obtain resolved original where r: "resolve_target env fs (fp_path f) = Inr (resolved, original)"
    using assms by (cases "resolve_target env fs (fp_path f)") (auto simp: plan_section_def split: if_splits)
  have "pw_path w = resolved \<and> pw_original w = original"
    using assms r by (auto simp: plan_section_def Let_def split: if_splits sum.splits)
  with resolved_target [OF r] show ?thesis by (simp add: planned_on_def)
qed

lemma plan_sections_facts:
  assumes "plan_sections env fs fuzz files pending st = Inr (pending', st')"
    and "planned_on fs pending" and "named_by env touched pending" and "fp_path ` set files \<subseteq> set touched"
  shows "planned_on fs pending' \<and> named_by env touched pending'"
  using assms
proof (induction files arbitrary: pending st)
  case Nil
  then show ?case by simp
next
  case (Cons f files)
  obtain w created hs where s: "plan_section env fs fuzz f = Inr (w, created, hs)"
    using Cons.prems(1) by (cases "plan_section env fs fuzz f") auto
  note w = plan_section_facts [OF s]
  have "planned_on fs (pending @ [w])" using Cons.prems(2) w by simp
  moreover have "named_by env touched (pending @ [w])"
    using Cons.prems(3,4) w by (auto simp: named_by_def list_ex_iff)
  moreover have "plan_sections env fs fuzz files (pending @ [w]) (note_patch f created hs st) = Inr (pending', st')"
    using Cons.prems(1) s by simp
  ultimately show ?case using Cons.IH Cons.prems(4) by simp
qed

lemma note_sections_touched:
  "set (pp_touched_files (foldl note_section p files)) = set (pp_touched_files p) \<union> fp_path ` set files"
  by (induction files arbitrary: p) (auto simp: note_section_def)

lemma preflight_kinds:
  assumes "preflight_apply_patch_plan v = Inr (p, kind)" and "json_get v ''changes'' = None"
  shows "case kind of ChangesInput \<Rightarrow> False | PathOverride path hunks \<Rightarrow> pp_touched_files p = [path]
    | FilePatches files \<Rightarrow> fp_path ` set files \<subseteq> set (pp_touched_files p)"
proof -
  from assms obtain patch where r: "preflight_patch patch (optional_str v ''path'') (optional_bool v ''create_if_missing'' False)
      = Inr (p, kind)"
    by (auto simp: preflight_apply_patch_plan_def Let_def split: sum.splits)
  show ?thesis
  proof (cases "optional_str v ''path''")
    case (Some path)
    then show ?thesis using r
      by (auto simp: preflight_patch_def preflight_override_def Let_def split: sum.splits if_splits)
  next
    case None
    then show ?thesis using r
      by (auto simp: preflight_patch_def preflight_sections_def note_sections_touched Let_def
          split: sum.splits if_splits option.splits)
  qed
qed

definition sections_of :: "json \<Rightarrow> preflight_kind \<Rightarrow> file_patch list" where
  "sections_of v kind = (case kind of
      ChangesInput \<Rightarrow> []
    | PathOverride path hunks \<Rightarrow> [\<lparr>fp_path = path, fp_hunks = hunks, fp_delete_after = False,
        fp_create_if_missing = optional_bool v ''create_if_missing'' False\<rparr>]
    | FilePatches fps \<Rightarrow> fps)"

lemma map_sum_Inr: "map_sum f g x = Inr y \<longleftrightarrow> (\<exists>z. x = Inr z \<and> y = g z)"
  by (cases x) auto

lemma plan_patch_sections:
  assumes "plan_patch env v fs = Inr (p, pending, st)" and "preflight_apply_patch_plan v = Inr (q, kind)"
    and "json_get v ''changes'' = None"
  shows "p = q \<and> (\<exists>st'. build_pending_writes_from_patches env fs (sections_of v kind) (requested_fuzz v) = Inr (pending, st'))"
  using assms by (auto simp: plan_patch_def sections_of_def [symmetric] map_sum_Inr Let_def)

lemma plan_patch_facts:
  assumes "plan_patch env v fs = Inr (p, pending, st)"
  shows "planned_on fs pending \<and> named_by env (pp_touched_files p) pending"
proof -
  obtain q kind where pf: "preflight_apply_patch_plan v = Inr (q, kind)"
    using assms by (cases "preflight_apply_patch_plan v") (auto simp: plan_patch_def)
  show ?thesis
  proof (cases "json_get v ''changes''")
    case (Some changes)
    from pf Some obtain cs where cs: "json_as_array changes = Some cs" "cs \<noteq> []"
      "change_paths cs [] = Inr (pp_touched_files q)"
      by (auto simp: preflight_apply_patch_plan_def preflight_changes_def Let_def split: sum.splits option.splits if_splits)
    from assms pf Some cs have "p = q" "plan_changes env fs cs [] (no_patch_stats 0) = Inr (pending, st)"
      by (auto simp: plan_patch_def build_pending_writes_from_changes_def map_sum_Inr)
    with plan_changes_facts [OF this(2) _ _ cs(3)] show ?thesis by simp
  next
    case None
    from plan_patch_sections [OF assms pf None] obtain st' where p: "p = q"
      and b: "plan_sections env fs (requested_fuzz v) (sections_of v kind) [] (no_patch_stats (length (sections_of v kind)))
        = Inr (pending, st')"
      unfolding build_pending_writes_from_patches_def by blast
    have "fp_path ` set (sections_of v kind) \<subseteq> set (pp_touched_files q)"
      using preflight_kinds [OF pf None] by (cases kind) (simp_all add: sections_of_def)
    from plan_sections_facts [OF b _ _ this] p show ?thesis by simp
  qed
qed

section \<open>The writes\<close>

definition run_writes :: "pending_write list \<Rightarrow> file_system \<Rightarrow> file_system" where
  "run_writes ws fs = foldl (\<lambda>fs w. put_file (pw_path w) (pw_content w) fs) fs ws"

lemma apply_entry_ok: "apply_entry env n w fs = Inr fs' \<Longrightarrow> fs' = put_file (pw_path w) (pw_content w) fs"
  by (auto simp: apply_entry_def put_file_def fun_upd_idem split: option.splits if_splits)

lemma rollback_restores:
  assumes "planned_on fs0 ws" and "\<And>n. \<not> pe_undo_fails env n"
  shows "rollback_pending_writes env n ws fs = (\<lambda>q. if q \<in> pw_path ` set ws then fs0 q else fs q)"
  using assms(1)
proof (induction ws arbitrary: n fs)
  case Nil
  then show ?case by simp
next
  case (Cons w ws)
  then have "rollback_pending_writes env n (w # ws) fs
      = (\<lambda>q. if q \<in> pw_path ` set ws then fs0 q else put_file (pw_path w) (pw_original w) fs q)"
    using assms(2) by (simp add: planned_on_def)
  also have "\<dots> = (\<lambda>q. if q \<in> pw_path ` set (w # ws) then fs0 q else fs q)"
    using Cons.prems by (auto simp: put_file_def planned_on_def fun_eq_iff)
  finally show ?case .
qed

lemma run_writes_elsewhere: "q \<notin> pw_path ` set ws \<Longrightarrow> run_writes ws fs q = fs q"
  by (induction ws arbitrary: fs) (auto simp: run_writes_def put_file_def)

lemma apply_writes_done:
  assumes "apply_writes env n applied ws (run_writes applied fs0) = (None, fs')"
  shows "fs' = run_writes (applied @ ws) fs0"
  using assms
proof (induction ws arbitrary: n applied)
  case Nil
  then show ?case by simp
next
  case (Cons w ws)
  show ?case
  proof (cases "apply_entry env n w (run_writes applied fs0)")
    case (Inl e)
    with Cons.prems show ?thesis by simp
  next
    case (Inr fs1)
    from apply_entry_ok [OF this] have "fs1 = run_writes (applied @ [w]) fs0" by (simp add: run_writes_def)
    with Inr Cons.prems have "apply_writes env (n + 1) (applied @ [w]) ws (run_writes (applied @ [w]) fs0) = (None, fs')"
      by simp
    from Cons.IH [OF this] show ?thesis by simp
  qed
qed

lemma apply_writes_failed:
  assumes "apply_writes env n applied ws (run_writes applied fs0) = (Some e, fs')"
    and "planned_on fs0 (applied @ ws)" and "\<And>n. \<not> pe_undo_fails env n"
  shows "fs' = fs0"
  using assms(1,2)
proof (induction ws arbitrary: n applied)
  case Nil
  then show ?case by simp
next
  case (Cons w ws)
  show ?case
  proof (cases "apply_entry env n w (run_writes applied fs0)")
    case (Inl e')
    with Cons.prems(1) have "fs' = rollback_pending_writes env 0 (rev applied) (run_writes applied fs0)" by simp
    moreover have "planned_on fs0 (rev applied)" using Cons.prems(2) by (simp add: planned_on_def)
    ultimately have "fs' = (\<lambda>q. if q \<in> pw_path ` set applied then fs0 q else run_writes applied fs0 q)"
      using rollback_restores [OF _ assms(3)] by simp
    then show ?thesis by (auto simp: run_writes_elsewhere fun_eq_iff)
  next
    case (Inr fs1)
    from apply_entry_ok [OF this] have "fs1 = run_writes (applied @ [w]) fs0" by (simp add: run_writes_def)
    with Inr Cons.prems(1) have "apply_writes env (n + 1) (applied @ [w]) ws (run_writes (applied @ [w]) fs0) = (Some e, fs')"
      by simp
    from Cons.IH [OF this] Cons.prems(2) show ?thesis by simp
  qed
qed

lemma finish_patch_cases:
  assumes "finish_patch env p (pending, st) fs = (res, fs')" and "planned_on fs pending" and "\<And>n. \<not> pe_undo_fails env n"
  shows "case res of Inl e \<Rightarrow> fs' = fs | Inr r \<Rightarrow> fs' = run_writes pending fs \<and> pr_stats r = st \<and> pr_preflight r = p"
proof -
  obtain x fs1 where a: "apply_writes env 0 [] pending fs = (x, fs1)" by (cases "apply_writes env 0 [] pending fs")
  show ?thesis
  proof (cases x)
    case None
    have "fs1 = run_writes pending fs"
      using apply_writes_done [of env 0 "[]" pending fs fs1] a None by (simp add: run_writes_def)
    with a None assms(1) show ?thesis by (auto simp: finish_patch_def apply_pending_writes_def)
  next
    case (Some e)
    have "fs1 = fs"
      using apply_writes_failed [of env 0 "[]" pending fs e fs1] a Some assms(2,3) by (simp add: run_writes_def)
    with a Some assms(1) show ?thesis by (auto simp: finish_patch_def apply_pending_writes_def)
  qed
qed

text \<open>C3. A call of \<open>apply_patch\<close> whose undoing writes succeed is all or nothing: on an error of any kind, in the
  arguments, the paths, a hunk or the third of five writes, the files are as they were before the call; on
  success they are what all planned writes and deletions make of them.\<close>

theorem patch_all_or_nothing:
  assumes "\<And>n. \<not> pe_undo_fails env n"
  shows "case execute_apply_patch env v fs of
      (Inl e, fs') \<Rightarrow> fs' = fs
    | (Inr r, fs') \<Rightarrow> (\<exists>pending. plan_patch env v fs = Inr (pr_preflight r, pending, pr_stats r) \<and> fs' = run_writes pending fs)"
proof (cases "plan_patch env v fs")
  case (Inl e)
  then show ?thesis by (simp add: execute_apply_patch_def)
next
  case (Inr plan)
  obtain p pending st where plan: "plan = (p, pending, st)" by (cases plan)
  obtain res fs' where f: "finish_patch env p (pending, st) fs = (res, fs')" by fastforce
  have "execute_apply_patch env v fs = (res, fs')" using Inr plan f by (simp add: execute_apply_patch_def)
  moreover have "planned_on fs pending" using plan_patch_facts Inr plan by blast
  note finish_patch_cases [OF f this assms]
  ultimately show ?thesis using Inr plan by (cases res) auto
qed

lemma rollback_elsewhere: "q \<notin> pw_path ` set ws \<Longrightarrow> rollback_pending_writes env n ws fs q = fs q"
  by (induction ws arbitrary: n fs) (auto simp: put_file_def)

lemma apply_writes_elsewhere:
  "q \<notin> pw_path ` set (applied @ ws) \<Longrightarrow> snd (apply_writes env n applied ws fs) q = fs q"
proof (induction ws arbitrary: n applied fs)
  case (Cons w ws)
  show ?case
  proof (cases "apply_entry env n w fs")
    case (Inl e)
    moreover have "q \<notin> pw_path ` set (rev applied)" using Cons.prems by auto
    ultimately show ?thesis by (simp add: rollback_elsewhere)
  next
    case (Inr fs1)
    have "fs1 q = fs q" using apply_entry_ok [OF Inr] Cons.prems by (simp add: put_file_def)
    moreover have "snd (apply_writes env (n + 1) (applied @ [w]) ws fs1) q = fs1 q"
      by (rule Cons.IH) (use Cons.prems in simp)
    ultimately show ?thesis using Inr by simp
  qed
qed simp

lemma changed_files_named:
  "{q. snd (execute_apply_patch env v fs) q \<noteq> fs q}
    \<subseteq> (case preflight_apply_patch v of Inl e \<Rightarrow> {} | Inr p \<Rightarrow> {q. Some q \<in> pe_resolve env ` set (pp_touched_files p)})"
proof (cases "plan_patch env v fs")
  case (Inl e)
  then show ?thesis by (simp add: execute_apply_patch_def)
next
  case (Inr plan)
  obtain p pending st where plan: "plan = (p, pending, st)" by (cases plan)
  have pf: "preflight_apply_patch v = Inr p"
    using Inr plan by (auto simp: plan_patch_def preflight_apply_patch_def map_sum_Inr split: sum.splits option.splits)
  have n: "named_by env (pp_touched_files p) pending" using plan_patch_facts Inr plan by blast
  have e: "snd (execute_apply_patch env v fs) = snd (apply_writes env 0 [] pending fs)"
    using Inr plan
    by (cases "apply_writes env 0 [] pending fs"; cases "fst (apply_writes env 0 [] pending fs)")
      (simp_all add: execute_apply_patch_def finish_patch_def apply_pending_writes_def)
  show ?thesis
  proof
    fix q assume "q \<in> {q. snd (execute_apply_patch env v fs) q \<noteq> fs q}"
    then have "q \<in> pw_path ` set pending" unfolding e using apply_writes_elsewhere [of q "[]" pending env 0 fs] by fastforce
    then obtain w where w: "w \<in> set pending" "q = pw_path w" by blast
    with n obtain f where "f \<in> set (pp_touched_files p)" "pe_resolve env f = Some q"
      by (auto simp: named_by_def list_all_iff list_ex_iff)
    then have "Some q \<in> pe_resolve env ` set (pp_touched_files p)" by (metis image_eqI)
    with pf show "q \<in> (case preflight_apply_patch v of Inl e \<Rightarrow> {} | Inr p \<Rightarrow> {q. Some q \<in> pe_resolve env ` set (pp_touched_files p)})"
      by simp
  qed
qed

text \<open>A call of \<open>apply_patch\<close>, whether it succeeds, fails or is undone only in part, changes no file but
  those to which the names listed by the preflight resolve; the preflight is what the user is shown.\<close>

theorem patch_changes_named_files:
  "{q. snd (execute_apply_patch env v fs) q \<noteq> fs q}
    \<subseteq> (case preflight_apply_patch v of Inl e \<Rightarrow> {} | Inr p \<Rightarrow> {q. Some q \<in> pe_resolve env ` set (pp_touched_files p)})"
  by (rule changed_files_named)

section \<open>The interface to the path resolution\<close>

text \<open>What the tool needs of the component that resolves paths: every path it grants is one of the safe files.\<close>

locale path_granter =
  fixes grant :: "string \<Rightarrow> string option" and safe :: "string set"
  assumes granted_safe: "grant s = Some q \<Longrightarrow> q \<in> safe"
begin

lemma changes_safe: "{q. snd (execute_apply_patch (env\<lparr>pe_resolve := grant\<rparr>) v fs) q \<noteq> fs q} \<subseteq> safe"
proof -
  have "{q. Some q \<in> grant ` names} \<subseteq> safe" for names
    using granted_safe by (metis (no_types, lifting) imageE mem_Collect_eq subsetI)
  then have "(case preflight_apply_patch v of Inl e \<Rightarrow> {} | Inr p \<Rightarrow> {q. Some q \<in> grant ` set (pp_touched_files p)}) \<subseteq> safe"
    by (cases "preflight_apply_patch v") simp_all
  moreover have r: "pe_resolve (env\<lparr>pe_resolve := grant\<rparr>) = grant" by simp
  note changed_files_named [of "env\<lparr>pe_resolve := grant\<rparr>" v fs, unfolded r]
  ultimately show ?thesis by blast
qed

end

text \<open>The second of two writes fails.\<close>

definition sample_patch_env :: "(nat \<Rightarrow> bool) \<Rightarrow> patch_env" where
  "sample_patch_env fails = \<lparr>pe_resolve = Some, pe_dirs_fail = (\<lambda>_. False), pe_write_fails = fails,
     pe_delete_fails = (\<lambda>_. False), pe_undo_fails = (\<lambda>_. False)\<rparr>"

definition sample_change :: "string \<Rightarrow> string \<Rightarrow> json" where
  "sample_change path content = JObj [(''path'', JStr path), (''content'', JStr content)]"

definition sample_changes :: json where
  "sample_changes = JObj [(''changes'', JArr [sample_change ''f'' ''new'', sample_change ''g'' ''new''])]"

lemma patch_all_or_nothing_witness:
  "execute_apply_patch (sample_patch_env (\<lambda>n. n = 1)) sample_changes [''f'' \<mapsto> TextFile ''old'']
    = (Inl (WriteFailed ''g''), [''f'' \<mapsto> TextFile ''old''])"
proof -
  let ?out = "execute_apply_patch (sample_patch_env (\<lambda>n. n = 1)) sample_changes [''f'' \<mapsto> TextFile ''old'']"
  have f: "fst ?out = Inl (WriteFailed ''g'')" by code_simp
  have u: "\<not> pe_undo_fails (sample_patch_env (\<lambda>n. n = 1)) n" for n by (simp add: sample_patch_env_def)
  show ?thesis
    using patch_all_or_nothing [OF u, where v = sample_changes and fs = "[''f'' \<mapsto> TextFile ''old'']"] f
    by (cases ?out) auto
qed

end
