(* ===== verification/Patch_Round_Trip.thy ===== *)
theory Patch_Round_Trip
  imports Patch_Writes
begin

text \<open>
  Writing file patches as a unified diff and reading them back, and patches on which the code does not do
  what a reader of the diff expects.
\<close>

section \<open>Writing a diff\<close>

fun render_line :: "hunk_line \<Rightarrow> string" where
  "render_line (ContextLine s) = CHR '' '' # s"
| "render_line (AddLine s) = CHR ''+'' # s"
| "render_line (RemoveLine s) = CHR ''-'' # s"

definition render_range :: "nat \<Rightarrow> nat \<Rightarrow> string" where
  "render_range start n = show_nat start @ '','' @ show_nat n"

definition render_header :: "hunk \<Rightarrow> string" where
  "render_header h = join_str '' '' [''@@'', ''-'' @ render_range (hk_old_start h) (hk_old_count h),
     ''+'' @ render_range (hk_new_start h) (hk_new_count h), ''@@'']"

definition render_hunk :: "hunk \<Rightarrow> string list" where
  "render_hunk h = render_header h # map render_line (hk_lines h)"

definition render_file :: "file_patch \<Rightarrow> string list" where
  "render_file f =
     [''diff --git a/'' @ fp_path f @ '' b/'' @ fp_path f,
      ''--- '' @ (if fp_create_if_missing f then ''/dev/null'' else ''a/'' @ fp_path f),
      ''+++ '' @ (if fp_delete_after f then ''/dev/null'' else ''b/'' @ fp_path f)]
     @ concat (map render_hunk (fp_hunks f))"

definition render_diff :: "file_patch list \<Rightarrow> string" where
  "render_diff files = concat (map feed_line (concat (map render_file files)))"

section \<open>What can be written\<close>

fun line_text :: "hunk_line \<Rightarrow> string" where
  "line_text (ContextLine s) = s"
| "line_text (AddLine s) = s"
| "line_text (RemoveLine s) = s"

definition one_line :: "string \<Rightarrow> bool" where
  "one_line s \<longleftrightarrow> CHR 0x0A \<notin> set s \<and> \<not> ends_cr s"

definition hunk_ok :: "hunk \<Rightarrow> bool" where
  "hunk_ok h \<longleftrightarrow> hk_old_start h < 2 ^ 64 \<and> hk_new_start h < 2 ^ 64
     \<and> hk_old_count h = length (old_lines h) \<and> hk_new_count h = length (new_lines h)
     \<and> length (old_lines h) + length (new_lines h) < 2 ^ 63
     \<and> list_all (\<lambda>l. one_line (line_text l)) (hk_lines h)"

definition path_ok :: "string \<Rightarrow> bool" where
  "path_ok p \<longleftrightarrow> p \<noteq> [] \<and> \<not> is_ws (last p) \<and> CHR 0x0A \<notin> set p \<and> CHR 0x09 \<notin> set p"

definition file_patch_ok :: "file_patch \<Rightarrow> bool" where
  "file_patch_ok f \<longleftrightarrow> path_ok (fp_path f) \<and> \<not> (fp_create_if_missing f \<and> fp_delete_after f) \<and> list_all hunk_ok (fp_hunks f)"

section \<open>Lines\<close>

lemma strip_cr_one_line: "one_line l \<Longrightarrow> strip_cr l = l"
  by (auto simp: one_line_def ends_cr_def strip_cr_def)

lemma str_lines_rendered: "list_all one_line ls \<Longrightarrow> str_lines (concat (map feed_line ls)) = ls"
proof -
  assume a: "list_all one_line ls"
  then have "list_all (\<lambda>x. CHR 0x0A \<notin> set x) ([] # ls)" by (auto simp: list_all_iff one_line_def)
  from str_lines_feeds [OF this] have "str_lines (concat (map feed_line ls)) = map strip_cr ls" by simp
  with a show ?thesis by (simp add: list_all_iff strip_cr_one_line map_idI)
qed

section \<open>Numbers\<close>

lemma digit_char: "d < 10 \<Longrightarrow> is_ascii_digit (char_of (48 + d)) \<and> (of_char (char_of (48 + d) :: char) :: nat) = 48 + d"
  by (simp add: is_ascii_digit_def Let_def)

lemma digits_value_append:
  "usize_digits acc (xs @ ys) = (case usize_digits acc xs of None \<Rightarrow> None | Some n \<Rightarrow> usize_digits n ys)"
  by (induction acc xs rule: usize_digits.induct) auto

lemma digits_value_show: "usize_digits 0 (show_nat n) = Some n"
proof (induction n rule: show_nat.induct)
  case (1 n)
  show ?case
  proof (cases "n < 10")
    case True
    then show ?thesis using digit_char [of n] by (subst show_nat.simps) simp
  next
    case False
    have d: "n mod 10 < 10" by simp
    show ?thesis using False 1 digit_char [OF d]
      by (subst show_nat.simps) (simp add: digits_value_append)
  qed
qed

lemma show_nat_all_digits: "list_all is_ascii_digit (show_nat n)"
proof (induction n rule: show_nat.induct)
  case (1 n)
  then show ?case using digit_char [of n] digit_char [of "n mod 10"] by (subst show_nat.simps) (auto split: if_splits)
qed

lemma show_nat_not_Nil [simp]: "show_nat n \<noteq> []"
  by (subst show_nat.simps) simp

lemma not_digits: "\<not> is_ascii_digit (CHR ''+'')" "\<not> is_ascii_digit (CHR ''-'')" "\<not> is_ascii_digit (CHR '','')"
  by (simp_all add: is_ascii_digit_def)

lemma digit_not_ws: "is_ascii_digit c \<Longrightarrow> \<not> is_ws c"
  by (auto simp: is_ascii_digit_def is_ws_def Let_def)

lemma hd_show_nat: "is_ascii_digit (hd (show_nat n))"
  using show_nat_all_digits [of n] show_nat_not_Nil [of n] by (cases "show_nat n") simp_all

lemma parse_usize_show: "n < 2 ^ 64 \<Longrightarrow> parse_usize (show_nat n) = Some n"
proof -
  assume n: "n < 2 ^ 64"
  have "\<not> prefix ''+'' (show_nat n)"
    using hd_show_nat [of n] not_digits(1) by (cases "show_nat n") auto
  with n show ?thesis by (simp add: parse_usize_def digits_value_show)
qed

lemma split_char_none: "d \<notin> set s \<Longrightarrow> split_char d s = [s]"
  by (induction s) auto

lemma split_char_once: "d \<notin> set a \<Longrightarrow> split_char d (a @ d # b) = a # split_char d b"
  by (induction a) auto

lemma comma_not_in_show: "CHR '','' \<notin> set (show_nat n)"
  using show_nat_all_digits [of n] not_digits(3) by (auto simp: list_all_iff)

lemma parse_range_render: "a < 2 ^ 64 \<Longrightarrow> b < 2 ^ 64 \<Longrightarrow> parse_range (render_range a b) = Inr (a, b)"
  using comma_not_in_show
  by (simp add: parse_range_def render_range_def split_char_once split_char_none parse_usize_show)

section \<open>Hunks\<close>

lemma render_range_no_ws: "no_ws (render_range a b)"
proof -
  have "no_ws s" if "list_all is_ascii_digit s" for s
    using that by (induction s) (simp_all add: digit_not_ws)
  moreover have "no_ws (x @ y) \<longleftrightarrow> no_ws x \<and> no_ws y" for x y by (induction x) simp_all
  ultimately show ?thesis using show_nat_all_digits by (simp add: render_range_def is_ws_def)
qed

lemma header_words:
  "split_whitespace (render_header h) = [''@@'', ''-'' @ render_range (hk_old_start h) (hk_old_count h),
     ''+'' @ render_range (hk_new_start h) (hk_new_count h), ''@@'']"
  unfolding render_header_def
  by (rule split_whitespace_join) (simp add: render_range_no_ws is_ws_def)

lemma trim_range: "trim_start_char c (c # render_range a b) = render_range a b" if "\<not> is_ascii_digit c"
proof -
  have "hd (show_nat a) \<noteq> c" using hd_show_nat [of a] that by auto
  then show ?thesis using show_nat_not_Nil [of a]
    by (cases "show_nat a") (simp_all add: trim_start_char_def render_range_def)
qed

definition ends_hunk :: "string list \<Rightarrow> bool" where
  "ends_hunk rest \<longleftrightarrow> (case rest of [] \<Rightarrow> True | l # _ \<Rightarrow> prefix ''@@'' l \<or> prefix ''diff '' l)"

lemma read_rest: "ends_hunk rest \<Longrightarrow> read_hunk_lines n rest = ([], rest)"
  by (cases n; cases rest) (auto simp: ends_hunk_def prefix_def)

lemma read_rendered:
  "length ls \<le> n \<Longrightarrow> ends_hunk rest \<Longrightarrow> read_hunk_lines n (map render_line ls @ rest) = (ls, rest)"
proof (induction ls arbitrary: n)
  case Nil
  then show ?case by (simp add: read_rest)
next
  case (Cons l ls)
  then obtain m where n: "n = Suc m" "length ls \<le> m" by (cases n) auto
  from Cons.IH [OF this(2) Cons.prems(2)] show ?case by (cases l) (simp_all add: n push_line_def)
qed

lemma hunk_length: "length (hk_lines h) \<le> length (old_lines h) + length (new_lines h)"
proof -
  have "length ls \<le> length (concat (map old_line ls)) + length (concat (map new_line ls))" for ls
  proof (induction ls)
    case (Cons l ls)
    then show ?case by (cases l) simp_all
  qed simp
  then show ?thesis by (simp add: old_lines_def new_lines_def)
qed

lemma parse_header:
  assumes "hunk_ok h"
  shows "parse_hunk_header (render_header h) ls =
    (case read_hunk_lines (2 * (hk_old_count h + hk_new_count h)) ls of (hls, rest) \<Rightarrow> Inr (h\<lparr>hk_lines := hls\<rparr>, rest))"
proof -
  have small: "hk_old_start h < 2 ^ 64" "hk_new_start h < 2 ^ 64" "hk_old_count h < 2 ^ 64" "hk_new_count h < 2 ^ 64"
    using assms by (simp_all add: hunk_ok_def)
  have m: "max (hk_old_count h) (hk_new_count h) + min (hk_old_count h) (hk_new_count h) = hk_old_count h + hk_new_count h"
    by simp
  have b: "hunk_line_budget (hk_old_count h) (hk_new_count h) = 2 * (hk_old_count h + hk_new_count h)"
    using assms unfolding hunk_line_budget_def m by (simp add: hunk_ok_def)
  have "parse_range (render_range (hk_old_start h) (hk_old_count h)) = Inr (hk_old_start h, hk_old_count h)"
    "parse_range (render_range (hk_new_start h) (hk_new_count h)) = Inr (hk_new_start h, hk_new_count h)"
    by (rule parse_range_render; rule small)+
  then have "parse_hunk_header (render_header h) ls =
    (case read_hunk_lines (2 * (hk_old_count h + hk_new_count h)) ls of
       (hls, rest) \<Rightarrow> Inr (\<lparr>hk_old_start = hk_old_start h, hk_old_count = hk_old_count h,
         hk_new_start = hk_new_start h, hk_new_count = hk_new_count h, hk_lines = hls\<rparr>, rest))"
    by (simp add: parse_hunk_header_def header_words trim_range not_digits numeral_2_eq_2 b)
  then show ?thesis by (cases h) (simp split: prod.split)
qed

lemma parse_rendered_header:
  assumes "hunk_ok h" and "ends_hunk rest"
  shows "parse_hunk_header (render_header h) (map render_line (hk_lines h) @ rest) = Inr (h, rest)"
proof -
  have "read_hunk_lines (2 * (hk_old_count h + hk_new_count h)) (map render_line (hk_lines h) @ rest) = (hk_lines h, rest)"
    by (rule read_rendered [OF _ assms(2)]) (use hunk_length [of h] assms(1) in \<open>simp add: hunk_ok_def\<close>)
  moreover have "h\<lparr>hk_lines := hk_lines h\<rparr> = h" by (cases h) simp
  ultimately show ?thesis unfolding parse_header [OF assms(1)] by simp
qed

section \<open>Sections\<close>

lemma header_at: "prefix ''@@'' (render_header h)"
  by (simp add: render_header_def)

lemma sections_of_hunks:
  assumes "list_all hunk_ok hs" and "rest = [] \<or> prefix ''diff '' (hd rest)"
  shows "file_sections create (concat (map render_hunk hs) @ rest) files (Some f) old
    = file_sections create rest files (Some (f\<lparr>fp_hunks := fp_hunks f @ hs\<rparr>)) old"
  using assms(1)
proof (induction hs arbitrary: f)
  case (Cons h hs)
  let ?rest = "concat (map render_hunk hs) @ rest"
  have e: "ends_hunk ?rest"
    using assms(2) by (cases hs; cases rest) (auto simp: ends_hunk_def render_hunk_def header_at)
  have h: "\<not> prefix ''diff --git '' (render_header h)" "\<not> prefix ''--- '' (render_header h)" "\<not> prefix ''+++ '' (render_header h)"
    by (simp_all add: render_header_def)
  have p: "parse_hunk_header (render_header h) (map render_line (hk_lines h) @ ?rest) = Inr (h, ?rest)"
    by (rule parse_rendered_header [OF _ e]) (use Cons.prems in simp)
  have "concat (map render_hunk (h # hs)) @ rest = render_header h # map render_line (hk_lines h) @ ?rest"
    by (simp add: render_hunk_def [of h])
  then have "file_sections create (concat (map render_hunk (h # hs)) @ rest) files (Some f) old
      = file_sections create ?rest files (Some (add_hunk h f)) old"
    by (simp only:) (simp add: h header_at p)
  also have "\<dots> = file_sections create rest files (Some (f\<lparr>fp_hunks := fp_hunks f @ h # hs\<rparr>)) old"
    using Cons.IH [of "add_hunk h f"] Cons.prems by (simp add: add_hunk_def)
  finally show ?case .
qed simp

lemma trim_outer:
  assumes "s \<noteq> []" and "\<not> is_ws (hd s)" and "\<not> is_ws (last s)"
  shows "trim s = s"
proof -
  have "dropWhile is_ws s = s" using assms(1,2) by (cases s) simp_all
  moreover have "dropWhile is_ws (rev s) = rev s" using assms(1,3) by (cases "rev s") (auto simp: last_rev [symmetric] hd_rev)
  ultimately show ?thesis by (simp add: trim_def trim_start_def trim_end_def)
qed

lemma trim_side: "path_ok p \<Longrightarrow> trim (c # CHR ''/'' # p) = c # CHR ''/'' # p" if "\<not> is_ws c"
  using that by (intro trim_outer) (simp_all add: path_ok_def)

lemma split_once_none: "d \<notin> set s \<Longrightarrow> split_once d s = None"
proof -
  assume "d \<notin> set s"
  then have "dropWhile (\<lambda>c. c \<noteq> d) s = []" by (auto simp: dropWhile_eq_Nil_conv)
  then show ?thesis by (simp only: split_once_def list.case)
qed

lemma normalize_side:
  assumes "path_ok p" and "c \<in> {CHR ''a'', CHR ''b''}"
  shows "normalize_diff_path (c # CHR ''/'' # p) = Some p"
proof -
  have c: "\<not> is_ws c" "c \<noteq> CHR 0x09" using assms(2) by (auto simp: is_ws_def)
  have s: "split_once (CHR 0x09) (c # CHR ''/'' # p) = None" using assms(1) c by (intro split_once_none) (simp add: path_ok_def)
  have t: "trim (c # CHR ''/'' # p) = c # CHR ''/'' # p" by (rule trim_side [OF c(1) assms(1)])
  show ?thesis using assms(2)
    by (auto simp: normalize_diff_path_def s t strip_prefix_def unwrap_or_def)
qed

lemma null_side: "trim ''/dev/null'' = ''/dev/null''" "normalize_diff_path ''/dev/null'' = None"
  by code_simp+

lemma file_sections_file:
  assumes "file_patch_ok f" and "rest = [] \<or> prefix ''diff '' (hd rest)"
  shows "file_sections False (render_file f @ rest) files current old
    = file_sections False rest (finish_section files current) (Some f) None"
proof -
  have p: "path_ok (fp_path f)" and hs: "list_all hunk_ok (fp_hunks f)" and ok: "\<not> (fp_create_if_missing f \<and> fp_delete_after f)"
    using assms(1) by (simp_all add: file_patch_ok_def)
  note sides = trim_side [OF _ p, of "CHR ''a''"] trim_side [OF _ p, of "CHR ''b''"]
    normalize_side [OF p, of "CHR ''a''"] normalize_side [OF p, of "CHR ''b''"]
  have ws: "\<not> is_ws (CHR ''a'')" "\<not> is_ws (CHR ''b'')" by (simp_all add: is_ws_def)
  let ?old = "if fp_create_if_missing f then ''/dev/null'' else ''a/'' @ fp_path f"
  let ?new = "if fp_delete_after f then ''/dev/null'' else ''b/'' @ fp_path f"
  have o: "trim ?old = ?old" "normalize_diff_path ?old = (if fp_create_if_missing f then None else Some (fp_path f))"
    using sides ws null_side by simp_all
  have n: "trim ?new = ?new" "normalize_diff_path ?new = (if fp_delete_after f then None else Some (fp_path f))"
    using sides ws null_side by simp_all
  have r: "resolve_diff_paths (Some ?old) (Some ?new) False = Inr (fp_path f, fp_delete_after f, fp_create_if_missing f)"
    unfolding resolve_diff_paths_def option_bind_def Let_def option.case o n using ok by (auto simp: or_else_def)
  let ?f0 = "\<lparr>fp_path = fp_path f, fp_hunks = [], fp_delete_after = fp_delete_after f,
    fp_create_if_missing = fp_create_if_missing f\<rparr>"
  have "file_sections False (render_file f @ rest) files current old
      = file_sections False ((''--- '' @ ?old) # (''+++ '' @ ?new) # concat (map render_hunk (fp_hunks f)) @ rest)
          (finish_section files current) None None"
    by (simp add: render_file_def)
  also have "\<dots> = file_sections False ((''+++ '' @ ?new) # concat (map render_hunk (fp_hunks f)) @ rest)
      (finish_section files current) None (Some ?old)"
    using o(1) by (subst file_sections.simps) simp
  also have "\<dots> = file_sections False (concat (map render_hunk (fp_hunks f)) @ rest)
      (finish_section files current) (Some ?f0) None"
    using n(1) r by (subst file_sections.simps) (simp add: finish_section_def)
  also have "\<dots> = file_sections False rest (finish_section files current) (Some f) None"
    by (subst sections_of_hunks [OF hs assms(2)]) (cases f, simp)
  finally show ?thesis .
qed

lemma file_starts_diff: "files \<noteq> [] \<Longrightarrow> prefix ''diff '' (hd (concat (map render_file files)))"
  by (cases files) (simp_all add: render_file_def)

lemma file_sections_files:
  assumes "list_all file_patch_ok files"
  shows "file_sections False (concat (map render_file files)) done_files current old
    = (if files = [] then Inr (finish_section done_files current) else Inr (finish_section done_files current @ files))"
  using assms
proof (induction files arbitrary: done_files current old)
  case (Cons f files)
  have r: "concat (map render_file files) = [] \<or> prefix ''diff '' (hd (concat (map render_file files)))"
  proof (cases "files = []")
    case False
    then show ?thesis by (intro disjI2 file_starts_diff)
  qed simp
  have "file_sections False (concat (map render_file (f # files))) done_files current old
      = file_sections False (concat (map render_file files)) (finish_section done_files current) (Some f) None"
    using file_sections_file [OF _ r, of f done_files current old] Cons.prems by (simp only: list.map concat.simps list.pred_inject)
  also have "\<dots> = (if files = [] then Inr (finish_section (finish_section done_files current) (Some f))
      else Inr (finish_section (finish_section done_files current) (Some f) @ files))"
    by (rule Cons.IH) (use Cons.prems in simp)
  finally show ?case by (simp add: finish_section_def)
qed simp

lemma one_line_after: "CHR 0x0A \<notin> set a \<Longrightarrow> one_line p \<Longrightarrow> p \<noteq> [] \<Longrightarrow> one_line (a @ p)"
  by (auto simp: one_line_def ends_cr_def)

lemma one_line_Cons: "c \<notin> {CHR 0x0A, CHR 0x0D} \<Longrightarrow> one_line s \<Longrightarrow> one_line (c # s)"
  by (cases "s = []") (auto simp: one_line_def ends_cr_def)

lemma digits_no_feed: "CHR 0x0A \<notin> set (show_nat n)"
  using show_nat_all_digits [of n] by (auto simp: list_all_iff is_ascii_digit_def)

lemma header_one_line: "one_line (render_header h)"
proof -
  obtain x where x: "render_header h = x @ ''@@''" "CHR 0x0A \<notin> set x"
  proof
    show "render_header h = (''@@ -'' @ render_range (hk_old_start h) (hk_old_count h) @ '' +''
        @ render_range (hk_new_start h) (hk_new_count h) @ '' '') @ ''@@''" by (simp add: render_header_def)
  qed (simp add: render_range_def digits_no_feed)
  then show ?thesis by (simp add: one_line_def ends_cr_def)
qed

lemma line_one_line: "one_line (line_text l) \<Longrightarrow> one_line (render_line l)"
  by (cases l) (simp_all add: one_line_Cons)

lemma hunk_one_line: "hunk_ok h \<Longrightarrow> list_all one_line (render_hunk h)"
  by (simp add: render_hunk_def hunk_ok_def list_all_iff header_one_line line_one_line)

lemma path_one_line: "path_ok p \<Longrightarrow> one_line p"
  by (auto simp: path_ok_def one_line_def ends_cr_def)

lemma rendered_one_line:
  assumes "file_patch_ok f"
  shows "list_all one_line (render_file f)"
proof -
  have ok: "path_ok (fp_path f)" using assms by (simp add: file_patch_ok_def)
  then have p: "one_line (fp_path f)" "fp_path f \<noteq> []" by (simp_all add: path_one_line path_ok_def)
  have "list_all one_line (concat (map render_hunk (fp_hunks f)))"
    using assms hunk_one_line by (auto simp: file_patch_ok_def list_all_iff)
  moreover have "CHR 0x0A \<notin> set (fp_path f)" using p by (simp add: one_line_def)
  then have "one_line ((''diff --git a/'' @ fp_path f @ '' b/'') @ fp_path f)"
    by (intro one_line_after p) simp
  moreover have "one_line (''--- a/'' @ fp_path f)" "one_line (''+++ b/'' @ fp_path f)"
    by (intro one_line_after p; simp)+
  moreover have "one_line ''--- /dev/null''" "one_line ''+++ /dev/null''" by code_simp+
  ultimately show ?thesis by (simp add: render_file_def)
qed

text \<open>C15. Writing file patches as a git diff and reading the text gives them back: paths, creations, deletions,
  hunk headers and every line of every hunk, for patches whose counts agree with their lines and whose lines
  hold no line break.\<close>

theorem diff_round_trip:
  assumes "list_all file_patch_ok files"
  shows "parse_unified_diff_files (render_diff files) False = Inr files"
proof -
  have "list_all one_line (concat (map render_file files))"
    using assms rendered_one_line by (auto simp: list_all_iff)
  then have "str_lines (render_diff files) = concat (map render_file files)"
    unfolding render_diff_def by (rule str_lines_rendered)
  then show ?thesis using file_sections_files [OF assms, of "[]" None None]
    by (simp add: parse_unified_diff_files_def finish_section_def)
qed

text \<open>A deleted file and one with two hunks.\<close>

definition sample_files :: "file_patch list" where
  "sample_files =
     [\<lparr>fp_path = ''src/gone.rs'',
       fp_hunks = [\<lparr>hk_old_start = 1, hk_old_count = 1, hk_new_start = 0, hk_new_count = 0, hk_lines = [RemoveLine ''x'']\<rparr>],
       fp_delete_after = True, fp_create_if_missing = False\<rparr>,
      \<lparr>fp_path = ''f'',
       fp_hunks = [\<lparr>hk_old_start = 1, hk_old_count = 1, hk_new_start = 1, hk_new_count = 1,
           hk_lines = [RemoveLine ''a'', AddLine ''x'']\<rparr>,
         \<lparr>hk_old_start = 7, hk_old_count = 1, hk_new_start = 7, hk_new_count = 2,
           hk_lines = [ContextLine ''b'', AddLine ''-- y'']\<rparr>],
       fp_delete_after = False, fp_create_if_missing = False\<rparr>]"

lemma sample_files_ok: "list_all file_patch_ok sample_files"
  by (simp add: sample_files_def file_patch_ok_def path_ok_def hunk_ok_def one_line_def ends_cr_def is_ws_def
      old_lines_def new_lines_def)

lemma diff_round_trip_witness: "parse_unified_diff_files (render_diff sample_files) False = Inr sample_files"
  by (rule diff_round_trip [OF sample_files_ok])

section \<open>Patches that surprise\<close>

text \<open>Two sections of one file: the second is computed from the file on disk and undoes the first.\<close>

definition change_hunk :: "nat \<Rightarrow> string \<Rightarrow> string \<Rightarrow> hunk" where
  "change_hunk n a b = \<lparr>hk_old_start = n, hk_old_count = 1, hk_new_start = n, hk_new_count = 1,
     hk_lines = [RemoveLine a, AddLine b]\<rparr>"

definition change_file :: "string \<Rightarrow> hunk list \<Rightarrow> file_patch" where
  "change_file path hs = \<lparr>fp_path = path, fp_hunks = hs, fp_delete_after = False, fp_create_if_missing = False\<rparr>"

definition two_sections :: "file_patch list" where
  "two_sections = [change_file ''f'' [change_hunk 1 ''a'' ''x''], change_file ''f'' [change_hunk 2 ''b'' ''y'']]"

lemma section_result:
  assumes "fs path = Some (TextFile text)" and "apply_hunks_to_lines (str_lines text) hs fuzz path = Inr (lines, hst)"
    and "hs \<noteq> []"
  shows "plan_section (sample_patch_env fails) fs fuzz (change_file path hs)
    = Inr (\<lparr>pw_path = path, pw_content = Some (reassemble_preserving_newlines lines text), pw_original = Some text\<rparr>,
        False, hst)"
  using assms by (simp add: plan_section_def change_file_def resolve_target_def sample_patch_env_def read_original_def unwrap_or_def)

definition file_ab :: string where
  "file_ab = concat (map feed_line [''a'', ''b''])"

lemma second_section_wins:
  "map_sum (\<lambda>e. e) (\<lambda>(ws, st). run_writes ws [''f'' \<mapsto> TextFile file_ab] ''f'')
      (build_pending_writes_from_patches (sample_patch_env (\<lambda>_. False)) [''f'' \<mapsto> TextFile file_ab] two_sections 3)
    = Inr (Some (TextFile (concat (map feed_line [''a'', ''y'']))))"
proof -
  have l: "str_lines file_ab = [''a'', ''b'']"
    unfolding file_ab_def by (rule str_lines_rendered) (simp add: one_line_def ends_cr_def)
  have h1: "apply_hunks_to_lines (str_lines file_ab) [change_hunk 1 ''a'' ''x''] 3 ''f''
      = Inr ([''x'', ''b''], \<lparr>hs_hunks_applied = 1, hs_fuzz_used = 0, hs_hunks_with_fuzz = 0\<rparr>)"
    using diff_applies_exactly [of "[([], change_hunk 1 ''a'' ''x'')]" "[''b'']" 3 "''f''"]
    by (simp add: l change_hunk_def old_lines_def new_lines_def)
  have h2: "apply_hunks_to_lines (str_lines file_ab) [change_hunk 2 ''b'' ''y''] 3 ''f''
      = Inr ([''a'', ''y''], \<lparr>hs_hunks_applied = 1, hs_fuzz_used = 0, hs_hunks_with_fuzz = 0\<rparr>)"
    using diff_applies_exactly [of "[([''a''], change_hunk 2 ''b'' ''y'')]" "[]" 3 "''f''"]
    by (simp add: l change_hunk_def old_lines_def new_lines_def)
  have r: "reassemble_preserving_newlines [''a'', ''y''] file_ab = concat (map feed_line [''a'', ''y''])" by code_simp
  note s1 = section_result [OF _ h1, of "[''f'' \<mapsto> TextFile file_ab]"] and s2 = section_result [OF _ h2, of "[''f'' \<mapsto> TextFile file_ab]"]
  show ?thesis
    by (simp add: build_pending_writes_from_patches_def two_sections_def s1 s2 run_writes_def put_file_def r del: One_nat_def)
qed

text \<open>Without a line that begins with diff, the headers of the second file are read as lines of the hunk.\<close>

definition plain_headers :: "string list" where
  "plain_headers = [''--- a/f'', ''+++ b/f'', render_header (change_hunk 1 ''a'' ''x''), ''-a'', ''+x'',
     ''--- a/g'', ''+++ b/g'', render_header (change_hunk 1 ''b'' ''y''), ''-b'', ''+y'']"

lemma change_hunk_ok: "one_line a \<Longrightarrow> one_line b \<Longrightarrow> n < 2 ^ 64 \<Longrightarrow> hunk_ok (change_hunk n a b)"
  by (simp add: hunk_ok_def change_hunk_def old_lines_def new_lines_def)

lemma plain_headers_swallowed:
  "file_sections False plain_headers [] None None
    = Inr [change_file ''f''
        [(change_hunk 1 ''a'' ''x'')\<lparr>hk_lines := [RemoveLine ''a'', AddLine ''x'', RemoveLine ''-- a/g'', AddLine ''++ b/g'']\<rparr>,
         change_hunk 1 ''b'' ''y'']]"
proof -
  let ?h = "change_hunk 1 ''a'' ''x''" and ?g = "change_hunk 1 ''b'' ''y''"
  have ok: "hunk_ok ?h" "hunk_ok ?g" by (rule change_hunk_ok; simp add: one_line_def ends_cr_def)+
  have four: "2 * (hk_old_count ?h + hk_new_count ?h) = Suc (Suc (Suc (Suc 0)))" by (simp add: change_hunk_def)
  have 1: "parse_hunk_header (render_header ?h) [''-a'', ''+x'', ''--- a/g'', ''+++ b/g'', render_header ?g, ''-b'', ''+y'']
      = Inr (?h\<lparr>hk_lines := [RemoveLine ''a'', AddLine ''x'', RemoveLine ''-- a/g'', AddLine ''++ b/g'']\<rparr>,
          [render_header ?g, ''-b'', ''+y''])"
    unfolding parse_header [OF ok(1)] four by (simp add: push_line_def)
  have 2: "parse_hunk_header (render_header ?g) [''-b'', ''+y''] = Inr (?g, [])"
    using parse_rendered_header [OF ok(2), of "[]"] by (simp add: change_hunk_def ends_hunk_def)
  have n: "\<not> prefix ''diff --git '' (render_header h)" "\<not> prefix ''--- '' (render_header h)" "\<not> prefix ''+++ '' (render_header h)" for h
    by (simp_all add: render_header_def)
  have r: "resolve_diff_paths (Some (trim ''a/f'')) (Some (trim ''b/f'')) False = Inr (''f'', False, False)" by code_simp
  show ?thesis
    unfolding plain_headers_def
    by (simp add: n header_at r 1 [simplified] 2 [simplified] finish_section_def add_hunk_def change_file_def)
qed

end
