(* ===== verification/Worker_Profile.thy ===== *)
theory Worker_Profile
  imports Json
begin

text \<open>
  The capability contract of a worker (\<open>crates/tui/src/worker_profile.rs\<close>) and the roles of sub-agents
  (\<open>tools/subagent/mod.rs\<close>, \<open>fleet/worker_runtime.rs\<close>): permissions, shell access, tools, denied tools and
  the budget for nested delegation, and how the profile of a child is derived from that of its parent.
\<close>

section \<open>Roles\<close>

datatype sub_agent_type = General | Explore | PlanRole | ReviewRole | Implementer | Verifier | CustomRole

definition sub_agent_type_from_str :: "string \<Rightarrow> sub_agent_type option" where
  "sub_agent_type_from_str s =
     (let k = to_ascii_lowercase s in
      if k \<in> {''general'', ''general-purpose'', ''general_purpose'', ''worker'', ''default''} then Some General
      else if k \<in> {''explore'', ''exploration'', ''explorer''} then Some Explore
      else if k \<in> {''plan'', ''planning'', ''planner'', ''awaiter''} then Some PlanRole
      else if k \<in> {''review'', ''code-review'', ''code_review'', ''reviewer''} then Some ReviewRole
      else if k \<in> {''implementer'', ''implement'', ''implementation'', ''builder''} then Some Implementer
      else if k \<in> {''verifier'', ''verify'', ''verification'', ''validator'', ''tester''} then Some Verifier
      else if k = ''custom'' then Some CustomRole
      else None)"

fun sub_agent_type_as_str :: "sub_agent_type \<Rightarrow> string" where
  "sub_agent_type_as_str General = ''general''"
| "sub_agent_type_as_str Explore = ''explore''"
| "sub_agent_type_as_str PlanRole = ''plan''"
| "sub_agent_type_as_str ReviewRole = ''review''"
| "sub_agent_type_as_str Implementer = ''implementer''"
| "sub_agent_type_as_str Verifier = ''verifier''"
| "sub_agent_type_as_str CustomRole = ''custom''"

definition normalize_role_alias :: "string \<Rightarrow> string option" where
  "normalize_role_alias s =
     (let k = to_ascii_lowercase s in
      if k = ''default'' then Some ''default''
      else if k \<in> {''worker'', ''general'', ''general-purpose'', ''general_purpose''} then Some ''worker''
      else if k \<in> {''explorer'', ''explore'', ''exploration''} then Some ''explorer''
      else if k \<in> {''awaiter'', ''plan'', ''planner'', ''planning''} then Some ''awaiter''
      else if k \<in> {''reviewer'', ''review'', ''code-review'', ''code_review''} then Some ''reviewer''
      else if k \<in> {''implementer'', ''implement'', ''implementation'', ''builder''} then Some ''implementer''
      else if k \<in> {''verifier'', ''verify'', ''verification'', ''validator'', ''tester''} then Some ''verifier''
      else if k = ''custom'' then Some ''custom''
      else None)"

definition fleet_role_to_agent_type :: "string option \<Rightarrow> sub_agent_type" where
  "fleet_role_to_agent_type role =
     (case role of
        None \<Rightarrow> General
      | Some r \<Rightarrow>
          if r = ''smoke-runner'' then Verifier
          else if r = ''scout'' \<or> r = ''read-only'' then Explore
          else if r = ''reviewer'' then ReviewRole
          else if r = ''builder'' then Implementer
          else if r = ''verifier'' \<or> r = ''tester'' then Verifier
          else if r = ''planner'' then PlanRole
          else if r = ''explorer'' then Explore
          else if r \<in> {''manager'', ''coordinator'', ''operator''} then General
          else if r \<in> {''synthesizer'', ''summarizer'', ''reducer''} then PlanRole
          else if r = ''general'' then General
          else unwrap_or General (sub_agent_type_from_str r))"

section \<open>Capabilities\<close>

record permission_set =
  ps_write :: bool
  ps_network :: bool

definition full_permissions :: permission_set where
  "full_permissions = \<lparr>ps_write = True, ps_network = True\<rparr>"

definition read_only_permissions :: permission_set where
  "read_only_permissions = \<lparr>ps_write = False, ps_network = False\<rparr>"

definition intersect_permissions :: "permission_set \<Rightarrow> permission_set \<Rightarrow> permission_set" where
  "intersect_permissions a b = \<lparr>ps_write = (ps_write a \<and> ps_write b), ps_network = (ps_network a \<and> ps_network b)\<rparr>"

text \<open>Ordered from the most to the least restrictive.\<close>

datatype shell_policy = NoShell | ReadOnlyShell | FullShell

fun shell_rank :: "shell_policy \<Rightarrow> nat" where
  "shell_rank NoShell = 0"
| "shell_rank ReadOnlyShell = 1"
| "shell_rank FullShell = 2"

instantiation shell_policy :: linorder
begin

definition less_eq_shell_policy :: "shell_policy \<Rightarrow> shell_policy \<Rightarrow> bool" where
  "less_eq_shell_policy a b \<longleftrightarrow> shell_rank a \<le> shell_rank b"

definition less_shell_policy :: "shell_policy \<Rightarrow> shell_policy \<Rightarrow> bool" where
  "less_shell_policy a b \<longleftrightarrow> shell_rank a < shell_rank b"

instance
proof
  fix x y :: shell_policy
  assume "x \<le> y" "y \<le> x"
  then show "x = y" by (cases x; cases y) (simp_all add: less_eq_shell_policy_def)
qed (auto simp: less_eq_shell_policy_def less_shell_policy_def)

end

definition shell_from_legacy :: "bool \<Rightarrow> shell_policy" where
  "shell_from_legacy allow_shell = (if allow_shell then FullShell else NoShell)"

definition allows_shell :: "shell_policy \<Rightarrow> bool" where
  "allows_shell s \<longleftrightarrow> s \<noteq> NoShell"

definition min_with :: "shell_policy \<Rightarrow> shell_policy \<Rightarrow> shell_policy" where
  "min_with a b = (if a \<le> b then a else b)"

datatype tool_scope = InheritTools | ExplicitTools "string list"

datatype model_route = InheritModel | FasterModel | AutoModel | FixedModel string

section \<open>Profiles\<close>

record worker_runtime_profile =
  wp_role :: sub_agent_type
  wp_permissions :: permission_set
  wp_shell :: shell_policy
  wp_tools :: tool_scope
  wp_model :: model_route
  wp_provider :: "string option"
  wp_reasoning_effort :: "string option"
  wp_denied_tools :: "string list"
  wp_max_spawn_depth :: nat
  wp_max_steps :: nat
  wp_background :: bool

definition default_spawn_depth :: nat where
  "default_spawn_depth = 3"

definition max_spawn_depth_ceiling :: nat where
  "max_spawn_depth_ceiling = 8"

definition read_only_max_steps :: nat where
  "read_only_max_steps = 60"

definition general_max_steps :: nat where
  "general_max_steps = 120"

fun default_max_steps :: "sub_agent_type \<Rightarrow> nat" where
  "default_max_steps Explore = read_only_max_steps"
| "default_max_steps ReviewRole = read_only_max_steps"
| "default_max_steps PlanRole = read_only_max_steps"
| "default_max_steps Verifier = read_only_max_steps"
| "default_max_steps Implementer = general_max_steps"
| "default_max_steps General = general_max_steps"
| "default_max_steps CustomRole = general_max_steps"

fun role_posture :: "sub_agent_type \<Rightarrow> permission_set \<times> shell_policy" where
  "role_posture Explore = (read_only_permissions, ReadOnlyShell)"
| "role_posture ReviewRole = (read_only_permissions, ReadOnlyShell)"
| "role_posture PlanRole = (read_only_permissions, NoShell)"
| "role_posture Verifier = (read_only_permissions, FullShell)"
| "role_posture Implementer = (full_permissions, FullShell)"
| "role_posture General = (full_permissions, FullShell)"
| "role_posture CustomRole = (read_only_permissions, NoShell)"

definition for_role :: "sub_agent_type \<Rightarrow> worker_runtime_profile" where
  "for_role role =
     (case role_posture role of (permissions, shell) \<Rightarrow>
        \<lparr>wp_role = role, wp_permissions = permissions, wp_shell = shell, wp_tools = InheritTools,
         wp_model = InheritModel, wp_provider = None, wp_reasoning_effort = None, wp_denied_tools = [],
         wp_max_spawn_depth = default_spawn_depth, wp_max_steps = default_max_steps role, wp_background = True\<rparr>)"

text \<open>The rules of the second list that the first does not have yet, at its end.\<close>

definition add_rules :: "string list \<Rightarrow> string list \<Rightarrow> string list" where
  "add_rules denied rules = foldl (\<lambda>d r. if r \<in> set d then d else d @ [r]) denied rules"

fun derive_tools :: "tool_scope \<Rightarrow> tool_scope \<Rightarrow> tool_scope" where
  "derive_tools (ExplicitTools parent) (ExplicitTools child) = ExplicitTools (filter (\<lambda>n. n \<in> set parent) child)"
| "derive_tools (ExplicitTools parent) InheritTools = ExplicitTools parent"
| "derive_tools InheritTools child = child"

definition derive_child :: "worker_runtime_profile \<Rightarrow> worker_runtime_profile \<Rightarrow> worker_runtime_profile" where
  "derive_child parent requested =
     \<lparr>wp_role = wp_role requested,
      wp_permissions = intersect_permissions (wp_permissions parent) (wp_permissions requested),
      wp_shell = min_with (wp_shell parent) (wp_shell requested),
      wp_tools = derive_tools (wp_tools parent) (wp_tools requested),
      wp_model = wp_model requested,
      wp_provider = (case wp_provider requested of Some p \<Rightarrow> Some p | None \<Rightarrow> wp_provider parent),
      wp_reasoning_effort =
        (case wp_reasoning_effort requested of Some r \<Rightarrow> Some r | None \<Rightarrow> wp_reasoning_effort parent),
      wp_denied_tools = add_rules (wp_denied_tools parent) (wp_denied_tools requested),
      wp_max_spawn_depth = min (min (wp_max_spawn_depth requested) (wp_max_spawn_depth parent - 1)) max_spawn_depth_ceiling,
      wp_max_steps = wp_max_steps requested,
      wp_background = wp_background requested\<rparr>"

definition can_spawn_child :: "worker_runtime_profile \<Rightarrow> bool" where
  "can_spawn_child p \<longleftrightarrow> wp_max_spawn_depth p > 0"

section \<open>The order of authority\<close>

text \<open>What a list of tools allows; \<open>Inherit\<close> allows all.\<close>

fun scope_allows :: "tool_scope \<Rightarrow> string \<Rightarrow> bool" where
  "scope_allows InheritTools n \<longleftrightarrow> True"
| "scope_allows (ExplicitTools ns) n \<longleftrightarrow> n \<in> set ns"

text \<open>The second profile grants nothing that the first does not: permissions, shell and tools.\<close>

definition within :: "worker_runtime_profile \<Rightarrow> worker_runtime_profile \<Rightarrow> bool" where
  "within parent child \<longleftrightarrow>
     (ps_write (wp_permissions child) \<longrightarrow> ps_write (wp_permissions parent))
     \<and> (ps_network (wp_permissions child) \<longrightarrow> ps_network (wp_permissions parent))
     \<and> wp_shell child \<le> wp_shell parent
     \<and> (\<forall>n. scope_allows (wp_tools child) n \<longrightarrow> scope_allows (wp_tools parent) n)"

lemma within_refl [simp]: "within p p"
  by (simp add: within_def)

lemma within_trans: "within a b \<Longrightarrow> within b c \<Longrightarrow> within a c"
  by (auto simp: within_def intro: order_trans)

lemma set_add_rules [simp]: "set (add_rules denied rules) = set denied \<union> set rules"
proof (induction rules arbitrary: denied)
  case (Cons r rules)
  have "add_rules denied (r # rules) = add_rules (if r \<in> set denied then denied else denied @ [r]) rules"
    by (simp add: add_rules_def)
  with Cons [of "if r \<in> set denied then denied else denied @ [r]"] show ?case by auto
qed (simp add: add_rules_def)

lemma distinct_add_rules: "distinct denied \<Longrightarrow> distinct (add_rules denied rules)"
proof (induction rules arbitrary: denied)
  case (Cons r rules)
  then show ?case using Cons.IH [of "if r \<in> set denied then denied else denied @ [r]"] by (simp add: add_rules_def)
qed (simp add: add_rules_def)

lemma derived_tools_allow:
  "scope_allows (derive_tools parent child) n \<longleftrightarrow> scope_allows parent n \<and> scope_allows child n"
  by (cases "(parent, child)" rule: derive_tools.cases) auto

lemma min_with_le: "min_with a b \<le> a" "min_with a b \<le> b"
  by (auto simp: min_with_def)

lemma derived_within: "within parent (derive_child parent requested)" "within requested (derive_child parent requested)"
  by (simp_all add: within_def derive_child_def intersect_permissions_def derived_tools_allow min_with_le)

text \<open>A derived profile is the greatest that lies within both.\<close>

lemma derived_greatest:
  assumes "within parent p" and "within requested p"
  shows "within (derive_child parent requested) p"
  using assms
  by (auto simp: within_def derive_child_def intersect_permissions_def derived_tools_allow min_with_def)

lemma derived_denied:
  "set (wp_denied_tools (derive_child parent requested)) = set (wp_denied_tools parent) \<union> set (wp_denied_tools requested)"
  by (simp add: derive_child_def)

text \<open>C19. The profile of a child is the greatest one within both its parent's and the requested one: it is
  within both in permissions, shell and tools, so a child can never escalate, and nothing that both grant is
  lost; its denied tools are those of both together.\<close>

theorem derive_child_greatest:
  "(within parent p \<and> within requested p) = within (derive_child parent requested) p
   \<and> set (wp_denied_tools (derive_child parent requested)) = set (wp_denied_tools parent) \<union> set (wp_denied_tools requested)"
proof (rule conjI [OF _ derived_denied], rule iffI)
  assume "within parent p \<and> within requested p"
  then show "within (derive_child parent requested) p" by (simp add: derived_greatest)
next
  assume "within (derive_child parent requested) p"
  then show "within parent p \<and> within requested p"
    using within_trans [OF derived_within(1)] within_trans [OF derived_within(2)] by blast
qed

lemma derived_budget:
  "can_spawn_child (derive_child parent requested)
    \<Longrightarrow> wp_max_spawn_depth (derive_child parent requested) < wp_max_spawn_depth parent"
  by (auto simp: can_spawn_child_def derive_child_def)

end
