(* ===== verification/Sub_Agent_Request.thy ===== *)
theory Sub_Agent_Request
  imports Worker_Profile
begin

text \<open>
  The arguments of the \<open>agent\<close> tool when it starts a sub-agent (\<open>crates/tui/src/tools/subagent/mod.rs\<close>,
  \<open>parse_spawn_request\<close> and what it calls). The texts of the errors are left out.
\<close>

datatype spawn_error =
    BothTextAndItems | MissingPrompt | ItemsNotArray | ItemsEmpty | ItemNotObject | ItemLacks string string
  | NameBlank | NameHasSpace | NameHasSign | InvalidType string | ConflictingRoles | TokenBlank string
  | TokenNotBare string | ModelBlank | ModelNotString | InvalidStrength | InvalidThinking | DepthOutOfRange
  | BudgetNotInteger string | BudgetZero string | WorktreeNotBool string | InvalidIsolation string
  | WorktreeConflict | DeliberateLacks "string list" | PolicyConflict | InvalidPolicy string
  | InvalidAuthority string | AuthorityNeedsWorktree
  | UnknownProfile string | ProfileConflict string | DepthLimit nat nat | RateLimited nat | AdmissionLimit
  | WorkspaceRefused string | RouteRefused string | CustomNeedsTools | NameInUse string | BudgetRefused

section \<open>Reading single arguments\<close>

text \<open>The first of the keys whose trimmed text is not empty.\<close>

definition optional_input_str :: "json \<Rightarrow> string list \<Rightarrow> string option" where
  "optional_input_str v keys =
     List.find (\<lambda>s. s \<noteq> []) (map trim (List.map_filter (\<lambda>k. json_field v k json_as_str) keys))"

definition first_present :: "json \<Rightarrow> string list \<Rightarrow> json option" where
  "first_present v keys = (case List.map_filter (json_get v) keys of [] \<Rightarrow> None | w # _ \<Rightarrow> Some w)"

fun as_bool :: "json \<Rightarrow> bool option" where
  "as_bool (JBool b) = Some b"
| "as_bool _ = None"

definition parse_optional_bool :: "json \<Rightarrow> string list \<Rightarrow> bool option" where
  "parse_optional_bool v keys = (case first_present v keys of None \<Rightarrow> None | Some w \<Rightarrow> as_bool w)"

fun parse_optional_bool_strict :: "json \<Rightarrow> string list \<Rightarrow> spawn_error + bool option" where
  "parse_optional_bool_strict v [] = Inr None"
| "parse_optional_bool_strict v (k # ks) =
     (case json_get v k of
        None \<Rightarrow> parse_optional_bool_strict v ks
      | Some w \<Rightarrow> (case as_bool w of Some b \<Rightarrow> Inr (Some b) | None \<Rightarrow> Inl (WorktreeNotBool k)))"

fun parse_optional_positive_u64 :: "json \<Rightarrow> string list \<Rightarrow> spawn_error + u64 option" where
  "parse_optional_positive_u64 v [] = Inr None"
| "parse_optional_positive_u64 v (k # ks) =
     (case json_get v k of
        None \<Rightarrow> parse_optional_positive_u64 v ks
      | Some w \<Rightarrow>
          (case json_as_u64 w of
             None \<Rightarrow> Inl (BudgetNotInteger k)
           | Some n \<Rightarrow> if n = 0 then Inl (BudgetZero k) else Inr (Some n)))"

text \<open>Trimmed names without blanks and repetitions.\<close>

definition tool_names :: "json list \<Rightarrow> string list" where
  "tool_names items =
     foldl (\<lambda>ts s. if s = [] \<or> s \<in> set ts then ts else ts @ [s]) []
       (map trim (List.map_filter json_as_str items))"

definition parse_allowed_tools :: "json \<Rightarrow> string list option" where
  "parse_allowed_tools v = map_option tool_names (json_field v ''allowed_tools'' json_as_array)"

definition parse_disallowed_tools :: "json \<Rightarrow> string list option" where
  "parse_disallowed_tools v =
     (case json_field v ''disallowed_tools'' json_as_array of
        None \<Rightarrow> None
      | Some items \<Rightarrow> (let ts = tool_names items in if ts = [] then None else Some ts))"

section \<open>The prompt\<close>

fun is_object :: "json \<Rightarrow> bool" where
  "is_object (JObj _) \<longleftrightarrow> True"
| "is_object _ \<longleftrightarrow> False"

definition item_field :: "json \<Rightarrow> string \<Rightarrow> string option" where
  "item_field item k =
     (case json_field item k json_as_str of None \<Rightarrow> None
      | Some s \<Rightarrow> if trim s = [] then None else Some (trim s))"

definition named_item :: "string \<Rightarrow> json \<Rightarrow> spawn_error + string" where
  "named_item kind item =
     (case item_field item ''name'' of None \<Rightarrow> Inl (ItemLacks kind ''name'')
      | Some nm \<Rightarrow>
          (case item_field item ''path'' of None \<Rightarrow> Inl (ItemLacks kind ''path'')
           | Some path \<Rightarrow> Inr (''['' @ kind @ '':$'' @ nm @ '']('' @ path @ '')'')))"

definition item_text :: "json \<Rightarrow> spawn_error + string" where
  "item_text item =
     (if \<not> is_object item then Inl ItemNotObject
      else
        let kind = trim (unwrap_or ''text'' (json_field item ''type'' json_as_str)) in
        if kind = ''text'' then
          (case item_field item ''text'' of None \<Rightarrow> Inl (ItemLacks kind ''text'') | Some s \<Rightarrow> Inr s)
        else if kind = ''mention'' \<or> kind = ''skill'' then named_item kind item
        else if kind = ''local_image'' then
          (case item_field item ''path'' of None \<Rightarrow> Inl (ItemLacks kind ''path'')
           | Some s \<Rightarrow> Inr (''[local_image:'' @ s @ '']''))
        else if kind = ''image'' then
          (case item_field item ''image_url'' of None \<Rightarrow> Inl (ItemLacks kind ''image_url'')
           | Some s \<Rightarrow> Inr (''[image:'' @ s @ '']''))
        else Inr (unwrap_or ''[input]'' (item_field item ''text'')))"

fun item_texts :: "json list \<Rightarrow> spawn_error + string list" where
  "item_texts [] = Inr []"
| "item_texts (item # items) =
     (case item_text item of Inl e \<Rightarrow> Inl e | Inr s \<Rightarrow> map_sum id (Cons s) (item_texts items))"

definition parse_items_text :: "json \<Rightarrow> string \<Rightarrow> spawn_error + string option" where
  "parse_items_text v key =
     (case json_get v key of
        None \<Rightarrow> Inr None
      | Some w \<Rightarrow>
          (case json_as_array w of
             None \<Rightarrow> Inl ItemsNotArray
           | Some items \<Rightarrow>
               if items = [] then Inl ItemsEmpty
               else map_sum id (\<lambda>ls. Some (join_str [CHR 0x0A] ls)) (item_texts items)))"

definition parse_text_or_items :: "json \<Rightarrow> string list \<Rightarrow> string \<Rightarrow> spawn_error + string" where
  "parse_text_or_items v text_keys items_key =
     (case parse_items_text v items_key of
        Inl e \<Rightarrow> Inl e
      | Inr items \<Rightarrow>
          (case (optional_input_str v text_keys, items) of
             (Some _, Some _) \<Rightarrow> Inl BothTextAndItems
           | (Some s, None) \<Rightarrow> Inr s
           | (None, Some s) \<Rightarrow> Inr s
           | (None, None) \<Rightarrow> Inl MissingPrompt))"

section \<open>Names, models, worktrees\<close>

definition is_name_char :: "char \<Rightarrow> bool" where
  "is_name_char c \<longleftrightarrow> is_ascii_alphanumeric c \<or> c \<in> {CHR ''-'', CHR ''_'', CHR ''.''}"

definition validate_session_name :: "string \<Rightarrow> spawn_error + string" where
  "validate_session_name s =
     (let t = trim s in
      if t = [] then Inl NameBlank
      else if list_ex is_ws t then Inl NameHasSpace
      else if \<not> list_all is_name_char t then Inl NameHasSign
      else Inr t)"

definition is_token_char :: "char \<Rightarrow> bool" where
  "is_token_char c \<longleftrightarrow>
     33 \<le> (of_char c :: nat) \<and> (of_char c :: nat) \<le> 126 \<and> c \<notin> {CHR 0x22, CHR 0x27, CHR 0x60, CHR ''=''}"

definition validate_roster_token :: "string \<Rightarrow> string \<Rightarrow> spawn_error + string" where
  "validate_roster_token s field_name =
     (let t = trim s in
      if t = [] then Inl (TokenBlank field_name)
      else if \<not> list_all is_token_char t then Inl (TokenNotBare field_name)
      else Inr (to_ascii_lowercase t))"

definition parse_optional_subagent_model :: "json \<Rightarrow> string \<Rightarrow> spawn_error + string option" where
  "parse_optional_subagent_model v key =
     (case json_get v key of
        None \<Rightarrow> Inr None
      | Some JNull \<Rightarrow> Inr None
      | Some (JStr s) \<Rightarrow> if trim s = [] then Inl ModelBlank else Inr (Some (trim s))
      | Some _ \<Rightarrow> Inl ModelNotString)"

datatype model_strength = SameStrength | FasterStrength

definition model_strength_parse :: "string \<Rightarrow> spawn_error + model_strength" where
  "model_strength_parse s =
     (let k = to_ascii_lowercase (trim s) in
      if k \<in> {''same'', ''inherit'', ''parent'', ''current''} then Inr SameStrength
      else if k \<in> {''faster'', ''fast'', ''smaller'', ''small'', ''lower'', ''cheap'', ''flash''} then Inr FasterStrength
      else Inl InvalidStrength)"

fun strength_route :: "model_strength \<Rightarrow> model_route" where
  "strength_route SameStrength = InheritModel"
| "strength_route FasterStrength = FasterModel"

datatype reasoning_effort = EffortOff | EffortLow | EffortMedium | EffortHigh | EffortMax

datatype sub_agent_thinking = InheritThinking | AutoThinking | ThinkingEffort reasoning_effort

definition thinking_parse :: "string \<Rightarrow> spawn_error + sub_agent_thinking" where
  "thinking_parse s =
     (let k = to_ascii_lowercase (trim s) in
      if k \<in> {''inherit'', ''parent'', ''same'', ''current''} then Inr InheritThinking
      else if k \<in> {''auto'', ''automatic''} then Inr AutoThinking
      else if k \<in> {''off'', ''disabled'', ''none'', ''false''} then Inr (ThinkingEffort EffortOff)
      else if k \<in> {''low'', ''minimal''} then Inr (ThinkingEffort EffortLow)
      else if k \<in> {''medium'', ''mid''} then Inr (ThinkingEffort EffortMedium)
      else if k = ''high'' then Inr (ThinkingEffort EffortHigh)
      else if k \<in> {''max'', ''maximum'', ''xhigh'', ''ultracode''} then Inr (ThinkingEffort EffortMax)
      else Inl InvalidThinking)"

record worktree_request =
  wr_branch :: "string option"
  wr_path :: "string option"
  wr_base_ref :: "string option"

definition isolation_wants_worktree :: "json \<Rightarrow> spawn_error + bool" where
  "isolation_wants_worktree v =
     (case map_option (\<lambda>s. filter (\<lambda>c. c \<noteq> CHR ''_'' \<and> c \<noteq> CHR ''-'') (to_ascii_lowercase (trim s)))
         (optional_input_str v [''isolation'']) of
        None \<Rightarrow> Inr False
      | Some k \<Rightarrow>
          if k \<in> {'''', ''none'', ''shared''} then Inr False
          else if k \<in> {''worktree'', ''gitworktree''} then Inr True
          else Inl (InvalidIsolation k))"

definition parse_optional_worktree_request :: "json \<Rightarrow> spawn_error + worktree_request option" where
  "parse_optional_worktree_request v =
     (case parse_optional_bool_strict v [''worktree'', ''isolate_worktree'', ''isolateWorktree''] of
        Inl e \<Rightarrow> Inl e
      | Inr flag \<Rightarrow>
          (case isolation_wants_worktree v of
             Inl e \<Rightarrow> Inl e
           | Inr isolated \<Rightarrow>
               (let branch = optional_input_str v [''worktree_branch'', ''worktreeBranch'', ''branch_name'', ''branchName'', ''branch''];
                    path = optional_input_str v [''worktree_path'', ''worktreePath'', ''worktree_dir'', ''worktreeDir''];
                    base = optional_input_str v [''worktree_base'', ''worktreeBase'', ''base_ref'', ''baseRef''];
                    details = (branch \<noteq> None \<or> path \<noteq> None \<or> base \<noteq> None) in
                if flag = Some False \<and> (isolated \<or> details) then Inl WorktreeConflict
                else if unwrap_or False flag \<or> isolated \<or> details
                then Inr (Some \<lparr>wr_branch = branch, wr_path = path, wr_base_ref = base\<rparr>)
                else Inr None)))"

definition parse_optional_cwd :: "json \<Rightarrow> string option" where
  "parse_optional_cwd v =
     (case map_option trim (json_field v ''cwd'' json_as_str) of
        None \<Rightarrow> None | Some s \<Rightarrow> if s = [] then None else Some s)"

section \<open>The request\<close>

datatype write_authority = ReadOnlyAuthority | WorkspaceWrite | WorktreeWrite

record spawn_request =
  sr_session_name :: "string option"
  sr_prompt :: string
  sr_agent_type :: sub_agent_type
  sr_type_explicit :: bool
  sr_profile :: "string option"
  sr_role :: "string option"
  sr_allowed_tools :: "string list option"
  sr_model :: "string option"
  sr_strength :: model_strength
  sr_strength_explicit :: bool
  sr_thinking :: sub_agent_thinking
  sr_cwd :: "string option"
  sr_worktree :: "worktree_request option"
  sr_resident_file :: "string option"
  sr_fork_context :: bool
  sr_max_depth :: "nat option"
  sr_token_budget :: "u64 option"
  sr_max_steps :: "nat option"
  sr_wall_time :: "nat option"
  sr_disallowed_tools :: "string list option"
  sr_inherit_disallowed :: bool
  sr_write_authority :: "write_authority option"
  sr_expected_artifact :: "string option"

definition max_subagent_steps :: nat where
  "max_subagent_steps = 2000"

definition max_child_wall_secs :: nat where
  "max_child_wall_secs = 24 * 60 * 60"

text \<open>The type the caller names, by \<open>type\<close> or by a role that is an alias of a type.\<close>

definition parse_agent_type :: "json \<Rightarrow> spawn_error + sub_agent_type option" where
  "parse_agent_type v =
     (let role_type = (case optional_input_str v [''role'', ''agent_role''] of
          None \<Rightarrow> None | Some r \<Rightarrow> sub_agent_type_from_str r) in
      case optional_input_str v [''type'', ''agent_type'', ''agent_name''] of
        None \<Rightarrow> Inr role_type
      | Some kind \<Rightarrow>
          (case sub_agent_type_from_str kind of
             None \<Rightarrow> Inl (InvalidType kind)
           | Some t \<Rightarrow> if role_type \<noteq> None \<and> role_type \<noteq> Some t then Inl ConflictingRoles else Inr (Some t)))"

text \<open>A role that is no alias of a type names a member of the roster.\<close>

definition parse_role_token :: "json \<Rightarrow> spawn_error + string option" where
  "parse_role_token v =
     (case optional_input_str v [''role'', ''agent_role''] of
        None \<Rightarrow> Inr None
      | Some r \<Rightarrow>
          if sub_agent_type_from_str r \<noteq> None then Inr None
          else map_sum id Some (validate_roster_token r ''role''))"

definition role_alias :: "json \<Rightarrow> string option" where
  "role_alias v =
     (let of_key = (\<lambda>ks. case optional_input_str v ks of None \<Rightarrow> None | Some s \<Rightarrow> normalize_role_alias s) in
      case of_key [''role'', ''agent_role''] of
        Some r \<Rightarrow> Some r | None \<Rightarrow> of_key [''type'', ''agent_type'', ''agent_name''])"

definition parse_profile :: "json \<Rightarrow> string option \<Rightarrow> spawn_error + string option" where
  "parse_profile v token =
     (case optional_input_str v [''profile'', ''fleet_profile'', ''roster_profile''] of
        None \<Rightarrow> Inr token
      | Some s \<Rightarrow> map_sum id Some (validate_roster_token s ''profile''))"

definition parse_max_depth :: "json \<Rightarrow> spawn_error + nat option" where
  "parse_max_depth v =
     (case first_present v [''max_depth'', ''maxDepth'', ''max_spawn_depth''] of
        None \<Rightarrow> Inr None
      | Some w \<Rightarrow>
          (case json_as_u64 w of
             None \<Rightarrow> Inr None
           | Some d \<Rightarrow> if unat d \<le> max_spawn_depth_ceiling then Inr (Some (unat d)) else Inl DepthOutOfRange))"

definition parse_count :: "json \<Rightarrow> string list \<Rightarrow> (nat \<Rightarrow> nat) \<Rightarrow> nat option" where
  "parse_count v keys clamp_to =
     (case first_present v keys of None \<Rightarrow> None | Some w \<Rightarrow> map_option (\<lambda>n. clamp_to (unat n)) (json_as_u64 w))"

definition parse_artifact :: "json \<Rightarrow> string option" where
  "parse_artifact v = optional_input_str v [''expected_artifact'', ''expectedArtifact'']"

definition policy_text :: "json \<Rightarrow> string option" where
  "policy_text v = optional_input_str v [''workspace_policy'', ''workspacePolicy'']"

definition authority_text :: "json \<Rightarrow> string option" where
  "authority_text v = optional_input_str v [''write_authority'', ''writeAuthority'']"

text \<open>What a deliberate call still has to declare.\<close>

definition deliberate_missing :: "json \<Rightarrow> bool \<Rightarrow> bool \<Rightarrow> string list" where
  "deliberate_missing v has_type has_worktree =
     (if has_type then [] else [''type (or profile)''])
     @ (if policy_text v = None \<and> \<not> has_worktree then [''workspace_policy (or worktree=true)''] else [])
     @ (if parse_artifact v = None then [''expected_artifact''] else [])
     @ (if authority_text v = None then [''write_authority''] else [])"

definition apply_workspace_policy :: "json \<Rightarrow> worktree_request option \<Rightarrow> spawn_error + worktree_request option" where
  "apply_workspace_policy v worktree =
     (case map_option (\<lambda>s. to_ascii_lowercase (trim s)) (policy_text v) of
        None \<Rightarrow> Inr worktree
      | Some k \<Rightarrow>
          if k = ''worktree''
          then Inr (Some (unwrap_or \<lparr>wr_branch = None, wr_path = None, wr_base_ref = None\<rparr> worktree))
          else if k = ''shared'' then (if worktree \<noteq> None then Inl PolicyConflict else Inr worktree)
          else Inl (InvalidPolicy k))"

definition parse_write_authority :: "json \<Rightarrow> worktree_request option \<Rightarrow> spawn_error + write_authority option" where
  "parse_write_authority v worktree =
     (case map_option (\<lambda>s. to_ascii_lowercase (trim s)) (authority_text v) of
        None \<Rightarrow> Inr None
      | Some k \<Rightarrow>
          if k = ''read_only'' then Inr (Some ReadOnlyAuthority)
          else if k = ''workspace_write'' then Inr (Some WorkspaceWrite)
          else if k = ''worktree_write''
          then (if worktree = None then Inl AuthorityNeedsWorktree else Inr (Some WorktreeWrite))
          else Inl (InvalidAuthority k))"

definition parse_resident_file :: "json \<Rightarrow> string option" where
  "parse_resident_file v =
     (case json_field v ''resident_file'' json_as_str of
        None \<Rightarrow> None | Some s \<Rightarrow> if trim s = [] then None else Some s)"

definition parse_with :: "('a \<Rightarrow> spawn_error + 'b) \<Rightarrow> 'a option \<Rightarrow> spawn_error + 'b option" where
  "parse_with f x = (case x of None \<Rightarrow> Inr None | Some a \<Rightarrow> map_sum id Some (f a))"

definition bind_err :: "spawn_error + 'a \<Rightarrow> ('a \<Rightarrow> spawn_error + 'b) \<Rightarrow> spawn_error + 'b" where
  "bind_err x f = (case x of Inl e \<Rightarrow> Inl e | Inr a \<Rightarrow> f a)"

definition parse_spawn_request :: "json \<Rightarrow> spawn_error + spawn_request" where
  "parse_spawn_request v =
     bind_err (parse_text_or_items v [''prompt'', ''message'', ''objective''] ''items'') (\<lambda>prompt.
     bind_err (parse_with validate_session_name (optional_input_str v [''name'', ''session_name''])) (\<lambda>session_name.
     bind_err (parse_agent_type v) (\<lambda>agent_type.
     bind_err (parse_role_token v) (\<lambda>token.
     bind_err (parse_profile v token) (\<lambda>profile.
     bind_err (parse_optional_worktree_request v) (\<lambda>worktree.
     bind_err (parse_optional_subagent_model v ''model'') (\<lambda>model.
     bind_err (parse_with model_strength_parse (optional_input_str v [''model_strength'', ''modelStrength''])) (\<lambda>strength.
     bind_err (parse_with thinking_parse (optional_input_str v [''thinking'', ''reasoning_effort'', ''reasoningEffort''])) (\<lambda>thinking.
     bind_err (parse_max_depth v) (\<lambda>max_depth.
     bind_err (parse_optional_positive_u64 v [''token_budget'', ''tokenBudget'', ''max_tokens'']) (\<lambda>token_budget.
     (let missing = deliberate_missing v (agent_type \<noteq> None \<or> profile \<noteq> None) (worktree \<noteq> None) in
      if unwrap_or False (parse_optional_bool v [''deliberate'']) \<and> missing \<noteq> [] then Inl (DeliberateLacks missing)
      else
        bind_err (apply_workspace_policy v worktree) (\<lambda>worktree.
        bind_err (parse_write_authority v worktree) (\<lambda>authority.
        Inr \<lparr>sr_session_name = session_name, sr_prompt = prompt, sr_agent_type = unwrap_or General agent_type,
             sr_type_explicit = (agent_type \<noteq> None), sr_profile = profile,
             sr_role = (case role_alias v of Some r \<Rightarrow> Some r | None \<Rightarrow> token),
             sr_allowed_tools = parse_allowed_tools v, sr_model = model, sr_strength = unwrap_or SameStrength strength,
             sr_strength_explicit = (strength \<noteq> None), sr_thinking = unwrap_or InheritThinking thinking,
             sr_cwd = parse_optional_cwd v, sr_worktree = worktree, sr_resident_file = parse_resident_file v,
             sr_fork_context = unwrap_or False (parse_optional_bool v [''fork_context'', ''forkContext'', ''inherit_context'']),
             sr_max_depth = max_depth, sr_token_budget = token_budget,
             sr_max_steps = parse_count v [''max_steps'', ''maxSteps''] (\<lambda>n. min n max_subagent_steps),
             sr_wall_time = parse_count v [''wall_time_secs'', ''wallTimeSecs'']
               (\<lambda>n. min (max n 1) max_child_wall_secs),
             sr_disallowed_tools = parse_disallowed_tools v,
             sr_inherit_disallowed =
               unwrap_or True (parse_optional_bool v [''inherit_disallowed_tools'', ''inheritDisallowedTools'']),
             sr_write_authority = authority, sr_expected_artifact = parse_artifact v\<rparr>))))))))))))))"

section \<open>Roster members\<close>

record roster_member =
  rm_id :: string
  rm_role_name :: string
  rm_slot :: string
  rm_max_spawn_depth :: "nat option"
  rm_overlay :: string

definition roster_member_agent_type :: "roster_member \<Rightarrow> sub_agent_type" where
  "roster_member_agent_type m =
     (let nm = trim (rm_role_name m) in fleet_role_to_agent_type (Some (if nm = [] then rm_slot m else nm)))"

definition roster_get :: "roster_member list \<Rightarrow> string \<Rightarrow> roster_member option" where
  "roster_get roster key = List.find (\<lambda>m. eq_ignore_ascii_case (trim (rm_id m)) (trim key)) roster"

definition roster_alias :: "string \<Rightarrow> string option" where
  "roster_alias key =
     (let k = to_ascii_lowercase key in
      if k \<in> {''implementer'', ''implement'', ''implementation''} then Some ''builder''
      else if k \<in> {''release_lead'', ''release-lead'', ''releaselead''} then Some ''manager''
      else if k \<in> {''scout'', ''explore'', ''explorer'', ''exploration''} then Some ''scout''
      else None)"

definition resolve_roster_member :: "roster_member list \<Rightarrow> string \<Rightarrow> roster_member option" where
  "resolve_roster_member roster id_or_role =
     (let key = trim id_or_role in
      if key = [] then None
      else case roster_get roster key of
        Some m \<Rightarrow> Some m
      | None \<Rightarrow>
          (case List.find (\<lambda>m. eq_ignore_ascii_case (trim (rm_role_name m)) key) roster of
             Some m \<Rightarrow> Some m
           | None \<Rightarrow> (case roster_alias key of None \<Rightarrow> None | Some k \<Rightarrow> roster_get roster k)))"

definition apply_spawn_profile ::
    "roster_member list \<Rightarrow> spawn_request \<Rightarrow> spawn_error + spawn_request \<times> roster_member option" where
  "apply_spawn_profile roster r =
     (case sr_profile r of
        None \<Rightarrow> Inr (r, None)
      | Some profile_id \<Rightarrow>
          (case resolve_roster_member roster profile_id of
             None \<Rightarrow> Inl (UnknownProfile profile_id)
           | Some m \<Rightarrow>
               if sr_type_explicit r \<and> sr_agent_type r \<noteq> roster_member_agent_type m
               then Inl (ProfileConflict (rm_id m))
               else Inr (r\<lparr>sr_agent_type := roster_member_agent_type m, sr_profile := Some (rm_id m),
                     sr_role := Some (if trim (rm_role_name m) = [] then rm_id m else trim (rm_role_name m)),
                     sr_prompt := sr_prompt r @ rm_overlay m\<rparr>, Some m)))"

end
