(* ===== verification/Workspace_Path.thy ===== *)
theory Workspace_Path
  imports Json
begin

text \<open>
  The boundary of the workspace (\<open>crates/tui/src/tools/spec.rs\<close>): how a path that a tool was given becomes
  the path it may use. A path is the list of its components, as \<open>Path::components\<close> gives them on Unix; which
  paths exist and what they canonicalise to is given by the context. Paths that differ only in a trailing
  separator are not told apart.
\<close>

section \<open>Paths\<close>

datatype path_part = RootPart | CurPart | UpPart | NamePart string

type_synonym path = "path_part list"

definition segment_part :: "string \<Rightarrow> path_part" where
  "segment_part s = (if s = ''..'' then UpPart else NamePart s)"

definition parse_path :: "string \<Rightarrow> path" where
  "parse_path s =
     (let segs = split_char (CHR ''/'') s;
          parts = map segment_part (filter (\<lambda>x. x \<noteq> [] \<and> x \<noteq> ''.'') segs) in
      if prefix ''/'' s then RootPart # parts
      else if segs ! 0 = ''.'' then CurPart # parts
      else parts)"

definition is_absolute_path :: "path \<Rightarrow> bool" where
  "is_absolute_path p \<longleftrightarrow> prefix [RootPart] p"

definition join_path :: "path \<Rightarrow> path \<Rightarrow> path" where
  "join_path base p =
     (if is_absolute_path p \<or> base = [] then p else base @ filter (\<lambda>x. x \<noteq> CurPart) p)"

text \<open>\<open>Path::starts_with\<close>, \<open>parent\<close> and \<open>file_name\<close>.\<close>

definition starts_with :: "path \<Rightarrow> path \<Rightarrow> bool" where
  "starts_with p base \<longleftrightarrow> prefix base p"

definition parent_path :: "path \<Rightarrow> path option" where
  "parent_path p = (if p = [] \<or> p = [RootPart] then None else Some (butlast p))"

definition file_name :: "path \<Rightarrow> path" where
  "file_name p = (case rev p of NamePart s # _ \<Rightarrow> [NamePart s] | _ \<Rightarrow> [])"

section \<open>Lexical normalisation\<close>

definition normalize_up :: "bool \<Rightarrow> path \<Rightarrow> path" where
  "normalize_up is_root stack =
     (if stack = [] then if is_root then [] else [UpPart]
      else if last stack = UpPart then stack @ [UpPart] else butlast stack)"

fun normalize_part :: "bool \<times> path \<Rightarrow> path_part \<Rightarrow> bool \<times> path" where
  "normalize_part (is_root, stack) RootPart = (True, stack)"
| "normalize_part (is_root, stack) CurPart = (is_root, stack)"
| "normalize_part (is_root, stack) UpPart = (is_root, normalize_up is_root stack)"
| "normalize_part (is_root, stack) (NamePart s) = (is_root, stack @ [NamePart s])"

definition normalize_path :: "path \<Rightarrow> path" where
  "normalize_path p =
     (case foldl normalize_part (False, []) p of (is_root, stack) \<Rightarrow> (if is_root then [RootPart] else []) @ stack)"

section \<open>The context\<close>

record path_context =
  px_workspace :: path
  px_trust_mode :: bool
  px_follow_symlinks :: bool
  px_trusted_external_paths :: "path list"
  px_exists :: "path \<Rightarrow> bool"
  px_canonicalize :: "path \<Rightarrow> path option"

datatype path_error = PathEscape path | CanonicalizeFailed path

definition is_trusted_external_path :: "path_context \<Rightarrow> path \<Rightarrow> bool" where
  "is_trusted_external_path ctx p \<longleftrightarrow> list_ex (\<lambda>t. starts_with p t) (px_trusted_external_paths ctx)"

definition workspace_canonical :: "path_context \<Rightarrow> path" where
  "workspace_canonical ctx = unwrap_or (px_workspace ctx) (px_canonicalize ctx (px_workspace ctx))"

text \<open>The deepest existing ancestor and the names below it. When there is none, the last path stays, with
  its name among the names too.\<close>

function existing_ancestor :: "path_context \<Rightarrow> path \<Rightarrow> path \<times> path" where
  "existing_ancestor ctx p =
     (if px_exists ctx p then (p, [])
      else case parent_path p of
        None \<Rightarrow> (p, file_name p)
      | Some q \<Rightarrow>
          if q = [] then (p, file_name p)
          else (case existing_ancestor ctx q of (a, names) \<Rightarrow> (a, names @ file_name p)))"
  by pat_completeness auto
termination
  by (relation "measure (\<lambda>(ctx, p). length p)") (auto simp: parent_path_def split: if_splits)

declare existing_ancestor.simps [simp del]

definition resolve_nonexistent_path :: "path_context \<Rightarrow> path \<Rightarrow> path \<Rightarrow> path_error + path" where
  "resolve_nonexistent_path ctx candidate ws_canonical =
     (let workspace_normalized = normalize_path ws_canonical; workspace_plain = normalize_path (px_workspace ctx) in
      case existing_ancestor ctx candidate of
        (ancestor, names) \<Rightarrow>
          (let ancestor_normalized = normalize_path ancestor;
               canonical_ancestor = (if px_exists ctx ancestor then unwrap_or ancestor (px_canonicalize ctx ancestor) else ancestor);
               canonical = normalize_path (canonical_ancestor @ names) in
           if px_follow_symlinks ctx
              \<and> (starts_with ancestor_normalized workspace_plain \<or> starts_with ancestor_normalized workspace_normalized)
           then Inr canonical
           else if \<not> starts_with canonical ws_canonical \<and> \<not> starts_with canonical workspace_normalized
              \<and> \<not> is_trusted_external_path ctx canonical
           then Inl (PathEscape canonical)
           else Inr canonical))"

text \<open>The lexical gate that is enough when symbolic links are followed.\<close>

definition follows_into_workspace :: "path_context \<Rightarrow> path \<Rightarrow> bool" where
  "follows_into_workspace ctx candidate \<longleftrightarrow>
     px_follow_symlinks ctx
     \<and> (starts_with (normalize_path candidate) (normalize_path (px_workspace ctx))
        \<or> starts_with (normalize_path candidate) (normalize_path (workspace_canonical ctx)))"

definition check_candidate :: "path_context \<Rightarrow> path \<Rightarrow> path_error + unit" where
  "check_candidate ctx candidate =
     (let canonical = unwrap_or (normalize_path candidate) (px_canonicalize ctx candidate) in
      if \<not> starts_with canonical (normalize_path (workspace_canonical ctx))
         \<and> \<not> starts_with (normalize_path candidate) (normalize_path (px_workspace ctx))
         \<and> \<not> is_trusted_external_path ctx canonical
         \<and> \<not> is_trusted_external_path ctx (normalize_path candidate)
      then Inl (PathEscape canonical) else Inr ())"

definition resolve_existing :: "path_context \<Rightarrow> path \<Rightarrow> path_error + path" where
  "resolve_existing ctx candidate =
     (case px_canonicalize ctx candidate of
        None \<Rightarrow> Inl (CanonicalizeFailed candidate)
      | Some canonical \<Rightarrow>
          if \<not> starts_with canonical (workspace_canonical ctx) \<and> \<not> is_trusted_external_path ctx canonical
          then Inl (PathEscape canonical) else Inr canonical)"

definition resolve_path :: "path_context \<Rightarrow> path \<Rightarrow> path_error + path" where
  "resolve_path ctx raw =
     (let candidate = (if is_absolute_path raw then raw else join_path (px_workspace ctx) raw) in
      if px_trust_mode ctx then Inr (unwrap_or candidate (px_canonicalize ctx candidate))
      else if follows_into_workspace ctx candidate
      then if px_exists ctx candidate then Inr (unwrap_or candidate (px_canonicalize ctx candidate))
        else resolve_nonexistent_path ctx candidate (workspace_canonical ctx)
      else case check_candidate ctx candidate of
        Inl e \<Rightarrow> Inl e
      | Inr _ \<Rightarrow>
          if px_exists ctx candidate then resolve_existing ctx candidate
          else resolve_nonexistent_path ctx candidate (workspace_canonical ctx))"

section \<open>What normalisation gives\<close>

text \<open>An absolute path of names only.\<close>

definition plain_path :: "path \<Rightarrow> bool" where
  "plain_path p \<longleftrightarrow> prefix [RootPart] p \<and> list_all (\<lambda>x. case x of NamePart _ \<Rightarrow> True | _ \<Rightarrow> False) (tl p)"

definition names_only :: "path \<Rightarrow> bool" where
  "names_only p \<longleftrightarrow> list_all (\<lambda>x. case x of NamePart _ \<Rightarrow> True | _ \<Rightarrow> False) p"

lemma plain_path_names: "plain_path p \<longleftrightarrow> (\<exists>q. p = RootPart # q \<and> names_only q)"
  by (cases p) (auto simp: plain_path_def names_only_def)

lemma names_only_append [simp]: "names_only (p @ q) \<longleftrightarrow> names_only p \<and> names_only q"
  by (simp add: names_only_def)

lemma names_only_Nil [simp]: "names_only []"
  by (simp add: names_only_def)

lemma names_only_butlast: "names_only p \<Longrightarrow> names_only (butlast p)"
  by (auto simp: names_only_def list_all_iff dest: in_set_butlastD)

lemma normalize_part_root:
  assumes "names_only stack"
  shows "\<exists>stack'. normalize_part (True, stack) x = (True, stack') \<and> names_only stack'"
proof (cases x)
  case UpPart
  have "last stack \<noteq> UpPart" if "stack \<noteq> []"
    using assms that last_in_set [OF that] by (fastforce simp: names_only_def list_all_iff)
  with UpPart assms show ?thesis by (simp add: normalize_up_def names_only_butlast)
qed (use assms in \<open>simp_all add: names_only_def\<close>)

lemma normalize_parts_root:
  "names_only stack \<Longrightarrow> \<exists>stack'. foldl normalize_part (True, stack) p = (True, stack') \<and> names_only stack'"
proof (induction p arbitrary: stack)
  case (Cons x p)
  from normalize_part_root [OF Cons.prems, of x] obtain s where s: "normalize_part (True, stack) x = (True, s)" "names_only s"
    by blast
  from Cons.IH [OF s(2)] s(1) show ?case by simp
qed simp

lemma normalize_plain:
  assumes "is_absolute_path p"
  shows "plain_path (normalize_path p)"
proof -
  obtain q where p: "p = RootPart # q" using assms by (cases p) (auto simp: is_absolute_path_def)
  from normalize_parts_root [of "[]" q] obtain s where "foldl normalize_part (True, []) q = (True, s)" "names_only s" by auto
  then show ?thesis by (auto simp: normalize_path_def p plain_path_names)
qed

lemma normalize_names: "names_only q \<Longrightarrow> foldl normalize_part (b, s) q = (b, s @ q)"
proof (induction q arbitrary: s)
  case (Cons x q)
  then show ?case by (cases x) (simp_all add: names_only_def)
qed simp

lemma normalize_plain_id: "plain_path p \<Longrightarrow> normalize_path p = p"
  by (auto simp: plain_path_names normalize_path_def normalize_names)

lemma file_name_names: "names_only (file_name p)"
  by (auto simp: file_name_def names_only_def split: list.split path_part.split)

lemma ancestor_names: "existing_ancestor ctx p = (a, names) \<Longrightarrow> names_only names"
proof (induction ctx p arbitrary: a names rule: existing_ancestor.induct)
  case (1 ctx p)
  from 1(2) show ?case
    by (subst (asm) existing_ancestor.simps)
      (auto simp: file_name_names split: if_splits option.splits prod.splits dest: 1(1))
qed

lemma absolute_parent: "is_absolute_path p \<Longrightarrow> parent_path p = Some q \<Longrightarrow> is_absolute_path q"
  by (cases p) (auto simp: is_absolute_path_def parent_path_def split: if_splits)

lemma ancestor_absolute: "existing_ancestor ctx p = (a, names) \<Longrightarrow> is_absolute_path p \<Longrightarrow> is_absolute_path a"
proof (induction ctx p arbitrary: a names rule: existing_ancestor.induct)
  case (1 ctx p)
  show ?case
  proof (cases "px_exists ctx p \<or> parent_path p = None \<or> parent_path p = Some []")
    case True
    then have "a = p" using 1(2) by (subst (asm) existing_ancestor.simps) (auto split: if_splits option.splits)
    with 1(3) show ?thesis by simp
  next
    case False
    then obtain q where q: "parent_path p = Some q" "q \<noteq> []" by auto
    obtain names' where n: "existing_ancestor ctx q = (a, names')"
      using 1(2) q False by (subst (asm) existing_ancestor.simps) (auto split: prod.splits)
    have "is_absolute_path q" by (rule absolute_parent [OF 1(3) q(1)])
    with 1(1) [OF _ q(1) q(2) n] False show ?thesis by simp
  qed
qed

section \<open>The boundary\<close>

definition inside :: "path_context \<Rightarrow> path \<Rightarrow> bool" where
  "inside ctx p \<longleftrightarrow> plain_path p \<and> (starts_with p (normalize_path (workspace_canonical ctx)) \<or> is_trusted_external_path ctx p)"

text \<open>What is asked of the file system: a canonical path is absolute and has names only.\<close>

definition canonical_plain :: "path_context \<Rightarrow> bool" where
  "canonical_plain ctx \<longleftrightarrow> (\<forall>p c. px_canonicalize ctx p = Some c \<longrightarrow> plain_path c)"

lemma plain_absolute: "plain_path p \<Longrightarrow> is_absolute_path p"
  by (simp add: plain_path_def is_absolute_path_def)

lemma prefix_plain: "prefix p q \<Longrightarrow> plain_path q \<Longrightarrow> is_absolute_path p \<Longrightarrow> plain_path p"
  by (auto simp: plain_path_def is_absolute_path_def prefix_def list_all_iff)

lemma workspace_absolute:
  assumes "canonical_plain ctx" and "is_absolute_path (px_workspace ctx)"
  shows "is_absolute_path (workspace_canonical ctx)"
  using assms plain_absolute
  by (cases "px_canonicalize ctx (px_workspace ctx)") (auto simp: workspace_canonical_def unwrap_or_def canonical_plain_def)

lemma starts_with_workspace:
  assumes "canonical_plain ctx" and "is_absolute_path (px_workspace ctx)" and "plain_path p"
    and "starts_with p (workspace_canonical ctx)"
  shows "starts_with p (normalize_path (workspace_canonical ctx))"
proof -
  have "plain_path (workspace_canonical ctx)"
    by (rule prefix_plain [OF _ assms(3) workspace_absolute [OF assms(1,2)]]) (use assms(4) in \<open>simp add: starts_with_def\<close>)
  then show ?thesis using assms(4) by (simp add: normalize_plain_id)
qed

lemma resolved_nonexistent:
  assumes "canonical_plain ctx" and "is_absolute_path (px_workspace ctx)" and "\<not> px_follow_symlinks ctx"
    and "is_absolute_path candidate"
    and "resolve_nonexistent_path ctx candidate (workspace_canonical ctx) = Inr p"
  shows "inside ctx p"
proof -
  obtain a names where e: "existing_ancestor ctx candidate = (a, names)" by (cases "existing_ancestor ctx candidate")
  let ?c = "if px_exists ctx a then unwrap_or a (px_canonicalize ctx a) else a"
  have p: "p = normalize_path (?c @ names)" and s: "starts_with p (workspace_canonical ctx)
      \<or> starts_with p (normalize_path (workspace_canonical ctx)) \<or> is_trusted_external_path ctx p"
    using assms(3,5) by (auto simp: resolve_nonexistent_path_def e Let_def split: if_splits)
  have "is_absolute_path a" by (rule ancestor_absolute [OF e assms(4)])
  then have "is_absolute_path ?c"
    using assms(1) plain_absolute by (cases "px_canonicalize ctx a") (auto simp: unwrap_or_def canonical_plain_def)
  then have "is_absolute_path (?c @ names)" by (auto simp: is_absolute_path_def)
  then have "plain_path p" unfolding p by (rule normalize_plain)
  with s starts_with_workspace [OF assms(1,2)] show ?thesis by (auto simp: inside_def)
qed

lemma resolved_existing:
  assumes "canonical_plain ctx" and "is_absolute_path (px_workspace ctx)" and "resolve_existing ctx candidate = Inr p"
  shows "inside ctx p"
proof -
  have "px_canonicalize ctx candidate = Some p" and s: "starts_with p (workspace_canonical ctx) \<or> is_trusted_external_path ctx p"
    using assms(3) by (auto simp: resolve_existing_def split: option.splits if_splits)
  then have "plain_path p" using assms(1) by (simp add: canonical_plain_def)
  with s starts_with_workspace [OF assms(1,2)] show ?thesis by (auto simp: inside_def)
qed

lemma joined_absolute:
  assumes "is_absolute_path ws"
  shows "is_absolute_path (if is_absolute_path raw then raw else join_path ws raw)"
  using assms by (auto simp: join_path_def is_absolute_path_def)

lemma resolved_inside:
  assumes "canonical_plain ctx" and "is_absolute_path (px_workspace ctx)"
    and "\<not> px_trust_mode ctx" and "\<not> px_follow_symlinks ctx" and "resolve_path ctx raw = Inr p"
  shows "inside ctx p"
proof -
  let ?c = "if is_absolute_path raw then raw else join_path (px_workspace ctx) raw"
  have a: "is_absolute_path ?c" by (rule joined_absolute [OF assms(2)])
  have f: "\<not> follows_into_workspace ctx ?c" using assms(4) by (simp add: follows_into_workspace_def)
  obtain u where "check_candidate ctx ?c = Inr u"
    using assms(3,5) f by (cases "check_candidate ctx ?c") (simp_all add: resolve_path_def Let_def)
  then have "(if px_exists ctx ?c then resolve_existing ctx ?c else resolve_nonexistent_path ctx ?c (workspace_canonical ctx)) = Inr p"
    using assms(3,5) f by (simp add: resolve_path_def Let_def)
  then show ?thesis
    using resolved_existing [OF assms(1,2)] resolved_nonexistent [OF assms(1,2,4) a] by (auto split: if_splits)
qed

text \<open>C16. Without trust and without following links, every path that a tool is granted, whether it exists or
  is yet to be created, is absolute, has no dots and no parent components, and lies in the canonical
  workspace or in one of the trusted external directories.\<close>

theorem resolved_path_inside:
  assumes "\<And>q c. px_canonicalize ctx q = Some c \<Longrightarrow> plain_path c" and "is_absolute_path (px_workspace ctx)"
    and "\<not> px_trust_mode ctx" and "\<not> px_follow_symlinks ctx" and "resolve_path ctx raw = Inr p"
  shows "plain_path p \<and> (starts_with p (normalize_path (workspace_canonical ctx)) \<or> is_trusted_external_path ctx p)"
proof -
  have "canonical_plain ctx" using assms(1) by (simp add: canonical_plain_def)
  from resolved_inside [OF this assms(2-5)] show ?thesis by (simp add: inside_def)
qed

section \<open>A sample file system\<close>

text \<open>The workspace \<open>/ws\<close> holds a link to \<open>/out/a\<close>; \<open>/out\<close> also holds \<open>b\<close>.\<close>

definition sample_dirs :: "path list" where
  "sample_dirs = map parse_path [''/'', ''/ws'', ''/ws/link'', ''/ws/link/..'', ''/ws/link/../b'', ''/out'', ''/out/a'', ''/out/b'']"

definition sample_links :: "(path \<times> path) list" where
  "sample_links = map (\<lambda>(p, c). (parse_path p, parse_path c))
     [(''/'', ''/''), (''/ws'', ''/ws''), (''/ws/link'', ''/out/a''), (''/ws/link/..'', ''/out''),
      (''/ws/link/../b'', ''/out/b''), (''/out'', ''/out''), (''/out/a'', ''/out/a''), (''/out/b'', ''/out/b'')]"

definition sample_canonical :: "path \<Rightarrow> path option" where
  "sample_canonical = map_of sample_links"

definition sample_context :: "bool \<Rightarrow> path_context" where
  "sample_context follow = \<lparr>px_workspace = parse_path ''/ws'', px_trust_mode = False, px_follow_symlinks = follow,
     px_trusted_external_paths = [], px_exists = (\<lambda>p. p \<in> set sample_dirs), px_canonicalize = sample_canonical\<rparr>"

lemma sample_canonical_plain: "sample_canonical q = Some c \<Longrightarrow> plain_path c"
proof -
  assume "sample_canonical q = Some c"
  then have "(q, c) \<in> set sample_links" unfolding sample_canonical_def by (rule map_of_SomeD)
  moreover have "list_all (\<lambda>x. plain_path (snd x)) sample_links" by code_simp
  ultimately show ?thesis by (auto simp: list_all_iff)
qed

lemma resolved_path_inside_witness:
  "plain_path (parse_path ''/ws/new'') \<and> (starts_with (parse_path ''/ws/new'')
      (normalize_path (workspace_canonical (sample_context False)))
    \<or> is_trusted_external_path (sample_context False) (parse_path ''/ws/new''))"
proof (rule resolved_path_inside [where raw = "parse_path ''new''"])
  show "plain_path c" if "px_canonicalize (sample_context False) q = Some c" for q c
    using that sample_canonical_plain by (simp add: sample_context_def)
  show "is_absolute_path (px_workspace (sample_context False))" by code_simp
  show "\<not> px_trust_mode (sample_context False)" "\<not> px_follow_symlinks (sample_context False)"
    by (simp_all add: sample_context_def)
  show "resolve_path (sample_context False) (parse_path ''new'') = Inr (parse_path ''/ws/new'')" by code_simp
qed

text \<open>With links followed, a parent after a link leaves what the link names: the check is lexical.\<close>

lemma link_parent_escapes:
  "resolve_path (sample_context True) (parse_path ''link/../b'') = Inr (parse_path ''/out/b'')"
  "resolve_path (sample_context False) (parse_path ''link/../b'') = Inl (PathEscape (parse_path ''/out/b''))"
  by code_simp+

text \<open>A parent component below a directory that does not exist is dropped.\<close>

lemma missing_parent_dropped:
  "resolve_path (sample_context False) (parse_path ''nodir/../new'') = Inr (parse_path ''/ws/nodir/new'')"
  by code_simp

end
