(* ===== verification/Sub_Agent_Spawn.thy ===== *)
theory Sub_Agent_Spawn
  imports Sub_Agent_Request Workspace_Path Tool_Gate
begin

text \<open>
  Starting a sub-agent and the gate of its tools (\<open>crates/tui/src/tools/subagent/mod.rs\<close>): the runtime a child
  gets from its parent, the profile derived for it, and the registry that decides each of its tool calls.
  The roster, the worktrees of git, the routing of models and the state of the manager are given by the
  environment. Prompts, transcripts, mailboxes and tasks are left out.
\<close>

section \<open>Runtimes\<close>

record agent_runtime =
  ar_workspace :: path
  ar_trust_mode :: bool
  ar_allow_shell :: bool
  ar_auto_approve :: bool
  ar_accept_edits :: bool
  ar_accept_verification :: bool
  ar_profile :: worker_runtime_profile
  ar_spawn_depth :: nat
  ar_max_spawn_depth :: nat
  ar_parent_mode :: app_mode
  ar_model :: string
  ar_reasoning_effort :: "string option"

text \<open>What the manager and the file system say when a child is started.\<close>

record spawn_env =
  sv_roster :: "roster_member list"
  sv_rate_limited :: "nat option"
  sv_admits :: bool
  sv_budget_left :: bool
  sv_session_names :: "string list"
  sv_configured_steps :: "nat option"
  sv_canonicalize :: "path \<Rightarrow> path option"
  sv_worktree :: "path \<Rightarrow> spawn_request \<Rightarrow> path option"
  sv_provider :: "roster_member option \<Rightarrow> string option"
  sv_route :: "agent_runtime \<Rightarrow> spawn_request \<Rightarrow> roster_member option \<Rightarrow> (string \<times> model_route \<times> string option) option"

definition would_exceed_depth :: "agent_runtime \<Rightarrow> bool" where
  "would_exceed_depth rt \<longleftrightarrow> ar_spawn_depth rt + 1 > ar_max_spawn_depth rt"

definition child_runtime :: "agent_runtime \<Rightarrow> agent_runtime" where
  "child_runtime rt =
     rt\<lparr>ar_accept_verification := (ar_accept_verification rt \<and> ar_spawn_depth rt = 0),
        ar_spawn_depth := ar_spawn_depth rt + 1\<rparr>"

definition apply_session_spawn_defaults :: "agent_runtime \<Rightarrow> agent_runtime" where
  "apply_session_spawn_defaults rt =
     (if ar_spawn_depth rt = 0 \<and> ar_parent_mode rt = OperateAppMode
      then rt\<lparr>ar_accept_edits := True, ar_accept_verification := True\<rparr> else rt)"

text \<open>Depths are 32 bits wide; the addition saturates.\<close>

definition clamp_child_max_spawn_depth :: "nat \<Rightarrow> nat \<Rightarrow> nat" where
  "clamp_child_max_spawn_depth child_depth requested =
     min (min (child_depth + requested) (2 ^ 32 - 1)) max_spawn_depth_ceiling"

definition child_max_spawn_depth_for_spawn :: "nat \<Rightarrow> nat \<Rightarrow> nat option \<Rightarrow> nat option \<Rightarrow> nat" where
  "child_max_spawn_depth_for_spawn inherited child_depth requested hint =
     (case requested of
        Some d \<Rightarrow> clamp_child_max_spawn_depth child_depth (case hint of None \<Rightarrow> d | Some h \<Rightarrow> min d h)
      | None \<Rightarrow>
          (case hint of None \<Rightarrow> inherited | Some h \<Rightarrow> min inherited (clamp_child_max_spawn_depth child_depth h)))"

section \<open>The directory of a child\<close>

definition canonical_workspace :: "spawn_env \<Rightarrow> path \<Rightarrow> path" where
  "canonical_workspace env ws = unwrap_or ws (sv_canonicalize env ws)"

definition validate_existing_child_cwd :: "spawn_env \<Rightarrow> path \<Rightarrow> string \<Rightarrow> spawn_error + path" where
  "validate_existing_child_cwd env ws cwd =
     (let p = parse_path cwd; resolved = (if is_absolute_path p then p else join_path ws p) in
      case sv_canonicalize env resolved of
        None \<Rightarrow> Inl (WorkspaceRefused cwd)
      | Some c \<Rightarrow> if \<not> starts_with c (canonical_workspace env ws) then Inl (WorkspaceRefused cwd) else Inr c)"

definition prepare_child_workspace :: "spawn_env \<Rightarrow> path \<Rightarrow> spawn_request \<Rightarrow> spawn_error + path option" where
  "prepare_child_workspace env ws r =
     (case (case sr_cwd r of Some cwd \<Rightarrow> validate_existing_child_cwd env ws cwd
            | None \<Rightarrow> Inr (canonical_workspace env ws)) of
        Inl e \<Rightarrow> Inl e
      | Inr anchor \<Rightarrow>
          if sr_worktree r \<noteq> None then
            (case sv_worktree env anchor r of None \<Rightarrow> Inl (WorkspaceRefused ''worktree'') | Some p \<Rightarrow> Inr (Some p))
          else Inr (if sr_cwd r = None then None else Some anchor))"

section \<open>The profile of a child\<close>

text \<open>The tools the caller lists, or all of the parent; \<open>Custom\<close> must list some.\<close>

definition build_allowed_tools :: "sub_agent_type \<Rightarrow> string list option \<Rightarrow> spawn_error + string list option" where
  "build_allowed_tools ty explicit =
     (case explicit of
        Some ts \<Rightarrow>
          (let deduped = foldl (\<lambda>d s. if s = [] \<or> s \<in> set d then d else d @ [s]) [] (map trim ts) in
           if ty = CustomRole \<and> deduped = [] then Inl CustomNeedsTools else Inr (Some deduped))
      | None \<Rightarrow> if ty = CustomRole then Inl CustomNeedsTools else Inr None)"

definition worker_tool_scope :: "string list option \<Rightarrow> tool_scope" where
  "worker_tool_scope tools = (case tools of None \<Rightarrow> InheritTools | Some ts \<Rightarrow> ExplicitTools ts)"

definition requested_profile ::
    "agent_runtime \<Rightarrow> sub_agent_type \<Rightarrow> string list option \<Rightarrow> model_route \<Rightarrow> string \<Rightarrow> worker_runtime_profile" where
  "requested_profile rt ty tools route provider =
     (let base = (for_role ty)\<lparr>wp_tools := worker_tool_scope tools\<rparr>;
          opened = (if ty = CustomRole \<and> tools \<noteq> None
            then base\<lparr>wp_permissions := wp_permissions (ar_profile rt), wp_shell := wp_shell (ar_profile rt)\<rparr> else base) in
      opened\<lparr>wp_model := route, wp_provider := Some provider,
             wp_max_spawn_depth := ar_max_spawn_depth rt - ar_spawn_depth rt, wp_background := True\<rparr>)"

definition worker_profile_for_spawn ::
    "agent_runtime \<Rightarrow> sub_agent_type \<Rightarrow> string list option \<Rightarrow> model_route \<Rightarrow> string \<Rightarrow> worker_runtime_profile" where
  "worker_profile_for_spawn rt ty tools route provider =
     derive_child (ar_profile rt) (requested_profile rt ty tools route provider)"

definition resolve_max_steps :: "sub_agent_type \<Rightarrow> nat option \<Rightarrow> nat option \<Rightarrow> nat" where
  "resolve_max_steps role explicit configured =
     min (unwrap_or (unwrap_or (default_max_steps role) configured) explicit) max_subagent_steps"

section \<open>Starting a child\<close>

record sub_agent =
  sa_type :: sub_agent_type
  sa_tools :: "string list option"
  sa_runtime :: agent_runtime

text \<open>Denied tools and write authority, before the profile is derived.\<close>

definition restrict_runtime :: "spawn_request \<Rightarrow> agent_runtime \<Rightarrow> agent_runtime" where
  "restrict_runtime r rt =
     (let profile = ar_profile rt;
          denied = add_rules (if sr_inherit_disallowed r then wp_denied_tools profile else [])
            (unwrap_or [] (sr_disallowed_tools r));
          permissions = (if sr_write_authority r = Some ReadOnlyAuthority
            then (wp_permissions profile)\<lparr>ps_write := False\<rparr> else wp_permissions profile) in
      rt\<lparr>ar_profile := profile\<lparr>wp_denied_tools := denied, wp_permissions := permissions\<rparr>\<rparr>)"

definition prepared_runtime ::
    "agent_runtime \<Rightarrow> spawn_request \<Rightarrow> roster_member option \<Rightarrow> path option \<Rightarrow> agent_runtime" where
  "prepared_runtime rt r member ws =
     (let child = child_runtime rt;
          depth = child_max_spawn_depth_for_spawn (ar_max_spawn_depth child) (ar_spawn_depth child) (sr_max_depth r)
            (case member of None \<Rightarrow> None | Some m \<Rightarrow> rm_max_spawn_depth m) in
      restrict_runtime r (child\<lparr>ar_max_spawn_depth := depth, ar_workspace := unwrap_or (ar_workspace child) ws\<rparr>))"

text \<open>The manager admits the child and derives its profile.\<close>

definition claim_session_name :: "spawn_env \<Rightarrow> string option \<Rightarrow> spawn_error + unit" where
  "claim_session_name env session_name =
     (case session_name of
        None \<Rightarrow> Inr ()
      | Some nm \<Rightarrow>
          if trim nm \<noteq> [] \<and> trim nm \<in> set (sv_session_names env) then Inl (NameInUse (trim nm)) else Inr ())"

definition spawn_background ::
    "spawn_env \<Rightarrow> agent_runtime \<Rightarrow> spawn_request \<Rightarrow> model_route \<Rightarrow> string \<Rightarrow> spawn_error + sub_agent" where
  "spawn_background env rt r route provider =
     (if \<not> sv_admits env then Inl AdmissionLimit
      else if \<not> sv_budget_left env then Inl BudgetRefused
      else
        bind_err (build_allowed_tools (sr_agent_type r) (sr_allowed_tools r)) (\<lambda>tools.
        bind_err (claim_session_name env (sr_session_name r)) (\<lambda>_.
          let profile = worker_profile_for_spawn rt (sr_agent_type r) tools route provider;
              steps = resolve_max_steps (sr_agent_type r) (sr_max_steps r) (sv_configured_steps env) in
          Inr \<lparr>sa_type = sr_agent_type r, sa_tools = tools,
               sa_runtime = rt\<lparr>ar_profile := profile\<lparr>wp_max_steps := steps\<rparr>\<rparr>\<rparr>)))"

definition spawn_prepared ::
    "spawn_env \<Rightarrow> agent_runtime \<Rightarrow> spawn_request \<Rightarrow> roster_member option \<Rightarrow> path option \<Rightarrow> spawn_error + sub_agent" where
  "spawn_prepared env rt r member ws =
     (case sv_provider env member of
        None \<Rightarrow> Inl (RouteRefused ''provider'')
      | Some provider \<Rightarrow>
          (let child = prepared_runtime rt r member ws in
           case sv_route env child r member of
             None \<Rightarrow> Inl (RouteRefused ''model'')
           | Some (model, route, effort) \<Rightarrow>
               spawn_background env (child\<lparr>ar_model := model, ar_reasoning_effort := effort\<rparr>) r route provider))"

definition spawn_subagent :: "spawn_env \<Rightarrow> agent_runtime \<Rightarrow> json \<Rightarrow> spawn_error + sub_agent" where
  "spawn_subagent env rt0 v =
     (let rt = apply_session_spawn_defaults rt0 in
      bind_err (parse_spawn_request v) (\<lambda>r0.
      bind_err (apply_spawn_profile (sv_roster env) r0) (\<lambda>(r, member).
        if would_exceed_depth rt then Inl (DepthLimit (ar_spawn_depth rt) (ar_max_spawn_depth rt))
        else case sv_rate_limited env of
          Some secs \<Rightarrow> Inl (RateLimited secs)
        | None \<Rightarrow>
            if sr_worktree r \<noteq> None \<and> \<not> sv_admits env then Inl AdmissionLimit
            else bind_err (prepare_child_workspace env (ar_workspace rt) r) (spawn_prepared env rt r member))))"

text \<open>A task of a workflow starts the same way; its arguments are built from the task.\<close>

definition spawn_workflow_task :: "spawn_env \<Rightarrow> agent_runtime \<Rightarrow> json \<Rightarrow> spawn_error + sub_agent" where
  "spawn_workflow_task env rt v = spawn_subagent env (rt\<lparr>ar_accept_edits := True\<rparr>) v"

section \<open>The gate of a sub-agent\<close>

record tool_registry =
  tr_allowed :: "string list option"
  tr_denied :: "string list"
  tr_auto_approve :: bool
  tr_accept_edits :: bool
  tr_accept_verification :: bool
  tr_type :: sub_agent_type
  tr_profile :: worker_runtime_profile
  tr_can_spawn :: bool
  tr_tools :: "string \<Rightarrow> approval_requirement option"

text \<open>The tools that are registered are given: the surface of the parent with the shell of the runtime.\<close>

definition registry_for :: "(string \<Rightarrow> approval_requirement option) \<Rightarrow> sub_agent \<Rightarrow> tool_registry" where
  "registry_for tools a =
     (let rt = sa_runtime a; profile = ar_profile rt in
      \<lparr>tr_allowed =
         (case (wp_tools profile, sa_tools a) of
            (ExplicitTools parent, Some child) \<Rightarrow> Some (filter (\<lambda>n. n \<in> set parent) child)
          | (ExplicitTools parent, None) \<Rightarrow> Some parent
          | (InheritTools, child) \<Rightarrow> child),
       tr_denied = wp_denied_tools profile, tr_auto_approve = ar_auto_approve rt,
       tr_accept_edits = ar_accept_edits rt, tr_accept_verification = ar_accept_verification rt,
       tr_type = sa_type a, tr_profile = profile, tr_can_spawn = (\<not> would_exceed_depth rt), tr_tools = tools\<rparr>)"

definition role_posture_permits :: "sub_agent_type \<Rightarrow> approval_requirement \<Rightarrow> bool" where
  "role_posture_permits ty req =
     (if ty = CustomRole then True
      else case req of
        ReqAuto \<Rightarrow> True
      | ReqSuggest \<Rightarrow> ps_write (wp_permissions (for_role ty))
      | ReqRequired \<Rightarrow> wp_shell (for_role ty) = FullShell)"

definition role_can_delegate_writes :: "sub_agent_type \<Rightarrow> bool" where
  "role_can_delegate_writes ty \<longleftrightarrow> ty = Implementer \<or> ty = CustomRole"

definition posture_permits_tool :: "tool_registry \<Rightarrow> string \<Rightarrow> bool" where
  "posture_permits_tool reg nm =
     (if nm = ''agent'' then True
      else case tr_tools reg nm of
        None \<Rightarrow> True
      | Some ReqAuto \<Rightarrow> True
      | Some ReqSuggest \<Rightarrow> ps_write (wp_permissions (tr_profile reg)) \<and> role_posture_permits (tr_type reg) ReqSuggest
      | Some ReqRequired \<Rightarrow> wp_shell (tr_profile reg) = FullShell \<and> role_posture_permits (tr_type reg) ReqRequired)"

definition rule_matches :: "string \<Rightarrow> string \<Rightarrow> bool" where
  "rule_matches nm rule \<longleftrightarrow>
     (let r = to_ascii_lowercase rule; t = to_ascii_lowercase nm in
      case strip_suffix ''*'' r of Some pre \<Rightarrow> prefix pre t | None \<Rightarrow> t = r)"

definition is_tool_denied :: "tool_registry \<Rightarrow> string \<Rightarrow> bool" where
  "is_tool_denied reg nm \<longleftrightarrow> list_ex (rule_matches nm) (tr_denied reg)"

definition is_tool_allowed :: "tool_registry \<Rightarrow> string \<Rightarrow> bool" where
  "is_tool_allowed reg nm =
     (if nm = ''agent'' \<and> \<not> tr_can_spawn reg then False
      else if is_tool_denied reg nm then False
      else case tr_allowed reg of None \<Rightarrow> True | Some names \<Rightarrow> nm \<in> set names)"

definition is_delegated_builtin_verification :: "string \<Rightarrow> json \<Rightarrow> bool" where
  "is_delegated_builtin_verification nm v =
     (if nm = ''run_tests'' then
        (case json_get v ''args'' of None \<Rightarrow> True | Some (JStr s) \<Rightarrow> trim s = [] | Some _ \<Rightarrow> False)
      else if nm = ''run_verifiers'' then
        (case json_get v ''commands'' of None \<Rightarrow> True | Some w \<Rightarrow> json_as_array w = Some [])
      else False)"

definition terminal_takeover :: "string \<Rightarrow> json \<Rightarrow> bool" where
  "terminal_takeover nm v \<longleftrightarrow> nm = ''exec_shell'' \<and> json_field v ''interactive'' as_bool = Some True"

datatype sub_call_error =
  NotAllowed | PostureForbids | NotRegistered | NotDelegated | NeedsParentApproval | TerminalTakeover

definition delegated_error :: "tool_registry \<Rightarrow> string \<Rightarrow> json \<Rightarrow> sub_call_error option" where
  "delegated_error reg nm v =
     (case tr_tools reg nm of
        None \<Rightarrow> Some NotRegistered
      | Some ReqAuto \<Rightarrow> None
      | Some ReqSuggest \<Rightarrow>
          if ps_write (wp_permissions (tr_profile reg)) \<and> (tr_accept_edits reg \<or> role_can_delegate_writes (tr_type reg))
          then None else Some NotDelegated
      | Some ReqRequired \<Rightarrow>
          if tr_accept_verification reg \<and> is_delegated_builtin_verification nm v then None else Some NeedsParentApproval)"

text \<open>\<open>Inr\<close> is the call of the registered tool.\<close>

definition sub_agent_execute :: "tool_registry \<Rightarrow> string \<Rightarrow> json \<Rightarrow> sub_call_error + approval_requirement" where
  "sub_agent_execute reg nm v =
     (if \<not> is_tool_allowed reg nm then Inl NotAllowed
      else if \<not> posture_permits_tool reg nm then Inl PostureForbids
      else case (if tr_auto_approve reg then None else delegated_error reg nm v) of
        Some e \<Rightarrow> Inl e
      | None \<Rightarrow>
          if terminal_takeover nm v then Inl TerminalTakeover
          else case tr_tools reg nm of None \<Rightarrow> Inl NotRegistered | Some req \<Rightarrow> Inr req)"

text \<open>The names the model of the child is shown, of those registered, and the listed names without a tool.\<close>

definition tools_for_model :: "tool_registry \<Rightarrow> string list \<Rightarrow> string list" where
  "tools_for_model reg api_names =
     filter (\<lambda>n. (n \<noteq> ''agent'' \<or> tr_can_spawn reg) \<and> \<not> is_tool_denied reg n \<and> posture_permits_tool reg n)
       (case tr_allowed reg of None \<Rightarrow> api_names | Some names \<Rightarrow> filter (\<lambda>n. n \<in> set names) api_names)"

definition unavailable_allowed_tools :: "tool_registry \<Rightarrow> string list" where
  "unavailable_allowed_tools reg =
     (case tr_allowed reg of None \<Rightarrow> [] | Some names \<Rightarrow> filter (\<lambda>n. tr_tools reg n = None) names)"

end
