(* ===== verification/Turn_Authority.thy ===== *)
theory Turn_Authority
  imports Sub_Agent_Spawn
begin

text \<open>
  The authority of a turn (\<open>crates/tui/src/core/authority.rs\<close>, \<open>core/ops.rs\<close>): what a mode allows, how the origin
  of the input narrows it, and what the engine (\<open>core/engine.rs\<close>) passes on to the gate of the tools, to
  the resolution of paths and to sub-agents.
\<close>

section \<open>Where the input comes from\<close>

datatype input_provenance =
  ExternalUser | RuntimeInput | SubAgentHandoff | ImportedTranscript | MemoryRecall | AssistantGenerated

fun provenance_as_str :: "input_provenance \<Rightarrow> string" where
  "provenance_as_str ExternalUser = ''external_user''"
| "provenance_as_str RuntimeInput = ''runtime''"
| "provenance_as_str SubAgentHandoff = ''subagent_handoff''"
| "provenance_as_str ImportedTranscript = ''imported_transcript''"
| "provenance_as_str MemoryRecall = ''memory_recall''"
| "provenance_as_str AssistantGenerated = ''assistant_generated''"

definition can_authorize_work :: "input_provenance \<Rightarrow> bool" where
  "can_authorize_work p \<longleftrightarrow> p = ExternalUser"

definition provenance_can_inherit :: "input_provenance \<Rightarrow> bool" where
  "provenance_can_inherit p \<longleftrightarrow> p = ExternalUser \<or> p = RuntimeInput"

section \<open>Modes\<close>

record mode_session_prefs =
  mp_allow_shell :: bool
  mp_trust_mode :: bool
  mp_approval_mode :: approval_mode

record effective_mode_policy =
  em_mode :: app_mode
  em_allow_shell :: bool
  em_trust_mode :: bool
  em_approval_mode :: approval_mode

definition agent_policy :: "app_mode \<Rightarrow> mode_session_prefs \<Rightarrow> effective_mode_policy" where
  "agent_policy mode prefs =
     \<lparr>em_mode = mode, em_allow_shell = mp_allow_shell prefs, em_trust_mode = mp_trust_mode prefs,
      em_approval_mode = mp_approval_mode prefs\<rparr>"

fun base_policy_for_mode :: "app_mode \<Rightarrow> mode_session_prefs \<Rightarrow> effective_mode_policy" where
  "base_policy_for_mode PlanAppMode prefs =
     \<lparr>em_mode = PlanAppMode, em_allow_shell = False, em_trust_mode = False, em_approval_mode = SuggestMode\<rparr>"
| "base_policy_for_mode YoloAppMode prefs =
     \<lparr>em_mode = YoloAppMode, em_allow_shell = True, em_trust_mode = True, em_approval_mode = BypassMode\<rparr>"
| "base_policy_for_mode mode prefs = agent_policy mode prefs"

datatype sandbox_policy =
    DangerFullAccess | ReadOnlySandbox | ExternalSandbox bool
  | WorkspaceWriteSandbox "path list" (network_access: bool) (exclude_tmpdir: bool) (exclude_slash_tmp: bool)

fun sandbox_policy_for_mode :: "app_mode \<Rightarrow> path \<Rightarrow> sandbox_policy" where
  "sandbox_policy_for_mode PlanAppMode ws = ReadOnlySandbox"
| "sandbox_policy_for_mode YoloAppMode ws = DangerFullAccess"
| "sandbox_policy_for_mode mode ws = WorkspaceWriteSandbox [ws] True False False"

definition shell_policy_for_mode :: "app_mode \<Rightarrow> bool \<Rightarrow> shell_policy" where
  "shell_policy_for_mode mode allow_shell =
     (if \<not> allow_shell then NoShell else if mode = PlanAppMode then NoShell else FullShell)"

section \<open>The authority of a turn\<close>

record turn_authority =
  ta_mode :: app_mode
  ta_allow_shell :: bool
  ta_trust_mode :: bool
  ta_auto_approve :: bool
  ta_approval_mode :: approval_mode
  ta_status :: "string option"

definition from_effective_fields :: "app_mode \<Rightarrow> bool \<Rightarrow> bool \<Rightarrow> bool \<Rightarrow> approval_mode \<Rightarrow> turn_authority" where
  "from_effective_fields mode allow_shell trust_mode auto_approve approval_mode =
     \<lparr>ta_mode = mode, ta_allow_shell = allow_shell, ta_trust_mode = trust_mode, ta_auto_approve = auto_approve,
      ta_approval_mode = approval_mode, ta_status = None\<rparr>"

definition agent_approval_mode_for_turn :: "bool \<Rightarrow> approval_mode \<Rightarrow> approval_mode" where
  "agent_approval_mode_for_turn auto_approve approval_mode = (if auto_approve then BypassMode else approval_mode)"

definition approval_mode_for_session :: "turn_authority \<Rightarrow> approval_mode" where
  "approval_mode_for_session a = agent_approval_mode_for_turn (ta_auto_approve a) (ta_approval_mode a)"

definition narrowed_status :: "input_provenance \<Rightarrow> string" where
  "narrowed_status p =
     ''Input provenance '' @ CHR 0x27 # provenance_as_str p @ CHR 0x27 #
     '' cannot inherit standing auto-approval authority; continuing with approvals required.''"

definition effective_input_policy ::
    "input_provenance \<Rightarrow> app_mode \<Rightarrow> bool \<Rightarrow> bool \<Rightarrow> bool \<Rightarrow> approval_mode \<Rightarrow> turn_authority" where
  "effective_input_policy p mode allow_shell trust_mode auto_approve approval_mode =
     (if provenance_can_inherit p
      then from_effective_fields mode allow_shell trust_mode auto_approve approval_mode
      else
        let had_authority = (mode = YoloAppMode \<or> trust_mode \<or> auto_approve \<or> approval_mode = BypassMode) in
        \<lparr>ta_mode = (if mode = YoloAppMode then AgentAppMode else mode), ta_allow_shell = allow_shell,
         ta_trust_mode = False, ta_auto_approve = False,
         ta_approval_mode = (if approval_mode \<in> {AutoMode, BypassMode} then SuggestMode else approval_mode),
         ta_status = (if had_authority then Some (narrowed_status p) else None)\<rparr>)"

section \<open>The engine\<close>

record engine_session =
  es_mode :: app_mode
  es_allow_shell :: bool
  es_trust_mode :: bool
  es_auto_approve :: bool
  es_approval_mode :: approval_mode

definition apply_runtime_mode_policy :: "turn_authority \<Rightarrow> engine_session" where
  "apply_runtime_mode_policy a =
     \<lparr>es_mode = ta_mode a, es_allow_shell = ta_allow_shell a, es_trust_mode = ta_trust_mode a,
      es_auto_approve = ta_auto_approve a, es_approval_mode = approval_mode_for_session a\<rparr>"

text \<open>The start of a turn, \<open>handle_send_message\<close>.\<close>

definition start_turn ::
    "input_provenance \<Rightarrow> app_mode \<Rightarrow> bool \<Rightarrow> bool \<Rightarrow> bool \<Rightarrow> approval_mode \<Rightarrow> engine_session" where
  "start_turn p mode allow_shell trust_mode auto_approve approval_mode =
     apply_runtime_mode_policy
       (effective_input_policy p mode allow_shell trust_mode (mode = YoloAppMode \<or> auto_approve) approval_mode)"

text \<open>What a tool context takes from the session: trust and automatic approval.\<close>

definition tool_context_authority :: "engine_session \<Rightarrow> app_mode \<Rightarrow> bool \<Rightarrow> turn_authority" where
  "tool_context_authority s mode auto_approve =
     from_effective_fields mode (es_allow_shell s) (es_trust_mode s) (mode = YoloAppMode \<or> auto_approve) (es_approval_mode s)"

definition context_of_turn :: "engine_session \<Rightarrow> turn_authority" where
  "context_of_turn s = tool_context_authority s (es_mode s) (es_auto_approve s)"

text \<open>The gate and the path resolution of the turn.\<close>

definition turn_gate_env :: "engine_session \<Rightarrow> gate_env \<Rightarrow> gate_env" where
  "turn_gate_env s env =
     env\<lparr>ge_mode := es_mode s, ge_auto_approve := es_auto_approve s,
         ge_registry_auto_approve := ta_auto_approve (context_of_turn s), ge_approval_mode := es_approval_mode s\<rparr>"

definition turn_path_context :: "engine_session \<Rightarrow> path_context \<Rightarrow> path_context" where
  "turn_path_context s ctx = ctx\<lparr>px_trust_mode := ta_trust_mode (context_of_turn s)\<rparr>"

record engine_config =
  ec_workspace :: path
  ec_disallowed :: "string list option"
  ec_max_spawn_depth :: nat
  ec_model :: string

definition new_runtime :: "engine_config \<Rightarrow> turn_authority \<Rightarrow> bool \<Rightarrow> app_mode \<Rightarrow> agent_runtime" where
  "new_runtime cfg context allow_shell parent_mode =
     \<lparr>ar_workspace = ec_workspace cfg, ar_trust_mode = ta_trust_mode context, ar_allow_shell = allow_shell,
      ar_auto_approve = ta_auto_approve context, ar_accept_edits = False, ar_accept_verification = False,
      ar_profile = for_role General, ar_spawn_depth = 0, ar_max_spawn_depth = ec_max_spawn_depth cfg,
      ar_parent_mode = parent_mode, ar_model = ec_model cfg, ar_reasoning_effort = None\<rparr>"

definition deny_session_tools :: "engine_config \<Rightarrow> agent_runtime \<Rightarrow> agent_runtime" where
  "deny_session_tools cfg rt =
     rt\<lparr>ar_profile := (ar_profile rt)\<lparr>wp_denied_tools := unwrap_or [] (ec_disallowed cfg)\<rparr>\<rparr>"

text \<open>The runtime from which the tools of a turn start sub-agents.\<close>

definition turn_runtime :: "engine_config \<Rightarrow> engine_session \<Rightarrow> agent_runtime" where
  "turn_runtime cfg s =
     (let rt = new_runtime cfg (context_of_turn s) (es_allow_shell s \<and> es_mode s \<noteq> PlanAppMode) (es_mode s) in
      deny_session_tools cfg (if es_mode s = PlanAppMode then rt\<lparr>ar_profile := for_role PlanRole\<rparr> else rt))"

text \<open>The runtime of the operation \<open>SpawnSubAgent\<close>.\<close>

definition operation_runtime :: "engine_config \<Rightarrow> engine_session \<Rightarrow> agent_runtime" where
  "operation_runtime cfg s =
     deny_session_tools cfg
       (child_runtime (new_runtime cfg (tool_context_authority s AgentAppMode (es_auto_approve s)) (es_allow_shell s) (es_mode s)))"

end
