(* ===== verification/Sub_Agent_Properties.thy ===== *)
theory Sub_Agent_Properties
  imports Sub_Agent_Spawn
begin

text \<open>
  What a sub-agent may do compared with the session that started it, however many agents stand between.
\<close>

section \<open>One start\<close>

lemma bind_err_simps [simp]: "bind_err (Inr a) f = f a" "bind_err (Inl e) f = Inl e"
  by (simp_all add: bind_err_def)

lemma bind_err_Inr: "bind_err x f = Inr b \<longleftrightarrow> (\<exists>a. x = Inr a \<and> f a = Inr b)"
  by (cases x) (simp_all add: bind_err_def)

definition opts_out :: "json \<Rightarrow> bool" where
  "opts_out v \<longleftrightarrow> parse_optional_bool v [''inherit_disallowed_tools'', ''inheritDisallowedTools''] = Some False"

lemma parsed_opts_out: "parse_spawn_request v = Inr r \<Longrightarrow> sr_inherit_disallowed r \<longleftrightarrow> \<not> opts_out v"
  by (cases "parse_optional_bool v [''inherit_disallowed_tools'', ''inheritDisallowedTools'']")
    (auto simp: parse_spawn_request_def bind_err_Inr Let_def opts_out_def unwrap_or_def split: if_splits)

lemma parsed_max_depth: "parse_spawn_request v = Inr r \<Longrightarrow> parse_max_depth v = Inr (sr_max_depth r)"
  by (auto simp: parse_spawn_request_def bind_err_Inr Let_def split: if_splits)

lemma profile_keeps:
  assumes "apply_spawn_profile roster r0 = Inr (r, member)"
  shows "sr_inherit_disallowed r = sr_inherit_disallowed r0" and "sr_max_depth r = sr_max_depth r0"
    and "member = None \<or> roster \<noteq> []"
  using assms by (auto simp: apply_spawn_profile_def resolve_roster_member_def roster_get_def Let_def
      split: option.splits if_splits)

text \<open>The steps of a start that succeeds.\<close>

lemma spawnedE:
  assumes "spawn_subagent env rt0 v = Inr a"
  obtains r member ws tools route provider model effort steps child where
    "sr_inherit_disallowed r \<longleftrightarrow> \<not> opts_out v" "parse_max_depth v = Inr (sr_max_depth r)"
    "member = None \<or> sv_roster env \<noteq> []" "\<not> would_exceed_depth rt0"
    "child = (prepared_runtime (apply_session_spawn_defaults rt0) r member ws)
       \<lparr>ar_model := model, ar_reasoning_effort := effort\<rparr>"
    "a = \<lparr>sa_type = sr_agent_type r, sa_tools = tools, sa_runtime = child
       \<lparr>ar_profile := (worker_profile_for_spawn child (sr_agent_type r) tools route provider)\<lparr>wp_max_steps := steps\<rparr>\<rparr>\<rparr>"
proof -
  let ?rt = "apply_session_spawn_defaults rt0"
  obtain r0 where r0: "parse_spawn_request v = Inr r0"
    and 1: "bind_err (apply_spawn_profile (sv_roster env) r0) (\<lambda>(r, member).
        if would_exceed_depth ?rt then Inl (DepthLimit (ar_spawn_depth ?rt) (ar_max_spawn_depth ?rt))
        else case sv_rate_limited env of Some secs \<Rightarrow> Inl (RateLimited secs)
        | None \<Rightarrow> if sr_worktree r \<noteq> None \<and> \<not> sv_admits env then Inl AdmissionLimit
            else bind_err (prepare_child_workspace env (ar_workspace ?rt) r) (spawn_prepared env ?rt r member)) = Inr a"
    using assms unfolding spawn_subagent_def Let_def bind_err_Inr by blast
  obtain r member where p: "apply_spawn_profile (sv_roster env) r0 = Inr (r, member)"
    and 2: "\<not> would_exceed_depth ?rt"
      "bind_err (prepare_child_workspace env (ar_workspace ?rt) r) (spawn_prepared env ?rt r member) = Inr a"
    using 1 by (auto simp: bind_err_Inr split: if_splits option.splits)
  obtain ws where 3: "spawn_prepared env ?rt r member ws = Inr a" using 2(2) by (auto simp: bind_err_Inr)
  obtain provider model route effort where
    4: "spawn_background env ((prepared_runtime ?rt r member ws)\<lparr>ar_model := model, ar_reasoning_effort := effort\<rparr>) r route provider = Inr a"
    using 3 by (auto simp: spawn_prepared_def Let_def split: option.splits prod.splits)
  obtain tools steps where
    5: "a = \<lparr>sa_type = sr_agent_type r, sa_tools = tools, sa_runtime =
        (prepared_runtime ?rt r member ws)\<lparr>ar_model := model, ar_reasoning_effort := effort\<rparr>
       \<lparr>ar_profile := (worker_profile_for_spawn ((prepared_runtime ?rt r member ws)\<lparr>ar_model := model, ar_reasoning_effort := effort\<rparr>)
          (sr_agent_type r) tools route provider)\<lparr>wp_max_steps := steps\<rparr>\<rparr>\<rparr>"
    using 4 by (auto simp: spawn_background_def bind_err_Inr Let_def split: if_splits)
  have d: "\<not> would_exceed_depth rt0"
    using 2(1) by (simp add: would_exceed_depth_def apply_session_spawn_defaults_def split: if_splits)
  have i: "sr_inherit_disallowed r \<longleftrightarrow> \<not> opts_out v" "parse_max_depth v = Inr (sr_max_depth r)"
    using parsed_opts_out [OF r0] parsed_max_depth [OF r0] profile_keeps(1,2) [OF p] by simp_all
  show ?thesis by (rule that [OF i profile_keeps(3) [OF p] d refl 5])
qed

lemma session_defaults_simps [simp]:
  "ar_profile (apply_session_spawn_defaults rt) = ar_profile rt"
  "ar_spawn_depth (apply_session_spawn_defaults rt) = ar_spawn_depth rt"
  "ar_max_spawn_depth (apply_session_spawn_defaults rt) = ar_max_spawn_depth rt"
  "ar_auto_approve (apply_session_spawn_defaults rt) = ar_auto_approve rt"
  "ar_trust_mode (apply_session_spawn_defaults rt) = ar_trust_mode rt"
  "ar_allow_shell (apply_session_spawn_defaults rt) = ar_allow_shell rt"
  "ar_parent_mode (apply_session_spawn_defaults rt) = ar_parent_mode rt"
  by (simp_all add: apply_session_spawn_defaults_def)

lemma prepared_simps [simp]:
  "ar_spawn_depth (prepared_runtime rt r member ws) = ar_spawn_depth rt + 1"
  "ar_auto_approve (prepared_runtime rt r member ws) = ar_auto_approve rt"
  "ar_trust_mode (prepared_runtime rt r member ws) = ar_trust_mode rt"
  "ar_allow_shell (prepared_runtime rt r member ws) = ar_allow_shell rt"
  "ar_parent_mode (prepared_runtime rt r member ws) = ar_parent_mode rt"
  "ar_accept_verification (prepared_runtime rt r member ws) \<longleftrightarrow> ar_accept_verification rt \<and> ar_spawn_depth rt = 0"
  by (simp_all add: prepared_runtime_def restrict_runtime_def child_runtime_def Let_def)

lemma prepared_within: "within (ar_profile rt) (ar_profile (prepared_runtime rt r member ws))"
  by (simp add: prepared_runtime_def restrict_runtime_def child_runtime_def Let_def within_def)

lemma prepared_denied:
  "sr_inherit_disallowed r \<Longrightarrow>
     set (wp_denied_tools (ar_profile rt)) \<subseteq> set (wp_denied_tools (ar_profile (prepared_runtime rt r member ws)))"
  by (simp add: prepared_runtime_def restrict_runtime_def child_runtime_def Let_def)

lemma prepared_budget:
  "wp_max_spawn_depth (ar_profile (prepared_runtime rt r member ws)) = wp_max_spawn_depth (ar_profile rt)"
  by (simp add: prepared_runtime_def restrict_runtime_def child_runtime_def Let_def)

lemma clamp_le: "clamp_child_max_spawn_depth d n \<le> max_spawn_depth_ceiling"
  by (simp add: clamp_child_max_spawn_depth_def)

lemma child_max_le: "child_max_spawn_depth_for_spawn inherited d requested hint \<le> max inherited max_spawn_depth_ceiling"
  using clamp_le by (auto simp: child_max_spawn_depth_for_spawn_def le_max_iff_disj min_le_iff_disj split: option.splits)

lemma prepared_max_depth:
  "ar_max_spawn_depth (prepared_runtime rt r member ws) \<le> max (ar_max_spawn_depth rt) max_spawn_depth_ceiling"
  using child_max_le by (simp add: prepared_runtime_def restrict_runtime_def child_runtime_def Let_def)

lemma within_steps [simp]: "within p (q\<lparr>wp_max_steps := n\<rparr>) \<longleftrightarrow> within p q"
  by (simp add: within_def)

lemma spawned_facts:
  assumes "spawn_subagent env rt0 v = Inr a"
  shows "within (ar_profile rt0) (ar_profile (sa_runtime a))"
    and "ar_auto_approve (sa_runtime a) = ar_auto_approve rt0"
    and "ar_trust_mode (sa_runtime a) = ar_trust_mode rt0"
    and "ar_parent_mode (sa_runtime a) = ar_parent_mode rt0"
    and "ar_spawn_depth (sa_runtime a) = ar_spawn_depth rt0 + 1"
    and "ar_spawn_depth rt0 + 1 \<le> ar_max_spawn_depth rt0"
    and "ar_max_spawn_depth (sa_runtime a) \<le> max (ar_max_spawn_depth rt0) max_spawn_depth_ceiling"
    and "ar_accept_verification (sa_runtime a)
      \<Longrightarrow> ar_spawn_depth rt0 = 0 \<and> (ar_accept_verification rt0 \<or> ar_parent_mode rt0 = OperateAppMode)"
    and "\<not> opts_out v \<Longrightarrow> set (wp_denied_tools (ar_profile rt0)) \<subseteq> set (wp_denied_tools (ar_profile (sa_runtime a)))"
    and "wp_max_spawn_depth (ar_profile (sa_runtime a)) \<le> wp_max_spawn_depth (ar_profile rt0) - 1"
proof -
  let ?rt = "apply_session_spawn_defaults rt0"
  from assms obtain r member ws tools route provider model effort steps child where
    i: "sr_inherit_disallowed r \<longleftrightarrow> \<not> opts_out v" and "parse_max_depth v = Inr (sr_max_depth r)"
    and "member = None \<or> sv_roster env \<noteq> []" and d: "\<not> would_exceed_depth rt0"
    and c: "child = (prepared_runtime ?rt r member ws)\<lparr>ar_model := model, ar_reasoning_effort := effort\<rparr>"
    and a: "a = \<lparr>sa_type = sr_agent_type r, sa_tools = tools, sa_runtime = child
       \<lparr>ar_profile := (worker_profile_for_spawn child (sr_agent_type r) tools route provider)\<lparr>wp_max_steps := steps\<rparr>\<rparr>\<rparr>"
    by (rule spawnedE)
  have p: "ar_profile child = ar_profile (prepared_runtime ?rt r member ws)" by (simp add: c)
  have "within (ar_profile rt0) (ar_profile child)" using prepared_within [of ?rt r member ws] by (simp add: c)
  from within_trans [OF this derived_within(1)]
  show "within (ar_profile rt0) (ar_profile (sa_runtime a))" by (simp add: a worker_profile_for_spawn_def)
  show "ar_auto_approve (sa_runtime a) = ar_auto_approve rt0" "ar_trust_mode (sa_runtime a) = ar_trust_mode rt0"
    "ar_parent_mode (sa_runtime a) = ar_parent_mode rt0" "ar_spawn_depth (sa_runtime a) = ar_spawn_depth rt0 + 1"
    by (simp_all add: a c)
  show "ar_spawn_depth rt0 + 1 \<le> ar_max_spawn_depth rt0" using d by (simp add: would_exceed_depth_def)
  show "ar_max_spawn_depth (sa_runtime a) \<le> max (ar_max_spawn_depth rt0) max_spawn_depth_ceiling"
    using prepared_max_depth [of ?rt r member ws] by (simp add: a c)
  show "ar_spawn_depth rt0 = 0 \<and> (ar_accept_verification rt0 \<or> ar_parent_mode rt0 = OperateAppMode)"
    if "ar_accept_verification (sa_runtime a)"
    using that by (auto simp: a c apply_session_spawn_defaults_def split: if_splits)
  show "set (wp_denied_tools (ar_profile rt0)) \<subseteq> set (wp_denied_tools (ar_profile (sa_runtime a)))" if "\<not> opts_out v"
    using prepared_denied [of r ?rt member ws] that i by (auto simp: a p worker_profile_for_spawn_def derived_denied)
  show "wp_max_spawn_depth (ar_profile (sa_runtime a)) \<le> wp_max_spawn_depth (ar_profile rt0) - 1"
    using prepared_budget [of ?rt r member ws] by (simp add: a p worker_profile_for_spawn_def derive_child_def)
qed

section \<open>Descendants\<close>

text \<open>The sub-agents of a session: started by it, by one of its workflows, or by another of its sub-agents,
  each with arguments that satisfy a condition.\<close>

inductive descendant :: "(json \<Rightarrow> bool) \<Rightarrow> agent_runtime \<Rightarrow> sub_agent \<Rightarrow> bool" for ok root where
  direct: "ok v \<Longrightarrow> spawn_subagent env root v = Inr a \<Longrightarrow> descendant ok root a"
| task: "ok v \<Longrightarrow> spawn_workflow_task env root v = Inr a \<Longrightarrow> descendant ok root a"
| nested: "descendant ok root a \<Longrightarrow> ok v \<Longrightarrow> spawn_subagent env (sa_runtime a) v = Inr b \<Longrightarrow> descendant ok root b"
| nested_task: "descendant ok root a \<Longrightarrow> ok v \<Longrightarrow> spawn_workflow_task env (sa_runtime a) v = Inr b
    \<Longrightarrow> descendant ok root b"

text \<open>A task differs from a start by the acceptance of edits only.\<close>

lemma task_facts:
  assumes "spawn_workflow_task env rt0 v = Inr a"
  shows "within (ar_profile rt0) (ar_profile (sa_runtime a))"
    and "ar_auto_approve (sa_runtime a) = ar_auto_approve rt0"
    and "ar_trust_mode (sa_runtime a) = ar_trust_mode rt0"
    and "ar_parent_mode (sa_runtime a) = ar_parent_mode rt0"
    and "ar_spawn_depth (sa_runtime a) = ar_spawn_depth rt0 + 1"
    and "ar_spawn_depth rt0 + 1 \<le> ar_max_spawn_depth rt0"
    and "ar_max_spawn_depth (sa_runtime a) \<le> max (ar_max_spawn_depth rt0) max_spawn_depth_ceiling"
    and "ar_accept_verification (sa_runtime a)
      \<Longrightarrow> ar_spawn_depth rt0 = 0 \<and> (ar_accept_verification rt0 \<or> ar_parent_mode rt0 = OperateAppMode)"
    and "\<not> opts_out v \<Longrightarrow> set (wp_denied_tools (ar_profile rt0)) \<subseteq> set (wp_denied_tools (ar_profile (sa_runtime a)))"
    and "wp_max_spawn_depth (ar_profile (sa_runtime a)) \<le> wp_max_spawn_depth (ar_profile rt0) - 1"
  using spawned_facts [OF assms [unfolded spawn_workflow_task_def]] by simp_all

text \<open>What one start passes on, every descendant has from its root: a relation between the runtimes of a parent
  and of a child that starts and tasks establish and that is transitive.\<close>

locale inherited =
  fixes R :: "agent_runtime \<Rightarrow> agent_runtime \<Rightarrow> bool" and ok :: "json \<Rightarrow> bool"
  assumes start: "ok v \<Longrightarrow> spawn_subagent env rt v = Inr a \<Longrightarrow> R rt (sa_runtime a)"
    and work: "ok v \<Longrightarrow> spawn_workflow_task env rt v = Inr a \<Longrightarrow> R rt (sa_runtime a)"
    and passes: "R x y \<Longrightarrow> R y z \<Longrightarrow> R x z"
begin

lemma of_descendant: "descendant ok root a \<Longrightarrow> R root (sa_runtime a)"
  by (induction rule: descendant.induct) (blast intro: start work passes)+

end

interpretation authority: inherited "\<lambda>x y. within (ar_profile x) (ar_profile y)" ok for ok
proof unfold_locales
  fix v env rt a assume "spawn_subagent env rt v = Inr a"
  then show "within (ar_profile rt) (ar_profile (sa_runtime a))" by (rule spawned_facts(1))
next
  fix v env rt a assume "spawn_workflow_task env rt v = Inr a"
  then show "within (ar_profile rt) (ar_profile (sa_runtime a))" by (rule task_facts(1))
qed (rule within_trans)

interpretation session: inherited
  "\<lambda>x y. ar_auto_approve y = ar_auto_approve x \<and> ar_trust_mode y = ar_trust_mode x \<and> ar_parent_mode y = ar_parent_mode x" ok for ok
  by unfold_locales (simp_all add: spawned_facts(2-4) task_facts(2-4))

text \<open>Only the direct children of the first session verify on its approval.\<close>

interpretation lease: inherited
  "\<lambda>x y. ar_spawn_depth x < ar_spawn_depth y \<and> ar_parent_mode y = ar_parent_mode x
    \<and> (ar_accept_verification y \<longrightarrow> ar_spawn_depth y = 1 \<and> ar_spawn_depth x = 0
        \<and> (ar_accept_verification x \<or> ar_parent_mode x = OperateAppMode))" ok for ok
proof unfold_locales
  fix v env rt a assume "spawn_subagent env rt v = Inr a"
  note f = spawned_facts(4,5,8) [OF this]
  show "ar_spawn_depth rt < ar_spawn_depth (sa_runtime a) \<and> ar_parent_mode (sa_runtime a) = ar_parent_mode rt
    \<and> (ar_accept_verification (sa_runtime a) \<longrightarrow> ar_spawn_depth (sa_runtime a) = 1 \<and> ar_spawn_depth rt = 0
        \<and> (ar_accept_verification rt \<or> ar_parent_mode rt = OperateAppMode))"
    using f by auto
next
  fix v env rt a assume "spawn_workflow_task env rt v = Inr a"
  note f = task_facts(4,5,8) [OF this]
  show "ar_spawn_depth rt < ar_spawn_depth (sa_runtime a) \<and> ar_parent_mode (sa_runtime a) = ar_parent_mode rt
    \<and> (ar_accept_verification (sa_runtime a) \<longrightarrow> ar_spawn_depth (sa_runtime a) = 1 \<and> ar_spawn_depth rt = 0
        \<and> (ar_accept_verification rt \<or> ar_parent_mode rt = OperateAppMode))"
    using f by auto
qed auto

interpretation rules: inherited
  "\<lambda>x y. set (wp_denied_tools (ar_profile x)) \<subseteq> set (wp_denied_tools (ar_profile y))" "\<lambda>v. \<not> opts_out v"
proof unfold_locales
  fix v env rt a assume "\<not> opts_out v" "spawn_subagent env rt v = Inr a"
  then show "set (wp_denied_tools (ar_profile rt)) \<subseteq> set (wp_denied_tools (ar_profile (sa_runtime a)))"
    by (simp add: spawned_facts(9))
next
  fix v env rt a assume "\<not> opts_out v" "spawn_workflow_task env rt v = Inr a"
  then show "set (wp_denied_tools (ar_profile rt)) \<subseteq> set (wp_denied_tools (ar_profile (sa_runtime a)))"
    by (simp add: task_facts(9))
qed (rule subset_trans)

interpretation depth: inherited
  "\<lambda>x y. ar_spawn_depth y \<le> max (ar_max_spawn_depth x) max_spawn_depth_ceiling
    \<and> ar_max_spawn_depth y \<le> max (ar_max_spawn_depth x) max_spawn_depth_ceiling" ok for ok
proof unfold_locales
  fix v env rt a assume "spawn_subagent env rt v = Inr a"
  note f = spawned_facts(5-7) [OF this]
  show "ar_spawn_depth (sa_runtime a) \<le> max (ar_max_spawn_depth rt) max_spawn_depth_ceiling
    \<and> ar_max_spawn_depth (sa_runtime a) \<le> max (ar_max_spawn_depth rt) max_spawn_depth_ceiling" using f by simp
next
  fix v env rt a assume "spawn_workflow_task env rt v = Inr a"
  note f = task_facts(5-7) [OF this]
  show "ar_spawn_depth (sa_runtime a) \<le> max (ar_max_spawn_depth rt) max_spawn_depth_ceiling
    \<and> ar_max_spawn_depth (sa_runtime a) \<le> max (ar_max_spawn_depth rt) max_spawn_depth_ceiling" using f by simp
qed auto

interpretation budget: inherited
  "\<lambda>x y. ar_spawn_depth x \<le> ar_spawn_depth y \<and> wp_max_spawn_depth (ar_profile y)
    \<le> wp_max_spawn_depth (ar_profile x) - (ar_spawn_depth y - ar_spawn_depth x)" ok for ok
proof unfold_locales
  fix v env rt a assume "spawn_subagent env rt v = Inr a"
  note f = spawned_facts(5,10) [OF this]
  show "ar_spawn_depth rt \<le> ar_spawn_depth (sa_runtime a) \<and> wp_max_spawn_depth (ar_profile (sa_runtime a))
    \<le> wp_max_spawn_depth (ar_profile rt) - (ar_spawn_depth (sa_runtime a) - ar_spawn_depth rt)" using f by simp
next
  fix v env rt a assume "spawn_workflow_task env rt v = Inr a"
  note f = task_facts(5,10) [OF this]
  show "ar_spawn_depth rt \<le> ar_spawn_depth (sa_runtime a) \<and> wp_max_spawn_depth (ar_profile (sa_runtime a))
    \<le> wp_max_spawn_depth (ar_profile rt) - (ar_spawn_depth (sa_runtime a) - ar_spawn_depth rt)" using f by simp
qed auto

section \<open>Calls\<close>

lemma execute_Inr:
  assumes "sub_agent_execute reg nm v = Inr req"
  shows "is_tool_allowed reg nm" and "posture_permits_tool reg nm" and "tr_tools reg nm = Some req"
    and "tr_auto_approve reg \<or> delegated_error reg nm v = None"
  using assms by (auto simp: sub_agent_execute_def split: if_splits option.splits)

lemma allowed_in_scope:
  "is_tool_allowed (registry_for tools a) nm \<Longrightarrow> scope_allows (wp_tools (ar_profile (sa_runtime a))) nm"
  by (cases "wp_tools (ar_profile (sa_runtime a))"; cases "sa_tools a")
    (simp_all add: is_tool_allowed_def registry_for_def Let_def split: if_splits)

lemma full_shell_max: "FullShell \<le> s \<Longrightarrow> s = FullShell"
  by (cases s) (simp_all add: less_eq_shell_policy_def)

lemma registry_simps [simp]:
  "tr_profile (registry_for tools a) = ar_profile (sa_runtime a)"
  "tr_denied (registry_for tools a) = wp_denied_tools (ar_profile (sa_runtime a))"
  "tr_auto_approve (registry_for tools a) = ar_auto_approve (sa_runtime a)"
  "tr_accept_verification (registry_for tools a) = ar_accept_verification (sa_runtime a)"
  "tr_tools (registry_for tools a) = tools"
  by (simp_all add: registry_for_def Let_def)

text \<open>What a runtime lets its own calls do: the posture of its profile, by what the tool asks for. The tool that
  starts agents has no posture; the depth governs it.\<close>

definition posture_of :: "worker_runtime_profile \<Rightarrow> approval_requirement \<Rightarrow> bool" where
  "posture_of p req =
     (case req of
        ReqAuto \<Rightarrow> True
      | ReqSuggest \<Rightarrow> ps_write (wp_permissions p)
      | ReqRequired \<Rightarrow> wp_shell p = FullShell)"

text \<open>What is not asked of anybody in a session that does not approve automatically: calls that need no approval,
  edits of an agent whose edits are accepted or whose role delegates writes, and built-in verifications of the
  direct children of a session that accepts them.\<close>

definition delegated_by :: "agent_runtime \<Rightarrow> sub_agent \<Rightarrow> string \<Rightarrow> json \<Rightarrow> approval_requirement \<Rightarrow> bool" where
  "delegated_by root a nm v req =
     (case req of
        ReqAuto \<Rightarrow> True
      | ReqSuggest \<Rightarrow> ps_write (wp_permissions (ar_profile root))
          \<and> (ar_accept_edits (sa_runtime a) \<or> sa_type a = Implementer \<or> sa_type a = CustomRole)
      | ReqRequired \<Rightarrow> is_delegated_builtin_verification nm v \<and> ar_spawn_depth (sa_runtime a) = 1
          \<and> (ar_accept_verification root \<or> ar_parent_mode root = OperateAppMode))"

lemma posture_within: "within p q \<Longrightarrow> posture_of q req \<Longrightarrow> posture_of p req"
  using full_shell_max by (auto simp: posture_of_def within_def split: approval_requirement.splits)

lemma call_posture:
  assumes "sub_agent_execute (registry_for tools a) nm v = Inr req" and "nm \<noteq> ''agent''"
  shows "posture_of (ar_profile (sa_runtime a)) req"
  using execute_Inr(2,3) [OF assms(1)] assms(2)
  by (auto simp: posture_permits_tool_def posture_of_def split: approval_requirement.splits)

lemma agent_call_depth:
  "is_tool_allowed (registry_for tools a) ''agent'' \<Longrightarrow> ar_spawn_depth (sa_runtime a) < ar_max_spawn_depth (sa_runtime a)"
  by (simp add: is_tool_allowed_def registry_for_def Let_def would_exceed_depth_def split: if_splits)

lemma call_delegated:
  assumes "descendant ok root a" and "sub_agent_execute (registry_for tools a) nm v = Inr req"
    and "\<not> ar_auto_approve root"
  shows "delegated_by root a nm v req"
proof -
  note e = execute_Inr [OF assms(2)]
  have w: "within (ar_profile root) (ar_profile (sa_runtime a))" by (rule authority.of_descendant [OF assms(1)])
  have t: "tools nm = Some req" using e(3) by simp
  have d: "delegated_error (registry_for tools a) nm v = None"
    using e(4) session.of_descendant [OF assms(1)] assms(3) by simp
  show ?thesis
  proof (cases req)
    case ReqAuto
    then show ?thesis by (simp add: delegated_by_def)
  next
    case ReqSuggest
    with d t have "ps_write (wp_permissions (ar_profile (sa_runtime a)))"
      "ar_accept_edits (sa_runtime a) \<or> sa_type a = Implementer \<or> sa_type a = CustomRole"
      by (auto simp: delegated_error_def registry_for_def Let_def role_can_delegate_writes_def split: if_splits)
    with w ReqSuggest show ?thesis by (simp add: delegated_by_def within_def)
  next
    case ReqRequired
    with d t have "ar_accept_verification (sa_runtime a)" "is_delegated_builtin_verification nm v"
      by (simp_all add: delegated_error_def split: if_splits)
    with ReqRequired lease.of_descendant [OF assms(1)] show ?thesis by (simp add: delegated_by_def)
  qed
qed

text \<open>C5. A sub-agent stays within the session that is its root, at any depth of nesting and for every role. Its
  profile has no right to write or to use the network, no shell and no tool that the root's has not, and its
  automatic approval and trust are the root's. A call that runs is of a tool the root's list names; unless it
  starts agents, which the remaining depth must allow, it writes only if the root may write and runs what needs
  approval only if the root has the full shell. When the root does not approve automatically, a call that runs,
  one that starts agents included, is among those that the code delegates: it needs no approval, or it edits
  within the root's right to write and the agent's edits are accepted or its role delegates writes, or it is a
  built-in verification by a direct child of a session that accepts these. The right to use the network is kept
  in the profiles only, no call is checked against it (\<open>network_right_unread\<close>).\<close>

theorem sub_agent_within_root:
  assumes "descendant ok root a" and "sub_agent_execute (registry_for tools a) nm v = Inr req"
  shows "within (ar_profile root) (ar_profile (sa_runtime a))
    \<and> ar_auto_approve (sa_runtime a) = ar_auto_approve root \<and> ar_trust_mode (sa_runtime a) = ar_trust_mode root
    \<and> scope_allows (wp_tools (ar_profile root)) nm
    \<and> (if nm = ''agent'' then ar_spawn_depth (sa_runtime a) < ar_max_spawn_depth (sa_runtime a)
       else posture_of (ar_profile root) req)
    \<and> (ar_auto_approve root \<or> delegated_by root a nm v req)"
proof -
  have w: "within (ar_profile root) (ar_profile (sa_runtime a))" by (rule authority.of_descendant [OF assms(1)])
  note al = execute_Inr(1) [OF assms(2)]
  have "scope_allows (wp_tools (ar_profile root)) nm" using allowed_in_scope [OF al] w by (simp add: within_def)
  moreover have "if nm = ''agent'' then ar_spawn_depth (sa_runtime a) < ar_max_spawn_depth (sa_runtime a)
       else posture_of (ar_profile root) req"
    using al agent_call_depth posture_within [OF w] call_posture [OF assms(2)] by (cases "nm = ''agent''") simp_all
  moreover have "ar_auto_approve root \<or> delegated_by root a nm v req" using call_delegated [OF assms] by blast
  ultimately show ?thesis using w session.of_descendant [OF assms(1)] by blast
qed

text \<open>No call depends on the right to use the network.\<close>

lemma network_right_unread:
  "sub_agent_execute (reg\<lparr>tr_profile := (tr_profile reg)\<lparr>wp_permissions :=
       (wp_permissions (tr_profile reg))\<lparr>ps_network := b\<rparr>\<rparr>\<rparr>) nm v = sub_agent_execute reg nm v"
proof -
  let ?reg = "reg\<lparr>tr_profile := (tr_profile reg)\<lparr>wp_permissions := (wp_permissions (tr_profile reg))\<lparr>ps_network := b\<rparr>\<rparr>\<rparr>"
  have "is_tool_allowed ?reg nm = is_tool_allowed reg nm" by (simp add: is_tool_allowed_def is_tool_denied_def)
  moreover have "posture_permits_tool ?reg nm = posture_permits_tool reg nm" 
    by (simp add: posture_permits_tool_def split: option.split approval_requirement.split)
  moreover have "delegated_error ?reg nm v = delegated_error reg nm v"
    by (simp add: delegated_error_def split: option.split approval_requirement.split)
  ultimately show ?thesis by (simp add: sub_agent_execute_def split: option.split)
qed

text \<open>C18. A tool that a rule of the root denies, by its name or a prefix and in any case, is neither shown to nor
  run by any sub-agent below it, whatever lists of allowed tools the agents were started with, if none of the
  starts from the root down to the agent, its own and those of all agents between, opts out of the inherited
  rules. One start that opts out drops the rules (\<open>opt_out_drops_rules\<close>), and agents below it do not get them
  back.\<close>

theorem denied_for_descendants:
  assumes "descendant (\<lambda>v. \<not> opts_out v) root a" and "list_ex (rule_matches nm) (wp_denied_tools (ar_profile root))"
  shows "sub_agent_execute (registry_for tools a) nm v = Inl NotAllowed
    \<and> nm \<notin> set (tools_for_model (registry_for tools a) api_names)"
proof -
  have "is_tool_denied (registry_for tools a) nm"
    using rules.of_descendant [OF assms(1)] assms(2) by (auto simp: is_tool_denied_def list_ex_iff)
  then show ?thesis by (simp add: sub_agent_execute_def is_tool_allowed_def tools_for_model_def)
qed

text \<open>C20. Nesting is bounded: no sub-agent is deeper than the configured depth of its root or the ceiling of
  eight, whatever depths the starts asked for, and the budget in its profile falls by one with every level.\<close>

theorem spawn_depth_bounded:
  assumes "descendant ok root a"
  shows "ar_spawn_depth (sa_runtime a) \<le> max (ar_max_spawn_depth root) 8
    \<and> wp_max_spawn_depth (ar_profile (sa_runtime a))
      \<le> wp_max_spawn_depth (ar_profile root) - (ar_spawn_depth (sa_runtime a) - ar_spawn_depth root)"
  using depth.of_descendant [OF assms, unfolded max_spawn_depth_ceiling_def] budget.of_descendant [OF assms] by blast

text \<open>The tools shown to the model of a sub-agent are those, of the registered ones, whose call is not refused
  by its lists or its role.\<close>

theorem shown_tools_exact:
  "set (tools_for_model reg names)
    = {n. n \<in> set names \<and> sub_agent_execute reg n v \<noteq> Inl NotAllowed \<and> sub_agent_execute reg n v \<noteq> Inl PostureForbids}"
proof -
  have "n \<in> set (tools_for_model reg names) \<longleftrightarrow> n \<in> set names \<and> is_tool_allowed reg n \<and> posture_permits_tool reg n" for n
    by (cases "tr_allowed reg") (auto simp: tools_for_model_def is_tool_allowed_def)
  moreover have "is_tool_allowed reg n \<and> posture_permits_tool reg n
      \<longleftrightarrow> sub_agent_execute reg n v \<noteq> Inl NotAllowed \<and> sub_agent_execute reg n v \<noteq> Inl PostureForbids" for n
    by (auto simp: sub_agent_execute_def delegated_error_def split: option.split approval_requirement.split)
  ultimately show ?thesis by blast
qed

section \<open>A sample session\<close>

definition sample_spawn_env :: spawn_env where
  "sample_spawn_env =
     \<lparr>sv_roster = [], sv_rate_limited = None, sv_admits = True, sv_budget_left = True, sv_session_names = [],
      sv_configured_steps = None, sv_canonicalize = (\<lambda>_. None), sv_worktree = (\<lambda>_ _. None),
      sv_provider = (\<lambda>_. Some ''p''), sv_route = (\<lambda>_ _ _. Some (''m'', InheritModel, None))\<rparr>"

definition sample_root :: "bool \<Rightarrow> agent_runtime" where
  "sample_root approved =
     \<lparr>ar_workspace = [RootPart, NamePart ''ws''], ar_trust_mode = False, ar_allow_shell = True, ar_auto_approve = approved,
      ar_accept_edits = False, ar_accept_verification = False,
      ar_profile = (for_role General)\<lparr>wp_denied_tools := [''exec_*'']\<rparr>, ar_spawn_depth = 0, ar_max_spawn_depth = 3,
      ar_parent_mode = OperateAppMode, ar_model = ''m'', ar_reasoning_effort = None\<rparr>"

definition sample_start :: json where
  "sample_start = JObj [(''prompt'', JStr ''do''), (''type'', JStr ''tester'')]"

definition sample_tools :: "string \<Rightarrow> approval_requirement option" where
  "sample_tools nm =
     (if nm = ''read_file'' then Some ReqAuto else if nm = ''edit_file'' then Some ReqSuggest
      else if nm \<in> {''exec_shell'', ''run_tests''} then Some ReqRequired else None)"

lemma sample_parts:
  "parse_text_or_items sample_start [''prompt'', ''message'', ''objective''] ''items'' = Inr ''do''"
  "optional_input_str sample_start [''name'', ''session_name''] = None"
  "parse_agent_type sample_start = Inr (Some Verifier)"
  "parse_role_token sample_start = Inr None"
  "parse_profile sample_start None = Inr None"
  "parse_optional_worktree_request sample_start = Inr None"
  "parse_optional_subagent_model sample_start ''model'' = Inr None"
  "optional_input_str sample_start [''model_strength'', ''modelStrength''] = None"
  "optional_input_str sample_start [''thinking'', ''reasoning_effort'', ''reasoningEffort''] = None"
  "parse_max_depth sample_start = Inr None"
  "parse_optional_positive_u64 sample_start [''token_budget'', ''tokenBudget'', ''max_tokens''] = Inr None"
  "parse_optional_bool sample_start [''deliberate''] = None"
  "apply_workspace_policy sample_start None = Inr None"
  "parse_write_authority sample_start None = Inr None"
  "parse_allowed_tools sample_start = None"
  "parse_disallowed_tools sample_start = None"
  "parse_optional_cwd sample_start = None"
  "parse_artifact sample_start = None"
  "parse_optional_bool sample_start [''fork_context'', ''forkContext'', ''inherit_context''] = None"
  "parse_optional_bool sample_start [''inherit_disallowed_tools'', ''inheritDisallowedTools''] = None"
  "first_present sample_start [''max_steps'', ''maxSteps''] = None"
  "first_present sample_start [''wall_time_secs'', ''wallTimeSecs''] = None"
  by code_simp+

definition sample_request :: spawn_request where
  "sample_request =
     \<lparr>sr_session_name = None, sr_prompt = ''do'', sr_agent_type = Verifier, sr_type_explicit = True, sr_profile = None,
      sr_role = role_alias sample_start, sr_allowed_tools = None, sr_model = None, sr_strength = SameStrength,
      sr_strength_explicit = False, sr_thinking = InheritThinking, sr_cwd = None, sr_worktree = None,
      sr_resident_file = parse_resident_file sample_start, sr_fork_context = False, sr_max_depth = None,
      sr_token_budget = None, sr_max_steps = None, sr_wall_time = None, sr_disallowed_tools = None,
      sr_inherit_disallowed = True, sr_write_authority = None, sr_expected_artifact = None\<rparr>"

lemma bind_errI: "x = Inr a \<Longrightarrow> f a = y \<Longrightarrow> bind_err x f = y"
  by simp

lemma parse_with_None: "x = None \<Longrightarrow> parse_with f x = Inr None"
  by (simp add: parse_with_def)

lemma sample_parsed: "parse_spawn_request sample_start = Inr sample_request"
  unfolding parse_spawn_request_def
  apply (rule bind_errI, rule sample_parts(1))
  apply (rule bind_errI, rule parse_with_None, rule sample_parts(2))
  apply (rule bind_errI, rule sample_parts(3))
  apply (rule bind_errI, rule sample_parts(4))
  apply (rule bind_errI, rule sample_parts(5))
  apply (rule bind_errI, rule sample_parts(6))
  apply (rule bind_errI, rule sample_parts(7))
  apply (rule bind_errI, rule parse_with_None, rule sample_parts(8))
  apply (rule bind_errI, rule parse_with_None, rule sample_parts(9))
  apply (rule bind_errI, rule sample_parts(10))
  apply (rule bind_errI, rule sample_parts(11))
  apply (simp add: sample_parts(12-22) parse_count_def unwrap_or_def Let_def sample_request_def split: option.split)
  done

text \<open>The agent that this start gives in any session that may start one.\<close>

definition sample_child :: "agent_runtime \<Rightarrow> agent_runtime" where
  "sample_child root = (prepared_runtime (apply_session_spawn_defaults root) sample_request None None)
     \<lparr>ar_model := ''m'', ar_reasoning_effort := None\<rparr>"

definition sample_agent :: "agent_runtime \<Rightarrow> sub_agent" where
  "sample_agent root =
     \<lparr>sa_type = Verifier, sa_tools = None,
      sa_runtime = (sample_child root)\<lparr>ar_profile := (worker_profile_for_spawn (sample_child root) Verifier None InheritModel ''p'')
        \<lparr>wp_max_steps := read_only_max_steps\<rparr>\<rparr>\<rparr>"

lemma sample_prepared: "prepare_child_workspace sample_spawn_env ws sample_request = Inr None"
  by (simp add: prepare_child_workspace_def sample_request_def)

lemma sample_started:
  assumes "ar_spawn_depth root < ar_max_spawn_depth root"
  shows "spawn_subagent sample_spawn_env root sample_start = Inr (sample_agent root)"
proof -
  have e: "sv_rate_limited sample_spawn_env = None" "sv_admits sample_spawn_env" "sv_budget_left sample_spawn_env"
    "sv_provider sample_spawn_env m = Some ''p''" "sv_route sample_spawn_env rt r m = Some (''m'', InheritModel, None)"
    "sv_configured_steps sample_spawn_env = None" for m rt r
    by (simp_all add: sample_spawn_env_def)
  have r: "sr_profile sample_request = None" "sr_agent_type sample_request = Verifier" "sr_allowed_tools sample_request = None"
    "sr_session_name sample_request = None" "sr_max_steps sample_request = None" "sr_worktree sample_request = None"
    by (simp_all add: sample_request_def)
  have s: "resolve_max_steps Verifier None None = read_only_max_steps"
    by (simp add: resolve_max_steps_def unwrap_or_def read_only_max_steps_def max_subagent_steps_def)
  have d: "\<not> would_exceed_depth (apply_session_spawn_defaults root)" using assms by (simp add: would_exceed_depth_def)
  show ?thesis
    by (simp add: spawn_subagent_def sample_parsed apply_spawn_profile_def r d e sample_prepared
        spawn_prepared_def Let_def spawn_background_def build_allowed_tools_def claim_session_name_def s
        sample_agent_def sample_child_def)
qed

lemma sample_tools_inherited:
  "sa_tools (sample_agent root) = None"
  "wp_tools (ar_profile (sa_runtime (sample_agent root))) = wp_tools (ar_profile root)"
  "wp_denied_tools (ar_profile (sa_runtime (sample_agent root))) = wp_denied_tools (ar_profile root)"
  by (cases "wp_tools (ar_profile root)"; simp add: sample_agent_def sample_child_def worker_profile_for_spawn_def
      derive_child_def requested_profile_def worker_tool_scope_def for_role_def prepared_runtime_def
      restrict_runtime_def child_runtime_def apply_session_spawn_defaults_def sample_request_def add_rules_def
      unwrap_or_def Let_def)+

abbreviation sample_verifier :: sub_agent where
  "sample_verifier \<equiv> sample_agent (sample_root False)"

lemma sample_spawned: "spawn_subagent sample_spawn_env (sample_root False) sample_start = Inr sample_verifier"
  by (rule sample_started) (simp add: sample_root_def)

lemma sample_descendant: "ok sample_start \<Longrightarrow> descendant ok (sample_root False) sample_verifier"
  by (rule descendant.direct [OF _ sample_spawned])

lemma sample_registry:
  "registry_for sample_tools sample_verifier =
     \<lparr>tr_allowed = None, tr_denied = [''exec_*''], tr_auto_approve = False, tr_accept_edits = True,
      tr_accept_verification = True, tr_type = Verifier, tr_profile = ar_profile (sa_runtime sample_verifier),
      tr_can_spawn = True, tr_tools = sample_tools\<rparr>"
  by (simp add: registry_for_def Let_def sample_agent_def sample_child_def worker_profile_for_spawn_def
      derive_child_def requested_profile_def worker_tool_scope_def for_role_def prepared_runtime_def
      restrict_runtime_def child_runtime_def apply_session_spawn_defaults_def sample_root_def sample_request_def
      add_rules_def unwrap_or_def would_exceed_depth_def child_max_spawn_depth_for_spawn_def)

lemma sample_shell: "wp_shell (ar_profile (sa_runtime sample_verifier)) = FullShell"
  by (simp add: sample_agent_def sample_child_def worker_profile_for_spawn_def derive_child_def
      requested_profile_def for_role_def prepared_runtime_def restrict_runtime_def child_runtime_def Let_def
      sample_root_def min_with_def)

text \<open>The verifier of an Operate session runs the tests without auto-approval; the shell is denied to it.\<close>

lemma sample_runs_tests:
  "sub_agent_execute (registry_for sample_tools sample_verifier) ''run_tests'' (JObj []) = Inr ReqRequired"
proof -
  have "\<not> rule_matches ''run_tests'' ''exec_*''" by code_simp
  moreover have "sample_tools ''run_tests'' = Some ReqRequired" by (simp add: sample_tools_def)
  moreover have "is_delegated_builtin_verification ''run_tests'' (JObj [])" by code_simp
  moreover have "role_posture_permits Verifier ReqRequired" by code_simp
  ultimately show ?thesis
    by (simp add: sample_registry sub_agent_execute_def is_tool_allowed_def is_tool_denied_def posture_permits_tool_def
        delegated_error_def sample_shell terminal_takeover_def)
qed

lemma sub_agent_within_root_witness:
  "sub_agent_execute (registry_for sample_tools sample_verifier) ''run_tests'' (JObj []) = Inr ReqRequired
   \<and> wp_shell (ar_profile (sample_root False)) = FullShell
   \<and> delegated_by (sample_root False) sample_verifier ''run_tests'' (JObj []) ReqRequired"
proof -
  have "\<not> ar_auto_approve (sample_root False)" by (simp add: sample_root_def)
  with sub_agent_within_root [OF sample_descendant [of "\<lambda>_. True"] sample_runs_tests] sample_runs_tests
  show ?thesis by (simp add: posture_of_def)
qed

lemma denied_for_descendants_witness:
  "sub_agent_execute (registry_for sample_tools sample_verifier) ''exec_shell'' (JObj []) = Inl NotAllowed
   \<and> ''exec_shell'' \<notin> set (tools_for_model (registry_for sample_tools sample_verifier) [''read_file'', ''exec_shell''])"
proof (rule denied_for_descendants)
  show "descendant (\<lambda>v. \<not> opts_out v) (sample_root False) sample_verifier"
    using sample_parts(20) by (intro sample_descendant) (simp add: opts_out_def)
  have "rule_matches ''exec_shell'' ''exec_*''" by code_simp
  then show "list_ex (rule_matches ''exec_shell'') (wp_denied_tools (ar_profile (sample_root False)))"
    by (simp add: sample_root_def)
qed

lemma spawn_depth_bounded_witness:
  "ar_spawn_depth (sa_runtime sample_verifier) \<le> max (ar_max_spawn_depth (sample_root False)) 8
    \<and> wp_max_spawn_depth (ar_profile (sa_runtime sample_verifier))
      \<le> wp_max_spawn_depth (ar_profile (sample_root False))
        - (ar_spawn_depth (sa_runtime sample_verifier) - ar_spawn_depth (sample_root False))"
  by (rule spawn_depth_bounded [OF sample_descendant [of "\<lambda>_. True"]]) simp

text \<open>The budget of the profile is not what stops nesting: a child that is started with a depth of one may start
  another, whatever its budget, until the ceiling.\<close>

lemma depth_reopened:
  assumes "spawn_subagent env rt v = Inr a" and "parse_max_depth v = Inr (Some 1)" and "sv_roster env = []"
    and "ar_spawn_depth rt + 2 \<le> 8"
  shows "\<not> would_exceed_depth (sa_runtime a)"
proof -
  from assms(1) obtain r member ws tools route provider model effort steps child where
    "sr_inherit_disallowed r \<longleftrightarrow> \<not> opts_out v"
    and m: "parse_max_depth v = Inr (sr_max_depth r)" "member = None \<or> sv_roster env \<noteq> []"
    and "\<not> would_exceed_depth rt"
    and c: "child = (prepared_runtime (apply_session_spawn_defaults rt) r member ws)
       \<lparr>ar_model := model, ar_reasoning_effort := effort\<rparr>"
    and a: "a = \<lparr>sa_type = sr_agent_type r, sa_tools = tools, sa_runtime = child
       \<lparr>ar_profile := (worker_profile_for_spawn child (sr_agent_type r) tools route provider)\<lparr>wp_max_steps := steps\<rparr>\<rparr>\<rparr>"
    by (rule spawnedE)
  have "sr_max_depth r = Some 1" "member = None" using m assms(2,3) by simp_all
  then have "ar_max_spawn_depth (sa_runtime a) = ar_spawn_depth rt + 2"
    using assms(4)
    by (simp add: a c prepared_runtime_def restrict_runtime_def child_runtime_def Let_def
        child_max_spawn_depth_for_spawn_def clamp_child_max_spawn_depth_def max_spawn_depth_ceiling_def)
  with spawned_facts(5) [OF assms(1)] show ?thesis by (simp add: would_exceed_depth_def)
qed

text \<open>A start that opts out drops the inherited rules.\<close>

lemma opt_out_drops_rules:
  "\<not> sr_inherit_disallowed r \<Longrightarrow> sr_disallowed_tools r = None
    \<Longrightarrow> wp_denied_tools (ar_profile (restrict_runtime r rt)) = []"
  by (simp add: restrict_runtime_def Let_def add_rules_def unwrap_or_def)

end
