(* ===== verification/Patch_Boundary.thy ===== *)
theory Patch_Boundary
  imports Patch_Writes Workspace_Path
begin

text \<open>
  The patch tool under the boundary of the workspace: \<open>execute_apply_patch\<close> takes the paths of its files from
  \<open>resolve_path\<close>, so what it changes lies inside.
\<close>

text \<open>The text of a path.\<close>

fun part_text :: "path_part \<Rightarrow> string" where
  "part_text RootPart = []"
| "part_text CurPart = ''.''"
| "part_text UpPart = ''..''"
| "part_text (NamePart s) = s"

definition render_path :: "path \<Rightarrow> string" where
  "render_path p = (if p = [RootPart] then ''/'' else join_str ''/'' (map part_text p))"

definition workspace_resolver :: "path_context \<Rightarrow> string \<Rightarrow> string option" where
  "workspace_resolver ctx s = (case resolve_path ctx (parse_path s) of Inl _ \<Rightarrow> None | Inr p \<Rightarrow> Some (render_path p))"

text \<open>The files of the workspace and of the trusted directories.\<close>

definition workspace_files :: "path_context \<Rightarrow> string set" where
  "workspace_files ctx = render_path ` {p. inside ctx p}"

lemma resolver_inside:
  assumes "canonical_plain ctx" and "is_absolute_path (px_workspace ctx)"
    and "\<not> px_trust_mode ctx" and "\<not> px_follow_symlinks ctx" and "workspace_resolver ctx s = Some q"
  shows "q \<in> workspace_files ctx"
proof -
  obtain p where p: "resolve_path ctx (parse_path s) = Inr p" "q = render_path p"
    using assms(5) by (auto simp: workspace_resolver_def split: sum.splits)
  from resolved_inside [OF assms(1-4) p(1)] p(2) show ?thesis by (simp add: workspace_files_def)
qed

text \<open>The contexts that check paths, and the contract of the patch tool met by \<open>resolve_path\<close> in them.\<close>

definition checking_context :: "path_context \<Rightarrow> bool" where
  "checking_context ctx \<longleftrightarrow>
     canonical_plain ctx \<and> is_absolute_path (px_workspace ctx) \<and> \<not> px_trust_mode ctx \<and> \<not> px_follow_symlinks ctx"

interpretation boundary: path_granter "workspace_resolver ctx" "{q. checking_context ctx \<longrightarrow> q \<in> workspace_files ctx}" for ctx
  by unfold_locales (auto simp: checking_context_def dest: resolver_inside)

lemma changes_inside:
  assumes "canonical_plain ctx" and "is_absolute_path (px_workspace ctx)"
    and "\<not> px_trust_mode ctx" and "\<not> px_follow_symlinks ctx"
  shows "{q. snd (execute_apply_patch (env\<lparr>pe_resolve := workspace_resolver ctx\<rparr>) v fs) q \<noteq> fs q}
    \<subseteq> render_path ` {p. plain_path p
        \<and> (starts_with p (normalize_path (workspace_canonical ctx)) \<or> is_trusted_external_path ctx p)}"
proof -
  have "checking_context ctx" using assms by (simp add: checking_context_def)
  then have "{q. checking_context ctx \<longrightarrow> q \<in> workspace_files ctx} = workspace_files ctx" by simp
  with boundary.changes_safe [where ctx = ctx and env = env and v = v and fs = fs] show ?thesis by (simp add: workspace_files_def inside_def)
qed

text \<open>C4. Without trust and without following links, a call of \<open>apply_patch\<close> changes files of the workspace and of
  the trusted external directories only, whatever paths the patch names and however the call ends.\<close>

theorem patch_stays_inside:
  assumes "canonical_plain ctx" and "is_absolute_path (px_workspace ctx)"
    and "\<not> px_trust_mode ctx" and "\<not> px_follow_symlinks ctx"
  shows "{q. snd (execute_apply_patch (env\<lparr>pe_resolve := workspace_resolver ctx\<rparr>) v fs) q \<noteq> fs q}
    \<subseteq> render_path ` {p. plain_path p
        \<and> (starts_with p (normalize_path (workspace_canonical ctx)) \<or> is_trusted_external_path ctx p)}"
  by (rule changes_inside [OF assms])

text \<open>A new file of the sample workspace; a path through a link out of it is refused.\<close>

lemma sample_context_plain: "canonical_plain (sample_context False)"
  using sample_canonical_plain by (auto simp: canonical_plain_def sample_context_def)

lemma patch_stays_inside_witness:
  "let out = execute_apply_patch ((sample_patch_env (\<lambda>_. False))\<lparr>pe_resolve := workspace_resolver (sample_context False)\<rparr>)
       (JObj [(''changes'', JArr [sample_change ''new'' ''x''])]) (\<lambda>_. None) in
   snd out ''/ws/new'' = Some (TextFile ''x'')
   \<and> {q. snd out q \<noteq> None} \<subseteq> render_path ` {p. plain_path p
        \<and> (starts_with p (normalize_path (workspace_canonical (sample_context False)))
           \<or> is_trusted_external_path (sample_context False) p)}"
proof -
  have a: "is_absolute_path (px_workspace (sample_context False))" by code_simp
  have n: "\<not> px_trust_mode (sample_context False)" "\<not> px_follow_symlinks (sample_context False)"
    by (simp_all add: sample_context_def)
  have c: "snd (execute_apply_patch ((sample_patch_env (\<lambda>_. False))\<lparr>pe_resolve := workspace_resolver (sample_context False)\<rparr>)
       (JObj [(''changes'', JArr [sample_change ''new'' ''x''])]) (\<lambda>_. None)) ''/ws/new'' = Some (TextFile ''x'')"
    by code_simp
  show ?thesis
    unfolding Let_def
    by (rule conjI [OF c patch_stays_inside [OF sample_context_plain a n, where fs = "\<lambda>_. None"]])
qed

lemma link_refused: "workspace_resolver (sample_context False) ''link/../b'' = None"
  by code_simp

end
