(* ===== verification/Turn_Properties.thy ===== *)
theory Turn_Properties
  imports Turn_Authority Sub_Agent_Properties Approval_Properties Patch_Boundary
begin

text \<open>
  What a turn may do: a turn whose input came neither from the user nor from the runtime asks before every
  call that needs approval, and the sub-agents of a session in Plan mode only read.
\<close>

section \<open>Narrowed turns\<close>

text \<open>Calls that need approval when nothing is approved automatically.\<close>

definition needs_approval :: "gate_env \<Rightarrow> tool_call \<Rightarrow> bool" where
  "needs_approval env call =
     (let nm = tc_name call in
      if is_mcp_tool nm then \<not> mcp_tool_is_read_only nm
      else case ge_registry env nm of
        Some spec \<Rightarrow> ts_requirement spec (call_input env call) \<noteq> ReqAuto
      | None \<Rightarrow> nm = code_execution_tool \<or> nm = js_execution_tool)"

lemma needs_approval_base:
  "\<not> ge_auto_approve env \<Longrightarrow> \<not> ge_registry_auto_approve env \<Longrightarrow> base_approval env call = needs_approval env call"
  by (simp add: base_approval_def needs_approval_def Let_def registered_tool_approval_required_def split: option.split)

lemma narrowed_session:
  fixes p mode allow_shell trust_mode auto_approve approval_mode
  assumes "\<not> provenance_can_inherit p"
  defines "s \<equiv> start_turn p mode allow_shell trust_mode auto_approve approval_mode"
  shows "\<not> es_auto_approve s" and "\<not> ta_auto_approve (context_of_turn s)" and "\<not> es_trust_mode s" and "es_mode s \<noteq> YoloAppMode"
    and "es_approval_mode s \<in> {SuggestMode, NeverMode}"
  using assms(1) unfolding s_def
  by (cases approval_mode; simp add: start_turn_def apply_runtime_mode_policy_def effective_input_policy_def Let_def
      context_of_turn_def tool_context_authority_def from_effective_fields_def approval_mode_for_session_def
      agent_approval_mode_for_turn_def)+

text \<open>C6. A turn started by text that came from neither the user nor the runtime, such as the report of a
  sub-agent or an imported transcript, keeps none of the standing authority, whatever mode, trust and
  approvals the session has. A call that needs approval never runs unasked: it is blocked, or it is put to the
  approval handler, where only the user's own answers of this session count, in the order denied before, approved
  before for the session with no prompt forced, else denied in the mode never and prompted for in every other.
  So nothing but an approval for the session that the user gave for the same tool or group of calls still lets
  it run without a new question. Paths are checked against the workspace, and commands are sandboxed. Not
  covered are the three kinds of calls that are served before the approval is asked for: the search of the
  tools, the question to the user and the parallel wrapper, which checks its inner calls itself.\<close>

theorem narrowed_turn_asks:
  fixes p mode allow_shell trust_mode auto_approve approval_mode env call fe
  defines "s \<equiv> start_turn p mode allow_shell trust_mode auto_approve approval_mode"
  defines "plan \<equiv> plan_tool_call (turn_gate_env s env) call"
  defines "r \<equiv> call_request fe call plan"
  assumes "\<not> provenance_can_inherit p" and "needs_approval (turn_gate_env s env) call"
    and "\<not> served_before_approval (tc_name call)"
  shows "call_outcome (turn_gate_env s env) fe (session_app shown_mode answers) call =
      (if pl_blocked plan \<noteq> None then CallBlocked
       else CallAsks (if denied_before answers r then AutoDenied
         else if \<not> pl_force_prompt plan \<and> approved_before answers r then AutoApproved
         else if shown_mode = NeverMode then DeniedByMode else Prompted))
    \<and> \<not> px_trust_mode (turn_path_context s ctx)
    \<and> sandbox_policy_for_mode (es_mode s) ws \<noteq> DangerFullAccess"
proof -
  note n = narrowed_session [OF assms(4), of mode allow_shell trust_mode auto_approve approval_mode, folded s_def]
  let ?env = "turn_gate_env s env"
  have "\<not> ge_auto_approve ?env" "\<not> ge_registry_auto_approve ?env" using n(1,2) by (simp_all add: turn_gate_env_def)
  with assms(5) have b: "base_approval ?env call" by (simp add: needs_approval_base)
  have "pl_approval_required plan" if "pl_blocked plan = None"
    using that b gated_required unfolding plan_def by blast
  moreover have "ar_force_prompt r = pl_force_prompt plan" by (simp add: r_def call_request_def)
  ultimately have "call_outcome ?env fe (session_app shown_mode answers) call =
      (if pl_blocked plan \<noteq> None then CallBlocked
       else CallAsks (if denied_before answers r then AutoDenied
         else if \<not> pl_force_prompt plan \<and> approved_before answers r then AutoApproved
         else if shown_mode = NeverMode then DeniedByMode else Prompted))"
    using assms(6) by (simp add: call_outcome_def Let_def plan_def [symmetric] r_def [symmetric] session_answer)
  moreover have "\<not> px_trust_mode (turn_path_context s ctx)"
    using n(3) by (simp add: turn_path_context_def context_of_turn_def tool_context_authority_def from_effective_fields_def)
  moreover have "sandbox_policy_for_mode (es_mode s) ws \<noteq> DangerFullAccess" using n(4) by (cases "es_mode s") simp_all
  ultimately show ?thesis by simp
qed

text \<open>The changes of a patch in such a turn stay inside the workspace.\<close>

lemma narrowed_patch_inside:
  fixes p mode allow_shell trust_mode auto_approve approval_mode and ctx :: path_context
  assumes "\<not> provenance_can_inherit p" and "canonical_plain ctx" and "is_absolute_path (px_workspace ctx)"
    and "\<not> px_follow_symlinks ctx"
  defines "ctx' \<equiv> turn_path_context (start_turn p mode allow_shell trust_mode auto_approve approval_mode) ctx"
  shows "{q. snd (execute_apply_patch (env\<lparr>pe_resolve := workspace_resolver ctx'\<rparr>) v fs) q \<noteq> fs q}
    \<subseteq> render_path ` {p. plain_path p
        \<and> (starts_with p (normalize_path (workspace_canonical ctx')) \<or> is_trusted_external_path ctx' p)}"
proof (rule changes_inside)
  note n = narrowed_session(3) [OF assms(1), of mode allow_shell trust_mode auto_approve approval_mode]
  show "canonical_plain ctx'" "is_absolute_path (px_workspace ctx')" "\<not> px_follow_symlinks ctx'"
    using assms(2-4) by (simp_all add: ctx'_def turn_path_context_def canonical_plain_def)
  show "\<not> px_trust_mode ctx'"
    using n by (simp add: ctx'_def turn_path_context_def context_of_turn_def tool_context_authority_def from_effective_fields_def)
qed

section \<open>Sub-agents of a session\<close>

lemma plan_runtime:
  assumes "es_mode s = PlanAppMode"
  shows "wp_permissions (ar_profile (turn_runtime cfg s)) = read_only_permissions"
    and "wp_shell (ar_profile (turn_runtime cfg s)) = NoShell"
    and "wp_denied_tools (ar_profile (turn_runtime cfg s)) = unwrap_or [] (ec_disallowed cfg)"
  using assms by (simp_all add: turn_runtime_def Let_def deny_session_tools_def for_role_def)

lemma within_plan:
  assumes "es_mode s = PlanAppMode" and "within (ar_profile (turn_runtime cfg s)) p"
  shows "wp_permissions p = read_only_permissions" and "wp_shell p = NoShell"
proof -
  note w = assms(2) [unfolded within_def plan_runtime [OF assms(1)]]
  then show "wp_permissions p = read_only_permissions"
    by (cases "wp_permissions p") (simp add: read_only_permissions_def)
  from w show "wp_shell p = NoShell" by (cases "wp_shell p") (simp_all add: less_eq_shell_policy_def)
qed

text \<open>C17. The sub-agents that the tools of a turn in Plan mode start, and those that these start in turn, at any
  depth, in any role and with any tools, only read: their profiles have no right to write or to use the network
  and no shell, and a call of theirs that runs is of a tool that needs no approval, also when the session
  approves automatically, or of the tool that starts agents, which are agents of the same kind. The agents that
  the operation \<open>SpawnSubAgent\<close> of the interface starts are not among them: it hands them a profile that may
  write, in Plan mode too (\<open>operation_ignores_plan_mode\<close>).\<close>

theorem plan_session_reads_only:
  assumes "es_mode s = PlanAppMode" and "descendant ok (turn_runtime cfg s) a"
  shows "wp_permissions (ar_profile (sa_runtime a)) = read_only_permissions
    \<and> wp_shell (ar_profile (sa_runtime a)) = NoShell
    \<and> (\<forall>tools nm v req. sub_agent_execute (registry_for tools a) nm v = Inr req \<longrightarrow> req = ReqAuto \<or> nm = ''agent'')"
proof -
  note p = within_plan [OF assms(1) authority.of_descendant [OF assms(2)]]
  have "req = ReqAuto \<or> nm = ''agent''" if c: "sub_agent_execute (registry_for tools a) nm v = Inr req" for tools nm v req
    using call_posture [OF c] p by (cases req) (auto simp: posture_of_def read_only_permissions_def)
  with p show ?thesis by blast
qed

text \<open>The operation that starts a role passes on what the turn would not: the automatic approval of the session
  in every mode, and the right to write in Plan mode.\<close>

lemma operation_inherits_approval:
  "es_auto_approve s \<Longrightarrow> ar_auto_approve (operation_runtime cfg s)"
  "ps_write (wp_permissions (ar_profile (operation_runtime cfg s)))"
  by (simp_all add: operation_runtime_def deny_session_tools_def child_runtime_def new_runtime_def
      tool_context_authority_def from_effective_fields_def for_role_def full_permissions_def)

text \<open>In a Plan session that approves automatically, the implementer that the operation starts edits files.\<close>

lemma operation_ignores_plan_mode:
  assumes "es_mode s = PlanAppMode" and "es_auto_approve s" and "ec_disallowed cfg = None"
  defines "rt \<equiv> operation_runtime cfg s"
  shows "sub_agent_execute (registry_for (\<lambda>_. Some ReqSuggest)
      \<lparr>sa_type = Implementer, sa_tools = None,
       sa_runtime = rt\<lparr>ar_profile := worker_profile_for_spawn rt Implementer None InheritModel ''p''\<rparr>\<rparr>) ''edit_file'' v
    = Inr ReqSuggest"
proof -
  have "\<not> terminal_takeover ''edit_file'' v" by (simp add: terminal_takeover_def)
  moreover have "role_posture_permits Implementer ReqSuggest" by code_simp
  ultimately show ?thesis using assms(2,3)
    by (simp add: rt_def operation_runtime_def deny_session_tools_def child_runtime_def new_runtime_def
        tool_context_authority_def from_effective_fields_def registry_for_def Let_def sub_agent_execute_def
        is_tool_allowed_def is_tool_denied_def posture_permits_tool_def worker_profile_for_spawn_def
        requested_profile_def derive_child_def intersect_permissions_def for_role_def full_permissions_def
        worker_tool_scope_def add_rules_def unwrap_or_def)
qed

section \<open>Samples\<close>

definition sample_plan_session :: engine_session where
  "sample_plan_session = \<lparr>es_mode = PlanAppMode, es_allow_shell = True, es_trust_mode = False, es_auto_approve = True,
     es_approval_mode = SuggestMode\<rparr>"

definition sample_config :: engine_config where
  "sample_config = \<lparr>ec_workspace = [RootPart, NamePart ''ws''], ec_disallowed = None, ec_max_spawn_depth = 3, ec_model = ''m''\<rparr>"

abbreviation sample_plan_child :: sub_agent where
  "sample_plan_child \<equiv> sample_agent (turn_runtime sample_config sample_plan_session)"

lemma sample_plan_descendant: "descendant (\<lambda>_. True) (turn_runtime sample_config sample_plan_session) sample_plan_child"
proof (rule descendant.direct [OF _ sample_started])
  show "ar_spawn_depth (turn_runtime sample_config sample_plan_session) < ar_max_spawn_depth (turn_runtime sample_config sample_plan_session)"
    by (simp add: turn_runtime_def Let_def deny_session_tools_def new_runtime_def sample_config_def)
qed simp

text \<open>The report of a sub-agent in a session without any check.\<close>

lemma sample_needs_approval: "needs_approval (turn_gate_env s sample_gate) (sample_shell_call c)"
proof -
  have "\<not> is_mcp_tool ''exec_shell''" by code_simp
  then show ?thesis by (simp add: needs_approval_def turn_gate_env_def sample_gate_def sample_shell_call_def)
qed

definition narrowed_yolo :: engine_session where
  "narrowed_yolo = start_turn SubAgentHandoff YoloAppMode True True True BypassMode"

lemma narrowed_turn_asks_witness:
  "call_outcome (turn_gate_env narrowed_yolo sample_gate) sample_fingerprints (session_app BypassMode [])
       (sample_shell_call ''ls'') \<in> {CallBlocked, CallAsks Prompted}
   \<and> \<not> px_trust_mode (turn_path_context narrowed_yolo (sample_context False))
   \<and> sandbox_policy_for_mode (es_mode narrowed_yolo) [RootPart] \<noteq> DangerFullAccess"
proof -
  have p: "\<not> provenance_can_inherit SubAgentHandoff" by (simp add: provenance_can_inherit_def)
  have "\<not> served_before_approval ''exec_shell''" by code_simp
  then have n: "\<not> served_before_approval (tc_name (sample_shell_call ''ls''))" by (simp add: sample_shell_call_def)
  have e: "\<not> denied_before [] r" "\<not> approved_before [] r" for r by (simp_all add: denied_before_def approved_before_def)
  from narrowed_turn_asks [OF p sample_needs_approval n, where mode = YoloAppMode and allow_shell = True
      and trust_mode = True and auto_approve = True and approval_mode = BypassMode and shown_mode = BypassMode
      and answers = "[]" and fe = sample_fingerprints and ctx = "sample_context False" and ws = "[RootPart]",
      folded narrowed_yolo_def]
  show ?thesis by (simp add: e)
qed

lemma sample_plan_reads:
  "sub_agent_execute (registry_for (\<lambda>_. Some ReqAuto) sample_plan_child) ''read_file'' (JObj []) = Inr ReqAuto"
proof -
  have t: "wp_tools (ar_profile (turn_runtime sample_config sample_plan_session)) = InheritTools"
    "wp_denied_tools (ar_profile (turn_runtime sample_config sample_plan_session)) = []"
    by (simp_all add: turn_runtime_def Let_def deny_session_tools_def sample_plan_session_def sample_config_def
        for_role_def unwrap_or_def)
  then show ?thesis
    by (simp add: sub_agent_execute_def is_tool_allowed_def is_tool_denied_def posture_permits_tool_def
        delegated_error_def terminal_takeover_def registry_for_def Let_def sample_tools_inherited)
qed

lemma plan_session_reads_only_witness:
  "sub_agent_execute (registry_for (\<lambda>_. Some ReqAuto) sample_plan_child) ''read_file'' (JObj []) = Inr ReqAuto
   \<and> wp_permissions (ar_profile (sa_runtime sample_plan_child)) = read_only_permissions
   \<and> sub_agent_execute (registry_for (\<lambda>_. Some ReqSuggest) sample_plan_child) ''edit_file'' (JObj []) \<noteq> Inr ReqSuggest"
proof -
  have "es_mode sample_plan_session = PlanAppMode" by (simp add: sample_plan_session_def)
  from plan_session_reads_only [OF this sample_plan_descendant] sample_plan_reads show ?thesis by fastforce
qed

end
