(* ===== verification/Stuck_Guard.thy ===== *)
theory Stuck_Guard
  imports Json "HOL-Library.Multiset" "HOL-Library.List_Lexorder" "HOL-Library.Char_ord"
begin

text \<open>
  The detector of turns that make no progress (\<open>crates/tui/src/core/engine/stuck_guard.rs\<close>): fingerprints of the
  steps of a turn, counters of repetitions, a warning and then a stop; and what the loop of a turn
  (\<open>core/engine/turn_loop.rs\<close>) does with its signals. The hash function and the text of JSON are parameters.
\<close>

section \<open>Fingerprints\<close>

datatype step_fingerprint =
    ToolStep string u64 "u64 option"
  | AssistantStep u64

lemma field_size: "f \<in> set fields \<Longrightarrow> size (snd f) < size (JObj fields)"
  by (induction fields) auto

text \<open>The fields of an object in the order of their keys.\<close>

function canonical_json :: "json \<Rightarrow> json" where
  "canonical_json (JObj fields) = JObj (map (\<lambda>f. (fst f, canonical_json (snd f))) (sort_key fst fields))"
| "canonical_json (JArr vs) = JArr (map canonical_json vs)"
| "canonical_json JNull = JNull"
| "canonical_json (JBool b) = JBool b"
| "canonical_json (JNum i) = JNum i"
| "canonical_json (JFloat t) = JFloat t"
| "canonical_json (JStr s) = JStr s"
  by pat_completeness auto

termination
proof (relation "measure size")
  fix fields :: "(string \<times> json) list" and f
  assume "f \<in> set (sort_key fst fields)"
  then show "(snd f, JObj fields) \<in> measure size" using field_size [of f fields] by simp
next
  fix vs :: "json list" and v
  assume "v \<in> set vs"
  then show "(v, JArr vs) \<in> measure size" by (induction vs) auto
qed simp

text \<open>The order in which the model wrote the fields does not matter.\<close>

lemma canonical_order:
  assumes "distinct (map fst fields)" "mset fields = mset fields'"
  shows "canonical_json (JObj fields) = canonical_json (JObj fields')"
proof -
  have "sort_key fst fields = sort_key fst fields'"
    using assms by (intro sort_key_inj_key_eq) (simp_all add: distinct_map)
  then show ?thesis by simp
qed

definition normalized_text_hash :: "(string \<Rightarrow> u64) \<Rightarrow> string \<Rightarrow> u64" where
  "normalized_text_hash hash text = hash (join_str '' '' (split_whitespace text))"

definition tool_fingerprint ::
    "(string \<Rightarrow> u64) \<Rightarrow> (json \<Rightarrow> string) \<Rightarrow> string \<Rightarrow> json \<Rightarrow> string option \<Rightarrow> step_fingerprint" where
  "tool_fingerprint hash show_json nm arguments error =
     ToolStep nm (hash (show_json (canonical_json arguments))) (map_option (normalized_text_hash hash) error)"

definition assistant_fingerprint :: "(string \<Rightarrow> u64) \<Rightarrow> string \<Rightarrow> step_fingerprint" where
  "assistant_fingerprint hash text = AssistantStep (normalized_text_hash hash text)"

section \<open>The guard\<close>

datatype stuck_signal = Warn | Stop

record stuck_guard =
  sg_last_step :: "step_fingerprint option"
  sg_last_action :: "(string \<times> u64) option"
  sg_repeated_actions :: nat
  sg_repeated_pairs :: nat
  sg_no_progress :: nat
  sg_history :: "step_fingerprint list"
  sg_alternations :: nat
  sg_warned :: bool
  sg_after_warning :: nat

definition fresh_guard :: stuck_guard where
  "fresh_guard =
     \<lparr>sg_last_step = None, sg_last_action = None, sg_repeated_actions = 0, sg_repeated_pairs = 0, sg_no_progress = 0,
      sg_history = [], sg_alternations = 0, sg_warned = False, sg_after_warning = 0\<rparr>"

definition repeat_warn_threshold :: nat where
  "repeat_warn_threshold = 3"

definition alternation_warn_threshold :: nat where
  "alternation_warn_threshold = 1"

definition no_progress_warn_threshold :: nat where
  "no_progress_warn_threshold = 4"

definition repeats_after_warn_to_stop :: nat where
  "repeats_after_warn_to_stop = 2"

definition alternation_history :: nat where
  "alternation_history = 4"

lemmas thresholds = repeat_warn_threshold_def alternation_warn_threshold_def no_progress_warn_threshold_def
  repeats_after_warn_to_stop_def alternation_history_def

text \<open>\<open>saturating_add(1)\<close> on \<open>usize\<close>.\<close>

definition sat_suc :: "nat \<Rightarrow> nat" where
  "sat_suc n = min (n + 1) (2 ^ 64 - 1)"

definition signal_for_repeat :: "stuck_guard \<Rightarrow> stuck_signal option \<times> stuck_guard" where
  "signal_for_repeat g =
     (if \<not> sg_warned g then (Some Warn, g\<lparr>sg_warned := True, sg_after_warning := 0\<rparr>)
      else let n = sat_suc (sg_after_warning g) in
        (if repeats_after_warn_to_stop \<le> n then Some Stop else None, g\<lparr>sg_after_warning := n\<rparr>))"

definition reset_episode :: "stuck_guard \<Rightarrow> stuck_guard" where
  "reset_episode g =
     g\<lparr>sg_last_action := None, sg_repeated_actions := 0, sg_repeated_pairs := 0, sg_no_progress := 0, sg_history := [],
       sg_alternations := 0, sg_warned := False, sg_after_warning := 0\<rparr>"

definition observe_assistant :: "step_fingerprint \<Rightarrow> stuck_guard \<Rightarrow> stuck_signal option \<times> stuck_guard" where
  "observe_assistant step g0 =
     (let g = g0\<lparr>sg_history := [], sg_alternations := 0\<rparr>;
          g' = (if sg_last_step g = Some step then g\<lparr>sg_no_progress := sat_suc (sg_no_progress g)\<rparr>
            else (reset_episode g)\<lparr>sg_last_step := Some step, sg_no_progress := 1\<rparr>) in
      if no_progress_warn_threshold \<le> sg_no_progress g' then signal_for_repeat g' else (None, g'))"

definition push_step :: "step_fingerprint \<Rightarrow> step_fingerprint list \<Rightarrow> step_fingerprint list" where
  "push_step step history = (let h = history @ [step] in drop (length h - alternation_history) h)"

definition alternates :: "step_fingerprint list \<Rightarrow> bool" where
  "alternates h \<longleftrightarrow> h ! 0 = h ! 2 \<and> h ! 1 = h ! 3 \<and> h ! 0 \<noteq> h ! 1"

definition count_alternation :: "bool \<Rightarrow> stuck_guard \<Rightarrow> stuck_guard" where
  "count_alternation same_action g =
     (if length (sg_history g) \<noteq> alternation_history then g
      else if alternates (sg_history g) then g\<lparr>sg_alternations := sat_suc (sg_alternations g)\<rparr>
      else if \<not> same_action then g\<lparr>sg_alternations := 0, sg_warned := False, sg_after_warning := 0\<rparr>
      else g)"

definition count_tool :: "step_fingerprint \<Rightarrow> string \<times> u64 \<Rightarrow> stuck_guard \<Rightarrow> stuck_guard" where
  "count_tool step action g =
     g\<lparr>sg_no_progress := 0, sg_last_action := Some action,
       sg_repeated_actions := (if sg_last_action g = Some action then sat_suc (sg_repeated_actions g) else 1),
       sg_repeated_pairs := (if sg_last_step g = Some step then sat_suc (sg_repeated_pairs g) else 1),
       sg_last_step := Some step, sg_history := push_step step (sg_history g)\<rparr>"

definition observe_tool ::
    "step_fingerprint \<Rightarrow> string \<times> u64 \<Rightarrow> stuck_guard \<Rightarrow> stuck_signal option \<times> stuck_guard" where
  "observe_tool step action g =
     (let g' = count_alternation (sg_last_action g = Some action) (count_tool step action g) in
      if repeat_warn_threshold \<le> sg_repeated_actions g' \<or> repeat_warn_threshold \<le> sg_repeated_pairs g'
         \<or> alternation_warn_threshold \<le> sg_alternations g'
      then signal_for_repeat g' else (None, g'))"

fun observe :: "step_fingerprint \<Rightarrow> stuck_guard \<Rightarrow> stuck_signal option \<times> stuck_guard" where
  "observe (AssistantStep h) g = observe_assistant (AssistantStep h) g"
| "observe (ToolStep nm args error) g = observe_tool (ToolStep nm args error) (nm, args) g"

text \<open>The signals of the steps of a turn.\<close>

fun signals :: "step_fingerprint list \<Rightarrow> stuck_guard \<Rightarrow> stuck_signal option list" where
  "signals [] g = []"
| "signals (s # ss) g = (case observe s g of (x, g') \<Rightarrow> x # signals ss g')"

section \<open>The turn\<close>

text \<open>A step of a turn is a message without tool calls or a batch of calls with their results: done, a result that
  reports failure, or an error by its text.\<close>

datatype call_result = Succeeded | Unsuccessful string | CallError string

datatype turn_step =
    MessageOnly string
  | ToolBatch "(string \<times> json \<times> call_result) list"

fun call_error :: "call_result \<Rightarrow> string option" where
  "call_error Succeeded = None"
| "call_error (Unsuccessful content) = Some content"
| "call_error (CallError e) = Some e"

fun call_fingerprint ::
    "(string \<Rightarrow> u64) \<Rightarrow> (json \<Rightarrow> string) \<Rightarrow> string \<times> json \<times> call_result \<Rightarrow> step_fingerprint" where
  "call_fingerprint hash show_json (nm, input, r) = tool_fingerprint hash show_json nm input (call_error r)"

definition merge_signal :: "stuck_signal option \<Rightarrow> stuck_signal option \<Rightarrow> stuck_signal option" where
  "merge_signal seen observed =
     (if observed = Some Stop then Some Stop
      else if observed = Some Warn \<and> seen = None then Some Warn
      else seen)"

fun batch_signal :: "step_fingerprint list \<Rightarrow> stuck_signal option \<Rightarrow> stuck_guard \<Rightarrow> stuck_signal option \<times> stuck_guard" where
  "batch_signal [] seen g = (seen, g)"
| "batch_signal (s # ss) seen g = (case observe s g of (x, g') \<Rightarrow> batch_signal ss (merge_signal seen x) g')"

datatype guard_verdict = GoesOn | Noticed | Fails string

definition message_verdict :: "(string \<Rightarrow> u64) \<Rightarrow> string \<Rightarrow> stuck_guard \<Rightarrow> guard_verdict \<times> stuck_guard" where
  "message_verdict hash message g =
     (case observe (assistant_fingerprint hash message) g of
        (Some Warn, g') \<Rightarrow> (Noticed, g')
      | (Some Stop, g') \<Rightarrow> (Fails ''stuck loop detected after repeated no-progress messages'', g')
      | (None, g') \<Rightarrow> (GoesOn, g'))"

definition batch_verdict ::
    "(string \<Rightarrow> u64) \<Rightarrow> (json \<Rightarrow> string) \<Rightarrow> (string \<times> json \<times> call_result) list \<Rightarrow> stuck_guard
      \<Rightarrow> guard_verdict \<times> stuck_guard" where
  "batch_verdict hash show_json calls g =
     (case batch_signal (map (call_fingerprint hash show_json) calls) None g of
        (Some Warn, g') \<Rightarrow> (Noticed, g')
      | (Some Stop, g') \<Rightarrow> (Fails ''stuck loop detected after repeated tool actions/results'', g')
      | (None, g') \<Rightarrow> (GoesOn, g'))"

text \<open>What the guard makes of the steps of a turn: the number of notices the model gets, and the reason for which
  the turn fails.\<close>

fun step_verdict ::
    "(string \<Rightarrow> u64) \<Rightarrow> (json \<Rightarrow> string) \<Rightarrow> turn_step \<Rightarrow> stuck_guard \<Rightarrow> guard_verdict \<times> stuck_guard" where
  "step_verdict hash show_json (MessageOnly message) g = message_verdict hash message g"
| "step_verdict hash show_json (ToolBatch calls) g = batch_verdict hash show_json calls g"

fun watch ::
    "(string \<Rightarrow> u64) \<Rightarrow> (json \<Rightarrow> string) \<Rightarrow> turn_step list \<Rightarrow> stuck_guard \<Rightarrow> nat \<times> string option" where
  "watch hash show_json [] g = (0, None)"
| "watch hash show_json (s # ss) g =
     (case step_verdict hash show_json s g of
        (GoesOn, g') \<Rightarrow> watch hash show_json ss g'
      | (Noticed, g') \<Rightarrow> map_prod Suc id (watch hash show_json ss g')
      | (Fails reason, g') \<Rightarrow> (0, Some reason))"

fun step_fingerprints :: "(string \<Rightarrow> u64) \<Rightarrow> (json \<Rightarrow> string) \<Rightarrow> turn_step \<Rightarrow> step_fingerprint list" where
  "step_fingerprints hash show_json (MessageOnly message) = [assistant_fingerprint hash message]"
| "step_fingerprints hash show_json (ToolBatch calls) = map (call_fingerprint hash show_json) calls"

section \<open>A stop follows a warning\<close>

lemma stop_needs_warning:
  "observe s g = (Some Stop, g') \<Longrightarrow> sg_warned g"
  "observe s g = (x, g') \<Longrightarrow> sg_warned g' \<Longrightarrow> sg_warned g \<or> x = Some Warn"
  by (cases s; auto simp: observe_assistant_def observe_tool_def signal_for_repeat_def Let_def count_alternation_def
      count_tool_def reset_episode_def split: if_splits)+

lemma stop_after_warning:
  "\<not> sg_warned g \<Longrightarrow> i < length ss \<Longrightarrow> signals ss g ! i = Some Stop \<Longrightarrow> Some Warn \<in> set (take i (signals ss g))"
proof (induction ss arbitrary: g i)
  case (Cons s ss)
  obtain x g' where o: "observe s g = (x, g')" by fastforce
  show ?case
  proof (cases i)
    case 0
    with Cons.prems o stop_needs_warning(1) show ?thesis by auto
  next
    case (Suc j)
    show ?thesis
    proof (cases "x = Some Warn")
      case True
      with o Suc show ?thesis by simp
    next
      case False
      then have "\<not> sg_warned g'" using stop_needs_warning(2) [OF o] Cons.prems(1) by blast
      from Cons.IH [OF this, of j] Cons.prems(2,3) o Suc show ?thesis by simp
    qed
  qed
qed simp

section \<open>Repetitions are stopped\<close>

lemma sat_suc_ge: "n \<le> 10 \<Longrightarrow> n \<le> sat_suc m \<longleftrightarrow> n \<le> m + 1"
  by (auto simp: sat_suc_def)

definition guard_after :: "step_fingerprint list \<Rightarrow> stuck_guard \<Rightarrow> stuck_guard" where
  "guard_after ss g = fold (\<lambda>s g. snd (observe s g)) ss g"

lemma guard_after_simps [simp]:
  "guard_after [] g = g"
  "guard_after (s # ss) g = guard_after ss (snd (observe s g))"
  "guard_after (ss @ ss') g = guard_after ss' (guard_after ss g)"
  by (simp_all add: guard_after_def)

lemma nth_signal: "i < length ss \<Longrightarrow> signals ss g ! i = fst (observe (ss ! i) (guard_after (take i ss) g))"
  by (induction ss arbitrary: g i) (auto simp: nth_Cons split: prod.split nat.split)

text \<open>What counting a repetition needs: a degree that grows with each of the repeated steps up to the one at
  which the guard stops.\<close>

locale repetition =
  fixes repeats :: "nat \<Rightarrow> stuck_guard \<Rightarrow> bool" and same :: "step_fingerprint set" and limit :: nat
  assumes unrepeated: "repeats 0 g"
    and repeated: "s \<in> same \<Longrightarrow> repeats k g \<Longrightarrow> k \<le> limit \<Longrightarrow> repeats (min (k + 1) limit) (snd (observe s g))"
    and stopped: "s \<in> same \<Longrightarrow> repeats limit g \<Longrightarrow> fst (observe s g) = Some Stop"
begin

lemma degree: "set ss \<subseteq> same \<Longrightarrow> k \<le> limit \<Longrightarrow> repeats k g \<Longrightarrow> repeats (min (k + length ss) limit) (guard_after ss g)"
proof (induction ss arbitrary: k g)
  case (Cons s ss)
  then have "repeats (min (k + 1) limit) (snd (observe s g))" using repeated by simp
  with Cons.IH [of "min (k + 1) limit" "snd (observe s g)"] Cons.prems
  have "repeats (min (min (k + 1) limit + length ss) limit) (guard_after ss (snd (observe s g)))" by simp
  moreover have "min (min (k + 1) limit + length ss) limit = min (k + length (s # ss)) limit" by simp
  ultimately show ?case by simp
qed simp

lemma stops:
  assumes "set ss \<subseteq> same" "limit \<le> i" "i < length ss"
  shows "signals (before @ ss @ later) g ! (length before + i) = Some Stop"
proof -
  have "set (take i ss) \<subseteq> same" using assms(1) set_take_subset [of i ss] by blast
  from degree [OF this _ unrepeated, of "guard_after before g"] assms(2,3)
  have "repeats limit (guard_after (take i ss) (guard_after before g))" by (simp add: min_absorb2)
  with assms(1,3) have "fst (observe (ss ! i) (guard_after (take i ss) (guard_after before g))) = Some Stop"
    using stopped nth_mem by blast
  with assms(3) show ?thesis by (simp add: nth_signal nth_append)
qed

end

definition repeats_action :: "string \<Rightarrow> u64 \<Rightarrow> nat \<Rightarrow> stuck_guard \<Rightarrow> bool" where
  "repeats_action nm args k g \<longleftrightarrow>
     (0 < k \<longrightarrow> sg_last_action g = Some (nm, args) \<and> k \<le> sg_repeated_actions g)
     \<and> (3 \<le> k \<longrightarrow> sg_warned g \<and> k \<le> sg_after_warning g + 3)"

definition repeats_text :: "u64 \<Rightarrow> nat \<Rightarrow> stuck_guard \<Rightarrow> bool" where
  "repeats_text h k g \<longleftrightarrow>
     (0 < k \<longrightarrow> sg_last_step g = Some (AssistantStep h) \<and> k \<le> sg_no_progress g)
     \<and> (4 \<le> k \<longrightarrow> sg_warned g \<and> k \<le> sg_after_warning g + 4)"

lemma count_tool_facts:
  "sg_last_action (count_tool s a g) = Some a"
  "sg_last_action g = Some a \<Longrightarrow> sg_repeated_actions (count_tool s a g) = sat_suc (sg_repeated_actions g)"
  "1 \<le> sg_repeated_actions (count_tool s a g)"
  "sg_warned (count_tool s a g) = sg_warned g"
  "sg_after_warning (count_tool s a g) = sg_after_warning g"
  by (simp_all add: count_tool_def sat_suc_def)

lemma count_alternation_facts:
  "sg_last_action (count_alternation b g) = sg_last_action g"
  "sg_repeated_actions (count_alternation b g) = sg_repeated_actions g"
  "b \<Longrightarrow> sg_warned (count_alternation b g) = sg_warned g"
  "b \<Longrightarrow> sg_after_warning (count_alternation b g) = sg_after_warning g"
  by (simp_all add: count_alternation_def)

lemma signal_for_repeat_facts:
  "sg_last_action (snd (signal_for_repeat g)) = sg_last_action g"
  "sg_last_step (snd (signal_for_repeat g)) = sg_last_step g"
  "sg_repeated_actions (snd (signal_for_repeat g)) = sg_repeated_actions g"
  "sg_no_progress (snd (signal_for_repeat g)) = sg_no_progress g"
  "sg_warned (snd (signal_for_repeat g))"
  "sg_warned g \<Longrightarrow> sg_after_warning (snd (signal_for_repeat g)) = sat_suc (sg_after_warning g)"
  "sg_warned g \<Longrightarrow> 1 \<le> sg_after_warning g \<Longrightarrow> fst (signal_for_repeat g) = Some Stop"
  by (simp_all add: signal_for_repeat_def Let_def thresholds sat_suc_ge)

lemma action_repeated:
  assumes "repeats_action nm args k g" "k \<le> 4"
  shows "repeats_action nm args (min (k + 1) 4) (snd (observe (ToolStep nm args e) g))"
    and "k = 4 \<Longrightarrow> fst (observe (ToolStep nm args e) g) = Some Stop"
proof -
  let ?a = "(nm, args)" let ?same = "sg_last_action g = Some ?a"
  let ?g = "count_alternation ?same (count_tool (ToolStep nm args e) ?a g)"
  have o: "observe (ToolStep nm args e) g = (if repeat_warn_threshold \<le> sg_repeated_actions ?g
      \<or> repeat_warn_threshold \<le> sg_repeated_pairs ?g \<or> alternation_warn_threshold \<le> sg_alternations ?g
      then signal_for_repeat ?g else (None, ?g))"
    by (simp add: observe_tool_def Let_def)
  have last: "sg_last_action ?g = Some ?a" by (simp add: count_alternation_facts count_tool_facts)
  have n: "min (k + 1) 4 \<le> sg_repeated_actions ?g"
  proof (cases "k = 0")
    case True
    then show ?thesis using count_tool_facts(3) [of "ToolStep nm args e" ?a g] by (simp add: count_alternation_facts)
  next
    case False
    with assms have "?same" "k \<le> sg_repeated_actions g" by (simp_all add: repeats_action_def)
    then show ?thesis by (simp add: count_alternation_facts count_tool_facts sat_suc_ge)
  qed
  have w: "3 \<le> k \<Longrightarrow> sg_warned ?g \<and> k \<le> sg_after_warning ?g + 3"
    using assms by (simp add: repeats_action_def count_alternation_facts count_tool_facts)
  have s: "observe (ToolStep nm args e) g = signal_for_repeat ?g" if "2 \<le> k"
  proof -
    from that n have "repeat_warn_threshold \<le> sg_repeated_actions ?g" by (simp add: thresholds min_def split: if_splits)
    then show ?thesis unfolding o by simp
  qed
  show "repeats_action nm args (min (k + 1) 4) (snd (observe (ToolStep nm args e) g))"
  proof (cases "2 \<le> k")
    case True
    with n w last show ?thesis unfolding s [OF True] repeats_action_def
      by (cases "3 \<le> k") (simp_all add: signal_for_repeat_facts sat_suc_ge)
  next
    case False
    have "sg_last_action (snd (observe (ToolStep nm args e) g)) = Some ?a
        \<and> min (k + 1) 4 \<le> sg_repeated_actions (snd (observe (ToolStep nm args e) g))"
      unfolding o using n last by (simp add: signal_for_repeat_facts)
    with False show ?thesis by (simp add: repeats_action_def)
  qed
  show "k = 4 \<Longrightarrow> fst (observe (ToolStep nm args e) g) = Some Stop"
    using s w by (simp add: signal_for_repeat_facts)
qed

lemma text_repeated:
  assumes "repeats_text h k g" "k \<le> 5"
  shows "repeats_text h (min (k + 1) 5) (snd (observe (AssistantStep h) g))"
    and "k = 5 \<Longrightarrow> fst (observe (AssistantStep h) g) = Some Stop"
proof -
  obtain g' where o: "observe (AssistantStep h) g
        = (if no_progress_warn_threshold \<le> sg_no_progress g' then signal_for_repeat g' else (None, g'))"
    and last: "sg_last_step g' = Some (AssistantStep h)"
    and n: "min (k + 1) 5 \<le> sg_no_progress g'"
    and w: "4 \<le> k \<Longrightarrow> sg_warned g' \<and> k \<le> sg_after_warning g' + 4"
  proof
    let ?c = "g\<lparr>sg_history := [], sg_alternations := 0\<rparr>"
    let ?g = "if sg_last_step ?c = Some (AssistantStep h) then ?c\<lparr>sg_no_progress := sat_suc (sg_no_progress ?c)\<rparr>
      else (reset_episode ?c)\<lparr>sg_last_step := Some (AssistantStep h), sg_no_progress := 1\<rparr>"
    show "observe (AssistantStep h) g
        = (if no_progress_warn_threshold \<le> sg_no_progress ?g then signal_for_repeat ?g else (None, ?g))"
      by (simp only: observe.simps observe_assistant_def Let_def)
    show "sg_last_step ?g = Some (AssistantStep h)" by simp
    show "min (k + 1) 5 \<le> sg_no_progress ?g"
      using assms by (cases "k = 0") (auto simp: repeats_text_def sat_suc_ge)
    show "4 \<le> k \<Longrightarrow> sg_warned ?g \<and> k \<le> sg_after_warning ?g + 4" using assms by (simp add: repeats_text_def)
  qed
  have s: "3 \<le> k \<Longrightarrow> observe (AssistantStep h) g = signal_for_repeat g'" unfolding o using n by (auto simp: thresholds)
  show "repeats_text h (min (k + 1) 5) (snd (observe (AssistantStep h) g))"
  proof (cases "3 \<le> k")
    case True
    with n w last show ?thesis unfolding s [OF True] repeats_text_def
      by (cases "4 \<le> k") (simp_all add: signal_for_repeat_facts sat_suc_ge)
  next
    case False
    have "sg_last_step (snd (observe (AssistantStep h) g)) = Some (AssistantStep h)
        \<and> min (k + 1) 5 \<le> sg_no_progress (snd (observe (AssistantStep h) g))"
      unfolding o using n last by (simp add: signal_for_repeat_facts)
    with False show ?thesis by (simp add: repeats_text_def)
  qed
  show "k = 5 \<Longrightarrow> fst (observe (AssistantStep h) g) = Some Stop" using s w by (simp add: signal_for_repeat_facts)
qed

interpretation action: repetition "repeats_action nm args" "range (ToolStep nm args)" 4 for nm args
proof
  fix g show "repeats_action nm args 0 g" by (simp add: repeats_action_def)
next
  fix s k g assume "s \<in> range (ToolStep nm args)" "repeats_action nm args k g" "k \<le> 4"
  then show "repeats_action nm args (min (k + 1) 4) (snd (observe s g))" using action_repeated(1) by blast
next
  fix s g assume "s \<in> range (ToolStep nm args)" "repeats_action nm args 4 g"
  then show "fst (observe s g) = Some Stop" using action_repeated(2) by blast
qed

interpretation message: repetition "repeats_text h" "{AssistantStep h}" 5 for h
proof
  fix g show "repeats_text h 0 g" by (simp add: repeats_text_def)
next
  fix s k g assume "s \<in> {AssistantStep h}" "repeats_text h k g" "k \<le> 5"
  then show "repeats_text h (min (k + 1) 5) (snd (observe s g))" using text_repeated(1) by blast
next
  fix s g assume "s \<in> {AssistantStep h}" "repeats_text h 5 g"
  then show "fst (observe s g) = Some Stop" using text_repeated(2) by blast
qed

text \<open>A turn that was warned for its text is not warned again when it goes on to repeat a tool.\<close>

lemma sat_suc_small: "n \<le> 10 \<Longrightarrow> sat_suc n = n + 1"
  by (simp add: sat_suc_def)

lemma warning_carried_to_tool:
  "signals (replicate 4 (AssistantStep 1) @ replicate 4 (ToolStep nm 7 None)) fresh_guard
     = [None, None, None, Some Warn, None, None, None, Some Stop]"
  by (simp add: numeral_eq_Suc fresh_guard_def observe_assistant_def observe_tool_def count_tool_def
      count_alternation_def push_step_def alternates_def signal_for_repeat_def reset_episode_def Let_def sat_suc_small
      thresholds)

section \<open>Turns that repeat themselves fail\<close>

lemma signals_append [simp]: "signals (ss @ ss') g = signals ss g @ signals ss' (guard_after ss g)"
  by (induction ss arbitrary: g) (auto split: prod.split)

lemma length_signals [simp]: "length (signals ss g) = length ss"
  by (induction ss arbitrary: g) (auto split: prod.split)

lemma batch_signal_stop:
  "fst (batch_signal ss seen g) = Some Stop \<longleftrightarrow> seen = Some Stop \<or> Some Stop \<in> set (signals ss g)"
  by (induction ss arbitrary: seen g) (auto simp: merge_signal_def split: prod.split)

lemma batch_signal_guard: "snd (batch_signal ss seen g) = guard_after ss g"
  by (induction ss arbitrary: seen g) (auto split: prod.split)

lemma step_verdict_facts:
  "snd (step_verdict hash show_json s g) = guard_after (step_fingerprints hash show_json s) g"
  "(\<exists>reason. fst (step_verdict hash show_json s g) = Fails reason)
     \<longleftrightarrow> Some Stop \<in> set (signals (step_fingerprints hash show_json s) g)"
proof -
  let ?ss = "step_fingerprints hash show_json s"
  obtain x g' where o: "batch_signal ?ss None g = (x, g')" by fastforce
  have g: "g' = guard_after ?ss g" using batch_signal_guard [of ?ss None g] o by simp
  have x: "x = Some Stop \<longleftrightarrow> Some Stop \<in> set (signals ?ss g)" using batch_signal_stop [of ?ss None g] o by simp
  have "snd (step_verdict hash show_json s g) = g'
    \<and> ((\<exists>reason. fst (step_verdict hash show_json s g) = Fails reason) \<longleftrightarrow> x = Some Stop)"
    using o by (cases s) (auto simp: message_verdict_def batch_verdict_def merge_signal_def
        split: prod.splits option.splits stuck_signal.splits if_splits)
  with g x show "snd (step_verdict hash show_json s g) = guard_after ?ss g"
    "(\<exists>reason. fst (step_verdict hash show_json s g) = Fails reason) \<longleftrightarrow> Some Stop \<in> set (signals ?ss g)"
    by simp_all
qed

lemma watch_fails_iff:
  "snd (watch hash show_json steps g) \<noteq> None
     \<longleftrightarrow> Some Stop \<in> set (signals (concat (map (step_fingerprints hash show_json) steps)) g)"
proof (induction steps arbitrary: g)
  case (Cons s ss)
  obtain v g' where o: "step_verdict hash show_json s g = (v, g')" by fastforce
  from Cons.IH [of g'] step_verdict_facts [of hash show_json s g] o show ?case by (cases v) simp_all
qed simp

lemma stop_in_signals:
  "i < length ss \<Longrightarrow> signals ss g ! i = Some Stop \<Longrightarrow> Some Stop \<in> set (signals ss g)"
  by (metis length_signals nth_mem)

text \<open>A batch that repeats one call fails the turn before the model gets any notice.\<close>

lemma batch_fails_unwarned:
  "watch hash show_json [ToolBatch (replicate 5 (nm, input, Succeeded))] fresh_guard
     = (0, Some ''stuck loop detected after repeated tool actions/results'')"
proof -
  let ?s = "tool_fingerprint hash show_json nm input None"
  obtain args where s: "?s = ToolStep nm args None" by (simp add: tool_fingerprint_def)
  have "set (replicate 5 ?s) \<subseteq> range (ToolStep nm args)" by (auto simp: s)
  from action.stops [OF this, of 4 "[]" "[]" fresh_guard]
  have "Some Stop \<in> set (signals (replicate 5 ?s) fresh_guard)" by (intro stop_in_signals [of 4]) simp_all
  then have "fst (batch_signal (replicate 5 ?s) None fresh_guard) = Some Stop"
    by (simp add: batch_signal_stop s)
  then show ?thesis by (cases "batch_signal (replicate 5 ?s) None fresh_guard") (simp add: batch_verdict_def)
qed

text \<open>C25. A turn in which one tool is called five times in a row with the same arguments, in one batch or several
  and whatever the results, or in which six messages in a row without calls have the same text, is ended as failed
  by the guard, whatever came before; and a turn that the guard ends has a step at which it warned, before the step
  at which it stopped.\<close>
theorem repetition_stopped:
  assumes "steps = concat (map (step_fingerprints hash show_json) turn)"
  shows "(steps = before @ map (ToolStep nm args) errors @ later \<longrightarrow> 5 \<le> length errors
        \<longrightarrow> snd (watch hash show_json turn fresh_guard) \<noteq> None)
     \<and> (steps = before @ replicate n (AssistantStep h) @ later \<longrightarrow> 6 \<le> n
        \<longrightarrow> snd (watch hash show_json turn fresh_guard) \<noteq> None)
     \<and> (snd (watch hash show_json turn fresh_guard) \<noteq> None
        \<longrightarrow> (\<exists>i j. i < j \<and> j < length steps \<and> signals steps fresh_guard ! i = Some Warn
             \<and> signals steps fresh_guard ! j = Some Stop))"
proof (intro conjI impI)
  assume s: "steps = before @ map (ToolStep nm args) errors @ later" and n: "5 \<le> length errors"
  have "signals steps fresh_guard ! (length before + 4) = Some Stop"
    unfolding s using n by (intro action.stops [where nm = nm and args = args]) auto
  then show "snd (watch hash show_json turn fresh_guard) \<noteq> None"
    unfolding watch_fails_iff assms [symmetric] using n by (intro stop_in_signals) (simp_all add: s)
next
  assume s: "steps = before @ replicate n (AssistantStep h) @ later" and n: "6 \<le> n"
  have "signals steps fresh_guard ! (length before + 5) = Some Stop"
    unfolding s using n by (intro message.stops [where h = h]) auto
  then show "snd (watch hash show_json turn fresh_guard) \<noteq> None"
    unfolding watch_fails_iff assms [symmetric] using n by (intro stop_in_signals) (simp_all add: s)
next
  assume "snd (watch hash show_json turn fresh_guard) \<noteq> None"
  then obtain j where j: "j < length steps" "signals steps fresh_guard ! j = Some Stop"
    unfolding watch_fails_iff assms [symmetric] by (auto simp: in_set_conv_nth)
  then have "Some Warn \<in> set (take j (signals steps fresh_guard))"
    by (intro stop_after_warning) (simp_all add: fresh_guard_def)
  then obtain i where "i < j" "signals steps fresh_guard ! i = Some Warn" by (auto simp: in_set_conv_nth)
  with j show "\<exists>i j. i < j \<and> j < length steps \<and> signals steps fresh_guard ! i = Some Warn
      \<and> signals steps fresh_guard ! j = Some Stop" by blast
qed

theorem repetition_stopped_witness:
  "snd (watch (\<lambda>_. 7) (\<lambda>_. ''{}'') [MessageOnly ''again'',
      ToolBatch (replicate 2 (''read_file'', JObj [], Succeeded)),
      ToolBatch (replicate 3 (''read_file'', JObj [], CallError ''missing''))] fresh_guard) \<noteq> None"
  using repetition_stopped [OF refl, of "\<lambda>_. 7" "\<lambda>_. ''{}''" "[MessageOnly ''again'',
      ToolBatch (replicate 2 (''read_file'', JObj [], Succeeded)),
      ToolBatch (replicate 3 (''read_file'', JObj [], CallError ''missing''))]"
      "[AssistantStep 7]" "''read_file''" 7 "replicate 2 None @ replicate 3 (Some 7)" "[]"]
  by (simp add: assistant_fingerprint_def normalized_text_hash_def tool_fingerprint_def del: watch.simps)

end
