(* ===== verification/Spec2Isabelle.thy ===== *)
theory Spec2Isabelle
  imports Mock_Properties Gate_Properties Role_Properties Plan_Properties Policy_Paths Selection_Properties
    Replay_Termination Job_Restart Network_Properties
    Safety_Properties Tool_Gate_Properties Approval_Properties Fleet_Scheduling Compaction_Outcome
    Patch_Round_Trip Turn_Properties Stuck_Guard
begin

text \<open>
  CodeWhale: a verification development.

  CodeWhale is a coding agent for the terminal. A conversation with a model proposes tool calls; each call
  passes a gate before it may touch the workspace, the shell or the network. Long work is split: a workflow
  is a tree of nodes that an executor runs or replays, and a Fleet run is a set of tasks that workers lease
  from a ledger file. Long conversations are compacted. The theories model these parts, in Rust under
  \<open>src/crates\<close>, as functions over records and datatypes with the constructors of the source; errors are
  values of a sum, and every operation returns the state it leaves.

  \<^bold>\<open>Parts and theories\<close>

  \<^item> Shared: \<open>Prelude\<close> (strings, lines, words, saturating integers, results), \<open>Ordered_Map\<close> (maps with an
    order), \<open>Json\<close> (the values of serde_json), \<open>Conversation\<close> (messages, UTF-8 text, classes of errors).
  \<^item> Workflow (\<open>workflow/src/lib.rs\<close>): \<open>Workflow_Types\<close> (nodes, specs, log), \<open>Workflow_Nodes\<close> (validation,
    Fleet estimate), \<open>Mock_Executor\<close>, \<open>Mock_Run\<close> and \<open>Mock_Properties\<close> (the deterministic executor),
    \<open>Workflow_Plan\<close>, \<open>Plan_Search\<close> and \<open>Plan_Properties\<close> (phases of a configuration), \<open>Selection\<close> and
    \<open>Selection_Properties\<close> (branches, promotion); \<open>Workflow_Samples\<close> holds sample workflows. \<open>Gates\<close> and
    \<open>Gate_Properties\<close>: \<open>gates.rs\<close>. \<open>Role_Resolve\<close> and \<open>Role_Properties\<close>: \<open>role_resolve.rs\<close>. \<open>Replay\<close>,
    \<open>Replay_Properties\<close> and \<open>Replay_Termination\<close>: \<open>replay.rs\<close>.
  \<^item> Command policy: \<open>Bash_Arity\<close> (\<open>execpolicy/src/bash_arity.rs\<close>), \<open>Exec_Policy\<close> with \<open>Policy_Match\<close>,
    \<open>Policy_Paths\<close> and \<open>Policy_Properties\<close> (\<open>execpolicy/src/lib.rs\<close>), \<open>Command_Safety\<close> with
    \<open>Safety_Properties\<close> (\<open>tui/src/command_safety.rs\<close>).
  \<^item> Approval of tool calls: \<open>Auto_Review\<close> (\<open>tui/src/tui/auto_review.rs\<close>, \<open>approval/policy.rs\<close>), \<open>Repo_Law\<close>
    (\<open>repo_law.rs\<close>), \<open>Tool_Gate\<close> with \<open>Tool_Gate_Properties\<close> (\<open>core/engine/turn_loop.rs\<close>, \<open>dispatch.rs\<close>),
    \<open>Approval_Cache\<close> with \<open>Approval_Properties\<close> (\<open>tools/approval_cache.rs\<close>, \<open>tui/ui.rs\<close>). The gate calls the
    review, the review calls the command safety analysis, and a call that the gate holds goes to the session.
  \<^item> Network: \<open>Ip_Addr\<close>, \<open>Network_Policy\<close>, \<open>Fetch_Guard\<close>, \<open>Network_Properties\<close> (\<open>network_policy.rs\<close>,
    \<open>tools/fetch_url.rs\<close>).
  \<^item> Files: \<open>Patch_Text\<close> (lines, the reader of unified diffs), \<open>Patch_Apply\<close> (matching and applying hunks, the
    plan of the writes and the writes with their undoing), \<open>Patch_Hunks\<close>, \<open>Patch_Writes\<close>, \<open>Patch_Round_Trip\<close>
    and \<open>Patch_Boundary\<close> (\<open>tools/apply_patch.rs\<close>); \<open>Workspace_Path\<close> (\<open>resolve_path\<close> of \<open>tools/spec.rs\<close>),
    through which the patch tool reaches its files.
  \<^item> Background jobs: \<open>Jobs\<close>, \<open>Job_Properties\<close>, \<open>Job_Restart\<close> (\<open>core/src/lib.rs\<close>, \<open>state/src/lib.rs\<close>).
  \<^item> Fleet (\<open>tui/src/fleet\<close>, \<open>protocol/src/fleet.rs\<close>): \<open>Fleet_Types\<close> and \<open>Fleet_Ledger\<close> (records, replay and
    operations of \<open>ledger.rs\<close>), \<open>Fleet_Ops\<close> and \<open>Fleet_History\<close> (histories of operations),
    \<open>Fleet_Invariant\<close>, \<open>Fleet_Compaction\<close>, \<open>Fleet_Compacted\<close>, \<open>Fleet_File\<close>, \<open>Fleet_Crash\<close> and
    \<open>Fleet_Properties\<close> (what histories, compactions and torn writes keep), \<open>Fleet_Scheduler\<close>
    (\<open>scheduler.rs\<close>), \<open>Fleet_Manager\<close> (\<open>manager.rs\<close>), \<open>Fleet_Resume\<close> and \<open>Fleet_Scheduling\<close>. Scheduler and
    manager act on the ledger only through its operations, so the invariant of the ledger is theirs too.
  \<^item> Compaction of a conversation (\<open>tui/src/compaction.rs\<close>, \<open>models.rs\<close>, \<open>error_taxonomy.rs\<close>):
    \<open>Compaction_Plan\<close>, \<open>Compaction_Run\<close>, \<open>Compaction_Pairs\<close>, \<open>Compaction_Properties\<close>, \<open>Compaction_Results\<close>,
    \<open>Compaction_Shortening\<close> and \<open>Compaction_Outcome\<close>.
  \<^item> Sub-agents: \<open>Worker_Profile\<close> (\<open>tui/src/worker_profile.rs\<close>), \<open>Sub_Agent_Request\<close> (the input of a start),
    \<open>Sub_Agent_Spawn\<close> (runtimes, starts, tasks and the calls of a sub-agent) and \<open>Sub_Agent_Properties\<close>
    (\<open>tools/subagent/mod.rs\<close>).
  \<^item> Turns: \<open>Turn_Authority\<close> and \<open>Turn_Properties\<close> (\<open>core/authority.rs\<close>, \<open>core/ops.rs\<close>, \<open>core/engine.rs\<close>): who
    wrote the input of a turn and the mode of the session decide the authority of the turn, which sets the
    approval of the gate, the context of the path resolution and the runtime of the root agent, so the
    properties of those parts apply to it. \<open>Stuck_Guard\<close> (\<open>core/engine/stuck_guard.rs\<close> and its uses in
    \<open>turn_loop.rs\<close>): the detector that warns and then ends a turn that repeats itself.

  \<^bold>\<open>What the lemmas show\<close>

  The properties carry the numbers C1, C2, ... in the text before them. With the lemmas under them they say of
  the gate which calls run without a question and which are blocked, and that no approval of the session lets a
  held call through; of the command analysis which commands are dangerous or read-only; of the execution policy
  when a command runs without a prompt and that a denied prefix wins; of the ledger that a worker holds one
  lease, an attempt ends once, event numbers grow, and compaction and torn writes lose nothing that was
  finished; of the scheduler and manager that the scheduling loop returns, or when it cannot, and that an
  outcome agrees with its receipt; of workflows that validation, planning, running and replaying end and do what
  their specification says; of a compaction that calls and results stay in pairs and what may be shortened; of
  jobs, gates, sessions and the network policy that the state is a function of the history of its operations; of
  a patch where its hunks land, that it changes all its files or none, only those it names and only in the
  places the context allows, and that a diff that is written is read back; of a path that is granted that it
  lies in the workspace or a trusted directory; of a sub-agent at any depth that it has no more permissions,
  tools or approval than the session that is its root, that the depth is bounded and that those of a turn in
  Plan mode only read; of a turn that input from outside narrows its authority, and that repetition ends it.

  Interfaces are locales with their laws, interpreted on the definitions of the components that provide them:
  \<open>key_map\<close> (\<open>Ordered_Map\<close>, the maps with keys in order), \<open>rule_matcher\<close> (\<open>Policy_Match\<close>: what the
  policy needs of a way to match rules), \<open>path_granter\<close> (\<open>Patch_Writes\<close>: what the patch tool needs of a path
  resolution; the interpretation of \<open>Patch_Boundary\<close> gives it that of the tool context), \<open>mock_invariant\<close> and
  \<open>mock_stop_invariant\<close> (\<open>Mock_Run\<close>: what the handlers of the nodes keep, a run keeps), \<open>inherited\<close>
  (\<open>Sub_Agent_Properties\<close>: what one start passes on, every descendant has), \<open>repetition\<close> (\<open>Stuck_Guard\<close>: a
  degree that repeated steps raise until the guard stops), and \<open>star_graph\<close> (\<open>Compaction_Pairs\<close>: calls and
  results that answer one call each). The levels of safety, rule layers, permission actions, trust, control
  nodes and shell access are instances of \<open>linorder\<close>, with the order their enumerations derive.

  \<^bold>\<open>Loops and fuel\<close>

  The deterministic executor takes the number of generated nodes and one: an expansion removes the entry it
  uses. The search of the planner takes the number of phases and one. A replay takes fuel for expansions only,
  because an expansion that generates itself never returns; a trace with a rank returns
  (\<open>replay_terminates\<close>). A fetch follows at most five redirects, as the code does. The read-only test of a
  command unwraps shells with the length of the text and one. The launching and scheduling loops of the Fleet
  take fuel because they can spin (\<open>schedule_loop_spins\<close>); as many steps as there are queued tasks, and one,
  are enough when no listed worker holds a lease of another run (\<open>schedule_loop_returns\<close>). The repair of
  pairs makes the number of messages or ten rounds, as the code does; four suffice for a conversation whose
  results answer one call each.

  \<^bold>\<open>Assumptions\<close>

  Strings hold one byte per character, ASCII where the source folds case or trims; \<open>Conversation\<close> counts the
  characters of UTF-8. Paths are those of Unix, \<open>usize\<close> has 64 bits, a hash map whose order is not observed is
  an ordered map. Given as parameters: the clock and its text, random identifiers, the text of JSON, digests
  and hashers, the URL parser, DNS, HTTP, shlex, globs, regular expressions, the file system where a component
  only queries it, what a tool says about its own calls, hook processes, and the answers of the model. A codec
  for ledger records is assumed to read back the line it wrote, and the text of a stored job what was printed.
  Statements on the database succeed.

  \<^bold>\<open>Not modelled\<close>

  The terminal interface (\<open>tui/src/tui\<close> outside the files named above), \<open>main.rs\<close>, command line, clients of
  the model providers, prompts, pricing and settings: presentation, configuration and network input and output.
  The host processes of the Fleet, the execution of tools themselves apart from those named above, MCP, hooks,
  secrets, releases, the application server and the JavaScript authoring of workflows act through processes,
  sockets or an engine the repository only calls. Threads, messages and goals of the state store are database
  rows without logic beyond the queries. The manifest lists them one by one.
\<close>

end
